(* ===== verification/Json.thy ===== *)
theory Json
  imports Prelude
begin

text \<open>
  The JSON values of \<^verbatim>\<open>openagent/object_model/base.py\<close>: what \<open>to_dict\<close> produces, what the
  stores keep on disk (one value per file or per line of a log; \<open>json.loads\<close> after
  \<open>json.dumps\<close> is the identity on these values, so a file is modelled by the value it holds),
  and what \<open>from_dict\<close> reads back.  A float is identified with its Python repr.

  Two printers of the standard library are modelled because the code shows their output to the
  model or counts it: \<open>py_str\<close> (\<open>str(x)\<close>) and \<open>json_dumps\<close> (\<open>json.dumps(x, ensure_ascii=False)\<close>).
  \<open>py_eq\<close> is Python's \<open>==\<close> on these values: dictionaries compare without regard to order, and a
  boolean or a float equals the integer of the same value.
\<close>

datatype json =
    JNull
  | JBool bool
  | JInt int
  | JFloat string
  | JStr string
  | JList "json list"
  | JDict "(string \<times> json) list"

type_synonym json_object = "(string, json) pydict"

subsection \<open>Inspection\<close>

text \<open>\<open>isinstance(x, int)\<close> holds for booleans too.\<close>

fun is_jstr :: "json \<Rightarrow> bool" where
  "is_jstr (JStr _) = True"
| "is_jstr _ = False"

fun is_jdict :: "json \<Rightarrow> bool" where
  "is_jdict (JDict _) = True"
| "is_jdict _ = False"

fun as_dict :: "json \<Rightarrow> json_object option" where
  "as_dict (JDict d) = Some d"
| "as_dict _ = None"

fun as_list :: "json \<Rightarrow> json list option" where
  "as_list (JList l) = Some l"
| "as_list _ = None"

fun as_str :: "json \<Rightarrow> string option" where
  "as_str (JStr s) = Some s"
| "as_str _ = None"

fun as_int :: "json \<Rightarrow> int option" where
  "as_int (JInt i) = Some i"
| "as_int (JBool b) = Some (if b then 1 else 0)"
| "as_int _ = None"

text \<open>\<open>bool(x)\<close>; a float is false exactly when it is a zero.\<close>

fun truthy :: "json \<Rightarrow> bool" where
  "truthy JNull = False"
| "truthy (JBool b) = b"
| "truthy (JInt i) = (i \<noteq> 0)"
| "truthy (JFloat r) = (r \<noteq> ''0.0'' \<and> r \<noteq> ''-0.0'')"
| "truthy (JStr s) = (s \<noteq> [])"
| "truthy (JList l) = (l \<noteq> [])"
| "truthy (JDict d) = (d \<noteq> [])"

text \<open>\<open>d.get(k)\<close>, with the \<open>None\<close> of an absent key as the JSON null.\<close>

definition jget :: "json_object \<Rightarrow> string \<Rightarrow> json" where
  "jget d k = (case dict_get d k of None \<Rightarrow> JNull | Some v \<Rightarrow> v)"

definition jopt_str :: "string option \<Rightarrow> json" where
  "jopt_str x = (case x of None \<Rightarrow> JNull | Some s \<Rightarrow> JStr s)"

definition jopt_dict :: "json_object option \<Rightarrow> json" where
  "jopt_dict x = (case x of None \<Rightarrow> JNull | Some d \<Rightarrow> JDict d)"

definition jopt_bool :: "bool option \<Rightarrow> json" where
  "jopt_bool x = (case x of None \<Rightarrow> JNull | Some b \<Rightarrow> JBool b)"

subsection \<open>Printing\<close>

definition hex_char :: "nat \<Rightarrow> char" where
  "hex_char n = (if n < 10 then char_of (48 + n) else char_of (87 + n))"

definition hex2 :: "nat \<Rightarrow> string" where
  "hex2 n = [hex_char (n div 16), hex_char (n mod 16)]"

definition backslash :: char where
  "backslash = char_of (92 :: nat)"

definition squote :: char where
  "squote = char_of (39 :: nat)"

definition dquote :: char where
  "dquote = char_of (34 :: nat)"

definition newline :: char where
  "newline = char_of (10 :: nat)"

definition py_quote :: "string \<Rightarrow> char" where
  "py_quote s = (if squote \<in> set s \<and> dquote \<notin> set s then dquote else squote)"

definition py_repr_char :: "char \<Rightarrow> char \<Rightarrow> string" where
  "py_repr_char q c = (let n = code c in
     if c = q \<or> c = backslash then [backslash, c]
     else if n = 9 then [backslash, CHR ''t'']
     else if n = 10 then [backslash, CHR ''n'']
     else if n = 13 then [backslash, CHR ''r'']
     else if n < 32 \<or> (127 \<le> n \<and> n \<le> 160) \<or> n = 173 then [backslash, CHR ''x''] @ hex2 n
     else [c])"

definition py_repr_str :: "string \<Rightarrow> string" where
  "py_repr_str s = (let q = py_quote s in q # concat (map (py_repr_char q) s) @ [q])"

fun py_repr :: "json \<Rightarrow> string" and py_repr_items :: "(string \<times> json) list \<Rightarrow> string list" where
  "py_repr JNull = ''None''"
| "py_repr (JBool b) = (if b then ''True'' else ''False'')"
| "py_repr (JInt i) = int_str i"
| "py_repr (JFloat r) = r"
| "py_repr (JStr s) = py_repr_str s"
| "py_repr (JList l) = ''['' @ py_join '', '' (map py_repr l) @ '']''"
| "py_repr (JDict d) = ''{'' @ py_join '', '' (py_repr_items d) @ ''}''"
| "py_repr_items [] = []"
| "py_repr_items ((k, v) # r) = (py_repr_str k @ '': '' @ py_repr v) # py_repr_items r"

fun py_str :: "json \<Rightarrow> string" where
  "py_str (JStr s) = s"
| "py_str x = py_repr x"

definition json_char :: "char \<Rightarrow> string" where
  "json_char c = (let n = code c in
     if c = dquote \<or> c = backslash then [backslash, c]
     else if n = 8 then [backslash, CHR ''b'']
     else if n = 9 then [backslash, CHR ''t'']
     else if n = 10 then [backslash, CHR ''n'']
     else if n = 12 then [backslash, CHR ''f'']
     else if n = 13 then [backslash, CHR ''r'']
     else if n < 32 then [backslash, CHR ''u'', CHR ''0'', CHR ''0''] @ hex2 n
     else [c])"

definition json_string :: "string \<Rightarrow> string" where
  "json_string s = dquote # concat (map json_char s) @ [dquote]"

fun json_dumps :: "json \<Rightarrow> string" and json_dumps_items :: "(string \<times> json) list \<Rightarrow> string list" where
  "json_dumps JNull = ''null''"
| "json_dumps (JBool b) = (if b then ''true'' else ''false'')"
| "json_dumps (JInt i) = int_str i"
| "json_dumps (JFloat r) = r"
| "json_dumps (JStr s) = json_string s"
| "json_dumps (JList l) = ''['' @ py_join '', '' (map json_dumps l) @ '']''"
| "json_dumps (JDict d) = ''{'' @ py_join '', '' (json_dumps_items d) @ ''}''"
| "json_dumps_items [] = []"
| "json_dumps_items ((k, v) # r) = (json_string k @ '': '' @ json_dumps v) # json_dumps_items r"

text \<open>\<open>str(exc)\<close>: the argument, which a \<open>KeyError\<close> shows quoted.\<close>

fun py_error_text :: "py_error \<Rightarrow> string" where
  "py_error_text (ValueError s) = s"
| "py_error_text (KeyError s) = py_repr_str s"
| "py_error_text (TypeError s) = s"
| "py_error_text (RuntimeErr s) = s"
| "py_error_text (IndexErr s) = s"
| "py_error_text (OtherError s) = s"
| "py_error_text (AppError c s) = s"

subsection \<open>Equality\<close>

text \<open>
  The number a value denotes when it compares as a number, as the repr of that float.
\<close>

fun numeral_of :: "json \<Rightarrow> string option" where
  "numeral_of (JBool b) = Some (if b then ''1.0'' else ''0.0'')"
| "numeral_of (JInt i) = Some (int_str i @ ''.0'')"
| "numeral_of (JFloat r) = Some (if r = ''-0.0'' then ''0.0'' else r)"
| "numeral_of _ = None"

text \<open>Equality below identical containers; the keys of a dictionary are distinct.\<close>

fun struct_eq :: "json \<Rightarrow> json \<Rightarrow> bool"
  and struct_eq_list :: "json list \<Rightarrow> json list \<Rightarrow> bool"
  and struct_eq_items :: "(string \<times> json) list \<Rightarrow> (string \<times> json) list \<Rightarrow> bool" where
  "struct_eq x (JList ys) = (case x of JList xs \<Rightarrow> struct_eq_list xs ys | _ \<Rightarrow> False)"
| "struct_eq x (JDict e) = (case x of
     JDict d \<Rightarrow> length d = length e \<and> struct_eq_items d e | _ \<Rightarrow> False)"
| "struct_eq x y = (x = y \<or> (numeral_of x \<noteq> None \<and> numeral_of x = numeral_of y))"
| "struct_eq_list [] ys = (ys = [])"
| "struct_eq_list (x # xs) ys = (case ys of [] \<Rightarrow> False | y # ys' \<Rightarrow> struct_eq x y \<and> struct_eq_list xs ys')"
| "struct_eq_items [] e = True"
| "struct_eq_items ((k, v) # d) e =
     (case map_of e k of None \<Rightarrow> False | Some w \<Rightarrow> struct_eq v w \<and> struct_eq_items d e)"

text \<open>
  Python takes identical objects for equal before it looks inside; the disjunct also makes the
  relation reflexive on association lists no dictionary corresponds to.
\<close>

definition py_eq :: "json \<Rightarrow> json \<Rightarrow> bool" where
  "py_eq x y \<longleftrightarrow> x = y \<or> struct_eq x y"

lemma py_eq_refl [simp]: "py_eq x x"
  by (simp add: py_eq_def)

lemma py_eq_str [simp]: "py_eq (JStr s) (JStr t) \<longleftrightarrow> s = t"
  by (simp add: py_eq_def)

lemma py_eq_dict_order: "py_eq (JDict [(''a'', JInt 1), (''b'', JNull)]) (JDict [(''b'', JNull), (''a'', JInt 1)])"
  by (simp add: py_eq_def)

lemma py_eq_number: "py_eq (JBool True) (JInt 1)"
  by code_simp

subsection \<open>Lookups\<close>

lemma jget_Cons [simp]: "jget ((k, v) # d) k' = (if k = k' then v else jget d k')"
  by (simp add: jget_def)

lemma jget_Nil [simp]: "jget [] k = JNull"
  by (simp add: jget_def)

lemma jopt_simps [simp]:
  "jopt_str None = JNull" "jopt_str (Some s) = JStr s"
  "jopt_dict None = JNull" "jopt_dict (Some d) = JDict d"
  "jopt_bool None = JNull" "jopt_bool (Some b) = JBool b"
  by (simp_all add: jopt_str_def jopt_dict_def jopt_bool_def)

lemma jopt_str_JNull [simp]: "jopt_str x = JNull \<longleftrightarrow> x = None"
  by (cases x) simp_all

lemma as_dict_jopt [simp]: "as_dict (jopt_dict x) = x"
  by (cases x) simp_all

end
