(* ===== verification/ObjectModel.thy ===== *)
theory ObjectModel
  imports Json
begin

text \<open>
  The canonical objects of \<^verbatim>\<open>openagent/object_model\<close>: the two enumerations with their string
  values (\<^verbatim>\<open>enums.py\<close>), the runtime event, terminal state, approval request, tool result, task
  record and task event with the \<open>to_dict\<close> and \<open>from_dict\<close> of \<^verbatim>\<open>models.py\<close>, and the content blocks
  of a tool result (\<^verbatim>\<open>tool_result_blocks.py\<close>).  The lemmas show that what is written is read back,
  and that normalising content twice changes nothing.
\<close>

subsection \<open>Enumerations\<close>

datatype runtime_event_type =
    TURN_STARTED | ASSISTANT_DELTA | ASSISTANT_MESSAGE
  | TASK_CREATED | TASK_STARTED | TASK_PROGRESS | TASK_COMPLETED | TASK_FAILED | TASK_KILLED
  | TOOL_STARTED | TOOL_PROGRESS | TOOL_FAILED | TOOL_CANCELLED | TOOL_RESULT
  | REQUIRES_ACTION | TASK_NOTIFICATION | TURN_COMPLETED | TURN_FAILED

fun event_type_value :: "runtime_event_type \<Rightarrow> string" where
  "event_type_value TURN_STARTED = ''turn_started''"
| "event_type_value ASSISTANT_DELTA = ''assistant_delta''"
| "event_type_value ASSISTANT_MESSAGE = ''assistant_message''"
| "event_type_value TASK_CREATED = ''task_created''"
| "event_type_value TASK_STARTED = ''task_started''"
| "event_type_value TASK_PROGRESS = ''task_progress''"
| "event_type_value TASK_COMPLETED = ''task_completed''"
| "event_type_value TASK_FAILED = ''task_failed''"
| "event_type_value TASK_KILLED = ''task_killed''"
| "event_type_value TOOL_STARTED = ''tool_started''"
| "event_type_value TOOL_PROGRESS = ''tool_progress''"
| "event_type_value TOOL_FAILED = ''tool_failed''"
| "event_type_value TOOL_CANCELLED = ''tool_cancelled''"
| "event_type_value TOOL_RESULT = ''tool_result''"
| "event_type_value REQUIRES_ACTION = ''requires_action''"
| "event_type_value TASK_NOTIFICATION = ''task_notification''"
| "event_type_value TURN_COMPLETED = ''turn_completed''"
| "event_type_value TURN_FAILED = ''turn_failed''"

definition all_event_types :: "runtime_event_type list" where
  "all_event_types = [TURN_STARTED, ASSISTANT_DELTA, ASSISTANT_MESSAGE, TASK_CREATED, TASK_STARTED,
     TASK_PROGRESS, TASK_COMPLETED, TASK_FAILED, TASK_KILLED, TOOL_STARTED, TOOL_PROGRESS,
     TOOL_FAILED, TOOL_CANCELLED, TOOL_RESULT, REQUIRES_ACTION, TASK_NOTIFICATION,
     TURN_COMPLETED, TURN_FAILED]"

definition event_type_of :: "json \<Rightarrow> py_error + runtime_event_type" where
  "event_type_of v = (case v of
     JStr s \<Rightarrow> (case List.find (\<lambda>t. event_type_value t = s) all_event_types of
         Some t \<Rightarrow> Inr t
       | None \<Rightarrow> Inl (ValueError (py_repr v @ '' is not a valid RuntimeEventType'')))
   | _ \<Rightarrow> Inl (ValueError (py_repr v @ '' is not a valid RuntimeEventType'')))"

datatype terminal_status =
    PENDING | RUNNING | COMPLETED | CANCELLED | KILLED | STOPPED | BLOCKED | FAILED
  | BUDGET_EXHAUSTED

fun terminal_status_value :: "terminal_status \<Rightarrow> string" where
  "terminal_status_value PENDING = ''pending''"
| "terminal_status_value RUNNING = ''running''"
| "terminal_status_value COMPLETED = ''completed''"
| "terminal_status_value CANCELLED = ''cancelled''"
| "terminal_status_value KILLED = ''killed''"
| "terminal_status_value STOPPED = ''stopped''"
| "terminal_status_value BLOCKED = ''blocked''"
| "terminal_status_value FAILED = ''failed''"
| "terminal_status_value BUDGET_EXHAUSTED = ''budget_exhausted''"

definition all_terminal_statuses :: "terminal_status list" where
  "all_terminal_statuses =
     [PENDING, RUNNING, COMPLETED, CANCELLED, KILLED, STOPPED, BLOCKED, FAILED, BUDGET_EXHAUSTED]"

definition terminal_status_of_str :: "string \<Rightarrow> terminal_status option" where
  "terminal_status_of_str s = List.find (\<lambda>t. terminal_status_value t = s) all_terminal_statuses"

definition terminal_status_of :: "json \<Rightarrow> py_error + terminal_status" where
  "terminal_status_of v = (case v of
     JStr s \<Rightarrow> (case terminal_status_of_str s of
         Some t \<Rightarrow> Inr t
       | None \<Rightarrow> Inl (ValueError (py_repr v @ '' is not a valid TerminalStatus'')))
   | _ \<Rightarrow> Inl (ValueError (py_repr v @ '' is not a valid TerminalStatus'')))"

lemma event_type_roundtrip [simp]: "event_type_of (JStr (event_type_value t)) = Inr t"
  by (cases t) (simp_all add: event_type_of_def all_event_types_def)

lemma event_type_value_inj [simp]: "event_type_value s = event_type_value t \<longleftrightarrow> s = t"
  by (metis event_type_roundtrip sum.inject(2))

lemma terminal_status_of_value [simp]: "terminal_status_of_str (terminal_status_value t) = Some t"
  by (cases t) (simp_all add: terminal_status_of_str_def all_terminal_statuses_def)

lemma terminal_status_roundtrip [simp]: "terminal_status_of (JStr (terminal_status_value t)) = Inr t"
  by (simp add: terminal_status_of_def)

lemma terminal_status_value_inj [simp]: "terminal_status_value s = terminal_status_value t \<longleftrightarrow> s = t"
  by (metis terminal_status_of_value option.inject)

subsection \<open>Reading fields\<close>

text \<open>\<open>data[k]\<close>, \<open>str(data[k])\<close>, and \<open>str(data[k]) if data.get(k) is not None else None\<close>.\<close>

definition field_req :: "json_object \<Rightarrow> string \<Rightarrow> py_error + json" where
  "field_req d k = (case dict_get d k of None \<Rightarrow> Inl (KeyError k) | Some v \<Rightarrow> Inr v)"

definition field_str :: "json_object \<Rightarrow> string \<Rightarrow> py_error + string" where
  "field_str d k = ebind (field_req d k) (\<lambda>v. Inr (py_str v))"

definition field_opt_str :: "json_object \<Rightarrow> string \<Rightarrow> string option" where
  "field_opt_str d k = (case jget d k of JNull \<Rightarrow> None | v \<Rightarrow> Some (py_str v))"

definition field_opt_bool :: "json_object \<Rightarrow> string \<Rightarrow> bool option" where
  "field_opt_bool d k = (case jget d k of JNull \<Rightarrow> None | v \<Rightarrow> Some (truthy v))"

definition field_opt_dict :: "json_object \<Rightarrow> string \<Rightarrow> json_object option" where
  "field_opt_dict d k = as_dict (jget d k)"

definition field_dict :: "json_object \<Rightarrow> string \<Rightarrow> json_object" where
  "field_dict d k = (case as_dict (jget d k) of None \<Rightarrow> [] | Some e \<Rightarrow> e)"

lemma field_req_Cons [simp]:
  "field_req ((k, v) # d) k' = (if k = k' then Inr v else field_req d k')"
  by (simp add: field_req_def)

lemma field_str_Cons [simp]:
  "field_str ((k, v) # d) k' = (if k = k' then Inr (py_str v) else field_str d k')"
  by (simp add: field_str_def)

lemma field_opt_Cons [simp]:
  "field_opt_str ((k, v) # d) k' =
     (if k = k' then (case v of JNull \<Rightarrow> None | _ \<Rightarrow> Some (py_str v)) else field_opt_str d k')"
  "field_opt_bool ((k, v) # d) k' =
     (if k = k' then (case v of JNull \<Rightarrow> None | _ \<Rightarrow> Some (truthy v)) else field_opt_bool d k')"
  "field_opt_dict ((k, v) # d) k' = (if k = k' then as_dict v else field_opt_dict d k')"
  "field_dict ((k, v) # d) k' =
     (if k = k' then (case as_dict v of None \<Rightarrow> [] | Some e \<Rightarrow> e) else field_dict d k')"
  by (simp_all add: field_opt_str_def field_opt_bool_def field_opt_dict_def field_dict_def
      split: json.splits)

lemma case_jopt_str [simp]:
  "(case jopt_str x of JNull \<Rightarrow> None | JBool b \<Rightarrow> Some (py_str (jopt_str x))
    | JInt i \<Rightarrow> Some (py_str (jopt_str x)) | JFloat r \<Rightarrow> Some (py_str (jopt_str x))
    | JStr s \<Rightarrow> Some (py_str (jopt_str x)) | JList l \<Rightarrow> Some (py_str (jopt_str x))
    | JDict d \<Rightarrow> Some (py_str (jopt_str x))) = x"
  by (cases x) simp_all

lemma case_jopt_bool [simp]:
  "(case jopt_bool x of JNull \<Rightarrow> None | JBool b \<Rightarrow> Some (truthy (jopt_bool x))
    | JInt i \<Rightarrow> Some (truthy (jopt_bool x)) | JFloat r \<Rightarrow> Some (truthy (jopt_bool x))
    | JStr s \<Rightarrow> Some (truthy (jopt_bool x)) | JList l \<Rightarrow> Some (truthy (jopt_bool x))
    | JDict d \<Rightarrow> Some (truthy (jopt_bool x))) = x"
  by (cases x) simp_all

subsection \<open>Runtime events and terminal states\<close>

record runtime_event =
  ev_type :: runtime_event_type
  ev_id :: string
  ev_timestamp :: string
  ev_session :: string
  ev_payload :: json_object
  ev_agent :: "string option"
  ev_task :: "string option"

definition event_to_dict :: "runtime_event \<Rightarrow> json_object" where
  "event_to_dict e =
    [(''event_type'', JStr (event_type_value (ev_type e))),
     (''event_id'', JStr (ev_id e)),
     (''timestamp'', JStr (ev_timestamp e)),
     (''session_id'', JStr (ev_session e)),
     (''payload'', JDict (ev_payload e)),
     (''agent_id'', jopt_str (ev_agent e)),
     (''task_id'', jopt_str (ev_task e))]"

definition event_from_dict :: "json_object \<Rightarrow> py_error + runtime_event" where
  "event_from_dict d =
     ebind (field_req d ''event_type'') (\<lambda>event_type.
     ebind (field_req d ''payload'') (\<lambda>payload.
     ebind (event_type_of event_type) (\<lambda>t.
     ebind (field_str d ''event_id'') (\<lambda>i.
     ebind (field_str d ''timestamp'') (\<lambda>ts.
     ebind (field_str d ''session_id'') (\<lambda>s.
     Inr \<lparr>ev_type = t, ev_id = i, ev_timestamp = ts, ev_session = s,
          ev_payload = (case as_dict payload of None \<Rightarrow> [] | Some p \<Rightarrow> p),
          ev_agent = field_opt_str d ''agent_id'',
          ev_task = field_opt_str d ''task_id''\<rparr>))))))"

text \<open>Equality of two events: a dataclass compares its fields, the payload as dictionaries.\<close>

definition event_eq :: "runtime_event \<Rightarrow> runtime_event \<Rightarrow> bool" where
  "event_eq a b \<longleftrightarrow> ev_type a = ev_type b \<and> ev_id a = ev_id b \<and> ev_timestamp a = ev_timestamp b
     \<and> ev_session a = ev_session b \<and> py_eq (JDict (ev_payload a)) (JDict (ev_payload b))
     \<and> ev_agent a = ev_agent b \<and> ev_task a = ev_task b"

lemma event_eq_refl [simp]: "event_eq e e"
  by (simp add: event_eq_def)

lemma event_roundtrip [simp]: "event_from_dict (event_to_dict e) = Inr e"
  by (simp add: event_from_dict_def event_to_dict_def)

record terminal_state =
  ts_status :: terminal_status
  ts_reason :: string
  ts_retryable :: "bool option"
  ts_summary :: "string option"

definition terminal_to_dict :: "terminal_state \<Rightarrow> json_object" where
  "terminal_to_dict t =
    [(''status'', JStr (terminal_status_value (ts_status t))),
     (''reason'', JStr (ts_reason t)),
     (''retryable'', jopt_bool (ts_retryable t)),
     (''summary'', jopt_str (ts_summary t))]"

definition terminal_from_dict :: "json_object \<Rightarrow> py_error + terminal_state" where
  "terminal_from_dict d =
     ebind (field_req d ''status'') (\<lambda>v.
     ebind (terminal_status_of v) (\<lambda>st.
     ebind (field_str d ''reason'') (\<lambda>r.
     Inr \<lparr>ts_status = st, ts_reason = r,
          ts_retryable = field_opt_bool d ''retryable'',
          ts_summary = field_opt_str d ''summary''\<rparr>)))"

lemma terminal_roundtrip [simp]: "terminal_from_dict (terminal_to_dict t) = Inr t"
  by (simp add: terminal_from_dict_def terminal_to_dict_def)

subsection \<open>Approval requests\<close>

record requires_action =
  ra_action_type :: string
  ra_session :: string
  ra_description :: string
  ra_terminal_state :: string
  ra_resumable :: bool
  ra_agent :: "string option"
  ra_task :: "string option"
  ra_tool_name :: "string option"
  ra_input :: "json_object option"
  ra_request :: "string option"
  ra_action_ref :: "string option"
  ra_policy_decision :: "string option"

definition requires_action_to_dict :: "requires_action \<Rightarrow> json_object" where
  "requires_action_to_dict r =
    [(''action_type'', JStr (ra_action_type r)),
     (''session_id'', JStr (ra_session r)),
     (''description'', JStr (ra_description r)),
     (''terminal_state'', JStr (ra_terminal_state r)),
     (''resumable'', JBool (ra_resumable r)),
     (''agent_id'', jopt_str (ra_agent r)),
     (''task_id'', jopt_str (ra_task r)),
     (''tool_name'', jopt_str (ra_tool_name r)),
     (''input'', jopt_dict (ra_input r)),
     (''request_id'', jopt_str (ra_request r)),
     (''action_ref'', jopt_str (ra_action_ref r)),
     (''policy_decision_id'', jopt_str (ra_policy_decision r))]"

subsection \<open>Tool results\<close>

record tool_result =
  tr_name :: string
  tr_success :: bool
  tr_content :: "json list"
  tr_structured :: "json_object option"
  tr_metadata :: "json_object option"
  tr_persisted :: "string option"
  tr_truncated :: "bool option"

definition tool_result_to_dict :: "tool_result \<Rightarrow> json_object" where
  "tool_result_to_dict r =
    [(''tool_name'', JStr (tr_name r)),
     (''success'', JBool (tr_success r)),
     (''content'', JList (tr_content r)),
     (''structured_content'', jopt_dict (tr_structured r)),
     (''metadata'', jopt_dict (tr_metadata r)),
     (''persisted_ref'', jopt_str (tr_persisted r)),
     (''truncated'', jopt_bool (tr_truncated r))]"

text \<open>
  \<open>cls(**data)\<close>: the keyword arguments of the generated constructor.  A key it does not know, and
  a required one that is missing, is a \<open>TypeError\<close>.  Python does not check the values' types; the
  payloads read here come from \<open>tool_result_to_dict\<close>, and a value of another type is read as the
  empty one.
\<close>

definition tool_result_from_dict :: "json_object \<Rightarrow> py_error + tool_result" where
  "tool_result_from_dict d =
     (if \<not> list_all (\<lambda>k. k \<in> set [''tool_name'', ''success'', ''content'', ''structured_content'',
            ''metadata'', ''persisted_ref'', ''truncated'']) (dict_keys d)
      then Inl (TypeError ''unexpected keyword argument'')
      else case (dict_get d ''tool_name'', dict_get d ''success'', dict_get d ''content'') of
        (Some n, Some s, Some c) \<Rightarrow>
          Inr \<lparr>tr_name = py_str n, tr_success = truthy s,
               tr_content = (case as_list c of None \<Rightarrow> [] | Some l \<Rightarrow> l),
               tr_structured = as_dict (jget d ''structured_content''),
               tr_metadata = as_dict (jget d ''metadata''),
               tr_persisted = field_opt_str d ''persisted_ref'',
               tr_truncated = field_opt_bool d ''truncated''\<rparr>
      | _ \<Rightarrow> Inl (TypeError ''missing required argument''))"

lemma tool_result_roundtrip [simp]: "tool_result_from_dict (tool_result_to_dict r) = Inr r"
  by (simp add: tool_result_from_dict_def tool_result_to_dict_def)

subsection \<open>Tasks\<close>

datatype task_status = TStatus terminal_status | TOther string

fun task_status_str :: "task_status \<Rightarrow> string" where
  "task_status_str (TStatus t) = terminal_status_value t"
| "task_status_str (TOther s) = s"

text \<open>\<open>try: TerminalStatus(s) except ValueError: s\<close>.\<close>

definition task_status_of :: "string \<Rightarrow> task_status" where
  "task_status_of s = (case terminal_status_of_str s of None \<Rightarrow> TOther s | Some t \<Rightarrow> TStatus t)"

datatype output_cursor = CursorInt int | CursorStr string

record task_record =
  tk_id :: string
  tk_type :: string
  tk_status :: task_status
  tk_description :: string
  tk_start :: string
  tk_session :: "string option"
  tk_agent :: "string option"
  tk_parent :: "string option"
  tk_output_ref :: "string option"
  tk_output_cursor :: "output_cursor option"
  tk_end :: "string option"
  tk_terminal :: "json_object option"
  tk_notified :: bool
  tk_metadata :: "json_object option"

definition cursor_to_json :: "output_cursor option \<Rightarrow> json" where
  "cursor_to_json c = (case c of None \<Rightarrow> JNull | Some (CursorInt i) \<Rightarrow> JInt i
     | Some (CursorStr s) \<Rightarrow> JStr s)"

definition cursor_of_json :: "json \<Rightarrow> output_cursor option" where
  "cursor_of_json v = (case v of JStr s \<Rightarrow> Some (CursorStr s)
     | _ \<Rightarrow> map_option CursorInt (as_int v))"

definition task_to_dict :: "task_record \<Rightarrow> json_object" where
  "task_to_dict t =
    [(''task_id'', JStr (tk_id t)),
     (''type'', JStr (tk_type t)),
     (''status'', JStr (task_status_str (tk_status t))),
     (''description'', JStr (tk_description t)),
     (''start_time'', JStr (tk_start t)),
     (''session_id'', jopt_str (tk_session t)),
     (''agent_id'', jopt_str (tk_agent t)),
     (''parent_task_id'', jopt_str (tk_parent t)),
     (''output_ref'', jopt_str (tk_output_ref t)),
     (''output_cursor'', cursor_to_json (tk_output_cursor t)),
     (''end_time'', jopt_str (tk_end t)),
     (''terminal_state'', jopt_dict (tk_terminal t)),
     (''notified'', JBool (tk_notified t)),
     (''metadata'', jopt_dict (tk_metadata t))]"

definition task_from_dict :: "json_object \<Rightarrow> py_error + task_record" where
  "task_from_dict d =
     ebind (field_str d ''status'') (\<lambda>st.
     ebind (field_str d ''task_id'') (\<lambda>i.
     ebind (field_str d ''type'') (\<lambda>ty.
     ebind (field_str d ''description'') (\<lambda>desc.
     ebind (field_str d ''start_time'') (\<lambda>start.
     Inr \<lparr>tk_id = i, tk_type = ty, tk_status = task_status_of st, tk_description = desc,
          tk_start = start,
          tk_session = field_opt_str d ''session_id'',
          tk_agent = field_opt_str d ''agent_id'',
          tk_parent = field_opt_str d ''parent_task_id'',
          tk_output_ref = field_opt_str d ''output_ref'',
          tk_output_cursor = cursor_of_json (jget d ''output_cursor''),
          tk_end = field_opt_str d ''end_time'',
          tk_terminal = field_opt_dict d ''terminal_state'',
          tk_notified = (case dict_get d ''notified'' of None \<Rightarrow> False | Some v \<Rightarrow> truthy v),
          tk_metadata = field_opt_dict d ''metadata''\<rparr>)))))"

text \<open>A record whose status is an enumeration member whenever its text names one.\<close>

definition status_normal :: "task_status \<Rightarrow> bool" where
  "status_normal s \<longleftrightarrow> task_status_of (task_status_str s) = s"

lemma status_normal_of [simp]: "status_normal (task_status_of s)"
proof (cases "terminal_status_of_str s")
  case (Some t)
  then have "s = terminal_status_value t"
    by (auto simp: terminal_status_of_str_def find_Some_iff)
  then show ?thesis by (simp add: status_normal_def task_status_of_def)
qed (simp add: status_normal_def task_status_of_def)

lemma status_normal_TStatus [simp]: "status_normal (TStatus t)"
  by (simp add: status_normal_def task_status_of_def)

lemma task_status_str_of [simp]: "task_status_str (task_status_of s) = s"
  by (auto simp: task_status_of_def terminal_status_of_str_def find_Some_iff split: option.splits)

lemma cursor_roundtrip [simp]: "cursor_of_json (cursor_to_json c) = c"
  by (auto simp: cursor_of_json_def cursor_to_json_def split: option.splits output_cursor.splits)

lemma task_from_to_dict:
  "task_from_dict (task_to_dict t) = Inr (t\<lparr>tk_status := task_status_of (task_status_str (tk_status t))\<rparr>)"
  by (simp add: task_from_dict_def task_to_dict_def field_opt_dict_def)

lemma task_roundtrip: "status_normal (tk_status t) \<Longrightarrow> task_from_dict (task_to_dict t) = Inr t"
  by (simp add: task_from_to_dict status_normal_def)

record task_event =
  te_task :: string
  te_id :: string
  te_timestamp :: string
  te_type :: string
  te_payload :: json_object
  te_terminal :: "json_object option"
  te_error :: "json_object option"

definition task_event_to_dict :: "task_event \<Rightarrow> json_object" where
  "task_event_to_dict e =
    [(''task_id'', JStr (te_task e)),
     (''event_id'', JStr (te_id e)),
     (''timestamp'', JStr (te_timestamp e)),
     (''type'', JStr (te_type e)),
     (''payload'', JDict (te_payload e)),
     (''terminal_state'', jopt_dict (te_terminal e)),
     (''error'', jopt_dict (te_error e))]"

definition task_event_from_dict :: "json_object \<Rightarrow> py_error + task_event" where
  "task_event_from_dict d =
     ebind (field_str d ''task_id'') (\<lambda>t.
     ebind (field_str d ''event_id'') (\<lambda>i.
     ebind (field_str d ''timestamp'') (\<lambda>ts.
     ebind (field_str d ''type'') (\<lambda>ty.
     Inr \<lparr>te_task = t, te_id = i, te_timestamp = ts, te_type = ty,
          te_payload = field_dict d ''payload'',
          te_terminal = field_opt_dict d ''terminal_state'',
          te_error = field_opt_dict d ''error''\<rparr>))))"

lemma task_event_roundtrip [simp]: "task_event_from_dict (task_event_to_dict e) = Inr e"
  by (simp add: task_event_from_dict_def task_event_to_dict_def)

subsection \<open>Content blocks of a tool result\<close>

definition text_block :: "string \<Rightarrow> json" where
  "text_block t = JDict [(''type'', JStr ''text''), (''text'', JStr t)]"

definition image_block :: "string \<Rightarrow> string \<Rightarrow> string option \<Rightarrow> json" where
  "image_block media_type data alt = JDict
     ([(''type'', JStr ''image''), (''media_type'', JStr media_type), (''data'', JStr data)]
      @ (case alt of None \<Rightarrow> [] | Some a \<Rightarrow> [(''alt_text'', JStr a)]))"

definition tool_reference_block :: "string \<Rightarrow> string option \<Rightarrow> string option \<Rightarrow> string \<Rightarrow> json" where
  "tool_reference_block ref title preview ref_kind = JDict
     ([(''type'', JStr ''tool_reference''), (''ref'', JStr ref), (''ref_kind'', JStr ref_kind)]
      @ (case title of None \<Rightarrow> [] | Some t \<Rightarrow> [(''title'', JStr t)])
      @ (case preview of None \<Rightarrow> [] | Some p \<Rightarrow> [(''preview'', JStr p)]))"

text \<open>\<open>str(item.get(k, ""))\<close>.\<close>

definition block_text :: "json_object \<Rightarrow> string \<Rightarrow> string" where
  "block_text d k = (case dict_get d k of None \<Rightarrow> [] | Some v \<Rightarrow> py_str v)"

text \<open>\<open>a or b\<close> on strings.\<close>

definition str_or :: "string \<Rightarrow> string \<Rightarrow> string" where
  "str_or a b = (if a = [] then b else a)"

fun render_block :: "json \<Rightarrow> string" where
  "render_block (JDict d) =
     (let block_type = block_text d ''type'' in
      if block_type = ''text'' then block_text d ''text''
      else if block_type = ''image'' then
        ''[image: '' @ str_or (py_strip (block_text d ''alt_text''))
          (str_or (py_strip (block_text d ''media_type'')) ''image'') @ '']''
      else if block_type = ''tool_reference'' then
        str_or (py_strip (block_text d ''preview''))
          (str_or (py_strip (block_text d ''title'')) (py_strip (block_text d ''ref'')))
      else if dict_get d ''text'' \<noteq> None then block_text d ''text''
      else json_dumps (JDict d))"
| "render_block x = json_dumps x"

definition render_blocks :: "json list \<Rightarrow> string" where
  "render_blocks bs = py_strip (py_join [newline] (filter (\<lambda>p. p \<noteq> []) (map render_block bs)))"

text \<open>
  One item of the content: \<open>None\<close> is dropped, a string becomes a text block, a dictionary with a
  string \<open>type\<close> stays, a nested list is rendered (which normalises it first) and anything else is
  dumped as JSON text.
\<close>

fun normalize_item :: "json \<Rightarrow> json list" where
  "normalize_item JNull = []"
| "normalize_item (JStr s) = [text_block s]"
| "normalize_item (JList l) = [text_block (render_blocks (concat (map normalize_item l)))]"
| "normalize_item (JDict d) =
     (if is_jstr (jget d ''type'') then [JDict d] else [text_block (json_dumps (JDict d))])"
| "normalize_item x = [text_block (json_dumps x)]"

definition normalize_tool_result_content :: "json list \<Rightarrow> json list" where
  "normalize_tool_result_content content = concat (map normalize_item content)"

definition render_tool_result_content :: "json list \<Rightarrow> string" where
  "render_tool_result_content content = render_blocks (normalize_tool_result_content content)"

definition has_non_textual_tool_result_content :: "json list \<Rightarrow> bool" where
  "has_non_textual_tool_result_content content =
     list_ex (\<lambda>b. case b of JDict d \<Rightarrow> block_text d ''type'' \<noteq> ''text'' | _ \<Rightarrow> False)
       (normalize_tool_result_content content)"

text \<open>What every normalised block looks like.\<close>

definition typed_block :: "json \<Rightarrow> bool" where
  "typed_block b = (case b of JDict d \<Rightarrow> is_jstr (jget d ''type'') | _ \<Rightarrow> False)"

lemma typed_block_text [simp]: "typed_block (text_block t)"
  by (simp add: typed_block_def text_block_def)

lemma normalize_item_typed: "b \<in> set (normalize_item x) \<Longrightarrow> typed_block b"
  by (cases x) (auto simp: typed_block_def text_block_def split: if_splits)

lemma normalize_typed_item: "typed_block b \<Longrightarrow> normalize_item b = [b]"
  by (auto simp: typed_block_def split: json.splits)

lemma normalize_typed: "list_all typed_block bs \<Longrightarrow> normalize_tool_result_content bs = bs"
  by (induction bs) (simp_all add: normalize_tool_result_content_def normalize_typed_item)

lemma normalize_all_typed: "list_all typed_block (normalize_tool_result_content c)"
  by (auto simp: list_all_iff normalize_tool_result_content_def dest: normalize_item_typed)

lemma normalize_idem [simp]:
  "normalize_tool_result_content (normalize_tool_result_content c) = normalize_tool_result_content c"
  by (rule normalize_typed [OF normalize_all_typed])

end
