(* ===== verification/Tools.thy ===== *)
theory Tools
  imports ObjectModel
begin

text \<open>
  The tool layer's data: \<^verbatim>\<open>tools/models.py\<close> (permission decisions, tool calls, the execution
  context, progress and stream items, execution summaries), \<^verbatim>\<open>tools/errors.py\<close>, the tool protocol
  of \<^verbatim>\<open>tools/interfaces.py\<close> read through the helpers of \<^verbatim>\<open>tools/compat.py\<close>, and the static
  registry of \<^verbatim>\<open>tools/registry.py\<close>.

  A tool is a record of its attributes and methods.  Its methods act on a world of type \<open>'w\<close>
  (files, processes, services), which the model leaves open: a tool is whatever function of its
  arguments, the context and the world it is.  The helpers of \<^verbatim>\<open>compat.py\<close> that choose between
  call conventions by reflection are not modelled; an optional method is an option field.
\<close>

subsection \<open>Decisions and outcomes\<close>

datatype permission_decision = ALLOW | DENY | ASK | PASSTHROUGH

definition permission_decision_of :: "string \<Rightarrow> py_error + permission_decision" where
  "permission_decision_of s =
     (if s = ''allow'' then Inr ALLOW else if s = ''deny'' then Inr DENY
      else if s = ''ask'' then Inr ASK else if s = ''passthrough'' then Inr PASSTHROUGH
      else Inl (ValueError (py_repr_str s @ '' is not a valid PermissionDecision'')))"

record policy_outcome =
  po_decision :: permission_decision
  po_reason :: "string option"
  po_explanation :: "string option"
  po_requires_action_ref :: "string option"
  po_source :: "string option"
  po_audit :: json_object

text \<open>The fields a constructor call leaves at their defaults.\<close>

definition policy_outcome_default :: "permission_decision \<Rightarrow> policy_outcome" where
  "policy_outcome_default d = \<lparr>po_decision = d, po_reason = None, po_explanation = None,
     po_requires_action_ref = None, po_source = None, po_audit = []\<rparr>"

record denial_state =
  consecutive_denials :: int
  total_denials :: int

definition denial_state_zero :: denial_state where
  "denial_state_zero = \<lparr>consecutive_denials = 0, total_denials = 0\<rparr>"

definition record_denial :: "denial_state \<Rightarrow> denial_state" where
  "record_denial s = \<lparr>consecutive_denials = consecutive_denials s + 1,
     total_denials = total_denials s + 1\<rparr>"

definition record_success :: "denial_state \<Rightarrow> denial_state" where
  "record_success s = \<lparr>consecutive_denials = 0, total_denials = total_denials s\<rparr>"

definition should_fallback_to_prompting :: "int \<Rightarrow> denial_state \<Rightarrow> bool" where
  "should_fallback_to_prompting threshold s \<longleftrightarrow> consecutive_denials s \<ge> threshold"

subsection \<open>Calls, contexts and errors\<close>

record tool_call =
  tc_name :: string
  tc_arguments :: json
  tc_call_id :: "string option"

definition tool_call_to_dict :: "tool_call \<Rightarrow> json_object" where
  "tool_call_to_dict c = [(''tool_name'', JStr (tc_name c)), (''arguments'', tc_arguments c),
     (''call_id'', jopt_str (tc_call_id c))]"

text \<open>\<open>ToolCall(**data)\<close>; arguments default to the empty object.\<close>

definition tool_call_from_dict :: "json_object \<Rightarrow> py_error + tool_call" where
  "tool_call_from_dict d =
     (if \<not> list_all (\<lambda>k. k \<in> set [''tool_name'', ''arguments'', ''call_id'']) (dict_keys d)
      then Inl (TypeError ''unexpected keyword argument'')
      else case dict_get d ''tool_name'' of
        None \<Rightarrow> Inl (TypeError ''missing required argument'')
      | Some n \<Rightarrow> Inr \<lparr>tc_name = py_str n,
          tc_arguments = (case dict_get d ''arguments'' of None \<Rightarrow> JDict [] | Some a \<Rightarrow> a),
          tc_call_id = field_opt_str d ''call_id''\<rparr>)"

lemma tool_call_roundtrip [simp]: "tool_call_from_dict (tool_call_to_dict c) = Inr c"
  by (simp add: tool_call_from_dict_def tool_call_to_dict_def)

text \<open>
  \<open>ctx_cancel\<close> is the cancellation check: the answer to the n-th poll of the run, when there is
  one.
\<close>

record tool_context =
  ctx_session :: string
  ctx_approved :: "string list"
  ctx_cancel :: "(nat \<Rightarrow> bool) option"
  ctx_agent :: "string option"
  ctx_task :: "string option"
  ctx_workdir :: "string option"

datatype tool_error =
    RequiresActionError requires_action
  | ToolPermissionDeniedError string string
  | ToolExecutionFailedError string string
  | ToolValidationError string string
  | ToolCancelledError string string
  | PyError py_error

fun tool_error_text :: "tool_error \<Rightarrow> string" where
  "tool_error_text (RequiresActionError r) = ra_description r"
| "tool_error_text (ToolPermissionDeniedError n r) = n @ '': '' @ r"
| "tool_error_text (ToolExecutionFailedError n r) = n @ '': '' @ r"
| "tool_error_text (ToolValidationError n r) = n @ '': validation_failed: '' @ r"
| "tool_error_text (ToolCancelledError n r) = n @ '': '' @ r"
| "tool_error_text (PyError e) = py_error_text e"

text \<open>\<open>isinstance(e, ToolExecutionFailedError)\<close>: a validation error is one too.\<close>

fun is_execution_failed :: "tool_error \<Rightarrow> bool" where
  "is_execution_failed (ToolExecutionFailedError _ _) = True"
| "is_execution_failed (ToolValidationError _ _) = True"
| "is_execution_failed _ = False"

subsection \<open>Progress and stream items\<close>

record tool_progress =
  pr_name :: string
  pr_message :: string
  pr_progress :: "string option"  \<comment> \<open>a float, as its repr\<close>
  pr_metadata :: json_object

definition tool_progress_to_dict :: "tool_progress \<Rightarrow> json_object" where
  "tool_progress_to_dict p = [(''tool_name'', JStr (pr_name p)), (''message'', JStr (pr_message p)),
     (''progress'', (case pr_progress p of None \<Rightarrow> JNull | Some r \<Rightarrow> JFloat r)),
     (''metadata'', JDict (pr_metadata p))]"

record context_modifier =
  cm_execution :: string
  cm_tool_use :: string
  cm_stage :: string
  cm_order :: int
  cm_ref :: "string option"

record stream_item =
  si_progress :: "tool_progress option"
  si_result :: "tool_result option"
  si_modifier :: "context_modifier option"

datatype stream_step = StreamItem stream_item | StreamRaise tool_error

subsection \<open>Tools\<close>

text \<open>
  \<open>tool_call_fn\<close> is the method \<open>call\<close>; \<open>tool_stream_fn\<close>, when present, is \<open>stream_call\<close>: the
  successive resumptions of its generator, each acting on the world and delivering an item or
  raising.  \<open>tool_validator\<close> answers \<open>None\<close> where \<open>validate_input\<close> returns something that is not
  a dictionary, and \<open>tool_mapper\<close> where \<open>map_result\<close> returns something that is not a tool result.
\<close>

record 'w tool =
  tool_name :: string
  tool_aliases :: "string list"
  tool_schema :: json
  tool_source_attr :: "string option"
  tool_visibility_attr :: "string option"
  tool_provenance :: json_object
  tool_enabled_fn :: "(tool_context option \<Rightarrow> bool) option"
  tool_read_only_fn :: "(json_object \<Rightarrow> bool) option"
  tool_destructive :: bool
  tool_concurrency_fn :: "(json_object \<Rightarrow> bool) option"
  tool_validator :: "(json_object \<Rightarrow> tool_error + json_object option) option"
  tool_checker :: "json_object \<Rightarrow> tool_context \<Rightarrow> string"
  tool_mapper :: "(tool_result \<Rightarrow> string option \<Rightarrow> tool_result option) option"
  tool_persists :: bool
  tool_call_fn :: "json_object \<Rightarrow> tool_context \<Rightarrow> 'w \<Rightarrow> (tool_error + tool_result) \<times> 'w"
  tool_stream_fn :: "(json_object \<Rightarrow> tool_context \<Rightarrow> ('w \<Rightarrow> stream_step \<times> 'w) list) option"

definition tool_is_enabled :: "'w tool \<Rightarrow> tool_context option \<Rightarrow> bool" where
  "tool_is_enabled t ctx = (case tool_enabled_fn t of None \<Rightarrow> True | Some f \<Rightarrow> f ctx)"

definition tool_is_read_only :: "'w tool \<Rightarrow> json_object \<Rightarrow> bool" where
  "tool_is_read_only t args =
     (case tool_read_only_fn t of None \<Rightarrow> \<not> tool_destructive t | Some f \<Rightarrow> f args)"

definition tool_is_concurrency_safe :: "'w tool \<Rightarrow> json_object \<Rightarrow> bool" where
  "tool_is_concurrency_safe t args =
     (case tool_concurrency_fn t of None \<Rightarrow> False | Some f \<Rightarrow> f args)"

definition tool_validate_input :: "'w tool \<Rightarrow> json_object \<Rightarrow> tool_error + json_object" where
  "tool_validate_input t args = (case tool_validator t of
     None \<Rightarrow> Inr args
   | Some f \<Rightarrow> ebind (f args) (\<lambda>v. Inr (case v of None \<Rightarrow> args | Some d \<Rightarrow> d)))"

definition tool_check_permissions ::
  "'w tool \<Rightarrow> json_object \<Rightarrow> tool_context \<Rightarrow> py_error + permission_decision" where
  "tool_check_permissions t args ctx = permission_decision_of (tool_checker t args ctx)"

definition tool_map_result :: "'w tool \<Rightarrow> tool_result \<Rightarrow> string option \<Rightarrow> tool_result" where
  "tool_map_result t r tool_use_id =
     (let fallback = (case tool_use_id of
            None \<Rightarrow> r
          | Some u \<Rightarrow> r\<lparr>tr_metadata := Some (dict_set ''tool_use_id'' (JStr u)
              (case tr_metadata r of None \<Rightarrow> [] | Some m \<Rightarrow> m))\<rparr>)
      in case tool_mapper t of
           None \<Rightarrow> fallback
         | Some f \<Rightarrow> (case f r tool_use_id of None \<Rightarrow> fallback | Some r' \<Rightarrow> r'))"

subsection \<open>Execution summaries\<close>

datatype execution_event_type = X_STARTED | X_PROGRESS | X_RESULT | X_FAILED | X_CANCELLED

text \<open>\<open>mapping[event_type]\<close>.\<close>

definition event_type_for_runtime_event ::
  "runtime_event_type \<Rightarrow> py_error + execution_event_type" where
  "event_type_for_runtime_event t = (case t of
     TOOL_STARTED \<Rightarrow> Inr X_STARTED
   | TOOL_PROGRESS \<Rightarrow> Inr X_PROGRESS
   | TOOL_RESULT \<Rightarrow> Inr X_RESULT
   | TOOL_FAILED \<Rightarrow> Inr X_FAILED
   | TOOL_CANCELLED \<Rightarrow> Inr X_CANCELLED
   | _ \<Rightarrow> Inl (KeyError (event_type_value t)))"

record execution_event =
  xe_execution :: string
  xe_tool_use :: "string option"
  xe_type :: execution_event_type
  xe_timestamp :: string
  xe_payload :: json_object

record execution_handle =
  xh_id :: string
  xh_tool_uses :: "string list"
  xh_session :: "string option"
  xh_task :: "string option"
  xh_started :: "string option"

record execution_summary =
  xs_handle :: execution_handle
  xs_events :: "execution_event list"
  xs_results :: "tool_result list"
  xs_errors :: "string list"
  xs_modifiers :: "context_modifier list"

subsection \<open>The registry\<close>

datatype tool_source = BUILTIN | PLUGIN | MCP_ADAPTER | GENERATED
datatype tool_visibility = VIS_USER | VIS_MODEL | VIS_BOTH

definition tool_source_of :: "'w tool \<Rightarrow> tool_source" where
  "tool_source_of t = (case tool_source_attr t of
     None \<Rightarrow> GENERATED
   | Some s \<Rightarrow> if s = ''builtin'' then BUILTIN else if s = ''plugin'' then PLUGIN
       else if s = ''mcp_adapter'' then MCP_ADAPTER else GENERATED)"

definition tool_visibility_of :: "'w tool \<Rightarrow> tool_visibility" where
  "tool_visibility_of t = (case tool_visibility_attr t of
     None \<Rightarrow> VIS_BOTH
   | Some s \<Rightarrow> if s = ''user'' then VIS_USER else if s = ''model'' then VIS_MODEL else VIS_BOTH)"

record registry_record =
  rr_name :: string
  rr_source :: tool_source
  rr_visibility :: tool_visibility
  rr_aliases :: "string list"
  rr_provenance :: json_object

record 'w tool_registry =
  reg_records :: "(registry_record \<times> 'w tool) list"
  reg_by_name :: "(string, 'w tool) pydict"

definition registry_record_of :: "'w tool \<Rightarrow> registry_record" where
  "registry_record_of t = \<lparr>rr_name = tool_name t, rr_source = tool_source_of t,
     rr_visibility = tool_visibility_of t, rr_aliases = tool_aliases t,
     rr_provenance = tool_provenance t\<rparr>"

definition registry_add :: "'w tool \<Rightarrow> 'w tool_registry \<Rightarrow> 'w tool_registry" where
  "registry_add t r = r\<lparr>reg_records := reg_records r @ [(registry_record_of t, t)],
     reg_by_name := fold (\<lambda>a. dict_set a t) (tool_aliases t) (dict_set (tool_name t) t (reg_by_name r))\<rparr>"

definition static_registry :: "'w tool list \<Rightarrow> 'w tool_registry" where
  "static_registry tools = fold registry_add tools \<lparr>reg_records = [], reg_by_name = []\<rparr>"

definition list_tools :: "'w tool_registry \<Rightarrow> 'w tool list" where
  "list_tools r = map snd (reg_records r)"

definition list_tool_records :: "'w tool_registry \<Rightarrow> registry_record list" where
  "list_tool_records r = map fst (reg_records r)"

definition resolve_tool :: "'w tool_registry \<Rightarrow> string \<Rightarrow> py_error + 'w tool" where
  "resolve_tool r n = (case dict_get (reg_by_name r) n of
     None \<Rightarrow> Inl (KeyError (''Unknown tool: '' @ n))
   | Some t \<Rightarrow> Inr t)"

definition filter_visible_tools :: "'w tool_registry \<Rightarrow> tool_context option \<Rightarrow> registry_record list" where
  "filter_visible_tools r ctx = map fst (filter (\<lambda>rt. tool_is_enabled (snd rt) ctx) (reg_records r))"

text \<open>A name is known to a tool when it is the tool's own or one of its aliases.\<close>

definition answers_to :: "'w tool \<Rightarrow> string \<Rightarrow> bool" where
  "answers_to t n \<longleftrightarrow> n = tool_name t \<or> n \<in> set (tool_aliases t)"

lemma dict_get_fold_set:
  "dict_get (fold (\<lambda>a. dict_set a v) ks d) k = (if k \<in> set ks then Some v else dict_get d k)"
  by (induction ks arbitrary: d) auto

lemma registry_add_lookup:
  "dict_get (reg_by_name (registry_add t r)) n =
     (if answers_to t n then Some t else dict_get (reg_by_name r) n)"
  by (auto simp: registry_add_def answers_to_def dict_get_fold_set)

lemma registry_fold_lookup:
  "dict_get (reg_by_name (fold registry_add ts r)) n =
     (case find_last (\<lambda>t. answers_to t n) ts of
        None \<Rightarrow> dict_get (reg_by_name r) n | Some t \<Rightarrow> Some t)"
proof (induction ts arbitrary: r rule: rev_induct)
  case (snoc t ts)
  then show ?case by (simp add: registry_add_lookup find_last_def)
qed (simp add: find_last_def)

text \<open>Resolution finds the last registered tool that answers to the name, and only such a tool.\<close>

lemma resolve_static_registry:
  "resolve_tool (static_registry ts) n =
     (case find_last (\<lambda>t. answers_to t n) ts of
        None \<Rightarrow> Inl (KeyError (''Unknown tool: '' @ n)) | Some t \<Rightarrow> Inr t)"
  by (simp add: resolve_tool_def static_registry_def registry_fold_lookup split: option.split)

lemma resolve_static_registry_member:
  assumes "resolve_tool (static_registry ts) n = Inr t"
  shows "t \<in> set ts \<and> answers_to t n"
  using assms by (auto simp: resolve_static_registry find_last_def find_Some_iff
      rev_nth split: option.splits)

lemma fold_registry_records:
  "reg_records (fold registry_add ts r) = reg_records r @ map (\<lambda>t. (registry_record_of t, t)) ts"
  by (induction ts arbitrary: r) (simp_all add: registry_add_def)

lemma list_tools_static [simp]: "list_tools (static_registry ts) = ts"
  by (simp add: list_tools_def static_registry_def fold_registry_records comp_def)

end
