(* ===== verification/SessionStore.thy ===== *)
theory SessionStore
  imports Tools
begin

text \<open>
  Durable sessions: the data of \<^verbatim>\<open>session/models.py\<close> and \<^verbatim>\<open>session/enums.py\<close>, the path
  layout of \<^verbatim>\<open>shared/layout.py\<close> the store uses, and \<open>FileSessionStore\<close> of
  \<^verbatim>\<open>session/store.py\<close>.

  The file system below the store is explicit.  A session directory holds a state file, a transcript
  reference, an event log and a lease; a transcript log is named by its path and is shared by the
  sessions of an agent.  A file that does not exist is \<open>None\<close>; a JSON file is its value and a log the
  list of the values on its lines.  Operations that write return the store they leave behind beside
  their result or exception, because a save that raises may have written its transcript already.

  \<open>se_resolve\<close> stands for \<open>Path(p).expanduser().resolve()\<close>, which depends on the machine, and
  \<open>se_now\<close> for the clock.  Session ids are taken to name distinct directories.  The projection of
  records to external sinks is not modelled.
\<close>

subsection \<open>Sessions\<close>

datatype session_status = SESSION_IDLE | SESSION_RUNNING | SESSION_REQUIRES_ACTION

fun session_status_value :: "session_status \<Rightarrow> string" where
  "session_status_value SESSION_IDLE = ''idle''"
| "session_status_value SESSION_RUNNING = ''running''"
| "session_status_value SESSION_REQUIRES_ACTION = ''requires_action''"

definition session_status_of :: "string \<Rightarrow> py_error + session_status" where
  "session_status_of s =
     (if s = ''idle'' then Inr SESSION_IDLE else if s = ''running'' then Inr SESSION_RUNNING
      else if s = ''requires_action'' then Inr SESSION_REQUIRES_ACTION
      else Inl (ValueError (py_repr_str s @ '' is not a valid SessionStatus'')))"

lemma session_status_roundtrip [simp]: "session_status_of (session_status_value s) = Inr s"
  by (cases s) (simp_all add: session_status_of_def)

record session_message =
  sm_role :: string
  sm_content :: json
  sm_metadata :: json_object

definition session_message_to_dict :: "session_message \<Rightarrow> json_object" where
  "session_message_to_dict m = [(''role'', JStr (sm_role m)), (''content'', sm_content m),
     (''metadata'', JDict (sm_metadata m))]"

definition session_message_from_dict :: "json_object \<Rightarrow> py_error + session_message" where
  "session_message_from_dict d =
     (if \<not> list_all (\<lambda>k. k \<in> set [''role'', ''content'', ''metadata'']) (dict_keys d)
      then Inl (TypeError ''unexpected keyword argument'')
      else case (dict_get d ''role'', dict_get d ''content'') of
        (Some r, Some c) \<Rightarrow> Inr \<lparr>sm_role = py_str r, sm_content = c, sm_metadata = field_dict d ''metadata''\<rparr>
      | _ \<Rightarrow> Inl (TypeError ''missing required argument''))"

lemma session_message_roundtrip [simp]: "session_message_from_dict (session_message_to_dict m) = Inr m"
  by (simp add: session_message_from_dict_def session_message_to_dict_def)

definition session_message_text :: "session_message \<Rightarrow> string" where
  "session_message_text m = (case sm_content m of
     JStr s \<Rightarrow> s
   | JList l \<Rightarrow> if sm_role m = ''tool'' then render_tool_result_content l else py_str (JList l)
   | v \<Rightarrow> py_str v)"

text \<open>Equality of two messages, as the dataclass compares them.\<close>

definition message_eq :: "session_message \<Rightarrow> session_message \<Rightarrow> bool" where
  "message_eq a b \<longleftrightarrow> sm_role a = sm_role b \<and> py_eq (sm_content a) (sm_content b)
     \<and> py_eq (JDict (sm_metadata a)) (JDict (sm_metadata b))"

lemma message_eq_refl [simp]: "message_eq m m"
  by (simp add: message_eq_def)

record session_record =
  sr_id :: string
  sr_agent :: "string option"
  sr_status :: session_status
  sr_messages :: "session_message list"
  sr_events :: "runtime_event list"
  sr_pending :: "tool_call list"
  sr_restore_marker :: "string option"
  sr_short_term :: "json_object option"
  sr_metadata :: json_object

definition new_session :: "string \<Rightarrow> session_record" where
  "new_session s = \<lparr>sr_id = s, sr_agent = None, sr_status = SESSION_IDLE, sr_messages = [],
     sr_events = [], sr_pending = [], sr_restore_marker = None, sr_short_term = None, sr_metadata = []\<rparr>"

text \<open>The dictionaries of a list value, parsed in turn.\<close>

definition parse_dicts :: "(json_object \<Rightarrow> py_error + 'a) \<Rightarrow> json \<Rightarrow> py_error + 'a list" where
  "parse_dicts f v = emap f (List.map_filter as_dict (case as_list v of None \<Rightarrow> [] | Some l \<Rightarrow> l))"

definition session_from_dict :: "json_object \<Rightarrow> py_error + session_record" where
  "session_from_dict d =
     ebind (field_str d ''session_id'') (\<lambda>i.
     ebind (session_status_of (case dict_get d ''status'' of None \<Rightarrow> ''idle'' | Some v \<Rightarrow> py_str v)) (\<lambda>status.
     ebind (parse_dicts session_message_from_dict (jget d ''messages'')) (\<lambda>messages.
     ebind (parse_dicts event_from_dict (jget d ''events'')) (\<lambda>events.
     ebind (parse_dicts tool_call_from_dict (jget d ''pending_tool_calls'')) (\<lambda>pending.
     Inr \<lparr>sr_id = i, sr_agent = field_opt_str d ''agent_id'', sr_status = status,
          sr_messages = messages, sr_events = events, sr_pending = pending,
          sr_restore_marker = field_opt_str d ''restore_marker'',
          sr_short_term = field_opt_dict d ''short_term_memory'',
          sr_metadata = field_dict d ''metadata''\<rparr>)))))"

record session_cursor =
  cu_session :: string
  cu_offset :: int
  cu_last :: "string option"

record session_checkpoint =
  cp_session :: string
  cp_offset :: nat
  cp_last :: "string option"
  cp_cursor :: "session_cursor option"
  cp_committed :: "string option"

record wake_request =
  wr_session :: string
  wr_cursor :: "session_cursor option"
  wr_restore_mode :: string

record resume_snapshot =
  rs_session :: string
  rs_runtime_state :: json_object
  rs_transcript :: "json_object list"
  rs_working_state :: json_object
  rs_short_term :: "json_object option"

record harness_lease =
  hl_session :: string
  hl_harness :: string
  hl_agent :: string
  hl_acquired :: string
  hl_state :: string
  hl_token :: "string option"

definition lease_to_dict :: "harness_lease \<Rightarrow> json_object" where
  "lease_to_dict l = [(''session_id'', JStr (hl_session l)), (''harness_instance_id'', JStr (hl_harness l)),
     (''agent_id'', JStr (hl_agent l)), (''acquired_at'', JStr (hl_acquired l)),
     (''lease_state'', JStr (hl_state l)), (''resume_token'', jopt_str (hl_token l))]"

definition lease_from_dict :: "json_object \<Rightarrow> py_error + harness_lease" where
  "lease_from_dict d =
     (if \<not> list_all (\<lambda>k. k \<in> set [''session_id'', ''harness_instance_id'', ''agent_id'', ''acquired_at'',
            ''lease_state'', ''resume_token'']) (dict_keys d)
      then Inl (TypeError ''unexpected keyword argument'')
      else case (dict_get d ''session_id'', dict_get d ''harness_instance_id'', dict_get d ''agent_id'',
                 dict_get d ''acquired_at'') of
        (Some s, Some h, Some a, Some t) \<Rightarrow>
          Inr \<lparr>hl_session = py_str s, hl_harness = py_str h, hl_agent = py_str a, hl_acquired = py_str t,
               hl_state = (case dict_get d ''lease_state'' of None \<Rightarrow> ''active'' | Some v \<Rightarrow> py_str v),
               hl_token = field_opt_str d ''resume_token''\<rparr>
      | _ \<Rightarrow> Inl (TypeError ''missing required argument''))"

lemma lease_roundtrip [simp]: "lease_from_dict (lease_to_dict l) = Inr l"
  by (simp add: lease_from_dict_def lease_to_dict_def)

subsection \<open>Paths\<close>

definition slash :: char where
  "slash = CHR ''/''"

definition path_join :: "string \<Rightarrow> string \<Rightarrow> string" where
  "path_join a b = (if b = [] then a else if hd b = slash then b
     else if a \<noteq> [] \<and> last a = slash then a @ b else a @ [slash] @ b)"

definition path_name :: "string \<Rightarrow> string" where
  "path_name s = rev (takeWhile (\<lambda>c. c \<noteq> slash) (rev s))"

definition path_parent :: "string \<Rightarrow> string" where
  "path_parent s =
     (let p = rev (drop 1 (dropWhile (\<lambda>c. c \<noteq> slash) (rev s)))
      in if slash \<notin> set s then ''.'' else if p = [] then [slash] else p)"

record store_env =
  se_root :: string
  se_resolve :: "string \<Rightarrow> string"
  se_now :: "nat \<Rightarrow> string"

definition str_blank :: "string \<Rightarrow> bool" where
  "str_blank s \<longleftrightarrow> py_strip s = []"

definition resolve_agent_directory :: "string option \<Rightarrow> string" where
  "resolve_agent_directory role = (case role of None \<Rightarrow> ''agent_default''
     | Some r \<Rightarrow> if str_blank r then ''agent_default'' else ''agent_'' @ py_strip r)"

definition resolve_agent_root :: "store_env \<Rightarrow> string \<Rightarrow> string option \<Rightarrow> string" where
  "resolve_agent_root env root role = path_join (se_resolve env root) (resolve_agent_directory role)"

definition default_runtime_agent_id :: string where
  "default_runtime_agent_id = ''local-agent''"

definition resolve_agent_instance_root :: "store_env \<Rightarrow> string \<Rightarrow> string option \<Rightarrow> string" where
  "resolve_agent_instance_root env root agent =
     path_join (se_resolve env root)
       (case agent of None \<Rightarrow> default_runtime_agent_id
        | Some a \<Rightarrow> if a = [] then default_runtime_agent_id else a)"

definition resolve_agent_transcript_path :: "store_env \<Rightarrow> string \<Rightarrow> string option \<Rightarrow> string" where
  "resolve_agent_transcript_path env root agent =
     path_join (resolve_agent_instance_root env root agent) ''transcript.jsonl''"

definition default_openagent_root :: "store_env \<Rightarrow> string" where
  "default_openagent_root env =
     (if path_name (se_root env) = ''sessions'' then se_resolve env (path_parent (se_root env))
      else path_parent (se_resolve env (se_root env)))"

definition default_transcript_path :: "store_env \<Rightarrow> session_record \<Rightarrow> string" where
  "default_transcript_path env st =
     (let metadata = sr_metadata st;
          from_role = resolve_agent_root env (default_openagent_root env) (as_str (jget metadata ''role_id''));
          agent_root = (case as_str (jget metadata ''agent_root_dir'') of
              None \<Rightarrow> from_role
            | Some r \<Rightarrow> if str_blank r then from_role else se_resolve env r);
          agent_id = (case sr_agent st of
              Some a \<Rightarrow> if a = [] then as_str (jget metadata ''agent_id'') else Some a
            | None \<Rightarrow> as_str (jget metadata ''agent_id''));
          agent_id' = (case agent_id of None \<Rightarrow> default_runtime_agent_id
            | Some a \<Rightarrow> if str_blank a then default_runtime_agent_id else a)
      in resolve_agent_transcript_path env agent_root (Some agent_id'))"

subsection \<open>The files\<close>

record session_files =
  sf_state :: "json option"
  sf_ref :: "string option"
  sf_events :: "json list option"
  sf_lease :: "json option"

record file_store =
  fs_session :: "string \<Rightarrow> session_files"
  fs_transcript :: "string \<Rightarrow> json list option"
  fs_clock :: nat

definition no_files :: session_files where
  "no_files = \<lparr>sf_state = None, sf_ref = None, sf_events = None, sf_lease = None\<rparr>"

definition empty_store :: file_store where
  "empty_store = \<lparr>fs_session = (\<lambda>_. no_files), fs_transcript = (\<lambda>_. None), fs_clock = 0\<rparr>"

definition update_files :: "string \<Rightarrow> (session_files \<Rightarrow> session_files) \<Rightarrow> file_store \<Rightarrow> file_store" where
  "update_files s f fs = fs\<lparr>fs_session := (fs_session fs)(s := f (fs_session fs s))\<rparr>"

definition tick :: "store_env \<Rightarrow> file_store \<Rightarrow> string \<times> file_store" where
  "tick env fs = (se_now env (fs_clock fs), fs\<lparr>fs_clock := Suc (fs_clock fs)\<rparr>)"

subsection \<open>Reading\<close>

definition load_state_payload :: "file_store \<Rightarrow> string \<Rightarrow> py_error + json_object option" where
  "load_state_payload fs s = (case sf_state (fs_session fs s) of
     None \<Rightarrow> Inr None
   | Some (JDict d) \<Rightarrow> Inr (Some d)
   | Some _ \<Rightarrow> Inl (TypeError ''Session file must contain a JSON object''))"

definition resolve_transcript_path :: "store_env \<Rightarrow> file_store \<Rightarrow> string \<Rightarrow> string option" where
  "resolve_transcript_path env fs s = (case sf_ref (fs_session fs s) of
     None \<Rightarrow> None
   | Some r \<Rightarrow> if py_strip r = [] then None else Some (se_resolve env (py_strip r)))"

text \<open>One line of a transcript, for the session that reads it.\<close>

definition read_transcript_line :: "string \<Rightarrow> json \<Rightarrow> session_message option" where
  "read_transcript_line s v = (case as_dict v of
     None \<Rightarrow> None
   | Some raw \<Rightarrow>
       if \<not> py_eq (jget raw ''session_id'') (JStr s) then None
       else (case as_str (jget raw ''role'') of
           None \<Rightarrow> None
         | Some role \<Rightarrow> Some \<lparr>sm_role = role, sm_content = jget raw ''content'',
             sm_metadata = field_dict raw ''metadata''\<rparr>))"

definition read_transcript :: "store_env \<Rightarrow> file_store \<Rightarrow> string \<Rightarrow> session_message list" where
  "read_transcript env fs s = (case resolve_transcript_path env fs s of
     None \<Rightarrow> []
   | Some p \<Rightarrow> (case fs_transcript fs p of
       None \<Rightarrow> [] | Some ls \<Rightarrow> List.map_filter (read_transcript_line s) ls))"

definition parse_events :: "json list \<Rightarrow> py_error + runtime_event list" where
  "parse_events ls = emap event_from_dict (List.map_filter as_dict ls)"

definition event_lines :: "file_store \<Rightarrow> string \<Rightarrow> json list" where
  "event_lines fs s = (case sf_events (fs_session fs s) of None \<Rightarrow> [] | Some ls \<Rightarrow> ls)"

definition read_events ::
  "file_store \<Rightarrow> string \<Rightarrow> int \<Rightarrow> session_cursor option \<Rightarrow> py_error + runtime_event list" where
  "read_events fs s after cursor = (case sf_events (fs_session fs s) of
     None \<Rightarrow> Inr []
   | Some ls \<Rightarrow> parse_events (py_from (case cursor of None \<Rightarrow> after | Some c \<Rightarrow> cu_offset c) ls))"

definition load_session :: "store_env \<Rightarrow> file_store \<Rightarrow> string \<Rightarrow> py_error + session_record" where
  "load_session env fs s =
     ebind (load_state_payload fs s) (\<lambda>payload.
     (let transcript = read_transcript env fs s in
      ebind (read_events fs s 0 None) (\<lambda>events.
      (case payload of
         None \<Rightarrow> Inr ((new_session s)\<lparr>sr_messages := transcript, sr_events := events\<rparr>)
       | Some d \<Rightarrow> ebind (session_from_dict d) (\<lambda>r.
           Inr (r\<lparr>sr_messages := transcript, sr_events := events\<rparr>))))))"

subsection \<open>Writing\<close>

definition persisted_count :: "json_object option \<Rightarrow> string \<Rightarrow> nat" where
  "persisted_count payload k = (case payload of None \<Rightarrow> 0
     | Some d \<Rightarrow> (case as_int (jget d k) of None \<Rightarrow> 0 | Some i \<Rightarrow> if 0 \<le> i then nat i else 0))"

definition validated_transcript_count ::
  "store_env \<Rightarrow> file_store \<Rightarrow> string \<Rightarrow> session_record \<Rightarrow> nat \<Rightarrow> py_error + nat" where
  "validated_transcript_count env fs s st transcript_count =
     (let current = read_transcript env fs s; visible = length current in
      if transcript_count > visible then
        (if list_all2 message_eq current (sr_messages st) then Inr transcript_count
         else Inl (ValueError ''Append-only transcript backing is missing or truncated''))
      else if visible > length (sr_messages st) then
        Inl (ValueError ''Cannot truncate append-only transcript'')
      else if \<not> list_all2 message_eq current (take visible (sr_messages st)) then
        Inl (ValueError ''Append-only transcript diverged from session state'')
      else Inr visible)"

definition validated_event_count ::
  "file_store \<Rightarrow> string \<Rightarrow> session_record \<Rightarrow> nat \<Rightarrow> py_error + nat" where
  "validated_event_count fs s st event_count =
     ebind (read_events fs s 0 None) (\<lambda>current.
     (let visible = length current in
      if event_count > visible then
        (if list_all2 event_eq current (sr_events st) then Inr event_count
         else Inl (ValueError ''Append-only event log backing is missing or truncated''))
      else if visible > length (sr_events st) then
        Inl (ValueError ''Cannot truncate append-only event log'')
      else if \<not> list_all2 event_eq current (take visible (sr_events st)) then
        Inl (ValueError ''Append-only event log diverged from session state'')
      else Inr visible))"

definition role_event_type :: "string \<Rightarrow> runtime_event_type option" where
  "role_event_type role =
     (if role = ''user'' then Some TURN_STARTED
      else if role = ''assistant'' then Some ASSISTANT_MESSAGE
      else if role = ''tool'' then Some TOOL_RESULT else None)"

definition transcript_entry_context ::
  "store_env \<Rightarrow> file_store \<Rightarrow> session_record \<Rightarrow> string \<Rightarrow> (string option \<times> string) \<times> file_store" where
  "transcript_entry_context env fs st role =
     (case (case role_event_type role of None \<Rightarrow> None
            | Some ty \<Rightarrow> find_last (\<lambda>e. ev_type e = ty) (sr_events st)) of
        Some e \<Rightarrow> ((ev_task e, ev_timestamp e), fs)
      | None \<Rightarrow> (case find_last (\<lambda>_. True) (sr_events st) of
          Some e \<Rightarrow> ((ev_task e, ev_timestamp e), fs)
        | None \<Rightarrow> (let (now, fs') = tick env fs in ((None, now), fs'))))"

definition transcript_entry ::
  "store_env \<Rightarrow> file_store \<Rightarrow> string \<Rightarrow> session_record \<Rightarrow> session_message \<Rightarrow> json \<times> file_store" where
  "transcript_entry env fs s st m =
     (let ((turn_id, timestamp), fs') = transcript_entry_context env fs st (sm_role m) in
      (JDict [(''session_id'', JStr s), (''turn_id'', jopt_str turn_id), (''timestamp'', JStr timestamp),
        (''role'', JStr (sm_role m)), (''content'', sm_content m), (''metadata'', JDict (sm_metadata m))], fs'))"

definition append_line :: "string \<Rightarrow> json \<Rightarrow> file_store \<Rightarrow> file_store" where
  "append_line p v fs = fs\<lparr>fs_transcript := (fs_transcript fs)(p :=
     Some ((case fs_transcript fs p of None \<Rightarrow> [] | Some ls \<Rightarrow> ls) @ [v]))\<rparr>"

fun append_messages ::
  "store_env \<Rightarrow> string \<Rightarrow> session_record \<Rightarrow> string \<Rightarrow> session_message list \<Rightarrow> file_store \<Rightarrow> file_store" where
  "append_messages env s st p [] fs = fs"
| "append_messages env s st p (m # ms) fs =
     (let (entry, fs') = transcript_entry env fs s st m
      in append_messages env s st p ms (append_line p entry fs'))"

definition append_transcript_suffix ::
  "store_env \<Rightarrow> string \<Rightarrow> session_record \<Rightarrow> nat \<Rightarrow> string \<Rightarrow> file_store \<Rightarrow> (py_error + unit) \<times> file_store" where
  "append_transcript_suffix env s st n p fs =
     (if n > length (sr_messages st) then (Inl (ValueError ''Cannot truncate append-only transcript''), fs)
      else (Inr (), append_messages env s st p (drop n (sr_messages st)) fs))"

definition append_event_suffix ::
  "string \<Rightarrow> session_record \<Rightarrow> nat \<Rightarrow> file_store \<Rightarrow> (py_error + unit) \<times> file_store" where
  "append_event_suffix s st n fs =
     (if n > length (sr_events st) then (Inl (ValueError ''Cannot truncate append-only event log''), fs)
      else (let new = drop n (sr_events st) in
        (Inr (), if new = [] then fs
         else update_files s (\<lambda>f. f\<lparr>sf_events :=
           Some ((case sf_events f of None \<Rightarrow> [] | Some ls \<Rightarrow> ls) @ map (JDict \<circ> event_to_dict) new)\<rparr>) fs)))"

definition session_state_payload :: "session_record \<Rightarrow> nat \<Rightarrow> nat \<Rightarrow> json_object" where
  "session_state_payload st transcript_count event_count =
     [(''session_id'', JStr (sr_id st)), (''agent_id'', jopt_str (sr_agent st)),
      (''status'', JStr (session_status_value (sr_status st))),
      (''pending_tool_calls'', JList (map (JDict \<circ> tool_call_to_dict) (sr_pending st))),
      (''restore_marker'', jopt_str (sr_restore_marker st)),
      (''short_term_memory'', jopt_dict (sr_short_term st)),
      (''metadata'', JDict (sr_metadata st)),
      (''transcript_message_count'', JInt (int transcript_count)),
      (''event_count'', JInt (int event_count))]"

definition write_session_state :: "string \<Rightarrow> session_record \<Rightarrow> nat \<Rightarrow> nat \<Rightarrow> file_store \<Rightarrow> file_store" where
  "write_session_state s st transcript_count event_count =
     update_files s (\<lambda>f. f\<lparr>sf_state := Some (JDict (session_state_payload st transcript_count event_count))\<rparr>)"

text \<open>The log file of a path is found under its resolved name.\<close>

definition ensure_transcript_ref ::
  "store_env \<Rightarrow> string \<Rightarrow> session_record \<Rightarrow> file_store \<Rightarrow> string \<times> file_store" where
  "ensure_transcript_ref env s st fs = (case resolve_transcript_path env fs s of
     Some p \<Rightarrow> (p, fs)
   | None \<Rightarrow> (let p = se_resolve env (default_transcript_path env st)
       in (p, update_files s (\<lambda>f. f\<lparr>sf_ref := Some p\<rparr>) fs)))"

definition save_session ::
  "store_env \<Rightarrow> string \<Rightarrow> session_record \<Rightarrow> file_store \<Rightarrow> (py_error + unit) \<times> file_store" where
  "save_session env s st fs =
     (case load_state_payload fs s of
        Inl e \<Rightarrow> (Inl e, fs)
      | Inr existing \<Rightarrow>
        (let transcript_count = persisted_count existing ''transcript_message_count'';
             event_count = persisted_count existing ''event_count'';
             (path, fs1) = ensure_transcript_ref env s st fs in
         case validated_transcript_count env fs1 s st transcript_count of
           Inl e \<Rightarrow> (Inl e, fs1)
         | Inr n \<Rightarrow>
           (case validated_event_count fs1 s st event_count of
              Inl e \<Rightarrow> (Inl e, fs1)
            | Inr m \<Rightarrow>
              (case append_transcript_suffix env s st n path fs1 of
                 (Inl e, fs2) \<Rightarrow> (Inl e, fs2)
               | (Inr _, fs2) \<Rightarrow>
                 (case append_event_suffix s st m fs2 of
                    (Inl e, fs3) \<Rightarrow> (Inl e, fs3)
                  | (Inr _, fs3) \<Rightarrow>
                    (Inr (), write_session_state s st (length (sr_messages st)) (length (sr_events st)) fs3))))))"

definition save_session_state_only ::
  "string \<Rightarrow> session_record \<Rightarrow> file_store \<Rightarrow> (py_error + unit) \<times> file_store" where
  "save_session_state_only s st fs = (case load_state_payload fs s of
     Inl e \<Rightarrow> (Inl e, fs)
   | Inr existing \<Rightarrow> (Inr (), write_session_state s st
       (persisted_count existing ''transcript_message_count'') (persisted_count existing ''event_count'') fs))"

definition get_checkpoint ::
  "store_env \<Rightarrow> string \<Rightarrow> file_store \<Rightarrow> (py_error + session_checkpoint) \<times> file_store" where
  "get_checkpoint env s fs = (case read_events fs s 0 None of
     Inl e \<Rightarrow> (Inl e, fs)
   | Inr events \<Rightarrow>
      (let last_id = (if events = [] then None else Some (ev_id (last events)));
           (now, fs') = tick env fs
       in (Inr \<lparr>cp_session = s, cp_offset = length events, cp_last = last_id,
            cp_cursor = Some \<lparr>cu_session = s, cu_offset = int (length events), cu_last = last_id\<rparr>,
            cp_committed = Some now\<rparr>, fs')))"

definition append_events ::
  "store_env \<Rightarrow> string \<Rightarrow> runtime_event list \<Rightarrow> file_store \<Rightarrow>
     (py_error + session_checkpoint) \<times> file_store" where
  "append_events env s evs fs = (case load_session env fs s of
     Inl e \<Rightarrow> (Inl e, fs)
   | Inr r \<Rightarrow> (case save_session env s (r\<lparr>sr_events := sr_events r @ evs\<rparr>) fs of
       (Inl e, fs') \<Rightarrow> (Inl e, fs')
     | (Inr _, fs') \<Rightarrow> get_checkpoint env s fs'))"

definition append_event :: "store_env \<Rightarrow> runtime_event \<Rightarrow> file_store \<Rightarrow> (py_error + unit) \<times> file_store" where
  "append_event env e fs = (case append_events env (ev_session e) [e] fs of
     (Inl x, fs') \<Rightarrow> (Inl x, fs') | (Inr _, fs') \<Rightarrow> (Inr (), fs'))"

definition mark_restored ::
  "store_env \<Rightarrow> string \<Rightarrow> session_cursor option \<Rightarrow> file_store \<Rightarrow> (py_error + unit) \<times> file_store" where
  "mark_restored env s cursor fs = (case load_session env fs s of
     Inl e \<Rightarrow> (Inl e, fs)
   | Inr r \<Rightarrow> (case get_checkpoint env s fs of
       (Inl e, fs') \<Rightarrow> (Inl e, fs')
     | (Inr cp, fs') \<Rightarrow>
         (let marker = (case cursor of
                Some c \<Rightarrow> (case cu_last c of Some l \<Rightarrow> Some l | None \<Rightarrow> cp_last cp)
              | None \<Rightarrow> cp_last cp)
          in save_session_state_only s (r\<lparr>sr_restore_marker := marker\<rparr>) fs')))"

definition get_resume_snapshot ::
  "store_env \<Rightarrow> wake_request \<Rightarrow> file_store \<Rightarrow> py_error + resume_snapshot" where
  "get_resume_snapshot env w fs =
     ebind (load_session env fs (wr_session w)) (\<lambda>session.
     ebind (read_events fs (wr_session w) 0 (wr_cursor w)) (\<lambda>events.
     Inr \<lparr>rs_session = wr_session w,
       rs_runtime_state = [(''status'', JStr (session_status_value (sr_status session))),
         (''restore_marker'', jopt_str (sr_restore_marker session))],
       rs_transcript = map session_message_to_dict (sr_messages session),
       rs_working_state =
         [(''pending_tool_calls'', JList (map (JDict \<circ> tool_call_to_dict) (sr_pending session))),
          (''event_count'', JInt (int (length events)))],
       rs_short_term = sr_short_term session\<rparr>))"

subsection \<open>Leases\<close>

definition get_active_lease :: "file_store \<Rightarrow> string \<Rightarrow> py_error + harness_lease option" where
  "get_active_lease fs s = (case sf_lease (fs_session fs s) of
     None \<Rightarrow> Inr None
   | Some (JDict d) \<Rightarrow> ebind (lease_from_dict d) (\<lambda>l. Inr (Some l))
   | Some _ \<Rightarrow> Inl (TypeError ''Lease file must contain a JSON object''))"

definition acquire_lease ::
  "store_env \<Rightarrow> string \<Rightarrow> string \<Rightarrow> string \<Rightarrow> file_store \<Rightarrow> (py_error + harness_lease) \<times> file_store" where
  "acquire_lease env s h agent fs = (case get_active_lease fs s of
     Inl e \<Rightarrow> (Inl e, fs)
   | Inr existing \<Rightarrow>
       if (case existing of None \<Rightarrow> False | Some l \<Rightarrow> hl_harness l \<noteq> h)
       then (Inl (ValueError ''Session already has an active harness lease''), fs)
       else (let (now, fs1) = tick env fs;
                 l = \<lparr>hl_session = s, hl_harness = h, hl_agent = agent, hl_acquired = now,
                      hl_state = ''active'', hl_token = None\<rparr>
             in (Inr l, update_files s (\<lambda>f. f\<lparr>sf_lease := Some (JDict (lease_to_dict l))\<rparr>) fs1)))"

definition release_lease :: "string \<Rightarrow> string \<Rightarrow> file_store \<Rightarrow> (py_error + bool) \<times> file_store" where
  "release_lease s h fs = (case get_active_lease fs s of
     Inl e \<Rightarrow> (Inl e, fs)
   | Inr existing \<Rightarrow>
       (case existing of
          None \<Rightarrow> (Inr False, fs)
        | Some l \<Rightarrow> if hl_harness l \<noteq> h then (Inr False, fs)
            else (Inr True, update_files s (\<lambda>f. f\<lparr>sf_lease := None\<rparr>) fs)))"

end
