(* ===== verification/Governance.thy ===== *)
theory Governance
  imports SessionStore
begin

text \<open>
  Context governance: \<^verbatim>\<open>governance/context_governance.py\<close>, \<^verbatim>\<open>prompt_cache_strategy.py\<close>,
  \<^verbatim>\<open>context_editing.py\<close> and \<^verbatim>\<open>models.py\<close> under \<^verbatim>\<open>harness/context_engineering\<close>.  Token
  estimates, compaction to the recent messages, the overflow recovery that drops and truncates
  messages until the budget holds, the continuation budget, the prompt-cache keys, and moving large
  tool results out of the transcript into files.

  Python's string hash is the parameter \<open>h\<close> of the cache keys: it differs from process to process.
  The files a result is moved to are a map from paths to texts.
\<close>

record governance =
  gv_max_tokens :: int
  gv_warning_tokens :: int
  gv_compact_to :: int
  gv_overflow_to :: int
  gv_threshold :: int
  gv_storage_dir :: "string option"
  gv_reserve :: int
  gv_minimum :: int

definition default_governance :: governance where
  "default_governance = \<lparr>gv_max_tokens = 1600, gv_warning_tokens = 1200, gv_compact_to = 6,
     gv_overflow_to = 3, gv_threshold = 200, gv_storage_dir = None, gv_reserve = 256, gv_minimum = 128\<rparr>"

subsection \<open>Estimates\<close>

definition message_tokens :: "session_message \<Rightarrow> int" where
  "message_tokens m = max 1 (int (length (session_message_text m)) div 4)"

definition estimate_tokens :: "session_message list \<Rightarrow> string list \<Rightarrow> int" where
  "estimate_tokens ms tools = sum_list (map message_tokens ms) + int (length tools) * 8"

record context_report =
  cr_message_count :: int
  cr_estimated :: int
  cr_tool_results :: int
  cr_over_budget :: bool
  cr_warning :: bool
  cr_remaining :: int
  cr_compacted :: bool
  cr_recovered :: bool
  cr_externalized :: int
  cr_stable_prefix :: int
  cr_dynamic_suffix :: int
  cr_message_budget :: int
  cr_max_output :: int
  cr_cache_key :: "string option"

definition analyze :: "governance \<Rightarrow> session_message list \<Rightarrow> string list \<Rightarrow> context_report" where
  "analyze g ms tools = (let estimated = estimate_tokens ms tools in
     \<lparr>cr_message_count = int (length ms), cr_estimated = estimated,
      cr_tool_results = int (length (filter (\<lambda>m. sm_role m = ''tool'') ms)),
      cr_over_budget = (estimated > gv_max_tokens g),
      cr_warning = (estimated \<ge> gv_warning_tokens g),
      cr_remaining = gv_max_tokens g - estimated,
      cr_compacted = False, cr_recovered = False,
      cr_externalized = int (length (filter (\<lambda>m.
         py_contains ''externalized to internal storage'' (session_message_text m)) ms)),
      cr_stable_prefix = 0, cr_dynamic_suffix = 0, cr_message_budget = 0, cr_max_output = 0,
      cr_cache_key = None\<rparr>)"

definition should_compact :: "governance \<Rightarrow> session_message list \<Rightarrow> bool" where
  "should_compact g ms = (let r = analyze g ms [] in cr_warning r \<or> cr_over_budget r)"

subsection \<open>Compaction\<close>

abbreviation is_user :: "session_message \<Rightarrow> bool" where
  "is_user m \<equiv> sm_role m = ''user''"

text \<open>
  The last \<open>limit\<close> messages, and the latest user message when none of them is one.  The indexes kept
  are those of the suffix, in order after the index added in front of them.
\<close>

definition retain_recent_messages :: "int \<Rightarrow> session_message list \<Rightarrow> session_message list" where
  "retain_recent_messages limit ms =
     (if int (length ms) \<le> limit then ms
      else (let kept = py_from (- limit) ms in
        if list_ex is_user kept then kept
        else (case last_index is_user ms of
            None \<Rightarrow> kept
          | Some i \<Rightarrow>
              (let first = length ms - nat limit;
                   indexes = [first ..< length ms];
                   indexes' = (if i \<in> set indexes then indexes else indexes @ [i])
               in map (\<lambda>j. ms ! j) (sort (remdups indexes'))))))"

record compact_result =
  co_messages :: "json_object list"
  co_summary :: string
  co_count :: int

definition compact :: "governance \<Rightarrow> session_message list \<Rightarrow> compact_result" where
  "compact g ms =
     (if int (length ms) \<le> gv_compact_to g then
        \<lparr>co_messages = map session_message_to_dict ms, co_summary = ''No compaction needed'', co_count = 0\<rparr>
      else (let kept = retain_recent_messages (gv_compact_to g) ms;
                count = int (length ms) - int (length kept)
        in \<lparr>co_messages = map session_message_to_dict kept,
            co_summary = ''Compacted '' @ int_str count @ '' earlier messages into recent-context view'',
            co_count = count\<rparr>))"

subsection \<open>Overflow recovery\<close>

text \<open>The index of the first message the loop may drop.\<close>

fun removable_index :: "nat option \<Rightarrow> nat \<Rightarrow> session_message list \<Rightarrow> nat option" where
  "removable_index latest i [] = None"
| "removable_index latest i (m # ms) =
     (if Some i \<noteq> latest \<and> \<not> is_user m then Some i else removable_index latest (Suc i) ms)"

definition delete_at :: "nat \<Rightarrow> 'a list \<Rightarrow> 'a list" where
  "delete_at i xs = take i xs @ drop (Suc i) xs"

lemma removable_index_bounds:
  "removable_index latest i ms = Some j \<Longrightarrow> i \<le> j \<and> j < i + length ms \<and> \<not> is_user (ms ! (j - i))"
proof (induction ms arbitrary: i)
  case (Cons m ms)
  show ?case
  proof (cases "Some i \<noteq> latest \<and> \<not> is_user m")
    case False
    then have "removable_index latest (Suc i) ms = Some j" using Cons.prems by auto
    from Cons.IH [OF this] show ?thesis by (auto simp: nth_Cons' Suc_diff_le)
  qed (use Cons.prems in auto)
qed simp

lemma length_delete_at [simp]: "i < length xs \<Longrightarrow> length (delete_at i xs) = length xs - 1"
  by (simp add: delete_at_def)

function fit_loop :: "int \<Rightarrow> nat option \<Rightarrow> session_message list \<Rightarrow> nat option \<times> session_message list" where
  "fit_loop budget latest kept =
     (if estimate_tokens kept [] > budget \<and> length kept > 1 then
        (case removable_index latest 0 kept of
           None \<Rightarrow> (latest, kept)
         | Some j \<Rightarrow> fit_loop budget
             (case latest of Some l \<Rightarrow> if j < l then Some (l - 1) else Some l | None \<Rightarrow> None)
             (delete_at j kept))
      else (latest, kept))"
  by pat_completeness auto
termination
  by (relation "measure (\<lambda>(b, l, k). length k)") (auto dest: removable_index_bounds)

declare fit_loop.simps [simp del]

definition fit_messages_within_budget :: "governance \<Rightarrow> session_message list \<Rightarrow> session_message list" where
  "fit_messages_within_budget g ms =
     (if estimate_tokens ms [] \<le> gv_max_tokens g then ms
      else (let (latest, kept) = fit_loop (gv_max_tokens g) (last_index is_user ms) ms in
        case latest of
          None \<Rightarrow> kept
        | Some l \<Rightarrow>
          if estimate_tokens kept [] \<le> gv_max_tokens g then kept
          else (let latest_user = kept ! l;
                    other_tokens = estimate_tokens (delete_at l kept) [];
                    available = max 1 (gv_max_tokens g - other_tokens);
                    text = session_message_text latest_user in
            if message_tokens latest_user \<le> available then kept
            else (let max_chars = max 1 (available * 4);
                      truncated = py_upto max_chars text;
                      content = (if length truncated > 3
                         then py_upto (max_chars - 3) truncated @ ''...'' else truncated)
              in kept[l := \<lparr>sm_role = sm_role latest_user, sm_content = JStr content,
                   sm_metadata = dict_set ''truncated_by_overflow_recovery'' (JBool True)
                     (sm_metadata latest_user)\<rparr>]))))"

record recovery_result =
  re_messages :: "json_object list"
  re_summary :: string
  re_recovered :: bool

definition recovered_messages :: "governance \<Rightarrow> session_message list \<Rightarrow> session_message list" where
  "recovered_messages g ms = fit_messages_within_budget g (retain_recent_messages (gv_overflow_to g) ms)"

definition recover_overflow :: "governance \<Rightarrow> session_message list \<Rightarrow> recovery_result" where
  "recover_overflow g ms =
     (if int (length ms) \<le> gv_overflow_to g then
        \<lparr>re_messages = map session_message_to_dict ms, re_summary = ''No overflow recovery needed'',
         re_recovered = False\<rparr>
      else (let kept = recovered_messages g ms
        in \<lparr>re_messages = map session_message_to_dict kept,
            re_summary = ''Recovered from overflow by trimming '' @
               int_str (int (length ms) - int (length kept)) @ '' earlier messages'',
            re_recovered = True\<rparr>))"

subsection \<open>Prompt cache\<close>

record cache_plan =
  pl_stable :: "json_object list"
  pl_dynamic :: "json_object list"
  pl_breakpoints :: "nat list"
  pl_key :: "string option"

definition key_line :: "session_message \<Rightarrow> string" where
  "key_line m = sm_role m @ '':'' @ py_str (sm_content m)"

definition stable_messages :: "'a list \<Rightarrow> 'a list" where
  "stable_messages ms = (if length ms > 2 then py_upto (- 2) ms else ms)"

definition provider_cache_key :: "(string \<Rightarrow> int) \<Rightarrow> session_message list \<Rightarrow> string option" where
  "provider_cache_key h ms = (if ms = [] then None
     else Some (int_str (abs (h (py_join ''|'' (map key_line (stable_messages ms)))))))"

definition build_prompt_cache_plan :: "(string \<Rightarrow> int) \<Rightarrow> session_message list \<Rightarrow> cache_plan" where
  "build_prompt_cache_plan h ms =
     (if length ms \<le> 2 then
        \<lparr>pl_stable = map session_message_to_dict ms, pl_dynamic = [], pl_breakpoints = [],
         pl_key = provider_cache_key h ms\<rparr>
      else (let stable = map session_message_to_dict (py_upto (- 2) ms) in
        \<lparr>pl_stable = stable, pl_dynamic = map session_message_to_dict (py_from (- 2) ms),
         pl_breakpoints = [length stable], pl_key = provider_cache_key h ms\<rparr>))"

record cache_snapshot =
  sn_stable :: "string option"
  sn_dynamic :: "string option"
  sn_tools :: string
  sn_scope :: string
  sn_ttl :: string
  sn_model :: string
  sn_skip_write :: bool

definition dynamic_key :: "(string \<Rightarrow> int) \<Rightarrow> string \<Rightarrow> string option" where
  "dynamic_key h material = (if material = [] then None else Some (int_str (abs (h material))))"

definition snapshot_prompt_cache ::
  "(string \<Rightarrow> int) \<Rightarrow> session_message list \<Rightarrow> string list \<Rightarrow> string \<Rightarrow> string \<Rightarrow> string \<Rightarrow> cache_snapshot" where
  "snapshot_prompt_cache h ms tools scope ttl model =
     (let plan = build_prompt_cache_plan h ms;
          material = py_join ''|'' (map (\<lambda>d. py_str (jget d ''role'') @ '':'' @ py_str (jget d ''content''))
            (pl_dynamic plan))
      in \<lparr>sn_stable = pl_key plan, sn_dynamic = dynamic_key h material, sn_tools = py_join ''|'' (sort tools),
          sn_scope = scope, sn_ttl = ttl, sn_model = model, sn_skip_write = False\<rparr>)"

definition cache_break_reason :: "cache_snapshot \<Rightarrow> cache_snapshot \<Rightarrow> string option \<times> bool" where
  "cache_break_reason p c =
     (if sn_ttl p \<noteq> sn_ttl c then (Some ''ttl_changed'', True)
      else if sn_scope p \<noteq> sn_scope c then (Some ''cache_scope_changed'', True)
      else if sn_model p \<noteq> sn_model c then (Some ''model_identity_changed'', True)
      else if sn_tools p \<noteq> sn_tools c then (Some ''tool_surface_changed'', True)
      else if sn_stable p \<noteq> sn_stable c then (Some ''prompt_bytes_changed'', False)
      else (None, False))"

definition snapshot_to_dict :: "cache_snapshot \<Rightarrow> json_object" where
  "snapshot_to_dict s = [(''stable_prefix_key'', jopt_str (sn_stable s)),
     (''dynamic_suffix_key'', jopt_str (sn_dynamic s)), (''tool_surface_key'', JStr (sn_tools s)),
     (''cache_scope'', JStr (sn_scope s)), (''ttl_bucket'', JStr (sn_ttl s)),
     (''model_identity'', JStr (sn_model s)), (''skip_cache_write'', JBool (sn_skip_write s))]"

record cache_break =
  br_detected :: bool
  br_reason :: "string option"
  br_previous :: json_object
  br_current :: json_object
  br_expected :: bool

definition detect_cache_break :: "cache_snapshot \<Rightarrow> cache_snapshot \<Rightarrow> cache_break" where
  "detect_cache_break p c = (let (reason, expected) = cache_break_reason p c in
     \<lparr>br_detected = (reason \<noteq> None), br_reason = reason, br_previous = snapshot_to_dict p,
      br_current = snapshot_to_dict c, br_expected = expected\<rparr>)"

definition fork_prompt_cache ::
  "(string \<Rightarrow> int) \<Rightarrow> cache_snapshot \<Rightarrow> session_message list \<Rightarrow> bool \<Rightarrow> cache_snapshot" where
  "fork_prompt_cache h parent child skip =
     parent\<lparr>sn_dynamic := dynamic_key h (py_join ''|'' (map key_line child)), sn_skip_write := skip\<rparr>"

subsection \<open>The continuation budget\<close>

record budget_plan =
  bp_remaining :: int
  bp_reserved :: int
  bp_available :: int
  bp_messages :: int
  bp_compaction :: bool
  bp_overflow :: bool

definition build_continuation_budget_plan :: "int \<Rightarrow> int \<Rightarrow> int \<Rightarrow> bool \<Rightarrow> bool \<Rightarrow> budget_plan" where
  "build_continuation_budget_plan remaining max_tokens reserve warning over =
     (let reserved = min reserve max_tokens in
      \<lparr>bp_remaining = max 0 remaining, bp_reserved = reserved, bp_available = max 0 (max_tokens - reserved),
       bp_messages = max 0 (remaining - reserved), bp_compaction = warning, bp_overflow = over\<rparr>)"

definition continuation_budget_plan :: "governance \<Rightarrow> session_message list \<Rightarrow> string list \<Rightarrow> budget_plan" where
  "continuation_budget_plan g ms tools = (let r = analyze g ms tools in
     build_continuation_budget_plan (cr_remaining r) (gv_max_tokens g) (gv_reserve g) (cr_warning r)
       (cr_over_budget r))"

definition should_allow_continuation :: "governance \<Rightarrow> session_message list \<Rightarrow> string list \<Rightarrow> bool" where
  "should_allow_continuation g ms tools = (let p = continuation_budget_plan g ms tools in
     \<not> bp_overflow p \<and> bp_messages p \<ge> gv_minimum g)"

definition report_for_model_input ::
  "(string \<Rightarrow> int) \<Rightarrow> governance \<Rightarrow> session_message list \<Rightarrow> string list \<Rightarrow> bool \<Rightarrow> bool \<Rightarrow> context_report" where
  "report_for_model_input h g ms tools compacted recovered =
     (let plan = build_prompt_cache_plan h ms; b = continuation_budget_plan g ms tools in
      (analyze g ms tools)\<lparr>cr_compacted := compacted, cr_recovered := recovered,
        cr_stable_prefix := int (length (pl_stable plan)), cr_dynamic_suffix := int (length (pl_dynamic plan)),
        cr_message_budget := bp_messages b, cr_max_output := bp_reserved b, cr_cache_key := pl_key plan\<rparr>)"

subsection \<open>Large tool results\<close>

type_synonym text_files = "string \<Rightarrow> string option"

definition no_output_block :: "string \<Rightarrow> json" where
  "no_output_block n = text_block (''('' @ n @ '' completed with no output)'')"

definition externalize_tool_result ::
  "governance \<Rightarrow> tool_result \<Rightarrow> text_files \<Rightarrow> tool_result \<times> text_files" where
  "externalize_tool_result g r files =
     (if tr_content r = [] then (r\<lparr>tr_content := [no_output_block (tr_name r)]\<rparr>, files)
      else (let normalized = normalize_tool_result_content (tr_content r); r1 = r\<lparr>tr_content := normalized\<rparr> in
        if has_non_textual_tool_result_content normalized then (r1, files)
        else (let text = render_tool_result_content normalized in
          if int (length text) \<le> gv_threshold g then (r1, files)
          else (let preview = py_upto (gv_threshold g) text;
                    ref = map_option (\<lambda>d. path_join d (tr_name r @ ''.txt'')) (gv_storage_dir g);
                    files' = (case ref of None \<Rightarrow> files | Some p \<Rightarrow> files(p \<mapsto> text));
                    metadata = dict_set ''preview'' (JStr preview)
                      (case tr_metadata r of None \<Rightarrow> [] | Some m \<Rightarrow> m);
                    metadata' = (case ref of None \<Rightarrow> metadata
                      | Some p \<Rightarrow> dict_set ''persisted_ref'' (JStr p)
                          (dict_set ''externalized'' (JBool True) metadata))
            in (r1\<lparr>tr_content := [text_block preview], tr_persisted := ref,
                 tr_truncated := Some True, tr_metadata := Some metadata'\<rparr>, files')))))"

record externalization =
  ex_preview :: string
  ex_ref :: "string option"
  ex_done :: bool

definition externalize_payload ::
  "string \<Rightarrow> int \<Rightarrow> string option \<Rightarrow> string \<Rightarrow> text_files \<Rightarrow> externalization \<times> text_files" where
  "externalize_payload payload threshold dir name files =
     (if int (length payload) \<le> threshold then (\<lparr>ex_preview = payload, ex_ref = None, ex_done = False\<rparr>, files)
      else (let ref = map_option (\<lambda>d. path_join d (name @ ''.txt'')) dir in
        (\<lparr>ex_preview = py_upto threshold payload, ex_ref = ref, ex_done = True\<rparr>,
         case ref of None \<Rightarrow> files | Some p \<Rightarrow> files(p \<mapsto> payload))))"

definition tool_result_message_content :: "tool_result \<Rightarrow> string" where
  "tool_result_message_content r =
     (let text = render_tool_result_content (tr_content r);
          prefix_text = (if tr_success r then tr_name r @ '': '' else tr_name r @ '' failed: '')
      in case tr_persisted r of
           None \<Rightarrow> prefix_text @ text
         | Some _ \<Rightarrow> prefix_text @ text @ [newline] @
             ''[tool result externalized to internal storage; this is not a workspace file path '' @
             ''and should not be read with local file tools]'')"

definition tool_result_transcript_content :: "tool_result \<Rightarrow> json" where
  "tool_result_transcript_content r =
     (if tr_content r = [] then JList [no_output_block (tr_name r)]
      else JList (normalize_tool_result_content (tr_content r)))"

end
