(* ===== verification/GovernanceProps.thy ===== *)
theory GovernanceProps
  imports Governance "HOL-Library.Multiset"
begin

text \<open>
  What context governance guarantees: compaction keeps the recent messages and the latest user
  message in order, overflow recovery ends within the budget whenever the user's own messages allow
  it and never drops a user message, an allowed continuation leaves room for the reserved output,
  and a large tool result is cut to its preview with the full text kept in its file (which the next
  large result of the same tool replaces).
\<close>

subsection \<open>Compaction\<close>

lemma last_index_append:
  "last_index P (xs @ ys) = (case last_index P ys of Some i \<Rightarrow> Some (length xs + i) | None \<Rightarrow> last_index P xs)"
  by (induction xs) (auto split: option.splits)

lemma find_last_append:
  "find_last P (xs @ ys) = (case find_last P ys of Some x \<Rightarrow> Some x | None \<Rightarrow> find_last P xs)"
proof -
  have "List.find P (us @ vs) = (case List.find P us of Some x \<Rightarrow> Some x | None \<Rightarrow> List.find P vs)" for us vs
    by (induction us) auto
  then show ?thesis by (simp add: find_last_def split: option.split)
qed

lemma find_last_None: "find_last P xs = None \<longleftrightarrow> (\<forall>x \<in> set xs. \<not> P x)"
  by (auto simp: find_last_def find_None_iff)

lemma find_last_index: "find_last P xs = map_option ((!) xs) (last_index P xs)"
proof (induction xs)
  case (Cons x xs)
  then show ?case
    using find_last_append [of P "[x]" xs]
    by (auto simp: find_last_def split: option.splits)
qed (simp add: find_last_def)

lemma sort_suffix_index: "i < n \<Longrightarrow> sort (remdups ([n ..< k] @ [i])) = i # [n ..< k]"
proof -
  assume "i < n"
  then have r: "remdups ([n ..< k] @ [i]) = [n ..< k] @ [i]"
    by (simp add: distinct_remdups_id)
  have "sort ([n ..< k] @ [i]) = i # [n ..< k]"
  proof (rule properties_for_sort)
    show "mset (i # [n ..< k]) = mset ([n ..< k] @ [i])" by simp
    show "sorted (i # [n ..< k])" using \<open>i < n\<close> by auto
  qed
  then show ?thesis by (simp only: r)
qed

lemma map_nth_upt: "map ((!) xs) [n ..< length xs] = drop n xs"
  by (rule nth_equalityI) simp_all

lemma retain_cases:
  assumes "0 < limit" "limit < int (length ms)"
  shows "retain_recent_messages limit ms =
    (let tail = drop (length ms - nat limit) ms in
     if list_ex is_user tail then tail
     else (case last_index is_user ms of None \<Rightarrow> tail | Some i \<Rightarrow> ms ! i # tail))"
proof -
  let ?n = "length ms - nat limit"
  have kept: "py_from (- limit) ms = drop ?n ms" using assms(1) by (simp add: py_from_def)
  show ?thesis
  proof (cases "list_ex is_user (drop ?n ms)")
    case False
    show ?thesis
    proof (cases "last_index is_user ms")
      case (Some i)
      have "i < ?n"
      proof (rule ccontr)
        assume "\<not> i < ?n"
        then have "ms ! i \<in> set (drop ?n ms)"
          using last_index_Some [OF Some] by (auto simp: in_set_conv_nth intro!: exI [of _ "i - ?n"])
        then show False using False last_index_Some [OF Some] by (auto simp: list_ex_iff)
      qed
      then have "sort (remdups ([?n ..< length ms] @ [i])) = i # [?n ..< length ms]"
        by (rule sort_suffix_index)
      then show ?thesis
        using assms False kept Some \<open>i < ?n\<close> map_nth_upt [of ms ?n]
        by (simp add: retain_recent_messages_def Let_def)
    qed (use assms False kept in \<open>simp add: retain_recent_messages_def\<close>)
  qed (use assms kept in \<open>simp add: retain_recent_messages_def\<close>)
qed

text \<open>
  Compaction keeps, in order, the last \<open>limit\<close> messages and at most one more, which then is the
  latest user message; the latest user message of the conversation is never lost.
\<close>

theorem compaction_keeps_recent:
  assumes "0 < limit" "limit < int (length ms)"
  shows "subseq (retain_recent_messages limit ms) ms
    \<and> suffix (drop (length ms - nat limit) ms) (retain_recent_messages limit ms)
    \<and> int (length (retain_recent_messages limit ms)) \<le> limit + 1
    \<and> find_last is_user (retain_recent_messages limit ms) = find_last is_user ms"
proof -
  let ?n = "length ms - nat limit" and ?t = "drop (length ms - nat limit) ms"
  have split: "ms = take ?n ms @ ?t" by simp
  have len: "int (length ?t) = limit" using assms by simp
  have sub: "subseq ?t ms" by (metis split subseq_drop_many subseq_order.order_refl)
  show ?thesis
  proof (cases "list_ex is_user ?t")
    case True
    then have "find_last is_user ?t \<noteq> None" by (auto simp: find_last_None list_ex_iff)
    then have "find_last is_user ?t = find_last is_user ms"
      using find_last_append [of is_user "take ?n ms" ?t] by (auto split: option.splits)
    then show ?thesis using True sub len by (simp add: retain_cases [OF assms])
  next
    case False
    then have none: "find_last is_user ?t = None" by (auto simp: find_last_None list_ex_iff)
    show ?thesis
    proof (cases "last_index is_user ms")
      case None
      then show ?thesis using False sub len none
        by (simp add: retain_cases [OF assms] find_last_index)
    next
      case (Some i)
      note i = last_index_Some [OF Some]
      have "i < ?n"
      proof (rule ccontr)
        assume "\<not> i < ?n"
        then have "ms ! i \<in> set ?t"
          using i by (auto simp: in_set_conv_nth intro!: exI [of _ "i - ?n"])
        then show False using False i by (auto simp: list_ex_iff)
      qed
      then have "take ?n ms ! i = ms ! i" "i < length (take ?n ms)" by simp_all
      then have "subseq [ms ! i] (take ?n ms)"
        using subseq_singleton_left [of "ms ! i" "take ?n ms"] nth_mem by metis
      then have "subseq ([ms ! i] @ ?t) (take ?n ms @ ?t)" by (rule list_emb_append_mono) simp
      then have "subseq (ms ! i # ?t) ms" by simp
      moreover have "find_last is_user (ms ! i # ?t) = Some (ms ! i)"
        using none i find_last_append [of is_user "[ms ! i]" ?t] by (simp add: find_last_def)
      ultimately show ?thesis using False len Some
        by (simp add: retain_cases [OF assms] find_last_index suffix_ConsI)
    qed
  qed
qed

subsection \<open>Overflow recovery\<close>

text \<open>
  The loop's invariant: the index is that of the latest user message, and no user message was dropped.
\<close>

lemma last_index_delete:
  assumes "j < length xs" "\<not> P (xs ! j)"
  shows "last_index P (delete_at j xs) =
    (case last_index P xs of None \<Rightarrow> None | Some l \<Rightarrow> if j < l then Some (l - 1) else Some l)"
proof -
  have xs: "xs = take j xs @ (xs ! j) # drop (Suc j) xs" using assms(1) by (rule id_take_nth_drop)
  have single: "last_index P (take j xs @ (xs ! j) # drop (Suc j) xs) =
      (case last_index P (drop (Suc j) xs) of Some i \<Rightarrow> Some (Suc (j + i)) | None \<Rightarrow> last_index P (take j xs))"
    using assms by (simp add: last_index_append split: option.split)
  have "l < j" if "last_index P (take j xs) = Some l" for l
    using last_index_Some [OF that] by simp
  then show ?thesis
    using single assms(1) by (auto simp: delete_at_def last_index_append xs [symmetric] split: option.splits)
qed

lemma filter_delete:
  assumes "j < length xs" "\<not> P (xs ! j)"
  shows "filter P (delete_at j xs) = filter P xs"
  using arg_cong [OF id_take_nth_drop [OF assms(1)], of "filter P"] assms(2) by (simp add: delete_at_def)

lemma removable_None:
  "removable_index latest i ms = None \<Longrightarrow> n < length ms \<Longrightarrow> Some (i + n) = latest \<or> is_user (ms ! n)"
proof (induction ms arbitrary: i n)
  case (Cons m ms)
  then have c: "Some i = latest \<or> is_user m" "removable_index latest (Suc i) ms = None"
    by (auto split: if_splits)
  show ?case using Cons.IH [OF c(2), of "n - 1"] Cons.prems(2) c(1) by (cases n) auto
qed simp

lemma fit_loop_spec:
  assumes "fit_loop budget latest kept = (latest', kept')" "latest = last_index is_user kept"
  shows "latest' = last_index is_user kept' \<and> filter is_user kept' = filter is_user kept \<and> subseq kept' kept
    \<and> (estimate_tokens kept' [] \<le> budget \<or> length kept' \<le> 1 \<or> list_all is_user kept')"
  using assms
proof (induction budget latest kept rule: fit_loop.induct)
  case (1 budget latest kept)
  show ?case
  proof (cases "estimate_tokens kept [] > budget \<and> length kept > 1")
    case False
    then have "latest' = latest" "kept' = kept"
      using "1.prems"(1) by (simp_all add: fit_loop.simps [of budget latest kept] split: if_splits)
    then show ?thesis using False "1.prems"(2) by auto
  next
    case True
    show ?thesis
    proof (cases "removable_index latest 0 kept")
      case None
      have "is_user (kept ! n)" if "n < length kept" for n
        using removable_None [OF None that] last_index_Some [of is_user kept n] "1.prems"(2) by auto
      then have "list_all is_user kept" by (simp add: list_all_length)
      moreover have "latest' = latest" "kept' = kept"
        using "1.prems"(1) True None by (simp_all add: fit_loop.simps [of budget latest kept])
      ultimately show ?thesis using "1.prems"(2) by simp
    next
      case (Some j)
      have j: "j < length kept" "\<not> is_user (kept ! j)" using removable_index_bounds [OF Some] by simp_all
      have "fit_loop budget (case latest of None \<Rightarrow> None | Some l \<Rightarrow> if j < l then Some (l - 1) else Some l)
          (delete_at j kept) = (latest', kept')"
        using "1.prems"(1) True Some by (simp add: fit_loop.simps [of budget latest kept])
      from "1.IH" [OF True Some this] "1.prems"(2)
      have "latest' = last_index is_user kept' \<and> filter is_user kept' = filter is_user (delete_at j kept)
          \<and> subseq kept' (delete_at j kept)
          \<and> (estimate_tokens kept' [] \<le> budget \<or> length kept' \<le> 1 \<or> list_all is_user kept')"
        by (simp add: last_index_delete [where P = is_user, OF j])
      moreover have "subseq (delete_at j kept) kept"
      proof -
        have "subseq (take j kept @ drop (Suc j) kept) (take j kept @ kept ! j # drop (Suc j) kept)"
          by (intro list_emb_append_mono) auto
        then show ?thesis using id_take_nth_drop [OF j(1)] by (simp add: delete_at_def)
      qed
      ultimately show ?thesis using filter_delete [where P = is_user, OF j] subseq_order.trans by fastforce
    qed
  qed
qed

lemma estimate_append [simp]: "estimate_tokens (xs @ ys) [] = estimate_tokens xs [] + estimate_tokens ys []"
  by (simp add: estimate_tokens_def)

lemma estimate_Cons [simp]: "estimate_tokens (x # xs) [] = message_tokens x + estimate_tokens xs []"
  by (simp add: estimate_tokens_def)

lemma estimate_delete: "l < length ms \<Longrightarrow> estimate_tokens ms [] = message_tokens (ms ! l) + estimate_tokens (delete_at l ms) []"
  using arg_cong [OF id_take_nth_drop, of l ms "\<lambda>xs. estimate_tokens xs []"] by (simp add: delete_at_def)

lemma delete_update [simp]: "delete_at l (ms[l := m]) = delete_at l ms"
  by (simp add: delete_at_def)

text \<open>The truncated text is worth no more than the tokens available.\<close>

definition truncate_text :: "int \<Rightarrow> string \<Rightarrow> string" where
  "truncate_text available text = (let max_chars = max 1 (available * 4); truncated = py_upto max_chars text in
     if length truncated > 3 then py_upto (max_chars - 3) truncated @ ''...'' else truncated)"

lemma truncate_text_length:
  assumes "1 \<le> available"
  shows "int (length (truncate_text available text)) \<le> available * 4"
proof -
  define k where "k = nat (available * 4)"
  then have k: "available * 4 = int k" "4 \<le> k" using assms by simp_all
  have "max 1 (available * 4) = int k" "nat (int k - 3) = k - 3" using k by simp_all
  moreover have "Suc (Suc (Suc (min (length text) (k - 3)))) \<le> k" if "3 < length text"
    using k(2) by simp
  ultimately show ?thesis using k(2) by (simp add: truncate_text_def Let_def py_upto_def k(1))
qed

text \<open>The room left for the latest user message, at least one token.\<close>

definition room :: "governance \<Rightarrow> nat \<Rightarrow> session_message list \<Rightarrow> int" where
  "room g l kept = max 1 (gv_max_tokens g - estimate_tokens (delete_at l kept) [])"

lemma fit_cases:
  assumes f: "fit_loop (gv_max_tokens g) (last_index is_user ms) ms = (latest, kept)"
    and over: "estimate_tokens ms [] > gv_max_tokens g"
  obtains (kept) "fit_messages_within_budget g ms = kept"
      "latest = None \<or> estimate_tokens kept [] \<le> gv_max_tokens g"
    | (enough) l where "latest = Some l" "fit_messages_within_budget g ms = kept"
      "message_tokens (kept ! l) \<le> room g l kept"
    | (cut) l u where "latest = Some l" "estimate_tokens kept [] > gv_max_tokens g"
      "fit_messages_within_budget g ms = kept[l := u]"
      "sm_role u = sm_role (kept ! l)"
      "sm_content u = JStr (truncate_text (room g l kept) (session_message_text (kept ! l)))"
proof (cases latest)
  case None
  then show thesis using kept f over by (simp add: fit_messages_within_budget_def)
next
  case (Some l)
  show thesis
  proof (cases "estimate_tokens kept [] \<le> gv_max_tokens g")
    case True
    then show thesis using kept f over Some by (simp add: fit_messages_within_budget_def)
  next
    case False
    show thesis
    proof (cases "message_tokens (kept ! l) \<le> room g l kept")
      case True
      then show thesis using enough [OF Some] f over Some False
        by (simp add: fit_messages_within_budget_def Let_def room_def)
    next
      case small: False
      define u where "u = \<lparr>sm_role = sm_role (kept ! l),
        sm_content = JStr (truncate_text (room g l kept) (session_message_text (kept ! l))),
        sm_metadata = dict_set ''truncated_by_overflow_recovery'' (JBool True) (sm_metadata (kept ! l))\<rparr>"
      have "fit_messages_within_budget g ms = kept[l := u]"
        using f over Some False small
        by (simp add: fit_messages_within_budget_def Let_def room_def u_def truncate_text_def)
      from cut [OF Some _ this] show thesis using False by (simp add: u_def)
    qed
  qed
qed

lemma cut_tokens:
  assumes "sm_content u = JStr (truncate_text (room g l kept) t)"
  shows "message_tokens u \<le> room g l kept"
proof -
  have r: "1 \<le> room g l kept" by (simp add: room_def)
  have "int (length (session_message_text u)) \<le> room g l kept * 4"
    using truncate_text_length [OF r, of t] assms by (simp add: session_message_text_def)
  then show ?thesis using r by (simp add: message_tokens_def)
qed

lemma last_index_filter:
  assumes "last_index P xs = Some l"
  shows "filter P xs = filter P (take l xs) @ [xs ! l]" "filter P (drop (Suc l) xs) = []"
proof -
  note i = last_index_Some [OF assms]
  show none: "filter P (drop (Suc l) xs) = []"
    using i by (auto simp: filter_empty_conv in_set_conv_nth)
  show "filter P xs = filter P (take l xs) @ [xs ! l]"
    using arg_cong [OF id_take_nth_drop [of l xs], of "filter P"] i none by simp
qed

text \<open>
  Overflow recovery never drops a user message: the conversation it returns has the same user
  messages as the one it was given, except that the latest may be cut short.
\<close>

theorem overflow_keeps_user_messages:
  "length (filter is_user (fit_messages_within_budget g ms)) = length (filter is_user ms)
    \<and> butlast (filter is_user (fit_messages_within_budget g ms)) = butlast (filter is_user ms)"
proof (cases "estimate_tokens ms [] \<le> gv_max_tokens g")
  case True
  then show ?thesis by (simp add: fit_messages_within_budget_def)
next
  case False
  obtain latest kept where f: "fit_loop (gv_max_tokens g) (last_index is_user ms) ms = (latest, kept)"
    by (cases "fit_loop (gv_max_tokens g) (last_index is_user ms) ms")
  note spec = fit_loop_spec [OF f refl]
  from False have over: "estimate_tokens ms [] > gv_max_tokens g" by simp
  show ?thesis
  proof (rule fit_cases [OF f over])
    fix l u
    assume c: "latest = Some l" "fit_messages_within_budget g ms = kept[l := u]" "sm_role u = sm_role (kept ! l)"
    then have l: "last_index is_user kept = Some l" using spec by simp
    note i = last_index_Some [OF l] last_index_filter [OF l]
    have "filter is_user (kept[l := u]) = filter is_user (take l kept) @ [u]"
      using i c(3) by (simp add: upd_conv_take_nth_drop)
    then show ?thesis using c(2) spec i(2) by (metis butlast_snoc length_append_singleton)
  qed (use spec in simp_all)
qed


subsection \<open>Budgets, cache keys and large results\<close>

text \<open>
  When governance lets the turn continue, the conversation, the reserved output and the minimum
  continuation fit into the maximum together.
\<close>

theorem continuation_leaves_room:
  assumes "should_allow_continuation g ms tools" "0 < gv_minimum g"
  shows "estimate_tokens ms tools + min (gv_reserve g) (gv_max_tokens g) + gv_minimum g \<le> gv_max_tokens g"
  using assms
  by (simp add: should_allow_continuation_def continuation_budget_plan_def build_continuation_budget_plan_def
      analyze_def Let_def max_def split: if_split_asm)

text \<open>
  No cache break is reported exactly when the five keys agree, and a forked child
  never breaks its parent's cache, whatever messages it adds.
\<close>

theorem cache_break_iff_keys_differ:
  "(\<not> br_detected (detect_cache_break p c)) =
     (sn_ttl p = sn_ttl c \<and> sn_scope p = sn_scope c \<and> sn_model p = sn_model c
      \<and> sn_tools p = sn_tools c \<and> sn_stable p = sn_stable c)
   \<and> \<not> br_detected (detect_cache_break p (fork_prompt_cache h p ms skip))"
  by (simp add: detect_cache_break_def cache_break_reason_def fork_prompt_cache_def)

lemma length_py_strip: "length (py_strip s) \<le> length s"
  by (metis length_dropWhile_le length_rev order.trans py_strip_def)

lemma render_text_block: "render_tool_result_content [text_block t] = py_strip t"
  by (simp add: render_tool_result_content_def normalize_tool_result_content_def render_blocks_def
      text_block_def block_text_def py_strip_def)

text \<open>
  A textual tool result that goes into the transcript renders to at most the threshold; one that
  is longer is replaced by its preview, marked truncated, and its whole text is in the file it names.
\<close>

theorem externalized_result_bounded:
  assumes "externalize_tool_result g r files = (r', files')" "0 \<le> gv_threshold g" "tr_content r \<noteq> []"
    "\<not> has_non_textual_tool_result_content (tr_content r)"
  shows "int (length (render_tool_result_content (tr_content r'))) \<le> gv_threshold g
    \<and> (int (length (render_tool_result_content (tr_content r))) \<le> gv_threshold g \<and> files' = files
       \<or> tr_truncated r' = Some True
         \<and> (\<forall>p. tr_persisted r' = Some p \<longrightarrow> files' p = Some (render_tool_result_content (tr_content r)))
         \<and> (tr_persisted r' = None) = (gv_storage_dir g = None))"
proof -
  have plain: "\<not> has_non_textual_tool_result_content (normalize_tool_result_content (tr_content r))"
    using assms(4) by (simp add: has_non_textual_tool_result_content_def)
  have ren: "render_tool_result_content (normalize_tool_result_content c) = render_tool_result_content c" for c
    by (simp add: render_tool_result_content_def)
  show ?thesis
  proof (cases "int (length (render_tool_result_content (tr_content r))) \<le> gv_threshold g")
    case True
    then show ?thesis using assms(1,3) plain by (auto simp: externalize_tool_result_def ren Let_def)
  next
    case False
    have "int (length (py_strip (py_upto (gv_threshold g) t))) \<le> gv_threshold g" for t
    proof -
      have "int (length (py_upto (gv_threshold g) t)) \<le> gv_threshold g"
        using assms(2) by (simp add: py_upto_def)
      then show ?thesis using length_py_strip [of "py_upto (gv_threshold g) t"] by linarith
    qed
    then show ?thesis using assms(1,3) plain False
      by (cases "gv_storage_dir g") (auto simp: externalize_tool_result_def ren Let_def render_text_block)
  qed
qed

text \<open>
  Two large results of one tool share a file: after the second, the reference the first one
  carries names the text of the second.
\<close>

theorem externalized_result_overwritten:
  assumes "gv_storage_dir g = Some d" "tr_name r1 = tr_name r2"
    "\<not> has_non_textual_tool_result_content (tr_content r1)"
    "\<not> has_non_textual_tool_result_content (tr_content r2)"
    "gv_threshold g < int (length (render_tool_result_content (tr_content r1)))"
    "gv_threshold g < int (length (render_tool_result_content (tr_content r2)))"
    "tr_content r1 \<noteq> []" "tr_content r2 \<noteq> []"
    "externalize_tool_result g r1 files = (r1', files1)" "externalize_tool_result g r2 files1 = (r2', files2)"
  shows "\<exists>p. tr_persisted r1' = Some p \<and> files2 p = Some (render_tool_result_content (tr_content r2))"
  using assms
  by (auto simp: externalize_tool_result_def Let_def has_non_textual_tool_result_content_def
      render_tool_result_content_def)

subsection \<open>Concrete conversations\<close>

definition gov_msg :: "string \<Rightarrow> string \<Rightarrow> session_message" where
  "gov_msg r t = \<lparr>sm_role = r, sm_content = JStr t, sm_metadata = []\<rparr>"

lemma compaction_keeps_recent_witness:
  "subseq (retain_recent_messages 1 [gov_msg ''user'' ''u'', gov_msg ''tool'' ''a'', gov_msg ''tool'' ''b''])
     [gov_msg ''user'' ''u'', gov_msg ''tool'' ''a'', gov_msg ''tool'' ''b'']"
proof -
  have "0 < (1::int)" "1 < int (length [gov_msg ''user'' ''u'', gov_msg ''tool'' ''a'', gov_msg ''tool'' ''b''])"
    by simp_all
  from compaction_keeps_recent [OF this] show ?thesis by (elim conjE)
qed

definition tight_governance :: governance where
  "tight_governance = default_governance\<lparr>gv_max_tokens := 3, gv_storage_dir := Some ''/x'', gv_threshold := 2\<rparr>"

definition long_conversation :: "session_message list" where
  "long_conversation = [gov_msg ''user'' ''hello'', gov_msg ''tool'' ''0123456789'',
     gov_msg ''user'' ''01234567890123456789'']"


lemma continuation_leaves_room_witness:
  "estimate_tokens [gov_msg ''user'' ''hi''] [''t''] + min (gv_reserve default_governance)
     (gv_max_tokens default_governance) + gv_minimum default_governance \<le> gv_max_tokens default_governance"
  by (rule continuation_leaves_room) code_simp+

definition gov_result :: "string \<Rightarrow> tool_result" where
  "gov_result t = \<lparr>tr_name = ''grep'', tr_success = True, tr_content = [JStr t], tr_structured = None,
     tr_metadata = None, tr_persisted = None, tr_truncated = None\<rparr>"

lemma externalized_result_bounded_witness:
  "int (length (render_tool_result_content (tr_content (fst
     (externalize_tool_result tight_governance (gov_result ''long'') (\<lambda>_. None)))))) \<le> 2"
proof -
  obtain r' files' where e: "externalize_tool_result tight_governance (gov_result ''long'') (\<lambda>_. None) = (r', files')"
    by (cases "externalize_tool_result tight_governance (gov_result ''long'') (\<lambda>_. None)")
  have "0 \<le> gv_threshold tight_governance" "tr_content (gov_result ''long'') \<noteq> []"
      "\<not> has_non_textual_tool_result_content (tr_content (gov_result ''long''))" "gv_threshold tight_governance = 2"
    by code_simp+
  then show ?thesis using externalized_result_bounded [OF e] by (simp add: e)
qed

lemma externalized_result_overwritten_witness:
  "\<exists>p r1' files1 r2' files2. externalize_tool_result tight_governance (gov_result ''first'') (\<lambda>_. None) = (r1', files1)
     \<and> externalize_tool_result tight_governance (gov_result ''second'') files1 = (r2', files2)
     \<and> tr_persisted r1' = Some p \<and> files2 p = Some ''second''"
proof -
  obtain r1' files1 where 1: "externalize_tool_result tight_governance (gov_result ''first'') (\<lambda>_. None) = (r1', files1)"
    by (cases "externalize_tool_result tight_governance (gov_result ''first'') (\<lambda>_. None)")
  obtain r2' files2 where 2: "externalize_tool_result tight_governance (gov_result ''second'') files1 = (r2', files2)"
    by (cases "externalize_tool_result tight_governance (gov_result ''second'') files1")
  have d: "gv_storage_dir tight_governance = Some ''/x''" by (simp add: tight_governance_def)
  have n: "tr_name (gov_result ''first'') = tr_name (gov_result ''second'')" by (simp add: gov_result_def)
  have t: "\<not> has_non_textual_tool_result_content (tr_content (gov_result ''first''))"
    "\<not> has_non_textual_tool_result_content (tr_content (gov_result ''second''))" by code_simp+
  have l: "gv_threshold tight_governance < int (length (render_tool_result_content (tr_content (gov_result ''first''))))"
    "gv_threshold tight_governance < int (length (render_tool_result_content (tr_content (gov_result ''second''))))"
    by code_simp+
  have c: "tr_content (gov_result ''first'') \<noteq> []" "tr_content (gov_result ''second'') \<noteq> []"
    by (simp_all add: gov_result_def)
  have s: "render_tool_result_content (tr_content (gov_result ''second'')) = ''second''" by code_simp
  show ?thesis using externalized_result_overwritten [OF d n t l c 1 2] 1 2 by (auto simp: s)
qed

end
