(* ===== verification/TaskStore.thy ===== *)
theory TaskStore
  imports ObjectModel
begin

text \<open>
  The storages of the task subsystem, \<^verbatim>\<open>harness/task/storage.py\<close>, with the dispatch on them that
  \<open>TaskRegistry\<close> of \<^verbatim>\<open>registry.py\<close> has in its private methods: the registry asks which storage it has
  in each of them, which here is a record of the operations of that storage.

  \<open>InMemoryTaskStorage\<close> is four dictionaries.  \<open>FileTaskStorage\<close> is four directories of JSON files, named
  by the task ids, and a counter file; a file is the JSON value it holds, whose objects are sorted by
  their keys because the storage prints them so.  Task ids are taken to name distinct files.
\<close>

declare map_of_eq_Some_iff [simp del]

subsection \<open>Sorted JSON\<close>

text \<open>The value \<open>json.loads(json.dumps(x, sort_keys=True))\<close>.\<close>

fun sorted_json :: "json \<Rightarrow> json" and sorted_items :: "(string \<times> json) list \<Rightarrow> (string \<times> json) list" where
  "sorted_json (JList l) = JList (map sorted_json l)"
| "sorted_json (JDict d) = JDict (sort_key fst (sorted_items d))"
| "sorted_json x = x"
| "sorted_items [] = []"
| "sorted_items ((k, v) # r) = (k, sorted_json v) # sorted_items r"

definition sorted_object :: "json_object \<Rightarrow> json_object" where
  "sorted_object d = sort_key fst (map (apsnd sorted_json) d)"

lemma sorted_items_map: "sorted_items d = map (apsnd sorted_json) d"
  by (induction d) auto

lemma sorted_json_dict [simp]: "sorted_json (JDict d) = JDict (sorted_object d)"
  by (simp add: sorted_object_def sorted_items_map)

declare sorted_json.simps(2) [simp del]

lemma map_of_insort: "map_of (insort_key fst (k, v) d) = (map_of d)(k \<mapsto> v)"
  by (induction d) (auto simp: fun_eq_iff)

lemma map_of_sort_key [simp]: "map_of (sort_key fst d) = map_of d"
  by (induction d) (auto simp: map_of_insort)

lemma insort_apsnd: "map (apsnd f) (insort_key fst x d) = insort_key fst (apsnd f x) (map (apsnd f) d)"
  by (induction d) auto

lemma sort_apsnd: "map (apsnd f) (sort_key fst d) = sort_key fst (map (apsnd f) d)"
  by (induction d) (auto simp: insort_apsnd)

lemma map_of_sorted [simp]: "map_of (sorted_object d) k = map_option sorted_json (map_of d k)"
proof -
  have "map_of (map (apsnd sorted_json) d) k = map_option sorted_json (map_of d k)"
    by (induction d) auto
  then show ?thesis by (simp add: sorted_object_def)
qed

lemma sorted_json_idem [simp]: "sorted_json (sorted_json j) = sorted_json j"
  and sorted_items_idem: "map (apsnd sorted_json) (sorted_items d) = sorted_items d"
proof (induction j and d rule: sorted_json_sorted_items.induct)
  case (2 d)
  have "sorted_object (sorted_object d) = sort_key fst (map (apsnd sorted_json) (sort_key fst (sorted_items d)))"
    by (simp only: sorted_object_def sorted_items_map)
  also have "\<dots> = sort_key fst (sort_key fst (sorted_items d))"
    by (simp only: sort_apsnd 2)
  also have "\<dots> = sorted_object d"
    by (simp only: sort_key_id_if_sorted [OF sorted_sort_key] sorted_object_def sorted_items_map)
  finally show ?case by simp
qed auto

lemma sorted_object_idem [simp]: "sorted_object (sorted_object d) = sorted_object d"
  using sorted_json_idem [of "JDict d"] by simp

lemma jget_sorted [simp]: "jget (sorted_object d) k = sorted_json (jget d k)"
  by (simp add: jget_def split: option.split)

lemma py_str_sorted_str: "is_jstr v \<Longrightarrow> py_str (sorted_json v) = py_str v"
  by (cases v) auto

subsection \<open>Integers in text\<close>

fun digits_value :: "nat \<Rightarrow> string \<Rightarrow> nat option" where
  "digits_value acc [] = Some acc"
| "digits_value acc (c # r) =
     (if is_digit c then digits_value (10 * acc + (code c - 48)) r
      else if c = CHR ''_'' \<and> (case r of [] \<Rightarrow> False | d # _ \<Rightarrow> is_digit d) then digits_value acc r
      else None)"

text \<open>\<open>int(s)\<close> on ASCII text.\<close>

definition py_int :: "string \<Rightarrow> py_error + int" where
  "py_int s =
     (let t = py_strip s;
          (sign, u) = (case t of [] \<Rightarrow> (1, [])
            | c # r \<Rightarrow> if c = CHR ''-'' then (-1, r) else if c = CHR ''+'' then (1, r) else (1, t));
          bad = Inl (ValueError (''invalid literal for int() with base 10: '' @ py_repr_str s))
      in case u of
           [] \<Rightarrow> bad
         | c # _ \<Rightarrow> (case (is_digit c, digits_value 0 u) of
             (True, Some n) \<Rightarrow> Inr (sign * int n) | _ \<Rightarrow> bad))"

lemma code_digit: "n < 10 \<Longrightarrow> code (digit_char n) = 48 + n"
  by (simp add: code_def digit_char_def)

lemma digit_char_digit: "n < 10 \<Longrightarrow> is_digit (digit_char n)"
  by (simp add: is_digit_def code_digit)

lemma digits_value_snoc:
  "digits_value acc s = Some m \<Longrightarrow> is_digit c \<Longrightarrow> digits_value acc (s @ [c]) = Some (10 * m + (code c - 48))"
proof (induction acc s rule: digits_value.induct)
  case (2 acc d r)
  then show ?case by (cases r) (auto split: if_splits)
qed simp

lemma digits_value_nat_str: "digits_value 0 (nat_str n) = Some n"
proof (induction n rule: nat_str.induct)
  case (1 n)
  show ?case
  proof (cases "n < 10")
    case True
    then show ?thesis by (simp add: nat_str.simps [of n] digit_char_digit code_digit)
  next
    case False
    then have "digits_value 0 (nat_str (n div 10) @ [digit_char (n mod 10)]) = Some (10 * (n div 10) + n mod 10)"
      using digits_value_snoc [OF "1.IH" digit_char_digit [of "n mod 10"]] by (simp add: code_digit)
    then show ?thesis using False by (simp add: nat_str.simps [of n])
  qed
qed

lemma nat_str_digits: "c \<in> set (nat_str n) \<Longrightarrow> is_digit c"
proof (induction n rule: nat_str.induct)
  case (1 n)
  then show ?case
    using digit_char_digit by (auto simp: nat_str.simps [of n] split: if_splits)
qed

lemma strip_nat_str [simp]: "py_strip (nat_str n) = nat_str n"
proof -
  have "\<not> is_space c" if "c \<in> set (nat_str n)" for c
    using nat_str_digits [OF that] by (simp add: is_digit_def is_space_def Let_def)
  then have "dropWhile is_space (nat_str n) = nat_str n" "dropWhile is_space (rev (nat_str n)) = rev (nat_str n)"
    by (cases "nat_str n", simp, simp, cases "rev (nat_str n)", simp, metis dropWhile.simps(2) list.set_intros(1) set_rev)
  then show ?thesis by (simp add: py_strip_def)
qed

lemma py_int_nat_str [simp]: "py_int (nat_str n) = Inr (int n)"
proof -
  obtain c r where s: "nat_str n = c # r" by (cases "nat_str n") auto
  then have c: "is_digit c" using nat_str_digits [of c n] by simp
  then have "c \<noteq> CHR ''-''" "c \<noteq> CHR ''+''" by (auto simp: is_digit_def code_def)
  then show ?thesis using c digits_value_nat_str [of n] by (simp add: py_int_def s [symmetric]) (simp add: s)
qed

subsection \<open>What a storage offers\<close>

text \<open>
  The operations the registry calls, over a state of the storage; reading may raise.
\<close>

record 's task_backend =
  tb_next :: "'s \<Rightarrow> (py_error + string) \<times> 's"
  tb_get :: "'s \<Rightarrow> string \<Rightarrow> py_error + task_record"
  tb_all :: "'s \<Rightarrow> py_error + task_record list"
  tb_put :: "task_record \<Rightarrow> 's \<Rightarrow> 's"
  tb_events :: "'s \<Rightarrow> string \<Rightarrow> py_error + task_event list"
  tb_put_events :: "string \<Rightarrow> task_event list \<Rightarrow> 's \<Rightarrow> 's"
  tb_outputs :: "'s \<Rightarrow> string \<Rightarrow> py_error + json list"
  tb_put_outputs :: "string \<Rightarrow> json list \<Rightarrow> 's \<Rightarrow> 's"
  tb_observers :: "'s \<Rightarrow> string \<Rightarrow> py_error + string set"
  tb_put_observers :: "string \<Rightarrow> string set \<Rightarrow> 's \<Rightarrow> 's"
  tb_remove :: "bool \<Rightarrow> string \<Rightarrow> 's \<Rightarrow> 's"

subsection \<open>In memory\<close>

record memory_storage =
  ms_tasks :: "(string, task_record) pydict"
  ms_events :: "(string, task_event list) pydict"
  ms_outputs :: "(string, json list) pydict"
  ms_observers :: "(string, string set) pydict"
  ms_counter :: nat

definition empty_memory :: memory_storage where
  "empty_memory = \<lparr>ms_tasks = [], ms_events = [], ms_outputs = [], ms_observers = [], ms_counter = 0\<rparr>"

definition memory_next_task_id :: "memory_storage \<Rightarrow> (py_error + string) \<times> memory_storage" where
  "memory_next_task_id s = (let n = Suc (ms_counter s) in (Inr (''task_'' @ nat_str n), s\<lparr>ms_counter := n\<rparr>))"

definition memory_remove :: "bool \<Rightarrow> string \<Rightarrow> memory_storage \<Rightarrow> memory_storage" where
  "memory_remove output i s = s\<lparr>ms_tasks := dict_pop i (ms_tasks s), ms_events := dict_pop i (ms_events s),
     ms_observers := dict_pop i (ms_observers s),
     ms_outputs := (if output then dict_pop i (ms_outputs s) else ms_outputs s)\<rparr>"

definition memory_backend :: "memory_storage task_backend" where
  "memory_backend = \<lparr>tb_next = memory_next_task_id,
     tb_get = (\<lambda>s i. case dict_get (ms_tasks s) i of None \<Rightarrow> Inl (KeyError i) | Some t \<Rightarrow> Inr t),
     tb_all = (\<lambda>s. Inr (dict_values (ms_tasks s))),
     tb_put = (\<lambda>t s. s\<lparr>ms_tasks := dict_set (tk_id t) t (ms_tasks s)\<rparr>),
     tb_events = (\<lambda>s i. Inr (dict_get_default (ms_events s) i [])),
     tb_put_events = (\<lambda>i es s. s\<lparr>ms_events := dict_set i es (ms_events s)\<rparr>),
     tb_outputs = (\<lambda>s i. Inr (dict_get_default (ms_outputs s) i [])),
     tb_put_outputs = (\<lambda>i js s. s\<lparr>ms_outputs := dict_set i js (ms_outputs s)\<rparr>),
     tb_observers = (\<lambda>s i. Inr (dict_get_default (ms_observers s) i {})),
     tb_put_observers = (\<lambda>i bs s. s\<lparr>ms_observers := dict_set i bs (ms_observers s)\<rparr>),
     tb_remove = memory_remove\<rparr>"

subsection \<open>In files\<close>

text \<open>A directory maps the stem of a file to its JSON value; the counter file holds text.\<close>

record task_files =
  tf_counter :: "string option"
  tf_tasks :: "(string, json) pydict"
  tf_events :: "(string, json) pydict"
  tf_outputs :: "(string, json) pydict"
  tf_observers :: "(string, json) pydict"

definition empty_task_files :: task_files where
  "empty_task_files = \<lparr>tf_counter = None, tf_tasks = [], tf_events = [], tf_outputs = [], tf_observers = []\<rparr>"

definition file_next_task_id :: "task_files \<Rightarrow> (py_error + string) \<times> task_files" where
  "file_next_task_id s =
     (case (case tf_counter s of None \<Rightarrow> Inr 0
         | Some text \<Rightarrow> py_int (let t = py_strip text in if t = [] then ''0'' else t)) of
        Inl e \<Rightarrow> (Inl e, s)
      | Inr current \<Rightarrow> (Inr (''task_'' @ int_str (current + 1)), s\<lparr>tf_counter := Some (int_str (current + 1))\<rparr>))"

text \<open>\<open>_read_json\<close> on a file that may be missing, and on the value it holds.\<close>

definition read_json_object :: "json \<Rightarrow> py_error + json_object" where
  "read_json_object j = (case as_dict j of None \<Rightarrow> Inl (ValueError ''Expected JSON object'') | Some d \<Rightarrow> Inr d)"

definition file_read_task :: "task_files \<Rightarrow> string \<Rightarrow> py_error + task_record" where
  "file_read_task s i = (case dict_get (tf_tasks s) i of
     None \<Rightarrow> Inl (OtherError ''No such file or directory'')
   | Some j \<Rightarrow> ebind (read_json_object j) task_from_dict)"

definition file_write_task :: "task_record \<Rightarrow> task_files \<Rightarrow> task_files" where
  "file_write_task t s = s\<lparr>tf_tasks := dict_set (tk_id t) (sorted_json (JDict (task_to_dict t))) (tf_tasks s)\<rparr>"

text \<open>The files are listed by their names, extension included.\<close>

definition file_list_tasks :: "task_files \<Rightarrow> py_error + task_record list" where
  "file_list_tasks s = emap (file_read_task s) (sort_key (\<lambda>i. i @ ''.json'') (dict_keys (tf_tasks s)))"

definition file_read_events :: "task_files \<Rightarrow> string \<Rightarrow> py_error + task_event list" where
  "file_read_events s i = (case dict_get (tf_events s) i of
     None \<Rightarrow> Inr []
   | Some j \<Rightarrow> ebind (read_json_object j) (\<lambda>d. case as_list (jget d ''events'') of
        None \<Rightarrow> Inr []
      | Some l \<Rightarrow> emap task_event_from_dict (List.map_filter as_dict l)))"

definition file_write_events :: "string \<Rightarrow> task_event list \<Rightarrow> task_files \<Rightarrow> task_files" where
  "file_write_events i es s = s\<lparr>tf_events := dict_set i
     (sorted_json (JDict [(''events'', JList (map (JDict \<circ> task_event_to_dict) es))])) (tf_events s)\<rparr>"

definition file_read_outputs :: "task_files \<Rightarrow> string \<Rightarrow> py_error + json list" where
  "file_read_outputs s i = (case dict_get (tf_outputs s) i of
     None \<Rightarrow> Inr []
   | Some j \<Rightarrow> ebind (read_json_object j) (\<lambda>d.
        Inr (case as_list (jget d ''items'') of None \<Rightarrow> [] | Some l \<Rightarrow> l)))"

definition file_write_outputs :: "string \<Rightarrow> json list \<Rightarrow> task_files \<Rightarrow> task_files" where
  "file_write_outputs i items s = s\<lparr>tf_outputs := dict_set i
     (sorted_json (JDict [(''items'', JList items)])) (tf_outputs s)\<rparr>"

definition file_read_observers :: "task_files \<Rightarrow> string \<Rightarrow> py_error + string set" where
  "file_read_observers s i = (case dict_get (tf_observers s) i of
     None \<Rightarrow> Inr {}
   | Some j \<Rightarrow> ebind (read_json_object j) (\<lambda>d.
        Inr (case as_list (jget d ''bindings'') of None \<Rightarrow> {} | Some l \<Rightarrow> set (map py_str l))))"

definition file_write_observers :: "string \<Rightarrow> string set \<Rightarrow> task_files \<Rightarrow> task_files" where
  "file_write_observers i bs s = s\<lparr>tf_observers := dict_set i
     (sorted_json (JDict [(''bindings'', JList (map JStr (sorted_list_of_set bs)))])) (tf_observers s)\<rparr>"

definition file_remove_task_state :: "bool \<Rightarrow> string \<Rightarrow> task_files \<Rightarrow> task_files" where
  "file_remove_task_state output i s = s\<lparr>tf_tasks := dict_pop i (tf_tasks s), tf_events := dict_pop i (tf_events s),
     tf_observers := dict_pop i (tf_observers s),
     tf_outputs := (if output then dict_pop i (tf_outputs s) else tf_outputs s)\<rparr>"

definition file_backend :: "task_files task_backend" where
  "file_backend = \<lparr>tb_next = file_next_task_id, tb_get = file_read_task, tb_all = file_list_tasks,
     tb_put = file_write_task, tb_events = file_read_events, tb_put_events = file_write_events,
     tb_outputs = file_read_outputs, tb_put_outputs = file_write_outputs,
     tb_observers = file_read_observers, tb_put_observers = file_write_observers,
     tb_remove = file_remove_task_state\<rparr>"

subsection \<open>The contract of a storage\<close>

text \<open>
  What the registry relies on, whichever storage it has: a value written is read back, up to the
  normal form \<open>norm_t\<close>, \<open>norm_e\<close> and \<open>norm_j\<close> of what the storage keeps, and nothing else changes; the ids
  it gives out count up; reading what the program wrote never raises.  \<open>count\<close> is the number of ids
  given out.
\<close>

locale task_storage =
  fixes b :: "'s task_backend" and inv :: "'s \<Rightarrow> bool" and count :: "'s \<Rightarrow> nat"
    and norm_t :: "task_record \<Rightarrow> task_record" and norm_e :: "task_event \<Rightarrow> task_event" and norm_j :: "json \<Rightarrow> json"
  assumes fresh: "inv s \<Longrightarrow> \<exists>s'. tb_next b s = (Inr (''task_'' @ nat_str (Suc (count s))), s') \<and> inv s'
      \<and> count s' = Suc (count s) \<and> tb_get b s' = tb_get b s \<and> tb_events b s' = tb_events b s
      \<and> tb_outputs b s' = tb_outputs b s \<and> tb_observers b s' = tb_observers b s"
    and inv_put: "inv s \<Longrightarrow> inv (tb_put b t s)"
    and inv_put_events: "inv s \<Longrightarrow> inv (tb_put_events b i es s)"
    and inv_put_outputs: "inv s \<Longrightarrow> inv (tb_put_outputs b i js s)"
    and inv_put_observers: "inv s \<Longrightarrow> finite bs \<Longrightarrow> inv (tb_put_observers b i bs s)"
    and inv_remove: "inv s \<Longrightarrow> inv (tb_remove b out i s)"
    and count_put: "count (tb_put b t s) = count s"
    and count_put_events: "count (tb_put_events b i es s) = count s"
    and count_put_outputs: "count (tb_put_outputs b i js s) = count s"
    and count_put_observers: "count (tb_put_observers b i bs s) = count s"
    and count_remove: "count (tb_remove b out i s) = count s"
    and get_put: "inv s \<Longrightarrow> tb_get b (tb_put b t s) i = (if i = tk_id t then Inr (norm_t t) else tb_get b s i)"
    and get_put_events: "tb_get b (tb_put_events b i es s) = tb_get b s"
    and get_put_outputs: "tb_get b (tb_put_outputs b i js s) = tb_get b s"
    and get_put_observers: "tb_get b (tb_put_observers b i bs s) = tb_get b s"
    and get_remove: "inv s \<Longrightarrow> i' \<noteq> i \<Longrightarrow> tb_get b (tb_remove b out i s) i' = tb_get b s i'"
    and get_removed: "inv s \<Longrightarrow> \<exists>e. tb_get b (tb_remove b out i s) i = Inl e"
    and get_norm: "inv s \<Longrightarrow> tb_get b s i = Inr t \<Longrightarrow> tk_id t = i \<and> norm_t t = t"
    and listing: "inv s \<Longrightarrow> \<exists>ts. tb_all b s = Inr ts \<and> distinct (map tk_id ts)
      \<and> (\<forall>t. t \<in> set ts \<longleftrightarrow> tb_get b s (tk_id t) = Inr t)"
    and events: "inv s \<Longrightarrow> \<exists>es. tb_events b s i = Inr es \<and> map norm_e es = es"
    and events_put: "inv s \<Longrightarrow> tb_events b (tb_put b t s) = tb_events b s"
    and events_put_events: "inv s \<Longrightarrow>
      tb_events b (tb_put_events b i es s) i' = (if i' = i then Inr (map norm_e es) else tb_events b s i')"
    and events_put_outputs: "tb_events b (tb_put_outputs b i js s) = tb_events b s"
    and events_put_observers: "tb_events b (tb_put_observers b i bs s) = tb_events b s"
    and events_remove: "i' \<noteq> i \<Longrightarrow> tb_events b (tb_remove b out i s) i' = tb_events b s i'"
    and outputs: "inv s \<Longrightarrow> \<exists>js. tb_outputs b s i = Inr js \<and> map norm_j js = js"
    and outputs_put: "tb_outputs b (tb_put b t s) = tb_outputs b s"
    and outputs_put_events: "tb_outputs b (tb_put_events b i es s) = tb_outputs b s"
    and outputs_put_outputs: "inv s \<Longrightarrow>
      tb_outputs b (tb_put_outputs b i js s) i' = (if i' = i then Inr (map norm_j js) else tb_outputs b s i')"
    and outputs_put_observers: "tb_outputs b (tb_put_observers b i bs s) = tb_outputs b s"
    and outputs_remove: "i' \<noteq> i \<Longrightarrow> tb_outputs b (tb_remove b out i s) i' = tb_outputs b s i'"
    and observers: "inv s \<Longrightarrow> \<exists>bs. tb_observers b s i = Inr bs \<and> finite bs"
    and observers_put: "tb_observers b (tb_put b t s) = tb_observers b s"
    and observers_put_events: "tb_observers b (tb_put_events b i es s) = tb_observers b s"
    and observers_put_outputs: "tb_observers b (tb_put_outputs b i js s) = tb_observers b s"
    and observers_put_observers: "inv s \<Longrightarrow> finite bs \<Longrightarrow>
      tb_observers b (tb_put_observers b i bs s) i' = (if i' = i then Inr bs else tb_observers b s i')"
    and observers_remove: "i' \<noteq> i \<Longrightarrow> tb_observers b (tb_remove b out i s) i' = tb_observers b s i'"
    and removed: "tb_events b (tb_remove b out i s) i = Inr []" "tb_observers b (tb_remove b out i s) i = Inr {}"
      "tb_outputs b (tb_remove b out i s) i = (if out then Inr [] else tb_outputs b s i)"
    and norm_t_fields: "tk_id (norm_t t) = tk_id t" "task_status_str (tk_status (norm_t t)) = task_status_str (tk_status t)"
      "tk_end (norm_t t) = tk_end t" "tk_type (norm_t t) = tk_type t" "tk_output_cursor (norm_t t) = tk_output_cursor t"
      "tk_notified (norm_t t) = tk_notified t" "tk_output_ref (norm_t t) = tk_output_ref t"
      "tk_session (norm_t t) = tk_session t" "tk_agent (norm_t t) = tk_agent t" "tk_parent (norm_t t) = tk_parent t"
      "tk_description (norm_t t) = tk_description t" "tk_start (norm_t t) = tk_start t"
    and norm_e_fields: "te_task (norm_e e) = te_task e" "te_id (norm_e e) = te_id e" "te_type (norm_e e) = te_type e"
      "te_timestamp (norm_e e) = te_timestamp e"

subsection \<open>The memory keeps the contract\<close>

definition memory_inv :: "memory_storage \<Rightarrow> bool" where
  "memory_inv s \<longleftrightarrow> wf_dict (ms_tasks s) \<and> (\<forall>i t. dict_get (ms_tasks s) i = Some t \<longrightarrow> tk_id t = i)
     \<and> (\<forall>i bs. dict_get (ms_observers s) i = Some bs \<longrightarrow> finite bs)"

lemma memory_inv_empty [simp]: "memory_inv empty_memory"
  by (simp add: memory_inv_def empty_memory_def)

lemma memory_all:
  assumes "memory_inv s"
  shows "distinct (map tk_id (dict_values (ms_tasks s)))"
    and "t \<in> set (dict_values (ms_tasks s)) \<longleftrightarrow> dict_get (ms_tasks s) (tk_id t) = Some t"
proof -
  have m: "dict_get (ms_tasks s) (fst e) = Some (snd e)" if "e \<in> set (ms_tasks s)" for e
    using assms that by (intro map_of_is_SomeI) (simp_all add: memory_inv_def)
  have k: "fst e = tk_id (snd e)" if "e \<in> set (ms_tasks s)" for e
    using assms m [OF that] by (simp add: memory_inv_def)
  then have "map tk_id (dict_values (ms_tasks s)) = dict_keys (ms_tasks s)" by auto
  then show "distinct (map tk_id (dict_values (ms_tasks s)))" using assms by (simp only: memory_inv_def)
  show "t \<in> set (dict_values (ms_tasks s)) \<longleftrightarrow> dict_get (ms_tasks s) (tk_id t) = Some t"
  proof
    assume "t \<in> set (dict_values (ms_tasks s))"
    then obtain e where "e \<in> set (ms_tasks s)" "t = snd e" by auto
    then show "dict_get (ms_tasks s) (tk_id t) = Some t"
      using m k by metis
  qed (force dest: map_of_SomeD)
qed

interpretation tmemory: task_storage memory_backend memory_inv ms_counter id id id
proof (unfold_locales, goal_cases)
  case (19 s) \<comment> \<open>the listing\<close>
  show ?case using memory_all [OF 19] by (auto simp: memory_backend_def split: option.split)
qed (auto simp: memory_backend_def memory_inv_def memory_next_task_id_def memory_remove_def dict_get_default_def
    fun_eq_iff Let_def split: option.splits if_splits)

subsection \<open>The files keep the contract\<close>

definition file_norm_task :: "task_record \<Rightarrow> task_record" where
  "file_norm_task t = t\<lparr>tk_status := task_status_of (task_status_str (tk_status t)),
     tk_terminal := map_option sorted_object (tk_terminal t), tk_metadata := map_option sorted_object (tk_metadata t)\<rparr>"

definition file_norm_event :: "task_event \<Rightarrow> task_event" where
  "file_norm_event e = e\<lparr>te_payload := sorted_object (te_payload e),
     te_terminal := map_option sorted_object (te_terminal e), te_error := map_option sorted_object (te_error e)\<rparr>"

lemma map_option_idem: "(\<And>x. f (f x) = f x) \<Longrightarrow> map_option f (map_option f y) = map_option f y"
  by (cases y) simp_all

lemma file_norm_idem [simp]:
  "file_norm_task (file_norm_task t) = file_norm_task t" "file_norm_event (file_norm_event e) = file_norm_event e"
  by (simp_all add: file_norm_task_def file_norm_event_def map_option_idem)

lemma sorted_json_scalars [simp]:
  "sorted_json (jopt_str x) = jopt_str x" "sorted_json (cursor_to_json c) = cursor_to_json c"
  "sorted_json (jopt_dict d) = jopt_dict (map_option sorted_object d)"
  by (cases x; simp) (auto simp: cursor_to_json_def jopt_dict_def split: option.split output_cursor.split)

definition opt_str_of :: "json \<Rightarrow> string option" where
  "opt_str_of v = (case v of JNull \<Rightarrow> None | _ \<Rightarrow> Some (py_str v))"

lemma opt_str_of_jopt [simp]: "opt_str_of (jopt_str x) = x"
  by (cases x) (simp_all add: opt_str_of_def)

lemma field_sorted:
  "field_str (sorted_object d) k = ebind (field_req d k) (\<lambda>v. Inr (py_str (sorted_json v)))"
  "field_opt_str (sorted_object d) k = opt_str_of (sorted_json (jget d k))"
  "field_opt_dict (sorted_object d) k = as_dict (sorted_json (jget d k))"
  "field_dict (sorted_object d) k = (case as_dict (sorted_json (jget d k)) of None \<Rightarrow> [] | Some e \<Rightarrow> e)"
  by (simp_all add: field_str_def field_req_def field_opt_str_def field_opt_dict_def field_dict_def
      opt_str_of_def split: option.split json.split)

lemma task_from_sorted: "task_from_dict (sorted_object (task_to_dict t)) = Inr (file_norm_task t)"
  by (simp add: task_from_dict_def task_to_dict_def field_sorted file_norm_task_def field_req_def)

lemma task_event_from_sorted: "task_event_from_dict (sorted_object (task_event_to_dict e)) = Inr (file_norm_event e)"
  by (simp add: task_event_from_dict_def task_event_to_dict_def field_sorted file_norm_event_def field_req_def)

definition task_file :: "task_record \<Rightarrow> json" where
  "task_file t = sorted_json (JDict (task_to_dict t))"

definition events_file :: "task_event list \<Rightarrow> json" where
  "events_file es = sorted_json (JDict [(''events'', JList (map (JDict \<circ> task_event_to_dict) es))])"

definition outputs_file :: "json list \<Rightarrow> json" where
  "outputs_file js = sorted_json (JDict [(''items'', JList js)])"

definition observers_file :: "string set \<Rightarrow> json" where
  "observers_file bs = sorted_json (JDict [(''bindings'', JList (map JStr (sorted_list_of_set bs)))])"

definition task_files_inv :: "task_files \<Rightarrow> bool" where
  "task_files_inv s \<longleftrightarrow> (\<forall>x. tf_counter s = Some x \<longrightarrow> (\<exists>n. x = nat_str n)) \<and> wf_dict (tf_tasks s)
     \<and> (\<forall>i j. dict_get (tf_tasks s) i = Some j \<longrightarrow> (\<exists>t. tk_id t = i \<and> j = task_file t))
     \<and> (\<forall>i j. dict_get (tf_events s) i = Some j \<longrightarrow> (\<exists>es. j = events_file es))
     \<and> (\<forall>i j. dict_get (tf_outputs s) i = Some j \<longrightarrow> (\<exists>js. j = outputs_file js))
     \<and> (\<forall>i j. dict_get (tf_observers s) i = Some j \<longrightarrow> (\<exists>bs. finite bs \<and> j = observers_file bs))"

definition file_count :: "task_files \<Rightarrow> nat" where
  "file_count s = (case tf_counter s of None \<Rightarrow> 0 | Some x \<Rightarrow> (case py_int x of Inl e \<Rightarrow> 0 | Inr n \<Rightarrow> nat n))"

lemma task_files_inv_empty [simp]: "task_files_inv empty_task_files"
  by (simp add: task_files_inv_def empty_task_files_def)

lemma read_task_file [simp]: "ebind (read_json_object (task_file t)) task_from_dict = Inr (file_norm_task t)"
  by (simp add: task_file_def read_json_object_def task_from_sorted)

lemma map_filter_Some [simp]: "List.map_filter (\<lambda>x. Some (f x)) xs = map f xs"
  by (induction xs) (simp_all add: List.map_filter_simps)

lemma map_filter_map: "List.map_filter f (map g xs) = List.map_filter (f \<circ> g) xs"
  by (induction xs) (simp_all add: List.map_filter_simps split: option.split)

lemma emap_all: "(\<And>x. x \<in> set xs \<Longrightarrow> f x = Inr (g x)) \<Longrightarrow> emap f xs = Inr (map g xs)"
  by (induction xs) simp_all

lemma read_events_file:
  "file_read_events s i = (case dict_get (tf_events s) i of None \<Rightarrow> Inr []
     | Some j \<Rightarrow> ebind (read_json_object j) (\<lambda>d. case as_list (jget d ''events'') of
        None \<Rightarrow> Inr [] | Some l \<Rightarrow> emap task_event_from_dict (List.map_filter as_dict l)))"
  "ebind (read_json_object (events_file es)) (\<lambda>d. case as_list (jget d ''events'') of
        None \<Rightarrow> Inr [] | Some l \<Rightarrow> emap task_event_from_dict (List.map_filter as_dict l)) =
     Inr (map file_norm_event es)"
proof -
  have "List.map_filter as_dict (map (sorted_json \<circ> (JDict \<circ> task_event_to_dict)) es) =
      map (sorted_object \<circ> task_event_to_dict) es"
    by (simp add: map_filter_map comp_def)
  moreover have "emap task_event_from_dict (map (sorted_object \<circ> task_event_to_dict) es) =
      Inr (map file_norm_event es)"
    by (induction es) (simp_all add: task_event_from_sorted)
  ultimately show "ebind (read_json_object (events_file es)) (\<lambda>d. case as_list (jget d ''events'') of
        None \<Rightarrow> Inr [] | Some l \<Rightarrow> emap task_event_from_dict (List.map_filter as_dict l)) =
     Inr (map file_norm_event es)"
    by (simp add: events_file_def read_json_object_def)
qed (simp add: file_read_events_def)

lemma read_outputs_file [simp]:
  "ebind (read_json_object (outputs_file js)) (\<lambda>d.
        Inr (case as_list (jget d ''items'') of None \<Rightarrow> [] | Some l \<Rightarrow> l)) = Inr (map sorted_json js)"
  by (simp add: outputs_file_def read_json_object_def)

lemma read_observers_file [simp]:
  "finite bs \<Longrightarrow> ebind (read_json_object (observers_file bs)) (\<lambda>d.
        Inr (case as_list (jget d ''bindings'') of None \<Rightarrow> {} | Some l \<Rightarrow> set (map py_str l))) = Inr bs"
  by (simp add: observers_file_def read_json_object_def image_comp comp_def)

lemma file_get_some:
  "task_files_inv s \<Longrightarrow> dict_get (tf_tasks s) i = Some j \<Longrightarrow>
     \<exists>t. tk_id t = i \<and> file_read_task s i = Inr (file_norm_task t)"
  by (force simp: task_files_inv_def file_read_task_def)

lemma file_norm_task_id [simp]: "tk_id (file_norm_task t) = tk_id t"
  by (simp add: file_norm_task_def)

lemma file_get:
  assumes "task_files_inv s"
  shows "file_read_task s i = Inr t \<Longrightarrow> tk_id t = i \<and> file_norm_task t = t"
    and "dict_get (tf_tasks s) i \<noteq> None \<longleftrightarrow> (\<exists>t. file_read_task s i = Inr t)"
proof -
  have n: "dict_get (tf_tasks s) i = None \<Longrightarrow> file_read_task s i \<noteq> Inr t" for t
    by (simp add: file_read_task_def)
  show "file_read_task s i = Inr t \<Longrightarrow> tk_id t = i \<and> file_norm_task t = t"
    using n file_get_some [OF assms, of i] by (cases "dict_get (tf_tasks s) i") auto
  show "dict_get (tf_tasks s) i \<noteq> None \<longleftrightarrow> (\<exists>t. file_read_task s i = Inr t)"
    using n file_get_some [OF assms, of i] by (cases "dict_get (tf_tasks s) i") auto
qed

lemma file_all:
  assumes "task_files_inv s"
  shows "\<exists>ts. file_list_tasks s = Inr ts \<and> distinct (map tk_id ts)
      \<and> (\<forall>t. t \<in> set ts \<longleftrightarrow> file_read_task s (tk_id t) = Inr t)"
proof -
  define g where "g i = (case file_read_task s i of Inl e \<Rightarrow> undefined | Inr t \<Rightarrow> t)" for i
  let ?ks = "sort_key (\<lambda>i. i @ ''.json'') (dict_keys (tf_tasks s))"
  have g: "file_read_task s i = Inr (g i) \<and> tk_id (g i) = i" if "i \<in> set ?ks" for i
  proof -
    have "dict_get (tf_tasks s) i \<noteq> None" using that by (simp add: map_of_eq_None_iff)
    then obtain t where "file_read_task s i = Inr t" using file_get(2) [OF assms] by blast
    then show ?thesis using file_get(1) [OF assms] by (simp add: g_def)
  qed
  have ids: "map tk_id (map g ?ks) = ?ks" using g by (auto intro!: map_idI simp: comp_def simp del: set_sort)
  have "distinct ?ks" using assms by (simp add: task_files_inv_def)
  then have "distinct (map tk_id (map g ?ks))" by (simp only: ids)
  moreover have "t \<in> set (map g ?ks) \<longleftrightarrow> file_read_task s (tk_id t) = Inr t" for t
  proof
    assume "t \<in> set (map g ?ks)"
    then obtain i where "i \<in> set ?ks" "t = g i" by (auto simp del: set_sort)
    then show "file_read_task s (tk_id t) = Inr t" using g by metis
  next
    assume r: "file_read_task s (tk_id t) = Inr t"
    then have "tk_id t \<in> set ?ks"
      by (auto simp: file_read_task_def map_of_eq_None_iff [symmetric] domIff split: option.splits
          dest: map_of_SomeD intro: rev_image_eqI)
    moreover have "g (tk_id t) = t" using r by (simp add: g_def)
    ultimately show "t \<in> set (map g ?ks)" by (metis image_eqI list.set_map)
  qed
  moreover have "file_list_tasks s = Inr (map g ?ks)"
    unfolding file_list_tasks_def using g by (intro emap_all) blast
  ultimately show ?thesis by blast
qed

lemma file_writes:
  "file_write_task t s = s\<lparr>tf_tasks := dict_set (tk_id t) (task_file t) (tf_tasks s)\<rparr>"
  "file_write_events i es s = s\<lparr>tf_events := dict_set i (events_file es) (tf_events s)\<rparr>"
  "file_write_outputs i js s = s\<lparr>tf_outputs := dict_set i (outputs_file js) (tf_outputs s)\<rparr>"
  "file_write_observers i bs s = s\<lparr>tf_observers := dict_set i (observers_file bs) (tf_observers s)\<rparr>"
  by (simp_all only: file_write_task_def file_write_events_def file_write_outputs_def file_write_observers_def
      task_file_def events_file_def outputs_file_def observers_file_def)

lemma file_backend_sel [simp]:
  "tb_next file_backend = file_next_task_id" "tb_get file_backend = file_read_task"
  "tb_all file_backend = file_list_tasks" "tb_put file_backend = file_write_task"
  "tb_events file_backend = file_read_events" "tb_put_events file_backend = file_write_events"
  "tb_outputs file_backend = file_read_outputs" "tb_put_outputs file_backend = file_write_outputs"
  "tb_observers file_backend = file_read_observers" "tb_put_observers file_backend = file_write_observers"
  "tb_remove file_backend = file_remove_task_state"
  by (simp_all add: file_backend_def)

lemma file_next:
  assumes "task_files_inv s"
  shows "file_next_task_id s = (Inr (''task_'' @ nat_str (Suc (file_count s))),
      s\<lparr>tf_counter := Some (nat_str (Suc (file_count s)))\<rparr>)"
proof (cases "tf_counter s")
  case None
  then show ?thesis by (simp add: file_next_task_id_def file_count_def int_str_def)
next
  case (Some x)
  then obtain n where x: "x = nat_str n" using assms by (auto simp: task_files_inv_def)
  have "nat (int n + 1) = Suc n" by simp
  then show ?thesis by (simp add: file_next_task_id_def file_count_def Some x int_str_def Let_def)
qed

lemma file_reads:
  assumes "task_files_inv s"
  shows "\<exists>es. file_read_events s i = Inr es \<and> map file_norm_event es = es"
    "\<exists>js. file_read_outputs s i = Inr js \<and> map sorted_json js = js"
    "\<exists>bs. file_read_observers s i = Inr bs \<and> finite bs"
proof -
  show "\<exists>es. file_read_events s i = Inr es \<and> map file_norm_event es = es"
    using assms by (auto simp: task_files_inv_def read_events_file split: option.split)
      (use read_events_file(2) in \<open>fastforce simp: comp_def\<close>)
  show "\<exists>js. file_read_outputs s i = Inr js \<and> map sorted_json js = js"
    using assms by (auto simp: task_files_inv_def file_read_outputs_def split: option.split) (fastforce simp: comp_def)
  show "\<exists>bs. file_read_observers s i = Inr bs \<and> finite bs"
    using assms by (auto simp: task_files_inv_def file_read_observers_def split: option.split) fastforce
qed

lemma file_reads_cong:
  "tf_tasks s' = tf_tasks s \<Longrightarrow> file_read_task s' = file_read_task s"
  "tf_events s' = tf_events s \<Longrightarrow> file_read_events s' = file_read_events s"
  "tf_outputs s' = tf_outputs s \<Longrightarrow> file_read_outputs s' = file_read_outputs s"
  "tf_observers s' = tf_observers s \<Longrightarrow> file_read_observers s' = file_read_observers s"
  by (simp_all add: fun_eq_iff file_read_task_def file_read_events_def file_read_outputs_def file_read_observers_def)

lemma file_inv_writes:
  assumes "task_files_inv s"
  shows "task_files_inv (file_write_task t s)" "task_files_inv (file_write_events i es s)"
    "task_files_inv (file_write_outputs i js s)" "finite bs \<Longrightarrow> task_files_inv (file_write_observers i bs s)"
    "task_files_inv (file_remove_task_state out i s)"
  using assms by (auto simp: task_files_inv_def file_writes file_remove_task_state_def split: if_splits)

lemma file_read_written:
  "file_read_task (file_write_task t s) i = (if i = tk_id t then Inr (file_norm_task t) else file_read_task s i)"
  "file_read_events (file_write_events i es s) i' = (if i' = i then Inr (map file_norm_event es) else file_read_events s i')"
  "file_read_outputs (file_write_outputs i js s) i' = (if i' = i then Inr (map sorted_json js) else file_read_outputs s i')"
  "finite bs \<Longrightarrow> file_read_observers (file_write_observers i bs s) i' = (if i' = i then Inr bs else file_read_observers s i')"
  by (simp_all add: file_writes file_read_task_def read_events_file file_read_outputs_def file_read_observers_def)

lemma file_read_removed:
  "i' \<noteq> i \<Longrightarrow> file_read_task (file_remove_task_state out i s) i' = file_read_task s i'"
  "file_read_task (file_remove_task_state out i s) i = Inl (OtherError ''No such file or directory'')"
  "i' \<noteq> i \<Longrightarrow> file_read_events (file_remove_task_state out i s) i' = file_read_events s i'"
  "i' \<noteq> i \<Longrightarrow> file_read_outputs (file_remove_task_state out i s) i' = file_read_outputs s i'"
  "i' \<noteq> i \<Longrightarrow> file_read_observers (file_remove_task_state out i s) i' = file_read_observers s i'"
  "file_read_events (file_remove_task_state out i s) i = Inr []"
  "file_read_observers (file_remove_task_state out i s) i = Inr {}"
  "file_read_outputs (file_remove_task_state out i s) i = (if out then Inr [] else file_read_outputs s i)"
  by (simp_all add: file_remove_task_state_def file_read_task_def file_read_events_def file_read_outputs_def file_read_observers_def)

lemma file_next_effect:
  assumes "task_files_inv s"
  shows "\<exists>s'. file_next_task_id s = (Inr (''task_'' @ nat_str (Suc (file_count s))), s') \<and> task_files_inv s'
      \<and> file_count s' = Suc (file_count s) \<and> file_read_task s' = file_read_task s \<and> file_read_events s' = file_read_events s
      \<and> file_read_outputs s' = file_read_outputs s \<and> file_read_observers s' = file_read_observers s"
proof -
  let ?s' = "s\<lparr>tf_counter := Some (nat_str (Suc (file_count s)))\<rparr>"
  have "task_files_inv ?s'" using assms by (auto simp: task_files_inv_def)
  moreover have "file_count ?s' = Suc (file_count s)" by (simp add: file_count_def)
  ultimately show ?thesis using file_next [OF assms] file_reads_cong [of ?s' s] by auto
qed

lemma file_frames:
  "file_read_task (file_write_events i es s) = file_read_task s"
  "file_read_task (file_write_outputs i js s) = file_read_task s"
  "file_read_task (file_write_observers i bs s) = file_read_task s"
  "file_read_events (file_write_task t s) = file_read_events s"
  "file_read_events (file_write_outputs i js s) = file_read_events s"
  "file_read_events (file_write_observers i bs s) = file_read_events s"
  "file_read_outputs (file_write_task t s) = file_read_outputs s"
  "file_read_outputs (file_write_events i es s) = file_read_outputs s"
  "file_read_outputs (file_write_observers i bs s) = file_read_outputs s"
  "file_read_observers (file_write_task t s) = file_read_observers s"
  "file_read_observers (file_write_events i es s) = file_read_observers s"
  "file_read_observers (file_write_outputs i js s) = file_read_observers s"
  by (rule file_reads_cong; simp add: file_writes)+

lemma file_count_writes:
  "file_count (file_write_task t s) = file_count s" "file_count (file_write_events i es s) = file_count s"
  "file_count (file_write_outputs i js s) = file_count s" "file_count (file_write_observers i bs s) = file_count s"
  "file_count (file_remove_task_state out i s) = file_count s"
  by (simp_all add: file_count_def file_writes file_remove_task_state_def)

interpretation tfiles: task_storage file_backend task_files_inv file_count file_norm_task file_norm_event sorted_json
proof (unfold_locales, unfold file_backend_sel, goal_cases)
  case (1 s) then show ?case by (rule file_next_effect)
next
  case (18 s i t) then show ?case using file_get(1) by blast
next
  case (19 s) then show ?case by (rule file_all)
next
  case (20 s i) then show ?case by (rule file_reads)
next
  case (26 s i) then show ?case by (rule file_reads)
next
  case (32 s i) then show ?case by (rule file_reads)
qed (simp_all add: file_inv_writes file_frames file_count_writes file_read_written file_read_removed
    file_norm_task_def file_norm_event_def)

end
