(* ===== verification/Effects.thy ===== *)
theory Effects
  imports Prelude
begin

text \<open>
  Operations on a state that may raise: they return the result or the exception together with the
  state they leave behind, because an operation that raises has often done part of its work.  The
  lemmas are a small logic: \<open>triple P m Q E\<close> says that from a state with \<open>P\<close> the operation returns in
  one with \<open>Q\<close> or raises in one with \<open>E\<close>; \<open>simulates\<close> relates two operations on two states.
\<close>

type_synonym ('s, 'a) eff = "'s \<Rightarrow> (py_error + 'a) \<times> 's"

definition ret :: "'a \<Rightarrow> ('s, 'a) eff" where
  "ret x s = (Inr x, s)"

definition throw :: "py_error \<Rightarrow> ('s, 'a) eff" where
  "throw e s = (Inl e, s)"

definition bind :: "('s, 'a) eff \<Rightarrow> ('a \<Rightarrow> ('s, 'b) eff) \<Rightarrow> ('s, 'b) eff" where
  "bind m f s = (case m s of (Inl e, s') \<Rightarrow> (Inl e, s') | (Inr x, s') \<Rightarrow> f x s')"

definition gets :: "('s \<Rightarrow> 'a) \<Rightarrow> ('s, 'a) eff" where
  "gets f s = (Inr (f s), s)"

text \<open>A read that may raise.\<close>

definition reads :: "('s \<Rightarrow> py_error + 'a) \<Rightarrow> ('s, 'a) eff" where
  "reads f s = (f s, s)"

definition modify :: "('s \<Rightarrow> 's) \<Rightarrow> ('s, unit) eff" where
  "modify f s = (Inr (), f s)"

definition lift :: "py_error + 'a \<Rightarrow> ('s, 'a) eff" where
  "lift r s = (r, s)"

text \<open>\<open>for x in xs: f(x)\<close>, and the list of the results.\<close>

fun each :: "('a \<Rightarrow> ('s, unit) eff) \<Rightarrow> 'a list \<Rightarrow> ('s, unit) eff" where
  "each f [] = ret ()"
| "each f (x # xs) = bind (f x) (\<lambda>_. each f xs)"

lemmas eff_defs = ret_def throw_def bind_def gets_def reads_def modify_def lift_def

lemma bind_ret [simp]: "bind (ret x) f = f x"
  by (simp add: fun_eq_iff bind_def ret_def)

lemma bind_gets [simp]: "bind (gets g) f s = f (g s) s"
  by (simp add: bind_def gets_def)

lemma bind_modify [simp]: "bind (modify g) f s = f () (g s)"
  by (simp add: bind_def modify_def)

lemma bind_throw [simp]: "bind (throw e) f = throw e"
  by (simp add: fun_eq_iff bind_def throw_def)

lemma bind_assoc: "bind (bind m f) g = bind m (\<lambda>x. bind (f x) g)"
  by (auto simp: fun_eq_iff bind_def split: prod.split sum.split)

lemma bind_Inr: "m s = (Inr x, s') \<Longrightarrow> bind m f s = f x s'"
  by (simp add: bind_def)

lemma bind_Inl: "m s = (Inl e, s') \<Longrightarrow> bind m f s = (Inl e, s')"
  by (simp add: bind_def)

lemma bind_reads: "bind (reads g) f s = (case g s of Inl e \<Rightarrow> (Inl e, s) | Inr x \<Rightarrow> f x s)"
  by (simp add: bind_def reads_def)

subsection \<open>Triples\<close>

definition triple :: "('s \<Rightarrow> bool) \<Rightarrow> ('s, 'a) eff \<Rightarrow> ('a \<Rightarrow> 's \<Rightarrow> bool) \<Rightarrow> (py_error \<Rightarrow> 's \<Rightarrow> bool) \<Rightarrow> bool" where
  "triple P m Q E \<longleftrightarrow> (\<forall>s. P s \<longrightarrow> (case m s of (Inl e, s') \<Rightarrow> E e s' | (Inr x, s') \<Rightarrow> Q x s'))"

lemma tripleI:
  "(\<And>s. P s \<Longrightarrow> (case m s of (Inl e, s') \<Rightarrow> E e s' | (Inr x, s') \<Rightarrow> Q x s')) \<Longrightarrow> triple P m Q E"
  by (simp add: triple_def)

lemma tripleD: "triple P m Q E \<Longrightarrow> P s \<Longrightarrow> (case m s of (Inl e, s') \<Rightarrow> E e s' | (Inr x, s') \<Rightarrow> Q x s')"
  by (simp add: triple_def)

lemma triple_conseq:
  assumes "triple P' m Q' E'" "\<And>s. P s \<Longrightarrow> P' s" "\<And>x s. Q' x s \<Longrightarrow> Q x s" "\<And>e s. E' e s \<Longrightarrow> E e s"
  shows "triple P m Q E"
  using assms by (fastforce simp: triple_def split: prod.splits sum.splits)

lemma triple_bind:
  assumes "triple P m R E" "\<And>x. triple (R x) (f x) Q E"
  shows "triple P (bind m f) Q E"
proof (rule tripleI)
  fix s assume "P s"
  with assms(1) have r: "case m s of (Inl e, s') \<Rightarrow> E e s' | (Inr x, s') \<Rightarrow> R x s'" by (rule tripleD)
  show "case bind m f s of (Inl e, s') \<Rightarrow> E e s' | (Inr x, s') \<Rightarrow> Q x s'"
  proof (cases "m s")
    case (Pair a s')
    then show ?thesis using r assms(2) by (cases a) (simp_all add: bind_def triple_def)
  qed
qed

lemma triple_ret: "(\<And>s. P s \<Longrightarrow> Q x s) \<Longrightarrow> triple P (ret x) Q E"
  by (simp add: triple_def ret_def)

lemma triple_throw: "(\<And>s. P s \<Longrightarrow> E e s) \<Longrightarrow> triple P (throw e) Q E"
  by (simp add: triple_def throw_def)

lemma triple_gets: "(\<And>s. P s \<Longrightarrow> Q (f s) s) \<Longrightarrow> triple P (gets f) Q E"
  by (simp add: triple_def gets_def)

lemma triple_modify: "(\<And>s. P s \<Longrightarrow> Q () (f s)) \<Longrightarrow> triple P (modify f) Q E"
  by (simp add: triple_def modify_def)

lemma triple_reads:
  "(\<And>s x. P s \<Longrightarrow> f s = Inr x \<Longrightarrow> Q x s) \<Longrightarrow> (\<And>s e. P s \<Longrightarrow> f s = Inl e \<Longrightarrow> E e s) \<Longrightarrow> triple P (reads f) Q E"
  by (auto simp: triple_def reads_def split: sum.split)

lemma triple_lift: "triple P (lift r) (\<lambda>_. P) (\<lambda>_. P)"
  by (rule tripleI) (cases r, simp_all add: lift_def)

lemma triple_each:
  assumes "\<And>x. x \<in> set xs \<Longrightarrow> triple P (f x) (\<lambda>_. P) E"
  shows "triple P (each f xs) (\<lambda>_. P) E"
  using assms
proof (induction xs)
  case Nil
  show ?case by (simp add: triple_ret)
next
  case (Cons x xs)
  have "triple P (bind (f x) (\<lambda>_. each f xs)) (\<lambda>_. P) E"
    by (rule triple_bind [where R = "\<lambda>_. P"]) (use Cons in auto)
  then show ?case by simp
qed

text \<open>An operation that keeps an invariant whether it returns or raises.\<close>

definition keeps :: "('s \<Rightarrow> bool) \<Rightarrow> ('s, 'a) eff \<Rightarrow> bool" where
  "keeps I m \<longleftrightarrow> (\<forall>s. I s \<longrightarrow> I (snd (m s)))"

named_theorems keeping "operations that keep an invariant"

lemma keepsD: "keeps I m \<Longrightarrow> I s \<Longrightarrow> I (snd (m s))"
  by (simp add: keeps_def)

lemma triple_keeps: "triple I m Q (\<lambda>_. I) \<Longrightarrow> (\<And>x s. Q x s \<Longrightarrow> I s) \<Longrightarrow> keeps I m"
  unfolding triple_def keeps_def by (fastforce split: prod.splits sum.splits)

lemma keeps_triple: "keeps I m \<Longrightarrow> triple I m (\<lambda>_. I) (\<lambda>_. I)"
proof (rule tripleI)
  fix s assume "keeps I m" "I s"
  then show "case m s of (Inl e, s') \<Rightarrow> I s' | (Inr x, s') \<Rightarrow> I s'"
    using keepsD [of I m s] by (cases "m s"; cases "fst (m s)") simp_all
qed

lemma keeps_bind [keeping]:
  assumes "keeps I m" "\<And>x. keeps I (f x)"
  shows "keeps I (bind m f)"
  unfolding keeps_def
proof (intro allI impI)
  fix s assume "I s"
  obtain r s' where m: "m s = (r, s')" by (cases "m s")
  have "I s'" using keepsD [OF assms(1) \<open>I s\<close>] by (simp add: m)
  then show "I (snd (bind m f s))" using assms(2) by (cases r) (simp_all add: bind_def m keeps_def)
qed

lemma keeps_basic [keeping]: "keeps I (ret x)" "keeps I (throw e)" "keeps I (gets f)" "keeps I (reads g)" "keeps I (lift r)"
  by (simp_all add: keeps_def eff_defs)

lemma keeps_modify: "(\<And>s. I s \<Longrightarrow> I (f s)) \<Longrightarrow> keeps I (modify f)"
  by (simp add: keeps_def modify_def)

lemma keeps_cases [keeping]:
  "keeps I m \<Longrightarrow> keeps I m' \<Longrightarrow> keeps I (if c then m else m')"
  "keeps I m \<Longrightarrow> (\<And>x. keeps I (f x)) \<Longrightarrow> keeps I (case a of None \<Rightarrow> m | Some x \<Rightarrow> f x)"
  "(\<And>x y. keeps I (g x y)) \<Longrightarrow> keeps I (case p of (x, y) \<Rightarrow> g x y)"
  "(\<And>e. keeps I (l e)) \<Longrightarrow> (\<And>x. keeps I (k x)) \<Longrightarrow> keeps I (case r of Inl e \<Rightarrow> l e | Inr x \<Rightarrow> k x)"
  by (simp_all split: option.split prod.split sum.split)

lemma keeps_each [keeping]: "(\<And>x. keeps I (f x)) \<Longrightarrow> keeps I (each f xs)"
  by (induction xs) (simp_all add: keeping)

subsection \<open>Simulation\<close>

text \<open>
  Two operations started in related states both return related results or both raise, and end in
  related states.
\<close>

definition simulates ::
  "('s \<Rightarrow> 't \<Rightarrow> bool) \<Rightarrow> ('a \<Rightarrow> 'b \<Rightarrow> bool) \<Rightarrow> ('s, 'a) eff \<Rightarrow> ('t, 'b) eff \<Rightarrow> bool" where
  "simulates R A m n \<longleftrightarrow> (\<forall>s t. R s t \<longrightarrow> R (snd (m s)) (snd (n t)) \<and> rel_sum (\<lambda>_ _. True) A (fst (m s)) (fst (n t)))"

named_theorems simulating "pairs of operations that simulate one another"

lemma simulatesD:
  "simulates R A m n \<Longrightarrow> R s t \<Longrightarrow> R (snd (m s)) (snd (n t)) \<and> rel_sum (\<lambda>_ _. True) A (fst (m s)) (fst (n t))"
  by (simp add: simulates_def)

lemma simulates_bind [simulating]:
  assumes "simulates R A m n" "\<And>x y. A x y \<Longrightarrow> simulates R B (f x) (g y)"
  shows "simulates R B (bind m f) (bind n g)"
  unfolding simulates_def
proof (intro allI impI)
  fix s t assume "R s t"
  obtain a s' b t' where m: "m s = (a, s')" "n t = (b, t')" by (cases "m s", cases "n t")
  have r: "R s' t'" "rel_sum (\<lambda>_ _. True) A a b"
    using simulatesD [OF assms(1) \<open>R s t\<close>] by (simp_all add: m)
  then show "R (snd (bind m f s)) (snd (bind n g t)) \<and> rel_sum (\<lambda>_ _. True) B (fst (bind m f s)) (fst (bind n g t))"
    using assms(2) by (cases a; cases b) (auto simp: bind_def m simulates_def)
qed

lemma simulates_ret [simulating]: "A x y \<Longrightarrow> simulates R A (ret x) (ret y)"
  by (simp add: simulates_def ret_def)

lemma simulates_throw [simulating]: "simulates R A (throw e) (throw e')"
  by (simp add: simulates_def throw_def)

lemma simulates_gets: "(\<And>s t. R s t \<Longrightarrow> A (f s) (g t)) \<Longrightarrow> simulates R A (gets f) (gets g)"
  by (simp add: simulates_def gets_def)

lemma simulates_reads: "(\<And>s t. R s t \<Longrightarrow> rel_sum (\<lambda>_ _. True) A (f s) (g t)) \<Longrightarrow> simulates R A (reads f) (reads g)"
  by (simp add: simulates_def reads_def)

lemma simulates_modify [simulating]: "(\<And>s t. R s t \<Longrightarrow> R (f s) (g t)) \<Longrightarrow> simulates R (\<lambda>_ _. True) (modify f) (modify g)"
  by (simp add: simulates_def modify_def)

lemma simulates_if [simulating]:
  "c = c' \<Longrightarrow> simulates R A m n \<Longrightarrow> simulates R A m' n' \<Longrightarrow> simulates R A (if c then m else m') (if c' then n else n')"
  by simp

lemma simulates_mono: "simulates R A m n \<Longrightarrow> (\<And>x y. A x y \<Longrightarrow> B x y) \<Longrightarrow> simulates R B m n"
  unfolding simulates_def by (blast intro: sum.rel_mono_strong)

end
