(* ===== verification/TaskManager.thy ===== *)
theory TaskManager
  imports TaskStore Effects
begin

text \<open>
  Local tasks: the data of \<^verbatim>\<open>harness/task/models.py\<close>, \<open>TaskRegistry\<close> and
  \<open>TaskImplementationRegistry\<close> of \<^verbatim>\<open>registry.py\<close>, and the task manager of \<^verbatim>\<open>manager.py\<close>, over either storage.

  The state of a manager is its storage, the implementations registered for tasks and task types, and
  the verification results it keeps in memory.  \<open>te_now\<close> is the clock (the n-th reading) and \<open>te_parse\<close> stands for
  \<open>datetime.fromisoformat\<close>: whether the time has a zone, and the instant in microseconds.  The memory
  storage hands out the record it keeps; a returned record is its value at that moment here.
\<close>

subsection \<open>Data\<close>

datatype task_kind = KIND_GENERIC | KIND_BACKGROUND | KIND_VERIFIER

fun task_kind_value :: "task_kind \<Rightarrow> string" where
  "task_kind_value KIND_GENERIC = ''generic''"
| "task_kind_value KIND_BACKGROUND = ''background''"
| "task_kind_value KIND_VERIFIER = ''verifier''"

definition task_kind_of_str :: "string \<Rightarrow> task_kind option" where
  "task_kind_of_str s = List.find (\<lambda>k. task_kind_value k = s) [KIND_GENERIC, KIND_BACKGROUND, KIND_VERIFIER]"

datatype verdict = VERDICT_PASS | VERDICT_FAIL | VERDICT_PARTIAL

fun verdict_value :: "verdict \<Rightarrow> string" where
  "verdict_value VERDICT_PASS = ''pass''"
| "verdict_value VERDICT_FAIL = ''fail''"
| "verdict_value VERDICT_PARTIAL = ''partial''"

definition verdict_of_str :: "string \<Rightarrow> verdict option" where
  "verdict_of_str s = List.find (\<lambda>v. verdict_value v = s) [VERDICT_PASS, VERDICT_FAIL, VERDICT_PARTIAL]"

record background_handle =
  bh_task :: string
  bh_kind :: task_kind
  bh_description :: string
  bh_detached :: bool
  bh_session :: "string option"
  bh_agent :: "string option"
  bh_status :: "string option"
  bh_output_ref :: "string option"
  bh_checkpoints :: "json_object list"

record verifier_handle =
  vh_task :: string
  vh_description :: string
  vh_kind :: string
  vh_session :: "string option"
  vh_agent :: "string option"
  vh_status :: "string option"
  vh_output_ref :: "string option"

record output_slice =
  os_task :: string
  os_ref :: "string option"
  os_cursor :: int
  os_items :: "json list"
  os_done :: bool

record event_slice =
  es_task :: string
  es_cursor :: int
  es_events :: "json_object list"
  es_done :: bool

record task_selector =
  sl_status :: "string option"
  sl_type :: "string option"
  sl_session :: "string option"
  sl_agent :: "string option"

text \<open>The grace period in microseconds.\<close>

record retention_policy =
  rp_grace :: int
  rp_evict :: bool
  rp_output :: bool

definition default_retention :: retention_policy where
  "default_retention = \<lparr>rp_grace = 30000000, rp_evict = True, rp_output = False\<rparr>"

record verification_request =
  vq_session :: string
  vq_task :: string
  vq_prompt :: string
  vq_artifacts :: "string list"
  vq_scope :: "string list"
  vq_policy :: json_object
  vq_command :: "string option"

record verification_result =
  vr_verdict :: verdict
  vr_summary :: string
  vr_evidence :: "string list"
  vr_findings :: "string list"
  vr_limitations :: "string list"
  vr_task :: "string option"
  vr_output_ref :: "string option"
  vr_metadata :: "json_object option"

subsection \<open>State\<close>

text \<open>
  \<open>'i\<close> are the implementations a program registers; an orchestrator extends the record with its futures.
\<close>

record ('s, 'i) task_manager =
  tm_store :: 's
  tm_clock :: nat
  tm_task_impls :: "(string, 'i) pydict"
  tm_type_impls :: "(string, 'i) pydict"
  tm_results :: "(string, verification_result) pydict"

record 's task_env =
  te_backend :: "'s task_backend"
  te_now :: "nat \<Rightarrow> string"
  te_parse :: "string \<Rightarrow> py_error + bool \<times> int"
  te_policy :: retention_policy

definition new_task_manager :: "'s \<Rightarrow> ('s, 'i) task_manager" where
  "new_task_manager s = \<lparr>tm_store = s, tm_clock = 0, tm_task_impls = [], tm_type_impls = [], tm_results = []\<rparr>"

definition iso_now :: "'s task_env \<Rightarrow> (('s, 'i, 'z) task_manager_scheme, string) eff" where
  "iso_now env st = (Inr (te_now env (tm_clock st)), st\<lparr>tm_clock := Suc (tm_clock st)\<rparr>)"

definition store_read :: "('s \<Rightarrow> py_error + 'a) \<Rightarrow> (('s, 'i, 'z) task_manager_scheme, 'a) eff" where
  "store_read f = reads (f \<circ> tm_store)"

definition store_write :: "('s \<Rightarrow> 's) \<Rightarrow> (('s, 'i, 'z) task_manager_scheme, unit) eff" where
  "store_write f = modify (\<lambda>st. st\<lparr>tm_store := f (tm_store st)\<rparr>)"

subsection \<open>The registry\<close>

definition terminal_values :: "string list" where
  "terminal_values = map terminal_status_value [COMPLETED, FAILED, CANCELLED, KILLED, STOPPED]"

abbreviation task_done :: "task_record \<Rightarrow> bool" where
  "task_done t \<equiv> task_status_str (tk_status t) \<in> set terminal_values"

definition registry_next_task_id :: "'s task_env \<Rightarrow> (('s, 'i, 'z) task_manager_scheme, string) eff" where
  "registry_next_task_id env st = (let (r, s) = tb_next (te_backend env) (tm_store st) in (r, st\<lparr>tm_store := s\<rparr>))"

definition registry_get :: "'s task_env \<Rightarrow> string \<Rightarrow> (('s, 'i, 'z) task_manager_scheme, task_record) eff" where
  "registry_get env i = store_read (\<lambda>s. tb_get (te_backend env) s i)"

definition registry_register :: "'s task_env \<Rightarrow> task_record \<Rightarrow> (('s, 'i, 'z) task_manager_scheme, task_record) eff" where
  "registry_register env t = (let b = te_backend env; i = tk_id t in
     bind (store_write (tb_put b t)) (\<lambda>_.
     bind (store_read (\<lambda>s. tb_events b s i)) (\<lambda>es.
     bind (store_write (tb_put_events b i es)) (\<lambda>_.
     bind (store_read (\<lambda>s. tb_outputs b s i)) (\<lambda>js.
     bind (store_write (tb_put_outputs b i js)) (\<lambda>_.
     bind (store_read (\<lambda>s. tb_observers b s i)) (\<lambda>bs.
     bind (store_write (tb_put_observers b i bs)) (\<lambda>_. ret t))))))))"

definition selected :: "task_selector \<Rightarrow> task_record \<Rightarrow> bool" where
  "selected sel t \<longleftrightarrow> (case sl_status sel of None \<Rightarrow> True | Some x \<Rightarrow> task_status_str (tk_status t) = x)
     \<and> (case sl_type sel of None \<Rightarrow> True | Some x \<Rightarrow> tk_type t = x)
     \<and> (case sl_session sel of None \<Rightarrow> True | Some x \<Rightarrow> tk_session t = Some x)
     \<and> (case sl_agent sel of None \<Rightarrow> True | Some x \<Rightarrow> tk_agent t = Some x)"

definition registry_list :: "'s task_env \<Rightarrow> task_selector option \<Rightarrow> (('s, 'i, 'z) task_manager_scheme, task_record list) eff" where
  "registry_list env sel = bind (store_read (tb_all (te_backend env))) (\<lambda>ts.
     ret (case sel of None \<Rightarrow> sort_key tk_id ts | Some x \<Rightarrow> filter (selected x) (sort_key tk_id ts)))"

record task_update =
  tu_status :: "string option"
  tu_metadata :: "json_object option"
  tu_output_ref :: "string option"
  tu_cursor :: "output_cursor option"
  tu_terminal :: "json_object option"
  tu_notified :: "bool option"
  tu_end :: "string option"

definition no_update :: task_update where
  "no_update = \<lparr>tu_status = None, tu_metadata = None, tu_output_ref = None, tu_cursor = None,
     tu_terminal = None, tu_notified = None, tu_end = None\<rparr>"

text \<open>The new status, with the end of the task when it is the first terminal one.\<close>

definition update_status :: "'s task_env \<Rightarrow> task_update \<Rightarrow> task_record \<Rightarrow> (('s, 'i, 'z) task_manager_scheme, task_record) eff" where
  "update_status env u t = (case tu_status u of
     None \<Rightarrow> ret t
   | Some x \<Rightarrow> (let t1 = t\<lparr>tk_status := task_status_of x\<rparr> in
       if x \<in> set terminal_values \<and> tk_end t = None then
         (case tu_end u of
            Some (c # cs) \<Rightarrow> ret (t1\<lparr>tk_end := Some (c # cs)\<rparr>)
          | _ \<Rightarrow> bind (iso_now env) (\<lambda>now. ret (t1\<lparr>tk_end := Some now\<rparr>)))
       else ret t1))"

definition update_fields :: "task_update \<Rightarrow> task_record \<Rightarrow> task_record" where
  "update_fields u t =
     (let t1 = (case tu_metadata u of None \<Rightarrow> t
            | Some m \<Rightarrow> t\<lparr>tk_metadata := Some (dict_merge (case tk_metadata t of None \<Rightarrow> [] | Some d \<Rightarrow> d) m)\<rparr>);
          t2 = (case tu_output_ref u of None \<Rightarrow> t1 | Some r \<Rightarrow> t1\<lparr>tk_output_ref := Some r\<rparr>);
          t3 = (case tu_cursor u of None \<Rightarrow> t2 | Some c \<Rightarrow> t2\<lparr>tk_output_cursor := Some c\<rparr>);
          t4 = (case tu_terminal u of None \<Rightarrow> t3 | Some d \<Rightarrow> t3\<lparr>tk_terminal := Some d\<rparr>);
          t5 = (case tu_notified u of None \<Rightarrow> t4 | Some x \<Rightarrow> t4\<lparr>tk_notified := x\<rparr>)
      in case tu_end u of None \<Rightarrow> t5 | Some e \<Rightarrow> t5\<lparr>tk_end := Some e\<rparr>)"

definition registry_update :: "'s task_env \<Rightarrow> string \<Rightarrow> task_update \<Rightarrow> (('s, 'i, 'z) task_manager_scheme, task_record) eff" where
  "registry_update env i u = bind (registry_get env i) (\<lambda>t.
     bind (update_status env u t) (\<lambda>t1.
     (let t2 = update_fields u t1 in
      bind (store_write (tb_put (te_backend env) t2)) (\<lambda>_. ret t2))))"

definition registry_append_event :: "'s task_env \<Rightarrow> string \<Rightarrow> task_event \<Rightarrow> (('s, 'i, 'z) task_manager_scheme, task_event) eff" where
  "registry_append_event env i e = bind (store_read (\<lambda>s. tb_events (te_backend env) s i)) (\<lambda>es.
     bind (store_write (tb_put_events (te_backend env) i (es @ [e]))) (\<lambda>_. ret e))"

definition registry_read_events :: "'s task_env \<Rightarrow> string \<Rightarrow> int \<Rightarrow> (('s, 'i, 'z) task_manager_scheme, event_slice) eff" where
  "registry_read_events env i cursor = bind (store_read (\<lambda>s. tb_events (te_backend env) s i)) (\<lambda>es.
     bind (registry_get env i) (\<lambda>t.
     ret \<lparr>es_task = i, es_cursor = int (length es), es_events = map task_event_to_dict (py_from cursor es),
          es_done = task_done t\<rparr>))"

definition registry_append_output :: "'s task_env \<Rightarrow> string \<Rightarrow> json \<Rightarrow> (('s, 'i, 'z) task_manager_scheme, int) eff" where
  "registry_append_output env i x = bind (store_read (\<lambda>s. tb_outputs (te_backend env) s i)) (\<lambda>js.
     (let n = int (length js) + 1 in
      bind (store_write (tb_put_outputs (te_backend env) i (js @ [x]))) (\<lambda>_.
      bind (registry_update env i (no_update\<lparr>tu_cursor := Some (CursorInt n)\<rparr>)) (\<lambda>_. ret n))))"

definition registry_attach_output :: "'s task_env \<Rightarrow> string \<Rightarrow> string \<Rightarrow> (('s, 'i, 'z) task_manager_scheme, task_record) eff" where
  "registry_attach_output env i r = registry_update env i (no_update\<lparr>tu_output_ref := Some r\<rparr>)"

definition registry_read_output :: "'s task_env \<Rightarrow> string \<Rightarrow> int \<Rightarrow> (('s, 'i, 'z) task_manager_scheme, output_slice) eff" where
  "registry_read_output env i cursor = bind (store_read (\<lambda>s. tb_outputs (te_backend env) s i)) (\<lambda>js.
     bind (registry_get env i) (\<lambda>t.
     ret \<lparr>os_task = i, os_ref = tk_output_ref t, os_cursor = int (length js), os_items = py_from cursor js,
          os_done = task_done t\<rparr>))"

definition registry_observers :: "'s task_env \<Rightarrow> string \<Rightarrow> (string set \<Rightarrow> string set) \<Rightarrow> (('s, 'i, 'z) task_manager_scheme, unit) eff" where
  "registry_observers env i f = bind (store_read (\<lambda>s. tb_observers (te_backend env) s i)) (\<lambda>bs.
     store_write (tb_put_observers (te_backend env) i (f bs)))"

definition registry_attach_observer :: "'s task_env \<Rightarrow> string \<Rightarrow> string \<Rightarrow> (('s, 'i, 'z) task_manager_scheme, unit) eff" where
  "registry_attach_observer env i x = registry_observers env i (insert x)"

definition registry_detach_observer :: "'s task_env \<Rightarrow> string \<Rightarrow> string \<Rightarrow> (('s, 'i, 'z) task_manager_scheme, unit) eff" where
  "registry_detach_observer env i x = registry_observers env i (\<lambda>bs. bs - {x})"

definition registry_mark_notified :: "'s task_env \<Rightarrow> string \<Rightarrow> (('s, 'i, 'z) task_manager_scheme, task_record) eff" where
  "registry_mark_notified env i = registry_update env i (no_update\<lparr>tu_notified := Some True\<rparr>)"

subsection \<open>Eviction\<close>

text \<open>\<open>now < ended_at + grace\<close>; Python does not compare a time with a zone and one without.\<close>

definition still_in_grace :: "int \<Rightarrow> bool \<times> int \<Rightarrow> bool \<times> int \<Rightarrow> py_error + bool" where
  "still_in_grace grace now ended = (if fst now \<noteq> fst ended
     then Inl (TypeError (''can't compare offset-naive and offset-aware datetimes''))
     else Inr (snd now < snd ended + grace))"

text \<open>Whether the loop of \<open>evict_expired\<close> removes a task.\<close>

definition expired :: "'s task_env \<Rightarrow> bool \<times> int \<Rightarrow> task_record \<Rightarrow> (('s, 'i, 'z) task_manager_scheme, bool) eff" where
  "expired env now t =
     (if \<not> task_done t then ret False
      else bind (store_read (\<lambda>s. tb_observers (te_backend env) s (tk_id t))) (\<lambda>bs.
        if bs \<noteq> {} \<or> \<not> tk_notified t then ret False
        else (case tk_end t of
            None \<Rightarrow> ret False
          | Some e \<Rightarrow> lift (ebind (te_parse env e) (\<lambda>ended.
              ebind (still_in_grace (rp_grace (te_policy env)) now ended) (\<lambda>g. Inr (\<not> g)))))))"

fun evict_loop :: "'s task_env \<Rightarrow> bool \<times> int \<Rightarrow> task_record list \<Rightarrow> string list \<Rightarrow> (('s, 'i, 'z) task_manager_scheme, string list) eff" where
  "evict_loop env now [] removed = ret removed"
| "evict_loop env now (t # ts) removed = bind (expired env now t) (\<lambda>x.
     if x then bind (store_write (tb_remove (te_backend env) (rp_output (te_policy env)) (tk_id t))) (\<lambda>_.
       evict_loop env now ts (removed @ [tk_id t]))
     else evict_loop env now ts removed)"

definition registry_evict_expired :: "'s task_env \<Rightarrow> string option \<Rightarrow> (('s, 'i, 'z) task_manager_scheme, string list) eff" where
  "registry_evict_expired env stamp =
     (if \<not> rp_evict (te_policy env) then ret []
      else bind (case stamp of None \<Rightarrow> iso_now env | Some x \<Rightarrow> ret x) (\<lambda>x.
        bind (lift (te_parse env x)) (\<lambda>now.
        bind (registry_list env None) (\<lambda>ts. evict_loop env now ts []))))"

subsection \<open>The manager\<close>

text \<open>
  A registered implementation may take over an operation: \<open>D x\<close> is the method of the implementation \<open>x\<close>
  when it has one, and the manager's own body runs otherwise.
\<close>

definition register_type :: "string \<Rightarrow> 'i \<Rightarrow> (('s, 'i, 'z) task_manager_scheme, unit) eff" where
  "register_type ty x = modify (\<lambda>st. st\<lparr>tm_type_impls := dict_set ty x (tm_type_impls st)\<rparr>)"

definition register_implementation :: "string \<Rightarrow> 'i \<Rightarrow> (('s, 'i, 'z) task_manager_scheme, unit) eff" where
  "register_implementation i x = modify (\<lambda>st. st\<lparr>tm_task_impls := dict_set i x (tm_task_impls st)\<rparr>)"

definition implementation_of :: "string \<Rightarrow> string \<Rightarrow> ('s, 'i, 'z) task_manager_scheme \<Rightarrow> 'i option" where
  "implementation_of i ty st = (case dict_get (tm_task_impls st) i of
     Some x \<Rightarrow> Some x | None \<Rightarrow> dict_get (tm_type_impls st) ty)"

definition dispatch :: "'s task_env \<Rightarrow> string \<Rightarrow> ('i \<Rightarrow> (('s, 'i, 'z) task_manager_scheme, 'a) eff option)
    \<Rightarrow> (('s, 'i, 'z) task_manager_scheme, 'a) eff \<Rightarrow> (('s, 'i, 'z) task_manager_scheme, 'a) eff" where
  "dispatch env i D body = bind (registry_get env i) (\<lambda>t.
     bind (gets (implementation_of i (tk_type t))) (\<lambda>impl.
     case impl of None \<Rightarrow> body
     | Some x \<Rightarrow> (case D x of None \<Rightarrow> body | Some m \<Rightarrow> m)))"

type_synonym ('s, 'i, 'z) events_method = "'i \<Rightarrow> (string \<Rightarrow> int \<Rightarrow> (('s, 'i, 'z) task_manager_scheme, event_slice) eff) option"

definition manager_read_events ::
  "('s, 'i, 'z) events_method \<Rightarrow> 's task_env \<Rightarrow> string \<Rightarrow> int \<Rightarrow> (('s, 'i, 'z) task_manager_scheme, event_slice) eff" where
  "manager_read_events R env i cursor =
     dispatch env i (\<lambda>x. map_option (\<lambda>m. m i cursor) (R x)) (registry_read_events env i cursor)"

definition manager_read_output :: "('i \<Rightarrow> (string \<Rightarrow> int \<Rightarrow> (('s, 'i, 'z) task_manager_scheme, output_slice) eff) option)
    \<Rightarrow> 's task_env \<Rightarrow> string \<Rightarrow> int \<Rightarrow> (('s, 'i, 'z) task_manager_scheme, output_slice) eff" where
  "manager_read_output R env i cursor =
     dispatch env i (\<lambda>x. map_option (\<lambda>m. m i cursor) (R x)) (registry_read_output env i cursor)"

definition await_task :: "('i \<Rightarrow> (string \<Rightarrow> int option \<Rightarrow> (('s, 'i, 'z) task_manager_scheme, task_record) eff) option)
    \<Rightarrow> 's task_env \<Rightarrow> string \<Rightarrow> int option \<Rightarrow> (('s, 'i, 'z) task_manager_scheme, task_record) eff" where
  "await_task W env i timeout =
     dispatch env i (\<lambda>x. map_option (\<lambda>m. m i timeout) (W x)) (registry_get env i)"

text \<open>\<open>TaskEvent(event_id=f"task_{label}:{task_id}:{cursor + 1}", ...)\<close>, appended.\<close>

definition numbered_event :: "('s, 'i, 'z) events_method \<Rightarrow> 's task_env \<Rightarrow> string \<Rightarrow> string \<Rightarrow> json_object
    \<Rightarrow> json_object option \<Rightarrow> json_object option \<Rightarrow> (('s, 'i, 'z) task_manager_scheme, unit) eff" where
  "numbered_event R env i ty payload terminal err = bind (manager_read_events R env i 0) (\<lambda>sl.
     bind (iso_now env) (\<lambda>now.
     bind (registry_append_event env i \<lparr>te_task = i, te_id = ''task_'' @ ty @ '':'' @ i @ '':'' @ int_str (es_cursor sl + 1),
       te_timestamp = now, te_type = ty, te_payload = payload, te_terminal = terminal, te_error = err\<rparr>) (\<lambda>_. ret ())))"

definition plain_terminal :: "terminal_status \<Rightarrow> string \<Rightarrow> json_object" where
  "plain_terminal st reason = terminal_to_dict \<lparr>ts_status = st, ts_reason = reason, ts_retryable = None, ts_summary = None\<rparr>"

definition dict_or_empty :: "json_object option \<Rightarrow> json_object" where
  "dict_or_empty d = (case d of None \<Rightarrow> [] | Some x \<Rightarrow> x)"

record spawn_request =
  sp_type :: string
  sp_description :: string
  sp_metadata :: "json_object option"
  sp_session :: "string option"
  sp_agent :: "string option"
  sp_parent :: "string option"

definition spawned_task :: "spawn_request \<Rightarrow> string \<Rightarrow> string \<Rightarrow> task_record" where
  "spawned_task r i now = \<lparr>tk_id = i, tk_type = sp_type r, tk_status = TStatus PENDING, tk_description = sp_description r,
     tk_start = now, tk_session = sp_session r, tk_agent = sp_agent r, tk_parent = sp_parent r, tk_output_ref = None,
     tk_output_cursor = None, tk_end = None, tk_terminal = None, tk_notified = False, tk_metadata = sp_metadata r\<rparr>"

definition started_event :: "spawn_request \<Rightarrow> string \<Rightarrow> string \<Rightarrow> task_event" where
  "started_event r i now = \<lparr>te_task = i, te_id = ''task_started:'' @ i @ '':1'', te_timestamp = now, te_type = ''started'',
     te_payload = dict_merge [(''description'', JStr (sp_description r))] (dict_or_empty (sp_metadata r)),
     te_terminal = None, te_error = None\<rparr>"

definition spawn :: "'s task_env \<Rightarrow> spawn_request \<Rightarrow> (('s, 'i, 'z) task_manager_scheme, task_record) eff" where
  "spawn env r = bind (registry_next_task_id env) (\<lambda>i.
     bind (iso_now env) (\<lambda>now.
     bind (registry_register env (spawned_task r i now)) (\<lambda>_.
     bind (registry_update env i (no_update\<lparr>tu_status := Some ''running''\<rparr>)) (\<lambda>_.
     bind (iso_now env) (\<lambda>now.
     bind (registry_append_event env i (started_event r i now)) (\<lambda>_.
     registry_get env i))))))"

definition kill :: "('i \<Rightarrow> (string \<Rightarrow> (('s, 'i, 'z) task_manager_scheme, task_record) eff) option)
    \<Rightarrow> ('s, 'i, 'z) events_method \<Rightarrow> 's task_env \<Rightarrow> string \<Rightarrow> (('s, 'i, 'z) task_manager_scheme, task_record) eff" where
  "kill K R env i = dispatch env i (\<lambda>x. map_option (\<lambda>m. m i) (K x))
     (bind (registry_update env i (no_update\<lparr>tu_status := Some ''killed'', tu_terminal := Some (plain_terminal KILLED ''killed'')\<rparr>)) (\<lambda>updated.
      bind (numbered_event R env i ''killed'' [(''reason'', JStr ''killed'')] (Some (plain_terminal KILLED ''killed'')) None) (\<lambda>_.
      ret updated)))"

definition evict_expired :: "'s task_env \<Rightarrow> string option \<Rightarrow> (('s, 'i, 'z) task_manager_scheme, string list) eff" where
  "evict_expired env stamp = bind (registry_evict_expired env stamp) (\<lambda>removed.
     bind (modify (\<lambda>st. st\<lparr>tm_task_impls := fold dict_pop removed (tm_task_impls st),
       tm_results := fold dict_pop removed (tm_results st)\<rparr>)) (\<lambda>_. ret removed))"

definition create_task :: "'s task_env \<Rightarrow> string \<Rightarrow> json_object option \<Rightarrow> (('s, 'i, 'z) task_manager_scheme, task_record) eff" where
  "create_task env desc meta = bind (spawn env \<lparr>sp_type = task_kind_value KIND_GENERIC, sp_description = desc,
       sp_metadata = meta, sp_session = None, sp_agent = None, sp_parent = None\<rparr>) (\<lambda>t.
     bind (registry_update env (tk_id t) (no_update\<lparr>tu_status := Some ''completed'',
       tu_terminal := Some (plain_terminal COMPLETED ''completed'')\<rparr>)) (\<lambda>_.
     registry_get env (tk_id t)))"

definition update_task :: "'s task_env \<Rightarrow> string \<Rightarrow> string \<Rightarrow> json_object option \<Rightarrow> (('s, 'i, 'z) task_manager_scheme, unit) eff" where
  "update_task env i status meta = bind (registry_update env i (no_update\<lparr>tu_status := Some status, tu_metadata := meta\<rparr>)) (\<lambda>_. ret ())"

definition checkpoint_task :: "('s, 'i, 'z) events_method \<Rightarrow> 's task_env \<Rightarrow> string \<Rightarrow> json_object
    \<Rightarrow> (('s, 'i, 'z) task_manager_scheme, unit) eff" where
  "checkpoint_task R env i checkpoint = numbered_event R env i ''progress'' checkpoint None None"

definition complete_task :: "('s, 'i, 'z) events_method \<Rightarrow> 's task_env \<Rightarrow> string \<Rightarrow> string option \<Rightarrow> json_object option
    \<Rightarrow> (('s, 'i, 'z) task_manager_scheme, unit) eff" where
  "complete_task R env i output meta =
     bind (case output of None \<Rightarrow> ret () | Some r \<Rightarrow> bind (registry_attach_output env i r) (\<lambda>_. ret ())) (\<lambda>_.
     bind (registry_update env i (no_update\<lparr>tu_status := Some ''completed'', tu_metadata := meta, tu_output_ref := output,
       tu_terminal := Some (plain_terminal COMPLETED ''completed'')\<rparr>)) (\<lambda>_.
     numbered_event R env i ''completed'' (dict_merge [(''output_ref'', jopt_str output)] (dict_or_empty meta))
       (Some (plain_terminal COMPLETED ''completed'')) None))"

definition fail_task :: "('s, 'i, 'z) events_method \<Rightarrow> 's task_env \<Rightarrow> string \<Rightarrow> string \<Rightarrow> json_object option
    \<Rightarrow> (('s, 'i, 'z) task_manager_scheme, unit) eff" where
  "fail_task R env i reason meta = (let merged = dict_merge [(''reason'', JStr reason)] (dict_or_empty meta) in
     bind (registry_update env i (no_update\<lparr>tu_status := Some ''failed'', tu_metadata := Some merged,
       tu_terminal := Some (plain_terminal FAILED reason)\<rparr>)) (\<lambda>_.
     numbered_event R env i ''failed'' merged (Some (plain_terminal FAILED reason)) (Some [(''reason'', JStr reason)])))"

subsection \<open>Handles\<close>

definition event_checkpoints :: "json_object list \<Rightarrow> json_object list" where
  "event_checkpoints es = List.map_filter (\<lambda>e. if jget e ''type'' = JStr ''progress'' then as_dict (jget e ''payload'') else None) es"

definition get_handle :: "('s, 'i, 'z) events_method \<Rightarrow> 's task_env \<Rightarrow> string \<Rightarrow> (('s, 'i, 'z) task_manager_scheme, background_handle) eff" where
  "get_handle R env i = bind (registry_get env i) (\<lambda>t.
     bind (manager_read_events R env i 0) (\<lambda>sl.
     (let kind = (case task_kind_of_str (tk_type t) of None \<Rightarrow> KIND_GENERIC | Some k \<Rightarrow> k) in
      ret \<lparr>bh_task = tk_id t, bh_kind = kind, bh_description = tk_description t,
        bh_detached = (case dict_get (dict_or_empty (tk_metadata t)) ''detached'' of
            None \<Rightarrow> kind = KIND_BACKGROUND | Some v \<Rightarrow> truthy v),
        bh_session = tk_session t, bh_agent = tk_agent t, bh_status = Some (task_status_str (tk_status t)),
        bh_output_ref = tk_output_ref t, bh_checkpoints = event_checkpoints (es_events sl)\<rparr>)))"

definition create_background_task :: "'s task_env \<Rightarrow> string \<Rightarrow> json_object option \<Rightarrow> bool \<Rightarrow> string option \<Rightarrow> string option
    \<Rightarrow> string option \<Rightarrow> (('s, 'i, 'z) task_manager_scheme, background_handle) eff" where
  "create_background_task env desc meta detached session agent parent =
     bind (spawn env \<lparr>sp_type = task_kind_value KIND_BACKGROUND, sp_description = desc,
       sp_metadata = Some (dict_set ''detached'' (JBool detached) (dict_or_empty meta)),
       sp_session = session, sp_agent = agent, sp_parent = parent\<rparr>) (\<lambda>t.
     ret \<lparr>bh_task = tk_id t, bh_kind = KIND_BACKGROUND, bh_description = desc, bh_detached = detached, bh_session = session,
       bh_agent = agent, bh_status = Some (task_status_str (tk_status t)), bh_output_ref = tk_output_ref t, bh_checkpoints = []\<rparr>)"

definition create_verifier_task :: "'s task_env \<Rightarrow> string \<Rightarrow> json_object option \<Rightarrow> string option \<Rightarrow> string option
    \<Rightarrow> string option \<Rightarrow> (('s, 'i, 'z) task_manager_scheme, verifier_handle) eff" where
  "create_verifier_task env desc meta session agent parent =
     bind (spawn env \<lparr>sp_type = task_kind_value KIND_VERIFIER, sp_description = desc, sp_metadata = meta,
       sp_session = session, sp_agent = agent, sp_parent = parent\<rparr>) (\<lambda>t.
     ret \<lparr>vh_task = tk_id t, vh_description = desc, vh_kind = ''verification'', vh_session = session,
       vh_agent = agent, vh_status = Some (task_status_str (tk_status t)), vh_output_ref = tk_output_ref t\<rparr>)"

definition request_metadata :: "verification_request \<Rightarrow> json_object" where
  "request_metadata r = [(''target_session'', JStr (vq_session r)), (''original_task'', JStr (vq_task r)),
     (''changed_artifacts'', JList (map JStr (vq_artifacts r))), (''evidence_scope'', JList (map JStr (vq_scope r))),
     (''review_policy'', JDict (vq_policy r)), (''source_command_id'', jopt_str (vq_command r))]"

definition run_verifier :: "'s task_env \<Rightarrow> verification_request \<Rightarrow> (('s, 'i, 'z) task_manager_scheme, verifier_handle) eff" where
  "run_verifier env r = create_verifier_task env (vq_prompt r) (Some (request_metadata r)) (Some (vq_session r)) None None"

definition result_metadata :: "verification_result \<Rightarrow> json_object" where
  "result_metadata r = dict_merge [(''verdict'', JStr (verdict_value (vr_verdict r))), (''summary'', JStr (vr_summary r)),
     (''evidence'', JList (map JStr (vr_evidence r))), (''findings'', JList (map JStr (vr_findings r))),
     (''limitations'', JList (map JStr (vr_limitations r)))] (dict_or_empty (vr_metadata r))"

definition complete_verifier :: "('s, 'i, 'z) events_method \<Rightarrow> 's task_env \<Rightarrow> string \<Rightarrow> verification_result
    \<Rightarrow> (('s, 'i, 'z) task_manager_scheme, verification_result) eff" where
  "complete_verifier R env i r = bind (modify (\<lambda>st. st\<lparr>tm_results := dict_set i r (tm_results st)\<rparr>)) (\<lambda>_.
     bind (complete_task R env i (vr_output_ref r) (Some (result_metadata r))) (\<lambda>_. ret r))"

definition str_items :: "json_object \<Rightarrow> string \<Rightarrow> string list" where
  "str_items d k = (case as_list (jget d k) of None \<Rightarrow> [] | Some l \<Rightarrow> map py_str l)"

text \<open>The result read back from the metadata of the record.\<close>

definition recorded_result :: "string \<Rightarrow> task_record \<Rightarrow> verification_result" where
  "recorded_result i t = (let d = dict_or_empty (tk_metadata t) in
     \<lparr>vr_verdict = (case verdict_of_str (case dict_get d ''verdict'' of None \<Rightarrow> ''partial'' | Some v \<Rightarrow> py_str v) of
          None \<Rightarrow> VERDICT_PARTIAL | Some v \<Rightarrow> v),
      vr_summary = (case dict_get d ''summary'' of None \<Rightarrow> tk_description t | Some v \<Rightarrow> py_str v),
      vr_evidence = str_items d ''evidence'', vr_findings = str_items d ''findings'',
      vr_limitations = str_items d ''limitations'', vr_task = Some i, vr_output_ref = tk_output_ref t,
      vr_metadata = Some d\<rparr>)"

definition await_verifier :: "('i \<Rightarrow> (string \<Rightarrow> int option \<Rightarrow> (('s, 'i, 'z) task_manager_scheme, task_record) eff) option)
    \<Rightarrow> 's task_env \<Rightarrow> verifier_handle \<Rightarrow> int option \<Rightarrow> (('s, 'i, 'z) task_manager_scheme, verification_result) eff" where
  "await_verifier W env h timeout = bind (await_task W env (vh_task h) timeout) (\<lambda>_.
     bind (gets (\<lambda>st. dict_get (tm_results st) (vh_task h))) (\<lambda>found.
     case found of
       Some r \<Rightarrow> ret r
     | None \<Rightarrow> bind (registry_get env (vh_task h)) (\<lambda>t. ret (recorded_result (vh_task h) t))))"

text \<open>\<open>BackgroundTaskHandle.from_dict\<close> and \<open>VerifierTaskHandle.from_dict\<close>.\<close>

definition background_handle_from_dict :: "json_object \<Rightarrow> py_error + background_handle" where
  "background_handle_from_dict d = ebind (field_str d ''task_id'') (\<lambda>i.
     ebind (field_str d ''task_kind'') (\<lambda>k.
     ebind (case task_kind_of_str k of None \<Rightarrow> Inl (ValueError (py_repr_str k @ '' is not a valid LocalTaskKind'')) | Some x \<Rightarrow> Inr x) (\<lambda>kind.
     ebind (field_str d ''description'') (\<lambda>desc.
     Inr \<lparr>bh_task = i, bh_kind = kind, bh_description = desc,
       bh_detached = (case dict_get d ''detached'' of None \<Rightarrow> False | Some v \<Rightarrow> truthy v),
       bh_session = field_opt_str d ''session_id'', bh_agent = field_opt_str d ''agent_id'',
       bh_status = as_str (jget d ''status''), bh_output_ref = as_str (jget d ''output_ref''),
       bh_checkpoints = (case as_list (jget d ''checkpoints'') of None \<Rightarrow> [] | Some l \<Rightarrow> List.map_filter as_dict l)\<rparr>))))"

definition background_handle_to_dict :: "background_handle \<Rightarrow> json_object" where
  "background_handle_to_dict h = [(''task_id'', JStr (bh_task h)), (''task_kind'', JStr (task_kind_value (bh_kind h))),
     (''description'', JStr (bh_description h)), (''detached'', JBool (bh_detached h)),
     (''session_id'', jopt_str (bh_session h)), (''agent_id'', jopt_str (bh_agent h)),
     (''status'', jopt_str (bh_status h)), (''output_ref'', jopt_str (bh_output_ref h)),
     (''checkpoints'', JList (map JDict (bh_checkpoints h)))]"

definition verifier_handle_from_dict :: "json_object \<Rightarrow> py_error + verifier_handle" where
  "verifier_handle_from_dict d = ebind (field_str d ''task_id'') (\<lambda>i.
     ebind (field_str d ''description'') (\<lambda>desc.
     Inr \<lparr>vh_task = i, vh_description = desc,
       vh_kind = (case dict_get d ''verification_kind'' of None \<Rightarrow> ''verification'' | Some v \<Rightarrow> py_str v),
       vh_session = field_opt_str d ''session_id'', vh_agent = field_opt_str d ''agent_id'',
       vh_status = as_str (jget d ''status''), vh_output_ref = as_str (jget d ''output_ref'')\<rparr>))"

definition verifier_handle_to_dict :: "verifier_handle \<Rightarrow> json_object" where
  "verifier_handle_to_dict h = [(''task_id'', JStr (vh_task h)), (''description'', JStr (vh_description h)),
     (''verification_kind'', JStr (vh_kind h)), (''session_id'', jopt_str (vh_session h)),
     (''agent_id'', jopt_str (vh_agent h)), (''status'', jopt_str (vh_status h)), (''output_ref'', jopt_str (vh_output_ref h))]"

end
