(* ===== verification/TaskSim.thy ===== *)
theory TaskSim
  imports TaskManager
begin

text \<open>
  The two task managers behave alike: every sequence of operations gets the same replies from the
  manager that keeps its tasks in memory and from the one that keeps them in files, up to the order of
  the keys of dictionaries, and raises at the same operations (the exceptions differ: an unknown task
  is a \<open>KeyError\<close> in memory and a missing file on disk).  The proof is a simulation, operation by
  operation, over the contract of \<^verbatim>\<open>TaskStore\<close>.
\<close>

subsection \<open>Operations and replies\<close>

datatype task_op =
    OpSpawn spawn_request
  | OpRegister task_record
  | OpUpdate string task_update
  | OpAppendEvent string task_event
  | OpAppendOutput string json
  | OpAttachOutput string string
  | OpKill string
  | OpList "task_selector option"
  | OpGet string
  | OpAwait string "int option"
  | OpReadOutput string int
  | OpReadEvents string int
  | OpAttachObserver string string
  | OpDetachObserver string string
  | OpMarkNotified string
  | OpEvict "string option"
  | OpCreate string "json_object option"
  | OpUpdateTask string string "json_object option"
  | OpCheckpoint string json_object
  | OpComplete string "string option" "json_object option"
  | OpFail string string "json_object option"
  | OpHandle string
  | OpBackground string "json_object option" bool "string option" "string option" "string option"
  | OpVerifier string "json_object option" "string option" "string option" "string option"
  | OpRunVerifier verification_request
  | OpCompleteVerifier string verification_result

datatype task_reply =
    RNothing
  | RTask task_record
  | RTasks "task_record list"
  | REvent task_event
  | RCount int
  | ROutput output_slice
  | REvents event_slice
  | RIds "string list"
  | RBackground background_handle
  | RVerifier verifier_handle
  | RResult verification_result

text \<open>No implementation is registered in the managers compared here, so no operation is taken over.\<close>

abbreviation no_method :: "unit \<Rightarrow> 'a option" where
  "no_method x \<equiv> None"

definition answer :: "('a \<Rightarrow> task_reply) \<Rightarrow> ('s, 'a) eff \<Rightarrow> ('s, task_reply) eff" where
  "answer f m = bind m (\<lambda>x. ret (f x))"

fun run_op :: "'s task_env \<Rightarrow> task_op \<Rightarrow> (('s, unit) task_manager, task_reply) eff" where
  "run_op env (OpSpawn r) = answer RTask (spawn env r)"
| "run_op env (OpRegister t) = answer RTask (registry_register env t)"
| "run_op env (OpUpdate i u) = answer RTask (registry_update env i u)"
| "run_op env (OpAppendEvent i e) = answer REvent (registry_append_event env i e)"
| "run_op env (OpAppendOutput i x) = answer RCount (registry_append_output env i x)"
| "run_op env (OpAttachOutput i r) = answer RTask (registry_attach_output env i r)"
| "run_op env (OpKill i) = answer RTask (kill no_method no_method env i)"
| "run_op env (OpList sel) = answer RTasks (registry_list env sel)"
| "run_op env (OpGet i) = answer RTask (registry_get env i)"
| "run_op env (OpAwait i timeout) = answer RTask (await_task no_method env i timeout)"
| "run_op env (OpReadOutput i n) = answer ROutput (manager_read_output no_method env i n)"
| "run_op env (OpReadEvents i n) = answer REvents (manager_read_events no_method env i n)"
| "run_op env (OpAttachObserver i x) = answer (\<lambda>_. RNothing) (registry_attach_observer env i x)"
| "run_op env (OpDetachObserver i x) = answer (\<lambda>_. RNothing) (registry_detach_observer env i x)"
| "run_op env (OpMarkNotified i) = answer RTask (registry_mark_notified env i)"
| "run_op env (OpEvict stamp) = answer RIds (evict_expired env stamp)"
| "run_op env (OpCreate desc meta) = answer RTask (create_task env desc meta)"
| "run_op env (OpUpdateTask i x meta) = answer (\<lambda>_. RNothing) (update_task env i x meta)"
| "run_op env (OpCheckpoint i d) = answer (\<lambda>_. RNothing) (checkpoint_task no_method env i d)"
| "run_op env (OpComplete i r meta) = answer (\<lambda>_. RNothing) (complete_task no_method env i r meta)"
| "run_op env (OpFail i reason meta) = answer (\<lambda>_. RNothing) (fail_task no_method env i reason meta)"
| "run_op env (OpHandle i) = answer RBackground (get_handle no_method env i)"
| "run_op env (OpBackground desc meta detached session agent parent) =
     answer RBackground (create_background_task env desc meta detached session agent parent)"
| "run_op env (OpVerifier desc meta session agent parent) =
     answer RVerifier (create_verifier_task env desc meta session agent parent)"
| "run_op env (OpRunVerifier r) = answer RVerifier (run_verifier env r)"
| "run_op env (OpCompleteVerifier i r) = answer RResult (complete_verifier no_method env i r)"

fun run_ops :: "'s task_env \<Rightarrow> task_op list \<Rightarrow> ('s, unit) task_manager
    \<Rightarrow> (py_error + task_reply) list \<times> ('s, unit) task_manager" where
  "run_ops env [] st = ([], st)"
| "run_ops env (x # xs) st = (let (r, st1) = run_op env x st; (rs, st2) = run_ops env xs st1 in (r # rs, st2))"

text \<open>A Python dictionary has distinct keys; in the model this is a condition on the metadata passed in.\<close>

definition meta_ok :: "json_object option \<Rightarrow> bool" where
  "meta_ok m \<longleftrightarrow> (case m of None \<Rightarrow> True | Some d \<Rightarrow> wf_dict d)"

fun op_ok :: "task_op \<Rightarrow> bool" where
  "op_ok (OpSpawn r) = meta_ok (sp_metadata r)"
| "op_ok (OpRegister t) = meta_ok (tk_metadata t)"
| "op_ok (OpCreate desc meta) = meta_ok meta"
| "op_ok (OpBackground desc meta detached session agent parent) = meta_ok meta"
| "op_ok (OpVerifier desc meta session agent parent) = meta_ok meta"
| "op_ok x = True"

text \<open>What a client sees of a reply: its \<open>to_dict\<close>, with the keys of every dictionary sorted.\<close>

definition output_slice_to_dict :: "output_slice \<Rightarrow> json_object" where
  "output_slice_to_dict x = [(''task_id'', JStr (os_task x)), (''output_ref'', jopt_str (os_ref x)),
     (''cursor'', JInt (os_cursor x)), (''items'', JList (os_items x)), (''done'', JBool (os_done x))]"

definition event_slice_to_dict :: "event_slice \<Rightarrow> json_object" where
  "event_slice_to_dict x = [(''task_id'', JStr (es_task x)), (''cursor'', JInt (es_cursor x)),
     (''events'', JList (map JDict (es_events x))), (''done'', JBool (es_done x))]"

definition verification_result_to_dict :: "verification_result \<Rightarrow> json_object" where
  "verification_result_to_dict r = [(''verdict'', JStr (verdict_value (vr_verdict r))), (''summary'', JStr (vr_summary r)),
     (''evidence'', JList (map JStr (vr_evidence r))), (''findings'', JList (map JStr (vr_findings r))),
     (''limitations'', JList (map JStr (vr_limitations r))), (''task_id'', jopt_str (vr_task r)),
     (''output_ref'', jopt_str (vr_output_ref r)), (''metadata'', jopt_dict (vr_metadata r))]"

fun reply_json :: "task_reply \<Rightarrow> json" where
  "reply_json RNothing = JNull"
| "reply_json (RTask t) = JDict (task_to_dict t)"
| "reply_json (RTasks ts) = JList (map (JDict \<circ> task_to_dict) ts)"
| "reply_json (REvent e) = JDict (task_event_to_dict e)"
| "reply_json (RCount n) = JInt n"
| "reply_json (ROutput x) = JDict (output_slice_to_dict x)"
| "reply_json (REvents x) = JDict (event_slice_to_dict x)"
| "reply_json (RIds is) = JList (map JStr is)"
| "reply_json (RBackground h) = JDict (background_handle_to_dict h)"
| "reply_json (RVerifier h) = JDict (verifier_handle_to_dict h)"
| "reply_json (RResult r) = JDict (verification_result_to_dict r)"

definition seen :: "py_error + task_reply \<Rightarrow> json option" where
  "seen r = (case r of Inl e \<Rightarrow> None | Inr x \<Rightarrow> Some (sorted_json (reply_json x)))"

subsection \<open>Dictionaries up to the order of their keys\<close>

lemma sort_key_unique:
  fixes f :: "'a \<Rightarrow> 'b::linorder"
  assumes "distinct (map f xs)" "distinct (map f ys)" "set xs = set ys"
  shows "sort_key f xs = sort_key f ys"
proof (rule map_sorted_distinct_set_unique)
  have d: "distinct (map f (sort_key f zs))" if "distinct (map f zs)" for zs
    using that by (simp add: distinct_map)
  show "inj_on f (set (sort_key f xs) \<union> set (sort_key f ys))"
    using assms by (simp add: distinct_map)
  show "distinct (map f (sort_key f xs))" "distinct (map f (sort_key f ys))" using assms d by blast+
qed (simp_all add: assms(3))

lemma sorted_object_eqI:
  assumes "wf_dict d" "wf_dict e" "\<And>k. map_option sorted_json (map_of d k) = map_option sorted_json (map_of e k)"
  shows "sorted_object d = sorted_object e"
  unfolding sorted_object_def
proof (rule sort_key_unique)
  have m: "map_of (map (apsnd sorted_json) c) k = map_option sorted_json (map_of c k)" for c k
    by (induction c) auto
  have w: "wf_dict (map (apsnd sorted_json) c)" if "wf_dict c" for c :: json_object
    using that by (simp add: comp_def)
  show wd: "wf_dict (map (apsnd sorted_json) d)" "wf_dict (map (apsnd sorted_json) e)" using assms w by blast+
  show "set (map (apsnd sorted_json) d) = set (map (apsnd sorted_json) e)"
    using map_of_eq_Some_iff [OF wd(1)] map_of_eq_Some_iff [OF wd(2)] m assms(3) by (metis surj_pair subset_antisym subsetI)
qed

lemma sorted_object_set:
  assumes "sorted_object d = sorted_object e" "wf_dict d" "wf_dict e"
  shows "sorted_object (dict_set k v d) = sorted_object (dict_set k v e)"
proof (rule sorted_object_eqI)
  fix x
  have "map_option sorted_json (map_of d x) = map_option sorted_json (map_of e x)"
    using assms(1) by (metis map_of_sorted)
  then show "map_option sorted_json (map_of (dict_set k v d) x) = map_option sorted_json (map_of (dict_set k v e) x)"
    by simp
qed (simp_all add: assms)

lemma sorted_object_merge:
  "sorted_object d = sorted_object e \<Longrightarrow> wf_dict d \<Longrightarrow> wf_dict e \<Longrightarrow>
     sorted_object (dict_merge d m) = sorted_object (dict_merge e m)"
proof (induction m arbitrary: d e)
  case (Cons kv m)
  obtain k v where kv: "kv = (k, v)" by (cases kv)
  show ?case unfolding kv dict_merge_Cons
    by (rule Cons.IH [OF sorted_object_set [OF Cons.prems]]) (simp_all add: Cons.prems)
qed simp

lemma sorted_object_Nil [simp]: "sorted_object d = [] \<longleftrightarrow> d = []"
  by (metis length_0_conv length_map length_sort sorted_object_def)

lemma truthy_sorted [simp]: "truthy (sorted_json v) = truthy v"
  by (cases v) simp_all

lemma wf_sorted_object [simp]: "wf_dict (sorted_object d) = wf_dict d"
proof -
  have "wf_dict (sort_key fst c) = wf_dict c" for c :: json_object
    by (simp add: distinct_map)
  then have "wf_dict (sorted_object d) = wf_dict (map (apsnd sorted_json) d)"
    by (simp only: sorted_object_def)
  then show ?thesis by (simp add: comp_def)
qed

subsection \<open>Related records\<close>

definition same_task :: "task_record \<Rightarrow> task_record \<Rightarrow> bool" where
  "same_task t u \<longleftrightarrow> file_norm_task t = file_norm_task u \<and> meta_ok (tk_metadata t) \<and> meta_ok (tk_metadata u)"

lemma same_task_fields:
  assumes "same_task t u"
  shows "tk_id t = tk_id u" "tk_type t = tk_type u" "task_status_str (tk_status t) = task_status_str (tk_status u)"
    "tk_description t = tk_description u" "tk_start t = tk_start u" "tk_session t = tk_session u"
    "tk_agent t = tk_agent u" "tk_parent t = tk_parent u" "tk_output_ref t = tk_output_ref u"
    "tk_output_cursor t = tk_output_cursor u" "tk_end t = tk_end u" "tk_notified t = tk_notified u"
    "map_option sorted_object (tk_terminal t) = map_option sorted_object (tk_terminal u)"
    "map_option sorted_object (tk_metadata t) = map_option sorted_object (tk_metadata u)"
proof -
  have e: "file_norm_task t = file_norm_task u" using assms by (simp add: same_task_def)
  show "tk_id t = tk_id u" "tk_type t = tk_type u" "task_status_str (tk_status t) = task_status_str (tk_status u)"
    "tk_description t = tk_description u" "tk_start t = tk_start u" "tk_session t = tk_session u"
    "tk_agent t = tk_agent u" "tk_parent t = tk_parent u" "tk_output_ref t = tk_output_ref u"
    "tk_output_cursor t = tk_output_cursor u" "tk_end t = tk_end u" "tk_notified t = tk_notified u"
    using tfiles.norm_t_fields [of t] tfiles.norm_t_fields [of u] arg_cong [OF e, of tk_notified] e by simp_all
  show "map_option sorted_object (tk_terminal t) = map_option sorted_object (tk_terminal u)"
    "map_option sorted_object (tk_metadata t) = map_option sorted_object (tk_metadata u)"
    using arg_cong [OF e, of tk_terminal] arg_cong [OF e, of tk_metadata] by (simp_all add: file_norm_task_def)
qed

lemma same_task_refl: "meta_ok (tk_metadata t) \<Longrightarrow> same_task t t"
  by (simp add: same_task_def)

lemma meta_ok_sorted [simp]: "meta_ok (map_option sorted_object m) = meta_ok m"
  by (simp add: meta_ok_def option.case_eq_if option.map_sel)

lemma same_task_norm: "meta_ok (tk_metadata t) \<Longrightarrow> same_task (file_norm_task t) t"
  by (simp add: same_task_def) (simp add: file_norm_task_def)

definition updated_metadata :: "task_update \<Rightarrow> json_object option \<Rightarrow> json_object option" where
  "updated_metadata x m = (case tu_metadata x of None \<Rightarrow> m | Some d \<Rightarrow> Some (dict_merge (dict_or_empty m) d))"

lemma update_fields_eq:
  "update_fields x t = t\<lparr>tk_metadata := updated_metadata x (tk_metadata t),
     tk_output_ref := (case tu_output_ref x of None \<Rightarrow> tk_output_ref t | Some r \<Rightarrow> Some r),
     tk_output_cursor := (case tu_cursor x of None \<Rightarrow> tk_output_cursor t | Some c \<Rightarrow> Some c),
     tk_terminal := (case tu_terminal x of None \<Rightarrow> tk_terminal t | Some d \<Rightarrow> Some d),
     tk_notified := (case tu_notified x of None \<Rightarrow> tk_notified t | Some n \<Rightarrow> n),
     tk_end := (case tu_end x of None \<Rightarrow> tk_end t | Some e \<Rightarrow> Some e)\<rparr>"
  by (cases "tu_metadata x"; cases "tu_output_ref x"; cases "tu_cursor x"; cases "tu_terminal x"; cases "tu_notified x";
      cases "tu_end x") (simp_all add: update_fields_def updated_metadata_def dict_or_empty_def)

lemma updated_metadata_ok: "meta_ok m \<Longrightarrow> meta_ok (updated_metadata x m)"
  by (auto simp: updated_metadata_def meta_ok_def dict_or_empty_def split: option.splits)

lemma updated_metadata_sorted:
  assumes "map_option sorted_object m = map_option sorted_object m'" "meta_ok m" "meta_ok m'"
  shows "map_option sorted_object (updated_metadata x m) = map_option sorted_object (updated_metadata x m')"
proof (cases "tu_metadata x")
  case (Some d)
  have "sorted_object (dict_merge (dict_or_empty m) d) = sorted_object (dict_merge (dict_or_empty m') d)"
    using assms by (intro sorted_object_merge) (auto simp: meta_ok_def dict_or_empty_def split: option.splits)
  then show ?thesis by (simp add: updated_metadata_def Some)
qed (simp add: updated_metadata_def assms(1))

lemma same_task_update:
  assumes "same_task t u"
  shows "same_task (update_fields x t) (update_fields x u)"
proof -
  have m: "meta_ok (tk_metadata t)" "meta_ok (tk_metadata u)" using assms by (simp_all add: same_task_def)
  note f = same_task_fields [OF assms]
  have e: "map_option sorted_object (updated_metadata x (tk_metadata t)) = map_option sorted_object (updated_metadata x (tk_metadata u))"
    by (rule updated_metadata_sorted [OF f(14) m])
  have "file_norm_task (update_fields x t) = file_norm_task (update_fields x u)"
    by (rule task_record.equality) (simp_all add: update_fields_eq file_norm_task_def f e split: option.split)
  then show ?thesis using updated_metadata_ok [OF m(1)] updated_metadata_ok [OF m(2)]
    by (simp add: same_task_def update_fields_eq)
qed

lemma same_task_set:
  assumes "same_task t u"
  shows "same_task (t\<lparr>tk_status := x\<rparr>) (u\<lparr>tk_status := x\<rparr>)" "same_task (t\<lparr>tk_end := y\<rparr>) (u\<lparr>tk_end := y\<rparr>)"
proof -
  note f = same_task_fields [OF assms]
  have "file_norm_task (t\<lparr>tk_status := x\<rparr>) = file_norm_task (u\<lparr>tk_status := x\<rparr>)"
    "file_norm_task (t\<lparr>tk_end := y\<rparr>) = file_norm_task (u\<lparr>tk_end := y\<rparr>)"
    by (rule task_record.equality; simp add: file_norm_task_def f)+
  then show "same_task (t\<lparr>tk_status := x\<rparr>) (u\<lparr>tk_status := x\<rparr>)" "same_task (t\<lparr>tk_end := y\<rparr>) (u\<lparr>tk_end := y\<rparr>)"
    using assms by (simp_all add: same_task_def)
qed

lemma same_task_dict:
  assumes "same_task t u"
  shows "sorted_object (task_to_dict t) = sorted_object (task_to_dict u)"
proof -
  note f = same_task_fields [OF assms]
  have "map (apsnd sorted_json) (task_to_dict t) = map (apsnd sorted_json) (task_to_dict u)"
    by (simp only: task_to_dict_def list.map apsnd_conv sorted_json_scalars sorted_json.simps f)
  then show ?thesis by (simp only: sorted_object_def)
qed

subsection \<open>Related states\<close>

text \<open>The files hold what the memory holds, in the normal form of the files.\<close>

fun task_held :: "task_record option \<Rightarrow> py_error + task_record \<Rightarrow> bool" where
  "task_held None (Inl e) = True"
| "task_held (Some t) (Inr u) = (meta_ok (tk_metadata t) \<and> u = file_norm_task t)"
| "task_held _ _ = False"

definition stores_match :: "task_files \<Rightarrow> memory_storage \<Rightarrow> bool" where
  "stores_match s m \<longleftrightarrow> task_files_inv s \<and> memory_inv m \<and> file_count s = ms_counter m
     \<and> (\<forall>i. task_held (dict_get (ms_tasks m) i) (file_read_task s i))
     \<and> (\<forall>i. file_read_events s i = Inr (map file_norm_event (dict_get_default (ms_events m) i [])))
     \<and> (\<forall>i. file_read_outputs s i = Inr (map sorted_json (dict_get_default (ms_outputs m) i [])))
     \<and> (\<forall>i. file_read_observers s i = Inr (dict_get_default (ms_observers m) i {}))"

definition managers_match :: "(task_files, unit) task_manager \<Rightarrow> (memory_storage, unit) task_manager \<Rightarrow> bool" where
  "managers_match f m \<longleftrightarrow> stores_match (tm_store f) (tm_store m) \<and> tm_clock f = tm_clock m
     \<and> tm_task_impls f = [] \<and> tm_type_impls f = [] \<and> tm_task_impls m = [] \<and> tm_type_impls m = []
     \<and> tm_results f = tm_results m"

text \<open>Two managers that differ in the storage alone.\<close>

definition file_env :: "(nat \<Rightarrow> string) \<Rightarrow> (string \<Rightarrow> py_error + bool \<times> int) \<Rightarrow> retention_policy \<Rightarrow> task_files task_env" where
  "file_env now parse policy = \<lparr>te_backend = file_backend, te_now = now, te_parse = parse, te_policy = policy\<rparr>"

definition memory_env :: "(nat \<Rightarrow> string) \<Rightarrow> (string \<Rightarrow> py_error + bool \<times> int) \<Rightarrow> retention_policy \<Rightarrow> memory_storage task_env" where
  "memory_env now parse policy = \<lparr>te_backend = memory_backend, te_now = now, te_parse = parse, te_policy = policy\<rparr>"

lemma env_sel [simp]:
  "te_backend (file_env now parse policy) = file_backend" "te_backend (memory_env now parse policy) = memory_backend"
  "te_now (file_env now parse policy) = now" "te_now (memory_env now parse policy) = now"
  "te_parse (file_env now parse policy) = parse" "te_parse (memory_env now parse policy) = parse"
  "te_policy (file_env now parse policy) = policy" "te_policy (memory_env now parse policy) = policy"
  by (simp_all add: file_env_def memory_env_def)

lemma memory_backend_sel [simp]:
  "tb_next memory_backend = memory_next_task_id"
  "tb_get memory_backend s i = (case dict_get (ms_tasks s) i of None \<Rightarrow> Inl (KeyError i) | Some t \<Rightarrow> Inr t)"
  "tb_all memory_backend s = Inr (dict_values (ms_tasks s))"
  "tb_put memory_backend t s = s\<lparr>ms_tasks := dict_set (tk_id t) t (ms_tasks s)\<rparr>"
  "tb_events memory_backend s i = Inr (dict_get_default (ms_events s) i [])"
  "tb_put_events memory_backend i es s = s\<lparr>ms_events := dict_set i es (ms_events s)\<rparr>"
  "tb_outputs memory_backend s i = Inr (dict_get_default (ms_outputs s) i [])"
  "tb_put_outputs memory_backend i js s = s\<lparr>ms_outputs := dict_set i js (ms_outputs s)\<rparr>"
  "tb_observers memory_backend s i = Inr (dict_get_default (ms_observers s) i {})"
  "tb_put_observers memory_backend i bs s = s\<lparr>ms_observers := dict_set i bs (ms_observers s)\<rparr>"
  "tb_remove memory_backend = memory_remove"
  by (simp_all add: memory_backend_def)

lemma stores_match_empty: "stores_match empty_task_files empty_memory"
  by (simp add: stores_match_def file_count_def empty_task_files_def empty_memory_def task_files_inv_def
      memory_inv_def file_read_task_def file_read_events_def file_read_outputs_def file_read_observers_def dict_get_default_def)

lemma stores_match_put:
  assumes "stores_match s m" "same_task t u"
  shows "stores_match (tb_put file_backend t s) (tb_put memory_backend u m)"
proof -
  have i: "task_files_inv s" "memory_inv m" using assms(1) by (simp_all add: stores_match_def)
  have "file_norm_task t = file_norm_task u" "meta_ok (tk_metadata u)" "tk_id t = tk_id u"
    using assms(2) same_task_fields(1) [OF assms(2)] by (simp_all add: same_task_def)
  moreover have "task_files_inv (file_write_task t s)" "memory_inv (tb_put memory_backend u m)"
    using tfiles.inv_put [OF i(1)] tmemory.inv_put [OF i(2)] by simp_all
  ultimately show ?thesis
    using assms(1) by (simp add: stores_match_def file_count_writes file_frames file_read_written)
qed

lemma stores_match_events:
  assumes "stores_match s m" "map file_norm_event es = map file_norm_event fs"
  shows "stores_match (tb_put_events file_backend i es s) (tb_put_events memory_backend i fs m)"
proof -
  have i: "task_files_inv s" "memory_inv m" using assms(1) by (simp_all add: stores_match_def)
  then have "task_files_inv (file_write_events i es s)" "memory_inv (tb_put_events memory_backend i fs m)"
    using tfiles.inv_put_events [OF i(1)] tmemory.inv_put_events [OF i(2)] by simp_all
  then show ?thesis
    using assms by (simp add: stores_match_def file_count_writes file_frames file_read_written dict_get_default_def)
qed

lemma stores_match_outputs:
  assumes "stores_match s m" "map sorted_json es = map sorted_json fs"
  shows "stores_match (tb_put_outputs file_backend i es s) (tb_put_outputs memory_backend i fs m)"
proof -
  have i: "task_files_inv s" "memory_inv m" using assms(1) by (simp_all add: stores_match_def)
  then have "task_files_inv (file_write_outputs i es s)" "memory_inv (tb_put_outputs memory_backend i fs m)"
    using tfiles.inv_put_outputs [OF i(1)] tmemory.inv_put_outputs [OF i(2)] by simp_all
  then show ?thesis
    using assms by (simp add: stores_match_def file_count_writes file_frames file_read_written dict_get_default_def)
qed

lemma stores_match_observers:
  assumes "stores_match s m" "finite bs"
  shows "stores_match (tb_put_observers file_backend i bs s) (tb_put_observers memory_backend i bs m)"
proof -
  have i: "task_files_inv s" "memory_inv m" using assms(1) by (simp_all add: stores_match_def)
  then have "task_files_inv (file_write_observers i bs s)" "memory_inv (tb_put_observers memory_backend i bs m)"
    using tfiles.inv_put_observers [OF i(1)] tmemory.inv_put_observers [OF i(2)] assms(2) by simp_all
  then show ?thesis
    using assms by (simp add: stores_match_def file_count_writes file_frames file_read_written dict_get_default_def)
qed

lemma stores_match_remove:
  assumes "stores_match s m"
  shows "stores_match (tb_remove file_backend out i s) (tb_remove memory_backend out i m)"
proof -
  have i: "task_files_inv s" "memory_inv m" using assms(1) by (simp_all add: stores_match_def)
  then have "task_files_inv (file_remove_task_state out i s)" "memory_inv (memory_remove out i m)"
    using tfiles.inv_remove [OF i(1)] tmemory.inv_remove [OF i(2)] by simp_all
  moreover have "file_read_task (file_remove_task_state out i s) j =
      (if j = i then Inl (OtherError ''No such file or directory'') else file_read_task s j)"
    "file_read_events (file_remove_task_state out i s) j = (if j = i then Inr [] else file_read_events s j)"
    "file_read_observers (file_remove_task_state out i s) j = (if j = i then Inr {} else file_read_observers s j)"
    "file_read_outputs (file_remove_task_state out i s) j = (if j = i \<and> out then Inr [] else file_read_outputs s j)" for j
    by (cases "j = i"; simp add: file_read_removed)+
  ultimately show ?thesis
    using assms by (simp add: stores_match_def file_count_writes memory_remove_def dict_get_default_def)
qed

subsection \<open>The primitives\<close>

lemma sim_read:
  assumes "\<And>s m. stores_match s m \<Longrightarrow> rel_sum (\<lambda>_ _. True) A (f s) (g m)"
  shows "simulates managers_match A (store_read f) (store_read g)"
  using assms unfolding store_read_def by (intro simulates_reads) (simp add: managers_match_def)

lemma sim_write:
  assumes "\<And>s m. stores_match s m \<Longrightarrow> stores_match (f s) (g m)"
  shows "simulates managers_match (\<lambda>_ _. True) (store_write f) (store_write g)"
  using assms unfolding store_write_def by (intro simulates_modify) (simp add: managers_match_def)

lemma sim_now [simulating]: "simulates managers_match (=) (iso_now (file_env now parse policy)) (iso_now (memory_env now parse policy))"
  by (simp add: simulates_def iso_now_def managers_match_def)

lemma sim_next [simulating]:
  "simulates managers_match (=) (registry_next_task_id (file_env now parse policy)) (registry_next_task_id (memory_env now parse policy))"
  unfolding simulates_def
proof (intro allI impI)
  fix f m assume r: "managers_match f m"
  then have s: "stores_match (tm_store f) (tm_store m)" by (simp add: managers_match_def)
  then have i: "task_files_inv (tm_store f)" by (simp add: stores_match_def)
  obtain s' where n: "file_next_task_id (tm_store f) = (Inr (''task_'' @ nat_str (Suc (file_count (tm_store f)))), s')"
    and s': "task_files_inv s'" "file_count s' = Suc (file_count (tm_store f))" "file_read_task s' = file_read_task (tm_store f)"
      "file_read_events s' = file_read_events (tm_store f)" "file_read_outputs s' = file_read_outputs (tm_store f)"
      "file_read_observers s' = file_read_observers (tm_store f)"
    using file_next_effect [OF i] by blast
  have "stores_match s' ((tm_store m)\<lparr>ms_counter := Suc (ms_counter (tm_store m))\<rparr>)"
    using s by (simp add: stores_match_def s' memory_inv_def)
  then show "managers_match (snd (registry_next_task_id (file_env now parse policy) f)) (snd (registry_next_task_id (memory_env now parse policy) m)) \<and>
      rel_sum (\<lambda>_ _. True) (=) (fst (registry_next_task_id (file_env now parse policy) f)) (fst (registry_next_task_id (memory_env now parse policy) m))"
    using r s by (simp add: registry_next_task_id_def n memory_next_task_id_def managers_match_def stores_match_def Let_def)
qed

lemma sim_get [simulating]:
  "i = j \<Longrightarrow> simulates managers_match same_task (registry_get (file_env now parse policy) i) (registry_get (memory_env now parse policy) j)"
  unfolding registry_get_def
proof (rule sim_read, goal_cases)
  case (1 s m)
  then have "task_held (dict_get (ms_tasks m) j) (file_read_task s j)" by (simp add: stores_match_def)
  then show ?case using 1(1)
    by (cases "dict_get (ms_tasks m) j"; cases "file_read_task s j") (simp_all add: same_task_norm)
qed

lemma sim_put [simulating]:
  "same_task t u \<Longrightarrow> simulates managers_match (\<lambda>_ _. True) (store_write (tb_put (te_backend (file_env now parse policy)) t))
     (store_write (tb_put (te_backend (memory_env now parse policy)) u))"
  by (rule sim_write) (simp only: env_sel stores_match_put)

definition same_events :: "task_event list \<Rightarrow> task_event list \<Rightarrow> bool" where
  "same_events es fs \<longleftrightarrow> map file_norm_event es = map file_norm_event fs"

definition same_items :: "json list \<Rightarrow> json list \<Rightarrow> bool" where
  "same_items xs ys \<longleftrightarrow> map sorted_json xs = map sorted_json ys"

lemma sim_events [simulating]:
  "i = j \<Longrightarrow> simulates managers_match same_events (store_read (\<lambda>s. tb_events (te_backend (file_env now parse policy)) s i))
     (store_read (\<lambda>s. tb_events (te_backend (memory_env now parse policy)) s j))"
  by (rule sim_read) (simp add: stores_match_def same_events_def comp_def)

lemma sim_outputs [simulating]:
  "i = j \<Longrightarrow> simulates managers_match same_items (store_read (\<lambda>s. tb_outputs (te_backend (file_env now parse policy)) s i))
     (store_read (\<lambda>s. tb_outputs (te_backend (memory_env now parse policy)) s j))"
  by (rule sim_read) (simp add: stores_match_def same_items_def comp_def)

lemma sim_observers [simulating]:
  "i = j \<Longrightarrow> simulates managers_match (\<lambda>x y. x = y \<and> finite x) (store_read (\<lambda>s. tb_observers (te_backend (file_env now parse policy)) s i))
     (store_read (\<lambda>s. tb_observers (te_backend (memory_env now parse policy)) s j))"
proof (rule sim_read, goal_cases)
  case (1 s m)
  then show ?case using file_reads(3) [of s j] by (auto simp: stores_match_def)
qed

lemma sim_put_events [simulating]:
  "i = j \<Longrightarrow> same_events es fs \<Longrightarrow> simulates managers_match (\<lambda>_ _. True)
     (store_write (tb_put_events (te_backend (file_env now parse policy)) i es))
     (store_write (tb_put_events (te_backend (memory_env now parse policy)) j fs))"
  by (rule sim_write) (simp only: env_sel same_events_def stores_match_events)

lemma sim_put_outputs [simulating]:
  "i = j \<Longrightarrow> same_items xs ys \<Longrightarrow> simulates managers_match (\<lambda>_ _. True)
     (store_write (tb_put_outputs (te_backend (file_env now parse policy)) i xs))
     (store_write (tb_put_outputs (te_backend (memory_env now parse policy)) j ys))"
  by (rule sim_write) (simp only: env_sel same_items_def stores_match_outputs)

lemma sim_put_observers [simulating]:
  "i = j \<Longrightarrow> bs = cs \<and> finite bs \<Longrightarrow> simulates managers_match (\<lambda>_ _. True)
     (store_write (tb_put_observers (te_backend (file_env now parse policy)) i bs))
     (store_write (tb_put_observers (te_backend (memory_env now parse policy)) j cs))"
  by (rule sim_write) (auto simp only: env_sel intro: stores_match_observers)

lemma sim_remove [simulating]:
  "i = j \<Longrightarrow> simulates managers_match (\<lambda>_ _. True)
     (store_write (tb_remove (te_backend (file_env now parse policy)) (rp_output (te_policy (file_env now parse policy))) i))
     (store_write (tb_remove (te_backend (memory_env now parse policy)) (rp_output (te_policy (memory_env now parse policy))) j))"
  by (rule sim_write) (simp only: env_sel stores_match_remove)

lemma same_append:
  "same_events es fs \<Longrightarrow> same_events (es @ [e]) (fs @ [e])" "same_items xs ys \<Longrightarrow> same_items (xs @ [x]) (ys @ [x])"
  "same_events es fs \<Longrightarrow> length es = length fs" "same_items xs ys \<Longrightarrow> length xs = length ys"
  "same_events es fs \<Longrightarrow> same_events (py_from n es) (py_from n fs)" "same_items xs ys \<Longrightarrow> same_items (py_from n xs) (py_from n ys)"
  by (auto simp: same_events_def same_items_def py_from_def drop_map [symmetric] dest: map_eq_imp_length_eq)

lemma same_lengths: "same_events es fs \<Longrightarrow> no_update\<lparr>tu_cursor := Some (CursorInt (int (length es) + 1))\<rparr> =
    no_update\<lparr>tu_cursor := Some (CursorInt (int (length fs) + 1))\<rparr>"
  "same_items xs ys \<Longrightarrow> no_update\<lparr>tu_cursor := Some (CursorInt (int (length xs) + 1))\<rparr> =
    no_update\<lparr>tu_cursor := Some (CursorInt (int (length ys) + 1))\<rparr>"
  "same_items xs ys \<Longrightarrow> int (length xs) + 1 = int (length ys) + 1"
  by (simp_all add: same_append(3,4))

subsection \<open>The registry\<close>

lemma sim_register [simulating]:
  "same_task t u \<Longrightarrow> simulates managers_match same_task (registry_register (file_env now parse policy) t)
     (registry_register (memory_env now parse policy) u)"
  unfolding registry_register_def Let_def
  by (rule simulating | erule same_task_fields | (simp; fail))+

lemma sim_update_status [simulating]:
  assumes "same_task t u"
  shows "simulates managers_match same_task (update_status (file_env now parse policy) x t) (update_status (memory_env now parse policy) x u)"
proof -
  have k: "simulates managers_match same_task
      (bind (iso_now (file_env now parse policy)) (\<lambda>n. ret (t\<lparr>tk_status := st, tk_end := Some n\<rparr>)))
      (bind (iso_now (memory_env now parse policy)) (\<lambda>n. ret (u\<lparr>tk_status := st, tk_end := Some n\<rparr>)))" for st
    by (rule simulating | (simp add: same_task_set assms; fail))+
  show ?thesis
    unfolding update_status_def Let_def same_task_fields(11) [OF assms]
    by (simp add: k simulates_ret same_task_set assms split: option.split list.split)
qed

lemma sim_update [simulating]:
  "i = j \<Longrightarrow> x = y \<Longrightarrow> simulates managers_match same_task (registry_update (file_env now parse policy) i x)
     (registry_update (memory_env now parse policy) j y)"
  unfolding registry_update_def Let_def
  by (hypsubst, (rule simulating same_task_update | assumption | (simp; fail))+)

lemma sim_append_event [simulating]:
  "i = j \<Longrightarrow> e = e' \<Longrightarrow> simulates managers_match (=) (registry_append_event (file_env now parse policy) i e)
     (registry_append_event (memory_env now parse policy) j e')"
  unfolding registry_append_event_def
  by (hypsubst, (rule simulating same_append same_lengths | assumption | (simp; fail))+)

definition same_event_slice :: "event_slice \<Rightarrow> event_slice \<Rightarrow> bool" where
  "same_event_slice x y \<longleftrightarrow> es_task x = es_task y \<and> es_cursor x = es_cursor y \<and> es_done x = es_done y
     \<and> map sorted_object (es_events x) = map sorted_object (es_events y)"

definition same_output_slice :: "output_slice \<Rightarrow> output_slice \<Rightarrow> bool" where
  "same_output_slice x y \<longleftrightarrow> os_task x = os_task y \<and> os_ref x = os_ref y \<and> os_cursor x = os_cursor y \<and> os_done x = os_done y
     \<and> map sorted_json (os_items x) = map sorted_json (os_items y)"

lemma sorted_event_norm: "sorted_object (task_event_to_dict (file_norm_event e)) = sorted_object (task_event_to_dict e)"
proof -
  have "map (apsnd sorted_json) (task_event_to_dict (file_norm_event e)) = map (apsnd sorted_json) (task_event_to_dict e)"
    by (simp add: task_event_to_dict_def file_norm_event_def option.map_comp comp_def)
  then show ?thesis by (simp only: sorted_object_def)
qed

lemma same_events_dicts:
  assumes "same_events es fs"
  shows "map sorted_object (map task_event_to_dict es) = map sorted_object (map task_event_to_dict fs)"
proof -
  have "map sorted_object (map task_event_to_dict es) = map (sorted_object \<circ> task_event_to_dict) (map file_norm_event es)" for es
    by (simp add: sorted_event_norm)
  then show ?thesis using assms unfolding same_events_def by metis
qed

lemma same_event_sliceI:
  assumes "same_events es fs" "same_task t u"
  shows "same_event_slice
     \<lparr>es_task = i, es_cursor = int (length es), es_events = map task_event_to_dict (py_from n es), es_done = task_done t\<rparr>
     \<lparr>es_task = i, es_cursor = int (length fs), es_events = map task_event_to_dict (py_from n fs), es_done = task_done u\<rparr>"
  using same_append(3) [OF assms(1)] same_events_dicts [OF same_append(5) [OF assms(1)], of n] same_task_fields(3) [OF assms(2)]
  by (simp add: same_event_slice_def)

lemma same_output_sliceI:
  assumes "same_items xs ys" "same_task t u"
  shows "same_output_slice
     \<lparr>os_task = i, os_ref = tk_output_ref t, os_cursor = int (length xs), os_items = py_from n xs, os_done = task_done t\<rparr>
     \<lparr>os_task = i, os_ref = tk_output_ref u, os_cursor = int (length ys), os_items = py_from n ys, os_done = task_done u\<rparr>"
  using same_append(4) [OF assms(1)] same_append(6) [OF assms(1), of n] same_task_fields(3,9) [OF assms(2)]
  by (simp add: same_output_slice_def same_items_def)

lemma sim_read_events [simulating]:
  "i = j \<Longrightarrow> simulates managers_match same_event_slice (registry_read_events (file_env now parse policy) i n)
     (registry_read_events (memory_env now parse policy) j n)"
  unfolding registry_read_events_def
  by (hypsubst, (rule simulating same_event_sliceI | assumption | (simp; fail))+)

lemma sim_append_output [simulating]:
  "i = j \<Longrightarrow> simulates managers_match (=) (registry_append_output (file_env now parse policy) i x)
     (registry_append_output (memory_env now parse policy) j x)"
  unfolding registry_append_output_def Let_def
  by (hypsubst, (rule simulating same_append same_lengths | assumption | (simp; fail))+)

lemma sim_attach_output [simulating]:
  "i = j \<Longrightarrow> simulates managers_match same_task (registry_attach_output (file_env now parse policy) i r)
     (registry_attach_output (memory_env now parse policy) j r)"
  unfolding registry_attach_output_def by (hypsubst, (rule simulating same_append same_lengths | assumption | (simp; fail))+)

lemma sim_read_output [simulating]:
  "i = j \<Longrightarrow> simulates managers_match same_output_slice (registry_read_output (file_env now parse policy) i n)
     (registry_read_output (memory_env now parse policy) j n)"
  unfolding registry_read_output_def
  by (hypsubst, (rule simulating same_output_sliceI | assumption | (simp; fail))+)

lemma sim_observe [simulating]:
  "i = j \<Longrightarrow> simulates managers_match (\<lambda>_ _. True) (registry_attach_observer (file_env now parse policy) i x)
     (registry_attach_observer (memory_env now parse policy) j x)"
  "i = j \<Longrightarrow> simulates managers_match (\<lambda>_ _. True) (registry_detach_observer (file_env now parse policy) i x)
     (registry_detach_observer (memory_env now parse policy) j x)"
  unfolding registry_attach_observer_def registry_detach_observer_def registry_observers_def
  by (rule simulating | (simp; fail))+

lemma sim_mark_notified [simulating]:
  "i = j \<Longrightarrow> simulates managers_match same_task (registry_mark_notified (file_env now parse policy) i)
     (registry_mark_notified (memory_env now parse policy) j)"
  unfolding registry_mark_notified_def by (hypsubst, (rule simulating same_append same_lengths | assumption | (simp; fail))+)

lemma insort_map: "insort_key f (g x) (map g xs) = map g (insort_key (f \<circ> g) x xs)"
  by (induction xs) simp_all

lemma sort_map: "sort_key f (map g xs) = map g (sort_key (f \<circ> g) xs)"
  by (induction xs) (simp_all add: insort_map [unfolded comp_def] comp_def)

lemma sim_all [simulating]:
  "simulates managers_match (\<lambda>ts us. list_all2 same_task (sort_key tk_id ts) (sort_key tk_id us))
     (store_read (tb_all (te_backend (file_env now parse policy)))) (store_read (tb_all (te_backend (memory_env now parse policy))))"
proof (rule sim_read, unfold env_sel)
  fix s m assume r: "stores_match s m"
  then have i: "task_files_inv s" "memory_inv m" by (simp_all add: stores_match_def)
  obtain ts where ts: "file_list_tasks s = Inr ts" "distinct (map tk_id ts)" "\<And>t. t \<in> set ts \<longleftrightarrow> file_read_task s (tk_id t) = Inr t"
    using file_all [OF i(1)] by blast
  define us where "us = dict_values (ms_tasks m)"
  have us: "distinct (map tk_id us)" "\<And>u. u \<in> set us \<longleftrightarrow> dict_get (ms_tasks m) (tk_id u) = Some u"
    unfolding us_def using memory_all [OF i(2)] by blast+
  have held: "task_held (dict_get (ms_tasks m) j) (file_read_task s j)" for j using r by (simp add: stores_match_def)
  have ok: "meta_ok (tk_metadata u)" if "u \<in> set us" for u
    using held [of "tk_id u"] us(2) that by (cases "file_read_task s (tk_id u)") auto
  have "set ts = set (map file_norm_task us)"
  proof (intro set_eqI iffI)
    fix t assume "t \<in> set ts"
    then have t: "file_read_task s (tk_id t) = Inr t" by (simp add: ts(3))
    then obtain u where u: "dict_get (ms_tasks m) (tk_id t) = Some u" "t = file_norm_task u"
      using held [of "tk_id t"] by (cases "dict_get (ms_tasks m) (tk_id t)") auto
    then show "t \<in> set (map file_norm_task us)" by (auto simp: us(2))
  next
    fix t assume "t \<in> set (map file_norm_task us)"
    then obtain u where u: "dict_get (ms_tasks m) (tk_id u) = Some u" "t = file_norm_task u" by (auto simp: us(2))
    then show "t \<in> set ts" using held [of "tk_id u"] by (cases "file_read_task s (tk_id u)") (simp_all add: ts(3))
  qed
  moreover have "tk_id \<circ> file_norm_task = tk_id" by (simp add: fun_eq_iff)
  ultimately have "sort_key tk_id ts = map file_norm_task (sort_key tk_id us)"
    using sort_key_unique [of tk_id ts "map file_norm_task us"] ts(2) us(1) by (simp add: sort_map)
  moreover have "list_all2 same_task (map file_norm_task (sort_key tk_id us)) (sort_key tk_id us)"
    by (simp add: list_all2_map1 list_all2_same same_task_norm ok)
  ultimately show "rel_sum (\<lambda>_ _. True) (\<lambda>ts us. list_all2 same_task (sort_key tk_id ts) (sort_key tk_id us))
      (tb_all file_backend s) (tb_all memory_backend m)"
    by (simp add: ts(1) us_def [symmetric])
qed

lemma same_task_selected:
  assumes "same_task t u"
  shows "selected x t = selected x u"
  unfolding selected_def same_task_fields(2,3,6,7) [OF assms] by (rule refl)

lemma same_tasks_filter:
  "list_all2 same_task ts us \<Longrightarrow> list_all2 same_task (filter (selected x) ts) (filter (selected x) us)"
  by (induction rule: list_all2_induct) (simp_all add: same_task_selected)

lemma sim_list [simulating]:
  "simulates managers_match (list_all2 same_task) (registry_list (file_env now parse policy) sel)
     (registry_list (memory_env now parse policy) sel)"
  unfolding registry_list_def by (rule simulating)+ (simp add: same_tasks_filter split: option.split)

lemma sim_lift [simulating]: "r = r' \<Longrightarrow> simulates R (=) (lift r) (lift r')"
  by (hypsubst, cases r') (simp_all add: simulates_def lift_def)

lemma sim_expired [simulating]:
  assumes "same_task t u"
  shows "simulates managers_match (=) (expired (file_env now parse policy) n t) (expired (memory_env now parse policy) n u)"
proof -
  note f = same_task_fields [OF assms]
  have l: "simulates managers_match (=) (case tk_end u of None \<Rightarrow> ret False | Some e \<Rightarrow> lift (k e))
      (case tk_end u of None \<Rightarrow> ret False | Some e \<Rightarrow> lift (k e))" for k
    by (simp add: simulates_ret sim_lift split: option.split)
  show ?thesis
    unfolding expired_def f env_sel
    by (rule simulating sim_observers [unfolded env_sel] l | (simp; fail))+
qed

lemma sim_evict_loop:
  "list_all2 same_task ts us \<Longrightarrow> simulates managers_match (=) (evict_loop (file_env now parse policy) n ts removed)
     (evict_loop (memory_env now parse policy) n us removed)"
proof (induction arbitrary: removed rule: list_all2_induct)
  case (Cons t ts u us)
  show ?case unfolding evict_loop.simps
    by (rule simulating Cons.IH | rule Cons.hyps | simp only: same_task_fields(1) [OF Cons.hyps(1)])+
qed (simp add: simulates_ret)

lemma sim_evict [simulating]:
  "simulates managers_match (=) (registry_evict_expired (file_env now parse policy) stamp)
     (registry_evict_expired (memory_env now parse policy) stamp)"
proof -
  have n: "simulates managers_match (=) (case stamp of None \<Rightarrow> iso_now (file_env now parse policy) | Some x \<Rightarrow> ret x)
      (case stamp of None \<Rightarrow> iso_now (memory_env now parse policy) | Some x \<Rightarrow> ret x)"
    by (simp add: sim_now simulates_ret split: option.split)
  show ?thesis
    unfolding registry_evict_expired_def
    by (rule simulating n | assumption | (simp; fail) | (simp add: sim_evict_loop; fail))+
qed

subsection \<open>The manager\<close>

lemma sim_dispatch:
  assumes "\<And>x. D x = None" "\<And>x. D' x = None" "simulates managers_match A body body'" "i = j"
  shows "simulates managers_match A (dispatch (file_env now parse policy) i D body) (dispatch (memory_env now parse policy) j D' body')"
proof -
  have b: "(case impl of None \<Rightarrow> m | Some x \<Rightarrow> (case E x of None \<Rightarrow> m | Some k \<Rightarrow> k)) = m"
    if "\<And>x. E x = None" for impl :: "unit option" and m :: "('q, 'r) eff" and E
    by (simp add: that split: option.split)
  show ?thesis
    unfolding dispatch_def b [OF assms(1)] b [OF assms(2)]
    by (rule simulates_bind [OF sim_get [OF assms(4)]], rule simulates_bind [OF simulates_gets [where A = "\<lambda>_ _. True"]])
      (simp_all add: assms(3))
qed

lemma sim_manager_reads [simulating]:
  "i = j \<Longrightarrow> simulates managers_match same_event_slice (manager_read_events no_method (file_env now parse policy) i n)
     (manager_read_events no_method (memory_env now parse policy) j n)"
  "i = j \<Longrightarrow> simulates managers_match same_output_slice (manager_read_output no_method (file_env now parse policy) i n)
     (manager_read_output no_method (memory_env now parse policy) j n)"
  "i = j \<Longrightarrow> simulates managers_match same_task (await_task no_method (file_env now parse policy) i timeout)
     (await_task no_method (memory_env now parse policy) j timeout)"
  unfolding manager_read_events_def manager_read_output_def await_task_def
  by (rule sim_dispatch simulating | (simp; fail))+

lemma sim_numbered [simulating]:
  "i = j \<Longrightarrow> d = d' \<Longrightarrow> simulates managers_match (\<lambda>_ _. True) (numbered_event no_method (file_env now parse policy) i ty d terminal err)
     (numbered_event no_method (memory_env now parse policy) j ty d' terminal err)"
  unfolding numbered_event_def
  by (rule simulating | (simp add: same_event_slice_def; fail))+

lemma meta_ok_spawned: "meta_ok (sp_metadata r) \<Longrightarrow> i = j \<Longrightarrow> n = n' \<Longrightarrow> same_task (spawned_task r i n) (spawned_task r j n')"
  by (simp add: same_task_refl spawned_task_def)

lemma sim_spawn [simulating]:
  "meta_ok (sp_metadata r) \<Longrightarrow> simulates managers_match same_task (spawn (file_env now parse policy) r) (spawn (memory_env now parse policy) r)"
  unfolding spawn_def
  by (rule simulating meta_ok_spawned | assumption | (simp; fail))+

lemma sim_create [simulating]:
  "meta_ok meta \<Longrightarrow> simulates managers_match same_task (create_task (file_env now parse policy) desc meta)
     (create_task (memory_env now parse policy) desc meta)"
  unfolding create_task_def
  by (rule simulating | erule same_task_fields | (simp; fail))+

lemma sim_kill [simulating]:
  "i = j \<Longrightarrow> simulates managers_match same_task (kill no_method no_method (file_env now parse policy) i)
     (kill no_method no_method (memory_env now parse policy) j)"
  unfolding kill_def
  by (rule sim_dispatch simulating | assumption | (simp; fail))+

lemma sim_evict_expired [simulating]:
  "simulates managers_match (=) (evict_expired (file_env now parse policy) stamp) (evict_expired (memory_env now parse policy) stamp)"
proof -
  have f: "fold dict_pop xs [] = []" for xs :: "string list" by (induction xs) simp_all
  show ?thesis
    unfolding evict_expired_def
    by (rule simulating | (simp add: managers_match_def f; fail))+
qed

lemma sim_update_task [simulating]:
  "i = j \<Longrightarrow> simulates managers_match (\<lambda>_ _. True) (update_task (file_env now parse policy) i x meta)
     (update_task (memory_env now parse policy) j x meta)"
  unfolding update_task_def
  by (rule simulating | (simp; fail))+

lemma sim_checkpoint [simulating]:
  "i = j \<Longrightarrow> simulates managers_match (\<lambda>_ _. True) (checkpoint_task no_method (file_env now parse policy) i d)
     (checkpoint_task no_method (memory_env now parse policy) j d)"
  unfolding checkpoint_task_def
  by (rule simulating | (simp; fail))+

lemma sim_complete [simulating]:
  "i = j \<Longrightarrow> simulates managers_match (\<lambda>_ _. True) (complete_task no_method (file_env now parse policy) i r meta)
     (complete_task no_method (memory_env now parse policy) j r meta)"
  unfolding complete_task_def
  by (cases r; simp only: option.case; rule simulating | (simp; fail))+

lemma sim_fail [simulating]:
  "i = j \<Longrightarrow> simulates managers_match (\<lambda>_ _. True) (fail_task no_method (file_env now parse policy) i reason meta)
     (fail_task no_method (memory_env now parse policy) j reason meta)"
  unfolding fail_task_def Let_def
  by (rule simulating | (simp; fail))+

subsection \<open>Handles and verifiers\<close>

definition same_handle :: "background_handle \<Rightarrow> background_handle \<Rightarrow> bool" where
  "same_handle g h \<longleftrightarrow> g\<lparr>bh_checkpoints := []\<rparr> = h\<lparr>bh_checkpoints := []\<rparr>
     \<and> map sorted_object (bh_checkpoints g) = map sorted_object (bh_checkpoints h)"

lemma sorted_is_str [simp]: "sorted_json v = JStr x \<longleftrightarrow> v = JStr x"
  by (cases v) simp_all

lemma as_dict_sorted: "as_dict (sorted_json v) = map_option sorted_object (as_dict v)"
  by (cases v) simp_all

lemma event_checkpoints_sorted:
  "map sorted_object (event_checkpoints ds) = event_checkpoints (map sorted_object ds)"
proof (induction ds)
  case (Cons d ds)
  then show ?case by (cases "as_dict (jget d ''payload'')")
      (simp_all add: event_checkpoints_def List.map_filter_simps as_dict_sorted)
qed (simp add: event_checkpoints_def List.map_filter_simps)

lemma same_detached:
  assumes "same_task t u"
  shows "(case dict_get (dict_or_empty (tk_metadata t)) k of None \<Rightarrow> b | Some v \<Rightarrow> truthy v) =
    (case dict_get (dict_or_empty (tk_metadata u)) k of None \<Rightarrow> b | Some v \<Rightarrow> truthy v)"
proof -
  have "sorted_object (dict_or_empty (tk_metadata t)) = sorted_object (dict_or_empty (tk_metadata u))"
    using same_task_fields(14) [OF assms] by (cases "tk_metadata t"; cases "tk_metadata u") (simp_all add: dict_or_empty_def)
  then have "map_option sorted_json (dict_get (dict_or_empty (tk_metadata t)) k) = map_option sorted_json (dict_get (dict_or_empty (tk_metadata u)) k)"
    by (metis map_of_sorted)
  then show ?thesis
    by (cases "dict_get (dict_or_empty (tk_metadata t)) k"; cases "dict_get (dict_or_empty (tk_metadata u)) k")
      (simp_all, metis truthy_sorted)
qed

lemma sim_handle [simulating]:
  "i = j \<Longrightarrow> simulates managers_match same_handle (get_handle no_method (file_env now parse policy) i)
     (get_handle no_method (memory_env now parse policy) j)"
  unfolding get_handle_def
proof (rule simulates_bind [OF sim_get], assumption, rule simulates_bind [OF sim_manager_reads(1)], assumption, goal_cases)
  case (1 t u x y)
  note f = same_task_fields [OF 1(2)]
  have "map sorted_object (event_checkpoints (es_events x)) = map sorted_object (event_checkpoints (es_events y))"
    using 1(3) by (simp add: event_checkpoints_sorted same_event_slice_def)
  then show ?case
    unfolding Let_def f same_detached [OF 1(2)] by (simp add: simulates_ret same_handle_def)
qed

lemma sim_background [simulating]:
  "meta_ok meta \<Longrightarrow> simulates managers_match same_handle (create_background_task (file_env now parse policy) desc meta detached session agent parent)
     (create_background_task (memory_env now parse policy) desc meta detached session agent parent)"
  unfolding create_background_task_def
proof (rule simulates_bind [OF sim_spawn], goal_cases)
  case 1
  then show ?case by (cases meta) (simp_all add: meta_ok_def dict_or_empty_def)
next
  case (2 t u)
  then show ?case unfolding same_task_fields [OF 2(2)] by (simp add: simulates_ret same_handle_def)
qed

lemma sim_verifier [simulating]:
  "meta_ok meta \<Longrightarrow> simulates managers_match (=) (create_verifier_task (file_env now parse policy) desc meta session agent parent)
     (create_verifier_task (memory_env now parse policy) desc meta session agent parent)"
  unfolding create_verifier_task_def
proof (rule simulates_bind [OF sim_spawn], goal_cases)
  case (2 t u)
  then show ?case unfolding same_task_fields [OF 2(2)] by (simp add: simulates_ret)
qed simp

lemma sim_run_verifier [simulating]:
  "simulates managers_match (=) (run_verifier (file_env now parse policy) r) (run_verifier (memory_env now parse policy) r)"
  unfolding run_verifier_def by (rule sim_verifier) (simp add: meta_ok_def request_metadata_def)

lemma sim_complete_verifier [simulating]:
  "simulates managers_match (=) (complete_verifier no_method (file_env now parse policy) i r)
     (complete_verifier no_method (memory_env now parse policy) i r)"
  unfolding complete_verifier_def
  by (rule simulating | (simp add: managers_match_def; fail))+

subsection \<open>Whole histories\<close>

definition same_reply :: "task_reply \<Rightarrow> task_reply \<Rightarrow> bool" where
  "same_reply x y \<longleftrightarrow> sorted_json (reply_json x) = sorted_json (reply_json y)"

lemma sim_answer:
  "simulates managers_match A m n \<Longrightarrow> (\<And>x y. A x y \<Longrightarrow> same_reply (f x) (f y)) \<Longrightarrow>
     simulates managers_match same_reply (answer f m) (answer f n)"
  unfolding answer_def by (erule simulates_bind) (simp add: simulates_ret)

lemma same_replies:
  "same_task t u \<Longrightarrow> same_reply (RTask t) (RTask u)"
  "list_all2 same_task ts us \<Longrightarrow> same_reply (RTasks ts) (RTasks us)"
  "same_event_slice x y \<Longrightarrow> same_reply (REvents x) (REvents y)"
  "same_output_slice v w \<Longrightarrow> same_reply (ROutput v) (ROutput w)"
  "same_handle g h \<Longrightarrow> same_reply (RBackground g) (RBackground h)"
  "n = m \<Longrightarrow> same_reply (F n) (F m)"
proof -
  show "same_task t u \<Longrightarrow> same_reply (RTask t) (RTask u)"
    by (simp add: same_reply_def same_task_dict)
  show "list_all2 same_task ts us \<Longrightarrow> same_reply (RTasks ts) (RTasks us)"
    by (induction rule: list_all2_induct) (simp_all add: same_reply_def same_task_dict)
  show "n = m \<Longrightarrow> same_reply (F n) (F m)" by (simp add: same_reply_def)
  have sorted: "map (apsnd sorted_json) d = map (apsnd sorted_json) e \<Longrightarrow> sorted_json (JDict d) = sorted_json (JDict e)" for d e
    by (simp add: sorted_object_def)
  have "map (sorted_json \<circ> JDict) ds = map JDict (map sorted_object ds)" for ds by simp
  then have dicts: "map sorted_object ds = map sorted_object es \<Longrightarrow> map (sorted_json \<circ> JDict) ds = map (sorted_json \<circ> JDict) es" for ds es
    by metis
  show "same_reply (REvents x) (REvents y)" if "same_event_slice x y"
    using that dicts [of "es_events x" "es_events y"] unfolding same_reply_def reply_json.simps
    by (intro sorted) (simp add: same_event_slice_def event_slice_to_dict_def)
  show "same_reply (ROutput v) (ROutput w)" if "same_output_slice v w"
    using that unfolding same_reply_def reply_json.simps
    by (intro sorted) (simp add: same_output_slice_def output_slice_to_dict_def)
  show "same_reply (RBackground g) (RBackground h)" if s: "same_handle g h"
  proof -
    have "bh_task g = bh_task h" "bh_kind g = bh_kind h" "bh_description g = bh_description h" "bh_detached g = bh_detached h"
      "bh_session g = bh_session h" "bh_agent g = bh_agent h" "bh_status g = bh_status h" "bh_output_ref g = bh_output_ref h"
      using s by (cases g; cases h; simp add: same_handle_def)+
    then show ?thesis using s dicts [of "bh_checkpoints g" "bh_checkpoints h"] unfolding same_reply_def reply_json.simps
      by (intro sorted) (simp add: same_handle_def background_handle_to_dict_def)
  qed
qed

lemma sim_op:
  "op_ok x \<Longrightarrow> simulates managers_match same_reply (run_op (file_env now parse policy) x) (run_op (memory_env now parse policy) x)"
  by (cases x; simp only: run_op.simps op_ok.simps;
      (rule sim_answer simulating | assumption | erule same_replies same_task_refl | (simp add: same_reply_def; fail))+)

lemma sim_ops:
  "managers_match f m \<Longrightarrow> \<forall>x \<in> set ops. op_ok x \<Longrightarrow>
     map seen (fst (run_ops (file_env now parse policy) ops f)) = map seen (fst (run_ops (memory_env now parse policy) ops m))"
proof (induction ops arbitrary: f m)
  case (Cons x ops)
  obtain r f' r' m' where o: "run_op (file_env now parse policy) x f = (r, f')" "run_op (memory_env now parse policy) x m = (r', m')"
    by (metis surj_pair)
  have "managers_match f' m'" "rel_sum (\<lambda>_ _. True) same_reply r r'"
    using simulatesD [OF sim_op Cons.prems(1), of x now parse policy] Cons.prems(2) by (simp_all add: o)
  moreover from this(2) have "seen r = seen r'" by (cases r; cases r') (simp_all add: seen_def same_reply_def)
  ultimately show ?case using Cons.IH [of f' m'] Cons.prems(2) by (simp add: o case_prod_unfold Let_def)
qed simp

text \<open>
  C13. The two task managers are interchangeable.  For every sequence of the manager's operations, whatever the clock,
  the parser of time stamps and the retention policy, the manager over JSON files and the one over
  dictionaries give the same replies, read as dictionaries without regard to the order of their keys, and raise at
  the same operations.
\<close>

theorem file_manager_equals_memory_manager:
  assumes "\<forall>x \<in> set ops. op_ok x"
  shows "map seen (fst (run_ops (file_env now parse policy) ops (new_task_manager empty_task_files))) =
    map seen (fst (run_ops (memory_env now parse policy) ops (new_task_manager empty_memory)))"
  using assms by (intro sim_ops) (simp_all add: managers_match_def new_task_manager_def stores_match_empty)

theorem file_manager_equals_memory_manager_witness:
  "map seen (fst (run_ops (file_env (\<lambda>n. nat_str n) (\<lambda>s. Inr (True, 0)) default_retention)
       [OpCreate ''job'' None, OpGet ''task_1'', OpGet ''task_9''] (new_task_manager empty_task_files))) =
   map seen (fst (run_ops (memory_env (\<lambda>n. nat_str n) (\<lambda>s. Inr (True, 0)) default_retention)
       [OpCreate ''job'' None, OpGet ''task_1'', OpGet ''task_9''] (new_task_manager empty_memory)))"
  by (rule file_manager_equals_memory_manager) (simp add: meta_ok_def)

end
