(* ===== verification/TaskProps.thy ===== *)
theory TaskProps
  imports TaskSim
begin

text \<open>
  Invariants of the task managers, proved once over the contract of a storage and then used for both.
  \<open>managed_tasks\<close> is a manager over some storage that keeps the contract, and states what its primitive
  operations do to it; \<open>kept\<close> lifts a condition on the storage from the primitive operations to every
  operation of the manager and so to every history.
\<close>

subsection \<open>What the primitive operations do\<close>

locale managed_tasks = task_storage "te_backend env" inv count norm_t norm_e norm_j
  for env :: "'s task_env" and inv :: "'s \<Rightarrow> bool" and count :: "'s \<Rightarrow> nat"
    and norm_t :: "task_record \<Rightarrow> task_record" and norm_e :: "task_event \<Rightarrow> task_event" and norm_j :: "json \<Rightarrow> json"
begin

abbreviation get :: "'s \<Rightarrow> string \<Rightarrow> py_error + task_record" where
  "get \<equiv> tb_get (te_backend env)"

abbreviation log :: "'s \<Rightarrow> string \<Rightarrow> py_error + task_event list" where
  "log \<equiv> tb_events (te_backend env)"

abbreviation outs :: "'s \<Rightarrow> string \<Rightarrow> py_error + json list" where
  "outs \<equiv> tb_outputs (te_backend env)"

abbreviation watchers :: "'s \<Rightarrow> string \<Rightarrow> py_error + string set" where
  "watchers \<equiv> tb_observers (te_backend env)"

lemma reads_Inr: "f (tm_store st) = Inr x \<Longrightarrow> bind (store_read f) k st = k x st"
  by (simp add: store_read_def bind_reads)

lemma reads_Inl: "f (tm_store st) = Inl e \<Longrightarrow> bind (store_read f) k st = (Inl e, st)"
  by (simp add: store_read_def bind_reads)

lemma writes: "bind (store_write f) k st = k () (st\<lparr>tm_store := f (tm_store st)\<rparr>)"
  by (simp add: store_write_def)

lemma now: "bind (iso_now env) k st = k (te_now env (tm_clock st)) (st\<lparr>tm_clock := Suc (tm_clock st)\<rparr>)"
  by (simp add: bind_def iso_now_def)

lemma get_eq: "registry_get env i st = (get (tm_store st) i, st)"
  by (simp add: registry_get_def store_read_def reads_def)

lemma bind_get_Inr: "get (tm_store st) i = Inr t \<Longrightarrow> bind (registry_get env i) k st = k t st"
  by (simp add: registry_get_def reads_Inr)

lemma bind_get_Inl: "get (tm_store st) i = Inl e \<Longrightarrow> bind (registry_get env i) k st = (Inl e, st)"
  by (simp add: registry_get_def reads_Inl)

text \<open>The status and end an update leaves, before its other fields.\<close>

lemma update_status_effect:
  "\<exists>t' n. update_status env u t st = (Inr t', st\<lparr>tm_clock := n\<rparr>) \<and> t' = t\<lparr>tk_status := tk_status t', tk_end := tk_end t'\<rparr>
     \<and> task_status_str (tk_status t') = (case tu_status u of None \<Rightarrow> task_status_str (tk_status t) | Some x \<Rightarrow> x)
     \<and> (tk_end t \<noteq> None \<longrightarrow> tk_end t' = tk_end t) \<and> (task_done t' \<and> tu_status u \<noteq> None \<longrightarrow> tk_end t' \<noteq> None)"
proof (cases "tu_status u")
  case None
  then show ?thesis by (intro exI [of _ t] exI [of _ "tm_clock st"]) (simp add: update_status_def ret_def)
next
  case (Some x)
  let ?t = "t\<lparr>tk_status := task_status_of x\<rparr>"
  show ?thesis
  proof (cases "x \<in> set terminal_values \<and> tk_end t = None")
    case False
    then show ?thesis by (intro exI [of _ ?t] exI [of _ "tm_clock st"]) (auto simp: update_status_def Some ret_def Let_def)
  next
    case ends: True
    show ?thesis
    proof (cases "\<exists>c cs. tu_end u = Some (c # cs)")
      case True
      then show ?thesis using ends
        by (intro exI [of _ "?t\<lparr>tk_end := tu_end u\<rparr>"] exI [of _ "tm_clock st"]) (auto simp: update_status_def Some ret_def Let_def)
    next
      case False
      then have "update_status env u t st = bind (iso_now env) (\<lambda>n. ret (?t\<lparr>tk_end := Some n\<rparr>)) st"
        using ends by (cases "tu_end u") (auto simp: update_status_def Some Let_def split: list.split)
      then show ?thesis using ends
        by (intro exI [of _ "?t\<lparr>tk_end := Some (te_now env (tm_clock st))\<rparr>"] exI [of _ "Suc (tm_clock st)"])
          (simp add: now ret_def Some)
    qed
  qed
qed

lemma update_effect:
  assumes "inv (tm_store st)" "get (tm_store st) i = Inr t"
  shows "\<exists>t' n. registry_update env i u st = (Inr t', st\<lparr>tm_clock := n, tm_store := tb_put (te_backend env) t' (tm_store st)\<rparr>)
     \<and> tk_id t' = i
     \<and> task_status_str (tk_status t') = (case tu_status u of None \<Rightarrow> task_status_str (tk_status t) | Some x \<Rightarrow> x)
     \<and> (tk_end t \<noteq> None \<longrightarrow> tk_end t' \<noteq> None) \<and> (task_done t' \<and> tu_status u \<noteq> None \<longrightarrow> tk_end t' \<noteq> None)
     \<and> tk_output_cursor t' = (case tu_cursor u of None \<Rightarrow> tk_output_cursor t | Some c \<Rightarrow> Some c)
     \<and> tk_notified t' = (case tu_notified u of None \<Rightarrow> tk_notified t | Some x \<Rightarrow> x)
     \<and> tk_terminal t' = (case tu_terminal u of None \<Rightarrow> tk_terminal t | Some x \<Rightarrow> Some x)
     \<and> (tu_end u = None \<and> tk_end t \<noteq> None \<longrightarrow> tk_end t' = tk_end t)
     \<and> tk_metadata t' = updated_metadata u (tk_metadata t)
     \<and> tk_output_ref t' = (case tu_output_ref u of None \<Rightarrow> tk_output_ref t | Some x \<Rightarrow> Some x)
     \<and> tk_type t' = tk_type t \<and> tk_description t' = tk_description t \<and> tk_session t' = tk_session t \<and> tk_start t' = tk_start t"
proof -
  obtain t1 n where t1: "update_status env u t st = (Inr t1, st\<lparr>tm_clock := n\<rparr>)"
    "t1 = t\<lparr>tk_status := tk_status t1, tk_end := tk_end t1\<rparr>"
    "task_status_str (tk_status t1) = (case tu_status u of None \<Rightarrow> task_status_str (tk_status t) | Some x \<Rightarrow> x)"
    "tk_end t \<noteq> None \<longrightarrow> tk_end t1 = tk_end t" "task_done t1 \<and> tu_status u \<noteq> None \<longrightarrow> tk_end t1 \<noteq> None"
    using update_status_effect [of u t st] by blast
  have id: "tk_id t = i" using get_norm assms by blast
  have f: "tk_id t1 = tk_id t" "tk_output_cursor t1 = tk_output_cursor t" "tk_notified t1 = tk_notified t"
    "tk_terminal t1 = tk_terminal t" "tk_metadata t1 = tk_metadata t" "tk_output_ref t1 = tk_output_ref t"
    "tk_type t1 = tk_type t" "tk_description t1 = tk_description t" "tk_session t1 = tk_session t" "tk_start t1 = tk_start t"
    by (subst t1(2), simp)+
  have "registry_update env i u st = (Inr (update_fields u t1),
      st\<lparr>tm_clock := n, tm_store := tb_put (te_backend env) (update_fields u t1) (tm_store st)\<rparr>)"
    by (simp add: registry_update_def bind_get_Inr [of st i t] assms bind_def [of "update_status env u t"] t1(1) writes Let_def ret_def)
  then show ?thesis using t1(4) t1(5) [unfolded t1(3)]
    by (intro exI [of _ "update_fields u t1"] exI [of _ n] conjI)
      (auto simp: update_fields_eq f id t1(3) split: option.splits)
qed

lemma put_frame:
  assumes "inv s"
  shows "inv (tb_put (te_backend env) t s)" "count (tb_put (te_backend env) t s) = count s"
    "get (tb_put (te_backend env) t s) = (get s)(tk_id t := Inr (norm_t t))"
    "log (tb_put (te_backend env) t s) = log s" "outs (tb_put (te_backend env) t s) = outs s"
    "watchers (tb_put (te_backend env) t s) = watchers s"
  using assms by (simp_all add: inv_put count_put get_put events_put outputs_put observers_put fun_eq_iff)

lemma log_frame:
  assumes "inv s"
  shows "inv (tb_put_events (te_backend env) i es s)" "count (tb_put_events (te_backend env) i es s) = count s"
    "get (tb_put_events (te_backend env) i es s) = get s"
    "log (tb_put_events (te_backend env) i es s) = (log s)(i := Inr (map norm_e es))"
    "outs (tb_put_events (te_backend env) i es s) = outs s" "watchers (tb_put_events (te_backend env) i es s) = watchers s"
  using assms by (simp_all add: inv_put_events count_put_events get_put_events events_put_events outputs_put_events
      observers_put_events fun_eq_iff)

lemma outs_frame:
  assumes "inv s"
  shows "inv (tb_put_outputs (te_backend env) i js s)" "count (tb_put_outputs (te_backend env) i js s) = count s"
    "get (tb_put_outputs (te_backend env) i js s) = get s" "log (tb_put_outputs (te_backend env) i js s) = log s"
    "outs (tb_put_outputs (te_backend env) i js s) = (outs s)(i := Inr (map norm_j js))"
    "watchers (tb_put_outputs (te_backend env) i js s) = watchers s"
  using assms by (simp_all add: inv_put_outputs count_put_outputs get_put_outputs events_put_outputs outputs_put_outputs
      observers_put_outputs fun_eq_iff)

lemma watchers_frame:
  assumes "inv s" "finite bs"
  shows "inv (tb_put_observers (te_backend env) i bs s)" "count (tb_put_observers (te_backend env) i bs s) = count s"
    "get (tb_put_observers (te_backend env) i bs s) = get s" "log (tb_put_observers (te_backend env) i bs s) = log s"
    "outs (tb_put_observers (te_backend env) i bs s) = outs s"
    "watchers (tb_put_observers (te_backend env) i bs s) = (watchers s)(i := Inr bs)"
  using assms by (simp_all add: inv_put_observers count_put_observers get_put_observers events_put_observers
      outputs_put_observers observers_put_observers fun_eq_iff)

lemmas frames = put_frame log_frame outs_frame watchers_frame

lemma register_effect:
  assumes "inv (tm_store st)"
  shows "\<exists>s'. registry_register env t st = (Inr t, st\<lparr>tm_store := s'\<rparr>) \<and> inv s' \<and> count s' = count (tm_store st)
     \<and> get s' = (get (tm_store st))(tk_id t := Inr (norm_t t)) \<and> log s' = log (tm_store st)
     \<and> outs s' = outs (tm_store st) \<and> watchers s' = watchers (tm_store st)"
proof -
  let ?b = "te_backend env" and ?i = "tk_id t" and ?s = "tm_store st"
  obtain es where es: "log ?s ?i = Inr es" "map norm_e es = es" using events [OF assms] by blast
  obtain js where js: "outs ?s ?i = Inr js" "map norm_j js = js" using outputs [OF assms] by blast
  obtain bs where bs: "watchers ?s ?i = Inr bs" "finite bs" using observers [OF assms] by blast
  let ?s1 = "tb_put ?b t ?s" let ?s2 = "tb_put_events ?b ?i es ?s1" let ?s3 = "tb_put_outputs ?b ?i js ?s2"
  let ?s4 = "tb_put_observers ?b ?i bs ?s3"
  have r: "log ?s1 ?i = Inr es" "outs ?s2 ?i = Inr js" "watchers ?s3 ?i = Inr bs"
    using assms es js bs by (simp_all add: frames)
  have "registry_register env t st = (Inr t, st\<lparr>tm_store := ?s4\<rparr>)"
    by (simp add: registry_register_def Let_def writes reads_Inr r ret_def)
  moreover have "inv ?s4" "count ?s4 = count ?s" "get ?s4 = (get ?s)(?i := Inr (norm_t t))" "log ?s4 = log ?s"
    "outs ?s4 = outs ?s" "watchers ?s4 = watchers ?s"
    using assms es js bs by (simp_all add: frames fun_eq_iff)
  ultimately show ?thesis by blast
qed

lemma append_event_effect:
  assumes "inv (tm_store st)"
  shows "\<exists>es s'. log (tm_store st) i = Inr es \<and> registry_append_event env i e st = (Inr e, st\<lparr>tm_store := s'\<rparr>) \<and> inv s'
     \<and> count s' = count (tm_store st) \<and> get s' = get (tm_store st) \<and> log s' = (log (tm_store st))(i := Inr (es @ [norm_e e]))
     \<and> outs s' = outs (tm_store st) \<and> watchers s' = watchers (tm_store st)"
proof -
  obtain es where es: "log (tm_store st) i = Inr es" "map norm_e es = es" using events [OF assms] by blast
  show ?thesis using assms
    by (intro exI [of _ es] exI [of _ "tb_put_events (te_backend env) i (es @ [e]) (tm_store st)"])
      (simp add: registry_append_event_def reads_Inr es writes ret_def frames)
qed

text \<open>A new task gets the next id and leaves everything else alone.\<close>

lemma spawn_effect:
  assumes "inv (tm_store st)"
  shows "\<exists>t st' es e. spawn env r st = (Inr t, st') \<and> tk_id t = ''task_'' @ nat_str (Suc (count (tm_store st)))
     \<and> inv (tm_store st') \<and> count (tm_store st') = Suc (count (tm_store st))
     \<and> get (tm_store st') = (get (tm_store st))(tk_id t := Inr t)
     \<and> log (tm_store st) (tk_id t) = Inr es \<and> te_type e = ''started''
     \<and> log (tm_store st') = (log (tm_store st))(tk_id t := Inr (es @ [e]))
     \<and> outs (tm_store st') = outs (tm_store st) \<and> watchers (tm_store st') = watchers (tm_store st)
     \<and> task_status_str (tk_status t) = ''running'' \<and> tk_output_cursor t = None \<and> tk_end t = None \<and> \<not> tk_notified t
     \<and> tm_task_impls st' = tm_task_impls st \<and> tm_type_impls st' = tm_type_impls st \<and> tm_results st' = tm_results st
     \<and> task_manager.more st' = task_manager.more st"
proof -
  define i where "i = ''task_'' @ nat_str (Suc (count (tm_store st)))"
  obtain s1 where n: "tb_next (te_backend env) (tm_store st) = (Inr i, s1)" and s1: "inv s1" "count s1 = Suc (count (tm_store st))"
    "get s1 = get (tm_store st)" "log s1 = log (tm_store st)" "outs s1 = outs (tm_store st)" "watchers s1 = watchers (tm_store st)"
    using fresh [OF assms] unfolding i_def by blast
  let ?t = "spawned_task r i (te_now env (tm_clock st))"
  let ?st1 = "st\<lparr>tm_store := s1, tm_clock := Suc (tm_clock st)\<rparr>"
  obtain s2 where r: "registry_register env ?t ?st1 = (Inr ?t, ?st1\<lparr>tm_store := s2\<rparr>)" and s2: "inv s2" "count s2 = count s1"
    "get s2 = (get s1)(i := Inr (norm_t ?t))" "log s2 = log s1" "outs s2 = outs s1" "watchers s2 = watchers s1"
    using register_effect [of ?st1 ?t] s1(1) by (auto simp: spawned_task_def)
  let ?st2 = "?st1\<lparr>tm_store := s2\<rparr>" and ?u = "no_update\<lparr>tu_status := Some ''running''\<rparr>"
  have run: "''running'' \<notin> set terminal_values" by (simp add: terminal_values_def)
  have g2: "get s2 i = Inr (norm_t ?t)" by (simp add: s2)
  obtain t' m where u: "registry_update env i ?u ?st2 = (Inr t', ?st2\<lparr>tm_clock := m, tm_store := tb_put (te_backend env) t' s2\<rparr>)"
    "tk_id t' = i" "task_status_str (tk_status t') = ''running''" "tk_output_cursor t' = None" "tk_notified t' = False"
    using update_effect [of ?st2 i "norm_t ?t" ?u] s2(1) g2
    by (auto simp: no_update_def norm_t_fields spawned_task_def)
  have e': "tk_end t' = None"
  proof -
    have "registry_update env i ?u ?st2 = (Inr (update_fields ?u ((norm_t ?t)\<lparr>tk_status := task_status_of ''running''\<rparr>)),
        ?st2\<lparr>tm_store := tb_put (te_backend env) (update_fields ?u ((norm_t ?t)\<lparr>tk_status := task_status_of ''running''\<rparr>)) s2\<rparr>)"
      using g2 run by (simp add: registry_update_def bind_get_Inr update_status_def no_update_def Let_def writes ret_def bind_def [of "ret x" for x])
    then have "t' = update_fields ?u ((norm_t ?t)\<lparr>tk_status := task_status_of ''running''\<rparr>)" using u(1) by simp
    then show ?thesis by (simp add: update_fields_eq no_update_def norm_t_fields spawned_task_def)
  qed
  let ?s3 = "tb_put (te_backend env) t' s2"
  let ?st3 = "?st2\<lparr>tm_clock := m, tm_store := ?s3, tm_clock := Suc m\<rparr>" and ?e = "started_event r i (te_now env m)"
  have s3: "inv ?s3" using s2(1) by (rule put_frame)
  obtain es s4 where a: "log ?s3 i = Inr es" "registry_append_event env i ?e ?st3 = (Inr ?e, ?st3\<lparr>tm_store := s4\<rparr>)"
    and s4: "inv s4" "count s4 = count ?s3" "get s4 = get ?s3" "log s4 = (log ?s3)(i := Inr (es @ [norm_e ?e]))"
      "outs s4 = outs ?s3" "watchers s4 = watchers ?s3"
    using append_event_effect [of ?st3 i ?e] s3 by auto
  have g: "get s4 i = Inr (norm_t t')" by (simp add: s4 frames s2(1) u(2))
  have "registry_next_task_id env st = (Inr i, st\<lparr>tm_store := s1\<rparr>)" by (simp add: registry_next_task_id_def n)
  then have "spawn env r st = (Inr (norm_t t'), ?st3\<lparr>tm_store := s4\<rparr>)"
    using r u(1) a(2) by (simp add: spawn_def bind_def iso_now_def get_eq g)
  moreover have "te_type (norm_e ?e) = ''started''" by (simp add: norm_e_fields started_event_def)
  ultimately show ?thesis
    using s4 a(1) s2 s1 u e' by (intro exI [of _ "norm_t t'"] exI [of _ "?st3\<lparr>tm_store := s4\<rparr>"] exI [of _ es] exI [of _ "norm_e ?e"])
      (simp add: norm_t_fields frames i_def [symmetric] del: append.simps)
qed

lemma append_output_effect:
  assumes "inv (tm_store st)"
  shows "\<exists>js s1. outs (tm_store st) i = Inr js \<and> inv s1 \<and> count s1 = count (tm_store st) \<and> get s1 = get (tm_store st)
     \<and> log s1 = log (tm_store st) \<and> outs s1 = (outs (tm_store st))(i := Inr (js @ [norm_j x])) \<and> watchers s1 = watchers (tm_store st)
     \<and> registry_append_output env i x st = (let n = int (length js) + 1 in
          bind (registry_update env i (no_update\<lparr>tu_cursor := Some (CursorInt n)\<rparr>)) (\<lambda>_. ret n) (st\<lparr>tm_store := s1\<rparr>))"
proof -
  obtain js where js: "outs (tm_store st) i = Inr js" "map norm_j js = js" using outputs [OF assms] by blast
  show ?thesis using assms
    by (intro exI [of _ js] exI [of _ "tb_put_outputs (te_backend env) i (js @ [x]) (tm_store st)"])
      (simp add: registry_append_output_def reads_Inr js writes frames Let_def)
qed

lemma observers_effect:
  assumes "inv (tm_store st)" "\<And>bs. finite bs \<Longrightarrow> finite (f bs)"
  shows "\<exists>bs s'. watchers (tm_store st) i = Inr bs \<and> registry_observers env i f st = (Inr (), st\<lparr>tm_store := s'\<rparr>) \<and> inv s'
     \<and> count s' = count (tm_store st) \<and> get s' = get (tm_store st) \<and> log s' = log (tm_store st) \<and> outs s' = outs (tm_store st)
     \<and> watchers s' = (watchers (tm_store st))(i := Inr (f bs))"
proof -
  obtain bs where bs: "watchers (tm_store st) i = Inr bs" "finite bs" using observers [OF assms(1)] by blast
  show ?thesis using assms bs
    by (intro exI [of _ bs] exI [of _ "tb_put_observers (te_backend env) i (f bs) (tm_store st)"])
      (simp add: registry_observers_def reads_Inr frames, simp add: store_write_def modify_def)
qed

end

subsection \<open>From primitive operations to histories\<close>

text \<open>
  The operations the manager's own code performs: tasks are made by \<open>spawn\<close> and their output cursor is
  left to \<open>append_output\<close>; \<open>evicting\<close> says whether eviction may take part.
\<close>

fun managed_op :: "bool \<Rightarrow> task_op \<Rightarrow> bool" where
  "managed_op evicting (OpRegister t) = False"
| "managed_op evicting (OpUpdate i u) = (tu_cursor u = None)"
| "managed_op evicting (OpEvict stamp) = evicting"
| "managed_op evicting x = True"

lemma dispatch_no_method:
  assumes "\<And>x. D x = None"
  shows "dispatch env i D body = bind (registry_get env i) (\<lambda>_. body)"
proof -
  have "(case impl of None \<Rightarrow> body | Some x \<Rightarrow> (case D x of None \<Rightarrow> body | Some k \<Rightarrow> k)) = body" for impl
    by (simp add: assms split: option.split)
  moreover have g: "bind (gets f) (\<lambda>_. body) = body" for f by (simp add: fun_eq_iff)
  ultimately show ?thesis by (simp add: dispatch_def g)
qed

lemma keeps_modify_store: "(\<And>st. tm_store (f st) = tm_store st) \<Longrightarrow> keeps (\<lambda>st. J (tm_store st)) (modify f)"
  by (simp add: keeps_def modify_def)

locale kept =
  fixes env :: "'s task_env" and J :: "'s \<Rightarrow> bool" and evicting :: bool
  assumes kept_spawn: "keeps (\<lambda>st. J (tm_store st)) (spawn env r :: (('s, unit) task_manager, task_record) eff)"
    and kept_update: "tu_cursor u = None \<Longrightarrow>
      keeps (\<lambda>st. J (tm_store st)) (registry_update env i u :: (('s, unit) task_manager, task_record) eff)"
    and kept_event: "keeps (\<lambda>st. J (tm_store st)) (registry_append_event env i e :: (('s, unit) task_manager, task_event) eff)"
    and kept_output: "keeps (\<lambda>st. J (tm_store st)) (registry_append_output env i x :: (('s, unit) task_manager, int) eff)"
    and kept_observers: "(\<And>bs. finite bs \<Longrightarrow> finite (f bs)) \<Longrightarrow>
      keeps (\<lambda>st. J (tm_store st)) (registry_observers env i f :: (('s, unit) task_manager, unit) eff)"
    and kept_evict: "evicting \<Longrightarrow>
      keeps (\<lambda>st. J (tm_store st)) (registry_evict_expired env stamp :: (('s, unit) task_manager, string list) eff)"
begin

abbreviation keepJ :: "(('s, unit) task_manager, 'a) eff \<Rightarrow> bool" where
  "keepJ \<equiv> keeps (\<lambda>st. J (tm_store st))"

lemma keep_now: "keepJ (iso_now env)"
  by (simp add: keeps_def iso_now_def)

lemma keep_get: "keepJ (registry_get env i)"
  by (simp add: registry_get_def store_read_def keeping)

lemma keep_read: "keepJ (store_read f)"
  by (simp add: store_read_def keeping)

lemma keep_dispatch: "(\<And>x. D x = None) \<Longrightarrow> keepJ body \<Longrightarrow> keepJ (dispatch env i D body)"
  by (simp add: dispatch_no_method keeps_bind keep_get)

lemma keep_plain_update:
  "keepJ (registry_update env i (no_update\<lparr>tu_status := Some x, tu_metadata := meta, tu_output_ref := r, tu_terminal := t\<rparr>))"
  "keepJ (registry_update env i (no_update\<lparr>tu_status := Some x, tu_metadata := meta, tu_terminal := t\<rparr>))"
  "keepJ (registry_update env i (no_update\<lparr>tu_status := Some x, tu_metadata := meta\<rparr>))"
  "keepJ (registry_update env i (no_update\<lparr>tu_status := Some x, tu_terminal := t\<rparr>))"
  "keepJ (registry_update env i (no_update\<lparr>tu_output_ref := r\<rparr>))" "keepJ (registry_update env i (no_update\<lparr>tu_notified := b\<rparr>))"
  by (rule kept_update; simp add: no_update_def)+

lemmas keep = keeping keep_now keep_get keep_read keep_dispatch keep_plain_update kept_spawn kept_event kept_output

lemma keep_reads: "keepJ (manager_read_events no_method env i n)" "keepJ (manager_read_output no_method env i n)"
  "keepJ (await_task no_method env i timeout)"
  unfolding manager_read_events_def manager_read_output_def await_task_def registry_read_events_def registry_read_output_def
  by (rule keep | (simp; fail))+

lemma keep_numbered: "keepJ (numbered_event no_method env i ty d terminal err)"
  unfolding numbered_event_def by (rule keep keep_reads)+

lemma keep_complete: "keepJ (complete_task no_method env i r meta)"
  unfolding complete_task_def registry_attach_output_def
  by (rule keep keep_numbered)+

lemma keep_kill: "keepJ (kill no_method no_method env i)" and keep_fail: "keepJ (fail_task no_method env i reason meta)"
  and keep_checkpoint: "keepJ (checkpoint_task no_method env i d)" and keep_update_task: "keepJ (update_task env i x meta)"
  unfolding kill_def fail_task_def checkpoint_task_def update_task_def Let_def
  by (rule keep keep_numbered | (simp; fail))+

lemma keep_create: "keepJ (create_task env desc meta)" and keep_handle: "keepJ (get_handle no_method env i)"
  and keep_background: "keepJ (create_background_task env desc meta detached session agent parent)"
  and keep_verifier: "keepJ (create_verifier_task env desc meta session agent parent)"
  unfolding create_task_def get_handle_def create_background_task_def create_verifier_task_def Let_def
  by (rule keep keep_reads | (simp; fail))+

lemma keep_results: "keepJ (complete_verifier no_method env i r)" and keep_run: "keepJ (run_verifier env q)"
  unfolding complete_verifier_def run_verifier_def
  by (rule keep keeps_modify_store keep_complete keep_verifier | (simp; fail))+

lemma keep_observe: "keepJ (registry_attach_observer env i x)" "keepJ (registry_detach_observer env i x)"
  unfolding registry_attach_observer_def registry_detach_observer_def by (rule kept_observers, simp)+

lemma keep_list: "keepJ (registry_list env sel)" and keep_attach: "keepJ (registry_attach_output env i r)"
  and keep_notified: "keepJ (registry_mark_notified env i)"
  unfolding registry_list_def registry_attach_output_def registry_mark_notified_def by (rule keep)+

lemma keep_evict: "evicting \<Longrightarrow> keepJ (evict_expired env stamp)"
  unfolding evict_expired_def by (rule keep keeps_modify_store | erule kept_evict | (simp; fail))+

lemma keep_op: "managed_op evicting x \<Longrightarrow> keepJ (run_op env x)"
  by (cases x; simp only: run_op.simps managed_op.simps answer_def;
      (rule keep keep_reads keep_complete keep_kill keep_fail keep_checkpoint keep_update_task keep_create keep_handle
         keep_background keep_verifier keep_results keep_run keep_observe keep_list keep_attach keep_notified
       | erule keep_evict kept_update)+)

lemma keep_ops: "\<forall>x \<in> set ops. managed_op evicting x \<Longrightarrow> J (tm_store st) \<Longrightarrow> J (tm_store (snd (run_ops env ops st)))"
proof (induction ops arbitrary: st)
  case (Cons x ops)
  then have "J (tm_store (snd (run_op env x st)))" using keepsD [OF keep_op] by fastforce
  with Cons show ?case by (simp add: case_prod_unfold Let_def)
qed simp

end

subsection \<open>Two invariants\<close>

text \<open>Every task has an id the storage gave out, an end once it is over, and a cursor that counts its outputs.\<close>

definition task_sound :: "'s task_env \<Rightarrow> ('s \<Rightarrow> nat) \<Rightarrow> 's \<Rightarrow> bool" where
  "task_sound env count s \<longleftrightarrow> (\<forall>i t. tb_get (te_backend env) s i = Inr t \<longrightarrow>
     (\<exists>k. 1 \<le> k \<and> k \<le> count s \<and> i = ''task_'' @ nat_str k) \<and> (task_done t \<longrightarrow> tk_end t \<noteq> None)
     \<and> (\<forall>c. tk_output_cursor t = Some c \<longrightarrow>
          (\<exists>js. tb_outputs (te_backend env) s i = Inr js \<and> c = CursorInt (int (length js)))))"

text \<open>The events of every task continue those of \<open>L\<close>.\<close>

definition logs_extend :: "'s task_env \<Rightarrow> (string \<Rightarrow> task_event list) \<Rightarrow> 's \<Rightarrow> bool" where
  "logs_extend env L s \<longleftrightarrow> (\<forall>i. \<exists>es. tb_events (te_backend env) s i = Inr es \<and> prefix (L i) es)"

context managed_tasks
begin

lemma keep_evict_store:
  assumes "\<And>st i out. P st \<Longrightarrow> P (st\<lparr>tm_store := tb_remove (te_backend env) out i (tm_store st)\<rparr>)"
    and "\<And>st n. P st \<Longrightarrow> P (st\<lparr>tm_clock := n\<rparr>)"
  shows "keeps P (registry_evict_expired env stamp)"
proof -
  have e: "keeps P (expired env now t)" for now t
    unfolding expired_def store_read_def by (rule keeping)+
  have w: "keeps P (store_write (tb_remove (te_backend env) out i))" for out i
    using assms(1) unfolding store_write_def by (intro keeps_modify) simp
  have l: "keeps P (evict_loop env now ts removed)" for now ts removed
    by (induction ts arbitrary: removed; simp only: evict_loop.simps; (rule keeping e w | assumption)+)
  have "keeps P (iso_now env)" using assms(2) by (simp add: keeps_def iso_now_def)
  then show ?thesis
    unfolding registry_evict_expired_def registry_list_def store_read_def by (intro keeping l)
qed

lemma update_cases:
  assumes "inv (tm_store st)"
  obtains e where "get (tm_store st) i = Inl e" "registry_update env i u st = (Inl e, st)"
  | t t' n where "get (tm_store st) i = Inr t" "tk_id t' = i"
    "registry_update env i u st = (Inr t', st\<lparr>tm_clock := n, tm_store := tb_put (te_backend env) t' (tm_store st)\<rparr>)"
    "(task_done t \<longrightarrow> tk_end t \<noteq> None) \<Longrightarrow> task_done t' \<Longrightarrow> tk_end t' \<noteq> None"
    "tk_output_cursor t' = (case tu_cursor u of None \<Rightarrow> tk_output_cursor t | Some c \<Rightarrow> Some c)"
proof (cases "get (tm_store st) i")
  case (Inl e)
  then show ?thesis by (intro that(1)) (simp_all add: registry_update_def bind_get_Inl)
next
  case (Inr t)
  obtain t' n where u: "registry_update env i u st = (Inr t', st\<lparr>tm_clock := n, tm_store := tb_put (te_backend env) t' (tm_store st)\<rparr>)"
    "tk_id t' = i" "task_status_str (tk_status t') = (case tu_status u of None \<Rightarrow> task_status_str (tk_status t) | Some x \<Rightarrow> x)"
    "tk_end t \<noteq> None \<longrightarrow> tk_end t' \<noteq> None" "task_done t' \<and> tu_status u \<noteq> None \<longrightarrow> tk_end t' \<noteq> None"
    "tk_output_cursor t' = (case tu_cursor u of None \<Rightarrow> tk_output_cursor t | Some c \<Rightarrow> Some c)"
    using update_effect [OF assms Inr, of u] by blast
  show ?thesis by (rule that(2) [OF Inr u(2) u(1) _ u(6)]) (use u(3-5) in \<open>cases "tu_status u"; simp\<close>)
qed

lemma sound_put:
  assumes "inv s" "task_sound env count s" "get s (tk_id t') = Inr t"
    "task_done t' \<Longrightarrow> tk_end t' \<noteq> None"
    "\<And>c. tk_output_cursor t' = Some c \<Longrightarrow> \<exists>js. outs s (tk_id t') = Inr js \<and> c = CursorInt (int (length js))"
  shows "task_sound env count (tb_put (te_backend env) t' s)"
  using assms by (auto simp: task_sound_def frames norm_t_fields split: if_splits)

lemma keepsI_store:
  "(\<And>st. J (tm_store st) \<Longrightarrow> J (tm_store (snd (m st)))) \<Longrightarrow> keeps (\<lambda>st. J (tm_store st)) m"
  by (simp add: keeps_def)

lemma sound_frame:
  assumes "task_sound env count s" "get s' = get s" "outs s' = outs s" "count s' = count s"
  shows "task_sound env count s'"
  using assms by (simp add: task_sound_def)

lemma sound_output:
  assumes "inv (tm_store st)" "task_sound env count (tm_store st)"
  shows "inv (tm_store (snd (registry_append_output env i x st))) \<and> task_sound env count (tm_store (snd (registry_append_output env i x st)))"
proof -
  obtain js s1 where js: "outs (tm_store st) i = Inr js" and s1: "inv s1" "count s1 = count (tm_store st)"
    "get s1 = get (tm_store st)" "outs s1 = (outs (tm_store st))(i := Inr (js @ [norm_j x]))"
    and r: "registry_append_output env i x st = bind (registry_update env i (no_update\<lparr>tu_cursor := Some (CursorInt (int (length js) + 1))\<rparr>))
      (\<lambda>_. ret (int (length js) + 1)) (st\<lparr>tm_store := s1\<rparr>)"
    using append_output_effect [OF assms(1), of i x] by (auto simp: Let_def)
  let ?u = "no_update\<lparr>tu_cursor := Some (CursorInt (int (length js) + 1))\<rparr>"
  have inv1: "inv (tm_store (st\<lparr>tm_store := s1\<rparr>))" by (simp add: s1)
  show ?thesis
  proof (rule update_cases [OF inv1, of i ?u])
    fix e assume e: "get (tm_store (st\<lparr>tm_store := s1\<rparr>)) i = Inl e" "registry_update env i ?u (st\<lparr>tm_store := s1\<rparr>) = (Inl e, st\<lparr>tm_store := s1\<rparr>)"
    then have "registry_append_output env i x st = (Inl e, st\<lparr>tm_store := s1\<rparr>)" by (simp add: r bind_def)
    moreover have "task_sound env count s1" using assms(2) e(1) by (auto simp: task_sound_def s1)
    ultimately show ?thesis by (simp add: s1)
  next
    fix t t' n
    assume a: "get (tm_store (st\<lparr>tm_store := s1\<rparr>)) i = Inr t" "tk_id t' = i"
      "registry_update env i ?u (st\<lparr>tm_store := s1\<rparr>) = (Inr t', (st\<lparr>tm_store := s1\<rparr>)
         \<lparr>tm_clock := n, tm_store := tb_put (te_backend env) t' (tm_store (st\<lparr>tm_store := s1\<rparr>))\<rparr>)"
      "(task_done t \<longrightarrow> tk_end t \<noteq> None) \<Longrightarrow> task_done t' \<Longrightarrow> tk_end t' \<noteq> None"
      "tk_output_cursor t' = (case tu_cursor ?u of None \<Rightarrow> tk_output_cursor t | Some c \<Rightarrow> Some c)"
    have t: "get (tm_store st) i = Inr t" using a(1) by (simp add: s1)
    then have "task_done t \<longrightarrow> tk_end t \<noteq> None" using assms(2) by (auto simp: task_sound_def)
    then have d: "task_done t' \<Longrightarrow> tk_end t' \<noteq> None" using a(4) by blast
    have c: "tk_output_cursor t' = Some (CursorInt (int (length js) + 1))" using a(5) by (simp add: no_update_def)
    have "tm_store (snd (registry_append_output env i x st)) = tb_put (te_backend env) t' s1"
      by (simp add: r bind_def a(3) ret_def)
    moreover have "task_sound env count (tb_put (te_backend env) t' s1)"
      using assms(2) d c t s1 a(2) by (auto simp: task_sound_def frames norm_t_fields)
    ultimately show ?thesis by (simp add: frames s1)
  qed
qed

end

sublocale managed_tasks \<subseteq> sound: kept env "\<lambda>s. inv s \<and> task_sound env count s" True
proof (unfold_locales; rule keepsI_store; (elim conjE)?)
  fix r :: spawn_request and st :: "('s, unit) task_manager"
  assume a: "inv (tm_store st)" "task_sound env count (tm_store st)"
  obtain t st' where "spawn env r st = (Inr t, st')" "tk_id t = ''task_'' @ nat_str (Suc (count (tm_store st)))"
    "inv (tm_store st')" "count (tm_store st') = Suc (count (tm_store st))" "get (tm_store st') = (get (tm_store st))(tk_id t := Inr t)"
    "outs (tm_store st') = outs (tm_store st)" "task_status_str (tk_status t) = ''running''" "tk_output_cursor t = None"
    using spawn_effect [OF a(1), of r] by blast
  then show "inv (tm_store (snd (spawn env r st))) \<and> task_sound env count (tm_store (snd (spawn env r st)))"
    using a(2) by (fastforce simp: task_sound_def terminal_values_def)
next
  fix u :: task_update and i and st :: "('s, unit) task_manager"
  assume u: "tu_cursor u = None" and a: "inv (tm_store st)" "task_sound env count (tm_store st)"
  show "inv (tm_store (snd (registry_update env i u st))) \<and> task_sound env count (tm_store (snd (registry_update env i u st)))"
  proof (rule update_cases [OF a(1), of i u])
    fix t t' n
    assume t: "get (tm_store st) i = Inr t" "tk_id t' = i"
      "registry_update env i u st = (Inr t', st\<lparr>tm_clock := n, tm_store := tb_put (te_backend env) t' (tm_store st)\<rparr>)"
      "(task_done t \<longrightarrow> tk_end t \<noteq> None) \<Longrightarrow> task_done t' \<Longrightarrow> tk_end t' \<noteq> None"
      "tk_output_cursor t' = (case tu_cursor u of None \<Rightarrow> tk_output_cursor t | Some c \<Rightarrow> Some c)"
    have "task_sound env count (tb_put (te_backend env) t' (tm_store st))"
      using a t u by (intro sound_put) (auto simp: task_sound_def)
    then show ?thesis by (simp add: t(3) frames a)
  qed (simp add: a)
next
  fix i e and st :: "('s, unit) task_manager"
  assume a: "inv (tm_store st)" "task_sound env count (tm_store st)"
  then show "inv (tm_store (snd (registry_append_event env i e st))) \<and> task_sound env count (tm_store (snd (registry_append_event env i e st)))"
    using append_event_effect [OF a(1), of i e] sound_frame [OF a(2)] by auto
next
  fix i x and st :: "('s, unit) task_manager"
  assume "inv (tm_store st)" "task_sound env count (tm_store st)"
  then show "inv (tm_store (snd (registry_append_output env i x st))) \<and> task_sound env count (tm_store (snd (registry_append_output env i x st)))"
    by (rule sound_output)
next
  fix f :: "string set \<Rightarrow> string set" and i and st :: "('s, unit) task_manager"
  assume f: "\<And>bs. finite bs \<Longrightarrow> finite (f bs)" and a: "inv (tm_store st)" "task_sound env count (tm_store st)"
  then show "inv (tm_store (snd (registry_observers env i f st))) \<and> task_sound env count (tm_store (snd (registry_observers env i f st)))"
    using observers_effect [OF a(1), of f i] sound_frame [OF a(2)] by auto
next
  fix stamp and st :: "('s, unit) task_manager"
  assume a: "inv (tm_store st)" "task_sound env count (tm_store st)"
  have "inv (tb_remove (te_backend env) out i s) \<and> task_sound env count (tb_remove (te_backend env) out i s)"
    if "inv s \<and> task_sound env count s" for s i out
  proof -
    have s: "inv s" "task_sound env count s" using that by simp_all
    obtain e where e: "tb_get (te_backend env) (tb_remove (te_backend env) out i s) i = Inl e"
      using get_removed [OF s(1)] by blast
    have "j \<noteq> i \<and> tb_get (te_backend env) s j = Inr t"
      if "tb_get (te_backend env) (tb_remove (te_backend env) out i s) j = Inr t" for j t
      using that e get_remove [OF s(1), of j i out] by (cases "j = i") simp_all
    then show ?thesis
      using s inv_remove [OF s(1), of out i] outputs_remove unfolding task_sound_def count_remove by metis
  qed
  then show "inv (tm_store (snd (registry_evict_expired env stamp st))) \<and> task_sound env count (tm_store (snd (registry_evict_expired env stamp st)))"
    using keepsD [OF keep_evict_store [of "\<lambda>st. inv (tm_store st) \<and> task_sound env count (tm_store st)" stamp], of st] a by simp
qed

sublocale managed_tasks \<subseteq> logged: kept env "\<lambda>s. inv s \<and> logs_extend env L s" False for L
proof (unfold_locales; (rule keepsI_store)?; (elim conjE)?)
  fix r :: spawn_request and st :: "('s, unit) task_manager"
  assume a: "inv (tm_store st)" "logs_extend env L (tm_store st)"
  obtain t st' es e where "spawn env r st = (Inr t, st')" "inv (tm_store st')" "log (tm_store st) (tk_id t) = Inr es"
    "log (tm_store st') = (log (tm_store st))(tk_id t := Inr (es @ [e]))"
    using spawn_effect [OF a(1), of r] by blast
  then show "inv (tm_store (snd (spawn env r st))) \<and> logs_extend env L (tm_store (snd (spawn env r st)))"
    using a(2) by (auto simp: logs_extend_def) (metis Inr_inject prefix_prefix)
next
  fix u :: task_update and i and st :: "('s, unit) task_manager"
  assume a: "inv (tm_store st)" "logs_extend env L (tm_store st)"
  then show "inv (tm_store (snd (registry_update env i u st))) \<and> logs_extend env L (tm_store (snd (registry_update env i u st)))"
    by (rule_tac update_cases [OF a(1), of i u]) (simp_all add: logs_extend_def frames)
next
  fix i e and st :: "('s, unit) task_manager"
  assume a: "inv (tm_store st)" "logs_extend env L (tm_store st)"
  obtain es s' where "log (tm_store st) i = Inr es" "registry_append_event env i e st = (Inr e, st\<lparr>tm_store := s'\<rparr>)" "inv s'"
    "log s' = (log (tm_store st))(i := Inr (es @ [norm_e e]))"
    using append_event_effect [OF a(1), of i e] by blast
  then show "inv (tm_store (snd (registry_append_event env i e st))) \<and> logs_extend env L (tm_store (snd (registry_append_event env i e st)))"
    using a(2) by (auto simp: logs_extend_def) (metis Inr_inject prefix_prefix)
next
  fix i x and st :: "('s, unit) task_manager"
  assume a: "inv (tm_store st)" "logs_extend env L (tm_store st)"
  obtain js :: "json list" and s1 where s1: "inv s1" "log s1 = log (tm_store st)"
    and r: "registry_append_output env i x st = bind (registry_update env i (no_update\<lparr>tu_cursor := Some (CursorInt (int (length js) + 1))\<rparr>))
      (\<lambda>_. ret (int (length js) + 1)) (st\<lparr>tm_store := s1\<rparr>)"
    using append_output_effect [OF a(1), of i x] unfolding Let_def by (elim exE conjE) (rule that)
  have i1: "inv (tm_store (st\<lparr>tm_store := s1\<rparr>))" by (simp add: s1)
  show "inv (tm_store (snd (registry_append_output env i x st))) \<and> logs_extend env L (tm_store (snd (registry_append_output env i x st)))"
    by (rule update_cases [OF i1, of i "no_update\<lparr>tu_cursor := Some (CursorInt (int (length js) + 1))\<rparr>"])
      (use a s1 in \<open>simp_all add: r bind_def ret_def logs_extend_def frames\<close>)
next
  fix f :: "string set \<Rightarrow> string set" and i and st :: "('s, unit) task_manager"
  assume f: "\<And>bs. finite bs \<Longrightarrow> finite (f bs)" and a: "inv (tm_store st)" "logs_extend env L (tm_store st)"
  then show "inv (tm_store (snd (registry_observers env i f st))) \<and> logs_extend env L (tm_store (snd (registry_observers env i f st)))"
    using observers_effect [OF a(1), of f i] by (auto simp: logs_extend_def)
qed simp

subsection \<open>Eviction\<close>

text \<open>What the retention policy lets go: a task that is over and notified, that nobody observes, and whose grace period has passed.\<close>

definition evictable :: "'s task_env \<Rightarrow> 's \<Rightarrow> bool \<times> int \<Rightarrow> task_record \<Rightarrow> bool" where
  "evictable env s now t \<longleftrightarrow> task_done t \<and> tk_notified t \<and> tb_observers (te_backend env) s (tk_id t) = Inr {}
     \<and> (case tk_end t of None \<Rightarrow> False | Some e \<Rightarrow> (case te_parse env e of Inl x \<Rightarrow> False
         | Inr ended \<Rightarrow> fst ended = fst now \<and> snd ended + rp_grace (te_policy env) \<le> snd now))"

context managed_tasks
begin

lemma expired_value:
  assumes "inv (tm_store st)" "expired env now t st = (Inr x, st')"
  shows "st' = st \<and> x = evictable env (tm_store st) now t"
proof -
  obtain bs where bs: "watchers (tm_store st) (tk_id t) = Inr bs" using observers [OF assms(1)] by blast
  then show ?thesis
    using assms(2) unfolding expired_def evictable_def
    by (auto simp: reads_Inr [where f = "\<lambda>s. watchers s (tk_id t)", OF bs] ret_def lift_def ebind_def still_in_grace_def split: if_splits option.splits sum.splits)
qed

lemma evict_loop_effect:
  assumes "inv (tm_store st)" "distinct (map tk_id ts)" "evict_loop env now ts removed st = (Inr ids, st')"
  shows "ids = removed @ map tk_id (filter (evictable env (tm_store st) now) ts)
    \<and> st' = st\<lparr>tm_store := fold (tb_remove (te_backend env) (rp_output (te_policy env)))
         (map tk_id (filter (evictable env (tm_store st) now) ts)) (tm_store st)\<rparr>"
  using assms
proof (induction ts arbitrary: removed st)
  case (Cons t ts)
  let ?rm = "tb_remove (te_backend env) (rp_output (te_policy env)) (tk_id t)"
  obtain x st1 where x: "expired env now t st = (Inr x, st1)"
    using Cons.prems(3) by (cases "expired env now t st"; cases "fst (expired env now t st)") (auto simp: bind_def)
  have e: "st1 = st" "x = evictable env (tm_store st) now t" using expired_value [OF Cons.prems(1) x] by simp_all
  show ?case
  proof (cases x)
    case False
    then show ?thesis using Cons.IH [OF Cons.prems(1), of removed] Cons.prems e x by (simp add: bind_def)
  next
    case True
    let ?st = "st\<lparr>tm_store := ?rm (tm_store st)\<rparr>"
    have l: "evict_loop env now ts (removed @ [tk_id t]) ?st = (Inr ids, st')"
      using Cons.prems(3) True x e(1) by (simp add: bind_def store_write_def modify_def)
    have f: "filter (evictable env (tm_store ?st) now) ts = filter (evictable env (tm_store st) now) ts"
      using Cons.prems(2) by (intro filter_cong refl) (auto simp: evictable_def observers_remove image_iff)
    show ?thesis
      using Cons.IH [of ?st "removed @ [tk_id t]"] l f inv_remove [OF Cons.prems(1)] Cons.prems(2) True e(2) by simp
  qed
qed (simp add: ret_def)

lemma get_after_removals:
  assumes "inv s"
  shows "inv (fold (tb_remove (te_backend env) out) ids s)
    \<and> (i \<notin> set ids \<longrightarrow> get (fold (tb_remove (te_backend env) out) ids s) i = get s i)
    \<and> (i \<in> set ids \<longrightarrow> (\<exists>e. get (fold (tb_remove (te_backend env) out) ids s) i = Inl e))"
  using assms
proof (induction ids rule: rev_induct)
  case (snoc j ids)
  then show ?case using get_remove get_removed inv_remove by (cases "i = j") auto
qed simp

lemma evict_effect:
  assumes "inv (tm_store st)" "registry_evict_expired env (Some stamp) st = (Inr ids, st')" "rp_evict (te_policy env)"
  shows "\<exists>now ts. te_parse env stamp = Inr now \<and> (\<forall>t. t \<in> set ts \<longleftrightarrow> get (tm_store st) (tk_id t) = Inr t)
    \<and> ids = map tk_id (filter (evictable env (tm_store st) now) ts)
    \<and> (\<forall>i. i \<notin> set ids \<longrightarrow> get (tm_store st') i = get (tm_store st) i)
    \<and> (\<forall>i \<in> set ids. \<exists>e. get (tm_store st') i = Inl e)"
proof -
  obtain ts where ts: "tb_all (te_backend env) (tm_store st) = Inr ts" "distinct (map tk_id ts)"
    "\<And>t. t \<in> set ts \<longleftrightarrow> get (tm_store st) (tk_id t) = Inr t"
    using listing [OF assms(1)] by blast
  obtain now where now: "te_parse env stamp = Inr now"
    using assms(2,3) by (cases "te_parse env stamp") (auto simp: registry_evict_expired_def bind_def lift_def ret_def)
  have "registry_list env None st = (Inr (sort_key tk_id ts), st)"
    by (simp add: registry_list_def reads_Inr [where f = "tb_all (te_backend env)", OF ts(1)] ret_def)
  then have "evict_loop env now (sort_key tk_id ts) [] st = (Inr ids, st')"
    using assms(2,3) now by (simp add: registry_evict_expired_def bind_def lift_def)
  moreover have "distinct (map tk_id (sort_key tk_id ts))" using ts(2) by (simp add: distinct_map)
  ultimately have r: "ids = map tk_id (filter (evictable env (tm_store st) now) (sort_key tk_id ts))"
    "st' = st\<lparr>tm_store := fold (tb_remove (te_backend env) (rp_output (te_policy env))) ids (tm_store st)\<rparr>"
    using evict_loop_effect [OF assms(1)] by fastforce+
  have "i \<notin> set ids \<longrightarrow> get (tm_store st') i = get (tm_store st) i" "i \<in> set ids \<longrightarrow> (\<exists>e. get (tm_store st') i = Inl e)" for i
    using get_after_removals [OF assms(1), where i = i and out = "rp_output (te_policy env)" and ids = ids] by (simp_all add: r(2))
  then show ?thesis using now r(1) ts(3) by (intro exI [of _ now] exI [of _ "sort_key tk_id ts"]) simp
qed

end

subsection \<open>Completion\<close>

text \<open>Implementations that leave the reading of events to the registry.\<close>

definition plain_reads :: "'s task_env \<Rightarrow> ('s, 'i, 'z) events_method \<Rightarrow> bool" where
  "plain_reads env R \<longleftrightarrow> (\<forall>x m. R x = Some m \<longrightarrow> m = registry_read_events env)"

lemma plain_reads_none [simp]: "plain_reads env (\<lambda>x. None)"
  by (simp add: plain_reads_def)

lemma manager_read_plain:
  assumes "plain_reads env R"
  shows "manager_read_events R env i n = bind (registry_get env i) (\<lambda>_. registry_read_events env i n)"
proof -
  have "(case impl of None \<Rightarrow> registry_read_events env i n
      | Some x \<Rightarrow> (case map_option (\<lambda>m. m i n) (R x) of None \<Rightarrow> registry_read_events env i n | Some k \<Rightarrow> k)) = registry_read_events env i n" for impl
    using assms by (auto simp: plain_reads_def split: option.split)
  moreover have g: "bind (gets f) (\<lambda>_. m) = m" for f and m :: "('x, 'y) eff" by (simp add: fun_eq_iff)
  ultimately show ?thesis by (simp add: manager_read_events_def dispatch_def g)
qed

context managed_tasks
begin

lemma read_events_effect:
  assumes "plain_reads env R" "inv (tm_store st)" "get (tm_store st) i = Inr t"
  shows "\<exists>es. log (tm_store st) i = Inr es \<and> manager_read_events R env i n st =
    (Inr \<lparr>es_task = i, es_cursor = int (length es), es_events = map task_event_to_dict (py_from n es), es_done = task_done t\<rparr>, st)"
proof -
  obtain es where es: "log (tm_store st) i = Inr es" using events [OF assms(2)] by blast
  then show ?thesis
    by (simp add: manager_read_plain [OF assms(1)] bind_get_Inr [OF assms(3)] registry_read_events_def
        reads_Inr [where f = "\<lambda>s. log s i", OF es] ret_def)
qed

lemma numbered_effect:
  assumes "plain_reads env R" "inv (tm_store st)" "get (tm_store st) i = Inr t"
  shows "\<exists>st' es e. numbered_event R env i ty d terminal err st = (Inr (), st') \<and> inv (tm_store st')
    \<and> get (tm_store st') = get (tm_store st) \<and> outs (tm_store st') = outs (tm_store st)
    \<and> log (tm_store st) i = Inr es \<and> log (tm_store st') = (log (tm_store st))(i := Inr (es @ [e]))
    \<and> te_type e = ty \<and> te_task e = i \<and> te_id e = ''task_'' @ ty @ '':'' @ i @ '':'' @ int_str (int (length es) + 1)
    \<and> watchers (tm_store st') = watchers (tm_store st) \<and> tm_results st' = tm_results st"
proof -
  obtain es where es: "log (tm_store st) i = Inr es" "manager_read_events R env i 0 st =
      (Inr \<lparr>es_task = i, es_cursor = int (length es), es_events = map task_event_to_dict (py_from 0 es), es_done = task_done t\<rparr>, st)"
    using read_events_effect [OF assms] by blast
  let ?e = "\<lparr>te_task = i, te_id = ''task_'' @ ty @ '':'' @ i @ '':'' @ int_str (int (length es) + 1),
       te_timestamp = te_now env (tm_clock st), te_type = ty, te_payload = d, te_terminal = terminal, te_error = err\<rparr>"
  let ?st = "st\<lparr>tm_clock := Suc (tm_clock st)\<rparr>"
  obtain fs s' where a: "log (tm_store ?st) i = Inr fs" "registry_append_event env i ?e ?st = (Inr ?e, ?st\<lparr>tm_store := s'\<rparr>)" "inv s'"
    "get s' = get (tm_store ?st)" "log s' = (log (tm_store ?st))(i := Inr (fs @ [norm_e ?e]))"
    "outs s' = outs (tm_store ?st)" "watchers s' = watchers (tm_store ?st)"
    using append_event_effect [of ?st i ?e] assms(2) by auto
  have "numbered_event R env i ty d terminal err st = (Inr (), ?st\<lparr>tm_store := s'\<rparr>)"
    using a(2) by (simp add: numbered_event_def bind_def [of "manager_read_events R env i 0"] es(2) now)
      (simp add: bind_def ret_def)
  then show ?thesis using a es(1)
    by (intro exI [of _ "?st\<lparr>tm_store := s'\<rparr>"] exI [of _ es] exI [of _ "norm_e ?e"]) (simp add: norm_e_fields)
qed

text \<open>Completing a known task succeeds and records status, end, output reference and metadata.\<close>

lemma complete_effect:
  assumes "plain_reads env R" "inv (tm_store st)" "get (tm_store st) i = Inr t"
  shows "\<exists>st' u m. complete_task R env i r meta st = (Inr (), st') \<and> inv (tm_store st') \<and> tk_id u = i
    \<and> get (tm_store st') = (get (tm_store st))(i := Inr (norm_t u)) \<and> task_status_str (tk_status u) = ''completed''
    \<and> tk_end u \<noteq> None \<and> tk_output_ref u = (case r of None \<Rightarrow> tk_output_ref t | Some x \<Rightarrow> Some x)
    \<and> tk_metadata u = updated_metadata (no_update\<lparr>tu_metadata := meta\<rparr>) m \<and> tm_results st' = tm_results st"
proof -
  let ?attach = "case r of None \<Rightarrow> ret () | Some x \<Rightarrow> bind (registry_attach_output env i x) (\<lambda>_. ret ())"
  obtain st1 t1 where a: "?attach st = (Inr (), st1)" "inv (tm_store st1)" "get (tm_store st1) i = Inr t1"
    "get (tm_store st1) = (get (tm_store st))(i := Inr t1)" "tk_output_ref t1 = (case r of None \<Rightarrow> tk_output_ref t | Some x \<Rightarrow> Some x)"
    "tm_results st1 = tm_results st"
  proof (cases r)
    case None
    then show ?thesis using assms(2,3) that [of st t] by (simp add: ret_def fun_upd_idem)
  next
    case (Some x)
    let ?u = "no_update\<lparr>tu_output_ref := Some x\<rparr>"
    obtain t' n where u: "registry_update env i ?u st = (Inr t', st\<lparr>tm_clock := n, tm_store := tb_put (te_backend env) t' (tm_store st)\<rparr>)"
      "tk_id t' = i" "tk_output_ref t' = Some x"
      using update_effect [OF assms(2,3), of ?u] by auto
    show ?thesis
      by (rule that [of "st\<lparr>tm_clock := n, tm_store := tb_put (te_backend env) t' (tm_store st)\<rparr>" "norm_t t'"])
        (use u assms(2,3) in \<open>simp_all add: Some registry_attach_output_def bind_def ret_def frames norm_t_fields\<close>)
  qed
  define U where "U = no_update\<lparr>tu_status := Some ''completed'', tu_metadata := meta, tu_output_ref := r,
       tu_terminal := Some (plain_terminal COMPLETED ''completed'')\<rparr>"
  have U: "tu_status U = Some ''completed''" "tu_output_ref U = r" by (simp_all add: U_def)
  obtain u n where u: "registry_update env i U st1 = (Inr u, st1\<lparr>tm_clock := n, tm_store := tb_put (te_backend env) u (tm_store st1)\<rparr>)"
    "tk_id u = i" "task_status_str (tk_status u) = ''completed''" "task_done u \<longrightarrow> tk_end u \<noteq> None"
    "tk_metadata u = updated_metadata U (tk_metadata t1)"
    "tk_output_ref u = (case r of None \<Rightarrow> tk_output_ref t1 | Some x \<Rightarrow> Some x)"
    using update_effect [OF a(2,3), of U] unfolding U option.case by blast
  let ?st2 = "st1\<lparr>tm_clock := n, tm_store := tb_put (te_backend env) u (tm_store st1)\<rparr>"
  have g2: "inv (tm_store ?st2)" "get (tm_store ?st2) i = Inr (norm_t u)" using a(2) u(2) by (simp_all add: frames)
  obtain st' where e: "numbered_event R env i ''completed'' (dict_merge [(''output_ref'', jopt_str r)] (dict_or_empty meta))
       (Some (plain_terminal COMPLETED ''completed'')) None ?st2 = (Inr (), st')" "inv (tm_store st')"
    "get (tm_store st') = get (tm_store ?st2)" "tm_results st' = tm_results ?st2"
    using numbered_effect [OF assms(1) g2] by metis
  have "complete_task R env i r meta st = (Inr (), st')"
    using a(1) u(1) e(1) by (simp add: complete_task_def bind_def flip: U_def)
  moreover have "task_done u" by (simp add: u(3) terminal_values_def)
  moreover have "updated_metadata U m = updated_metadata (no_update\<lparr>tu_metadata := meta\<rparr>) m" for m
    by (simp add: updated_metadata_def U_def)
  ultimately show ?thesis using a e u
    by (intro exI [of _ st'] exI [of _ u] exI [of _ "tk_metadata t1"]) (simp add: frames split: option.split)
qed

end

subsection \<open>The two managers\<close>

interpretation fm: managed_tasks "file_env now parse policy" task_files_inv file_count file_norm_task file_norm_event sorted_json
  for now parse policy
  unfolding managed_tasks_def env_sel by (rule tfiles.task_storage_axioms)

interpretation mm: managed_tasks "memory_env now parse policy" memory_inv ms_counter id id id
  for now parse policy
  unfolding managed_tasks_def env_sel by (rule tmemory.task_storage_axioms)

text \<open>The state after a history of operations on a fresh directory, and on a fresh memory.\<close>

definition after_files :: "(nat \<Rightarrow> string) \<Rightarrow> (string \<Rightarrow> py_error + bool \<times> int) \<Rightarrow> retention_policy \<Rightarrow> task_op list
    \<Rightarrow> (task_files, unit) task_manager" where
  "after_files now parse policy ops = snd (run_ops (file_env now parse policy) ops (new_task_manager empty_task_files))"

definition after_memory :: "(nat \<Rightarrow> string) \<Rightarrow> (string \<Rightarrow> py_error + bool \<times> int) \<Rightarrow> retention_policy \<Rightarrow> task_op list
    \<Rightarrow> (memory_storage, unit) task_manager" where
  "after_memory now parse policy ops = snd (run_ops (memory_env now parse policy) ops (new_task_manager empty_memory))"

lemma files_reached:
  assumes "\<forall>x \<in> set ops. managed_op True x"
  shows "task_files_inv (tm_store (after_files now parse policy ops))
    \<and> task_sound (file_env now parse policy) file_count (tm_store (after_files now parse policy ops))"
proof -
  have "task_sound (file_env now parse policy) file_count empty_task_files"
    by (simp add: task_sound_def file_read_task_def empty_task_files_def)
  then show ?thesis
    using fm.sound.keep_ops [OF assms, of "new_task_manager empty_task_files" now parse policy]
    by (simp add: after_files_def new_task_manager_def)
qed

lemma memory_reached:
  assumes "\<forall>x \<in> set ops. managed_op True x"
  shows "memory_inv (tm_store (after_memory now parse policy ops))
    \<and> task_sound (memory_env now parse policy) ms_counter (tm_store (after_memory now parse policy ops))"
proof -
  have "task_sound (memory_env now parse policy) ms_counter empty_memory"
    by (simp add: task_sound_def empty_memory_def)
  then show ?thesis
    using mm.sound.keep_ops [OF assms, of "new_task_manager empty_memory" now parse policy]
    by (simp add: after_memory_def new_task_manager_def)
qed

lemma run_ops_append: "run_ops env (xs @ ys) st =
    (let (rs, st1) = run_ops env xs st; (qs, st2) = run_ops env ys st1 in (rs @ qs, st2))"
  by (induction xs arbitrary: st) (simp_all add: case_prod_unfold Let_def)

text \<open>A small history for the examples: a job that completes with one output and has been notified.\<close>

abbreviation demo_history :: "task_op list" where
  "demo_history \<equiv> [OpCreate ''job'' None, OpAppendOutput ''task_1'' (JStr ''out''), OpMarkNotified ''task_1'']"

abbreviation demo_parse :: "string \<Rightarrow> py_error + bool \<times> int" where
  "demo_parse \<equiv> \<lambda>s. Inr (True, if s = ''late'' then 40000000 else 0)"

abbreviation demo_files :: "(task_files, unit) task_manager" where
  "demo_files \<equiv> after_files (\<lambda>n. ''t'') demo_parse default_retention demo_history"



text \<open>
  Event logs are append-only.  Operations other than an eviction, whatever they are and whether they
  return or raise, leave every event of every task in place: the log of a task before them is a prefix of its log after.
\<close>

theorem task_log_append_only:
  assumes "\<forall>x \<in> set ops. managed_op True x" "\<forall>x \<in> set later. managed_op False x"
    and "file_read_events (tm_store (after_files now parse policy ops)) i = Inr es"
  shows "\<exists>fs. file_read_events (tm_store (after_files now parse policy (ops @ later))) i = Inr fs \<and> prefix es fs"
proof -
  let ?st = "after_files now parse policy ops"
  define L where "L j = (case file_read_events (tm_store ?st) j of Inl e \<Rightarrow> [] | Inr fs \<Rightarrow> fs)" for j
  have inv: "task_files_inv (tm_store ?st)" using files_reached [OF assms(1)] by blast
  have "\<exists>fs. file_read_events (tm_store ?st) j = Inr fs \<and> prefix (L j) fs" for j
    using file_reads(1) [OF inv, of j] by (auto simp: L_def)
  with inv have "task_files_inv (tm_store ?st) \<and> logs_extend (file_env now parse policy) L (tm_store ?st)"
    by (simp add: logs_extend_def)
  then have "logs_extend (file_env now parse policy) L (tm_store (snd (run_ops (file_env now parse policy) later ?st)))"
    using fm.logged.keep_ops [OF assms(2)] by blast
  moreover have "after_files now parse policy (ops @ later) = snd (run_ops (file_env now parse policy) later ?st)"
    by (simp add: after_files_def run_ops_append case_prod_unfold Let_def)
  ultimately show ?thesis using assms(3) by (auto simp: logs_extend_def L_def dest: spec [of _ i])
qed

theorem task_log_append_only_witness:
  "\<exists>fs. file_read_events (tm_store (after_files (\<lambda>n. ''t'') demo_parse default_retention (demo_history @ [OpKill ''task_1'']))) ''task_9'' = Inr fs
     \<and> prefix [] fs"
  by (rule task_log_append_only) (simp, simp, code_simp)

text \<open>
  A new task never collides with another.  After any history \<open>spawn\<close> returns a running record whose id no
  task has; it leaves the record of every other task as it was, and the outputs and observers of all.
\<close>

theorem spawn_is_fresh:
  assumes "\<forall>x \<in> set ops. managed_op True x"
  shows "\<exists>t st'. spawn (file_env now parse policy) r (after_files now parse policy ops) = (Inr t, st')
    \<and> task_status_str (tk_status t) = ''running''
    \<and> (\<exists>e. file_read_task (tm_store (after_files now parse policy ops)) (tk_id t) = Inl e)
    \<and> file_read_task (tm_store st') = (file_read_task (tm_store (after_files now parse policy ops)))(tk_id t := Inr t)
    \<and> file_read_outputs (tm_store st') = file_read_outputs (tm_store (after_files now parse policy ops))
    \<and> file_read_observers (tm_store st') = file_read_observers (tm_store (after_files now parse policy ops))"
proof -
  let ?st = "after_files now parse policy ops"
  have r: "task_files_inv (tm_store ?st)" "task_sound (file_env now parse policy) file_count (tm_store ?st)"
    using files_reached [OF assms] by blast+
  obtain t st' where s: "spawn (file_env now parse policy) r ?st = (Inr t, st')"
    "tk_id t = ''task_'' @ nat_str (Suc (file_count (tm_store ?st)))" "task_status_str (tk_status t) = ''running''"
    "file_read_task (tm_store st') = (file_read_task (tm_store ?st))(tk_id t := Inr t)"
    "file_read_outputs (tm_store st') = file_read_outputs (tm_store ?st)"
    "file_read_observers (tm_store st') = file_read_observers (tm_store ?st)"
    using fm.spawn_effect [OF r(1), of now parse policy r] by auto
  have "file_read_task (tm_store ?st) (tk_id t) \<noteq> Inr u" for u
    using r(2) unfolding task_sound_def s(2) by fastforce
  then obtain e where "file_read_task (tm_store ?st) (tk_id t) = Inl e"
    by (cases "file_read_task (tm_store ?st) (tk_id t)") auto
  with s show ?thesis by blast
qed

theorem spawn_is_fresh_witness:
  "\<exists>t st'. spawn (file_env (\<lambda>n. ''t'') demo_parse default_retention) \<lparr>sp_type = ''generic'', sp_description = ''next'',
       sp_metadata = None, sp_session = None, sp_agent = None, sp_parent = None\<rparr> demo_files = (Inr t, st')
     \<and> file_read_task (tm_store st') ''task_1'' = file_read_task (tm_store demo_files) ''task_1''"
proof -
  have "\<forall>x \<in> set demo_history. managed_op True x" by simp
  from spawn_is_fresh [OF this, of "\<lambda>n. ''t''" demo_parse default_retention "\<lparr>sp_type = ''generic'', sp_description = ''next'',
       sp_metadata = None, sp_session = None, sp_agent = None, sp_parent = None\<rparr>"]
  obtain t st' e where t: "spawn (file_env (\<lambda>n. ''t'') demo_parse default_retention) \<lparr>sp_type = ''generic'', sp_description = ''next'',
       sp_metadata = None, sp_session = None, sp_agent = None, sp_parent = None\<rparr> demo_files = (Inr t, st')"
    "file_read_task (tm_store demo_files) (tk_id t) = Inl e"
    "file_read_task (tm_store st') = (file_read_task (tm_store demo_files))(tk_id t := Inr t)"
    by blast
  have "case file_read_task (tm_store demo_files) ''task_1'' of Inl e \<Rightarrow> False | Inr t \<Rightarrow> True" by code_simp
  then have "tk_id t \<noteq> ''task_1''" using t(2) by (auto split: sum.splits)
  then show ?thesis using t(1,3) by fastforce
qed

text \<open>
  Eviction removes exactly what the policy lets go.  After any history, an eviction that returns has removed the
  tasks that are over, notified, observed by nobody and past their grace period, reports them in the
  order of their ids, and leaves every other task as it was.
\<close>

theorem eviction_exact:
  assumes "\<forall>x \<in> set ops. managed_op True x" "rp_evict policy"
    and "registry_evict_expired (file_env now parse policy) (Some stamp) (after_files now parse policy ops) = (Inr ids, st')"
  shows "\<exists>instant ts. parse stamp = Inr instant
    \<and> (\<forall>t. t \<in> set ts \<longleftrightarrow> file_read_task (tm_store (after_files now parse policy ops)) (tk_id t) = Inr t)
    \<and> ids = map tk_id (filter (evictable (file_env now parse policy) (tm_store (after_files now parse policy ops)) instant) ts)
    \<and> (\<forall>i. i \<notin> set ids \<longrightarrow> file_read_task (tm_store st') i = file_read_task (tm_store (after_files now parse policy ops)) i)
    \<and> (\<forall>i \<in> set ids. \<exists>e. file_read_task (tm_store st') i = Inl e)"
  using fm.evict_effect [OF _ assms(3)] files_reached [OF assms(1)] assms(2) by simp

theorem eviction_exact_witness:
  "\<exists>st'. registry_evict_expired (file_env (\<lambda>n. ''t'') demo_parse default_retention) (Some ''late'') demo_files = (Inr [''task_1''], st')
     \<and> (\<exists>e. file_read_task (tm_store st') ''task_1'' = Inl e)"
proof -
  have r: "fst (registry_evict_expired (file_env (\<lambda>n. ''t'') demo_parse default_retention) (Some ''late'') demo_files) = Inr [''task_1'']"
    by code_simp
  then obtain st' where st': "registry_evict_expired (file_env (\<lambda>n. ''t'') demo_parse default_retention) (Some ''late'') demo_files
      = (Inr [''task_1''], st')"
    by (metis prod.collapse)
  have "\<forall>x \<in> set demo_history. managed_op True x" "rp_evict default_retention" by (simp_all add: default_retention_def)
  from eviction_exact [OF this st'] show ?thesis using st' by fastforce
qed

text \<open>
  A verification result survives a restart.  Completing a known verifier task succeeds, and a manager
  that finds the same files later, with an empty memory, reads the verdict, summary, evidence, findings and
  limitations back, unless the result's own metadata overrides those entries.
\<close>

theorem verification_survives_restart:
  assumes "\<forall>x \<in> set ops. managed_op True x"
    and "file_read_task (tm_store (after_files now parse policy ops)) (vh_task h) = Inr t"
    and "meta_ok (vr_metadata r)"
    and "\<forall>k \<in> {''verdict'', ''summary'', ''evidence'', ''findings'', ''limitations''}. dict_get (dict_or_empty (vr_metadata r)) k = None"
  shows "\<exists>st' r' st''. complete_verifier no_method (file_env now parse policy) (vh_task h) r (after_files now parse policy ops) = (Inr r, st')
    \<and> await_verifier no_method (file_env now parse policy) h timeout (new_task_manager (tm_store st') :: (task_files, unit) task_manager) = (Inr r', st'')
    \<and> vr_verdict r' = vr_verdict r \<and> vr_summary r' = vr_summary r \<and> vr_evidence r' = vr_evidence r
    \<and> vr_findings r' = vr_findings r \<and> vr_limitations r' = vr_limitations r"
proof -
  let ?st = "after_files now parse policy ops" and ?env = "file_env now parse policy" and ?i = "vh_task h"
  let ?noted = "?st\<lparr>tm_results := dict_set ?i r (tm_results ?st)\<rparr>"
  have i: "task_files_inv (tm_store ?noted)" "tb_get (te_backend ?env) (tm_store ?noted) ?i = Inr t"
    using files_reached [OF assms(1)] assms(2) by simp_all
  obtain st' u m where c: "complete_task no_method ?env ?i (vr_output_ref r) (Some (result_metadata r)) ?noted = (Inr (), st')"
    "file_read_task (tm_store st') ?i = Inr (file_norm_task u)"
    "tk_metadata u = Some (dict_merge (dict_or_empty m) (result_metadata r))"
    using fm.complete_effect [OF plain_reads_none i, of "vr_output_ref r" "Some (result_metadata r)"]
    by (auto simp: updated_metadata_def)
  have completes: "complete_verifier no_method ?env ?i r ?st = (Inr r, st')"
    using c(1) by (simp add: complete_verifier_def bind_def [of "complete_task R e k x y" for R e k x y] ret_def)
  let ?d = "sorted_object (dict_merge (dict_or_empty m) (result_metadata r))"
  have meta: "tk_metadata (file_norm_task u) = Some ?d" by (simp add: file_norm_task_def c(3))
  let ?new = "new_task_manager (tm_store st') :: (task_files, unit) task_manager"
  have g: "registry_get ?env ?i ?new = (Inr (file_norm_task u), ?new)"
    using c(2) by (simp add: fm.get_eq new_task_manager_def)
  have "await_task no_method ?env ?i timeout ?new = (Inr (file_norm_task u), ?new)"
    by (simp add: await_task_def dispatch_no_method bind_def g)
  moreover have b: "bind (registry_get ?env ?i) k ?new = k (file_norm_task u) ?new" for k :: "task_record \<Rightarrow> ((task_files, unit) task_manager, 'x) eff"
    by (simp add: bind_def g)
  moreover have "dict_get (tm_results ?new) ?i = None" by (simp add: new_task_manager_def)
  ultimately have w: "await_verifier no_method ?env h timeout ?new = (Inr (recorded_result ?i (file_norm_task u)), ?new)"
    by (simp only: await_verifier_def bind_def [of "await_task W e k x" for W e k x] prod.case sum.case bind_gets option.case b ret_def)
  have wf: "wf_dict (result_metadata r)" by (simp add: result_metadata_def)
  have wfm: "wf_dict (dict_or_empty (vr_metadata r))"
    using assms(3) by (cases "vr_metadata r") (simp_all add: meta_ok_def dict_or_empty_def)
  have base: "dict_get (result_metadata r) k = map_of [(''verdict'', JStr (verdict_value (vr_verdict r))), (''summary'', JStr (vr_summary r)),
     (''evidence'', JList (map JStr (vr_evidence r))), (''findings'', JList (map JStr (vr_findings r))),
     (''limitations'', JList (map JStr (vr_limitations r)))] k"
    if "dict_get (dict_or_empty (vr_metadata r)) k = None" for k
    unfolding result_metadata_def dict_get_merge [OF wfm] that by simp
  have look: "dict_get ?d k = Some (sorted_json x)" if "dict_get (result_metadata r) k = Some x" for k x
    using that by (simp add: dict_get_merge [OF wf])
  have base5: "dict_get (result_metadata r) ''verdict'' = Some (JStr (verdict_value (vr_verdict r)))"
    "dict_get (result_metadata r) ''summary'' = Some (JStr (vr_summary r))"
    "dict_get (result_metadata r) ''evidence'' = Some (JList (map JStr (vr_evidence r)))"
    "dict_get (result_metadata r) ''findings'' = Some (JList (map JStr (vr_findings r)))"
    "dict_get (result_metadata r) ''limitations'' = Some (JList (map JStr (vr_limitations r)))"
    using assms(4) by (simp_all add: base)
  have strs: "sorted_json (JStr x) = JStr x" "sorted_json (JList (map JStr xs)) = JList (map JStr xs)" for x xs
    by simp_all
  have v: "verdict_of_str (verdict_value v) = Some v" for v
    by (cases v) (simp_all add: verdict_of_str_def)
  obtain D where D: "tk_metadata (file_norm_task u) = Some D" "dict_get D ''verdict'' = Some (JStr (verdict_value (vr_verdict r)))"
    "dict_get D ''summary'' = Some (JStr (vr_summary r))" "dict_get D ''evidence'' = Some (JList (map JStr (vr_evidence r)))"
    "dict_get D ''findings'' = Some (JList (map JStr (vr_findings r)))"
    "dict_get D ''limitations'' = Some (JList (map JStr (vr_limitations r)))"
    by (rule that [OF meta look [OF base5(1), unfolded strs] look [OF base5(2), unfolded strs] look [OF base5(3), unfolded strs]
        look [OF base5(4), unfolded strs] look [OF base5(5), unfolded strs]])
  have "vr_verdict (recorded_result ?i (file_norm_task u)) = vr_verdict r" "vr_summary (recorded_result ?i (file_norm_task u)) = vr_summary r"
    "vr_evidence (recorded_result ?i (file_norm_task u)) = vr_evidence r" "vr_findings (recorded_result ?i (file_norm_task u)) = vr_findings r"
    "vr_limitations (recorded_result ?i (file_norm_task u)) = vr_limitations r"
    by (simp_all add: recorded_result_def D dict_or_empty_def str_items_def jget_def comp_def v)
  with completes w show ?thesis by blast
qed

theorem verification_survives_restart_witness:
  "\<exists>st' r' st''. complete_verifier no_method (file_env (\<lambda>n. ''t'') demo_parse default_retention) ''task_1''
       \<lparr>vr_verdict = VERDICT_FAIL, vr_summary = ''bad'', vr_evidence = [''e''], vr_findings = [], vr_limitations = [],
        vr_task = None, vr_output_ref = None, vr_metadata = None\<rparr> demo_files =
       (Inr \<lparr>vr_verdict = VERDICT_FAIL, vr_summary = ''bad'', vr_evidence = [''e''], vr_findings = [], vr_limitations = [],
        vr_task = None, vr_output_ref = None, vr_metadata = None\<rparr>, st')
     \<and> await_verifier no_method (file_env (\<lambda>n. ''t'') demo_parse default_retention)
       \<lparr>vh_task = ''task_1'', vh_description = ''check'', vh_kind = ''verification'', vh_session = None, vh_agent = None,
        vh_status = None, vh_output_ref = None\<rparr> None (new_task_manager (tm_store st') :: (task_files, unit) task_manager) = (Inr r', st'')
     \<and> vr_verdict r' = VERDICT_FAIL \<and> vr_summary r' = ''bad''"
proof -
  let ?r = "\<lparr>vr_verdict = VERDICT_FAIL, vr_summary = ''bad'', vr_evidence = [''e''], vr_findings = [], vr_limitations = [],
        vr_task = None, vr_output_ref = None, vr_metadata = None\<rparr>"
  let ?h = "\<lparr>vh_task = ''task_1'', vh_description = ''check'', vh_kind = ''verification'', vh_session = None, vh_agent = None,
        vh_status = None, vh_output_ref = None\<rparr>"
  have "case file_read_task (tm_store demo_files) ''task_1'' of Inl e \<Rightarrow> False | Inr t \<Rightarrow> True" by code_simp
  then obtain t where t: "file_read_task (tm_store demo_files) (vh_task ?h) = Inr t" by (auto split: sum.splits)
  have ops: "\<forall>x \<in> set demo_history. managed_op True x" by simp
  have m: "meta_ok (vr_metadata ?r)"
    "\<forall>k \<in> {''verdict'', ''summary'', ''evidence'', ''findings'', ''limitations''}. dict_get (dict_or_empty (vr_metadata ?r)) k = None"
    by (simp_all add: meta_ok_def dict_or_empty_def)
  from verification_survives_restart [OF ops t m, of None] show ?thesis
    unfolding verifier_handle.select_convs verification_result.select_convs by blast
qed

end
