(* ===== verification/Background.thy ===== *)
theory Background
  imports TaskManager
begin

text \<open>
  Background execution, \<^verbatim>\<open>harness/task/background.py\<close>: \<open>LocalBackgroundAgentOrchestrator\<close> runs each task's
  worker on a thread pool and records its progress and end in the task manager.

  An orchestrator is a task manager together with the futures of its workers, in the order they were
  submitted, and the runtime events it has handed to the observability layer.  Workers run
  concurrently: \<open>orch_step\<close> interleaves the calls that client threads, workers and the pool make, each
  call of a method of the orchestrator one step; a worker may do anything the context it is given
  offers, in any order, and end in any way, so it is not fixed in advance.  Progress updates, metrics
  and spans only go to the observability layer and are left out, but not the reads of the task that
  the code does for them.
\<close>

subsection \<open>State\<close>

text \<open>An exception of a worker: whether it is a \<open>TimeoutError\<close>, and its text.\<close>

datatype worker_error = WorkerError bool string

datatype future_state = Queued | Running | Returned | Raised worker_error | Cancelled

record future =
  fu_verifier :: bool
  fu_state :: future_state

text \<open>The implementation an orchestrator registers for each of its tasks: its own methods.\<close>

datatype orchestrated = Orchestrated

record 's orchestrator = "('s, orchestrated) task_manager" +
  or_futures :: "(string, future) pydict"
  or_projected :: "runtime_event list"

definition new_orchestrator :: "'s \<Rightarrow> 's orchestrator" where
  "new_orchestrator s = \<lparr>tm_store = s, tm_clock = 0, tm_task_impls = [], tm_type_impls = [], tm_results = [],
     or_futures = [], or_projected = []\<rparr>"

definition set_future :: "string \<Rightarrow> future \<Rightarrow> ('s orchestrator, unit) eff" where
  "set_future i f = modify (\<lambda>st. st\<lparr>or_futures := dict_set i f (or_futures st)\<rparr>)"

text \<open>\<open>Future.cancel\<close>: only a future that has not started is cancelled.\<close>

definition cancel_future :: "string \<Rightarrow> ('s orchestrator, unit) eff" where
  "cancel_future i = modify (\<lambda>st. case dict_get (or_futures st) i of
     Some f \<Rightarrow> (if fu_state f = Queued then st\<lparr>or_futures := dict_set i (f\<lparr>fu_state := Cancelled\<rparr>) (or_futures st)\<rparr> else st)
   | None \<Rightarrow> st)"

text \<open>How the registered implementation reads events: \<open>registry.read_events\<close>.\<close>

definition orch_events :: "'s task_env \<Rightarrow> ('s, orchestrated, 'z) events_method" where
  "orch_events env x = Some (registry_read_events env)"

subsection \<open>Runtime events\<close>

text \<open>\<open>a or b\<close> on optional strings.\<close>

fun str_opt_or :: "string option \<Rightarrow> string option \<Rightarrow> string option" where
  "str_opt_or (Some (c # cs)) b = Some (c # cs)"
| "str_opt_or a b = b"

definition orch_runtime_event :: "'s task_env \<Rightarrow> runtime_event_type \<Rightarrow> string \<Rightarrow> json_object \<Rightarrow> string option \<Rightarrow> string option
    \<Rightarrow> ('s orchestrator, runtime_event) eff" where
  "orch_runtime_event env ty i payload session agent = bind (registry_get env i) (\<lambda>t.
     bind (manager_read_events (orch_events env) env i 0) (\<lambda>sl.
     bind (iso_now env) (\<lambda>now.
     ret \<lparr>ev_type = ty, ev_id = event_type_value ty @ '':'' @ i @ '':'' @ int_str (es_cursor sl), ev_timestamp = now,
       ev_session = (case str_opt_or session (str_opt_or (tk_session t) None) of None \<Rightarrow> ''background'' | Some x \<Rightarrow> x),
       ev_payload = payload, ev_agent = str_opt_or agent (tk_agent t), ev_task = Some i\<rparr>)))"

definition project_event :: "'s task_env \<Rightarrow> runtime_event_type \<Rightarrow> string \<Rightarrow> json_object \<Rightarrow> string option \<Rightarrow> string option
    \<Rightarrow> ('s orchestrator, unit) eff" where
  "project_event env ty i payload session agent = bind (orch_runtime_event env ty i payload session agent) (\<lambda>e.
     modify (\<lambda>st. st\<lparr>or_projected := or_projected st @ [e]\<rparr>))"

text \<open>\<open>_emit_terminal_progress\<close> looks the task up for its metrics.\<close>

definition emit_terminal_progress :: "'s task_env \<Rightarrow> string \<Rightarrow> ('s orchestrator, unit) eff" where
  "emit_terminal_progress env i = bind (registry_get env i) (\<lambda>_. ret ())"

definition runtime_type_of :: "string \<Rightarrow> runtime_event_type" where
  "runtime_type_of s = (case map_of [(''started'', TASK_STARTED), (''progress'', TASK_PROGRESS), (''completed'', TASK_COMPLETED),
     (''failed'', TASK_FAILED), (''killed'', TASK_KILLED), (''notification'', TASK_NOTIFICATION)] s of
       None \<Rightarrow> TASK_PROGRESS | Some ty \<Rightarrow> ty)"

definition to_runtime_event :: "'s task_env \<Rightarrow> json_object \<Rightarrow> ('s orchestrator, runtime_event) eff" where
  "to_runtime_event env payload = bind (lift (task_event_from_dict payload)) (\<lambda>e.
     bind (registry_get env (te_task e)) (\<lambda>t.
     ret \<lparr>ev_type = runtime_type_of (te_type e), ev_id = te_id e, ev_timestamp = te_timestamp e,
       ev_session = (case str_opt_or (tk_session t) None of None \<Rightarrow> ''background'' | Some x \<Rightarrow> x),
       ev_payload = te_payload e, ev_agent = tk_agent t, ev_task = Some (te_task e)\<rparr>))"

fun collect :: "('a \<Rightarrow> ('s, 'b) eff) \<Rightarrow> 'a list \<Rightarrow> ('s, 'b list) eff" where
  "collect f [] = ret []"
| "collect f (x # xs) = bind (f x) (\<lambda>y. bind (collect f xs) (\<lambda>ys. ret (y # ys)))"

definition list_events :: "'s task_env \<Rightarrow> string \<Rightarrow> int \<Rightarrow> ('s orchestrator, runtime_event list) eff" where
  "list_events env i cursor = bind (manager_read_events (orch_events env) env i cursor) (\<lambda>sl.
     collect (to_runtime_event env) (es_events sl))"

subsection \<open>Starting\<close>

definition start_background_task :: "'s task_env \<Rightarrow> string \<Rightarrow> json_object option \<Rightarrow> string option \<Rightarrow> string option
    \<Rightarrow> string option \<Rightarrow> ('s orchestrator, background_handle) eff" where
  "start_background_task env desc meta session agent parent =
     bind (create_background_task env desc meta True session agent parent) (\<lambda>h.
     bind (project_event env TASK_CREATED (bh_task h) (dict_merge [(''description'', JStr desc)] (dict_or_empty meta)) session agent) (\<lambda>_.
     bind (register_implementation (bh_task h) Orchestrated) (\<lambda>_.
     bind (set_future (bh_task h) \<lparr>fu_verifier = False, fu_state = Queued\<rparr>) (\<lambda>_. ret h))))"

definition start_verifier_task :: "'s task_env \<Rightarrow> string \<Rightarrow> json_object option \<Rightarrow> string option \<Rightarrow> string option
    \<Rightarrow> string option \<Rightarrow> ('s orchestrator, verifier_handle) eff" where
  "start_verifier_task env desc meta session agent parent =
     bind (create_verifier_task env desc meta session agent parent) (\<lambda>h.
     bind (register_implementation (vh_task h) Orchestrated) (\<lambda>_.
     bind (set_future (vh_task h) \<lparr>fu_verifier = True, fu_state = Queued\<rparr>) (\<lambda>_. ret h)))"

subsection \<open>What a worker may do\<close>

definition orch_checkpoint :: "'s task_env \<Rightarrow> string \<Rightarrow> json_object \<Rightarrow> ('s orchestrator, unit) eff" where
  "orch_checkpoint env i payload = bind (checkpoint_task (orch_events env) env i payload) (\<lambda>_.
     project_event env TASK_PROGRESS i payload None None)"

definition orch_progress :: "'s task_env \<Rightarrow> string \<Rightarrow> json_object \<Rightarrow> ('s orchestrator, unit) eff" where
  "orch_progress env i payload = bind (numbered_event (orch_events env) env i ''progress'' payload None None) (\<lambda>_.
     project_event env TASK_PROGRESS i payload None None)"

definition orch_output :: "'s task_env \<Rightarrow> string \<Rightarrow> json \<Rightarrow> ('s orchestrator, int) eff" where
  "orch_output env i payload = registry_append_output env i payload"

subsection \<open>The end of a worker\<close>

datatype worker_result = WNone | WText string | WDict json_object

fun coerce_output_ref :: "worker_result \<Rightarrow> string option" where
  "coerce_output_ref (WText s) = Some s"
| "coerce_output_ref (WDict d) = as_str (jget d ''output_ref'')"
| "coerce_output_ref WNone = None"

definition worker_output_ref :: "string \<Rightarrow> worker_result \<Rightarrow> string" where
  "worker_output_ref i r = (case str_opt_or (coerce_output_ref r) None of
     Some x \<Rightarrow> x | None \<Rightarrow> ''memory://tasks/'' @ i @ ''/output'')"

fun worker_metadata :: "worker_result \<Rightarrow> json_object option" where
  "worker_metadata (WDict d) = Some d"
| "worker_metadata r = None"

text \<open>The body of the \<open>try\<close> of \<open>_run_worker\<close> after the worker has returned.\<close>

definition worker_returns :: "'s task_env \<Rightarrow> string \<Rightarrow> worker_result \<Rightarrow> ('s orchestrator, unit) eff" where
  "worker_returns env i r =
     bind (complete_task (orch_events env) env i (Some (worker_output_ref i r)) (worker_metadata r)) (\<lambda>_.
     bind (project_event env TASK_COMPLETED i
       (dict_merge [(''output_ref'', JStr (worker_output_ref i r))] (dict_or_empty (worker_metadata r))) None None) (\<lambda>_.
     emit_terminal_progress env i))"

text \<open>Its \<open>except\<close>, and the exception the future then has: a failure of the handler replaces the worker's.\<close>

definition worker_fails :: "'s task_env \<Rightarrow> string \<Rightarrow> string \<Rightarrow> ('s orchestrator, unit) eff" where
  "worker_fails env i reason = bind (fail_task (orch_events env) env i reason None) (\<lambda>_.
     bind (project_event env TASK_FAILED i [(''reason'', JStr reason)] None None) (\<lambda>_.
     emit_terminal_progress env i))"

definition finish_future :: "string \<Rightarrow> bool \<Rightarrow> future_state \<Rightarrow> 's orchestrator \<Rightarrow> 's orchestrator" where
  "finish_future i v x st = st\<lparr>or_futures := dict_set i \<lparr>fu_verifier = v, fu_state = x\<rparr> (or_futures st)\<rparr>"

definition worker_raised :: "'s task_env \<Rightarrow> string \<Rightarrow> worker_error \<Rightarrow> 's orchestrator \<Rightarrow> 's orchestrator" where
  "worker_raised env i err st = (case err of WorkerError timeout reason \<Rightarrow>
     (case worker_fails env i reason st of
        (Inr _, st1) \<Rightarrow> finish_future i False (Raised err) st1
      | (Inl e, st1) \<Rightarrow> finish_future i False (Raised (WorkerError False (py_error_text e))) st1))"

definition worker_returned :: "'s task_env \<Rightarrow> string \<Rightarrow> worker_result \<Rightarrow> 's orchestrator \<Rightarrow> 's orchestrator" where
  "worker_returned env i r st = (case worker_returns env i r st of
     (Inr _, st1) \<Rightarrow> finish_future i False Returned st1
   | (Inl e, st1) \<Rightarrow> worker_raised env i (WorkerError False (py_error_text e)) st1)"

text \<open>\<open>_run_verifier_worker\<close> has no handler: an exception only reaches the future.\<close>

definition verifier_returned :: "'s task_env \<Rightarrow> string \<Rightarrow> verification_result \<Rightarrow> 's orchestrator \<Rightarrow> 's orchestrator" where
  "verifier_returned env i r st =
     (case bind (complete_verifier (orch_events env) env i r) (\<lambda>_. emit_terminal_progress env i) st of
        (Inr _, st1) \<Rightarrow> finish_future i True Returned st1
      | (Inl e, st1) \<Rightarrow> finish_future i True (Raised (WorkerError False (py_error_text e))) st1)"

subsection \<open>Kill and await\<close>

definition orch_kill :: "'s task_env \<Rightarrow> string \<Rightarrow> ('s orchestrator, task_record) eff" where
  "orch_kill env i = bind (cancel_future i) (\<lambda>_.
     bind (registry_update env i (no_update\<lparr>tu_status := Some ''killed'', tu_terminal := Some (plain_terminal KILLED ''killed'')\<rparr>)) (\<lambda>t.
     bind (numbered_event (orch_events env) env i ''killed'' [(''reason'', JStr ''killed'')] (Some (plain_terminal KILLED ''killed'')) None) (\<lambda>_.
     bind (project_event env TASK_KILLED i [(''reason'', JStr ''killed'')] (tk_session t) (tk_agent t)) (\<lambda>_.
     ret t))))"

text \<open>\<open>_await_task\<close>, with \<open>None\<close> while it blocks; \<open>timed_out\<close> says that the timeout has passed.\<close>

definition orch_await :: "'s task_env \<Rightarrow> bool \<Rightarrow> string \<Rightarrow> 's orchestrator \<Rightarrow> (py_error + task_record) option" where
  "orch_await env timed_out i st = (let record = fst (registry_get env i st) in
     case dict_get (or_futures st) i of
       None \<Rightarrow> Some record
     | Some f \<Rightarrow> (case fu_state f of
         Returned \<Rightarrow> Some record
       | Raised (WorkerError timeout reason) \<Rightarrow> Some (if timeout then record else Inl (OtherError reason))
       | Cancelled \<Rightarrow> Some (Inl (OtherError ''CancelledError''))
       | _ \<Rightarrow> if timed_out then Some record else None))"

subsection \<open>Interleavings\<close>

datatype action =
    StartBackground string "json_object option" "string option" "string option" "string option"
  | StartVerifier string "json_object option" "string option" "string option" "string option"
  | Begin string
  | Checkpoint string json_object
  | Progress string json_object
  | Output string json
  | Return string worker_result
  | Fail string worker_error
  | Verified string verification_result
  | VerifierFails string worker_error
  | Kill string
  | Observe string string
  | Unobserve string string
  | Notify string
  | Evict "string option"

text \<open>The pool takes the longest waiting future when one of its \<open>workers\<close> threads is free.\<close>

definition running_count :: "'s orchestrator \<Rightarrow> nat" where
  "running_count st = length (filter (\<lambda>kf. fu_state (snd kf) = Running) (or_futures st))"

definition next_queued :: "'s orchestrator \<Rightarrow> string option" where
  "next_queued st = map_option fst (List.find (\<lambda>kf. fu_state (snd kf) = Queued) (or_futures st))"

abbreviation running :: "'s orchestrator \<Rightarrow> string \<Rightarrow> bool \<Rightarrow> bool" where
  "running st i v \<equiv> dict_get (or_futures st) i = Some \<lparr>fu_verifier = v, fu_state = Running\<rparr>"

definition begin_future :: "string \<Rightarrow> 's orchestrator \<Rightarrow> 's orchestrator" where
  "begin_future i st = (case dict_get (or_futures st) i of None \<Rightarrow> st
     | Some f \<Rightarrow> st\<lparr>or_futures := dict_set i (f\<lparr>fu_state := Running\<rparr>) (or_futures st)\<rparr>)"

inductive orch_step :: "'s task_env \<Rightarrow> nat \<Rightarrow> 's orchestrator \<Rightarrow> action \<Rightarrow> 's orchestrator \<Rightarrow> bool"
  for env :: "'s task_env" and workers :: nat where
  start_background: "st' = snd (start_background_task env desc meta session agent parent st) \<Longrightarrow>
    orch_step env workers st (StartBackground desc meta session agent parent) st'"
| start_verifier: "st' = snd (start_verifier_task env desc meta session agent parent st) \<Longrightarrow>
    orch_step env workers st (StartVerifier desc meta session agent parent) st'"
| begin_worker: "next_queued st = Some i \<Longrightarrow> running_count st < workers \<Longrightarrow> orch_step env workers st (Begin i) (begin_future i st)"
| worker_checkpoint: "running st i v \<Longrightarrow> st' = snd (orch_checkpoint env i d st) \<Longrightarrow> orch_step env workers st (Checkpoint i d) st'"
| worker_progress: "running st i v \<Longrightarrow> st' = snd (orch_progress env i d st) \<Longrightarrow> orch_step env workers st (Progress i d) st'"
| worker_output: "running st i v \<Longrightarrow> st' = snd (orch_output env i x st) \<Longrightarrow> orch_step env workers st (Output i x) st'"
| worker_return: "running st i False \<Longrightarrow> orch_step env workers st (Return i r) (worker_returned env i r st)"
| worker_fail: "running st i False \<Longrightarrow> orch_step env workers st (Fail i err) (worker_raised env i err st)"
| verifier_return: "running st i True \<Longrightarrow> orch_step env workers st (Verified i res) (verifier_returned env i res st)"
| verifier_fail: "running st i True \<Longrightarrow> orch_step env workers st (VerifierFails i err) (finish_future i True (Raised err) st)"
| kill_task: "st' = snd (orch_kill env i st) \<Longrightarrow> orch_step env workers st (Kill i) st'"
| observe: "st' = snd (registry_attach_observer env i b st) \<Longrightarrow> orch_step env workers st (Observe i b) st'"
| unobserve: "st' = snd (registry_detach_observer env i b st) \<Longrightarrow> orch_step env workers st (Unobserve i b) st'"
| notify: "st' = snd (registry_mark_notified env i st) \<Longrightarrow> orch_step env workers st (Notify i) st'"
| evict: "st' = snd (evict_expired env stamp st) \<Longrightarrow> orch_step env workers st (Evict stamp) st'"

inductive orch_reach :: "'s task_env \<Rightarrow> nat \<Rightarrow> 's \<Rightarrow> 's orchestrator \<Rightarrow> bool"
  for env :: "'s task_env" and workers :: nat and s0 :: 's where
  initial: "orch_reach env workers s0 (new_orchestrator s0)"
| further: "orch_reach env workers s0 st \<Longrightarrow> orch_step env workers st a st' \<Longrightarrow> orch_reach env workers s0 st'"

inductive_cases orch_step_elims:
  "orch_step env workers st (Begin i) st'" "orch_step env workers st (Return i r) st'"
  "orch_step env workers st (Fail i err) st'" "orch_step env workers st (Kill i) st'"
  "orch_step env workers st (Verified i res) st'" "orch_step env workers st (VerifierFails i err) st'"

inductive_simps orch_step_return: "orch_step env workers st (Return i r) st'"
inductive_simps orch_step_kill: "orch_step env workers st (Kill i) st'"
inductive_simps orch_step_verifier_fails: "orch_step env workers st (VerifierFails i err) st'"

end
