(* ===== verification/BackgroundProps.thy ===== *)
theory BackgroundProps
  imports TaskProps Background
begin

text \<open>
  What holds of every interleaving of an orchestrator's workers with its clients: a background worker
  that has ended leaves its task in a terminal state, the pool drains, and the places where the code
  loses track of a task.
\<close>

subsection \<open>Settled tasks\<close>

text \<open>A task that is over, or evicted.\<close>

definition settled :: "'s task_env \<Rightarrow> 's \<Rightarrow> string \<Rightarrow> bool" where
  "settled env s i \<longleftrightarrow> (\<forall>t. tb_get (te_backend env) s i = Inr t \<longrightarrow> task_done t)"

text \<open>The futures whose task should be over: cancelled ones, and background workers that have ended.\<close>

fun over :: "future \<Rightarrow> bool" where
  "over f = (fu_state f = Cancelled \<or> (\<not> fu_verifier f \<and> fu_state f \<noteq> Queued \<and> fu_state f \<noteq> Running))"

definition orch_inv :: "'s task_env \<Rightarrow> ('s \<Rightarrow> bool) \<Rightarrow> ('s \<Rightarrow> nat) \<Rightarrow> 's orchestrator \<Rightarrow> bool" where
  "orch_inv env I cnt st \<longleftrightarrow> I (tm_store st) \<and> wf_dict (or_futures st)
     \<and> (\<forall>i f. dict_get (or_futures st) i = Some f \<longrightarrow> (\<exists>k \<le> cnt (tm_store st). i = ''task_'' @ nat_str k)
          \<and> (over f \<longrightarrow> settled env (tm_store st) i))"

text \<open>A condition the calls of the manager keep: the futures are \<open>F\<close> and the tasks in \<open>S\<close> are settled.\<close>

definition calm :: "'s task_env \<Rightarrow> ('s \<Rightarrow> bool) \<Rightarrow> ('s \<Rightarrow> nat) \<Rightarrow> string set \<Rightarrow> string set \<Rightarrow> (string, future) pydict \<Rightarrow> 's orchestrator \<Rightarrow> bool" where
  "calm env I cnt N S F st \<longleftrightarrow> I (tm_store st) \<and> or_futures st = F
     \<and> (\<forall>i \<in> N. \<exists>k \<le> cnt (tm_store st). i = ''task_'' @ nat_str k) \<and> S \<subseteq> N \<and> (\<forall>i \<in> S. settled env (tm_store st) i)"

lemma futures_more: "task_manager.more st' = task_manager.more st \<Longrightarrow> or_futures st' = or_futures (st :: 's orchestrator)"
  by (cases st; cases st') simp

lemma plain_orch [simp]: "plain_reads env (orch_events env)"
  by (simp add: plain_reads_def orch_events_def)

context managed_tasks
begin

abbreviation keepC :: "string set \<Rightarrow> string set \<Rightarrow> (string, future) pydict \<Rightarrow> ('s orchestrator, 'a) eff \<Rightarrow> bool" where
  "keepC N S F \<equiv> keeps (calm env inv count N S F)"

lemma calm_store:
  assumes "calm env inv count N S F st" "inv s" "count (tm_store st) \<le> count s"
    "\<And>i. i \<in> S \<Longrightarrow> settled env (tm_store st) i \<Longrightarrow> settled env s i"
    "or_futures st' = or_futures st" "tm_store st' = s"
  shows "calm env inv count N S F st'"
  using assms unfolding calm_def by (meson le_trans)

lemma calm_now: "keepC N S F (iso_now env)"
  by (simp add: keeps_def iso_now_def calm_def)

lemma calm_read: "keepC N S F (store_read f)"
  by (simp add: store_read_def keeping)

lemma calm_get: "keepC N S F (registry_get env i)"
  by (simp add: registry_get_def calm_read)

lemma calm_update:
  assumes "\<And>x. tu_status u = Some x \<Longrightarrow> x \<in> set terminal_values"
  shows "keepC N S F (registry_update env i u)"
  unfolding keeps_def
proof (intro allI impI)
  fix st assume c: "calm env inv count N S F st"
  then have i: "inv (tm_store st)" by (simp add: calm_def)
  show "calm env inv count N S F (snd (registry_update env i u st))"
  proof (cases "get (tm_store st) i")
    case (Inl e)
    then show ?thesis using c by (simp add: registry_update_def bind_get_Inl)
  next
    case (Inr t)
    obtain t' n where u: "registry_update env i u st = (Inr t', st\<lparr>tm_clock := n, tm_store := tb_put (te_backend env) t' (tm_store st)\<rparr>)"
      "tk_id t' = i" "task_status_str (tk_status t') = (case tu_status u of None \<Rightarrow> task_status_str (tk_status t) | Some x \<Rightarrow> x)"
      using update_effect [OF i Inr, of u] by blast
    have "task_done t \<Longrightarrow> task_done t'" using assms u(3) by (cases "tu_status u") simp_all
    then show ?thesis using c i Inr u(2)
      by (intro calm_store [OF c]) (auto simp: u(1) frames settled_def norm_t_fields)
  qed
qed

lemma calm_event: "keepC N S F (registry_append_event env i e)"
  unfolding keeps_def
proof (intro allI impI)
  fix st assume c: "calm env inv count N S F st"
  obtain es s' where "registry_append_event env i e st = (Inr e, st\<lparr>tm_store := s'\<rparr>)" "inv s'" "count s' = count (tm_store st)"
    "get s' = get (tm_store st)"
    using append_event_effect [of st i e] c unfolding calm_def by blast
  then show "calm env inv count N S F (snd (registry_append_event env i e st))"
    by (intro calm_store [OF c]) (simp_all add: settled_def)
qed

lemma calm_output: "keepC N S F (registry_append_output env i x)"
proof -
  have "keepC N S F (registry_update env i (no_update\<lparr>tu_cursor := c\<rparr>))" for c
    by (rule calm_update) (simp add: no_update_def)
  then show ?thesis unfolding keeps_def
  proof (intro allI impI)
    fix st assume u: "\<And>c. \<forall>st. calm env inv count N S F st \<longrightarrow> calm env inv count N S F (snd (registry_update env i (no_update\<lparr>tu_cursor := c\<rparr>) st))"
      and c: "calm env inv count N S F st"
    have i: "inv (tm_store st)" using c by (simp add: calm_def)
    obtain js :: "json list" and s1 where s1: "inv s1" "count s1 = count (tm_store st)" "get s1 = get (tm_store st)"
      and r: "registry_append_output env i x st = bind (registry_update env i (no_update\<lparr>tu_cursor := Some (CursorInt (int (length js) + 1))\<rparr>))
        (\<lambda>_. ret (int (length js) + 1)) (st\<lparr>tm_store := s1\<rparr>)"
      using append_output_effect [OF i, of i x] unfolding Let_def by (elim exE conjE) (rule that)
    have "calm env inv count N S F (st\<lparr>tm_store := s1\<rparr>)"
      using s1 by (intro calm_store [OF c]) (simp_all add: settled_def)
    then show "calm env inv count N S F (snd (registry_append_output env i x st))"
      using u by (simp add: r bind_def ret_def split: prod.split sum.split) (metis snd_conv)
  qed
qed

lemma calm_observers:
  assumes "\<And>bs. finite bs \<Longrightarrow> finite (f bs)"
  shows "keepC N S F (registry_observers env i f)"
  unfolding keeps_def
proof (intro allI impI)
  fix st assume c: "calm env inv count N S F st"
  obtain bs s' where "registry_observers env i f st = (Inr (), st\<lparr>tm_store := s'\<rparr>)" "inv s'" "count s' = count (tm_store st)"
    "get s' = get (tm_store st)"
    using observers_effect [of st f i] assms c unfolding calm_def by blast
  then show "calm env inv count N S F (snd (registry_observers env i f st))"
    by (intro calm_store [OF c]) (simp_all add: settled_def)
qed

lemma calm_evict: "keepC N S F (registry_evict_expired env stamp)"
proof (rule keep_evict_store)
  fix st i out assume c: "calm env inv count N S F st"
  then have s: "inv (tm_store st)" by (simp add: calm_def)
  obtain e where e: "get (tb_remove (te_backend env) out i (tm_store st)) i = Inl e" using get_removed [OF s] by blast
  have "settled env (tm_store st) j \<Longrightarrow> settled env (tb_remove (te_backend env) out i (tm_store st)) j" for j
    using e get_remove [OF s, of j i out] by (cases "j = i") (simp_all add: settled_def)
  then show "calm env inv count N S F (st\<lparr>tm_store := tb_remove (te_backend env) out i (tm_store st)\<rparr>)"
    using s by (intro calm_store [OF c]) (simp_all add: inv_remove count_remove)
qed (simp add: calm_def)

lemma calm_modify:
  "(\<And>st. tm_store (f st) = tm_store st \<and> or_futures (f st) = or_futures st) \<Longrightarrow> keepC N S F (modify f)"
  by (simp add: keeps_def modify_def calm_def)

lemma calm_reads: "keepC N S F (manager_read_events (orch_events env) env i n)"
  unfolding manager_read_plain [OF plain_orch] registry_read_events_def
  by (rule keeping calm_get calm_read)+

lemma calm_numbered: "keepC N S F (numbered_event (orch_events env) env i ty d terminal err)"
  unfolding numbered_event_def by (rule keeping calm_reads calm_now calm_event)+

lemmas calmness = keeping calm_now calm_read calm_get calm_event calm_output calm_reads calm_numbered

lemma calm_project: "keepC N S F (project_event env ty i d session agent)"
  unfolding project_event_def orch_runtime_event_def by (rule calmness calm_modify | (simp; fail))+

lemma calm_emit: "keepC N S F (emit_terminal_progress env i)"
  unfolding emit_terminal_progress_def by (rule calmness)+

lemma calm_updates:
  "keepC N S F (registry_update env i (no_update\<lparr>tu_output_ref := r\<rparr>))"
  "keepC N S F (registry_update env i (no_update\<lparr>tu_notified := b\<rparr>))"
  "keepC N S F (registry_update env i (no_update\<lparr>tu_status := Some ''completed'', tu_metadata := meta, tu_output_ref := r, tu_terminal := t\<rparr>))"
  "keepC N S F (registry_update env i (no_update\<lparr>tu_status := Some ''failed'', tu_metadata := meta, tu_terminal := t\<rparr>))"
  "keepC N S F (registry_update env i (no_update\<lparr>tu_status := Some ''killed'', tu_terminal := t\<rparr>))"
  by (rule calm_update; simp add: no_update_def terminal_values_def)+

lemma calm_complete: "keepC N S F (complete_task (orch_events env) env i r meta)"
  unfolding complete_task_def registry_attach_output_def by (rule calmness calm_updates)+

lemma calm_fail: "keepC N S F (fail_task (orch_events env) env i reason meta)"
  unfolding fail_task_def Let_def by (rule calmness calm_updates)+

lemma calm_worker: "keepC N S F (worker_returns env i r)" "keepC N S F (worker_fails env i reason)"
  "keepC N S F (orch_checkpoint env i d)" "keepC N S F (orch_progress env i d)" "keepC N S F (orch_output env i x)"
  unfolding worker_returns_def worker_fails_def orch_checkpoint_def orch_progress_def orch_output_def checkpoint_task_def
  by (rule calmness calm_complete calm_fail calm_project calm_emit)+

lemma calm_verifier: "keepC N S F (bind (complete_verifier (orch_events env) env i r) (\<lambda>_. emit_terminal_progress env i))"
  unfolding complete_verifier_def by (rule calmness calm_complete calm_emit calm_modify | (simp; fail))+

lemma calm_clients: "keepC N S F (registry_attach_observer env i b)" "keepC N S F (registry_detach_observer env i b)"
  "keepC N S F (registry_mark_notified env i)" "keepC N S F (evict_expired env stamp)"
  unfolding registry_attach_observer_def registry_detach_observer_def registry_mark_notified_def evict_expired_def
  by (rule calm_observers, simp, rule calm_observers, simp) (rule calmness calm_updates calm_evict calm_modify | (simp; fail))+

text \<open>An operation that ends the task leaves it settled whether it returns or raises.\<close>

lemma calm_after:
  "calm env inv count N S F (snd (m st)) \<Longrightarrow> (\<And>x. keepC N S F (f x)) \<Longrightarrow> calm env inv count N S F (snd (bind m f st))"
  by (cases "m st"; cases "fst (m st)") (simp_all add: bind_def keeps_def)

lemma calm_settle: "calm env inv count N S F st \<Longrightarrow> i \<in> N \<Longrightarrow> settled env (tm_store st) i \<Longrightarrow> calm env inv count N (insert i S) F st"
  by (simp add: calm_def)

lemma settle_update:
  assumes "calm env inv count N S F st" "i \<in> N" "tu_status u = Some x" "x \<in> set terminal_values"
  shows "calm env inv count N (insert i S) F (snd (registry_update env i u st))"
proof -
  have c: "calm env inv count N S F (snd (registry_update env i u st))"
    using keepsD [OF calm_update assms(1), of u i] assms(3,4) by simp
  have s: "inv (tm_store st)" using assms(1) by (simp add: calm_def)
  have "settled env (tm_store (snd (registry_update env i u st))) i"
  proof (cases "get (tm_store st) i")
    case (Inl e)
    then show ?thesis by (simp add: registry_update_def bind_get_Inl settled_def)
  next
    case (Inr t)
    obtain t' n where u: "registry_update env i u st = (Inr t', st\<lparr>tm_clock := n, tm_store := tb_put (te_backend env) t' (tm_store st)\<rparr>)"
      "tk_id t' = i" "task_status_str (tk_status t') = (case tu_status u of None \<Rightarrow> task_status_str (tk_status t) | Some x \<Rightarrow> x)"
      using update_effect [OF s Inr, of u] by blast
    then show ?thesis using assms(3,4) s by (auto simp: settled_def frames norm_t_fields)
  qed
  with c assms(2) show ?thesis by (intro calm_settle)
qed

lemma settle_complete:
  assumes "calm env inv count N S F st" "i \<in> N"
  shows "calm env inv count N (insert i S) F (snd (complete_task (orch_events env) env i (Some r) meta st))"
proof -
  have c: "calm env inv count N S F (snd (complete_task (orch_events env) env i (Some r) meta st))"
    by (rule keepsD [OF calm_complete assms(1)])
  have s: "inv (tm_store st)" using assms(1) by (simp add: calm_def)
  have "settled env (tm_store (snd (complete_task (orch_events env) env i (Some r) meta st))) i"
  proof (cases "get (tm_store st) i")
    case (Inl e)
    then have "snd (complete_task (orch_events env) env i (Some r) meta st) = st"
      by (simp add: complete_task_def registry_attach_output_def registry_update_def bind_assoc bind_get_Inl)
    with Inl show ?thesis by (simp add: settled_def)
  next
    case (Inr t)
    then show ?thesis using complete_effect [OF plain_orch s Inr, of "Some r" meta]
      by (auto simp: settled_def norm_t_fields terminal_values_def)
  qed
  with c assms(2) show ?thesis by (intro calm_settle)
qed

lemma settle_fails:
  assumes "calm env inv count N S F st" "i \<in> N"
  shows "calm env inv count N (insert i S) F (snd (worker_fails env i reason st))"
proof -
  have "calm env inv count N (insert i S) F (snd (fail_task (orch_events env) env i reason None st))"
    unfolding fail_task_def Let_def
    by (rule calm_after, rule settle_update [OF assms]) (simp add: no_update_def, simp add: terminal_values_def, rule calm_numbered)
  then show ?thesis unfolding worker_fails_def
    by (rule calm_after) (rule calmness calm_project calm_emit)+
qed

lemma settle_returns:
  assumes "calm env inv count N S F st" "i \<in> N"
  shows "calm env inv count N (insert i S) F (snd (worker_returns env i r st))"
  unfolding worker_returns_def
  by (rule calm_after, rule settle_complete [OF assms]) (rule calmness calm_project calm_emit)+

subsection \<open>The invariant\<close>

abbreviation overs :: "(string, future) pydict \<Rightarrow> string set" where
  "overs F \<equiv> {i. \<exists>f. dict_get F i = Some f \<and> over f}"

lemma calm_of_inv:
  assumes "orch_inv env inv count st"
  shows "calm env inv count (set (dict_keys (or_futures st))) (overs (or_futures st)) (or_futures st) st"
proof -
  have "\<exists>f. dict_get (or_futures st) i = Some f" if "i \<in> set (dict_keys (or_futures st))" for i
    using that by (metis map_of_eq_None_iff not_None_eq list.set_map)
  moreover have "overs (or_futures st) \<subseteq> set (dict_keys (or_futures st))"
    by (auto dest: map_of_SomeD intro: rev_image_eqI)
  ultimately show ?thesis using assms unfolding orch_inv_def calm_def by blast
qed

lemma inv_of_calm:
  assumes "calm env inv count N S F st" "wf_dict (or_futures st)" "set (dict_keys F) \<subseteq> N" "overs F \<subseteq> S"
  shows "orch_inv env inv count st"
proof -
  have "i \<in> N" if "dict_get F i = Some f" for i f
    using that assms(3) by (auto dest!: map_of_SomeD)
  then show ?thesis using assms unfolding orch_inv_def calm_def by blast
qed

lemma inv_keep:
  assumes "orch_inv env inv count st"
    "keepC (set (dict_keys (or_futures st))) (overs (or_futures st)) (or_futures st) m"
  shows "orch_inv env inv count (snd (m st))"
proof -
  have c: "calm env inv count (set (dict_keys (or_futures st))) (overs (or_futures st)) (or_futures st) (snd (m st))"
    using keepsD [OF assms(2) calm_of_inv [OF assms(1)]] .
  moreover have "wf_dict (or_futures (snd (m st)))" using c assms(1) by (simp add: calm_def orch_inv_def)
  ultimately show ?thesis by (rule inv_of_calm) simp_all
qed

lemma finish_inv:
  assumes "calm env inv count N S F st" "wf_dict F" "set (dict_keys F) \<subseteq> N" "overs F \<subseteq> S" "i \<in> N" "i \<in> S \<or> v"
    "x \<noteq> Cancelled"
  shows "orch_inv env inv count (finish_future i v x st)"
proof -
  let ?f = "\<lparr>fu_verifier = v, fu_state = x\<rparr>"
  have "calm env inv count N S (dict_set i ?f F) (finish_future i v x st)"
    using assms(1) by (simp add: calm_def finish_future_def)
  moreover have "wf_dict (or_futures (finish_future i v x st))"
    using assms(1,2) by (simp add: calm_def finish_future_def)
  moreover have "overs (dict_set i ?f F) \<subseteq> S" using assms(4,6,7) by auto
  moreover have "set (dict_keys (dict_set i ?f F)) \<subseteq> N" using assms(3,5) by (simp only: dict_keys_set insert_subset)
  ultimately show ?thesis by (intro inv_of_calm)
qed

text \<open>The start of a task: the new id joins the known ones.\<close>

lemma calm_spawned:
  assumes "calm env inv count N S F st"
  shows "\<exists>t st'. spawn env r st = (Inr t, st') \<and> calm env inv count (insert (tk_id t) N) S F st' \<and> tk_id t \<notin> N"
proof -
  have s: "inv (tm_store st)" using assms by (simp add: calm_def)
  obtain t st' where t: "spawn env r st = (Inr t, st')" "tk_id t = ''task_'' @ nat_str (Suc (count (tm_store st)))"
    "inv (tm_store st')" "count (tm_store st') = Suc (count (tm_store st))" "get (tm_store st') = (get (tm_store st))(tk_id t := Inr t)"
    "task_manager.more st' = task_manager.more st"
    using spawn_effect [OF s, of r] by blast
  have new: "tk_id t \<notin> N" using assms by (fastforce simp: calm_def t(2))
  have "settled env (tm_store st') j" if "j \<in> S" for j
    using assms that new by (auto simp: calm_def settled_def t(5))
  moreover have "\<exists>k \<le> Suc (count (tm_store st)). j = ''task_'' @ nat_str k" if "j \<in> N" for j
    using assms that unfolding calm_def by (meson le_SucI)
  moreover have "\<exists>k \<le> Suc (count (tm_store st)). tk_id t = ''task_'' @ nat_str k" using t(2) by blast
  ultimately have "calm env inv count (insert (tk_id t) N) S F st'"
    using assms t(3,4) futures_more [OF t(6)] by (auto simp: calm_def)
  with t(1) new show ?thesis by blast
qed

lemma calm_register: "keepC N S F (register_implementation i x)"
  unfolding register_implementation_def by (rule calm_modify) simp

lemma snd_bind:
  "(\<And>x st1. m st = (Inr x, st1) \<Longrightarrow> Q (snd (f x st1))) \<Longrightarrow> (\<And>e st1. m st = (Inl e, st1) \<Longrightarrow> Q st1) \<Longrightarrow> Q (snd (bind m f st))"
  by (cases "m st"; cases "fst (m st)") (simp_all add: bind_def)

lemma queue_inv:
  assumes "calm env inv count N S F st" "wf_dict F" "set (dict_keys F) \<subseteq> N" "overs F \<subseteq> S" "i \<in> N"
  shows "orch_inv env inv count (snd (bind (set_future i \<lparr>fu_verifier = v, fu_state = Queued\<rparr>) (\<lambda>_. ret h) st))"
proof -
  have "orch_inv env inv count (finish_future i v Queued st)"
  proof (rule inv_of_calm)
    show "calm env inv count N S (dict_set i \<lparr>fu_verifier = v, fu_state = Queued\<rparr> F) (finish_future i v Queued st)"
      using assms(1) by (simp add: calm_def finish_future_def)
    show "wf_dict (or_futures (finish_future i v Queued st))" using assms(1,2) by (simp add: calm_def finish_future_def)
    show "set (dict_keys (dict_set i \<lparr>fu_verifier = v, fu_state = Queued\<rparr> F)) \<subseteq> N"
      using assms(3,5) by (simp only: dict_keys_set insert_subset)
    show "overs (dict_set i \<lparr>fu_verifier = v, fu_state = Queued\<rparr> F) \<subseteq> S" using assms(4) by auto
  qed
  then show ?thesis by (simp add: set_future_def modify_def bind_def ret_def finish_future_def)
qed

lemma start_inv:
  assumes "orch_inv env inv count st"
  shows "orch_inv env inv count (snd (start_background_task env desc meta session agent parent st))" (is ?background)
    and "orch_inv env inv count (snd (start_verifier_task env desc meta session agent parent st))" (is ?verifier)
proof -
  let ?F = "or_futures st"
  let ?N = "set (dict_keys ?F)" and ?S = "overs ?F"
  have c: "calm env inv count ?N ?S ?F st" and w: "wf_dict ?F"
    using calm_of_inv [OF assms] assms by (simp_all add: orch_inv_def)
  have known: "orch_inv env inv count st'" if "calm env inv count (insert i ?N) ?S ?F st'" for i st'
    using that by (rule inv_of_calm) (use that w in \<open>auto simp: calm_def\<close>)
  have queue: "orch_inv env inv count (snd (bind (register_implementation i Orchestrated)
      (\<lambda>_. bind (set_future i \<lparr>fu_verifier = v, fu_state = Queued\<rparr>) (\<lambda>_. ret h)) st'))"
    if "calm env inv count (insert i ?N) ?S ?F st'" for i v st' and h :: 'h
  proof -
    let ?st = "snd (register_implementation i Orchestrated st')"
    have c3: "calm env inv count (insert i ?N) ?S ?F ?st" by (rule keepsD [OF calm_register that])
    have r: "register_implementation i Orchestrated st' = (Inr (), ?st)"
      by (simp add: register_implementation_def modify_def)
    show ?thesis by (subst bind_Inr, rule r, rule queue_inv [OF c3 w subset_insertI subset_refl insertI1])
  qed
  have spawned: "spawn env r st = (Inr t, st1) \<Longrightarrow> calm env inv count (insert (tk_id t) ?N) ?S ?F st1" for r t st1
    using calm_spawned [OF c, of r] by auto
  have never: "spawn env r st \<noteq> (Inl e, st1)" for r e st1
    using calm_spawned [OF c, of r] by auto
  have projected: "calm env inv count (insert i ?N) ?S ?F st2"
    if "calm env inv count (insert i ?N) ?S ?F st1" "project_event env ty i d session agent st1 = (x, st2)" for i st1 st2 x ty d
    using keepsD [OF calm_project that(1), of ty i d session agent] that(2) by simp
  show ?background
    unfolding start_background_task_def create_background_task_def bind_assoc bind_ret background_handle.select_convs
  proof (rule snd_bind, goal_cases)
    case (1 t st1)
    note p = projected [OF spawned [OF 1]]
    show ?case by (rule snd_bind, rule queue, erule p, rule known, erule p)
  qed (simp add: never)
  show ?verifier
    unfolding start_verifier_task_def create_verifier_task_def bind_assoc bind_ret verifier_handle.select_convs
    by (rule snd_bind, rule queue, erule spawned) (simp add: never)
qed

lemma kill_inv:
  assumes "orch_inv env inv count st"
  shows "orch_inv env inv count (snd (orch_kill env i st))"
proof -
  let ?F = "or_futures st" and ?st = "snd (cancel_future i st)"
  let ?N = "insert i (set (dict_keys ?F))" and ?G = "or_futures ?st"
  have c: "calm env inv count (set (dict_keys ?F)) (overs ?F) ?F st" and w: "wf_dict ?F"
    using calm_of_inv [OF assms] assms by (simp_all add: orch_inv_def)
  have r: "cancel_future i st = (Inr (), ?st)" by (simp add: cancel_future_def modify_def)
  have g: "?G = ?F \<or> (\<exists>f. dict_get ?F i = Some f \<and> ?G = dict_set i (f\<lparr>fu_state := Cancelled\<rparr>) ?F)" "tm_store ?st = tm_store st"
    by (auto simp: cancel_future_def modify_def split: option.split)
  then have c1: "calm env inv count (set (dict_keys ?F)) (overs ?F) ?G ?st" using c by (simp add: calm_def)
  have wg: "wf_dict ?G" using g(1) w by auto
  have member: "dict_get ?F i = Some f \<Longrightarrow> i \<in> set (dict_keys ?F)" for f
    by (auto dest: map_of_SomeD intro: rev_image_eqI)
  then have keys: "set (dict_keys ?G) \<subseteq> set (dict_keys ?F)"
    using g(1) by (metis dict_keys_set insert_absorb order_refl)
  have over': "overs ?G \<subseteq> insert i (overs ?F)" using g(1) by (auto split: if_splits)
  have inv': "orch_inv env inv count st'" if "calm env inv count (set (dict_keys ?F)) S ?G st'"
    "i \<in> set (dict_keys ?F) \<Longrightarrow> insert i (overs ?F) \<subseteq> S" "overs ?F \<subseteq> S" for S st'
  proof (rule inv_of_calm [OF that(1) _ keys])
    show "wf_dict (or_futures st')" using that(1) wg by (simp add: calm_def)
    show "overs ?G \<subseteq> S"
    proof (cases "i \<in> set (dict_keys ?F)")
      case True
      then show ?thesis using over' that(2) by blast
    next
      case False
      then have "?G = ?F" using g(1) member by blast
      then show ?thesis using that(3) by simp
    qed
  qed
  let ?u = "no_update\<lparr>tu_status := Some ''killed'', tu_terminal := Some (plain_terminal KILLED ''killed'')\<rparr>"
  define S where "S = (if i \<in> set (dict_keys ?F) then insert i (overs ?F) else overs ?F)"
  have k: "calm env inv count (set (dict_keys ?F)) S ?G (snd (registry_update env i ?u ?st))"
  proof (cases "i \<in> set (dict_keys ?F)")
    case True
    then show ?thesis unfolding S_def
      by (simp only: if_True) (rule settle_update [OF c1, where x = "''killed''"], simp_all add: no_update_def terminal_values_def)
  next
    case False
    then show ?thesis unfolding S_def
      by (simp only: if_False) (rule keepsD [OF calm_updates(5) c1])
  qed
  have "calm env inv count (set (dict_keys ?F)) S ?G (snd (orch_kill env i st))"
    unfolding orch_kill_def
    by (subst bind_Inr, rule r, rule calm_after, rule k) (rule calmness calm_project)+
  then show ?thesis by (rule inv') (auto simp: S_def)
qed

lemma raised_inv:
  assumes "calm env inv count N S F st" "wf_dict F" "set (dict_keys F) \<subseteq> N" "overs F \<subseteq> insert i S" "i \<in> N"
  shows "orch_inv env inv count (worker_raised env i err st)"
proof (cases err)
  case (WorkerError timeout reason)
  have "calm env inv count N (insert i S) F (snd (worker_fails env i reason st))"
    using assms(1,5) by (rule settle_fails)
  then have "orch_inv env inv count (finish_future i False (Raised e) (snd (worker_fails env i reason st)))" for e
    using assms(2-5) by (intro finish_inv [where N = N and S = "insert i S" and F = F]) simp_all
  then show ?thesis
    by (simp add: worker_raised_def WorkerError split: prod.split sum.split) (metis snd_conv)
qed

lemma running_member: "running st i v \<Longrightarrow> i \<in> set (dict_keys (or_futures st))"
  by (auto dest: map_of_SomeD intro: rev_image_eqI)

theorem step_inv:
  assumes "orch_inv env inv count st" "orch_step env workers st a st'"
  shows "orch_inv env inv count st'"
proof -
  let ?F = "or_futures st"
  let ?N = "set (dict_keys ?F)" and ?S = "overs ?F"
  have c: "calm env inv count ?N ?S ?F st" and w: "wf_dict ?F"
    using calm_of_inv [OF assms(1)] assms(1) by (simp_all add: orch_inv_def)
  show ?thesis using assms(2)
  proof cases
    case (begin_worker i)
    then obtain f where f: "f \<in> set ?F" "fst f = i" "fu_state (snd f) = Queued"
      by (auto simp: next_queued_def find_Some_iff) (metis fst_conv nth_mem snd_conv)
    then have g: "dict_get ?F i = Some (snd f)" using w by (metis map_of_is_SomeI prod.collapse)
    have b: "calm env inv count ?N ?S (dict_set i ((snd f)\<lparr>fu_state := Running\<rparr>) ?F) (begin_future i st)"
      using c by (simp add: calm_def begin_future_def g)
    have o: "overs (dict_set i ((snd f)\<lparr>fu_state := Running\<rparr>) ?F) \<subseteq> ?S" by auto
    have k: "set (dict_keys (dict_set i ((snd f)\<lparr>fu_state := Running\<rparr>) ?F)) \<subseteq> ?N"
      using f by (simp only: dict_keys_set) auto
    show ?thesis unfolding begin_worker
      by (rule inv_of_calm [OF b _ k o]) (simp add: begin_future_def g w)
  next
    case (worker_return i r)
    note i = running_member [OF worker_return(3)]
    have r: "calm env inv count ?N (insert i ?S) ?F (snd (worker_returns env i r st))" by (rule settle_returns [OF c i])
    then have "orch_inv env inv count (finish_future i False Returned (snd (worker_returns env i r st)))"
      by (rule finish_inv) (use i w in auto)
    moreover have "orch_inv env inv count (worker_raised env i e (snd (worker_returns env i r st)))" for e
      by (rule raised_inv [OF r w]) (use i in auto)
    ultimately show ?thesis unfolding worker_return
      by (simp add: worker_returned_def split: prod.split sum.split) (metis snd_conv)
  next
    case (worker_fail i err)
    then show ?thesis using raised_inv [OF c w, of i err] running_member [OF worker_fail(3)] by blast
  next
    case (verifier_return i res)
    note i = running_member [OF verifier_return(3)]
    let ?m = "bind (complete_verifier (orch_events env) env i res) (\<lambda>_. emit_terminal_progress env i)"
    have "calm env inv count ?N ?S ?F (snd (?m st))" by (rule keepsD [OF calm_verifier c])
    then have f: "orch_inv env inv count (finish_future i True x (snd (?m st)))" if "x \<noteq> Cancelled" for x
      by (rule finish_inv) (use i w that in auto)
    obtain x s1 where m: "?m st = (x, s1)" by (cases "?m st")
    show ?thesis unfolding verifier_return verifier_returned_def m
      by (cases x) (use f [unfolded m snd_conv] in simp_all)
  next
    case (verifier_fail i err)
    note i = running_member [OF verifier_fail(3)]
    show ?thesis unfolding verifier_fail by (rule finish_inv [OF c w]) (use i in auto)
  qed (simp_all only: start_inv [OF assms(1)] kill_inv [OF assms(1)] inv_keep [OF assms(1)] calm_worker calm_clients)
qed

theorem reach_inv:
  assumes "orch_reach env workers s0 st" "inv s0"
  shows "orch_inv env inv count st"
  using assms(1)
proof induction
  case initial
  show ?case using assms(2) by (simp add: orch_inv_def new_orchestrator_def)
qed (rule step_inv)

text \<open>What a finishing step does to the futures.\<close>

lemma raised_futures:
  assumes "calm env inv count N S F st"
  shows "\<exists>x. or_futures (worker_raised env i err st) = dict_set i \<lparr>fu_verifier = False, fu_state = Raised x\<rparr> F"
proof (cases err)
  case (WorkerError timeout reason)
  have "calm env inv count N S F (snd (worker_fails env i reason st))" by (rule keepsD [OF calm_worker(2) assms])
  then have f: "or_futures (snd (worker_fails env i reason st)) = F" by (simp add: calm_def)
  obtain x s1 where m: "worker_fails env i reason st = (x, s1)" by (cases "worker_fails env i reason st")
  show ?thesis using f by (cases x) (auto simp: worker_raised_def WorkerError m finish_future_def)
qed

lemma returned_futures:
  assumes "calm env inv count N S F st"
  shows "\<exists>x. x \<noteq> Queued \<and> x \<noteq> Running \<and> or_futures (worker_returned env i r st) = dict_set i \<lparr>fu_verifier = False, fu_state = x\<rparr> F"
proof -
  obtain x s1 where m: "worker_returns env i r st = (x, s1)" by (cases "worker_returns env i r st")
  have c: "calm env inv count N S F s1" using keepsD [OF calm_worker(1) assms, of i r] by (simp add: m)
  then have f: "or_futures s1 = F" by (simp add: calm_def)
  show ?thesis
  proof (cases x)
    case (Inl e)
    then show ?thesis using raised_futures [OF c, of i "WorkerError False (py_error_text e)"]
      by (auto simp: worker_returned_def m)
  qed (auto simp: worker_returned_def m finish_future_def f)
qed

lemma verified_futures:
  assumes "calm env inv count N S F st"
  shows "\<exists>x. x \<noteq> Queued \<and> x \<noteq> Running \<and> or_futures (verifier_returned env i r st) = dict_set i \<lparr>fu_verifier = True, fu_state = x\<rparr> F"
proof -
  let ?m = "bind (complete_verifier (orch_events env) env i r) (\<lambda>_. emit_terminal_progress env i)"
  obtain x s1 where m: "?m st = (x, s1)" by (cases "?m st")
  have "calm env inv count N S F s1" using keepsD [OF calm_verifier assms, of i r] by (simp add: m)
  then show ?thesis by (cases x) (auto simp: verifier_returned_def m finish_future_def calm_def)
qed

end

subsection \<open>The pool drains\<close>

text \<open>The steps of the pool and of the ends of workers, as opposed to calls of clients.\<close>

fun scheduling :: "action \<Rightarrow> bool" where
  "scheduling (Begin i) = True"
| "scheduling (Return i r) = True"
| "scheduling (Fail i err) = True"
| "scheduling (Verified i r) = True"
| "scheduling (VerifierFails i err) = True"
| "scheduling a = False"

inductive schedule :: "'s task_env \<Rightarrow> nat \<Rightarrow> 's orchestrator \<Rightarrow> nat \<Rightarrow> 's orchestrator \<Rightarrow> bool"
  for env :: "'s task_env" and workers :: nat where
  stay: "schedule env workers st 0 st"
| step: "orch_step env workers st a st' \<Longrightarrow> scheduling a \<Longrightarrow> schedule env workers st' n st'' \<Longrightarrow> schedule env workers st (Suc n) st''"

text \<open>Twice the waiting futures and once the running ones.\<close>

definition unfinished :: "'s orchestrator \<Rightarrow> nat" where
  "unfinished st = 2 * length (filter (\<lambda>kf. fu_state (snd kf) = Queued) (or_futures st)) + running_count st"

lemma count_dict_set:
  assumes "wf_dict d" "dict_get d k = Some x"
  shows "length (filter (\<lambda>kv. P (snd kv)) (dict_set k y d)) + of_bool (P x) = length (filter (\<lambda>kv. P (snd kv)) d) + of_bool (P y)"
  using assms by (induction d) auto

lemma unfinished_set:
  assumes "wf_dict (or_futures st)" "dict_get (or_futures st) i = Some f" "or_futures st' = dict_set i g (or_futures st)"
  shows "unfinished st' + 2 * of_bool (fu_state f = Queued) + of_bool (fu_state f = Running) =
    unfinished st + 2 * of_bool (fu_state g = Queued) + of_bool (fu_state g = Running)"
  using count_dict_set [OF assms(1,2), of "\<lambda>f. fu_state f = Queued" g] count_dict_set [OF assms(1,2), of "\<lambda>f. fu_state f = Running" g]
  unfolding unfinished_def running_count_def assms(3) by linarith

lemma unfinished_zero: "unfinished st = 0 \<Longrightarrow> dict_get (or_futures st) i = Some f \<Longrightarrow> fu_state f \<noteq> Queued \<and> fu_state f \<noteq> Running"
  using map_of_SomeD [of "or_futures st" i f] by (fastforce simp: unfinished_def running_count_def filter_empty_conv)

lemma next_queued_Some:
  assumes "next_queued st = Some i" "wf_dict (or_futures st)"
  shows "\<exists>f. dict_get (or_futures st) i = Some f \<and> fu_state f = Queued"
proof -
  obtain kf where "kf \<in> set (or_futures st)" "fst kf = i" "fu_state (snd kf) = Queued"
    using assms(1) by (auto simp: next_queued_def find_Some_iff) (metis fst_conv nth_mem snd_conv)
  then show ?thesis using assms(2) by (metis map_of_is_SomeI prod.collapse)
qed

context managed_tasks
begin

lemma scheduling_step:
  assumes "orch_inv env inv count st" "orch_step env workers st a st'" "scheduling a"
  shows "unfinished st = Suc (unfinished st')"
proof -
  have c: "calm env inv count (set (dict_keys (or_futures st))) (overs (or_futures st)) (or_futures st) st" and w: "wf_dict (or_futures st)"
    using calm_of_inv [OF assms(1)] assms(1) by (simp_all add: orch_inv_def)
  show ?thesis using assms(2)
  proof cases
    case (begin_worker i)
    obtain f where f: "dict_get (or_futures st) i = Some f" "fu_state f = Queued"
      using next_queued_Some [OF begin_worker(3) w] by blast
    have "or_futures st' = dict_set i (f\<lparr>fu_state := Running\<rparr>) (or_futures st)" by (simp add: begin_worker(2) begin_future_def f(1))
    from unfinished_set [OF w f(1) this] show ?thesis by (simp add: f(2))
  next
    case (worker_return i r)
    obtain x where "x \<noteq> Queued" "x \<noteq> Running" "or_futures st' = dict_set i \<lparr>fu_verifier = False, fu_state = x\<rparr> (or_futures st)"
      using returned_futures [OF c] worker_return(2) by blast
    with unfinished_set [OF w worker_return(3) this(3)] show ?thesis by simp
  next
    case (worker_fail i err)
    obtain x where "or_futures st' = dict_set i \<lparr>fu_verifier = False, fu_state = Raised x\<rparr> (or_futures st)"
      using raised_futures [OF c] worker_fail(2) by blast
    with unfinished_set [OF w worker_fail(3) this] show ?thesis by simp
  next
    case (verifier_return i res)
    obtain x where "x \<noteq> Queued" "x \<noteq> Running" "or_futures st' = dict_set i \<lparr>fu_verifier = True, fu_state = x\<rparr> (or_futures st)"
      using verified_futures [OF c] verifier_return(2) by blast
    with unfinished_set [OF w verifier_return(3) this(3)] show ?thesis by simp
  next
    case (verifier_fail i err)
    have "or_futures st' = dict_set i \<lparr>fu_verifier = True, fu_state = Raised err\<rparr> (or_futures st)"
      by (simp add: verifier_fail(2) finish_future_def)
    with unfinished_set [OF w verifier_fail(3) this] show ?thesis by simp
  qed (use assms(3) in simp_all)
qed

lemma schedule_unfinished:
  assumes "schedule env workers st n st'" "orch_inv env inv count st"
  shows "orch_inv env inv count st' \<and> unfinished st = n + unfinished st'"
  using assms
proof induction
  case (step st a st' n st'')
  then show ?case using scheduling_step [OF step.prems step.hyps(1,2)] step_inv [OF step.prems step.hyps(1)] by simp
qed simp

text \<open>While a future is unfinished and the pool has a thread, some worker can start or end.\<close>

lemma schedule_progress:
  assumes "wf_dict (or_futures st)" "0 < workers" "unfinished st \<noteq> 0"
  shows "\<exists>a st'. scheduling a \<and> orch_step env workers st a st'"
proof (cases "\<exists>i v. running st i v")
  case True
  then obtain i v where i: "running st i v" by blast
  show ?thesis
  proof (cases v)
    case True
    then show ?thesis using orch_step.verifier_fail [of st i env workers] i by (metis scheduling.simps(5))
  next
    case False
    then show ?thesis using orch_step.worker_fail [of st i env workers] i by (metis scheduling.simps(3))
  qed
next
  case False
  have none: "filter (\<lambda>kf. fu_state (snd kf) = Running) (or_futures st) = []"
  proof (rule ccontr)
    assume "filter (\<lambda>kf. fu_state (snd kf) = Running) (or_futures st) \<noteq> []"
    then obtain k f where "(k, f) \<in> set (or_futures st)" "fu_state f = Running" by (auto simp: filter_empty_conv)
    then have "running st k (fu_verifier f)" using assms(1) by (cases f) simp
    with False show False by blast
  qed
  then have r: "running_count st = 0" by (simp add: running_count_def)
  then have "filter (\<lambda>kf. fu_state (snd kf) = Queued) (or_futures st) \<noteq> []" using assms(3) by (auto simp: unfinished_def)
  then have "\<not> (\<forall>kf \<in> set (or_futures st). \<not> fu_state (snd kf) = Queued)" by (simp add: filter_empty_conv)
  then have "List.find (\<lambda>kf. fu_state (snd kf) = Queued) (or_futures st) \<noteq> None" unfolding find_None_iff by blast
  then obtain i where "next_queued st = Some i" by (auto simp: next_queued_def)
  then have "orch_step env workers st (Begin i) (begin_future i st)"
    using r assms(2) by (intro orch_step.begin_worker) simp_all
  then show ?thesis by (metis scheduling.simps(1))
qed

end

lemma files_reach_inv:
  "orch_reach (file_env now parse policy) workers empty_task_files st \<Longrightarrow> orch_inv (file_env now parse policy) task_files_inv file_count st"
  by (erule fm.reach_inv) simp

text \<open>A small run for the examples: one background task on a pool of one thread.\<close>

abbreviation demo_env :: "task_files task_env" where
  "demo_env \<equiv> file_env (\<lambda>n. ''t'') demo_parse default_retention"

abbreviation demo_started :: "task_files orchestrator" where
  "demo_started \<equiv> snd (start_background_task demo_env ''job'' None None None None (new_orchestrator empty_task_files))"

abbreviation demo_running :: "task_files orchestrator" where
  "demo_running \<equiv> begin_future ''task_1'' demo_started"

abbreviation demo_returned :: "task_files orchestrator" where
  "demo_returned \<equiv> worker_returned demo_env ''task_1'' WNone demo_running"

abbreviation demo_verifying :: "task_files orchestrator" where
  "demo_verifying \<equiv> begin_future ''task_1'' (snd (start_verifier_task demo_env ''check'' None None None None (new_orchestrator empty_task_files)))"

lemma demo_runs: "running demo_running ''task_1'' False" "running demo_verifying ''task_1'' True"
  by code_simp+

lemma demo_begins: "orch_step demo_env 1 demo_started (Begin ''task_1'') demo_running"
  by (rule orch_step.begin_worker) code_simp+

lemma demo_reached: "orch_reach demo_env 1 empty_task_files demo_started" "orch_reach demo_env 1 empty_task_files demo_running"
  "orch_reach demo_env 1 empty_task_files demo_returned"
proof -
  show s: "orch_reach demo_env 1 empty_task_files demo_started"
    by (rule orch_reach.further [OF orch_reach.initial orch_step.start_background [OF refl]])
  show r: "orch_reach demo_env 1 empty_task_files demo_running"
    by (rule orch_reach.further [OF s demo_begins])
  show "orch_reach demo_env 1 empty_task_files demo_returned"
    by (rule orch_reach.further [OF r orch_step.worker_return [OF demo_runs(1)]])
qed





text \<open>
  A failing verifier is lost.  \<open>_run_verifier_worker\<close> has no exception handler: when the worker of a verifier
  task raises, the record of the task stays as it was, so a task that was running is reported running
  although its worker is gone, and waiting for it raises the exception of the worker instead of returning a record.
\<close>

theorem failing_verifier_stays_running:
  assumes "orch_step (file_env now parse policy) workers st (VerifierFails i (WorkerError False reason)) st'"
    and "file_read_task (tm_store st) i = Inr t" "task_status_str (tk_status t) = ''running''"
  shows "file_read_task (tm_store st') i = Inr t \<and> \<not> task_done t
    \<and> dict_get (or_futures st') i = Some \<lparr>fu_verifier = True, fu_state = Raised (WorkerError False reason)\<rparr>
    \<and> orch_await (file_env now parse policy) False i st' = Some (Inl (OtherError reason))"
proof -
  have "st' = finish_future i True (Raised (WorkerError False reason)) st"
    using assms(1) by (rule orch_step_elims(6))
  moreover have "\<not> task_done t" by (simp add: assms(3) terminal_values_def)
  ultimately show ?thesis using assms(2) by (simp add: finish_future_def orch_await_def)
qed

theorem failing_verifier_stays_running_witness:
  "\<exists>st' t. file_read_task (tm_store st') ''task_1'' = Inr t \<and> \<not> task_done t
     \<and> orch_await demo_env False ''task_1'' st' = Some (Inl (OtherError ''boom''))"
proof -
  have "case file_read_task (tm_store demo_verifying) ''task_1'' of Inl e \<Rightarrow> False | Inr t \<Rightarrow> task_status_str (tk_status t) = ''running''"
    by code_simp
  then obtain t where t: "file_read_task (tm_store demo_verifying) ''task_1'' = Inr t" "task_status_str (tk_status t) = ''running''"
    by (auto split: sum.splits)
  have "orch_step demo_env 1 demo_verifying (VerifierFails ''task_1'' (WorkerError False ''boom''))
      (finish_future ''task_1'' True (Raised (WorkerError False ''boom'')) demo_verifying)"
    by (rule orch_step.verifier_fail [OF demo_runs(2)])
  from failing_verifier_stays_running [OF this t] show ?thesis by blast
qed

context managed_tasks
begin

lemma project_returns:
  assumes "inv (tm_store st)" "get (tm_store st) i = Inr t"
  shows "\<exists>st'. project_event env ty i d session agent st = (Inr (), st') \<and> tm_store st' = tm_store st \<and> or_futures st' = or_futures st"
proof -
  obtain sl where "manager_read_events (orch_events env) env i 0 st = (Inr sl, st)"
    using read_events_effect [OF plain_orch assms, of 0] by blast
  then show ?thesis
    by (simp add: project_event_def orch_runtime_event_def bind_assoc bind_get_Inr [OF assms(2)]
        bind_def [of "manager_read_events R e j n" for R e j n] now modify_def)
qed

lemma kill_running:
  assumes "inv (tm_store st)" "running st i v" "get (tm_store st) i = Inr t"
  shows "\<exists>t' st'. orch_kill env i st = (Inr t', st') \<and> inv (tm_store st') \<and> running st' i v
    \<and> (\<exists>u. get (tm_store st') i = Inr u \<and> task_status_str (tk_status u) = ''killed'')"
proof -
  define U where "U = no_update\<lparr>tu_status := Some ''killed'', tu_terminal := Some (plain_terminal KILLED ''killed'')\<rparr>"
  have U: "tu_status U = Some ''killed''" by (simp add: U_def)
  have r: "cancel_future i st = (Inr (), st)" using assms(2) by (simp add: cancel_future_def modify_def)
  obtain t' n where u: "registry_update env i U st = (Inr t', st\<lparr>tm_clock := n, tm_store := tb_put (te_backend env) t' (tm_store st)\<rparr>)"
    "tk_id t' = i" "task_status_str (tk_status t') = ''killed''"
    using update_effect [OF assms(1,3), of U] unfolding U option.case by blast
  let ?st1 = "st\<lparr>tm_clock := n, tm_store := tb_put (te_backend env) t' (tm_store st)\<rparr>"
  have s1: "inv (tm_store ?st1)" "get (tm_store ?st1) i = Inr (norm_t t')" using assms(1) u(2) by (simp_all add: frames)
  let ?ne = "numbered_event (orch_events env) env i ''killed'' [(''reason'', JStr ''killed'')] (Some (plain_terminal KILLED ''killed'')) None"
  obtain st2 where e: "?ne ?st1 = (Inr (), st2)" "inv (tm_store st2)" "get (tm_store st2) = get (tm_store ?st1)"
    using numbered_effect [OF plain_orch s1] by metis
  have "calm env inv count {} {} (or_futures st) ?st1" using s1(1) by (simp add: calm_def)
  from keepsD [OF calm_numbered this, of i "''killed''" "[(''reason'', JStr ''killed'')]" "Some (plain_terminal KILLED ''killed'')" None]
  have f2: "or_futures st2 = or_futures st" by (simp add: e(1) calm_def)
  have g2: "get (tm_store st2) i = Inr (norm_t t')" using e(3) s1(2) by simp
  obtain st3 where p: "project_event env TASK_KILLED i [(''reason'', JStr ''killed'')] (tk_session t') (tk_agent t') st2 = (Inr (), st3)"
    "tm_store st3 = tm_store st2" "or_futures st3 = or_futures st2"
    using project_returns [OF e(2) g2] by blast
  have "orch_kill env i st = (Inr t', st3)"
    using r u(1) e(1) p(1) by (simp add: orch_kill_def bind_def ret_def flip: U_def)
  then show ?thesis using p e(2) g2 f2 assms(2) u(3) by (simp add: norm_t_fields)
qed

lemma return_running:
  assumes "inv (tm_store st)" "get (tm_store st) i = Inr t"
  shows "\<exists>u. get (tm_store (worker_returned env i r st)) i = Inr u \<and> task_status_str (tk_status u) = ''completed''
    \<and> dict_get (or_futures (worker_returned env i r st)) i = Some \<lparr>fu_verifier = False, fu_state = Returned\<rparr>"
proof -
  obtain st1 u where c: "complete_task (orch_events env) env i (Some (worker_output_ref i r)) (worker_metadata r) st = (Inr (), st1)"
    "inv (tm_store st1)" "get (tm_store st1) = (get (tm_store st))(i := Inr (norm_t u))" "task_status_str (tk_status u) = ''completed''"
    using complete_effect [OF plain_orch assms, of "Some (worker_output_ref i r)" "worker_metadata r"] by blast
  have g: "get (tm_store st1) i = Inr (norm_t u)" by (simp add: c(3))
  obtain st2 where p: "project_event env TASK_COMPLETED i
       (dict_merge [(''output_ref'', JStr (worker_output_ref i r))] (dict_or_empty (worker_metadata r))) None None st1 = (Inr (), st2)"
    "tm_store st2 = tm_store st1"
    using project_returns [OF c(2) g] by blast
  have "worker_returns env i r st = (Inr (), st2)"
    using c(1) p g by (simp add: worker_returns_def emit_terminal_progress_def bind_def get_eq ret_def)
  then show ?thesis using g p(2) c(4) by (simp add: worker_returned_def finish_future_def norm_t_fields)
qed

end

text \<open>
  A kill does not hold.  Killing a background task whose worker is running marks it killed, but the worker goes
  on, and when it returns its completion overwrites the record: the task that was killed ends as completed.
\<close>

theorem kill_overwritten_by_completion:
  assumes "orch_reach (file_env now parse policy) workers empty_task_files st"
    and "running st i False" "file_read_task (tm_store st) i = Inr t"
    and "orch_step (file_env now parse policy) workers st (Kill i) st1"
    and "orch_step (file_env now parse policy) workers st1 (Return i r) st2"
  shows "\<exists>killed final. file_read_task (tm_store st1) i = Inr killed \<and> task_status_str (tk_status killed) = ''killed''
    \<and> file_read_task (tm_store st2) i = Inr final \<and> task_status_str (tk_status final) = ''completed''"
proof -
  have s: "task_files_inv (tm_store st)" using files_reach_inv [OF assms(1)] by (simp add: orch_inv_def)
  have st1: "st1 = snd (orch_kill (file_env now parse policy) i st)" using assms(4) by (rule orch_step_elims(4))
  have st2: "st2 = worker_returned (file_env now parse policy) i r st1" using assms(5) by (rule orch_step_elims(2))
  have g: "tb_get (te_backend (file_env now parse policy)) (tm_store st) i = Inr t" using assms(3) by simp
  obtain u where u: "task_files_inv (tm_store st1)" "file_read_task (tm_store st1) i = Inr u" "task_status_str (tk_status u) = ''killed''"
    using fm.kill_running [OF s assms(2) g] unfolding st1 by fastforce
  have g1: "tb_get (te_backend (file_env now parse policy)) (tm_store st1) i = Inr u" using u(2) by simp
  show ?thesis using fm.return_running [OF u(1) g1, of r] u unfolding st2 by auto
qed

theorem kill_overwritten_by_completion_witness:
  "\<exists>killed final. file_read_task (tm_store (snd (orch_kill demo_env ''task_1'' demo_running))) ''task_1'' = Inr killed
     \<and> task_status_str (tk_status killed) = ''killed''
     \<and> file_read_task (tm_store (worker_returned demo_env ''task_1'' WNone (snd (orch_kill demo_env ''task_1'' demo_running)))) ''task_1'' = Inr final
     \<and> task_status_str (tk_status final) = ''completed''"
proof -
  have "case file_read_task (tm_store demo_running) ''task_1'' of Inl e \<Rightarrow> False | Inr t \<Rightarrow> True" by code_simp
  then obtain t where t: "file_read_task (tm_store demo_running) ''task_1'' = Inr t" by (auto split: sum.splits)
  have "running (snd (orch_kill demo_env ''task_1'' demo_running)) ''task_1'' False" by code_simp
  from kill_overwritten_by_completion [OF demo_reached(2) demo_runs(1) t orch_step.kill_task [OF refl] orch_step.worker_return [OF this]]
  show ?thesis by blast
qed

end
