(* ===== verification/DurableMemory.thy ===== *)
theory DurableMemory
  imports SessionStore TaskStore Effects
begin

text \<open>
  Durable memory: \<^verbatim>\<open>durable_memory/models.py\<close>, \<^verbatim>\<open>scopes.py\<close>, \<^verbatim>\<open>operations.py\<close>,
  \<^verbatim>\<open>runtime.py\<close> and both stores of \<^verbatim>\<open>store.py\<close>.  One state record serves both: \<open>dm_files\<close> is
  \<open>None\<close> for \<open>InMemoryMemoryStore\<close> and the directory of JSON files for \<open>FileMemoryStore\<close>, whose
  overrides call the inherited method and write records afterwards.  Records have the annotated
  types: a session or agent id is a string or absent, the metadata a dictionary.  Memory ids are
  taken to be usable file names.

  A consolidation job is submitted by \<open>memory_schedule\<close> and run by \<open>pool_run\<close>, the step of a worker
  of the thread pool; the steps of concurrent workers are taken to be atomic.  The dreaming engine is
  an argument, a function on a state of its own (\<open>dm_dreams\<close>); \<open>mv_now\<close> is the clock.
\<close>

subsection \<open>Data\<close>

datatype overlay = USER_OVERLAY | PROJECT_OVERLAY | TEAM_OVERLAY | AGENT_OVERLAY | LOCAL_OVERLAY

fun overlay_value :: "overlay \<Rightarrow> string" where
  "overlay_value USER_OVERLAY = ''user''"
| "overlay_value PROJECT_OVERLAY = ''project''"
| "overlay_value TEAM_OVERLAY = ''team''"
| "overlay_value AGENT_OVERLAY = ''agent''"
| "overlay_value LOCAL_OVERLAY = ''local''"

definition overlay_family :: "overlay list" where
  "overlay_family = [USER_OVERLAY, PROJECT_OVERLAY, TEAM_OVERLAY, AGENT_OVERLAY, LOCAL_OVERLAY]"

definition overlay_of :: "string \<Rightarrow> py_error + overlay" where
  "overlay_of s = (case List.find (\<lambda>v. overlay_value v = s) overlay_family of
     None \<Rightarrow> Inl (ValueError (py_repr_str s @ '' is not a valid MemoryOverlay''))
   | Some v \<Rightarrow> Inr v)"

datatype memory_payload = USER_MEMORY | FEEDBACK_MEMORY | PROJECT_MEMORY | REFERENCE_MEMORY | NOTE_MEMORY

fun payload_value :: "memory_payload \<Rightarrow> string" where
  "payload_value USER_MEMORY = ''user''"
| "payload_value FEEDBACK_MEMORY = ''feedback''"
| "payload_value PROJECT_MEMORY = ''project''"
| "payload_value REFERENCE_MEMORY = ''reference''"
| "payload_value NOTE_MEMORY = ''note''"

definition payload_of :: "string \<Rightarrow> memory_payload option" where
  "payload_of s = List.find (\<lambda>v. payload_value v = s)
     [USER_MEMORY, FEEDBACK_MEMORY, PROJECT_MEMORY, REFERENCE_MEMORY, NOTE_MEMORY]"

definition is_durable_taxonomy :: "string \<Rightarrow> bool" where
  "is_durable_taxonomy s \<longleftrightarrow> payload_of s \<noteq> None"

text \<open>\<open>MemoryPayloadType | str\<close>.\<close>

datatype memory_type = Payload memory_payload | OtherType string

fun memory_type_str :: "memory_type \<Rightarrow> string" where
  "memory_type_str (Payload p) = payload_value p"
| "memory_type_str (OtherType s) = s"

definition memory_type_of :: "string \<Rightarrow> memory_type" where
  "memory_type_of s = (case payload_of s of None \<Rightarrow> OtherType s | Some p \<Rightarrow> Payload p)"

datatype write_path = DIRECT_WRITE | EXTRACT | DREAM

fun write_path_value :: "write_path \<Rightarrow> string" where
  "write_path_value DIRECT_WRITE = ''direct_write''"
| "write_path_value EXTRACT = ''extract''"
| "write_path_value DREAM = ''dream''"

definition write_path_of :: "string \<Rightarrow> py_error + write_path" where
  "write_path_of s = (case List.find (\<lambda>v. write_path_value v = s) [DIRECT_WRITE, EXTRACT, DREAM] of
     None \<Rightarrow> Inl (ValueError (py_repr_str s @ '' is not a valid DurableWritePath''))
   | Some v \<Rightarrow> Inr v)"

record memory_record =
  mem_id :: string
  mem_scope :: overlay
  mem_type :: memory_type
  mem_title :: string
  mem_content :: string
  mem_summary :: string
  mem_source :: string
  mem_created :: string
  mem_updated :: string
  mem_freshness :: string
  mem_session :: "string option"
  mem_agent :: "string option"
  mem_metadata :: json_object

definition memory_to_dict :: "memory_record \<Rightarrow> json_object" where
  "memory_to_dict r = [(''memory_id'', JStr (mem_id r)), (''scope'', JStr (overlay_value (mem_scope r))),
     (''type'', JStr (memory_type_str (mem_type r))), (''title'', JStr (mem_title r)),
     (''content'', JStr (mem_content r)), (''summary'', JStr (mem_summary r)), (''source'', JStr (mem_source r)),
     (''created_at'', JStr (mem_created r)), (''updated_at'', JStr (mem_updated r)),
     (''freshness'', JStr (mem_freshness r)), (''session_id'', jopt_str (mem_session r)),
     (''agent_id'', jopt_str (mem_agent r)), (''metadata'', JDict (mem_metadata r))]"

definition memory_from_dict :: "json_object \<Rightarrow> py_error + memory_record" where
  "memory_from_dict d =
     ebind (field_str d ''type'') (\<lambda>ty.
     ebind (field_str d ''scope'') (\<lambda>sc.
     ebind (field_str d ''memory_id'') (\<lambda>i.
     ebind (overlay_of sc) (\<lambda>scope.
     ebind (field_str d ''title'') (\<lambda>title.
     ebind (field_str d ''content'') (\<lambda>content.
     ebind (field_str d ''summary'') (\<lambda>summary.
     ebind (field_str d ''source'') (\<lambda>source.
     ebind (field_str d ''created_at'') (\<lambda>created.
     ebind (field_str d ''updated_at'') (\<lambda>updated.
     Inr \<lparr>mem_id = i, mem_scope = scope, mem_type = memory_type_of ty, mem_title = title,
          mem_content = content, mem_summary = summary, mem_source = source, mem_created = created,
          mem_updated = updated,
          mem_freshness = py_str (dict_get_default d ''freshness'' (JStr ''current'')),
          mem_session = field_opt_str d ''session_id'', mem_agent = field_opt_str d ''agent_id'',
          mem_metadata = field_dict d ''metadata''\<rparr>))))))))))"

record entrypoint_index =
  ei_entrypoints :: "string list"
  ei_pointers :: "string list"
  ei_updated :: "string option"

record manifest_entry =
  me_ref :: string
  me_title :: string
  me_description :: string
  me_type :: memory_type
  me_scope :: overlay
  me_mtime :: string
  me_freshness :: string

definition manifest_from_record :: "memory_record \<Rightarrow> manifest_entry" where
  "manifest_from_record r = \<lparr>me_ref = mem_id r, me_title = mem_title r, me_description = mem_summary r,
     me_type = mem_type r, me_scope = mem_scope r, me_mtime = mem_updated r, me_freshness = mem_freshness r\<rparr>"

record recall_request =
  rq_session :: string
  rq_query :: string
  rq_scopes :: json
  rq_surfaced :: "string list"
  rq_max_results :: "int option"
  rq_max_bytes :: "int option"
  rq_agent :: "string option"

record recall_result =
  rr_query :: string
  rr_index :: "entrypoint_index option"
  rr_manifest :: "manifest_entry list"
  rr_recalled :: "memory_record list"

record recall_handle =
  rh_id :: string
  rh_query :: string
  rh_candidates :: "string list"
  rh_index :: "entrypoint_index option"
  rh_manifest :: "manifest_entry list"

record consolidation_result =
  co_session :: string
  co_path :: write_path
  co_new :: "memory_record list"
  co_updated :: "memory_record list"
  co_skipped :: "string list"

record consolidation_job =
  cj_id :: string
  cj_session :: string
  cj_size :: nat
  cj_path :: write_path

text \<open>The extraction request with its serialised messages, and the results of extraction and dreaming.\<close>

record extraction_request =
  xr_session :: string
  xr_transcript :: "json_object list"
  xr_agent :: "string option"

definition request_from_messages :: "string \<Rightarrow> session_message list \<Rightarrow> string option \<Rightarrow> extraction_request" where
  "request_from_messages s ms agent = \<lparr>xr_session = s, xr_transcript = map session_message_to_dict ms, xr_agent = agent\<rparr>"

record write_result =
  wr_target :: string
  wr_records :: "memory_record list"
  wr_skipped :: "string list"
  wr_path :: write_path

text \<open>The bytes of a string in UTF-8; the model has the code points below 256.\<close>

definition utf8_length :: "string \<Rightarrow> int" where
  "utf8_length s = sum_list (map (\<lambda>c. if code c < 128 then 1 else 2) s)"

definition content_size :: "memory_record \<Rightarrow> int" where
  "content_size r = utf8_length (mem_title r) + utf8_length (mem_content r)"

subsection \<open>Visibility and selection\<close>

text \<open>The selector of a request is any value the code can iterate over; \<open>prefetch\<close> passes on what it is given.\<close>

definition selector_items :: "json \<Rightarrow> py_error + string list option" where
  "selector_items v = (case v of
     JNull \<Rightarrow> Inr None
   | JList l \<Rightarrow> Inr (Some (map py_str l))
   | JStr s \<Rightarrow> Inr (Some (map (\<lambda>c. [c]) s))
   | JDict d \<Rightarrow> Inr (Some (dict_keys d))
   | _ \<Rightarrow> Inl (TypeError ''object is not iterable''))"

definition normalize_overlay_selector :: "json \<Rightarrow> py_error + overlay list option" where
  "normalize_overlay_selector sel = ebind (selector_items sel) (\<lambda>items. case items of
     None \<Rightarrow> Inr None
   | Some xs \<Rightarrow> ebind (emap overlay_of xs) (\<lambda>vs. Inr (if vs = [] then None else Some vs)))"

definition record_matches_overlay :: "memory_record \<Rightarrow> overlay list option \<Rightarrow> string \<Rightarrow> string option \<Rightarrow> bool" where
  "record_matches_overlay r overlays session agent =
     (if (case overlays of None \<Rightarrow> False | Some vs \<Rightarrow> mem_scope r \<notin> set vs) then False
      else if mem_scope r = AGENT_OVERLAY \<and> agent \<noteq> None \<and> mem_agent r \<notin> {None, Some []} then mem_agent r = agent
      else if mem_scope r = LOCAL_OVERLAY \<and> mem_session r \<noteq> None then mem_session r = Some session
      else True)"

definition build_entrypoint_index :: "memory_record list \<Rightarrow> entrypoint_index" where
  "build_entrypoint_index rs =
     \<lparr>ei_entrypoints = sort (remdups (map (\<lambda>r. overlay_value (mem_scope r) @ '':'' @ memory_type_str (mem_type r)) rs)),
      ei_pointers = sort (remdups (map mem_id rs)),
      ei_updated = foldl (\<lambda>u r. Some (max (case u of None \<Rightarrow> mem_updated r
         | Some t \<Rightarrow> if t = [] then mem_updated r else t) (mem_updated r))) None rs\<rparr>"

definition build_manifest_entries :: "memory_record list \<Rightarrow> manifest_entry list" where
  "build_manifest_entries rs = map manifest_from_record rs"

definition query_tokens :: "string \<Rightarrow> string list" where
  "query_tokens q = remdups (py_split (py_lower q))"

definition recall_score :: "recall_request \<Rightarrow> memory_record \<Rightarrow> int" where
  "recall_score rq r =
     int (length (filter (\<lambda>t. py_contains t
       (py_lower (mem_title r @ '' '' @ mem_content r @ '' '' @ mem_summary r))) (query_tokens (rq_query rq))))
     + (if rq_agent rq \<noteq> None \<and> mem_agent r = rq_agent rq then 2 else 0)
     + (if mem_session r = Some (rq_session rq) then 1 else 0)"

text \<open>The loop that fills the bounded list: it stops at the first record over a bound.\<close>

fun take_bounded :: "int \<Rightarrow> int \<Rightarrow> memory_record list \<Rightarrow> int \<Rightarrow> memory_record list \<Rightarrow> memory_record list" where
  "take_bounded n b bounded used [] = bounded"
| "take_bounded n b bounded used (r # rs) =
     (if n \<le> int (length bounded) then bounded
      else if bounded \<noteq> [] \<and> b < used + content_size r then bounded
      else take_bounded n b (bounded @ [r]) (used + content_size r) rs)"

text \<open>\<open>x or default\<close> for an optional integer.\<close>

definition int_or :: "int option \<Rightarrow> int \<Rightarrow> int" where
  "int_or x d = (case x of None \<Rightarrow> d | Some i \<Rightarrow> if i = 0 then d else i)"

definition recall_eligible :: "recall_request \<Rightarrow> overlay list option \<Rightarrow> memory_record \<Rightarrow> bool" where
  "recall_eligible rq overlays r \<longleftrightarrow> mem_id r \<notin> set (rq_surfaced rq)
     \<and> record_matches_overlay r overlays (rq_session rq) (rq_agent rq)
     \<and> (0 < recall_score rq r \<or> query_tokens (rq_query rq) = [])"

definition ordered_candidates :: "recall_request \<Rightarrow> overlay list option \<Rightarrow> memory_record list \<Rightarrow> memory_record list" where
  "ordered_candidates rq overlays rs =
     sort_key (\<lambda>r. - recall_score rq r) (filter (recall_eligible rq overlays) rs)"

definition select_recall_candidates :: "memory_record list \<Rightarrow> recall_request \<Rightarrow> py_error + memory_record list" where
  "select_recall_candidates rs rq =
     ebind (normalize_overlay_selector (rq_scopes rq)) (\<lambda>overlays.
     Inr (take_bounded (int_or (rq_max_results rq) 5) (int_or (rq_max_bytes rq) 16000) [] 0
       (ordered_candidates rq overlays rs)))"

subsection \<open>The store\<close>

record auto_memory_config =
  am_enabled :: bool
  am_max_results :: int
  am_max_bytes :: int

definition default_memory_config :: auto_memory_config where
  "default_memory_config = \<lparr>am_enabled = True, am_max_results = 5, am_max_bytes = 16000\<rparr>"

definition allows_write_path :: "auto_memory_config \<Rightarrow> write_path \<Rightarrow> bool" where
  "allows_write_path c p = am_enabled c"

text \<open>A pending job is its future: the job a worker will run, and its outcome when it has one.\<close>

record 'w memory_store =
  dm_config :: auto_memory_config
  dm_records :: "(string, memory_record) pydict"
  dm_counter :: nat
  dm_handles :: "(string, recall_handle) pydict"
  dm_jobs :: "(string, string \<times> session_message list \<times> string \<times> json_object option) pydict"
  dm_pending :: "(string, consolidation_job \<times> (py_error + consolidation_result) option) pydict"
  dm_completed :: "(string, consolidation_result) pydict"
  dm_files :: "(string, json) pydict option"
  dm_clock :: nat
  dm_dreams :: 'w

record dream_request =
  dq_session :: string
  dq_transcript :: "json_object list"
  dq_agent :: "string option"
  dq_force_failure :: bool
  dq_config :: "json_object option"

record 'w mem_env =
  mv_now :: "nat \<Rightarrow> string"
  mv_sweep :: "json_object option \<Rightarrow> string \<Rightarrow> session_message list \<Rightarrow> memory_record list \<Rightarrow> string option \<Rightarrow>
    'w \<Rightarrow> (py_error + memory_record list \<times> string list) \<times> 'w"

definition new_memory_store :: "auto_memory_config \<Rightarrow> 'w \<Rightarrow> 'w memory_store" where
  "new_memory_store c w = \<lparr>dm_config = c, dm_records = [], dm_counter = 0, dm_handles = [], dm_jobs = [],
     dm_pending = [], dm_completed = [], dm_files = None, dm_clock = 0, dm_dreams = w\<rparr>"

definition memory_now :: "'w mem_env \<Rightarrow> ('w memory_store, string) eff" where
  "memory_now env st = (Inr (mv_now env (dm_clock st)), st\<lparr>dm_clock := Suc (dm_clock st)\<rparr>)"

text \<open>\<open>_load_existing\<close>: a file store over a directory that may hold records.\<close>

fun load_records :: "json list \<Rightarrow> (string, memory_record) pydict \<Rightarrow> py_error + (string, memory_record) pydict" where
  "load_records [] d = Inr d"
| "load_records (j # js) d = ebind (case as_dict j of None \<Rightarrow> Inl (TypeError ''record file'') | Some o' \<Rightarrow> memory_from_dict o')
     (\<lambda>r. load_records js (dict_set (mem_id r) r d))"

definition listed_files :: "(string, json) pydict \<Rightarrow> json list" where
  "listed_files files = map snd (sort_key (\<lambda>(i, j). i @ ''.json'') files)"

definition open_file_memory_store ::
  "auto_memory_config \<Rightarrow> (string, json) pydict \<Rightarrow> nat \<Rightarrow> 'w \<Rightarrow> py_error + 'w memory_store" where
  "open_file_memory_store c files clock w = ebind (load_records (listed_files files) []) (\<lambda>records.
     Inr ((new_memory_store c w)\<lparr>dm_records := records, dm_files := Some files, dm_clock := clock\<rparr>))"

text \<open>\<open>_write_record\<close> and \<open>_write_skipped_records\<close>; a store in memory has no files to write.\<close>

definition record_file :: "memory_record \<Rightarrow> json" where
  "record_file r = sorted_json (JDict (memory_to_dict r))"

definition write_record :: "memory_record \<Rightarrow> ('w memory_store, unit) eff" where
  "write_record r = modify (\<lambda>st. st\<lparr>dm_files := map_option (dict_set (mem_id r) (record_file r)) (dm_files st)\<rparr>)"

definition write_skipped_records :: "string list \<Rightarrow> ('w memory_store, unit) eff" where
  "write_skipped_records = each (\<lambda>i. bind (gets (\<lambda>st. dict_get (dm_records st) i))
     (\<lambda>r. case r of None \<Rightarrow> ret () | Some r \<Rightarrow> write_record r))"

definition upsert_memory :: "memory_record \<Rightarrow> ('w memory_store, memory_record) eff" where
  "upsert_memory r = bind (modify (\<lambda>st. st\<lparr>dm_records := dict_set (mem_id r) r (dm_records st)\<rparr>))
     (\<lambda>_. bind (write_record r) (\<lambda>_. ret r))"

definition memory_put :: "memory_record \<Rightarrow> ('w memory_store, string) eff" where
  "memory_put r = bind (upsert_memory r) (\<lambda>_. ret (mem_id r))"

definition update_memory :: "'w mem_env \<Rightarrow> string \<Rightarrow> json_object \<Rightarrow> ('w memory_store, memory_record) eff" where
  "update_memory env i patch =
     bind (reads (\<lambda>st. case dict_get (dm_records st) i of None \<Rightarrow> Inl (KeyError i) | Some r \<Rightarrow> Inr r)) (\<lambda>r.
     bind (lift (memory_from_dict (dict_merge (memory_to_dict r) patch))) (\<lambda>u.
     bind (memory_now env) (\<lambda>now.
     (let updated = u\<lparr>mem_updated := now\<rparr> in
      bind (modify (\<lambda>st. st\<lparr>dm_records := dict_set i updated (dm_records st)\<rparr>)) (\<lambda>_.
      bind (write_record updated) (\<lambda>_. ret updated))))))"

definition memory_delete :: "string \<Rightarrow> ('w memory_store, bool) eff" where
  "memory_delete i = bind (gets (\<lambda>st. dict_get (dm_records st) i \<noteq> None)) (\<lambda>present.
     if present then bind (modify (\<lambda>st. st\<lparr>dm_records := dict_pop i (dm_records st),
         dm_files := map_option (dict_pop i) (dm_files st)\<rparr>)) (\<lambda>_. ret True)
     else ret False)"

definition memory_list :: "json_object option \<Rightarrow> 'w memory_store \<Rightarrow> memory_record list" where
  "memory_list sel st = (case sel of
     None \<Rightarrow> dict_values (dm_records st)
   | Some d \<Rightarrow> filter (\<lambda>r. (case jget d ''scope'' of JStr s \<Rightarrow> overlay_value (mem_scope r) = s | _ \<Rightarrow> True)
       \<and> (case jget d ''type'' of JStr s \<Rightarrow> memory_type_str (mem_type r) = s | _ \<Rightarrow> True)
       \<and> (case jget d ''source'' of JStr s \<Rightarrow> mem_source r = s | _ \<Rightarrow> True)) (dict_values (dm_records st)))"

definition memory_read :: "string list \<Rightarrow> 'w memory_store \<Rightarrow> memory_record list" where
  "memory_read refs st = List.map_filter (dict_get (dm_records st)) refs"

text \<open>A record with the path it was written by in its metadata, through \<open>to_dict\<close> and \<open>from_dict\<close>.\<close>

definition stamped :: "write_path \<Rightarrow> memory_record \<Rightarrow> py_error + memory_record" where
  "stamped p r = memory_from_dict (dict_merge (memory_to_dict r)
     [(''metadata'', JDict (dict_set ''write_path'' (JStr (write_path_value p)) (mem_metadata r)))])"

definition direct_write :: "'w mem_env \<Rightarrow> memory_record \<Rightarrow> ('w memory_store, memory_record) eff" where
  "direct_write env r = bind (gets (\<lambda>st. am_enabled (dm_config st))) (\<lambda>enabled.
     if \<not> enabled then throw (RuntimeErr ''auto-memory runtime is disabled'')
     else bind (upsert_memory r) (\<lambda>stored.
       bind (update_memory env (mem_id stored)
         [(''metadata'', JDict (dict_set ''write_path'' (JStr (write_path_value DIRECT_WRITE)) (mem_metadata stored)))])
       (\<lambda>stored. bind (write_record stored) (\<lambda>_. ret stored))))"

subsection \<open>Extraction\<close>

definition json_type_name :: "json \<Rightarrow> string" where
  "json_type_name v = (case v of JNull \<Rightarrow> ''NoneType'' | JBool _ \<Rightarrow> ''bool'' | JInt _ \<Rightarrow> ''int'' | JFloat _ \<Rightarrow> ''float''
     | JStr _ \<Rightarrow> ''str'' | JList _ \<Rightarrow> ''list'' | JDict _ \<Rightarrow> ''dict'')"

text \<open>\<open>sep.join(xs)\<close> raises at the first item that is not a string.\<close>

fun str_contents :: "nat \<Rightarrow> json list \<Rightarrow> py_error + string list" where
  "str_contents n [] = Inr []"
| "str_contents n (v # vs) = (case v of
     JStr s \<Rightarrow> ebind (str_contents (Suc n) vs) (\<lambda>ss. Inr (s # ss))
   | _ \<Rightarrow> Inl (TypeError (''sequence item '' @ nat_str n @ '': expected str instance, '' @ json_type_name v @ '' found'')))"

definition join_contents :: "string \<Rightarrow> session_message list \<Rightarrow> py_error + string" where
  "join_contents sep ms = ebind (str_contents 0 (map sm_content ms)) (\<lambda>ss. Inr (py_join sep ss))"

definition excluded_from_durable_memory :: "string \<Rightarrow> bool" where
  "excluded_from_durable_memory joined = list_ex (\<lambda>p. py_contains p joined)
     [''def '', ''class '', ''git commit'', ''task progress'', ''build log'', ''stack trace'']"

definition joined_text :: "session_message list \<Rightarrow> string" where
  "joined_text ms = py_join '' '' (map (\<lambda>m. py_lower (session_message_text m)) ms)"

definition infer_overlay :: "session_message list \<Rightarrow> overlay" where
  "infer_overlay ms = (let has = (\<lambda>p. py_contains p (joined_text ms)) in
     if has ''team'' then TEAM_OVERLAY
     else if has ''preference'' \<or> has ''i like'' then USER_OVERLAY
     else if has ''agent'' then AGENT_OVERLAY
     else if has ''localhost'' \<or> has ''machine'' \<or> has ''env'' then LOCAL_OVERLAY
     else PROJECT_OVERLAY)"

definition infer_payload_type :: "session_message list \<Rightarrow> memory_payload" where
  "infer_payload_type ms = (let has = (\<lambda>p. py_contains p (joined_text ms)) in
     if has ''prefer'' \<or> has ''i like'' \<or> has ''my favorite'' then USER_MEMORY
     else if has ''should'' \<or> has ''always use'' \<or> has ''workflow'' then FEEDBACK_MEMORY
     else if has ''http'' \<or> has ''docs'' \<or> has ''reference'' then REFERENCE_MEMORY
     else if has ''launch'' \<or> has ''initiative'' \<or> has ''project'' then PROJECT_MEMORY
     else NOTE_MEMORY)"

text \<open>The record of a transcript; \<open>k\<close> is the counter and \<open>t1\<close>, \<open>t2\<close> the two readings of the clock.\<close>

definition memory_key :: "nat \<Rightarrow> string" where
  "memory_key k = ''memory_'' @ nat_str k"

definition extracted_record ::
  "nat \<Rightarrow> string \<Rightarrow> string \<Rightarrow> session_message list \<Rightarrow> string option \<Rightarrow> string option \<Rightarrow> memory_record" where
  "extracted_record k t1 t2 ms session agent =
     (let last_text = py_str (sm_content (last ms)) in
      \<lparr>mem_id = memory_key k, mem_scope = infer_overlay ms, mem_type = Payload (infer_payload_type ms),
       mem_title = (if take 80 last_text = [] then memory_key k else take 80 last_text),
       mem_content = py_join [newline] (map (\<lambda>m. sm_role m @ '': '' @ py_str (sm_content m)) ms),
       mem_summary = take 120 last_text,
       mem_source = ''session:'' @ (case session of None \<Rightarrow> ''unknown'' | Some s \<Rightarrow> if s = [] then ''unknown'' else s),
       mem_created = t1, mem_updated = t2, mem_freshness = ''fresh'', mem_session = session, mem_agent = agent,
       mem_metadata = [(''message_count'', JInt (int (length ms)))]\<rparr>)"

definition memory_extract ::
  "'w mem_env \<Rightarrow> session_message list \<Rightarrow> string option \<Rightarrow> string option \<Rightarrow> ('w memory_store, memory_record list) eff" where
  "memory_extract env ms session agent =
     (if ms = [] then ret []
      else bind (lift (join_contents '' '' ms)) (\<lambda>joined.
        if excluded_from_durable_memory (py_lower joined) then ret []
        else bind (modify (\<lambda>st. st\<lparr>dm_counter := Suc (dm_counter st)\<rparr>)) (\<lambda>_.
             bind (gets dm_counter) (\<lambda>k.
             bind (memory_now env) (\<lambda>t1.
             bind (memory_now env) (\<lambda>t2.
             ret [extracted_record k t1 t2 ms session agent]))))))"

definition find_duplicate :: "memory_record \<Rightarrow> 'w memory_store \<Rightarrow> memory_record option" where
  "find_duplicate r st = List.find (\<lambda>e. mem_title e = mem_title r \<and> mem_scope e = mem_scope r
     \<and> memory_type_str (mem_type e) = memory_type_str (mem_type r)) (dict_values (dm_records st))"

text \<open>The loop over the extracted records: the ids of the duplicates that were skipped.\<close>

fun store_extracted :: "memory_record list \<Rightarrow> ('w memory_store, string list) eff" where
  "store_extracted [] = ret []"
| "store_extracted (r # rs) = bind (gets (find_duplicate r)) (\<lambda>d. case d of
     Some e \<Rightarrow> bind (store_extracted rs) (\<lambda>skipped. ret (mem_id e # skipped))
   | None \<Rightarrow> bind (lift (stamped EXTRACT r)) (\<lambda>r'.
       bind (upsert_memory r') (\<lambda>_. store_extracted rs)))"

definition base_extract_memories :: "'w mem_env \<Rightarrow> extraction_request \<Rightarrow> ('w memory_store, write_result) eff" where
  "base_extract_memories env rq = bind (gets (\<lambda>st. am_enabled (dm_config st))) (\<lambda>enabled.
     if \<not> enabled then ret \<lparr>wr_target = xr_session rq, wr_records = [], wr_skipped = [], wr_path = EXTRACT\<rparr>
     else bind (lift (emap session_message_from_dict (xr_transcript rq))) (\<lambda>ms.
       bind (memory_extract env ms (Some (xr_session rq)) (xr_agent rq)) (\<lambda>extracted.
       bind (store_extracted extracted) (\<lambda>skipped.
       bind (gets (\<lambda>st. map mem_id (dict_values (dm_records st)))) (\<lambda>ids.
       ret \<lparr>wr_target = xr_session rq, wr_records = filter (\<lambda>r. mem_id r \<in> set ids) extracted,
            wr_skipped = skipped, wr_path = EXTRACT\<rparr>)))))"

text \<open>The override of the file store.\<close>

definition rewritten :: "('w memory_store, write_result) eff \<Rightarrow> ('w memory_store, write_result) eff" where
  "rewritten m = bind m (\<lambda>result. bind (each write_record (wr_records result)) (\<lambda>_.
     bind (write_skipped_records (wr_skipped result)) (\<lambda>_. ret result)))"

definition extract_memories :: "'w mem_env \<Rightarrow> extraction_request \<Rightarrow> ('w memory_store, write_result) eff" where
  "extract_memories env rq = rewritten (base_extract_memories env rq)"

definition consolidate ::
  "'w mem_env \<Rightarrow> string \<Rightarrow> session_message list \<Rightarrow> string option \<Rightarrow> ('w memory_store, consolidation_result) eff" where
  "consolidate env s ms agent = bind (extract_memories env (request_from_messages s ms agent)) (\<lambda>r.
     bind (each write_record (wr_records r)) (\<lambda>_.
     bind (write_skipped_records (wr_skipped r)) (\<lambda>_.
     ret \<lparr>co_session = s, co_path = EXTRACT, co_new = wr_records r, co_updated = [], co_skipped = wr_skipped r\<rparr>)))"

subsection \<open>Dreaming\<close>

fun store_promoted :: "memory_record list \<Rightarrow> ('w memory_store, memory_record list) eff" where
  "store_promoted [] = ret []"
| "store_promoted (r # rs) = bind (lift (stamped DREAM r)) (\<lambda>r'. bind (upsert_memory r') (\<lambda>_.
     bind (store_promoted rs) (\<lambda>done'. ret (r' # done'))))"

definition base_dream :: "'w mem_env \<Rightarrow> dream_request \<Rightarrow> ('w memory_store, write_result) eff" where
  "base_dream env rq = bind (gets (\<lambda>st. am_enabled (dm_config st))) (\<lambda>enabled.
     if \<not> enabled then ret \<lparr>wr_target = dq_session rq, wr_records = [], wr_skipped = [], wr_path = DREAM\<rparr>
     else if dq_force_failure rq then throw (RuntimeErr ''dream consolidation failed'')
     else bind (lift (emap session_message_from_dict (dq_transcript rq))) (\<lambda>ms.
       bind (\<lambda>st. let (r, w) = mv_sweep env (dq_config rq) (dq_session rq) ms (dict_values (dm_records st))
           (dq_agent rq) (dm_dreams st) in (r, st\<lparr>dm_dreams := w\<rparr>)) (\<lambda>(promoted, skipped).
       bind (store_promoted promoted) (\<lambda>records.
       ret \<lparr>wr_target = dq_session rq, wr_records = records, wr_skipped = skipped, wr_path = DREAM\<rparr>))))"

definition dream :: "'w mem_env \<Rightarrow> dream_request \<Rightarrow> ('w memory_store, write_result) eff" where
  "dream env rq = rewritten (base_dream env rq)"

subsection \<open>Recall\<close>

definition prefetch_request :: "recall_request \<Rightarrow> ('w memory_store, recall_handle) eff" where
  "prefetch_request rq = bind (gets (\<lambda>st. ''recall_'' @ nat_str (length (dm_handles st) + 1))) (\<lambda>h.
     bind (gets (\<lambda>st. am_enabled (dm_config st))) (\<lambda>enabled.
     bind (if \<not> enabled then ret \<lparr>rh_id = h, rh_query = rq_query rq, rh_candidates = [], rh_index = None, rh_manifest = []\<rparr>
       else bind (gets (\<lambda>st. dict_values (dm_records st))) (\<lambda>records.
         bind (lift (select_recall_candidates records rq)) (\<lambda>candidates.
         ret \<lparr>rh_id = h, rh_query = rq_query rq, rh_candidates = map mem_id candidates,
              rh_index = Some (build_entrypoint_index records), rh_manifest = build_manifest_entries candidates\<rparr>)))
       (\<lambda>handle. bind (modify (\<lambda>st. st\<lparr>dm_handles := dict_set (rh_id handle) handle (dm_handles st)\<rparr>))
         (\<lambda>_. ret handle))))"

definition prefetch :: "string \<Rightarrow> json_object \<Rightarrow> ('w memory_store, recall_handle) eff" where
  "prefetch query ctx = bind (gets dm_config) (\<lambda>c. prefetch_request
     \<lparr>rq_session = py_str (dict_get_default ctx ''session_id'' (JStr [])), rq_query = query,
      rq_scopes = dict_get_default ctx ''scopes'' (JList []), rq_surfaced = [],
      rq_max_results = Some (am_max_results c), rq_max_bytes = Some (am_max_bytes c),
      rq_agent = as_str (jget ctx ''agent_id'')\<rparr>)"

definition memory_collect :: "recall_handle \<Rightarrow> 'w memory_store \<Rightarrow> recall_result" where
  "memory_collect h st = \<lparr>rr_query = rh_query h, rr_index = rh_index h, rr_manifest = rh_manifest h,
     rr_recalled = memory_read (rh_candidates h) st\<rparr>"

definition dedupe :: "memory_record list \<Rightarrow> string list \<Rightarrow> memory_record list" where
  "dedupe rs loaded = filter (\<lambda>r. mem_id r \<notin> set loaded) rs"

definition recall :: "string \<Rightarrow> string \<Rightarrow> int \<Rightarrow> string option \<Rightarrow> ('w memory_store, recall_result) eff" where
  "recall session query limit agent = bind (gets (\<lambda>st. am_max_bytes (dm_config st))) (\<lambda>bytes.
     bind (prefetch_request \<lparr>rq_session = session, rq_query = query, rq_scopes = JList [], rq_surfaced = [],
       rq_max_results = Some limit, rq_max_bytes = Some bytes, rq_agent = agent\<rparr>)
     (\<lambda>h. gets (memory_collect h)))"

subsection \<open>Consolidation jobs\<close>

definition memory_schedule :: "string \<Rightarrow> session_message list \<Rightarrow> string option \<Rightarrow> string option \<Rightarrow> json_object option \<Rightarrow>
    ('w memory_store, consolidation_job) eff" where
  "memory_schedule s ms agent path config =
     bind (lift (case path of None \<Rightarrow> Inr EXTRACT | Some p \<Rightarrow> write_path_of p)) (\<lambda>resolved.
     bind (gets (\<lambda>st. \<lparr>cj_id = ''memory_job_'' @ nat_str (length (dm_jobs st) + 1), cj_session = s,
        cj_size = length ms, cj_path = resolved\<rparr>)) (\<lambda>job.
     bind (modify (\<lambda>st. st\<lparr>dm_jobs := dict_set (cj_id job)
         (s, ms, case agent of None \<Rightarrow> [] | Some a \<Rightarrow> a, config) (dm_jobs st),
       dm_pending := dict_set (cj_id job) (job, None) (dm_pending st)\<rparr>)) (\<lambda>_. ret job)))"

definition run_job :: "'w mem_env \<Rightarrow> consolidation_job \<Rightarrow> ('w memory_store, consolidation_result) eff" where
  "run_job env job =
     bind (reads (\<lambda>st. case dict_get (dm_jobs st) (cj_id job) of None \<Rightarrow> Inl (KeyError (cj_id job)) | Some x \<Rightarrow> Inr x))
       (\<lambda>(s, ms, agent, config). let agent' = (if agent = [] then None else Some agent) in
     bind (if cj_path job = DREAM
         then bind (dream env \<lparr>dq_session = s, dq_transcript = map session_message_to_dict ms, dq_agent = agent',
             dq_force_failure = False, dq_config = config\<rparr>) (\<lambda>r.
           ret \<lparr>co_session = s, co_path = DREAM, co_new = [], co_updated = wr_records r, co_skipped = wr_skipped r\<rparr>)
         else consolidate env s ms agent') (\<lambda>result.
     bind (modify (\<lambda>st. st\<lparr>dm_completed := dict_set (cj_id job) result (dm_completed st),
       dm_pending := dict_pop (cj_id job) (dm_pending st)\<rparr>)) (\<lambda>_. ret result)))"

text \<open>A worker of the pool takes a job that has not run; the future keeps the exception if \<open>run\<close> raises.\<close>

definition pool_run :: "'w mem_env \<Rightarrow> string \<Rightarrow> 'w memory_store \<Rightarrow> 'w memory_store" where
  "pool_run env i st = (case dict_get (dm_pending st) i of
     Some (job, None) \<Rightarrow> (case run_job env job st of
         (Inr _, st') \<Rightarrow> st'
       | (Inl e, st') \<Rightarrow> st'\<lparr>dm_pending := dict_set i (job, Some (Inl e)) (dm_pending st')\<rparr>)
   | _ \<Rightarrow> st)"

text \<open>\<open>wait_for_job\<close>: \<open>None\<close> while the job has no outcome, when the call blocks or times out.\<close>

definition wait_for_job :: "string \<Rightarrow> 'w memory_store \<Rightarrow> (py_error + consolidation_result) option" where
  "wait_for_job i st = (case dict_get (dm_completed st) i of
     Some r \<Rightarrow> Some (Inr r)
   | None \<Rightarrow> (case dict_get (dm_pending st) i of None \<Rightarrow> Some (Inl (KeyError i)) | Some (_, outcome) \<Rightarrow> outcome))"

end
