(* ===== verification/MemoryRuntime.thy ===== *)
theory MemoryRuntime
  imports DurableMemory
begin

text \<open>
  Short-term session memory (\<^verbatim>\<open>session/short_term_memory\<close>) and the part of the agent runtime that
  drives both memories: \<open>schedule_memory_maintenance\<close>, \<open>maybe_schedule_dreaming\<close>,
  \<open>stabilize_short_term_memory\<close> and \<open>_load_short_term_memory\<close> of \<^verbatim>\<open>agent_runtime.py\<close>, the post-turn
  processor of \<^verbatim>\<open>post_turn/processing.py\<close> and the scheduler of \<^verbatim>\<open>dreaming/scheduler.py\<close>.

  A memory store builds a summary in a thread pool: \<open>sx_pending\<close> holds the last future of a session,
  with its arguments and its outcome once a worker ran it (\<open>build_pending\<close>).  Waiting with a timeout
  returns \<open>None\<close> when the worker has not run.
\<close>

subsection \<open>Data\<close>

record short_term_memory =
  stm_session :: string
  stm_summary :: string
  stm_goal :: json
  stm_progress :: "string list"
  stm_questions :: "string list"
  stm_risks :: "string list"
  stm_constraints :: "string list"
  stm_boundary :: "int option"
  stm_updated :: string
  stm_stable :: bool

definition short_term_to_dict :: "short_term_memory \<Rightarrow> json_object" where
  "short_term_to_dict m = [(''session_id'', JStr (stm_session m)), (''summary'', JStr (stm_summary m)),
     (''current_goal'', stm_goal m), (''progress'', JList (map JStr (stm_progress m))),
     (''open_questions'', JList (map JStr (stm_questions m))), (''risks'', JList (map JStr (stm_risks m))),
     (''constraints'', JList (map JStr (stm_constraints m))),
     (''coverage_boundary'', case stm_boundary m of None \<Rightarrow> JNull | Some n \<Rightarrow> JInt n),
     (''updated_at'', JStr (stm_updated m)), (''stable'', JBool (stm_stable m))]"

definition short_term_fields :: "string list" where
  "short_term_fields = [''session_id'', ''summary'', ''current_goal'', ''progress'', ''open_questions'', ''risks'',
     ''constraints'', ''coverage_boundary'', ''updated_at'', ''stable'']"

text \<open>\<open>cls(**data)\<close>; the values have the annotated types.  \<open>now\<close> is the default of \<open>updated_at\<close>.\<close>

definition json_strs :: "json \<Rightarrow> string list" where
  "json_strs v = (case as_list v of None \<Rightarrow> [] | Some l \<Rightarrow> map py_str l)"

definition short_term_from_dict :: "string \<Rightarrow> json_object \<Rightarrow> py_error + short_term_memory" where
  "short_term_from_dict now d =
     (if \<not> list_all (\<lambda>k. k \<in> set short_term_fields) (dict_keys d) then Inl (TypeError ''unexpected keyword argument'')
      else case (dict_get d ''session_id'', dict_get d ''summary'') of
        (Some s, Some t) \<Rightarrow> Inr \<lparr>stm_session = py_str s, stm_summary = py_str t, stm_goal = jget d ''current_goal'',
          stm_progress = json_strs (jget d ''progress''), stm_questions = json_strs (jget d ''open_questions''),
          stm_risks = json_strs (jget d ''risks''), stm_constraints = json_strs (jget d ''constraints''),
          stm_boundary = (as_int (jget d ''coverage_boundary'')),
          stm_updated = py_str (dict_get_default d ''updated_at'' (JStr now)),
          stm_stable = truthy (dict_get_default d ''stable'' (JBool True))\<rparr>
      | _ \<Rightarrow> Inl (TypeError ''missing required argument''))"

record update_result =
  ur_memory :: "short_term_memory option"
  ur_scheduled :: bool
  ur_stable :: bool

subsection \<open>The stores\<close>

record short_term_future =
  sf_delta :: "session_message list"
  sf_current :: "short_term_memory option"
  sf_outcome :: "(py_error + short_term_memory) option"

record short_term_store =
  sx_records :: "(string, short_term_memory) pydict"
  sx_pending :: "(string, short_term_future) pydict"
  sx_files :: "(string, json) pydict option"
  sx_clock :: nat

definition new_short_term_store :: short_term_store where
  "new_short_term_store = \<lparr>sx_records = [], sx_pending = [], sx_files = None, sx_clock = 0\<rparr>"

text \<open>\<open>_load_existing\<close> skips files that do not hold an object.\<close>

fun load_short_term :: "string \<Rightarrow> json list \<Rightarrow> (string, short_term_memory) pydict \<Rightarrow> py_error + (string, short_term_memory) pydict" where
  "load_short_term now [] d = Inr d"
| "load_short_term now (j # js) d = (case as_dict j of
     None \<Rightarrow> load_short_term now js d
   | Some v \<Rightarrow> ebind (short_term_from_dict now v) (\<lambda>m. load_short_term now js (dict_set (stm_session m) m d)))"

definition open_short_term_store :: "(nat \<Rightarrow> string) \<Rightarrow> nat \<Rightarrow> (string, json) pydict \<Rightarrow> py_error + short_term_store" where
  "open_short_term_store now clock files =
     ebind (load_short_term (now clock) (map snd (sort_key (\<lambda>(i, j). i @ ''.short-term.json'') files)) [])
       (\<lambda>records. Inr \<lparr>sx_records = records, sx_pending = [], sx_files = Some files, sx_clock = Suc clock\<rparr>)"

text \<open>\<open>_build_memory\<close>: the last user message, the last three messages, and the end of the earlier progress.\<close>

definition last_n :: "nat \<Rightarrow> 'a list \<Rightarrow> 'a list" where
  "last_n n xs = drop (length xs - n) xs"

definition build_memory ::
  "string \<Rightarrow> string \<Rightarrow> session_message list \<Rightarrow> short_term_memory option \<Rightarrow> py_error + short_term_memory" where
  "build_memory now s delta current =
     (if delta = [] then Inr (case current of
          Some m \<Rightarrow> m
        | None \<Rightarrow> \<lparr>stm_session = s, stm_summary = [], stm_goal = JNull, stm_progress = [], stm_questions = [],
            stm_risks = [], stm_constraints = [], stm_boundary = None, stm_updated = now, stm_stable = True\<rparr>)
      else ebind (str_contents 0 (map sm_content (last_n 3 delta))) (\<lambda>recent.
        Inr \<lparr>stm_session = s, stm_summary = py_join '' | '' recent,
          stm_goal = (case find_last (\<lambda>m. sm_role m = ''user'') delta of None \<Rightarrow> JNull | Some m \<Rightarrow> sm_content m),
          stm_progress = (case current of None \<Rightarrow> [] | Some m \<Rightarrow> last_n 2 (stm_progress m)) @ last_n 2 recent,
          stm_questions = [], stm_risks = [],
          stm_constraints = (case current of None \<Rightarrow> [] | Some m \<Rightarrow> stm_constraints m),
          stm_boundary = Some (int (length delta)), stm_updated = now, stm_stable = True\<rparr>))"

definition short_term_load :: "(nat \<Rightarrow> string) \<Rightarrow> string \<Rightarrow> (short_term_store, short_term_memory option) eff" where
  "short_term_load now s st = (case dict_get (sx_records st) s of
     Some m \<Rightarrow> (Inr (Some m), st)
   | None \<Rightarrow> (case sx_files st of
       None \<Rightarrow> (Inr None, st)
     | Some files \<Rightarrow> (case dict_get files s of
         None \<Rightarrow> (Inr None, st)
       | Some j \<Rightarrow> (case ebind (case as_dict j of
             None \<Rightarrow> Inl (TypeError ''Short-term memory file must contain a JSON object'')
           | Some d \<Rightarrow> Inr d) (short_term_from_dict (now (sx_clock st))) of
           Inl e \<Rightarrow> (Inl e, st)
         | Inr m \<Rightarrow> (Inr (Some m), st\<lparr>sx_records := dict_set s m (sx_records st), sx_clock := Suc (sx_clock st)\<rparr>)))))"

definition short_term_update ::
  "string \<Rightarrow> session_message list \<Rightarrow> short_term_memory option \<Rightarrow> (short_term_store, update_result) eff" where
  "short_term_update s delta current = bind (modify (\<lambda>st. st\<lparr>sx_pending := dict_set s
       \<lparr>sf_delta = delta, sf_current = current, sf_outcome = None\<rparr> (sx_pending st)\<rparr>))
     (\<lambda>_. ret \<lparr>ur_memory = current, ur_scheduled = True, ur_stable = False\<rparr>)"

text \<open>A worker of the pool runs the pending future of a session.\<close>

definition build_pending :: "(nat \<Rightarrow> string) \<Rightarrow> string \<Rightarrow> short_term_store \<Rightarrow> short_term_store" where
  "build_pending now s st = (case dict_get (sx_pending st) s of
     None \<Rightarrow> st
   | Some f \<Rightarrow> if sf_outcome f \<noteq> None then st
       else st\<lparr>sx_pending := dict_set s (f\<lparr>sf_outcome :=
            Some (build_memory (now (sx_clock st)) s (sf_delta f) (sf_current f))\<rparr>) (sx_pending st),
          sx_clock := Suc (sx_clock st)\<rparr>)"

definition coverage_boundary :: "(nat \<Rightarrow> string) \<Rightarrow> string \<Rightarrow> (short_term_store, int option) eff" where
  "coverage_boundary now s = bind (short_term_load now s)
     (\<lambda>m. ret (case m of None \<Rightarrow> None | Some m \<Rightarrow> stm_boundary m))"

definition base_wait_until_stable :: "string \<Rightarrow> (short_term_store, short_term_memory option) eff" where
  "base_wait_until_stable s st = (case dict_get (sx_pending st) s of
     None \<Rightarrow> (Inr (dict_get (sx_records st) s), st)
   | Some f \<Rightarrow> (case sf_outcome f of
       None \<Rightarrow> (Inr None, st)
     | Some (Inl e) \<Rightarrow> (Inl e, st)
     | Some (Inr m) \<Rightarrow> (Inr (Some m), st\<lparr>sx_records := dict_set s m (sx_records st),
         sx_pending := dict_pop s (sx_pending st)\<rparr>)))"

text \<open>The file store writes what the inherited method returns.\<close>

definition wait_until_stable :: "string \<Rightarrow> (short_term_store, short_term_memory option) eff" where
  "wait_until_stable s = bind (base_wait_until_stable s) (\<lambda>r. case r of
     None \<Rightarrow> ret None
   | Some m \<Rightarrow> bind (modify (\<lambda>st. st\<lparr>sx_files := map_option
       (dict_set s (sorted_json (JDict (short_term_to_dict m)))) (sx_files st)\<rparr>)) (\<lambda>_. ret (Some m)))"

subsection \<open>The runtime\<close>

record dreaming_scheduler =
  ds_enabled :: bool
  ds_min_interval :: int
  ds_last_run :: "int option"

text \<open>Instants are microseconds.\<close>

definition should_run :: "int \<Rightarrow> dreaming_scheduler \<Rightarrow> bool" where
  "should_run now d = (if \<not> ds_enabled d then False
     else case ds_last_run d of None \<Rightarrow> True | Some t \<Rightarrow> ds_min_interval d * 1000000 \<le> now - t)"

definition mark_scheduled :: "int \<Rightarrow> dreaming_scheduler \<Rightarrow> dreaming_scheduler" where
  "mark_scheduled now d = d\<lparr>ds_last_run := Some now\<rparr>"

text \<open>The state of the runtime these methods use; \<open>rm_session\<close> is the session object they change in place.\<close>

record 'w memory_runtime =
  rm_session :: session_record
  rm_memory :: "'w memory_store option"
  rm_short :: "short_term_store option"
  rm_scheduler :: dreaming_scheduler
  rm_dreaming_config :: json_object
  rm_last_session :: "session_record option"
  rm_last_job :: "string option"
  rm_last_dream :: "string option"

text \<open>A call on the durable or on the short-term store of the runtime.\<close>

definition on_memory :: "('w memory_store, 'a) eff \<Rightarrow> 'w memory_store \<Rightarrow> ('w memory_runtime, 'a) eff" where
  "on_memory m ms rt = (let (r, ms') = m ms in (r, rt\<lparr>rm_memory := Some ms'\<rparr>))"

definition on_short :: "(short_term_store, 'a) eff \<Rightarrow> short_term_store \<Rightarrow> ('w memory_runtime, 'a) eff" where
  "on_short m ss rt = (let (r, ss') = m ss in (r, rt\<lparr>rm_short := Some ss'\<rparr>))"

definition set_short_term :: "short_term_memory option \<Rightarrow> ('w memory_runtime, unit) eff" where
  "set_short_term m = (case m of None \<Rightarrow> ret ()
     | Some m \<Rightarrow> modify (\<lambda>rt. rt\<lparr>rm_session := (rm_session rt)\<lparr>sr_short_term := Some (short_term_to_dict m)\<rparr>\<rparr>))"

definition schedule_short_term :: "(nat \<Rightarrow> string) \<Rightarrow> ('w memory_runtime, unit) eff" where
  "schedule_short_term now rt = (case rm_short rt of
     None \<Rightarrow> (Inr (), rt)
   | Some ss \<Rightarrow> (let s = rm_session rt in
       bind (on_short (bind (short_term_load now (sr_id s)) (short_term_update (sr_id s) (sr_messages s))) ss)
         (\<lambda>u. set_short_term (ur_memory u)) rt))"

definition schedule_memory_maintenance :: "(nat \<Rightarrow> string) \<Rightarrow> ('w memory_runtime, unit) eff" where
  "schedule_memory_maintenance now =
     bind (modify (\<lambda>rt. rt\<lparr>rm_last_session := Some (rm_session rt)\<rparr>)) (\<lambda>_.
     bind (schedule_short_term now) (\<lambda>_ rt.
       (let s = rm_session rt in case rm_memory rt of
          None \<Rightarrow> (Inr (), rt)
        | Some ms \<Rightarrow> if am_enabled (dm_config ms) \<and> sr_messages s \<noteq> []
            then bind (on_memory (memory_schedule (sr_id s) (sr_messages s) (sr_agent s) None None) ms)
              (\<lambda>job. modify (\<lambda>rt. rt\<lparr>rm_last_job := Some (cj_id job)\<rparr>)) rt
            else (Inr (), rt))))"

definition stabilize_short_term_memory :: "('w memory_runtime, unit) eff" where
  "stabilize_short_term_memory rt = (case rm_short rt of
     None \<Rightarrow> (Inr (), rt)
   | Some ss \<Rightarrow> bind (on_short (wait_until_stable (sr_id (rm_session rt))) ss) set_short_term rt)"

definition maybe_schedule_dreaming :: "int \<Rightarrow> ('w memory_runtime, consolidation_job option) eff" where
  "maybe_schedule_dreaming now rt = (case (rm_last_session rt, rm_memory rt) of
     (Some s, Some ms) \<Rightarrow>
       (if \<not> am_enabled (dm_config ms) \<or> sr_messages s = [] \<or> \<not> should_run now (rm_scheduler rt) then (Inr None, rt)
        else bind (on_memory (memory_schedule (sr_id s) (sr_messages s) (sr_agent s) (Some ''dream'')
              (Some (rm_dreaming_config rt))) ms) (\<lambda>job.
            bind (modify (\<lambda>rt. rt\<lparr>rm_scheduler := mark_scheduled now (rm_scheduler rt),
               rm_last_dream := Some (cj_id job)\<rparr>)) (\<lambda>_. ret (Some job))) rt)
   | _ \<Rightarrow> (Inr None, rt))"

text \<open>
  The post-turn processor: \<open>pool\<close> is what the workers of both stores did between the scheduling and
  the wait.
\<close>

definition memory_maintenance ::
  "(nat \<Rightarrow> string) \<Rightarrow> int \<Rightarrow> ('w memory_runtime \<Rightarrow> 'w memory_runtime) \<Rightarrow> ('w memory_runtime, unit) eff" where
  "memory_maintenance now time pool rt =
     (if rm_short rt = None \<and> rm_memory rt = None then (Inr (), rt)
      else bind (schedule_memory_maintenance now) (\<lambda>_.
           bind (modify pool) (\<lambda>_.
           bind stabilize_short_term_memory (\<lambda>_.
           bind (maybe_schedule_dreaming time) (\<lambda>_. ret ())))) rt)"

text \<open>What the next turn loads for its prompt.\<close>

definition load_short_term_memory :: "(nat \<Rightarrow> string) \<Rightarrow> ('w memory_runtime, short_term_memory option) eff" where
  "load_short_term_memory now rt = (case rm_short rt of
     None \<Rightarrow> (Inr None, rt)
   | Some ss \<Rightarrow> bind (on_short (wait_until_stable (sr_id (rm_session rt))) ss) (\<lambda>stable. case stable of
       Some m \<Rightarrow> bind (set_short_term (Some m)) (\<lambda>_. ret (Some m))
     | None \<Rightarrow> (\<lambda>rt. case rm_short rt of None \<Rightarrow> (Inr None, rt) | Some ss \<Rightarrow>
         bind (on_short (short_term_load now (sr_id (rm_session rt))) ss) (\<lambda>loaded.
         bind (set_short_term loaded) (\<lambda>_. ret loaded)) rt)) rt)"

end
