(* ===== verification/MemoryProps.thy ===== *)
theory MemoryProps
  imports MemoryRuntime "HOL-Library.Multiset"
begin

text \<open>
  Properties of the two memories: what a recall may return, what a file-backed store keeps across a
  restart and what it loses, and what a transcript with tool results does to both.
\<close>

declare map_of_eq_Some_iff [simp del]

subsection \<open>Selection\<close>

definition total_size :: "memory_record list \<Rightarrow> int" where
  "total_size rs = sum_list (map content_size rs)"

lemma total_size_append [simp]: "total_size (xs @ ys) = total_size xs + total_size ys"
  by (simp add: total_size_def)

lemma total_size_simps [simp]: "total_size [] = 0" "total_size (r # rs) = content_size r + total_size rs"
  by (simp_all add: total_size_def)

text \<open>The loop returns what it has and a prefix of the rest, within both bounds.\<close>

lemma take_bounded_prefix: "\<exists>k. take_bounded n b acc s rs = acc @ take k rs"
proof (induction n b acc s rs rule: take_bounded.induct)
  case (1 n b acc s)
  show ?case by simp
next
  case (2 n b acc s r rs)
  show ?case
  proof (cases "n \<le> int (length acc) \<or> acc \<noteq> [] \<and> b < s + content_size r")
    case True
    then have "take_bounded n b acc s (r # rs) = acc @ take 0 (r # rs)" by auto
    then show ?thesis by blast
  next
    case False
    then obtain k where "take_bounded n b (acc @ [r]) (s + content_size r) rs = (acc @ [r]) @ take k rs"
      using 2 by blast
    then have "take_bounded n b acc s (r # rs) = acc @ take (Suc k) (r # rs)" using False by auto
    then show ?thesis by blast
  qed
qed

lemma take_bounded_length: "int (length acc) \<le> max 0 n \<Longrightarrow> int (length (take_bounded n b acc s rs)) \<le> max 0 n"
  by (induction n b acc s rs rule: take_bounded.induct) auto

lemma take_bounded_size:
  assumes "s = total_size acc" "length acc \<le> 1 \<or> total_size acc \<le> b"
  shows "length (take_bounded n b acc s rs) \<le> 1 \<or> total_size (take_bounded n b acc s rs) \<le> b"
  using assms
proof (induction n b acc s rs rule: take_bounded.induct)
  case (2 n b acc s r rs)
  show ?case
  proof (cases "n \<le> int (length acc) \<or> acc \<noteq> [] \<and> b < s + content_size r")
    case True
    then show ?thesis using 2 by auto
  next
    case False
    then have "length (acc @ [r]) \<le> 1 \<or> total_size (acc @ [r]) \<le> b" using 2 by (cases "acc = []") auto
    with 2(1) False 2(2) show ?thesis by auto
  qed
qed simp

lemma ordered_candidates_sorted:
  "sorted_wrt (\<lambda>a b. recall_score rq b \<le> recall_score rq a) (ordered_candidates rq ov rs)"
proof -
  have "sorted_wrt (\<lambda>a b. - recall_score rq a \<le> - recall_score rq b) (ordered_candidates rq ov rs)"
    using sorted_sort_key [of "\<lambda>r. - recall_score rq r" "filter (recall_eligible rq ov) rs"]
    by (simp only: ordered_candidates_def sorted_map)
  then show ?thesis by simp
qed

lemma set_ordered_candidates: "set (ordered_candidates rq ov rs) = {r \<in> set rs. recall_eligible rq ov r}"
  by (simp add: ordered_candidates_def)

lemma mset_ordered_candidates: "mset (ordered_candidates rq ov rs) \<subseteq># mset rs"
  by (simp add: ordered_candidates_def multiset_filter_subset)

text \<open>What a selection guarantees.\<close>

definition good_selection :: "recall_request \<Rightarrow> overlay list option \<Rightarrow> memory_record list \<Rightarrow> memory_record list \<Rightarrow> bool" where
  "good_selection rq ov rs out \<longleftrightarrow>
     mset out \<subseteq># mset rs
     \<and> (\<forall>r \<in> set out. recall_eligible rq ov r)
     \<and> sorted_wrt (\<lambda>a b. recall_score rq b \<le> recall_score rq a) out
     \<and> (\<forall>r \<in> set rs. recall_eligible rq ov r \<and> r \<notin> set out \<longrightarrow> (\<forall>s \<in> set out. recall_score rq r \<le> recall_score rq s))
     \<and> int (length out) \<le> max 0 (int_or (rq_max_results rq) 5)
     \<and> (length out \<le> 1 \<or> total_size out \<le> int_or (rq_max_bytes rq) 16000)"

lemma select_good:
  assumes "normalize_overlay_selector (rq_scopes rq) = Inr ov"
  shows "\<exists>out. select_recall_candidates rs rq = Inr out \<and> good_selection rq ov rs out"
proof -
  define c where "c = ordered_candidates rq ov rs"
  define out where "out = take_bounded (int_or (rq_max_results rq) 5) (int_or (rq_max_bytes rq) 16000) [] 0 c"
  have "\<exists>k. out = [] @ take k c" unfolding out_def by (rule take_bounded_prefix)
  then obtain k where k: "out = take k c" by auto
  have c: "c = out @ drop k c" by (simp add: k)
  have sorted: "sorted_wrt (\<lambda>a b. recall_score rq b \<le> recall_score rq a) (out @ drop k c)"
    using ordered_candidates_sorted [of rq ov rs] c by (simp add: c_def)
  have mset: "mset out \<subseteq># mset rs"
  proof -
    have "mset out \<subseteq># mset c" by (subst c) simp
    also have "mset c \<subseteq># mset rs" by (simp add: c_def mset_ordered_candidates)
    finally show ?thesis .
  qed
  have sub: "set out \<subseteq> {r \<in> set rs. recall_eligible rq ov r}"
    using set_take_subset [of k c] by (simp add: k c_def set_ordered_candidates [symmetric])
  have left: "recall_score rq r \<le> recall_score rq s"
    if "r \<in> set rs" "recall_eligible rq ov r" "r \<notin> set out" "s \<in> set out" for r s
  proof -
    have "r \<in> set c" using that by (simp add: c_def set_ordered_candidates)
    with c that have "r \<in> set (drop k c)" by (metis Un_iff set_append)
    with sorted that show ?thesis by (auto simp: sorted_wrt_append)
  qed
  have "int (length out) \<le> max 0 (int_or (rq_max_results rq) 5)"
    unfolding out_def by (rule take_bounded_length) simp
  moreover have "length out \<le> 1 \<or> total_size out \<le> int_or (rq_max_bytes rq) 16000"
    unfolding out_def by (rule take_bounded_size) simp_all
  moreover have "select_recall_candidates rs rq = Inr out"
    using assms by (simp add: select_recall_candidates_def out_def c_def)
  ultimately show ?thesis
    using mset sub left sorted by (auto simp: good_selection_def sorted_wrt_append)
qed

subsection \<open>The invariant of a store\<close>

lemma overlay_of_value [simp]: "overlay_of (overlay_value v) = Inr v"
  by (cases v) (simp_all add: overlay_of_def overlay_family_def)

lemma memory_type_of_idem [simp]: "memory_type_str (memory_type_of s) = s"
  by (auto simp: memory_type_of_def payload_of_def find_Some_iff split: option.split)

text \<open>A record as \<open>from_dict\<close> types it, that record without the write path in its metadata, and the record a file gives back.\<close>

definition type_norm :: "memory_record \<Rightarrow> memory_record" where
  "type_norm r = r\<lparr>mem_type := memory_type_of (memory_type_str (mem_type r))\<rparr>"

definition forget_path :: "memory_record \<Rightarrow> memory_record" where
  "forget_path r = (type_norm r)\<lparr>mem_metadata := dict_pop ''write_path'' (mem_metadata r)\<rparr>"

definition file_norm :: "memory_record \<Rightarrow> memory_record" where
  "file_norm r = type_norm (r\<lparr>mem_metadata := sorted_object (mem_metadata r)\<rparr>)"

lemma memory_from_to_dict [simp]: "memory_from_dict (memory_to_dict r) = Inr (type_norm r)"
  by (simp add: memory_from_dict_def memory_to_dict_def type_norm_def dict_get_default_def)

lemma memory_from_sorted: "memory_from_dict (sorted_object (memory_to_dict r)) = Inr (file_norm r)"
  by (simp add: memory_from_dict_def memory_to_dict_def field_sorted file_norm_def type_norm_def field_req_def
      dict_get_default_def)

lemma forget_path_fields [simp]:
  "mem_id (forget_path r) = mem_id r" "forget_path (r\<lparr>mem_metadata := dict_set ''write_path'' v (mem_metadata r)\<rparr>) = forget_path r"
  by (simp_all add: forget_path_def type_norm_def delete_update_same)

lemma forget_path_id: "forget_path r' = forget_path r \<Longrightarrow> mem_id r' = mem_id r"
  by (metis forget_path_fields(1))

lemma stamped_ok: "stamped p r = Inr (type_norm (r\<lparr>mem_metadata := dict_set ''write_path'' (JStr (write_path_value p)) (mem_metadata r)\<rparr>))"
  by (simp add: stamped_def memory_from_dict_def memory_to_dict_def type_norm_def dict_get_default_def)

definition mirrors :: "string \<Rightarrow> json option \<Rightarrow> memory_record option \<Rightarrow> bool" where
  "mirrors i = rel_option (\<lambda>j r. \<exists>r'. j = record_file r' \<and> forget_path r' = forget_path r)"

definition durable_inv :: "'w memory_store \<Rightarrow> bool" where
  "durable_inv st \<longleftrightarrow> wf_dict (dm_records st)
     \<and> (\<forall>i r. dict_get (dm_records st) i = Some r \<longrightarrow> mem_id r = i)
     \<and> (\<forall>k r. dict_get (dm_records st) (memory_key k) = Some r \<longrightarrow> k \<le> dm_counter st)
     \<and> (\<forall>fs. dm_files st = Some fs \<longrightarrow> wf_dict fs \<and> (\<forall>i. mirrors i (dict_get fs i) (dict_get (dm_records st) i)))"

text \<open>An id a client may use: not one the counter has yet to give out.\<close>

definition fresh_id :: "'w memory_store \<Rightarrow> string \<Rightarrow> bool" where
  "fresh_id st i \<longleftrightarrow> (\<forall>k. i = memory_key k \<longrightarrow> k \<le> dm_counter st)"

lemma memory_key_inject [simp]: "memory_key k = memory_key j \<longleftrightarrow> k = j"
  by (simp add: memory_key_def)

lemma fresh_memory_key [simp]: "fresh_id st (memory_key k) \<longleftrightarrow> k \<le> dm_counter st"
  by (auto simp: fresh_id_def)

lemma durable_inv_new: "durable_inv (new_memory_store c w)"
  by (simp add: durable_inv_def new_memory_store_def)

lemma durable_invI:
  assumes "wf_dict (dm_records st)" "\<And>i r. dict_get (dm_records st) i = Some r \<Longrightarrow> mem_id r = i"
    "\<And>k r. dict_get (dm_records st) (memory_key k) = Some r \<Longrightarrow> k \<le> dm_counter st"
    "\<And>fs. dm_files st = Some fs \<Longrightarrow> wf_dict fs"
    "\<And>fs i. dm_files st = Some fs \<Longrightarrow> mirrors i (dict_get fs i) (dict_get (dm_records st) i)"
  shows "durable_inv st"
  using assms unfolding durable_inv_def by blast

lemma durable_invD:
  assumes "durable_inv st"
  shows "wf_dict (dm_records st)" "dict_get (dm_records st) i = Some r \<Longrightarrow> mem_id r = i"
    "dict_get (dm_records st) (memory_key k) = Some r \<Longrightarrow> k \<le> dm_counter st"
    "dm_files st = Some fs \<Longrightarrow> wf_dict fs"
    "dm_files st = Some fs \<Longrightarrow> mirrors i (dict_get fs i) (dict_get (dm_records st) i)"
  using assms unfolding durable_inv_def by blast+

text \<open>What does not touch the records, the counter and the files keeps the invariant.\<close>

lemma durable_inv_frame:
  assumes "durable_inv st" "dm_records st' = dm_records st" "dm_counter st \<le> dm_counter st'" "dm_files st' = dm_files st"
  shows "durable_inv st'"
proof (rule durable_invI)
  show "k \<le> dm_counter st'" if "dict_get (dm_records st') (memory_key k) = Some r" for k r
    using that assms(2,3) durable_invD(3) [OF assms(1), of k r] by simp
qed (use assms(2,4) durable_invD [OF assms(1)] in simp_all)

lemma mirrors_Some [simp]:
  "mirrors i (Some j) (Some r) \<longleftrightarrow> (\<exists>r'. j = record_file r' \<and> forget_path r' = forget_path r)" "mirrors i None None"
  by (simp_all add: mirrors_def)

lemma durable_inv_write:
  assumes inv: "durable_inv st" and r: "dict_get (dm_records st) (mem_id r') = Some r" "forget_path r' = forget_path r"
  shows "durable_inv (snd (write_record r' st))"
proof (rule durable_invI)
  fix fs' i assume "dm_files (snd (write_record r' st)) = Some fs'"
  then obtain fs where fs: "dm_files st = Some fs" "fs' = dict_set (mem_id r') (record_file r') fs"
    by (auto simp: write_record_def modify_def)
  show "wf_dict fs'" using durable_invD(4) [OF inv fs(1)] by (simp add: fs(2))
  show "mirrors i (dict_get fs' i) (dict_get (dm_records (snd (write_record r' st))) i)"
  proof (cases "i = mem_id r'")
    case True
    then show ?thesis using r by (auto simp: fs(2) write_record_def modify_def)
  next
    case False
    then show ?thesis using durable_invD(5) [OF inv fs(1), of i] by (simp add: fs(2) write_record_def modify_def)
  qed
qed (use inv in \<open>auto simp: write_record_def modify_def dest: durable_invD\<close>)

lemma durable_inv_set:
  assumes inv: "durable_inv st" and r: "fresh_id st (mem_id r)"
  shows "durable_inv (snd (upsert_memory r st))"
proof (rule durable_invI)
  fix fs' i assume "dm_files (snd (upsert_memory r st)) = Some fs'"
  then obtain fs where fs: "dm_files st = Some fs" "fs' = dict_set (mem_id r) (record_file r) fs"
    by (auto simp: upsert_memory_def write_record_def eff_defs)
  show "wf_dict fs'" using durable_invD(4) [OF inv fs(1)] by (simp add: fs(2))
  show "mirrors i (dict_get fs' i) (dict_get (dm_records (snd (upsert_memory r st))) i)"
  proof (cases "i = mem_id r")
    case True
    then show ?thesis by (auto simp: fs(2) upsert_memory_def write_record_def eff_defs)
  next
    case False
    then show ?thesis using durable_invD(5) [OF inv fs(1), of i]
      by (simp add: fs(2) upsert_memory_def write_record_def eff_defs)
  qed
next
  fix k r' assume "dict_get (dm_records (snd (upsert_memory r st))) (memory_key k) = Some r'"
  then show "k \<le> dm_counter (snd (upsert_memory r st))"
    using r durable_invD(3) [OF inv, of k r']
    by (auto simp: upsert_memory_def write_record_def eff_defs fresh_id_def split: if_splits)
qed (use inv in \<open>auto simp: upsert_memory_def write_record_def eff_defs split: if_splits dest: durable_invD\<close>)

lemma upsert_result: "upsert_memory r st = (Inr r, snd (upsert_memory r st))"
  by (simp add: upsert_memory_def write_record_def eff_defs)

lemma upsert_get: "dict_get (dm_records (snd (upsert_memory r st))) = (dict_get (dm_records st))(mem_id r \<mapsto> r)"
  by (simp add: upsert_memory_def write_record_def eff_defs fun_eq_iff)

lemma upsert_frame [simp]:
  "dm_counter (snd (upsert_memory r st)) = dm_counter st" "dm_config (snd (upsert_memory r st)) = dm_config st"
  by (simp_all add: upsert_memory_def write_record_def eff_defs)

lemma write_frame [simp]:
  "dm_records (snd (write_record r st)) = dm_records st" "fst (write_record r st) = Inr ()"
  "dm_counter (snd (write_record r st)) = dm_counter st" "dm_config (snd (write_record r st)) = dm_config st"
  by (simp_all add: write_record_def modify_def)

lemma durable_inv_delete:
  assumes inv: "durable_inv st"
  shows "durable_inv (snd (memory_delete i st))"
proof (cases "dict_get (dm_records st) i = None")
  case True
  then show ?thesis using inv by (simp add: memory_delete_def eff_defs)
next
  case False
  then have st': "snd (memory_delete i st)
      = st\<lparr>dm_records := dict_pop i (dm_records st), dm_files := map_option (dict_pop i) (dm_files st)\<rparr>"
    by (simp add: memory_delete_def eff_defs)
  show ?thesis
  proof (rule durable_invI)
    fix fs' j assume "dm_files (snd (memory_delete i st)) = Some fs'"
    then obtain fs where fs: "dm_files st = Some fs" "fs' = dict_pop i fs" by (auto simp: st')
    show "wf_dict fs'" using durable_invD(4) [OF inv fs(1)] by (simp only: fs(2) wf_dict_pop)
    show "mirrors j (dict_get fs' j) (dict_get (dm_records (snd (memory_delete i st))) j)"
      using durable_invD(5) [OF inv fs(1), of j] by (simp add: fs(2) st')
  next
    show "wf_dict (dm_records (snd (memory_delete i st)))"
      unfolding st' using durable_invD(1) [OF inv] by (simp del: dict_pop_keys)
  qed (use inv in \<open>auto simp: st' split: if_splits dest: durable_invD\<close>)
qed

lemma dict_get_merge_absent: "dict_get e k = None \<Longrightarrow> dict_get (dict_merge d e) k = dict_get d k"
proof (induction e arbitrary: d)
  case (Cons kv e)
  then show ?case by (cases kv) (auto split: if_splits)
qed simp

lemma memory_from_dict_id:
  assumes "memory_from_dict d = Inr u"
  shows "\<exists>v. dict_get d ''memory_id'' = Some v \<and> mem_id u = py_str v"
  using assms by (auto simp: memory_from_dict_def ebind_Inr_iff field_str_def field_req_def split: option.splits)

lemma update_memory_cases:
  assumes "durable_inv st" "dict_get patch ''memory_id'' = None"
  shows "(\<exists>e. update_memory env i patch st = (Inl e, st))
    \<or> (\<exists>u. mem_id u = i \<and> dict_get (dm_records st) i \<noteq> None
      \<and> update_memory env i patch st = (Inr u, snd (upsert_memory u (st\<lparr>dm_clock := Suc (dm_clock st)\<rparr>))))"
proof (cases "dict_get (dm_records st) i")
  case None
  then show ?thesis by (simp add: update_memory_def eff_defs)
next
  case (Some r)
  show ?thesis
  proof (cases "memory_from_dict (dict_merge (memory_to_dict r) patch)")
    case (Inl e)
    then show ?thesis using Some by (simp add: update_memory_def eff_defs)
  next
    case (Inr u)
    have "dict_get (dict_merge (memory_to_dict r) patch) ''memory_id'' = Some (JStr (mem_id r))"
      using assms(2) by (simp add: dict_get_merge_absent memory_to_dict_def)
    then have "mem_id u = i" using memory_from_dict_id [OF Inr] durable_invD(2) [OF assms(1) Some] by simp
    then show ?thesis
      using Some Inr
      by (simp add: update_memory_def upsert_memory_def write_record_def memory_now_def eff_defs Let_def)
  qed
qed

lemma fresh_present: "durable_inv st \<Longrightarrow> dict_get (dm_records st) i \<noteq> None \<Longrightarrow> fresh_id st i"
  by (auto simp: fresh_id_def dest: durable_invD(3))

lemma durable_inv_clock [simp]: "durable_inv (st\<lparr>dm_clock := t\<rparr>) \<longleftrightarrow> durable_inv st" "fresh_id (st\<lparr>dm_clock := t\<rparr>) i \<longleftrightarrow> fresh_id st i"
  by (simp_all add: durable_inv_def fresh_id_def)

lemma durable_inv_update:
  assumes "durable_inv st" "dict_get patch ''memory_id'' = None"
  shows "durable_inv (snd (update_memory env i patch st))"
  using update_memory_cases [OF assms, of env i] assms(1) by (auto simp: durable_inv_set fresh_present)

lemma durable_inv_direct_write:
  assumes inv: "durable_inv st" and r: "fresh_id st (mem_id r)"
  shows "durable_inv (snd (direct_write env r st))"
proof (cases "am_enabled (dm_config st)")
  case True
  define st1 where "st1 = snd (upsert_memory r st)"
  have st1: "durable_inv st1" unfolding st1_def by (rule durable_inv_set [OF inv r])
  have u: "upsert_memory r st = (Inr r, st1)" using upsert_result [of r st] by (simp add: st1_def)
  let ?patch = "[(''metadata'', JDict (dict_set ''write_path'' (JStr (write_path_value DIRECT_WRITE)) (mem_metadata r)))]"
  have p: "dict_get ?patch ''memory_id'' = None" by simp
  show ?thesis
  using update_memory_cases [OF st1 p, of env "mem_id r"]
  proof (elim disjE exE conjE)
    fix e assume "update_memory env (mem_id r) ?patch st1 = (Inl e, st1)"
    then show ?thesis using True st1 u by (simp add: direct_write_def bind_def gets_def)
  next
    fix v
    define st2 where "st2 = snd (upsert_memory v (st1\<lparr>dm_clock := Suc (dm_clock st1)\<rparr>))"
    assume v: "mem_id v = mem_id r" "dict_get (dm_records st1) (mem_id r) \<noteq> None"
      "update_memory env (mem_id r) ?patch st1 = (Inr v, snd (upsert_memory v (st1\<lparr>dm_clock := Suc (dm_clock st1)\<rparr>)))"
    have "durable_inv st2" unfolding st2_def using st1 v by (simp add: durable_inv_set fresh_present)
    moreover have "dict_get (dm_records st2) (mem_id v) = Some v" by (simp add: st2_def upsert_get)
    ultimately have "durable_inv (snd (write_record v st2))" by (rule durable_inv_write) simp
    moreover have "direct_write env r st = (Inr v, snd (write_record v st2))"
      using True u v(3) by (simp add: direct_write_def bind_def st2_def write_record_def eff_defs)
    ultimately show ?thesis by simp
  qed
qed (use inv in \<open>simp add: direct_write_def eff_defs\<close>)

subsection \<open>Extraction and dreaming\<close>

text \<open>Writing the records a result names, when they are stored, leaves the records in place.\<close>

definition settled :: "(string, memory_record) pydict \<Rightarrow> 'w memory_store \<Rightarrow> bool" where
  "settled rs st \<longleftrightarrow> durable_inv st \<and> dm_records st = rs"

definition stored_in :: "(string, memory_record) pydict \<Rightarrow> memory_record \<Rightarrow> bool" where
  "stored_in rs r \<longleftrightarrow> (\<exists>r'. dict_get rs (mem_id r) = Some r' \<and> forget_path r = forget_path r')"

lemma write_settled: "stored_in rs r \<Longrightarrow> triple (settled rs) (write_record r) (\<lambda>_. settled rs) (\<lambda>_ _. False)"
  by (rule tripleI) (auto simp: settled_def stored_in_def split_beta write_record_def modify_def
      dest: durable_inv_write)

lemma writes_settled:
  assumes "\<forall>r \<in> set records. stored_in rs r"
  shows "triple (settled rs) (bind (each write_record records) (\<lambda>_. bind (write_skipped_records skipped) (\<lambda>_. ret x)))
     (\<lambda>y st. y = x \<and> settled rs st) (\<lambda>_ _. False)"
proof (rule triple_bind)
  show "triple (settled rs) (each write_record records) (\<lambda>_. settled rs) (\<lambda>_ _. False)"
    by (rule triple_each) (use assms write_settled in blast)
  show "triple (settled rs) (bind (write_skipped_records skipped) (\<lambda>_. ret x)) (\<lambda>y st. y = x \<and> settled rs st) (\<lambda>_ _. False)"
  proof (rule triple_bind)
    show "triple (settled rs) (write_skipped_records skipped) (\<lambda>_. settled rs) (\<lambda>_ _. False)"
      unfolding write_skipped_records_def
    proof (rule triple_each, rule tripleI)
      fix i st assume st: "settled rs st"
      show "case bind (gets (\<lambda>st. dict_get (dm_records st) i)) (\<lambda>r. case r of None \<Rightarrow> ret () | Some r \<Rightarrow> write_record r) st of
          (Inl e, s') \<Rightarrow> False | (Inr x, s') \<Rightarrow> settled rs s'"
      proof (cases "dict_get rs i")
        case None
        then show ?thesis using st by (simp add: settled_def ret_def)
      next
        case (Some r')
        then have "stored_in rs r'"
          using st durable_invD(2) [of st i r'] by (auto simp: settled_def stored_in_def)
        from tripleD [OF write_settled [OF this] st] Some st show ?thesis by (simp add: settled_def)
      qed
    qed
  qed (simp add: triple_ret)
qed

text \<open>Extraction gives at most one record, under an id no stored record has.\<close>

definition extraction_of :: "memory_record list \<Rightarrow> 'w memory_store \<Rightarrow> bool" where
  "extraction_of rs st \<longleftrightarrow> durable_inv st \<and> (rs = [] \<or> (\<exists>r. rs = [r] \<and> fresh_id st (mem_id r)
     \<and> dict_get (dm_records st) (mem_id r) = None))"

lemma extract_cases:
  "(\<exists>e. memory_extract env ms session agent st = (Inl e, st)) \<or> memory_extract env ms session agent st = (Inr [], st)
   \<or> memory_extract env ms session agent st =
       (Inr [extracted_record (Suc (dm_counter st)) (mv_now env (dm_clock st)) (mv_now env (Suc (dm_clock st))) ms session agent],
        st\<lparr>dm_counter := Suc (dm_counter st), dm_clock := Suc (Suc (dm_clock st))\<rparr>)"
  by (cases "join_contents '' '' ms") (auto simp: memory_extract_def eff_defs memory_now_def)

lemma extracted_id [simp]: "mem_id (extracted_record k t1 t2 ms session agent) = memory_key k"
  by (simp add: extracted_record_def Let_def)

lemma extract_triple:
  fixes env :: "'a mem_env"
  shows "triple durable_inv (memory_extract env ms session agent) extraction_of (\<lambda>_. durable_inv)"
proof (rule tripleI)
  fix st :: "'a memory_store" assume inv: "durable_inv st"
  define st' where "st' = st\<lparr>dm_counter := Suc (dm_counter st), dm_clock := Suc (Suc (dm_clock st))\<rparr>"
  have inv': "durable_inv st'" by (rule durable_inv_frame [OF inv]) (simp_all add: st'_def)
  have "dict_get (dm_records st) (memory_key (Suc (dm_counter st))) = None"
    using durable_invD(3) [OF inv, of "Suc (dm_counter st)"] by (cases "dict_get (dm_records st) (memory_key (Suc (dm_counter st)))") auto
  then have "extraction_of [extracted_record (Suc (dm_counter st)) (mv_now env (dm_clock st)) (mv_now env (Suc (dm_clock st))) ms session agent] st'"
    using inv' by (simp add: extraction_of_def st'_def)
  then show "case memory_extract env ms session agent st of (Inl e, s') \<Rightarrow> durable_inv s' | (Inr x, s') \<Rightarrow> extraction_of x s'"
    using extract_cases [of env ms session agent st] inv by (auto simp: extraction_of_def st'_def)
qed

lemma type_norm_id [simp]: "mem_id (type_norm r) = mem_id r" "forget_path (type_norm r) = forget_path r"
  by (simp_all add: type_norm_def forget_path_def)

lemma store_extracted_triple:
  "triple (extraction_of rs) (store_extracted rs)
     (\<lambda>_ st. durable_inv st \<and> (\<forall>r \<in> set rs. stored_in (dm_records st) r \<or> dict_get (dm_records st) (mem_id r) = None))
     (\<lambda>_. durable_inv)"
proof (rule tripleI)
  fix st assume ex: "extraction_of rs st"
  then have inv: "durable_inv st" by (simp add: extraction_of_def)
  show "case store_extracted rs st of (Inl e, s') \<Rightarrow> durable_inv s'
    | (Inr x, s') \<Rightarrow> durable_inv s' \<and> (\<forall>r \<in> set rs. stored_in (dm_records s') r \<or> dict_get (dm_records s') (mem_id r) = None)"
  proof (cases rs)
    case Nil
    then show ?thesis using inv by (simp add: ret_def)
  next
    case (Cons r rs')
    then have rs: "rs = [r]" and r: "fresh_id st (mem_id r)" "dict_get (dm_records st) (mem_id r) = None"
      using ex by (auto simp: extraction_of_def)
    define r' where "r' = type_norm (r\<lparr>mem_metadata := dict_set ''write_path'' (JStr (write_path_value EXTRACT)) (mem_metadata r)\<rparr>)"
    have r': "mem_id r' = mem_id r" "forget_path r' = forget_path r" by (simp_all add: r'_def)
    show ?thesis
    proof (cases "find_duplicate r st")
      case None
      define st' where "st' = snd (upsert_memory r' st)"
      have u: "stamped EXTRACT r = Inr r'" "upsert_memory r' st = (Inr r', st')"
        using upsert_result [of r' st] by (simp_all add: stamped_ok r'_def st'_def)
      have "store_extracted [r] st = (Inr [], st')"
        using None u by (simp add: bind_def gets_def ret_def lift_def)
      moreover have "durable_inv st'" unfolding st'_def by (rule durable_inv_set [OF inv]) (simp add: r' r)
      moreover have "stored_in (dm_records st') r" by (simp add: st'_def upsert_get stored_in_def r')
      ultimately show ?thesis by (simp add: rs)
    next
      case (Some e)
      then show ?thesis using inv r by (simp add: rs bind_def ret_def gets_def)
    qed
  qed
qed

text \<open>The result of an operation names only stored records.\<close>

definition result_stored :: "write_result \<Rightarrow> 'w memory_store \<Rightarrow> bool" where
  "result_stored r st \<longleftrightarrow> durable_inv st \<and> (\<forall>x \<in> set (wr_records r). stored_in (dm_records st) x)"

lemma base_extract_triple:
  fixes env :: "'a mem_env"
  shows "triple durable_inv (base_extract_memories env rq) result_stored (\<lambda>_. durable_inv)"
  unfolding base_extract_memories_def
proof (rule triple_bind [where R = "\<lambda>_. durable_inv"])
  show "triple durable_inv (gets (\<lambda>st. am_enabled (dm_config st))) (\<lambda>_. durable_inv) (\<lambda>_. durable_inv)"
    by (rule triple_gets)
  fix enabled :: bool
  let ?post = "\<lambda>extracted. bind (store_extracted extracted :: ('a memory_store, string list) eff) (\<lambda>skipped.
       bind (gets (\<lambda>st. map mem_id (dict_values (dm_records st)))) (\<lambda>ids.
       ret \<lparr>wr_target = xr_session rq, wr_records = filter (\<lambda>r. mem_id r \<in> set ids) extracted,
            wr_skipped = skipped, wr_path = EXTRACT\<rparr>))"
  have post: "triple (extraction_of rs) (?post rs) result_stored (\<lambda>_. durable_inv)" for rs :: "memory_record list"
  proof (rule triple_bind [OF store_extracted_triple])
    fix skipped
    show "triple (\<lambda>st :: 'a memory_store. durable_inv st
        \<and> (\<forall>r \<in> set rs. stored_in (dm_records st) r \<or> dict_get (dm_records st) (mem_id r) = None))
      (bind (gets (\<lambda>st. map mem_id (dict_values (dm_records st)))) (\<lambda>ids.
       ret \<lparr>wr_target = xr_session rq, wr_records = filter (\<lambda>r. mem_id r \<in> set ids) rs,
            wr_skipped = skipped, wr_path = EXTRACT\<rparr>)) result_stored (\<lambda>_. durable_inv)"
    proof (rule tripleI, elim conjE)
      fix st :: "'a memory_store"
      assume inv: "durable_inv st"
        and rs: "\<forall>r \<in> set rs. stored_in (dm_records st) r \<or> dict_get (dm_records st) (mem_id r) = None"
      have "dict_get (dm_records st) i \<noteq> None" if i: "i \<in> mem_id ` snd ` set (dm_records st)" for i
      proof -
        obtain j r where "(j, r) \<in> set (dm_records st)" "i = mem_id r"
          using i by auto
        moreover have "dict_get (dm_records st) j = Some r"
          using calculation durable_invD(1) [OF inv] by (simp add: map_of_eq_Some_iff)
        ultimately show ?thesis using durable_invD(2) [OF inv] by auto
      qed
      with rs have "\<forall>r \<in> set rs. mem_id r \<in> mem_id ` snd ` set (dm_records st) \<longrightarrow> stored_in (dm_records st) r"
        by blast
      then show "case bind (gets (\<lambda>st. map mem_id (dict_values (dm_records st)))) (\<lambda>ids.
         ret \<lparr>wr_target = xr_session rq, wr_records = filter (\<lambda>r. mem_id r \<in> set ids) rs,
            wr_skipped = skipped, wr_path = EXTRACT\<rparr>) st of
          (Inl e, s') \<Rightarrow> durable_inv s' | (Inr x, s') \<Rightarrow> result_stored x s'"
        using inv by (auto simp: ret_def result_stored_def)
    qed
  qed
  show "triple durable_inv
    (if \<not> enabled then ret \<lparr>wr_target = xr_session rq, wr_records = [], wr_skipped = [], wr_path = EXTRACT\<rparr>
     else bind (lift (emap session_message_from_dict (xr_transcript rq))) (\<lambda>ms.
       bind (memory_extract env ms (Some (xr_session rq)) (xr_agent rq)) ?post)) result_stored (\<lambda>_. durable_inv)"
  proof (cases enabled)
    case True
    have "triple durable_inv (bind (lift (emap session_message_from_dict (xr_transcript rq))) (\<lambda>ms.
       bind (memory_extract env ms (Some (xr_session rq)) (xr_agent rq)) ?post)) result_stored (\<lambda>_. durable_inv)"
      by (rule triple_bind [OF triple_lift]) (rule triple_bind [OF extract_triple post])
    with True show ?thesis by simp
  qed (auto intro!: triple_ret simp: result_stored_def)
qed

lemma rewritten_triple:
  assumes "triple P m result_stored (\<lambda>_. durable_inv)"
  shows "triple P (rewritten m) result_stored (\<lambda>_. durable_inv)"
  unfolding rewritten_def
proof (rule triple_bind [OF assms], rule tripleI)
  fix r and st :: "'a memory_store" assume "result_stored r st"
  then have st: "settled (dm_records st) st" and r: "\<forall>x \<in> set (wr_records r). stored_in (dm_records st) x"
    by (simp_all add: result_stored_def settled_def)
  let ?m = "bind (each write_record (wr_records r)) (\<lambda>_. bind (write_skipped_records (wr_skipped r)) (\<lambda>_. ret r))"
  from tripleD [OF writes_settled [OF r, where skipped = "wr_skipped r" and x = r] st]
  have "case ?m st of (Inl e, s') \<Rightarrow> False | (Inr y, s') \<Rightarrow> y = r \<and> settled (dm_records st) s'" .
  then show "case ?m st of (Inl e, s') \<Rightarrow> durable_inv s' | (Inr x, s') \<Rightarrow> result_stored x s'"
    using r by (cases "?m st"; cases "fst (?m st)") (auto simp: settled_def result_stored_def)
qed

lemma extract_memories_triple:
  "triple durable_inv (extract_memories env rq) result_stored (\<lambda>_. durable_inv)"
  unfolding extract_memories_def by (rule rewritten_triple [OF base_extract_triple])

lemma consolidate_triple: "triple durable_inv (consolidate env s ms agent) (\<lambda>_. durable_inv) (\<lambda>_. durable_inv)"
  unfolding consolidate_def
proof (rule triple_bind [OF extract_memories_triple], rule tripleI)
  fix r and st :: "'a memory_store" assume "result_stored r st"
  then have st: "settled (dm_records st) st" and r: "\<forall>x \<in> set (wr_records r). stored_in (dm_records st) x"
    by (simp_all add: result_stored_def settled_def)
  let ?x = "\<lparr>co_session = s, co_path = EXTRACT, co_new = wr_records r, co_updated = [], co_skipped = wr_skipped r\<rparr>"
  let ?m = "bind (each write_record (wr_records r)) (\<lambda>_. bind (write_skipped_records (wr_skipped r)) (\<lambda>_. ret ?x))"
  from tripleD [OF writes_settled [OF r, where skipped = "wr_skipped r" and x = ?x] st]
  have "case ?m st of (Inl e, s') \<Rightarrow> False | (Inr y, s') \<Rightarrow> y = ?x \<and> settled (dm_records st) s'" .
  then show "case ?m st of (Inl e, s') \<Rightarrow> durable_inv s' | (Inr x, s') \<Rightarrow> durable_inv s'"
    by (cases "?m st"; cases "fst (?m st)") (auto simp: settled_def)
qed

text \<open>The dreaming engine names its records after its own entries: distinctly, and never like the counter of the store.\<close>

definition dreams_named :: "'w mem_env \<Rightarrow> bool" where
  "dreams_named env \<longleftrightarrow> (\<forall>config s ms rs agent w promoted skipped.
     fst (mv_sweep env config s ms rs agent w) = Inr (promoted, skipped) \<longrightarrow>
     distinct (map mem_id promoted) \<and> (\<forall>r \<in> set promoted. \<forall>k. mem_id r \<noteq> memory_key k))"

lemma store_promoted_ok:
  assumes "durable_inv st" "distinct (map mem_id rs)" "\<forall>r \<in> set rs. \<forall>k. mem_id r \<noteq> memory_key k"
  shows "\<exists>out st'. store_promoted rs st = (Inr out, st') \<and> durable_inv st' \<and> map mem_id out = map mem_id rs
    \<and> (\<forall>r \<in> set out. dict_get (dm_records st') (mem_id r) = Some r)
    \<and> (\<forall>i. i \<notin> mem_id ` set rs \<longrightarrow> dict_get (dm_records st') i = dict_get (dm_records st) i)"
  using assms
proof (induction rs arbitrary: st)
  case Nil
  then show ?case by (simp add: ret_def)
next
  case (Cons r rs)
  define r' where "r' = type_norm (r\<lparr>mem_metadata := dict_set ''write_path'' (JStr (write_path_value DREAM)) (mem_metadata r)\<rparr>)"
  define st1 where "st1 = snd (upsert_memory r' st)"
  have r': "mem_id r' = mem_id r" by (simp add: r'_def)
  have u: "stamped DREAM r = Inr r'" "upsert_memory r' st = (Inr r', st1)"
    using upsert_result [of r' st] by (simp_all add: stamped_ok r'_def st1_def)
  have "durable_inv st1"
    unfolding st1_def by (rule durable_inv_set [OF Cons.prems(1)]) (use Cons.prems(3) in \<open>simp add: r' fresh_id_def\<close>)
  from Cons.IH [OF this] Cons.prems obtain out st' where
    ih: "store_promoted rs st1 = (Inr out, st')" "durable_inv st'" "map mem_id out = map mem_id rs"
      "\<forall>r \<in> set out. dict_get (dm_records st') (mem_id r) = Some r"
      "\<forall>i. i \<notin> mem_id ` set rs \<longrightarrow> dict_get (dm_records st') i = dict_get (dm_records st1) i"
    by auto
  have "store_promoted (r # rs) st = (Inr (r' # out), st')"
    using u ih(1) by (simp add: bind_def lift_def ret_def)
  moreover have "dict_get (dm_records st1) = (dict_get (dm_records st))(mem_id r \<mapsto> r')"
    using upsert_get [of r' st] by (simp only: st1_def r')
  ultimately show ?case using ih Cons.prems(2) by (auto simp: r')
qed

lemma base_dream_triple:
  fixes env :: "'a mem_env"
  assumes "dreams_named env"
  shows "triple durable_inv (base_dream env rq) result_stored (\<lambda>_. durable_inv)"
proof (rule tripleI)
  fix st :: "'a memory_store" assume inv: "durable_inv st"
  have frame: "durable_inv (st\<lparr>dm_dreams := w\<rparr>)" for w by (rule durable_inv_frame [OF inv]) simp_all
  show "case base_dream env rq st of (Inl e, s') \<Rightarrow> durable_inv s' | (Inr x, s') \<Rightarrow> result_stored x s'"
  proof (cases "am_enabled (dm_config st) \<and> \<not> dq_force_failure rq")
    case False
    then show ?thesis using inv by (auto simp: base_dream_def eff_defs result_stored_def)
  next
    case True
    show ?thesis
    proof (cases "emap session_message_from_dict (dq_transcript rq)")
      case (Inl e)
      then show ?thesis using True inv by (simp add: base_dream_def bind_def lift_def gets_def)
    next
      case (Inr ms)
      define sweep where "sweep = mv_sweep env (dq_config rq) (dq_session rq) ms (dict_values (dm_records st)) (dq_agent rq) (dm_dreams st)"
      show ?thesis
      proof (cases "fst sweep")
        case (Inl e)
        then show ?thesis using True Inr frame inv
          by (simp add: base_dream_def bind_def lift_def gets_def split_beta sweep_def)
      next
        case r: (Inr ps)
        obtain promoted skipped where ps: "ps = (promoted, skipped)" by (cases ps)
        have "distinct (map mem_id promoted)" "\<forall>r \<in> set promoted. \<forall>k. mem_id r \<noteq> memory_key k"
          using assms r unfolding dreams_named_def ps sweep_def by blast+
        from store_promoted_ok [OF frame this, of "snd sweep"] obtain out st' where
          out: "store_promoted promoted (st\<lparr>dm_dreams := snd sweep\<rparr>) = (Inr out, st')" "durable_inv st'"
            "\<forall>r \<in> set out. dict_get (dm_records st') (mem_id r) = Some r"
          by auto
        have "base_dream env rq st = (Inr \<lparr>wr_target = dq_session rq, wr_records = out, wr_skipped = skipped, wr_path = DREAM\<rparr>, st')"
          using True Inr r out(1) by (simp add: base_dream_def bind_def lift_def gets_def ret_def split_beta sweep_def ps)
        then show ?thesis using out by (auto simp: result_stored_def stored_in_def)
      qed
    qed
  qed
qed

text \<open>The operations keep the invariant.\<close>

lemma keeps_frame:
  assumes "\<And>st. dm_records (f st) = dm_records st" "\<And>st. dm_counter (f st) = dm_counter st" "\<And>st. dm_files (f st) = dm_files st"
  shows "keeps durable_inv (modify f)"
  by (rule keeps_modify) (erule durable_inv_frame, simp_all add: assms)

lemma keeps_extract_memories: "keeps durable_inv (extract_memories env rq)"
  by (rule triple_keeps [OF extract_memories_triple]) (simp add: result_stored_def)

lemma keeps_dream: "dreams_named env \<Longrightarrow> keeps durable_inv (dream env rq)"
  unfolding dream_def
  by (rule triple_keeps [OF rewritten_triple [OF base_dream_triple]]) (simp_all add: result_stored_def)

lemma keeps_consolidate: "keeps durable_inv (consolidate env s ms agent)"
  by (rule triple_keeps [OF consolidate_triple])

lemma keeps_run_job: "dreams_named env \<Longrightarrow> keeps durable_inv (run_job env job)"
  unfolding run_job_def Let_def by (intro keeping keeps_frame keeps_dream keeps_consolidate) simp_all

lemma keeps_prefetch: "keeps durable_inv (prefetch_request rq)"
  unfolding prefetch_request_def by (intro keeping keeps_frame) simp_all

lemma keeps_recall: "keeps durable_inv (recall session query limit agent)"
  unfolding recall_def by (intro keeping keeps_prefetch)

lemma keeps_schedule: "keeps durable_inv (memory_schedule s ms agent path config)"
  unfolding memory_schedule_def by (intro keeping keeps_frame) simp_all

lemma durable_inv_pool: 
  assumes "dreams_named env" "durable_inv st"
  shows "durable_inv (pool_run env i st)"
proof (cases "dict_get (dm_pending st) i")
  case (Some p)
  obtain job outcome where p: "p = (job, outcome)" by (cases p)
  have inv: "durable_inv (snd (run_job env job st))" by (rule keepsD [OF keeps_run_job [OF assms(1)] assms(2)])
  show ?thesis
  proof (cases "run_job env job st")
    case (Pair r st')
    then have "durable_inv st'" using inv by simp
    then have "durable_inv (st'\<lparr>dm_pending := q\<rparr>)" for q by (rule durable_inv_frame) simp_all
    then show ?thesis using Pair inv assms(2) Some by (cases outcome; cases r) (auto simp: pool_run_def p)
  qed
qed (use assms in \<open>simp add: pool_run_def\<close>)

subsection \<open>Reachable stores\<close>

text \<open>
  What clients and the pool do to a store.  A client brings an id of its own or one the store has given
  out, and a patch leaves the id of a record alone.
\<close>

inductive memory_step :: "'w mem_env \<Rightarrow> 'w memory_store \<Rightarrow> 'w memory_store \<Rightarrow> bool" for env where
  put_step: "fresh_id st (mem_id r) \<Longrightarrow> memory_step env st (snd (memory_put r st))"
| update_step: "dict_get patch ''memory_id'' = None \<Longrightarrow> memory_step env st (snd (update_memory env i patch st))"
| delete_step: "memory_step env st (snd (memory_delete i st))"
| direct_step: "fresh_id st (mem_id r) \<Longrightarrow> memory_step env st (snd (direct_write env r st))"
| extract_step: "memory_step env st (snd (extract_memories env rq st))"
| dream_step: "memory_step env st (snd (dream env dq st))"
| prefetch_step: "memory_step env st (snd (prefetch_request q st))"
| recall_step: "memory_step env st (snd (recall session query limit agent st))"
| schedule_step: "memory_step env st (snd (memory_schedule s ms agent path config st))"
| pool_step: "memory_step env st (pool_run env i st)"

inductive_cases memory_stepE: "memory_step env st st'"

inductive memory_reach :: "'w mem_env \<Rightarrow> 'w memory_store \<Rightarrow> 'w memory_store \<Rightarrow> bool" for env st where
  initial: "memory_reach env st st"
| further: "memory_reach env st st' \<Longrightarrow> memory_step env st' st'' \<Longrightarrow> memory_reach env st st''"

lemma durable_inv_step: "memory_step env st st' \<Longrightarrow> dreams_named env \<Longrightarrow> durable_inv st \<Longrightarrow> durable_inv st'"
proof (induction rule: memory_step.induct)
  case (put_step st r)
  then have "durable_inv (snd (upsert_memory r st))" by (intro durable_inv_set)
  moreover have "snd (memory_put r st) = snd (upsert_memory r st)"
    by (simp add: memory_put_def upsert_memory_def write_record_def eff_defs)
  ultimately show ?case by simp
qed (simp_all add: durable_inv_update durable_inv_delete durable_inv_direct_write durable_inv_pool
  keepsD [OF keeps_extract_memories] keepsD [OF keeps_dream] keepsD [OF keeps_prefetch] keepsD [OF keeps_recall]
  keepsD [OF keeps_schedule])

lemma durable_inv_reach: "memory_reach env st st' \<Longrightarrow> dreams_named env \<Longrightarrow> durable_inv st \<Longrightarrow> durable_inv st'"
  by (induction rule: memory_reach.induct) (auto intro: durable_inv_step)

subsection \<open>Restart\<close>

definition entry_of :: "string \<Rightarrow> json option \<Rightarrow> memory_record option \<Rightarrow> bool" where
  "entry_of i = rel_option (\<lambda>j r'. \<exists>r. mem_id r = i \<and> j = record_file r \<and> r' = file_norm r)"

lemma load_records_files:
  assumes "wf_dict es" "\<And>i j. (i, j) \<in> set es \<Longrightarrow> \<exists>r. mem_id r = i \<and> j = record_file r"
  shows "\<exists>d'. load_records (map snd es) d = Inr d' \<and>
    (\<forall>i. if dict_get es i = None then dict_get d' i = dict_get d i else entry_of i (dict_get es i) (dict_get d' i))"
  using assms
proof (induction es arbitrary: d)
  case (Cons e es)
  obtain i j where e: "e = (i, j)" by (cases e)
  with Cons.prems(2) obtain r where r: "mem_id r = i" "j = record_file r" by auto
  have norm: "mem_id (file_norm r) = i" using r by (simp add: file_norm_def)
  have wf: "wf_dict es" "dict_get es i = None" using Cons.prems(1) by (simp_all add: e map_of_eq_None_iff)
  have "\<exists>d'. load_records (map snd es) (dict_set i (file_norm r) d) = Inr d' \<and>
    (\<forall>k. if dict_get es k = None then dict_get d' k = dict_get (dict_set i (file_norm r) d) k
      else entry_of k (dict_get es k) (dict_get d' k))"
    by (rule Cons.IH [OF wf(1)]) (use Cons.prems(2) in auto)
  then obtain d' where d': "load_records (map snd es) (dict_set i (file_norm r) d) = Inr d'"
    "\<forall>k. if dict_get es k = None then dict_get d' k = dict_get (dict_set i (file_norm r) d) k
      else entry_of k (dict_get es k) (dict_get d' k)" by blast
  have "load_records (map snd (e # es)) d = Inr d'"
    using d'(1) by (simp add: e r(2) record_file_def memory_from_sorted norm)
  moreover have "if dict_get (e # es) k = None then dict_get d' k = dict_get d k
      else entry_of k (dict_get (e # es) k) (dict_get d' k)" for k
  proof (cases "k = i")
    case True
    then show ?thesis using d'(2) [rule_format, of i] wf(2) r by (auto simp: e entry_of_def)
  next
    case False
    then show ?thesis using d'(2) [rule_format, of k] by (simp add: e)
  qed
  ultimately show ?case by blast
qed simp

lemma map_of_sort: "wf_dict d \<Longrightarrow> map_of (sort_key f d) = map_of d"
  by (rule map_of_eqI) (auto simp: distinct_map)

text \<open>What a restart brings back: a record with its dictionaries in sorted order.\<close>

definition canonical :: "memory_record \<Rightarrow> memory_record" where
  "canonical r = (forget_path r)\<lparr>mem_metadata := sorted_object (dict_pop ''write_path'' (mem_metadata r))\<rparr>"

lemma sorted_object_pop: "sorted_object (dict_pop k (sorted_object d)) = sorted_object (dict_pop k d)"
proof -
  have pop: "dict_pop k (sorted_object d) = sorted_object (dict_pop k d)" for d :: json_object
    by (simp add: sorted_object_def AList.delete_eq filter_sort filter_map o_def case_prod_unfold)
  then show ?thesis by simp
qed

lemma canonical_file_norm: "canonical (file_norm r) = canonical r"
  by (simp add: canonical_def file_norm_def forget_path_def type_norm_def sorted_object_pop)

lemma canonical_forget: "forget_path r = forget_path r' \<Longrightarrow> canonical r = canonical r'"
proof -
  have "canonical r = (let f = forget_path r in f\<lparr>mem_metadata := sorted_object (mem_metadata f)\<rparr>)" for r
    by (simp add: canonical_def forget_path_def)
  then show "forget_path r = forget_path r' \<Longrightarrow> canonical r = canonical r'" by simp
qed

lemma reopen:
  assumes inv: "durable_inv st" and fs: "dm_files st = Some fs"
  shows "\<exists>st'. open_file_memory_store c fs t w = Inr st' \<and> dm_counter st' = 0 \<and> dm_files st' = Some fs
    \<and> dm_config st' = c \<and> dm_clock st' = t \<and> (\<forall>i r. dict_get (dm_records st') i = Some r \<longrightarrow> mem_id r = i)
    \<and> (\<forall>i. map_option canonical (dict_get (dm_records st') i) = map_option canonical (dict_get (dm_records st) i))"
proof -
  define es where "es = sort_key (\<lambda>(i, j). i @ ''.json'') fs"
  have wf: "wf_dict fs" by (rule durable_invD(4) [OF inv fs])
  have es: "wf_dict es" "map_of es = map_of fs" "set es = set fs"
    using wf by (simp_all add: es_def map_of_sort distinct_map)
  have entries: "\<exists>r. mem_id r = i \<and> j = record_file r" if "(i, j) \<in> set es" for i j
  proof -
    have "dict_get fs i = Some j" using that wf es(3) by (simp add: map_of_eq_Some_iff)
    then obtain r r' where "dict_get (dm_records st) i = Some r" "j = record_file r'" "forget_path r' = forget_path r"
      using durable_invD(5) [OF inv fs, of i] by (auto simp: mirrors_def option_rel_Some1)
    then show ?thesis using durable_invD(2) [OF inv] forget_path_id by metis
  qed
  from load_records_files [of es "[]"] es(1) entries obtain d' where
    d': "load_records (map snd es) [] = Inr d'"
      "\<And>i. if dict_get es i = None then dict_get d' i = None else entry_of i (dict_get es i) (dict_get d' i)"
    by fastforce
  let ?st' = "(new_memory_store c w)\<lparr>dm_records := d', dm_files := Some fs, dm_clock := t\<rparr>"
  have "open_file_memory_store c fs t w = Inr ?st'"
    using d'(1) by (simp add: open_file_memory_store_def listed_files_def es_def)
  moreover have "map_option canonical (dict_get d' i) = map_option canonical (dict_get (dm_records st) i)" for i
  proof (cases "dict_get fs i")
    case None
    then have "dict_get (dm_records st) i = None"
      using durable_invD(5) [OF inv fs, of i] by (cases "dict_get (dm_records st) i") (simp_all add: mirrors_def)
    then show ?thesis using d'(2) [of i] None es(2) by simp
  next
    case (Some j)
    then obtain r r' where r: "dict_get (dm_records st) i = Some r" "j = record_file r'" "forget_path r' = forget_path r"
      using durable_invD(5) [OF inv fs, of i] by (auto simp: mirrors_def option_rel_Some1)
    obtain q where q: "j = record_file q" "dict_get d' i = Some (file_norm q)"
      using d'(2) [of i] Some es(2) by (auto simp: entry_of_def option_rel_Some1)
    have "file_norm q = file_norm r'"
      using q(1) r(2) memory_from_sorted [of q] memory_from_sorted [of r'] by (simp add: record_file_def)
    then show ?thesis using r q canonical_file_norm canonical_forget by (metis option.map(2))
  qed
  moreover have "mem_id r = i" if r: "dict_get d' i = Some r" for i r
  proof -
    have "dict_get es i \<noteq> None" using d'(2) [of i] r by (auto split: if_splits)
    then obtain j where j: "(i, j) \<in> set es" "dict_get es i = Some j" by (auto dest: map_of_SomeD)
    then obtain q where q: "j = record_file q" "r = file_norm q" "mem_id q = i"
      using d'(2) [of i] r by (auto simp: entry_of_def)
    then show ?thesis by (simp add: file_norm_def)
  qed
  ultimately show ?thesis by (simp add: new_memory_store_def)
qed

text \<open>A store with nothing in it, in memory or over an empty directory.\<close>

definition fresh_store :: "'w memory_store \<Rightarrow> bool" where
  "fresh_store st \<longleftrightarrow> dm_records st = [] \<and> dm_counter st = 0 \<and> dm_files st \<in> {None, Some []}
     \<and> dm_jobs st = [] \<and> dm_pending st = [] \<and> dm_completed st = []"

lemma durable_inv_fresh: "fresh_store st \<Longrightarrow> durable_inv st"
  by (auto simp: fresh_store_def durable_inv_def)

lemma durable_inv_reachable: "fresh_store st0 \<Longrightarrow> dreams_named env \<Longrightarrow> memory_reach env st0 st \<Longrightarrow> durable_inv st"
  by (blast intro: durable_inv_reach durable_inv_fresh)

subsection \<open>Recall\<close>

lemma stored_value: "durable_inv st \<Longrightarrow> r \<in> set (dict_values (dm_records st)) \<Longrightarrow> dict_get (dm_records st) (mem_id r) = Some r"
proof -
  assume inv: "durable_inv st" and "r \<in> set (dict_values (dm_records st))"
  then obtain i where "(i, r) \<in> set (dm_records st)" by auto
  then have "dict_get (dm_records st) i = Some r" using durable_invD(1) [OF inv] by (simp add: map_of_eq_Some_iff)
  then show ?thesis using durable_invD(2) [OF inv] by blast
qed

lemma distinct_values: "durable_inv st \<Longrightarrow> distinct (map mem_id (dict_values (dm_records st)))"
proof -
  assume inv: "durable_inv st"
  have "map (\<lambda>e. mem_id (snd e)) (dm_records st) = map fst (dm_records st)"
  proof (rule map_cong [OF refl])
    fix e assume "e \<in> set (dm_records st)"
    then have "dict_get (dm_records st) (fst e) = Some (snd e)"
      using durable_invD(1) [OF inv] by (simp add: map_of_eq_Some_iff)
    then show "mem_id (snd e) = fst e" by (rule durable_invD(2) [OF inv])
  qed
  then have "distinct (map (\<lambda>e. mem_id (snd e)) (dm_records st))" using durable_invD(1) [OF inv] by (simp only:)
  then show ?thesis by (simp add: o_def)
qed

lemma read_stored:
  "(\<And>r. r \<in> set rs \<Longrightarrow> dict_get (dm_records st) (mem_id r) = Some r) \<Longrightarrow> memory_read (map mem_id rs) st = rs"
  unfolding memory_read_def by (induction rs) (simp_all add: List.map_filter_simps)

lemma distinct_submset:
  assumes "mset xs \<subseteq># mset ys" "distinct ys"
  shows "distinct xs"
proof -
  obtain zs where "mset ys = mset xs + mset zs" using assms(1) by (metis ex_mset mset_subset_eq_exists_conv)
  then have "mset (xs @ zs) = mset ys" by simp
  then show ?thesis using assms(2) by (metis mset_eq_imp_distinct_iff distinct_append)
qed

text \<open>The request of a turn.\<close>

definition turn_request :: "string \<Rightarrow> string \<Rightarrow> int \<Rightarrow> int \<Rightarrow> string option \<Rightarrow> recall_request" where
  "turn_request session query limit bytes agent = \<lparr>rq_session = session, rq_query = query, rq_scopes = JList [],
     rq_surfaced = [], rq_max_results = Some limit, rq_max_bytes = Some bytes, rq_agent = agent\<rparr>"

lemma turn_eligible:
  "recall_eligible (turn_request session query limit bytes agent) None r \<longleftrightarrow>
     (mem_scope r = LOCAL_OVERLAY \<longrightarrow> mem_session r \<in> {None, Some session})
     \<and> (mem_scope r = AGENT_OVERLAY \<and> agent \<noteq> None \<longrightarrow> mem_agent r \<in> {None, Some [], agent})
     \<and> (query_tokens query = [] \<or> 0 < recall_score (turn_request session query limit bytes agent) r)"
  by (auto simp: recall_eligible_def record_matches_overlay_def turn_request_def)

lemma recall_selects:
  assumes inv: "durable_inv st"
  shows "\<exists>res st'. recall session query limit agent st = (Inr res, st') \<and> dm_records st' = dm_records st
    \<and> (if am_enabled (dm_config st)
       then good_selection (turn_request session query limit (am_max_bytes (dm_config st)) agent) None
              (dict_values (dm_records st)) (rr_recalled res)
       else rr_recalled res = [])"
proof -
  define rq where "rq = turn_request session query limit (am_max_bytes (dm_config st)) agent"
  have rec: "recall session query limit agent st = bind (prefetch_request rq) (\<lambda>h. gets (memory_collect h)) st"
    by (simp add: recall_def rq_def turn_request_def)
  show ?thesis
  proof (cases "am_enabled (dm_config st)")
    case False
    then show ?thesis
      by (simp add: rec prefetch_request_def bind_def eff_defs memory_collect_def memory_read_def List.map_filter_simps)
  next
    case True
    have "normalize_overlay_selector (rq_scopes rq) = Inr None"
      by (simp add: rq_def turn_request_def normalize_overlay_selector_def selector_items_def)
    from select_good [OF this, of "dict_values (dm_records st)"] obtain out where
      out: "select_recall_candidates (dict_values (dm_records st)) rq = Inr out"
        "good_selection rq None (dict_values (dm_records st)) out" by blast
    have "set out \<subseteq> set (dict_values (dm_records st))"
      using out(2) unfolding good_selection_def by (metis set_mset_mono set_mset_mset)
    then have "memory_read (map mem_id out) st' = out" if "dm_records st' = dm_records st" for st' :: "'a memory_store"
      using stored_value [OF inv] that by (intro read_stored) auto
    then show ?thesis using True out by (simp add: rec prefetch_request_def bind_def eff_defs memory_collect_def rq_def)
  qed
qed


subsection \<open>A demonstration\<close>

definition demo_memory_env :: "unit mem_env" where
  "demo_memory_env = \<lparr>mv_now = nat_str, mv_sweep = (\<lambda>_ _ _ _ _ w. (Inr ([], []), w))\<rparr>"

definition demo_memory :: "string \<Rightarrow> overlay \<Rightarrow> string \<Rightarrow> string option \<Rightarrow> memory_record" where
  "demo_memory i scope title session = \<lparr>mem_id = i, mem_scope = scope, mem_type = Payload NOTE_MEMORY, mem_title = title,
     mem_content = title, mem_summary = title, mem_source = ''client'', mem_created = ''0'', mem_updated = ''0'',
     mem_freshness = ''current'', mem_session = session, mem_agent = None, mem_metadata = []\<rparr>"

definition demo_store0 :: "unit memory_store" where
  "demo_store0 = (new_memory_store default_memory_config ())\<lparr>dm_files := Some []\<rparr>"

definition demo_store :: "unit memory_store" where
  "demo_store = snd (memory_put (demo_memory ''b'' PROJECT_OVERLAY ''deploy notes'' None)
     (snd (memory_put (demo_memory ''a'' LOCAL_OVERLAY ''deploy locally'' (Some ''other'')) demo_store0)))"

lemma demo_named: "dreams_named demo_memory_env"
  by (simp add: dreams_named_def demo_memory_env_def)

lemma demo_fresh: "fresh_store demo_store0"
  by (simp add: fresh_store_def demo_store0_def new_memory_store_def)

lemma client_id: "i = [] \<or> hd i \<noteq> CHR ''m'' \<Longrightarrow> fresh_id st i"
  by (auto simp: fresh_id_def memory_key_def)

lemma reach_put: "memory_reach env st0 st \<Longrightarrow> fresh_id st (mem_id r) \<Longrightarrow> memory_reach env st0 (snd (memory_put r st))"
  by (rule memory_reach.further, assumption, rule memory_step.put_step)

lemma demo_reach: "memory_reach demo_memory_env demo_store0 demo_store"
  unfolding demo_store_def
  by (intro reach_put memory_reach.initial) (rule client_id, simp add: demo_memory_def)+




subsection \<open>Extraction after a restart\<close>

lemma request_messages [simp]: "emap session_message_from_dict (map session_message_to_dict ms) = Inr ms"
  by (rule emap_inverse) simp

lemma request_fields [simp]:
  "xr_transcript (request_from_messages s ms agent) = map session_message_to_dict ms"
  "xr_session (request_from_messages s ms agent) = s" "xr_agent (request_from_messages s ms agent) = agent"
  by (simp_all add: request_from_messages_def)

lemma extract_new:
  assumes "ms \<noteq> []" "join_contents '' '' ms = Inr joined" "\<not> excluded_from_durable_memory (py_lower joined)"
  shows "memory_extract env ms session agent st =
    (Inr [extracted_record (Suc (dm_counter st)) (mv_now env (dm_clock st)) (mv_now env (Suc (dm_clock st))) ms session agent],
     st\<lparr>dm_counter := Suc (dm_counter st), dm_clock := Suc (Suc (dm_clock st))\<rparr>)"
  using assms by (simp add: memory_extract_def eff_defs memory_now_def)

text \<open>The files after the writes of the override: the record named last wins.\<close>

lemma write_files:
  "dm_files st = Some fs \<Longrightarrow> dm_files (snd (write_record r st)) = Some (dict_set (mem_id r) (record_file r) fs)"
  by (simp add: write_record_def modify_def)

lemma rewritten_single:
  assumes m: "m st = (Inr res, st')" "wr_records res = [r]" and fs: "dm_files st' = Some fs"
    and skipped: "wr_skipped res = [] \<or> (\<exists>e. wr_skipped res = [mem_id e] \<and> mem_id e \<noteq> mem_id r
      \<and> (\<forall>x. dict_get (dm_records st') (mem_id e) = Some x \<longrightarrow> mem_id x = mem_id e))"
  shows "\<exists>st'' fs'. rewritten m st = (Inr res, st'') \<and> dm_records st'' = dm_records st' \<and> dm_files st'' = Some fs'
    \<and> dict_get fs' (mem_id r) = Some (record_file r)"
proof -
  define st1 where "st1 = snd (write_record r st')"
  have w: "write_record r st' = (Inr (), st1)" by (simp add: st1_def prod_eq_iff)
  have st1: "dm_files st1 = Some (dict_set (mem_id r) (record_file r) fs)" "dm_records st1 = dm_records st'"
    using write_files [OF fs, of r] by (simp_all add: st1_def)
  have eq: "rewritten m st = bind (write_skipped_records (wr_skipped res)) (\<lambda>_. ret res) st1"
    using m w by (simp add: rewritten_def bind_def ret_def)
  from skipped show ?thesis
  proof (elim disjE exE conjE)
    assume "wr_skipped res = []"
    then show ?thesis using st1 by (simp add: eq write_skipped_records_def ret_def)
  next
    fix e assume e: "wr_skipped res = [mem_id e]" "mem_id e \<noteq> mem_id r"
      "\<forall>x. dict_get (dm_records st') (mem_id e) = Some x \<longrightarrow> mem_id x = mem_id e"
    show ?thesis
    proof (cases "dict_get (dm_records st') (mem_id e)")
      case None
      then show ?thesis using st1 e by (simp add: eq write_skipped_records_def bind_def gets_def ret_def)
    next
      case (Some x)
      then show ?thesis using st1 e by (simp add: eq write_skipped_records_def bind_def gets_def ret_def write_record_def modify_def)
    qed
  qed
qed

text \<open>
  The counter of a file-backed store starts again at zero after a restart: the first transcript
  that is extracted then, unless it repeats the record \<open>memory_1\<close> itself, is written over the file of
  \<open>memory_1\<close>, and what that file held is lost; unless it repeats another record it replaces \<open>memory_1\<close> in
  the store as well.
\<close>

theorem restart_reuses_ids:
  fixes env :: "'w mem_env"
  assumes run: "fresh_store st0" "dreams_named env" "memory_reach env st0 st" "dm_files st = Some fs"
    and old: "dict_get (dm_records st) ''memory_1'' = Some old"
    and reopened: "open_file_memory_store c fs t w = Inr st1" "am_enabled c"
    and transcript: "ms \<noteq> []" "join_contents '' '' ms = Inr joined" "\<not> excluded_from_durable_memory (py_lower joined)"
    and new: "new = extracted_record 1 (mv_now env t) (mv_now env (Suc t)) ms (Some s) agent"
    and duplicate: "\<forall>e. find_duplicate new st1 = Some e \<longrightarrow> mem_id e \<noteq> ''memory_1''"
  shows "\<exists>res st2 fs2. extract_memories env (request_from_messages s ms agent) st1 = (Inr res, st2)
    \<and> dm_files st2 = Some fs2 \<and> dict_get fs2 ''memory_1'' = Some (record_file new)
    \<and> (find_duplicate new st1 = None \<longrightarrow>
          map_option forget_path (dict_get (dm_records st2) ''memory_1'') = Some (forget_path new))"
proof -
  have st1: "dm_counter st1 = 0" "dm_files st1 = Some fs" "dm_config st1 = c" "dm_clock st1 = t"
      "\<And>i r. dict_get (dm_records st1) i = Some r \<Longrightarrow> mem_id r = i"
      "map_option canonical (dict_get (dm_records st1) ''memory_1'') = Some (canonical old)"
    using reopen [OF durable_inv_reachable [OF run(1-3)] run(4), of c t w] reopened(1) old by auto
  have m1: "memory_key 1 = ''memory_1''" by code_simp
  then have id: "mem_id new = ''memory_1''" by (simp add: new)
  define st' where "st' = st1\<lparr>dm_counter := 1, dm_clock := Suc (Suc t)\<rparr>"
  have ex: "memory_extract env ms (Some s) agent st1 = (Inr [new], st')"
    using extract_new [OF transcript, of env "Some s" agent st1] by (simp add: st1 st'_def new)
  have base: "base_extract_memories env (request_from_messages s ms agent) st1 =
      bind (store_extracted [new]) (\<lambda>skipped.
       bind (gets (\<lambda>st. map mem_id (dict_values (dm_records st)))) (\<lambda>ids.
       ret \<lparr>wr_target = s, wr_records = filter (\<lambda>r. mem_id r \<in> set ids) [new], wr_skipped = skipped, wr_path = EXTRACT\<rparr>)) st'"
    using ex reopened(2) st1(3) by (simp add: base_extract_memories_def bind_def lift_def gets_def)
  have dup: "find_duplicate new st' = find_duplicate new st1" by (simp add: find_duplicate_def st'_def)
  have present: "\<exists>x \<in> set (dm_records st1). mem_id (snd x) = ''memory_1''"
  proof -
    obtain r where r: "dict_get (dm_records st1) ''memory_1'' = Some r" using st1(6) by auto
    from st1(5) [OF r] map_of_SomeD [OF r] show ?thesis by force
  qed
  show ?thesis
  proof (cases "find_duplicate new st1")
    case None
    define new' where "new' = type_norm (new\<lparr>mem_metadata := dict_set ''write_path'' (JStr (write_path_value EXTRACT)) (mem_metadata new)\<rparr>)"
    define st2 where "st2 = snd (upsert_memory new' st')"
    have u: "stamped EXTRACT new = Inr new'" "upsert_memory new' st' = (Inr new', st2)"
      using upsert_result [of new' st'] by (simp_all add: stamped_ok new'_def st2_def)
    have new': "mem_id new' = ''memory_1''" "forget_path new' = forget_path new" by (simp_all add: new'_def id)
    have "store_extracted [new] st' = (Inr [], st2)"
      using None dup u by (simp add: bind_def gets_def ret_def lift_def)
    moreover have get: "dict_get (dm_records st2) ''memory_1'' = Some new'"
      using upsert_get [of new' st'] by (simp add: st2_def new')
    moreover have "''memory_1'' \<in> mem_id ` snd ` set (dm_records st2)"
      using imageI [OF imageI [OF map_of_SomeD [OF get], of snd], of mem_id] new'(1) by simp
    ultimately have res: "base_extract_memories env (request_from_messages s ms agent) st1 =
        (Inr \<lparr>wr_target = s, wr_records = [new], wr_skipped = [], wr_path = EXTRACT\<rparr>, st2)"
      by (simp add: base bind_def gets_def ret_def id image_image)
    have "dm_files st2 = Some (dict_set (mem_id new') (record_file new') fs)"
      using st1(2) by (simp add: st2_def upsert_memory_def write_record_def eff_defs st'_def)
    with rewritten_single [where m = "base_extract_memories env (request_from_messages s ms agent)" and st = st1 and r = new, OF res] get new'(2) id
    show ?thesis
      by (auto simp: extract_memories_def)
  next
    case (Some e)
    have "store_extracted [new] st' = (Inr [mem_id e], st')"
      using Some dup by (simp add: bind_def gets_def ret_def)
    then have res: "base_extract_memories env (request_from_messages s ms agent) st1 =
        (Inr \<lparr>wr_target = s, wr_records = [new], wr_skipped = [mem_id e], wr_path = EXTRACT\<rparr>, st')"
      using present by (force simp: base bind_def gets_def ret_def id st'_def image_iff)
    have files: "dm_files st' = Some fs" by (simp add: st'_def st1)
    have e: "mem_id e \<noteq> mem_id new" "\<forall>x. dict_get (dm_records st') (mem_id e) = Some x \<longrightarrow> mem_id x = mem_id e"
      using Some duplicate st1(5) id by (simp_all add: st'_def)
    obtain st2 fs2 where "rewritten (base_extract_memories env (request_from_messages s ms agent)) st1
          = (Inr \<lparr>wr_target = s, wr_records = [new], wr_skipped = [mem_id e], wr_path = EXTRACT\<rparr>, st2)"
        "dm_files st2 = Some fs2" "dict_get fs2 (mem_id new) = Some (record_file new)"
      using rewritten_single [where m = "base_extract_memories env (request_from_messages s ms agent)" and st = st1
          and r = new, OF res _ files] e by auto
    then show ?thesis using Some id by (simp add: extract_memories_def)
  qed
qed

definition demo_said :: "string \<Rightarrow> session_message list" where
  "demo_said t = [\<lparr>sm_role = ''user'', sm_content = JStr t, sm_metadata = []\<rparr>]"

definition demo_filled :: "unit memory_store" where
  "demo_filled = snd (extract_memories demo_memory_env (request_from_messages ''s'' (demo_said ''tabs'') None) demo_store0)"

definition demo_files_left :: "(string, json) pydict" where
  "demo_files_left = (case dm_files demo_filled of Some fs \<Rightarrow> fs)"

definition demo_reopened :: "unit memory_store" where
  "demo_reopened = (case open_file_memory_store default_memory_config demo_files_left 9 () of Inr st \<Rightarrow> st)"

lemma demo_filled_reach: "memory_reach demo_memory_env demo_store0 demo_filled"
  unfolding demo_filled_def by (rule memory_reach.further [OF memory_reach.initial memory_step.extract_step])

lemma restart_reuses_ids_witness:
  "\<exists>res st2 fs2. extract_memories demo_memory_env (request_from_messages ''s'' (demo_said ''rust'') None) demo_reopened = (Inr res, st2)
    \<and> dm_files st2 = Some fs2
    \<and> dict_get fs2 ''memory_1'' = Some (record_file (extracted_record 1 ''9'' ''10'' (demo_said ''rust'') (Some ''s'') None))"
proof -
  have files: "dm_files demo_filled = Some demo_files_left" by code_simp
  obtain old where old: "dict_get (dm_records demo_filled) ''memory_1'' = Some old"
    by (cases "dict_get (dm_records demo_filled) ''memory_1'' = None") (code_simp, auto)
  have opened: "open_file_memory_store default_memory_config demo_files_left 9 () = Inr demo_reopened" by code_simp
  have said: "demo_said ''rust'' \<noteq> []" "join_contents '' '' (demo_said ''rust'') = Inr ''rust''"
    "\<not> excluded_from_durable_memory (py_lower ''rust'')" "am_enabled default_memory_config" by code_simp+
  have clock: "mv_now demo_memory_env 9 = ''9''" "mv_now demo_memory_env (Suc 9) = ''10''" by code_simp+
  have "find_duplicate (extracted_record 1 ''9'' ''10'' (demo_said ''rust'') (Some ''s'') None) demo_reopened = None"
    by code_simp
  then show ?thesis
    using restart_reuses_ids [OF demo_fresh demo_named demo_filled_reach files old opened said(4,1,2,3) refl,
      of "''s''" None] unfolding clock by auto
qed

end
