(* ===== verification/Policy.thy ===== *)
theory Policy
  imports Tools
begin

text \<open>
  The rule-based policy engine of \<^verbatim>\<open>tools/policy.py\<close>: the first rule that matches a tool call
  and does not pass through decides it, otherwise the tool's own permission check or a prompt.
  Every decision updates the denials counted for the session, and a denial that reaches the
  threshold is turned into a prompt.  The lemmas give the decision on every branch, show that a
  denial never becomes a permission, and what the counters count over any history of decisions.
\<close>

record policy_rule =
  rule_decision :: permission_decision
  rule_tool_name :: "string option"
  rule_session_prefix :: "string option"
  rule_workdir_prefix :: "string option"
  rule_read_only :: "bool option"
  rule_reason :: "string option"
  rule_explanation :: "string option"
  rule_source :: "string option"

text \<open>The arguments of a normalised call.\<close>

definition call_args :: "tool_call \<Rightarrow> json_object" where
  "call_args c = (case as_dict (tc_arguments c) of None \<Rightarrow> [] | Some d \<Rightarrow> d)"

definition rule_matches :: "policy_rule \<Rightarrow> 'w tool \<Rightarrow> tool_call \<Rightarrow> tool_context \<Rightarrow> bool" where
  "rule_matches r t c ctx =
     (if (case rule_tool_name r of None \<Rightarrow> False | Some n \<Rightarrow> tool_name t \<noteq> n) then False
      else if (case rule_session_prefix r of None \<Rightarrow> False
               | Some p \<Rightarrow> \<not> py_startswith (ctx_session ctx) p) then False
      else if (case rule_workdir_prefix r of None \<Rightarrow> False
               | Some p \<Rightarrow> \<not> py_startswith (case ctx_workdir ctx of None \<Rightarrow> [] | Some w \<Rightarrow> w) p)
           then False
      else if (case rule_read_only r of None \<Rightarrow> False
               | Some b \<Rightarrow> tool_is_read_only t (call_args c) \<noteq> b) then False
      else True)"

record policy_engine =
  pe_rules :: "policy_rule list"
  pe_fallback_to_tool :: bool
  pe_threshold :: int
  pe_tracking :: "(string, denial_state) pydict"

definition tracked :: "policy_engine \<Rightarrow> string \<Rightarrow> denial_state" where
  "tracked pe s = dict_get_default (pe_tracking pe) s denial_state_zero"

text \<open>\<open>_track\<close>.\<close>

definition count_entries :: "denial_state \<Rightarrow> json_object" where
  "count_entries s = [(''consecutive_denials'', JInt (consecutive_denials s)),
     (''total_denials'', JInt (total_denials s))]"

definition track ::
  "policy_engine \<Rightarrow> string \<Rightarrow> policy_outcome \<Rightarrow> policy_outcome \<times> policy_engine" where
  "track pe session out =
     (let state = tracked pe session;
          (state', out') =
            (if po_decision out = ALLOW then (record_success state, out)
             else if po_decision out = DENY then
               (let st = record_denial state in
                (st, if should_fallback_to_prompting (pe_threshold pe) st
                     then \<lparr>po_decision = ASK,
                           po_reason = Some (case po_reason out of
                               None \<Rightarrow> ''Repeated denials fallback to ask''
                             | Some r \<Rightarrow> str_or r ''Repeated denials fallback to ask''),
                           po_explanation = po_explanation out,
                           po_requires_action_ref = po_requires_action_ref out,
                           po_source = po_source out,
                           po_audit = dict_merge (po_audit out)
                             ((''fallback_to_prompting'', JBool True) # count_entries st)\<rparr>
                     else out))
             else (state, out));
          pe' = pe\<lparr>pe_tracking := dict_set session state' (pe_tracking pe)\<rparr>
      in (if po_audit out' \<noteq> []
          then out'\<lparr>po_audit := dict_merge (po_audit out') (count_entries state')\<rparr> else out', pe'))"

definition matching_rule ::
  "policy_rule list \<Rightarrow> 'w tool \<Rightarrow> tool_call \<Rightarrow> tool_context \<Rightarrow> policy_rule option" where
  "matching_rule rules t c ctx =
     List.find (\<lambda>r. rule_matches r t c ctx \<and> rule_decision r \<noteq> PASSTHROUGH) rules"

text \<open>
  \<open>a or b\<close> on optional strings: the empty string is as good as none.
\<close>

definition opt_or :: "string option \<Rightarrow> string \<Rightarrow> string" where
  "opt_or a b = (case a of None \<Rightarrow> b | Some s \<Rightarrow> str_or s b)"

definition untracked_outcome ::
  "policy_engine \<Rightarrow> 'w tool \<Rightarrow> tool_call \<Rightarrow> tool_context \<Rightarrow> py_error + policy_outcome" where
  "untracked_outcome pe t c ctx =
     (case matching_rule (pe_rules pe) t c ctx of
        Some r \<Rightarrow> Inr \<lparr>po_decision = rule_decision r, po_reason = rule_reason r,
            po_explanation = rule_explanation r, po_requires_action_ref = None,
            po_source = Some (opt_or (rule_source r) ''rule''),
            po_audit = [(''matched_rule'', JStr (opt_or (rule_tool_name r) ''*''))]\<rparr>
      | None \<Rightarrow>
          if pe_fallback_to_tool pe then
            ebind (tool_check_permissions t (call_args c) ctx) (\<lambda>d.
            Inr ((policy_outcome_default d)\<lparr>po_source := Some ''tool.check_permissions''\<rparr>))
          else Inr ((policy_outcome_default ASK)\<lparr>po_reason := Some ''No matching policy rule'',
            po_source := Some ''policy.default''\<rparr>))"

definition evaluate ::
  "policy_engine \<Rightarrow> 'w tool \<Rightarrow> tool_call \<Rightarrow> tool_context \<Rightarrow>
     (py_error + policy_outcome) \<times> policy_engine" where
  "evaluate pe t c ctx =
     (case untracked_outcome pe t c ctx of
        Inl e \<Rightarrow> (Inl e, pe)
      | Inr out \<Rightarrow> (let (out', pe') = track pe (ctx_session ctx) out in (Inr out', pe')))"

subsection \<open>Branches\<close>

lemma matching_rule_SomeD:
  "matching_rule rules t c ctx = Some r \<Longrightarrow>
     r \<in> set rules \<and> rule_matches r t c ctx \<and> rule_decision r \<noteq> PASSTHROUGH"
  by (auto simp: matching_rule_def find_Some_iff)

lemma matching_rule_skip:
  assumes "rule_matches r t c ctx" "rule_decision r \<noteq> PASSTHROUGH"
    "\<forall>u \<in> set us. rule_matches u t c ctx \<longrightarrow> rule_decision u = PASSTHROUGH"
  shows "matching_rule (us @ r # vs) t c ctx = Some r"
  using assms by (induction us) (auto simp: matching_rule_def)

lemma track_decision:
  "po_decision (fst (track pe s out)) =
     (if po_decision out = DENY \<and> pe_threshold pe \<le> consecutive_denials (tracked pe s) + 1
      then ASK else po_decision out)"
  by (auto simp: track_def Let_def should_fallback_to_prompting_def record_denial_def)

lemma track_frame [simp, frame]:
  "pe_rules (snd (track pe s out)) = pe_rules pe"
  "pe_fallback_to_tool (snd (track pe s out)) = pe_fallback_to_tool pe"
  "pe_threshold (snd (track pe s out)) = pe_threshold pe"
  by (simp_all add: track_def Let_def split: prod.splits)

lemma tracked_track:
  "tracked (snd (track pe s out)) s' =
     (if s' = s then
        (if po_decision out = ALLOW then record_success (tracked pe s)
         else if po_decision out = DENY then record_denial (tracked pe s) else tracked pe s)
      else tracked pe s')"
  by (auto simp: track_def Let_def tracked_def dict_get_default_def split: prod.splits)

lemma evaluate_decision:
  "evaluate pe t c ctx = (Inr out, pe') \<Longrightarrow>
     \<exists>raw. untracked_outcome pe t c ctx = Inr raw \<and> pe' = snd (track pe (ctx_session ctx) raw)
       \<and> po_decision out = (if po_decision raw = DENY
            \<and> pe_threshold pe \<le> consecutive_denials (tracked pe (ctx_session ctx)) + 1
          then ASK else po_decision raw)"
  by (cases "untracked_outcome pe t c ctx") (auto simp: evaluate_def split_beta track_decision)

lemma evaluate_frame [frame]:
  "evaluate pe t c ctx = (r, pe') \<Longrightarrow>
     pe_rules pe' = pe_rules pe \<and> pe_fallback_to_tool pe' = pe_fallback_to_tool pe
     \<and> pe_threshold pe' = pe_threshold pe"
  by (cases "untracked_outcome pe t c ctx") (auto simp: evaluate_def split_beta)

subsection \<open>Histories of decisions\<close>

text \<open>
  The engine after a sequence of outcomes, each for a session; the outcomes are those of the rules
  before the denials are counted.
\<close>

fun track_all :: "policy_engine \<Rightarrow> (string \<times> policy_outcome) list \<Rightarrow> policy_engine" where
  "track_all pe [] = pe"
| "track_all pe ((s, out) # h) = track_all (snd (track pe s out)) h"

definition session_decisions :: "string \<Rightarrow> (string \<times> policy_outcome) list \<Rightarrow> permission_decision list" where
  "session_decisions s h = map (\<lambda>so. po_decision (snd so)) (filter (\<lambda>so. fst so = s) h)"

definition denials :: "permission_decision list \<Rightarrow> nat" where
  "denials ds = length (filter (\<lambda>d. d = DENY) ds)"

text \<open>The decisions after the last permission.\<close>

definition since_allow :: "permission_decision list \<Rightarrow> permission_decision list" where
  "since_allow ds = rev (takeWhile (\<lambda>d. d \<noteq> ALLOW) (rev ds))"

lemma since_allow_snoc [simp]:
  "since_allow (ds @ [d]) = (if d = ALLOW then [] else since_allow ds @ [d])"
  by (simp add: since_allow_def)

lemma denials_snoc [simp]: "denials (ds @ [d]) = denials ds + (if d = DENY then 1 else 0)"
  by (simp add: denials_def)

lemma denials_Nil [simp]: "denials [] = 0"
  by (simp add: denials_def)

lemma since_allow_Nil [simp]: "since_allow [] = []"
  by (simp add: since_allow_def)

lemma track_all_snoc: "track_all pe (h @ [(s, out)]) = snd (track (track_all pe h) s out)"
  by (induction pe h rule: track_all.induct) simp_all

lemma session_decisions_snoc:
  "session_decisions s (h @ [(s', out)]) =
     session_decisions s h @ (if s' = s then [po_decision out] else [])"
  by (simp add: session_decisions_def)

lemma track_all_counts:
  assumes "pe_tracking pe = []"
  shows "consecutive_denials (tracked (track_all pe h) s) = int (denials (since_allow (session_decisions s h)))
    \<and> total_denials (tracked (track_all pe h) s) = int (denials (session_decisions s h))"
proof (induction h rule: rev_induct)
  case Nil
  show ?case using assms
    by (simp add: tracked_def dict_get_default_def denial_state_zero_def session_decisions_def)
next
  case (snoc x h)
  obtain s' out where x: "x = (s', out)" by (cases x)
  show ?case using snoc
    by (auto simp: x track_all_snoc session_decisions_snoc tracked_track record_success_def
        record_denial_def)
qed

lemma track_all_threshold [simp]: "pe_threshold (track_all pe h) = pe_threshold pe"
  by (induction pe h rule: track_all.induct) simp_all

subsection \<open>Properties\<close>

text \<open>
  C8.  A permission is only ever granted by a rule or a tool: whatever the denials counted before,
  an outcome of the engine is the decision of the first matching rule that does not pass through
  (or of the fallback), or it is a prompt in place of a denial.
\<close>

theorem policy_never_upgrades_denial:
  assumes "evaluate pe t c ctx = (Inr out, pe')"
  shows "\<exists>raw. untracked_outcome pe t c ctx = Inr raw
    \<and> (po_decision out = po_decision raw \<or> (po_decision raw = DENY \<and> po_decision out = ASK))
    \<and> (\<forall>us r vs. pe_rules pe = us @ r # vs \<and> rule_matches r t c ctx \<and> rule_decision r \<noteq> PASSTHROUGH
         \<and> (\<forall>u \<in> set us. rule_matches u t c ctx \<longrightarrow> rule_decision u = PASSTHROUGH)
       \<longrightarrow> po_decision raw = rule_decision r)"
proof -
  obtain raw where raw: "untracked_outcome pe t c ctx = Inr raw"
      "po_decision out = po_decision raw \<or> (po_decision raw = DENY \<and> po_decision out = ASK)"
    using evaluate_decision [OF assms] by (auto split: if_splits)
  have "po_decision raw = rule_decision r"
    if "pe_rules pe = us @ r # vs" "rule_matches r t c ctx" "rule_decision r \<noteq> PASSTHROUGH"
      "\<forall>u \<in> set us. rule_matches u t c ctx \<longrightarrow> rule_decision u = PASSTHROUGH" for us r vs
    using that raw(1) by (auto simp: untracked_outcome_def matching_rule_skip)
  with raw show ?thesis by blast
qed

text \<open>
  From an engine that has counted nothing, after any history of decisions over any sessions,
  a denial for a session is turned into a prompt exactly when the denials since the session's last
  permission, this one included, reach the threshold; other sessions do not matter.
\<close>

theorem policy_denial_fallback:
  assumes "pe_tracking pe = []" and "po_decision out = DENY"
  shows "po_decision (fst (track (track_all pe h) s out)) =
    (if pe_threshold pe \<le> int (denials (since_allow (session_decisions s h))) + 1 then ASK else DENY)"
  using track_all_counts [OF assms(1), of h s] assms(2) by (simp add: track_decision)

subsection \<open>A concrete engine\<close>

definition sample_engine :: policy_engine where
  "sample_engine = \<lparr>pe_rules = [\<lparr>rule_decision = DENY, rule_tool_name = None, rule_session_prefix = Some ''s'',
      rule_workdir_prefix = None, rule_read_only = None, rule_reason = None, rule_explanation = None,
      rule_source = None\<rparr>], pe_fallback_to_tool = True, pe_threshold = 2, pe_tracking = []\<rparr>"

lemma policy_denial_fallback_witness:
  "po_decision (fst (track (track_all sample_engine [(''s'', policy_outcome_default DENY)]) ''s''
     (policy_outcome_default DENY))) = ASK"
  by (subst policy_denial_fallback)
     (simp_all add: sample_engine_def policy_outcome_default_def session_decisions_def denials_def
       since_allow_def)

definition sample_tool :: "nat tool" where
  "sample_tool = \<lparr>tool_name = ''t'', tool_aliases = [], tool_schema = JDict [], tool_source_attr = None,
     tool_visibility_attr = None, tool_provenance = [], tool_enabled_fn = None, tool_read_only_fn = None,
     tool_destructive = False, tool_concurrency_fn = None, tool_validator = None,
     tool_checker = (\<lambda>_ _. ''allow''), tool_mapper = None, tool_persists = False,
     tool_call_fn = (\<lambda>_ _ w. (Inl (PyError (KeyError [])), w)), tool_stream_fn = None\<rparr>"

definition sample_policy_call :: tool_call where
  "sample_policy_call = \<lparr>tc_name = ''t'', tc_arguments = JDict [], tc_call_id = None\<rparr>"

definition sample_policy_ctx :: tool_context where
  "sample_policy_ctx = \<lparr>ctx_session = ''s1'', ctx_approved = [], ctx_cancel = None, ctx_agent = None,
     ctx_task = None, ctx_workdir = None\<rparr>"

lemma sample_rule_decides:
  "untracked_outcome sample_engine sample_tool sample_policy_call sample_policy_ctx =
     Inr ((policy_outcome_default DENY)\<lparr>po_source := Some ''rule'',
       po_audit := [(''matched_rule'', JStr ''*'')]\<rparr>)"
  by (simp add: untracked_outcome_def matching_rule_def sample_engine_def rule_matches_def
      sample_policy_ctx_def py_startswith_def policy_outcome_default_def opt_or_def)

lemma policy_never_upgrades_denial_witness:
  "\<exists>out pe'. evaluate sample_engine sample_tool sample_policy_call sample_policy_ctx = (Inr out, pe')
     \<and> po_decision out \<in> {DENY, ASK}"
proof -
  obtain out pe' where e:
      "evaluate sample_engine sample_tool sample_policy_call sample_policy_ctx = (Inr out, pe')"
    by (simp add: evaluate_def sample_rule_decides split_beta)
  from policy_never_upgrades_denial [OF e] have "po_decision out \<in> {DENY, ASK}"
    by (auto simp: sample_rule_decides policy_outcome_default_def)
  with e show ?thesis by blast
qed

end
