(* ===== verification/Executor.thy ===== *)
theory Executor
  imports Policy
begin

text \<open>
  The tool executor of \<^verbatim>\<open>tools/executor.py\<close>.  \<open>execute_stream\<close> is a generator: its consumer
  may stop after any event, and then the calls it has not reached do not run.  The model makes the
  consumer explicit as the predicate \<open>stop\<close> on events; a run is the events delivered, the state
  left behind, and how the generator ended (exhausted, closed by the consumer, or with an exception).

  The state holds the policy engine's counters, the execution summaries, the world the tools act on,
  and how many timestamps, execution ids and cancellation polls have been drawn.  The calls that are
  safe to run concurrently go to a thread pool; the model runs them in the order they are submitted,
  which is the order their events are delivered in.  Spans, metrics and progress reports go to the
  observability sinks and are not modelled.
\<close>

subsection \<open>State and generators\<close>

record 'w exec_env =
  ee_registry :: "'w tool_registry"
  ee_now :: "nat \<Rightarrow> string"
  ee_hex :: "nat \<Rightarrow> string"

record 'w exec_state =
  x_policy :: "policy_engine option"
  x_summaries :: "(string, execution_summary) pydict"
  x_world :: 'w
  x_polls :: nat
  x_clock :: nat
  x_execs :: nat

datatype gen_end = Finished | Closed | Raised tool_error

type_synonym 'w gen = "runtime_event list \<times> 'w exec_state \<times> gen_end"

definition gen_seq :: "'w gen \<Rightarrow> ('w exec_state \<Rightarrow> 'w gen) \<Rightarrow> 'w gen" where
  "gen_seq g k = (case g of (evs, st, en) \<Rightarrow>
     (case en of Finished \<Rightarrow> (let (evs', st', en') = k st in (evs @ evs', st', en')) | _ \<Rightarrow> (evs, st, en)))"

definition poll :: "tool_context \<Rightarrow> 'w exec_state \<Rightarrow> bool \<times> 'w exec_state" where
  "poll ctx st = (case ctx_cancel ctx of None \<Rightarrow> (False, st)
     | Some f \<Rightarrow> (f (x_polls st), st\<lparr>x_polls := Suc (x_polls st)\<rparr>))"

definition stamp :: "'w exec_env \<Rightarrow> 'w exec_state \<Rightarrow> string \<times> 'w exec_state" where
  "stamp env st = (ee_now env (x_clock st), st\<lparr>x_clock := Suc (x_clock st)\<rparr>)"

subsection \<open>Events\<close>

definition call_ref :: "string option \<Rightarrow> string \<Rightarrow> string" where
  "call_ref call_id n = opt_or call_id n"

definition tool_event ::
  "'w exec_env \<Rightarrow> tool_context \<Rightarrow> runtime_event_type \<Rightarrow> string \<Rightarrow> json_object \<Rightarrow> 'w exec_state \<Rightarrow>
     runtime_event \<times> 'w exec_state" where
  "tool_event env ctx ty i payload st = (let (ts, st') = stamp env st in
     (\<lparr>ev_type = ty, ev_id = i, ev_timestamp = ts, ev_session = ctx_session ctx,
       ev_payload = payload, ev_agent = ctx_agent ctx, ev_task = ctx_task ctx\<rparr>, st'))"

definition tool_started_event where
  "tool_started_event env ctx c st = tool_event env ctx TOOL_STARTED
     (''tool_started:'' @ call_ref (tc_call_id c) (tc_name c))
     [(''tool_name'', JStr (tc_name c)), (''arguments'', tc_arguments c),
      (''tool_use_id'', jopt_str (tc_call_id c))] st"

definition tool_progress_event where
  "tool_progress_event env ctx p call_id st = tool_event env ctx TOOL_PROGRESS
     (''tool_progress:'' @ call_ref call_id (pr_name p))
     (dict_set ''tool_use_id'' (jopt_str call_id) (tool_progress_to_dict p)) st"

definition tool_result_payload :: "tool_result \<Rightarrow> string option \<Rightarrow> json_object" where
  "tool_result_payload r call_id =
     (let payload = dict_set ''tool_use_id'' (jopt_str call_id) (tool_result_to_dict r)
      in dict_set ''persisted_ref''
           (case jget payload ''persisted_ref'' of JStr s \<Rightarrow> JStr s | _ \<Rightarrow> JNull) payload)"

definition tool_result_event where
  "tool_result_event env ctx r call_id st = tool_event env ctx TOOL_RESULT
     (''tool_result:'' @ call_ref call_id (tr_name r)) (tool_result_payload r call_id) st"

definition tool_failed_event where
  "tool_failed_event env ctx n call_id reason st = tool_event env ctx TOOL_FAILED
     (''tool_failed:'' @ call_ref call_id n)
     [(''tool_name'', JStr n), (''reason'', JStr reason), (''tool_use_id'', jopt_str call_id)] st"

definition tool_cancelled_event where
  "tool_cancelled_event env ctx n call_id reason st = tool_event env ctx TOOL_CANCELLED
     (''tool_cancelled:'' @ call_ref call_id n)
     [(''tool_name'', JStr n), (''reason'', JStr reason), (''tool_use_id'', jopt_str call_id)] st"

text \<open>
  The tool result an event carries: the payload without the tool-use id, through the constructor.
\<close>

definition result_of_payload :: "json_object \<Rightarrow> py_error + tool_result" where
  "result_of_payload p = tool_result_from_dict (dict_pop ''tool_use_id'' p)"

definition payload_text :: "json_object \<Rightarrow> string \<Rightarrow> string \<Rightarrow> string" where
  "payload_text p k dflt = (case dict_get p k of None \<Rightarrow> dflt | Some v \<Rightarrow> py_str v)"

definition empty_summary :: "execution_handle \<Rightarrow> execution_summary" where
  "empty_summary h = \<lparr>xs_handle = h, xs_events = [], xs_results = [], xs_errors = [], xs_modifiers = []\<rparr>"

text \<open>\<open>_record_runtime_event\<close>, on the summary the execution id names.\<close>

definition record_runtime_event ::
  "string \<Rightarrow> runtime_event \<Rightarrow> 'w exec_state \<Rightarrow> py_error + 'w exec_state" where
  "record_runtime_event eid ev st =
     (case dict_get (x_summaries st) eid of
        None \<Rightarrow> Inl (KeyError eid)
      | Some s \<Rightarrow>
         ebind (event_type_for_runtime_event (ev_type ev)) (\<lambda>ty.
         (let s1 = s\<lparr>xs_events := xs_events s @
                [\<lparr>xe_execution = xh_id (xs_handle s),
                  xe_tool_use = field_opt_str (ev_payload ev) ''tool_use_id'',
                  xe_type = ty, xe_timestamp = ev_timestamp ev, xe_payload = ev_payload ev\<rparr>]\<rparr>
          in ebind (if ev_type ev = TOOL_RESULT then
                 ebind (result_of_payload (ev_payload ev)) (\<lambda>r. Inr (s1\<lparr>xs_results := xs_results s1 @ [r]\<rparr>))
               else if ev_type ev = TOOL_FAILED then
                 Inr (s1\<lparr>xs_errors := xs_errors s1 @ [payload_text (ev_payload ev) ''reason'' ''tool_failed'']\<rparr>)
               else if ev_type ev = TOOL_CANCELLED then
                 Inr (s1\<lparr>xs_errors := xs_errors s1 @ [payload_text (ev_payload ev) ''reason'' ''cancelled'']\<rparr>)
               else Inr s1) (\<lambda>s2.
             Inr (st\<lparr>x_summaries := dict_set eid s2 (x_summaries st)\<rparr>)))))"

text \<open>Record an event, deliver it, and see whether the consumer goes on.\<close>

definition emit :: "(runtime_event \<Rightarrow> bool) \<Rightarrow> string \<Rightarrow> runtime_event \<times> 'w exec_state \<Rightarrow> 'w gen" where
  "emit stop eid evst = (case evst of (ev, st) \<Rightarrow>
     (case record_runtime_event eid ev st of
        Inl e \<Rightarrow> ([], st, Raised (PyError e))
      | Inr st' \<Rightarrow> ([ev], st', if stop ev then Closed else Finished)))"

subsection \<open>One tool call\<close>

definition add_modifier :: "string \<Rightarrow> context_modifier option \<Rightarrow> 'w exec_state \<Rightarrow> 'w exec_state" where
  "add_modifier eid m st = (case m of None \<Rightarrow> st
     | Some cm \<Rightarrow> (case dict_get (x_summaries st) eid of None \<Rightarrow> st
         | Some s \<Rightarrow> st\<lparr>x_summaries := dict_set eid (s\<lparr>xs_modifiers := xs_modifiers s @ [cm]\<rparr>)
             (x_summaries st)\<rparr>))"

definition stream_one ::
  "'w exec_env \<Rightarrow> (runtime_event \<Rightarrow> bool) \<Rightarrow> string \<Rightarrow> tool_context \<Rightarrow> 'w tool \<Rightarrow> tool_call \<Rightarrow>
     stream_item \<Rightarrow> 'w exec_state \<Rightarrow> 'w gen" where
  "stream_one env stop eid ctx t c item st =
     gen_seq (case si_progress item of None \<Rightarrow> ([], st, Finished)
              | Some p \<Rightarrow> emit stop eid (tool_progress_event env ctx p (tc_call_id c) st)) (\<lambda>st1.
     (let st2 = add_modifier eid (si_modifier item) st1 in
      case si_result item of None \<Rightarrow> ([], st2, Finished)
      | Some r \<Rightarrow> emit stop eid
          (tool_result_event env ctx (tool_map_result t r (tc_call_id c)) (tc_call_id c) st2)))"

text \<open>\<open>_stream_tool_call\<close>: the cancellation check is polled after each item is produced.\<close>

fun stream_tool_call ::
  "'w exec_env \<Rightarrow> (runtime_event \<Rightarrow> bool) \<Rightarrow> string \<Rightarrow> tool_context \<Rightarrow> 'w tool \<Rightarrow> tool_call \<Rightarrow>
     ('w \<Rightarrow> stream_step \<times> 'w) list \<Rightarrow> 'w exec_state \<Rightarrow> 'w gen" where
  "stream_tool_call env stop eid ctx t c [] st = ([], st, Finished)"
| "stream_tool_call env stop eid ctx t c (f # fs) st =
     (let (step, w) = f (x_world st); st1 = st\<lparr>x_world := w\<rparr> in
      case step of
        StreamRaise e \<Rightarrow> ([], st1, Raised e)
      | StreamItem item \<Rightarrow>
          (let (cancelled, st2) = poll ctx st1 in
           if cancelled then ([], st2, Raised (ToolCancelledError (tc_name c) ''cancelled''))
           else gen_seq (stream_one env stop eid ctx t c item st2)
                  (stream_tool_call env stop eid ctx t c fs)))"

text \<open>\<open>tool_call_helper\<close>: a persisted reference is turned into a string, which it is here.\<close>

definition tool_call_helper ::
  "'w tool \<Rightarrow> tool_call \<Rightarrow> tool_context \<Rightarrow> 'w \<Rightarrow> (tool_error + tool_result) \<times> 'w" where
  "tool_call_helper t c ctx w =
     (let (res, w') = tool_call_fn t (call_args c) ctx w in
      (ebind res (\<lambda>r. Inr (if tool_persists t \<and> tr_persisted r \<noteq> None
         then r\<lparr>tr_persisted := Some (case tr_persisted r of None \<Rightarrow> [] | Some s \<Rightarrow> s)\<rparr> else r)), w'))"

text \<open>The body of the \<open>try\<close> of \<open>_execute_tool_call\<close>.\<close>

definition execute_tool_body ::
  "'w exec_env \<Rightarrow> (runtime_event \<Rightarrow> bool) \<Rightarrow> string \<Rightarrow> tool_context \<Rightarrow> 'w tool \<Rightarrow> tool_call \<Rightarrow>
     'w exec_state \<Rightarrow> 'w gen" where
  "execute_tool_body env stop eid ctx t c st =
     (case tool_stream_fn t of
        Some f \<Rightarrow> stream_tool_call env stop eid ctx t c (f (call_args c) ctx) st
      | None \<Rightarrow>
         (let (res, w) = tool_call_helper t c ctx (x_world st); st1 = st\<lparr>x_world := w\<rparr> in
          case res of
            Inl e \<Rightarrow> ([], st1, Raised e)
          | Inr r \<Rightarrow> emit stop eid
              (tool_result_event env ctx (tool_map_result t r (tc_call_id c)) (tc_call_id c) st1)))"

text \<open>The handlers: a prompt goes through, a cancellation and any other exception become events.\<close>

definition handle_tool_error ::
  "'w exec_env \<Rightarrow> (runtime_event \<Rightarrow> bool) \<Rightarrow> string \<Rightarrow> tool_context \<Rightarrow> tool_call \<Rightarrow> 'w gen \<Rightarrow> 'w gen" where
  "handle_tool_error env stop eid ctx c g = (case g of (evs, st, en) \<Rightarrow>
     (case en of
        Raised (RequiresActionError r) \<Rightarrow> g
      | Raised (ToolCancelledError n r) \<Rightarrow>
          (let (evs', st', en') = emit stop eid (tool_cancelled_event env ctx (tc_name c) (tc_call_id c)
             (tool_error_text (ToolCancelledError n r)) st) in (evs @ evs', st', en'))
      | Raised e \<Rightarrow>
          (let (evs', st', en') = emit stop eid (tool_failed_event env ctx (tc_name c) (tc_call_id c)
             (tool_error_text e) st) in (evs @ evs', st', en'))
      | _ \<Rightarrow> g))"

definition execute_tool_call ::
  "'w exec_env \<Rightarrow> (runtime_event \<Rightarrow> bool) \<Rightarrow> string \<Rightarrow> tool_context \<Rightarrow> tool_call \<Rightarrow>
     'w exec_state \<Rightarrow> 'w gen" where
  "execute_tool_call env stop eid ctx c st =
     (case resolve_tool (ee_registry env) (tc_name c) of
        Inl e \<Rightarrow> ([], st, Raised (PyError e))
      | Inr t \<Rightarrow> handle_tool_error env stop eid ctx c (execute_tool_body env stop eid ctx t c st))"

subsection \<open>Validation and permission\<close>

fun missing_required :: "json list \<Rightarrow> json_object \<Rightarrow> string \<Rightarrow> tool_error option" where
  "missing_required [] args n = None"
| "missing_required (JStr f # r) args n =
     (if dict_get args f = None
      then Some (ToolValidationError n (''missing required field '' @ f)) else missing_required r args n)"
| "missing_required (JList l # r) args n = Some (PyError (TypeError ''unhashable type: list''))"
| "missing_required (JDict d # r) args n = Some (PyError (TypeError ''unhashable type: dict''))"
| "missing_required (x # r) args n =
     Some (ToolValidationError n (''missing required field '' @ py_str x))"

definition schema_required :: "json \<Rightarrow> json list" where
  "schema_required schema = (case as_dict schema of None \<Rightarrow> []
     | Some d \<Rightarrow> (case as_list (jget d ''required'') of None \<Rightarrow> [] | Some l \<Rightarrow> l))"

definition validate_arguments :: "'w tool \<Rightarrow> json \<Rightarrow> tool_error + json_object" where
  "validate_arguments t arguments =
     (case as_dict arguments of
        None \<Rightarrow> Inl (ToolValidationError (tool_name t) ''tool arguments must be an object'')
      | Some args \<Rightarrow>
          (case missing_required (schema_required (tool_schema t)) args (tool_name t) of
             Some e \<Rightarrow> Inl e
           | None \<Rightarrow> (case tool_validate_input t args of
                Inr d \<Rightarrow> Inr d
              | Inl (PyError (KeyError s)) \<Rightarrow>
                  Inl (ToolValidationError (tool_name t) (py_error_text (KeyError s)))
              | Inl (PyError (TypeError s)) \<Rightarrow> Inl (ToolValidationError (tool_name t) s)
              | Inl (PyError (ValueError s)) \<Rightarrow> Inl (ToolValidationError (tool_name t) s)
              | Inl e \<Rightarrow> Inl e)))"

definition evaluate_policy ::
  "'w tool \<Rightarrow> tool_call \<Rightarrow> tool_context \<Rightarrow> 'w exec_state \<Rightarrow>
     (py_error + policy_outcome) \<times> 'w exec_state" where
  "evaluate_policy t c ctx st = (case x_policy st of
     Some pe \<Rightarrow> (let (res, pe') = evaluate pe t c ctx; st' = st\<lparr>x_policy := Some pe'\<rparr> in
        (ebind res (\<lambda>out. Inr (if po_decision out = PASSTHROUGH
           then (policy_outcome_default ALLOW)\<lparr>po_source := Some ''passthrough''\<rparr> else out)), st'))
   | None \<Rightarrow> (ebind (tool_check_permissions t (call_args c) ctx) (\<lambda>d.
        Inr ((policy_outcome_default d)\<lparr>po_source := Some ''tool.check_permissions''\<rparr>)), st))"

text \<open>The decision after the approvals of the context.\<close>

definition effective_decision :: "tool_call \<Rightarrow> tool_context \<Rightarrow> policy_outcome \<Rightarrow> permission_decision" where
  "effective_decision c ctx out =
     (if po_decision out = ASK \<and> tc_name c \<in> set (ctx_approved ctx) then ALLOW else po_decision out)"

definition permission_request ::
  "tool_call \<Rightarrow> json_object \<Rightarrow> tool_context \<Rightarrow> policy_outcome \<Rightarrow> requires_action" where
  "permission_request c args ctx out =
     \<lparr>ra_action_type = ''tool_permission'', ra_session = ctx_session ctx,
      ra_description = opt_or (po_reason out) (''Permission required for tool '' @ tc_name c),
      ra_terminal_state = ''requires_action'', ra_resumable = True, ra_agent = None, ra_task = None,
      ra_tool_name = Some (tc_name c), ra_input = Some args, ra_request = tc_call_id c,
      ra_action_ref = tc_call_id c, ra_policy_decision = None\<rparr>"

text \<open>
  What the loop does with a call before it runs it: resolve, validate, ask the policy.  The result
  is the tool and the normalised call, or the exception that ends the generator.
\<close>

definition admit ::
  "'w exec_env \<Rightarrow> tool_context \<Rightarrow> tool_call \<Rightarrow> 'w exec_state \<Rightarrow>
     (tool_error + 'w tool \<times> tool_call) \<times> 'w exec_state" where
  "admit env ctx c st =
     (case resolve_tool (ee_registry env) (tc_name c) of
        Inl e \<Rightarrow> (Inl (PyError e), st)
      | Inr t \<Rightarrow>
        (case validate_arguments t (tc_arguments c) of
           Inl e \<Rightarrow> (Inl e, st)
         | Inr args \<Rightarrow>
            (let nc = c\<lparr>tc_arguments := JDict args\<rparr>; (res, st') = evaluate_policy t nc ctx st in
             case res of
               Inl e \<Rightarrow> (Inl (PyError e), st')
             | Inr out \<Rightarrow>
                 (let d = effective_decision c ctx out in
                  if d = ASK then (Inl (RequiresActionError (permission_request c args ctx out)), st')
                  else if d = DENY then
                    (Inl (ToolPermissionDeniedError (tc_name c)
                       (opt_or (po_reason out) ''Permission denied by tool policy'')), st')
                  else (Inr (t, nc), st')))))"

subsection \<open>The stream\<close>

text \<open>The pool: every submitted call runs to its end, whatever the consumer does.\<close>

fun run_pool ::
  "'w exec_env \<Rightarrow> string \<Rightarrow> tool_context \<Rightarrow> tool_call list \<Rightarrow> 'w exec_state \<Rightarrow>
     (runtime_event list \<times> gen_end) list \<times> 'w exec_state" where
  "run_pool env eid ctx [] st = ([], st)"
| "run_pool env eid ctx (c # cs) st =
     (let (evs, st1, en) = execute_tool_call env (\<lambda>_. False) eid ctx c st;
          (rest, st2) = run_pool env eid ctx cs st1
      in ((evs, en) # rest, st2))"

fun deliver_events :: "(runtime_event \<Rightarrow> bool) \<Rightarrow> runtime_event list \<Rightarrow> runtime_event list \<times> gen_end" where
  "deliver_events stop [] = ([], Finished)"
| "deliver_events stop (e # es) =
     (if stop e then ([e], Closed) else (let (r, en) = deliver_events stop es in (e # r, en)))"

text \<open>\<open>future.result()\<close> raises what the call raised; otherwise its events are delivered.\<close>

fun deliver_futures ::
  "(runtime_event \<Rightarrow> bool) \<Rightarrow> (runtime_event list \<times> gen_end) list \<Rightarrow> runtime_event list \<times> gen_end" where
  "deliver_futures stop [] = ([], Finished)"
| "deliver_futures stop ((evs, en) # r) = (case en of
     Raised e \<Rightarrow> ([], Raised e)
   | _ \<Rightarrow> (let (d, en') = deliver_events stop evs in
       case en' of Finished \<Rightarrow> (let (d', en'') = deliver_futures stop r in (d @ d', en''))
       | _ \<Rightarrow> (d, en')))"

definition run_safe_calls ::
  "'w exec_env \<Rightarrow> (runtime_event \<Rightarrow> bool) \<Rightarrow> string \<Rightarrow> tool_context \<Rightarrow> tool_call list \<Rightarrow>
     'w exec_state \<Rightarrow> 'w gen" where
  "run_safe_calls env stop eid ctx cs st =
     (let (futures, st') = run_pool env eid ctx cs st; (d, en) = deliver_futures stop futures
      in (d, st', en))"

text \<open>The loop over the calls, with the concurrency-safe ones put aside.\<close>

fun stream_calls ::
  "'w exec_env \<Rightarrow> (runtime_event \<Rightarrow> bool) \<Rightarrow> string \<Rightarrow> tool_context \<Rightarrow> tool_call list \<Rightarrow>
     tool_call list \<Rightarrow> 'w exec_state \<Rightarrow> 'w gen" where
  "stream_calls env stop eid ctx safe [] st = run_safe_calls env stop eid ctx safe st"
| "stream_calls env stop eid ctx safe (c # cs) st =
     (let (res, st1) = admit env ctx c st in
      case res of
        Inl e \<Rightarrow> ([], st1, Raised e)
      | Inr (t, nc) \<Rightarrow>
          gen_seq (emit stop eid (tool_started_event env ctx nc st1)) (\<lambda>st2.
          (let (cancelled, st3) = poll ctx st2 in
           if cancelled then
             gen_seq (emit stop eid
                 (tool_cancelled_event env ctx (tc_name c) (tc_call_id c) ''user_interrupted'' st3))
               (stream_calls env stop eid ctx safe cs)
           else if tool_is_concurrency_safe t (call_args nc) then
             stream_calls env stop eid ctx (safe @ [nc]) cs st3
           else gen_seq (execute_tool_call env stop eid ctx nc st3)
             (stream_calls env stop eid ctx safe cs))))"

definition new_execution ::
  "'w exec_env \<Rightarrow> tool_context \<Rightarrow> tool_call list \<Rightarrow> 'w exec_state \<Rightarrow> string \<times> 'w exec_state" where
  "new_execution env ctx cs st =
     (let eid = ''exec_'' @ ee_hex env (x_execs st);
          (ts, st1) = stamp env (st\<lparr>x_execs := Suc (x_execs st)\<rparr>);
          h = \<lparr>xh_id = eid,
               xh_tool_uses = concat (map (\<lambda>c. case tc_call_id c of None \<Rightarrow> []
                  | Some i \<Rightarrow> if i = [] then [] else [i]) cs),
               xh_session = Some (ctx_session ctx), xh_task = ctx_task ctx, xh_started = Some ts\<rparr>
      in (eid, st1\<lparr>x_summaries := dict_set eid (empty_summary h) (x_summaries st1)\<rparr>))"

definition execute_stream ::
  "'w exec_env \<Rightarrow> (runtime_event \<Rightarrow> bool) \<Rightarrow> tool_call list \<Rightarrow> tool_context \<Rightarrow> 'w exec_state \<Rightarrow> 'w gen" where
  "execute_stream env stop cs ctx st =
     (if cs = [] then ([], st, Finished)
      else (let (eid, st') = new_execution env ctx cs st
            in stream_calls env stop eid ctx [] cs st'))"

definition get_summary :: "execution_handle \<Rightarrow> 'w exec_state \<Rightarrow> py_error + execution_summary" where
  "get_summary h st = (case dict_get (x_summaries st) (xh_id h) of
     None \<Rightarrow> Inl (KeyError (xh_id h)) | Some s \<Rightarrow> Inr s)"

text \<open>
  \<open>execute\<close>: the results of the stream; a failed or cancelled event raises, which closes it.
\<close>

definition stops_turn :: "runtime_event \<Rightarrow> bool" where
  "stops_turn e \<longleftrightarrow> ev_type e = TOOL_FAILED \<or> ev_type e = TOOL_CANCELLED"

fun collect_results :: "runtime_event list \<Rightarrow> tool_error + tool_result list" where
  "collect_results [] = Inr []"
| "collect_results (e # es) =
     (if ev_type e = TOOL_RESULT then
        (case result_of_payload (ev_payload e) of
           Inl x \<Rightarrow> Inl (PyError x)
         | Inr r \<Rightarrow> ebind (collect_results es) (\<lambda>rs. Inr (r # rs)))
      else if ev_type e = TOOL_FAILED then
        Inl (ToolExecutionFailedError (payload_text (ev_payload e) ''tool_name'' ''unknown'')
          (payload_text (ev_payload e) ''reason'' ''tool_failed''))
      else if ev_type e = TOOL_CANCELLED then
        Inl (ToolCancelledError (payload_text (ev_payload e) ''tool_name'' ''unknown'')
          (payload_text (ev_payload e) ''reason'' ''cancelled''))
      else collect_results es)"

definition execute ::
  "'w exec_env \<Rightarrow> tool_call list \<Rightarrow> tool_context \<Rightarrow> 'w exec_state \<Rightarrow>
     (tool_error + tool_result list) \<times> 'w exec_state" where
  "execute env cs ctx st =
     (let (evs, st', en) = execute_stream env stops_turn cs ctx st in
      (ebind (collect_results evs) (\<lambda>rs. case en of Raised e \<Rightarrow> Inl e | _ \<Rightarrow> Inr rs), st'))"

subsection \<open>Frames\<close>

abbreviation g_events :: "'w gen \<Rightarrow> runtime_event list" where "g_events g \<equiv> fst g"
abbreviation g_state :: "'w gen \<Rightarrow> 'w exec_state" where "g_state g \<equiv> fst (snd g)"
abbreviation g_end :: "'w gen \<Rightarrow> gen_end" where "g_end g \<equiv> snd (snd g)"

lemma gen_seq_state:
  "g_state (gen_seq g k) = (if g_end g = Finished then g_state (k (g_state g)) else g_state g)"
  by (auto simp: gen_seq_def split: prod.splits gen_end.splits)

lemma gen_seq_events:
  "g_events (gen_seq g k) =
     (if g_end g = Finished then g_events g @ g_events (k (g_state g)) else g_events g)"
  by (auto simp: gen_seq_def split: prod.splits gen_end.splits)

lemma gen_seq_end:
  "g_end (gen_seq g k) = (if g_end g = Finished then g_end (k (g_state g)) else g_end g)"
  by (auto simp: gen_seq_def split: prod.splits gen_end.splits)

lemmas gen_seq_simps = gen_seq_state gen_seq_events gen_seq_end

lemma tool_event_state [simp]: "snd (tool_event env ctx ty i p st) = st\<lparr>x_clock := Suc (x_clock st)\<rparr>"
  by (simp add: tool_event_def stamp_def)

lemma tool_event_fields [simp]:
  "ev_type (fst (tool_event env ctx ty i p st)) = ty"
  "ev_id (fst (tool_event env ctx ty i p st)) = i"
  "ev_payload (fst (tool_event env ctx ty i p st)) = p"
  "ev_session (fst (tool_event env ctx ty i p st)) = ctx_session ctx"
  "ev_task (fst (tool_event env ctx ty i p st)) = ctx_task ctx"
  by (simp_all add: tool_event_def stamp_def)

lemmas tool_event_defs = tool_started_event_def tool_progress_event_def tool_result_event_def
  tool_failed_event_def tool_cancelled_event_def

lemma record_runtime_event_frame:
  "record_runtime_event eid ev st = Inr st' \<Longrightarrow>
     x_world st' = x_world st \<and> x_policy st' = x_policy st \<and> x_polls st' = x_polls st
     \<and> x_clock st' = x_clock st \<and> x_execs st' = x_execs st
     \<and> dom (dict_get (x_summaries st')) = dom (dict_get (x_summaries st))"
  by (auto simp: record_runtime_event_def Let_def ebind_Inr_iff insert_absorb dom_def
      split: option.splits if_splits)

lemma emit_frame [simp, frame]:
  "x_world (g_state (emit stop eid p)) = x_world (snd p)"
  "x_policy (g_state (emit stop eid p)) = x_policy (snd p)"
  "x_polls (g_state (emit stop eid p)) = x_polls (snd p)"
  "x_clock (g_state (emit stop eid p)) = x_clock (snd p)"
  "x_execs (g_state (emit stop eid p)) = x_execs (snd p)"
  "dom (dict_get (x_summaries (g_state (emit stop eid p)))) = dom (dict_get (x_summaries (snd p)))"
  by (cases p; simp add: emit_def split: sum.splits; blast dest: record_runtime_event_frame)+

lemma poll_frame [simp, frame]:
  "x_world (snd (poll ctx st)) = x_world st"
  "x_policy (snd (poll ctx st)) = x_policy st"
  "x_summaries (snd (poll ctx st)) = x_summaries st"
  "x_clock (snd (poll ctx st)) = x_clock st"
  by (simp_all add: poll_def split: option.splits)

lemma add_modifier_frame [simp, frame]:
  "x_world (add_modifier eid m st) = x_world st"
  "x_policy (add_modifier eid m st) = x_policy st"
  "dom (dict_get (x_summaries (add_modifier eid m st))) = dom (dict_get (x_summaries st))"
  by (auto simp: add_modifier_def split: option.splits)

lemma stream_one_frame [simp, frame]:
  "x_world (g_state (stream_one env stop eid ctx t c item st)) = x_world st"
  "x_policy (g_state (stream_one env stop eid ctx t c item st)) = x_policy st"
  "dom (dict_get (x_summaries (g_state (stream_one env stop eid ctx t c item st)))) =
     dom (dict_get (x_summaries st))"
  by (auto simp: stream_one_def Let_def gen_seq_state tool_event_defs split: option.splits)

text \<open>What a tool does to the world, whatever the arguments of the other methods are.\<close>

definition tool_preserves :: "('w \<Rightarrow> bool) \<Rightarrow> tool_context \<Rightarrow> 'w tool \<Rightarrow> tool_call \<Rightarrow> bool" where
  "tool_preserves I ctx t c \<longleftrightarrow>
     (\<forall>w. I w \<longrightarrow> I (snd (tool_call_fn t (call_args c) ctx w)))
     \<and> (\<forall>f. tool_stream_fn t = Some f \<longrightarrow> (\<forall>g \<in> set (f (call_args c) ctx). \<forall>w. I w \<longrightarrow> I (snd (g w))))"

lemma stream_tool_call_frame:
  "x_policy (g_state (stream_tool_call env stop eid ctx t c fs st)) = x_policy st
   \<and> dom (dict_get (x_summaries (g_state (stream_tool_call env stop eid ctx t c fs st)))) =
       dom (dict_get (x_summaries st))
   \<and> ((\<forall>g \<in> set fs. \<forall>w. I w \<longrightarrow> I (snd (g w))) \<longrightarrow> I (x_world st) \<longrightarrow>
       I (x_world (g_state (stream_tool_call env stop eid ctx t c fs st))))"
proof (induction fs arbitrary: st)
  case (Cons f fs)
  obtain step w where f: "f (x_world st) = (step, w)" by (cases "f (x_world st)")
  obtain b st2 where p: "poll ctx (st\<lparr>x_world := w\<rparr>) = (b, st2)" by (cases "poll ctx (st\<lparr>x_world := w\<rparr>)")
  have st2: "x_world st2 = w" "x_policy st2 = x_policy st" "x_summaries st2 = x_summaries st"
    using poll_frame [of ctx "st\<lparr>x_world := w\<rparr>"] by (simp_all add: p)
  have w: "(\<forall>g \<in> set (f # fs). \<forall>w. I w \<longrightarrow> I (snd (g w))) \<Longrightarrow> I (x_world st) \<Longrightarrow> I w"
    using f by (metis list.set_intros(1) snd_conv)
  show ?case
    using Cons.IH w st2
    by (cases step) (simp_all add: f p gen_seq_state Let_def)
qed simp

lemma execute_tool_body_frame:
  "x_policy (g_state (execute_tool_body env stop eid ctx t c st)) = x_policy st
   \<and> dom (dict_get (x_summaries (g_state (execute_tool_body env stop eid ctx t c st)))) =
       dom (dict_get (x_summaries st))
   \<and> (tool_preserves I ctx t c \<longrightarrow> I (x_world st) \<longrightarrow>
       I (x_world (g_state (execute_tool_body env stop eid ctx t c st))))"
proof (cases "tool_stream_fn t")
  case None
  obtain res w where h: "tool_call_helper t c ctx (x_world st) = (res, w)"
    by (cases "tool_call_helper t c ctx (x_world st)")
  then have "w = snd (tool_call_fn t (call_args c) ctx (x_world st))"
    by (auto simp: tool_call_helper_def split: prod.splits)
  then show ?thesis
    by (cases res) (auto simp: execute_tool_body_def None h tool_preserves_def tool_event_defs Let_def)
next
  case (Some f)
  then show ?thesis
    using stream_tool_call_frame [of env stop eid ctx t c "f (call_args c) ctx" st I]
    by (auto simp: execute_tool_body_def tool_preserves_def)
qed

lemma handle_tool_error_frame [simp]:
  "x_policy (g_state (handle_tool_error env stop eid ctx c g)) = x_policy (g_state g)"
  "x_world (g_state (handle_tool_error env stop eid ctx c g)) = x_world (g_state g)"
  "dom (dict_get (x_summaries (g_state (handle_tool_error env stop eid ctx c g)))) =
     dom (dict_get (x_summaries (g_state g)))"
  by (auto simp: handle_tool_error_def tool_event_defs split_beta split: gen_end.splits tool_error.splits)

lemma execute_tool_call_frame [simp]:
  "x_policy (g_state (execute_tool_call env stop eid ctx c st)) = x_policy st"
  "dom (dict_get (x_summaries (g_state (execute_tool_call env stop eid ctx c st)))) =
     dom (dict_get (x_summaries st))"
  using execute_tool_body_frame [of env stop eid ctx _ c st]
  by (auto simp: execute_tool_call_def split: sum.splits)

lemma execute_tool_call_world:
  assumes "resolve_tool (ee_registry env) (tc_name c) = Inr t" "tool_preserves I ctx t c" "I (x_world st)"
  shows "I (x_world (g_state (execute_tool_call env stop eid ctx c st)))"
  using assms execute_tool_body_frame [of env stop eid ctx t c st I]
  by (simp add: execute_tool_call_def)

lemma run_pool_frame [simp]:
  "x_policy (snd (run_pool env eid ctx cs st)) = x_policy st"
  by (induction cs arbitrary: st) (auto simp: split_beta Let_def)

lemma run_pool_world:
  assumes "\<And>c. c \<in> set cs \<Longrightarrow>
      \<exists>t. resolve_tool (ee_registry env) (tc_name c) = Inr t \<and> tool_preserves I ctx t c"
    and "I (x_world st)"
  shows "I (x_world (snd (run_pool env eid ctx cs st)))"
  using assms
proof (induction cs arbitrary: st)
  case (Cons c cs)
  then obtain t where t: "resolve_tool (ee_registry env) (tc_name c) = Inr t" "tool_preserves I ctx t c"
    by (meson list.set_intros(1))
  have "I (x_world (g_state (execute_tool_call env (\<lambda>_. False) eid ctx c st)))"
    by (rule execute_tool_call_world [OF t Cons.prems(2)])
  then show ?case using Cons.IH Cons.prems(1)
    by (simp add: split_beta Let_def)
qed simp

subsection \<open>Admissions\<close>

text \<open>
  The calls of a batch the loop lets through, up to the first one it does not: decided by the
  registry, the tools' validation and the policy alone.
\<close>

fun admissions ::
  "'w exec_env \<Rightarrow> tool_context \<Rightarrow> tool_call list \<Rightarrow> 'w exec_state \<Rightarrow> ('w tool \<times> tool_call) list" where
  "admissions env ctx [] st = []"
| "admissions env ctx (c # cs) st = (case admit env ctx c st of
     (Inl e, st') \<Rightarrow> [] | (Inr tnc, st') \<Rightarrow> tnc # admissions env ctx cs st')"

lemma admit_frame [simp, frame]:
  "x_world (snd (admit env ctx c st)) = x_world st"
  "x_summaries (snd (admit env ctx c st)) = x_summaries st"
  "x_polls (snd (admit env ctx c st)) = x_polls st"
  "x_clock (snd (admit env ctx c st)) = x_clock st"
  "x_execs (snd (admit env ctx c st)) = x_execs st"
  by (auto simp: admit_def evaluate_policy_def Let_def split_beta split: sum.splits option.splits)

lemma admit_policy_only:
  assumes "x_policy st = x_policy st'"
  shows "fst (admit env ctx c st) = fst (admit env ctx c st')
    \<and> x_policy (snd (admit env ctx c st)) = x_policy (snd (admit env ctx c st'))"
  using assms
  by (auto simp: admit_def evaluate_policy_def Let_def split_beta split: sum.splits option.splits)

lemma admissions_policy_only:
  "x_policy st = x_policy st' \<Longrightarrow> admissions env ctx cs st = admissions env ctx cs st'"
proof (induction cs arbitrary: st st')
  case (Cons c cs)
  obtain r s1 r' s1' where a: "admit env ctx c st = (r, s1)" "admit env ctx c st' = (r', s1')"
    by (cases "admit env ctx c st"; cases "admit env ctx c st'")
  then have "r = r'" "x_policy s1 = x_policy s1'"
    using admit_policy_only [OF Cons.prems, of env ctx c] by simp_all
  then show ?case using Cons.IH [of s1 s1'] by (cases r; cases r') (simp_all add: a)
qed simp

text \<open>What an admitted call is: a resolved tool, validated arguments, a permission.\<close>

lemma admit_InrD:
  assumes "admit env ctx c st = (Inr (t, nc), st')"
  shows "resolve_tool (ee_registry env) (tc_name c) = Inr t"
    and "tc_name nc = tc_name c" and "tc_call_id nc = tc_call_id c"
    and "\<exists>args. validate_arguments t (tc_arguments c) = Inr args \<and> tc_arguments nc = JDict args"
    and "\<exists>out. fst (evaluate_policy t nc ctx st) = Inr out
      \<and> effective_decision c ctx out \<in> {ALLOW, PASSTHROUGH}"
proof -
  obtain args out where *: "resolve_tool (ee_registry env) (tc_name c) = Inr t"
      "validate_arguments t (tc_arguments c) = Inr args" "nc = c\<lparr>tc_arguments := JDict args\<rparr>"
      "fst (evaluate_policy t nc ctx st) = Inr out"
      "effective_decision c ctx out \<noteq> ASK" "effective_decision c ctx out \<noteq> DENY"
    using assms by (auto simp: admit_def Let_def split_beta split: sum.splits if_splits)
  then show "resolve_tool (ee_registry env) (tc_name c) = Inr t"
    and "tc_name nc = tc_name c" and "tc_call_id nc = tc_call_id c"
    and "\<exists>args. validate_arguments t (tc_arguments c) = Inr args \<and> tc_arguments nc = JDict args"
    by auto
  show "\<exists>out. fst (evaluate_policy t nc ctx st) = Inr out
      \<and> effective_decision c ctx out \<in> {ALLOW, PASSTHROUGH}"
    using * by (cases "effective_decision c ctx out") auto
qed

lemma admissions_resolve:
  "(t, nc) \<in> set (admissions env ctx cs st) \<Longrightarrow> resolve_tool (ee_registry env) (tc_name nc) = Inr t"
proof (induction cs arbitrary: st)
  case (Cons c cs)
  obtain r s1 where a: "admit env ctx c st = (r, s1)" by (cases "admit env ctx c st")
  show ?case
  proof (cases r)
    case (Inl e)
    then show ?thesis using Cons.prems by (simp add: a)
  next
    case (Inr tnc)
    then show ?thesis
      using Cons a admit_InrD(1,2) [of env ctx c st "fst tnc" "snd tnc" s1] by auto
  qed
qed simp

text \<open>
  An effect on the world comes from an admitted call: what all of them preserve holds at the end of
  the loop, however the consumer behaves and the generator ends.
\<close>

lemma stream_calls_world:
  assumes "\<forall>(t, nc) \<in> set (admissions env ctx cs st). tool_preserves I ctx t nc"
    and "\<forall>nc \<in> set safe. \<exists>t. resolve_tool (ee_registry env) (tc_name nc) = Inr t \<and> tool_preserves I ctx t nc"
    and "I (x_world st)"
  shows "I (x_world (g_state (stream_calls env stop eid ctx safe cs st)))"
  using assms
proof (induction cs arbitrary: st safe)
  case Nil
  then show ?case
    using run_pool_world [of safe env I ctx st eid]
    by (auto simp: run_safe_calls_def split_beta)
next
  case (Cons c cs)
  obtain res st1 where a: "admit env ctx c st = (res, st1)" by (cases "admit env ctx c st")
  have w1: "x_world st1 = x_world st" using admit_frame(1) [of env ctx c st] by (simp add: a)
  show ?case
  proof (cases res)
    case (Inl e)
    then show ?thesis using Cons.prems(3) w1 by (simp add: a)
  next
    case (Inr tnc)
    obtain t nc where tnc: "tnc = (t, nc)" by (cases tnc)
    note d = admit_InrD [OF a [unfolded Inr tnc]]
    have pres: "tool_preserves I ctx t nc" and rest: "\<forall>(t, nc) \<in> set (admissions env ctx cs st1). tool_preserves I ctx t nc"
      using Cons.prems(1) by (auto simp: a Inr tnc)
    have res': "resolve_tool (ee_registry env) (tc_name nc) = Inr t" using d by simp
    have IH: "I (x_world (g_state (stream_calls env stop eid ctx sf cs s)))"
      if "x_policy s = x_policy st1" "I (x_world s)"
        "\<forall>nc \<in> set sf. \<exists>t. resolve_tool (ee_registry env) (tc_name nc) = Inr t \<and> tool_preserves I ctx t nc"
      for s sf
      using Cons.IH [of s sf] rest admissions_policy_only [OF that(1), of env ctx cs] that by simp
    show ?thesis
      using Cons.prems(2,3) w1 pres res'
      by (auto simp: a Inr tnc gen_seq_state split_beta Let_def tool_event_defs
          intro!: IH execute_tool_call_world [OF res' pres])
  qed
qed

text \<open>
  The decision about a call before denials are counted and approvals applied.  It depends on the
  rules alone, so it is the same throughout a batch.
\<close>

definition base_decision ::
  "policy_engine option \<Rightarrow> 'w tool \<Rightarrow> tool_call \<Rightarrow> tool_context \<Rightarrow> py_error + permission_decision" where
  "base_decision pol t c ctx = (case pol of
     None \<Rightarrow> tool_check_permissions t (call_args c) ctx
   | Some pe \<Rightarrow> ebind (untracked_outcome pe t c ctx) (\<lambda>out. Inr (po_decision out)))"

lemma base_decision_evaluate:
  assumes "fst (evaluate_policy t nc ctx st) = Inr out"
    and "effective_decision c ctx out \<in> {ALLOW, PASSTHROUGH}" and "tc_name c = tc_name nc"
  shows "base_decision (x_policy st) t nc ctx \<in> {Inr ALLOW, Inr PASSTHROUGH}
    \<or> tc_name nc \<in> set (ctx_approved ctx)"
proof (cases "x_policy st")
  case None
  with assms show ?thesis
    by (auto simp: evaluate_policy_def base_decision_def effective_decision_def ebind_Inr_iff
        policy_outcome_default_def split: if_splits)
next
  case (Some pe)
  obtain res pe' where e: "evaluate pe t nc ctx = (res, pe')" by (cases "evaluate pe t nc ctx")
  from assms(1) Some e obtain o' where o: "res = Inr o'" "out = (if po_decision o' = PASSTHROUGH
      then (policy_outcome_default ALLOW)\<lparr>po_source := Some ''passthrough''\<rparr> else o')"
    by (auto simp: evaluate_policy_def ebind_Inr_iff)
  from evaluate_decision [OF e [unfolded o(1)]] obtain raw where
    raw: "untracked_outcome pe t nc ctx = Inr raw"
      "po_decision o' = po_decision raw \<or> (po_decision raw = DENY \<and> po_decision o' = ASK)"
    by (auto split: if_splits)
  show ?thesis using assms(2,3) Some raw o(2)
    by (cases "po_decision o'")
       (auto simp: base_decision_def effective_decision_def policy_outcome_default_def split: if_splits)
qed

lemma untracked_outcome_rules:
  "pe_rules pe = pe_rules pe' \<Longrightarrow> pe_fallback_to_tool pe = pe_fallback_to_tool pe' \<Longrightarrow>
     untracked_outcome pe t c ctx = untracked_outcome pe' t c ctx"
  by (simp add: untracked_outcome_def)

lemma base_decision_evaluate_policy:
  "base_decision (x_policy (snd (evaluate_policy t' c' ctx st))) t nc ctx' =
     base_decision (x_policy st) t nc ctx'"
proof (cases "x_policy st")
  case (Some pe)
  obtain res pe' where e: "evaluate pe t' c' ctx = (res, pe')" by (cases "evaluate pe t' c' ctx")
  then have "untracked_outcome pe' t nc ctx' = untracked_outcome pe t nc ctx'"
    using evaluate_frame [OF e] by (intro untracked_outcome_rules) simp_all
  then show ?thesis using Some e by (simp add: evaluate_policy_def base_decision_def)
qed (simp add: evaluate_policy_def)

lemma admit_policy_cases:
  "x_policy (snd (admit env ctx c st)) = x_policy st
   \<or> (\<exists>t' c'. x_policy (snd (admit env ctx c st)) = x_policy (snd (evaluate_policy t' c' ctx st)))"
proof (cases "resolve_tool (ee_registry env) (tc_name c)")
  case (Inr t)
  show ?thesis
  proof (cases "validate_arguments t (tc_arguments c)")
    case (Inr args)
    let ?p = "evaluate_policy t (c\<lparr>tc_arguments := JDict args\<rparr>) ctx st"
    have "snd (admit env ctx c st) = snd ?p"
      using Inr \<open>resolve_tool _ _ = Inr t\<close>
      by (cases ?p; cases "fst ?p") (simp_all add: admit_def Let_def)
    then show ?thesis by metis
  qed (simp add: admit_def Inr)
qed (simp add: admit_def)

lemma base_decision_admit:
  "base_decision (x_policy (snd (admit env ctx c st))) t nc ctx' = base_decision (x_policy st) t nc ctx'"
  using admit_policy_cases [of env ctx c st] base_decision_evaluate_policy [of _ _ ctx st t nc ctx']
  by metis

lemma admissions_base:
  "(t, nc) \<in> set (admissions env ctx cs st) \<Longrightarrow>
     resolve_tool (ee_registry env) (tc_name nc) = Inr t \<and>
     (base_decision (x_policy st) t nc ctx \<in> {Inr ALLOW, Inr PASSTHROUGH}
      \<or> tc_name nc \<in> set (ctx_approved ctx))"
proof (induction cs arbitrary: st)
  case (Cons c cs)
  obtain r s1 where a: "admit env ctx c st = (r, s1)" by (cases "admit env ctx c st")
  have s1: "base_decision (x_policy s1) t nc ctx = base_decision (x_policy st) t nc ctx"
    using base_decision_admit [of env ctx c st] by (simp add: a)
  show ?case
  proof (cases r)
    case (Inl e)
    then show ?thesis using Cons.prems by (simp add: a)
  next
    case (Inr tnc)
    show ?thesis
    proof (cases "tnc = (t, nc)")
      case True
      note d = admit_InrD [OF a [unfolded Inr True]]
      then show ?thesis using base_decision_evaluate [of t nc ctx st _ c] by force
    next
      case False
      then have "(t, nc) \<in> set (admissions env ctx cs s1)" using Cons.prems by (auto simp: a Inr)
      from Cons.IH [OF this] s1 show ?thesis by simp
    qed
  qed
qed simp

subsection \<open>Generators and their consumer\<close>

text \<open>
  A generator never delivers past an event its consumer stops at, and it is closed exactly there.
\<close>

definition obeys :: "(runtime_event \<Rightarrow> bool) \<Rightarrow> runtime_event list \<Rightarrow> gen_end \<Rightarrow> bool" where
  "obeys stop evs en \<longleftrightarrow> (if en = Closed
     then evs \<noteq> [] \<and> stop (last evs) \<and> list_all (\<lambda>e. \<not> stop e) (butlast evs)
     else list_all (\<lambda>e. \<not> stop e) evs)"

abbreviation gen_obeys :: "(runtime_event \<Rightarrow> bool) \<Rightarrow> 'w gen \<Rightarrow> bool" where
  "gen_obeys stop g \<equiv> obeys stop (g_events g) (g_end g)"

lemma obeys_Nil [simp]: "en \<noteq> Closed \<Longrightarrow> obeys stop [] en"
  by (simp add: obeys_def)

lemma obeys_append:
  assumes "obeys stop evs e" "e \<noteq> Closed" "obeys stop evs' en'"
  shows "obeys stop (evs @ evs') en'"
  using assms by (simp add: obeys_def butlast_append split: if_split_asm)

lemma obeys_emit [simp]: "gen_obeys stop (emit stop eid p)"
  by (cases p) (simp add: obeys_def emit_def split: sum.split)

lemma obeys_gen_seq:
  assumes "gen_obeys stop g" and "\<And>st. gen_obeys stop (k st)"
  shows "gen_obeys stop (gen_seq g k)"
proof (cases "g_end g = Finished")
  case True
  then show ?thesis
    using assms(1) assms(2) [of "g_state g"] obeys_append [of stop "g_events g" Finished]
    by (simp add: gen_seq_simps)
qed (simp add: gen_seq_simps assms(1))

lemma obeys_stream_one: "gen_obeys stop (stream_one env stop eid ctx t c item st)"
  unfolding stream_one_def Let_def
  by (rule obeys_gen_seq) (simp_all split: option.split)

lemma obeys_stream_tool_call: "gen_obeys stop (stream_tool_call env stop eid ctx t c fs st)"
proof (induction fs arbitrary: st)
  case (Cons f fs)
  obtain step w where f: "f (x_world st) = (step, w)" by (cases "f (x_world st)")
  obtain b st2 where p: "poll ctx (st\<lparr>x_world := w\<rparr>) = (b, st2)" by (cases "poll ctx (st\<lparr>x_world := w\<rparr>)")
  show ?case
    by (cases step) (simp_all add: f p Let_def obeys_gen_seq obeys_stream_one Cons.IH)
qed simp

lemma obeys_body: "gen_obeys stop (execute_tool_body env stop eid ctx t c st)"
proof (cases "tool_stream_fn t")
  case None
  obtain res w where "tool_call_helper t c ctx (x_world st) = (res, w)"
    by (cases "tool_call_helper t c ctx (x_world st)")
  then show ?thesis by (cases res) (simp_all add: execute_tool_body_def None Let_def)
qed (simp add: execute_tool_body_def obeys_stream_tool_call)

lemma obeys_handle:
  assumes "gen_obeys stop g"
  shows "gen_obeys stop (handle_tool_error env stop eid ctx c g)"
proof -
  obtain evs st en where g: "g = (evs, st, en)" by (cases g)
  have ap: "obeys stop (evs @ g_events (emit stop eid p)) (g_end (emit stop eid p))" if "en \<noteq> Closed" for p
    using assms that obeys_append [of stop evs en] by (simp add: g)
  show ?thesis
  proof (cases en)
    case (Raised e)
    then show ?thesis using assms ap by (cases e) (simp_all add: handle_tool_error_def g split_beta)
  qed (use assms in \<open>simp_all add: handle_tool_error_def g\<close>)
qed

lemma obeys_execute_tool_call: "gen_obeys stop (execute_tool_call env stop eid ctx c st)"
  by (simp add: execute_tool_call_def obeys_handle obeys_body split: sum.split)

lemma deliver_events_obeys: "obeys stop (fst (deliver_events stop evs)) (snd (deliver_events stop evs))"
proof (induction evs)
  case (Cons e evs)
  then show ?case
    using obeys_append [of stop "[e]" Finished "fst (deliver_events stop evs)"]
    by (simp add: obeys_def split_beta Let_def split: if_split_asm)
qed simp

lemma deliver_events_not_raised: "snd (deliver_events stop evs) \<noteq> Raised e"
  by (induction evs) (simp_all add: split_beta Let_def)

lemma deliver_futures_obeys:
  "obeys stop (fst (deliver_futures stop fs)) (snd (deliver_futures stop fs))"
proof (induction fs)
  case (Cons f fs)
  obtain evs e where f: "f = (evs, e)" by (cases f)
  have d: "obeys stop (fst (let (d, en') = deliver_events stop evs in
        case en' of Finished \<Rightarrow> (let (d', en'') = deliver_futures stop fs in (d @ d', en'')) | _ \<Rightarrow> (d, en')))
      (snd (let (d, en') = deliver_events stop evs in
        case en' of Finished \<Rightarrow> (let (d', en'') = deliver_futures stop fs in (d @ d', en'')) | _ \<Rightarrow> (d, en')))"
    using deliver_events_obeys [of stop evs] Cons.IH
      obeys_append [of stop "fst (deliver_events stop evs)" Finished]
    by (cases "snd (deliver_events stop evs)") (simp_all add: split_beta Let_def)
  show ?case using d by (cases e) (simp_all add: f)
qed simp

lemma obeys_run_safe_calls: "gen_obeys stop (run_safe_calls env stop eid ctx cs st)"
  by (simp add: run_safe_calls_def split_beta Let_def deliver_futures_obeys)

lemma obeys_stream_calls: "gen_obeys stop (stream_calls env stop eid ctx safe cs st)"
proof (induction cs arbitrary: st safe)
  case (Cons c cs)
  obtain res st1 where a: "admit env ctx c st = (res, st1)" by (cases "admit env ctx c st")
  show ?case
  proof (cases res)
    case (Inr tnc)
    obtain t nc where tnc: "tnc = (t, nc)" by (cases tnc)
    have k: "gen_obeys stop (let (cancelled, st3) = poll ctx st2 in
           if cancelled then
             gen_seq (emit stop eid
                 (tool_cancelled_event env ctx (tc_name c) (tc_call_id c) ''user_interrupted'' st3))
               (stream_calls env stop eid ctx safe cs)
           else if tool_is_concurrency_safe t (call_args nc) then
             stream_calls env stop eid ctx (safe @ [nc]) cs st3
           else gen_seq (execute_tool_call env stop eid ctx nc st3)
             (stream_calls env stop eid ctx safe cs))" for st2
      by (simp add: split_beta Let_def obeys_gen_seq obeys_execute_tool_call Cons.IH)
    show ?thesis by (simp add: a Inr tnc Let_def) (rule obeys_gen_seq [OF _ k [unfolded Let_def]], simp)
  qed (simp add: a)
qed (simp add: obeys_run_safe_calls)

lemma obeys_execute_stream: "gen_obeys stop (execute_stream env stop cs ctx st)"
  by (simp add: execute_stream_def Let_def split_beta obeys_stream_calls)

end
