(* ===== verification/Harness.thy ===== *)
theory Harness
  imports Executor Governance
begin

text \<open>
  The local harness: \<open>RalphLoop\<close> of \<^verbatim>\<open>runtime/core/ralph_loop.py\<close> with the operations of
  \<open>SimpleHarness\<close> (\<^verbatim>\<open>agent_runtime.py\<close>) it calls, the event helpers of \<^verbatim>\<open>pipeline.py\<close> and the
  projection of the last event (\<^verbatim>\<open>state_projection.py\<close>).  A turn loads the session, appends the
  user's message, and alternates model calls with tool batches until the model answers, a tool asks
  for permission, something fails, or the iterations run out.

  The model provider is the parameter \<open>he_model\<close>: its answer to the n-th call of the run, given the
  messages of the request.  The rest of a request (prompts, startup contexts, instruction documents)
  does not act on the loop and is not modelled.  The harness is taken without the optional memory
  stores, hooks and observability sinks.  A turn's generator is consumed to its end, as \<open>run_turn\<close>
  does; \<open>t_out\<close> collects what it yields.  The executor's stream is closed where \<open>_execute_tool_stream\<close>
  returns out of its loop; the batch is run before its events are recorded, which differs only when
  recording one raises.
\<close>

subsection \<open>Environment and state\<close>

record model_stream_event =
  me_delta :: "string option"
  me_message :: "string option"
  me_tool_calls :: "tool_call list"

record model_response =
  mr_message :: "string option"
  mr_tool_calls :: "tool_call list"

text \<open>
  A single answer (late when it takes longer than a timeout), or a stream of events that ends or
  raises.
\<close>

datatype model_answer =
    Answer bool "string + model_response"
  | Streamed "model_stream_event list" "string option"

record turn_control =
  ctl_timeout :: bool
  ctl_max_retries :: int
  ctl_cancel :: "(nat \<Rightarrow> bool) option"

definition default_control :: turn_control where
  "default_control = \<lparr>ctl_timeout = False, ctl_max_retries = 0, ctl_cancel = None\<rparr>"

record 'w harness_env =
  he_store :: store_env
  he_exec :: "'w exec_env"
  he_model :: "nat \<Rightarrow> json_object list \<Rightarrow> model_answer"
  he_max_iterations :: int
  he_governance :: "governance option"
  he_now :: "nat \<Rightarrow> string"
  he_abspath :: "string \<Rightarrow> string"
  he_agent_root :: "string option"
  he_role :: "string option"

record 'w turn_state =
  t_files :: file_store
  t_texts :: text_files
  t_exec :: "'w exec_state"
  t_session :: session_record
  t_out :: "runtime_event list"
  t_calls :: nat
  t_polls :: nat
  t_clock :: nat
  t_task :: "string option"
  t_transition :: string
  t_turn_count :: nat
  t_requires :: bool

datatype turn_exn = TurnTool tool_error | CancelledTurn | TimedOutTurn | RetryExhaustedTurn string

fun turn_exn_text :: "turn_exn \<Rightarrow> string" where
  "turn_exn_text (TurnTool e) = tool_error_text e"
| "turn_exn_text CancelledTurn = []"
| "turn_exn_text TimedOutTurn = []"
| "turn_exn_text (RetryExhaustedTurn s) = s"

type_synonym ('w, 'a) act = "'w turn_state \<Rightarrow> (turn_exn + 'a) \<times> 'w turn_state"

definition act_return :: "'a \<Rightarrow> ('w, 'a) act" where
  "act_return x st = (Inr x, st)"

definition act_raise :: "turn_exn \<Rightarrow> ('w, 'a) act" where
  "act_raise e st = (Inl e, st)"

definition act_bind :: "('w, 'a) act \<Rightarrow> ('a \<Rightarrow> ('w, 'b) act) \<Rightarrow> ('w, 'b) act" where
  "act_bind m f st = (case m st of (Inl e, st') \<Rightarrow> (Inl e, st') | (Inr x, st') \<Rightarrow> f x st')"

text \<open>\<open>try: m except e: h e\<close>.\<close>

definition act_try :: "('w, 'a) act \<Rightarrow> (turn_exn \<Rightarrow> ('w, 'a) act) \<Rightarrow> ('w, 'a) act" where
  "act_try m h st = (case m st of (Inl e, st') \<Rightarrow> h e st' | (Inr x, st') \<Rightarrow> (Inr x, st'))"

definition act_modify :: "('w turn_state \<Rightarrow> 'w turn_state) \<Rightarrow> ('w, unit) act" where
  "act_modify f st = (Inr (), f st)"

definition act_get :: "('w turn_state \<Rightarrow> 'a) \<Rightarrow> ('w, 'a) act" where
  "act_get f st = (Inr (f st), st)"

definition act_lift :: "py_error + 'a \<Rightarrow> ('w, 'a) act" where
  "act_lift r st = (case r of Inl e \<Rightarrow> (Inl (TurnTool (PyError e)), st) | Inr x \<Rightarrow> (Inr x, st))"

lemmas act_defs = act_return_def act_raise_def act_bind_def act_try_def act_modify_def act_get_def act_lift_def

definition modify_session :: "(session_record \<Rightarrow> session_record) \<Rightarrow> ('w, unit) act" where
  "modify_session f = act_modify (\<lambda>st. st\<lparr>t_session := f (t_session st)\<rparr>)"

definition append_message :: "session_message \<Rightarrow> ('w, unit) act" where
  "append_message m = modify_session (\<lambda>r. r\<lparr>sr_messages := sr_messages r @ [m]\<rparr>)"

definition set_transition :: "string \<Rightarrow> ('w, unit) act" where
  "set_transition s = act_modify (\<lambda>st. st\<lparr>t_transition := s\<rparr>)"

definition yield_events :: "runtime_event list \<Rightarrow> ('w, unit) act" where
  "yield_events es = act_modify (\<lambda>st. st\<lparr>t_out := t_out st @ es\<rparr>)"

subsection \<open>Events and persistence\<close>

definition harness_load :: "'w harness_env \<Rightarrow> string \<Rightarrow> ('w, session_record) act" where
  "harness_load env s = act_bind (act_get t_files) (\<lambda>fs. act_lift (load_session (he_store env) fs s))"

definition persist_session :: "'w harness_env \<Rightarrow> string \<Rightarrow> ('w, unit) act" where
  "persist_session env s st = (case save_session (he_store env) s (t_session st) (t_files st) of
     (Inl e, fs) \<Rightarrow> (Inl (TurnTool (PyError e)), st\<lparr>t_files := fs\<rparr>)
   | (Inr _, fs) \<Rightarrow> (Inr (), st\<lparr>t_files := fs\<rparr>))"

definition current_task_id :: "'w turn_state \<Rightarrow> string option" where
  "current_task_id st = (case t_task st of None \<Rightarrow> None | Some i \<Rightarrow> if i = [] then None else Some i)"

text \<open>The index in the id counts the persisted events, not those of the session at hand.\<close>

definition harness_event ::
  "'w harness_env \<Rightarrow> string \<Rightarrow> runtime_event_type \<Rightarrow> json_object \<Rightarrow> ('w, runtime_event) act" where
  "harness_event env s ty payload = act_bind (harness_load env s) (\<lambda>stored st.
     (Inr \<lparr>ev_type = ty,
        ev_id = event_type_value ty @ '':'' @ nat_str (length (sr_events stored) + 1),
        ev_timestamp = he_now env (t_clock st), ev_session = s, ev_payload = payload, ev_agent = None,
        ev_task = current_task_id st\<rparr>, st\<lparr>t_clock := Suc (t_clock st)\<rparr>))"

definition record_event :: "runtime_event \<Rightarrow> ('w, unit) act" where
  "record_event e = modify_session (\<lambda>r. r\<lparr>sr_events := sr_events r @ [e]\<rparr>)"

definition append_new_event ::
  "'w harness_env \<Rightarrow> string \<Rightarrow> runtime_event_type \<Rightarrow> json_object \<Rightarrow> ('w, runtime_event) act" where
  "append_new_event env s ty payload = act_bind (harness_event env s ty payload) (\<lambda>e.
     act_bind (record_event e) (\<lambda>_. act_return e))"

text \<open>\<open>_emit_terminal\<close>, with the event it returns yielded.\<close>

definition emit_terminal ::
  "'w harness_env \<Rightarrow> string \<Rightarrow> runtime_event_type \<Rightarrow> terminal_state \<Rightarrow> ('w, unit) act" where
  "emit_terminal env s ty terminal =
     act_bind (append_new_event env s ty (terminal_to_dict terminal)) (\<lambda>e.
     act_bind (modify_session (\<lambda>r. r\<lparr>sr_status := SESSION_IDLE\<rparr>)) (\<lambda>_.
     act_bind (persist_session env s) (\<lambda>_. yield_events [e])))"

definition requires_action_payload :: "requires_action \<Rightarrow> json_object" where
  "requires_action_payload r = (let payload = requires_action_to_dict r in
     case ra_request r of None \<Rightarrow> payload | Some i \<Rightarrow> dict_set ''tool_use_id'' (JStr i) payload)"

definition terminal_state_from_event :: "runtime_event \<Rightarrow> py_error + terminal_state" where
  "terminal_state_from_event e =
     (if ev_type e = TURN_COMPLETED \<or> ev_type e = TURN_FAILED then terminal_from_dict (ev_payload e)
      else if ev_type e = REQUIRES_ACTION then
        Inr \<lparr>ts_status = BLOCKED, ts_reason = ''requires_action'', ts_retryable = None,
             ts_summary = Some (payload_text (ev_payload e) ''description'' ''requires action'')\<rparr>
      else Inl (ValueError ''Event stream did not terminate with a terminal event''))"

subsection \<open>The request\<close>

text \<open>A message without empty metadata.\<close>

definition normalize_payload :: "json_object \<Rightarrow> json_object" where
  "normalize_payload d = (if py_eq (jget d ''metadata'') (JDict []) then dict_pop ''metadata'' d else d)"

definition message_payload :: "session_message \<Rightarrow> json_object" where
  "message_payload m = normalize_payload (session_message_to_dict m)"

definition available_tools :: "'w harness_env \<Rightarrow> string list" where
  "available_tools env = map tool_name (list_tools (ee_registry (he_exec env)))"

text \<open>The transcript part of \<open>build_model_input\<close>: compaction, then overflow recovery.\<close>

definition compacted_messages :: "governance \<Rightarrow> session_message list \<Rightarrow> string list \<Rightarrow> json_object list" where
  "compacted_messages g ms tools =
     (if should_compact g ms then
        (let messages = map normalize_payload (co_messages (compact g ms)) in
         if cr_over_budget (analyze g ms tools) then
           (let r = recover_overflow g ms in
            if re_recovered r then map normalize_payload (re_messages r) else messages)
         else messages)
      else map message_payload ms)"

definition request_messages :: "'w harness_env \<Rightarrow> session_record \<Rightarrow> json_object list" where
  "request_messages env r = (case he_governance env of
     None \<Rightarrow> map message_payload (sr_messages r)
   | Some g \<Rightarrow>
       (let messages = compacted_messages g (sr_messages r) (available_tools env) in
        if should_allow_continuation g (sr_messages r) (available_tools env) then messages
        else (let rec = recover_overflow g (sr_messages r) in
          if re_recovered rec then map normalize_payload (re_messages rec) else messages)))"

subsection \<open>The model\<close>

definition check_cancelled :: "turn_control \<Rightarrow> ('w, bool) act" where
  "check_cancelled ctl st = (case ctl_cancel ctl of None \<Rightarrow> (Inr False, st)
     | Some f \<Rightarrow> (Inr (f (t_polls st)), st\<lparr>t_polls := Suc (t_polls st)\<rparr>))"

text \<open>The loop of \<open>_run_streaming_model\<close>, with its accumulators.\<close>

fun consume_stream ::
  "'w harness_env \<Rightarrow> string \<Rightarrow> turn_control \<Rightarrow> model_stream_event list \<Rightarrow> string option \<Rightarrow>
     string \<Rightarrow> string option \<Rightarrow> tool_call list \<Rightarrow> runtime_event list \<Rightarrow>
     ('w, model_response \<times> runtime_event list) act" where
  "consume_stream env s ctl [] err aggregated final calls streamed =
     (case err of
        Some e \<Rightarrow> act_raise (TurnTool (PyError (OtherError e)))
      | None \<Rightarrow> act_return (\<lparr>mr_message = (case final of Some m \<Rightarrow> Some m
            | None \<Rightarrow> if aggregated = [] then None else Some aggregated), mr_tool_calls = calls\<rparr>, streamed))"
| "consume_stream env s ctl (e # es) err aggregated final calls streamed =
     act_bind (check_cancelled ctl) (\<lambda>cancelled.
     if cancelled then act_raise CancelledTurn
     else
       (let delta = (case me_delta e of None \<Rightarrow> [] | Some d \<Rightarrow> d);
            final' = (case me_message e of None \<Rightarrow> final | Some m \<Rightarrow> Some m);
            calls' = (if me_tool_calls e = [] then calls else me_tool_calls e) in
        if delta = [] then consume_stream env s ctl es err aggregated final' calls' streamed
        else act_bind (append_new_event env s ASSISTANT_DELTA [(''delta'', JStr delta)]) (\<lambda>ev.
          act_bind (persist_session env s) (\<lambda>_.
          consume_stream env s ctl es err (aggregated @ delta) final' calls' (streamed @ [ev])))))"

definition run_model_once ::
  "'w harness_env \<Rightarrow> json_object list \<Rightarrow> string \<Rightarrow> turn_control \<Rightarrow>
     ('w, model_response \<times> runtime_event list) act" where
  "run_model_once env messages s ctl =
     act_bind (act_get t_calls) (\<lambda>n.
     act_bind (act_modify (\<lambda>st. st\<lparr>t_calls := Suc n\<rparr>)) (\<lambda>_.
     case he_model env n messages of
       Streamed es err \<Rightarrow> consume_stream env s ctl es err [] None [] []
     | Answer late res \<Rightarrow>
         if late \<and> ctl_timeout ctl then act_raise TimedOutTurn
         else (case res of Inl e \<Rightarrow> act_raise (TurnTool (PyError (OtherError e)))
               | Inr r \<Rightarrow> act_return (r, []))))"

text \<open>The attempts that are left, the number of the next one and the last error.\<close>

fun model_attempts ::
  "'w harness_env \<Rightarrow> json_object list \<Rightarrow> string \<Rightarrow> turn_control \<Rightarrow> nat \<Rightarrow> int \<Rightarrow> string \<Rightarrow>
     ('w, model_response \<times> runtime_event list) act" where
  "model_attempts env messages s ctl 0 attempt last_error = act_raise (RetryExhaustedTurn last_error)"
| "model_attempts env messages s ctl (Suc n) attempt last_error =
     act_bind (check_cancelled ctl) (\<lambda>cancelled.
     if cancelled then act_raise CancelledTurn
     else act_try (run_model_once env messages s ctl) (\<lambda>e.
       case e of CancelledTurn \<Rightarrow> act_raise e | TimedOutTurn \<Rightarrow> act_raise e
       | _ \<Rightarrow> if attempt = ctl_max_retries ctl then act_raise (RetryExhaustedTurn (turn_exn_text e))
              else model_attempts env messages s ctl n (attempt + 1) (turn_exn_text e)))"

definition run_model_with_retries ::
  "'w harness_env \<Rightarrow> json_object list \<Rightarrow> string \<Rightarrow> turn_control \<Rightarrow>
     ('w, model_response \<times> runtime_event list) act" where
  "run_model_with_retries env messages s ctl =
     model_attempts env messages s ctl (Suc (nat (max 0 (ctl_max_retries ctl)))) 0 ''None''"

subsection \<open>Tools\<close>

definition ensure_tool_call_ids :: "tool_call list \<Rightarrow> tool_call list" where
  "ensure_tool_call_ids cs = map (\<lambda>(i, c). case tc_call_id c of
     None \<Rightarrow> c\<lparr>tc_call_id := Some (''toolu_'' @ nat_str i)\<rparr> | Some _ \<Rightarrow> c) (enumerate 1 cs)"

definition assistant_tool_call_message :: "string option \<Rightarrow> tool_call list \<Rightarrow> session_message" where
  "assistant_tool_call_message m cs = \<lparr>sm_role = ''assistant'', sm_content = JStr (opt_or m []),
     sm_metadata = [(''tool_calls'', JList (map (JDict \<circ> tool_call_to_dict) cs))]\<rparr>"

definition persists_after :: "runtime_event \<Rightarrow> bool" where
  "persists_after e \<longleftrightarrow> ev_type e = TOOL_PROGRESS \<or> ev_type e = TOOL_RESULT \<or> ev_type e = TOOL_FAILED
     \<or> ev_type e = TOOL_CANCELLED"

type_synonym tool_outcome = "runtime_event list \<times> tool_result list \<times> tool_error option"

text \<open>The body of the loop over the tool events.\<close>

fun record_tool_events ::
  "'w harness_env \<Rightarrow> string \<Rightarrow> gen_end \<Rightarrow> runtime_event list \<Rightarrow> runtime_event list \<Rightarrow> tool_result list \<Rightarrow>
     ('w, tool_outcome) act" where
  "record_tool_events env s en [] emitted results =
     (case en of Raised e \<Rightarrow> act_raise (TurnTool e) | _ \<Rightarrow> act_return (emitted, results, None))"
| "record_tool_events env s en (e # es) emitted results =
     act_bind (record_event e) (\<lambda>_.
     act_bind (if persists_after e then persist_session env s else act_return ()) (\<lambda>_.
     (if ev_type e = TOOL_RESULT then
        act_bind (act_lift (result_of_payload (ev_payload e))) (\<lambda>r.
        record_tool_events env s en es (emitted @ [e]) (results @ [r]))
      else if ev_type e = TOOL_FAILED then
        act_return (emitted @ [e], results, Some (ToolExecutionFailedError
          (payload_text (ev_payload e) ''tool_name'' ''unknown'')
          (payload_text (ev_payload e) ''reason'' ''tool_failed'')))
      else if ev_type e = TOOL_CANCELLED then
        act_return (emitted @ [e], results, Some (ToolCancelledError
          (payload_text (ev_payload e) ''tool_name'' ''unknown'')
          (payload_text (ev_payload e) ''reason'' ''cancelled'')))
      else record_tool_events env s en es (emitted @ [e]) results)))"

definition execute_tool_stream ::
  "'w harness_env \<Rightarrow> string \<Rightarrow> tool_call list \<Rightarrow> tool_context \<Rightarrow> ('w, tool_outcome) act" where
  "execute_tool_stream env s cs ctx st =
     (let (evs, ex, en) = execute_stream (he_exec env) stops_turn cs ctx (t_exec st)
      in record_tool_events env s en evs [] [] (st\<lparr>t_exec := ex\<rparr>))"

definition tool_message :: "tool_result \<Rightarrow> json \<Rightarrow> session_message" where
  "tool_message r content = \<lparr>sm_role = ''tool'', sm_content = content,
     sm_metadata = dict_merge (case tr_metadata r of None \<Rightarrow> [] | Some m \<Rightarrow> m)
       [(''tool_name'', JStr (tr_name r)), (''success'', JBool (tr_success r)),
        (''truncated'', JBool (case tr_truncated r of None \<Rightarrow> False | Some b \<Rightarrow> b)),
        (''persisted_ref'', jopt_str (tr_persisted r)), (''structured_content'', jopt_dict (tr_structured r))]\<rparr>"

fun append_tool_results :: "'w harness_env \<Rightarrow> tool_result list \<Rightarrow> ('w, unit) act" where
  "append_tool_results env [] = act_return ()"
| "append_tool_results env (r # rs) =
     act_bind (case he_governance env of
         None \<Rightarrow> append_message (tool_message r (JList (tr_content r)))
       | Some g \<Rightarrow> act_bind (act_get t_texts) (\<lambda>files.
           (let (r', files') = externalize_tool_result g r files in
            act_bind (act_modify (\<lambda>st. st\<lparr>t_texts := files'\<rparr>)) (\<lambda>_.
            append_message (tool_message r' (tool_result_transcript_content r'))))))
       (\<lambda>_. append_tool_results env rs)"

subsection \<open>The workspace\<close>

text \<open>\<open>metadata.setdefault(k, v)\<close>.\<close>

definition dict_setdefault :: "string \<Rightarrow> json \<Rightarrow> json_object \<Rightarrow> json_object" where
  "dict_setdefault k v d = (case dict_get d k of None \<Rightarrow> dict_set k v d | Some _ \<Rightarrow> d)"

definition agent_workspace :: "'w harness_env \<Rightarrow> string \<Rightarrow> string \<Rightarrow> string" where
  "agent_workspace env root agent = he_abspath env (path_join (path_join (he_abspath env root)
     (if agent = [] then default_runtime_agent_id else agent)) ''workspace'')"

text \<open>The working directory, and the session with its agent and directory filled in.\<close>

definition ensure_session_workspace ::
  "'w harness_env \<Rightarrow> string \<Rightarrow> session_record \<Rightarrow> string \<times> session_record" where
  "ensure_session_workspace env s r =
     (let metadata = sr_metadata r; existing = (case as_str (jget metadata ''workdir'') of None \<Rightarrow> [] | Some w \<Rightarrow> w) in
      if existing \<noteq> [] then (he_abspath env existing, r)
      else (case he_agent_root env of
          Some root \<Rightarrow>
            (let agent = (case sr_agent r of None \<Rightarrow> default_runtime_agent_id
                   | Some a \<Rightarrow> if a = [] then default_runtime_agent_id else a);
                 r1 = (if sr_agent r = None then r\<lparr>sr_agent := Some agent\<rparr> else r);
                 workdir = agent_workspace env root agent;
                 m1 = dict_set ''workdir'' (JStr workdir) metadata;
                 m2 = dict_setdefault ''agent_root_dir'' (JStr (he_abspath env root)) m1;
                 m3 = (case he_role env of None \<Rightarrow> m2 | Some role \<Rightarrow> dict_setdefault ''role_id'' (JStr role) m2)
             in (workdir, r1\<lparr>sr_metadata := m3\<rparr>))
        | None \<Rightarrow>
            (let workdir = he_abspath env (path_join (path_join (se_root (he_store env)) s) ''workspace'')
             in (workdir, r\<lparr>sr_metadata := dict_set ''workdir'' (JStr workdir) metadata\<rparr>))))"

subsection \<open>The iteration limit\<close>

definition tool_started_names :: "session_record \<Rightarrow> string list" where
  "tool_started_names r = List.map_filter (\<lambda>e. if ev_type e \<noteq> TOOL_STARTED then None
     else (case as_str (jget (ev_payload e) ''tool_name'') of None \<Rightarrow> None
       | Some n \<Rightarrow> if n = [] then None else Some n)) (sr_events r)"

definition last_started_tool_name :: "session_record \<Rightarrow> string option" where
  "last_started_tool_name r = (let ns = tool_started_names r in if ns = [] then None else Some (last ns))"

definition search_tools :: "string list" where
  "search_tools = [''WebSearch'', ''WebFetch'']"

definition file_tools :: "string list" where
  "file_tools = [''Read'', ''Write'', ''Edit'', ''Glob'', ''Grep'', ''Bash'']"

definition iteration_limit_category :: "session_record \<Rightarrow> string" where
  "iteration_limit_category r = (let names = tool_started_names r in
     if names = [] then ''generic_iteration_limit''
     else if list_all (\<lambda>n. n \<in> set search_tools) names then ''repeated_search_loop''
     else if list_all (\<lambda>n. n \<in> set file_tools) names then ''repeated_file_ops_loop''
     else if length (remdups names) = 1 then ''repeated_tool_loop''
     else ''tool_chain_no_final_answer'')"

definition iteration_limit_summary :: "'w harness_env \<Rightarrow> session_record \<Rightarrow> string" where
  "iteration_limit_summary env r =
     (let category = iteration_limit_category r;
          prefix_text = ''Iteration limit exceeded after '' @ int_str (he_max_iterations env) @ '' iterations'' in
      if category = ''repeated_search_loop'' then
        prefix_text @ '' of repeated search or fetch calls without a final answer.''
      else if category = ''repeated_file_ops_loop'' then
        prefix_text @ '' of repeated file operations without a final answer.''
      else if category = ''repeated_tool_loop'' then
        prefix_text @ '' of repeated '' @ opt_or (last_started_tool_name r) ''tool'' @ '' calls without a final answer.''
      else prefix_text @ '' because the model kept calling tools and never produced a final response.'')"

subsection \<open>The turn\<close>

definition new_turn_task_id :: "'w harness_env \<Rightarrow> string \<Rightarrow> ('w, string) act" where
  "new_turn_task_id env s = act_bind (harness_load env s) (\<lambda>r.
     act_return (''turn:'' @ s @ '':'' @ nat_str (length (sr_events r) + 1)))"

definition make_terminal :: "terminal_status \<Rightarrow> string \<Rightarrow> bool option \<Rightarrow> string option \<Rightarrow> terminal_state" where
  "make_terminal status reason retryable summary =
     \<lparr>ts_status = status, ts_reason = reason, ts_retryable = retryable, ts_summary = summary\<rparr>"

text \<open>A turn that ends in failure: the transition, then the terminal event.\<close>

definition fail_turn ::
  "'w harness_env \<Rightarrow> string \<Rightarrow> string \<Rightarrow> terminal_state \<Rightarrow> ('w, unit) act" where
  "fail_turn env s transition terminal =
     act_bind (set_transition transition) (\<lambda>_. emit_terminal env s TURN_FAILED terminal)"

text \<open>The model's part of an iteration: \<open>None\<close> when the turn is over.\<close>

definition model_phase ::
  "'w harness_env \<Rightarrow> string \<Rightarrow> turn_control \<Rightarrow> ('w, model_response option) act" where
  "model_phase env s ctl =
     act_bind (act_get (\<lambda>st. request_messages env (t_session st))) (\<lambda>messages.
     act_try
       (act_bind (run_model_with_retries env messages s ctl) (\<lambda>(response, streamed).
        act_bind (yield_events streamed) (\<lambda>_. act_return (Some response))))
       (\<lambda>e. case e of
          CancelledTurn \<Rightarrow> act_bind (fail_turn env s ''aborted''
            (make_terminal STOPPED ''cancelled'' None None)) (\<lambda>_. act_return None)
        | TimedOutTurn \<Rightarrow> act_bind (fail_turn env s ''failed''
            (make_terminal FAILED ''timeout'' (Some True) None)) (\<lambda>_. act_return None)
        | RetryExhaustedTurn t \<Rightarrow> act_bind (fail_turn env s ''failed''
            (make_terminal FAILED ''retry_exhausted'' (Some False) (Some t))) (\<lambda>_. act_return None)
        | TurnTool x \<Rightarrow> act_raise e))"

text \<open>An answer without tool calls ends the turn.\<close>

definition answer_phase ::
  "'w harness_env \<Rightarrow> string \<Rightarrow> model_response \<Rightarrow> ('w, unit) act" where
  "answer_phase env s response =
     act_bind (case mr_message response of
         None \<Rightarrow> act_return ()
       | Some m \<Rightarrow>
           act_bind (append_message \<lparr>sm_role = ''assistant'', sm_content = JStr m, sm_metadata = []\<rparr>) (\<lambda>_.
           act_bind (append_new_event env s ASSISTANT_MESSAGE [(''message'', JStr m)]) (\<lambda>e.
           act_bind (yield_events [e]) (\<lambda>_. persist_session env s)))) (\<lambda>_.
     act_bind (set_transition ''completed'') (\<lambda>_.
     emit_terminal env s TURN_COMPLETED (make_terminal COMPLETED ''assistant_message'' None None)))"

definition block_turn ::
  "'w harness_env \<Rightarrow> string \<Rightarrow> requires_action \<Rightarrow> tool_call list \<Rightarrow> ('w, unit) act" where
  "block_turn env s r calls =
     act_bind (act_modify (\<lambda>st. st\<lparr>t_transition := ''requires_action'', t_requires := True\<rparr>)) (\<lambda>_.
     act_bind (append_new_event env s REQUIRES_ACTION (requires_action_payload r)) (\<lambda>e.
     act_bind (yield_events [e]) (\<lambda>_.
     act_bind (modify_session (\<lambda>x. x\<lparr>sr_status := SESSION_REQUIRES_ACTION, sr_pending := calls\<rparr>)) (\<lambda>_.
     persist_session env s))))"

text \<open>The handlers of the exceptions a batch may raise, and of the errors it reports.\<close>

definition batch_raised ::
  "'w harness_env \<Rightarrow> string \<Rightarrow> tool_call list \<Rightarrow> turn_exn \<Rightarrow> ('w, bool) act" where
  "batch_raised env s calls e = (case e of
     TurnTool (RequiresActionError r) \<Rightarrow> act_bind (block_turn env s r calls) (\<lambda>_. act_return True)
   | TurnTool (ToolPermissionDeniedError n r) \<Rightarrow>
       act_bind (fail_turn env s ''failed'' (make_terminal FAILED ''tool_permission_denied'' None
         (Some (turn_exn_text e)))) (\<lambda>_. act_return True)
   | TurnTool (ToolExecutionFailedError n r) \<Rightarrow>
       act_bind (fail_turn env s ''failed'' (make_terminal FAILED ''tool_execution_failed'' None
         (Some (turn_exn_text e)))) (\<lambda>_. act_return True)
   | TurnTool (ToolValidationError n r) \<Rightarrow>
       act_bind (fail_turn env s ''failed'' (make_terminal FAILED ''tool_execution_failed'' None
         (Some (turn_exn_text e)))) (\<lambda>_. act_return True)
   | TurnTool (ToolCancelledError n r) \<Rightarrow>
       act_bind (fail_turn env s ''aborted'' (make_terminal STOPPED ''tool_cancelled'' None
         (Some (turn_exn_text e)))) (\<lambda>_. act_return True)
   | _ \<Rightarrow> act_raise e)"

definition batch_reported ::
  "'w harness_env \<Rightarrow> string \<Rightarrow> tool_result list \<Rightarrow> tool_error option \<Rightarrow> ('w, bool) act" where
  "batch_reported env s results error = (case error of
     Some (ToolExecutionFailedError n r) \<Rightarrow>
       act_bind (fail_turn env s ''failed'' (make_terminal FAILED ''tool_execution_failed'' None
         (Some (tool_error_text (ToolExecutionFailedError n r))))) (\<lambda>_. act_return True)
   | Some (ToolCancelledError n r) \<Rightarrow>
       act_bind (fail_turn env s ''aborted'' (make_terminal STOPPED ''tool_cancelled'' None
         (Some (tool_error_text (ToolCancelledError n r))))) (\<lambda>_. act_return True)
   | _ \<Rightarrow>
       act_bind (append_tool_results env results) (\<lambda>_.
       act_bind (persist_session env s) (\<lambda>_. act_return False)))"

definition turn_context :: "string \<Rightarrow> session_record \<Rightarrow> string \<Rightarrow> string option \<Rightarrow> string list \<Rightarrow> tool_context" where
  "turn_context s r workdir task approved = \<lparr>ctx_session = s, ctx_approved = approved, ctx_cancel = None,
     ctx_agent = sr_agent r, ctx_task = task, ctx_workdir = Some workdir\<rparr>"

text \<open>Whether the turn is over after the tools ran.\<close>

definition tool_phase ::
  "'w harness_env \<Rightarrow> string \<Rightarrow> string \<Rightarrow> string \<Rightarrow> model_response \<Rightarrow> ('w, bool) act" where
  "tool_phase env s workdir task response =
     (let calls = ensure_tool_call_ids (mr_tool_calls response) in
      act_bind (append_message (assistant_tool_call_message (mr_message response) calls)) (\<lambda>_.
      act_bind (set_transition ''tool_execution'') (\<lambda>_.
      act_bind (act_get t_session) (\<lambda>r.
      act_bind (act_try
          (act_bind (execute_tool_stream env s calls (turn_context s r workdir (Some task) []))
             (\<lambda>(evs, results, error).
              act_bind (yield_events evs) (\<lambda>_. act_return (Inr (results, error)))))
          (\<lambda>e. act_bind (batch_raised env s calls e) (\<lambda>done. act_return (Inl done))))
        (\<lambda>outcome. case outcome of
           Inl done \<Rightarrow> act_return done
         | Inr (results, error) \<Rightarrow> batch_reported env s results error)))))"

definition turn_iteration ::
  "'w harness_env \<Rightarrow> string \<Rightarrow> turn_control \<Rightarrow> string \<Rightarrow> string \<Rightarrow> nat \<Rightarrow> ('w, bool) act" where
  "turn_iteration env s ctl workdir task iteration =
     act_bind (act_modify (\<lambda>st. st\<lparr>t_turn_count := Suc iteration, t_transition := ''model_request''\<rparr>)) (\<lambda>_.
     act_bind (check_cancelled ctl) (\<lambda>cancelled.
     if cancelled then
       act_bind (fail_turn env s ''aborted'' (make_terminal STOPPED ''cancelled'' None None)) (\<lambda>_. act_return True)
     else act_bind (model_phase env s ctl) (\<lambda>answer.
       case answer of
         None \<Rightarrow> act_return True
       | Some response \<Rightarrow>
           if mr_tool_calls response = [] then
             act_bind (answer_phase env s response) (\<lambda>_. act_return True)
           else tool_phase env s workdir task response)))"

fun turn_loop ::
  "'w harness_env \<Rightarrow> string \<Rightarrow> turn_control \<Rightarrow> string \<Rightarrow> string \<Rightarrow> nat \<Rightarrow> nat \<Rightarrow> ('w, unit) act" where
  "turn_loop env s ctl workdir task 0 iteration =
     act_bind (act_get t_session) (\<lambda>r.
     fail_turn env s ''failed'' (make_terminal FAILED ''iteration_limit_exceeded'' None
       (Some (iteration_limit_summary env r))))"
| "turn_loop env s ctl workdir task (Suc n) iteration =
     act_bind (turn_iteration env s ctl workdir task iteration) (\<lambda>done.
     if done then act_return () else turn_loop env s ctl workdir task n (Suc iteration))"

definition execute_turn_stream ::
  "'w harness_env \<Rightarrow> string \<Rightarrow> string \<Rightarrow> turn_control \<Rightarrow> ('w, unit) act" where
  "execute_turn_stream env input s ctl =
     act_bind (harness_load env s) (\<lambda>loaded.
     (let (workdir, session) = ensure_session_workspace env s loaded in
      act_bind (act_modify (\<lambda>st. st\<lparr>t_session := session\<rparr>)) (\<lambda>_.
      act_bind (new_turn_task_id env s) (\<lambda>task.
      act_bind (act_modify (\<lambda>st. st\<lparr>t_turn_count := 0, t_transition := ''turn_started'',
          t_requires := False, t_task := Some task\<rparr>)) (\<lambda>_.
      act_bind (modify_session (\<lambda>r. r\<lparr>sr_status := SESSION_RUNNING\<rparr>)) (\<lambda>_.
      act_bind (append_message \<lparr>sm_role = ''user'', sm_content = JStr input, sm_metadata = []\<rparr>) (\<lambda>_.
      act_bind (append_new_event env s TURN_STARTED [(''input'', JStr input)]) (\<lambda>e.
      act_bind (yield_events [e]) (\<lambda>_.
      act_bind (persist_session env s) (\<lambda>_.
      turn_loop env s ctl workdir task (nat (he_max_iterations env)) 0))))))))))"

text \<open>\<open>run_turn\<close>: the events the stream yields and the terminal state its last event stands for.\<close>

definition run_turn ::
  "'w harness_env \<Rightarrow> string \<Rightarrow> string \<Rightarrow> turn_control \<Rightarrow> ('w, runtime_event list \<times> terminal_state) act" where
  "run_turn env input s ctl =
     act_bind (act_modify (\<lambda>st. st\<lparr>t_out := []\<rparr>)) (\<lambda>_.
     act_bind (execute_turn_stream env input s ctl) (\<lambda>_.
     act_bind (act_get t_out) (\<lambda>events.
     if events = [] then act_raise (TurnTool (PyError (IndexErr ''list index out of range'')))
     else act_bind (act_lift (terminal_state_from_event (last events))) (\<lambda>terminal.
       act_return (events, terminal)))))"

subsection \<open>Continuing after an approval\<close>

definition reject_continuation ::
  "'w harness_env \<Rightarrow> string \<Rightarrow> ('w, runtime_event list \<times> terminal_state) act" where
  "reject_continuation env s =
     (let terminal = make_terminal STOPPED ''approval_rejected'' None None in
      act_bind (modify_session (\<lambda>r. r\<lparr>sr_pending := [], sr_status := SESSION_IDLE\<rparr>)) (\<lambda>_.
      act_bind (persist_session env s) (\<lambda>_.
      act_bind (append_new_event env s TURN_FAILED (terminal_to_dict terminal)) (\<lambda>e.
      act_return ([e], terminal)))))"

definition failed_continuation ::
  "'w harness_env \<Rightarrow> string \<Rightarrow> runtime_event list \<Rightarrow> terminal_state \<Rightarrow>
     ('w, runtime_event list \<times> terminal_state) act" where
  "failed_continuation env s events terminal =
     act_bind (append_new_event env s TURN_FAILED (terminal_to_dict terminal)) (\<lambda>e.
     act_bind (modify_session (\<lambda>r. r\<lparr>sr_pending := [], sr_status := SESSION_IDLE\<rparr>)) (\<lambda>_.
     act_bind (persist_session env s) (\<lambda>_. act_return (events @ [e], terminal))))"

definition finish_continuation ::
  "'w harness_env \<Rightarrow> string \<Rightarrow> runtime_event list \<Rightarrow> tool_result list \<Rightarrow>
     ('w, runtime_event list \<times> terminal_state) act" where
  "finish_continuation env s events results =
     (let terminal = make_terminal COMPLETED ''approval_continuation'' None None in
      act_bind (modify_session (\<lambda>r. r\<lparr>sr_pending := []\<rparr>)) (\<lambda>_.
      act_bind (append_tool_results env results) (\<lambda>_.
      act_bind (act_get (\<lambda>st. request_messages env (t_session st))) (\<lambda>messages.
      act_bind (run_model_once env messages s default_control) (\<lambda>(response, _).
      act_bind (case mr_message response of
          None \<Rightarrow> act_return []
        | Some m \<Rightarrow> if mr_tool_calls response \<noteq> [] then act_return []
            else act_bind (append_message \<lparr>sm_role = ''assistant'', sm_content = JStr m, sm_metadata = []\<rparr>) (\<lambda>_.
              act_bind (append_new_event env s ASSISTANT_MESSAGE [(''message'', JStr m)]) (\<lambda>e. act_return [e])))
        (\<lambda>answer.
      act_bind (append_new_event env s TURN_COMPLETED (terminal_to_dict terminal)) (\<lambda>e.
      act_bind (modify_session (\<lambda>r. r\<lparr>sr_status := SESSION_IDLE\<rparr>)) (\<lambda>_.
      act_bind (persist_session env s) (\<lambda>_. act_return (events @ answer @ [e], terminal))))))))))"

definition approve_continuation ::
  "'w harness_env \<Rightarrow> string \<Rightarrow> string \<Rightarrow> string \<Rightarrow> ('w, runtime_event list \<times> terminal_state) act" where
  "approve_continuation env s workdir task =
     act_bind (modify_session (\<lambda>r. r\<lparr>sr_status := SESSION_RUNNING\<rparr>)) (\<lambda>_.
     act_bind (act_get t_session) (\<lambda>r.
     act_bind (execute_tool_stream env s (sr_pending r)
         (turn_context s r workdir (Some task) (map tc_name (sr_pending r))))
       (\<lambda>(events, results, error). case error of
          Some (ToolExecutionFailedError n x) \<Rightarrow> failed_continuation env s events
            (make_terminal FAILED ''tool_execution_failed'' None
              (Some (tool_error_text (ToolExecutionFailedError n x))))
        | Some (ToolCancelledError n x) \<Rightarrow> failed_continuation env s events
            (make_terminal STOPPED ''tool_cancelled'' None
              (Some (tool_error_text (ToolCancelledError n x))))
        | _ \<Rightarrow> finish_continuation env s events results)))"

definition continue_turn ::
  "'w harness_env \<Rightarrow> string \<Rightarrow> bool \<Rightarrow> ('w, runtime_event list \<times> terminal_state) act" where
  "continue_turn env s approved =
     act_bind (harness_load env s) (\<lambda>loaded.
     if sr_status loaded \<noteq> SESSION_REQUIRES_ACTION \<or> sr_pending loaded = [] then
       act_raise (TurnTool (PyError (ValueError ''Session has no pending requires_action continuation'')))
     else
       (let (workdir, session) = ensure_session_workspace env s loaded in
        act_bind (act_modify (\<lambda>st. st\<lparr>t_session := session\<rparr>)) (\<lambda>_.
        act_bind (new_turn_task_id env s) (\<lambda>task.
        act_bind (act_modify (\<lambda>st. st\<lparr>t_task := Some task\<rparr>)) (\<lambda>_.
        if approved then approve_continuation env s workdir task else reject_continuation env s)))))"

end
