(* ===== verification/MemoryTurn.thy ===== *)
theory MemoryTurn
  imports MemoryProps Harness
begin

text \<open>
  The two memories at the end of a turn: the numbering of the consolidation jobs, and what happens when
  the transcript the turn leaves behind has a tool message, as the turn loop of \<open>Harness\<close> appends it.
\<close>

subsection \<open>The jobs of a store\<close>

definition job_key :: "nat \<Rightarrow> string" where
  "job_key k = ''memory_job_'' @ nat_str k"

lemma job_key_inject [simp]: "job_key k = job_key j \<longleftrightarrow> k = j"
  by (simp add: job_key_def)

text \<open>Job ids count up, and a job that completed was scheduled.\<close>

definition jobs_inv :: "'w memory_store \<Rightarrow> bool" where
  "jobs_inv st \<longleftrightarrow> (\<forall>k. dict_get (dm_jobs st) (job_key k) \<noteq> None \<longrightarrow> k \<le> length (dm_jobs st))
     \<and> (\<forall>i. dict_get (dm_completed st) i \<noteq> None \<longrightarrow> dict_get (dm_jobs st) i \<noteq> None)"

definition jobs_are :: "(string, string \<times> session_message list \<times> string \<times> json_object option) pydict \<Rightarrow>
    (string, consolidation_result) pydict \<Rightarrow> 'w memory_store \<Rightarrow> bool" where
  "jobs_are J C st \<longleftrightarrow> dm_jobs st = J \<and> dm_completed st = C"

lemma keeps_jobs_frame:
  "(\<And>st. dm_jobs (f st) = dm_jobs st) \<Longrightarrow> (\<And>st. dm_completed (f st) = dm_completed st) \<Longrightarrow> keeps (jobs_are J C) (modify f)"
  by (rule keeps_modify) (simp add: jobs_are_def)

named_theorems job_keeping "operations that leave the jobs alone"

lemma keeps_jobs_clock [job_keeping]: "keeps (jobs_are J C) (memory_now env)"
  by (simp add: keeps_def memory_now_def jobs_are_def)

lemma keeps_jobs_write [job_keeping]: "keeps (jobs_are J C) (write_record r)" "keeps (jobs_are J C) (write_skipped_records is)"
  "keeps (jobs_are J C) (upsert_memory r)"
  unfolding write_record_def write_skipped_records_def upsert_memory_def
  by (intro keeping keeps_jobs_frame; simp)+

lemma keeps_jobs_store [job_keeping]: "keeps (jobs_are J C) (store_extracted rs)" "keeps (jobs_are J C) (store_promoted rs)"
  by (induction rs) (auto intro!: keeping job_keeping simp: Let_def)

lemma keeps_jobs_put [job_keeping]: "keeps (jobs_are J C) (memory_put r)" "keeps (jobs_are J C) (memory_delete i)"
  "keeps (jobs_are J C) (update_memory env i patch)"
  unfolding memory_put_def memory_delete_def update_memory_def Let_def
  by (intro keeping job_keeping keeps_jobs_frame; simp)+

lemma keeps_jobs_direct [job_keeping]: "keeps (jobs_are J C) (direct_write env r)"
  unfolding direct_write_def by (intro keeping job_keeping)

lemma keeps_jobs_extract [job_keeping]: "keeps (jobs_are J C) (memory_extract env ms s agent)"
  unfolding memory_extract_def by (intro keeping job_keeping keeps_jobs_frame) simp_all

lemma keeps_jobs_rewritten [job_keeping]: "keeps (jobs_are J C) m \<Longrightarrow> keeps (jobs_are J C) (rewritten m)"
  unfolding rewritten_def by (intro keeping job_keeping)

lemma keeps_jobs_memories [job_keeping]: "keeps (jobs_are J C) (extract_memories env rq)"
  unfolding extract_memories_def base_extract_memories_def by (intro keeping job_keeping)

lemma keeps_jobs_sweep [job_keeping]:
  "keeps (jobs_are J C) (\<lambda>st. let (r, w) = f st in (r, st\<lparr>dm_dreams := w\<rparr>))"
  by (simp add: keeps_def split_beta Let_def jobs_are_def)

lemma keeps_jobs_dream [job_keeping]: "keeps (jobs_are J C) (dream env dq)"
  unfolding dream_def base_dream_def by (intro keeping job_keeping)

lemma keeps_jobs_consolidate [job_keeping]: "keeps (jobs_are J C) (consolidate env s ms agent)"
  unfolding consolidate_def by (intro keeping job_keeping)

lemma keeps_jobs_recall [job_keeping]: "keeps (jobs_are J C) (prefetch_request q)" "keeps (jobs_are J C) (recall session query limit agent)"
proof -
  show q: "keeps (jobs_are J C) (prefetch_request q)" for q
    unfolding prefetch_request_def by (intro keeping keeps_jobs_frame) simp_all
  show "keeps (jobs_are J C) (recall session query limit agent)"
    unfolding recall_def by (intro keeping q)
qed

lemma jobs_inv_kept: "keeps (jobs_are (dm_jobs st) (dm_completed st)) m \<Longrightarrow> jobs_inv st \<Longrightarrow> jobs_inv (snd (m st))"
  using keepsD [of "jobs_are (dm_jobs st) (dm_completed st)" m st] by (simp add: jobs_are_def jobs_inv_def)

lemma new_job_key: "jobs_inv st \<Longrightarrow> dict_get (dm_jobs st) (job_key (Suc (length (dm_jobs st)))) = None"
  unfolding jobs_inv_def by (metis Suc_n_not_le_n)

lemma length_dict_set: "dict_get d k = None \<Longrightarrow> length (dict_set k v d) = Suc (length d)"
  by (induction d) (auto split: if_splits)

lemma schedule_result:
  "memory_schedule s ms agent None None st =
     (let job = \<lparr>cj_id = job_key (Suc (length (dm_jobs st))), cj_session = s, cj_size = length ms, cj_path = EXTRACT\<rparr> in
      (Inr job, st\<lparr>dm_jobs := dict_set (cj_id job) (s, ms, case agent of None \<Rightarrow> [] | Some a \<Rightarrow> a, None) (dm_jobs st),
         dm_pending := dict_set (cj_id job) (job, None) (dm_pending st)\<rparr>))"
  by (simp add: memory_schedule_def eff_defs job_key_def Let_def)

lemma jobs_inv_schedule: "jobs_inv st \<Longrightarrow> jobs_inv (snd (memory_schedule s ms agent path config st))"
proof -
  assume inv: "jobs_inv st"
  show ?thesis
  proof (cases "case path of None \<Rightarrow> Inr EXTRACT | Some p \<Rightarrow> write_path_of p")
    case (Inl e)
    then show ?thesis using inv by (simp add: memory_schedule_def eff_defs)
  next
    case (Inr p)
    define n where "n = Suc (length (dm_jobs st))"
    define v where "v = (s, ms, case agent of None \<Rightarrow> [] | Some a \<Rightarrow> a, config)"
    have "dm_jobs (snd (memory_schedule s ms agent path config st)) = dict_set (job_key n) v (dm_jobs st)"
      "dm_completed (snd (memory_schedule s ms agent path config st)) = dm_completed st"
      using Inr by (simp_all add: memory_schedule_def eff_defs job_key_def n_def v_def)
    moreover have "length (dict_set (job_key n) v (dm_jobs st)) = n"
      using length_dict_set [OF new_job_key [OF inv]] by (simp add: n_def)
    ultimately show ?thesis using inv by (force simp: jobs_inv_def n_def)
  qed
qed

text \<open>The body of a job, and its outcome.\<close>

definition job_body :: "'w mem_env \<Rightarrow> consolidation_job \<Rightarrow> string \<times> session_message list \<times> string \<times> json_object option \<Rightarrow>
    ('w memory_store, consolidation_result) eff" where
  "job_body env job x = (case x of (s, ms, agent, config) \<Rightarrow> let agent' = (if agent = [] then None else Some agent) in
     if cj_path job = DREAM
     then bind (dream env \<lparr>dq_session = s, dq_transcript = map session_message_to_dict ms, dq_agent = agent',
         dq_force_failure = False, dq_config = config\<rparr>) (\<lambda>r.
       ret \<lparr>co_session = s, co_path = DREAM, co_new = [], co_updated = wr_records r, co_skipped = wr_skipped r\<rparr>)
     else consolidate env s ms agent')"

lemma run_job_body:
  "run_job env job st = (case dict_get (dm_jobs st) (cj_id job) of
     None \<Rightarrow> (Inl (KeyError (cj_id job)), st)
   | Some x \<Rightarrow> bind (job_body env job x) (\<lambda>result.
       bind (modify (\<lambda>st. st\<lparr>dm_completed := dict_set (cj_id job) result (dm_completed st),
         dm_pending := dict_pop (cj_id job) (dm_pending st)\<rparr>)) (\<lambda>_. ret result)) st)"
  by (auto simp: run_job_def job_body_def bind_reads Let_def split: option.split)

lemma keeps_job_body: "keeps (jobs_are J C) (job_body env job x)"
  unfolding job_body_def Let_def by (intro keeping job_keeping)

lemma jobs_inv_run: "jobs_inv st \<Longrightarrow> jobs_inv (snd (run_job env job st))"
proof -
  assume inv: "jobs_inv st"
  show ?thesis
  proof (cases "dict_get (dm_jobs st) (cj_id job)")
    case None
    then show ?thesis using inv by (simp add: run_job_body)
  next
    case (Some x)
    obtain r st' where r: "job_body env job x st = (r, st')" by (cases "job_body env job x st")
    have "jobs_are (dm_jobs st) (dm_completed st) st'"
      using keepsD [OF keeps_job_body, of "dm_jobs st" "dm_completed st" st env job x] r by (simp add: jobs_are_def)
    then show ?thesis
      using inv Some r by (cases r; cases x) (auto simp: run_job_body bind_def eff_defs jobs_are_def jobs_inv_def)
  qed
qed

lemma jobs_inv_pool: "jobs_inv st \<Longrightarrow> jobs_inv (pool_run env i st)"
proof -
  assume inv: "jobs_inv st"
  show ?thesis
  proof (cases "dict_get (dm_pending st) i")
    case (Some p)
    obtain job outcome r st' where p: "p = (job, outcome)" "run_job env job st = (r, st')"
      by (cases p; cases "run_job env (fst p) st") auto
    have "jobs_inv st'" using jobs_inv_run [OF inv, of env job] p(2) by simp
    then show ?thesis using inv Some p by (cases outcome; cases r) (simp_all add: pool_run_def jobs_inv_def)
  qed (use inv in \<open>simp add: pool_run_def\<close>)
qed

lemma jobs_inv_step: "memory_step env st st' \<Longrightarrow> jobs_inv st \<Longrightarrow> jobs_inv st'"
proof (induction rule: memory_step.induct)
qed (auto intro: jobs_inv_kept job_keeping jobs_inv_schedule jobs_inv_pool)

lemma jobs_inv_reach: "memory_reach env st st' \<Longrightarrow> jobs_inv st \<Longrightarrow> jobs_inv st'"
  by (induction rule: memory_reach.induct) (auto intro: jobs_inv_step)

subsection \<open>A transcript with a tool message\<close>

lemma str_contents_fails: "v \<in> set vs \<Longrightarrow> \<not> is_jstr v \<Longrightarrow> \<exists>e. str_contents n vs = Inl (TypeError e)"
proof (induction vs arbitrary: n)
  case (Cons a vs)
  show ?case
  proof (cases "is_jstr a")
    case True
    then obtain e where "str_contents (Suc n) vs = Inl (TypeError e)" using Cons by fastforce
    then show ?thesis using True by (cases a) auto
  next
    case False
    then show ?thesis by (cases a) auto
  qed
qed simp

lemma tool_message_list: "\<not> is_jstr (sm_content (tool_message r (JList content)))"
  by (simp add: tool_message_def)

lemma consolidate_fails:
  assumes "m \<in> set ms" "\<not> is_jstr (sm_content m)" "am_enabled (dm_config st)"
  shows "\<exists>e. consolidate env s ms agent st = (Inl (TypeError e), st)"
proof -
  obtain e where "str_contents 0 (map sm_content ms) = Inl (TypeError e)"
    using str_contents_fails [of "sm_content m" "map sm_content ms"] assms(1,2) by auto
  then have "memory_extract env ms (Some s) agent st = (Inl (TypeError e), st)"
    using assms(1) by (auto simp: memory_extract_def join_contents_def bind_def lift_def)
  then have "base_extract_memories env (request_from_messages s ms agent) st = (Inl (TypeError e), st)"
    using assms(3) by (simp add: base_extract_memories_def bind_def gets_def lift_def)
  then show ?thesis by (simp add: consolidate_def extract_memories_def rewritten_def bind_def)
qed

text \<open>The job of such a transcript, from its scheduling to the wait.\<close>

lemma job_fails:
  assumes inv: "jobs_inv st" and ms: "m \<in> set ms" "\<not> is_jstr (sm_content m)" and enabled: "am_enabled (dm_config st)"
  shows "\<exists>e job st1. memory_schedule s ms agent None None st = (Inr job, st1)
    \<and> cj_id job = job_key (Suc (length (dm_jobs st)))
    \<and> dm_records (pool_run env (cj_id job) st1) = dm_records st
    \<and> wait_for_job (cj_id job) (pool_run env (cj_id job) st1) = Some (Inl (TypeError e))"
proof -
  define k where "k = job_key (Suc (length (dm_jobs st)))"
  define job where "job = \<lparr>cj_id = k, cj_session = s, cj_size = length ms, cj_path = EXTRACT\<rparr>"
  define ag where "ag = (case agent of None \<Rightarrow> [] | Some a \<Rightarrow> a)"
  define v where "v = (s, ms, ag, None :: json_object option)"
  define st1 where "st1 = st\<lparr>dm_jobs := dict_set k v (dm_jobs st), dm_pending := dict_set k (job, None) (dm_pending st)\<rparr>"
  have sched: "memory_schedule s ms agent None None st = (Inr job, st1)"
    by (simp add: schedule_result Let_def job_def st1_def k_def v_def ag_def)
  have "am_enabled (dm_config st1)" using enabled by (simp add: st1_def)
  from consolidate_fails [OF ms this] obtain e where
    e: "consolidate env s ms (if ag = [] then None else Some ag) st1 = (Inl (TypeError e), st1)"
    by blast
  have "run_job env job st1 = (Inl (TypeError e), st1)"
  proof -
    have "job_body env job v st1 = (Inl (TypeError e), st1)" using e by (simp add: job_body_def v_def job_def Let_def)
    moreover have "dict_get (dm_jobs st1) (cj_id job) = Some v" by (simp add: st1_def job_def)
    ultimately show ?thesis by (simp add: run_job_body bind_def)
  qed
  then have pool: "pool_run env k st1 = st1\<lparr>dm_pending := dict_set k (job, Some (Inl (TypeError e))) (dm_pending st1)\<rparr>"
    by (simp add: pool_run_def st1_def)
  have "dict_get (dm_jobs st) k = None" unfolding k_def by (rule new_job_key [OF inv])
  then have "dict_get (dm_completed st) k = None" using inv unfolding jobs_inv_def by blast
  then have "wait_for_job k (pool_run env k st1) = Some (Inl (TypeError e))"
    unfolding pool wait_for_job_def by (simp add: st1_def)
  moreover have "dm_records (pool_run env k st1) = dm_records st" unfolding pool by (simp add: st1_def)
  ultimately show ?thesis using sched by (auto simp: job_def k_def)
qed

lemma build_fails:
  assumes "m \<in> set (last_n 3 ms)" "\<not> is_jstr (sm_content m)"
  shows "\<exists>e. build_memory now s ms current = Inl (TypeError e)"
proof -
  have "ms \<noteq> []" using assms(1) by (auto simp: last_n_def)
  then show ?thesis
    using str_contents_fails [of "sm_content m" "map sm_content (last_n 3 ms)" 0] assms
    by (auto simp: build_memory_def)
qed

text \<open>What the workers of both pools do before the runtime waits.\<close>

definition both_pools :: "'w mem_env \<Rightarrow> (nat \<Rightarrow> string) \<Rightarrow> string \<Rightarrow> string \<Rightarrow> 'w memory_runtime \<Rightarrow> 'w memory_runtime" where
  "both_pools env now s job rt = rt\<lparr>rm_memory := map_option (pool_run env job) (rm_memory rt),
     rm_short := map_option (build_pending now s) (rm_short rt)\<rparr>"

text \<open>
  C19.  When one of the last three messages of a turn is a tool message of the turn loop, both memories
  fail: the post-turn processing raises a TypeError, loading the short-term memory for the next prompt
  raises it again and changes nothing, and the consolidation job stores no record and raises for whoever
  waits for it.
\<close>

theorem tool_turn_defeats_memory:
  fixes rt :: "'w memory_runtime"
  assumes memory: "fresh_store st0" "memory_reach env st0 ms" "am_enabled (dm_config ms)" "rm_memory rt = Some ms"
    and short: "rm_short rt = Some ss" "short_term_load now (sr_id (rm_session rt)) ss = (Inr current, ss1)"
    and tool: "tool_message r (JList content) \<in> set (last_n 3 (sr_messages (rm_session rt)))"
    and job: "job = job_key (Suc (length (dm_jobs ms)))"
  shows "\<exists>e e' rt' ms'.
      memory_maintenance now time (both_pools env now (sr_id (rm_session rt)) job) rt = (Inl (TypeError e), rt')
    \<and> load_short_term_memory now rt' = (Inl (TypeError e), rt')
    \<and> rm_memory rt' = Some ms' \<and> dm_records ms' = dm_records ms
    \<and> wait_for_job job ms' = Some (Inl (TypeError e'))"
proof -
  define s where "s = rm_session rt"
  define m where "m = tool_message r (JList content)"
  have m: "\<not> is_jstr (sm_content m)" "m \<in> set (last_n 3 (sr_messages s))" "m \<in> set (sr_messages s)"
    using tool set_drop_subset [of _ "sr_messages s"] by (auto simp: m_def s_def tool_message_def last_n_def)
  have "jobs_inv st0" using memory(1) by (simp add: fresh_store_def jobs_inv_def)
  then have "jobs_inv ms" by (rule jobs_inv_reach [OF memory(2)])
  from job_fails [OF this m(3,1) memory(3), of "sr_id s" "sr_agent s" env] obtain e' j ms1 where
    j: "memory_schedule (sr_id s) (sr_messages s) (sr_agent s) None None ms = (Inr j, ms1)" "cj_id j = job"
      "dm_records (pool_run env job ms1) = dm_records ms" "wait_for_job job (pool_run env job ms1) = Some (Inl (TypeError e'))"
    unfolding job by auto
  define ss2 where "ss2 = ss1\<lparr>sx_pending := dict_set (sr_id s) \<lparr>sf_delta = sr_messages s, sf_current = current, sf_outcome = None\<rparr> (sx_pending ss1)\<rparr>"
  obtain e where e: "build_memory (now (sx_clock ss2)) (sr_id s) (sr_messages s) current = Inl (TypeError e)"
    using build_fails [OF m(2,1)] by blast
  define ss3 where "ss3 = build_pending now (sr_id s) ss2"
  have wait: "wait_until_stable (sr_id s) ss3 = (Inl (TypeError e), ss3)"
    using e by (simp add: ss3_def build_pending_def ss2_def wait_until_stable_def base_wait_until_stable_def bind_def)
  define s1 where "s1 = (case current of None \<Rightarrow> s | Some c \<Rightarrow> s\<lparr>sr_short_term := Some (short_term_to_dict c)\<rparr>)"
  have s1: "sr_id s1 = sr_id s" "sr_messages s1 = sr_messages s" "sr_agent s1 = sr_agent s"
    by (simp_all add: s1_def split: option.split)
  define rt1 where "rt1 = rt\<lparr>rm_last_session := Some s, rm_short := Some ss2, rm_session := s1\<rparr>"
  have sh: "schedule_short_term now (rt\<lparr>rm_last_session := Some s\<rparr>) = (Inr (), rt1)"
  proof -
    have "bind (short_term_load now (sr_id s)) (short_term_update (sr_id s) (sr_messages s)) ss
        = (Inr \<lparr>ur_memory = current, ur_scheduled = True, ur_stable = False\<rparr>, ss2)"
      using short(2) by (simp add: bind_def short_term_update_def modify_def ret_def ss2_def s_def)
    then have "schedule_short_term now (rt\<lparr>rm_last_session := Some s\<rparr>)
        = set_short_term current (rt\<lparr>rm_last_session := Some s, rm_short := Some ss2\<rparr>)"
      using short(1) by (simp add: schedule_short_term_def on_short_def bind_def s_def Let_def)
    also have "\<dots> = (Inr (), rt1)"
      by (cases rt; cases current) (simp_all add: set_short_term_def modify_def ret_def rt1_def s1_def s_def)
    finally show ?thesis .
  qed
  have nonempty: "sr_messages s \<noteq> []" using m(3) by auto
  define rt2 where "rt2 = rt1\<lparr>rm_memory := Some ms1, rm_last_job := Some job\<rparr>"
  have maint: "schedule_memory_maintenance now rt = (Inr (), rt2)"
    using sh memory(3,4) j(1,2) nonempty s1
    by (simp add: schedule_memory_maintenance_def bind_def modify_def on_memory_def rt1_def rt2_def s_def)
  define rt3 where "rt3 = both_pools env now (sr_id s) job rt2"
  have rt3: "rm_short rt3 = Some ss3" "rm_memory rt3 = Some (pool_run env job ms1)" "rm_session rt3 = s1"
    by (simp_all add: rt3_def both_pools_def rt2_def rt1_def ss3_def)
  have stab: "stabilize_short_term_memory rt3 = (Inl (TypeError e), rt3)"
    using wait rt3 s1 by (simp add: stabilize_short_term_memory_def on_short_def bind_def)
  have "memory_maintenance now time (both_pools env now (sr_id s) job) rt = (Inl (TypeError e), rt3)"
    using maint stab short(1) by (simp add: memory_maintenance_def bind_def modify_def rt3_def)
  moreover have "load_short_term_memory now rt3 = (Inl (TypeError e), rt3)"
    using wait rt3 s1 by (simp add: load_short_term_memory_def on_short_def bind_def)
  ultimately show ?thesis using rt3 j(3,4) by (auto simp: s_def)
qed

definition demo_result :: tool_result where
  "demo_result = \<lparr>tr_name = ''Read'', tr_success = True, tr_content = [], tr_structured = None,
     tr_metadata = None, tr_persisted = None, tr_truncated = None\<rparr>"

definition demo_session :: session_record where
  "demo_session = (new_session ''s'')\<lparr>sr_messages := demo_said ''read it''
     @ [tool_message demo_result (JList []), \<lparr>sm_role = ''assistant'', sm_content = JStr ''done'', sm_metadata = []\<rparr>]\<rparr>"

definition demo_runtime :: "unit memory_runtime" where
  "demo_runtime = \<lparr>rm_session = demo_session, rm_memory = Some demo_store0, rm_short = Some new_short_term_store,
     rm_scheduler = \<lparr>ds_enabled = False, ds_min_interval = 0, ds_last_run = None\<rparr>, rm_dreaming_config = [],
     rm_last_session = None, rm_last_job = None, rm_last_dream = None\<rparr>"

lemma tool_turn_defeats_memory_witness:
  "\<exists>e e' rt' ms'.
      memory_maintenance nat_str 0 (both_pools demo_memory_env nat_str ''s'' ''memory_job_1'') demo_runtime = (Inl (TypeError e), rt')
    \<and> load_short_term_memory nat_str rt' = (Inl (TypeError e), rt') \<and> rm_memory rt' = Some ms'
    \<and> dm_records ms' = dm_records demo_store0 \<and> wait_for_job ''memory_job_1'' ms' = Some (Inl (TypeError e'))"
proof -
  have rt: "rm_memory demo_runtime = Some demo_store0" "rm_short demo_runtime = Some new_short_term_store"
    "sr_id (rm_session demo_runtime) = ''s''" "am_enabled (dm_config demo_store0)"
    by (simp_all add: demo_runtime_def demo_session_def new_session_def demo_store0_def new_memory_store_def default_memory_config_def)
  have load: "short_term_load nat_str (sr_id (rm_session demo_runtime)) new_short_term_store = (Inr None, new_short_term_store)"
    by (simp add: short_term_load_def new_short_term_store_def)
  have tool: "tool_message demo_result (JList []) \<in> set (last_n 3 (sr_messages (rm_session demo_runtime)))"
    by (simp add: demo_runtime_def demo_session_def demo_said_def last_n_def)
  have job: "''memory_job_1'' = job_key (Suc (length (dm_jobs demo_store0)))" by code_simp
  show ?thesis
    using tool_turn_defeats_memory [OF demo_fresh memory_reach.initial rt(4,1,2) load tool job] unfolding rt(3) .
qed

end
