(* ===== verification/SessionProps.thy ===== *)
theory SessionProps
  imports SessionStore
begin

text \<open>
  What the session store promises.  The invariant \<open>store_ok\<close> says the files are ones the store wrote:
  it holds of the empty store and after every operation.  Under it a session whose logs extend the
  stored ones is saved and read back as it is, any other is rejected, logs only grow, sessions do not
  disturb each other although they share transcript files, and a lease excludes other harnesses.
  \<open>session_backend\<close> states the part of this a harness relies on, and the file store provides it.
\<close>

subsection \<open>The invariant\<close>

text \<open>
  What is used of paths: resolving a resolved path changes nothing, and no resolved path begins or
  ends with white space.
\<close>

definition env_ok :: "store_env \<Rightarrow> bool" where
  "env_ok env \<longleftrightarrow> (\<forall>p. py_strip (se_resolve env p) = se_resolve env p \<and> se_resolve env p \<noteq> []
     \<and> se_resolve env (se_resolve env p) = se_resolve env p)"

definition own_lines :: "file_store \<Rightarrow> string \<Rightarrow> string \<Rightarrow> session_message list" where
  "own_lines fs s p = (case fs_transcript fs p of
     None \<Rightarrow> [] | Some ls \<Rightarrow> List.map_filter (read_transcript_line s) ls)"

lemma own_lines_cong: "fs_transcript fs = fs_transcript fs' \<Longrightarrow> own_lines fs = own_lines fs'"
  by (simp add: own_lines_def fun_eq_iff)

definition ref_ok :: "store_env \<Rightarrow> file_store \<Rightarrow> string \<Rightarrow> bool" where
  "ref_ok env fs s \<longleftrightarrow>
     (case sf_ref (fs_session fs s) of None \<Rightarrow> True
      | Some p \<Rightarrow> py_strip p = p \<and> p \<noteq> [] \<and> se_resolve env p = p)
     \<and> (\<forall>p. sf_ref (fs_session fs s) \<noteq> Some p \<longrightarrow> own_lines fs s p = [])"

definition events_ok :: "file_store \<Rightarrow> string \<Rightarrow> bool" where
  "events_ok fs s \<longleftrightarrow> (\<exists>es. event_lines fs s = map (JDict \<circ> event_to_dict) es)"

definition state_ok :: "store_env \<Rightarrow> file_store \<Rightarrow> string \<Rightarrow> bool" where
  "state_ok env fs s \<longleftrightarrow> (case sf_state (fs_session fs s) of None \<Rightarrow> True
     | Some v \<Rightarrow> \<exists>r n m. v = JDict (session_state_payload r n m)
         \<and> n \<le> length (read_transcript env fs s) \<and> m \<le> length (event_lines fs s))"

definition lease_ok :: "file_store \<Rightarrow> string \<Rightarrow> bool" where
  "lease_ok fs s \<longleftrightarrow> (case sf_lease (fs_session fs s) of None \<Rightarrow> True
     | Some v \<Rightarrow> \<exists>l. v = JDict (lease_to_dict l))"

definition store_ok :: "store_env \<Rightarrow> file_store \<Rightarrow> bool" where
  "store_ok env fs \<longleftrightarrow> (\<forall>s. ref_ok env fs s \<and> events_ok fs s \<and> state_ok env fs s \<and> lease_ok fs s)"

lemma store_ok_empty [simp]: "store_ok env empty_store"
  by (simp add: store_ok_def ref_ok_def events_ok_def state_ok_def lease_ok_def empty_store_def
      no_files_def event_lines_def own_lines_def)

lemma read_transcript_ref:
  assumes "ref_ok env fs s"
  shows "read_transcript env fs s = (case sf_ref (fs_session fs s) of None \<Rightarrow> [] | Some p \<Rightarrow> own_lines fs s p)"
  using assms by (auto simp: ref_ok_def read_transcript_def resolve_transcript_path_def own_lines_def split: option.splits)

lemma map_filter_as_dict_events [simp]:
  "List.map_filter as_dict (map (JDict \<circ> event_to_dict) es) = map event_to_dict es"
  by (induction es) simp_all

lemma parse_events_printed [simp]: "parse_events (map (JDict \<circ> event_to_dict) es) = Inr es"
  by (simp add: parse_events_def emap_inverse)

lemma map_filter_drop_dicts:
  "List.map_filter as_dict (drop n (map (JDict \<circ> event_to_dict) es)) = map event_to_dict (drop n es)"
  by (simp add: drop_map)

text \<open>The events of a session, as far as its log can be read.\<close>

definition stored_events :: "file_store \<Rightarrow> string \<Rightarrow> runtime_event list" where
  "stored_events fs s = (case parse_events (event_lines fs s) of Inl _ \<Rightarrow> [] | Inr es \<Rightarrow> es)"

lemma events_ok_lines: "events_ok fs s \<Longrightarrow> event_lines fs s = map (JDict \<circ> event_to_dict) (stored_events fs s)"
  by (auto simp: events_ok_def stored_events_def)

lemma read_events_ok: "events_ok fs s \<Longrightarrow> read_events fs s 0 None = Inr (stored_events fs s)"
  by (cases "sf_events (fs_session fs s)")
     (auto simp: events_ok_def stored_events_def read_events_def event_lines_def parse_events_def emap_inverse)

subsection \<open>Frames\<close>

lemma update_files_same [simp]: "fs_session (update_files s f fs) s = f (fs_session fs s)"
  by (simp add: update_files_def)

lemma update_files_other [simp]: "s' \<noteq> s \<Longrightarrow> fs_session (update_files s f fs) s' = fs_session fs s'"
  by (simp add: update_files_def)

lemma update_files_transcript [simp]: "fs_transcript (update_files s f fs) = fs_transcript fs"
  by (simp add: update_files_def)

lemma tick_frame [simp]:
  "fs_session (snd (tick env fs)) = fs_session fs" "fs_transcript (snd (tick env fs)) = fs_transcript fs"
  by (simp_all add: tick_def)

lemma transcript_entry_frame [simp]:
  "fs_session (snd (transcript_entry env fs s st m)) = fs_session fs"
  "fs_transcript (snd (transcript_entry env fs s st m)) = fs_transcript fs"
  by (simp_all add: transcript_entry_def transcript_entry_context_def split_beta Let_def split: option.split)

lemma read_entry [simp]:
  "read_transcript_line s' (fst (transcript_entry env fs s st m)) = (if s = s' then Some m else None)"
  by (simp add: transcript_entry_def split_beta Let_def read_transcript_line_def)

lemma map_filter_append [simp]: "List.map_filter f (xs @ ys) = List.map_filter f xs @ List.map_filter f ys"
  by (simp add: List.map_filter_def)

lemma append_line_simps [simp]:
  "fs_session (append_line p v fs) = fs_session fs"
  "own_lines (append_line p v fs) s p' = (if p' = p then own_lines fs s p @
     (case read_transcript_line s v of None \<Rightarrow> [] | Some m \<Rightarrow> [m]) else own_lines fs s p')"
  by (simp_all add: own_lines_def append_line_def map_filter_simps(1) map_filter_simps(2) split: option.split)

lemma append_messages_frame [simp]:
  "fs_session (append_messages env s st p ms fs) = fs_session fs"
  by (induction ms arbitrary: fs) (simp_all add: split_beta Let_def)

lemma append_messages_lines:
  "own_lines (append_messages env s st p ms fs) s' p' =
     own_lines fs s' p' @ (if s' = s \<and> p' = p then ms else [])"
proof (induction ms arbitrary: fs)
  case (Cons m ms)
  obtain v fs' where e: "transcript_entry env fs s st m = (v, fs')" by (cases "transcript_entry env fs s st m")
  have "fs_transcript fs' = fs_transcript fs"
    using transcript_entry_frame(2) [of env fs s st m] by (simp add: e)
  then have "own_lines fs' = own_lines fs" by (rule own_lines_cong)
  moreover have "read_transcript_line s' v = (if s = s' then Some m else None)"
    using read_entry [of s' env fs s st m] by (simp add: e)
  ultimately show ?case
    using Cons.IH [of "append_line p v fs'"] by (cases "s' = s"; cases "p' = p") (auto simp: e)
qed simp

subsection \<open>Saving\<close>

definition logs_extend ::
  "session_message list \<Rightarrow> runtime_event list \<Rightarrow> session_record \<Rightarrow> bool" where
  "logs_extend ms es st \<longleftrightarrow>
     length ms \<le> length (sr_messages st) \<and> list_all2 message_eq ms (take (length ms) (sr_messages st))
     \<and> length es \<le> length (sr_events st) \<and> list_all2 event_eq es (take (length es) (sr_events st))"

lemma ensure_ref:
  assumes "env_ok env" "store_ok env fs" and e: "ensure_transcript_ref env s st fs = (p, fs1)"
  shows "sf_ref (fs_session fs1 s) = Some p"
    and "fs_transcript fs1 = fs_transcript fs"
    and "\<And>s'. sf_state (fs_session fs1 s') = sf_state (fs_session fs s')
        \<and> sf_events (fs_session fs1 s') = sf_events (fs_session fs s')
        \<and> sf_lease (fs_session fs1 s') = sf_lease (fs_session fs s')"
    and "\<And>s'. s' \<noteq> s \<Longrightarrow> fs_session fs1 s' = fs_session fs s'"
    and "\<And>s'. ref_ok env fs1 s'"
    and "\<And>s'. read_transcript env fs1 s' = read_transcript env fs s'"
proof -
  have refs: "ref_ok env fs s'" for s' using assms(2) by (simp add: store_ok_def)
  have *: "sf_ref (fs_session fs1 s) = Some p \<and> fs_transcript fs1 = fs_transcript fs
    \<and> (\<forall>s'. sf_state (fs_session fs1 s') = sf_state (fs_session fs s')
        \<and> sf_events (fs_session fs1 s') = sf_events (fs_session fs s')
        \<and> sf_lease (fs_session fs1 s') = sf_lease (fs_session fs s'))
    \<and> (\<forall>s'. s' \<noteq> s \<longrightarrow> fs_session fs1 s' = fs_session fs s')
    \<and> (\<forall>s'. ref_ok env fs1 s') \<and> (\<forall>s'. read_transcript env fs1 s' = read_transcript env fs s')"
  proof (cases "sf_ref (fs_session fs s)")
    case None
    let ?p = "se_resolve env (default_transcript_path env st)"
    have "p = ?p" and fs1: "fs1 = update_files s (\<lambda>f. f\<lparr>sf_ref := Some ?p\<rparr>) fs"
      using e None by (auto simp: ensure_transcript_ref_def resolve_transcript_path_def Let_def)
    have ok: "py_strip ?p = ?p" "?p \<noteq> []" "se_resolve env ?p = ?p"
      using assms(1) by (simp_all add: env_ok_def)
    have own: "own_lines fs1 = own_lines fs" by (rule own_lines_cong) (simp add: fs1)
    have r: "ref_ok env fs1 s'" for s'
      using refs [of s'] None ok by (cases "s' = s"; cases "sf_ref (fs_session fs s')")
         (simp_all add: ref_ok_def fs1 own [unfolded fs1])
    have "read_transcript env fs1 s' = read_transcript env fs s'" for s'
      using read_transcript_ref [OF r, of s'] read_transcript_ref [OF refs, of s'] refs [of s] None
      by (cases "s' = s"; cases "sf_ref (fs_session fs s')")
         (simp_all add: fs1 ref_ok_def own [unfolded fs1])
    moreover have "sf_state (fs_session fs1 s') = sf_state (fs_session fs s')
        \<and> sf_events (fs_session fs1 s') = sf_events (fs_session fs s')
        \<and> sf_lease (fs_session fs1 s') = sf_lease (fs_session fs s')" for s'
      by (cases "s' = s") (simp_all add: fs1)
    ultimately show ?thesis using r by (simp add: \<open>p = ?p\<close> fs1)
  next
    case (Some q)
    then have "py_strip q = q" "q \<noteq> []" "se_resolve env q = q" using refs [of s] by (simp_all add: ref_ok_def)
    then have "p = q" "fs1 = fs"
      using e Some by (simp_all add: ensure_transcript_ref_def resolve_transcript_path_def)
    then show ?thesis using refs Some by simp
  qed
  then show "sf_ref (fs_session fs1 s) = Some p" "fs_transcript fs1 = fs_transcript fs"
    "\<And>s'. sf_state (fs_session fs1 s') = sf_state (fs_session fs s')
        \<and> sf_events (fs_session fs1 s') = sf_events (fs_session fs s')
        \<and> sf_lease (fs_session fs1 s') = sf_lease (fs_session fs s')"
    "\<And>s'. s' \<noteq> s \<Longrightarrow> fs_session fs1 s' = fs_session fs s'"
    "\<And>s'. ref_ok env fs1 s'" "\<And>s'. read_transcript env fs1 s' = read_transcript env fs s'"
    by blast+
qed

lemma persisted_counts [simp]:
  "persisted_count (Some (session_state_payload r n m)) ''transcript_message_count'' = n"
  "persisted_count (Some (session_state_payload r n m)) ''event_count'' = m"
  "persisted_count None k = 0"
  by (simp_all add: persisted_count_def session_state_payload_def)

lemma state_ok_counts:
  assumes "state_ok env fs s"
  shows "\<exists>d. load_state_payload fs s = Inr d
    \<and> persisted_count d ''transcript_message_count'' \<le> length (read_transcript env fs s)
    \<and> persisted_count d ''event_count'' \<le> length (event_lines fs s)"
  using assms by (auto simp: state_ok_def load_state_payload_def split: option.splits)

lemma validated_transcript:
  assumes "k \<le> length (read_transcript env fs s)"
  shows "validated_transcript_count env fs s st k =
    (if length (read_transcript env fs s) > length (sr_messages st)
     then Inl (ValueError ''Cannot truncate append-only transcript'')
     else if \<not> list_all2 message_eq (read_transcript env fs s)
        (take (length (read_transcript env fs s)) (sr_messages st))
     then Inl (ValueError ''Append-only transcript diverged from session state'')
     else Inr (length (read_transcript env fs s)))"
  using assms by (simp add: validated_transcript_count_def Let_def)

lemma validated_events:
  assumes "events_ok fs s" "k \<le> length (event_lines fs s)"
  shows "validated_event_count fs s st k =
    (if length (stored_events fs s) > length (sr_events st)
     then Inl (ValueError ''Cannot truncate append-only event log'')
     else if \<not> list_all2 event_eq (stored_events fs s)
        (take (length (stored_events fs s)) (sr_events st))
     then Inl (ValueError ''Append-only event log diverged from session state'')
     else Inr (length (stored_events fs s)))"
proof -
  have "length (event_lines fs s) = length (stored_events fs s)"
    using arg_cong [OF events_ok_lines [OF assms(1)], of length] by simp
  then show ?thesis
    using assms(2) by (simp add: validated_event_count_def read_events_ok [OF assms(1)] Let_def)
qed

text \<open>The files after a save that succeeds, and after one that does not.\<close>

definition saved :: "store_env \<Rightarrow> string \<Rightarrow> session_record \<Rightarrow> file_store \<Rightarrow> file_store \<Rightarrow> bool" where
  "saved env s st fs fs' \<longleftrightarrow>
     read_transcript env fs' s = read_transcript env fs s @
         drop (length (read_transcript env fs s)) (sr_messages st)
     \<and> stored_events fs' s = stored_events fs s @ drop (length (stored_events fs s)) (sr_events st)
     \<and> event_lines fs' s = event_lines fs s @
         map (JDict \<circ> event_to_dict) (drop (length (stored_events fs s)) (sr_events st))
     \<and> sf_state (fs_session fs' s) =
         Some (JDict (session_state_payload st (length (sr_messages st)) (length (sr_events st))))
     \<and> sf_lease (fs_session fs' s) = sf_lease (fs_session fs s)
     \<and> (\<forall>s'. s' \<noteq> s \<longrightarrow> fs_session fs' s' = fs_session fs s' \<and> read_transcript env fs' s' = read_transcript env fs s')"

definition same_logs :: "store_env \<Rightarrow> file_store \<Rightarrow> file_store \<Rightarrow> bool" where
  "same_logs env fs fs' \<longleftrightarrow> (\<forall>s. read_transcript env fs' s = read_transcript env fs s
     \<and> sf_state (fs_session fs' s) = sf_state (fs_session fs s)
     \<and> sf_events (fs_session fs' s) = sf_events (fs_session fs s)
     \<and> sf_lease (fs_session fs' s) = sf_lease (fs_session fs s))"

lemma save_session_rejects:
  assumes "env_ok env" "store_ok env fs"
    and no: "\<not> logs_extend (read_transcript env fs s) (stored_events fs s) st"
  shows "\<exists>e fs'. save_session env s st fs = (Inl e, fs') \<and> store_ok env fs' \<and> same_logs env fs fs'"
proof -
  obtain p fs1 where en: "ensure_transcript_ref env s st fs = (p, fs1)"
    by (cases "ensure_transcript_ref env s st fs")
  note e = ensure_ref [OF assms(1,2) en]
  have ok: "events_ok fs s'" "state_ok env fs s'" "lease_ok fs s'" for s'
    using assms(2) by (simp_all add: store_ok_def)
  have lines: "event_lines fs1 s' = event_lines fs s'" "stored_events fs1 s' = stored_events fs s'" for s'
    using e(3) [of s'] by (simp_all add: event_lines_def stored_events_def)
  have ok1: "events_ok fs1 s'" "state_ok env fs1 s'" "lease_ok fs1 s'" for s'
    using ok [of s'] e(3) [of s'] e(6) [of s'] lines [of s']
    by (cases "sf_state (fs_session fs s')"; simp add: events_ok_def state_ok_def lease_ok_def)+
  obtain d where d: "load_state_payload fs s = Inr d"
      "persisted_count d ''transcript_message_count'' \<le> length (read_transcript env fs s)"
      "persisted_count d ''event_count'' \<le> length (event_lines fs s)"
    using state_ok_counts [OF ok(2)] by blast
  have t: "validated_transcript_count env fs1 s st (persisted_count d ''transcript_message_count'') =
      validated_transcript_count env fs s st (persisted_count d ''transcript_message_count'')"
    by (simp add: validated_transcript_count_def e(6))
  have ev: "validated_event_count fs1 s st (persisted_count d ''event_count'') =
      validated_event_count fs s st (persisted_count d ''event_count'')"
    by (simp add: validated_event_count_def read_events_def e(3))
  have "\<exists>x. save_session env s st fs = (Inl x, fs1)"
    using no d validated_transcript [OF d(2), of st] validated_events [OF ok(1) d(3), of st]
    by (auto simp: save_session_def en t ev Let_def logs_extend_def split: if_splits)
  moreover have "store_ok env fs1" using e(5) ok1 by (simp add: store_ok_def)
  moreover have "same_logs env fs fs1" using e(3,6) by (simp add: same_logs_def)
  ultimately show ?thesis by blast
qed

lemma save_session_accepts:
  assumes "env_ok env" "store_ok env fs"
    and yes: "logs_extend (read_transcript env fs s) (stored_events fs s) st"
  shows "\<exists>fs'. save_session env s st fs = (Inr (), fs') \<and> store_ok env fs' \<and> saved env s st fs fs'"
proof -
  let ?ms = "drop (length (read_transcript env fs s)) (sr_messages st)"
  let ?es = "drop (length (stored_events fs s)) (sr_events st)"
  obtain p fs1 where en: "ensure_transcript_ref env s st fs = (p, fs1)"
    by (cases "ensure_transcript_ref env s st fs")
  note e = ensure_ref [OF assms(1,2) en]
  have ok: "events_ok fs s'" "state_ok env fs s'" "lease_ok fs s'" for s'
    using assms(2) by (simp_all add: store_ok_def)
  obtain d where d: "load_state_payload fs s = Inr d"
      "persisted_count d ''transcript_message_count'' \<le> length (read_transcript env fs s)"
      "persisted_count d ''event_count'' \<le> length (event_lines fs s)"
    using state_ok_counts [OF ok(2)] by blast
  have t: "validated_transcript_count env fs1 s st (persisted_count d ''transcript_message_count'') =
      Inr (length (read_transcript env fs s))"
    using validated_transcript [OF d(2), of st] yes
    by (simp add: validated_transcript_count_def e(6) logs_extend_def)
  have ev: "validated_event_count fs1 s st (persisted_count d ''event_count'') =
      Inr (length (stored_events fs s))"
    using validated_events [OF ok(1) d(3), of st] yes
    by (simp add: validated_event_count_def read_events_def e(3) logs_extend_def)
  define fs2 where "fs2 = append_messages env s st p ?ms fs1"
  define fs3 where "fs3 = snd (append_event_suffix s st (length (stored_events fs s)) fs2)"
  define fs' where "fs' = write_session_state s st (length (sr_messages st)) (length (sr_events st)) fs3"
  have ap: "append_event_suffix s st (length (stored_events fs s)) fs2 = (Inr (), fs3)"
    using yes by (simp add: fs3_def append_event_suffix_def logs_extend_def Let_def)
  have save: "save_session env s st fs = (Inr (), fs')"
    using yes d(1) by (simp add: save_session_def en t ev Let_def append_transcript_suffix_def
        logs_extend_def fs'_def ap flip: fs2_def)
  have fs3s: "fs_transcript fs3 = fs_transcript fs2" "\<And>s'. s' \<noteq> s \<Longrightarrow> fs_session fs3 s' = fs_session fs1 s'"
      "sf_ref (fs_session fs3 s) = Some p" "sf_lease (fs_session fs3 s) = sf_lease (fs_session fs s)"
      "event_lines fs3 s = event_lines fs s @ map (JDict \<circ> event_to_dict) ?es"
    using yes e(1) e(3) [of s]
    by (simp_all add: fs3_def append_event_suffix_def fs2_def logs_extend_def Let_def event_lines_def
        split: option.split)
  have own1: "own_lines fs1 = own_lines fs" by (rule own_lines_cong [OF e(2)])
  have own2: "own_lines fs' = own_lines fs2"
    by (rule own_lines_cong) (simp add: fs'_def write_session_state_def fs3s(1))
  have own: "own_lines fs' s' p' = own_lines fs s' p' @ (if s' = s \<and> p' = p then ?ms else [])" for s' p'
    using append_messages_lines [of env s st p ?ms fs1 s' p']
    by (simp add: own1 own2 fs2_def)
  have ref': "sf_ref (fs_session fs' s') = sf_ref (fs_session fs1 s')" for s'
    using e(1) fs3s(2) [of s'] fs3s(3) by (cases "s' = s") (simp_all add: fs'_def write_session_state_def)
  have r: "ref_ok env fs' s'" for s'
    using e(5) [of s'] e(1) own [of s'] by (auto simp: ref_ok_def ref' own1 split: option.splits)
  have tr: "read_transcript env fs' s' = read_transcript env fs s' @ (if s' = s then ?ms else [])" for s'
    using read_transcript_ref [OF r, of s'] read_transcript_ref [OF e(5), of s'] e(1) e(6) [of s'] e(5) [of s']
    by (cases "sf_ref (fs_session fs1 s')") (auto simp: ref' own own1 ref_ok_def)
  have oth: "fs_session fs' s' = fs_session fs s'" if "s' \<noteq> s" for s'
    using that e(4) fs3s(2) by (simp add: fs'_def write_session_state_def)
  have lines: "event_lines fs' s = event_lines fs s @ map (JDict \<circ> event_to_dict) ?es"
    using fs3s(5) by (simp add: fs'_def write_session_state_def event_lines_def)
  have st': "stored_events fs' s = stored_events fs s @ ?es"
    unfolding stored_events_def [of fs'] lines events_ok_lines [OF ok(1) [of s]] map_append [symmetric]
    by (simp only: parse_events_printed sum.case)
  have lease: "sf_lease (fs_session fs' s) = sf_lease (fs_session fs s)"
    using fs3s(4) by (simp add: fs'_def write_session_state_def)
  have state: "sf_state (fs_session fs' s) =
      Some (JDict (session_state_payload st (length (sr_messages st)) (length (sr_events st))))"
    by (simp add: fs'_def write_session_state_def)
  have "saved env s st fs fs'"
    using tr oth by (simp add: saved_def lines st' lease state)
  moreover have "store_ok env fs'"
  proof -
    have len: "length (event_lines fs s) = length (stored_events fs s)"
      using arg_cong [OF events_ok_lines [OF ok(1) [of s]], of length] by simp
    have "events_ok fs' s \<and> state_ok env fs' s \<and> lease_ok fs' s"
    proof (intro conjI)
      show "events_ok fs' s"
        unfolding events_ok_def lines events_ok_lines [OF ok(1) [of s]] map_append [symmetric] by blast
      show "state_ok env fs' s"
        using yes by (auto simp: state_ok_def state tr lines len logs_extend_def intro!: exI)
      show "lease_ok fs' s" using ok(3) [of s] by (simp add: lease_ok_def lease)
    qed
    moreover have "events_ok fs' s' \<and> state_ok env fs' s' \<and> lease_ok fs' s'" if "s' \<noteq> s" for s'
      using ok [of s'] oth [OF that] tr [of s'] that
      by (cases "sf_state (fs_session fs s')") (simp_all add: events_ok_def event_lines_def state_ok_def lease_ok_def)
    ultimately show ?thesis using r by (metis store_ok_def)
  qed
  ultimately show ?thesis using save by blast
qed

subsection \<open>Loading\<close>

lemma parse_pending [simp]:
  "parse_dicts tool_call_from_dict (JList (map (JDict \<circ> tool_call_to_dict) cs)) = Inr cs"
proof -
  have "List.map_filter as_dict (map (JDict \<circ> tool_call_to_dict) cs) = map tool_call_to_dict cs"
    by (induction cs) simp_all
  then show ?thesis by (simp add: parse_dicts_def emap_inverse)
qed

lemma parse_dicts_null [simp]: "parse_dicts f JNull = Inr []"
  by (simp add: parse_dicts_def)

lemma session_payload_roundtrip:
  "session_from_dict (session_state_payload r n m) = Inr (r\<lparr>sr_messages := [], sr_events := []\<rparr>)"
  by (simp add: session_from_dict_def session_state_payload_def)

lemma load_session_ok:
  assumes "store_ok env fs"
  shows "\<exists>r. load_session env fs s = Inr r \<and> sr_messages r = read_transcript env fs s
    \<and> sr_events r = stored_events fs s"
proof -
  have "events_ok fs s" "state_ok env fs s" using assms by (simp_all add: store_ok_def)
  then show ?thesis
    by (cases "sf_state (fs_session fs s)")
       (auto simp: load_session_def load_state_payload_def read_events_ok state_ok_def
         session_payload_roundtrip Let_def)
qed

lemma load_session_same:
  assumes "sf_state (fs_session fs' s) = sf_state (fs_session fs s)"
    "sf_events (fs_session fs' s) = sf_events (fs_session fs s)"
    "read_transcript env fs' s = read_transcript env fs s"
  shows "load_session env fs' s = load_session env fs s"
  using assms by (simp add: load_session_def load_state_payload_def read_events_def)

lemma load_session_saved:
  assumes "store_ok env fs'" "saved env s st fs fs'"
  shows "load_session env fs' s = Inr (st\<lparr>
    sr_messages := read_transcript env fs s @ drop (length (read_transcript env fs s)) (sr_messages st),
    sr_events := stored_events fs s @ drop (length (stored_events fs s)) (sr_events st)\<rparr>)"
proof -
  have "events_ok fs' s" using assms(1) by (simp add: store_ok_def)
  then show ?thesis
    using assms(2) by (simp add: load_session_def load_state_payload_def read_events_ok saved_def
        session_payload_roundtrip Let_def)
qed

lemma load_session_save_other:
  assumes "env_ok env" "store_ok env fs" "s' \<noteq> s" "save_session env s st fs = (x, fs')"
  shows "load_session env fs' s' = load_session env fs s'" and "store_ok env fs'"
proof -
  have "load_session env fs' s' = load_session env fs s' \<and> store_ok env fs'"
  proof (cases "logs_extend (read_transcript env fs s) (stored_events fs s) st")
    case True
    from save_session_accepts [OF assms(1,2) True] assms(4)
    have "saved env s st fs fs'" "store_ok env fs'" by auto
    then show ?thesis using assms(3) by (auto simp: saved_def intro!: load_session_same)
  next
    case False
    from save_session_rejects [OF assms(1,2) False] assms(4)
    have "same_logs env fs fs'" "store_ok env fs'" by auto
    then show ?thesis by (auto simp: same_logs_def intro!: load_session_same)
  qed
  then show "load_session env fs' s' = load_session env fs s'" "store_ok env fs'" by auto
qed

text \<open>A session that continues the logs of another.\<close>

definition continues :: "session_record \<Rightarrow> session_record \<Rightarrow> bool" where
  "continues r r' \<longleftrightarrow> take (length (sr_messages r)) (sr_messages r') = sr_messages r
     \<and> take (length (sr_events r)) (sr_events r') = sr_events r"

lemma continues_refl [simp]: "continues r r"
  by (simp add: continues_def)

lemma take_eq_extend: "take (length xs) ys = xs \<Longrightarrow> length xs \<le> length ys \<and> xs @ drop (length xs) ys = ys"
  by (metis append_take_drop_id length_take min.cobounded1)

lemma continues_logs_extend:
  assumes "continues r r'"
  shows "logs_extend (sr_messages r) (sr_events r) r'"
    and "sr_messages r @ drop (length (sr_messages r)) (sr_messages r') = sr_messages r'"
    and "sr_events r @ drop (length (sr_events r)) (sr_events r') = sr_events r'"
proof -
  have t: "take (length (sr_messages r)) (sr_messages r') = sr_messages r"
      "take (length (sr_events r)) (sr_events r') = sr_events r"
    using assms by (simp_all add: continues_def)
  show "sr_messages r @ drop (length (sr_messages r)) (sr_messages r') = sr_messages r'"
    "sr_events r @ drop (length (sr_events r)) (sr_events r') = sr_events r'"
    using take_eq_extend [OF t(1)] take_eq_extend [OF t(2)] by simp_all
  show "logs_extend (sr_messages r) (sr_events r) r'"
    using take_eq_extend [OF t(1)] take_eq_extend [OF t(2)]
    by (simp add: logs_extend_def t list_all2_refl)
qed

lemma save_continues:
  assumes "env_ok env" "store_ok env fs" "load_session env fs s = Inr r" "continues r r'"
  shows "\<exists>fs'. save_session env s r' fs = (Inr (), fs') \<and> store_ok env fs' \<and> load_session env fs' s = Inr r'"
proof -
  from load_session_ok [OF assms(2), of s] assms(3)
  have r: "sr_messages r = read_transcript env fs s" "sr_events r = stored_events fs s" by auto
  note c = continues_logs_extend [OF assms(4), unfolded r]
  obtain fs' where f: "save_session env s r' fs = (Inr (), fs')" "store_ok env fs'" "saved env s r' fs fs'"
    using save_session_accepts [OF assms(1,2) c(1)] by blast
  have "load_session env fs' s = Inr r'" using load_session_saved [OF f(2,3)] c by simp
  with f show ?thesis by blast
qed

subsection \<open>The interface a harness uses\<close>

text \<open>
  A backend loads and saves sessions.  Loading works on every state the backend is in; saving a
  session that continues the loaded one works, and loading then returns exactly it; saving one
  session leaves what is loaded for the others.
\<close>

locale session_backend =
  fixes inv :: "'st \<Rightarrow> bool"
    and load :: "'st \<Rightarrow> string \<Rightarrow> py_error + session_record"
    and save :: "string \<Rightarrow> session_record \<Rightarrow> 'st \<Rightarrow> (py_error + unit) \<times> 'st"
  assumes load_works: "inv st \<Longrightarrow> \<exists>r. load st s = Inr r"
    and save_works: "inv st \<Longrightarrow> load st s = Inr r \<Longrightarrow> continues r r' \<Longrightarrow>
        \<exists>st'. save s r' st = (Inr (), st') \<and> inv st' \<and> load st' s = Inr r'"
    and save_frame: "inv st \<Longrightarrow> s' \<noteq> s \<Longrightarrow> save s r st = (x, st') \<Longrightarrow> load st' s' = load st s'"
begin

text \<open>Load a session, let a step change it, and save it; and a sequence of such updates.\<close>

definition step :: "string \<times> (session_record \<Rightarrow> session_record) \<Rightarrow> 'st \<Rightarrow> 'st" where
  "step u st = (case load st (fst u) of Inl _ \<Rightarrow> st | Inr r \<Rightarrow> snd (save (fst u) (snd u r) st))"

definition steps :: "(string \<times> (session_record \<Rightarrow> session_record)) list \<Rightarrow> 'st \<Rightarrow> 'st" where
  "steps us st = fold step us st"

lemma step_inv_load:
  assumes "inv st" "\<forall>r. continues r (f r)"
  shows "inv (step (s, f) st)"
    and "load (step (s, f) st) s' = (if s' = s then map_sum id f (load st s') else load st s')"
proof -
  obtain r where r: "load st s = Inr r" using load_works [OF assms(1)] by blast
  obtain st' where s: "save s (f r) st = (Inr (), st')" "inv st'" "load st' s = Inr (f r)"
    using save_works [OF assms(1) r] assms(2) by blast
  show "inv (step (s, f) st)" by (simp add: step_def r s)
  show "load (step (s, f) st) s' = (if s' = s then map_sum id f (load st s') else load st s')"
    using save_frame [OF assms(1) _ s(1), of s'] by (simp add: step_def r s)
qed

text \<open>Interleaved updates of several sessions: each session sees its own, in their order.\<close>

lemma steps_load:
  assumes "inv st" "\<forall>(s, f) \<in> set us. \<forall>r. continues r (f r)" "load st s = Inr r"
  shows "inv (steps us st) \<and>
    load (steps us st) s = Inr (fold (\<lambda>u. snd u) (filter (\<lambda>u. fst u = s) us) r)"
  using assms
proof (induction us arbitrary: st r)
  case (Cons u us)
  obtain s' f where u: "u = (s', f)" by (cases u)
  have c: "\<forall>r. continues r (f r)" using Cons.prems(2) by (auto simp: u)
  note a = step_inv_load [OF Cons.prems(1) c]
  show ?case
    using Cons.IH [OF a(1) [of s'], of "if s' = s then f r else r"] Cons.prems(2,3) a(2) [of s' s]
    by (cases "s' = s") (auto simp: u steps_def)
qed (simp add: steps_def)

end

subsection \<open>The file store is a backend\<close>

text \<open>The environment goes along with the store it belongs to.\<close>

definition file_load :: "store_env \<times> file_store \<Rightarrow> string \<Rightarrow> py_error + session_record" where
  "file_load w s = load_session (fst w) (snd w) s"

definition file_save :: "string \<Rightarrow> session_record \<Rightarrow> store_env \<times> file_store \<Rightarrow>
    (py_error + unit) \<times> (store_env \<times> file_store)" where
  "file_save s r w = (let (x, fs') = save_session (fst w) s r (snd w) in (x, (fst w, fs')))"

definition file_inv :: "store_env \<times> file_store \<Rightarrow> bool" where
  "file_inv w \<longleftrightarrow> env_ok (fst w) \<and> store_ok (fst w) (snd w)"

interpretation files: session_backend file_inv file_load file_save
proof
  fix st s show "file_inv st \<Longrightarrow> \<exists>r. file_load st s = Inr r"
    using load_session_ok by (fastforce simp: file_inv_def file_load_def)
next
  fix st s r r' assume "file_inv st" "file_load st s = Inr r" "continues r r'"
  then show "\<exists>st'. file_save s r' st = (Inr (), st') \<and> file_inv st' \<and> file_load st' s = Inr r'"
    using save_continues [of "fst st" "snd st" s r r']
    by (force simp: file_inv_def file_load_def file_save_def)
next
  fix st s' s r x st' assume "file_inv st" "s' \<noteq> s" "file_save s r st = (x, st')"
  then show "file_load st' s' = file_load st s'"
    using load_session_save_other(1) [of "fst st" "snd st" s' s r]
    by (cases "save_session (fst st) s r (snd st)") (auto simp: file_inv_def file_load_def file_save_def)
qed

subsection \<open>Histories\<close>

text \<open>The operations of the store, in any order and by any number of harnesses.\<close>

datatype store_op =
    OpSave string session_record
  | OpSaveState string session_record
  | OpAppend string "runtime_event list"
  | OpMark string "session_cursor option"
  | OpAcquire string string string
  | OpRelease string string

fun run_op :: "store_env \<Rightarrow> store_op \<Rightarrow> file_store \<Rightarrow> file_store" where
  "run_op env (OpSave s r) fs = snd (save_session env s r fs)"
| "run_op env (OpSaveState s r) fs = snd (save_session_state_only s r fs)"
| "run_op env (OpAppend s es) fs = snd (append_events env s es fs)"
| "run_op env (OpMark s c) fs = snd (mark_restored env s c fs)"
| "run_op env (OpAcquire s h a) fs = snd (acquire_lease env s h a fs)"
| "run_op env (OpRelease s h) fs = snd (release_lease s h fs)"

definition run_ops :: "store_env \<Rightarrow> store_op list \<Rightarrow> file_store \<Rightarrow> file_store" where
  "run_ops env ops fs = fold (run_op env) ops fs"

text \<open>What an operation may do to the logs: extend them.\<close>

definition logs_grow :: "store_env \<Rightarrow> file_store \<Rightarrow> file_store \<Rightarrow> bool" where
  "logs_grow env fs fs' \<longleftrightarrow> (\<forall>s. prefix (read_transcript env fs s) (read_transcript env fs' s)
     \<and> prefix (event_lines fs s) (event_lines fs' s))"

lemma logs_grow_refl [simp]: "logs_grow env fs fs"
  by (simp add: logs_grow_def)

lemma logs_grow_trans: "logs_grow env fs fs' \<Longrightarrow> logs_grow env fs' fs'' \<Longrightarrow> logs_grow env fs fs''"
  by (meson logs_grow_def prefix_order.trans)

lemma read_transcript_cong:
  assumes "sf_ref (fs_session fs' s) = sf_ref (fs_session fs s)" "fs_transcript fs' = fs_transcript fs"
  shows "read_transcript env fs' s = read_transcript env fs s"
  unfolding read_transcript_def resolve_transcript_path_def assms ..

lemma tick_reads [simp]:
  "read_transcript env (snd (tick env' fs)) s = read_transcript env fs s"
  "event_lines (snd (tick env' fs)) s = event_lines fs s"
  "stored_events (snd (tick env' fs)) s = stored_events fs s"
  "own_lines (snd (tick env' fs)) s p = own_lines fs s p"
  by (simp_all add: read_transcript_def resolve_transcript_path_def event_lines_def stored_events_def
      own_lines_def split: option.split)

lemma tick_ok [simp]: "store_ok env (snd (tick env' fs)) = store_ok env fs"
proof -
  have "state_ok env (snd (tick env' fs)) s = state_ok env fs s" for s
    by (cases "sf_state (fs_session fs s)") (simp_all add: state_ok_def)
  then show ?thesis by (simp add: store_ok_def ref_ok_def events_ok_def lease_ok_def)
qed

lemma save_session_step:
  assumes "env_ok env" "store_ok env fs"
  shows "store_ok env (snd (save_session env s r fs)) \<and> logs_grow env fs (snd (save_session env s r fs))
    \<and> (\<forall>s'. sf_lease (fs_session (snd (save_session env s r fs)) s') = sf_lease (fs_session fs s'))"
proof (cases "logs_extend (read_transcript env fs s) (stored_events fs s) r")
  case True
  from save_session_accepts [OF assms True] obtain fs' where
    f: "save_session env s r fs = (Inr (), fs')" "store_ok env fs'" "saved env s r fs fs'" by blast
  have "prefix (read_transcript env fs s') (read_transcript env fs' s') \<and>
      prefix (event_lines fs s') (event_lines fs' s') \<and>
      sf_lease (fs_session fs' s') = sf_lease (fs_session fs s')" for s'
    using f(3) by (cases "s' = s") (simp_all add: saved_def event_lines_def [of fs' s'] event_lines_def [of fs s'])
  with f show ?thesis by (simp add: logs_grow_def)
next
  case False
  from save_session_rejects [OF assms False] show ?thesis
    by (auto simp: same_logs_def logs_grow_def event_lines_def)
qed

lemma write_state_step:
  assumes "store_ok env fs" "n \<le> length (read_transcript env fs s)" "m \<le> length (event_lines fs s)"
  shows "store_ok env (write_session_state s r n m fs) \<and> logs_grow env fs (write_session_state s r n m fs)
    \<and> (\<forall>s'. sf_lease (fs_session (write_session_state s r n m fs) s') = sf_lease (fs_session fs s'))"
proof -
  let ?fs = "write_session_state s r n m fs"
  have t: "fs_transcript ?fs = fs_transcript fs" by (simp add: write_session_state_def)
  have f: "sf_ref (fs_session ?fs s') = sf_ref (fs_session fs s') \<and> event_lines ?fs s' = event_lines fs s'
      \<and> sf_lease (fs_session ?fs s') = sf_lease (fs_session fs s')" for s'
    by (cases "s' = s") (simp_all add: write_session_state_def event_lines_def)
  have tr: "read_transcript env ?fs s' = read_transcript env fs s'" for s'
    using f [of s'] by (intro read_transcript_cong t) simp
  have own: "own_lines ?fs = own_lines fs" by (rule own_lines_cong [OF t])
  have "ref_ok env ?fs s' \<and> events_ok ?fs s' \<and> state_ok env ?fs s' \<and> lease_ok ?fs s'" for s'
  proof (intro conjI)
    have o: "ref_ok env fs s'" "events_ok fs s'" "state_ok env fs s'" "lease_ok fs s'"
      using assms(1) by (simp_all add: store_ok_def)
    show "ref_ok env ?fs s'" "events_ok ?fs s'" "lease_ok ?fs s'"
      using o f [of s'] by (simp_all add: ref_ok_def events_ok_def lease_ok_def own)
    show "state_ok env ?fs s'"
    proof (cases "s' = s")
      case True
      then show ?thesis using assms(2,3) f [of s] tr [of s]
        by (auto simp: state_ok_def write_session_state_def intro!: exI)
    next
      case False
      then have "sf_state (fs_session ?fs s') = sf_state (fs_session fs s')"
        by (simp add: write_session_state_def)
      then show ?thesis using o(3) f [of s'] tr [of s']
        by (cases "sf_state (fs_session fs s')") (simp_all add: state_ok_def)
    qed
  qed
  then show ?thesis using f tr by (simp add: store_ok_def logs_grow_def)
qed

lemma state_only_step:
  assumes "store_ok env fs"
  shows "store_ok env (snd (save_session_state_only s r fs))
    \<and> logs_grow env fs (snd (save_session_state_only s r fs))
    \<and> (\<forall>s'. sf_lease (fs_session (snd (save_session_state_only s r fs)) s') = sf_lease (fs_session fs s'))"
proof -
  have "state_ok env fs s" using assms by (simp add: store_ok_def)
  then obtain d where d: "load_state_payload fs s = Inr d"
      "persisted_count d ''transcript_message_count'' \<le> length (read_transcript env fs s)"
      "persisted_count d ''event_count'' \<le> length (event_lines fs s)"
    using state_ok_counts by blast
  then show ?thesis using write_state_step [OF assms d(2,3), of r] by (simp add: save_session_state_only_def)
qed

lemma lease_step:
  assumes "store_ok env fs" "case l of None \<Rightarrow> True | Some v \<Rightarrow> \<exists>x. v = JDict (lease_to_dict x)"
  shows "store_ok env (update_files s (\<lambda>f. f\<lparr>sf_lease := l\<rparr>) fs)
    \<and> logs_grow env fs (update_files s (\<lambda>f. f\<lparr>sf_lease := l\<rparr>) fs)"
proof -
  let ?fs = "update_files s (\<lambda>f. f\<lparr>sf_lease := l\<rparr>) fs"
  have f: "sf_ref (fs_session ?fs s') = sf_ref (fs_session fs s') \<and> event_lines ?fs s' = event_lines fs s'
      \<and> sf_state (fs_session ?fs s') = sf_state (fs_session fs s')" for s'
    by (cases "s' = s") (simp_all add: event_lines_def)
  have tr: "read_transcript env ?fs s' = read_transcript env fs s'" for s'
    using f [of s'] by (intro read_transcript_cong) simp_all
  have own: "own_lines ?fs = own_lines fs" by (rule own_lines_cong) simp
  have "ref_ok env ?fs s' \<and> events_ok ?fs s' \<and> state_ok env ?fs s' \<and> lease_ok ?fs s'" for s'
  proof -
    have o: "ref_ok env fs s'" "events_ok fs s'" "state_ok env fs s'" "lease_ok fs s'"
      using assms(1) by (simp_all add: store_ok_def)
    have "lease_ok ?fs s'" using o(4) assms(2) by (cases "s' = s") (simp_all add: lease_ok_def)
    moreover have "state_ok env ?fs s'" using o(3) f [of s'] tr [of s']
      by (cases "sf_state (fs_session fs s')") (simp_all add: state_ok_def)
    ultimately show ?thesis using o f [of s'] by (simp add: ref_ok_def events_ok_def own)
  qed
  then show ?thesis using f tr by (simp add: store_ok_def logs_grow_def)
qed

lemma get_checkpoint_step:
  "snd (get_checkpoint env s fs) = fs \<or> snd (get_checkpoint env s fs) = snd (tick env fs)"
  by (simp add: get_checkpoint_def split_beta Let_def split: sum.split)

lemma checkpoint_ok:
  assumes "store_ok env fs"
  shows "store_ok env (snd (get_checkpoint env s fs))" "logs_grow env fs (snd (get_checkpoint env s fs))"
    "sf_lease (fs_session (snd (get_checkpoint env s fs)) s') = sf_lease (fs_session fs s')"
  using get_checkpoint_step [of env s fs] assms by (auto simp: logs_grow_def)

lemma append_events_step:
  assumes "env_ok env" "store_ok env fs"
  shows "store_ok env (snd (append_events env s es fs)) \<and> logs_grow env fs (snd (append_events env s es fs))
    \<and> (\<forall>s'. sf_lease (fs_session (snd (append_events env s es fs)) s') = sf_lease (fs_session fs s'))"
proof -
  obtain r where r: "load_session env fs s = Inr r" using load_session_ok [OF assms(2)] by blast
  let ?r = "r\<lparr>sr_events := sr_events r @ es\<rparr>"
  obtain x fs' where s: "save_session env s ?r fs = (x, fs')" by (cases "save_session env s ?r fs")
  note a = save_session_step [OF assms, of s ?r, unfolded s snd_conv]
  have ok: "store_ok env fs'" using a by blast
  have "snd (append_events env s es fs) = fs' \<or> snd (append_events env s es fs) = snd (get_checkpoint env s fs')"
    by (cases x) (simp_all add: append_events_def r s)
  then show ?thesis using a checkpoint_ok [OF ok, of s] logs_grow_trans by metis
qed

lemma mark_restored_step:
  assumes "store_ok env fs"
  shows "store_ok env (snd (mark_restored env s c fs)) \<and> logs_grow env fs (snd (mark_restored env s c fs))
    \<and> (\<forall>s'. sf_lease (fs_session (snd (mark_restored env s c fs)) s') = sf_lease (fs_session fs s'))"
proof -
  obtain r where r: "load_session env fs s = Inr r" using load_session_ok [OF assms] by blast
  obtain x fs' where g: "get_checkpoint env s fs = (x, fs')" by (cases "get_checkpoint env s fs")
  note ck = checkpoint_ok [OF assms, of s, unfolded g snd_conv]
  show ?thesis
  proof (cases x)
    case (Inl e)
    then show ?thesis using ck by (simp add: mark_restored_def r g)
  next
    case (Inr cp)
    then obtain r' where "snd (mark_restored env s c fs) = snd (save_session_state_only s r' fs')"
      by (simp add: mark_restored_def r g Let_def)
    then show ?thesis using state_only_step [OF ck(1), of s r'] ck logs_grow_trans by metis
  qed
qed

lemma acquire_lease_cases:
  "snd (acquire_lease env s h a fs) = fs
   \<or> (\<exists>l. snd (acquire_lease env s h a fs) =
        update_files s (\<lambda>f. f\<lparr>sf_lease := Some (JDict (lease_to_dict l))\<rparr>) (snd (tick env fs)) \<and> hl_harness l = h
      \<and> (get_active_lease fs s = Inr None \<or> (\<exists>l'. get_active_lease fs s = Inr (Some l') \<and> hl_harness l' = h)))"
  by (auto simp: acquire_lease_def split_beta Let_def split: sum.split option.split)

lemma release_lease_cases:
  "snd (release_lease s h fs) = fs
   \<or> (snd (release_lease s h fs) = update_files s (\<lambda>f. f\<lparr>sf_lease := None\<rparr>) fs
      \<and> (\<exists>l. get_active_lease fs s = Inr (Some l) \<and> hl_harness l = h))"
  by (auto simp: release_lease_def split: sum.split option.split)

lemma run_op_step:
  assumes "env_ok env" "store_ok env fs"
  shows "store_ok env (run_op env op fs) \<and> logs_grow env fs (run_op env op fs)"
proof (cases op)
  case (OpSave s r)
  then show ?thesis using save_session_step [OF assms, of s r] by simp
next
  case (OpSaveState s r)
  then show ?thesis using state_only_step [OF assms(2), of s r] by simp
next
  case (OpAppend s es)
  then show ?thesis using append_events_step [OF assms, of s es] by simp
next
  case (OpMark s c)
  then show ?thesis using mark_restored_step [OF assms(2), of s c] by simp
next
  case (OpAcquire s h a)
  have t: "store_ok env (snd (tick env fs))" "logs_grow env fs (snd (tick env fs))"
    using assms(2) by (simp_all add: logs_grow_def)
  have "store_ok env (update_files s (\<lambda>f. f\<lparr>sf_lease := Some (JDict (lease_to_dict l))\<rparr>) (snd (tick env fs)))
    \<and> logs_grow env fs (update_files s (\<lambda>f. f\<lparr>sf_lease := Some (JDict (lease_to_dict l))\<rparr>) (snd (tick env fs)))" for l
    using lease_step [OF t(1), of "Some (JDict (lease_to_dict l))" s] logs_grow_trans [OF t(2)] by auto
  then show ?thesis using acquire_lease_cases [of env s h a fs] assms(2) by (force simp: OpAcquire)
next
  case (OpRelease s h)
  then show ?thesis using release_lease_cases [of s h fs] lease_step [OF assms(2), of None s] assms(2)
    by auto
qed

lemma run_ops_step:
  "env_ok env \<Longrightarrow> store_ok env fs \<Longrightarrow> store_ok env (run_ops env ops fs) \<and> logs_grow env fs (run_ops env ops fs)"
proof (induction ops arbitrary: fs)
  case (Cons op ops)
  then show ?case using run_op_step [OF Cons.prems, of op] logs_grow_trans
    by (simp add: run_ops_def) blast
qed (simp add: run_ops_def)

subsection \<open>Leases\<close>

text \<open>The harness that holds a session, when one does.\<close>

definition holder :: "file_store \<Rightarrow> string \<Rightarrow> string option" where
  "holder fs s = (case get_active_lease fs s of Inr (Some l) \<Rightarrow> Some (hl_harness l) | _ \<Rightarrow> None)"

lemma holder_lease_file:
  "sf_lease (fs_session fs' s) = sf_lease (fs_session fs s) \<Longrightarrow> holder fs' s = holder fs s"
  by (simp add: holder_def get_active_lease_def)

lemma holder_written [simp]:
  "holder (update_files s (\<lambda>f. f\<lparr>sf_lease := Some (JDict (lease_to_dict l))\<rparr>) fs) s' =
     (if s' = s then Some (hl_harness l) else holder fs s')"
  by (simp add: holder_def get_active_lease_def)

lemma holder_tick [simp]: "holder (snd (tick env fs)) s = holder fs s"
  by (rule holder_lease_file) simp

lemma run_op_holder:
  assumes "env_ok env" "store_ok env fs" "holder fs s = Some h" "op \<noteq> OpRelease s h"
  shows "holder (run_op env op fs) s = Some h"
proof (cases op)
  case (OpSave s' r)
  have "holder (run_op env op fs) s = holder fs s"
    using save_session_step [OF assms(1,2), of s' r] by (intro holder_lease_file) (simp add: OpSave)
  then show ?thesis using assms(3) by simp
next
  case (OpSaveState s' r)
  have "holder (run_op env op fs) s = holder fs s"
    using state_only_step [OF assms(2), of s' r] by (intro holder_lease_file) (simp add: OpSaveState)
  then show ?thesis using assms(3) by simp
next
  case (OpAppend s' es)
  have "holder (run_op env op fs) s = holder fs s"
    using append_events_step [OF assms(1,2), of s' es] by (intro holder_lease_file) (simp add: OpAppend)
  then show ?thesis using assms(3) by simp
next
  case (OpMark s' c)
  have "holder (run_op env op fs) s = holder fs s"
    using mark_restored_step [OF assms(2), of s' c] by (intro holder_lease_file) (simp add: OpMark)
  then show ?thesis using assms(3) by simp
next
  case (OpAcquire s' h' a)
  show ?thesis
  proof (cases "s' = s")
    case True
    then show ?thesis
      using acquire_lease_cases [of env s h' a fs] assms(3)
      by (elim disjE exE conjE) (simp_all add: OpAcquire holder_def [of fs])
  next
    case False
    then show ?thesis using acquire_lease_cases [of env s' h' a fs] assms(3)
      by (elim disjE exE conjE) (simp_all add: OpAcquire)
  qed
next
  case (OpRelease s' h')
  show ?thesis
  proof (cases "s' = s")
    case True
    then show ?thesis
      using release_lease_cases [of s h' fs] assms(3,4)
      by (elim disjE exE conjE) (simp_all add: OpRelease holder_def [of fs])
  next
    case False
    have "holder (update_files s' (\<lambda>f. f\<lparr>sf_lease := None\<rparr>) fs) s = holder fs s"
      by (rule holder_lease_file) (simp add: False [symmetric])
    then show ?thesis using release_lease_cases [of s' h' fs] assms(3)
      by (elim disjE exE conjE) (simp_all add: OpRelease)
  qed
qed

subsection \<open>Properties\<close>

text \<open>
  C1.  Durable session logs are append-only: whatever operations ran on the store since it was empty,
  and whichever follow, by any harness on any session, the transcript and the event log of every
  session then read are extended by the later ones.
\<close>

theorem session_logs_append_only:
  assumes "env_ok env"
  shows "prefix (read_transcript env (run_ops env ops empty_store) s)
      (read_transcript env (run_ops env (ops @ ops') empty_store) s)
    \<and> prefix (event_lines (run_ops env ops empty_store) s)
      (event_lines (run_ops env (ops @ ops') empty_store) s)"
proof -
  have "run_ops env (ops @ ops') empty_store = run_ops env ops' (run_ops env ops empty_store)"
    by (simp add: run_ops_def)
  then show ?thesis
    using run_ops_step [OF assms, of empty_store ops] run_ops_step [OF assms, of _ ops']
    by (simp add: logs_grow_def)
qed

text \<open>
  C2.  On any store the program built, saving a session that continues the loaded one succeeds, and
  loading it again returns exactly what was saved.
\<close>

theorem session_save_load:
  assumes "env_ok env" "load_session env (run_ops env ops empty_store) s = Inr r" "continues r r'"
  shows "\<exists>fs'. save_session env s r' (run_ops env ops empty_store) = (Inr (), fs')
    \<and> load_session env fs' s = Inr r'"
  using save_continues [OF assms(1) _ assms(2,3)] run_ops_step [OF assms(1) store_ok_empty, of ops] by blast

text \<open>
  C3.  A save is accepted exactly when the session's logs extend the stored ones (entry by entry equal
  as Python compares them); a rejected save leaves every session as it loads unchanged.
\<close>

theorem session_save_rejects_rewrite:
  assumes "env_ok env" "fs = run_ops env ops empty_store"
    "load_session env fs s = Inr r" "save_session env s r' fs = (x, fs')"
  shows "(x = Inr ()) = logs_extend (sr_messages r) (sr_events r) r'
    \<and> (x = Inr () \<or> (\<forall>s'. load_session env fs' s' = load_session env fs s'))"
proof (intro conjI)
  have ok: "store_ok env fs" using run_ops_step [OF assms(1) store_ok_empty] by (simp add: assms(2))
  have r: "sr_messages r = read_transcript env fs s" "sr_events r = stored_events fs s"
    using load_session_ok [OF ok, of s] assms(3) by auto
  show "(x = Inr ()) = logs_extend (sr_messages r) (sr_events r) r'"
    using save_session_accepts [OF assms(1) ok, of s r'] save_session_rejects [OF assms(1) ok, of s r'] assms(4)
    by (auto simp: r)
  show "x = Inr () \<or> (\<forall>s'. load_session env fs' s' = load_session env fs s')"
    using save_session_accepts [OF assms(1) ok, of s r'] save_session_rejects [OF assms(1) ok, of s r'] assms(4)
    by (auto simp: same_logs_def intro: load_session_same)
qed

text \<open>
  C4.  A session's turns are isolated: interleave load-change-save updates of any sessions, each
  continuing what it loaded; every session ends as its own updates in their order leave it, although
  the sessions of an agent write into the same transcript file.
\<close>

theorem session_updates_isolated:
  assumes "file_inv w" "\<forall>(s, f) \<in> set us. \<forall>r. continues r (f r)" "file_load w s = Inr r"
  shows "file_load (files.steps us w) s = Inr (fold (\<lambda>u. snd u) (filter (\<lambda>u. fst u = s) us) r)"
  using files.steps_load [OF assms] by blast

text \<open>
  C7.  A lease excludes: once a harness holds a session, no sequence of operations without its own
  release takes the lease away, and meanwhile every other harness's acquisition is refused.
\<close>

theorem lease_excludes_others:
  assumes "env_ok env" "holder (run_ops env ops empty_store) s = Some h" "OpRelease s h \<notin> set ops'"
  shows "holder (run_ops env (ops @ ops') empty_store) s = Some h
    \<and> (h' \<noteq> h \<longrightarrow> fst (acquire_lease env s h' a (run_ops env (ops @ ops') empty_store)) =
        Inl (ValueError ''Session already has an active harness lease''))"
proof -
  have "holder (run_ops env ops' fs) s = Some h" if "store_ok env fs" "holder fs s = Some h" for fs
    using that assms(3)
  proof (induction ops' arbitrary: fs)
    case (Cons op ops')
    have "holder (run_op env op fs) s = Some h"
      using run_op_holder [OF assms(1) Cons.prems(1,2)] Cons.prems(3) by auto
    then show ?case using Cons.IH [of "run_op env op fs"] run_op_step [OF assms(1) Cons.prems(1), of op] Cons.prems(3)
      by (simp add: run_ops_def)
  qed (simp add: run_ops_def)
  then have h: "holder (run_ops env (ops @ ops') empty_store) s = Some h"
    using run_ops_step [OF assms(1) store_ok_empty, of ops] assms(2) by (simp add: run_ops_def)
  then obtain l where "get_active_lease (run_ops env (ops @ ops') empty_store) s = Inr (Some l)" "hl_harness l = h"
    by (auto simp: holder_def split: sum.splits option.splits)
  then show ?thesis using h by (simp add: acquire_lease_def)
qed

lemma read_events_cursor:
  assumes "events_ok fs s"
  shows "read_events fs s 0 (Some \<lparr>cu_session = x, cu_offset = int n, cu_last = l\<rparr>) =
    Inr (drop n (stored_events fs s))"
proof (cases "sf_events (fs_session fs s)")
  case None
  then show ?thesis by (simp add: read_events_def stored_events_def event_lines_def parse_events_def)
next
  case (Some ls)
  then have "ls = map (JDict \<circ> event_to_dict) (stored_events fs s)"
    using events_ok_lines [OF assms] by (simp add: event_lines_def)
  then show ?thesis
    by (simp add: read_events_def Some parse_events_def map_filter_drop_dicts emap_inverse)
qed

text \<open>
  A harness that resumes from a checkpoint misses nothing and sees nothing twice: whatever ran
  since the checkpoint, the events read with its cursor are those after the ones it covered.
\<close>

theorem checkpoint_cursor_resumes:
  assumes "env_ok env" "get_checkpoint env s (run_ops env ops empty_store) = (Inr cp, fs)"
  shows "\<exists>old new. read_events (run_ops env ops empty_store) s 0 None = Inr old \<and> cp_offset cp = length old
    \<and> read_events (run_ops env ops' fs) s 0 None = Inr (old @ new)
    \<and> read_events (run_ops env ops' fs) s 0 (cp_cursor cp) = Inr new"
proof -
  let ?fs = "run_ops env ops empty_store" and ?fs' = "run_ops env ops' fs"
  have ok: "store_ok env ?fs" using run_ops_step [OF assms(1) store_ok_empty] by blast
  note ck = checkpoint_ok [OF ok, of s, unfolded assms(2) snd_conv]
  have ok': "store_ok env ?fs'" "logs_grow env ?fs ?fs'"
    using run_ops_step [OF assms(1) ck(1), of ops'] logs_grow_trans [OF ck(2)] by blast+
  have ev: "events_ok ?fs s" "events_ok ?fs' s" using ok ok'(1) by (simp_all add: store_ok_def)
  have cp: "cp_offset cp = length (stored_events ?fs s)"
      "\<exists>l. cp_cursor cp = Some \<lparr>cu_session = s, cu_offset = int (length (stored_events ?fs s)), cu_last = l\<rparr>"
    using assms(2) by (auto simp: get_checkpoint_def read_events_ok [OF ev(1)] tick_def Let_def)
  from ok'(2) obtain ls where "event_lines ?fs' s = event_lines ?fs s @ ls"
    by (auto simp: logs_grow_def prefix_def)
  then have "map (JDict \<circ> event_to_dict) (stored_events ?fs' s) =
      map (JDict \<circ> event_to_dict) (stored_events ?fs s) @ ls"
    by (simp only: events_ok_lines [OF ev(1)] events_ok_lines [OF ev(2)])
  then obtain us vs where u: "stored_events ?fs' s = us @ vs"
      "map (JDict \<circ> event_to_dict) us = map (JDict \<circ> event_to_dict) (stored_events ?fs s)"
    by (auto simp: map_eq_append_conv)
  have "us = stored_events ?fs s"
    using arg_cong [OF u(2), of parse_events] by (simp only: parse_events_printed sum.inject)
  then show ?thesis
    using cp u(1) read_events_ok [OF ev(1)] read_events_ok [OF ev(2)] read_events_cursor [OF ev(2)]
    by auto
qed

text \<open>
  On any store, a session whose state counts more transcript entries than can be read is never
  saved again: the branch that accepts an equal transcript raises when the suffix is appended.
\<close>

theorem missing_transcript_blocks_save:
  assumes "load_state_payload fs s = Inr d" "ensure_transcript_ref env s st fs = (p, fs1)"
    "length (read_transcript env fs1 s) < persisted_count d ''transcript_message_count''"
  shows "\<exists>e. fst (save_session env s st fs) = Inl e"
proof -
  have "length (sr_messages st) < persisted_count d ''transcript_message_count''"
    if "list_all2 message_eq (read_transcript env fs1 s) (sr_messages st)"
    using assms(3) list_all2_lengthD [OF that] by simp
  then show ?thesis
    using assms by (auto simp: save_session_def validated_transcript_count_def append_transcript_suffix_def
        Let_def split: sum.split)
qed

subsection \<open>A concrete store\<close>

text \<open>One machine on which every transcript path resolves to the same file.\<close>

definition demo_env :: store_env where
  "demo_env = \<lparr>se_root = ''/a/sessions'', se_resolve = (\<lambda>_. ''/a/t''), se_now = nat_str\<rparr>"

definition demo_record :: "string \<Rightarrow> string list \<Rightarrow> session_record" where
  "demo_record s ms = (new_session s)\<lparr>sr_messages :=
     map (\<lambda>m. \<lparr>sm_role = ''user'', sm_content = JStr m, sm_metadata = []\<rparr>) ms\<rparr>"

definition demo_ops :: "store_op list" where
  "demo_ops = [OpAcquire ''s'' ''h'' ''a'', OpSave ''s'' (demo_record ''s'' [''hi''])]"

lemma demo_env_ok [simp]: "env_ok demo_env"
  by (simp add: env_ok_def demo_env_def py_strip_def is_space_def code_def)

lemma session_logs_append_only_witness:
  "prefix (read_transcript demo_env (run_ops demo_env demo_ops empty_store) ''s'')
     (read_transcript demo_env (run_ops demo_env (demo_ops @ [OpSave ''t'' (demo_record ''t'' [''yo''])]) empty_store) ''s'')"
  using session_logs_append_only [OF demo_env_ok] by blast

lemma demo_load_t: "load_session demo_env (run_ops demo_env demo_ops empty_store) ''t'' = Inr (new_session ''t'')"
  by code_simp

lemma session_save_load_witness:
  "\<exists>fs'. save_session demo_env ''t'' (demo_record ''t'' [''yo'']) (run_ops demo_env demo_ops empty_store) = (Inr (), fs')
     \<and> load_session demo_env fs' ''t'' = Inr (demo_record ''t'' [''yo''])"
  by (rule session_save_load [OF demo_env_ok demo_load_t])
     (simp add: continues_def demo_record_def new_session_def)

definition demo_store :: file_store where
  "demo_store = run_ops demo_env demo_ops empty_store"

lemma demo_load_s: "load_session demo_env demo_store ''s'' = Inr (demo_record ''s'' [''hi''])"
  by code_simp

lemma session_save_rejects_rewrite_witness:
  "fst (save_session demo_env ''s'' (demo_record ''s'' [''ho'']) demo_store) \<noteq> Inr ()"
proof -
  obtain x fs' where s: "save_session demo_env ''s'' (demo_record ''s'' [''ho'']) demo_store = (x, fs')"
    by (cases "save_session demo_env ''s'' (demo_record ''s'' [''ho'']) demo_store")
  have "\<not> logs_extend (sr_messages (demo_record ''s'' [''hi''])) (sr_events (demo_record ''s'' [''hi'']))
      (demo_record ''s'' [''ho''])"
    by code_simp
  then show ?thesis
    using session_save_rejects_rewrite [OF demo_env_ok demo_store_def demo_load_s s] by (simp add: s)
qed

definition say :: "string \<Rightarrow> session_record \<Rightarrow> session_record" where
  "say t r = r\<lparr>sr_messages := sr_messages r @ [\<lparr>sm_role = ''user'', sm_content = JStr t, sm_metadata = []\<rparr>]\<rparr>"

lemma session_updates_isolated_witness:
  "map_sum id (\<lambda>r. map session_message_text (sr_messages r)) (file_load (files.steps
     [(''s'', say ''1''), (''t'', say ''2''), (''s'', say ''3'')] (demo_env, empty_store)) ''s'') = Inr [''1'', ''3'']"
proof -
  have l: "file_load (demo_env, empty_store) ''s'' = Inr (new_session ''s'')" by code_simp
  have i: "file_inv (demo_env, empty_store)" by (simp add: file_inv_def)
  have c: "\<forall>(s, f) \<in> set [(''s'', say ''1''), (''t'', say ''2''), (''s'', say ''3'')]. \<forall>r. continues r (f r)"
    by (simp add: continues_def say_def)
  show ?thesis
    using session_updates_isolated [OF i c l] by (simp add: say_def new_session_def session_message_text_def)
qed

lemma lease_excludes_others_witness:
  "fst (acquire_lease demo_env ''s'' ''h2'' ''a''
     (run_ops demo_env (demo_ops @ [OpSave ''s'' (demo_record ''s'' [''hi''])]) empty_store)) =
   Inl (ValueError ''Session already has an active harness lease'')"
proof -
  have h: "holder (run_ops demo_env demo_ops empty_store) ''s'' = Some ''h''" by code_simp
  have n: "OpRelease ''s'' ''h'' \<notin> set [OpSave ''s'' (demo_record ''s'' [''hi''])]" by simp
  show ?thesis using lease_excludes_others [OF demo_env_ok h n, of "''h2''" "''a''"] by simp
qed

lemma checkpoint_cursor_resumes_witness:
  "\<exists>cp fs old new. get_checkpoint demo_env ''s'' (run_ops demo_env demo_ops empty_store) = (Inr cp, fs)
     \<and> cp_offset cp = length old
     \<and> read_events (run_ops demo_env [] fs) ''s'' 0 None = Inr (old @ new)
     \<and> read_events (run_ops demo_env [] fs) ''s'' 0 (cp_cursor cp) = Inr new"
proof -
  have "events_ok (run_ops demo_env demo_ops empty_store) ''s''"
    using run_ops_step [OF demo_env_ok store_ok_empty, of demo_ops] by (simp add: store_ok_def)
  then obtain cp fs where g: "get_checkpoint demo_env ''s'' (run_ops demo_env demo_ops empty_store) = (Inr cp, fs)"
    by (simp add: get_checkpoint_def read_events_ok split_beta Let_def)
  show ?thesis using checkpoint_cursor_resumes [OF demo_env_ok g, of "[]"] g by blast
qed

definition broken_store :: file_store where
  "broken_store = demo_store\<lparr>fs_transcript := (\<lambda>_. None)\<rparr>"

lemma missing_transcript_blocks_save_witness:
  "\<exists>e. fst (save_session demo_env ''s'' (demo_record ''s'' []) broken_store) = Inl e"
proof -
  obtain d where d: "load_state_payload broken_store ''s'' = Inr d"
      "persisted_count d ''transcript_message_count'' = 1"
  proof -
    have "map_sum id (\<lambda>d. persisted_count d ''transcript_message_count'')
        (load_state_payload broken_store ''s'') = Inr 1"
      by code_simp
    then show ?thesis using that by (cases "load_state_payload broken_store ''s''") auto
  qed
  obtain p fs1 where e: "ensure_transcript_ref demo_env ''s'' (demo_record ''s'' []) broken_store = (p, fs1)"
    by (cases "ensure_transcript_ref demo_env ''s'' (demo_record ''s'' []) broken_store")
  have "length (read_transcript demo_env (snd (ensure_transcript_ref demo_env ''s'' (demo_record ''s'' [])
      broken_store)) ''s'') = 0"
    by code_simp
  then have "length (read_transcript demo_env fs1 ''s'') < persisted_count d ''transcript_message_count''"
    by (simp add: e d(2))
  from missing_transcript_blocks_save [OF d(1) e this] show ?thesis .
qed

end
