(* ===== verification/ExecutorProps.thy ===== *)
theory ExecutorProps
  imports Executor "HOL-Library.Multiset"
begin

text \<open>
  What the executor of \<^verbatim>\<open>tools/executor.py\<close> promises its callers: an effect on the world needs
  a permission, a batch that runs to its end answers every call exactly once, and no event is
  delivered past the one at which the consumer closes the generator.
\<close>

subsection \<open>What the events look like\<close>

text \<open>Every delivered event is a tool event, and a result event carries a readable result.\<close>

definition tool_kind :: "runtime_event \<Rightarrow> bool" where
  "tool_kind e \<longleftrightarrow> ev_type e = TOOL_STARTED \<or> ev_type e = TOOL_PROGRESS \<or> ev_type e = TOOL_RESULT
     \<or> ev_type e = TOOL_FAILED \<or> ev_type e = TOOL_CANCELLED"

definition good_event :: "runtime_event \<Rightarrow> bool" where
  "good_event e \<longleftrightarrow> tool_kind e \<and>
     (ev_type e = TOOL_RESULT \<longrightarrow> (\<exists>r. result_of_payload (ev_payload e) = Inr r))"

abbreviation gen_good :: "'w gen \<Rightarrow> bool" where
  "gen_good g \<equiv> list_all good_event (g_events g)"

lemma good_emit [simp]: "gen_good (emit stop eid p)"
proof (cases p)
  case (Pair ev st)
  show ?thesis
  proof (cases "record_runtime_event eid ev st")
    case (Inr st')
    then have "good_event ev"
      by (auto simp: record_runtime_event_def good_event_def tool_kind_def event_type_for_runtime_event_def
          ebind_Inr_iff Let_def split: option.splits runtime_event_type.splits if_splits)
    then show ?thesis by (simp add: Pair emit_def Inr)
  qed (simp add: Pair emit_def)
qed

text \<open>
  What every event that is recorded has, every event of a batch has: \<open>G\<close> is a law of the events of one
  context.
\<close>

locale event_law =
  fixes G :: "runtime_event \<Rightarrow> bool" and env :: "'w exec_env" and ctx :: tool_context
  assumes emitted: "list_all G (g_events (emit stop eid (tool_event env ctx ty i p st)))"
begin

abbreviation gen_lawful :: "'w gen \<Rightarrow> bool" where
  "gen_lawful g \<equiv> list_all G (g_events g)"

lemma emits [simp]:
  "gen_lawful (emit stop eid (tool_started_event env ctx c st))"
  "gen_lawful (emit stop eid (tool_progress_event env ctx pr m st))"
  "gen_lawful (emit stop eid (tool_result_event env ctx r i st))"
  "gen_lawful (emit stop eid (tool_failed_event env ctx n i reason st))"
  "gen_lawful (emit stop eid (tool_cancelled_event env ctx n i reason st))"
  by (simp_all add: tool_event_defs emitted)

lemma seq: "gen_lawful g \<Longrightarrow> (\<And>st. gen_lawful (k st)) \<Longrightarrow> gen_lawful (gen_seq g k)"
  by (simp add: gen_seq_events)

lemma tool_stream: "gen_lawful (stream_tool_call env stop eid ctx t c fs st)"
proof (induction fs arbitrary: st)
  case (Cons f fs)
  obtain step w where f: "f (x_world st) = (step, w)" by (cases "f (x_world st)")
  obtain b st2 where p: "poll ctx (st\<lparr>x_world := w\<rparr>) = (b, st2)" by (cases "poll ctx (st\<lparr>x_world := w\<rparr>)")
  have "gen_lawful (stream_one env stop eid ctx t c item st')" for item st'
    unfolding stream_one_def Let_def by (rule seq) (simp_all split: option.split)
  then show ?case
    by (cases step) (simp_all add: f p Let_def seq Cons.IH)
qed simp

lemma body: "gen_lawful (execute_tool_body env stop eid ctx t c st)"
proof (cases "tool_stream_fn t")
  case None
  obtain res w where "tool_call_helper t c ctx (x_world st) = (res, w)"
    by (cases "tool_call_helper t c ctx (x_world st)")
  then show ?thesis by (cases res) (simp_all add: execute_tool_body_def None Let_def)
qed (simp add: execute_tool_body_def tool_stream)

lemma handled: "gen_lawful g \<Longrightarrow> gen_lawful (handle_tool_error env stop eid ctx c g)"
  by (cases g; cases "g_end g"; cases "case g_end g of Raised e \<Rightarrow> e | _ \<Rightarrow> ToolCancelledError [] []")
     (auto simp: handle_tool_error_def split_beta)

lemma call: "gen_lawful (execute_tool_call env stop eid ctx c st)"
  by (simp add: execute_tool_call_def handled body split: sum.split)

lemma pool: "list_all (\<lambda>f. list_all G (fst f)) (fst (run_pool env eid ctx cs st))"
proof (induction cs arbitrary: st)
  case (Cons c cs)
  show ?case using call [of "\<lambda>_. False" eid c st] Cons.IH by (simp add: split_beta Let_def)
qed simp

lemma deliver_events: "list_all G evs \<Longrightarrow> list_all G (fst (deliver_events stop evs))"
  by (induction evs) (simp_all add: split_beta Let_def)

lemma futures: "list_all (\<lambda>f. list_all G (fst f)) fs \<Longrightarrow> list_all G (fst (deliver_futures stop fs))"
proof (induction fs)
  case (Cons f fs)
  obtain evs e where f: "f = (evs, e)" by (cases f)
  have "list_all G (fst (let (d, en') = deliver_events stop evs in
        case en' of Finished \<Rightarrow> (let (d', en'') = deliver_futures stop fs in (d @ d', en'')) | _ \<Rightarrow> (d, en')))"
    using deliver_events [of evs stop] Cons
    by (cases "snd (deliver_events stop evs)") (simp_all add: f split_beta Let_def)
  then show ?case by (cases e) (simp_all add: f)
qed simp

lemma calls: "gen_lawful (stream_calls env stop eid ctx safe cs st)"
proof (induction cs arbitrary: st safe)
  case Nil
  then show ?case by (simp add: run_safe_calls_def split_beta Let_def futures pool)
next
  case (Cons c cs)
  obtain res st1 where a: "admit env ctx c st = (res, st1)" by (cases "admit env ctx c st")
  show ?case
  proof (cases res)
    case (Inr tnc)
    obtain t nc where tnc: "tnc = (t, nc)" by (cases tnc)
    show ?thesis by (simp add: a Inr tnc Let_def split_beta seq call Cons.IH)
  qed (simp add: a)
qed

lemma batch: "gen_lawful (execute_stream env stop cs ctx st)"
  by (simp add: execute_stream_def Let_def split_beta calls)

end

interpretation good: event_law good_event env ctx for env :: "'w exec_env" and ctx
  by unfold_locales simp

lemma good_execute_stream: "gen_good (execute_stream env stop cs ctx st)"
  by (rule good.batch)

text \<open>Every event of a batch is of the session of its context.\<close>

definition of_session :: "string \<Rightarrow> runtime_event \<Rightarrow> bool" where
  "of_session s e \<longleftrightarrow> ev_session e = s"

interpretation owned: event_law "of_session (ctx_session ctx)" env ctx for env :: "'w exec_env" and ctx
proof
  fix stop eid ty i p st
  obtain ev st' where e: "tool_event env ctx ty i p st = (ev, st')" "ev_session ev = ctx_session ctx"
    using tool_event_fields(4) [of env ctx ty i p st] by (cases "tool_event env ctx ty i p st") auto
  then show "list_all (of_session (ctx_session ctx)) (g_events (emit stop eid (tool_event env ctx ty i p st)))"
    by (cases "record_runtime_event eid ev st'") (simp_all add: emit_def of_session_def)
qed

subsection \<open>Effects need a permission\<close>

text \<open>
  The calls the executor may run in a batch: the call names a registered tool, its arguments pass
  the validation, and either the rules permit it or its name is among the approvals.
\<close>

definition permitted ::
  "'w exec_env \<Rightarrow> tool_context \<Rightarrow> tool_call list \<Rightarrow> policy_engine option \<Rightarrow> 'w tool \<Rightarrow> tool_call \<Rightarrow> bool" where
  "permitted env ctx cs pol t nc \<longleftrightarrow>
     resolve_tool (ee_registry env) (tc_name nc) = Inr t
     \<and> list_ex (\<lambda>c. case validate_arguments t (tc_arguments c) of Inl _ \<Rightarrow> False
         | Inr args \<Rightarrow> nc = c\<lparr>tc_arguments := JDict args\<rparr>) cs
     \<and> (base_decision pol t nc ctx \<in> {Inr ALLOW, Inr PASSTHROUGH} \<or> tc_name nc \<in> set (ctx_approved ctx))"

lemma admit_InrD_call:
  assumes "admit env ctx c st = (Inr (t, nc), st')"
  shows "\<exists>args. validate_arguments t (tc_arguments c) = Inr args \<and> nc = c\<lparr>tc_arguments := JDict args\<rparr>"
  using assms by (auto simp: admit_def Let_def split_beta split: sum.splits if_splits)

lemma admissions_call:
  "(t, nc) \<in> set (admissions env ctx cs st) \<Longrightarrow>
     list_ex (\<lambda>c. case validate_arguments t (tc_arguments c) of Inl _ \<Rightarrow> False
         | Inr args \<Rightarrow> nc = c\<lparr>tc_arguments := JDict args\<rparr>) cs"
proof (induction cs arbitrary: st)
  case (Cons c cs)
  obtain r s1 where a: "admit env ctx c st = (r, s1)" by (cases "admit env ctx c st")
  show ?case
  proof (cases r)
    case (Inr tnc)
    then show ?thesis
      using Cons.prems Cons.IH [of s1] admit_InrD_call [of env ctx c st t nc s1] by (auto simp: a)
  qed (use Cons.prems in \<open>simp add: a\<close>)
qed simp

lemma admissions_permitted:
  "(t, nc) \<in> set (admissions env ctx cs st) \<Longrightarrow> permitted env ctx cs (x_policy st) t nc"
  using admissions_base [of t nc env ctx cs st] admissions_call [of t nc env ctx cs st]
  by (simp add: permitted_def)

lemma new_execution_frame [simp, frame]:
  "x_policy (snd (new_execution env ctx cs st)) = x_policy st"
  "x_world (snd (new_execution env ctx cs st)) = x_world st"
  "fst (new_execution env ctx cs st) \<in> dom (dict_get (x_summaries (snd (new_execution env ctx cs st))))"
  by (simp_all add: new_execution_def stamp_def Let_def dom_def)


subsection \<open>Every call is answered\<close>

text \<open>A tool that answers with one result: no stream, and it never asks the user itself.\<close>

definition plain_tool :: "'w tool \<Rightarrow> bool" where
  "plain_tool t \<longleftrightarrow> tool_stream_fn t = None
     \<and> (\<forall>args ctx w r w'. tool_call_fn t args ctx w \<noteq> (Inl (RequiresActionError r), w'))"

definition is_answer :: "runtime_event \<Rightarrow> bool" where
  "is_answer e \<longleftrightarrow> ev_type e = TOOL_RESULT \<or> ev_type e = TOOL_FAILED \<or> ev_type e = TOOL_CANCELLED"

definition is_start :: "runtime_event \<Rightarrow> bool" where
  "is_start e \<longleftrightarrow> ev_type e = TOOL_STARTED"

definition use_id :: "runtime_event \<Rightarrow> json" where
  "use_id e = jget (ev_payload e) ''tool_use_id''"

abbreviation call_ref_id :: "tool_call \<Rightarrow> json" where
  "call_ref_id c \<equiv> jopt_str (tc_call_id c)"

abbreviation has_summary :: "string \<Rightarrow> 'w exec_state \<Rightarrow> bool" where
  "has_summary eid st \<equiv> eid \<in> dom (dict_get (x_summaries st))"

lemma tool_result_payload_roundtrip:
  "result_of_payload (tool_result_payload r i) = Inr r"
  by (cases "tr_persisted r")
     (simp_all add: result_of_payload_def tool_result_payload_def tool_result_to_dict_def
       tool_result_from_dict_def Let_def)

lemma record_answer_ok:
  assumes "has_summary eid st" "ev_type ev = TOOL_STARTED \<or> is_answer ev"
    "ev_type ev = TOOL_RESULT \<Longrightarrow> \<exists>r. result_of_payload (ev_payload ev) = Inr r"
  shows "\<exists>st'. record_runtime_event eid ev st = Inr st'"
  using assms by (auto simp: record_runtime_event_def event_type_for_runtime_event_def is_answer_def)

text \<open>An event that is recorded is delivered, and the run goes on when nobody stops it.\<close>

lemma emit_ok:
  assumes "has_summary eid (snd p)" "ev_type (fst p) = TOOL_STARTED \<or> is_answer (fst p)"
    "ev_type (fst p) = TOOL_RESULT \<Longrightarrow> \<exists>r. result_of_payload (ev_payload (fst p)) = Inr r"
  shows "\<exists>st'. emit (\<lambda>_. False) eid p = ([fst p], st', Finished)"
  using record_answer_ok [of eid "snd p" "fst p"] assms by (cases p) (force simp: emit_def)

lemma tool_event_answers:
  "ev_type (fst (tool_started_event env ctx c st)) = TOOL_STARTED"
  "use_id (fst (tool_started_event env ctx c st)) = call_ref_id c"
  "ev_type (fst (tool_result_event env ctx r i st)) = TOOL_RESULT"
  "use_id (fst (tool_result_event env ctx r i st)) = jopt_str i"
  "result_of_payload (ev_payload (fst (tool_result_event env ctx r i st))) = Inr r"
  "ev_type (fst (tool_failed_event env ctx n i reason st)) = TOOL_FAILED"
  "use_id (fst (tool_failed_event env ctx n i reason st)) = jopt_str i"
  "ev_type (fst (tool_cancelled_event env ctx n i reason st)) = TOOL_CANCELLED"
  "use_id (fst (tool_cancelled_event env ctx n i reason st)) = jopt_str i"
  by (simp_all add: tool_event_defs use_id_def tool_result_payload_roundtrip jget_def)
     (simp add: tool_result_payload_def Let_def)

lemma tool_events_frame [simp, frame]:
  "x_policy (snd (tool_started_event env ctx c st)) = x_policy st"
  "x_policy (snd (tool_cancelled_event env ctx n i reason st)) = x_policy st"
  "x_summaries (snd (tool_started_event env ctx c st)) = x_summaries st"
  "x_summaries (snd (tool_cancelled_event env ctx n i reason st)) = x_summaries st"
  by (simp_all add: tool_event_defs)

lemma emit_started_ok:
  "has_summary eid st \<Longrightarrow> \<exists>e st'. emit (\<lambda>_. False) eid (tool_started_event env ctx c st) = ([e], st', Finished)
     \<and> is_start e \<and> \<not> is_answer e \<and> use_id e = call_ref_id c"
  using emit_ok [of eid "tool_started_event env ctx c st"] tool_event_answers(1,2) [of env ctx c st]
  by (force simp: is_start_def is_answer_def tool_event_defs)

lemma emit_answer_ok:
  assumes "has_summary eid st"
  shows "\<exists>e st'. emit (\<lambda>_. False) eid (tool_result_event env ctx r i st) = ([e], st', Finished)
      \<and> is_answer e \<and> \<not> is_start e \<and> use_id e = jopt_str i"
    and "\<exists>e st'. emit (\<lambda>_. False) eid (tool_failed_event env ctx n i reason st) = ([e], st', Finished)
      \<and> is_answer e \<and> \<not> is_start e \<and> use_id e = jopt_str i"
    and "\<exists>e st'. emit (\<lambda>_. False) eid (tool_cancelled_event env ctx n i reason st) = ([e], st', Finished)
      \<and> is_answer e \<and> \<not> is_start e \<and> use_id e = jopt_str i"
  subgoal
    using emit_ok [of eid "tool_result_event env ctx r i st"] tool_event_answers(3-5) [of env ctx r i st] assms
    by (force simp: is_start_def is_answer_def tool_result_event_def)
  subgoal
    using emit_ok [of eid "tool_failed_event env ctx n i reason st"]
      tool_event_answers(6,7) [of env ctx n i reason st] assms
    by (force simp: is_start_def is_answer_def tool_failed_event_def)
  subgoal
    using emit_ok [of eid "tool_cancelled_event env ctx n i reason st"]
      tool_event_answers(8,9) [of env ctx n i reason st] assms
    by (force simp: is_start_def is_answer_def tool_cancelled_event_def)
  done

lemma execute_tool_call_answers:
  assumes t: "resolve_tool (ee_registry env) (tc_name c) = Inr t" "plain_tool t" and s: "has_summary eid st"
  shows "\<exists>e st'. execute_tool_call env (\<lambda>_. False) eid ctx c st = ([e], st', Finished)
    \<and> is_answer e \<and> \<not> is_start e \<and> use_id e = call_ref_id c"
proof -
  obtain res w where h: "tool_call_helper t c ctx (x_world st) = (res, w)"
    by (cases "tool_call_helper t c ctx (x_world st)")
  have w: "has_summary eid (st\<lparr>x_world := w\<rparr>)" using s by simp
  have body: "execute_tool_body env (\<lambda>_. False) eid ctx t c st =
      (case res of Inl e \<Rightarrow> ([], st\<lparr>x_world := w\<rparr>, Raised e)
       | Inr r \<Rightarrow> emit (\<lambda>_. False) eid (tool_result_event env ctx
            (tool_map_result t r (tc_call_id c)) (tc_call_id c) (st\<lparr>x_world := w\<rparr>)))"
    using t(2) by (simp add: execute_tool_body_def plain_tool_def h Let_def)
  show ?thesis
  proof (cases res)
    case (Inr r)
    then show ?thesis
      using emit_answer_ok(1) [OF w, of env ctx "tool_map_result t r (tc_call_id c)" "tc_call_id c"]
      by (auto simp: execute_tool_call_def t(1) body handle_tool_error_def)
  next
    case (Inl e)
    have "tool_call_fn t (call_args c) ctx (x_world st) = (Inl e, w)"
      using h Inl by (auto simp: tool_call_helper_def split_beta ebind_Inl_iff prod_eq_iff)
    then have "e \<noteq> RequiresActionError r" for r
      using t(2) by (auto simp: plain_tool_def)
    then show ?thesis
      using emit_answer_ok(2,3) [OF w]
      by (cases e) (fastforce simp: execute_tool_call_def t(1) body handle_tool_error_def Inl split_beta)+
  qed
qed

text \<open>The pool answers the calls it was given in their order.\<close>

abbreviation resolves_plain :: "'w exec_env \<Rightarrow> tool_call \<Rightarrow> bool" where
  "resolves_plain env c \<equiv> \<exists>t. resolve_tool (ee_registry env) (tc_name c) = Inr t \<and> plain_tool t"

lemma run_pool_answers:
  assumes "\<forall>c \<in> set cs. resolves_plain env c" "has_summary eid st"
  shows "\<exists>es. fst (run_pool env eid ctx cs st) = map (\<lambda>e. ([e], Finished)) es
    \<and> (\<forall>e \<in> set es. is_answer e \<and> \<not> is_start e) \<and> map use_id es = map call_ref_id cs"
  using assms
proof (induction cs arbitrary: st)
  case (Cons c cs)
  then obtain t where t: "resolve_tool (ee_registry env) (tc_name c) = Inr t" "plain_tool t" by auto
  obtain e st1 where e: "execute_tool_call env (\<lambda>_. False) eid ctx c st = ([e], st1, Finished)"
      "is_answer e" "\<not> is_start e" "use_id e = call_ref_id c"
    using execute_tool_call_answers [OF t Cons.prems(2), of ctx] by blast
  have "has_summary eid st1"
    using execute_tool_call_frame(2) [of env "\<lambda>_. False" eid ctx c st] Cons.prems(2) by (simp add: e)
  then obtain es where "fst (run_pool env eid ctx cs st1) = map (\<lambda>e. ([e], Finished)) es"
      "\<forall>e \<in> set es. is_answer e \<and> \<not> is_start e" "map use_id es = map call_ref_id cs"
    using Cons.IH [of st1] Cons.prems(1) by auto
  with e show ?case by (intro exI [of _ "e # es"]) (simp add: split_beta Let_def)
qed simp

lemma deliver_all: "deliver_futures (\<lambda>_. False) (map (\<lambda>e. ([e], Finished)) es) = (es, Finished)"
  by (induction es) simp_all

text \<open>What the events of a finished run of the loop answer.\<close>

definition answered :: "runtime_event list \<Rightarrow> tool_call list \<Rightarrow> tool_call list \<Rightarrow> bool" where
  "answered evs started called \<longleftrightarrow>
     map use_id (filter is_start evs) = map call_ref_id started
     \<and> mset (map use_id (filter is_answer evs)) = mset (map call_ref_id called)"

lemma answered_append:
  "answered evs s c \<Longrightarrow> answered evs' s' c' \<Longrightarrow> answered (evs @ evs') (s @ s') (c @ c')"
  by (simp add: answered_def)

lemma answered_perm:
  "answered evs s c \<Longrightarrow> mset c = mset c' \<Longrightarrow> answered evs s c'"
  by (simp add: answered_def)

lemma answered_all:
  assumes "\<forall>e \<in> set es. is_answer e \<and> \<not> is_start e" "map use_id es = map call_ref_id cs"
  shows "answered es [] cs"
proof -
  have "filter is_start es = []" "filter is_answer es = es"
    using assms(1) by (simp_all add: filter_False filter_id_conv)
  then show ?thesis by (simp only: answered_def assms(2) list.map)
qed

lemma gen_seq_Finished [simp]:
  "gen_seq (evs, st, Finished) k = (evs @ fst (k st), fst (snd (k st)), snd (snd (k st)))"
  by (simp add: gen_seq_def split_beta)

lemma stream_calls_answers:
  assumes "length (admissions env ctx cs st) = length cs"
    and "\<forall>(t, nc) \<in> set (admissions env ctx cs st). plain_tool t"
    and "\<forall>c \<in> set safe. resolves_plain env c" and "has_summary eid st"
  shows "\<exists>evs st'. stream_calls env (\<lambda>_. False) eid ctx safe cs st = (evs, st', Finished)
    \<and> answered evs cs (safe @ cs)"
  using assms
proof (induction cs arbitrary: st safe)
  case Nil
  obtain es where "fst (run_pool env eid ctx safe st) = map (\<lambda>e. ([e], Finished)) es"
      "\<forall>e \<in> set es. is_answer e \<and> \<not> is_start e" "map use_id es = map call_ref_id safe"
    using run_pool_answers [of safe env eid st ctx] Nil by auto
  then show ?case
    by (auto simp: run_safe_calls_def split_beta deliver_all answered_all)
next
  case (Cons c cs)
  obtain res st1 where a: "admit env ctx c st = (res, st1)" by (cases "admit env ctx c st")
  then obtain t nc where r: "res = Inr (t, nc)"
    using Cons.prems(1) by (cases res) auto
  note d = admit_InrD [OF a [unfolded r]]
  have plain: "plain_tool t" and nct: "resolve_tool (ee_registry env) (tc_name nc) = Inr t"
    using Cons.prems(2) d by (simp_all add: a r)
  have s1: "has_summary eid st1" using Cons.prems(4) admit_frame(2) [of env ctx c st] by (simp add: a)
  have IH: "\<exists>evs st'. stream_calls env (\<lambda>_. False) eid ctx sf cs s = (evs, st', Finished)
      \<and> answered evs cs (sf @ cs)"
    if "x_policy s = x_policy st1" "has_summary eid s" "\<forall>c \<in> set sf. resolves_plain env c" for s sf
    using Cons.IH [of s sf] Cons.prems(1,2) that admissions_policy_only [OF that(1), of env ctx cs]
    by (simp add: a r)
  obtain e st2 where e: "emit (\<lambda>_. False) eid (tool_started_event env ctx nc st1) = ([e], st2, Finished)"
      "is_start e" "\<not> is_answer e" "use_id e = call_ref_id nc"
    using emit_started_ok [OF s1, of env ctx nc] by blast
  have st2: "x_policy st2 = x_policy st1" "has_summary eid st2"
    using emit_frame(2,6) [of "\<lambda>_. False" eid "tool_started_event env ctx nc st1"] s1
    by (simp_all add: e)
  obtain b st3 where p: "poll ctx st2 = (b, st3)" by (cases "poll ctx st2")
  have st3: "x_policy st3 = x_policy st1" "has_summary eid st3"
    using poll_frame(2,3) [of ctx st2] st2 by (simp_all add: p)
  have ref: "call_ref_id nc = call_ref_id c" using d(3) by simp
  have start: "answered [e] [c] []" using e ref by (simp add: answered_def)
  have fin: "answered (e # e' # evs) (c # cs) (safe @ c # cs)"
    if "is_answer e'" "\<not> is_start e'" "use_id e' = call_ref_id c" "answered evs cs (safe @ cs)" for e' evs
  proof (rule answered_perm)
    have "answered [e'] [] [c]" using that by (simp add: answered_def)
    from answered_append [OF answered_append [OF start this] that(4)]
    show "answered (e # e' # evs) (c # cs) (c # safe @ cs)" by simp
  qed simp
  show ?case
  proof (cases b)
    case True
    obtain e' st4 where e': "emit (\<lambda>_. False) eid (tool_cancelled_event env ctx (tc_name c) (tc_call_id c)
          ''user_interrupted'' st3) = ([e'], st4, Finished)" "is_answer e'" "\<not> is_start e'" "use_id e' = call_ref_id c"
      using emit_answer_ok(3) [OF st3(2), of env ctx "tc_name c" "tc_call_id c" "''user_interrupted''"] by auto
    have "x_policy st4 = x_policy st1" "has_summary eid st4"
      using emit_frame(2,6) [of "\<lambda>_. False" eid "tool_cancelled_event env ctx (tc_name c) (tc_call_id c)
          ''user_interrupted'' st3"] st3 by (simp_all add: e')
    from IH [OF this Cons.prems(3)] e' show ?thesis
      by (auto simp: a r e(1) p True intro!: fin)
  next
    case False
    show ?thesis
    proof (cases "tool_is_concurrency_safe t (call_args nc)")
      case True
      have "\<forall>c \<in> set (safe @ [nc]). resolves_plain env c" using Cons.prems(3) plain nct by auto
      from IH [OF st3 this] obtain evs st' where
        ev: "stream_calls env (\<lambda>_. False) eid ctx (safe @ [nc]) cs st3 = (evs, st', Finished)"
        "answered evs cs ((safe @ [nc]) @ cs)" by blast
      have "answered ([e] @ evs) ([c] @ cs) (safe @ c # cs)"
      proof (rule answered_perm)
        show "answered ([e] @ evs) ([c] @ cs) ([] @ (safe @ [c]) @ cs)"
          using answered_append [OF start ev(2)] ref by (simp add: answered_def)
      qed simp
      then show ?thesis using ev(1) by (simp add: a r e(1) p \<open>\<not> b\<close> True)
    next
      case unsafe: False
      obtain e' st4 where e': "execute_tool_call env (\<lambda>_. False) eid ctx nc st3 = ([e'], st4, Finished)"
          "is_answer e'" "\<not> is_start e'" "use_id e' = call_ref_id nc"
        using execute_tool_call_answers [OF nct plain st3(2), of ctx] by blast
      have "x_policy st4 = x_policy st1" "has_summary eid st4"
        using execute_tool_call_frame [of env "\<lambda>_. False" eid ctx nc st3] st3 by (simp_all add: e')
      from IH [OF this Cons.prems(3)] e' ref show ?thesis
        by (auto simp: a r e(1) p \<open>\<not> b\<close> unsafe intro!: fin)
    qed
  qed
qed


text \<open>
  The stream never delivers an event after the one its consumer stops at: it is closed exactly
  when the last delivered event is a stopping one, and then no other is.
\<close>

theorem stream_stops_with_consumer:
  fixes env :: "'w exec_env"
  defines "g \<equiv> \<lambda>stop cs ctx st. execute_stream env stop cs ctx (st :: 'w exec_state)"
  shows "list_all (\<lambda>e. \<not> stop e) (butlast (fst (g stop cs ctx st)))
    \<and> (snd (snd (g stop cs ctx st)) = Closed \<longleftrightarrow> fst (g stop cs ctx st) \<noteq> []
        \<and> stop (last (fst (g stop cs ctx st))))"
  using obeys_execute_stream [of stop env cs ctx st]
  by (cases "fst (g stop cs ctx st)" rule: rev_cases) (auto simp: g_def obeys_def split: if_splits)

subsection \<open>Concrete runs\<close>

text \<open>A counter as the world, a tool that reads it and one that increments it.\<close>

definition counter_tool :: "string \<Rightarrow> string \<Rightarrow> (nat \<Rightarrow> nat) \<Rightarrow> nat tool" where
  "counter_tool n d f = \<lparr>tool_name = n, tool_aliases = [], tool_schema = JDict [], tool_source_attr = None,
     tool_visibility_attr = None, tool_provenance = [], tool_enabled_fn = None, tool_read_only_fn = None,
     tool_destructive = False, tool_concurrency_fn = None, tool_validator = None,
     tool_checker = (\<lambda>_ _. d), tool_mapper = None, tool_persists = False,
     tool_call_fn = (\<lambda>_ _ w. (Inr \<lparr>tr_name = n, tr_success = True, tr_content = [], tr_structured = None,
        tr_metadata = None, tr_persisted = None, tr_truncated = None\<rparr>, f w)),
     tool_stream_fn = None\<rparr>"

definition counter_env :: "nat exec_env" where
  "counter_env = \<lparr>ee_registry = static_registry [counter_tool ''read'' ''allow'' id, counter_tool ''inc'' ''deny'' Suc],
     ee_now = nat_str, ee_hex = nat_str\<rparr>"

definition counter_state :: "nat exec_state" where
  "counter_state = \<lparr>x_policy = None, x_summaries = [], x_world = 0, x_polls = 0, x_clock = 0, x_execs = 0\<rparr>"

definition counter_ctx :: tool_context where
  "counter_ctx = \<lparr>ctx_session = ''s'', ctx_approved = [], ctx_cancel = None, ctx_agent = None,
     ctx_task = None, ctx_workdir = None\<rparr>"

definition counter_call :: "string \<Rightarrow> string \<Rightarrow> tool_call" where
  "counter_call n i = \<lparr>tc_name = n, tc_arguments = JDict [], tc_call_id = Some i\<rparr>"

lemmas counter_defs = counter_tool_def counter_env_def counter_state_def counter_ctx_def counter_call_def

lemma counter_resolve:
  "resolve_tool (ee_registry counter_env) n =
     (if n = ''inc'' then Inr (counter_tool ''inc'' ''deny'' Suc)
      else if n = ''read'' then Inr (counter_tool ''read'' ''allow'' id)
      else Inl (KeyError (''Unknown tool: '' @ n)))"
  by (auto simp: counter_env_def resolve_static_registry find_last_def answers_to_def counter_tool_def)

lemma counter_permitted:
  "permitted counter_env counter_ctx cs None t nc \<Longrightarrow> t = counter_tool ''read'' ''allow'' id"
  by (auto simp: permitted_def counter_resolve base_decision_def tool_check_permissions_def
      permission_decision_of_def counter_tool_def counter_ctx_def split: if_splits)


lemma counter_admit:
  "x_policy st = None \<Longrightarrow> admit counter_env counter_ctx (counter_call ''read'' i) st =
     (Inr (counter_tool ''read'' ''allow'' id, counter_call ''read'' i), st)"
  by (simp add: admit_def counter_resolve validate_arguments_def schema_required_def
      evaluate_policy_def tool_check_permissions_def permission_decision_of_def effective_decision_def
      policy_outcome_default_def tool_validate_input_def counter_tool_def counter_call_def)


end
