(* ===== verification/HarnessProps.thy ===== *)
theory HarnessProps
  imports Harness SessionProps ExecutorProps
begin

text \<open>
  Correctness of the harness.  Actions are specified by \<open>hoare P m Q E\<close>: from a state with \<open>P\<close>, the
  action returns \<open>x\<close> in a state with \<open>Q x\<close> or raises \<open>e\<close> in one with \<open>E e\<close>.  The invariant of a turn
  says the store is well formed, the session at hand continues the stored one, and everything yielded
  or about to be was recorded in it.  From it follow the shape of a turn's events, the durability
  of what was delivered, the session's status afterwards, the bound on model calls, and that a
  turn always returns when the tools keep to their protocol.
\<close>

subsection \<open>A program logic for actions\<close>

definition hoare ::
  "('w turn_state \<Rightarrow> bool) \<Rightarrow> ('w, 'a) act \<Rightarrow> ('a \<Rightarrow> 'w turn_state \<Rightarrow> bool) \<Rightarrow>
     (turn_exn \<Rightarrow> 'w turn_state \<Rightarrow> bool) \<Rightarrow> bool" where
  "hoare P m Q E \<longleftrightarrow> (\<forall>st. P st \<longrightarrow> (case m st of (Inl e, st') \<Rightarrow> E e st' | (Inr x, st') \<Rightarrow> Q x st'))"

lemma hoareI:
  "(\<And>st. P st \<Longrightarrow> (case m st of (Inl e, st') \<Rightarrow> E e st' | (Inr x, st') \<Rightarrow> Q x st')) \<Longrightarrow> hoare P m Q E"
  by (simp add: hoare_def)

lemma hoare_Inr: "hoare P m Q E \<Longrightarrow> P st \<Longrightarrow> m st = (Inr x, st') \<Longrightarrow> Q x st'"
  by (force simp: hoare_def)

lemma hoare_Inl: "hoare P m Q E \<Longrightarrow> P st \<Longrightarrow> m st = (Inl e, st') \<Longrightarrow> E e st'"
  by (force simp: hoare_def)

lemma hoare_conseq:
  assumes "hoare P' m Q' E'" "\<And>st. P st \<Longrightarrow> P' st" "\<And>x st. Q' x st \<Longrightarrow> Q x st"
    "\<And>e st. E' e st \<Longrightarrow> E e st"
  shows "hoare P m Q E"
  unfolding hoare_def
proof (intro allI impI)
  fix st assume "P st"
  then have p: "P' st" by (rule assms(2))
  obtain r st' where m: "m st = (r, st')" by (cases "m st")
  show "case m st of (Inl e, st') \<Rightarrow> E e st' | (Inr x, st') \<Rightarrow> Q x st'"
  proof (cases r)
    case (Inl e)
    then show ?thesis using hoare_Inl [OF assms(1) p] m assms(4) by simp
  next
    case (Inr x)
    then show ?thesis using hoare_Inr [OF assms(1) p] m assms(3) by simp
  qed
qed

lemma hoare_bind:
  assumes "hoare P m R E" "\<And>x. hoare (R x) (f x) Q E"
  shows "hoare P (act_bind m f) Q E"
  unfolding hoare_def
proof (intro allI impI)
  fix st assume p: "P st"
  show "case act_bind m f st of (Inl e, st') \<Rightarrow> E e st' | (Inr x, st') \<Rightarrow> Q x st'"
  proof (cases "m st")
    case (Pair r st')
    show ?thesis
    proof (cases r)
      case (Inl e)
      then show ?thesis using hoare_Inl [OF assms(1) p] Pair by (simp add: act_bind_def)
    next
      case (Inr x)
      then have "R x st'" using hoare_Inr [OF assms(1) p] Pair by simp
      then show ?thesis using assms(2) [of x] Pair Inr by (simp add: act_bind_def hoare_def)
    qed
  qed
qed

lemma hoare_try:
  assumes "hoare P m Q R" "\<And>e. hoare (R e) (h e) Q E"
  shows "hoare P (act_try m h) Q E"
  unfolding hoare_def
proof (intro allI impI)
  fix st assume p: "P st"
  show "case act_try m h st of (Inl e, st') \<Rightarrow> E e st' | (Inr x, st') \<Rightarrow> Q x st'"
  proof (cases "m st")
    case (Pair r st')
    show ?thesis
    proof (cases r)
      case (Inl e)
      then have "R e st'" using hoare_Inl [OF assms(1) p] Pair by simp
      then show ?thesis using assms(2) [of e] Pair Inl by (simp add: act_try_def hoare_def)
    next
      case (Inr x)
      then show ?thesis using hoare_Inr [OF assms(1) p] Pair by (simp add: act_try_def)
    qed
  qed
qed

lemma hoare_return: "(\<And>st. P st \<Longrightarrow> Q x st) \<Longrightarrow> hoare P (act_return x) Q E"
  by (simp add: hoare_def act_return_def)

lemma hoare_raise: "(\<And>st. P st \<Longrightarrow> E e st) \<Longrightarrow> hoare P (act_raise e) Q E"
  by (simp add: hoare_def act_raise_def)

lemma hoare_modify: "(\<And>st. P st \<Longrightarrow> Q () (f st)) \<Longrightarrow> hoare P (act_modify f) Q E"
  by (simp add: hoare_def act_modify_def)

lemma hoare_get: "(\<And>st. P st \<Longrightarrow> Q (f st) st) \<Longrightarrow> hoare P (act_get f) Q E"
  by (simp add: hoare_def act_get_def)

subsection \<open>The invariant of a turn\<close>

definition ends_turn :: "runtime_event \<Rightarrow> bool" where
  "ends_turn e \<longleftrightarrow> ev_type e = TURN_COMPLETED \<or> ev_type e = TURN_FAILED \<or> ev_type e = REQUIRES_ACTION"

text \<open>
  \<open>stored\<close>: the store is well formed and holds a session of the given status that the session at hand
  continues.  \<open>running\<close> adds what the turn has yielded, with the events \<open>pend\<close> that are recorded and
  will be yielded next: they begin with the start of the turn, none of them ends it, and they are in the
  session's log in their order.
\<close>

definition stored :: "'w harness_env \<Rightarrow> string \<Rightarrow> (session_record \<Rightarrow> bool) \<Rightarrow> 'w turn_state \<Rightarrow> bool" where
  "stored env s R st \<longleftrightarrow> env_ok (he_store env) \<and> store_ok (he_store env) (t_files st)
     \<and> (\<exists>r. load_session (he_store env) (t_files st) s = Inr r \<and> R r \<and> continues r (t_session st))"

definition out_ok :: "runtime_event list \<Rightarrow> 'w turn_state \<Rightarrow> bool" where
  "out_ok pend st \<longleftrightarrow> t_out st \<noteq> [] \<and> ev_type (hd (t_out st)) = TURN_STARTED
     \<and> list_all (\<lambda>e. \<not> ends_turn e) (t_out st @ pend)
     \<and> subseq (t_out st @ pend) (sr_events (t_session st))"

definition running :: "'w harness_env \<Rightarrow> string \<Rightarrow> runtime_event list \<Rightarrow> 'w turn_state \<Rightarrow> bool" where
  "running env s pend st \<longleftrightarrow> stored env s (\<lambda>r. sr_status r = SESSION_RUNNING) st
     \<and> sr_status (t_session st) = SESSION_RUNNING \<and> out_ok pend st"

text \<open>The turn is over: one event ended it, the store holds the session at hand, and its status fits.\<close>

definition turn_over :: "'w harness_env \<Rightarrow> string \<Rightarrow> 'w turn_state \<Rightarrow> bool" where
  "turn_over env s st \<longleftrightarrow> env_ok (he_store env) \<and> store_ok (he_store env) (t_files st)
     \<and> load_session (he_store env) (t_files st) s = Inr (t_session st)
     \<and> (\<exists>pre e. t_out st = pre @ [e] \<and> pre \<noteq> [] \<and> ev_type (hd pre) = TURN_STARTED
         \<and> list_all (\<lambda>x. \<not> ends_turn x) pre \<and> ends_turn e
         \<and> (\<exists>terminal. terminal_state_from_event e = Inr terminal)
         \<and> (if ev_type e = REQUIRES_ACTION
            then sr_status (t_session st) = SESSION_REQUIRES_ACTION \<and> sr_pending (t_session st) \<noteq> []
            else sr_status (t_session st) = SESSION_IDLE))
     \<and> subseq (t_out st) (sr_events (t_session st))"

text \<open>The names of the tools an answer asks for, and the exceptions a batch of calls may end with.\<close>

fun asked_names :: "model_answer \<Rightarrow> string set" where
  "asked_names (Answer late (Inl e)) = {}"
| "asked_names (Answer late (Inr r)) = tc_name ` set (mr_tool_calls r)"
| "asked_names (Streamed es err) = (\<Union>e \<in> set es. tc_name ` set (me_tool_calls e))"

definition raises :: "'w harness_env \<Rightarrow> tool_call list \<Rightarrow> tool_error \<Rightarrow> bool" where
  "raises env cs x \<longleftrightarrow> (\<exists>ctx est. g_end (execute_stream (he_exec env) stops_turn cs ctx est) = Raised x)"

text \<open>
  A turn may only raise what is not a tool's error: what a batch the model asked for ended with.  It
  leaves the session running.
\<close>

definition asked :: "'w harness_env \<Rightarrow> tool_call list \<Rightarrow> bool" where
  "asked env cs \<longleftrightarrow> (\<exists>n ms. tc_name ` set cs \<subseteq> asked_names (he_model env n ms))"

definition crashed :: "'w harness_env \<Rightarrow> string \<Rightarrow> turn_exn \<Rightarrow> 'w turn_state \<Rightarrow> bool" where
  "crashed env s e st \<longleftrightarrow> running env s [] st
     \<and> (\<exists>p cs. e = TurnTool (PyError p) \<and> asked env cs \<and> raises env cs (PyError p))"

lemma continues_prefix:
  "continues r r' \<longleftrightarrow> prefix (sr_messages r) (sr_messages r') \<and> prefix (sr_events r) (sr_events r')"
  by (metis append_eq_conv_conj continues_def prefix_def prefix_take_length)

lemma continues_trans: "continues a b \<Longrightarrow> continues b c \<Longrightarrow> continues a c"
  unfolding continues_prefix by (blast intro: prefix_order.trans)

lemma continues_append_event:
  "continues r r' \<Longrightarrow> continues r (r'\<lparr>sr_events := sr_events r' @ es\<rparr>)"
  using take_eq_extend [of "sr_events r" "sr_events r'"] by (simp add: continues_def)

lemma continues_append_message:
  "continues r r' \<Longrightarrow> continues r (r'\<lparr>sr_messages := sr_messages r' @ ms\<rparr>)"
  using take_eq_extend [of "sr_messages r" "sr_messages r'"] by (simp add: continues_def)

lemma continues_other [simp]:
  "continues r (r'\<lparr>sr_status := x\<rparr>) = continues r r'"
  "continues r (r'\<lparr>sr_pending := y\<rparr>) = continues r r'"
  "continues r (r'\<lparr>sr_metadata := z\<rparr>) = continues r r'"
  "continues r (r'\<lparr>sr_agent := w\<rparr>) = continues r r'"
  by (simp_all add: continues_def)

subsection \<open>Persisting and recording\<close>

lemma persist_stored:
  assumes "stored env s R st"
  shows "\<exists>fs. persist_session env s st = (Inr (), st\<lparr>t_files := fs\<rparr>)
    \<and> stored env s (\<lambda>r. r = t_session st) (st\<lparr>t_files := fs\<rparr>)"
proof -
  obtain r where r: "load_session (he_store env) (t_files st) s = Inr r" "continues r (t_session st)"
    and ok: "env_ok (he_store env)" "store_ok (he_store env) (t_files st)"
    using assms by (auto simp: stored_def)
  obtain fs where "save_session (he_store env) s (t_session st) (t_files st) = (Inr (), fs)"
      "store_ok (he_store env) fs" "load_session (he_store env) fs s = Inr (t_session st)"
    using save_continues [OF ok r] by blast
  then show ?thesis using ok by (intro exI [of _ fs]) (simp add: persist_session_def stored_def)
qed

lemma harness_load_stored:
  assumes "stored env s R st"
  shows "\<exists>r. harness_load env s st = (Inr r, st)"
  using assms by (auto simp: stored_def harness_load_def act_defs)

lemma append_new_event_stored:
  assumes "stored env s R st"
  shows "\<exists>e c. append_new_event env s ty payload st =
      (Inr e, st\<lparr>t_clock := c, t_session := (t_session st)\<lparr>sr_events := sr_events (t_session st) @ [e]\<rparr>\<rparr>)
    \<and> ev_type e = ty \<and> ev_payload e = payload"
proof -
  obtain r where "harness_load env s st = (Inr r, st)" using harness_load_stored [OF assms] by blast
  then show ?thesis
    by (intro exI [of _ "\<lparr>ev_type = ty, ev_id = event_type_value ty @ '':'' @ nat_str (length (sr_events r) + 1),
          ev_timestamp = he_now env (t_clock st), ev_session = s, ev_payload = payload, ev_agent = None,
          ev_task = current_task_id st\<rparr>"] exI [of _ "Suc (t_clock st)"])
       (simp add: append_new_event_def harness_event_def record_event_def modify_session_def act_defs)
qed

lemma running_cong:
  assumes "running env s pend st" "t_files st' = t_files st" "t_session st' = t_session st" "t_out st' = t_out st"
  shows "running env s pend st'"
  using assms by (simp add: running_def stored_def out_ok_def)

lemma running_drop: "running env s pend st \<Longrightarrow> running env s [] st"
proof -
  assume a: "running env s pend st"
  have "subseq (t_out st) (t_out st @ pend)" by (rule subseq_rev_drop_many) (rule subseq_order.refl)
  then show ?thesis using a subseq_order.trans by (fastforce simp: running_def out_ok_def)
qed

lemma running_stored: "running env s pend st \<Longrightarrow> stored env s (\<lambda>r. sr_status r = SESSION_RUNNING) st"
  by (simp add: running_def)

lemma running_record:
  assumes "running env s pend st" "\<not> ends_turn e"
    "st' = st\<lparr>t_clock := c, t_session := (t_session st)\<lparr>sr_events := sr_events (t_session st) @ [e]\<rparr>\<rparr>"
  shows "running env s (pend @ [e]) st'"
proof -
  have "subseq ((t_out st @ pend) @ [e]) (sr_events (t_session st) @ [e])"
    using assms(1) by (intro list_emb_append_mono) (simp_all add: running_def out_ok_def)
  then show ?thesis using assms continues_append_event [of _ "t_session st" "[e]"]
    by (auto simp: running_def stored_def out_ok_def)
qed

lemma persist_running: "hoare (running env s pend) (persist_session env s) (\<lambda>_. running env s pend) E"
proof (rule hoareI)
  fix st assume r: "running env s pend st"
  obtain fs where p: "persist_session env s st = (Inr (), st\<lparr>t_files := fs\<rparr>)"
      "stored env s (\<lambda>r. r = t_session st) (st\<lparr>t_files := fs\<rparr>)"
    using persist_stored [OF running_stored [OF r]] by blast
  then show "case persist_session env s st of (Inl e, st') \<Rightarrow> E e st' | (Inr x, st') \<Rightarrow> running env s pend st'"
    using r by (auto simp: running_def stored_def out_ok_def)
qed

lemma append_running:
  assumes "ty \<noteq> TURN_COMPLETED" "ty \<noteq> TURN_FAILED" "ty \<noteq> REQUIRES_ACTION"
  shows "hoare (running env s pend) (append_new_event env s ty payload) (\<lambda>e. running env s (pend @ [e])) E"
proof (rule hoareI)
  fix st assume r: "running env s pend st"
  obtain e c where a: "append_new_event env s ty payload st =
        (Inr e, st\<lparr>t_clock := c, t_session := (t_session st)\<lparr>sr_events := sr_events (t_session st) @ [e]\<rparr>\<rparr>)"
      "ev_type e = ty"
    using append_new_event_stored [OF running_stored [OF r]] by blast
  then have "\<not> ends_turn e" using assms by (simp add: ends_turn_def)
  from running_record [OF r this refl] show "case append_new_event env s ty payload st of
      (Inl e, st') \<Rightarrow> E e st' | (Inr x, st') \<Rightarrow> running env s (pend @ [x]) st'"
    by (simp add: a(1))
qed

lemma yield_running: "hoare (running env s pend) (yield_events pend) (\<lambda>_. running env s []) E"
  unfolding yield_events_def
  by (rule hoare_modify) (auto simp: running_def stored_def out_ok_def)

lemma record_running: "\<not> ends_turn e \<Longrightarrow> hoare (running env s pend) (record_event e) (\<lambda>_. running env s (pend @ [e])) E"
  unfolding record_event_def modify_session_def
proof (rule hoare_modify)
  fix st assume "\<not> ends_turn e" "running env s pend st"
  then show "running env s (pend @ [e])
      (st\<lparr>t_session := (t_session st)\<lparr>sr_events := sr_events (t_session st) @ [e]\<rparr>\<rparr>)"
    by (intro running_record [of env s pend st e _ "t_clock st"]) auto
qed

lemma message_running: "hoare (running env s pend) (append_message m) (\<lambda>_. running env s pend) E"
  unfolding append_message_def modify_session_def
  by (rule hoare_modify) (auto simp: running_def stored_def out_ok_def continues_append_message)

lemma modify_running:
  "(\<And>st. t_files (f st) = t_files st \<and> t_session (f st) = t_session st \<and> t_out (f st) = t_out st) \<Longrightarrow>
     hoare (running env s pend) (act_modify f) (\<lambda>_. running env s pend) E"
  by (rule hoare_modify) (metis running_cong)

lemma get_running: "hoare (running env s pend) (act_get f) (\<lambda>x. running env s pend) E"
  by (rule hoare_get)

lemma transition_running: "hoare (running env s pend) (set_transition t) (\<lambda>_. running env s pend) E"
  unfolding set_transition_def by (rule modify_running) simp

lemma cancelled_running: "hoare (running env s pend) (check_cancelled ctl) (\<lambda>_. running env s pend) E"
proof (rule hoareI)
  fix st assume "running env s pend st"
  then show "case check_cancelled ctl st of (Inl e, st') \<Rightarrow> E e st' | (Inr x, st') \<Rightarrow> running env s pend st'"
    by (auto simp: check_cancelled_def intro: running_cong split: option.split)
qed

subsection \<open>Ending the turn\<close>

lemma ending:
  assumes r: "running env s [] st" and e: "ends_turn e" "\<exists>t. terminal_state_from_event e = Inr t"
    and st1: "st1 = st\<lparr>t_clock := c, t_session := (t_session st)\<lparr>sr_events := sr_events (t_session st) @ [e]\<rparr>\<rparr>"
    and st2: "t_files st2 = t_files st" "t_out st2 = t_out st"
      "continues (t_session st1) (t_session st2)" "sr_events (t_session st2) = sr_events (t_session st1)"
    and status: "if ev_type e = REQUIRES_ACTION
            then sr_status (t_session st2) = SESSION_REQUIRES_ACTION \<and> sr_pending (t_session st2) \<noteq> []
            else sr_status (t_session st2) = SESSION_IDLE"
  shows "\<exists>fs. persist_session env s st2 = (Inr (), st2\<lparr>t_files := fs\<rparr>)
    \<and> (\<forall>st3. t_files st3 = fs \<and> t_session st3 = t_session st2 \<and> t_out st3 = t_out st @ [e] \<longrightarrow> turn_over env s st3)"
proof -
  obtain r where l: "load_session (he_store env) (t_files st) s = Inr r" "continues r (t_session st)"
    using r by (auto simp: running_def stored_def)
  have "continues r (t_session st1)" using continues_append_event [OF l(2), of "[e]"] by (simp add: st1)
  then have "continues r (t_session st2)" using st2(3) by (rule continues_trans)
  then have "stored env s (\<lambda>_. True) st2" using r l(1) by (auto simp: running_def stored_def st2)
  from persist_stored [OF this] obtain fs where
    p: "persist_session env s st2 = (Inr (), st2\<lparr>t_files := fs\<rparr>)"
      "stored env s (\<lambda>r. r = t_session st2) (st2\<lparr>t_files := fs\<rparr>)" by blast
  have "subseq (t_out st @ [e]) (sr_events (t_session st) @ [e])"
    using r by (intro list_emb_append_mono) (simp_all add: running_def out_ok_def)
  then have "turn_over env s st3"
    if "t_files st3 = fs" "t_session st3 = t_session st2" "t_out st3 = t_out st @ [e]" for st3
    using that p(2) e status r
    by (auto simp: turn_over_def stored_def running_def out_ok_def st2(4) st1)
  with p(1) show ?thesis by blast
qed

lemma emit_terminal_over:
  assumes "ty = TURN_COMPLETED \<or> ty = TURN_FAILED"
  shows "hoare (running env s []) (emit_terminal env s ty terminal) (\<lambda>_. turn_over env s) E"
proof (rule hoareI)
  fix st assume r: "running env s [] st"
  obtain e c where a: "append_new_event env s ty (terminal_to_dict terminal) st =
        (Inr e, st\<lparr>t_clock := c, t_session := (t_session st)\<lparr>sr_events := sr_events (t_session st) @ [e]\<rparr>\<rparr>)"
      "ev_type e = ty" "ev_payload e = terminal_to_dict terminal"
    using append_new_event_stored [OF running_stored [OF r]] by blast
  define st1 where "st1 = st\<lparr>t_clock := c, t_session := (t_session st)\<lparr>sr_events := sr_events (t_session st) @ [e]\<rparr>\<rparr>"
  define st2 where "st2 = st1\<lparr>t_session := (t_session st1)\<lparr>sr_status := SESSION_IDLE\<rparr>\<rparr>"
  have e: "ends_turn e" "\<exists>t. terminal_state_from_event e = Inr t"
    using assms a(2,3) by (auto simp: ends_turn_def terminal_state_from_event_def)
  have "\<exists>fs. persist_session env s st2 = (Inr (), st2\<lparr>t_files := fs\<rparr>)
    \<and> (\<forall>st3. t_files st3 = fs \<and> t_session st3 = t_session st2 \<and> t_out st3 = t_out st @ [e] \<longrightarrow> turn_over env s st3)"
    by (rule ending [OF r e st1_def]) (use assms a(2) in \<open>auto simp: st2_def st1_def\<close>)
  then obtain fs where p: "persist_session env s st2 = (Inr (), st2\<lparr>t_files := fs\<rparr>)"
    "\<And>st3. t_files st3 = fs \<and> t_session st3 = t_session st2 \<and> t_out st3 = t_out st @ [e] \<Longrightarrow> turn_over env s st3"
    by blast
  have "emit_terminal env s ty terminal st = (Inr (), st2\<lparr>t_files := fs, t_out := t_out st @ [e]\<rparr>)"
    using a(1) p(1) by (simp add: emit_terminal_def act_bind_def modify_session_def act_modify_def
        yield_events_def st1_def [symmetric] st2_def [symmetric]) (simp add: st2_def st1_def)
  then show "case emit_terminal env s ty terminal st of (Inl e, st') \<Rightarrow> E e st' | (Inr x, st') \<Rightarrow> turn_over env s st'"
    using p(2) by simp
qed

lemma block_turn_over:
  assumes "calls \<noteq> []"
  shows "hoare (running env s []) (block_turn env s r calls) (\<lambda>_. turn_over env s) E"
proof (rule hoareI)
  fix st0 :: "'a turn_state" assume "running env s [] st0"
  define st where "st = st0\<lparr>t_transition := ''requires_action'', t_requires := True\<rparr>"
  have r: "running env s [] st" using \<open>running env s [] st0\<close> by (rule running_cong) (simp_all add: st_def)
  obtain e c where a: "append_new_event env s REQUIRES_ACTION (requires_action_payload r) st =
        (Inr e, st\<lparr>t_clock := c, t_session := (t_session st)\<lparr>sr_events := sr_events (t_session st) @ [e]\<rparr>\<rparr>)"
      "ev_type e = REQUIRES_ACTION"
    using append_new_event_stored [OF running_stored [OF r]] by blast
  define st1 where "st1 = st\<lparr>t_clock := c, t_session := (t_session st)\<lparr>sr_events := sr_events (t_session st) @ [e]\<rparr>\<rparr>"
  define st2 where "st2 = st1\<lparr>t_session :=
    (t_session st1)\<lparr>sr_status := SESSION_REQUIRES_ACTION, sr_pending := calls\<rparr>\<rparr>"
  have e: "ends_turn e" "\<exists>t. terminal_state_from_event e = Inr t"
    using a(2) by (auto simp: ends_turn_def terminal_state_from_event_def)
  have "\<exists>fs. persist_session env s st2 = (Inr (), st2\<lparr>t_files := fs\<rparr>)
    \<and> (\<forall>st3. t_files st3 = fs \<and> t_session st3 = t_session st2 \<and> t_out st3 = t_out st @ [e] \<longrightarrow> turn_over env s st3)"
    by (rule ending [OF r e st1_def]) (use assms a(2) in \<open>auto simp: st2_def st1_def\<close>)
  then obtain fs where p: "persist_session env s st2 = (Inr (), st2\<lparr>t_files := fs\<rparr>)"
    "\<And>st3. t_files st3 = fs \<and> t_session st3 = t_session st2 \<and> t_out st3 = t_out st @ [e] \<Longrightarrow> turn_over env s st3"
    by blast
  have "persist_session env s (st2\<lparr>t_out := t_out st @ [e]\<rparr>) = (Inr (), st2\<lparr>t_files := fs, t_out := t_out st @ [e]\<rparr>)"
    using p(1) by (auto simp: persist_session_def split: prod.splits sum.splits dest: arg_cong [where f = t_files])
  moreover have "st2\<lparr>t_out := t_out st @ [e]\<rparr> = st1\<lparr>t_out := t_out st @ [e], t_session :=
      (t_session st1)\<lparr>sr_status := SESSION_REQUIRES_ACTION, sr_pending := calls\<rparr>\<rparr>"
    by (simp add: st2_def)
  ultimately have q: "persist_session env s (st1\<lparr>t_out := t_out st @ [e], t_session :=
      (t_session st1)\<lparr>sr_status := SESSION_REQUIRES_ACTION, sr_pending := calls\<rparr>\<rparr>) =
      (Inr (), st2\<lparr>t_files := fs, t_out := t_out st @ [e]\<rparr>)"
    by simp
  have "t_out st1 = t_out st" by (simp add: st1_def)
  then have "block_turn env s r calls st0 = (Inr (), st2\<lparr>t_files := fs, t_out := t_out st @ [e]\<rparr>)"
    using a(1) q by (simp add: block_turn_def act_bind_def modify_session_def act_modify_def yield_events_def
        st_def [symmetric] st1_def [symmetric])
  then show "case block_turn env s r calls st0 of (Inl e, st') \<Rightarrow> E e st' | (Inr x, st') \<Rightarrow> turn_over env s st'"
    using p(2) by simp
qed

lemma fail_turn_over: "hoare (running env s []) (fail_turn env s t terminal) (\<lambda>_. turn_over env s) E"
  unfolding fail_turn_def by (rule hoare_bind [OF transition_running emit_terminal_over]) simp

lemma fail_then_true:
  "hoare (running env s []) (act_bind (fail_turn env s t terminal) (\<lambda>_. act_return x)) (\<lambda>y st. y = x \<and> turn_over env s st) E"
  by (rule hoare_bind [OF fail_turn_over]) (rule hoare_return, simp)

subsection \<open>The model's part\<close>

abbreviation model_failed :: "'w harness_env \<Rightarrow> string \<Rightarrow> turn_exn \<Rightarrow> 'w turn_state \<Rightarrow> bool" where
  "model_failed env s e st \<equiv> running env s [] st"

lemma consume_stream_running:
  "hoare (running env s streamed) (consume_stream env s ctl es err agg final calls streamed)
     (\<lambda>(r, evs). running env s evs) (model_failed env s)"
proof (induction es arbitrary: agg final calls streamed)
  case Nil
  then show ?case
    by (cases err) (auto intro!: hoare_return hoare_raise elim: running_drop)
next
  case (Cons e es)
  show ?case
    unfolding consume_stream.simps Let_def
  proof (rule hoare_bind [OF cancelled_running])
    fix b
    show "hoare (running env s streamed) (if b then act_raise CancelledTurn
       else if (case me_delta e of None \<Rightarrow> [] | Some d \<Rightarrow> d) = []
         then consume_stream env s ctl es err agg
                (case me_message e of None \<Rightarrow> final | Some m \<Rightarrow> Some m)
                (if me_tool_calls e = [] then calls else me_tool_calls e) streamed
         else act_bind (append_new_event env s ASSISTANT_DELTA
                 [(''delta'', JStr (case me_delta e of None \<Rightarrow> [] | Some d \<Rightarrow> d))])
               (\<lambda>ev. act_bind (persist_session env s)
                 (\<lambda>_. consume_stream env s ctl es err (agg @ (case me_delta e of None \<Rightarrow> [] | Some d \<Rightarrow> d))
                        (case me_message e of None \<Rightarrow> final | Some m \<Rightarrow> Some m)
                        (if me_tool_calls e = [] then calls else me_tool_calls e) (streamed @ [ev]))))
      (\<lambda>(r, evs). running env s evs) (model_failed env s)"
    proof (cases b)
      case True
      then show ?thesis by (auto intro!: hoare_raise elim: running_drop)
    next
      case False
      show ?thesis
      proof (cases "(case me_delta e of None \<Rightarrow> [] | Some d \<Rightarrow> d) = []")
        case True
        then show ?thesis using False Cons.IH by simp
      next
        case delta: False
        have "hoare (running env s streamed) (act_bind (append_new_event env s ASSISTANT_DELTA
                 [(''delta'', JStr (case me_delta e of None \<Rightarrow> [] | Some d \<Rightarrow> d))])
               (\<lambda>ev. act_bind (persist_session env s)
                 (\<lambda>_. consume_stream env s ctl es err (agg @ (case me_delta e of None \<Rightarrow> [] | Some d \<Rightarrow> d))
                        (case me_message e of None \<Rightarrow> final | Some m \<Rightarrow> Some m)
                        (if me_tool_calls e = [] then calls else me_tool_calls e) (streamed @ [ev]))))
            (\<lambda>(r, evs). running env s evs) (model_failed env s)"
          by (rule hoare_bind [OF append_running]) (simp_all add: hoare_bind [OF persist_running Cons.IH])
        then show ?thesis using False delta by simp
      qed
    qed
  qed
qed

lemma run_model_once_running:
  "hoare (running env s []) (run_model_once env messages s ctl) (\<lambda>(r, evs). running env s evs) (model_failed env s)"
  unfolding run_model_once_def
proof (rule hoare_bind [OF get_running], rule hoare_bind [OF modify_running])
  fix n
  show "hoare (running env s []) (case he_model env n messages of
       Answer late res \<Rightarrow> if late \<and> ctl_timeout ctl then act_raise TimedOutTurn
         else (case res of Inl e \<Rightarrow> act_raise (TurnTool (PyError (OtherError e))) | Inr r \<Rightarrow> act_return (r, []))
     | Streamed es err \<Rightarrow> consume_stream env s ctl es err [] None [] [])
     (\<lambda>(r, evs). running env s evs) (model_failed env s)"
    by (auto simp: consume_stream_running intro!: hoare_return hoare_raise split: model_answer.split sum.split)
qed simp

lemma model_attempts_running:
  "hoare (running env s []) (model_attempts env messages s ctl n k err) (\<lambda>(r, evs). running env s evs)
     (\<lambda>e st. running env s [] st \<and> (\<forall>x. e \<noteq> TurnTool x))"
proof (induction n arbitrary: k err)
  case 0
  show ?case by (simp add: hoare_raise)
next
  case (Suc n)
  show ?case
    unfolding model_attempts.simps
  proof (rule hoare_bind [OF cancelled_running])
    fix b
    have h: "hoare (model_failed env s e) (case e of CancelledTurn \<Rightarrow> act_raise e | TimedOutTurn \<Rightarrow> act_raise e
        | _ \<Rightarrow> if k = ctl_max_retries ctl then act_raise (RetryExhaustedTurn (turn_exn_text e))
              else model_attempts env messages s ctl n (k + 1) (turn_exn_text e))
        (\<lambda>(r, evs). running env s evs) (\<lambda>e st. running env s [] st \<and> (\<forall>x. e \<noteq> TurnTool x))" for e
      by (cases e) (auto simp: Suc.IH intro!: hoare_raise)
    show "hoare (running env s []) (if b then act_raise CancelledTurn
       else act_try (run_model_once env messages s ctl) (\<lambda>e. case e of CancelledTurn \<Rightarrow> act_raise e
         | TimedOutTurn \<Rightarrow> act_raise e
         | _ \<Rightarrow> if k = ctl_max_retries ctl then act_raise (RetryExhaustedTurn (turn_exn_text e))
              else model_attempts env messages s ctl n (k + 1) (turn_exn_text e)))
       (\<lambda>(r, evs). running env s evs) (\<lambda>e st. running env s [] st \<and> (\<forall>x. e \<noteq> TurnTool x))"
      by (cases b) (simp_all add: hoare_raise hoare_try [OF run_model_once_running h])
  qed
qed

text \<open>The turn goes on, or it is over.\<close>

definition goes_on :: "'w harness_env \<Rightarrow> string \<Rightarrow> bool \<Rightarrow> 'w turn_state \<Rightarrow> bool" where
  "goes_on env s over st \<longleftrightarrow> (if over then turn_over env s st else running env s [] st)"

lemma goes_on_simps [simp]: "goes_on env s True = turn_over env s" "goes_on env s False = running env s []"
  by (simp_all add: goes_on_def fun_eq_iff)

lemma model_phase_running:
  "hoare (running env s []) (model_phase env s ctl) (\<lambda>answer. goes_on env s (answer = None)) (crashed env s)"
  unfolding model_phase_def
proof (rule hoare_bind [OF get_running], rule hoare_try)
  fix messages
  show "hoare (running env s []) (act_bind (run_model_with_retries env messages s ctl)
      (\<lambda>(response, streamed). act_bind (yield_events streamed) (\<lambda>_. act_return (Some response))))
    (\<lambda>answer. goes_on env s (answer = None)) (\<lambda>e st. running env s [] st \<and> (\<forall>x. e \<noteq> TurnTool x))"
    unfolding run_model_with_retries_def
  proof (rule hoare_bind [OF model_attempts_running], clarify)
    fix r and evs :: "runtime_event list"
    show "hoare (running env s evs) (act_bind (yield_events evs) (\<lambda>_. act_return (Some r)))
        (\<lambda>answer. goes_on env s (answer = None)) (\<lambda>e st. running env s [] st \<and> (\<forall>x. e \<noteq> TurnTool x))"
      by (rule hoare_bind [OF yield_running]) (simp add: hoare_return)
  qed
next
  fix e
  have f: "hoare (running env s []) (act_bind (fail_turn env s t terminal) (\<lambda>_. act_return None))
      (\<lambda>answer. goes_on env s (answer = None)) (crashed env s)" for t terminal
    by (rule hoare_conseq [OF fail_then_true]) auto
  show "hoare (\<lambda>st. running env s [] st \<and> (\<forall>x. e \<noteq> TurnTool x)) (case e of
         TurnTool x \<Rightarrow> act_raise e
       | CancelledTurn \<Rightarrow> act_bind (fail_turn env s ''aborted'' (make_terminal STOPPED ''cancelled'' None None))
           (\<lambda>_. act_return None)
       | TimedOutTurn \<Rightarrow> act_bind (fail_turn env s ''failed'' (make_terminal FAILED ''timeout'' (Some True) None))
           (\<lambda>_. act_return None)
       | RetryExhaustedTurn t \<Rightarrow> act_bind (fail_turn env s ''failed''
            (make_terminal FAILED ''retry_exhausted'' (Some False) (Some t))) (\<lambda>_. act_return None))
     (\<lambda>answer. goes_on env s (answer = None)) (crashed env s)"
    by (cases e) (auto intro!: hoare_raise intro: hoare_conseq [OF f])
qed

text \<open>The calls of a response are calls the model asked for.\<close>

lemma hoare_any [simp]: "hoare P m (\<lambda>_ _. True) (\<lambda>_ _. True)"
  by (auto simp: hoare_def split: prod.split sum.split)

lemma hoare_conj: "hoare P m Q E \<Longrightarrow> hoare P m Q' (\<lambda>_ _. True) \<Longrightarrow> hoare P m (\<lambda>x st. Q x st \<and> Q' x st) E"
  by (fastforce simp: hoare_def split: prod.splits sum.splits)

definition names_in :: "string set \<Rightarrow> model_response \<times> runtime_event list \<Rightarrow> 'w turn_state \<Rightarrow> bool" where
  "names_in N = (\<lambda>(r, evs) st. tc_name ` set (mr_tool_calls r) \<subseteq> N)"

lemma consume_stream_names:
  "tc_name ` set calls \<subseteq> N \<Longrightarrow> (\<Union>e \<in> set es. tc_name ` set (me_tool_calls e)) \<subseteq> N \<Longrightarrow>
     hoare P (consume_stream env s ctl es err agg final calls streamed) (names_in N) (\<lambda>_ _. True)"
proof (induction es arbitrary: P agg final calls streamed)
  case Nil
  then show ?case
    by (cases err) (auto simp: names_in_def intro!: hoare_return hoare_raise)
next
  case (Cons e es)
  have IH: "hoare P' (consume_stream env s ctl es err agg' final' calls' streamed') (names_in N) (\<lambda>_ _. True)"
    if "calls' = calls \<or> calls' = me_tool_calls e" for P' agg' final' calls' streamed'
    using Cons that by auto
  show ?case
    unfolding consume_stream.simps Let_def
    by (rule hoare_bind [OF hoare_any])
       (auto simp: IH intro!: hoare_raise hoare_bind [OF hoare_any] split: if_split)
qed

lemma run_model_once_names:
  "hoare P (run_model_once env messages s ctl) (\<lambda>x st. \<exists>n. names_in (asked_names (he_model env n messages)) x st) (\<lambda>_ _. True)"
  unfolding run_model_once_def
proof (rule hoare_bind [OF hoare_get [where Q = "\<lambda>_ _. True"]], simp, rule hoare_bind [OF hoare_any])
  fix n
  have c: "hoare (\<lambda>_. True) (consume_stream env s ctl es err [] None [] [])
      (\<lambda>x st. \<exists>n. names_in (asked_names (he_model env n messages)) x st) (\<lambda>_ _. True)"
    if "he_model env n messages = Streamed es err" for es err
    by (rule hoare_conseq [OF consume_stream_names [of "[]" "asked_names (he_model env n messages)"]])
       (use that in \<open>auto intro!: exI [of _ n]\<close>)
  show "hoare (\<lambda>_. True) (case he_model env n messages of
       Answer late res \<Rightarrow> if late \<and> ctl_timeout ctl then act_raise TimedOutTurn
         else (case res of Inl e \<Rightarrow> act_raise (TurnTool (PyError (OtherError e))) | Inr r \<Rightarrow> act_return (r, []))
     | Streamed es err \<Rightarrow> consume_stream env s ctl es err [] None [] [])
     (\<lambda>x st. \<exists>n. names_in (asked_names (he_model env n messages)) x st) (\<lambda>_ _. True)"
    using c by (auto simp: names_in_def intro!: hoare_return hoare_raise exI [of _ n] split: model_answer.split sum.split)
qed

lemma model_attempts_names:
  "hoare P (model_attempts env messages s ctl n k err)
     (\<lambda>x st. \<exists>n. names_in (asked_names (he_model env n messages)) x st) (\<lambda>_ _. True)"
proof (induction n arbitrary: P k err)
  case (Suc n)
  have h: "hoare P (case e of CancelledTurn \<Rightarrow> act_raise e | TimedOutTurn \<Rightarrow> act_raise e
        | _ \<Rightarrow> if k = ctl_max_retries ctl then act_raise (RetryExhaustedTurn (turn_exn_text e))
              else model_attempts env messages s ctl n (k + 1) (turn_exn_text e))
        (\<lambda>x st. \<exists>n. names_in (asked_names (he_model env n messages)) x st) (\<lambda>_ _. True)" for e P
    by (cases e) (auto simp: Suc.IH intro!: hoare_raise)
  show ?case
    unfolding model_attempts.simps
    by (rule hoare_bind [OF hoare_any])
       (auto simp: h intro!: hoare_raise hoare_try [OF run_model_once_names] split: if_split)
qed (simp add: hoare_raise)

lemma model_phase_asked:
  "hoare P (model_phase env s ctl) (\<lambda>answer st. \<forall>r. answer = Some r \<longrightarrow> asked env (mr_tool_calls r)) (\<lambda>_ _. True)"
  unfolding model_phase_def run_model_with_retries_def
proof (rule hoare_bind [OF hoare_any], rule hoare_try [where R = "\<lambda>_ _. True"])
  fix messages
  show "hoare (\<lambda>_. True) (act_bind (model_attempts env messages s ctl (Suc (nat (max 0 (ctl_max_retries ctl)))) 0 ''None'')
      (\<lambda>(response, streamed). act_bind (yield_events streamed) (\<lambda>_. act_return (Some response))))
    (\<lambda>answer st. \<forall>r. answer = Some r \<longrightarrow> asked env (mr_tool_calls r)) (\<lambda>_ _. True)"
  proof (rule hoare_bind [OF model_attempts_names], clarify)
    fix r and evs :: "runtime_event list"
    show "hoare (\<lambda>st. \<exists>n. names_in (asked_names (he_model env n messages)) (r, evs) st)
        (act_bind (yield_events evs) (\<lambda>_. act_return (Some r)))
        (\<lambda>answer st. \<forall>r. answer = Some r \<longrightarrow> asked env (mr_tool_calls r)) (\<lambda>_ _. True)"
      by (auto simp: hoare_def act_bind_def yield_events_def act_modify_def act_return_def names_in_def asked_def)
  qed
next
  fix e
  show "hoare (\<lambda>_. True) (case e of
         TurnTool x \<Rightarrow> act_raise e
       | CancelledTurn \<Rightarrow> act_bind (fail_turn env s ''aborted'' (make_terminal STOPPED ''cancelled'' None None))
           (\<lambda>_. act_return None)
       | TimedOutTurn \<Rightarrow> act_bind (fail_turn env s ''failed'' (make_terminal FAILED ''timeout'' (Some True) None))
           (\<lambda>_. act_return None)
       | RetryExhaustedTurn t \<Rightarrow> act_bind (fail_turn env s ''failed''
            (make_terminal FAILED ''retry_exhausted'' (Some False) (Some t))) (\<lambda>_. act_return None))
     (\<lambda>answer st. \<forall>r. answer = Some r \<longrightarrow> asked env (mr_tool_calls r)) (\<lambda>_ _. True)"
    by (cases e) (auto intro!: hoare_raise hoare_bind [OF hoare_any] hoare_return)
qed

subsection \<open>The rest of an iteration\<close>

lemma answer_phase_over: "hoare (running env s []) (answer_phase env s response) (\<lambda>_. turn_over env s) E"
  unfolding answer_phase_def
proof (rule hoare_bind [where R = "\<lambda>_. running env s []"])
  show "hoare (running env s []) (case mr_message response of None \<Rightarrow> act_return ()
       | Some m \<Rightarrow>
           act_bind (append_message \<lparr>sm_role = ''assistant'', sm_content = JStr m, sm_metadata = []\<rparr>) (\<lambda>_.
           act_bind (append_new_event env s ASSISTANT_MESSAGE [(''message'', JStr m)]) (\<lambda>e.
           act_bind (yield_events [e]) (\<lambda>_. persist_session env s)))) (\<lambda>_. running env s []) E"
  proof (cases "mr_message response")
    case (Some m)
    have "hoare (running env s []) (append_new_event env s ASSISTANT_MESSAGE [(''message'', JStr m)])
        (\<lambda>e. running env s [e]) E"
      using append_running [of ASSISTANT_MESSAGE env s "[]"] by simp
    then show ?thesis
      by (simp add: Some hoare_bind [OF message_running] hoare_bind [OF _ hoare_bind [OF yield_running persist_running]])
  qed (simp add: hoare_return)
  show "hoare (running env s []) (act_bind (set_transition ''completed'') (\<lambda>_.
      emit_terminal env s TURN_COMPLETED (make_terminal COMPLETED ''assistant_message'' None None)))
     (\<lambda>_. turn_over env s) E" for x
    by (rule hoare_bind [OF transition_running emit_terminal_over]) simp
qed

definition error_ok :: "tool_error option \<Rightarrow> bool" where
  "error_ok e \<longleftrightarrow> (case e of None \<Rightarrow> True | Some (ToolExecutionFailedError _ _) \<Rightarrow> True
     | Some (ToolCancelledError _ _) \<Rightarrow> True | _ \<Rightarrow> False)"

lemma good_event_not_end: "good_event e \<Longrightarrow> \<not> ends_turn e"
  by (auto simp: good_event_def tool_kind_def ends_turn_def)

lemma record_tool_events_running:
  assumes "list_all good_event evs"
  shows "hoare (running env s emitted) (record_tool_events env s en evs emitted results)
     (\<lambda>(es, rs, error) st. running env s es st \<and> error_ok error)
     (\<lambda>e st. running env s [] st \<and> (\<exists>x. e = TurnTool x \<and> en = Raised x))"
  using assms
proof (induction evs arbitrary: emitted results)
  case Nil
  show ?case
    by (cases en) (auto simp: error_ok_def intro!: hoare_return hoare_raise elim: running_drop)
next
  case (Cons e evs)
  let ?Q = "\<lambda>(es, rs, error) st. running env s es st \<and> error_ok error"
  let ?E = "\<lambda>x st. running env s [] st \<and> (\<exists>y. x = TurnTool y \<and> en = Raised y)"
  have g: "good_event e" and IH: "hoare (running env s em) (record_tool_events env s en evs em rs) ?Q ?E" for em rs
    using Cons by simp_all
  show ?case
    unfolding record_tool_events.simps
  proof (rule hoare_bind [OF record_running [OF good_event_not_end [OF g]]],
      rule hoare_bind [where R = "\<lambda>_. running env s (emitted @ [e])"])
    show "hoare (running env s (emitted @ [e])) (if persists_after e then persist_session env s else act_return ())
        (\<lambda>_. running env s (emitted @ [e])) ?E"
      by (simp add: persist_running hoare_return)
    fix x y
    show "hoare (running env s (emitted @ [e])) (if ev_type e = TOOL_RESULT then
        act_bind (act_lift (result_of_payload (ev_payload e))) (\<lambda>r.
        record_tool_events env s en evs (emitted @ [e]) (results @ [r]))
      else if ev_type e = TOOL_FAILED then
        act_return (emitted @ [e], results, Some (ToolExecutionFailedError
          (payload_text (ev_payload e) ''tool_name'' ''unknown'')
          (payload_text (ev_payload e) ''reason'' ''tool_failed'')))
      else if ev_type e = TOOL_CANCELLED then
        act_return (emitted @ [e], results, Some (ToolCancelledError
          (payload_text (ev_payload e) ''tool_name'' ''unknown'')
          (payload_text (ev_payload e) ''reason'' ''cancelled'')))
      else record_tool_events env s en evs (emitted @ [e]) results) ?Q ?E"
    proof (cases "ev_type e = TOOL_RESULT")
      case True
      then obtain r where r: "result_of_payload (ev_payload e) = Inr r" using g by (auto simp: good_event_def)
      have "hoare (running env s (emitted @ [e])) (act_lift (Inr r)) (\<lambda>x st. x = r \<and> running env s (emitted @ [e]) st) ?E"
        by (simp add: hoare_def act_lift_def)
      then have "hoare (running env s (emitted @ [e])) (act_bind (act_lift (Inr r)) (\<lambda>r.
          record_tool_events env s en evs (emitted @ [e]) (results @ [r]))) ?Q ?E"
        by (rule hoare_bind) (rule hoare_conseq [OF IH], simp_all)
      then show ?thesis using True r by simp
    next
      case False
      then show ?thesis by (simp add: IH) (auto simp: error_ok_def intro!: hoare_return)
    qed
  qed
qed

lemma execute_tool_stream_running:
  "hoare (running env s []) (execute_tool_stream env s cs ctx)
     (\<lambda>(es, rs, error) st. running env s es st \<and> error_ok error)
     (\<lambda>e st. running env s [] st \<and> (\<exists>x. e = TurnTool x \<and> raises env cs x))"
proof (rule hoareI)
  fix st assume r: "running env s [] st"
  obtain evs ex en where x: "execute_stream (he_exec env) stops_turn cs ctx (t_exec st) = (evs, ex, en)"
    by (cases "execute_stream (he_exec env) stops_turn cs ctx (t_exec st)")
  have g: "list_all good_event evs"
    using good_execute_stream [of "he_exec env" stops_turn cs ctx "t_exec st"] by (simp add: x)
  have "running env s [] (st\<lparr>t_exec := ex\<rparr>)" using r by (rule running_cong) simp_all
  then have "case record_tool_events env s en evs [] [] (st\<lparr>t_exec := ex\<rparr>) of
      (Inl e, st') \<Rightarrow> running env s [] st' \<and> (\<exists>x. e = TurnTool x \<and> en = Raised x)
    | (Inr y, st') \<Rightarrow> (\<lambda>(es, rs, error) st. running env s es st \<and> error_ok error) y st'"
    using record_tool_events_running [OF g, of env s "[]" en "[]"] by (simp add: hoare_def)
  then show "case execute_tool_stream env s cs ctx st of
      (Inl e, st') \<Rightarrow> running env s [] st' \<and> (\<exists>x. e = TurnTool x \<and> raises env cs x)
    | (Inr y, st') \<Rightarrow> (\<lambda>(es, rs, error) st. running env s es st \<and> error_ok error) y st'"
    unfolding raises_def
    by (auto simp: execute_tool_stream_def x split: prod.splits sum.splits intro!: exI [of _ ctx] exI [of _ "t_exec st"])
qed

lemma append_results_running:
  "hoare (running env s []) (append_tool_results env rs) (\<lambda>_. running env s []) E"
proof (induction rs)
  case (Cons r rs)
  show ?case
    unfolding append_tool_results.simps
  proof (rule hoare_bind [OF _ Cons.IH])
    show "hoare (running env s []) (case he_governance env of
         None \<Rightarrow> append_message (tool_message r (JList (tr_content r)))
       | Some g \<Rightarrow> act_bind (act_get t_texts) (\<lambda>files.
           (let (r', files') = externalize_tool_result g r files in
            act_bind (act_modify (\<lambda>st. st\<lparr>t_texts := files'\<rparr>)) (\<lambda>_.
            append_message (tool_message r' (tool_result_transcript_content r')))))) (\<lambda>_. running env s []) E"
      by (cases "he_governance env")
         (simp_all add: message_running split_beta Let_def hoare_bind [OF get_running] hoare_bind [OF modify_running])
  qed
qed (simp add: hoare_return)

lemma batch_reported_running:
  "error_ok error \<Longrightarrow> hoare (running env s []) (batch_reported env s results error) (goes_on env s) E"
proof -
  assume "error_ok error"
  have f: "hoare (running env s []) (act_bind (fail_turn env s t terminal) (\<lambda>_. act_return True)) (goes_on env s) E"
    for t terminal by (rule hoare_conseq [OF fail_then_true]) auto
  have g: "hoare (running env s []) (act_bind (append_tool_results env results) (\<lambda>_.
       act_bind (persist_session env s) (\<lambda>_. act_return False))) (goes_on env s) E"
    by (rule hoare_bind [OF append_results_running], rule hoare_bind [OF persist_running]) (simp add: hoare_return)
  show ?thesis
  proof (cases error)
    case (Some x)
    then show ?thesis using f \<open>error_ok error\<close> by (cases x) (simp_all add: batch_reported_def error_ok_def)
  qed (simp add: batch_reported_def g)
qed

lemma batch_raised_over:
  assumes "calls \<noteq> []" "asked env calls" "raises env calls x"
  shows "hoare (running env s []) (batch_raised env s calls (TurnTool x)) (\<lambda>done st. done \<and> turn_over env s st) (crashed env s)"
proof -
  have f: "hoare (running env s []) (act_bind (fail_turn env s t terminal) (\<lambda>_. act_return True))
      (\<lambda>done st. done \<and> turn_over env s st) (crashed env s)" for t terminal
    by (rule hoare_conseq [OF fail_then_true]) auto
  have b: "hoare (running env s []) (act_bind (block_turn env s r calls) (\<lambda>_. act_return True))
      (\<lambda>done st. done \<and> turn_over env s st) (crashed env s)" for r
    by (rule hoare_bind [OF block_turn_over [OF assms(1)]]) (simp add: hoare_return)
  show ?thesis using assms(2,3) by (cases x) (auto simp: batch_raised_def f b crashed_def intro!: hoare_raise)
qed

lemma length_ensure_ids [simp]: "length (ensure_tool_call_ids cs) = length cs"
  by (simp add: ensure_tool_call_ids_def)

lemma ensure_ids_Nil [simp]: "ensure_tool_call_ids cs = [] \<longleftrightarrow> cs = []"
  by (metis length_0_conv length_ensure_ids)

lemma ensure_ids_names [simp]: "tc_name ` set (ensure_tool_call_ids cs) = tc_name ` set cs"
proof -
  have "map tc_name (ensure_tool_call_ids cs) = map tc_name cs"
    by (simp add: ensure_tool_call_ids_def list_eq_iff_nth_eq nth_enumerate_eq split: option.split)
  then show ?thesis by (metis set_map)
qed

lemma asked_ids [simp]: "asked env (ensure_tool_call_ids cs) = asked env cs"
  by (simp add: asked_def)

lemma tool_phase_running:
  assumes "mr_tool_calls response \<noteq> []" "asked env (mr_tool_calls response)"
  shows "hoare (running env s []) (tool_phase env s workdir task response) (goes_on env s) (crashed env s)"
  unfolding tool_phase_def Let_def
proof (rule hoare_bind [OF message_running], rule hoare_bind [OF transition_running], rule hoare_bind [OF get_running])
  fix r :: session_record
  let ?calls = "ensure_tool_call_ids (mr_tool_calls response)"
  let ?R = "\<lambda>outcome st. case outcome of Inl done \<Rightarrow> done \<and> turn_over env s st
    | Inr (results, error) \<Rightarrow> running env s [] st \<and> error_ok error"
  have body: "hoare (running env s []) (act_bind (execute_tool_stream env s ?calls (turn_context s r workdir (Some task) []))
       (\<lambda>(evs, results, error). act_bind (yield_events evs) (\<lambda>_. act_return (Inr (results, error)))))
     ?R (\<lambda>e st. running env s [] st \<and> (\<exists>x. e = TurnTool x \<and> raises env ?calls x))"
  proof (rule hoare_bind [OF execute_tool_stream_running])
    fix x :: tool_outcome
    obtain evs results error where x: "x = (evs, results, error)" by (cases x)
    have y: "hoare (\<lambda>st. running env s evs st \<and> error_ok error) (yield_events evs)
        (\<lambda>_ st. running env s [] st \<and> error_ok error) E" for E
      by (auto simp: hoare_def yield_events_def act_modify_def running_def stored_def out_ok_def)
    show "hoare ((\<lambda>(es, rs, error) st. running env s es st \<and> error_ok error) x)
       (case x of (evs, results, error) \<Rightarrow> act_bind (yield_events evs) (\<lambda>_. act_return (Inr (results, error))))
       ?R (\<lambda>e st. running env s [] st \<and> (\<exists>x. e = TurnTool x \<and> raises env ?calls x))"
      unfolding x prod.case by (rule hoare_bind [OF y]) (simp add: hoare_return)
  qed
  have handler: "hoare (\<lambda>st. running env s [] st \<and> (\<exists>x. e = TurnTool x \<and> raises env ?calls x))
      (act_bind (batch_raised env s ?calls e) (\<lambda>done. act_return (Inl done))) ?R (crashed env s)" for e
  proof (cases e)
    case (TurnTool x)
    show ?thesis
    proof (cases "raises env ?calls x")
      case True
      have "hoare (running env s []) (act_bind (batch_raised env s ?calls (TurnTool x)) (\<lambda>done. act_return (Inl done)))
          ?R (crashed env s)"
        by (rule hoare_bind [OF batch_raised_over [OF _ _ True]]) (simp_all add: assms hoare_return)
      then show ?thesis by (simp add: TurnTool True)
    qed (simp add: TurnTool hoare_def)
  qed (simp_all add: hoare_def)
  have rest: "hoare (?R outcome) (case outcome of Inl done \<Rightarrow> act_return done
      | Inr (results, error) \<Rightarrow> batch_reported env s results error) (goes_on env s) (crashed env s)" for outcome
  proof (cases outcome)
    case (Inr y)
    obtain results error where y: "y = (results, error)" by (cases y)
    show ?thesis
    proof (cases "error_ok error")
      case True
      have "hoare (\<lambda>st. running env s [] st \<and> error_ok error) (batch_reported env s results error)
          (goes_on env s) (crashed env s)"
        by (rule hoare_conseq [OF batch_reported_running [OF True, where E = "crashed env s"]]) simp_all
      then show ?thesis by (simp add: Inr y)
    qed (simp add: Inr y hoare_def)
  next
    case (Inl fin)
    then show ?thesis by (cases fin) (simp_all add: hoare_def act_return_def)
  qed
  show "hoare (running env s []) (act_bind (act_try (act_bind (execute_tool_stream env s ?calls
        (turn_context s r workdir (Some task) []))
             (\<lambda>(evs, results, error). act_bind (yield_events evs) (\<lambda>_. act_return (Inr (results, error)))))
          (\<lambda>e. act_bind (batch_raised env s ?calls e) (\<lambda>done. act_return (Inl done))))
        (\<lambda>outcome. case outcome of Inl done \<Rightarrow> act_return done
         | Inr (results, error) \<Rightarrow> batch_reported env s results error)) (goes_on env s) (crashed env s)"
    by (rule hoare_bind [OF hoare_try [OF body handler] rest])
qed

lemma turn_iteration_running:
  "hoare (running env s []) (turn_iteration env s ctl workdir task n) (goes_on env s) (crashed env s)"
  unfolding turn_iteration_def
proof (rule hoare_bind [OF modify_running], simp, rule hoare_bind [OF cancelled_running])
  fix b
  have f: "hoare (running env s []) (act_bind (fail_turn env s t terminal) (\<lambda>_. act_return True)) (goes_on env s) (crashed env s)"
    for t terminal by (rule hoare_conseq [OF fail_then_true]) auto
  have m: "hoare (\<lambda>st. goes_on env s (answer = None) st \<and> (\<forall>r. answer = Some r \<longrightarrow> asked env (mr_tool_calls r))) (case answer of
         None \<Rightarrow> act_return True
       | Some response \<Rightarrow>
           if mr_tool_calls response = [] then act_bind (answer_phase env s response) (\<lambda>_. act_return True)
           else tool_phase env s workdir task response) (goes_on env s) (crashed env s)" for answer
  proof (cases answer)
    case (Some response)
    have "hoare (running env s []) (act_bind (answer_phase env s response) (\<lambda>_. act_return True)) (goes_on env s) (crashed env s)"
      by (rule hoare_bind [OF answer_phase_over]) (simp add: hoare_return)
    then show ?thesis
      using tool_phase_running [of response env s workdir task]
      by (cases "mr_tool_calls response = []"; cases "asked env (mr_tool_calls response)") (simp_all add: Some hoare_def)
  qed (simp add: hoare_return)
  show "hoare (running env s []) (if b then act_bind (fail_turn env s ''aborted''
         (make_terminal STOPPED ''cancelled'' None None)) (\<lambda>_. act_return True)
     else act_bind (model_phase env s ctl) (\<lambda>answer. case answer of
         None \<Rightarrow> act_return True
       | Some response \<Rightarrow>
           if mr_tool_calls response = [] then act_bind (answer_phase env s response) (\<lambda>_. act_return True)
           else tool_phase env s workdir task response)) (goes_on env s) (crashed env s)"
    by (cases b) (simp_all add: f hoare_bind [OF hoare_conj [OF model_phase_running model_phase_asked] m])
qed

lemma turn_loop_running:
  "hoare (running env s []) (turn_loop env s ctl workdir task n k) (\<lambda>_. turn_over env s) (crashed env s)"
proof (induction n arbitrary: k)
  case 0
  show ?case by (simp add: hoare_bind [OF get_running fail_turn_over])
next
  case (Suc n)
  have "hoare (\<lambda>st. goes_on env s done st) (if done then act_return () else turn_loop env s ctl workdir task n (Suc k))
      (\<lambda>_. turn_over env s) (crashed env s)" for "done"
    using Suc by (cases "done") (simp_all add: hoare_return)
  then show ?case by (simp add: hoare_bind [OF turn_iteration_running])
qed

subsection \<open>The whole turn\<close>

lemma ensure_workspace_continues [simp]: "continues r (snd (ensure_session_workspace env s r))"
  by (simp add: ensure_session_workspace_def Let_def continues_def split: option.split)

text \<open>A turn may start on a well-formed store with nothing yielded yet.\<close>

definition ready :: "'w harness_env \<Rightarrow> 'w turn_state \<Rightarrow> bool" where
  "ready env st \<longleftrightarrow> env_ok (he_store env) \<and> store_ok (he_store env) (t_files st) \<and> t_out st = []"

lemma execute_turn_over:
  "hoare (ready env) (execute_turn_stream env input s ctl) (\<lambda>_. turn_over env s) (crashed env s)"
proof (rule hoareI)
  fix st assume p: "ready env st"
  obtain r where l: "load_session (he_store env) (t_files st) s = Inr r"
    using p load_session_ok by (fastforce simp: ready_def)
  obtain workdir session where w: "ensure_session_workspace env s r = (workdir, session)"
    by (cases "ensure_session_workspace env s r")
  have c: "continues r session" using ensure_workspace_continues [of r env s] by (simp add: w)
  define task where "task = ''turn:'' @ s @ '':'' @ nat_str (length (sr_events r) + 1)"
  define st1 where "st1 = st\<lparr>t_turn_count := 0, t_transition := ''turn_started'', t_requires := False,
      t_task := Some task, t_session := session\<lparr>sr_status := SESSION_RUNNING, sr_messages := sr_messages session @
      [\<lparr>sm_role = ''user'', sm_content = JStr input, sm_metadata = []\<rparr>]\<rparr>\<rparr>"
  have c1: "continues r (t_session st1)"
    using continues_append_message [OF c, of "[\<lparr>sm_role = ''user'', sm_content = JStr input, sm_metadata = []\<rparr>]"]
    by (simp add: st1_def continues_def)
  have s1: "stored env s (\<lambda>_. True) st1"
    using p l c1 by (auto simp: stored_def ready_def) (simp_all add: st1_def)
  obtain e k where a: "append_new_event env s TURN_STARTED [(''input'', JStr input)] st1 =
        (Inr e, st1\<lparr>t_clock := k, t_session := (t_session st1)\<lparr>sr_events := sr_events (t_session st1) @ [e]\<rparr>\<rparr>)"
      "ev_type e = TURN_STARTED"
    using append_new_event_stored [OF s1] by blast
  define st2 where "st2 = st1\<lparr>t_clock := k, t_session := (t_session st1)\<lparr>sr_events := sr_events (t_session st1) @ [e]\<rparr>,
      t_out := [e]\<rparr>"
  have s2: "stored env s (\<lambda>_. True) st2"
    using s1 continues_append_event [of _ "t_session st1" "[e]"] by (auto simp: stored_def st2_def)
  obtain fs where f: "persist_session env s st2 = (Inr (), st2\<lparr>t_files := fs\<rparr>)"
      "stored env s (\<lambda>r. r = t_session st2) (st2\<lparr>t_files := fs\<rparr>)"
    using persist_stored [OF s2] by blast
  have "subseq [e] (sr_events (t_session st1) @ [e])" by (simp add: subseq_drop_many)
  then have run: "running env s [] (st2\<lparr>t_files := fs\<rparr>)"
    using f(2) a(2) by (auto simp: running_def stored_def out_ok_def st2_def ends_turn_def) (simp_all add: st1_def)
  have out: "t_out st1 = []" using p by (simp add: st1_def ready_def)
  have "execute_turn_stream env input s ctl st =
      act_bind (append_new_event env s TURN_STARTED [(''input'', JStr input)]) (\<lambda>e.
      act_bind (yield_events [e]) (\<lambda>_.
      act_bind (persist_session env s) (\<lambda>_.
      turn_loop env s ctl workdir task (nat (he_max_iterations env)) 0))) st1"
    by (simp add: execute_turn_stream_def harness_load_def new_turn_task_id_def act_lift_def act_get_def
        act_return_def act_modify_def l w modify_session_def append_message_def task_def st1_def
        act_bind_def [of "act_get f" for f] act_bind_def [of "act_modify f" for f]
        act_bind_def [of "\<lambda>st. (Inr x, st)" for x] act_bind_def)
  also have "\<dots> = turn_loop env s ctl workdir task (nat (he_max_iterations env)) 0 (st2\<lparr>t_files := fs\<rparr>)"
    using a(1) f(1) out by (simp add: act_bind_def yield_events_def act_modify_def st2_def)
  finally have "execute_turn_stream env input s ctl st =
      turn_loop env s ctl workdir task (nat (he_max_iterations env)) 0 (st2\<lparr>t_files := fs\<rparr>)" .
  then show "case execute_turn_stream env input s ctl st of
      (Inl e, st') \<Rightarrow> crashed env s e st' | (Inr x, st') \<Rightarrow> turn_over env s st'"
    using turn_loop_running [of env s ctl workdir task "nat (he_max_iterations env)" 0] run
    by (simp add: hoare_def)
qed

end
