(* ===== verification/SessionScope.thy ===== *)
theory SessionScope
  imports HarnessProps
begin

text \<open>
  Events stay in their session: whatever a turn or a continuation on a session yields, returns or logs
  is an event of that session, and the event logs of a store hold only events of their own session.
\<close>

subsection \<open>The store\<close>

definition own_line :: "string \<Rightarrow> json \<Rightarrow> bool" where
  "own_line s j \<longleftrightarrow> (\<forall>d e. as_dict j = Some d \<longrightarrow> event_from_dict d = Inr e \<longrightarrow> of_session s e)"

definition logs_own :: "file_store \<Rightarrow> bool" where
  "logs_own fs \<longleftrightarrow> (\<forall>s. list_all (own_line s) (event_lines fs s))"

lemma own_line_event [simp]: "own_line s (JDict (event_to_dict e)) = of_session s e"
  by (simp add: own_line_def)

lemma logs_own_empty [simp]: "logs_own empty_store"
  by (simp add: logs_own_def event_lines_def empty_store_def no_files_def)

lemma emap_own:
  "list_all (own_line s) ls \<Longrightarrow> emap event_from_dict (List.map_filter as_dict ls) = Inr es \<Longrightarrow> list_all (of_session s) es"
proof (induction ls arbitrary: es)
  case (Cons l ls)
  then show ?case
    by (cases "as_dict l") (auto simp: map_filter_simps own_line_def ebind_Inr_iff)
qed (simp add: map_filter_simps)

lemma own_py_from: "list_all P ls \<Longrightarrow> list_all P (py_from n ls)"
  by (auto simp: py_from_def list_all_iff dest: in_set_dropD)

lemma read_events_own:
  assumes "logs_own fs" "read_events fs s after cursor = Inr es"
  shows "list_all (of_session s) es"
proof (cases "sf_events (fs_session fs s)")
  case (Some ls)
  then have "list_all (own_line s) ls" using assms(1) by (simp add: logs_own_def event_lines_def) (metis option.simps(5))
  then show ?thesis
    using assms(2) emap_own [OF own_py_from] by (auto simp: read_events_def Some parse_events_def)
qed (use assms(2) in \<open>simp add: read_events_def\<close>)

lemma load_session_own:
  "logs_own fs \<Longrightarrow> load_session env fs s = Inr r \<Longrightarrow> list_all (of_session s) (sr_events r)"
  using read_events_own [of fs s 0 None]
  by (auto simp: load_session_def Let_def ebind_Inr_iff split: option.splits)

lemma logs_own_cong:
  "(\<And>s. sf_events (fs_session fs' s) = sf_events (fs_session fs s)) \<Longrightarrow> logs_own fs \<Longrightarrow> logs_own fs'"
  by (simp add: logs_own_def event_lines_def)

lemma logs_own_update:
  "(\<And>f. sf_events (g f) = sf_events f) \<Longrightarrow> logs_own fs \<Longrightarrow> logs_own (update_files s g fs)"
  by (erule logs_own_cong [rotated]) (simp add: update_files_def)

lemma save_session_own:
  assumes "logs_own fs" "list_all (of_session s) (sr_events r)"
  shows "logs_own (snd (save_session env s r fs))"
proof -
  obtain p fs1 where e: "ensure_transcript_ref env s r fs = (p, fs1)" by (cases "ensure_transcript_ref env s r fs")
  have 1: "logs_own fs1"
    using assms(1) e by (auto simp: ensure_transcript_ref_def Let_def logs_own_update split: option.splits)
  have 2: "logs_own (snd (append_transcript_suffix env s r n p fs1))" for n
    using 1 by (auto simp: append_transcript_suffix_def elim: logs_own_cong [rotated])
  have 3: "logs_own (snd (append_event_suffix s r m fs2))" if "logs_own fs2" for m fs2
    using that assms(2)
    by (auto simp: append_event_suffix_def Let_def logs_own_def event_lines_def update_files_def list_all_iff
        dest: in_set_dropD split: option.splits if_splits)
  have 4: "logs_own (write_session_state s r a b fs3)" if "logs_own fs3" for a b fs3
    unfolding write_session_state_def by (rule logs_own_update [OF _ that]) simp
  show ?thesis
    using 1 2 3 4 assms(1)
    by (auto simp: save_session_def e Let_def split: sum.split prod.split) (metis snd_conv)+
qed

subsection \<open>Actions\<close>

text \<open>
  The session at hand and what was yielded after \<open>b\<close> satisfy a law \<open>G\<close> of events, and the files an
  invariant \<open>ok\<close>.
\<close>

definition lawful_state :: "(file_store \<Rightarrow> bool) \<Rightarrow> (runtime_event \<Rightarrow> bool) \<Rightarrow> runtime_event list \<Rightarrow> 'w turn_state \<Rightarrow> bool" where
  "lawful_state ok G b st \<longleftrightarrow> ok (t_files st) \<and> list_all G (sr_events (t_session st))
     \<and> (\<exists>es. t_out st = b @ es \<and> list_all G es)"

definition lawful_act :: "(file_store \<Rightarrow> bool) \<Rightarrow> (runtime_event \<Rightarrow> bool) \<Rightarrow> runtime_event list \<Rightarrow>
    ('w, 'a) act \<Rightarrow> ('a \<Rightarrow> bool) \<Rightarrow> bool" where
  "lawful_act ok G b m Q \<longleftrightarrow> hoare (lawful_state ok G b) m (\<lambda>x st. lawful_state ok G b st \<and> Q x) (\<lambda>_. lawful_state ok G b)"

definition lawful_outcome :: "(runtime_event \<Rightarrow> bool) \<Rightarrow> tool_outcome \<Rightarrow> bool" where
  "lawful_outcome G x \<longleftrightarrow> list_all G (fst x)"

named_theorems owning "actions that keep the law of a session"

text \<open>
  The law of a session: its own events satisfy it, as do those that are loaded, and saving a session
  with lawful events keeps the invariant of the files.
\<close>

locale turn_law =
  fixes env :: "'w harness_env" and s :: string and G :: "runtime_event \<Rightarrow> bool" and ok :: "file_store \<Rightarrow> bool"
  assumes own_event: "of_session s e \<Longrightarrow> G e"
    and loaded: "ok fs \<Longrightarrow> load_session (he_store env) fs s = Inr r \<Longrightarrow> list_all G (sr_events r)"
    and saved: "ok fs \<Longrightarrow> list_all G (sr_events r) \<Longrightarrow> ok (snd (save_session (he_store env) s r fs))"
begin

abbreviation turn_own :: "runtime_event list \<Rightarrow> 'w turn_state \<Rightarrow> bool" where
  "turn_own b st \<equiv> lawful_state ok G b st"

abbreviation owns :: "runtime_event list \<Rightarrow> ('w, 'a) act \<Rightarrow> ('a \<Rightarrow> bool) \<Rightarrow> bool" where
  "owns b m Q \<equiv> lawful_act ok G b m Q"

lemma ownsI: "(\<And>st. turn_own b st \<Longrightarrow> turn_own b (snd (m st)) \<and> (\<forall>x. fst (m st) = Inr x \<longrightarrow> Q x)) \<Longrightarrow> owns b m Q"
  unfolding lawful_act_def by (rule hoareI) (fastforce split: prod.split sum.split)

lemma ownsD: "owns b m Q \<Longrightarrow> turn_own b st \<Longrightarrow> m st = (r, st') \<Longrightarrow> turn_own b st' \<and> (\<forall>x. r = Inr x \<longrightarrow> Q x)"
  by (cases r) (auto simp: lawful_act_def dest: hoare_Inl hoare_Inr)

lemma owns_bind:
  assumes "owns b m Q" "\<And>x. Q x \<Longrightarrow> owns b (f x) R"
  shows "owns b (act_bind m f) R"
  unfolding lawful_act_def
proof (rule hoare_bind)
  show "hoare (turn_own b) m (\<lambda>x st. turn_own b st \<and> Q x) (\<lambda>_. turn_own b)" using assms(1) by (simp add: lawful_act_def)
  show "hoare (\<lambda>st. turn_own b st \<and> Q x) (f x) (\<lambda>x st. turn_own b st \<and> R x) (\<lambda>_. turn_own b)" for x
    using assms(2) [of x] by (cases "Q x") (simp_all add: lawful_act_def hoare_def)
qed

lemma owns_weaken: "owns b m Q \<Longrightarrow> (\<And>x. Q x \<Longrightarrow> R x) \<Longrightarrow> owns b m R"
  unfolding lawful_act_def by (erule hoare_conseq) auto

lemma owns_try: "owns b m Q \<Longrightarrow> (\<And>e. owns b (h e) Q) \<Longrightarrow> owns b (act_try m h) Q"
  unfolding lawful_act_def by (rule hoare_try)

lemma owns_seq [owning]: "owns b m (\<lambda>_. True) \<Longrightarrow> (\<And>x. owns b (f x) R) \<Longrightarrow> owns b (act_bind m f) R"
  by (rule owns_bind)

lemma owns_return: "Q x \<Longrightarrow> owns b (act_return x) Q"
  by (simp add: lawful_act_def hoare_return)

lemma owns_basic [owning]:
  "owns b (act_return x) (\<lambda>_. True)" "owns b (act_raise e) R" "owns b (act_get f) (\<lambda>_. True)"
  "owns b (act_lift a) (\<lambda>_. True)"
  by (simp_all add: lawful_act_def hoare_return hoare_raise hoare_get) (simp add: hoare_def act_lift_def split: sum.split)

lemma owns_cases [owning]:
  "owns b m R \<Longrightarrow> owns b m' R \<Longrightarrow> owns b (if c then m else m') R"
  "owns b m R \<Longrightarrow> (\<And>x. owns b (f x) R) \<Longrightarrow> owns b (case a of None \<Rightarrow> m | Some x \<Rightarrow> f x) R"
  "(\<And>x y. owns b (g x y) R) \<Longrightarrow> owns b (case p of (x, y) \<Rightarrow> g x y) R"
  "(\<And>x. owns b (l x) R) \<Longrightarrow> (\<And>x. owns b (k x) R) \<Longrightarrow> owns b (case r of Inl x \<Rightarrow> l x | Inr x \<Rightarrow> k x) R"
  by (simp_all split: option.split prod.split sum.split)

lemma owns_modify: "(\<And>st. turn_own b st \<Longrightarrow> turn_own b (f st)) \<Longrightarrow> owns b (act_modify f) (\<lambda>_. True)"
  by (simp add: lawful_act_def hoare_modify)

lemma owns_session [owning]:
  "(\<And>r. sr_events (f r) = sr_events r) \<Longrightarrow> owns b (modify_session f) (\<lambda>_. True)"
  unfolding modify_session_def by (rule owns_modify) (simp add: lawful_state_def)

lemma owns_frame [owning]:
  "owns b (append_message m) (\<lambda>_. True)" "owns b (set_transition t) (\<lambda>_. True)"
  "owns b (check_cancelled ctl) (\<lambda>_. True)"
  by (rule ownsI; simp add: append_message_def modify_session_def set_transition_def act_modify_def
      check_cancelled_def lawful_state_def split: option.split)+

lemma owns_yield: "list_all G es \<Longrightarrow> owns b (yield_events es) (\<lambda>_. True)"
  unfolding yield_events_def by (rule owns_modify) (auto simp: lawful_state_def)

lemma owns_record: "G e \<Longrightarrow> owns b (record_event e) (\<lambda>_. True)"
  unfolding record_event_def modify_session_def by (rule owns_modify) (simp add: lawful_state_def)

lemma owns_load: "owns b (harness_load env s) (\<lambda>r. list_all G (sr_events r))"
  by (rule ownsI) (auto simp: harness_load_def act_defs lawful_state_def loaded split: sum.split)

lemma owns_persist [owning]: "owns b (persist_session env s) (\<lambda>_. True)"
proof (rule ownsI)
  fix st :: "'w turn_state" assume t: "turn_own b st"
  then have "ok (snd (save_session (he_store env) s (t_session st) (t_files st)))"
    by (intro saved) (simp_all add: lawful_state_def)
  then show "turn_own b (snd (persist_session env s st)) \<and> (\<forall>x. fst (persist_session env s st) = Inr x \<longrightarrow> True)"
    using t by (auto simp: persist_session_def lawful_state_def split: prod.split sum.split)
qed

lemma owns_new_event: "owns b (append_new_event env s ty payload) G"
proof -
  have 1: "owns b (\<lambda>st. (Inr (F st), st\<lparr>t_clock := c st\<rparr>)) G" if "\<And>st. ev_session (F st) = s" for F c
    by (rule ownsI) (simp add: lawful_state_def own_event of_session_def that)
  have "owns b (harness_event env s ty payload) G"
    unfolding harness_event_def by (rule owns_bind [OF owns_load]) (rule 1, simp)
  then show ?thesis
    unfolding append_new_event_def by (rule owns_bind) (rule owns_bind [OF owns_record], simp_all add: owns_return)
qed

lemma owns_emit_terminal [owning]: "owns b (emit_terminal env s ty t) (\<lambda>_. True)"
  unfolding emit_terminal_def
  by (rule owns_bind [OF owns_new_event]) (intro owning owns_yield; simp)

lemma owns_fail_turn [owning]: "owns b (fail_turn env s t terminal) (\<lambda>_. True)"
  unfolding fail_turn_def by (intro owning)

subsection \<open>The model and the tools\<close>

lemma owns_consume_stream:
  "list_all G streamed \<Longrightarrow>
     owns b (consume_stream env s ctl es err agg final calls streamed) (\<lambda>(_, evs). list_all G evs)"
proof (induction es arbitrary: agg final calls streamed)
  case Nil
  then show ?case by (auto intro: owns_return owning split: option.split)
next
  case (Cons e es)
  have "owns b (act_bind (append_new_event env s ASSISTANT_DELTA p) (\<lambda>ev.
      act_bind (persist_session env s) (\<lambda>_. consume_stream env s ctl es err agg final calls (streamed @ [ev]))))
    (\<lambda>(_, evs). list_all G evs)" for p agg final calls
    by (rule owns_bind [OF owns_new_event], rule owns_seq [OF owns_persist], rule Cons.IH) (simp add: Cons.prems)
  then show ?case
    using Cons by (auto simp: Let_def intro!: owns_seq [OF owns_frame(3)] owning(2) owns_basic)
qed

lemma owns_model_once: "owns b (run_model_once env ms s ctl) (\<lambda>(_, evs). list_all G evs)"
  unfolding run_model_once_def
proof (intro owning)
  show "owns b (act_modify (\<lambda>st. st\<lparr>t_calls := n\<rparr>)) (\<lambda>_. True)" for n
    by (rule owns_modify) (simp add: lawful_state_def)
  show "owns b (case he_model env n ms of
       Streamed es err \<Rightarrow> consume_stream env s ctl es err [] None [] []
     | Answer late res \<Rightarrow>
         if late \<and> ctl_timeout ctl then act_raise TimedOutTurn
         else (case res of Inl e \<Rightarrow> act_raise (TurnTool (PyError (OtherError e)))
               | Inr r \<Rightarrow> act_return (r, []))) (\<lambda>(_, evs). list_all G evs)" for n
    by (auto intro!: owns_consume_stream owns_return owning split: model_answer.split sum.split)
qed

lemma owns_model_attempts:
  "owns b (model_attempts env ms s ctl n attempt err) (\<lambda>(_, evs). list_all G evs)"
proof (induction n arbitrary: attempt err)
  case (Suc n)
  show ?case
    unfolding model_attempts.simps
    by (rule owns_seq [OF owns_frame(3)], rule owns_cases(1), rule owns_basic, rule owns_try [OF owns_model_once])
       (auto intro!: owns_basic(2) Suc split: turn_exn.split)
qed (simp add: owning)

lemma owns_model_phase [owning]: "owns b (model_phase env s ctl) (\<lambda>_. True)"
  unfolding model_phase_def run_model_with_retries_def
proof (rule owns_seq [OF owns_basic(3)], rule owns_try)
  show "owns b (act_bind (model_attempts env ms s ctl n a err) (\<lambda>(response, streamed).
      act_bind (yield_events streamed) (\<lambda>_. act_return (Some response)))) (\<lambda>_. True)" for ms n a err
    by (rule owns_bind [OF owns_model_attempts]) (auto intro!: owning owns_yield)
  show "owns b (case e of
          CancelledTurn \<Rightarrow> act_bind (fail_turn env s ''aborted''
            (make_terminal STOPPED ''cancelled'' None None)) (\<lambda>_. act_return None)
        | TimedOutTurn \<Rightarrow> act_bind (fail_turn env s ''failed''
            (make_terminal FAILED ''timeout'' (Some True) None)) (\<lambda>_. act_return None)
        | RetryExhaustedTurn t \<Rightarrow> act_bind (fail_turn env s ''failed''
            (make_terminal FAILED ''retry_exhausted'' (Some False) (Some t))) (\<lambda>_. act_return None)
        | TurnTool x \<Rightarrow> act_raise e) (\<lambda>_. True)" for e
    by (auto intro!: owning split: turn_exn.split)
qed

abbreviation own_outcome :: "tool_outcome \<Rightarrow> bool" where
  "own_outcome \<equiv> lawful_outcome G"

lemma own_outcome_iff [simp]: "own_outcome (evs, x) = list_all G evs"
  by (simp add: lawful_outcome_def)

lemma owns_record_tool_events:
  "list_all G evs \<Longrightarrow> list_all G emitted \<Longrightarrow>
     owns b (record_tool_events env s en evs emitted results) own_outcome"
proof (induction evs arbitrary: emitted results)
  case Nil
  then show ?case by (auto intro: owns_return owning split: gen_end.split)
next
  case (Cons e evs)
  have rest: "owns b (if ev_type e = TOOL_RESULT then
        act_bind (act_lift (result_of_payload (ev_payload e))) (\<lambda>r.
        record_tool_events env s en evs (emitted @ [e]) (results @ [r]))
      else if ev_type e = TOOL_FAILED then act_return (emitted @ [e], results, x)
      else if ev_type e = TOOL_CANCELLED then act_return (emitted @ [e], results, y)
      else record_tool_events env s en evs (emitted @ [e]) results) own_outcome" for x y
    using Cons by (auto intro!: owns_seq [OF owns_basic(4)] owns_return)
  show ?case
    unfolding record_tool_events.simps
    by (rule owns_seq [OF owns_record], use Cons.prems in simp, rule owns_seq)
       (rule owns_cases(1), rule owns_persist, rule owns_basic, rule rest)
qed

lemma owns_tool_stream:
  assumes "ctx_session ctx = s"
  shows "owns b (execute_tool_stream env s cs ctx) own_outcome"
proof (rule ownsI)
  fix st :: "'w turn_state" assume t: "turn_own b st"
  obtain evs ex en where x: "execute_stream (he_exec env) stops_turn cs ctx (t_exec st) = (evs, ex, en)"
    by (cases "execute_stream (he_exec env) stops_turn cs ctx (t_exec st)")
  have "list_all G evs" using owned.batch [of ctx "he_exec env" stops_turn cs "t_exec st"]
    by (simp add: x assms list_all_iff own_event)
  from owns_record_tool_events [OF this, where emitted = "[]" and b = b and en = en and results = "[]"]
  have o: "owns b (record_tool_events env s en evs [] []) own_outcome" by simp
  obtain r st' where r: "record_tool_events env s en evs [] [] (st\<lparr>t_exec := ex\<rparr>) = (r, st')"
    by (cases "record_tool_events env s en evs [] [] (st\<lparr>t_exec := ex\<rparr>)")
  have "turn_own b (st\<lparr>t_exec := ex\<rparr>)" using t by (simp add: lawful_state_def)
  from ownsD [OF o this r] show "turn_own b (snd (execute_tool_stream env s cs ctx st))
      \<and> (\<forall>y. fst (execute_tool_stream env s cs ctx st) = Inr y \<longrightarrow> own_outcome y)"
    by (simp add: execute_tool_stream_def x r)
qed

lemma owns_append_results [owning]: "owns b (append_tool_results env rs) (\<lambda>_. True)"
proof (induction rs)
  case (Cons r rs)
  have "owns b (act_modify (\<lambda>st. st\<lparr>t_texts := f\<rparr>)) (\<lambda>_. True)" for f
    by (rule owns_modify) (simp add: lawful_state_def)
  then show ?case unfolding append_tool_results.simps Let_def by (intro owning Cons)
qed (simp add: owning)

subsection \<open>The turn\<close>

lemma owns_answer_phase [owning]: "owns b (answer_phase env s response) (\<lambda>_. True)"
  unfolding answer_phase_def by (intro owning owns_bind [OF owns_new_event] owns_yield) simp

lemma owns_block_turn [owning]: "owns b (block_turn env s r calls) (\<lambda>_. True)"
proof -
  have "owns b (act_modify (\<lambda>st. st\<lparr>t_transition := t, t_requires := q\<rparr>)) (\<lambda>_. True)" for t q
    by (rule owns_modify) (simp add: lawful_state_def)
  then show ?thesis unfolding block_turn_def by (intro owning owns_bind [OF owns_new_event] owns_yield) simp_all
qed

lemma owns_batch_raised [owning]: "owns b (batch_raised env s calls e) (\<lambda>_. True)"
  unfolding batch_raised_def by (auto intro!: owning split: turn_exn.split tool_error.split)

lemma owns_batch_reported [owning]: "owns b (batch_reported env s results error) (\<lambda>_. True)"
  unfolding batch_reported_def by (auto intro!: owning split: option.split tool_error.split)

lemma turn_context_session [simp]: "ctx_session (turn_context s r w t a) = s"
  by (simp add: turn_context_def)

lemma owns_tool_phase [owning]: "owns b (tool_phase env s workdir task response) (\<lambda>_. True)"
proof -
  have body: "owns b (act_bind (execute_tool_stream env s cs (turn_context s r workdir (Some task) []))
      (\<lambda>(evs, results, error). act_bind (yield_events evs) (\<lambda>_. act_return (Inr (results, error))))) (\<lambda>_. True)" for cs r
    by (rule owns_bind [OF owns_tool_stream]) (auto intro!: owns_seq [OF owns_yield] owns_basic)
  show ?thesis
    unfolding tool_phase_def Let_def
    by (rule owns_seq [OF owns_frame(1)], rule owns_seq [OF owns_frame(2)], rule owns_seq [OF owns_basic(3)],
        rule owns_seq, rule owns_try, rule body) (intro owning)+
qed

lemma owns_iteration [owning]: "owns b (turn_iteration env s ctl workdir task n) (\<lambda>_. True)"
proof -
  have "owns b (act_modify (\<lambda>st. st\<lparr>t_turn_count := c, t_transition := t\<rparr>)) (\<lambda>_. True)" for c t
    by (rule owns_modify) (simp add: lawful_state_def)
  then show ?thesis unfolding turn_iteration_def by (intro owning)
qed

lemma owns_loop [owning]: "owns b (turn_loop env s ctl workdir task n k) (\<lambda>_. True)"
  by (induction n arbitrary: k) (simp_all, (intro owning; assumption)+)

lemma workspace_events [simp]: "sr_events (snd (ensure_session_workspace env s r)) = sr_events r"
  by (simp add: ensure_session_workspace_def Let_def split: option.split)

lemma owns_start: "list_all G (sr_events r) \<Longrightarrow> owns b (act_modify (\<lambda>st. st\<lparr>t_session := r\<rparr>)) (\<lambda>_. True)"
  by (rule owns_modify) (simp add: lawful_state_def)

lemma owns_task [owning]: "owns b (new_turn_task_id env s) (\<lambda>_. True)"
  unfolding new_turn_task_id_def by (rule owns_bind [OF owns_load]) (rule owns_basic)

text \<open>A turn or a continuation starts with whatever session was at hand before.\<close>

lemma owns_from_load:
  assumes "\<And>r. list_all G (sr_events r) \<Longrightarrow>
      hoare (\<lambda>st. ok (t_files st) \<and> t_out st = b) (f r) (\<lambda>x st. turn_own b st \<and> Q x) (\<lambda>_ st. ok (t_files st))"
  shows "hoare (\<lambda>st. ok (t_files st) \<and> t_out st = b) (act_bind (harness_load env s) f)
      (\<lambda>x st. turn_own b st \<and> Q x) (\<lambda>_ st. ok (t_files st))"
proof (rule hoare_bind [where R = "\<lambda>r st. ok (t_files st) \<and> t_out st = b \<and> list_all G (sr_events r)"])
  show "hoare (\<lambda>st. ok (t_files st) \<and> t_out st = b) (harness_load env s)
      (\<lambda>r st. ok (t_files st) \<and> t_out st = b \<and> list_all G (sr_events r)) (\<lambda>_ st. ok (t_files st))"
    by (rule hoareI) (auto simp: harness_load_def act_defs loaded split: sum.split)
  show "hoare (\<lambda>st. ok (t_files st) \<and> t_out st = b \<and> list_all G (sr_events r)) (f r)
      (\<lambda>x st. turn_own b st \<and> Q x) (\<lambda>_ st. ok (t_files st))" for r
    using assms [of r] by (cases "list_all G (sr_events r)") (simp_all add: hoare_def)
qed

lemma owns_from_start:
  assumes "list_all G (sr_events r)" "owns b m Q"
  shows "hoare (\<lambda>st. ok (t_files st) \<and> t_out st = b) (act_bind (act_modify (\<lambda>st. st\<lparr>t_session := r\<rparr>)) (\<lambda>_. m))
      (\<lambda>x st. turn_own b st \<and> Q x) (\<lambda>_ st. ok (t_files st))"
proof (rule hoare_bind [where R = "\<lambda>_. turn_own b"])
  show "hoare (\<lambda>st. ok (t_files st) \<and> t_out st = b) (act_modify (\<lambda>st. st\<lparr>t_session := r\<rparr>)) (\<lambda>_. turn_own b) (\<lambda>_ st. ok (t_files st))"
    by (rule hoare_modify) (use assms(1) in \<open>simp add: lawful_state_def\<close>)
  show "hoare (turn_own b) m (\<lambda>x st. turn_own b st \<and> Q x) (\<lambda>_ st. ok (t_files st))"
    using assms(2) unfolding lawful_act_def by (rule hoare_conseq) (auto simp: lawful_state_def)
qed

lemma owns_execute_turn:
  "hoare (\<lambda>st. ok (t_files st) \<and> t_out st = b) (execute_turn_stream env input s ctl)
     (\<lambda>_. turn_own b) (\<lambda>_ st. ok (t_files st))"
proof -
  have m: "owns b (act_modify (\<lambda>st. st\<lparr>t_turn_count := n, t_transition := t, t_requires := q, t_task := task\<rparr>)) (\<lambda>_. True)" for n t q task
    by (rule owns_modify) (simp add: lawful_state_def)
  have "owns b (act_bind (new_turn_task_id env s) (\<lambda>task.
      act_bind (act_modify (\<lambda>st. st\<lparr>t_turn_count := 0, t_transition := ''turn_started'',
          t_requires := False, t_task := Some task\<rparr>)) (\<lambda>_.
      act_bind (modify_session (\<lambda>r. r\<lparr>sr_status := SESSION_RUNNING\<rparr>)) (\<lambda>_.
      act_bind (append_message \<lparr>sm_role = ''user'', sm_content = JStr input, sm_metadata = []\<rparr>) (\<lambda>_.
      act_bind (append_new_event env s TURN_STARTED [(''input'', JStr input)]) (\<lambda>e.
      act_bind (yield_events [e]) (\<lambda>_.
      act_bind (persist_session env s) (\<lambda>_.
      turn_loop env s ctl workdir task (nat (he_max_iterations env)) 0)))))))) (\<lambda>_. True)" for workdir
    by (rule owns_seq [OF owns_task], rule owns_seq [OF m],
        rule owns_seq [OF owns_session], simp, rule owns_seq [OF owns_frame(1)], rule owns_bind [OF owns_new_event],
        rule owns_seq [OF owns_yield], simp, rule owns_seq [OF owns_persist], rule owns_loop)
  note body = owns_from_start [OF _ this]
  have "hoare (\<lambda>st. ok (t_files st) \<and> t_out st = b) (execute_turn_stream env input s ctl)
     (\<lambda>x st. turn_own b st \<and> True) (\<lambda>_ st. ok (t_files st))"
    unfolding execute_turn_stream_def
  proof (rule owns_from_load)
    fix r :: session_record assume l: "list_all G (sr_events r)"
    obtain w r' where e: "ensure_session_workspace env s r = (w, r')" by (cases "ensure_session_workspace env s r")
    show "hoare (\<lambda>st. ok (t_files st) \<and> t_out st = b)
       (let (workdir, session) = ensure_session_workspace env s r in
      act_bind (act_modify (\<lambda>st. st\<lparr>t_session := session\<rparr>)) (\<lambda>_.
      act_bind (new_turn_task_id env s) (\<lambda>task.
      act_bind (act_modify (\<lambda>st. st\<lparr>t_turn_count := 0, t_transition := ''turn_started'',
          t_requires := False, t_task := Some task\<rparr>)) (\<lambda>_.
      act_bind (modify_session (\<lambda>r. r\<lparr>sr_status := SESSION_RUNNING\<rparr>)) (\<lambda>_.
      act_bind (append_message \<lparr>sm_role = ''user'', sm_content = JStr input, sm_metadata = []\<rparr>) (\<lambda>_.
      act_bind (append_new_event env s TURN_STARTED [(''input'', JStr input)]) (\<lambda>e.
      act_bind (yield_events [e]) (\<lambda>_.
      act_bind (persist_session env s) (\<lambda>_.
      turn_loop env s ctl workdir task (nat (he_max_iterations env)) 0)))))))))
     (\<lambda>x st. turn_own b st \<and> True) (\<lambda>_ st. ok (t_files st))"
      unfolding e Let_def prod.case using l workspace_events [of r] by (intro body) (simp add: e)
  qed
  then show ?thesis by simp
qed

lemma turn_keeps:
  "hoare (\<lambda>st. ok (t_files st)) (run_turn env input s ctl)
     (\<lambda>(es, _) st. ok (t_files st) \<and> list_all G es) (\<lambda>_ st. ok (t_files st))"
  unfolding run_turn_def
proof (rule hoare_bind [OF hoare_modify [where Q = "\<lambda>_ st. ok (t_files st) \<and> t_out st = []"]])
  let ?Q = "\<lambda>(es, _) st. ok (t_files st) \<and> list_all G es"
  show "hoare (\<lambda>st. ok (t_files st) \<and> t_out st = []) (act_bind (execute_turn_stream env input s ctl) (\<lambda>_.
     act_bind (act_get t_out) (\<lambda>events.
     if events = [] then act_raise (TurnTool (PyError (IndexErr ''list index out of range'')))
     else act_bind (act_lift (terminal_state_from_event (last events))) (\<lambda>terminal.
       act_return (events, terminal))))) ?Q (\<lambda>_ st. ok (t_files st))"
    by (rule hoare_bind [OF owns_execute_turn])
       (auto simp: hoare_def act_defs lawful_state_def split: sum.split)
qed simp

subsection \<open>Continuations\<close>

abbreviation own_reply :: "runtime_event list \<times> terminal_state \<Rightarrow> bool" where
  "own_reply x \<equiv> list_all G (fst x)"

lemma owns_reject: "owns b (reject_continuation env s) own_reply"
  unfolding reject_continuation_def Let_def
  by (rule owns_seq [OF owns_session], simp, rule owns_seq [OF owns_persist], rule owns_bind [OF owns_new_event])
     (simp add: owns_return)

lemma owns_failed:
  "list_all G events \<Longrightarrow> owns b (failed_continuation env s events terminal) own_reply"
  unfolding failed_continuation_def
  by (rule owns_bind [OF owns_new_event], rule owns_seq [OF owns_session], simp, rule owns_seq [OF owns_persist])
     (simp add: owns_return)

lemma owns_finish:
  assumes "list_all G events"
  shows "owns b (finish_continuation env s events results) own_reply"
proof -
  have answer: "owns b (case mr_message response of
          None \<Rightarrow> act_return []
        | Some m \<Rightarrow> if mr_tool_calls response \<noteq> [] then act_return []
            else act_bind (append_message \<lparr>sm_role = ''assistant'', sm_content = JStr m, sm_metadata = []\<rparr>) (\<lambda>_.
              act_bind (append_new_event env s ASSISTANT_MESSAGE [(''message'', JStr m)]) (\<lambda>e. act_return [e])))
      (list_all G)" for response
    by (auto intro!: owns_return owns_seq [OF owns_frame(1)] owns_bind [OF owns_new_event] split: option.split)
  have last: "owns b (act_bind (append_new_event env s TURN_COMPLETED p) (\<lambda>e.
      act_bind (modify_session (\<lambda>r. r\<lparr>sr_status := SESSION_IDLE\<rparr>)) (\<lambda>_.
      act_bind (persist_session env s) (\<lambda>_. act_return (events @ answer @ [e], terminal))))) own_reply"
    if "list_all G answer" for answer p terminal
    by (rule owns_bind [OF owns_new_event], rule owns_seq [OF owns_session], simp, rule owns_seq [OF owns_persist])
       (simp add: owns_return that assms)
  have ask: "owns b (case x of (response, _) \<Rightarrow> act_bind (F response) k) own_reply"
    if "\<And>response. owns b (F response) (list_all G)"
      "\<And>answer. list_all G answer \<Longrightarrow> owns b (k answer) own_reply" for x F k
    using owns_bind [OF that(1) that(2)] by (cases x) simp
  show ?thesis
    unfolding finish_continuation_def Let_def
    by (rule owns_seq [OF owns_session], simp, rule owns_seq [OF owns_append_results], rule owns_seq [OF owns_basic(3)],
        rule owns_bind [OF owns_model_once], rule ask, rule answer, rule last)
qed

lemma owns_approve: "owns b (approve_continuation env s workdir task) own_reply"
proof -
  have "owns b (case x of (events, results, error) \<Rightarrow> (case error of
          Some (ToolExecutionFailedError n x) \<Rightarrow> failed_continuation env s events
            (make_terminal FAILED ''tool_execution_failed'' None
              (Some (tool_error_text (ToolExecutionFailedError n x))))
        | Some (ToolCancelledError n x) \<Rightarrow> failed_continuation env s events
            (make_terminal STOPPED ''tool_cancelled'' None
              (Some (tool_error_text (ToolCancelledError n x))))
        | _ \<Rightarrow> finish_continuation env s events results)) own_reply" if "own_outcome x" for x
    using that by (cases x) (auto intro: owns_failed owns_finish split: option.split tool_error.split)
  then show ?thesis
    unfolding approve_continuation_def
    by (intro owns_seq [OF owns_session] owns_seq [OF owns_basic(3)] owns_bind [OF owns_tool_stream]) (simp, simp, assumption)
qed

lemma continuation_keeps:
  "hoare (\<lambda>st. ok (t_files st)) (continue_turn env s approved)
     (\<lambda>(es, _) st. ok (t_files st) \<and> list_all G es) (\<lambda>_ st. ok (t_files st))"
proof -
  have m: "owns b (act_modify (\<lambda>st. st\<lparr>t_task := task\<rparr>)) (\<lambda>_. True)" for b task
    by (rule owns_modify) (simp add: lawful_state_def)
  have "owns b (act_bind (new_turn_task_id env s) (\<lambda>task. act_bind (act_modify (\<lambda>st. st\<lparr>t_task := Some task\<rparr>)) (\<lambda>_.
        if approved then approve_continuation env s workdir task else reject_continuation env s))) own_reply" for b workdir
    by (rule owns_seq [OF owns_task], rule owns_seq [OF m]) (simp add: owns_approve owns_reject)
  note body = owns_from_start [OF _ this]
  have "hoare (\<lambda>st. ok (t_files st) \<and> t_out st = b) (continue_turn env s approved)
     (\<lambda>x st. turn_own b st \<and> own_reply x) (\<lambda>_ st. ok (t_files st))" for b
    unfolding continue_turn_def
  proof (rule owns_from_load)
    fix r :: session_record assume l: "list_all G (sr_events r)"
    obtain w r' where e: "ensure_session_workspace env s r = (w, r')" by (cases "ensure_session_workspace env s r")
    have r': "list_all G (sr_events r')" using l workspace_events [of r] by (simp add: e)
    show "hoare (\<lambda>st. ok (t_files st) \<and> t_out st = b)
       (if sr_status r \<noteq> SESSION_REQUIRES_ACTION \<or> sr_pending r = [] then
          act_raise (TurnTool (PyError (ValueError ''Session has no pending requires_action continuation'')))
        else (let (workdir, session) = ensure_session_workspace env s r in
          act_bind (act_modify (\<lambda>st. st\<lparr>t_session := session\<rparr>)) (\<lambda>_.
          act_bind (new_turn_task_id env s) (\<lambda>task.
          act_bind (act_modify (\<lambda>st. st\<lparr>t_task := Some task\<rparr>)) (\<lambda>_.
          if approved then approve_continuation env s workdir task else reject_continuation env s)))))
       (\<lambda>x st. turn_own b st \<and> own_reply x) (\<lambda>_ st. ok (t_files st))"
      unfolding e Let_def prod.case using body [OF r'] by (auto intro!: hoare_raise)
  qed
  note h = this
  show ?thesis
  proof (rule hoareI)
    fix st :: "'w turn_state" assume "ok (t_files st)"
    with h [of "t_out st"] show "case continue_turn env s approved st of (Inl e, st') \<Rightarrow> ok (t_files st')
      | (Inr x, st') \<Rightarrow> (\<lambda>(es, _) st. ok (t_files st) \<and> list_all G es) x st'"
      by (fastforce simp: hoare_def lawful_state_def split: prod.splits sum.splits)
  qed
qed

end

interpretation own_turn: turn_law env s "of_session s" logs_own for env :: "'w harness_env" and s
  by unfold_locales (simp_all add: load_session_own save_session_own)

text \<open>A turn never touches a lease.\<close>

lemma save_session_lease: "sf_lease (fs_session (snd (save_session env s r fs)) x) = sf_lease (fs_session fs x)"
proof -
  obtain p fs1 where e: "ensure_transcript_ref env s r fs = (p, fs1)" by (cases "ensure_transcript_ref env s r fs")
  have 1: "sf_lease (fs_session fs1 x) = sf_lease (fs_session fs x)"
    using e by (auto simp: ensure_transcript_ref_def Let_def update_files_def split: option.splits)
  have 2: "sf_lease (fs_session (snd (append_transcript_suffix env s r n p fs1)) x) = sf_lease (fs_session fs1 x)" for n
    by (simp add: append_transcript_suffix_def)
  have 3: "sf_lease (fs_session (snd (append_event_suffix s r m f)) x) = sf_lease (fs_session f x)" for m f
    by (simp add: append_event_suffix_def Let_def update_files_def)
  have 4: "sf_lease (fs_session (write_session_state s r a b f) x) = sf_lease (fs_session f x)" for a b f
    by (simp add: write_session_state_def update_files_def)
  show ?thesis
    using 1 2 3 4 by (auto simp: save_session_def e Let_def split: sum.split prod.split) (metis snd_conv)+
qed

interpretation lease_turn: turn_law env s "\<lambda>_. True" "\<lambda>fs. sf_lease (fs_session fs x) = l" for env :: "'w harness_env" and s x l
  by unfold_locales (simp_all add: save_session_lease list_all_iff)

end
