(* ===== verification/Gateway.thy ===== *)
theory Gateway
  imports SessionStore TaskStore Effects
begin

text \<open>
  The gateway between chat channels and sessions: \<^verbatim>\<open>gateway/models.py\<close>, \<^verbatim>\<open>control.py\<close>,
  \<^verbatim>\<open>projector.py\<close>, \<^verbatim>\<open>binding_store.py\<close> and \<^verbatim>\<open>core.py\<close>, without the events for observability.
  The session runtime behind it is the record \<open>session_runtime\<close> of the operations of the
  \<open>SessionAdapter\<close> protocol over a state \<open>'s\<close> of its own; \<open>LocalSessions\<close> gives the in-process one.

  A \<open>SessionBinding\<close> is shared with the table of bindings and changed in place: an operation on the
  binding of a key updates the table.  The binding files are keyed by their session directory and
  their name; session ids are taken to name directories of their own, and file names to have no
  character that a glob pattern interprets.  A float in a JSON value is
  turned into an integer by \<open>trunc\<close>, from its decimal text.
\<close>

subsection \<open>Models\<close>

record channel_identity =
  ci_channel :: string
  ci_user :: "string option"
  ci_conversation :: "string option"
  ci_device :: "string option"

definition channel_identity_to_dict :: "channel_identity \<Rightarrow> json_object" where
  "channel_identity_to_dict c = [(''channel_type'', JStr (ci_channel c)), (''user_id'', jopt_str (ci_user c)),
     (''conversation_id'', jopt_str (ci_conversation c)), (''device_id'', jopt_str (ci_device c))]"

text \<open>\<open>cls(**data)\<close>, for values of the annotated types.\<close>

definition channel_identity_from_dict :: "json_object \<Rightarrow> py_error + channel_identity" where
  "channel_identity_from_dict d =
     (if \<not> list_all (\<lambda>k. k \<in> set [''channel_type'', ''user_id'', ''conversation_id'', ''device_id'']) (dict_keys d)
      then Inl (TypeError ''unexpected keyword argument'')
      else case dict_get d ''channel_type'' of
        None \<Rightarrow> Inl (TypeError ''missing required argument'')
      | Some c \<Rightarrow> Inr \<lparr>ci_channel = py_str c, ci_user = field_opt_str d ''user_id'',
          ci_conversation = field_opt_str d ''conversation_id'', ci_device = field_opt_str d ''device_id''\<rparr>)"

record inbound_envelope =
  ie_identity :: json_object
  ie_kind :: string
  ie_payload :: json_object
  ie_delivery :: json_object

record normalized_message =
  nm_channel :: string
  nm_conversation :: string
  nm_sender :: "string option"
  nm_message :: "string option"
  nm_content :: string
  nm_attachments :: "json_object list"
  nm_metadata :: json_object

record session_binding =
  sb_identity :: json_object
  sb_conversation :: string
  sb_session :: string
  sb_agent :: "string option"
  sb_adapter :: "string option"
  sb_event_types :: "string list"
  sb_offset :: int
  sb_last_event :: "string option"
  sb_restore_marker :: "string option"

definition session_binding_to_dict :: "session_binding \<Rightarrow> json_object" where
  "session_binding_to_dict b = [(''channel_identity'', JDict (sb_identity b)), (''conversation_id'', JStr (sb_conversation b)),
     (''session_id'', JStr (sb_session b)), (''agent_id'', jopt_str (sb_agent b)), (''adapter_name'', jopt_str (sb_adapter b)),
     (''event_types'', JList (map JStr (sb_event_types b))), (''checkpoint_event_offset'', JInt (sb_offset b)),
     (''checkpoint_last_event_id'', jopt_str (sb_last_event b)), (''restore_marker'', jopt_str (sb_restore_marker b))]"

text \<open>\<open>int(x)\<close> of a number or a string.\<close>

definition number_of :: "(string \<Rightarrow> py_error + int) \<Rightarrow> json \<Rightarrow> (py_error + int) option" where
  "number_of trunc v = (case v of
     JInt i \<Rightarrow> Some (Inr i) | JBool b \<Rightarrow> Some (Inr (if b then 1 else 0))
   | JFloat r \<Rightarrow> Some (trunc r) | JStr s \<Rightarrow> Some (py_int s) | _ \<Rightarrow> None)"

definition session_binding_from_dict :: "(string \<Rightarrow> py_error + int) \<Rightarrow> json_object \<Rightarrow> py_error + session_binding" where
  "session_binding_from_dict trunc d =
     ebind (case number_of trunc (dict_get_default d ''checkpoint_event_offset'' (JInt 0)) of
         None \<Rightarrow> Inr 0 | Some r \<Rightarrow> r) (\<lambda>offset.
     ebind (field_str d ''conversation_id'') (\<lambda>conversation.
     ebind (field_str d ''session_id'') (\<lambda>session.
     Inr \<lparr>sb_identity = field_dict d ''channel_identity'', sb_conversation = conversation, sb_session = session,
          sb_agent = field_opt_str d ''agent_id'', sb_adapter = field_opt_str d ''adapter_name'',
          sb_event_types = (case as_list (jget d ''event_types'') of None \<Rightarrow> [] | Some l \<Rightarrow> List.map_filter as_str l),
          sb_offset = offset, sb_last_event = field_opt_str d ''checkpoint_last_event_id'',
          sb_restore_marker = field_opt_str d ''restore_marker''\<rparr>)))"

record egress_envelope =
  ee_channel :: string
  ee_conversation :: string
  ee_session :: string
  ee_event :: json_object

subsection \<open>Control and projection\<close>

definition supported_controls :: "string list" where
  "supported_controls = [''interrupt'', ''resume'', ''permission_response'', ''mode_change'']"

text \<open>The subtype and whether it is accepted.\<close>

definition route_control_message :: "json_object \<Rightarrow> string \<times> bool" where
  "route_control_message c = (let subtype = py_str (dict_get_default c ''subtype'' (JStr ''unknown'')) in
     (subtype, subtype \<in> set supported_controls))"

definition project_runtime_event :: "runtime_event \<Rightarrow> session_binding \<Rightarrow> py_error + egress_envelope option" where
  "project_runtime_event e b =
     (if sb_event_types b \<noteq> [] \<and> event_type_value (ev_type e) \<notin> set (sb_event_types b) then Inr None
      else ebind (field_str (sb_identity b) ''channel_type'') (\<lambda>channel.
        Inr (Some \<lparr>ee_channel = channel, ee_conversation = sb_conversation b, ee_session = sb_session b,
          ee_event = event_to_dict e\<rparr>)))"

subsection \<open>Binding files\<close>

text \<open>Files directly under the root, and those of the session directories.\<close>

record binding_files =
  bf_direct :: "(string, json) pydict"
  bf_sessions :: "(string \<times> string, json) pydict"

definition no_bindings :: binding_files where
  "no_bindings = \<lparr>bf_direct = [], bf_sessions = []\<rparr>"

definition binding_filename :: "string \<Rightarrow> string \<Rightarrow> string" where
  "binding_filename channel conversation =
     map (\<lambda>c. if c = slash then CHR ''_'' else c) (channel @ ''__'' @ conversation) @ ''.json''"

definition save_binding :: "session_binding \<Rightarrow> binding_files \<Rightarrow> (py_error + unit) \<times> binding_files" where
  "save_binding b fs = (case field_str (sb_identity b) ''channel_type'' of
     Inl e \<Rightarrow> (Inl e, fs)
   | Inr channel \<Rightarrow> (Inr (), fs\<lparr>bf_sessions := dict_set (sb_session b, binding_filename channel (sb_conversation b))
       (sorted_json (JDict (session_binding_to_dict b))) (bf_sessions fs)\<rparr>))"

text \<open>The first file in the order of the session directories.\<close>

definition find_binding :: "binding_files \<Rightarrow> string \<Rightarrow> string \<Rightarrow> json option" where
  "find_binding fs channel conversation = (let name = binding_filename channel conversation in
     case dict_get (bf_direct fs) name of
       Some j \<Rightarrow> Some j
     | None \<Rightarrow> (case sort_key (\<lambda>e. fst (fst e)) (filter (\<lambda>e. snd (fst e) = name) (bf_sessions fs)) of
           [] \<Rightarrow> None | e # _ \<Rightarrow> Some (snd e)))"

definition load_binding ::
  "(string \<Rightarrow> py_error + int) \<Rightarrow> binding_files \<Rightarrow> string \<Rightarrow> string \<Rightarrow> py_error + session_binding option" where
  "load_binding trunc fs channel conversation = (case find_binding fs channel conversation of
     None \<Rightarrow> Inr None
   | Some j \<Rightarrow> ebind (case as_dict j of None \<Rightarrow> Inl (TypeError ''binding file'') | Some d \<Rightarrow> session_binding_from_dict trunc d)
       (\<lambda>b. Inr (Some b)))"

subsection \<open>The gateway\<close>

record 's session_runtime =
  sa_spawn :: "string \<Rightarrow> ('s, unit) eff"
  sa_write :: "string \<Rightarrow> string \<Rightarrow> ('s, runtime_event list) eff"
  sa_observe :: "string \<Rightarrow> int \<Rightarrow> ('s, runtime_event list) eff"
  sa_continue :: "string \<Rightarrow> bool \<Rightarrow> ('s, runtime_event list) eff"
  sa_kill :: "string \<Rightarrow> ('s, unit) eff"
  sa_checkpoint :: "string \<Rightarrow> ('s, session_checkpoint) eff"
  sa_marker :: "string \<Rightarrow> ('s, string option) eff"

type_synonym chat = "string \<times> string"

text \<open>The types each registered channel accepts stand for its adapter.\<close>

record 's gateway =
  gw_runtime :: 's
  gw_bindings :: "(chat, session_binding) pydict"
  gw_channels :: "(string, string list) pydict"
  gw_store :: "binding_files option"

definition new_gateway :: "'s \<Rightarrow> binding_files option \<Rightarrow> 's gateway" where
  "new_gateway rt store = \<lparr>gw_runtime = rt, gw_bindings = [], gw_channels = [], gw_store = store\<rparr>"

definition on_runtime :: "('s, 'a) eff \<Rightarrow> ('s gateway, 'a) eff" where
  "on_runtime m g = (let (r, s') = m (gw_runtime g) in (r, g\<lparr>gw_runtime := s'\<rparr>))"

definition register_channel :: "string \<Rightarrow> string list \<Rightarrow> 's gateway \<Rightarrow> 's gateway" where
  "register_channel channel accepted g = g\<lparr>gw_channels := dict_set channel accepted (gw_channels g)\<rparr>"

definition receive_input :: "inbound_envelope \<Rightarrow> py_error + normalized_message" where
  "receive_input e =
     ebind (field_str (ie_identity e) ''channel_type'') (\<lambda>channel.
     Inr \<lparr>nm_channel = channel,
          nm_conversation = py_str (dict_get_default (ie_identity e) ''conversation_id'' (JStr ''default'')),
          nm_sender = field_opt_str (ie_identity e) ''user_id'',
          nm_message = field_opt_str (ie_delivery e) ''message_id'',
          nm_content = py_str (dict_get_default (ie_payload e) ''content'' (JStr [])),
          nm_attachments = (case as_list (jget (ie_payload e) ''attachments'') of None \<Rightarrow> [] | Some l \<Rightarrow> List.map_filter as_dict l),
          nm_metadata = ie_delivery e\<rparr>)"

text \<open>\<open>conversation_id or "default"\<close>.\<close>

definition conversation_of :: "channel_identity \<Rightarrow> string" where
  "conversation_of c = (case ci_conversation c of None \<Rightarrow> ''default'' | Some s \<Rightarrow> if s = [] then ''default'' else s)"

definition set_binding :: "chat \<Rightarrow> session_binding \<Rightarrow> ('s gateway, unit) eff" where
  "set_binding k b = modify (\<lambda>g. g\<lparr>gw_bindings := dict_set k b (gw_bindings g)\<rparr>)"

text \<open>\<open>_sync_binding_checkpoint\<close>; the binding of a key changes in the table as well.\<close>

definition sync_binding :: "'s session_runtime \<Rightarrow> chat option \<Rightarrow> session_binding \<Rightarrow> ('s gateway, session_binding) eff" where
  "sync_binding rt key b =
     bind (on_runtime (sa_checkpoint rt (sb_session b))) (\<lambda>cp.
     (let b1 = b\<lparr>sb_offset := int (cp_offset cp), sb_last_event := cp_last cp\<rparr> in
      bind (case key of None \<Rightarrow> ret () | Some k \<Rightarrow> set_binding k b1) (\<lambda>_.
      bind (on_runtime (sa_marker rt (sb_session b))) (\<lambda>marker.
      (let b2 = b1\<lparr>sb_restore_marker := marker\<rparr> in
       bind (case key of None \<Rightarrow> ret () | Some k \<Rightarrow> set_binding k b2) (\<lambda>_. ret b2))))))"

definition persist_binding :: "session_binding \<Rightarrow> ('s gateway, unit) eff" where
  "persist_binding b g = (case gw_store g of
     None \<Rightarrow> (Inr (), g)
   | Some fs \<Rightarrow> (let (r, fs') = save_binding b fs in (r, g\<lparr>gw_store := Some fs'\<rparr>)))"

definition default_event_types :: "string \<Rightarrow> 's gateway \<Rightarrow> string list" where
  "default_event_types channel g = dict_get_default (gw_channels g) channel []"

definition bind_session :: "'s session_runtime \<Rightarrow> channel_identity \<Rightarrow> string \<Rightarrow> string list option \<Rightarrow> string option \<Rightarrow>
    ('s gateway, session_binding) eff" where
  "bind_session rt c s types adapter =
     (let k = (ci_channel c, conversation_of c) in
      bind (gets (\<lambda>g. dict_get (gw_bindings g) k)) (\<lambda>existing.
      if (case existing of None \<Rightarrow> False | Some b \<Rightarrow> sb_session b \<noteq> s)
      then throw (ValueError ''A chat can only be bound to one session'')
      else bind (gets (\<lambda>g. case types of Some ts \<Rightarrow> ts | None \<Rightarrow> default_event_types (ci_channel c) g)) (\<lambda>resolved.
        (let b = \<lparr>sb_identity = channel_identity_to_dict c, sb_conversation = conversation_of c, sb_session = s,
               sb_agent = None, sb_adapter = adapter, sb_event_types = resolved, sb_offset = 0,
               sb_last_event = None, sb_restore_marker = None\<rparr> in
         bind (set_binding k b) (\<lambda>_.
         bind (on_runtime (sa_spawn rt s)) (\<lambda>_.
         bind (sync_binding rt (Some k) b) (\<lambda>b'.
         bind (persist_binding b') (\<lambda>_. ret b'))))))))"

text \<open>\<open>_get_binding\<close>: the binding in memory, or the restored one.\<close>

definition get_binding :: "(string \<Rightarrow> py_error + int) \<Rightarrow> 's session_runtime \<Rightarrow> chat \<Rightarrow> ('s gateway, session_binding) eff" where
  "get_binding trunc rt k =
     bind (gets (\<lambda>g. dict_get (gw_bindings g) k)) (\<lambda>cached. case cached of
       Some b \<Rightarrow> ret b
     | None \<Rightarrow>
         bind (reads (\<lambda>g. case gw_store g of None \<Rightarrow> Inr None | Some fs \<Rightarrow> load_binding trunc fs (fst k) (snd k))) (\<lambda>restored.
         case restored of
           None \<Rightarrow> throw (KeyError (fst k @ '','' @ snd k))
         | Some b \<Rightarrow> bind (set_binding k b) (\<lambda>_.
             bind (on_runtime (sa_spawn rt (sb_session b))) (\<lambda>_. ret b))))"

fun project_events :: "runtime_event list \<Rightarrow> session_binding \<Rightarrow> py_error + egress_envelope list" where
  "project_events [] b = Inr []"
| "project_events (e # es) b = ebind (project_runtime_event e b) (\<lambda>x.
     ebind (project_events es b) (\<lambda>xs. Inr (case x of None \<Rightarrow> xs | Some v \<Rightarrow> v # xs)))"

text \<open>\<open>_project_many\<close>; \<open>key\<close> is the key of the binding, absent for a copy.\<close>

definition project_many :: "'s session_runtime \<Rightarrow> chat option \<Rightarrow> session_binding \<Rightarrow> runtime_event list \<Rightarrow>
    ('s gateway, egress_envelope list) eff" where
  "project_many rt key b events =
     bind (sync_binding rt key b) (\<lambda>b'.
     bind (lift (project_events events b')) (\<lambda>projected.
     bind (persist_binding b') (\<lambda>_. ret projected)))"

definition observe_session :: "(string \<Rightarrow> py_error + int) \<Rightarrow> 's session_runtime \<Rightarrow> channel_identity \<Rightarrow> int \<Rightarrow>
    ('s gateway, egress_envelope list) eff" where
  "observe_session trunc rt c after = (let k = (ci_channel c, conversation_of c) in
     bind (get_binding trunc rt k) (\<lambda>b.
     bind (on_runtime (sa_observe rt (sb_session b) after)) (\<lambda>events. project_many rt (Some k) b events)))"

definition resume_bound_session :: "(string \<Rightarrow> py_error + int) \<Rightarrow> 's session_runtime \<Rightarrow> channel_identity \<Rightarrow> int option \<Rightarrow>
    ('s gateway, egress_envelope list) eff" where
  "resume_bound_session trunc rt c after = (let k = (ci_channel c, conversation_of c) in
     bind (get_binding trunc rt k) (\<lambda>b.
     bind (on_runtime (sa_observe rt (sb_session b) (case after of None \<Rightarrow> sb_offset b | Some n \<Rightarrow> n)))
       (\<lambda>events. project_many rt (Some k) b events)))"

definition process_user_message :: "(string \<Rightarrow> py_error + int) \<Rightarrow> 's session_runtime \<Rightarrow> inbound_envelope \<Rightarrow>
    ('s gateway, egress_envelope list) eff" where
  "process_user_message trunc rt e =
     bind (lift (receive_input e)) (\<lambda>n. let k = (nm_channel n, nm_conversation n) in
     bind (get_binding trunc rt k) (\<lambda>b.
     bind (on_runtime (sa_write rt (sb_session b) (nm_content n))) (\<lambda>events. project_many rt (Some k) b events)))"

text \<open>The permission response and the resumption of \<open>process_control_message\<close>.\<close>

definition resume_offset :: "(string \<Rightarrow> py_error + int) \<Rightarrow> json_object \<Rightarrow> py_error + int option" where
  "resume_offset trunc c = (case number_of trunc (jget c ''after'') of
     None \<Rightarrow> Inr None | Some r \<Rightarrow> ebind r (\<lambda>i. Inr (Some i)))"

definition control_target :: "string option \<Rightarrow> session_binding \<Rightarrow> string" where
  "control_target override b = (case override of None \<Rightarrow> sb_session b | Some s \<Rightarrow> if s = [] then sb_session b else s)"

text \<open>The binding whose session the events are delivered for: a copy for another session.\<close>

definition projection_binding :: "string \<Rightarrow> session_binding \<Rightarrow> session_binding" where
  "projection_binding target b = (if target = sb_session b then b else b\<lparr>sb_session := target, sb_agent := None\<rparr>)"

definition apply_control :: "(string \<Rightarrow> py_error + int) \<Rightarrow> 's session_runtime \<Rightarrow> channel_identity \<Rightarrow> json_object \<Rightarrow>
    string \<Rightarrow> string \<Rightarrow> session_binding \<Rightarrow> ('s gateway, egress_envelope list) eff" where
  "apply_control trunc rt c control subtype target b =
     (if subtype = ''permission_response'' then
        bind (on_runtime (sa_continue rt target (truthy (jget control ''approved'')))) (\<lambda>events.
        project_many rt (if target = sb_session b then Some (ci_channel c, conversation_of c) else None)
          (projection_binding target b) events)
      else if subtype = ''interrupt'' then bind (on_runtime (sa_kill rt target)) (\<lambda>_. ret [])
      else if subtype = ''resume'' then
        bind (lift (resume_offset trunc control)) (\<lambda>after. resume_bound_session trunc rt c after)
      else ret [])"

definition process_control_message :: "(string \<Rightarrow> py_error + int) \<Rightarrow> 's session_runtime \<Rightarrow> channel_identity \<Rightarrow>
    json_object \<Rightarrow> string option \<Rightarrow> ('s gateway, egress_envelope list) eff" where
  "process_control_message trunc rt c control override =
     (let (subtype, accepted) = route_control_message control in
      if \<not> accepted then ret []
      else bind (get_binding trunc rt (ci_channel c, conversation_of c)) (\<lambda>b.
        apply_control trunc rt c control subtype (control_target override b) b))"

definition process_input :: "(string \<Rightarrow> py_error + int) \<Rightarrow> 's session_runtime \<Rightarrow> inbound_envelope \<Rightarrow>
    ('s gateway, egress_envelope list) eff" where
  "process_input trunc rt e =
     (if ie_kind e = ''user_message'' \<or> ie_kind e = ''supplement_input'' then process_user_message trunc rt e
      else if ie_kind e = ''control'' then
        bind (lift (channel_identity_from_dict (ie_identity e))) (\<lambda>c.
        process_control_message trunc rt c (ie_payload e) None)
      else ret [])"

end
