(* ===== verification/LocalSessions.thy ===== *)
theory LocalSessions
  imports Gateway Harness
begin

text \<open>
  \<open>InProcessSessionAdapter\<close> of \<^verbatim>\<open>gateway/session_adapter.py\<close>: the session runtime of a gateway that
  runs the harness in the same process.  Its state is the state of the harness and the handles it
  gave out.  What a turn raises reaches the gateway as an exception.
\<close>

record local_handle =
  lh_session :: string
  lh_instance :: string
  lh_agent :: string
  lh_status :: string
  lh_done :: bool
  lh_activities :: "string list"
  lh_current :: "string option"

record 'w local_sessions =
  ls_turn :: "'w turn_state"
  ls_handles :: "(string, local_handle) pydict"

text \<open>The runtime with the agent and the gateway it works for.\<close>

record 'w adapter_env =
  ad_harness :: "'w harness_env"
  ad_agent :: string
  ad_gateway :: string

fun turn_error :: "turn_exn \<Rightarrow> py_error" where
  "turn_error (TurnTool (PyError e)) = e"
| "turn_error e = OtherError (turn_exn_text e)"

definition in_harness :: "('w, 'a) act \<Rightarrow> ('w local_sessions, 'a) eff" where
  "in_harness m st = (case m (ls_turn st) of
     (Inl e, t) \<Rightarrow> (Inl (turn_error e), st\<lparr>ls_turn := t\<rparr>)
   | (Inr x, t) \<Rightarrow> (Inr x, st\<lparr>ls_turn := t\<rparr>))"

text \<open>An operation of the session store below the harness.\<close>

definition in_store :: "(file_store \<Rightarrow> (py_error + 'a) \<times> file_store) \<Rightarrow> ('w local_sessions, 'a) eff" where
  "in_store m st = (let (r, fs) = m (t_files (ls_turn st)) in (r, st\<lparr>ls_turn := (ls_turn st)\<lparr>t_files := fs\<rparr>\<rparr>))"

definition harness_instance_id :: "'w adapter_env \<Rightarrow> string \<Rightarrow> string" where
  "harness_instance_id env s = ad_gateway env @ '':'' @ s"

definition prepared_session :: "'w adapter_env \<Rightarrow> string \<Rightarrow> session_record \<Rightarrow> session_record" where
  "prepared_session env s r = snd (ensure_session_workspace (ad_harness env) s
     (if sr_agent r = None then r\<lparr>sr_agent := Some (ad_agent env)\<rparr> else r))"

definition set_handle :: "string \<Rightarrow> local_handle \<Rightarrow> ('w local_sessions, unit) eff" where
  "set_handle s h = modify (\<lambda>st. st\<lparr>ls_handles := dict_set s h (ls_handles st)\<rparr>)"

definition local_spawn :: "'w adapter_env \<Rightarrow> string \<Rightarrow> ('w local_sessions, local_handle) eff" where
  "local_spawn env s = bind (gets (\<lambda>st. dict_get (ls_handles st) s)) (\<lambda>cached. case cached of
     Some h \<Rightarrow> ret h
   | None \<Rightarrow>
       bind (in_store (\<lambda>fs. (load_session (he_store (ad_harness env)) fs s, fs))) (\<lambda>r.
       (let r' = prepared_session env s r in
        bind (if sr_agent r' \<noteq> sr_agent r \<or> \<not> py_eq (JDict (sr_metadata r')) (JDict (sr_metadata r))
              then in_store (save_session_state_only s r') else ret ()) (\<lambda>_.
        bind (in_store (acquire_lease (he_store (ad_harness env)) s (harness_instance_id env s) (ad_agent env))) (\<lambda>_.
        (let h = \<lparr>lh_session = s, lh_instance = harness_instance_id env s, lh_agent = ad_agent env,
               lh_status = ''active'', lh_done = False, lh_activities = [], lh_current = None\<rparr> in
         bind (set_handle s h) (\<lambda>_. ret h)))))))"

text \<open>\<open>write_input\<close> and \<open>continue_session\<close>: an activity of the handle around a run of the harness.\<close>

definition local_activity :: "'w adapter_env \<Rightarrow> string \<Rightarrow> string \<Rightarrow> ('w, runtime_event list \<times> terminal_state) act \<Rightarrow>
    ('w local_sessions, runtime_event list) eff" where
  "local_activity env s activity m = bind (local_spawn env s) (\<lambda>h.
     (let h1 = h\<lparr>lh_current := Some activity, lh_activities := lh_activities h @ [activity]\<rparr> in
      bind (set_handle s h1) (\<lambda>_.
      bind (in_harness m) (\<lambda>(events, _).
      bind (set_handle s (h1\<lparr>lh_done := True, lh_current := None\<rparr>)) (\<lambda>_. ret events)))))"

definition local_write :: "'w adapter_env \<Rightarrow> string \<Rightarrow> string \<Rightarrow> ('w local_sessions, runtime_event list) eff" where
  "local_write env s text = local_activity env s ''turn'' (run_turn (ad_harness env) text s default_control)"

definition local_continue :: "'w adapter_env \<Rightarrow> string \<Rightarrow> bool \<Rightarrow> ('w local_sessions, runtime_event list) eff" where
  "local_continue env s approved = local_activity env s ''continuation'' (continue_turn (ad_harness env) s approved)"

definition local_observe :: "string \<Rightarrow> int \<Rightarrow> ('w local_sessions, runtime_event list) eff" where
  "local_observe s after = in_store (\<lambda>fs. (read_events fs s after None, fs))"

definition local_kill :: "'w adapter_env \<Rightarrow> string \<Rightarrow> ('w local_sessions, unit) eff" where
  "local_kill env s = bind (local_spawn env s) (\<lambda>h.
     (let h1 = h\<lparr>lh_done := True, lh_current := Some ''killed''\<rparr> in
      bind (set_handle s h1) (\<lambda>_.
      bind (in_store (release_lease s (lh_instance h))) (\<lambda>_. set_handle s (h1\<lparr>lh_status := ''stopped''\<rparr>)))))"

definition local_checkpoint :: "'w adapter_env \<Rightarrow> string \<Rightarrow> ('w local_sessions, session_checkpoint) eff" where
  "local_checkpoint env s = in_store (get_checkpoint (he_store (ad_harness env)) s)"

definition local_marker :: "'w adapter_env \<Rightarrow> string \<Rightarrow> ('w local_sessions, string option) eff" where
  "local_marker env s = in_store (\<lambda>fs. (ebind (load_session (he_store (ad_harness env)) fs s) (\<lambda>r. Inr (sr_restore_marker r)), fs))"

definition local_runtime :: "'w adapter_env \<Rightarrow> 'w local_sessions session_runtime" where
  "local_runtime env = \<lparr>sa_spawn = (\<lambda>s. bind (local_spawn env s) (\<lambda>_. ret ())), sa_write = local_write env,
     sa_observe = local_observe, sa_continue = local_continue env, sa_kill = local_kill env,
     sa_checkpoint = local_checkpoint env, sa_marker = local_marker env\<rparr>"

end
