(* ===== verification/TurnProps.thy ===== *)
theory TurnProps
  imports HarnessProps
begin

text \<open>
  The properties of the harness: what a turn leaves behind, that it returns when the tools the model
  asks for are registered and keep to their protocol, that it does not when one is not, the bound on
  the calls of the model, and how a continuation ends.
\<close>

subsection \<open>Batches that raise nothing but tool errors\<close>

text \<open>
  A tool whose schema names its required fields, whose validator only raises what the executor turns
  into a validation error, and whose permission check knows the decisions.
\<close>

definition sound_tool :: "'w tool \<Rightarrow> bool" where
  "sound_tool t \<longleftrightarrow> (\<forall>x \<in> set (schema_required (tool_schema t)). \<exists>f. x = JStr f)
     \<and> (\<forall>args p. tool_validate_input t args = Inl (PyError p) \<longrightarrow>
          (\<exists>s. p = KeyError s \<or> p = TypeError s \<or> p = ValueError s))
     \<and> (\<forall>args ctx. \<exists>d. tool_check_permissions t args ctx = Inr d)"

definition resolves_sound :: "'w exec_env \<Rightarrow> string \<Rightarrow> bool" where
  "resolves_sound env n \<longleftrightarrow> (\<exists>t. resolve_tool (ee_registry env) n = Inr t \<and> sound_tool t)"

abbreviation py_raised :: "gen_end \<Rightarrow> bool" where
  "py_raised en \<equiv> \<exists>p. en = Raised (PyError p)"

lemma missing_required_sound:
  "\<forall>x \<in> set fs. \<exists>f. x = JStr f \<Longrightarrow> missing_required fs args n \<noteq> Some (PyError p)"
  by (induction fs args n rule: missing_required.induct) auto

lemma validate_sound: "sound_tool t \<Longrightarrow> validate_arguments t a \<noteq> Inl (PyError p)"
  using missing_required_sound [of "schema_required (tool_schema t)"]
  by (fastforce simp: validate_arguments_def sound_tool_def
      split: option.splits sum.splits tool_error.splits py_error.splits)

lemma evaluate_sound: "sound_tool t \<Longrightarrow> \<exists>out. fst (evaluate_policy t c ctx st) = Inr out"
proof -
  assume "sound_tool t"
  then obtain d where "tool_check_permissions t (call_args c) ctx = Inr d"
    unfolding sound_tool_def by blast
  then show ?thesis
    by (cases "x_policy st")
       (auto simp: evaluate_policy_def evaluate_def untracked_outcome_def split_beta Let_def
         split: option.split sum.split)
qed

lemma admit_sound: "resolves_sound env (tc_name c) \<Longrightarrow> fst (admit env ctx c st) \<noteq> Inl (PyError p)"
proof
  assume r: "resolves_sound env (tc_name c)" and e: "fst (admit env ctx c st) = Inl (PyError p)"
  obtain t where t: "resolve_tool (ee_registry env) (tc_name c) = Inr t" "sound_tool t"
    using r by (auto simp: resolves_sound_def)
  show False
  proof (cases "validate_arguments t (tc_arguments c)")
    case (Inl x)
    then show ?thesis using e validate_sound [OF t(2), of "tc_arguments c" p] by (simp add: admit_def t(1))
  next
    case (Inr args)
    let ?nc = "c\<lparr>tc_arguments := JDict args\<rparr>"
    obtain out st' where "evaluate_policy t ?nc ctx st = (Inr out, st')"
      using evaluate_sound [OF t(2), of ?nc ctx st] by (metis prod.collapse)
    then show ?thesis using e by (simp add: admit_def t(1) Inr Let_def split: if_splits)
  qed
qed

lemma emit_no_py:
  assumes "has_summary eid (snd p)" "ev_type (fst p) = TOOL_STARTED \<or> is_answer (fst p)"
    "ev_type (fst p) = TOOL_RESULT \<Longrightarrow> \<exists>r. result_of_payload (ev_payload (fst p)) = Inr r"
  shows "g_end (emit stop eid p) = Finished \<or> g_end (emit stop eid p) = Closed"
  using record_answer_ok [of eid "snd p" "fst p"] assms by (cases p) (auto simp: emit_def)

lemma emit_events_no_py:
  assumes "has_summary eid st"
  shows "\<not> py_raised (g_end (emit stop eid (tool_started_event env ctx c st)))"
    and "\<not> py_raised (g_end (emit stop eid (tool_failed_event env ctx n i reason st)))"
    and "\<not> py_raised (g_end (emit stop eid (tool_cancelled_event env ctx n i reason st)))"
  using assms emit_no_py [of eid "tool_started_event env ctx c st" stop]
    emit_no_py [of eid "tool_failed_event env ctx n i reason st" stop]
    emit_no_py [of eid "tool_cancelled_event env ctx n i reason st" stop]
  by (auto simp: tool_event_answers is_answer_def tool_event_defs)

lemma execute_tool_call_no_py:
  assumes "resolves_sound env (tc_name c)" "has_summary eid st"
  shows "\<not> py_raised (g_end (execute_tool_call env stop eid ctx c st))"
proof -
  obtain t where t: "resolve_tool (ee_registry env) (tc_name c) = Inr t"
    using assms(1) by (auto simp: resolves_sound_def)
  obtain evs st' en where b: "execute_tool_body env stop eid ctx t c st = (evs, st', en)"
    by (cases "execute_tool_body env stop eid ctx t c st")
  have "has_summary eid st'"
    using execute_tool_body_frame [of env stop eid ctx t c st] assms(2) by (simp add: b)
  then show ?thesis
    using emit_events_no_py [of eid st' stop env ctx]
    by (auto simp: execute_tool_call_def t b handle_tool_error_def split_beta
        split: gen_end.splits tool_error.splits)
qed

lemma run_pool_no_py:
  "\<forall>c \<in> set cs. resolves_sound env (tc_name c) \<Longrightarrow> has_summary eid st \<Longrightarrow>
     \<forall>f \<in> set (fst (run_pool env eid ctx cs st)). \<not> py_raised (snd f)"
proof (induction cs arbitrary: st)
  case (Cons c cs)
  obtain evs st1 en where e: "execute_tool_call env (\<lambda>_. False) eid ctx c st = (evs, st1, en)"
    by (cases "execute_tool_call env (\<lambda>_. False) eid ctx c st")
  have "\<not> py_raised en"
    using execute_tool_call_no_py [of env c eid st "\<lambda>_. False" ctx] Cons.prems by (simp add: e)
  moreover have "has_summary eid st1"
    using execute_tool_call_frame(2) [of env "\<lambda>_. False" eid ctx c st] Cons.prems(2) by (simp add: e)
  ultimately show ?case using Cons by (simp add: e split_beta Let_def)
qed simp

lemma deliver_futures_no_py:
  "\<forall>f \<in> set fs. \<not> py_raised (snd f) \<Longrightarrow> \<not> py_raised (snd (deliver_futures stop fs))"
proof (induction fs)
  case (Cons f fs)
  obtain evs e where f: "f = (evs, e)" by (cases f)
  have "\<not> py_raised (snd (let (d, en') = deliver_events stop evs in
      case en' of Finished \<Rightarrow> (let (d', en'') = deliver_futures stop fs in (d @ d', en'')) | _ \<Rightarrow> (d, en')))"
    using Cons deliver_events_not_raised [of stop evs]
    by (cases "snd (deliver_events stop evs)") (simp_all add: split_beta Let_def)
  then show ?case using Cons.prems by (cases e) (simp_all add: f)
qed simp

lemma gen_seq_no_py:
  "\<not> py_raised (g_end g) \<Longrightarrow> \<not> py_raised (g_end (k (g_state g))) \<Longrightarrow> \<not> py_raised (g_end (gen_seq g k))"
  by (simp add: gen_seq_end)

lemma poll_summary [simp]: "has_summary eid (snd (poll ctx st)) = has_summary eid st"
  by simp

lemma stream_calls_no_py:
  "\<forall>c \<in> set (safe @ cs). resolves_sound env (tc_name c) \<Longrightarrow> has_summary eid st \<Longrightarrow>
     \<not> py_raised (g_end (stream_calls env stop eid ctx safe cs st))"
proof (induction cs arbitrary: st safe)
  case Nil
  then show ?case
    using deliver_futures_no_py [OF run_pool_no_py [of safe env eid st ctx], of stop]
    by (simp add: run_safe_calls_def split_beta Let_def)
next
  case (Cons c cs)
  obtain res st1 where a: "admit env ctx c st = (res, st1)" by (cases "admit env ctx c st")
  have s1: "has_summary eid st1" using admit_frame(2) [of env ctx c st] Cons.prems(2) by (simp add: a)
  show ?case
  proof (cases res)
    case (Inl e)
    then show ?thesis using admit_sound [of env c ctx st] Cons.prems(1) by (auto simp: a)
  next
    case (Inr tnc)
    obtain t nc where tnc: "tnc = (t, nc)" by (cases tnc)
    have nc: "resolves_sound env (tc_name nc)"
      using admit_InrD(2) [of env ctx c st t nc st1] a Inr tnc Cons.prems(1) by simp
    let ?g = "emit stop eid (tool_started_event env ctx nc st1)"
    obtain b st3 where p: "poll ctx (g_state ?g) = (b, st3)" by (cases "poll ctx (g_state ?g)")
    have s3: "has_summary eid st3"
      using poll_frame(3) [of ctx "g_state ?g"] s1 emit_frame(6) [of stop eid "tool_started_event env ctx nc st1"]
      by (simp add: p)
    have step: "has_summary eid (g_state (execute_tool_call env stop eid ctx nc st3))"
      using s3 by simp
    have canc: "has_summary eid (g_state (emit stop eid
        (tool_cancelled_event env ctx (tc_name c) (tc_call_id c) ''user_interrupted'' st3)))"
      using s3 by simp
    have IH: "\<not> py_raised (g_end (stream_calls env stop eid ctx safe cs st'))"
        "\<not> py_raised (g_end (stream_calls env stop eid ctx (safe @ [nc]) cs st'))" if "has_summary eid st'" for st'
      using Cons.IH [of safe st'] Cons.IH [of "safe @ [nc]" st'] Cons.prems(1) nc that by auto
    have "\<not> py_raised (g_end (if b then gen_seq (emit stop eid
               (tool_cancelled_event env ctx (tc_name c) (tc_call_id c) ''user_interrupted'' st3))
               (stream_calls env stop eid ctx safe cs)
           else if tool_is_concurrency_safe t (call_args nc) then stream_calls env stop eid ctx (safe @ [nc]) cs st3
           else gen_seq (execute_tool_call env stop eid ctx nc st3) (stream_calls env stop eid ctx safe cs)))"
      using gen_seq_no_py [of _ "stream_calls env stop eid ctx safe cs", OF emit_events_no_py(3) [OF s3] IH(1) [OF canc]]
        gen_seq_no_py [of _ "stream_calls env stop eid ctx safe cs", OF execute_tool_call_no_py [OF nc s3] IH(1) [OF step]]
        IH(2) [OF s3]
      by (simp only: split: if_split) simp
    then show ?thesis
      using emit_events_no_py(1) [OF s1, of stop env ctx nc]
      by (simp add: a Inr tnc Let_def gen_seq_end p)
  qed
qed

lemma execute_stream_no_py:
  assumes "\<forall>c \<in> set cs. resolves_sound env (tc_name c)"
  shows "\<not> py_raised (g_end (execute_stream env stop cs ctx st))"
proof -
  obtain eid st' where n: "new_execution env ctx cs st = (eid, st')" by (cases "new_execution env ctx cs st")
  have "has_summary eid st'"
    using n by (auto simp: new_execution_def Let_def split_beta)
  then show ?thesis
    using stream_calls_no_py [of "[]" cs env eid st' stop ctx] assms
    by (simp add: execute_stream_def n)
qed

subsection \<open>Turns that cannot return\<close>

definition never_returns :: "('w, 'a) act \<Rightarrow> bool" where
  "never_returns m \<longleftrightarrow> hoare (\<lambda>_. True) m (\<lambda>_ _. False) (\<lambda>_ _. True)"

lemma never_returns_first [intro]: "never_returns m \<Longrightarrow> never_returns (act_bind m f)"
  unfolding never_returns_def by (erule hoare_bind) (simp add: hoare_def)

lemma never_returns_then: "(\<And>x. never_returns (f x)) \<Longrightarrow> never_returns (act_bind m f)"
  unfolding never_returns_def by (rule hoare_bind [OF hoare_any])

lemma never_returnsD: "never_returns m \<Longrightarrow> \<exists>e st'. m st = (Inl e, st')"
  by (cases "m st"; cases "fst (m st)") (auto simp: never_returns_def hoare_def dest: spec [of _ st])

lemma never_returns_raise [simp]: "never_returns (act_raise e)"
  by (simp add: never_returns_def hoare_raise)

lemma never_returns_bind_const:
  assumes "hoare (\<lambda>_. True) m (\<lambda>x _. x = y) (\<lambda>_ _. True)" "never_returns (f y)"
  shows "never_returns (act_bind m f)"
  unfolding never_returns_def
proof (rule hoare_bind [OF assms(1)])
  fix x
  show "hoare (\<lambda>_. x = y) (f x) (\<lambda>_ _. False) (\<lambda>_ _. True)"
    using assms(2) by (cases "x = y") (simp_all add: never_returns_def hoare_def)
qed

lemma unknown_tool_raises:
  assumes "resolve_tool (ee_registry (he_exec env)) (tc_name c) = Inl e"
  shows "execute_tool_stream env s (c # cs) ctx st =
     (Inl (TurnTool (PyError e)), st\<lparr>t_exec := g_state (execute_stream (he_exec env) stops_turn (c # cs) ctx (t_exec st))\<rparr>)"
  by (simp add: execute_tool_stream_def execute_stream_def split_beta Let_def admit_def assms act_raise_def)

lemma tool_phase_unknown:
  assumes "mr_tool_calls r = c # cs" "resolve_tool (ee_registry (he_exec env)) (tc_name c) = Inl e"
  shows "never_returns (tool_phase env s workdir task r)"
proof -
  obtain c' cs' where c: "ensure_tool_call_ids (c # cs) = c' # cs'" "tc_name c' = tc_name c"
    by (auto simp: ensure_tool_call_ids_def split: option.split)
  have n: "never_returns (act_try (act_bind (execute_tool_stream env s (c' # cs') ctx) k)
      (\<lambda>e. act_bind (batch_raised env s (c' # cs') e) h))" for ctx k h
    using assms(2) c(2)
    by (simp add: never_returns_def hoare_def act_try_def act_bind_def unknown_tool_raises batch_raised_def act_raise_def)
  show ?thesis
    unfolding tool_phase_def Let_def assms(1) c(1)
    by (intro never_returns_then never_returns_first n)
qed

lemma model_phase_answers:
  assumes "ctl_cancel ctl = None" "\<And>n ms. he_model env n ms = Answer False (Inr r)"
  shows "hoare (\<lambda>_. True) (model_phase env s ctl) (\<lambda>x _. x = Some r) (\<lambda>_ _. True)"
  by (simp add: hoare_def model_phase_def run_model_with_retries_def run_model_once_def check_cancelled_def
      assms act_defs yield_events_def)

lemma turn_loop_unknown:
  assumes "ctl_cancel ctl = None" "\<And>n ms. he_model env n ms = Answer False (Inr r)"
    "mr_tool_calls r = c # cs" "resolve_tool (ee_registry (he_exec env)) (tc_name c) = Inl e"
  shows "never_returns (turn_loop env s ctl workdir task (Suc n) k)"
proof -
  have m: "never_returns (act_bind (model_phase env s ctl) (\<lambda>answer. case answer of
         None \<Rightarrow> act_return True
       | Some response \<Rightarrow>
           if mr_tool_calls response = [] then act_bind (answer_phase env s response) (\<lambda>_. act_return True)
           else tool_phase env s workdir task response))"
    by (rule never_returns_bind_const [OF model_phase_answers [OF assms(1,2)]])
       (simp add: assms(3) tool_phase_unknown [OF assms(3,4)])
  have c: "hoare (\<lambda>_. True) (check_cancelled ctl) (\<lambda>x _. x = False) (\<lambda>_ _. True)"
    by (simp add: hoare_def check_cancelled_def assms(1))
  have "never_returns (turn_iteration env s ctl workdir task k)"
    unfolding turn_iteration_def
    by (rule never_returns_then, rule never_returns_bind_const [OF c]) (simp add: m)
  then show ?thesis unfolding turn_loop.simps by (rule never_returns_first)
qed

subsection \<open>The calls of the model\<close>

definition costs :: "nat \<Rightarrow> ('w, 'a) act \<Rightarrow> bool" where
  "costs n m \<longleftrightarrow> (\<forall>st. t_calls (snd (m st)) \<le> t_calls st + n)"

lemma costs_zero: "costs 0 m \<Longrightarrow> costs n m"
  by (simp add: costs_def trans_le_add1)

lemma costs_bind:
  assumes "costs a m" "\<And>x. costs b (f x)"
  shows "costs (a + b) (act_bind m f)"
  unfolding costs_def
proof
  fix st
  obtain r st1 where m: "m st = (r, st1)" by (cases "m st")
  have 1: "t_calls st1 \<le> t_calls st + a" using assms(1) m by (metis costs_def snd_conv)
  show "t_calls (snd (act_bind m f st)) \<le> t_calls st + (a + b)"
  proof (cases r)
    case (Inr x)
    have "t_calls (snd (f x st1)) \<le> t_calls st1 + b" using assms(2) by (simp add: costs_def)
    then show ?thesis using 1 by (simp add: act_bind_def m Inr)
  qed (use 1 in \<open>simp add: act_bind_def m\<close>)
qed

lemma costs_try:
  assumes "costs a m" "\<And>e. costs b (h e)"
  shows "costs (a + b) (act_try m h)"
  unfolding costs_def
proof
  fix st
  obtain r st1 where m: "m st = (r, st1)" by (cases "m st")
  have 1: "t_calls st1 \<le> t_calls st + a" using assms(1) m by (metis costs_def snd_conv)
  show "t_calls (snd (act_try m h st)) \<le> t_calls st + (a + b)"
  proof (cases r)
    case (Inl x)
    have "t_calls (snd (h x st1)) \<le> t_calls st1 + b" using assms(2) by (simp add: costs_def)
    then show ?thesis using 1 by (simp add: act_try_def m Inl)
  qed (use 1 in \<open>simp add: act_try_def m\<close>)
qed

named_theorems free "actions that do not call the model"

lemma free_bind [free]: "costs 0 m \<Longrightarrow> (\<And>x. costs 0 (f x)) \<Longrightarrow> costs 0 (act_bind m f)"
  using costs_bind [of 0 m 0 f] by simp

lemma free_try [free]: "costs 0 m \<Longrightarrow> (\<And>e. costs 0 (h e)) \<Longrightarrow> costs 0 (act_try m h)"
  using costs_try [of 0 m 0 h] by simp

lemma free_if [free]: "costs 0 m \<Longrightarrow> costs 0 m' \<Longrightarrow> costs 0 (if b then m else m')"
  by simp

lemma free_cases [free]:
  "costs 0 m \<Longrightarrow> (\<And>x. costs 0 (f x)) \<Longrightarrow> costs 0 (case a of None \<Rightarrow> m | Some x \<Rightarrow> f x)"
  "(\<And>x y. costs 0 (g x y)) \<Longrightarrow> costs 0 (case p of (x, y) \<Rightarrow> g x y)"
  "(\<And>x. costs 0 (k x)) \<Longrightarrow> (\<And>x. costs 0 (l x)) \<Longrightarrow> costs 0 (case z of Inl x \<Rightarrow> k x | Inr x \<Rightarrow> l x)"
  by (simp_all split: option.split prod.split sum.split)

lemma free_basic [free]:
  "costs 0 (act_return x)" "costs 0 (act_raise e)" "costs 0 (act_get f)" "costs 0 (act_lift r)"
  "costs 0 (modify_session g)" "costs 0 (append_message m)" "costs 0 (set_transition t)"
  "costs 0 (yield_events es)" "costs 0 (check_cancelled ctl)" "costs 0 (persist_session env s)"
  by (auto simp: costs_def act_defs modify_session_def append_message_def set_transition_def yield_events_def
      check_cancelled_def persist_session_def split: sum.split option.split prod.split)

lemma free_event [free]: "costs 0 (harness_event env s ty p)"
  unfolding harness_event_def
proof (rule free_bind)
  show "costs 0 (harness_load env s)" unfolding harness_load_def by (intro free)
qed (simp add: costs_def)

lemma free_append [free]: "costs 0 (append_new_event env s ty p)" "costs 0 (record_event e)"
  unfolding append_new_event_def record_event_def by (intro free)+

lemma free_ends [free]: "costs 0 (emit_terminal env s ty t)" "costs 0 (fail_turn env s tr t)"
  "costs 0 (block_turn env s r calls)"
  unfolding fail_turn_def emit_terminal_def block_turn_def
  by (intro free; simp add: costs_def act_modify_def)+

lemma free_record [free]: "costs 0 (record_tool_events env s en evs emitted results)"
  by (induction evs arbitrary: emitted results) (auto intro!: free split: gen_end.split)

lemma free_tools [free]: "costs 0 (execute_tool_stream env s cs ctx)"
  unfolding costs_def
proof
  fix st :: "'a turn_state"
  obtain evs ex en where x: "execute_stream (he_exec env) stops_turn cs ctx (t_exec st) = (evs, ex, en)"
    by (cases "execute_stream (he_exec env) stops_turn cs ctx (t_exec st)")
  show "t_calls (snd (execute_tool_stream env s cs ctx st)) \<le> t_calls st + 0"
    using free_record [of env s en evs "[]" "[]", unfolded costs_def, THEN spec, of "st\<lparr>t_exec := ex\<rparr>"]
    by (simp add: execute_tool_stream_def x)
qed

lemma free_results [free]: "costs 0 (append_tool_results env rs)"
proof (induction rs)
  case (Cons r rs)
  then show ?case
    by (auto intro!: free simp: Let_def split: prod.split) (simp add: costs_def act_modify_def)
qed (simp add: free)

lemma free_tool_phase [free]: "costs 0 (tool_phase env s workdir task response)"
proof -
  have "costs 0 (batch_raised env s calls e)" "costs 0 (batch_reported env s results error)"
    for calls e results error
    unfolding batch_raised_def batch_reported_def
    by (auto intro!: free split: turn_exn.split tool_error.split option.split)
  then show ?thesis unfolding tool_phase_def Let_def by (intro free)
qed

lemma free_stream [free]: "costs 0 (consume_stream env s ctl es err agg final calls streamed)"
  by (induction es arbitrary: agg final calls streamed)
     (auto intro!: free simp: Let_def split: option.split)

lemma costs_run_model_once: "costs 1 (run_model_once env messages s ctl)"
proof -
  have c: "costs 0 (case he_model env n messages of Streamed es err \<Rightarrow> consume_stream env s ctl es err [] None [] []
     | Answer late res \<Rightarrow> if late \<and> ctl_timeout ctl then act_raise TimedOutTurn
         else (case res of Inl e \<Rightarrow> act_raise (TurnTool (PyError (OtherError e))) | Inr r \<Rightarrow> act_return (r, [])))" for n
    by (auto intro!: free split: model_answer.split)
  show ?thesis
    unfolding costs_def
  proof
    fix st :: "'a turn_state"
    show "t_calls (snd (run_model_once env messages s ctl st)) \<le> t_calls st + 1"
      using c [of "t_calls st", unfolded costs_def, THEN spec, of "st\<lparr>t_calls := Suc (t_calls st)\<rparr>"]
      by (simp add: run_model_once_def act_bind_def act_get_def act_modify_def)
  qed
qed

lemma costs_attempts: "costs n (model_attempts env messages s ctl n k err)"
proof (induction n arbitrary: k err)
  case (Suc n)
  have h: "costs n (case e of CancelledTurn \<Rightarrow> act_raise e | TimedOutTurn \<Rightarrow> act_raise e
        | _ \<Rightarrow> if k = ctl_max_retries ctl then act_raise (RetryExhaustedTurn (turn_exn_text e))
              else model_attempts env messages s ctl n (k + 1) (turn_exn_text e))" for e
    by (cases e) (simp_all add: Suc.IH costs_zero [OF free_basic(2)])
  have "costs (1 + n) (if b then act_raise CancelledTurn else act_try (run_model_once env messages s ctl) (\<lambda>e.
      case e of CancelledTurn \<Rightarrow> act_raise e | TimedOutTurn \<Rightarrow> act_raise e
        | _ \<Rightarrow> if k = ctl_max_retries ctl then act_raise (RetryExhaustedTurn (turn_exn_text e))
              else model_attempts env messages s ctl n (k + 1) (turn_exn_text e)))" for b
    by (cases b) (simp_all add: costs_zero [OF free_basic(2)] costs_try [OF costs_run_model_once h, simplified])
  from costs_bind [OF free_basic(9) this] show ?case by simp
qed (simp add: free)

abbreviation max_attempts :: "turn_control \<Rightarrow> nat" where
  "max_attempts ctl \<equiv> Suc (nat (max 0 (ctl_max_retries ctl)))"

lemma costs_model_phase: "costs (max_attempts ctl) (model_phase env s ctl)"
proof -
  have r: "costs (max_attempts ctl + 0) (act_bind (run_model_with_retries env messages s ctl)
      (\<lambda>(response, streamed). act_bind (yield_events streamed) (\<lambda>_. act_return (Some response))))" for messages
    unfolding run_model_with_retries_def by (rule costs_bind [OF costs_attempts]) (auto intro!: free)
  have h: "costs 0 (case e of
          CancelledTurn \<Rightarrow> act_bind (fail_turn env s ''aborted''
            (make_terminal STOPPED ''cancelled'' None None)) (\<lambda>_. act_return None)
        | TimedOutTurn \<Rightarrow> act_bind (fail_turn env s ''failed''
            (make_terminal FAILED ''timeout'' (Some True) None)) (\<lambda>_. act_return None)
        | RetryExhaustedTurn t \<Rightarrow> act_bind (fail_turn env s ''failed''
            (make_terminal FAILED ''retry_exhausted'' (Some False) (Some t))) (\<lambda>_. act_return None)
        | TurnTool x \<Rightarrow> act_raise e)" for e
    by (auto intro!: free split: turn_exn.split)
  show ?thesis
    unfolding model_phase_def
    using costs_bind [OF free_basic(3) costs_try [OF r h]] by simp
qed

lemma costs_iteration: "costs (max_attempts ctl) (turn_iteration env s ctl workdir task k)"
proof -
  have a: "costs 0 (case answer of None \<Rightarrow> act_return True
       | Some response \<Rightarrow>
           if mr_tool_calls response = [] then act_bind (answer_phase env s response) (\<lambda>_. act_return True)
           else tool_phase env s workdir task response)" for answer
    unfolding answer_phase_def by (intro free)
  have m: "costs 0 (act_modify (\<lambda>st. st\<lparr>t_turn_count := Suc k, t_transition := ''model_request''\<rparr>))"
    by (simp add: costs_def act_modify_def)
  have b: "costs (max_attempts ctl) (if b then act_bind (fail_turn env s ''aborted''
         (make_terminal STOPPED ''cancelled'' None None)) (\<lambda>_. act_return True)
      else act_bind (model_phase env s ctl) (\<lambda>answer. case answer of None \<Rightarrow> act_return True
       | Some response \<Rightarrow>
           if mr_tool_calls response = [] then act_bind (answer_phase env s response) (\<lambda>_. act_return True)
           else tool_phase env s workdir task response))" for b
    by (cases b) (simp_all add: costs_bind [OF costs_model_phase a, simplified] costs_zero [OF free_bind [OF free_ends(2) free_basic(1)]])
  show ?thesis
    unfolding turn_iteration_def
    using costs_bind [OF m costs_bind [OF free_basic(9) b]] by simp
qed

lemma costs_turn_loop: "costs (n * max_attempts ctl) (turn_loop env s ctl workdir task n k)"
proof (induction n arbitrary: k)
  case (Suc n)
  have "costs (n * max_attempts ctl) (if b then act_return () else turn_loop env s ctl workdir task n (Suc k))" for b
    by (cases b) (simp_all add: Suc.IH [simplified] costs_zero [OF free_basic(1)])
  from costs_bind [OF costs_iteration this] show ?case by (simp add: algebra_simps)
qed (simp add: free)

subsection \<open>Continuations\<close>

text \<open>
  While a continuation runs: the session at hand continues the stored one, the calls that wait for the
  approval are \<open>pend\<close>, and the events \<open>es\<close> it will return are recorded.
\<close>

definition cont ::
  "'w harness_env \<Rightarrow> string \<Rightarrow> tool_call list \<Rightarrow> runtime_event list \<Rightarrow> 'w turn_state \<Rightarrow> bool" where
  "cont env s pend es st \<longleftrightarrow> stored env s (\<lambda>_. True) st \<and> sr_pending (t_session st) = pend
     \<and> subseq es (sr_events (t_session st))"

definition durable :: "'w harness_env \<Rightarrow> string \<Rightarrow> 'w turn_state \<Rightarrow> bool" where
  "durable env s st \<longleftrightarrow> load_session (he_store env) (t_files st) s = Inr (t_session st)"

text \<open>The continuation is over: its last event is the terminal one, and the store has all of it.\<close>

definition continuation_over ::
  "'w harness_env \<Rightarrow> string \<Rightarrow> runtime_event list \<times> terminal_state \<Rightarrow> 'w turn_state \<Rightarrow> bool" where
  "continuation_over env s x st \<longleftrightarrow> durable env s st \<and> sr_status (t_session st) = SESSION_IDLE
     \<and> sr_pending (t_session st) = [] \<and> subseq (fst x) (sr_events (t_session st))
     \<and> (\<exists>pre e. fst x = pre @ [e] \<and> terminal_state_from_event e = Inr (snd x)
          \<and> (ev_type e = TURN_COMPLETED \<or> ev_type e = TURN_FAILED))"

abbreviation any_exn :: "turn_exn \<Rightarrow> 'w turn_state \<Rightarrow> bool" where
  "any_exn \<equiv> \<lambda>_ _. True"

lemma cont_persist:
  "hoare (cont env s pend es) (persist_session env s) (\<lambda>_. cont env s pend es) any_exn"
proof (rule hoareI)
  fix st assume r: "cont env s pend es st"
  then obtain fs where p: "persist_session env s st = (Inr (), st\<lparr>t_files := fs\<rparr>)"
      "stored env s (\<lambda>r. r = t_session st) (st\<lparr>t_files := fs\<rparr>)"
    using persist_stored [of env s "\<lambda>_. True" st] by (auto simp: cont_def)
  then show "case persist_session env s st of (Inl e, st') \<Rightarrow> any_exn e st' | (Inr x, st') \<Rightarrow> cont env s pend es st'"
    using r by (auto simp: cont_def stored_def)
qed

lemma cont_append:
  "hoare (cont env s pend es) (append_new_event env s ty payload)
     (\<lambda>e st. cont env s pend (es @ [e]) st \<and> ev_type e = ty \<and> ev_payload e = payload) any_exn"
proof (rule hoareI)
  fix st assume r: "cont env s pend es st"
  then obtain e c where a: "append_new_event env s ty payload st =
        (Inr e, st\<lparr>t_clock := c, t_session := (t_session st)\<lparr>sr_events := sr_events (t_session st) @ [e]\<rparr>\<rparr>)"
      "ev_type e = ty" "ev_payload e = payload"
    using append_new_event_stored [of env s "\<lambda>_. True" st ty payload] by (auto simp: cont_def)
  have "subseq (es @ [e]) (sr_events (t_session st) @ [e])"
    using r by (intro list_emb_append_mono) (simp_all add: cont_def)
  then show "case append_new_event env s ty payload st of (Inl e, st') \<Rightarrow> any_exn e st'
      | (Inr e, st') \<Rightarrow> cont env s pend (es @ [e]) st' \<and> ev_type e = ty \<and> ev_payload e = payload"
    using r a continues_append_event [of _ "t_session st" "[e]"] by (auto simp: cont_def stored_def)
qed

lemma cont_modify:
  assumes "\<And>r. continues r (f r)" "\<And>r. sr_events (f r) = sr_events r"
  shows "hoare (cont env s pend es) (modify_session f)
    (\<lambda>_ st. cont env s (sr_pending (t_session st)) es st \<and> (\<exists>r. sr_pending r = pend \<and> t_session st = f r)) any_exn"
  unfolding modify_session_def
  by (rule hoare_modify) (use assms continues_trans in \<open>auto simp: cont_def stored_def\<close>)

lemma cont_record: "hoare (cont env s pend es) (record_event e) (\<lambda>_. cont env s pend (es @ [e])) any_exn"
  unfolding record_event_def modify_session_def
proof (rule hoare_modify)
  fix st assume r: "cont env s pend es st"
  then have "subseq (es @ [e]) (sr_events (t_session st) @ [e])"
    by (intro list_emb_append_mono) (simp_all add: cont_def)
  then show "cont env s pend (es @ [e]) (st\<lparr>t_session := (t_session st)\<lparr>sr_events := sr_events (t_session st) @ [e]\<rparr>\<rparr>)"
    using r continues_append_event [of _ "t_session st" "[e]"] by (auto simp: cont_def stored_def)
qed

lemma cont_message: "hoare (cont env s pend es) (append_message m) (\<lambda>_. cont env s pend es) any_exn"
  unfolding append_message_def modify_session_def
  by (rule hoare_modify) (auto simp: cont_def stored_def continues_append_message)

lemma cont_frame:
  "(\<And>st. t_files (f st) = t_files st \<and> t_session (f st) = t_session st) \<Longrightarrow>
     hoare (cont env s pend es) (act_modify f) (\<lambda>_. cont env s pend es) any_exn"
  by (rule hoare_modify) (simp add: cont_def stored_def)

lemma cont_get: "hoare (cont env s pend es) (act_get f) (\<lambda>_. cont env s pend es) any_exn"
  by (rule hoare_get)

lemma cont_cancelled: "hoare (cont env s pend es) (check_cancelled ctl) (\<lambda>_. cont env s pend es) any_exn"
  by (rule hoareI) (auto simp: check_cancelled_def cont_def stored_def split: option.split)

lemma cont_drop: "cont env s pend (es @ es') st \<Longrightarrow> cont env s pend es st"
  by (auto simp: cont_def elim: subseq_order.trans [rotated])

lemma cont_append': "hoare (cont env s pend es) (append_new_event env s ty payload) (\<lambda>_. cont env s pend es) any_exn"
  by (rule hoare_conseq [OF cont_append]) (auto elim: cont_drop)

lemma cont_stream:
  "hoare (cont env s pend es) (consume_stream env s ctl evs err agg final calls streamed) (\<lambda>_. cont env s pend es) any_exn"
proof (induction evs arbitrary: agg final calls streamed)
  case Nil
  show ?case by (cases err) (auto intro!: hoare_return hoare_raise)
next
  case (Cons e evs)
  have d: "hoare (cont env s pend es) (act_bind (append_new_event env s ASSISTANT_DELTA p)
      (\<lambda>ev. act_bind (persist_session env s) (\<lambda>_. consume_stream env s ctl evs err agg' final' calls' (streamed @ [ev]))))
      (\<lambda>_. cont env s pend es) any_exn" for p agg' final' calls'
    by (rule hoare_bind [OF cont_append'], rule hoare_bind [OF cont_persist]) (rule Cons.IH)
  show ?case
    unfolding consume_stream.simps Let_def
    by (rule hoare_bind [OF cont_cancelled]) (simp add: Cons.IH d hoare_raise)
qed

lemma cont_model: "hoare (cont env s pend es) (run_model_once env messages s ctl) (\<lambda>_. cont env s pend es) any_exn"
  unfolding run_model_once_def
proof (rule hoare_bind [OF cont_get], rule hoare_bind [OF cont_frame])
  fix n
  show "hoare (cont env s pend es) (case he_model env n messages of
       Answer late res \<Rightarrow> if late \<and> ctl_timeout ctl then act_raise TimedOutTurn
         else (case res of Inl e \<Rightarrow> act_raise (TurnTool (PyError (OtherError e))) | Inr r \<Rightarrow> act_return (r, []))
     | Streamed es err \<Rightarrow> consume_stream env s ctl es err [] None [] []) (\<lambda>_. cont env s pend es) any_exn"
    by (auto simp: cont_stream intro!: hoare_return hoare_raise split: model_answer.split sum.split)
qed simp

lemma cont_results: "hoare (cont env s pend es) (append_tool_results env rs) (\<lambda>_. cont env s pend es) any_exn"
proof (induction rs)
  case (Cons r rs)
  show ?case
    unfolding append_tool_results.simps
  proof (rule hoare_bind [OF _ Cons.IH])
    show "hoare (cont env s pend es) (case he_governance env of
         None \<Rightarrow> append_message (tool_message r (JList (tr_content r)))
       | Some g \<Rightarrow> act_bind (act_get t_texts) (\<lambda>files.
           (let (r', files') = externalize_tool_result g r files in
            act_bind (act_modify (\<lambda>st. st\<lparr>t_texts := files'\<rparr>)) (\<lambda>_.
            append_message (tool_message r' (tool_result_transcript_content r')))))) (\<lambda>_. cont env s pend es) any_exn"
      by (cases "he_governance env")
         (simp_all add: cont_message split_beta Let_def hoare_bind [OF cont_get] hoare_bind [OF cont_frame])
  qed
qed (simp add: hoare_return)

lemma cont_record_tools:
  "hoare (cont env s pend emitted) (record_tool_events env s en evs emitted results)
     (\<lambda>x. cont env s pend (fst x)) any_exn"
proof (induction evs arbitrary: emitted results)
  case Nil
  show ?case by (cases en) (auto intro!: hoare_return hoare_raise)
next
  case (Cons e evs)
  let ?Q = "\<lambda>x. cont env s pend (fst x)"
  have r: "hoare (cont env s pend (emitted @ [e])) (act_bind (act_lift x) (\<lambda>r.
        record_tool_events env s en evs (emitted @ [e]) (results @ [r]))) ?Q any_exn" for x
  proof (rule hoare_bind [OF _ Cons.IH])
    show "hoare (cont env s pend (emitted @ [e])) (act_lift x) (\<lambda>_. cont env s pend (emitted @ [e])) any_exn"
      by (simp add: hoare_def act_lift_def split: sum.split)
  qed
  have p: "hoare (cont env s pend (emitted @ [e]))
      (if persists_after e then persist_session env s else act_return ()) (\<lambda>_. cont env s pend (emitted @ [e])) any_exn"
    by (simp add: cont_persist hoare_return)
  show ?case
    unfolding record_tool_events.simps
    by (rule hoare_bind [OF cont_record], rule hoare_bind [OF p]) (simp add: r Cons.IH hoare_return)
qed

lemma cont_tools:
  "hoare (cont env s pend []) (execute_tool_stream env s cs ctx) (\<lambda>x. cont env s pend (fst x)) any_exn"
proof (rule hoareI)
  fix st assume r: "cont env s pend [] st"
  obtain evs ex en where x: "execute_stream (he_exec env) stops_turn cs ctx (t_exec st) = (evs, ex, en)"
    by (cases "execute_stream (he_exec env) stops_turn cs ctx (t_exec st)")
  have "cont env s pend [] (st\<lparr>t_exec := ex\<rparr>)" using r by (simp add: cont_def stored_def)
  with cont_record_tools [of env s pend "[]" en evs "[]", unfolded hoare_def, THEN spec, of "st\<lparr>t_exec := ex\<rparr>"]
  show "case execute_tool_stream env s cs ctx st of (Inl e, st') \<Rightarrow> any_exn e st'
      | (Inr y, st') \<Rightarrow> cont env s pend (fst y) st'"
    by (simp add: execute_tool_stream_def x)
qed

text \<open>The end of a continuation, in the two orders the code has.\<close>

lemma persist_over:
  assumes "es = pre @ [e]" "terminal_state_from_event e = Inr terminal"
    "ev_type e = TURN_COMPLETED \<or> ev_type e = TURN_FAILED"
  shows "hoare (\<lambda>st. cont env s [] es st \<and> sr_status (t_session st) = SESSION_IDLE)
    (act_bind (persist_session env s) (\<lambda>_. act_return (es, terminal)))
    (continuation_over env s) any_exn"
proof (rule hoareI)
  fix st assume r: "cont env s [] es st \<and> sr_status (t_session st) = SESSION_IDLE"
  then obtain fs where p: "persist_session env s st = (Inr (), st\<lparr>t_files := fs\<rparr>)"
      "stored env s (\<lambda>r. r = t_session st) (st\<lparr>t_files := fs\<rparr>)"
    using persist_stored [of env s "\<lambda>_. True" st] by (auto simp: cont_def)
  then show "case act_bind (persist_session env s) (\<lambda>_. act_return (es, terminal)) st of
      (Inl e, st') \<Rightarrow> any_exn e st' | (Inr x, st') \<Rightarrow> continuation_over env s x st'"
    using r assms by (auto simp: act_bind_def act_return_def continuation_over_def durable_def cont_def stored_def)
qed

lemma failed_continuation_over:
  "hoare (cont env s pend es) (failed_continuation env s es terminal) (continuation_over env s) any_exn"
  unfolding failed_continuation_def
proof (rule hoare_bind [OF cont_append])
  fix e
  have "hoare (cont env s pend (es @ [e])) (modify_session (\<lambda>r. r\<lparr>sr_pending := [], sr_status := SESSION_IDLE\<rparr>))
      (\<lambda>_ st. cont env s [] (es @ [e]) st \<and> sr_status (t_session st) = SESSION_IDLE) any_exn"
    by (rule hoare_conseq [OF cont_modify]) auto
  then have m: "hoare (\<lambda>st. cont env s pend (es @ [e]) st \<and> ev_type e = TURN_FAILED \<and> ev_payload e = terminal_to_dict terminal)
      (modify_session (\<lambda>r. r\<lparr>sr_pending := [], sr_status := SESSION_IDLE\<rparr>))
      (\<lambda>_ st. (cont env s [] (es @ [e]) st \<and> sr_status (t_session st) = SESSION_IDLE)
         \<and> ev_type e = TURN_FAILED \<and> ev_payload e = terminal_to_dict terminal) any_exn"
    by (auto simp: hoare_def split: prod.splits sum.splits)
  show "hoare (\<lambda>st. cont env s pend (es @ [e]) st \<and> ev_type e = TURN_FAILED \<and> ev_payload e = terminal_to_dict terminal)
      (act_bind (modify_session (\<lambda>r. r\<lparr>sr_pending := [], sr_status := SESSION_IDLE\<rparr>)) (\<lambda>_.
       act_bind (persist_session env s) (\<lambda>_. act_return (es @ [e], terminal)))) (continuation_over env s) any_exn"
  proof (rule hoare_bind [OF m])
    show "hoare (\<lambda>st. (cont env s [] (es @ [e]) st \<and> sr_status (t_session st) = SESSION_IDLE)
         \<and> ev_type e = TURN_FAILED \<and> ev_payload e = terminal_to_dict terminal)
      (act_bind (persist_session env s) (\<lambda>_. act_return (es @ [e], terminal))) (continuation_over env s) any_exn"
    proof (cases "ev_type e = TURN_FAILED \<and> ev_payload e = terminal_to_dict terminal")
      case True
      then have "terminal_state_from_event e = Inr terminal" by (simp add: terminal_state_from_event_def)
      then show ?thesis using True persist_over [of "es @ [e]" es e terminal env s] by simp
    qed (auto simp: hoare_def)
  qed
qed

lemma hoare_fix:
  assumes "c \<Longrightarrow> hoare P m Q any_exn"
  shows "hoare (\<lambda>st. P st \<and> c) m Q any_exn"
  using assms by (cases c) (simp_all add: hoare_def)

lemma finish_continuation_over:
  "hoare (cont env s pend es) (finish_continuation env s es results) (continuation_over env s) any_exn"
  unfolding finish_continuation_def Let_def
proof (rule hoare_bind)
  show "hoare (cont env s pend es) (modify_session (\<lambda>r. r\<lparr>sr_pending := []\<rparr>)) (\<lambda>_. cont env s [] es) any_exn"
    by (rule hoare_conseq [OF cont_modify]) auto
next
  let ?terminal = "make_terminal COMPLETED ''approval_continuation'' None None"
  have last: "hoare (cont env s [] (es @ answer)) (act_bind (append_new_event env s TURN_COMPLETED (terminal_to_dict ?terminal)) (\<lambda>e.
      act_bind (modify_session (\<lambda>r. r\<lparr>sr_status := SESSION_IDLE\<rparr>)) (\<lambda>_.
      act_bind (persist_session env s) (\<lambda>_. act_return (es @ answer @ [e], ?terminal)))))
      (continuation_over env s) any_exn" for answer
  proof (rule hoare_bind [OF cont_append], rule hoare_fix)
    fix e :: runtime_event assume e: "ev_type e = TURN_COMPLETED \<and> ev_payload e = terminal_to_dict ?terminal"
    then have t: "terminal_state_from_event e = Inr ?terminal" by (simp add: terminal_state_from_event_def)
    have m: "hoare (cont env s [] ((es @ answer) @ [e])) (modify_session (\<lambda>r. r\<lparr>sr_status := SESSION_IDLE\<rparr>))
        (\<lambda>_ st. cont env s [] (es @ answer @ [e]) st \<and> sr_status (t_session st) = SESSION_IDLE) any_exn"
      by (rule hoare_conseq [OF cont_modify]) auto
    show "hoare (cont env s [] ((es @ answer) @ [e])) (act_bind (modify_session (\<lambda>r. r\<lparr>sr_status := SESSION_IDLE\<rparr>)) (\<lambda>_.
      act_bind (persist_session env s) (\<lambda>_. act_return (es @ answer @ [e], ?terminal))))
      (continuation_over env s) any_exn"
      by (rule hoare_bind [OF m], rule persist_over [of _ "es @ answer" e]) (use e t in simp_all)
  qed
  have answer: "hoare (cont env s [] es) (case mr_message r of
          None \<Rightarrow> act_return []
        | Some m \<Rightarrow> if mr_tool_calls r \<noteq> [] then act_return []
            else act_bind (append_message \<lparr>sm_role = ''assistant'', sm_content = JStr m, sm_metadata = []\<rparr>) (\<lambda>_.
              act_bind (append_new_event env s ASSISTANT_MESSAGE [(''message'', JStr m)]) (\<lambda>e. act_return [e])))
      (\<lambda>answer. cont env s [] (es @ answer)) any_exn" for r
  proof (cases "mr_message r")
    case (Some m)
    have "hoare (cont env s [] es) (act_bind (append_message \<lparr>sm_role = ''assistant'', sm_content = JStr m, sm_metadata = []\<rparr>) (\<lambda>_.
        act_bind (append_new_event env s ASSISTANT_MESSAGE [(''message'', JStr m)]) (\<lambda>e. act_return [e])))
        (\<lambda>answer. cont env s [] (es @ answer)) any_exn"
      by (rule hoare_bind [OF cont_message], rule hoare_bind [OF cont_append], rule hoare_return) simp
    then show ?thesis by (simp add: Some hoare_return)
  qed (simp add: hoare_return)
  show "hoare (cont env s [] es) (act_bind (append_tool_results env results) (\<lambda>_.
      act_bind (act_get (\<lambda>st. request_messages env (t_session st))) (\<lambda>messages.
      act_bind (run_model_once env messages s default_control) (\<lambda>(response, _).
      act_bind (case mr_message response of
          None \<Rightarrow> act_return []
        | Some m \<Rightarrow> if mr_tool_calls response \<noteq> [] then act_return []
            else act_bind (append_message \<lparr>sm_role = ''assistant'', sm_content = JStr m, sm_metadata = []\<rparr>) (\<lambda>_.
              act_bind (append_new_event env s ASSISTANT_MESSAGE [(''message'', JStr m)]) (\<lambda>e. act_return [e])))
        (\<lambda>answer.
      act_bind (append_new_event env s TURN_COMPLETED (terminal_to_dict ?terminal)) (\<lambda>e.
      act_bind (modify_session (\<lambda>r. r\<lparr>sr_status := SESSION_IDLE\<rparr>)) (\<lambda>_.
      act_bind (persist_session env s) (\<lambda>_. act_return (es @ answer @ [e], ?terminal))))))))) (continuation_over env s) any_exn"
    by (rule hoare_bind [OF cont_results], rule hoare_bind [OF cont_get], rule hoare_bind [OF cont_model], clarify,
        rule hoare_bind [OF answer last])
qed

lemma approve_continuation_over:
  "hoare (cont env s pend []) (approve_continuation env s workdir task) (continuation_over env s) any_exn"
  unfolding approve_continuation_def
proof (rule hoare_bind)
  show "hoare (cont env s pend []) (modify_session (\<lambda>r. r\<lparr>sr_status := SESSION_RUNNING\<rparr>)) (\<lambda>_. cont env s pend []) any_exn"
    by (rule hoare_conseq [OF cont_modify]) auto
  have e: "hoare (cont env s pend (fst x)) (case x of (events, results, error) \<Rightarrow> (case error of
          Some (ToolExecutionFailedError n x) \<Rightarrow> failed_continuation env s events
            (make_terminal FAILED ''tool_execution_failed'' None
              (Some (tool_error_text (ToolExecutionFailedError n x))))
        | Some (ToolCancelledError n x) \<Rightarrow> failed_continuation env s events
            (make_terminal STOPPED ''tool_cancelled'' None
              (Some (tool_error_text (ToolCancelledError n x))))
        | _ \<Rightarrow> finish_continuation env s events results)) (continuation_over env s) any_exn" for x
    by (cases x) (auto simp: failed_continuation_over finish_continuation_over split: option.split tool_error.split)
  show "hoare (cont env s pend []) (act_bind (act_get t_session) (\<lambda>r.
     act_bind (execute_tool_stream env s (sr_pending r)
         (turn_context s r workdir (Some task) (map tc_name (sr_pending r))))
       (\<lambda>(events, results, error). case error of
          Some (ToolExecutionFailedError n x) \<Rightarrow> failed_continuation env s events
            (make_terminal FAILED ''tool_execution_failed'' None
              (Some (tool_error_text (ToolExecutionFailedError n x))))
        | Some (ToolCancelledError n x) \<Rightarrow> failed_continuation env s events
            (make_terminal STOPPED ''tool_cancelled'' None
              (Some (tool_error_text (ToolCancelledError n x))))
        | _ \<Rightarrow> finish_continuation env s events results))) (continuation_over env s) any_exn"
    by (rule hoare_bind [OF cont_get], rule hoare_bind [OF cont_tools e])
qed

lemma ensure_workspace_fields [simp]:
  "sr_status (snd (ensure_session_workspace env s r)) = sr_status r"
  "sr_pending (snd (ensure_session_workspace env s r)) = sr_pending r"
  "sr_events (snd (ensure_session_workspace env s r)) = sr_events r"
  "sr_messages (snd (ensure_session_workspace env s r)) = sr_messages r"
  by (simp_all add: ensure_session_workspace_def Let_def split: option.split)

text \<open>What \<open>continue_turn\<close> does once the session waits for an approval.\<close>

lemma continue_turn_pending:
  assumes "load_session (he_store env) (t_files st) s = Inr r" "sr_status r = SESSION_REQUIRES_ACTION" "sr_pending r \<noteq> []"
  shows "continue_turn env s approved st =
    (let (workdir, session) = ensure_session_workspace env s r; task = ''turn:'' @ s @ '':'' @ nat_str (length (sr_events r) + 1);
         st1 = st\<lparr>t_session := session, t_task := Some task\<rparr>
     in if approved then approve_continuation env s workdir task st1 else reject_continuation env s st1)"
  using assms
  by (simp add: continue_turn_def act_bind_def harness_load_def act_lift_def act_get_def act_return_def
      act_modify_def new_turn_task_id_def split_beta Let_def)

lemma rejected_continuation:
  assumes "cont env s pend [] st"
  shows "\<exists>e st'. reject_continuation env s st = (Inr ([e], make_terminal STOPPED ''approval_rejected'' None None), st')
    \<and> ev_type e = TURN_FAILED
    \<and> load_session (he_store env) (t_files st') s = Inr ((t_session st)\<lparr>sr_pending := [], sr_status := SESSION_IDLE\<rparr>)
    \<and> t_session st' = (t_session st)\<lparr>sr_pending := [], sr_status := SESSION_IDLE, sr_events := sr_events (t_session st) @ [e]\<rparr>"
proof -
  let ?r = "(t_session st)\<lparr>sr_pending := [], sr_status := SESSION_IDLE\<rparr>"
  define st1 where "st1 = st\<lparr>t_session := ?r\<rparr>"
  have s1: "stored env s (\<lambda>_. True) st1" using assms by (auto simp: st1_def cont_def stored_def)
  obtain fs where p: "persist_session env s st1 = (Inr (), st1\<lparr>t_files := fs\<rparr>)"
      "stored env s (\<lambda>r. r = t_session st1) (st1\<lparr>t_files := fs\<rparr>)"
    using persist_stored [OF s1] by blast
  have s2: "stored env s (\<lambda>_. True) (st1\<lparr>t_files := fs\<rparr>)" using p(2) by (auto simp: stored_def)
  let ?t = "make_terminal STOPPED ''approval_rejected'' None None"
  obtain e c where a: "append_new_event env s TURN_FAILED (terminal_to_dict ?t) (st1\<lparr>t_files := fs\<rparr>) =
        (Inr e, st1\<lparr>t_files := fs, t_clock := c, t_session := ?r\<lparr>sr_events := sr_events ?r @ [e]\<rparr>\<rparr>)"
      "ev_type e = TURN_FAILED"
    using append_new_event_stored [OF s2, of TURN_FAILED "terminal_to_dict ?t"] by (auto simp: st1_def)
  have "reject_continuation env s st =
      (Inr ([e], ?t), st1\<lparr>t_files := fs, t_clock := c, t_session := ?r\<lparr>sr_events := sr_events ?r @ [e]\<rparr>\<rparr>)"
    using p(1) a(1) by (simp add: reject_continuation_def Let_def act_bind_def modify_session_def act_modify_def
        act_return_def st1_def [symmetric])
  then show ?thesis using a(2) p(2) by (auto simp: stored_def st1_def)
qed

subsection \<open>Properties\<close>

lemma run_turn_result:
  "run_turn env input s ctl st = (case execute_turn_stream env input s ctl (st\<lparr>t_out := []\<rparr>) of
     (Inl e, st') \<Rightarrow> (Inl e, st')
   | (Inr _, st') \<Rightarrow> (if t_out st' = [] then (Inl (TurnTool (PyError (IndexErr ''list index out of range''))), st')
       else (case terminal_state_from_event (last (t_out st')) of
          Inl e \<Rightarrow> (Inl (TurnTool (PyError e)), st') | Inr t \<Rightarrow> (Inr (t_out st', t), st'))))"
  by (auto simp: run_turn_def act_defs split: prod.split sum.split)

lemma run_turn_over:
  assumes "env_ok (he_store env)" "store_ok (he_store env) (t_files st)"
  shows "case run_turn env input s ctl st of
      (Inr (events, terminal), st') \<Rightarrow> turn_over env s st' \<and> events = t_out st'
         \<and> terminal_state_from_event (last events) = Inr terminal
    | (Inl e, st') \<Rightarrow> crashed env s e st'"
proof -
  obtain x st' where x: "execute_turn_stream env input s ctl (st\<lparr>t_out := []\<rparr>) = (x, st')"
    by (cases "execute_turn_stream env input s ctl (st\<lparr>t_out := []\<rparr>)")
  have r: "ready env (st\<lparr>t_out := []\<rparr>)" using assms by (simp add: ready_def)
  have h: "case x of Inl e \<Rightarrow> crashed env s e st' | Inr _ \<Rightarrow> turn_over env s st'"
    using execute_turn_over [of env input s ctl, unfolded hoare_def, THEN spec, THEN mp, OF r]
    by (simp add: x split: sum.split)
  show ?thesis
  proof (cases x)
    case (Inr u)
    then have o: "turn_over env s st'" using h by simp
    then have "t_out st' \<noteq> []" "\<exists>t. terminal_state_from_event (last (t_out st')) = Inr t"
      by (auto simp: turn_over_def)
    then show ?thesis using o by (auto simp: run_turn_result x Inr)
  qed (use h in \<open>simp add: run_turn_result x\<close>)
qed

text \<open>
  C9. A turn on a well-formed store either returns or raises something that is not a tool's error.
  When it returns, its events begin with TURN_STARTED, exactly the last one ends the turn and the
  terminal state is the one that event stands for, all of them are in the log of the stored session,
  which is the session at hand, and that session is idle, or waits for an approval with the calls it
  is about when the last event is REQUIRES_ACTION.  When it raises, the store still says RUNNING and
  no event that ends the turn was delivered.
\<close>

theorem turn_outcome:
  assumes "env_ok (he_store env)" "store_ok (he_store env) (t_files st)"
  shows "case run_turn env input s ctl st of
      (Inr (events, terminal), st') \<Rightarrow>
        (\<exists>pre e. events = pre @ [e] \<and> pre \<noteq> [] \<and> ev_type (hd pre) = TURN_STARTED
           \<and> list_all (\<lambda>x. \<not> ends_turn x) pre \<and> ends_turn e \<and> terminal_state_from_event e = Inr terminal
           \<and> (if ev_type e = REQUIRES_ACTION
              then sr_status (t_session st') = SESSION_REQUIRES_ACTION \<and> sr_pending (t_session st') \<noteq> []
              else sr_status (t_session st') = SESSION_IDLE))
        \<and> subseq events (sr_events (t_session st'))
        \<and> load_session (he_store env) (t_files st') s = Inr (t_session st')
        \<and> store_ok (he_store env) (t_files st')
    | (Inl e, st') \<Rightarrow> (\<exists>p. e = TurnTool (PyError p)) \<and> list_all (\<lambda>x. \<not> ends_turn x) (t_out st')
        \<and> store_ok (he_store env) (t_files st')
        \<and> (\<exists>r. load_session (he_store env) (t_files st') s = Inr r \<and> sr_status r = SESSION_RUNNING)"
  using run_turn_over [OF assms, of s input ctl]
  by (auto simp: turn_over_def crashed_def running_def stored_def out_ok_def split: prod.splits sum.splits
      split del: if_split)


text \<open>
  When the model asks for a tool that is not registered, the turn raises \<open>KeyError\<close> out of the
  loop: no event ends it, and the stored session stays RUNNING.
\<close>

theorem unknown_tool_strands_session:
  assumes "env_ok (he_store env)" "store_ok (he_store env) (t_files st)" "0 < he_max_iterations env"
    and "ctl_cancel ctl = None" "\<And>n ms. he_model env n ms = Answer False (Inr r)" "mr_tool_calls r = c # cs"
    and "resolve_tool (ee_registry (he_exec env)) (tc_name c) = Inl e"
  shows "\<exists>p st' stored. run_turn env input s ctl st = (Inl (TurnTool (PyError p)), st')
    \<and> list_all (\<lambda>x. \<not> ends_turn x) (t_out st')
    \<and> load_session (he_store env) (t_files st') s = Inr stored \<and> sr_status stored = SESSION_RUNNING"
proof -
  obtain n where n: "nat (he_max_iterations env) = Suc n" using assms(3) by (cases "nat (he_max_iterations env)") auto
  have "never_returns (execute_turn_stream env input s ctl)"
    unfolding execute_turn_stream_def n Let_def split_beta
    by (intro never_returns_then turn_loop_unknown [OF assms(4-7)])
  then obtain x st' where "execute_turn_stream env input s ctl (st\<lparr>t_out := []\<rparr>) = (Inl x, st')"
    using never_returnsD by blast
  then show ?thesis
    using run_turn_over [OF assms(1,2), of s input ctl]
    by (auto simp: run_turn_result crashed_def running_def stored_def out_ok_def)
qed

text \<open>
  A turn asks the model at most once per iteration and retry.
\<close>

theorem model_calls_bounded:
  "t_calls (snd (run_turn env input s ctl st)) \<le>
     t_calls st + nat (he_max_iterations env) * Suc (nat (max 0 (ctl_max_retries ctl)))"
proof -
  have m: "costs 0 (act_modify f)" if "\<And>st. t_calls (f st) = t_calls st" for f :: "'a turn_state \<Rightarrow> 'a turn_state"
    using that by (simp add: costs_def act_modify_def)
  have l: "costs 0 (harness_load env s)" "costs 0 (new_turn_task_id env s)"
    unfolding new_turn_task_id_def harness_load_def by (intro free)+
  have b: "costs (n * max_attempts ctl) (act_bind m f)" if "costs 0 m" "\<And>x. costs (n * max_attempts ctl) (f x)"
    for m :: "('a, 'b) act" and f :: "'b \<Rightarrow> ('a, 'c) act" and n
    using costs_bind [OF that] by simp
  have "costs (nat (he_max_iterations env) * max_attempts ctl) (execute_turn_stream env input s ctl)"
    unfolding execute_turn_stream_def Let_def split_beta
    by (intro b l free m costs_turn_loop) simp_all
  then have "t_calls (snd (execute_turn_stream env input s ctl (st\<lparr>t_out := []\<rparr>))) \<le>
      t_calls st + nat (he_max_iterations env) * max_attempts ctl"
    by (force simp: costs_def dest: spec [of _ "st\<lparr>t_out := []\<rparr>"])
  moreover have "t_calls (snd (run_turn env input s ctl st)) =
      t_calls (snd (execute_turn_stream env input s ctl (st\<lparr>t_out := []\<rparr>)))"
    by (simp add: run_turn_result split: prod.split sum.split)
  ultimately show ?thesis by simp
qed

text \<open>
  A session that does not wait for an approval cannot be continued: nothing changes.
\<close>

theorem continuation_needs_pending:
  assumes "load_session (he_store env) (t_files st) s = Inr r"
    and "sr_status r \<noteq> SESSION_REQUIRES_ACTION \<or> sr_pending r = []"
  shows "continue_turn env s approved st =
    (Inl (TurnTool (PyError (ValueError ''Session has no pending requires_action continuation''))), st)"
  using assms by (simp add: continue_turn_def act_bind_def harness_load_def act_lift_def act_get_def act_raise_def)

text \<open>
  C11. A continuation after an approval that returns has stored the session at hand: it is idle, no
  call waits any more, the events it returns are in the log, and the last one is the terminal event.
\<close>

theorem approval_continuation_ends:
  assumes "env_ok (he_store env)" "store_ok (he_store env) (t_files st)"
    and "continue_turn env s True st = (Inr (events, terminal), st')"
  shows "load_session (he_store env) (t_files st') s = Inr (t_session st')
    \<and> sr_status (t_session st') = SESSION_IDLE \<and> sr_pending (t_session st') = []
    \<and> subseq events (sr_events (t_session st'))
    \<and> (\<exists>pre e. events = pre @ [e] \<and> terminal_state_from_event e = Inr terminal
         \<and> (ev_type e = TURN_COMPLETED \<or> ev_type e = TURN_FAILED))"
proof -
  obtain r where r: "load_session (he_store env) (t_files st) s = Inr r"
    using load_session_ok assms(1,2) by blast
  then have p: "sr_status r = SESSION_REQUIRES_ACTION" "sr_pending r \<noteq> []"
    using assms(3) by (auto simp: continue_turn_def act_bind_def harness_load_def act_lift_def act_get_def act_raise_def
        split: if_splits)
  obtain workdir session where w: "ensure_session_workspace env s r = (workdir, session)"
    by (cases "ensure_session_workspace env s r")
  have c: "continues r session" using ensure_workspace_continues [of r env s] by (simp add: w)
  define task where "task = ''turn:'' @ s @ '':'' @ nat_str (length (sr_events r) + 1)"
  define st1 where "st1 = st\<lparr>t_session := session, t_task := Some task\<rparr>"
  have "cont env s (sr_pending session) [] st1"
    using assms(1,2) r c by (auto simp: cont_def stored_def st1_def)
  moreover have "approve_continuation env s workdir task st1 = (Inr (events, terminal), st')"
    using assms(3) continue_turn_pending [OF r p, of True] by (simp add: w st1_def task_def Let_def)
  ultimately have "continuation_over env s (events, terminal) st'"
    using hoare_Inr [OF approve_continuation_over] by blast
  then show ?thesis by (auto simp: continuation_over_def durable_def)
qed

text \<open>
  A rejected continuation leaves the stored session idle with no call waiting, but the TURN_FAILED
  event it returns, which the session at hand has, never reaches the store: the log on disk is the one
  before the rejection.
\<close>

theorem rejection_event_not_durable:
  assumes "env_ok (he_store env)" "store_ok (he_store env) (t_files st)"
    and "load_session (he_store env) (t_files st) s = Inr r"
    and "sr_status r = SESSION_REQUIRES_ACTION" "sr_pending r \<noteq> []"
  shows "\<exists>e terminal st' stored. continue_turn env s False st = (Inr ([e], terminal), st')
    \<and> ts_status terminal = STOPPED \<and> ev_type e = TURN_FAILED
    \<and> load_session (he_store env) (t_files st') s = Inr stored
    \<and> sr_status stored = SESSION_IDLE \<and> sr_pending stored = []
    \<and> sr_events stored = sr_events r \<and> sr_events (t_session st') = sr_events r @ [e]"
proof -
  obtain workdir session where w: "ensure_session_workspace env s r = (workdir, session)"
    by (cases "ensure_session_workspace env s r")
  have c: "continues r session" using ensure_workspace_continues [of r env s] by (simp add: w)
  have ev: "sr_events session = sr_events r" using ensure_workspace_fields(3) [of env s r] by (simp add: w)
  define st1 where "st1 = st\<lparr>t_session := session,
    t_task := Some (''turn:'' @ s @ '':'' @ nat_str (length (sr_events r) + 1))\<rparr>"
  have "cont env s (sr_pending session) [] st1"
    using assms(1-3) c by (auto simp: cont_def stored_def st1_def)
  from rejected_continuation [OF this] show ?thesis
    using continue_turn_pending [OF assms(3-5), of False] ev
    by (fastforce simp: w st1_def Let_def make_terminal_def)
qed

subsection \<open>Concrete turns\<close>

text \<open>A model that asks for one tool and then answers, the counter's tools and an empty store.\<close>

definition ask_then_answer :: "string \<Rightarrow> nat \<Rightarrow> json_object list \<Rightarrow> model_answer" where
  "ask_then_answer tool n ms = Answer False (Inr (if n = 0
     then \<lparr>mr_message = None, mr_tool_calls = [counter_call tool ''1'']\<rparr>
     else \<lparr>mr_message = Some ''done'', mr_tool_calls = []\<rparr>))"

definition demo_harness :: "string \<Rightarrow> nat harness_env" where
  "demo_harness tool = \<lparr>he_store = demo_env, he_exec = counter_env, he_model = ask_then_answer tool,
     he_max_iterations = 3, he_governance = None, he_now = nat_str, he_abspath = (\<lambda>p. p),
     he_agent_root = None, he_role = None\<rparr>"

definition demo_turn :: "file_store \<Rightarrow> nat turn_state" where
  "demo_turn fs = \<lparr>t_files = fs, t_texts = (\<lambda>_. None), t_exec = counter_state, t_session = new_session ''s'', t_out = [],
     t_calls = 0, t_polls = 0, t_clock = 0, t_task = None, t_transition = [], t_turn_count = 0, t_requires = False\<rparr>"

lemmas demo_turn_defs = demo_harness_def demo_turn_def

lemma demo_harness_ok: "env_ok (he_store (demo_harness tool))"
  "store_ok (he_store (demo_harness tool)) (t_files (demo_turn empty_store))"
  by (simp_all add: demo_turn_defs)

lemma counter_sound: "resolves_sound counter_env ''read''" "resolves_sound counter_env ''inc''"
  by (auto simp: resolves_sound_def counter_resolve sound_tool_def counter_tool_def schema_required_def
      tool_validate_input_def tool_check_permissions_def permission_decision_of_def)

lemma turn_outcome_witness:
  "case run_turn (demo_harness ''read'') ''hi'' ''s'' default_control (demo_turn empty_store) of
      (Inr (events, terminal), st') \<Rightarrow>
        (\<exists>pre e. events = pre @ [e] \<and> pre \<noteq> [] \<and> ev_type (hd pre) = TURN_STARTED
           \<and> list_all (\<lambda>x. \<not> ends_turn x) pre \<and> ends_turn e \<and> terminal_state_from_event e = Inr terminal
           \<and> (if ev_type e = REQUIRES_ACTION
              then sr_status (t_session st') = SESSION_REQUIRES_ACTION \<and> sr_pending (t_session st') \<noteq> []
              else sr_status (t_session st') = SESSION_IDLE))
        \<and> subseq events (sr_events (t_session st'))
        \<and> load_session (he_store (demo_harness ''read'')) (t_files st') ''s'' = Inr (t_session st')
        \<and> store_ok (he_store (demo_harness ''read'')) (t_files st')
    | (Inl e, st') \<Rightarrow> (\<exists>p. e = TurnTool (PyError p)) \<and> list_all (\<lambda>x. \<not> ends_turn x) (t_out st')
        \<and> store_ok (he_store (demo_harness ''read'')) (t_files st')
        \<and> (\<exists>r. load_session (he_store (demo_harness ''read'')) (t_files st') ''s'' = Inr r \<and> sr_status r = SESSION_RUNNING)"
  by (rule turn_outcome [OF demo_harness_ok])


text \<open>A model that keeps asking for a tool nobody registered.\<close>

definition lost_harness :: "nat harness_env" where
  "lost_harness = (demo_harness ''read'')\<lparr>he_model := (\<lambda>n ms. Answer False (Inr
     \<lparr>mr_message = None, mr_tool_calls = [counter_call ''lost'' ''1'']\<rparr>))\<rparr>"

lemma unknown_tool_strands_session_witness:
  "\<exists>p st' stored. run_turn lost_harness ''hi'' ''s'' default_control (demo_turn empty_store) = (Inl (TurnTool (PyError p)), st')
    \<and> list_all (\<lambda>x. \<not> ends_turn x) (t_out st')
    \<and> load_session (he_store lost_harness) (t_files st') ''s'' = Inr stored \<and> sr_status stored = SESSION_RUNNING"
  by (rule unknown_tool_strands_session [where r = "\<lparr>mr_message = None, mr_tool_calls = [counter_call ''lost'' ''1'']\<rparr>"
        and c = "counter_call ''lost'' ''1''" and cs = "[]" and e = "KeyError ''Unknown tool: lost''"])
     (simp_all add: lost_harness_def demo_turn_defs default_control_def counter_call_def counter_resolve)

lemma continuation_needs_pending_witness:
  "continue_turn (demo_harness ''read'') ''s'' True (demo_turn empty_store) =
    (Inl (TurnTool (PyError (ValueError ''Session has no pending requires_action continuation''))), demo_turn empty_store)"
proof (rule continuation_needs_pending)
  show "load_session (he_store (demo_harness ''read'')) (t_files (demo_turn empty_store)) ''s'' = Inr (new_session ''s'')"
    by (simp add: demo_turn_defs) code_simp
qed (simp add: new_session_def)

text \<open>A session on disk that waits for an approval of the increment.\<close>

definition blocked_record :: session_record where
  "blocked_record = (new_session ''s'')\<lparr>sr_status := SESSION_REQUIRES_ACTION, sr_pending := [counter_call ''read'' ''1'']\<rparr>"

definition blocked_store :: file_store where
  "blocked_store = snd (save_session demo_env ''s'' blocked_record empty_store)"

lemma blocked_store_ok: "store_ok demo_env blocked_store"
    "load_session demo_env blocked_store ''s'' = Inr blocked_record"
proof -
  have e: "load_session demo_env empty_store ''s'' = Inr (new_session ''s'')" by code_simp
  obtain fs where "save_session demo_env ''s'' blocked_record empty_store = (Inr (), fs)" "store_ok demo_env fs"
      "load_session demo_env fs ''s'' = Inr blocked_record"
    using save_continues [OF demo_env_ok store_ok_empty e, of blocked_record]
    by (auto simp: blocked_record_def new_session_def continues_def)
  then show "store_ok demo_env blocked_store" "load_session demo_env blocked_store ''s'' = Inr blocked_record"
    by (simp_all add: blocked_store_def)
qed

lemma rejection_event_not_durable_witness:
  "\<exists>e terminal st' stored. continue_turn (demo_harness ''read'') ''s'' False (demo_turn blocked_store) = (Inr ([e], terminal), st')
    \<and> ts_status terminal = STOPPED \<and> ev_type e = TURN_FAILED
    \<and> load_session demo_env (t_files st') ''s'' = Inr stored
    \<and> sr_status stored = SESSION_IDLE \<and> sr_pending stored = []
    \<and> sr_events stored = [] \<and> sr_events (t_session st') = [e]"
  using rejection_event_not_durable [of "demo_harness ''read''" "demo_turn blocked_store" "''s''" blocked_record] blocked_store_ok
  by (simp add: demo_turn_defs blocked_record_def new_session_def)

definition approved_run :: "(turn_exn + runtime_event list \<times> terminal_state) \<times> nat turn_state" where
  "approved_run = continue_turn (demo_harness ''read'') ''s'' True (demo_turn blocked_store)"

lemma approved_run_returns: "\<not> isl (fst approved_run)"
  by code_simp

lemma approval_continuation_ends_witness:
  "\<exists>events terminal st'. approved_run = (Inr (events, terminal), st')
    \<and> load_session demo_env (t_files st') ''s'' = Inr (t_session st')
    \<and> sr_status (t_session st') = SESSION_IDLE \<and> sr_pending (t_session st') = []
    \<and> (\<exists>pre e. events = pre @ [e] \<and> terminal_state_from_event e = Inr terminal
         \<and> (ev_type e = TURN_COMPLETED \<or> ev_type e = TURN_FAILED))"
proof -
  obtain events terminal st' where r: "approved_run = (Inr (events, terminal), st')"
    using approved_run_returns by (metis isl_def old.sum.exhaust surj_pair fst_conv)
  have "env_ok (he_store (demo_harness ''read''))"
    "store_ok (he_store (demo_harness ''read'')) (t_files (demo_turn blocked_store))"
    using blocked_store_ok by (simp_all add: demo_turn_defs)
  from approval_continuation_ends [OF this r [unfolded approved_run_def]] r show ?thesis
    by (simp add: demo_harness_def) blast
qed

end
