(* ===== verification/GatewayProps.thy ===== *)
theory GatewayProps
  imports SessionScope LocalSessions TurnProps
begin

text \<open>
  What the gateway promises the chats: the contract of a session runtime, met by the in-process
  adapter, from which a chat is served from one session as long as the gateway lives; what comes
  back after a restart; and what a killed session still does.
\<close>

declare map_of_eq_Some_iff [simp del]

lemma bind_lift [simp]: "bind (lift (Inr x)) f = f x" "bind (lift (Inl e)) f = throw e"
  by (simp_all add: fun_eq_iff bind_def lift_def throw_def)

subsection \<open>The contract of a session runtime\<close>

text \<open>
  Its operations keep an invariant of its state, and the events it returns for a session are events
  of that session.
\<close>

definition serves_own :: "('s \<Rightarrow> bool) \<Rightarrow> string \<Rightarrow> ('s, runtime_event list) eff \<Rightarrow> bool" where
  "serves_own ok s m \<longleftrightarrow> triple ok m (\<lambda>es st. ok st \<and> list_all (of_session s) es) (\<lambda>_. ok)"

text \<open>
  The bindings \<open>B\<close> of chats to sessions are in the table, and the runtime is in order.
\<close>

definition bound :: "chat \<Rightarrow> string \<Rightarrow> 's gateway \<Rightarrow> bool" where
  "bound k s g \<longleftrightarrow> (\<exists>b. dict_get (gw_bindings g) k = Some b \<and> sb_session b = s)"

definition tied :: "('s \<Rightarrow> bool) \<Rightarrow> (chat \<times> string) set \<Rightarrow> 's gateway \<Rightarrow> bool" where
  "tied ok B g \<longleftrightarrow> ok (gw_runtime g) \<and> (\<forall>(k, s) \<in> B. bound k s g)"

definition own_envelope :: "string \<Rightarrow> egress_envelope \<Rightarrow> bool" where
  "own_envelope s e \<longleftrightarrow> ee_session e = s \<and> (\<exists>ev. ee_event e = event_to_dict ev \<and> of_session s ev)"

lemma own_envelopeI: "ee_session x = s \<Longrightarrow> ee_event x = event_to_dict e \<Longrightarrow> of_session s e \<Longrightarrow> own_envelope s x"
  by (auto simp: own_envelope_def)

lemma bound_unique: "bound k s g \<Longrightarrow> bound k s' g \<Longrightarrow> s = s'"
  by (auto simp: bound_def)

lemma tied_insert: "tied ok B g \<Longrightarrow> bound k s g \<Longrightarrow> tied ok (insert (k, s) B) g"
  by (simp add: tied_def)

lemma tied_mono: "tied ok B' g \<Longrightarrow> B \<subseteq> B' \<Longrightarrow> tied ok B g"
  by (auto simp: tied_def)

lemma triple_on_runtime:
  assumes "triple ok m (\<lambda>x st. ok st \<and> Q x) (\<lambda>_. ok)"
  shows "triple (tied ok B) (on_runtime m) (\<lambda>x g. tied ok B g \<and> Q x) (\<lambda>_. tied ok B)"
proof (rule tripleI)
  fix g assume t: "tied ok B g"
  obtain r w where m: "m (gw_runtime g) = (r, w)" by (cases "m (gw_runtime g)")
  have "case (r, w) of (Inl e, s') \<Rightarrow> ok s' | (Inr x, s') \<Rightarrow> ok s' \<and> Q x"
    using tripleD [OF assms, of "gw_runtime g"] t by (simp add: m tied_def)
  then show "case on_runtime m g of (Inl e, s') \<Rightarrow> tied ok B s' | (Inr x, s') \<Rightarrow> tied ok B s' \<and> Q x"
    using t by (cases r) (simp_all add: on_runtime_def m tied_def bound_def)
qed

lemma triple_set_binding:
  assumes "(k, sb_session b) \<in> B"
  shows "triple (tied ok B) (set_binding k b) (\<lambda>_. tied ok B) E"
  unfolding set_binding_def
proof (rule triple_modify)
  fix g assume t: "tied ok B g"
  have "bound k' s (g\<lparr>gw_bindings := dict_set k b (gw_bindings g)\<rparr>)" if "(k', s) \<in> B" for k' s
  proof (cases "k' = k")
    case True
    have "bound k (sb_session b) g" "bound k s g" using t assms that True by (auto simp: tied_def)
    then show ?thesis using bound_unique True by (fastforce simp: bound_def)
  next
    case False
    then show ?thesis using t that by (auto simp: tied_def bound_def)
  qed
  then show "tied ok B (g\<lparr>gw_bindings := dict_set k b (gw_bindings g)\<rparr>)" using t by (auto simp: tied_def)
qed

lemma persist_binding_tied: "triple (tied ok B) (persist_binding b) (\<lambda>_. tied ok B) (\<lambda>_. tied ok B)"
  by (rule tripleI) (auto simp: persist_binding_def tied_def bound_def split: option.split prod.split sum.split)

lemma project_events_own:
  "project_events es b = Inr out \<Longrightarrow> list_all (of_session (sb_session b)) es \<Longrightarrow> list_all (own_envelope (sb_session b)) out"
proof (induction es arbitrary: out)
  case (Cons e es)
  have "own_envelope (sb_session b) x" if "project_runtime_event e b = Inr (Some x)" for x
    using that Cons.prems(2)
    by (intro own_envelopeI [of _ _ e]) (auto simp: ebind_Inr_iff project_runtime_event_def split: if_splits)
  then show ?case using Cons by (auto simp: ebind_Inr_iff split: option.splits)
qed simp

locale session_runtime_law =
  fixes rt :: "'s session_runtime" and ok :: "'s \<Rightarrow> bool"
  assumes spawning: "keeps ok (sa_spawn rt s)"
    and killing: "keeps ok (sa_kill rt s)"
    and checkpointing: "keeps ok (sa_checkpoint rt s)"
    and marking: "keeps ok (sa_marker rt s)"
    and writing: "serves_own ok s (sa_write rt s text)"
    and observing: "serves_own ok s (sa_observe rt s after)"
    and continuing: "serves_own ok s (sa_continue rt s approved)"
begin

lemma quiet: "keeps ok m \<Longrightarrow> triple (tied ok B) (on_runtime m) (\<lambda>_. tied ok B) (\<lambda>_. tied ok B)"
proof -
  assume k: "keeps ok m"
  from keeps_triple [OF k] have "triple ok m (\<lambda>x st. ok st \<and> True) (\<lambda>_. ok)" by simp
  from triple_on_runtime [OF this] show ?thesis by simp
qed

lemma syncing:
  assumes "\<forall>k. key = Some k \<longrightarrow> (k, sb_session b) \<in> B"
  shows "triple (tied ok B) (sync_binding rt key b) (\<lambda>b' g. tied ok B g \<and> sb_session b' = sb_session b) (\<lambda>_. tied ok B)"
proof -
  have set: "triple (tied ok B) (case key of None \<Rightarrow> ret () | Some k \<Rightarrow> set_binding k b') (\<lambda>_. tied ok B) (\<lambda>_. tied ok B)"
    if "sb_session b' = sb_session b" for b'
    using assms that by (cases key) (auto intro: triple_ret triple_set_binding)
  show ?thesis
    unfolding sync_binding_def Let_def
    by (rule triple_bind [OF quiet [OF checkpointing]], rule triple_bind [OF set], simp,
        rule triple_bind [OF quiet [OF marking]], rule triple_bind [OF set], simp, rule triple_ret) simp
qed

lemma delivering:
  assumes "\<forall>k. key = Some k \<longrightarrow> (k, sb_session b) \<in> B" "list_all (of_session (sb_session b)) es"
  shows "triple (tied ok B) (project_many rt key b es)
    (\<lambda>out g. tied ok B g \<and> list_all (own_envelope (sb_session b)) out) (\<lambda>_. tied ok B)"
  unfolding project_many_def
proof (rule triple_bind [OF syncing [OF assms(1)]])
  fix b'
  show "triple (\<lambda>g. tied ok B g \<and> sb_session b' = sb_session b) (bind (lift (project_events es b')) (\<lambda>projected.
      bind (persist_binding b') (\<lambda>_. ret projected)))
    (\<lambda>out g. tied ok B g \<and> list_all (own_envelope (sb_session b)) out) (\<lambda>_. tied ok B)"
  proof (rule triple_bind [where R = "\<lambda>out g. tied ok B g \<and> list_all (own_envelope (sb_session b)) out"])
    show "triple (\<lambda>g. tied ok B g \<and> sb_session b' = sb_session b) (lift (project_events es b'))
        (\<lambda>out g. tied ok B g \<and> list_all (own_envelope (sb_session b)) out) (\<lambda>_. tied ok B)"
    proof (rule tripleI)
      fix g assume g: "tied ok B g \<and> sb_session b' = sb_session b"
      then show "case lift (project_events es b') g of (Inl e, s') \<Rightarrow> tied ok B s'
          | (Inr out, g) \<Rightarrow> tied ok B g \<and> list_all (own_envelope (sb_session b)) out"
        using project_events_own [of es b'] assms(2) by (simp add: lift_def split: sum.split)
    qed
    fix out
    show "triple (\<lambda>g. tied ok B g \<and> list_all (own_envelope (sb_session b)) out) (bind (persist_binding b') (\<lambda>_. ret out))
        (\<lambda>out g. tied ok B g \<and> list_all (own_envelope (sb_session b)) out) (\<lambda>_. tied ok B)"
    proof (rule triple_bind [where R = "\<lambda>_ g. tied ok B g \<and> list_all (own_envelope (sb_session b)) out"])
      show "triple (\<lambda>g. tied ok B g \<and> list_all (own_envelope (sb_session b)) out) (persist_binding b')
          (\<lambda>_ g. tied ok B g \<and> list_all (own_envelope (sb_session b)) out) (\<lambda>_. tied ok B)"
        using persist_binding_tied [of ok B b'] by (cases "list_all (own_envelope (sb_session b)) out") (simp_all add: triple_def)
    qed (rule triple_ret, simp)
  qed
qed

lemma getting:
  "triple (tied ok B) (get_binding trunc rt k) (\<lambda>b g. tied ok (insert (k, sb_session b) B) g) (\<lambda>_. tied ok B)"
proof (rule tripleI)
  fix g assume t: "tied ok B g"
  let ?post = "case get_binding trunc rt k g of (Inl e, s') \<Rightarrow> tied ok B s'
    | (Inr b, s') \<Rightarrow> tied ok (insert (k, sb_session b) B) s'"
  show ?post
  proof (cases "dict_get (gw_bindings g) k")
    case (Some b)
    then have "get_binding trunc rt k g = (Inr b, g)" by (simp add: get_binding_def ret_def)
    moreover have "bound k (sb_session b) g" using Some by (simp add: bound_def)
    ultimately show ?thesis using t by (simp add: tied_insert)
  next
    case None
    show ?thesis
    proof (cases "\<exists>b. (case gw_store g of None \<Rightarrow> Inr None | Some fs \<Rightarrow> load_binding trunc fs (fst k) (snd k)) = Inr (Some b)")
      case True
      then obtain b where b: "(case gw_store g of None \<Rightarrow> Inr None | Some fs \<Rightarrow> load_binding trunc fs (fst k) (snd k)) = Inr (Some b)" by blast
      let ?g = "g\<lparr>gw_bindings := dict_set k b (gw_bindings g)\<rparr>" and ?B = "insert (k, sb_session b) B"
      have "k' \<noteq> k" if "(k', s) \<in> B" for k' s using t that None by (auto simp: tied_def bound_def)
      then have "bound k' s ?g" if "(k', s) \<in> B" for k' s using t that by (fastforce simp: tied_def bound_def)
      then have "tied ok ?B ?g" using t by (auto simp: tied_def bound_def)
      with quiet [OF spawning, of ?B "sb_session b"]
      have "case on_runtime (sa_spawn rt (sb_session b)) ?g of (Inl e, s') \<Rightarrow> tied ok ?B s' | (Inr x, s') \<Rightarrow> tied ok ?B s'"
        by (rule tripleD)
      moreover have "get_binding trunc rt k g = bind (on_runtime (sa_spawn rt (sb_session b))) (\<lambda>_. ret b) ?g"
        using None b by (simp add: get_binding_def bind_reads set_binding_def)
      ultimately show ?thesis
        by (auto simp: bind_def ret_def split: prod.splits sum.splits intro: tied_mono)
    next
      case False
      then have "fst (get_binding trunc rt k g) \<in> range Inl" "snd (get_binding trunc rt k g) = g"
        using None by (auto simp: get_binding_def bind_reads throw_def split: sum.split option.split)
      then show ?thesis using t by (cases "get_binding trunc rt k g") auto
    qed
  qed
qed

text \<open>What an operation on a chat delivers is of the session the chat is bound to afterwards.\<close>

definition delivers :: "(chat \<times> string) set \<Rightarrow> chat \<Rightarrow> ('s gateway, egress_envelope list) eff \<Rightarrow> bool" where
  "delivers B k m \<longleftrightarrow> triple (tied ok B) m
     (\<lambda>out g. tied ok B g \<and> list_all (\<lambda>e. \<exists>s. bound k s g \<and> own_envelope s e) out) (\<lambda>_. tied ok B)"

lemma deliversI:
  assumes "(k, s) \<in> B" "triple (tied ok B) m (\<lambda>out g. tied ok B g \<and> list_all (own_envelope s) out) (\<lambda>_. tied ok B)"
  shows "delivers B k m"
  unfolding delivers_def using assms(2) by (rule triple_conseq) (use assms(1) in \<open>auto simp: tied_def list_all_iff\<close>)

lemma from_binding:
  assumes "\<And>b B'. (k, sb_session b) \<in> B' \<Longrightarrow> triple (tied ok B') (f b) (Q B') (\<lambda>_. tied ok B')"
    "\<And>s x g. Q (insert (k, s) B) x g \<Longrightarrow> R x g"
  shows "triple (tied ok B) (bind (get_binding trunc rt k) f) R (\<lambda>_. tied ok B)"
proof (rule triple_bind [OF getting])
  fix b :: session_binding
  have "triple (tied ok (insert (k, sb_session b) B)) (f b) (Q (insert (k, sb_session b) B)) (\<lambda>_. tied ok (insert (k, sb_session b) B))"
    by (rule assms(1)) simp
  then show "triple (tied ok (insert (k, sb_session b) B)) (f b) R (\<lambda>_. tied ok B)"
    by (rule triple_conseq) (auto simp: tied_def assms(2))
qed

lemma delivers_from_binding:
  assumes "\<And>b B'. (k, sb_session b) \<in> B' \<Longrightarrow> delivers B' k (f b)"
  shows "delivers B k (bind (get_binding trunc rt k) f)"
  unfolding delivers_def
  by (rule from_binding [where Q = "\<lambda>B' out g. tied ok B' g \<and> list_all (\<lambda>e. \<exists>s. bound k s g \<and> own_envelope s e) out"])
     (use assms in \<open>auto simp: delivers_def tied_def\<close>)

lemma serving:
  "serves_own ok s m \<Longrightarrow> triple (tied ok B) (on_runtime m) (\<lambda>es g. tied ok B g \<and> list_all (of_session s) es) (\<lambda>_. tied ok B)"
  unfolding serves_own_def by (rule triple_on_runtime)

lemma serve_and_deliver:
  assumes "serves_own ok (sb_session b) m" "\<forall>k. key = Some k \<longrightarrow> (k, sb_session b) \<in> B"
  shows "triple (tied ok B) (bind (on_runtime m) (project_many rt key b))
    (\<lambda>out g. tied ok B g \<and> list_all (own_envelope (sb_session b)) out) (\<lambda>_. tied ok B)"
proof (rule triple_bind [OF serving [OF assms(1)]])
  show "triple (\<lambda>g. tied ok B g \<and> list_all (of_session (sb_session b)) es) (project_many rt key b es)
    (\<lambda>out g. tied ok B g \<and> list_all (own_envelope (sb_session b)) out) (\<lambda>_. tied ok B)" for es
    using delivering [OF assms(2), of es]
    by (cases "list_all (of_session (sb_session b)) es") (simp_all add: triple_def)
qed

lemma observe_delivers: "delivers B (ci_channel c, conversation_of c) (observe_session trunc rt c after)"
  unfolding observe_session_def Let_def
  by (rule delivers_from_binding, rule deliversI, assumption, rule serve_and_deliver [OF observing]) simp

lemma resume_delivers: "delivers B (ci_channel c, conversation_of c) (resume_bound_session trunc rt c after)"
  unfolding resume_bound_session_def Let_def
  by (rule delivers_from_binding, rule deliversI, assumption, rule serve_and_deliver [OF observing]) simp

lemma message_delivers:
  assumes "receive_input e = Inr n"
  shows "delivers B (nm_channel n, nm_conversation n) (process_user_message trunc rt e)"
proof -
  have "bind (lift (receive_input e)) f = f n" for f :: "normalized_message \<Rightarrow> ('s gateway, egress_envelope list) eff"
    by (simp add: fun_eq_iff bind_def lift_def assms)
  moreover have "delivers B (nm_channel n, nm_conversation n) (bind (get_binding trunc rt (nm_channel n, nm_conversation n)) (\<lambda>b.
     bind (on_runtime (sa_write rt (sb_session b) (nm_content n)))
       (\<lambda>events. project_many rt (Some (nm_channel n, nm_conversation n)) b events)))"
    by (rule delivers_from_binding, rule deliversI, assumption, rule serve_and_deliver [OF writing]) simp
  ultimately show ?thesis by (simp add: process_user_message_def Let_def)
qed

text \<open>A control message for the session of the chat, and one for another session.\<close>

lemma answering:
  assumes "\<forall>k. key = Some k \<longrightarrow> (k, sb_session b) \<in> B" "sb_session b = target"
  shows "triple (tied ok B) (bind (on_runtime (sa_continue rt target a)) (\<lambda>events. project_many rt key b events))
    (\<lambda>out g. tied ok B g \<and> list_all (own_envelope target) out) (\<lambda>_. tied ok B)"
  using serve_and_deliver [OF continuing assms(1), of a] by (simp add: assms(2))

lemma killing_delivers:
  "(k, s) \<in> B \<Longrightarrow> delivers B k (bind (on_runtime (sa_kill rt t)) (\<lambda>_. ret []))"
  by (rule deliversI, assumption, rule triple_bind [OF quiet [OF killing]], rule triple_ret) simp

lemma nothing_delivers: "delivers B k (ret [])"
  unfolding delivers_def by (rule triple_ret) simp

lemma after_lift: "(\<And>x. delivers B k (f x)) \<Longrightarrow> delivers B k (bind (lift r) f)"
  by (cases r) (simp_all add: delivers_def triple_throw)

lemma quietly: "delivers B k m \<Longrightarrow> triple (tied ok B) m (\<lambda>_. tied ok B) (\<lambda>_. tied ok B)"
  unfolding delivers_def by (erule triple_conseq) simp_all

lemma control_delivers:
  assumes "override = None \<or> override = Some []"
  shows "delivers B (ci_channel c, conversation_of c) (process_control_message trunc rt c control override)"
proof -
  have t: "control_target override b = sb_session b" for b using assms by (auto simp: control_target_def)
  have "delivers B' (ci_channel c, conversation_of c) (apply_control trunc rt c control subtype (sb_session b) b)"
    if b: "((ci_channel c, conversation_of c), sb_session b) \<in> B'" for B' b subtype
  proof -
    have "triple (tied ok B') (bind (on_runtime (sa_continue rt (sb_session b) a))
        (\<lambda>events. project_many rt (Some (ci_channel c, conversation_of c)) b events))
      (\<lambda>out g. tied ok B' g \<and> list_all (own_envelope (sb_session b)) out) (\<lambda>_. tied ok B')" for a
      by (rule answering) (use b in simp_all)
    from deliversI [OF b this] killing_delivers [OF b] show ?thesis
      unfolding apply_control_def projection_binding_def
      by (simp add: after_lift resume_delivers nothing_delivers)
  qed
  then show ?thesis
    unfolding process_control_message_def t by (simp add: split_beta nothing_delivers delivers_from_binding)
qed

text \<open>Nor does a message for another session change a binding.\<close>

lemma override_ties:
  "triple (tied ok B) (process_control_message trunc rt c control override) (\<lambda>_. tied ok B) (\<lambda>_. tied ok B)"
proof -
  have "triple (tied ok B') (apply_control trunc rt c control subtype target b) (\<lambda>_. tied ok B') (\<lambda>_. tied ok B')"
    if b: "((ci_channel c, conversation_of c), sb_session b) \<in> B'" for B' b subtype target
  proof -
    have "triple (tied ok B') (bind (on_runtime (sa_continue rt target a)) (\<lambda>events. project_many rt
        (if target = sb_session b then Some (ci_channel c, conversation_of c) else None) (projection_binding target b) events))
        (\<lambda>_. tied ok B') (\<lambda>_. tied ok B')" for a
      by (rule triple_conseq [OF answering]) (use b in \<open>auto simp: projection_binding_def\<close>)
    then show ?thesis
      unfolding apply_control_def
      by (simp add: quietly [OF killing_delivers [OF b]] quietly [OF nothing_delivers]
          quietly [OF after_lift [OF resume_delivers]])
  qed
  then have "triple (tied ok B) (bind (get_binding trunc rt (ci_channel c, conversation_of c)) (\<lambda>b.
        apply_control trunc rt c control subtype (control_target override b) b)) (\<lambda>_. tied ok B) (\<lambda>_. tied ok B)" for subtype
    by (rule from_binding) (simp_all add: tied_def)
  then show ?thesis
    unfolding process_control_message_def by (simp add: split_beta quietly [OF nothing_delivers])
qed

lemma binding_ties:
  "triple (tied ok B) (bind_session rt c s types adapter) (\<lambda>_. tied ok B) (\<lambda>_. tied ok B)"
proof (rule tripleI)
  fix g assume t: "tied ok B g"
  let ?k = "(ci_channel c, conversation_of c)"
  show "case bind_session rt c s types adapter g of (Inl e, s') \<Rightarrow> tied ok B s' | (Inr b, s') \<Rightarrow> tied ok B s'"
  proof (cases "\<exists>b. dict_get (gw_bindings g) ?k = Some b \<and> sb_session b \<noteq> s")
    case True
    then have "bind_session rt c s types adapter g = (Inl (ValueError ''A chat can only be bound to one session''), g)"
      by (auto simp: bind_session_def Let_def throw_def)
    then show ?thesis using t by simp
  next
    case False
    define b where "b = \<lparr>sb_identity = channel_identity_to_dict c, sb_conversation = conversation_of c, sb_session = s,
      sb_agent = None, sb_adapter = adapter,
      sb_event_types = (case types of Some ts \<Rightarrow> ts | None \<Rightarrow> default_event_types (ci_channel c) g), sb_offset = 0,
      sb_last_event = None, sb_restore_marker = None\<rparr>"
    let ?g = "g\<lparr>gw_bindings := dict_set ?k b (gw_bindings g)\<rparr>" and ?B = "insert (?k, s) B"
    have "s' = s" if "(?k, s') \<in> B" for s' using False t that by (auto simp: tied_def bound_def)
    then have "bound k' s' ?g" if "(k', s') \<in> B" for k' s'
      using t that by (cases "k' = ?k") (auto simp: tied_def bound_def b_def)
    then have g: "tied ok ?B ?g" using t by (auto simp: tied_def bound_def b_def)
    have rest: "triple (tied ok ?B) (bind (on_runtime (sa_spawn rt s)) (\<lambda>_. bind (sync_binding rt (Some ?k) b) (\<lambda>b'.
         bind (persist_binding b') (\<lambda>_. ret b')))) (\<lambda>_. tied ok ?B) (\<lambda>_. tied ok ?B)"
      by (rule triple_bind [OF quiet [OF spawning]], rule triple_bind [OF syncing], simp add: b_def,
          rule triple_bind [where R = "\<lambda>_. tied ok ?B"], rule triple_conseq [OF persist_binding_tied], simp_all add: triple_ret)
    have "bind_session rt c s types adapter g = bind (on_runtime (sa_spawn rt s)) (\<lambda>_. bind (sync_binding rt (Some ?k) b) (\<lambda>b'.
         bind (persist_binding b') (\<lambda>_. ret b'))) ?g"
      using False by (auto simp: bind_session_def Let_def set_binding_def b_def split: option.split)
    with tripleD [OF rest g] show ?thesis by (auto split: prod.splits sum.splits intro: tied_mono)
  qed
qed

end

subsection \<open>The in-process adapter keeps the contract\<close>

definition local_ok :: "'w local_sessions \<Rightarrow> bool" where
  "local_ok st \<longleftrightarrow> logs_own (t_files (ls_turn st))"

lemma keeps_in_store:
  "(\<And>fs. logs_own fs \<Longrightarrow> logs_own (snd (m fs))) \<Longrightarrow> keeps local_ok (in_store m)"
  by (simp add: keeps_def in_store_def local_ok_def split_beta)

lemma keeps_handle [keeping]: "keeps local_ok (set_handle s h)"
  unfolding set_handle_def by (rule keeps_modify) (simp add: local_ok_def)

lemma keeps_acquire [keeping]: "keeps local_ok (in_store (acquire_lease env s h a))"
  by (rule keeps_in_store)
     (auto simp: acquire_lease_def Let_def split_beta tick_def intro!: logs_own_update elim: logs_own_cong [rotated]
       split: sum.split)

lemma keeps_release [keeping]: "keeps local_ok (in_store (release_lease s h))"
  by (rule keeps_in_store)
     (auto simp: release_lease_def intro!: logs_own_update split: sum.split option.split)

lemma keeps_read [keeping]: "keeps local_ok (in_store (\<lambda>fs. (f fs, fs)))"
  by (rule keeps_in_store) simp

lemma keeps_state_only [keeping]: "keeps local_ok (in_store (save_session_state_only s r))"
  by (rule keeps_in_store)
     (auto simp: save_session_state_only_def write_session_state_def intro!: logs_own_update split: sum.split)

lemma keeps_checkpoint [keeping]: "keeps local_ok (in_store (get_checkpoint env s))"
  by (rule keeps_in_store)
     (auto simp: get_checkpoint_def Let_def split_beta tick_def elim: logs_own_cong [rotated] split: sum.split)

lemma keeps_spawn [keeping]: "keeps local_ok (local_spawn env s)"
  unfolding local_spawn_def Let_def by (intro keeping)

lemma local_activity_own:
  assumes "hoare (\<lambda>st. logs_own (t_files st)) m (\<lambda>(es, _) st. logs_own (t_files st) \<and> list_all (of_session s) es) (\<lambda>_ st. logs_own (t_files st))"
  shows "serves_own local_ok s (local_activity env s activity m)"
  unfolding serves_own_def local_activity_def Let_def
proof (rule triple_bind)
  show "triple local_ok (local_spawn env s) (\<lambda>_. local_ok) (\<lambda>_. local_ok)"
    by (rule keeps_triple [OF keeps_spawn])
  have set: "triple local_ok (set_handle s h) (\<lambda>_. local_ok) E" for h and E :: "py_error \<Rightarrow> 'a local_sessions \<Rightarrow> bool"
    unfolding set_handle_def by (rule triple_modify) (simp add: local_ok_def)
  have run: "triple local_ok (in_harness m) (\<lambda>(es, _) st. local_ok st \<and> list_all (of_session s) es) (\<lambda>_. local_ok)"
  proof (rule tripleI)
    fix st :: "'a local_sessions" assume "local_ok st"
    with assms show "case in_harness m st of (Inl e, s') \<Rightarrow> local_ok s'
        | (Inr x, s') \<Rightarrow> (\<lambda>(es, _) st. local_ok st \<and> list_all (of_session s) es) x s'"
      by (fastforce simp: hoare_def in_harness_def local_ok_def split: prod.splits sum.splits)
  qed
  have fin: "triple (\<lambda>st. local_ok st \<and> list_all (of_session s) es) (bind (set_handle s h) (\<lambda>_. ret es))
      (\<lambda>es st. local_ok st \<and> list_all (of_session s) es) (\<lambda>_. local_ok)" for es h
    by (cases "list_all (of_session s) es") (auto simp: triple_def bind_def ret_def set_handle_def modify_def local_ok_def)
  show "triple local_ok (bind (set_handle s (h\<lparr>lh_current := Some activity, lh_activities := lh_activities h @ [activity]\<rparr>)) (\<lambda>_.
      bind (in_harness m) (\<lambda>(events, _).
      bind (set_handle s (h\<lparr>lh_current := Some activity, lh_activities := lh_activities h @ [activity],
        lh_done := True, lh_current := None\<rparr>)) (\<lambda>_. ret events))))
    (\<lambda>es st. local_ok st \<and> list_all (of_session s) es) (\<lambda>_. local_ok)" for h
    by (rule triple_bind [OF set], rule triple_bind [OF run]) (auto intro: fin)
qed

interpretation local: session_runtime_law "local_runtime env" local_ok for env :: "'w adapter_env"
proof
  show "keeps local_ok (sa_spawn (local_runtime env) s)" for s
    by (simp add: local_runtime_def keeping)
  show "keeps local_ok (sa_kill (local_runtime env) s)" for s
    by (simp add: local_runtime_def local_kill_def Let_def keeping)
  show "keeps local_ok (sa_checkpoint (local_runtime env) s)" for s
    by (simp add: local_runtime_def local_checkpoint_def keeping)
  show "keeps local_ok (sa_marker (local_runtime env) s)" for s
    by (simp add: local_runtime_def local_marker_def keeping)
  show "serves_own local_ok s (sa_write (local_runtime env) s t)" for s t
    by (simp add: local_runtime_def local_write_def local_activity_own own_turn.turn_keeps)
  show "serves_own local_ok s (sa_continue (local_runtime env) s approved)" for s approved
    by (simp add: local_runtime_def local_continue_def local_activity_own own_turn.continuation_keeps)
  show "serves_own local_ok s (sa_observe (local_runtime env) s after)" for s after
    unfolding serves_own_def
    by (rule tripleI)
       (auto simp: local_runtime_def local_observe_def in_store_def local_ok_def read_events_own split: sum.split)
qed

subsection \<open>The life of a gateway\<close>

datatype gateway_request =
    RegisterChannel string "string list"
  | BindChat channel_identity string "string list option" "string option"
  | ObserveChat channel_identity int
  | ResumeChat channel_identity "int option"
  | ReceiveInput inbound_envelope
  | ControlChat channel_identity json_object "string option"

fun perform :: "(string \<Rightarrow> py_error + int) \<Rightarrow> 's session_runtime \<Rightarrow> gateway_request \<Rightarrow> ('s gateway, egress_envelope list) eff" where
  "perform trunc rt (RegisterChannel channel accepted) = bind (modify (register_channel channel accepted)) (\<lambda>_. ret [])"
| "perform trunc rt (BindChat c s types adapter) = bind (bind_session rt c s types adapter) (\<lambda>_. ret [])"
| "perform trunc rt (ObserveChat c after) = observe_session trunc rt c after"
| "perform trunc rt (ResumeChat c after) = resume_bound_session trunc rt c after"
| "perform trunc rt (ReceiveInput e) = process_input trunc rt e"
| "perform trunc rt (ControlChat c control override) = process_control_message trunc rt c control override"

text \<open>The chat a request is for, unless it is for another session than the chat's.\<close>

fun request_chat :: "gateway_request \<Rightarrow> chat option" where
  "request_chat (ObserveChat c after) = Some (ci_channel c, conversation_of c)"
| "request_chat (ResumeChat c after) = Some (ci_channel c, conversation_of c)"
| "request_chat (ReceiveInput e) = (if ie_kind e = ''control''
     then (case channel_identity_from_dict (ie_identity e) of Inl _ \<Rightarrow> None | Inr c \<Rightarrow> Some (ci_channel c, conversation_of c))
     else (case receive_input e of Inl _ \<Rightarrow> None | Inr n \<Rightarrow> Some (nm_channel n, nm_conversation n)))"
| "request_chat (ControlChat c control override) =
     (if override = None \<or> override = Some [] then Some (ci_channel c, conversation_of c) else None)"
| "request_chat q = None"

text \<open>
  Requests and their replies, in any order; between them the runtime is used by others, as long as
  they keep it in order.
\<close>

inductive gateway_run ::
  "(string \<Rightarrow> py_error + int) \<Rightarrow> 's session_runtime \<Rightarrow> ('s \<Rightarrow> bool) \<Rightarrow> 's gateway \<Rightarrow>
     (gateway_request \<times> (py_error + egress_envelope list)) list \<Rightarrow> bool"
  for trunc rt ok where
  opened: "ok w \<Longrightarrow> gateway_run trunc rt ok (new_gateway w store) []"
| served: "gateway_run trunc rt ok g tr \<Longrightarrow> perform trunc rt q g = (r, g') \<Longrightarrow> gateway_run trunc rt ok g' (tr @ [(q, r)])"
| elsewhere: "gateway_run trunc rt ok g tr \<Longrightarrow> ok w \<Longrightarrow> gateway_run trunc rt ok (g\<lparr>gw_runtime := w\<rparr>) tr"

text \<open>What was delivered to a chat, and the chats that are bound to the session it came from.\<close>

definition delivered_from :: "(gateway_request \<times> (py_error + egress_envelope list)) list \<Rightarrow> 's gateway \<Rightarrow> bool" where
  "delivered_from tr g \<longleftrightarrow> (\<forall>(q, r) \<in> set tr. \<forall>k out. request_chat q = Some k \<longrightarrow> r = Inr out \<longrightarrow>
     list_all (\<lambda>e. \<exists>s. bound k s g \<and> own_envelope s e) out)"

lemma delivered_fromD:
  "delivered_from tr g \<Longrightarrow> (q, Inr out) \<in> set tr \<Longrightarrow> request_chat q = Some k \<Longrightarrow>
     list_all (\<lambda>e. \<exists>s. bound k s g \<and> own_envelope s e) out"
  unfolding delivered_from_def by (drule (1) bspec) (cases k, simp)

context session_runtime_law
begin

lemma perform_ties: "triple (tied ok B) (perform trunc rt q) (\<lambda>_. tied ok B) (\<lambda>_. tied ok B)"
proof (cases q)
  case (RegisterChannel channel accepted)
  then show ?thesis
    by (auto simp: triple_def tied_def bound_def register_channel_def ret_def)
next
  case (BindChat c s types adapter)
  then show ?thesis by (simp add: triple_bind [OF binding_ties] triple_ret)
next
  case (ObserveChat c after)
  then show ?thesis by (simp add: quietly [OF observe_delivers])
next
  case (ResumeChat c after)
  then show ?thesis by (simp add: quietly [OF resume_delivers])
next
  case (ReceiveInput e)
  have m: "triple (tied ok B) (process_user_message trunc rt e) (\<lambda>_. tied ok B) (\<lambda>_. tied ok B)"
  proof (cases "receive_input e")
    case (Inr n)
    then show ?thesis by (rule quietly [OF message_delivers])
  qed (simp add: process_user_message_def triple_throw)
  have "triple (tied ok B) (bind (lift r) (\<lambda>c. process_control_message trunc rt c (ie_payload e) None))
      (\<lambda>_. tied ok B) (\<lambda>_. tied ok B)" for r
    by (rule triple_bind [OF triple_lift override_ties])
  then show ?thesis by (simp add: ReceiveInput process_input_def m triple_ret)
next
  case (ControlChat c control override)
  then show ?thesis by (simp add: override_ties)
qed

lemma perform_delivers:
  assumes "request_chat q = Some k"
  shows "delivers B k (perform trunc rt q)"
proof (cases q)
  case (ReceiveInput e)
  have c: "delivers B k (bind (lift (channel_identity_from_dict (ie_identity e))) (\<lambda>c.
        process_control_message trunc rt c (ie_payload e) None))" if "ie_kind e = ''control''"
    using assms ReceiveInput that
    by (cases "channel_identity_from_dict (ie_identity e)")
       (auto simp: control_delivers)
  have m: "delivers B k (process_user_message trunc rt e)" if "ie_kind e \<noteq> ''control''"
    using assms ReceiveInput that message_delivers by (cases "receive_input e") auto
  show ?thesis
    using c m by (cases "ie_kind e = ''control''") (simp_all add: ReceiveInput process_input_def nothing_delivers)
qed (use assms in \<open>auto simp: observe_delivers resume_delivers control_delivers split: if_splits\<close>)

lemma run_delivered: "gateway_run trunc rt ok g tr \<Longrightarrow> ok (gw_runtime g) \<and> delivered_from tr g"
proof (induction rule: gateway_run.induct)
  case (opened w store)
  then show ?case by (simp add: new_gateway_def delivered_from_def)
next
  case (served g tr q r g')
  let ?B = "{(k, s). bound k s g}"
  have t: "tied ok ?B g" using served.IH by (simp add: tied_def)
  have t': "tied ok ?B g'"
    using tripleD [OF perform_ties t, of trunc q] served.hyps(2) by (cases r) simp_all
  have "list_all (\<lambda>e. \<exists>s. bound k s g' \<and> own_envelope s e) out" if "request_chat q = Some k" "r = Inr out" for k out
    using tripleD [OF perform_delivers [OF that(1), unfolded delivers_def] t, of trunc] served.hyps(2) that(2) by simp
  moreover have "list_all (\<lambda>e. \<exists>s. bound k s g' \<and> own_envelope s e) out"
    if "(q', Inr out) \<in> set tr" "request_chat q' = Some k" for q' out k
  proof -
    have "list_all (\<lambda>e. \<exists>s. bound k s g \<and> own_envelope s e) out"
      using served.IH that by (blast intro: delivered_fromD)
    moreover have "bound k s g'" if "bound k s g" for s using t' that by (cases k) (auto simp: tied_def)
    ultimately show ?thesis by (auto simp: list_all_iff)
  qed
  ultimately show ?case using t' by (auto simp: delivered_from_def tied_def)
next
  case (elsewhere g tr w)
  then show ?case by (simp add: delivered_from_def bound_def)
qed

lemma one_session:
  assumes "gateway_run trunc rt ok g tr"
  shows "\<exists>f. \<forall>(q, r) \<in> set tr. \<forall>k out. request_chat q = Some k \<longrightarrow> r = Inr out \<longrightarrow> list_all (own_envelope (f k)) out"
proof (intro exI)
  let ?f = "\<lambda>k. sb_session (the (dict_get (gw_bindings g) k))"
  have "list_all (own_envelope (?f k)) out" if "(q, Inr out) \<in> set tr" "request_chat q = Some k" for q k out
    using delivered_fromD [of tr g q out k] run_delivered [OF assms] that by (auto simp: list_all_iff bound_def)
  then show "\<forall>(q, r) \<in> set tr. \<forall>k out. request_chat q = Some k \<longrightarrow> r = Inr out \<longrightarrow> list_all (own_envelope (?f k)) out" by auto
qed

end


subsection \<open>After a restart\<close>

lemma binding_from_file:
  "session_binding_from_dict trunc (sorted_object (session_binding_to_dict b)) =
     Inr (b\<lparr>sb_identity := sorted_object (sb_identity b)\<rparr>)"
proof -
  have look: "dict_get (sorted_object (session_binding_to_dict b)) k = map_option sorted_json (dict_get (session_binding_to_dict b) k)" for k
    by simp
  have types: "List.map_filter as_str (map (sorted_json \<circ> JStr) ts) = ts" for ts
    by (induction ts) (simp_all add: map_filter_simps)
  show ?thesis
    by (cases "sb_agent b"; cases "sb_adapter b"; cases "sb_last_event b"; cases "sb_restore_marker b")
       (simp_all add: session_binding_from_dict_def number_of_def dict_get_default_def look session_binding_to_dict_def
         field_str_def field_req_def field_opt_str_def field_dict_def jget_def types ebind_def)
qed

text \<open>Among the files of a name the first in the order of the sessions is found.\<close>

lemma first_file:
  assumes d: "wf_dict d" "dict_get d (s, n) = Some j"
    and first: "\<And>s' j'. dict_get d (s', n) = Some j' \<Longrightarrow> s \<le> s'"
  shows "(case sort_key (\<lambda>e. fst (fst e)) (filter (\<lambda>e. snd (fst e) = n) d) of [] \<Rightarrow> None | e # _ \<Rightarrow> Some (snd e)) = Some j"
proof -
  let ?xs = "sort_key (\<lambda>e. fst (fst e)) (filter (\<lambda>e. snd (fst e) = n) d)"
  have mem: "((s, n), j) \<in> set ?xs" using map_of_SomeD [OF d(2)] by simp
  then obtain e es where xs: "?xs = e # es" by (cases ?xs) auto
  have e: "e \<in> set d" "snd (fst e) = n" using set_sort [of "\<lambda>e. fst (fst e)" "filter (\<lambda>e. snd (fst e) = n) d"] by (auto simp: xs)
  have "fst (fst e) \<le> s"
    using sorted_sort_key [of "\<lambda>e. fst (fst e)" "filter (\<lambda>e. snd (fst e) = n) d"] mem by (auto simp: xs)
  moreover have g: "dict_get d (fst e) = Some (snd e)" using e(1) d(1) by simp
  then have "s \<le> fst (fst e)" using first [of "fst (fst e)" "snd e"] e(2) by (cases "fst e") simp
  ultimately have "fst e = (s, n)" using e(2) by (cases "fst e") simp
  then show ?thesis using g d(2) by (simp add: xs)
qed

text \<open>What binding a chat leaves behind: the binding in the table, and its file.\<close>

abbreviation binding_name :: "channel_identity \<Rightarrow> string" where
  "binding_name c \<equiv> binding_filename (ci_channel c) (conversation_of c)"

lemma on_runtime_frame [simp]:
  "gw_store (snd (on_runtime m g)) = gw_store g" "gw_bindings (snd (on_runtime m g)) = gw_bindings g"
  by (simp_all add: on_runtime_def split_beta)

lemma sync_frame:
  assumes "sync_binding rt (Some k) b g = (Inr b', g')"
  shows "gw_store g' = gw_store g \<and> dict_get (gw_bindings g') k = Some b' \<and> sb_session b' = sb_session b
    \<and> sb_identity b' = sb_identity b \<and> sb_conversation b' = sb_conversation b"
proof -
  obtain r1 g1 where 1: "on_runtime (sa_checkpoint rt (sb_session b)) g = (r1, g1)"
    by (cases "on_runtime (sa_checkpoint rt (sb_session b)) g")
  then obtain cp where cp: "r1 = Inr cp" using assms by (cases r1) (simp_all add: sync_binding_def bind_def)
  let ?b1 = "b\<lparr>sb_offset := int (cp_offset cp), sb_last_event := cp_last cp\<rparr>"
  let ?g1 = "g1\<lparr>gw_bindings := dict_set k ?b1 (gw_bindings g1)\<rparr>"
  obtain r2 g2 where 2: "on_runtime (sa_marker rt (sb_session b)) ?g1 = (r2, g2)"
    by (cases "on_runtime (sa_marker rt (sb_session b)) ?g1")
  then obtain m where m: "r2 = Inr m" using assms 1 cp by (cases r2) (simp_all add: sync_binding_def bind_def set_binding_def modify_def Let_def)
  have "gw_store g1 = gw_store g" "gw_store g2 = gw_store ?g1"
    using on_runtime_frame(1) [of "sa_checkpoint rt (sb_session b)" g] on_runtime_frame(1) [of "sa_marker rt (sb_session b)" ?g1]
    by (simp_all add: 1 2)
  then show ?thesis using assms 1 2 cp m
    by (auto simp: sync_binding_def bind_def set_binding_def modify_def ret_def Let_def)
qed

lemma bind_leaves:
  assumes "bind_session rt c s types adapter g = (Inr b, g')" "gw_store g = Some fs"
  shows "sb_session b = s" "dict_get (gw_bindings g') (ci_channel c, conversation_of c) = Some b"
    "gw_store g' = Some (fs\<lparr>bf_sessions := dict_set (s, binding_name c) (sorted_json (JDict (session_binding_to_dict b))) (bf_sessions fs)\<rparr>)"
    "\<forall>b0. dict_get (gw_bindings g) (ci_channel c, conversation_of c) = Some b0 \<longrightarrow> sb_session b0 = s"
    "sb_identity b = channel_identity_to_dict c"
proof -
  let ?k = "(ci_channel c, conversation_of c)"
  show once: "\<forall>b0. dict_get (gw_bindings g) ?k = Some b0 \<longrightarrow> sb_session b0 = s"
    using assms(1) by (auto simp: bind_session_def Let_def throw_def split: if_splits)
  define b0 where "b0 = \<lparr>sb_identity = channel_identity_to_dict c, sb_conversation = conversation_of c, sb_session = s,
    sb_agent = None, sb_adapter = adapter,
    sb_event_types = (case types of Some ts \<Rightarrow> ts | None \<Rightarrow> default_event_types (ci_channel c) g), sb_offset = 0,
    sb_last_event = None, sb_restore_marker = None\<rparr>"
  let ?g = "g\<lparr>gw_bindings := dict_set ?k b0 (gw_bindings g)\<rparr>"
  have run: "bind_session rt c s types adapter g = bind (on_runtime (sa_spawn rt s)) (\<lambda>_. bind (sync_binding rt (Some ?k) b0) (\<lambda>b'.
       bind (persist_binding b') (\<lambda>_. ret b'))) ?g"
    using once by (auto simp: bind_session_def Let_def set_binding_def b0_def split: option.split)
  obtain r1 g1 where 1: "on_runtime (sa_spawn rt s) ?g = (r1, g1)" by (cases "on_runtime (sa_spawn rt s) ?g")
  then obtain u where u: "r1 = Inr u" using assms(1) by (cases r1) (simp_all add: run bind_def)
  obtain r2 g2 where 2: "sync_binding rt (Some ?k) b0 g1 = (r2, g2)" by (cases "sync_binding rt (Some ?k) b0 g1")
  then obtain b2 where b2: "r2 = Inr b2" using assms(1) by (cases r2) (simp_all add: run bind_def 1 u)
  note s2 = sync_frame [OF 2 [unfolded b2]]
  have st: "gw_store g2 = Some fs" using on_runtime_frame(1) [of "sa_spawn rt s" ?g] s2 assms(2) by (simp add: 1)
  have chan: "field_str (sb_identity b2) ''channel_type'' = Inr (ci_channel c)"
    using s2 by (simp add: b0_def channel_identity_to_dict_def field_str_def field_req_def ebind_def)
  have conv: "sb_conversation b2 = conversation_of c" "sb_session b2 = s" using s2 by (simp_all add: b0_def)
  have r: "bind_session rt c s types adapter g = bind (persist_binding b2) (\<lambda>_. ret b2) g2"
    unfolding run by (simp add: bind_def 1 u 2 b2)
  have "b = b2 \<and> g' = g2\<lparr>gw_store := Some (fs\<lparr>bf_sessions := dict_set (s, binding_name c)
      (sorted_json (JDict (session_binding_to_dict b2))) (bf_sessions fs)\<rparr>)\<rparr>"
    using assms(1) st chan conv unfolding r
    by (auto simp: bind_def persist_binding_def save_binding_def ret_def)
  then show "sb_session b = s" "dict_get (gw_bindings g') ?k = Some b"
    "gw_store g' = Some (fs\<lparr>bf_sessions := dict_set (s, binding_name c) (sorted_json (JDict (session_binding_to_dict b))) (bf_sessions fs)\<rparr>)"
    "sb_identity b = channel_identity_to_dict c"
    using s2 by (simp_all add: b0_def)
qed

text \<open>What is found under the name of a chat after it was bound.\<close>

lemma load_after_bind:
  assumes "bind_session rt c s types adapter g = (Inr b, g')" "gw_store g = Some fs" "gw_store g' = Some fs'"
    "wf_dict (bf_sessions fs)" "dict_get (bf_direct fs) (binding_name c) = None"
  shows "dict_get (bf_direct fs') (binding_name c) = None" "wf_dict (bf_sessions fs')"
    "dict_get (bf_sessions fs') = (dict_get (bf_sessions fs))((s, binding_name c) \<mapsto> sorted_json (JDict (session_binding_to_dict b)))"
  using bind_leaves(3) [OF assms(1,2)] assms(3-5) by auto

lemma load_first:
  assumes "wf_dict (bf_sessions fs)" "dict_get (bf_direct fs) (binding_filename channel conversation) = None"
    "dict_get (bf_sessions fs) (s, binding_filename channel conversation) = Some (sorted_json (JDict (session_binding_to_dict b)))"
    "\<And>s' j. dict_get (bf_sessions fs) (s', binding_filename channel conversation) = Some j \<Longrightarrow> s \<le> s'"
  shows "load_binding trunc fs channel conversation = Inr (Some (b\<lparr>sb_identity := sorted_object (sb_identity b)\<rparr>))"
proof -
  have "find_binding fs channel conversation = Some (sorted_json (JDict (session_binding_to_dict b)))"
    using first_file [OF assms(1,3,4)] assms(2) by (simp add: find_binding_def Let_def)
  then show ?thesis by (simp add: load_binding_def binding_from_file ebind_def)
qed

text \<open>
  C21.  A chat that was bound to a session comes back to it when the gateway restarts, with its
  offset and the same projection of the events, if no file of its name belongs to a session that
  sorts before.
\<close>

theorem binding_survives_restart:
  assumes "bind_session rt c s types adapter g = (Inr b, g')" "gw_store g = Some fs"
    and "wf_dict (bf_sessions fs)" "dict_get (bf_direct fs) (binding_filename (ci_channel c) (conversation_of c)) = None"
    and "\<forall>s' j. dict_get (bf_sessions fs) (s', binding_filename (ci_channel c) (conversation_of c)) = Some j \<longrightarrow> s \<le> s'"
    and "sa_spawn rt s w = (Inr (), w')"
  shows "\<exists>b' g''. get_binding trunc rt (ci_channel c, conversation_of c) (new_gateway w (gw_store g')) = (Inr b', g'')
    \<and> gw_runtime g'' = w' \<and> sb_session b' = s \<and> sb_offset b' = sb_offset b \<and> sb_last_event b' = sb_last_event b
    \<and> (\<forall>e. project_runtime_event e b' = project_runtime_event e b)"
proof -
  note l = bind_leaves [OF assms(1,2)]
  let ?fs = "fs\<lparr>bf_sessions := dict_set (s, binding_name c) (sorted_json (JDict (session_binding_to_dict b))) (bf_sessions fs)\<rparr>"
  let ?b = "b\<lparr>sb_identity := sorted_object (sb_identity b)\<rparr>"
  note a = load_after_bind [OF assms(1,2) l(3) assms(3,4)]
  have "load_binding trunc ?fs (ci_channel c) (conversation_of c) = Inr (Some ?b)"
    by (rule load_first) (use a assms(5) in \<open>auto split: if_splits\<close>)
  moreover have spawn: "bind (on_runtime (sa_spawn rt s)) f x = f () (x\<lparr>gw_runtime := w'\<rparr>)" if "gw_runtime x = w"
    for f :: "unit \<Rightarrow> ('a gateway, session_binding) eff" and x
    using assms(6) that by (simp add: bind_def on_runtime_def)
  ultimately have "get_binding trunc rt (ci_channel c, conversation_of c) (new_gateway w (gw_store g')) =
      (Inr ?b, \<lparr>gw_runtime = w', gw_bindings = [((ci_channel c, conversation_of c), ?b)], gw_channels = [], gw_store = gw_store g'\<rparr>)"
    using spawn l(1,3) by (simp add: get_binding_def bind_reads new_gateway_def set_binding_def ret_def)
  moreover have "project_runtime_event e ?b = project_runtime_event e b" for e
    using l(5) by (simp add: project_runtime_event_def channel_identity_to_dict_def field_str_def field_req_def ebind_def)
  ultimately show ?thesis using l(1) by simp
qed

text \<open>
  One chat is bound to one session only while the gateway lives: the second binding that the
  running gateway refuses is accepted after a restart, and then the files of both remain, so
  that the next restart brings the chat back to whichever session's name sorts first.
\<close>

theorem restart_forgets_binding:
  assumes "bind_session rt c s types adapter g = (Inr b, g')" "gw_store g = Some fs"
    and "wf_dict (bf_sessions fs)" "dict_get (bf_direct fs) (binding_filename (ci_channel c) (conversation_of c)) = None"
    and "\<forall>s'. dict_get (bf_sessions fs) (s', binding_filename (ci_channel c) (conversation_of c)) = None"
    and "bind_session rt c t types' adapter' (new_gateway w (gw_store g')) = (Inr b', g'')" "s \<noteq> t"
  shows "bind_session rt c t types' adapter' g' = (Inl (ValueError ''A chat can only be bound to one session''), g')
    \<and> (\<exists>fs'' x. gw_store g'' = Some fs'' \<and> load_binding trunc fs'' (ci_channel c) (conversation_of c) = Inr (Some x)
         \<and> sb_session x = min s t)"
proof
  note l = bind_leaves [OF assms(1,2)]
  let ?k = "(ci_channel c, conversation_of c)"
  show "bind_session rt c t types' adapter' g' = (Inl (ValueError ''A chat can only be bound to one session''), g')"
    using l(1,2) assms(7) by (simp add: bind_session_def Let_def throw_def)
  let ?f = "\<lambda>b. sorted_json (JDict (session_binding_to_dict b))"
  let ?fs = "fs\<lparr>bf_sessions := dict_set (s, binding_name c) (?f b) (bf_sessions fs)\<rparr>"
  let ?fs' = "?fs\<lparr>bf_sessions := dict_set (t, binding_name c) (?f b') (bf_sessions ?fs)\<rparr>"
  have st: "gw_store (new_gateway w (gw_store g')) = Some ?fs" using l(3) by (simp add: new_gateway_def)
  note l' = bind_leaves [OF assms(6) st]
  note a = load_after_bind [OF assms(1,2) l(3) assms(3,4)]
  have look: "dict_get (bf_sessions ?fs') (s', binding_name c) =
      (if s' = t then Some (?f b') else if s' = s then Some (?f b) else None)" for s'
    using assms(5) by simp
  have other: "wf_dict (bf_sessions ?fs')" "dict_get (bf_direct ?fs') (binding_name c) = None" using assms(3,4) by simp_all
  have least: "min s t \<le> s'" if "dict_get (bf_sessions ?fs') (s', binding_name c) = Some j" for s' j
    using that unfolding look by (auto split: if_splits)
  have "load_binding trunc ?fs' (ci_channel c) (conversation_of c) =
      Inr (Some ((if s < t then b else b')\<lparr>sb_identity := sorted_object (sb_identity (if s < t then b else b'))\<rparr>))"
  proof (rule load_first [OF other, where s = "min s t"])
    show "dict_get (bf_sessions ?fs') (min s t, binding_name c) = Some (?f (if s < t then b else b'))"
      unfolding look using assms(7) by (cases "s < t") (auto simp: min_def dest: less_imp_le)
  qed (rule least)
  moreover have "sb_session (if s < t then b else b') = min s t"
    using l(1) l'(1) assms(7) by (cases "s < t") (auto simp: min_def dest: less_imp_le)
  ultimately show "\<exists>fs'' x. gw_store g'' = Some fs'' \<and> load_binding trunc fs'' (ci_channel c) (conversation_of c) = Inr (Some x)
      \<and> sb_session x = min s t"
    using l'(3) by (intro exI conjI) (assumption | simp)+
qed

subsection \<open>After a kill\<close>

lemma set_handle_run [simp]: "bind (set_handle s h) f st = f () (st\<lparr>ls_handles := dict_set s h (ls_handles st)\<rparr>)"
  by (simp add: set_handle_def)

lemma killed_handle: "local_kill env s st = (Inr u, st1) \<Longrightarrow> dict_get (ls_handles st1) s \<noteq> None"
proof -
  assume k: "local_kill env s st = (Inr u, st1)"
  obtain r st2 where 1: "local_spawn env s st = (r, st2)" by (cases "local_spawn env s st")
  then obtain h where h: "r = Inr h" using k by (cases r) (simp_all add: local_kill_def bind_def)
  let ?st = "st2\<lparr>ls_handles := dict_set s (h\<lparr>lh_done := True, lh_current := Some ''killed''\<rparr>) (ls_handles st2)\<rparr>"
  obtain r' st3 where 2: "in_store (release_lease s (lh_instance h)) ?st = (r', st3)"
    by (cases "in_store (release_lease s (lh_instance h)) ?st")
  have "local_kill env s st = bind (in_store (release_lease s (lh_instance h)))
      (\<lambda>_. set_handle s (h\<lparr>lh_done := True, lh_current := Some ''killed'', lh_status := ''stopped''\<rparr>)) ?st"
    using 1 h by (simp add: local_kill_def bind_def [of "local_spawn env s"] Let_def)
  then show ?thesis using k 2 by (cases r') (auto simp: bind_def set_handle_def modify_def)
qed

text \<open>With a handle at hand, the run starts at once.\<close>

lemma cached_activity:
  assumes "dict_get (ls_handles st) s = Some h"
  shows "fst (local_activity env s a m st) = map_sum turn_error fst (fst (m (ls_turn st)))
    \<and> ls_turn (snd (local_activity env s a m st)) = snd (m (ls_turn st))"
proof -
  have "local_spawn env s st = (Inr h, st)" using assms by (simp add: local_spawn_def ret_def)
  moreover obtain r t where "m (ls_turn st) = (r, t)" by (cases "m (ls_turn st)")
  ultimately show ?thesis
    by (cases r) (auto simp: local_activity_def bind_def [of "local_spawn env s"] Let_def in_harness_def ret_def bind_def [of "in_harness m"])
qed

lemma acquired_file:
  "acquire_lease env s h a fs = (Inr l, fs') \<Longrightarrow> sf_lease (fs_session fs' s) = Some (JDict (lease_to_dict l)) \<and> hl_harness l = h"
  by (auto simp: acquire_lease_def Let_def split_beta update_files_def split: sum.splits if_splits)

text \<open>
  C22.  Killing a session releases its lease but keeps its handle, so a later message runs a turn
  without asking for the lease again: when another harness has acquired it in the meantime
  both write the session.
\<close>

theorem killed_session_runs_without_lease:
  assumes "local_kill env s st = (Inr u, st1)"
    and "acquire_lease (he_store (ad_harness env)) s other agent (t_files (ls_turn st1)) = (Inr l, fs)"
    and "other \<noteq> harness_instance_id env s"
    and "st2 = st1\<lparr>ls_turn := (ls_turn st1)\<lparr>t_files := fs\<rparr>\<rparr>"
  shows "fst (local_write env s text st2) =
      map_sum turn_error fst (fst (run_turn (ad_harness env) text s default_control (ls_turn st2)))
    \<and> get_active_lease (t_files (ls_turn (snd (local_write env s text st2)))) s = Inr (Some l)
    \<and> fst (acquire_lease (he_store (ad_harness env)) s (harness_instance_id env s) (ad_agent env) fs) =
        Inl (ValueError ''Session already has an active harness lease'')"
proof -
  obtain h where "dict_get (ls_handles st2) s = Some h" using killed_handle [OF assms(1)] assms(4) by auto
  note run = cached_activity [OF this, of env "''turn''" "run_turn (ad_harness env) text s default_control"]
  have f: "sf_lease (fs_session fs s) = Some (JDict (lease_to_dict l))" "hl_harness l = other"
    using acquired_file [OF assms(2)] by simp_all
  obtain r t where m: "run_turn (ad_harness env) text s default_control (ls_turn st2) = (r, t)"
    by (cases "run_turn (ad_harness env) text s default_control (ls_turn st2)")
  have "sf_lease (fs_session (t_files t) s) = sf_lease (fs_session fs s)"
    using lease_turn.turn_keeps [where env = "ad_harness env" and s = s and x = s
        and l = "sf_lease (fs_session fs s)" and input = "text" and ctl = default_control] m assms(4)
    by (cases r) (auto simp: hoare_def dest!: spec [of _ "ls_turn st2"])
  then have "get_active_lease (t_files t) s = Inr (Some l)" by (simp add: get_active_lease_def f ebind_def)
  moreover have "fst (acquire_lease (he_store (ad_harness env)) s (harness_instance_id env s) (ad_agent env) fs) =
      Inl (ValueError ''Session already has an active harness lease'')"
    using f assms(3) by (simp add: acquire_lease_def get_active_lease_def ebind_def)
  ultimately show ?thesis using run m by (simp add: local_write_def)
qed

subsection \<open>A gateway with one chat\<close>

definition demo_adapter :: "nat adapter_env" where
  "demo_adapter = \<lparr>ad_harness = demo_harness ''read'', ad_agent = ''agent'', ad_gateway = ''gw''\<rparr>"

definition demo_trunc :: "string \<Rightarrow> py_error + int" where
  "demo_trunc s = Inr 0"

definition demo_chat :: channel_identity where
  "demo_chat = \<lparr>ci_channel = ''tui'', ci_user = None, ci_conversation = Some ''c'', ci_device = None\<rparr>"

lemma returned: "\<not> isl (fst p) \<Longrightarrow> \<exists>x. p = (Inr x, snd p)"
  by (cases p; cases "fst p") simp_all

text \<open>A store whose sessions have one event each.\<close>

definition demo_event :: "string \<Rightarrow> runtime_event" where
  "demo_event s = \<lparr>ev_type = ASSISTANT_MESSAGE, ev_id = ''e1'', ev_timestamp = ''t'', ev_session = s,
     ev_payload = [(''message'', JStr ''hello'')], ev_agent = None, ev_task = None\<rparr>"

definition demo_logs :: file_store where
  "demo_logs = empty_store\<lparr>fs_session := (\<lambda>s. no_files\<lparr>sf_events := Some [JDict (event_to_dict (demo_event s))]\<rparr>)\<rparr>"

definition demo_sessions :: "nat local_sessions" where
  "demo_sessions = \<lparr>ls_turn = demo_turn demo_logs, ls_handles = []\<rparr>"

abbreviation demo_do :: "gateway_request \<Rightarrow> nat local_sessions gateway \<Rightarrow>
    (py_error + egress_envelope list) \<times> nat local_sessions gateway" where
  "demo_do \<equiv> perform demo_trunc (local_runtime demo_adapter)"

definition demo_start :: "nat local_sessions gateway" where
  "demo_start = new_gateway demo_sessions (Some no_bindings)"

definition demo_bound :: "nat local_sessions gateway" where
  "demo_bound = snd (demo_do (BindChat demo_chat ''s'' None None) demo_start)"

definition demo_reply :: "py_error + egress_envelope list" where
  "demo_reply = fst (demo_do (ObserveChat demo_chat 0) demo_bound)"

lemma demo_logs_own: "local_ok demo_sessions"
  by (simp add: local_ok_def logs_own_def demo_sessions_def demo_turn_def demo_logs_def event_lines_def
      of_session_def demo_event_def)


definition demo_binding :: "py_error + session_binding" where
  "demo_binding = fst (bind_session (local_runtime demo_adapter) demo_chat ''s'' None None demo_start)"

lemma demo_bind: "\<exists>b. bind_session (local_runtime demo_adapter) demo_chat ''s'' None None demo_start = (Inr b, demo_bound)"
proof -
  have "\<not> isl demo_binding" by code_simp
  moreover have "demo_bound = snd (bind_session (local_runtime demo_adapter) demo_chat ''s'' None None demo_start)"
    by (simp add: demo_bound_def bind_def ret_def split: prod.split sum.split)
  ultimately show ?thesis using returned by (metis demo_binding_def)
qed

lemma demo_spawns: "\<exists>w'. sa_spawn (local_runtime demo_adapter) ''s'' demo_sessions = (Inr (), w')"
proof -
  have "\<not> isl (fst (sa_spawn (local_runtime demo_adapter) ''s'' demo_sessions))" by code_simp
  from returned [OF this] show ?thesis by auto
qed

lemma demo_store: "gw_store demo_start = Some no_bindings"
  by (simp add: demo_start_def new_gateway_def)

lemma no_bindings_look [simp]: "bf_direct no_bindings = []" "bf_sessions no_bindings = []"
  by (simp_all add: no_bindings_def)

lemma binding_survives_restart_witness:
  "\<exists>b' g''. get_binding demo_trunc (local_runtime demo_adapter) (''tui'', ''c'') (new_gateway demo_sessions (gw_store demo_bound)) =
     (Inr b', g'') \<and> sb_session b' = ''s''"
proof -
  obtain b where b: "bind_session (local_runtime demo_adapter) demo_chat ''s'' None None demo_start = (Inr b, demo_bound)"
    using demo_bind by blast
  obtain w' where w': "sa_spawn (local_runtime demo_adapter) ''s'' demo_sessions = (Inr (), w')" using demo_spawns by blast
  have k: "(ci_channel demo_chat, conversation_of demo_chat) = (''tui'', ''c'')"
    by (simp add: demo_chat_def conversation_of_def)
  from binding_survives_restart [OF b demo_store _ _ _ w', of demo_trunc] show ?thesis unfolding k by auto
qed

definition demo_rebound :: "nat local_sessions gateway" where
  "demo_rebound = snd (bind_session (local_runtime demo_adapter) demo_chat ''r'' None None (new_gateway demo_sessions (gw_store demo_bound)))"

lemma restart_forgets_binding_witness:
  "\<exists>fs'' x. gw_store demo_rebound = Some fs'' \<and> load_binding demo_trunc fs'' ''tui'' ''c'' = Inr (Some x) \<and> sb_session x = ''r''"
proof -
  obtain b where b: "bind_session (local_runtime demo_adapter) demo_chat ''s'' None None demo_start = (Inr b, demo_bound)"
    using demo_bind by blast
  have "\<not> isl (fst (bind_session (local_runtime demo_adapter) demo_chat ''r'' None None (new_gateway demo_sessions (gw_store demo_bound))))"
    by code_simp
  from returned [OF this] obtain b' where b': "bind_session (local_runtime demo_adapter) demo_chat ''r'' None None
      (new_gateway demo_sessions (gw_store demo_bound)) = (Inr b', demo_rebound)"
    by (auto simp: demo_rebound_def)
  have k: "ci_channel demo_chat = ''tui''" "conversation_of demo_chat = ''c''"
    by (simp_all add: demo_chat_def conversation_of_def)
  have m: "min ''s'' ''r'' = ''r''" by code_simp
  from restart_forgets_binding [OF b demo_store _ _ _ b', of demo_trunc] show ?thesis unfolding k m by simp
qed

definition demo_killed :: "nat local_sessions" where
  "demo_killed = snd (local_kill demo_adapter ''s'' demo_sessions)"

lemma killed_session_runs_without_lease_witness:
  "\<exists>l fs st. hl_harness l = ''other''
     \<and> get_active_lease (t_files (ls_turn (snd (local_write demo_adapter ''s'' ''hi'' (demo_killed\<lparr>ls_turn := (ls_turn demo_killed)\<lparr>t_files := fs\<rparr>\<rparr>))))) ''s'' = Inr (Some l)"
proof -
  let ?acq = "acquire_lease (he_store (ad_harness demo_adapter)) ''s'' ''other'' ''agent'' (t_files (ls_turn demo_killed))"
  have "fst (local_kill demo_adapter ''s'' demo_sessions) = Inr ()" by code_simp
  then have k: "local_kill demo_adapter ''s'' demo_sessions = (Inr (), demo_killed)"
    by (simp add: demo_killed_def prod_eq_iff)
  have "\<not> isl (fst ?acq)" by code_simp
  from returned [OF this] obtain l fs where l: "?acq = (Inr l, fs)" by blast
  have "''other'' \<noteq> harness_instance_id demo_adapter ''s''" by code_simp
  from killed_session_runs_without_lease [OF k l this refl] acquired_file [OF l] show ?thesis by blast
qed

end
