(* ===== verification/PyText.thy ===== *)
theory PyText
  imports Json
begin

text \<open>
  Text operations of Python's strings that the tool adapters use: \<open>splitlines\<close>, \<open>split\<close> and
  \<open>partition\<close> at a character, the one-sided and character strips, and \<open>str.format_map\<close>.
\<close>

subsection \<open>Lines and parts\<close>

definition carriage_return :: char where
  "carriage_return = char_of (13 :: nat)"

definition line_break :: "char \<Rightarrow> bool" where
  "line_break c \<longleftrightarrow> code c \<in> set [10, 11, 12, 13, 28, 29, 30, 133]"

text \<open>The flag tells that the last character was a carriage return, whose line feed is part of the break.\<close>

fun lines_from :: "bool \<Rightarrow> string \<Rightarrow> string \<Rightarrow> string list" where
  "lines_from cr acc [] = (if acc = [] then [] else [rev acc])"
| "lines_from cr acc (c # r) =
     (if cr \<and> c = newline then lines_from False acc r
      else if line_break c then rev acc # lines_from (c = carriage_return) [] r
      else lines_from False (c # acc) r)"

definition py_splitlines :: "string \<Rightarrow> string list" where
  "py_splitlines s = lines_from False [] s"

definition partition_at :: "char \<Rightarrow> string \<Rightarrow> string \<times> string" where
  "partition_at c s = (takeWhile (\<lambda>x. x \<noteq> c) s, drop 1 (dropWhile (\<lambda>x. x \<noteq> c) s))"

fun split_on :: "char \<Rightarrow> string \<Rightarrow> string list" where
  "split_on c [] = [[]]"
| "split_on c (x # s) =
     (if x = c then [] # split_on c s
      else case split_on c s of [] \<Rightarrow> [[x]] | p # ps \<Rightarrow> (x # p) # ps)"

lemma split_on_not_Nil [simp]: "split_on c s \<noteq> []"
  by (induction s) (auto split: list.split)

lemma split_on_one [simp]: "c \<notin> set s \<Longrightarrow> split_on c s = [s]"
  by (induction s) auto

lemma split_on_append: "c \<notin> set p \<Longrightarrow> split_on c (p @ c # s) = p # split_on c s"
  by (induction p) auto

lemma partition_at_sep [simp]: "c \<notin> set p \<Longrightarrow> partition_at c (p @ c # s) = (p, s)"
  by (auto simp: partition_at_def takeWhile_append dropWhile_append)

lemma partition_at_none: "c \<notin> set s \<Longrightarrow> partition_at c s = (s, [])"
  by (induction s) (auto simp: partition_at_def)

subsection \<open>Strips\<close>

definition py_lstrip :: "string \<Rightarrow> string" where
  "py_lstrip s = dropWhile is_space s"

definition py_rstrip :: "string \<Rightarrow> string" where
  "py_rstrip s = rev (dropWhile is_space (rev s))"

definition rstrip_char :: "char \<Rightarrow> string \<Rightarrow> string" where
  "rstrip_char c s = rev (dropWhile (\<lambda>x. x = c) (rev s))"

definition strip_char :: "char \<Rightarrow> string \<Rightarrow> string" where
  "strip_char c s = rstrip_char c (dropWhile (\<lambda>x. x = c) s)"

definition remove_prefix :: "string \<Rightarrow> string \<Rightarrow> string" where
  "remove_prefix p s = (if py_startswith s p then drop (length p) s else s)"

definition py_endswith :: "string \<Rightarrow> string \<Rightarrow> bool" where
  "py_endswith s p = py_startswith (rev s) (rev p)"

subsection \<open>Slices with two bounds\<close>

text \<open>\<open>xs[a:b]\<close>: a negative bound counts from the end, and both are clamped to the list.\<close>

definition slice_bound :: "nat \<Rightarrow> int \<Rightarrow> nat" where
  "slice_bound n i = (if i < 0 then nat (int n + i) else min n (nat i))"

definition py_slice :: "int \<Rightarrow> int \<Rightarrow> 'a list \<Rightarrow> 'a list" where
  "py_slice a b xs = (let a' = slice_bound (length xs) a; b' = slice_bound (length xs) b in
     take (b' - a') (drop a' xs))"

lemma py_slice_nat: "py_slice (int a) (int b) xs = take (b - a) (drop a xs)"
  by (cases "a \<le> length xs"; cases "b \<le> length xs")
     (simp_all add: py_slice_def slice_bound_def Let_def min_def)

subsection \<open>Format strings\<close>

text \<open>
  The markup of a format string as CPython's \<open>str.format\<close> and \<open>string.Formatter().parse\<close> read it:
  the pieces up to the first malformed one, and the error that one raises.
\<close>

datatype piece = Literal char | Field string "char option" string

definition lbrace :: char where "lbrace = CHR ''{''"
definition rbrace :: char where "rbrace = CHR ''}''"

text \<open>The field name and what follows it; inside brackets nothing ends it.\<close>

fun scan_name :: "bool \<Rightarrow> string \<Rightarrow> string \<times> string" where
  "scan_name bracket [] = ([], [])"
| "scan_name bracket (c # r) =
     (if \<not> bracket \<and> c \<in> set [lbrace, rbrace, CHR '':'', CHR ''!''] then ([], c # r)
      else let (name, rest) = scan_name (if bracket then c \<noteq> CHR '']'' else c = CHR ''['') r in (c # name, rest))"

text \<open>The format specification up to the brace that closes the field.\<close>

fun scan_spec :: "nat \<Rightarrow> string \<Rightarrow> (string \<times> string) option" where
  "scan_spec n [] = None"
| "scan_spec n (c # r) =
     (if c = rbrace \<and> n = 0 then Some ([], r)
      else map_option (\<lambda>(spec, rest). (c # spec, rest))
        (scan_spec (if c = lbrace then Suc n else if c = rbrace then n - 1 else n) r))"

definition quoted :: "char \<Rightarrow> string" where
  "quoted c = [squote, c, squote]"

definition spec_field :: "string \<Rightarrow> char option \<Rightarrow> string \<Rightarrow> py_error + piece \<times> string" where
  "spec_field name conversion r = (case scan_spec 0 r of
     None \<Rightarrow> Inl (ValueError (''unmatched '' @ quoted lbrace @ '' in format spec''))
   | Some (spec, rest) \<Rightarrow> Inr (Field name conversion spec, rest))"

definition parse_field :: "string \<Rightarrow> py_error + piece \<times> string" where
  "parse_field s = (let (name, rest) = scan_name False s in
     case rest of
       [] \<Rightarrow> Inl (ValueError (''expected '' @ quoted rbrace @ '' before end of string''))
     | c # r \<Rightarrow>
         if c = lbrace then Inl (ValueError (''unexpected '' @ quoted lbrace @ '' in field name''))
         else if c = rbrace then Inr (Field name None [], r)
         else if c = CHR '':'' then spec_field name None r
         else (case r of
             [] \<Rightarrow> Inl (ValueError ''end of string while looking for conversion specifier'')
           | conversion # u \<Rightarrow> (case u of
               [] \<Rightarrow> spec_field name (Some conversion) []
             | d # v \<Rightarrow>
                 if d = rbrace then Inr (Field name (Some conversion) [], v)
                 else if d = CHR '':'' then spec_field name (Some conversion) v
                 else Inl (ValueError (''expected '' @ quoted (CHR '':'') @ '' after conversion specifier'')))))"

lemma scan_name_length: "scan_name b s = (name, rest) \<Longrightarrow> length rest \<le> length s"
  by (induction b s arbitrary: name rest rule: scan_name.induct) (fastforce split: if_splits prod.splits simp: Let_def)+

lemma scan_spec_length: "scan_spec n s = Some (spec, rest) \<Longrightarrow> length rest < length s"
proof (induction n s arbitrary: spec rest rule: scan_spec.induct)
  case (2 n c r)
  show ?case
  proof (cases "c = rbrace \<and> n = 0")
    case True
    then show ?thesis using "2.prems" by simp
  next
    case False
    then obtain sp where "scan_spec (if c = lbrace then Suc n else if c = rbrace then n - 1 else n) r = Some (sp, rest)"
      using "2.prems" by auto
    then show ?thesis using "2.IH" [OF False] by fastforce
  qed
qed simp

lemma spec_field_length: "spec_field name conversion r = Inr (p, rest) \<Longrightarrow> length rest < length r"
  by (auto simp: spec_field_def dest: scan_spec_length split: option.splits)

lemma parse_field_length: "parse_field s = Inr (p, rest) \<Longrightarrow> length rest < length s"
  unfolding parse_field_def
  by (cases "scan_name False s")
     (auto dest!: scan_name_length spec_field_length split: list.splits if_splits)

function pieces :: "string \<Rightarrow> piece list \<times> py_error option" where
  "pieces [] = ([], None)"
| "pieces (c # r) =
     (if c = lbrace \<or> c = rbrace then
        (if r \<noteq> [] \<and> hd r = c then (let (ps, e) = pieces (tl r) in (Literal c # ps, e))
         else if c = rbrace \<or> r = [] then ([], Some (ValueError (''Single '' @ quoted c @ '' encountered in format string'')))
         else case parse_field r of
             Inl e \<Rightarrow> ([], Some e)
           | Inr (p, rest) \<Rightarrow> (let (ps, e) = pieces rest in (p # ps, e)))
      else let (ps, e) = pieces r in (Literal c # ps, e))"
  by pat_completeness auto
termination by (relation "measure length") (auto dest: parse_field_length)

text \<open>
  \<open>template.format_map(d)\<close> with the map whose missing keys render as themselves in braces.  A field
  that is a plain name is rendered here; one with an attribute, an index, a conversion or a format
  specification is left to the parameter.
\<close>

type_synonym field_renderer = "json_object \<Rightarrow> string \<Rightarrow> char option \<Rightarrow> string \<Rightarrow> py_error + string"

text \<open>\<open>_SafeFormatMap(args)[key]\<close>, printed.\<close>

definition safe_lookup :: "json_object \<Rightarrow> string \<Rightarrow> string" where
  "safe_lookup args k = (case dict_get args k of None \<Rightarrow> lbrace # k @ [rbrace] | Some v \<Rightarrow> py_str v)"

fun render_piece :: "field_renderer \<Rightarrow> json_object \<Rightarrow> piece \<Rightarrow> py_error + string" where
  "render_piece render args (Literal c) = Inr [c]"
| "render_piece render args (Field name conversion spec) =
     (if conversion \<noteq> None \<or> spec \<noteq> [] \<or> CHR ''.'' \<in> set name \<or> CHR ''['' \<in> set name
      then render args name conversion spec
      else if list_all is_digit name then Inl (ValueError ''Format string contains positional fields'')
      else Inr (safe_lookup args name))"

definition format_map :: "field_renderer \<Rightarrow> json_object \<Rightarrow> string \<Rightarrow> py_error + string" where
  "format_map render args t = (let (ps, err) = pieces t in
     ebind (emap (render_piece render args) ps) (\<lambda>ss. case err of None \<Rightarrow> Inr (concat ss) | Some e \<Rightarrow> Inl e))"

lemma pieces_literal: "lbrace \<notin> set t \<Longrightarrow> rbrace \<notin> set t \<Longrightarrow> pieces t = (map Literal t, None)"
  by (induction t) auto

lemma format_map_literal [simp]: "lbrace \<notin> set t \<Longrightarrow> rbrace \<notin> set t \<Longrightarrow> format_map render args t = Inr t"
proof -
  have "emap (render_piece render args) (map Literal t) = Inr (map (\<lambda>c. [c]) t)" by (induction t) simp_all
  moreover assume "lbrace \<notin> set t" "rbrace \<notin> set t"
  ultimately show ?thesis by (simp add: format_map_def pieces_literal)
qed

lemma format_map_example:
  "format_map f [(''name'', JStr ''Ada'')] ''Hi {name}, {{ok}} {missing}'' = Inr ''Hi Ada, {ok} {missing}''"
  by code_simp

lemma format_map_unbalanced:
  "format_map f [] ''if (x) }'' = Inl (ValueError (''Single '' @ quoted rbrace @ '' encountered in format string''))"
  by code_simp

lemma splitlines_example: "py_splitlines (''a'' @ [carriage_return, newline] @ ''b'' @ [newline, newline] @ ''c'') = [''a'', ''b'', [], ''c'']"
  by code_simp

end
