(* ===== verification/McpModels.thy ===== *)
theory McpModels
  imports ObjectModel PyText
begin

text \<open>
  The data of the client for Model Context Protocol servers: \<^verbatim>\<open>tools/mcp/models.py\<close> (descriptors,
  capabilities, authorization state, session and transport handles, the connection a test or a
  fixture manifest supplies), and the challenge parser of \<^verbatim>\<open>tools/mcp/auth.py\<close>.  The class of an
  \<^verbatim>\<open>tools/mcp/errors.py\<close> exception is the name in an \<open>AppError\<close>.

  A connection's tool handlers act on a world of type \<open>'w\<close>.  \<open>from_dict\<close> is the dataclass
  constructor: it refuses a missing or an unknown key; a value of another type than the annotated
  one is read as the printed form of a string, or as the default of an object.
\<close>

subsection \<open>Errors\<close>

abbreviation McpTransportError :: "string \<Rightarrow> py_error" where
  "McpTransportError \<equiv> AppError ''McpTransportError''"

abbreviation McpAuthorizationError :: "string \<Rightarrow> py_error" where
  "McpAuthorizationError \<equiv> AppError ''McpAuthorizationError''"

abbreviation McpProtocolError :: "string \<Rightarrow> py_error" where
  "McpProtocolError \<equiv> AppError ''McpProtocolError''"

abbreviation McpCapabilityError :: "string \<Rightarrow> py_error" where
  "McpCapabilityError \<equiv> AppError ''McpCapabilityError''"

abbreviation McpRemoteToolError :: "string \<Rightarrow> py_error" where
  "McpRemoteToolError \<equiv> AppError ''McpRemoteToolError''"

text \<open>\<open>cls(**data)\<close> for a dataclass with these required and optional fields.\<close>

definition check_fields :: "string list \<Rightarrow> string list \<Rightarrow> json_object \<Rightarrow> py_error + unit" where
  "check_fields required optional d =
     (case filter (\<lambda>k. k \<notin> set (required @ optional)) (dict_keys d) of
        k # _ \<Rightarrow> Inl (TypeError (''got an unexpected keyword argument '' @ py_repr_str k))
      | [] \<Rightarrow> (case filter (\<lambda>k. k \<notin> set (dict_keys d)) required of
          k # _ \<Rightarrow> Inl (TypeError (''missing required positional argument: '' @ py_repr_str k))
        | [] \<Rightarrow> Inr ()))"

definition field_text :: "json_object \<Rightarrow> string \<Rightarrow> string \<Rightarrow> string" where
  "field_text d k x = py_str (dict_get_default d k (JStr x))"

lemma field_text_Cons [simp]: "field_text ((k, v) # d) k' x = (if k = k' then py_str v else field_text d k' x)"
  by (simp add: field_text_def dict_get_default_def)

subsection \<open>Descriptors\<close>

record mcp_server_descriptor =
  msd_id :: string
  msd_label :: string
  msd_endpoint :: "string option"
  msd_transport :: string
  msd_capabilities :: json_object

definition mcp_server_descriptor_to_dict :: "mcp_server_descriptor \<Rightarrow> json_object" where
  "mcp_server_descriptor_to_dict d = [(''server_id'', JStr (msd_id d)), (''label'', JStr (msd_label d)),
     (''endpoint'', jopt_str (msd_endpoint d)), (''transport'', JStr (msd_transport d)),
     (''capabilities'', JDict (msd_capabilities d))]"

record mcp_tool_descriptor =
  mtd_name :: string
  mtd_description :: string
  mtd_schema :: json_object
  mtd_metadata :: json_object

definition mcp_tool_to_dict :: "mcp_tool_descriptor \<Rightarrow> json_object" where
  "mcp_tool_to_dict t = [(''name'', JStr (mtd_name t)), (''description'', JStr (mtd_description t)),
     (''input_schema'', JDict (mtd_schema t)), (''metadata'', JDict (mtd_metadata t))]"

definition mcp_tool_from_dict :: "json_object \<Rightarrow> py_error + mcp_tool_descriptor" where
  "mcp_tool_from_dict d =
     ebind (check_fields [''name'', ''description''] [''input_schema'', ''metadata''] d) (\<lambda>_.
     Inr \<lparr>mtd_name = field_text d ''name'' [], mtd_description = field_text d ''description'' [],
          mtd_schema = field_dict d ''input_schema'', mtd_metadata = field_dict d ''metadata''\<rparr>)"

record mcp_prompt_descriptor =
  mpd_name :: string
  mpd_description :: string
  mpd_template :: string
  mpd_metadata :: json_object

definition mcp_prompt_to_dict :: "mcp_prompt_descriptor \<Rightarrow> json_object" where
  "mcp_prompt_to_dict p = [(''name'', JStr (mpd_name p)), (''description'', JStr (mpd_description p)),
     (''template'', JStr (mpd_template p)), (''metadata'', JDict (mpd_metadata p))]"

definition mcp_prompt_from_dict :: "json_object \<Rightarrow> py_error + mcp_prompt_descriptor" where
  "mcp_prompt_from_dict d =
     ebind (check_fields [''name'', ''description''] [''template'', ''metadata''] d) (\<lambda>_.
     Inr \<lparr>mpd_name = field_text d ''name'' [], mpd_description = field_text d ''description'' [],
          mpd_template = field_text d ''template'' [], mpd_metadata = field_dict d ''metadata''\<rparr>)"

record mcp_resource_descriptor =
  mrd_uri :: string
  mrd_name :: string
  mrd_description :: string
  mrd_mime :: string
  mrd_content :: string
  mrd_metadata :: json_object

definition mcp_resource_to_dict :: "mcp_resource_descriptor \<Rightarrow> json_object" where
  "mcp_resource_to_dict r = [(''uri'', JStr (mrd_uri r)), (''name'', JStr (mrd_name r)),
     (''description'', JStr (mrd_description r)), (''mime_type'', JStr (mrd_mime r)),
     (''content'', JStr (mrd_content r)), (''metadata'', JDict (mrd_metadata r))]"

definition mcp_resource_from_dict :: "json_object \<Rightarrow> py_error + mcp_resource_descriptor" where
  "mcp_resource_from_dict d =
     ebind (check_fields [''uri'', ''name'', ''description''] [''mime_type'', ''content'', ''metadata''] d) (\<lambda>_.
     Inr \<lparr>mrd_uri = field_text d ''uri'' [], mrd_name = field_text d ''name'' [],
          mrd_description = field_text d ''description'' [], mrd_mime = field_text d ''mime_type'' ''text/plain'',
          mrd_content = field_text d ''content'' [], mrd_metadata = field_dict d ''metadata''\<rparr>)"

record mcp_root =
  mro_uri :: string
  mro_name :: "string option"
  mro_writable :: "bool option"

definition mcp_root_to_dict :: "mcp_root \<Rightarrow> json_object" where
  "mcp_root_to_dict r = [(''uri'', JStr (mro_uri r)), (''name'', jopt_str (mro_name r)),
     (''writable'', jopt_bool (mro_writable r))]"

definition mcp_root_from_dict :: "json_object \<Rightarrow> py_error + mcp_root" where
  "mcp_root_from_dict d =
     ebind (check_fields [''uri''] [''name'', ''writable''] d) (\<lambda>_.
     Inr \<lparr>mro_uri = field_text d ''uri'' [], mro_name = field_opt_str d ''name'',
          mro_writable = field_opt_bool d ''writable''\<rparr>)"

lemma mcp_descriptor_roundtrips [simp]:
  "mcp_tool_from_dict (mcp_tool_to_dict t) = Inr t"
  "mcp_prompt_from_dict (mcp_prompt_to_dict p) = Inr p"
  "mcp_resource_from_dict (mcp_resource_to_dict r) = Inr r"
  "mcp_root_from_dict (mcp_root_to_dict x) = Inr x"
  by (simp_all add: mcp_tool_from_dict_def mcp_tool_to_dict_def mcp_prompt_from_dict_def mcp_prompt_to_dict_def
      mcp_resource_from_dict_def mcp_resource_to_dict_def mcp_root_from_dict_def mcp_root_to_dict_def check_fields_def)

subsection \<open>Capabilities and authorization\<close>

record mcp_client_capabilities =
  mcc_prompts :: bool
  mcc_tools :: bool
  mcc_resources :: bool
  mcc_roots :: bool
  mcc_sampling :: bool
  mcc_elicitation :: bool
  mcc_tasks :: bool
  mcc_experimental :: json_object

definition mcp_client_capabilities_default :: mcp_client_capabilities where
  "mcp_client_capabilities_default = \<lparr>mcc_prompts = True, mcc_tools = True, mcc_resources = True, mcc_roots = False,
     mcc_sampling = False, mcc_elicitation = False, mcc_tasks = False, mcc_experimental = []\<rparr>"

definition mcp_client_capabilities_to_dict :: "mcp_client_capabilities \<Rightarrow> json_object" where
  "mcp_client_capabilities_to_dict c = [(''prompts'', JBool (mcc_prompts c)), (''tools'', JBool (mcc_tools c)),
     (''resources'', JBool (mcc_resources c)), (''roots'', JBool (mcc_roots c)), (''sampling'', JBool (mcc_sampling c)),
     (''elicitation'', JBool (mcc_elicitation c)), (''tasks'', JBool (mcc_tasks c)),
     (''experimental'', JDict (mcc_experimental c))]"

record mcp_server_capabilities =
  msc_prompts :: bool
  msc_tools :: bool
  msc_resources :: bool
  msc_logging :: bool
  msc_completions :: bool
  msc_tasks :: bool
  msc_subscribe :: bool
  msc_experimental :: json_object

definition mcp_server_capabilities_default :: mcp_server_capabilities where
  "mcp_server_capabilities_default = \<lparr>msc_prompts = True, msc_tools = True, msc_resources = True, msc_logging = False,
     msc_completions = False, msc_tasks = False, msc_subscribe = False, msc_experimental = []\<rparr>"

definition mcp_server_capabilities_to_dict :: "mcp_server_capabilities \<Rightarrow> json_object" where
  "mcp_server_capabilities_to_dict c = [(''prompts'', JBool (msc_prompts c)), (''tools'', JBool (msc_tools c)),
     (''resources'', JBool (msc_resources c)), (''logging'', JBool (msc_logging c)), (''completions'', JBool (msc_completions c)),
     (''tasks'', JBool (msc_tasks c)), (''subscribe'', JBool (msc_subscribe c)), (''experimental'', JDict (msc_experimental c))]"

record mcp_auth_metadata =
  mam_token_endpoint :: "string option"
  mam_server :: "string option"
  mam_scopes :: "string list"
  mam_metadata :: json_object

record mcp_auth_state =
  mas_token :: "string option"
  mas_scopes :: "string list"
  mas_metadata :: json_object

definition no_auth_state :: mcp_auth_state where
  "no_auth_state = \<lparr>mas_token = None, mas_scopes = [], mas_metadata = []\<rparr>"

definition mcp_auth_state_to_dict :: "mcp_auth_state \<Rightarrow> json_object" where
  "mcp_auth_state_to_dict a = [(''access_token'', jopt_str (mas_token a)), (''scopes'', JList (map JStr (mas_scopes a))),
     (''metadata'', JDict (mas_metadata a))]"

text \<open>\<open>parse_www_authenticate\<close>: a later parameter of the same name replaces an earlier one.\<close>

definition parse_www_authenticate :: "string \<Rightarrow> json_object" where
  "parse_www_authenticate challenge =
     (if challenge = [] then []
      else let (scheme, payload) = partition_at (CHR '' '') challenge
        in fold (\<lambda>chunk parsed. let (key, v) = partition_at (CHR ''='') (py_strip chunk)
             in if key = [] then parsed
                else dict_set (py_lower key) (JStr (strip_char dquote (py_strip v))) parsed)
           (split_on (CHR '','') payload) [(''scheme'', JStr (py_lower scheme))])"

subsection \<open>Requests to the host\<close>

record mcp_sampling_request =
  msr_server :: string
  msr_request :: string
  msr_messages :: "json_object list"
  msr_system :: "string option"
  msr_tools :: "json_object list"
  msr_tool_choice :: "json_object option"
  msr_preferences :: json_object
  msr_metadata :: json_object

definition mcp_sampling_request_to_dict :: "mcp_sampling_request \<Rightarrow> json_object" where
  "mcp_sampling_request_to_dict r = [(''server_id'', JStr (msr_server r)), (''request_id'', JStr (msr_request r)),
     (''messages'', JList (map JDict (msr_messages r))), (''system_prompt'', jopt_str (msr_system r)),
     (''tools'', JList (map JDict (msr_tools r))), (''tool_choice'', jopt_dict (msr_tool_choice r)),
     (''model_preferences'', JDict (msr_preferences r)), (''metadata'', JDict (msr_metadata r))]"

record mcp_elicitation_request =
  mer_server :: string
  mer_request :: string
  mer_mode :: string
  mer_title :: "string option"
  mer_schema :: "json_object option"
  mer_url :: "string option"
  mer_explanation :: "string option"

definition mcp_elicitation_request_to_dict :: "mcp_elicitation_request \<Rightarrow> json_object" where
  "mcp_elicitation_request_to_dict r = [(''server_id'', JStr (mer_server r)), (''request_id'', JStr (mer_request r)),
     (''mode'', JStr (mer_mode r)), (''title'', jopt_str (mer_title r)), (''schema'', jopt_dict (mer_schema r)),
     (''url'', jopt_str (mer_url r)), (''explanation'', jopt_str (mer_explanation r))]"

record mcp_log_event =
  mle_server :: string
  mle_level :: string
  mle_message :: string
  mle_metadata :: json_object

definition mcp_log_event_to_dict :: "mcp_log_event \<Rightarrow> json_object" where
  "mcp_log_event_to_dict e = [(''server_id'', JStr (mle_server e)), (''level'', JStr (mle_level e)),
     (''message'', JStr (mle_message e)), (''metadata'', JDict (mle_metadata e))]"

record mcp_task_handle =
  mth_server :: string
  mth_task :: string
  mth_status :: string
  mth_metadata :: json_object

definition mcp_task_handle_to_dict :: "mcp_task_handle \<Rightarrow> json_object" where
  "mcp_task_handle_to_dict t = [(''server_id'', JStr (mth_server t)), (''task_id'', JStr (mth_task t)),
     (''status'', JStr (mth_status t)), (''metadata'', JDict (mth_metadata t))]"

record mcp_resource_notification =
  mrn_server :: string
  mrn_kind :: string
  mrn_uri :: "string option"
  mrn_metadata :: json_object

definition mcp_resource_notification_to_dict :: "mcp_resource_notification \<Rightarrow> json_object" where
  "mcp_resource_notification_to_dict n = [(''server_id'', JStr (mrn_server n)), (''kind'', JStr (mrn_kind n)),
     (''resource_uri'', jopt_str (mrn_uri n)), (''metadata'', JDict (mrn_metadata n))]"

subsection \<open>Sessions, connections, transport values\<close>

record mcp_session_handle =
  msh_server :: string
  msh_version :: string
  msh_negotiated :: json_object
  msh_transport :: string
  msh_session :: "string option"
  msh_auth :: "json_object option"
  msh_initialized :: bool

type_synonym 'w mcp_handler = "json_object \<Rightarrow> 'w \<Rightarrow> (py_error + tool_result) \<times> 'w"

record 'w mcp_server_connection =
  mcn_descriptor :: mcp_server_descriptor
  mcn_tools :: "(string, mcp_tool_descriptor \<times> 'w mcp_handler) pydict"
  mcn_prompts :: "(string, mcp_prompt_descriptor) pydict"
  mcn_resources :: "(string, mcp_resource_descriptor) pydict"
  mcn_client_capabilities :: mcp_client_capabilities
  mcn_server_capabilities :: mcp_server_capabilities
  mcn_version :: string
  mcn_tool_page :: int
  mcn_prompt_page :: int
  mcn_resource_page :: int
  mcn_roots :: "mcp_root list"
  mcn_require_sampling_tools :: bool
  mcn_extra_scopes :: "(string, string list) pydict"
  mcn_subscriptions :: "string list"  \<comment> \<open>a set, without repetition\<close>
  mcn_notifications :: "mcp_resource_notification list"

record mcp_transport_handle =
  mhd_transport :: string
  mhd_server :: string
  mhd_metadata :: json_object

definition new_transport_handle :: "string \<Rightarrow> string \<Rightarrow> mcp_transport_handle" where
  "new_transport_handle transport sid = \<lparr>mhd_transport = transport, mhd_server = sid, mhd_metadata = []\<rparr>"

record mcp_response =
  mrs_result :: json_object
  mrs_events :: "json_object list"
  mrs_headers :: "(string, string) pydict"
  mrs_status :: int

definition response_of :: "json_object \<Rightarrow> mcp_response" where
  "response_of r = \<lparr>mrs_result = r, mrs_events = [], mrs_headers = [], mrs_status = 200\<rparr>"

lemma response_of_simps [simp]: "mrs_result (response_of r) = r" "mrs_headers (response_of r) = []" "mrs_status (response_of r) = 200"
  by (simp_all add: response_of_def)

end
