(* ===== verification/McpTransport.thy ===== *)
theory McpTransport
  imports McpModels TaskStore Effects
begin

text \<open>
  The three transports of \<^verbatim>\<open>tools/mcp/transport.py\<close>.  A transport handle is an object its transport
  and the client's session share, and whose metadata the client changes in place: handles live in a
  heap, and a handle is its index there.  A transport is the record of the operations of the
  \<open>McpTransport\<close> protocol over a state \<open>'t\<close> of its own beside that heap; \<open>inmemory_transport\<close>,
  \<open>stdio_transport\<close> and \<open>http_transport\<close> are the three implementations.

  The in-memory transport holds the connections it serves and the world their handlers act on.
  What the other two talk to is a parameter: \<open>stdio_ops\<close> stands for the child process and its pipes
  (both ends attached, as \<open>Popen\<close> is called here), \<open>urlopen\<close> for the network, \<open>loads\<close> for
  \<open>json.loads\<close>.  A message is sent as the value whose dump goes out.  The lock around a process
  guards one exchange, which is one step of the model.
\<close>

subsection \<open>The interface\<close>

record stdio_config =
  stc_command :: "string list"
  stc_cwd :: "string option"
  stc_env :: "(string, string) pydict"

record http_config =
  htc_endpoint :: string
  htc_headers :: "(string, string) pydict"
  htc_timeout :: string

definition http_config_of :: "string \<Rightarrow> http_config" where
  "http_config_of endpoint = \<lparr>htc_endpoint = endpoint, htc_headers = [], htc_timeout = ''5.0''\<rparr>"

record 't mcp_world =
  mw_handles :: "mcp_transport_handle list"
  mw_transport :: 't

record 't mcp_transport =
  mtr_open_stdio :: "stdio_config \<Rightarrow> string \<Rightarrow> ('t mcp_world, nat) eff"
  mtr_open_http :: "http_config \<Rightarrow> string \<Rightarrow> ('t mcp_world, nat) eff"
  mtr_send :: "nat \<Rightarrow> json_object \<Rightarrow> bool \<Rightarrow> ('t mcp_world, mcp_response) eff"
  mtr_receive :: "nat \<Rightarrow> ('t mcp_world, json_object list) eff"
  mtr_resume :: "nat \<Rightarrow> string option \<Rightarrow> ('t mcp_world, mcp_response) eff"
  mtr_close :: "nat \<Rightarrow> ('t mcp_world, unit) eff"
  mtr_inmemory :: "(string \<Rightarrow> 't \<Rightarrow> mcp_server_descriptor option) option"
    \<comment> \<open>\<open>isinstance(self, InMemoryMcpTransport)\<close>, with \<open>has_server\<close> and \<open>describe_server\<close>\<close>

definition handle_at :: "nat \<Rightarrow> 't mcp_world \<Rightarrow> mcp_transport_handle" where
  "handle_at r w = mw_handles w ! r"

definition new_handle :: "mcp_transport_handle \<Rightarrow> ('t mcp_world, nat) eff" where
  "new_handle h w = (Inr (length (mw_handles w)), w\<lparr>mw_handles := mw_handles w @ [h]\<rparr>)"

text \<open>\<open>handle.metadata[k] = v\<close>.\<close>

definition set_handle_metadata :: "nat \<Rightarrow> string \<Rightarrow> json \<Rightarrow> ('t mcp_world, unit) eff" where
  "set_handle_metadata r k v = modify (\<lambda>w. w\<lparr>mw_handles := (mw_handles w)[r :=
     (mw_handles w ! r)\<lparr>mhd_metadata := dict_set k v (mhd_metadata (mw_handles w ! r))\<rparr>]\<rparr>)"

definition on_transport :: "('t, 'a) eff \<Rightarrow> ('t mcp_world, 'a) eff" where
  "on_transport m w = (let (r, t) = m (mw_transport w) in (r, w\<lparr>mw_transport := t\<rparr>))"

definition lookup_or_raise :: "(string, 'a) pydict \<Rightarrow> string \<Rightarrow> py_error + 'a" where
  "lookup_or_raise d k = (case dict_get d k of None \<Rightarrow> Inl (KeyError k) | Some x \<Rightarrow> Inr x)"

subsection \<open>In memory\<close>

record 'w inmemory =
  im_servers :: "(string, 'w mcp_server_connection) pydict"
  im_handles :: "(string, nat) pydict"
  im_world :: 'w

definition inmemory_new :: "'w \<Rightarrow> 'w inmemory" where
  "inmemory_new w = \<lparr>im_servers = [], im_handles = [], im_world = w\<rparr>"

definition im_connect :: "'w mcp_server_connection \<Rightarrow> ('w inmemory mcp_world, nat) eff" where
  "im_connect srv = (let sid = msd_id (mcn_descriptor srv) in
     bind (on_transport (modify (\<lambda>t. t\<lparr>im_servers := dict_set sid srv (im_servers t)\<rparr>))) (\<lambda>_.
     bind (new_handle (new_transport_handle ''inmemory'' sid)) (\<lambda>r.
     bind (on_transport (modify (\<lambda>t. t\<lparr>im_handles := dict_set sid r (im_handles t)\<rparr>))) (\<lambda>_. ret r))))"

text \<open>\<open>open_stdio\<close> and \<open>open_http\<close> alike.\<close>

definition im_open :: "string \<Rightarrow> ('w inmemory mcp_world, nat) eff" where
  "im_open sid = on_transport (reads (\<lambda>t. lookup_or_raise (im_handles t) sid))"

definition im_disconnect :: "string \<Rightarrow> ('w inmemory mcp_world, unit) eff" where
  "im_disconnect sid = on_transport (modify (\<lambda>t.
     t\<lparr>im_servers := dict_pop sid (im_servers t), im_handles := dict_pop sid (im_handles t)\<rparr>))"

definition im_describe :: "string \<Rightarrow> 'w inmemory \<Rightarrow> mcp_server_descriptor option" where
  "im_describe sid t = map_option mcn_descriptor (dict_get (im_servers t) sid)"

definition paginate_items :: "json_object list \<Rightarrow> string \<Rightarrow> int \<Rightarrow> string \<Rightarrow> py_error + json_object" where
  "paginate_items items cursor page_size key =
     ebind (py_int cursor) (\<lambda>start. let stop = start + page_size in
     Inr [(key, JList (map JDict (py_slice start stop items))),
          (''nextCursor'', if stop < int (length items) then JStr (int_str stop) else JNull)])"

definition page_cursor :: "json_object \<Rightarrow> string" where
  "page_cursor params = (case jget params ''cursor'' of JNull \<Rightarrow> ''0'' | v \<Rightarrow> py_str v)"

text \<open>\<open>page_size or len(items)\<close>.\<close>

definition effective_page :: "int \<Rightarrow> nat \<Rightarrow> int" where
  "effective_page page n = (if page \<noteq> 0 then page else int n)"

definition paginate_tools :: "'w mcp_server_connection \<Rightarrow> json_object \<Rightarrow> py_error + json_object" where
  "paginate_tools srv params = paginate_items (map (\<lambda>t. mcp_tool_to_dict (fst t)) (dict_values (mcn_tools srv)))
     (page_cursor params) (effective_page (mcn_tool_page srv) (length (mcn_tools srv))) ''tools''"

definition paginate_prompts :: "'w mcp_server_connection \<Rightarrow> json_object \<Rightarrow> py_error + json_object" where
  "paginate_prompts srv params = paginate_items (map mcp_prompt_to_dict (dict_values (mcn_prompts srv)))
     (page_cursor params) (effective_page (mcn_prompt_page srv) (length (mcn_prompts srv))) ''prompts''"

definition paginate_resources :: "'w mcp_server_connection \<Rightarrow> json_object \<Rightarrow> py_error + json_object" where
  "paginate_resources srv params = paginate_items (map mcp_resource_to_dict (dict_values (mcn_resources srv)))
     (page_cursor params) (effective_page (mcn_resource_page srv) (length (mcn_resources srv))) ''resources''"

text \<open>The scopes a call needs that the handle's metadata do not grant.\<close>

definition granted_scopes :: "mcp_transport_handle \<Rightarrow> string list" where
  "granted_scopes h = (case jget (mhd_metadata h) ''scopes'' of JList l \<Rightarrow> map py_str l | _ \<Rightarrow> [])"

definition missing_scopes :: "'w mcp_server_connection \<Rightarrow> mcp_transport_handle \<Rightarrow> string \<Rightarrow> string list" where
  "missing_scopes srv h name =
     filter (\<lambda>s. s \<notin> set (granted_scopes h)) (dict_get_default (mcn_extra_scopes srv) name [])"

definition scope_challenge :: "string list \<Rightarrow> string" where
  "scope_challenge scopes = ''Bearer scope='' @ [dquote] @ py_join '' '' scopes @ [dquote]"

definition unauthorized :: "string list \<Rightarrow> mcp_response" where
  "unauthorized scopes = \<lparr>mrs_result = [(''error'', JStr ''missing_scope'')], mrs_events = [],
     mrs_headers = [(''www-authenticate'', scope_challenge scopes)], mrs_status = 401\<rparr>"

definition im_tools_call ::
  "'w mcp_server_connection \<Rightarrow> mcp_transport_handle \<Rightarrow> json_object \<Rightarrow> ('w, mcp_response) eff" where
  "im_tools_call srv h params =
     bind (lift (field_str params ''name'')) (\<lambda>name.
     if missing_scopes srv h name \<noteq> [] then ret (unauthorized (missing_scopes srv h name))
     else bind (lift (lookup_or_raise (mcn_tools srv) name)) (\<lambda>entry.
       case dict_get_default params ''arguments'' (JDict []) of
         JDict arguments \<Rightarrow> bind (snd entry arguments) (\<lambda>result. ret (response_of (tool_result_to_dict result)))
       | _ \<Rightarrow> throw (McpProtocolError ''tools/call arguments must be a JSON object'')))"

definition im_prompts_get :: "field_renderer \<Rightarrow> 'w mcp_server_connection \<Rightarrow> json_object \<Rightarrow> py_error + mcp_response" where
  "im_prompts_get render srv params =
     ebind (field_str params ''name'') (\<lambda>name.
     ebind (lookup_or_raise (mcn_prompts srv) name) (\<lambda>prompt.
     ebind (format_map render (field_dict params ''arguments'') (mpd_template prompt)) (\<lambda>content.
     Inr (response_of [(''name'', JStr name), (''description'', JStr (mpd_description prompt)),
       (''messages'', JList [JDict [(''role'', JStr ''user''), (''content'', JStr content)]])]))))"

definition im_resources_read :: "'w mcp_server_connection \<Rightarrow> json_object \<Rightarrow> py_error + mcp_response" where
  "im_resources_read srv params =
     ebind (field_str params ''uri'') (\<lambda>uri.
     ebind (lookup_or_raise (mcn_resources srv) uri) (\<lambda>r.
     Inr (response_of [(''resource'', JDict (mcp_resource_to_dict r))])))"

definition im_sampling :: "'w mcp_server_connection \<Rightarrow> mcp_transport_handle \<Rightarrow> json_object \<Rightarrow> py_error + mcp_response" where
  "im_sampling srv h params = (let payload = field_dict params ''request'' in
     if truthy (jget payload ''tools'') \<and> mcn_require_sampling_tools srv \<and> \<not> truthy (jget (mhd_metadata h) ''client_sampling_tools'')
     then Inl (McpProtocolError ''Sampling request includes tools without negotiated support'')
     else Inr (response_of [(''request_id'', jget payload ''request_id''),
       (''message'', JDict [(''role'', JStr ''assistant''), (''content'', JStr ''sampled'')])]))"

definition im_elicitation :: "json_object \<Rightarrow> mcp_response" where
  "im_elicitation params = (let payload = field_dict params ''request'' in
     response_of [(''request_id'', jget payload ''request_id''),
       (''mode'', JStr (field_text payload ''mode'' ''form'')), (''result'', JDict [(''accepted'', JBool True)])])"

definition im_initialize :: "'w mcp_server_connection \<Rightarrow> mcp_response" where
  "im_initialize srv = response_of [(''protocolVersion'', JStr (mcn_version srv)),
     (''capabilities'', JDict (mcp_server_capabilities_to_dict (mcn_server_capabilities srv))),
     (''serverInfo'', JDict (mcp_server_descriptor_to_dict (mcn_descriptor srv)))]"

definition update_server ::
  "string \<Rightarrow> ('w mcp_server_connection \<Rightarrow> 'w mcp_server_connection) \<Rightarrow> 'w inmemory \<Rightarrow> 'w inmemory" where
  "update_server sid f t = (case dict_get (im_servers t) sid of
     None \<Rightarrow> t | Some srv \<Rightarrow> t\<lparr>im_servers := dict_set sid (f srv) (im_servers t)\<rparr>)"

definition im_subscribe :: "string \<Rightarrow> json_object \<Rightarrow> ('w inmemory, mcp_response) eff" where
  "im_subscribe sid params =
     bind (lift (field_str params ''uri'')) (\<lambda>uri.
     bind (modify (update_server sid (\<lambda>srv. srv\<lparr>mcn_subscriptions := List.insert uri (mcn_subscriptions srv)\<rparr>))) (\<lambda>_.
     ret (response_of [(''subscribed'', JBool True), (''uri'', JStr uri)])))"

definition on_world :: "('w, 'a) eff \<Rightarrow> ('w inmemory, 'a) eff" where
  "on_world m t = (let (r, w) = m (im_world t) in (r, t\<lparr>im_world := w\<rparr>))"

definition im_request ::
  "field_renderer \<Rightarrow> 'w mcp_server_connection \<Rightarrow> mcp_transport_handle \<Rightarrow> string \<Rightarrow> json_object \<Rightarrow> ('w inmemory, mcp_response) eff" where
  "im_request render srv h method params =
     (if method = ''initialize'' then ret (im_initialize srv)
      else if method = ''notifications/initialized'' then ret (response_of [])
      else if method = ''ping'' then ret (response_of [(''pong'', JBool True)])
      else if method = ''tools/list'' then lift (ebind (paginate_tools srv params) (\<lambda>r. Inr (response_of r)))
      else if method = ''tools/call'' then on_world (im_tools_call srv h params)
      else if method = ''prompts/list'' then lift (ebind (paginate_prompts srv params) (\<lambda>r. Inr (response_of r)))
      else if method = ''prompts/get'' then lift (im_prompts_get render srv params)
      else if method = ''resources/list'' then lift (ebind (paginate_resources srv params) (\<lambda>r. Inr (response_of r)))
      else if method = ''resources/read'' then lift (im_resources_read srv params)
      else if method = ''resources/subscribe'' then im_subscribe (mhd_server h) params
      else if method = ''roots/list'' then
        ret (response_of [(''roots'', JList (map (\<lambda>r. JDict (mcp_root_to_dict r)) (mcn_roots srv)))])
      else if method = ''sampling/createMessage'' then lift (im_sampling srv h params)
      else if method = ''elicitation/request'' then ret (im_elicitation params)
      else if method = ''notifications/roots/list_changed'' then ret (response_of [(''notified'', JBool True)])
      else if method = ''notifications/cancelled'' then ret (response_of [(''cancelled'', JBool True)])
      else throw (McpProtocolError (''Unsupported in-memory MCP method: '' @ method)))"

definition im_send :: "field_renderer \<Rightarrow> nat \<Rightarrow> json_object \<Rightarrow> bool \<Rightarrow> ('w inmemory mcp_world, mcp_response) eff" where
  "im_send render r message accept_sse =
     bind (gets (handle_at r)) (\<lambda>h.
     on_transport (
       bind (reads (\<lambda>t. lookup_or_raise (im_servers t) (mhd_server h))) (\<lambda>srv.
       bind (lift (field_str message ''method'')) (\<lambda>method.
       im_request render srv h method (field_dict message ''params'')))))"

definition im_receive :: "nat \<Rightarrow> ('w inmemory mcp_world, json_object list) eff" where
  "im_receive r =
     bind (gets (handle_at r)) (\<lambda>h.
     on_transport (
       bind (reads (\<lambda>t. lookup_or_raise (im_servers t) (mhd_server h))) (\<lambda>srv.
       bind (modify (update_server (mhd_server h) (\<lambda>s. s\<lparr>mcn_notifications := []\<rparr>))) (\<lambda>_.
       ret (map mcp_resource_notification_to_dict (mcn_notifications srv))))))"

definition im_close :: "nat \<Rightarrow> ('w inmemory mcp_world, unit) eff" where
  "im_close r = bind (gets (handle_at r)) (\<lambda>h.
     on_transport (modify (\<lambda>t. t\<lparr>im_handles := dict_pop (mhd_server h) (im_handles t)\<rparr>)))"

definition resume_nothing :: "nat \<Rightarrow> string option \<Rightarrow> ('t mcp_world, mcp_response) eff" where
  "resume_nothing r stream_ref = ret (response_of [])"

definition emit_resource_updated :: "string \<Rightarrow> string \<Rightarrow> ('w inmemory, unit) eff" where
  "emit_resource_updated sid uri =
     bind (reads (\<lambda>t. lookup_or_raise (im_servers t) sid)) (\<lambda>srv.
     if uri \<in> set (mcn_subscriptions srv)
     then modify (update_server sid (\<lambda>s. s\<lparr>mcn_notifications := mcn_notifications s
       @ [\<lparr>mrn_server = sid, mrn_kind = ''resources/updated'', mrn_uri = Some uri, mrn_metadata = []\<rparr>]\<rparr>))
     else ret ())"

definition emit_resource_list_changed :: "string \<Rightarrow> ('w inmemory, unit) eff" where
  "emit_resource_list_changed sid =
     bind (reads (\<lambda>t. lookup_or_raise (im_servers t) sid)) (\<lambda>srv.
     modify (update_server sid (\<lambda>s. s\<lparr>mcn_notifications := mcn_notifications s
       @ [\<lparr>mrn_server = sid, mrn_kind = ''resources/list_changed'', mrn_uri = None, mrn_metadata = []\<rparr>]\<rparr>)))"

definition inmemory_transport :: "field_renderer \<Rightarrow> 'w inmemory mcp_transport" where
  "inmemory_transport render = \<lparr>mtr_open_stdio = (\<lambda>_. im_open), mtr_open_http = (\<lambda>_. im_open),
     mtr_send = im_send render, mtr_receive = im_receive, mtr_resume = resume_nothing,
     mtr_close = im_close, mtr_inmemory = Some im_describe\<rparr>"

subsection \<open>Over a child process\<close>

record ('p, 'n) stdio_ops =
  sio_popen :: "stdio_config \<Rightarrow> ('n, 'p) eff"
  sio_exchange :: "'p \<Rightarrow> json_object \<Rightarrow> ('n, string) eff"  \<comment> \<open>write a line, flush, read a line\<close>
  sio_stderr :: "'p \<Rightarrow> ('n, string) eff"
  sio_stop :: "'p \<Rightarrow> ('n, unit) eff"

record ('p, 'n) stdio_state =
  sts_processes :: "(string, 'p) pydict"
  sts_outside :: 'n

type_synonym loader = "string \<Rightarrow> py_error + json"

definition on_outside :: "('n, 'a) eff \<Rightarrow> (('p, 'n) stdio_state, 'a) eff" where
  "on_outside m t = (let (r, n) = m (sts_outside t) in (r, t\<lparr>sts_outside := n\<rparr>))"

definition stdio_open :: "('p, 'n) stdio_ops \<Rightarrow> stdio_config \<Rightarrow> string \<Rightarrow> (('p, 'n) stdio_state mcp_world, nat) eff" where
  "stdio_open os config sid =
     bind (on_transport (on_outside (sio_popen os config))) (\<lambda>p.
     bind (on_transport (modify (\<lambda>t. t\<lparr>sts_processes := dict_set sid p (sts_processes t)\<rparr>))) (\<lambda>_.
     new_handle (new_transport_handle ''stdio'' sid)))"

definition stdio_response :: "json \<Rightarrow> py_error + mcp_response" where
  "stdio_response v = (case v of
     JDict d \<Rightarrow> (case jget d ''result'' of
         JNull \<Rightarrow> Inr (response_of [])
       | JDict r \<Rightarrow> Inr (response_of r)
       | _ \<Rightarrow> Inl (McpProtocolError ''Stdio MCP result must be a JSON object''))
   | _ \<Rightarrow> Inl (McpProtocolError ''Stdio MCP response must be a JSON object''))"

definition stdio_send ::
  "loader \<Rightarrow> ('p, 'n) stdio_ops \<Rightarrow> nat \<Rightarrow> json_object \<Rightarrow> bool \<Rightarrow> (('p, 'n) stdio_state mcp_world, mcp_response) eff" where
  "stdio_send loads os r message accept_sse =
     bind (gets (handle_at r)) (\<lambda>h.
     on_transport (
       bind (reads (\<lambda>t. lookup_or_raise (sts_processes t) (mhd_server h))) (\<lambda>p.
       bind (on_outside (sio_exchange os p message)) (\<lambda>raw.
       if raw = [] then bind (on_outside (sio_stderr os p)) (\<lambda>err.
         throw (McpTransportError (''Stdio MCP server closed unexpectedly: '' @ err)))
       else lift (ebind (loads raw) stdio_response)))))"

definition receive_nothing :: "nat \<Rightarrow> ('t mcp_world, json_object list) eff" where
  "receive_nothing r = ret []"

definition stdio_close :: "('p, 'n) stdio_ops \<Rightarrow> nat \<Rightarrow> (('p, 'n) stdio_state mcp_world, unit) eff" where
  "stdio_close os r =
     bind (gets (handle_at r)) (\<lambda>h.
     on_transport (
       bind (gets (\<lambda>t. dict_get (sts_processes t) (mhd_server h))) (\<lambda>p.
       bind (modify (\<lambda>t. t\<lparr>sts_processes := dict_pop (mhd_server h) (sts_processes t)\<rparr>)) (\<lambda>_.
       case p of None \<Rightarrow> ret () | Some p \<Rightarrow> on_outside (sio_stop os p)))))"

definition stdio_transport :: "loader \<Rightarrow> ('p, 'n) stdio_ops \<Rightarrow> ('p, 'n) stdio_state mcp_transport" where
  "stdio_transport loads os = \<lparr>mtr_open_stdio = stdio_open os,
     mtr_open_http = (\<lambda>_ _. throw (McpTransportError ''StdioMcpTransport does not support HTTP'')),
     mtr_send = stdio_send loads os, mtr_receive = receive_nothing, mtr_resume = resume_nothing,
     mtr_close = stdio_close os, mtr_inmemory = None\<rparr>"

subsection \<open>Over HTTP\<close>

record http_request =
  hrq_url :: string
  hrq_method :: string
  hrq_headers :: "(string, string) pydict"
  hrq_body :: "json_object option"
  hrq_timeout :: string

datatype http_outcome =
    HttpReply "(string, string) pydict" string
  | HttpError int string "(string, string) pydict"
  | UrlError string

type_synonym 'n network = "http_request \<Rightarrow> 'n \<Rightarrow> http_outcome \<times> 'n"

record 'n http_state =
  hts_configs :: "(string, http_config) pydict"
  hts_network :: 'n

definition http_open :: "http_config \<Rightarrow> string \<Rightarrow> ('n http_state mcp_world, nat) eff" where
  "http_open config sid =
     bind (on_transport (modify (\<lambda>t. t\<lparr>hts_configs := dict_set sid config (hts_configs t)\<rparr>))) (\<lambda>_.
     new_handle (new_transport_handle ''http'' sid))"

text \<open>\<open>{key.lower(): value for key, value in headers.items()}\<close>.\<close>

definition lower_headers :: "(string, string) pydict \<Rightarrow> (string, string) pydict" where
  "lower_headers hs = dict_merge [] (map (\<lambda>(k, v). (py_lower k, v)) hs)"

text \<open>The server-sent events of a body: the objects among the payloads of its blocks of data lines.\<close>

definition sse_payload :: "loader \<Rightarrow> string list \<Rightarrow> py_error + json_object list" where
  "sse_payload loads datas = ebind (loads (py_join [newline] datas)) (\<lambda>v.
     Inr (case v of JDict d \<Rightarrow> [d] | _ \<Rightarrow> []))"

fun sse_events :: "loader \<Rightarrow> string list \<Rightarrow> string list \<Rightarrow> py_error + json_object list" where
  "sse_events loads datas [] = (if datas = [] then Inr [] else sse_payload loads datas)"
| "sse_events loads datas (l # ls) =
     (if py_startswith l ''data:'' then sse_events loads (datas @ [py_strip (remove_prefix ''data:'' l)]) ls
      else if py_strip l = [] \<and> datas \<noteq> [] then
        ebind (sse_payload loads datas) (\<lambda>es. ebind (sse_events loads [] ls) (\<lambda>fs. Inr (es @ fs)))
      else sse_events loads datas ls)"

definition parse_sse :: "loader \<Rightarrow> string \<Rightarrow> py_error + json_object list" where
  "parse_sse loads raw = sse_events loads [] (py_splitlines raw)"

definition first_result :: "json_object list \<Rightarrow> json_object" where
  "first_result es = (case List.map_filter (\<lambda>e. as_dict (jget e ''result'')) es of [] \<Rightarrow> [] | r # _ \<Rightarrow> r)"

definition http_message_headers :: "http_config \<Rightarrow> mcp_transport_handle \<Rightarrow> json_object \<Rightarrow> bool \<Rightarrow> (string, string) pydict" where
  "http_message_headers config h message accept_sse =
     (let hs = dict_merge [(''Content-Type'', ''application/json''),
          (''Accept'', if accept_sse then ''text/event-stream'' else ''application/json''),
          (''MCP-Protocol-Version'', field_text message ''_protocol_version'' ''2025-11-25'')] (htc_headers config)
      in case jget (mhd_metadata h) ''access_token'' of
           JStr token \<Rightarrow> if token \<noteq> [] then dict_set ''Authorization'' (''Bearer '' @ token) hs else hs
         | _ \<Rightarrow> hs)"

definition http_message_request :: "http_config \<Rightarrow> mcp_transport_handle \<Rightarrow> json_object \<Rightarrow> bool \<Rightarrow> http_request" where
  "http_message_request config h message accept_sse = \<lparr>hrq_url = htc_endpoint config, hrq_method = ''POST'',
     hrq_headers = http_message_headers config h message accept_sse,
     hrq_body = Some (filter (\<lambda>kv. \<not> py_startswith (fst kv) ''_'') message), hrq_timeout = htc_timeout config\<rparr>"

definition http_response :: "loader \<Rightarrow> http_outcome \<Rightarrow> py_error + mcp_response" where
  "http_response loads outcome = (case outcome of
     HttpError status detail hs \<Rightarrow> Inr \<lparr>mrs_result = [(''error'', JStr detail)], mrs_events = [],
       mrs_headers = lower_headers hs, mrs_status = status\<rparr>
   | UrlError reason \<Rightarrow> Inl (McpTransportError (''HTTP MCP transport error: '' @ reason))
   | HttpReply hs raw \<Rightarrow> (let headers = lower_headers hs in
       if dict_get headers ''mcp-protocol-version'' = None
       then Inl (McpProtocolError ''HTTP MCP response is missing MCP-Protocol-Version header'')
       else if py_contains ''text/event-stream'' (dict_get_default headers ''content-type'' [])
       then ebind (parse_sse loads raw) (\<lambda>events.
         Inr \<lparr>mrs_result = first_result events, mrs_events = events, mrs_headers = headers, mrs_status = 200\<rparr>)
       else ebind (loads raw) (\<lambda>body. case body of
           JDict d \<Rightarrow> Inr \<lparr>mrs_result = field_dict d ''result'', mrs_events = [], mrs_headers = headers, mrs_status = 200\<rparr>
         | _ \<Rightarrow> Inl (McpProtocolError ''HTTP MCP response must be a JSON object''))))"

definition on_network :: "'n network \<Rightarrow> http_request \<Rightarrow> ('n http_state, http_outcome) eff" where
  "on_network urlopen q t = (let (o', n) = urlopen q (hts_network t) in (Inr o', t\<lparr>hts_network := n\<rparr>))"

definition http_send ::
  "loader \<Rightarrow> 'n network \<Rightarrow> nat \<Rightarrow> json_object \<Rightarrow> bool \<Rightarrow> ('n http_state mcp_world, mcp_response) eff" where
  "http_send loads urlopen r message accept_sse =
     bind (gets (handle_at r)) (\<lambda>h.
     on_transport (
       bind (reads (\<lambda>t. lookup_or_raise (hts_configs t) (mhd_server h))) (\<lambda>config.
       bind (on_network urlopen (http_message_request config h message accept_sse)) (\<lambda>outcome.
       lift (http_response loads outcome)))))"

definition http_close :: "nat \<Rightarrow> ('n http_state mcp_world, unit) eff" where
  "http_close r = bind (gets (handle_at r)) (\<lambda>h.
     on_transport (modify (\<lambda>t. t\<lparr>hts_configs := dict_pop (mhd_server h) (hts_configs t)\<rparr>)))"

definition http_transport :: "loader \<Rightarrow> 'n network \<Rightarrow> 'n http_state mcp_transport" where
  "http_transport loads urlopen = \<lparr>
     mtr_open_stdio = (\<lambda>_ _. throw (McpTransportError ''StreamableHttpMcpTransport does not support stdio'')),
     mtr_open_http = http_open, mtr_send = http_send loads urlopen, mtr_receive = receive_nothing,
     mtr_resume = resume_nothing, mtr_close = http_close, mtr_inmemory = None\<rparr>"

end
