(* ===== verification/McpClient.thy ===== *)
theory McpClient
  imports McpTransport
begin

text \<open>
  The client side of MCP: the authorization adapter of \<^verbatim>\<open>tools/mcp/auth.py\<close>, the host capabilities of
  \<^verbatim>\<open>client_capabilities.py\<close> and the protocol client of \<^verbatim>\<open>protocol.py\<close>, over any transport.

  \<open>mcp_env\<close> holds what a client is built with and never changes, \<open>mcp_client\<close> what it keeps: the
  world of its transport, its sessions by server, how many UUIDs it has drawn, and the flag of the
  roots provider.  A session's handle and authorization state change in place in the table.
  Listing loops until a page has no cursor, which a server decides, so it is a partial function:
  \<open>None\<close> is a listing that never returns.
\<close>

subsection \<open>Authorization\<close>

record 't mcp_auth =
  mau_timeout :: string
  mau_path :: string
  mau_override :: "string option"
  mau_scope_tokens :: "(string, string) pydict"
  mau_urlopen :: "http_request \<Rightarrow> 't \<Rightarrow> http_outcome \<times> 't"
  mau_loads :: loader

text \<open>The object a request to the authorization server answers with; \<open>what\<close> names the step in the errors.\<close>

definition auth_body :: "'t mcp_auth \<Rightarrow> string \<Rightarrow> http_request \<Rightarrow> ('t, json_object) eff" where
  "auth_body au what q t = (case mau_urlopen au q t of (outcome, t') \<Rightarrow>
     ((case outcome of
         HttpError status detail _ \<Rightarrow>
           Inl (McpAuthorizationError (what @ '' failed: HTTP '' @ int_str status @ '': '' @ detail))
       | UrlError reason \<Rightarrow> Inl (McpAuthorizationError (what @ '' failed: '' @ reason))
       | HttpReply _ raw \<Rightarrow> (case mau_loads au raw of
             Inl _ \<Rightarrow> Inl (McpAuthorizationError (what @ '' returned invalid JSON''))
           | Inr (JDict d) \<Rightarrow> Inr d
           | Inr _ \<Rightarrow> Inl (McpAuthorizationError (what @ '' must return a JSON object'')))), t'))"

definition truthy_str :: "json \<Rightarrow> string option" where
  "truthy_str v = (if truthy v then Some (py_str v) else None)"

definition discover_authorization :: "'t mcp_auth \<Rightarrow> string \<Rightarrow> ('t, mcp_auth_metadata) eff" where
  "discover_authorization au endpoint =
     bind (auth_body au ''Authorization discovery'' \<lparr>hrq_url = rstrip_char (CHR ''/'') endpoint @ mau_path au,
       hrq_method = ''GET'', hrq_headers = [], hrq_body = None, hrq_timeout = mau_timeout au\<rparr>) (\<lambda>body.
     ret \<lparr>mam_token_endpoint = truthy_str (jget body ''token_endpoint''), mam_server = truthy_str (jget body ''issuer''),
       mam_scopes = (case jget body ''scopes_supported'' of JList l \<Rightarrow> map py_str l | _ \<Rightarrow> []), mam_metadata = body\<rparr>)"

text \<open>The token of the last requested scope the map knows.\<close>

definition mapped_token :: "'t mcp_auth \<Rightarrow> string list \<Rightarrow> string option" where
  "mapped_token au scopes =
     (case filter (\<lambda>s. dict_get (mau_scope_tokens au) s \<noteq> None) (rev scopes) of
        [] \<Rightarrow> None | s # _ \<Rightarrow> dict_get (mau_scope_tokens au) s)"

definition request_token :: "'t mcp_auth \<Rightarrow> string \<Rightarrow> string list \<Rightarrow> ('t, mcp_auth_state) eff" where
  "request_token au endpoint scopes =
     bind (auth_body au ''Token acquisition'' \<lparr>hrq_url = endpoint, hrq_method = ''POST'',
       hrq_headers = [(''Content-Type'', ''application/json'')],
       hrq_body = Some [(''scopes'', JList (map JStr scopes))], hrq_timeout = mau_timeout au\<rparr>) (\<lambda>body.
     case jget body ''access_token'' of
       JStr token \<Rightarrow>
         if token = [] then throw (McpAuthorizationError ''Token acquisition response is missing access_token'')
         else ret \<lparr>mas_token = Some token,
           mas_scopes = (case jget body ''scope'' of
               JStr s \<Rightarrow> if s \<noteq> [] then py_split s else scopes | _ \<Rightarrow> scopes), mas_metadata = []\<rparr>
     | _ \<Rightarrow> throw (McpAuthorizationError ''Token acquisition response is missing access_token''))"

definition acquire_token :: "'t mcp_auth \<Rightarrow> mcp_auth_metadata \<Rightarrow> string list \<Rightarrow> ('t, mcp_auth_state) eff" where
  "acquire_token au meta scopes =
     (let requested = (if scopes \<noteq> [] then scopes else mam_scopes meta) in
      case mau_override au of
        Some token \<Rightarrow> ret \<lparr>mas_token = Some token, mas_scopes = requested, mas_metadata = []\<rparr>
      | None \<Rightarrow> (case mapped_token au requested of
          Some token \<Rightarrow> ret \<lparr>mas_token = Some token, mas_scopes = requested, mas_metadata = []\<rparr>
        | None \<Rightarrow> (case mam_token_endpoint meta of
            None \<Rightarrow> throw (McpAuthorizationError ''Authorization metadata is missing token_endpoint'')
          | Some endpoint \<Rightarrow> request_token au endpoint requested)))"

definition refresh_token :: "mcp_auth_state \<Rightarrow> py_error + mcp_auth_state" where
  "refresh_token a = (if mas_token a = None then Inl (McpAuthorizationError ''Cannot refresh an empty auth state'') else Inr a)"

text \<open>\<open>list(dict.fromkeys(xs))\<close>: the first occurrences, in order.\<close>

definition unique_in_order :: "'a list \<Rightarrow> 'a list" where
  "unique_in_order xs = rev (remdups (rev xs))"

definition merged_scopes :: "string \<Rightarrow> mcp_auth_state \<Rightarrow> string list" where
  "merged_scopes scope a = unique_in_order (mas_scopes a @ py_split scope)"

definition handle_www_authenticate :: "'t mcp_auth \<Rightarrow> string \<Rightarrow> mcp_auth_state \<Rightarrow> ('t, mcp_auth_state) eff" where
  "handle_www_authenticate au challenge a =
     (case jget (parse_www_authenticate challenge) ''scope'' of
        JStr scope \<Rightarrow>
          if scope \<noteq> [] \<and> merged_scopes scope a \<noteq> mas_scopes a
          then acquire_token au \<lparr>mam_token_endpoint = None, mam_server = None,
                 mam_scopes = merged_scopes scope a, mam_metadata = []\<rparr> (merged_scopes scope a)
          else ret a
      | _ \<Rightarrow> ret a)"

subsection \<open>The host's side\<close>

definition mcp_action :: "string \<Rightarrow> string \<Rightarrow> string \<Rightarrow> string \<Rightarrow> json_object \<Rightarrow> json_object" where
  "mcp_action kind what sid request input = requires_action_to_dict \<lparr>ra_action_type = kind, ra_session = request,
     ra_description = ''MCP '' @ what @ '' request from '' @ sid, ra_terminal_state = ''requires_action'',
     ra_resumable = True, ra_agent = None, ra_task = None, ra_tool_name = None, ra_input = Some input,
     ra_request = Some request, ra_action_ref = None, ra_policy_decision = None\<rparr>"

definition bridge_sampling :: "bool \<Rightarrow> string \<Rightarrow> mcp_sampling_request \<Rightarrow> json_object" where
  "bridge_sampling approval_required sid q =
     (if approval_required then mcp_action ''mcp_sampling'' ''sampling'' sid (msr_request q) (mcp_sampling_request_to_dict q)
      else [(''request_id'', JStr (msr_request q)),
        (''message'', JDict [(''role'', JStr ''assistant''), (''content'', JStr ''sampled'')])])"

definition bridge_elicitation :: "string \<Rightarrow> mcp_elicitation_request \<Rightarrow> json_object" where
  "bridge_elicitation sid q =
     mcp_action ''mcp_elicitation'' ''elicitation'' sid (mer_request q) (mcp_elicitation_request_to_dict q)"

subsection \<open>The client\<close>

record connected_session =
  cns_descriptor :: mcp_server_descriptor
  cns_handle :: mcp_session_handle
  cns_transport :: nat
  cns_auth :: "mcp_auth_state option"

datatype transport_config = StdioConfig stdio_config | HttpConfig http_config

record 't mcp_env =
  mce_transport :: "'t mcp_transport"
  mce_auth :: "'t mcp_auth option"
  mce_roots_provider :: bool
  mce_sampling_bridge :: "bool option"  \<comment> \<open>its \<open>approval_required\<close>\<close>
  mce_elicitation_bridge :: bool
  mce_capabilities :: mcp_client_capabilities
  mce_info :: json_object
  mce_uuid :: "nat \<Rightarrow> string"

record 't mcp_client =
  mcl_world :: "'t mcp_world"
  mcl_sessions :: "(string, connected_session) pydict"
  mcl_uuids :: nat
  mcl_roots_changed :: bool

definition new_mcp_client :: "'t \<Rightarrow> 't mcp_client" where
  "new_mcp_client t = \<lparr>mcl_world = \<lparr>mw_handles = [], mw_transport = t\<rparr>, mcl_sessions = [], mcl_uuids = 0,
     mcl_roots_changed = False\<rparr>"

definition on_mcp :: "('t mcp_world, 'a) eff \<Rightarrow> ('t mcp_client, 'a) eff" where
  "on_mcp m c = (let (r, w) = m (mcl_world c) in (r, c\<lparr>mcl_world := w\<rparr>))"

definition draw_uuid :: "'t mcp_env \<Rightarrow> ('t mcp_client, string) eff" where
  "draw_uuid env c = (Inr (mce_uuid env (mcl_uuids c)), c\<lparr>mcl_uuids := Suc (mcl_uuids c)\<rparr>)"

definition rpc_message :: "'t mcp_env \<Rightarrow> string \<Rightarrow> json_object \<Rightarrow> string option \<Rightarrow> string \<Rightarrow> ('t mcp_client, json_object) eff" where
  "rpc_message env method params request_id version =
     (let payload = [(''jsonrpc'', JStr ''2.0''), (''method'', JStr method), (''params'', JDict params),
          (''_protocol_version'', JStr version)]
      in case request_id of
           Some i \<Rightarrow> ret (payload @ [(''id'', JStr i)])
         | None \<Rightarrow> if py_startswith method ''notifications/'' then ret payload
             else bind (draw_uuid env) (\<lambda>i. ret (payload @ [(''id'', JStr i)])))"

definition set_session :: "string \<Rightarrow> connected_session \<Rightarrow> ('t mcp_client, unit) eff" where
  "set_session sid s = modify (\<lambda>c. c\<lparr>mcl_sessions := dict_set sid s (mcl_sessions c)\<rparr>)"

definition lookup_session :: "string \<Rightarrow> ('t mcp_client, connected_session) eff" where
  "lookup_session sid = reads (\<lambda>c. case dict_get (mcl_sessions c) sid of
     None \<Rightarrow> Inl (KeyError (''MCP server is not initialized: '' @ sid)) | Some s \<Rightarrow> Inr s)"

subsubsection \<open>Initialization\<close>

definition authorize_handle :: "'t mcp_env \<Rightarrow> string \<Rightarrow> nat \<Rightarrow> ('t mcp_client, mcp_auth_state option) eff" where
  "authorize_handle env endpoint r = (case mce_auth env of
     None \<Rightarrow> ret None
   | Some au \<Rightarrow>
       bind (on_mcp (on_transport (discover_authorization au endpoint))) (\<lambda>meta.
       if mam_token_endpoint meta \<noteq> None \<or> mam_scopes meta \<noteq> [] then
         bind (on_mcp (on_transport (acquire_token au meta (mam_scopes meta)))) (\<lambda>a.
         bind (on_mcp (set_handle_metadata r ''access_token'' (JStr (case mas_token a of None \<Rightarrow> [] | Some t \<Rightarrow> t)))) (\<lambda>_.
         bind (on_mcp (set_handle_metadata r ''scopes'' (JList (map JStr (mas_scopes a))))) (\<lambda>_.
         ret (Some a))))
       else ret None))"

definition open_session ::
  "'t mcp_env \<Rightarrow> mcp_server_descriptor \<Rightarrow> transport_config option \<Rightarrow> ('t mcp_client, nat \<times> mcp_auth_state option) eff" where
  "open_session env d config = (let tr = mce_transport env in
     if msd_transport d = ''inmemory'' then
       (if mtr_inmemory tr = None then throw (McpProtocolError ''inmemory MCP initialization requires InMemoryMcpTransport'')
        else bind (on_mcp (mtr_open_http tr (http_config_of ''inmemory://local'') (msd_id d))) (\<lambda>r. ret (r, None)))
     else if msd_transport d = ''stdio'' then
       (case config of
          Some (StdioConfig sc) \<Rightarrow> bind (on_mcp (mtr_open_stdio tr sc (msd_id d))) (\<lambda>r. ret (r, None))
        | _ \<Rightarrow> throw (McpProtocolError ''stdio MCP initialization requires StdioTransportConfig''))
     else
       (let hc = (case config of Some (HttpConfig hc) \<Rightarrow> hc
                    | _ \<Rightarrow> http_config_of (case msd_endpoint d of None \<Rightarrow> [] | Some e \<Rightarrow> e))
        in if htc_endpoint hc = [] then throw (McpProtocolError ''HTTP MCP initialization requires a server endpoint'')
           else bind (on_mcp (mtr_open_http tr hc (msd_id d))) (\<lambda>r.
                bind (authorize_handle env (htc_endpoint hc) r) (\<lambda>a. ret (r, a)))))"

definition protocol_version :: string where
  "protocol_version = ''2025-11-25''"

definition mcp_initialize ::
  "'t mcp_env \<Rightarrow> mcp_server_descriptor \<Rightarrow> transport_config option \<Rightarrow> mcp_client_capabilities \<Rightarrow> ('t mcp_client, mcp_session_handle) eff" where
  "mcp_initialize env d config capabilities =
     bind (open_session env d config) (\<lambda>(r, a).
     bind (rpc_message env ''initialize'' [(''protocolVersion'', JStr protocol_version),
       (''capabilities'', JDict (mcp_client_capabilities_to_dict capabilities)), (''clientInfo'', JDict (mce_info env))]
       None protocol_version) (\<lambda>request.
     bind (on_mcp (mtr_send (mce_transport env) r request False)) (\<lambda>response.
     let version = field_text (mrs_result response) ''protocolVersion'' [] in
     if version \<noteq> protocol_version then
       throw (McpProtocolError (''MCP protocol version mismatch: expected '' @ protocol_version @ '', got '' @ version))
     else case dict_get_default (mrs_result response) ''capabilities'' (JDict []) of
       JDict negotiated \<Rightarrow>
         bind (draw_uuid env) (\<lambda>session.
         let handle = \<lparr>msh_server = msd_id d, msh_version = version, msh_negotiated = negotiated,
               msh_transport = msd_transport d, msh_session = Some session, msh_auth = None, msh_initialized = False\<rparr>
         in bind (set_session (msd_id d) \<lparr>cns_descriptor = d, cns_handle = handle, cns_transport = r,
              cns_auth = (if msd_transport d = ''http'' then a else None)\<rparr>) (\<lambda>_.
            ret handle))
     | _ \<Rightarrow> throw (McpProtocolError ''MCP initialize must return JSON object capabilities''))))"

definition set_initialized :: "string \<Rightarrow> ('t mcp_client, unit) eff" where
  "set_initialized sid = modify (\<lambda>c. case dict_get (mcl_sessions c) sid of None \<Rightarrow> c
     | Some s \<Rightarrow> c\<lparr>mcl_sessions := dict_set sid (s\<lparr>cns_handle := (cns_handle s)\<lparr>msh_initialized := True\<rparr>\<rparr>) (mcl_sessions c)\<rparr>)"

text \<open>\<open>send_initialized\<close> once the session is at hand.\<close>

definition announce :: "'t mcp_env \<Rightarrow> mcp_session_handle \<Rightarrow> connected_session \<Rightarrow> ('t mcp_client, unit) eff" where
  "announce env h connected =
     bind (rpc_message env ''notifications/initialized'' [] None (msh_version h)) (\<lambda>request.
     bind (on_mcp (mtr_send (mce_transport env) (cns_transport connected) request False)) (\<lambda>_.
     set_initialized (msh_server h)))"

text \<open>
  \<open>_connected\<close>: an in-memory server the client has no session with is initialized on the way, and the
  session \<open>initialize\<close> has stored is the one \<open>send_initialized\<close> then finds.
\<close>

definition describe_inmemory :: "'t mcp_env \<Rightarrow> string \<Rightarrow> 't mcp_client \<Rightarrow> mcp_server_descriptor option" where
  "describe_inmemory env sid c = (case mtr_inmemory (mce_transport env) of
     None \<Rightarrow> None | Some describe \<Rightarrow> describe sid (mw_transport (mcl_world c)))"

definition mcp_connected :: "'t mcp_env \<Rightarrow> string \<Rightarrow> ('t mcp_client, connected_session) eff" where
  "mcp_connected env sid =
     bind (gets (\<lambda>c. (dict_get (mcl_sessions c) sid, describe_inmemory env sid c))) (\<lambda>(existing, described).
     case (existing, described) of
       (None, Some d) \<Rightarrow>
         bind (mcp_initialize env d None (mce_capabilities env)) (\<lambda>h.
         bind (lookup_session (msh_server h)) (\<lambda>connected.
         bind (announce env h connected) (\<lambda>_.
         lookup_session sid)))
     | _ \<Rightarrow> lookup_session sid)"

definition send_initialized :: "'t mcp_env \<Rightarrow> mcp_session_handle \<Rightarrow> ('t mcp_client, unit) eff" where
  "send_initialized env h = bind (mcp_connected env (msh_server h)) (announce env h)"

definition mcp_ping :: "'t mcp_env \<Rightarrow> mcp_session_handle \<Rightarrow> ('t mcp_client, bool) eff" where
  "mcp_ping env h =
     bind (mcp_connected env (msh_server h)) (\<lambda>connected.
     bind (rpc_message env ''ping'' [] None (msh_version h)) (\<lambda>request.
     bind (on_mcp (mtr_send (mce_transport env) (cns_transport connected) request False)) (\<lambda>response.
     ret (truthy (jget (mrs_result response) ''pong'')))))"

definition cancel_request :: "'t mcp_env \<Rightarrow> mcp_session_handle \<Rightarrow> string \<Rightarrow> ('t mcp_client, unit) eff" where
  "cancel_request env h request_id =
     bind (mcp_connected env (msh_server h)) (\<lambda>connected.
     bind (rpc_message env ''notifications/cancelled'' [(''requestId'', JStr request_id)] None (msh_version h)) (\<lambda>request.
     bind (on_mcp (mtr_send (mce_transport env) (cns_transport connected) request False)) (\<lambda>_. ret ())))"

definition mcp_close :: "'t mcp_env \<Rightarrow> mcp_session_handle \<Rightarrow> ('t mcp_client, unit) eff" where
  "mcp_close env h =
     bind (mcp_connected env (msh_server h)) (\<lambda>connected.
     bind (on_mcp (mtr_close (mce_transport env) (cns_transport connected))) (\<lambda>_.
     modify (\<lambda>c. c\<lparr>mcl_sessions := dict_pop (msh_server h) (mcl_sessions c)\<rparr>)))"

subsubsection \<open>Requests\<close>

definition send_request ::
  "'t mcp_env \<Rightarrow> connected_session \<Rightarrow> string \<Rightarrow> json_object \<Rightarrow> ('t mcp_client, mcp_response) eff" where
  "send_request env connected method params =
     bind (rpc_message env method params None (msh_version (cns_handle connected))) (\<lambda>request.
     on_mcp (mtr_send (mce_transport env) (cns_transport connected) request (py_startswith method ''tools/'')))"

definition upgrade_session ::
  "'t mcp_auth \<Rightarrow> string \<Rightarrow> connected_session \<Rightarrow> mcp_response \<Rightarrow> ('t mcp_client, unit) eff" where
  "upgrade_session au sid connected response =
     bind (on_mcp (on_transport (handle_www_authenticate au (dict_get_default (mrs_headers response) ''www-authenticate'' [])
       (case cns_auth connected of None \<Rightarrow> no_auth_state | Some a \<Rightarrow> a)))) (\<lambda>upgraded.
     bind (set_session sid (connected\<lparr>cns_auth := Some upgraded,
       cns_handle := (cns_handle connected)\<lparr>msh_auth := Some (mcp_auth_state_to_dict upgraded)\<rparr>\<rparr>)) (\<lambda>_.
     bind (on_mcp (set_handle_metadata (cns_transport connected) ''access_token''
       (JStr (case mas_token upgraded of None \<Rightarrow> [] | Some t \<Rightarrow> t)))) (\<lambda>_.
     on_mcp (set_handle_metadata (cns_transport connected) ''scopes'' (JList (map JStr (mas_scopes upgraded)))))))"

definition mcp_request :: "'t mcp_env \<Rightarrow> string \<Rightarrow> string \<Rightarrow> json_object \<Rightarrow> ('t mcp_client, json_object) eff" where
  "mcp_request env sid method params =
     bind (mcp_connected env sid) (\<lambda>connected.
     bind (send_request env connected method params) (\<lambda>response.
     if mrs_status response = 401 then
       (case mce_auth env of
          None \<Rightarrow> throw (McpAuthorizationError ''MCP server requires authorization'')
        | Some au \<Rightarrow>
            bind (upgrade_session au sid connected response) (\<lambda>_.
            bind (send_request env connected method params) (\<lambda>retry. ret (mrs_result retry))))
     else ret (mrs_result response)))"

subsubsection \<open>Listing\<close>

text \<open>\<open>_parse_descriptor_list\<close>: what is not an object is skipped.\<close>

definition parse_descriptor_list :: "(json_object \<Rightarrow> py_error + 'a) \<Rightarrow> json \<Rightarrow> py_error + 'a list" where
  "parse_descriptor_list from_dict v = (case v of JList l \<Rightarrow> emap from_dict (List.map_filter as_dict l) | _ \<Rightarrow> Inr [])"

definition list_page ::
  "'t mcp_env \<Rightarrow> string \<Rightarrow> string \<Rightarrow> (json_object \<Rightarrow> py_error + 'a) \<Rightarrow> string \<Rightarrow> string option
     \<Rightarrow> ('t mcp_client, 'a list \<times> string option) eff" where
  "list_page env method key from_dict sid cursor =
     bind (mcp_request env sid method
       (case cursor of None \<Rightarrow> [] | Some c \<Rightarrow> if c = [] then [] else [(''cursor'', JStr c)])) (\<lambda>result.
     bind (lift (parse_descriptor_list from_dict (jget result key))) (\<lambda>items.
     ret (items, field_opt_str result ''nextCursor'')))"

definition list_tools_page :: "'t mcp_env \<Rightarrow> string \<Rightarrow> string option \<Rightarrow> ('t mcp_client, mcp_tool_descriptor list \<times> string option) eff" where
  "list_tools_page env = list_page env ''tools/list'' ''tools'' mcp_tool_from_dict"

definition list_prompts_page :: "'t mcp_env \<Rightarrow> string \<Rightarrow> string option \<Rightarrow> ('t mcp_client, mcp_prompt_descriptor list \<times> string option) eff" where
  "list_prompts_page env = list_page env ''prompts/list'' ''prompts'' mcp_prompt_from_dict"

definition list_resources_page :: "'t mcp_env \<Rightarrow> string \<Rightarrow> string option \<Rightarrow> ('t mcp_client, mcp_resource_descriptor list \<times> string option) eff" where
  "list_resources_page env = list_page env ''resources/list'' ''resources'' mcp_resource_from_dict"

text \<open>\<open>_collect_all\<close>, from a cursor and the items so far.\<close>

partial_function (option) collect_from ::
  "(string option \<Rightarrow> ('s, 'a list \<times> string option) eff) \<Rightarrow> string option \<Rightarrow> 'a list \<Rightarrow> 's \<Rightarrow> ((py_error + 'a list) \<times> 's) option" where
  "collect_from pager cursor items s = (case pager cursor s of
     (Inl e, s') \<Rightarrow> Some (Inl e, s')
   | (Inr (page, following), s') \<Rightarrow> (case following of
       None \<Rightarrow> Some (Inr (items @ page), s')
     | Some c \<Rightarrow> collect_from pager (Some c) (items @ page) s'))"

declare collect_from.simps [code]

definition collect_all :: "(string option \<Rightarrow> ('s, 'a list \<times> string option) eff) \<Rightarrow> 's \<Rightarrow> ((py_error + 'a list) \<times> 's) option" where
  "collect_all pager = collect_from pager None []"

definition mcp_list_tools :: "'t mcp_env \<Rightarrow> string \<Rightarrow> 't mcp_client \<Rightarrow> ((py_error + mcp_tool_descriptor list) \<times> 't mcp_client) option" where
  "mcp_list_tools env sid = collect_all (list_tools_page env sid)"

definition mcp_list_prompts :: "'t mcp_env \<Rightarrow> string \<Rightarrow> 't mcp_client \<Rightarrow> ((py_error + mcp_prompt_descriptor list) \<times> 't mcp_client) option" where
  "mcp_list_prompts env sid = collect_all (list_prompts_page env sid)"

definition mcp_list_resources :: "'t mcp_env \<Rightarrow> string \<Rightarrow> 't mcp_client \<Rightarrow> ((py_error + mcp_resource_descriptor list) \<times> 't mcp_client) option" where
  "mcp_list_resources env sid = collect_all (list_resources_page env sid)"

subsubsection \<open>The other operations\<close>

definition mcp_call_tool :: "'t mcp_env \<Rightarrow> string \<Rightarrow> string \<Rightarrow> json_object \<Rightarrow> ('t mcp_client, tool_result) eff" where
  "mcp_call_tool env sid name input =
     bind (mcp_request env sid ''tools/call'' [(''name'', JStr name), (''arguments'', JDict input)]) (\<lambda>result.
     if jget result ''error'' \<noteq> JNull then throw (McpRemoteToolError (py_str (jget result ''error'')))
     else lift (tool_result_from_dict result))"

definition get_prompt :: "'t mcp_env \<Rightarrow> string \<Rightarrow> string \<Rightarrow> json_object \<Rightarrow> ('t mcp_client, string) eff" where
  "get_prompt env sid name args =
     bind (mcp_request env sid ''prompts/get'' [(''name'', JStr name), (''arguments'', JDict args)]) (\<lambda>result.
     case jget result ''messages'' of
       JList (JDict m # _) \<Rightarrow> ret (case jget m ''content'' of JNull \<Rightarrow> [] | v \<Rightarrow> py_str v)
     | _ \<Rightarrow> throw (McpProtocolError ''MCP prompts/get must return messages''))"

definition read_resource :: "'t mcp_env \<Rightarrow> string \<Rightarrow> string \<Rightarrow> ('t mcp_client, mcp_resource_descriptor) eff" where
  "read_resource env sid uri =
     bind (mcp_request env sid ''resources/read'' [(''uri'', JStr uri)]) (\<lambda>result.
     case jget result ''resource'' of
       JDict d \<Rightarrow> lift (mcp_resource_from_dict d)
     | _ \<Rightarrow> throw (McpProtocolError ''MCP resources/read must return resource''))"

definition subscribe_resource :: "'t mcp_env \<Rightarrow> string \<Rightarrow> string \<Rightarrow> ('t mcp_client, unit) eff" where
  "subscribe_resource env sid uri = bind (mcp_request env sid ''resources/subscribe'' [(''uri'', JStr uri)]) (\<lambda>_. ret ())"

definition poll_notifications :: "'t mcp_env \<Rightarrow> string \<Rightarrow> ('t mcp_client, json_object list) eff" where
  "poll_notifications env sid =
     bind (mcp_connected env sid) (\<lambda>connected. on_mcp (mtr_receive (mce_transport env) (cns_transport connected)))"

definition require_capability :: "string \<Rightarrow> bool \<Rightarrow> ('t mcp_client, unit) eff" where
  "require_capability name enabled =
     (if enabled then ret ()
      else throw (McpCapabilityError (''MCP client capability '' @ [squote] @ name @ [squote] @ '' is not enabled'')))"

definition list_roots :: "'t mcp_env \<Rightarrow> string \<Rightarrow> ('t mcp_client, mcp_root list) eff" where
  "list_roots env sid =
     bind (require_capability ''roots'' (mcc_roots (mce_capabilities env))) (\<lambda>_.
     bind (mcp_request env sid ''roots/list'' []) (\<lambda>result.
     lift (parse_descriptor_list mcp_root_from_dict (jget result ''roots''))))"

definition notify_roots_changed :: "'t mcp_env \<Rightarrow> string \<Rightarrow> ('t mcp_client, unit) eff" where
  "notify_roots_changed env sid =
     bind (require_capability ''roots'' (mcc_roots (mce_capabilities env))) (\<lambda>_.
     bind (if mce_roots_provider env then modify (\<lambda>c. c\<lparr>mcl_roots_changed := True\<rparr>) else ret ()) (\<lambda>_.
     bind (mcp_request env sid ''notifications/roots/list_changed'' []) (\<lambda>_. ret ())))"

definition handle_sampling_request :: "'t mcp_env \<Rightarrow> string \<Rightarrow> mcp_sampling_request \<Rightarrow> ('t mcp_client, json_object) eff" where
  "handle_sampling_request env sid q =
     bind (require_capability ''sampling'' (mcc_sampling (mce_capabilities env))) (\<lambda>_.
     if msr_tools q \<noteq> [] \<and> \<not> truthy (jget (mcc_experimental (mce_capabilities env)) ''sampling_tools'')
     then throw (McpCapabilityError ''Sampling tools requested without declared support'')
     else case mce_sampling_bridge env of
       Some approval \<Rightarrow> ret (bridge_sampling approval sid q)
     | None \<Rightarrow> mcp_request env sid ''sampling/createMessage'' [(''request'', JDict (mcp_sampling_request_to_dict q))])"

definition handle_elicitation_request :: "'t mcp_env \<Rightarrow> string \<Rightarrow> mcp_elicitation_request \<Rightarrow> ('t mcp_client, json_object) eff" where
  "handle_elicitation_request env sid q =
     bind (require_capability ''elicitation'' (mcc_elicitation (mce_capabilities env))) (\<lambda>_.
     if mce_elicitation_bridge env then ret (bridge_elicitation sid q)
     else mcp_request env sid ''elicitation/request'' [(''request'', JDict (mcp_elicitation_request_to_dict q))])"

subsection \<open>The in-memory client\<close>

text \<open>\<open>InMemoryMcpClient\<close>: a client with nothing but its transport.\<close>

definition inmemory_env :: "field_renderer \<Rightarrow> (nat \<Rightarrow> string) \<Rightarrow> 'w inmemory mcp_env" where
  "inmemory_env render uuid = \<lparr>mce_transport = inmemory_transport render, mce_auth = None, mce_roots_provider = False,
     mce_sampling_bridge = None, mce_elicitation_bridge = False, mce_capabilities = mcp_client_capabilities_default,
     mce_info = [(''name'', JStr ''openagent'')], mce_uuid = uuid\<rparr>"

text \<open>The capabilities announced: sampling comes with \<open>setdefault("sampling_tools", True)\<close> on the connection's own.\<close>

definition announced_capabilities :: "mcp_client_capabilities \<Rightarrow> mcp_client_capabilities" where
  "announced_capabilities caps =
     (if mcc_sampling caps \<and> dict_get (mcc_experimental caps) ''sampling_tools'' = None
      then caps\<lparr>mcc_experimental := dict_set ''sampling_tools'' (JBool True) (mcc_experimental caps)\<rparr> else caps)"

definition inmemory_connect ::
  "'w inmemory mcp_env \<Rightarrow> 'w mcp_server_connection \<Rightarrow> ('w inmemory mcp_client, mcp_server_descriptor) eff" where
  "inmemory_connect env srv =
     (let caps = announced_capabilities (mcn_client_capabilities srv); d = mcn_descriptor srv in
      bind (on_mcp (im_connect (srv\<lparr>mcn_client_capabilities := caps\<rparr>))) (\<lambda>_.
      bind (mcp_initialize env d None caps) (\<lambda>h.
      bind (if mcc_sampling caps then
              bind (mcp_connected env (msd_id d)) (\<lambda>connected.
              on_mcp (set_handle_metadata (cns_transport connected) ''client_sampling_tools'' (JBool True)))
            else ret ()) (\<lambda>_.
      bind (send_initialized env h) (\<lambda>_. ret d)))))"

definition inmemory_disconnect :: "'w inmemory mcp_env \<Rightarrow> string \<Rightarrow> ('w inmemory mcp_client, unit) eff" where
  "inmemory_disconnect env sid =
     bind (gets (\<lambda>c. dict_get (mcl_sessions c) sid)) (\<lambda>existing.
     bind (case existing of None \<Rightarrow> ret () | Some s \<Rightarrow> mcp_close env (cns_handle s)) (\<lambda>_.
     on_mcp (im_disconnect sid)))"

end
