(* ===== verification/IntText.thy ===== *)
theory IntText
  imports TaskStore
begin

text \<open>\<open>int\<close> reads back what \<open>str\<close> printed: the offset of a cursor, the time in a file.\<close>

lemma int_str_not_Nil [simp]: "int_str i \<noteq> []"
  by (simp add: int_str_def)

lemma py_strip_minus: "py_strip (CHR ''-'' # nat_str n) = CHR ''-'' # nat_str n"
proof -
  have s: "\<not> is_space c" if "c \<in> set (CHR ''-'' # nat_str n)" for c
    using that nat_str_digits [of c n] by (auto simp: is_digit_def is_space_def Let_def code_def)
  then have a: "dropWhile is_space (CHR ''-'' # nat_str n) = CHR ''-'' # nat_str n" by simp
  have "dropWhile is_space (rev (CHR ''-'' # nat_str n)) = rev (CHR ''-'' # nat_str n)"
    using s [of "last (CHR ''-'' # nat_str n)"] by (metis dropWhile_eq_self_iff hd_rev last_in_set list.distinct(1))
  then show ?thesis by (simp only: py_strip_def a rev_rev_ident)
qed

lemma py_int_int_str [simp]: "py_int (int_str i) = Inr i"
proof (cases "i < 0")
  case False
  then show ?thesis by (simp add: int_str_def)
next
  case True
  obtain c r where n: "nat_str (nat (- i)) = c # r" by (cases "nat_str (nat (- i))") simp_all
  then have "is_digit c" using nat_str_digits [of c "nat (- i)"] by simp
  moreover have "digits_value 0 (c # r) = Some (nat (- i))" using digits_value_nat_str n by metis
  moreover have "py_strip (CHR ''-'' # c # r) = CHR ''-'' # c # r" using py_strip_minus n by metis
  ultimately show ?thesis using True by (simp add: py_int_def int_str_def n del: digits_value.simps)
qed

end
