(* ===== verification/McpProps.thy ===== *)
theory McpProps
  imports McpClient IntText
begin

text \<open>
  What the MCP client promises.  \<open>paged\<close> is the contract of a paginated listing, met by the three
  listings over the in-memory transport: a listing returns everything in order when the page size is
  not negative, and never returns when it is.
\<close>

declare map_of_eq_Some_iff [simp del]

subsection \<open>Paginated listings\<close>

text \<open>The offset a cursor stands for.\<close>

definition at_offset :: "int \<Rightarrow> string option \<Rightarrow> bool" where
  "at_offset i c \<longleftrightarrow> c = None \<and> i = 0 \<or> c = Some (int_str i)"

definition page_answer :: "'a list \<Rightarrow> int \<Rightarrow> int \<Rightarrow> 'a list \<times> string option" where
  "page_answer items step i = (py_slice i (i + step) items, if i + step < int (length items) then Some (int_str (i + step)) else None)"

locale paged =
  fixes pager :: "string option \<Rightarrow> ('s, 'a list \<times> string option) eff"
    and ok :: "'s \<Rightarrow> bool"
    and items :: "'a list"
    and step :: int
  assumes page: "ok s \<Longrightarrow> at_offset i c \<Longrightarrow> \<exists>s'. ok s' \<and> pager c s = (Inr (page_answer items step i), s')"
begin

lemma collects_from:
  assumes "0 < step \<or> items = []" "0 \<le> step"
  shows "ok s \<Longrightarrow> at_offset (int i) c \<Longrightarrow> \<exists>s'. ok s' \<and> collect_from pager c acc s = Some (Inr (acc @ drop i items), s')"
proof (induction "length items - i" arbitrary: i c acc s rule: less_induct)
  case less
  obtain s1 where s1: "ok s1" "pager c s = (Inr (page_answer items step (int i)), s1)"
    using page [OF less.prems] by blast
  obtain k where k: "step = int k" using assms(2) nonneg_int_cases by blast
  show ?case
  proof (cases "i + k < length items")
    case True
    then have "0 < k" using assms(1) k by auto
    have "at_offset (int (i + k)) (Some (int_str (int (i + k))))" by (simp add: at_offset_def)
    then obtain s2 where "ok s2"
      "collect_from pager (Some (int_str (int (i + k)))) (acc @ take k (drop i items)) s1
         = Some (Inr ((acc @ take k (drop i items)) @ drop (i + k) items), s2)"
      using less.hyps [of "i + k" s1] True \<open>0 < k\<close> s1(1) by fastforce
    then show ?thesis
      using True append_take_drop_id [of k "drop i items"]
      by (auto simp: collect_from.simps [of pager c] s1(2) page_answer_def k py_slice_nat add.commute
          simp flip: of_nat_add)
  next
    case False
    then show ?thesis
      using s1(1) by (simp add: collect_from.simps [of pager c] s1(2) page_answer_def k py_slice_nat
          flip: of_nat_add)
  qed
qed

lemma collects:
  "0 < step \<or> items = [] \<Longrightarrow> 0 \<le> step \<Longrightarrow> ok s \<Longrightarrow> \<exists>s'. ok s' \<and> collect_all pager s = Some (Inr items, s')"
  using collects_from [of s 0 None "[]"] by (simp add: collect_all_def at_offset_def)

lemma endless:
  assumes "step < 0" "ok s"
  shows "collect_all pager s = None"
proof -
  have never: "p = pager \<longrightarrow> ok s \<longrightarrow> (\<forall>i. at_offset i c \<longrightarrow> \<not> i \<le> 0)"
    if "collect_from p c acc s = Some y" for p c acc s y
  proof (rule collect_from.raw_induct
      [where P = "\<lambda>p c acc s y. p = pager \<longrightarrow> ok s \<longrightarrow> (\<forall>i. at_offset i c \<longrightarrow> \<not> i \<le> 0)", OF _ that], intro impI allI)
    fix rec p c acc s y i
    assume ih: "\<And>p c acc s y. rec p c acc s = Some y \<Longrightarrow> p = pager \<longrightarrow> ok s \<longrightarrow> (\<forall>i. at_offset i c \<longrightarrow> \<not> i \<le> 0)"
      and eq: "(case p c s of (Inl e, s') \<Rightarrow> Some (Inl e, s')
        | (Inr (page, None), s') \<Rightarrow> Some (Inr (acc @ page), s')
        | (Inr (page, Some c), s') \<Rightarrow> rec p (Some c) (acc @ page) s') = Some y"
      and p: "p = pager" "ok s" "at_offset i c"
    obtain s1 where s1: "ok s1" "pager c s = (Inr (page_answer items step i), s1)"
      using page [OF p(2,3)] by blast
    show "\<not> i \<le> 0"
    proof
      assume "i \<le> 0"
      then have "i + step < int (length items)" using assms(1) by simp
      then have "rec p (Some (int_str (i + step))) (acc @ py_slice i (i + step) items) s1 = Some y"
        using eq by (simp add: p(1) s1(2) page_answer_def)
      from ih [OF this] s1(1) p(1) \<open>i \<le> 0\<close> assms(1) show False by (force simp: at_offset_def)
    qed
  qed
  have "collect_from pager None [] s \<noteq> Some y" for y
  proof
    assume "collect_from pager None [] s = Some y"
    from never [OF this] assms(2) have "\<not> at_offset 0 None" by blast
    then show False by (simp add: at_offset_def)
  qed
  then show ?thesis by (cases "collect_all pager s") (auto simp: collect_all_def)
qed

end

subsection \<open>Listings over the in-memory transport\<close>

text \<open>
  Through the handle \<open>r\<close> the client's transport reaches the server \<open>srv\<close> it serves under \<open>sid\<close>, and the
  client has a session \<open>cs\<close> with it.
\<close>

definition reaches ::
  "'w inmemory mcp_env \<Rightarrow> field_renderer \<Rightarrow> string \<Rightarrow> 'w mcp_server_connection \<Rightarrow> nat \<Rightarrow> 'w inmemory mcp_client \<Rightarrow> bool" where
  "reaches env render sid srv r c \<longleftrightarrow> mce_transport env = inmemory_transport render
     \<and> r < length (mw_handles (mcl_world c)) \<and> mhd_server (handle_at r (mcl_world c)) = sid
     \<and> dict_get (im_servers (mw_transport (mcl_world c))) sid = Some srv"

definition serving ::
  "'w inmemory mcp_env \<Rightarrow> field_renderer \<Rightarrow> string \<Rightarrow> 'w mcp_server_connection \<Rightarrow> connected_session \<Rightarrow> 'w inmemory mcp_client \<Rightarrow> bool" where
  "serving env render sid srv cs c \<longleftrightarrow>
     dict_get (mcl_sessions c) sid = Some cs \<and> reaches env render sid srv (cns_transport cs) c"

lemma connected_served: "dict_get (mcl_sessions c) sid = Some cs \<Longrightarrow> mcp_connected env sid c = (Inr cs, c)"
  by (simp add: mcp_connected_def lookup_session_def reads_def)

lemma send_request_served:
  assumes "reaches env render sid srv (cns_transport cs) c" "\<not> py_startswith method ''notifications/''"
  shows "send_request env cs method params c =
    (let (r, t) = im_request render srv (handle_at (cns_transport cs) (mcl_world c)) method params (mw_transport (mcl_world c))
     in (r, c\<lparr>mcl_uuids := Suc (mcl_uuids c), mcl_world := (mcl_world c)\<lparr>mw_transport := t\<rparr>\<rparr>))"
  using assms
  by (simp add: reaches_def send_request_def rpc_message_def bind_assoc draw_uuid_def inmemory_transport_def im_send_def
      on_mcp_def on_transport_def lookup_or_raise_def reads_def lift_def bind_def gets_def ret_def handle_at_def
      split: prod.split)

lemma request_served:
  assumes "serving env render sid srv cs c" "\<not> py_startswith method ''notifications/''"
    and "im_request render srv (handle_at (cns_transport cs) (mcl_world c)) method params (mw_transport (mcl_world c))
      = (Inr rsp, mw_transport (mcl_world c))" "mrs_status rsp \<noteq> 401"
  shows "mcp_request env sid method params c = (Inr (mrs_result rsp), c\<lparr>mcl_uuids := Suc (mcl_uuids c)\<rparr>)"
proof -
  have "dict_get (mcl_sessions c) sid = Some cs" and r: "reaches env render sid srv (cns_transport cs) c"
    using assms(1) by (simp_all add: serving_def)
  then show ?thesis
    using assms(4)
    by (simp add: mcp_request_def bind_Inr [where m = "mcp_connected env sid", OF connected_served]
        bind_Inr [where m = "send_request env cs method params"] send_request_served [OF r assms(2)] assms(3) ret_def)
qed

lemma py_slice_map: "py_slice a b (map f xs) = map f (py_slice a b xs)"
  by (simp add: py_slice_def Let_def drop_map take_map)

lemma parse_descriptor_list_map:
  "(\<And>x. from_dict (to_dict x) = Inr x) \<Longrightarrow> parse_descriptor_list from_dict (JList (map JDict (map to_dict xs))) = Inr xs"
proof -
  assume r: "\<And>x. from_dict (to_dict x) = Inr x"
  have "List.map_filter as_dict (map (\<lambda>x. JDict (to_dict x)) xs) = map to_dict xs"
    by (induction xs) (simp_all add: List.map_filter_simps)
  then show ?thesis using r by (simp add: parse_descriptor_list_def emap_inverse comp_def)
qed

definition cursor_params :: "string option \<Rightarrow> json_object" where
  "cursor_params cursor = (case cursor of None \<Rightarrow> [] | Some c \<Rightarrow> if c = [] then [] else [(''cursor'', JStr c)])"

lemma page_cursor_offset: "at_offset i c \<Longrightarrow> py_int (page_cursor (cursor_params c)) = Inr i"
proof -
  have "py_int ''0'' = Inr 0" by code_simp
  then show "at_offset i c \<Longrightarrow> ?thesis" by (auto simp: at_offset_def page_cursor_def cursor_params_def)
qed

text \<open>Only the count of drawn identifiers moves.\<close>

definition listing :: "'w inmemory mcp_env \<Rightarrow> field_renderer \<Rightarrow> string \<Rightarrow> 'w mcp_server_connection \<Rightarrow> connected_session
    \<Rightarrow> 'w inmemory mcp_client \<Rightarrow> 'w inmemory mcp_client \<Rightarrow> bool" where
  "listing env render sid srv cs c s \<longleftrightarrow> serving env render sid srv cs c \<and> (\<exists>n. s = c\<lparr>mcl_uuids := n\<rparr>)"

lemma list_page_served:
  assumes "listing env render sid srv cs c s" "at_offset i cursor" "\<And>x. from_dict (to_dict x) = Inr x"
    and "key \<noteq> ''nextCursor''" "\<not> py_startswith method ''notifications/''"
    and "\<And>h t. im_request render srv h method (cursor_params cursor) t =
      lift (ebind (paginate_items (map to_dict xs) (page_cursor (cursor_params cursor)) step key) (\<lambda>r. Inr (response_of r))) t"
  shows "\<exists>s'. listing env render sid srv cs c s' \<and> list_page env method key from_dict sid cursor s = (Inr (page_answer xs step i), s')"
proof -
  from assms(1) obtain n where s: "s = c\<lparr>mcl_uuids := n\<rparr>" by (auto simp: listing_def)
  have served: "serving env render sid srv cs s" using assms(1) s by (simp add: listing_def serving_def reaches_def)
  let ?result = "[(key, JList (map JDict (map to_dict (py_slice i (i + step) xs)))),
     (''nextCursor'', if i + step < int (length xs) then JStr (int_str (i + step)) else JNull)]"
  have "im_request render srv (handle_at (cns_transport cs) (mcl_world s)) method (cursor_params cursor) (mw_transport (mcl_world s))
    = (Inr (response_of ?result), mw_transport (mcl_world s))"
    by (simp add: assms(6) paginate_items_def page_cursor_offset [OF assms(2)] lift_def py_slice_map Let_def)
  from request_served [OF served assms(5) this]
  have "mcp_request env sid method (cursor_params cursor) s = (Inr ?result, s\<lparr>mcl_uuids := Suc n\<rparr>)" by (simp add: s)
  then have "list_page env method key from_dict sid cursor s = (Inr (page_answer xs step i), s\<lparr>mcl_uuids := Suc n\<rparr>)"
    using assms(4) parse_descriptor_list_map [of from_dict to_dict, OF assms(3)]
    by (simp add: list_page_def flip: cursor_params_def)
       (simp add: bind_def lift_def ret_def page_answer_def field_opt_str_def)
  moreover have "listing env render sid srv cs c (s\<lparr>mcl_uuids := Suc n\<rparr>)" using assms(1) s by (auto simp: listing_def)
  ultimately show ?thesis by blast
qed

lemma notifications_prefix [simp]:
  "\<not> py_startswith ''tools/list'' ''notifications/''" "\<not> py_startswith ''prompts/list'' ''notifications/''"
  "\<not> py_startswith ''resources/list'' ''notifications/''" "\<not> py_startswith ''tools/call'' ''notifications/''"
  by (simp_all add: py_startswith_def)

interpretation tools: paged "list_tools_page env sid" "listing env render sid srv cs c"
  "map fst (dict_values (mcn_tools srv))" "effective_page (mcn_tool_page srv) (length (mcn_tools srv))"
  for env render sid srv cs c
proof
  fix s i cursor
  assume "listing env render sid srv cs c s" "at_offset i cursor"
  then show "\<exists>s'. listing env render sid srv cs c s' \<and> list_tools_page env sid cursor s
    = (Inr (page_answer (map fst (dict_values (mcn_tools srv))) (effective_page (mcn_tool_page srv) (length (mcn_tools srv))) i), s')"
    unfolding list_tools_page_def
    by (rule list_page_served [where to_dict = mcp_tool_to_dict])
       (simp_all add: im_request_def paginate_tools_def comp_def)
qed

interpretation prompts: paged "list_prompts_page env sid" "listing env render sid srv cs c"
  "dict_values (mcn_prompts srv)" "effective_page (mcn_prompt_page srv) (length (mcn_prompts srv))"
  for env render sid srv cs c
proof
  fix s i cursor
  assume "listing env render sid srv cs c s" "at_offset i cursor"
  then show "\<exists>s'. listing env render sid srv cs c s' \<and> list_prompts_page env sid cursor s
    = (Inr (page_answer (dict_values (mcn_prompts srv)) (effective_page (mcn_prompt_page srv) (length (mcn_prompts srv))) i), s')"
    unfolding list_prompts_page_def
    by (rule list_page_served [where to_dict = mcp_prompt_to_dict]) (simp_all add: im_request_def paginate_prompts_def)
qed

interpretation resources: paged "list_resources_page env sid" "listing env render sid srv cs c"
  "dict_values (mcn_resources srv)" "effective_page (mcn_resource_page srv) (length (mcn_resources srv))"
  for env render sid srv cs c
proof
  fix s i cursor
  assume "listing env render sid srv cs c s" "at_offset i cursor"
  then show "\<exists>s'. listing env render sid srv cs c s' \<and> list_resources_page env sid cursor s
    = (Inr (page_answer (dict_values (mcn_resources srv)) (effective_page (mcn_resource_page srv) (length (mcn_resources srv))) i), s')"
    unfolding list_resources_page_def
    by (rule list_page_served [where to_dict = mcp_resource_to_dict]) (simp_all add: im_request_def paginate_resources_def)
qed

lemma serving_listing: "serving env render sid srv cs c \<Longrightarrow> listing env render sid srv cs c c"
  unfolding listing_def by (metis mcp_client.surjective mcp_client.update_convs(3))

lemma effective_page_size:
  "0 \<le> page \<Longrightarrow> 0 \<le> effective_page page (length xs) \<and> (0 < effective_page page (length xs) \<or> xs = [])"
  by (simp add: effective_page_def)

lemma effective_page_negative: "page < 0 \<Longrightarrow> effective_page page n < 0"
  by (simp add: effective_page_def)

text \<open>
  The prompts and resources of a connected server are listed whole and in order, page by page.
\<close>

lemma list_prompts_complete:
  assumes "serving env render sid srv cs c" "0 \<le> mcn_prompt_page srv"
  shows "\<exists>n. mcp_list_prompts env sid c = Some (Inr (dict_values (mcn_prompts srv)), c\<lparr>mcl_uuids := n\<rparr>)"
  using prompts.collects [OF _ _ serving_listing [OF assms(1)]] effective_page_size [OF assms(2), of "mcn_prompts srv"]
  by (auto simp: mcp_list_prompts_def listing_def)

lemma list_resources_complete:
  assumes "serving env render sid srv cs c" "0 \<le> mcn_resource_page srv"
  shows "\<exists>n. mcp_list_resources env sid c = Some (Inr (dict_values (mcn_resources srv)), c\<lparr>mcl_uuids := n\<rparr>)"
  using resources.collects [OF _ _ serving_listing [OF assms(1)]] effective_page_size [OF assms(2), of "mcn_resources srv"]
  by (auto simp: mcp_list_resources_def listing_def)

subsection \<open>Connecting\<close>

text \<open>The state after \<open>connect\<close>: the connection served, a fresh handle, an initialized session.\<close>

definition connected_client :: "'w inmemory mcp_env \<Rightarrow> 'w mcp_server_connection \<Rightarrow> 'w inmemory mcp_client \<Rightarrow> bool \<Rightarrow> nat \<Rightarrow> 'w inmemory mcp_client" where
  "connected_client env srv c initialized drawn = (let d = mcn_descriptor srv; sid = msd_id d; r = length (mw_handles (mcl_world c)) in
     c\<lparr>mcl_world := \<lparr>mw_handles = mw_handles (mcl_world c) @ [new_transport_handle ''inmemory'' sid],
         mw_transport = (mw_transport (mcl_world c))\<lparr>
           im_servers := dict_set sid srv (im_servers (mw_transport (mcl_world c))),
           im_handles := dict_set sid r (im_handles (mw_transport (mcl_world c)))\<rparr>\<rparr>,
       mcl_sessions := dict_set sid \<lparr>cns_descriptor = d,
         cns_handle = \<lparr>msh_server = sid, msh_version = protocol_version,
           msh_negotiated = mcp_server_capabilities_to_dict (mcn_server_capabilities srv), msh_transport = ''inmemory'',
           msh_session = Some (mce_uuid env (Suc (mcl_uuids c))), msh_auth = None, msh_initialized = initialized\<rparr>,
         cns_transport = r, cns_auth = None\<rparr> (mcl_sessions c),
       mcl_uuids := mcl_uuids c + drawn\<rparr>)"

lemma on_mcp_Inr: "m (mcl_world c) = (Inr x, w) \<Longrightarrow> on_mcp m c = (Inr x, c\<lparr>mcl_world := w\<rparr>)"
  by (simp add: on_mcp_def)

lemma im_connect_eq:
  "im_connect srv w = (Inr (length (mw_handles w)), w\<lparr>mw_handles := mw_handles w @ [new_transport_handle ''inmemory'' (msd_id (mcn_descriptor srv))],
     mw_transport := (mw_transport w)\<lparr>im_servers := dict_set (msd_id (mcn_descriptor srv)) srv (im_servers (mw_transport w)),
       im_handles := dict_set (msd_id (mcn_descriptor srv)) (length (mw_handles w)) (im_handles (mw_transport w))\<rparr>\<rparr>)"
  by (simp add: im_connect_def Let_def on_transport_def new_handle_def eff_defs)

lemma mcp_initialize_served:
  assumes "mce_transport env = inmemory_transport render" "mcn_descriptor srv = d" "msd_transport d = ''inmemory''"
    and "mcn_version srv = protocol_version"
    and "dict_get (im_servers (mw_transport (mcl_world c))) (msd_id d) = Some srv"
    and "dict_get (im_handles (mw_transport (mcl_world c))) (msd_id d) = Some r"
    and "mhd_server (handle_at r (mcl_world c)) = msd_id d"
  shows "mcp_initialize env d config caps c = (let h = \<lparr>msh_server = msd_id d, msh_version = protocol_version,
       msh_negotiated = mcp_server_capabilities_to_dict (mcn_server_capabilities srv), msh_transport = ''inmemory'',
       msh_session = Some (mce_uuid env (Suc (mcl_uuids c))), msh_auth = None, msh_initialized = False\<rparr>
     in (Inr h, c\<lparr>mcl_sessions := dict_set (msd_id d) \<lparr>cns_descriptor = d, cns_handle = h, cns_transport = r, cns_auth = None\<rparr> (mcl_sessions c),
          mcl_uuids := Suc (Suc (mcl_uuids c))\<rparr>))"
proof -
  let ?request = "\<lambda>i. [(''jsonrpc'', JStr ''2.0''), (''method'', JStr ''initialize''),
     (''params'', JDict [(''protocolVersion'', JStr protocol_version), (''capabilities'', JDict (mcp_client_capabilities_to_dict caps)),
       (''clientInfo'', JDict (mce_info env))]), (''_protocol_version'', JStr protocol_version), (''id'', JStr i)]"
  have o': "open_session env d config c = (Inr (r, None), c)"
    using assms(6) by (simp add: open_session_def assms(1,3) inmemory_transport_def im_open_def on_mcp_def on_transport_def
        lookup_or_raise_def Let_def eff_defs)
  have m: "rpc_message env ''initialize'' params None v c' = (Inr ([(''jsonrpc'', JStr ''2.0''), (''method'', JStr ''initialize''),
     (''params'', JDict params), (''_protocol_version'', JStr v), (''id'', JStr (mce_uuid env (mcl_uuids c')))]), c'\<lparr>mcl_uuids := Suc (mcl_uuids c')\<rparr>)"
    for params v c'
    by (simp add: rpc_message_def draw_uuid_def py_startswith_def Let_def bind_def ret_def)
  have sent: "on_mcp (mtr_send (mce_transport env) r (?request i) False) c' = (Inr (im_initialize srv), c')"
    if "mcl_world c' = mcl_world c" for i c'
    using assms(5,7) that by (simp add: assms(1) inmemory_transport_def im_send_def im_request_def on_mcp_def on_transport_def
        lookup_or_raise_def eff_defs)
  show ?thesis
    by (simp add: mcp_initialize_def bind_Inr [where m = "open_session env d config", OF o'] bind_Inr [OF m] bind_Inr [OF sent]
        im_initialize_def assms(3,4) dict_get_default_def draw_uuid_def set_session_def Let_def)
       (simp add: bind_def ret_def draw_uuid_def modify_def)
qed

lemma announce_served:
  assumes "mce_transport env = inmemory_transport render" "dict_get (mcl_sessions c) (msh_server h) = Some cs"
    and "mhd_server (handle_at (cns_transport cs) (mcl_world c)) = sid"
    and "dict_get (im_servers (mw_transport (mcl_world c))) sid = Some srv"
  shows "announce env h cs c = (Inr (), c\<lparr>mcl_sessions :=
    dict_set (msh_server h) (cs\<lparr>cns_handle := (cns_handle cs)\<lparr>msh_initialized := True\<rparr>\<rparr>) (mcl_sessions c)\<rparr>)"
proof -
  have sent: "on_mcp (mtr_send (mce_transport env) (cns_transport cs) [(''jsonrpc'', JStr ''2.0''),
     (''method'', JStr ''notifications/initialized''), (''params'', JDict []), (''_protocol_version'', JStr (msh_version h))] False) c
    = (Inr (response_of []), c)"
    using assms(3,4) by (simp add: assms(1) inmemory_transport_def im_send_def im_request_def on_mcp_def on_transport_def
        lookup_or_raise_def eff_defs)
  show ?thesis
    by (simp add: announce_def rpc_message_def py_startswith_def Let_def
        bind_Inr [where m = "on_mcp (mtr_send (mce_transport env) (cns_transport cs) _ False)", OF sent] set_initialized_def modify_def assms(2))
qed

lemma dict_set_twice [simp]: "dict_set k v (dict_set k w d) = dict_set k v d"
  by (induction d) auto

lemma inmemory_connect_eq:
  assumes "mce_transport env = inmemory_transport render" "msd_transport (mcn_descriptor srv) = ''inmemory''"
    and "mcn_version srv = protocol_version" "\<not> mcc_sampling (mcn_client_capabilities srv)"
  shows "inmemory_connect env srv c = (Inr (mcn_descriptor srv), connected_client env srv c True 2)"
proof -
  let ?d = "mcn_descriptor srv" and ?caps = "mcn_client_capabilities srv"
  let ?c1 = "c\<lparr>mcl_world := (mcl_world (connected_client env srv c False 2))\<rparr>"
  let ?cs = "\<lambda>i. \<lparr>cns_descriptor = ?d, cns_handle = \<lparr>msh_server = msd_id ?d, msh_version = protocol_version,
       msh_negotiated = mcp_server_capabilities_to_dict (mcn_server_capabilities srv), msh_transport = ''inmemory'',
       msh_session = Some (mce_uuid env (Suc (mcl_uuids c))), msh_auth = None, msh_initialized = i\<rparr>,
     cns_transport = length (mw_handles (mcl_world c)), cns_auth = None\<rparr>"
  have connect: "on_mcp (im_connect srv) c = (Inr (length (mw_handles (mcl_world c))), ?c1)"
    by (simp add: on_mcp_def im_connect_eq connected_client_def Let_def)
  have init: "mcp_initialize env ?d None ?caps ?c1 = (Inr (cns_handle (?cs False)), connected_client env srv c False 2)"
    by (subst mcp_initialize_served [OF assms(1) refl assms(2,3)])
       (simp_all add: connected_client_def Let_def handle_at_def new_transport_handle_def)
  have sess: "dict_get (mcl_sessions (connected_client env srv c False 2)) (msd_id ?d) = Some (?cs False)"
    by (simp add: connected_client_def Let_def)
  have "announce env (cns_handle (?cs False)) (?cs False) (connected_client env srv c False 2)
    = (Inr (), connected_client env srv c True 2)"
    by (subst announce_served [OF assms(1), where sid = "msd_id ?d" and srv = srv])
       (simp_all add: sess, simp_all add: connected_client_def Let_def handle_at_def new_transport_handle_def)
  then have sent: "send_initialized env (cns_handle (?cs False)) (connected_client env srv c False 2)
    = (Inr (), connected_client env srv c True 2)"
    by (simp add: send_initialized_def bind_Inr [where m = "mcp_connected env (msd_id ?d)", OF connected_served [OF sess]])
  have srv: "srv\<lparr>mcn_client_capabilities := ?caps\<rparr> = srv" by simp
  show ?thesis
    using assms(4)
    by (simp add: inmemory_connect_def announced_capabilities_def Let_def srv bind_Inr [where m = "on_mcp (im_connect srv)", OF connect]
        bind_Inr [where m = "mcp_initialize env ?d None ?caps", OF init]
        bind_Inr [where m = "send_initialized env _", OF sent [simplified]]) (simp add: ret_def)
qed

lemma inmemory_connect_serves:
  assumes "mce_transport env = inmemory_transport render" "msd_transport (mcn_descriptor srv) = ''inmemory''"
    and "mcn_version srv = protocol_version" "\<not> mcc_sampling (mcn_client_capabilities srv)"
  shows "\<exists>cs. serving env render (msd_id (mcn_descriptor srv)) srv cs (snd (inmemory_connect env srv c)) \<and> cns_auth cs = None
     \<and> mhd_metadata (handle_at (cns_transport cs) (mcl_world (snd (inmemory_connect env srv c)))) = []"
  unfolding inmemory_connect_eq [OF assms]
  by (simp add: serving_def reaches_def assms(1) connected_client_def Let_def handle_at_def new_transport_handle_def)

subsection \<open>A small server\<close>

definition demo_handler :: "string mcp_handler" where
  "demo_handler args w = (Inr \<lparr>tr_name = ''echo'', tr_success = True, tr_content = [JDict args], tr_structured = None,
     tr_metadata = None, tr_persisted = None, tr_truncated = None\<rparr>, w @ ''!'')"

definition demo_tool :: "string \<Rightarrow> mcp_tool_descriptor" where
  "demo_tool n = \<lparr>mtd_name = n, mtd_description = ''a tool'', mtd_schema = [], mtd_metadata = []\<rparr>"

definition demo_server :: "int \<Rightarrow> string list \<Rightarrow> string mcp_server_connection" where
  "demo_server page scopes = \<lparr>mcn_descriptor = \<lparr>msd_id = ''srv'', msd_label = ''Server'', msd_endpoint = None,
       msd_transport = ''inmemory'', msd_capabilities = []\<rparr>,
     mcn_tools = [(''echo'', demo_tool ''echo'', demo_handler), (''sum'', demo_tool ''sum'', demo_handler),
       (''time'', demo_tool ''time'', demo_handler)],
     mcn_prompts = [], mcn_resources = [], mcn_client_capabilities = mcp_client_capabilities_default,
     mcn_server_capabilities = mcp_server_capabilities_default, mcn_version = ''2025-11-25'', mcn_tool_page = page,
     mcn_prompt_page = 0, mcn_resource_page = 0, mcn_roots = [], mcn_require_sampling_tools = True,
     mcn_extra_scopes = [(''echo'', scopes)], mcn_subscriptions = [], mcn_notifications = []\<rparr>"

definition demo_render :: field_renderer where
  "demo_render args name conversion spec = Inl (ValueError ''format'')"

definition demo_auth :: "string inmemory mcp_auth" where
  "demo_auth = \<lparr>mau_timeout = ''5.0'', mau_path = ''/.well-known/oauth-authorization-server'', mau_override = Some ''tok'',
     mau_scope_tokens = [], mau_urlopen = (\<lambda>_ t. (UrlError ''offline'', t)), mau_loads = (\<lambda>_. Inr JNull)\<rparr>"

definition demo_mcp_env :: "bool \<Rightarrow> string inmemory mcp_env" where
  "demo_mcp_env authorized = (inmemory_env demo_render nat_str)\<lparr>mce_auth := (if authorized then Some demo_auth else None)\<rparr>"

lemma demo_mcp_env_auth [simp]: "mce_auth (demo_mcp_env authorized) = (if authorized then Some demo_auth else None)"
  by (simp add: demo_mcp_env_def)

definition demo_connected :: "bool \<Rightarrow> int \<Rightarrow> string list \<Rightarrow> string inmemory mcp_client" where
  "demo_connected authorized page scopes =
     snd (inmemory_connect (demo_mcp_env authorized) (demo_server page scopes) (new_mcp_client (inmemory_new [])))"

definition demo_mcp_session :: connected_session where
  "demo_mcp_session = \<lparr>cns_descriptor = mcn_descriptor (demo_server 0 []),
     cns_handle = \<lparr>msh_server = ''srv'', msh_version = ''2025-11-25'',
       msh_negotiated = mcp_server_capabilities_to_dict mcp_server_capabilities_default, msh_transport = ''inmemory'',
       msh_session = Some ''1'', msh_auth = None, msh_initialized = True\<rparr>,
     cns_transport = 0, cns_auth = None\<rparr>"

lemma demo_serving:
  "\<exists>cs. serving (demo_mcp_env authorized) demo_render ''srv'' (demo_server page scopes) cs (demo_connected authorized page scopes)
     \<and> cns_auth cs = None \<and> mhd_metadata (handle_at (cns_transport cs) (mcl_world (demo_connected authorized page scopes))) = []"
  using inmemory_connect_serves [of "demo_mcp_env authorized" demo_render "demo_server page scopes" "new_mcp_client (inmemory_new [])"]
  by (simp add: demo_mcp_env_def inmemory_env_def demo_server_def demo_connected_def protocol_version_def mcp_client_capabilities_default_def)

subsection \<open>Scopes\<close>

lemma py_strip_ends:
  assumes "s \<noteq> []" "\<not> is_space (hd s)" "\<not> is_space (last s)"
  shows "py_strip s = s"
proof -
  have "dropWhile is_space s = s" using assms by (cases s) simp_all
  moreover have "dropWhile is_space (rev s) = rev s" using assms by (cases s rule: rev_cases) simp_all
  ultimately show ?thesis by (simp add: py_strip_def)
qed

text \<open>A scope that survives the challenge's syntax.\<close>

definition clean_scope :: "string \<Rightarrow> bool" where
  "clean_scope s \<longleftrightarrow> s \<noteq> [] \<and> list_all (\<lambda>c. \<not> is_space c \<and> c \<noteq> dquote \<and> c \<noteq> CHR '','') s"

lemma py_split_word: "s \<noteq> [] \<Longrightarrow> list_all (\<lambda>c. \<not> is_space c) s \<Longrightarrow> py_split s = [s]"
proof -
  assume s: "s \<noteq> []" "list_all (\<lambda>c. \<not> is_space c) s"
  then obtain c r where r: "s = c # r" by (cases s) auto
  then have w: "takeWhile (\<lambda>x. \<not> is_space x) r = r" "dropWhile (\<lambda>x. \<not> is_space x) r = []" "\<not> is_space c"
    using s(2) by (simp_all add: list_all_iff takeWhile_eq_all_conv dropWhile_eq_Nil_conv)
  show ?thesis by (simp add: r py_split.simps [of "c # r"] py_split.simps [of "[]"] w)
qed

lemma py_split_word_append:
  assumes "s \<noteq> []" "list_all (\<lambda>c. \<not> is_space c) s" "is_space d"
  shows "py_split (s @ d # u) = s # py_split u"
proof -
  obtain c r where s: "s = c # r" using assms(1) by (cases s) auto
  have "takeWhile (\<lambda>x. \<not> is_space x) (r @ d # u) = r" "dropWhile (\<lambda>x. \<not> is_space x) (r @ d # u) = d # u"
    using assms(2,3) s by (induction r arbitrary: c s) auto
  moreover have "py_split (d # u) = py_split u"
    using assms(3) by (subst (1 2) py_split.simps) simp
  ultimately show ?thesis using assms(2) by (simp add: s py_split.simps [of "c # r @ d # u"])
qed

lemma clean_scope_word: "clean_scope s \<Longrightarrow> s \<noteq> [] \<and> list_all (\<lambda>c. \<not> is_space c) s"
  by (auto simp: clean_scope_def list_all_iff)

lemma space_is_space: "is_space (CHR '' '')"
  by code_simp

lemma py_split_join: "list_all clean_scope ss \<Longrightarrow> py_split (py_join '' '' ss) = ss"
proof (induction "'' '' :: string" ss rule: py_join.induct)
  case 1
  show ?case by (simp add: py_split.simps [of "[]"])
next
  case (2 x)
  then show ?case using clean_scope_word [of x] by (simp add: py_split_word)
next
  case (3 x y r)
  then show ?case using clean_scope_word [of x] py_split_word_append [OF _ _ space_is_space, of x] by simp
qed

lemma join_scopes_chars: "list_all clean_scope ss \<Longrightarrow> c \<in> set (py_join '' '' ss) \<Longrightarrow> c \<noteq> dquote \<and> c \<noteq> CHR '',''"
proof (induction "'' '' :: string" ss rule: py_join.induct)
  case (3 x y r)
  have "CHR '' '' \<noteq> dquote" by code_simp
  then show ?case using 3 by (auto simp: clean_scope_def list_all_iff)
qed (auto simp: clean_scope_def list_all_iff)

lemma strip_char_quoted: "dquote \<notin> set s \<Longrightarrow> strip_char dquote (dquote # s @ [dquote]) = s"
proof -
  assume q: "dquote \<notin> set s"
  have "dropWhile (\<lambda>x. x = dquote) (s @ [dquote]) = (if s = [] then [] else s @ [dquote])"
    using q by (cases s) auto
  moreover have "dropWhile (\<lambda>x. x = dquote) (rev s) = rev s" using q by (cases "rev s") (auto simp: rev_eq_Cons_iff)
  ultimately show ?thesis by (simp add: strip_char_def rstrip_char_def)
qed

lemma scope_challenge_parsed:
  assumes "list_all clean_scope ss"
  shows "parse_www_authenticate (scope_challenge ss) = [(''scheme'', JStr ''bearer''), (''scope'', JStr (py_join '' '' ss))]"
proof -
  let ?v = "dquote # py_join '' '' ss @ [dquote]"
  have d: "\<not> is_space dquote" "dquote \<noteq> CHR '',''" "\<not> is_space (CHR ''s'')" by code_simp+
  have c: "scope_challenge ss = ''Bearer'' @ CHR '' '' # ''scope'' @ CHR ''='' # ?v" by (simp add: scope_challenge_def)
  have p: "partition_at (CHR '' '') (scope_challenge ss) = (''Bearer'', ''scope'' @ CHR ''='' # ?v)"
    unfolding c by (rule partition_at_sep) simp
  have "CHR '','' \<notin> set (''scope'' @ CHR ''='' # ?v)" using join_scopes_chars [OF assms] d(2) by auto
  then have "split_on (CHR '','') (''scope'' @ CHR ''='' # ?v) = [''scope'' @ CHR ''='' # ?v]" by (rule split_on_one)
  moreover have "py_strip (''scope'' @ CHR ''='' # ?v) = ''scope'' @ CHR ''='' # ?v" by (rule py_strip_ends) (simp_all add: d)
  moreover have "partition_at (CHR ''='') (''scope'' @ CHR ''='' # ?v) = (''scope'', ?v)" by (rule partition_at_sep) simp
  moreover have "py_strip ?v = ?v" by (rule py_strip_ends) (simp_all add: d)
  moreover have "strip_char dquote ?v = py_join '' '' ss" using join_scopes_chars [OF assms] by (intro strip_char_quoted) blast
  moreover have "py_lower ''scope'' = ''scope''" "py_lower ''Bearer'' = ''bearer''" by code_simp+
  moreover have "scope_challenge ss \<noteq> []" by (simp add: scope_challenge_def)
  ultimately show ?thesis by (simp add: parse_www_authenticate_def p del: append_Cons)
qed

lemma set_unique_in_order [simp]: "set (unique_in_order xs) = set xs"
  by (simp add: unique_in_order_def)

subsection \<open>Calls over the in-memory transport\<close>

abbreviation call_params :: "string \<Rightarrow> json_object \<Rightarrow> json_object" where
  "call_params name input \<equiv> [(''name'', JStr name), (''arguments'', JDict input)]"

abbreviation world_of :: "'w inmemory mcp_client \<Rightarrow> 'w" where
  "world_of c \<equiv> im_world (mw_transport (mcl_world c))"

definition after_call :: "'w inmemory mcp_client \<Rightarrow> 'w \<Rightarrow> 'w inmemory mcp_client" where
  "after_call c w = c\<lparr>mcl_uuids := Suc (mcl_uuids c),
     mcl_world := (mcl_world c)\<lparr>mw_transport := (mw_transport (mcl_world c))\<lparr>im_world := w\<rparr>\<rparr>\<rparr>"

lemma after_call_simps [simp]:
  "world_of (after_call c w) = w" "mw_handles (mcl_world (after_call c w)) = mw_handles (mcl_world c)"
  "handle_at r (mcl_world (after_call c w)) = handle_at r (mcl_world c)" "mcl_sessions (after_call c w) = mcl_sessions c"
  "reaches env render sid srv r (after_call c w) = reaches env render sid srv r c"
  by (simp_all add: after_call_def handle_at_def reaches_def)

text \<open>What one request to call a tool does: refused without its scopes, else the handler's outcome.\<close>

lemma tools_call_sent:
  assumes "reaches env render sid srv (cns_transport cs) c"
  shows "send_request env cs ''tools/call'' (call_params name input) c =
    (if missing_scopes srv (handle_at (cns_transport cs) (mcl_world c)) name \<noteq> []
     then (Inr (unauthorized (missing_scopes srv (handle_at (cns_transport cs) (mcl_world c)) name)), after_call c (world_of c))
     else case dict_get (mcn_tools srv) name of
       None \<Rightarrow> (Inl (KeyError name), after_call c (world_of c))
     | Some entry \<Rightarrow> (case snd entry input (world_of c) of
         (Inl e, w) \<Rightarrow> (Inl e, after_call c w)
       | (Inr result, w) \<Rightarrow> (Inr (response_of (tool_result_to_dict result)), after_call c w)))"
  unfolding send_request_served [OF assms notifications_prefix(4)]
  by (simp add: im_request_def on_world_def im_tools_call_def field_str_def field_req_def lookup_or_raise_def
      dict_get_default_def lift_def bind_def ret_def after_call_def split: option.split prod.split sum.split)

definition upgraded_client :: "string \<Rightarrow> connected_session \<Rightarrow> mcp_auth_state \<Rightarrow> 'w inmemory mcp_client \<Rightarrow> 'w inmemory mcp_client" where
  "upgraded_client sid cs a c = c\<lparr>
     mcl_sessions := dict_set sid (cs\<lparr>cns_auth := Some a, cns_handle := (cns_handle cs)\<lparr>msh_auth := Some (mcp_auth_state_to_dict a)\<rparr>\<rparr>) (mcl_sessions c),
     mcl_world := (mcl_world c)\<lparr>mw_handles := (mw_handles (mcl_world c))[cns_transport cs :=
       (handle_at (cns_transport cs) (mcl_world c))\<lparr>mhd_metadata := dict_set ''scopes'' (JList (map JStr (mas_scopes a)))
         (dict_set ''access_token'' (JStr (case mas_token a of None \<Rightarrow> [] | Some t \<Rightarrow> t))
           (mhd_metadata (handle_at (cns_transport cs) (mcl_world c))))\<rparr>]\<rparr>\<rparr>"

lemma upgraded_client_simps:
  assumes "reaches env render sid srv (cns_transport cs) c"
  shows "reaches env render sid srv (cns_transport cs) (upgraded_client sid cs a c)"
    "world_of (upgraded_client sid cs a c) = world_of c"
    "granted_scopes (handle_at (cns_transport cs) (mcl_world (upgraded_client sid cs a c))) = mas_scopes a"
  using assms by (simp_all add: reaches_def upgraded_client_def handle_at_def granted_scopes_def jget_def comp_def)

text \<open>Answering a challenge asks nobody: the metadata it acquires a token with have no token endpoint.\<close>

lemma handle_www_authenticate_local: "snd (handle_www_authenticate au challenge a t) = t"
  by (simp add: handle_www_authenticate_def acquire_token_def Let_def ret_def throw_def
      split: json.split option.split)

lemma upgrade_session_inmemory:
  assumes "reaches env render sid srv (cns_transport cs) c"
  shows "upgrade_session au sid cs rsp c =
    (case fst (handle_www_authenticate au (dict_get_default (mrs_headers rsp) ''www-authenticate'' [])
        (case cns_auth cs of None \<Rightarrow> no_auth_state | Some a \<Rightarrow> a) (mw_transport (mcl_world c))) of
       Inl e \<Rightarrow> (Inl e, c) | Inr a \<Rightarrow> (Inr (), upgraded_client sid cs a c))"
proof -
  let ?run = "handle_www_authenticate au (dict_get_default (mrs_headers rsp) ''www-authenticate'' [])
        (case cns_auth cs of None \<Rightarrow> no_auth_state | Some a \<Rightarrow> a) (mw_transport (mcl_world c))"
  obtain a where a: "?run = (a, mw_transport (mcl_world c))" by (metis handle_www_authenticate_local prod.collapse)
  have run: "on_mcp (on_transport (handle_www_authenticate au (dict_get_default (mrs_headers rsp) ''www-authenticate'' [])
        (case cns_auth cs of None \<Rightarrow> no_auth_state | Some a \<Rightarrow> a))) c = (a, c)"
    by (simp add: on_mcp_def on_transport_def a)
  show ?thesis
  proof (cases a)
    case (Inl e)
    then show ?thesis unfolding a by (simp add: upgrade_session_def bind_def run)
  next
    case (Inr b)
    have "upgrade_session au sid cs rsp c = (Inr (), upgraded_client sid cs b c)"
      unfolding upgrade_session_def bind_def [of "on_mcp (on_transport _)"] run Inr
      using assms
      by (simp add: bind_def set_session_def set_handle_metadata_def on_mcp_def modify_def upgraded_client_def
          handle_at_def reaches_def)
    then show ?thesis unfolding a by (simp add: Inr)
  qed
qed

text \<open>What \<open>call_tool\<close> makes of a result.\<close>

definition tool_answer :: "json_object \<Rightarrow> ('s, tool_result) eff" where
  "tool_answer result = (if jget result ''error'' \<noteq> JNull then throw (McpRemoteToolError (py_str (jget result ''error'')))
     else lift (tool_result_from_dict result))"

lemma tool_answer_result [simp]: "tool_answer (tool_result_to_dict r) s = (Inr r, s)"
proof -
  have "jget (tool_result_to_dict r) ''error'' = JNull" by (simp add: tool_result_to_dict_def)
  then show ?thesis by (simp add: tool_answer_def lift_def)
qed

lemma tool_answer_refused [simp]: "tool_answer (mrs_result (unauthorized ss)) s = (Inl (McpRemoteToolError ''missing_scope''), s)"
  by (simp add: tool_answer_def unauthorized_def throw_def)

lemma unauthorized_status [simp]: "mrs_status (unauthorized ss) = 401"
  "dict_get_default (mrs_headers (unauthorized ss)) ''www-authenticate'' x = scope_challenge ss"
  by (simp_all add: unauthorized_def dict_get_default_def)

lemma call_tool_unfold:
  assumes "serving env render sid srv cs c"
  shows "mcp_call_tool env sid name input c =
    (case send_request env cs ''tools/call'' (call_params name input) c of
       (Inl e, c1) \<Rightarrow> (Inl e, c1)
     | (Inr rsp, c1) \<Rightarrow>
         if mrs_status rsp \<noteq> 401 then tool_answer (mrs_result rsp) c1
         else case mce_auth env of
             None \<Rightarrow> (Inl (McpAuthorizationError ''MCP server requires authorization''), c1)
           | Some au \<Rightarrow> (case upgrade_session au sid cs rsp c1 of
               (Inl e, c2) \<Rightarrow> (Inl e, c2)
             | (Inr _, c2) \<Rightarrow> (case send_request env cs ''tools/call'' (call_params name input) c2 of
                 (Inl e, c3) \<Rightarrow> (Inl e, c3) | (Inr retry, c3) \<Rightarrow> tool_answer (mrs_result retry) c3)))"
proof -
  have "dict_get (mcl_sessions c) sid = Some cs" using assms by (simp add: serving_def)
  then show ?thesis
    unfolding mcp_call_tool_def mcp_request_def
    by (simp add: bind_assoc bind_Inr [where m = "mcp_connected env sid", OF connected_served])
       (simp add: bind_def ret_def throw_def tool_answer_def split: prod.split sum.split option.split)
qed

lemma tools_call_frame:
  assumes "reaches env render sid srv (cns_transport cs) c"
    and "send_request env cs ''tools/call'' (call_params name input) c = (r, c')"
  shows "handle_at h (mcl_world c') = handle_at h (mcl_world c)"
    and "missing_scopes srv (handle_at (cns_transport cs) (mcl_world c)) name \<noteq> [] \<Longrightarrow>
      world_of c' = world_of c \<and> r = Inr (unauthorized (missing_scopes srv (handle_at (cns_transport cs) (mcl_world c)) name))"
    and "missing_scopes srv (handle_at (cns_transport cs) (mcl_world c)) name = [] \<Longrightarrow> r = Inr rsp \<Longrightarrow> mrs_status rsp = 200"
    and "reaches env render sid srv (cns_transport cs) c'"
  using assms(2) unfolding tools_call_sent [OF assms(1)]
  by (auto simp: assms(1) split: if_splits option.splits prod.splits sum.splits)

lemma tool_answer_state [simp]: "snd (tool_answer result s) = s"
  by (simp add: tool_answer_def throw_def lift_def)

text \<open>
  C23.  A tool runs only with its scopes: when, after \<open>call_tool\<close>, the transport handle still does not
  grant every scope the server demands for the tool, the call has raised and the server's world is
  as it was before it.
\<close>

theorem tool_needs_scopes:
  assumes "serving env render sid srv cs c"
    and "missing_scopes srv (handle_at (cns_transport cs) (mcl_world (snd (mcp_call_tool env sid name input c)))) name \<noteq> []"
  shows "isl (fst (mcp_call_tool env sid name input c)) \<and> world_of (snd (mcp_call_tool env sid name input c)) = world_of c"
proof -
  have r: "reaches env render sid srv (cns_transport cs) c" using assms(1) by (simp add: serving_def)
  obtain a c1 where s1: "send_request env cs ''tools/call'' (call_params name input) c = (a, c1)" by fastforce
  note f1 = tools_call_frame [OF r s1]
  have m: "missing_scopes srv (handle_at (cns_transport cs) (mcl_world c)) name \<noteq> []"
  proof
    assume "missing_scopes srv (handle_at (cns_transport cs) (mcl_world c)) name = []"
    then show False
      using assms(2) f1(1,3) by (cases a) (simp_all add: call_tool_unfold [OF assms(1)] s1)
  qed
  then have a: "a = Inr (unauthorized (missing_scopes srv (handle_at (cns_transport cs) (mcl_world c)) name))" "world_of c1 = world_of c"
    using f1(2) by simp_all
  show ?thesis
  proof (cases "mce_auth env")
    case None
    then show ?thesis by (simp add: call_tool_unfold [OF assms(1)] s1 a)
  next
    case (Some au)
    obtain u c2 where u: "upgrade_session au sid cs (unauthorized (missing_scopes srv (handle_at (cns_transport cs) (mcl_world c)) name)) c1 = (u, c2)"
      by fastforce
    show ?thesis
    proof (cases u)
      case (Inl e)
      then have "c2 = c1" using u by (simp add: upgrade_session_inmemory [OF f1(4)] split: sum.splits)
      then show ?thesis by (simp add: call_tool_unfold [OF assms(1)] s1 a Some u Inl)
    next
      case (Inr x)
      then obtain b where c2: "c2 = upgraded_client sid cs b c1"
        using u by (auto simp: upgrade_session_inmemory [OF f1(4)] split: sum.splits)
      obtain a' c3 where s3: "send_request env cs ''tools/call'' (call_params name input) c2 = (a', c3)" by fastforce
      note f3 = tools_call_frame [OF upgraded_client_simps(1) [OF f1(4), of b, folded c2] s3]
      have e: "mcp_call_tool env sid name input c = (case a' of Inl e \<Rightarrow> (Inl e, c3) | Inr retry \<Rightarrow> tool_answer (mrs_result retry) c3)"
        by (simp add: call_tool_unfold [OF assms(1)] s1 a Some u Inr s3)
      then have "snd (mcp_call_tool env sid name input c) = c3" by (simp split: sum.split)
      then have "missing_scopes srv (handle_at (cns_transport cs) (mcl_world c2)) name \<noteq> []" using assms(2) f3(1) by simp
      from f3(2) [OF this] show ?thesis
        by (simp add: e) (simp add: c2 upgraded_client_simps(2) [OF f1(4)] a)
    qed
  qed
qed

lemma demo_missing: "missing_scopes (demo_server page scopes) h ''echo'' = filter (\<lambda>s. s \<notin> set (granted_scopes h)) scopes"
  by (simp add: missing_scopes_def demo_server_def dict_get_default_def)

theorem tool_needs_scopes_witness:
  "\<exists>cs :: connected_session. missing_scopes (demo_server 0 [''files'']) (handle_at (cns_transport cs)
       (mcl_world (snd (mcp_call_tool (demo_mcp_env False) ''srv'' ''echo'' [] (demo_connected False 0 [''files'']))))) ''echo'' \<noteq> []
     \<and> isl (fst (mcp_call_tool (demo_mcp_env False) ''srv'' ''echo'' [] (demo_connected False 0 [''files''])))"
proof -
  let ?c = "demo_connected False 0 [''files'']" and ?env = "demo_mcp_env False"
  obtain cs where cs: "serving ?env demo_render ''srv'' (demo_server 0 [''files'']) cs ?c"
    "mhd_metadata (handle_at (cns_transport cs) (mcl_world ?c)) = []"
    using demo_serving [of False 0 "[''files'']"] by blast
  have r: "reaches ?env demo_render ''srv'' (demo_server 0 [''files'']) (cns_transport cs) ?c" using cs(1) by (simp add: serving_def)
  have m: "missing_scopes (demo_server 0 [''files'']) (handle_at (cns_transport cs) (mcl_world ?c)) ''echo'' \<noteq> []"
    by (simp add: demo_missing granted_scopes_def cs(2))
  then have m2: "missing_scopes (demo_server 0 [''files'']) (handle_at (cns_transport cs)
      (mcl_world (snd (mcp_call_tool ?env ''srv'' ''echo'' [] ?c)))) ''echo'' \<noteq> []"
    by (simp add: call_tool_unfold [OF cs(1)] tools_call_sent [OF r])
  show ?thesis by (intro exI [of _ cs] conjI m2 conjunct1 [OF tool_needs_scopes [OF cs(1) m2]])
qed

text \<open>
  A demand for scopes is met: when the handle grants nothing yet, the session is unauthorized,
  and the authorization adapter has a token, \<open>call_tool\<close> on a tool that demands scopes takes up the
  server's challenge and its outcome is the handler's, run once on the server's world.
\<close>

theorem scope_upgrade_runs_tool:
  assumes "serving env render sid srv cs c" "mce_auth env = Some au" "mau_override au = Some token" "cns_auth cs = None"
    and "granted_scopes (handle_at (cns_transport cs) (mcl_world c)) = []"
    and "dict_get (mcn_extra_scopes srv) name = Some scopes" "scopes \<noteq> []" "list_all clean_scope scopes"
    and "dict_get (mcn_tools srv) name = Some (d, handler)"
  shows "fst (mcp_call_tool env sid name input c) = fst (handler input (world_of c))
    \<and> world_of (snd (mcp_call_tool env sid name input c)) = snd (handler input (world_of c))"
proof -
  have r: "reaches env render sid srv (cns_transport cs) c" using assms(1) by (simp add: serving_def)
  let ?c1 = "after_call c (world_of c)"
  have m: "missing_scopes srv (handle_at (cns_transport cs) (mcl_world c)) name = scopes"
    using assms(5,6) by (simp add: missing_scopes_def dict_get_default_def)
  have s1: "send_request env cs ''tools/call'' (call_params name input) c = (Inr (unauthorized scopes), ?c1)"
    using assms(7) by (simp add: tools_call_sent [OF r] m)
  let ?merged = "unique_in_order scopes"
  let ?a = "\<lparr>mas_token = Some token, mas_scopes = ?merged, mas_metadata = []\<rparr>"
  have ne: "?merged \<noteq> []" using assms(7) set_unique_in_order [of scopes] by fastforce
  have "py_join '' '' scopes \<noteq> []"
    using assms(7,8) by (cases scopes rule: remdups_adj.cases) (auto simp: clean_scope_def)
  then have h: "handle_www_authenticate au (scope_challenge scopes) no_auth_state t = (Inr ?a, t)" for t
    using ne by (simp add: handle_www_authenticate_def scope_challenge_parsed [OF assms(8)] merged_scopes_def no_auth_state_def
        py_split_join [OF assms(8)] acquire_token_def assms(3) ret_def Let_def)
  have r1: "reaches env render sid srv (cns_transport cs) ?c1" using r by simp
  let ?c2 = "upgraded_client sid cs ?a ?c1"
  have u: "upgrade_session au sid cs (unauthorized scopes) ?c1 = (Inr (), ?c2)"
    by (simp add: upgrade_session_inmemory [OF r1] assms(4) h)
  note up = upgraded_client_simps [OF r1, of ?a]
  have "missing_scopes srv (handle_at (cns_transport cs) (mcl_world ?c2)) name = []"
    using assms(6) by (simp add: missing_scopes_def dict_get_default_def up(3) filter_empty_conv)
  then have s2: "send_request env cs ''tools/call'' (call_params name input) ?c2 = (case handler input (world_of c) of
      (Inl e, w) \<Rightarrow> (Inl e, after_call ?c2 w)
    | (Inr result, w) \<Rightarrow> (Inr (response_of (tool_result_to_dict result)), after_call ?c2 w))"
    by (simp add: tools_call_sent [OF up(1)] assms(9) up(2))
  have "mcp_call_tool env sid name input c = (case handler input (world_of c) of (a, w) \<Rightarrow> (a, after_call ?c2 w))"
    by (simp add: call_tool_unfold [OF assms(1)] s1 assms(2) u s2 split: prod.split sum.split)
  then show ?thesis by (simp split: prod.split)
qed

theorem scope_upgrade_runs_tool_witness:
  "world_of (snd (mcp_call_tool (demo_mcp_env True) ''srv'' ''echo'' [] (demo_connected True 0 [''files'', ''net'']))) = ''!''"
proof -
  let ?c = "demo_connected True 0 [''files'', ''net'']" and ?srv = "demo_server 0 [''files'', ''net'']"
  obtain cs where cs: "serving (demo_mcp_env True) demo_render ''srv'' ?srv cs ?c" "cns_auth cs = None"
    "mhd_metadata (handle_at (cns_transport cs) (mcl_world ?c)) = []"
    using demo_serving [of True 0 "[''files'', ''net'']"] by blast
  have w: "world_of ?c = []"
    using inmemory_connect_eq [of "demo_mcp_env True" demo_render ?srv "new_mcp_client (inmemory_new [])"]
    by (simp add: demo_connected_def demo_mcp_env_def inmemory_env_def demo_server_def protocol_version_def
        mcp_client_capabilities_default_def connected_client_def new_mcp_client_def inmemory_new_def Let_def)
  have "list_all clean_scope [''files'', ''net'']" by code_simp
  then show ?thesis
    using scope_upgrade_runs_tool [OF cs(1), of demo_auth "''tok''" "''echo''" "[''files'', ''net'']" "demo_tool ''echo''" demo_handler "[]"]
    by (simp add: demo_auth_def cs granted_scopes_def demo_server_def w demo_handler_def)
qed

text \<open>
  A session's discovered token endpoint is forgotten: when a server answers 401 and demands a
  scope the session does not have, and the authorization adapter has neither a fixed token nor one
  mapped to a scope, the request raises; no token endpoint is asked, whichever was discovered.
\<close>

theorem scope_challenge_never_asks_endpoint:
  assumes "dict_get (mcl_sessions c) sid = Some cs"
    and "send_request env cs method params c = (Inr rsp, c1)" "mrs_status rsp = 401"
    and "mce_auth env = Some au" "mau_override au = None" "mau_scope_tokens au = []"
    and "dict_get (mrs_headers rsp) ''www-authenticate'' = Some (scope_challenge scopes)"
    and "list_all clean_scope scopes" "s \<in> set scopes"
    and "s \<notin> (case cns_auth cs of None \<Rightarrow> {} | Some a \<Rightarrow> set (mas_scopes a))"
  shows "mcp_request env sid method params c =
    (Inl (McpAuthorizationError ''Authorization metadata is missing token_endpoint''), c1)"
proof -
  let ?a = "case cns_auth cs of None \<Rightarrow> no_auth_state | Some a \<Rightarrow> a"
  let ?err = "Inl (McpAuthorizationError ''Authorization metadata is missing token_endpoint'')"
  have ne: "py_join '' '' scopes \<noteq> []"
    using assms(8,9) by (cases scopes rule: remdups_adj.cases) (auto simp: clean_scope_def)
  have "s \<notin> set (mas_scopes ?a)" using assms(10) by (auto simp: no_auth_state_def split: option.splits)
  moreover have "s \<in> set (merged_scopes (py_join '' '' scopes) ?a)"
    using assms(9) by (simp add: merged_scopes_def py_split_join [OF assms(8)])
  ultimately have new: "merged_scopes (py_join '' '' scopes) ?a \<noteq> mas_scopes ?a" by metis
  have "handle_www_authenticate au (scope_challenge scopes) ?a t = (?err, t)" for t
    using ne new by (simp add: handle_www_authenticate_def scope_challenge_parsed [OF assms(8)] acquire_token_def
        assms(5,6) mapped_token_def throw_def Let_def)
  then have "upgrade_session au sid cs rsp c1 = (?err, c1)"
    by (simp add: upgrade_session_def bind_def on_mcp_def on_transport_def dict_get_default_def assms(7))
  then show ?thesis
    by (simp add: mcp_request_def bind_def connected_served [OF assms(1)] assms(2,3,4))
qed

theorem scope_challenge_never_asks_endpoint_witness:
  "fst (mcp_request ((demo_mcp_env True)\<lparr>mce_auth := Some (demo_auth\<lparr>mau_override := None\<rparr>)\<rparr>) ''srv'' ''tools/call''
     (call_params ''echo'' []) (demo_connected False 0 [''files'']))
   = Inl (McpAuthorizationError ''Authorization metadata is missing token_endpoint'')"
proof -
  let ?c = "demo_connected False 0 [''files'']" and ?srv = "demo_server 0 [''files'']"
  let ?env = "(demo_mcp_env True)\<lparr>mce_auth := Some (demo_auth\<lparr>mau_override := None\<rparr>)\<rparr>"
  obtain cs where cs: "serving (demo_mcp_env False) demo_render ''srv'' ?srv cs ?c" "cns_auth cs = None"
    "mhd_metadata (handle_at (cns_transport cs) (mcl_world ?c)) = []"
    using demo_serving [of False 0 "[''files'']"] by blast
  then have r: "reaches ?env demo_render ''srv'' ?srv (cns_transport cs) ?c"
    by (simp add: serving_def reaches_def demo_mcp_env_def inmemory_env_def)
  have m: "missing_scopes ?srv (handle_at (cns_transport cs) (mcl_world ?c)) ''echo'' = [''files'']"
    by (simp add: demo_missing granted_scopes_def cs(3))
  have sess: "dict_get (mcl_sessions ?c) ''srv'' = Some cs" using cs(1) by (simp add: serving_def)
  have sent: "send_request ?env cs ''tools/call'' (call_params ''echo'' []) ?c = (Inr (unauthorized [''files'']), after_call ?c (world_of ?c))"
    by (simp only: tools_call_sent [OF r] m) simp
  have "list_all clean_scope [''files'']" by code_simp
  with scope_challenge_never_asks_endpoint [OF sess sent, of "demo_auth\<lparr>mau_override := None\<rparr>" "[''files'']" "''files''"]
  show ?thesis by (simp add: demo_auth_def cs(2)) (simp add: unauthorized_def)
qed

text \<open>
  C24.  Listing the tools of a connected in-memory server ends, and gives every tool in the order of
  the server's table, whatever the page size, as long as it is not negative; only the count of drawn
  request ids changes.
\<close>

theorem list_tools_complete:
  assumes "serving env render sid srv cs c" "0 \<le> mcn_tool_page srv"
  shows "\<exists>n. mcp_list_tools env sid c = Some (Inr (map fst (dict_values (mcn_tools srv))), c\<lparr>mcl_uuids := n\<rparr>)"
  using tools.collects [OF _ _ serving_listing [OF assms(1)]] effective_page_size [OF assms(2), of "mcn_tools srv"]
  by (auto simp: mcp_list_tools_def listing_def)

theorem list_tools_complete_witness:
  "\<exists>n. mcp_list_tools (demo_mcp_env False) ''srv'' (demo_connected False 2 []) =
     Some (Inr [demo_tool ''echo'', demo_tool ''sum'', demo_tool ''time''], (demo_connected False 2 [])\<lparr>mcl_uuids := n\<rparr>)"
proof -
  obtain cs where "serving (demo_mcp_env False) demo_render ''srv'' (demo_server 2 []) cs (demo_connected False 2 [])"
    using demo_serving [of False 2 "[]"] by blast
  from list_tools_complete [OF this] show ?thesis by (simp add: demo_server_def)
qed

text \<open>
  A negative page size makes the listing endless: every page has a next cursor, so \<open>mcp_list_tools\<close>
  never returns, even when the server has no tools.
\<close>

theorem list_tools_endless:
  assumes "serving env render sid srv cs c" "mcn_tool_page srv < 0"
  shows "mcp_list_tools env sid c = None"
  using tools.endless [OF effective_page_negative [OF assms(2)] serving_listing [OF assms(1)]] by (simp add: mcp_list_tools_def)

theorem list_tools_endless_witness: "mcp_list_tools (demo_mcp_env False) ''srv'' (demo_connected False (-1) []) = None"
proof -
  obtain cs where "serving (demo_mcp_env False) demo_render ''srv'' (demo_server (-1) []) cs (demo_connected False (-1) [])"
    using demo_serving [of False "-1" "[]"] by blast
  from list_tools_endless [OF this] show ?thesis by (simp add: demo_server_def)
qed

subsection \<open>Over HTTP\<close>

text \<open>
  A failed listing looks like an empty one: when the server answers the first page with an HTTP
  error other than 401, \<open>mcp_list_tools\<close> returns no tools instead of raising.
\<close>

theorem failed_listing_is_empty:
  assumes "mce_transport env = http_transport loads urlopen" "dict_get (mcl_sessions c) sid = Some cs"
    and "dict_get (hts_configs (mw_transport (mcl_world c))) (mhd_server (handle_at (cns_transport cs) (mcl_world c))) = Some config"
    and "\<And>q. fst (urlopen q (hts_network (mw_transport (mcl_world c)))) = HttpError status detail headers" "status \<noteq> 401"
  shows "\<exists>c'. mcp_list_tools env sid c = Some (Inr [], c')"
proof -
  have "\<exists>c'. send_request env cs ''tools/list'' [] c = (Inr \<lparr>mrs_result = [(''error'', JStr detail)], mrs_events = [],
      mrs_headers = lower_headers headers, mrs_status = status\<rparr>, c')"
    using assms(3,4)
    by (simp add: send_request_def rpc_message_def bind_assoc draw_uuid_def assms(1) http_transport_def http_send_def
        on_mcp_def on_transport_def on_network_def lookup_or_raise_def http_response_def eff_defs split_beta Let_def)
  then obtain c' where c': "send_request env cs ''tools/list'' [] c = (Inr \<lparr>mrs_result = [(''error'', JStr detail)],
      mrs_events = [], mrs_headers = lower_headers headers, mrs_status = status\<rparr>, c')" by blast
  have "list_tools_page env sid None c = (Inr ([], None), c')"
    using assms(5)
    by (simp add: list_tools_page_def list_page_def mcp_request_def bind_def connected_served [OF assms(2)] c' ret_def lift_def
        parse_descriptor_list_def field_opt_str_def)
  then show ?thesis by (simp add: mcp_list_tools_def collect_all_def collect_from.simps)
qed

definition demo_http_env :: "unit http_state mcp_env" where
  "demo_http_env = \<lparr>mce_transport = http_transport (\<lambda>_. Inr JNull) (\<lambda>_ n. (HttpError 500 ''down'' [], n)), mce_auth = None,
     mce_roots_provider = False, mce_sampling_bridge = None, mce_elicitation_bridge = False,
     mce_capabilities = mcp_client_capabilities_default, mce_info = [], mce_uuid = nat_str\<rparr>"

definition demo_http_session :: connected_session where
  "demo_http_session = \<lparr>cns_descriptor = \<lparr>msd_id = ''srv'', msd_label = ''Server'', msd_endpoint = Some ''http://srv'',
       msd_transport = ''http'', msd_capabilities = []\<rparr>,
     cns_handle = \<lparr>msh_server = ''srv'', msh_version = ''2025-11-25'', msh_negotiated = [], msh_transport = ''http'',
       msh_session = None, msh_auth = None, msh_initialized = True\<rparr>, cns_transport = 0, cns_auth = None\<rparr>"

definition demo_http_client :: "unit http_state mcp_client" where
  "demo_http_client = \<lparr>mcl_world = \<lparr>mw_handles = [new_transport_handle ''http'' ''srv''],
       mw_transport = \<lparr>hts_configs = [(''srv'', http_config_of ''http://srv'')], hts_network = ()\<rparr>\<rparr>,
     mcl_sessions = [(''srv'', demo_http_session)], mcl_uuids = 2, mcl_roots_changed = False\<rparr>"

theorem failed_listing_is_empty_witness: "\<exists>c'. mcp_list_tools demo_http_env ''srv'' demo_http_client = Some (Inr [], c')"
  by (rule failed_listing_is_empty [where cs = demo_http_session and config = "http_config_of ''http://srv''"
        and status = 500 and detail = "''down''" and headers = "[]" and loads = "\<lambda>_. Inr JNull"
        and urlopen = "\<lambda>_ n. (HttpError 500 ''down'' [], n)"])
     (simp_all add: demo_http_env_def demo_http_client_def demo_http_session_def new_transport_handle_def handle_at_def)

end
