(* ===== verification/ToolBase.thy ===== *)
theory ToolBase
  imports Tools PyText Effects
begin

text \<open>
  What the built-in tools share: the base class of \<^verbatim>\<open>tools/tool_base.py\<close>, the schema builders of
  \<^verbatim>\<open>tool_schema.py\<close>, the field checks of \<^verbatim>\<open>tool_validation.py\<close>, the renderers of \<^verbatim>\<open>tool_io.py\<close>.  A tool is
  \<open>builtin_tool\<close> with the hooks its class overrides.
\<close>

subsection \<open>Schemas\<close>

definition string_property :: "string \<Rightarrow> string list \<Rightarrow> string list \<Rightarrow> json" where
  "string_property description examples enum = JDict ([(''type'', JStr ''string''), (''description'', JStr description)]
     @ (if examples \<noteq> [] then [(''examples'', JList (map JStr examples))] else [])
     @ (if enum \<noteq> [] then [(''enum'', JList (map JStr enum))] else []))"

definition integer_property :: "string \<Rightarrow> int list \<Rightarrow> int option \<Rightarrow> json" where
  "integer_property description examples least = JDict ([(''type'', JStr ''integer''), (''description'', JStr description)]
     @ (if examples \<noteq> [] then [(''examples'', JList (map JInt examples))] else [])
     @ (case least of None \<Rightarrow> [] | Some m \<Rightarrow> [(''minimum'', JInt m)]))"

definition boolean_property :: "string \<Rightarrow> json" where
  "boolean_property description = JDict [(''type'', JStr ''boolean''), (''description'', JStr description)]"

definition object_schema :: "json_object \<Rightarrow> string list \<Rightarrow> json" where
  "object_schema properties required = JDict [(''type'', JStr ''object''), (''properties'', JDict properties),
     (''required'', JList (map JStr required)), (''additionalProperties'', JBool False)]"

subsection \<open>Field checks\<close>

definition require_string_field :: "json_object \<Rightarrow> string \<Rightarrow> py_error + string" where
  "require_string_field args k = (case jget args k of
     JStr s \<Rightarrow> if s = [] then Inl (ValueError (k @ '' must be a non-empty string'')) else Inr s
   | _ \<Rightarrow> Inl (ValueError (k @ '' must be a string'')))"

definition require_int_field :: "int \<Rightarrow> json_object \<Rightarrow> string \<Rightarrow> py_error + int" where
  "require_int_field least args k = (case jget args k of
     JInt i \<Rightarrow> if i < least then Inl (ValueError (k @ '' must be >= '' @ int_str least)) else Inr i
   | _ \<Rightarrow> Inl (ValueError (k @ '' must be an integer'')))"

definition require_positive_int_field :: "json_object \<Rightarrow> string \<Rightarrow> py_error + int" where
  "require_positive_int_field = require_int_field 1"

definition require_non_negative_int_field :: "json_object \<Rightarrow> string \<Rightarrow> py_error + int" where
  "require_non_negative_int_field = require_int_field 0"

definition require_bool_field :: "json_object \<Rightarrow> string \<Rightarrow> py_error + bool" where
  "require_bool_field args k = (case jget args k of
     JBool b \<Rightarrow> Inr b | _ \<Rightarrow> Inl (ValueError (k @ '' must be a boolean'')))"

text \<open>\<open>if k in normalized: normalized[k] = check(normalized, k)\<close>.\<close>

definition check_field ::
  "(json_object \<Rightarrow> string \<Rightarrow> py_error + 'a) \<Rightarrow> ('a \<Rightarrow> json) \<Rightarrow> string \<Rightarrow> json_object \<Rightarrow> py_error + json_object" where
  "check_field check inject k args = (if dict_get args k = None then Inr args
     else ebind (check args k) (\<lambda>v. Inr (dict_set k (inject v) args)))"

definition check_required ::
  "(json_object \<Rightarrow> string \<Rightarrow> py_error + 'a) \<Rightarrow> ('a \<Rightarrow> json) \<Rightarrow> string \<Rightarrow> json_object \<Rightarrow> py_error + json_object" where
  "check_required check inject k args = ebind (check args k) (\<lambda>v. Inr (dict_set k (inject v) args))"

definition as_tool_error :: "py_error + 'a \<Rightarrow> tool_error + 'a" where
  "as_tool_error r = (case r of Inl e \<Rightarrow> Inl (PyError e) | Inr x \<Rightarrow> Inr x)"

subsection \<open>Rendering\<close>

text \<open>The lines from \<open>offset\<close> on, numbered, and what is told about them.\<close>

definition slice_start :: "int \<Rightarrow> nat \<Rightarrow> nat" where
  "slice_start offset n = min n (nat (offset - 1))"

definition sliced_lines :: "string \<Rightarrow> int \<Rightarrow> int \<Rightarrow> int \<Rightarrow> string list" where
  "sliced_lines content offset limit max_lines = (let ls = py_splitlines content; start = slice_start offset (length ls) in
     py_slice (int start) (int start + min limit max_lines) ls)"

definition render_numbered_file_slice :: "string \<Rightarrow> int \<Rightarrow> int \<Rightarrow> int \<Rightarrow> string \<times> json_object" where
  "render_numbered_file_slice content offset limit max_lines =
     (let lines = length (py_splitlines content); start = slice_start offset lines;
          selected = sliced_lines content offset limit max_lines in
      (py_join [newline] (map (\<lambda>(n, l). nat_str n @ [char_of (9 :: nat)] @ l) (zip [Suc start ..< Suc start + length selected] selected)),
       [(''offset'', JInt offset), (''limit'', JInt (min limit max_lines)), (''total_lines'', JInt (int lines)),
        (''returned_lines'', JInt (int (length selected))), (''truncated'', JBool (start + length selected < lines))]))"

definition merge_process_output :: "string \<Rightarrow> string \<Rightarrow> string" where
  "merge_process_output stdout stderr =
     py_join [newline] (map py_rstrip (filter (\<lambda>p. py_strip p \<noteq> []) [stdout, stderr]))"

subsection \<open>The base class\<close>

definition builtin_map_result :: "tool_result \<Rightarrow> string option \<Rightarrow> tool_result option" where
  "builtin_map_result r tool_use_id = Some (case tool_use_id of
     None \<Rightarrow> r
   | Some u \<Rightarrow> r\<lparr>tr_metadata := Some (dict_set ''tool_use_id'' (JStr u) (case tr_metadata r of None \<Rightarrow> [] | Some m \<Rightarrow> m))\<rparr>)"

definition builtin_tool ::
  "string \<Rightarrow> string \<Rightarrow> json \<Rightarrow> (json_object \<Rightarrow> tool_context \<Rightarrow> 'w \<Rightarrow> (tool_error + tool_result) \<times> 'w) \<Rightarrow> 'w tool" where
  "builtin_tool name alias schema call = \<lparr>tool_name = name, tool_aliases = [alias], tool_schema = schema,
     tool_source_attr = Some ''builtin'', tool_visibility_attr = Some ''both'', tool_provenance = [],
     tool_enabled_fn = Some (\<lambda>_. True), tool_read_only_fn = Some (\<lambda>_. False), tool_destructive = False,
     tool_concurrency_fn = Some (\<lambda>_. False), tool_validator = None, tool_checker = (\<lambda>_ _. ''allow''),
     tool_mapper = Some builtin_map_result, tool_persists = False, tool_call_fn = call, tool_stream_fn = None\<rparr>"

text \<open>A successful result without metadata.\<close>

definition tool_success :: "string \<Rightarrow> json list \<Rightarrow> json_object \<Rightarrow> tool_result" where
  "tool_success name content structured = \<lparr>tr_name = name, tr_success = True, tr_content = content,
     tr_structured = Some structured, tr_metadata = None, tr_persisted = None, tr_truncated = None\<rparr>"

definition tool_run :: "('w, tool_result) eff \<Rightarrow> 'w \<Rightarrow> (tool_error + tool_result) \<times> 'w" where
  "tool_run m w = (let (r, w') = m w in (as_tool_error r, w'))"

end
