(* ===== verification/Skills.thy ===== *)
theory Skills
  imports ToolBase
begin

text \<open>
  Skills: \<^verbatim>\<open>tools/skills.py\<close> and the command record of \<^verbatim>\<open>tools/commands.py\<close>.  A \<open>SKILL.md\<close> file is read
  as frontmatter and body, its manifest is built and checked, and the registry keeps one skill per
  identifier; the activator renders a body and records activations; the bridge offers both to the
  model.

  The file system is a parameter: \<open>sf_rglob\<close> gives the \<open>SKILL.md\<close> files below a root in the order the
  directory walk meets them (name of the parent directory, its path, the file's path), \<open>sf_read\<close>
  their text.  The bridge works over any registry with the two operations of \<open>skill_source\<close>: the file
  registry here, the role's filtered one in \<open>Roles\<close>.
\<close>

subsection \<open>Data\<close>

record skill_diagnostic =
  dg_level :: string
  dg_message :: string
  dg_code :: string

definition warning :: "string \<Rightarrow> string \<Rightarrow> skill_diagnostic" where
  "warning c m = \<lparr>dg_level = ''warning'', dg_message = m, dg_code = c\<rparr>"

definition fatal :: "string \<Rightarrow> string \<Rightarrow> skill_diagnostic" where
  "fatal c m = \<lparr>dg_level = ''error'', dg_message = m, dg_code = c\<rparr>"

definition format_diagnostic :: "skill_diagnostic \<Rightarrow> string" where
  "format_diagnostic d = dg_level d @ (if dg_code d \<noteq> [] then ''['' @ dg_code d @ '']'' else []) @ '': '' @ dg_message d"

record discovered_ref =
  dr_id :: string
  dr_source :: string
  dr_scope :: string
  dr_root :: string
  dr_file :: string
  dr_trust :: string
  dr_diagnostics :: "skill_diagnostic list"

record skill_manifest =
  smf_name :: string
  smf_description :: string
  smf_license :: "string option"
  smf_compatibility :: json_object
  smf_metadata :: json_object
  smf_allowed_tools :: "string list"
  smf_host :: json_object
  smf_root :: string
  smf_file :: string
  smf_source :: string
  smf_diagnostics :: "skill_diagnostic list"

record skill_definition =
  sk_id :: string
  sk_name :: string
  sk_description :: string
  sk_content :: string
  sk_arguments :: "string list"
  sk_when :: string
  sk_allowed_tools :: "string list"
  sk_source :: string
  sk_scope :: string
  sk_trust :: string
  sk_disclosure :: string
  sk_activation :: string
  sk_root :: string
  sk_file :: string
  sk_diagnostics :: "string list"
  sk_model :: bool
  sk_user :: bool
  sk_metadata :: json_object
  sk_manifest :: "skill_manifest option"
  sk_ref :: "discovered_ref option"
  sk_frontmatter :: json_object
  sk_host :: json_object
  sk_resources :: "string list"
  sk_mode :: string

record discovery_root =
  rt_path :: string
  rt_scope :: string
  rt_source :: string
  rt_trust :: string

record catalog_entry =
  ce_name :: string
  ce_description :: string
  ce_location :: "string option"
  ce_source :: string
  ce_model :: bool
  ce_metadata :: json_object

record activation_result =
  ar_skill :: string
  ar_body :: string
  ar_mode :: string
  ar_root :: string
  ar_resources :: "string list"
  ar_wrapped :: bool
  ar_activation :: string
  ar_metadata :: json_object

record context_binding =
  cb_skill :: string
  cb_ref :: string
  cb_root :: string
  cb_resources :: "string list"
  cb_mode :: string
  cb_protected :: bool

datatype command_kind = CK_PROMPT | CK_LOCAL | CK_LOCAL_UI | CK_REVIEW
datatype command_visibility = CV_USER | CV_MODEL | CV_BOTH

fun command_kind_value :: "command_kind \<Rightarrow> string" where
  "command_kind_value CK_PROMPT = ''prompt''"
| "command_kind_value CK_LOCAL = ''local''"
| "command_kind_value CK_LOCAL_UI = ''local_ui''"
| "command_kind_value CK_REVIEW = ''review''"

fun command_visibility_value :: "command_visibility \<Rightarrow> string" where
  "command_visibility_value CV_USER = ''user''"
| "command_visibility_value CV_MODEL = ''model''"
| "command_visibility_value CV_BOTH = ''both''"

record command =
  cd_id :: string
  cd_name :: string
  cd_kind :: command_kind
  cd_description :: string
  cd_visibility :: command_visibility
  cd_source :: string
  cd_metadata :: json_object

subsection \<open>Frontmatter\<close>

lemma split_on_part_length: "p \<in> set (split_on c s) \<Longrightarrow> length p \<le> length s"
proof (induction s arbitrary: p)
  case (Cons x s)
  show ?case
  proof (cases "x = c")
    case True
    then show ?thesis using Cons by fastforce
  next
    case False
    obtain q qs where q: "split_on c s = q # qs" by (cases "split_on c s") simp_all
    then show ?thesis using Cons.prems Cons.IH [of q] Cons.IH [of p] False by fastforce
  qed
qed simp

lemma py_strip_length: "length (py_strip s) \<le> length s"
  unfolding py_strip_def
  by (metis length_dropWhile_le length_rev order_trans)

definition unquoted :: "string \<Rightarrow> bool" where
  "unquoted s \<longleftrightarrow> hd s = last s \<and> (hd s = dquote \<or> hd s = squote)"

function parse_scalar :: "string \<Rightarrow> json" where
  "parse_scalar raw = (let t = py_strip raw; inner = py_strip (butlast (tl t)) in
     if t = [] then JStr []
     else if unquoted t then JStr (butlast (tl t))
     else if py_lower t = ''true'' then JBool True
     else if py_lower t = ''false'' then JBool False
     else if py_lower t = ''null'' then JNull
     else if hd t = CHR ''['' \<and> last t = CHR '']'' then
       (if inner = [] then JList [] else JList (map (\<lambda>p. parse_scalar (py_strip p)) (split_on (CHR '','') inner)))
     else JStr t)"
  by pat_completeness auto
termination
proof (relation "measure length")
  fix raw t inner p
  assume t: "t = py_strip raw" "inner = py_strip (butlast (tl t))" "t \<noteq> []"
    and p: "p \<in> set (split_on (CHR '','') inner)" and i: "inner \<noteq> []"
  have "length (py_strip p) \<le> length inner" using split_on_part_length [OF p] py_strip_length [of p] by linarith
  also have "\<dots> \<le> length (butlast (tl t))" using py_strip_length t(2) by metis
  also have "\<dots> < length t" using t(3) by (cases t) auto
  also have "\<dots> \<le> length raw" using py_strip_length t(1) by metis
  finally show "(py_strip p, raw) \<in> measure length" by simp
qed simp

declare parse_scalar.simps [simp del]

definition parse_nested :: "string list \<Rightarrow> json \<times> skill_diagnostic option" where
  "parse_nested ls =
     (if ls = [] then (JStr [], None)
      else if list_all (\<lambda>l. py_startswith l ''- '') ls then (JList (map (\<lambda>l. parse_scalar (py_strip (drop 2 l))) ls), None)
      else case List.find (\<lambda>l. CHR '':'' \<notin> set l) ls of
          Some l \<Rightarrow> (JStr [], Some (warning ''frontmatter_nested_ignored'' (''ignored malformed nested frontmatter line: '' @ l)))
        | None \<Rightarrow> (JDict (dict_merge [] (map (\<lambda>l. let (k, v) = partition_at (CHR '':'') l in
            (py_strip k, parse_scalar (py_strip v))) ls)), None))"

definition indented :: "string \<Rightarrow> bool" where
  "indented l \<longleftrightarrow> py_startswith l '' ''"

definition dedent :: "string \<Rightarrow> string" where
  "dedent l = (if py_startswith l ''  '' then drop 2 l else py_lstrip l)"

definition tab :: char where
  "tab = char_of (9 :: nat)"

function parse_lines ::
  "string list \<Rightarrow> json_object \<Rightarrow> skill_diagnostic list \<Rightarrow> json_object \<times> skill_diagnostic list \<times> string option" where
  "parse_lines [] result ds = (result, ds, None)"
| "parse_lines (l # ls) result ds =
     (if indented l \<or> py_startswith l [tab] then ([], ds, Some (''unexpected indentation at line: '' @ l))
      else if CHR '':'' \<notin> set l then
        parse_lines ls result (ds @ [warning ''frontmatter_ignored_line'' (''ignored malformed frontmatter line: '' @ l)])
      else let (k, raw) = partition_at (CHR '':'') l; key = py_strip k; v = py_strip raw in
        if v \<noteq> [] then parse_lines ls (dict_set key (parse_scalar v) result) ds
        else let (nested, w) = parse_nested (map dedent (takeWhile indented ls)) in
          parse_lines (dropWhile indented ls) (dict_set key nested result)
            (ds @ (case w of None \<Rightarrow> [] | Some d \<Rightarrow> [d])))"
  by pat_completeness auto
termination by (relation "measure (\<lambda>(ls, r, d). length ls)") (auto simp: le_imp_less_Suc length_dropWhile_le)

definition parse_frontmatter_block :: "string \<Rightarrow> json_object \<times> skill_diagnostic list \<times> string option" where
  "parse_frontmatter_block block =
     parse_lines (map py_rstrip (filter (\<lambda>l. py_strip l \<noteq> []) (py_splitlines block))) [] []"

text \<open>The retry's normalization; the flag tells that the last line was a key that opens a block.\<close>

fun normalize_lines :: "bool \<Rightarrow> string list \<Rightarrow> string list" where
  "normalize_lines opens [] = []"
| "normalize_lines opens (l # ls) = (let s = py_strip l in
     if s = [] then [] # normalize_lines opens ls
     else (if indented l \<and> \<not> opens \<and> CHR '':'' \<in> set s \<and> \<not> py_startswith s ''- '' then s else l)
       # normalize_lines (last s = CHR '':'' \<and> \<not> py_startswith s ''- '') ls)"

definition expand_tabs :: "string \<Rightarrow> string" where
  "expand_tabs s = concat (map (\<lambda>c. if c = tab then ''  '' else [c]) s)"

definition is_fence :: "string \<Rightarrow> bool" where
  "is_fence l \<longleftrightarrow> py_strip l = ''---''"

definition parse_skill_block :: "string \<Rightarrow> string \<Rightarrow> json_object \<times> string \<times> skill_diagnostic list" where
  "parse_skill_block block body = (case parse_frontmatter_block block of
     (parsed, warnings, None) \<Rightarrow> (parsed, body, warnings)
   | (_, warnings, Some _) \<Rightarrow>
       (case parse_frontmatter_block (py_join [newline] (normalize_lines False (py_splitlines (expand_tabs block)))) of
          (retry, retry_warnings, None) \<Rightarrow> (retry, body, warnings
            @ warning ''frontmatter_lenient_retry'' ''frontmatter required normalization before it could be parsed'' # retry_warnings)
        | (_, _, Some e) \<Rightarrow> ([], body, warnings @ [fatal ''frontmatter_parse_failed'' (''unable to parse frontmatter: '' @ e)])))"

definition parse_skill_document :: "string \<Rightarrow> json_object \<times> string \<times> skill_diagnostic list" where
  "parse_skill_document raw =
     (if \<not> py_startswith raw (''---'' @ [newline]) \<and> \<not> py_startswith raw (''---'' @ [carriage_return, newline]) then ([], raw, [])
      else case py_splitlines raw of
        [] \<Rightarrow> ([], raw, [])
      | first # ls \<Rightarrow>
          if \<not> is_fence first then ([], raw, [])
          else (case dropWhile (\<lambda>l. \<not> is_fence l) ls of
            [] \<Rightarrow> ([], raw, [warning ''frontmatter_unclosed''
              ''frontmatter start marker found but closing marker is missing; treating document as body-only''])
          | _ # rest \<Rightarrow> parse_skill_block (py_join [newline] (takeWhile (\<lambda>l. \<not> is_fence l) ls))
              (py_lstrip (py_join [newline] rest))))"

subsection \<open>Manifest and arguments\<close>

definition coerce_str :: "json \<Rightarrow> string" where
  "coerce_str v = (case v of JStr s \<Rightarrow> s | _ \<Rightarrow> [])"

definition coerce_bool :: "json \<Rightarrow> bool" where
  "coerce_bool v = (case v of JBool b \<Rightarrow> b | _ \<Rightarrow> False)"

definition coerce_object :: "json \<Rightarrow> json_object" where
  "coerce_object v = (case v of JDict d \<Rightarrow> d | _ \<Rightarrow> [])"

definition coerce_strings :: "json \<Rightarrow> string list" where
  "coerce_strings v = (case v of JList l \<Rightarrow> List.map_filter as_str l | JStr s \<Rightarrow> if s \<noteq> [] then [s] else [] | _ \<Rightarrow> [])"

definition coerce_mode :: "json \<Rightarrow> string" where
  "coerce_mode v = (if coerce_str v \<in> set [''full'', ''stripped''] then coerce_str v else ''stripped'')"

definition extract_description :: "string \<Rightarrow> string" where
  "extract_description body =
     (case filter (\<lambda>s. s \<noteq> [] \<and> \<not> py_startswith s ''#'') (map py_strip (py_splitlines body)) of [] \<Rightarrow> [] | s # _ \<Rightarrow> s)"

definition standard_keys :: "string list" where
  "standard_keys = [''name'', ''description'', ''license'', ''compatibility'', ''metadata'', ''allowed-tools'']"

text \<open>\<open>a or b\<close> on strings.\<close>

definition or_str :: "string \<Rightarrow> string \<Rightarrow> string" where
  "or_str a b = (if a \<noteq> [] then a else b)"

definition build_manifest :: "json_object \<Rightarrow> string \<Rightarrow> discovered_ref \<Rightarrow> skill_diagnostic list \<Rightarrow> skill_manifest" where
  "build_manifest fm body r ds = \<lparr>smf_name = or_str (coerce_str (jget fm ''name'')) (dr_id r),
     smf_description = or_str (coerce_str (jget fm ''description'')) (extract_description body),
     smf_license = as_str (jget fm ''license''), smf_compatibility = coerce_object (jget fm ''compatibility''),
     smf_metadata = coerce_object (jget fm ''metadata''), smf_allowed_tools = coerce_strings (jget fm ''allowed-tools''),
     smf_host = filter (\<lambda>kv. fst kv \<notin> set standard_keys) fm, smf_root = dr_root r, smf_file = dr_file r,
     smf_source = dr_source r, smf_diagnostics = ds @ dr_diagnostics r\<rparr>"

text \<open>\<open>str.isidentifier\<close> on Latin-1 text.\<close>

definition identifier_start :: "char \<Rightarrow> bool" where
  "identifier_start c \<longleftrightarrow> (let n = code c in (65 \<le> n \<and> n \<le> 90) \<or> (97 \<le> n \<and> n \<le> 122) \<or> n = 95 \<or> n = 170 \<or> n = 181
     \<or> n = 186 \<or> (192 \<le> n \<and> n \<le> 255 \<and> n \<noteq> 215 \<and> n \<noteq> 247))"

definition is_identifier :: "string \<Rightarrow> bool" where
  "is_identifier s \<longleftrightarrow> s \<noteq> [] \<and> identifier_start (hd s)
     \<and> list_all (\<lambda>c. identifier_start c \<or> is_digit c \<or> code c = 183) (tl s)"

text \<open>The names \<open>string.Formatter().parse\<close> finds; a malformed body makes it raise.\<close>

definition field_names :: "string \<Rightarrow> py_error + string list" where
  "field_names body = (case pieces body of
     (_, Some e) \<Rightarrow> Inl e
   | (ps, None) \<Rightarrow> Inr (List.map_filter (\<lambda>p. case p of Field name _ _ \<Rightarrow> Some name | Literal _ \<Rightarrow> None) ps))"

definition resolve_arguments :: "string \<Rightarrow> json_object \<Rightarrow> py_error + string list" where
  "resolve_arguments body host =
     (if coerce_strings (jget host ''arguments'') \<noteq> [] then Inr (coerce_strings (jget host ''arguments''))
      else ebind (field_names body) (\<lambda>names. Inr (sort (remdups (filter is_identifier names)))))"

subsection \<open>Discovery\<close>

record skill_files =
  sf_exists :: "string \<Rightarrow> bool"
  sf_rglob :: "string \<Rightarrow> (string \<times> string \<times> string) list"
  sf_read :: "string \<Rightarrow> py_error + string"
  sf_home :: string

definition infer_scope :: "string \<Rightarrow> string \<Rightarrow> string" where
  "infer_scope home path =
     (if py_contains ''bundled'' (py_lower path) then ''bundled''
      else if py_startswith (py_lower path) (py_lower home) then ''user'' else ''project'')"

text \<open>A root given as a path.\<close>

definition coerce_root :: "string \<Rightarrow> string \<Rightarrow> discovery_root" where
  "coerce_root home path = \<lparr>rt_path = path, rt_scope = infer_scope home path, rt_source = ''file'', rt_trust = ''trusted''\<rparr>"

definition scan_root :: "skill_files \<Rightarrow> discovery_root \<Rightarrow> discovered_ref list" where
  "scan_root fs root = map (\<lambda>(name, parent, file). \<lparr>dr_id = name, dr_source = rt_source root, dr_scope = rt_scope root,
     dr_root = parent, dr_file = file, dr_trust = rt_trust root, dr_diagnostics = []\<rparr>) (sf_rglob fs (rt_path root))"

definition list_skill_resources :: "skill_files \<Rightarrow> string \<Rightarrow> string list" where
  "list_skill_resources fs root = filter (\<lambda>n. sf_exists fs (root @ ''/'' @ n)) [''scripts'', ''references'', ''assets'']"

definition load_diagnostics :: "skill_manifest \<Rightarrow> discovered_ref \<Rightarrow> skill_diagnostic list" where
  "load_diagnostics m r =
     (if smf_name m \<noteq> dr_id r
      then [warning ''skill_name_mismatch'' (''frontmatter name '' @ [squote] @ smf_name m @ [squote] @ '' differs from directory ''
        @ [squote] @ dr_id r @ [squote])] else [])
     @ (if dr_trust r = ''untrusted''
        then [warning ''trust_blocked'' (''skill '' @ [squote] @ dr_id r @ [squote] @ '' is not model-invocable because its source is untrusted'')]
        else [])"

definition load_from_ref :: "skill_files \<Rightarrow> discovered_ref \<Rightarrow> py_error + skill_definition option" where
  "load_from_ref fs r =
     ebind (sf_read fs (dr_file r)) (\<lambda>raw.
     let (fm, body, ds) = parse_skill_document raw in
     if list_ex (\<lambda>d. dg_level d = ''error'') ds then Inr None
     else let m = build_manifest fm body r ds; description = py_strip (smf_description m) in
       if description = [] then Inr None
       else ebind (resolve_arguments body (smf_host m)) (\<lambda>args.
         let m' = m\<lparr>smf_diagnostics := smf_diagnostics m @ load_diagnostics m r\<rparr> in
         Inr (Some \<lparr>sk_id = dr_id r, sk_name = smf_name m, sk_description = description, sk_content = body,
           sk_arguments = args, sk_when = coerce_str (jget (smf_host m) ''when_to_use''),
           sk_allowed_tools = smf_allowed_tools m, sk_source = dr_source r, sk_scope = dr_scope r, sk_trust = dr_trust r,
           sk_disclosure = ''catalog'', sk_activation = ''prompt'', sk_root = dr_root r, sk_file = dr_file r,
           sk_diagnostics = map format_diagnostic (smf_diagnostics m'),
           sk_model = (\<not> coerce_bool (jget (smf_host m) ''disable-model-invocation'') \<and> dr_trust r \<noteq> ''untrusted''),
           sk_user = coerce_bool (jget (smf_host m) ''user-invocable''),
           sk_metadata = dict_merge [(''source_path'', JStr (dr_file r)), (''scope'', JStr (dr_scope r)),
             (''trust_level'', JStr (dr_trust r)), (''source'', JStr (dr_source r)), (''disclosure'', JStr ''catalog''),
             (''activation_mode'', JStr ''prompt'')] (smf_metadata m),
           sk_manifest = Some m', sk_ref = Some r, sk_frontmatter = fm, sk_host = smf_host m,
           sk_resources = list_skill_resources fs (dr_root r), sk_mode = coerce_mode (jget (smf_host m) ''model'')\<rparr>)))"

definition scope_precedence :: "string \<Rightarrow> nat" where
  "scope_precedence scope = (case map_of [(''project'', 0), (''managed'', 1), (''user'', 2), (''bundled'', 3), (''plugin'', 4), (''mcp'', 5)] scope of
     None \<Rightarrow> 100 | Some n \<Rightarrow> n)"

text \<open>\<open>_resolve_shadow\<close>: the winner and the loser.\<close>

definition resolve_shadow :: "skill_definition \<Rightarrow> skill_definition \<Rightarrow> skill_definition \<times> skill_definition" where
  "resolve_shadow existing candidate =
     (let e = scope_precedence (sk_scope existing); c = scope_precedence (sk_scope candidate) in
      if c < e then (candidate, existing)
      else if e < c then (existing, candidate)
      else if sk_root candidate < sk_root existing then (candidate, existing)
      else (existing, candidate))"

definition mark_shadow :: "skill_definition \<Rightarrow> skill_definition \<Rightarrow> skill_definition" where
  "mark_shadow winner loser = winner\<lparr>
     sk_diagnostics := sk_diagnostics winner @ [''shadowed skill '' @ [squote] @ sk_id loser @ [squote] @ '' from ''
       @ sk_scope loser @ '':'' @ sk_root loser],
     sk_metadata := dict_set ''shadowed_skill_scope'' (JStr (sk_scope loser))
       (dict_set ''shadowed_skill_root'' (JStr (sk_root loser)) (sk_metadata winner))\<rparr>"

definition add_candidate :: "skill_definition \<Rightarrow> (string, skill_definition) pydict \<Rightarrow> (string, skill_definition) pydict" where
  "add_candidate c found = (case dict_get found (sk_id c) of
     None \<Rightarrow> dict_set (sk_id c) c found
   | Some existing \<Rightarrow> (let (winner, loser) = resolve_shadow existing c in
       dict_set (sk_id winner) (mark_shadow winner loser) found))"

fun discover_refs ::
  "skill_files \<Rightarrow> discovered_ref list \<Rightarrow> (string, skill_definition) pydict \<Rightarrow> py_error + (string, skill_definition) pydict" where
  "discover_refs fs [] found = Inr found"
| "discover_refs fs (r # rs) found =
     ebind (load_from_ref fs r) (\<lambda>c. discover_refs fs rs (case c of None \<Rightarrow> found | Some s \<Rightarrow> add_candidate s found))"

definition discover_roots :: "skill_files \<Rightarrow> discovery_root list \<Rightarrow> py_error + (string, skill_definition) pydict" where
  "discover_roots fs roots =
     discover_refs fs (concat (map (\<lambda>r. if sf_exists fs (rt_path r) then scan_root fs r else []) roots)) []"

subsection \<open>The registry\<close>

record skill_registry =
  sr_roots :: "discovery_root list"
  sr_cache :: "(string, skill_definition) pydict"

definition new_skill_registry :: "discovery_root list \<Rightarrow> skill_registry" where
  "new_skill_registry roots = \<lparr>sr_roots = roots, sr_cache = []\<rparr>"

definition discover_skills :: "skill_files \<Rightarrow> (skill_registry, skill_definition list) eff" where
  "discover_skills fs =
     bind (reads (\<lambda>g. discover_roots fs (sr_roots g))) (\<lambda>found.
     bind (modify (\<lambda>g. g\<lparr>sr_cache := found\<rparr>)) (\<lambda>_. ret (dict_values found)))"

definition load_skill :: "skill_files \<Rightarrow> string \<Rightarrow> (skill_registry, skill_definition) eff" where
  "load_skill fs i =
     bind (gets (\<lambda>g. dict_get (sr_cache g) i)) (\<lambda>cached.
     bind (case cached of None \<Rightarrow> discover_skills fs | Some _ \<Rightarrow> ret []) (\<lambda>_.
     reads (\<lambda>g. case dict_get (sr_cache g) i of None \<Rightarrow> Inl (KeyError i) | Some s \<Rightarrow> Inr s)))"

definition invalidate_skills :: "skill_registry \<Rightarrow> skill_registry" where
  "invalidate_skills g = g\<lparr>sr_cache := []\<rparr>"

definition catalog_entry_of :: "skill_definition \<Rightarrow> catalog_entry" where
  "catalog_entry_of s = \<lparr>ce_name = sk_name s, ce_description = sk_description s,
     ce_location = (if sk_root s = [] then None else Some (sk_root s)), ce_source = sk_source s, ce_model = sk_model s,
     ce_metadata = [(''skill_id'', JStr (sk_id s)), (''scope'', JStr (sk_scope s)), (''trust_level'', JStr (sk_trust s)),
       (''diagnostics'', JList (map JStr (sk_diagnostics s))), (''disclosure'', JStr (sk_disclosure s)),
       (''activation_mode'', JStr (sk_activation s))]\<rparr>"

definition list_catalog_entries :: "skill_files \<Rightarrow> string \<Rightarrow> (skill_registry, catalog_entry list) eff" where
  "list_catalog_entries fs audience =
     bind (discover_skills fs) (\<lambda>skills.
     ret (map catalog_entry_of (filter (\<lambda>s. audience = ''model'' \<longrightarrow> sk_model s) skills)))"

subsection \<open>Activation\<close>

text \<open>What the activator and the bridge ask of a registry with state \<open>'r\<close>.\<close>

record 'r skill_source =
  so_discover :: "('r, skill_definition list) eff"
  so_load :: "string \<Rightarrow> ('r, skill_definition) eff"

definition file_skills :: "skill_files \<Rightarrow> skill_registry skill_source" where
  "file_skills fs = \<lparr>so_discover = discover_skills fs, so_load = load_skill fs\<rparr>"

type_synonym skill_bindings = "(string, context_binding) pydict"

record 'r skill_host =
  kh_registry :: 'r
  kh_bindings :: skill_bindings

definition on_registry :: "('r, 'a) eff \<Rightarrow> ('r skill_host, 'a) eff" where
  "on_registry m h = (let (r, g) = m (kh_registry h) in (r, h\<lparr>kh_registry := g\<rparr>))"

definition mark_activated ::
  "string \<Rightarrow> string \<Rightarrow> string \<Rightarrow> string list \<Rightarrow> string \<Rightarrow> skill_bindings \<Rightarrow> context_binding \<times> skill_bindings" where
  "mark_activated skill ref root resources mode bs = (case dict_get bs skill of
     Some b \<Rightarrow> (b, bs)
   | None \<Rightarrow> (let b = \<lparr>cb_skill = skill, cb_ref = ref, cb_root = root, cb_resources = resources, cb_mode = mode, cb_protected = True\<rparr>
       in (b, dict_set skill b bs)))"

definition is_already_active :: "string \<Rightarrow> skill_bindings \<Rightarrow> bool" where
  "is_already_active skill bs \<longleftrightarrow> dict_get bs skill \<noteq> None"

text \<open>The first binding with that reference.\<close>

fun protect_from_compaction :: "string \<Rightarrow> skill_bindings \<Rightarrow> skill_bindings" where
  "protect_from_compaction ref [] = []"
| "protect_from_compaction ref ((k, b) # bs) =
     (if cb_ref b = ref then (k, b\<lparr>cb_protected := True\<rparr>) # bs else (k, b) # protect_from_compaction ref bs)"

definition list_bound_resources :: "string \<Rightarrow> skill_bindings \<Rightarrow> string list" where
  "list_bound_resources skill bs = (case dict_get bs skill of None \<Rightarrow> [] | Some b \<Rightarrow> cb_resources b)"

definition render_skill_prompt ::
  "field_renderer \<Rightarrow> 'r skill_source \<Rightarrow> string \<Rightarrow> json_object \<Rightarrow> json_object \<Rightarrow> ('r skill_host, string) eff" where
  "render_skill_prompt render so i args ctx =
     bind (on_registry (so_load so i)) (\<lambda>s. lift (format_map render (dict_merge ctx args) (sk_content s)))"

definition activation_of :: "skill_definition \<Rightarrow> string \<Rightarrow> string \<Rightarrow> bool \<Rightarrow> context_binding \<Rightarrow> skill_bindings \<Rightarrow> activation_result" where
  "activation_of s body mode already b bs = \<lparr>ar_skill = sk_name s, ar_body = body, ar_mode = sk_mode s, ar_root = sk_root s,
     ar_resources = sk_resources s, ar_wrapped = True, ar_activation = mode,
     ar_metadata = [(''skill_id'', JStr (sk_id s)), (''scope'', JStr (sk_scope s)), (''source'', JStr (sk_source s)),
       (''trust_level'', JStr (sk_trust s)), (''diagnostics'', JList (map JStr (sk_diagnostics s))),
       (''activation_ref'', JStr (cb_ref b)), (''already_active'', JBool already),
       (''bound_resources'', JList (map JStr (list_bound_resources (sk_id s) bs))),
       (''compaction_protected'', JBool (cb_protected b)), (''metadata'', JDict (sk_metadata s))]\<rparr>"

definition activate_skill ::
  "field_renderer \<Rightarrow> 'r skill_source \<Rightarrow> string \<Rightarrow> json_object \<Rightarrow> json_object \<Rightarrow> string \<Rightarrow> ('r skill_host, activation_result) eff" where
  "activate_skill render so i args ctx mode =
     bind (on_registry (so_load so i)) (\<lambda>s.
     bind (gets (\<lambda>h. is_already_active (sk_id s) (kh_bindings h))) (\<lambda>already.
     bind (render_skill_prompt render so i args ctx) (\<lambda>body.
     bind (gets (\<lambda>h. mark_activated (sk_id s) (sk_id s @ '':'' @ mode) (sk_root s) (sk_resources s) mode (kh_bindings h))) (\<lambda>(b, bs).
     bind (modify (\<lambda>h. h\<lparr>kh_bindings := protect_from_compaction (cb_ref b) bs\<rparr>)) (\<lambda>_.
     gets (\<lambda>h. activation_of s body mode already b (kh_bindings h)))))))"

subsection \<open>The bridge\<close>

definition skill_command :: "skill_definition \<Rightarrow> command" where
  "skill_command s = \<lparr>cd_id = sk_id s, cd_name = sk_name s, cd_kind = CK_PROMPT, cd_description = sk_description s,
     cd_visibility = CV_MODEL, cd_source = ''skill'',
     cd_metadata = [(''skill_id'', JStr (sk_id s)), (''skill_source'', JStr (sk_source s)),
       (''activation_mode'', JStr (sk_activation s)), (''scope'', JStr (sk_scope s)), (''trust_level'', JStr (sk_trust s)),
       (''catalog_description'', JStr (sk_description s)), (''disclosure'', JStr (sk_disclosure s)),
       (''listed_resources'', JList (map JStr (sk_resources s))), (''diagnostics'', JList (map JStr (sk_diagnostics s))),
       (''metadata'', JDict (sk_metadata s))]\<rparr>"

definition list_model_invocable_skills :: "'r skill_source \<Rightarrow> ('r skill_host, command list) eff" where
  "list_model_invocable_skills so =
     bind (on_registry (so_discover so)) (\<lambda>skills. ret (map skill_command (filter sk_model skills)))"

definition invoke_skill ::
  "field_renderer \<Rightarrow> 'r skill_source \<Rightarrow> string \<Rightarrow> json_object \<Rightarrow> json_object \<Rightarrow> ('r skill_host, string) eff" where
  "invoke_skill render so i args ctx = render_skill_prompt render so i args ctx"

definition invoke_skill_wrapped ::
  "field_renderer \<Rightarrow> 'r skill_source \<Rightarrow> string \<Rightarrow> json_object \<Rightarrow> json_object \<Rightarrow> string \<Rightarrow> ('r skill_host, activation_result) eff" where
  "invoke_skill_wrapped render so i args ctx mode = activate_skill render so i args ctx mode"

subsection \<open>The skill tool\<close>

text \<open>
  \<^verbatim>\<open>tools/SkillTool\<close>: the tool through which the model invokes a skill, over the skills as its world.
\<close>

definition skill_schema :: json where
  "skill_schema = object_schema
     [(''skill_id'', string_property ''Identifier of the skill to invoke.'' [''openai-docs'', ''imagegen''] []),
      (''args'', JDict [(''type'', JStr ''object''), (''description'', JStr ''Arguments passed to the skill.''),
        (''additionalProperties'', JBool True)]),
      (''context'', JDict [(''type'', JStr ''object''), (''description'', JStr ''Additional runtime context for the skill.''),
        (''additionalProperties'', JBool True)])] [''skill_id'']"

definition skill_call ::
  "field_renderer \<Rightarrow> 'r skill_source \<Rightarrow> json_object \<Rightarrow> tool_context \<Rightarrow> 'r skill_host \<Rightarrow> (tool_error + tool_result) \<times> 'r skill_host" where
  "skill_call render so args ctx = tool_run
     (bind (lift (field_str args ''skill_id'')) (\<lambda>i.
      bind (invoke_skill render so i (field_dict args ''args'') (field_dict args ''context'')) (\<lambda>rendered.
      ret (tool_success ''Skill'' [JStr rendered] [(''skill_id'', JStr i)]))))"

definition skill_tool :: "field_renderer \<Rightarrow> 'r skill_source \<Rightarrow> 'r skill_host tool" where
  "skill_tool render so = builtin_tool ''Skill'' ''skill'' skill_schema (skill_call render so)"

end
