(* ===== verification/McpTools.thy ===== *)
theory McpTools
  imports McpClient ToolBase
begin

text \<open>
  MCP servers as tools: the plugin manifests, the clients built from them, the remote tools and their
  mounting of \<^verbatim>\<open>tools/mcp/integration.py\<close>, and the adapters of \<^verbatim>\<open>tools/mcp/runtime.py\<close>.  The manifest
  files below a plugin directory are given as two lists, the ones named \<open>mcp.json\<close> and the ones ending
  in \<open>.mcp.json\<close>, each in the order \<open>sorted\<close> puts its paths, with what \<open>json.loads\<close> makes of their text.
  A remote tool acts on its client as its world.
\<close>

subsection \<open>Manifests\<close>

record mcp_manifest =
  mmf_server :: string
  mmf_label :: string
  mmf_transport :: string
  mmf_endpoint :: "string option"
  mmf_command :: "string option"
  mmf_args :: "string list"
  mmf_env :: "(string, string) pydict"
  mmf_cwd :: "string option"
  mmf_auth :: json_object
  mmf_client :: json_object
  mmf_capabilities :: json_object
  mmf_fixtures :: "json_object list"
  mmf_path :: string

record manifest_file =
  mff_path :: string
  mff_parent :: string
  mff_content :: "py_error + json"

text \<open>\<open>a or b\<close> on JSON values.\<close>

definition json_or :: "json \<Rightarrow> json \<Rightarrow> json" where
  "json_or a b = (if truthy a then a else b)"

definition manifest_of :: "manifest_file \<Rightarrow> json_object \<Rightarrow> mcp_manifest option" where
  "manifest_of f d = (let sid = json_or (json_or (jget d ''server_id'') (jget d ''id'')) (JStr (mff_parent f));
       label = (if truthy (jget d ''label'') then py_str (jget d ''label'') else py_str sid) in
     case sid of
       JStr s \<Rightarrow> if py_strip s = [] then None
         else Some \<lparr>mmf_server = py_strip s, mmf_label = label, mmf_transport = field_text d ''transport'' ''http'',
           mmf_endpoint = as_str (jget d ''endpoint''), mmf_command = as_str (jget d ''command''),
           mmf_args = (case jget d ''args'' of JList l \<Rightarrow> map py_str l | _ \<Rightarrow> []),
           mmf_env = (case jget d ''env'' of JDict e \<Rightarrow> map (\<lambda>(k, v). (k, py_str v)) e | _ \<Rightarrow> []),
           mmf_cwd = as_str (jget d ''cwd''), mmf_auth = field_dict d ''auth'', mmf_client = field_dict d ''client_capabilities'',
           mmf_capabilities = field_dict d ''server_capabilities'',
           mmf_fixtures = (case jget d ''tools'' of JList l \<Rightarrow> List.map_filter as_dict l | _ \<Rightarrow> []), mmf_path = mff_path f\<rparr>
     | _ \<Rightarrow> None)"

fun load_manifests :: "manifest_file list \<Rightarrow> (string, mcp_manifest) pydict \<Rightarrow> py_error + (string, mcp_manifest) pydict" where
  "load_manifests [] ms = Inr ms"
| "load_manifests (f # fs) ms = ebind (mff_content f) (\<lambda>v. load_manifests fs (case v of
     JDict d \<Rightarrow> (case manifest_of f d of None \<Rightarrow> ms | Some m \<Rightarrow> dict_set (mmf_server m) m ms)
   | _ \<Rightarrow> ms))"

text \<open>The files named \<open>mcp.json\<close> and the ones ending in \<open>.mcp.json\<close>; \<open>None\<close> when the directory does not exist.\<close>

definition load_mcp_plugin_manifests ::
  "(manifest_file list \<times> manifest_file list) option \<Rightarrow> py_error + (string, mcp_manifest) pydict" where
  "load_mcp_plugin_manifests plugins = (case plugins of
     None \<Rightarrow> Inr [] | Some (named, suffixed) \<Rightarrow> load_manifests (named @ suffixed) [])"

subsection \<open>Clients\<close>

definition client_capabilities_of :: "json_object \<Rightarrow> mcp_client_capabilities" where
  "client_capabilities_of d = (let flag = (\<lambda>k x. truthy (dict_get_default d k (JBool x))) in
     \<lparr>mcc_prompts = flag ''prompts'' True, mcc_tools = flag ''tools'' True, mcc_resources = flag ''resources'' True,
      mcc_roots = flag ''roots'' False, mcc_sampling = flag ''sampling'' False, mcc_elicitation = flag ''elicitation'' False,
      mcc_tasks = flag ''tasks'' False, mcc_experimental = field_dict d ''experimental''\<rparr>)"

definition plain_env :: "'t mcp_transport \<Rightarrow> (nat \<Rightarrow> string) \<Rightarrow> 't mcp_env" where
  "plain_env tr uuid = \<lparr>mce_transport = tr, mce_auth = None, mce_roots_provider = False, mce_sampling_bridge = None,
     mce_elicitation_bridge = False, mce_capabilities = mcp_client_capabilities_default,
     mce_info = [(''name'', JStr ''openagent'')], mce_uuid = uuid\<rparr>"

text \<open>A fixture tool: its descriptor, and the handler that answers with the recorded result.\<close>

definition fixture_payload :: "json \<Rightarrow> json list" where
  "fixture_payload v = (case v of JList l \<Rightarrow> l | _ \<Rightarrow> [v])"

definition fixture_entry :: "json_object \<Rightarrow> (string \<times> mcp_tool_descriptor \<times> unit mcp_handler) option" where
  "fixture_entry t = (case jget t ''name'' of
     JStr n \<Rightarrow> if py_strip n = [] then None
       else Some (py_strip n,
         \<lparr>mtd_name = py_strip n,
          mtd_description = (case jget t ''description'' of JStr s \<Rightarrow> if py_strip s = [] then n else s | _ \<Rightarrow> n),
          mtd_schema = field_dict t ''input_schema'', mtd_metadata = []\<rparr>,
         (\<lambda>arguments w. (Inr \<lparr>tr_name = py_strip n, tr_success = True,
            tr_content = fixture_payload (dict_get_default t ''result'' (JList [])), tr_structured = None,
            tr_metadata = None, tr_persisted = None, tr_truncated = None\<rparr>, w)))
   | _ \<Rightarrow> None)"

definition manifest_descriptor :: "mcp_manifest \<Rightarrow> string \<Rightarrow> string option \<Rightarrow> mcp_server_descriptor" where
  "manifest_descriptor m transport endpoint = \<lparr>msd_id = mmf_server m, msd_label = mmf_label m, msd_endpoint = endpoint,
     msd_transport = transport, msd_capabilities = []\<rparr>"

definition fixture_connection :: "mcp_manifest \<Rightarrow> unit mcp_server_connection" where
  "fixture_connection m = \<lparr>mcn_descriptor = manifest_descriptor m ''inmemory'' None,
     mcn_tools = dict_merge [] (List.map_filter fixture_entry (mmf_fixtures m)), mcn_prompts = [], mcn_resources = [],
     mcn_client_capabilities = mcp_client_capabilities_default, mcn_server_capabilities = mcp_server_capabilities_default,
     mcn_version = protocol_version, mcn_tool_page = 0, mcn_prompt_page = 0, mcn_resource_page = 0, mcn_roots = [],
     mcn_require_sampling_tools = True, mcn_extra_scopes = [], mcn_subscriptions = [], mcn_notifications = []\<rparr>"

datatype ('p, 'n) built_client =
    BuiltInMemory "unit inmemory mcp_env" "unit inmemory mcp_client"
  | BuiltHttp "'n http_state mcp_env" "'n http_state mcp_client"
  | BuiltStdio "('p, 'n) stdio_state mcp_env" "('p, 'n) stdio_state mcp_client"

record ('p, 'n) mcp_host =
  mho_render :: field_renderer
  mho_uuid :: "nat \<Rightarrow> string"
  mho_loads :: loader
  mho_urlopen :: "'n network"
  mho_stdio :: "('p, 'n) stdio_ops"

text \<open>\<open>_build_inmemory_client\<close>: connect the fixture, then initialize and announce.\<close>

definition build_inmemory_client :: "('p, 'n) mcp_host \<Rightarrow> mcp_manifest \<Rightarrow> (py_error + unit) \<times> unit inmemory mcp_client" where
  "build_inmemory_client host m =
     (let env = plain_env (inmemory_transport (mho_render host)) (mho_uuid host); conn = fixture_connection m in
      bind (on_mcp (im_connect conn)) (\<lambda>_.
      bind (mcp_initialize env (mcn_descriptor conn) None mcp_client_capabilities_default) (\<lambda>h.
      send_initialized env h)) (new_mcp_client (inmemory_new ())))"

definition build_http_client :: "('p, 'n) mcp_host \<Rightarrow> mcp_manifest \<Rightarrow> string \<Rightarrow> 'n \<Rightarrow> (py_error + unit) \<times> 'n http_state mcp_client" where
  "build_http_client host m endpoint n =
     (let env = plain_env (http_transport (mho_loads host) (mho_urlopen host)) (mho_uuid host) in
      bind (mcp_initialize env (manifest_descriptor m ''http'' (Some endpoint)) (Some (HttpConfig (http_config_of endpoint)))
        (client_capabilities_of (mmf_client m))) (\<lambda>h.
      send_initialized env h) (new_mcp_client \<lparr>hts_configs = [], hts_network = n\<rparr>))"

text \<open>The stdio client, from a configuration; the processes are those of the host's world.\<close>

definition build_stdio_client ::
  "('p, 'n) mcp_host \<Rightarrow> mcp_manifest \<Rightarrow> stdio_config \<Rightarrow> 'n \<Rightarrow> (py_error + ('p, 'n) built_client) \<times> 'n" where
  "build_stdio_client host m config n =
     (let env = plain_env (stdio_transport (mho_loads host) (mho_stdio host)) (mho_uuid host) in
      case bind (mcp_initialize env (manifest_descriptor m ''stdio'' None) (Some (StdioConfig config))
             (client_capabilities_of (mmf_client m))) (send_initialized env)
           (new_mcp_client \<lparr>sts_processes = [], sts_outside = n\<rparr>) of
        (Inl e, c) \<Rightarrow> (Inl e, sts_outside (mw_transport (mcl_world c)))
      | (Inr _, c) \<Rightarrow> (Inr (BuiltStdio env c), sts_outside (mw_transport (mcl_world c))))"

text \<open>
  \<open>_build_client\<close>.  For a child process the code passes \<open>args\<close> to \<open>StdioTransportConfig\<close>, which has no
  such field: the constructor raises before anything is opened.  (The command is one string there,
  here the one-element list.)
\<close>

definition keyword_call :: "string list \<Rightarrow> string list \<Rightarrow> string list \<Rightarrow> py_error + unit" where
  "keyword_call required optional passed = check_fields required optional (map (\<lambda>k. (k, JNull)) passed)"

definition stdio_config_call :: "string \<Rightarrow> mcp_manifest \<Rightarrow> py_error + stdio_config" where
  "stdio_config_call command m =
     ebind (keyword_call [''command''] [''cwd'', ''env''] [''command'', ''args'', ''cwd'', ''env'']) (\<lambda>_.
     Inr \<lparr>stc_command = [command], stc_cwd = mmf_cwd m, stc_env = mmf_env m\<rparr>)"

definition build_client :: "('p, 'n) mcp_host \<Rightarrow> mcp_manifest \<Rightarrow> 'n \<Rightarrow> (py_error + ('p, 'n) built_client) \<times> 'n" where
  "build_client host m n = (let transport = py_lower (py_strip (mmf_transport m)) in
     if transport = ''inmemory'' then
       (case build_inmemory_client host m of
          (Inl e, _) \<Rightarrow> (Inl e, n)
        | (Inr _, c) \<Rightarrow> (Inr (BuiltInMemory (plain_env (inmemory_transport (mho_render host)) (mho_uuid host)) c), n))
     else if transport = ''stdio'' then
       (case mmf_command m of
          None \<Rightarrow> (Inl (RuntimeErr (''MCP stdio manifest is missing command: '' @ mmf_path m)), n)
        | Some command \<Rightarrow>
            if command = [] then (Inl (RuntimeErr (''MCP stdio manifest is missing command: '' @ mmf_path m)), n)
            else (case stdio_config_call command m of
                Inl e \<Rightarrow> (Inl e, n)
              | Inr config \<Rightarrow> build_stdio_client host m config n))
     else if transport = ''http'' then
       (case mmf_endpoint m of
          None \<Rightarrow> (Inl (RuntimeErr (''MCP http manifest is missing endpoint: '' @ mmf_path m)), n)
        | Some endpoint \<Rightarrow>
            if endpoint = [] then (Inl (RuntimeErr (''MCP http manifest is missing endpoint: '' @ mmf_path m)), n)
            else (case build_http_client host m endpoint n of
                (Inl e, c) \<Rightarrow> (Inl e, hts_network (mw_transport (mcl_world c)))
              | (Inr _, c) \<Rightarrow> (Inr (BuiltHttp (plain_env (http_transport (mho_loads host) (mho_urlopen host)) (mho_uuid host)) c),
                  hts_network (mw_transport (mcl_world c)))))
     else (Inl (RuntimeErr (''Unsupported MCP transport: '' @ mmf_transport m)), n))"

subsection \<open>Remote tools\<close>

text \<open>\<open>McpRemoteTool\<close>, over the client it calls through.\<close>

definition remote_tool_name :: "string \<Rightarrow> string \<Rightarrow> string" where
  "remote_tool_name sid name = ''mcp__'' @ sid @ ''__'' @ name"

definition remote_tool :: "'t mcp_env \<Rightarrow> string \<Rightarrow> mcp_tool_descriptor \<Rightarrow> 't mcp_client tool" where
  "remote_tool env sid d = \<lparr>tool_name = remote_tool_name sid (mtd_name d), tool_aliases = [], tool_schema = JDict (mtd_schema d),
     tool_source_attr = Some ''mcp_adapter'', tool_visibility_attr = Some ''both'',
     tool_provenance = [(''origin'', JStr ''mcp''), (''server_id'', JStr sid)], tool_enabled_fn = None, tool_read_only_fn = None,
     tool_destructive = False, tool_concurrency_fn = Some (\<lambda>_. False), tool_validator = None, tool_checker = (\<lambda>_ _. ''allow''),
     tool_mapper = None, tool_persists = False,
     tool_call_fn = (\<lambda>args ctx. tool_run (mcp_call_tool env sid (mtd_name d) args)), tool_stream_fn = None\<rparr>"

subsection \<open>Mounting\<close>

record mounted_server =
  mts_server :: string
  mts_path :: string
  mts_tools :: "string list"

text \<open>The tools of a built client, and the state it is left in; \<open>None\<close> when its server lists for ever.\<close>

definition list_built ::
  "('p, 'n) built_client \<Rightarrow> string \<Rightarrow> 'n \<Rightarrow> ((py_error + mcp_tool_descriptor list) \<times> ('p, 'n) built_client \<times> 'n) option" where
  "list_built b sid n = (case b of
     BuiltInMemory env c \<Rightarrow> map_option (\<lambda>(r, c'). (r, BuiltInMemory env c', n)) (mcp_list_tools env sid c)
   | BuiltHttp env c \<Rightarrow> map_option (\<lambda>(r, c'). (r, BuiltHttp env c', hts_network (mw_transport (mcl_world c')))) (mcp_list_tools env sid c)
   | BuiltStdio env c \<Rightarrow> map_option (\<lambda>(r, c'). (r, BuiltStdio env c', sts_outside (mw_transport (mcl_world c')))) (mcp_list_tools env sid c))"

text \<open>
  \<open>mount_role_mcp_tools\<close>: per server the client, the descriptors of its tools and the record of the
  mount; the first failure ends it.
\<close>

type_synonym ('p, 'n) mount = "(('p, 'n) built_client \<times> mcp_tool_descriptor list \<times> mounted_server) list"

fun mount_servers ::
  "('p, 'n) mcp_host \<Rightarrow> (string, mcp_manifest) pydict \<Rightarrow> string list \<Rightarrow> ('p, 'n) mount \<Rightarrow> 'n
     \<Rightarrow> ((py_error + ('p, 'n) mount) \<times> 'n) option" where
  "mount_servers host ms [] acc n = Some (Inr acc, n)"
| "mount_servers host ms (sid # sids) acc n = (case dict_get ms sid of
     None \<Rightarrow> Some (Inl (AppError ''FileNotFoundError'' (''MCP manifest not found for role-mounted server: '' @ sid)), n)
   | Some m \<Rightarrow> (case build_client host m n of
       (Inl e, n') \<Rightarrow> Some (Inl e, n')
     | (Inr b, n') \<Rightarrow> (case list_built b (mmf_server m) n' of
         None \<Rightarrow> None
       | Some (Inl e, _, n'') \<Rightarrow> Some (Inl e, n'')
       | Some (Inr ds, b', n'') \<Rightarrow> mount_servers host ms sids
           (acc @ [(b', ds, \<lparr>mts_server = mmf_server m, mts_path = mmf_path m, mts_tools = map mtd_name ds\<rparr>)]) n'')))"

definition mount_role_mcp_tools ::
  "('p, 'n) mcp_host \<Rightarrow> (manifest_file list \<times> manifest_file list) option \<Rightarrow> string list \<Rightarrow> 'n
     \<Rightarrow> ((py_error + ('p, 'n) mount) \<times> 'n) option" where
  "mount_role_mcp_tools host plugins sids n = (case load_mcp_plugin_manifests plugins of
     Inl e \<Rightarrow> Some (Inl e, n) | Inr ms \<Rightarrow> mount_servers host ms sids [] n)"

subsection \<open>Adapters\<close>

definition adapt_mcp_tool :: "string \<Rightarrow> mcp_tool_descriptor \<Rightarrow> mcp_tool_descriptor" where
  "adapt_mcp_tool sid d = d\<lparr>mtd_description := ''[mcp:'' @ sid @ ''] '' @ mtd_description d,
     mtd_metadata := dict_set ''capability_kind'' (JStr ''tool'') (dict_set ''server_id'' (JStr sid) (mtd_metadata d))\<rparr>"

definition adapt_mcp_resource :: "string \<Rightarrow> mcp_resource_descriptor \<Rightarrow> json_object" where
  "adapt_mcp_resource sid r = dict_merge [(''server_id'', JStr sid), (''uri'', JStr (mrd_uri r)), (''name'', JStr (mrd_name r)),
     (''description'', JStr (mrd_description r)), (''mime_type'', JStr (mrd_mime r)), (''content'', JStr (mrd_content r)),
     (''capability_kind'', JStr ''resource'')] (mrd_metadata r)"

definition progress_event :: "string \<Rightarrow> string \<Rightarrow> json_object \<Rightarrow> runtime_event" where
  "progress_event sid trailer payload = \<lparr>ev_type = TOOL_PROGRESS, ev_id = sid @ '':'' @ trailer, ev_timestamp = ''1970-01-01T00:00:00Z'',
     ev_session = sid, ev_payload = dict_merge [(''server_id'', JStr sid)] payload, ev_agent = None, ev_task = None\<rparr>"

definition project_resource_notification :: "string \<Rightarrow> json_object \<Rightarrow> runtime_event" where
  "project_resource_notification sid n = progress_event sid (field_text n ''kind'' ''resources/list_changed'') n"

definition project_log_event :: "string \<Rightarrow> mcp_log_event \<Rightarrow> runtime_event" where
  "project_log_event sid e = progress_event sid (''log:'' @ mle_level e) (mcp_log_event_to_dict e)"

definition project_task_handle :: "string \<Rightarrow> mcp_task_handle \<Rightarrow> runtime_event" where
  "project_task_handle sid t = progress_event sid (''task:'' @ mth_task t) (mcp_task_handle_to_dict t)"

end
