(* ===== verification/Roles.thy ===== *)
theory Roles
  imports Skills McpTools
begin

text \<open>
  Roles: \<^verbatim>\<open>role/frontmatter.py\<close>, \<^verbatim>\<open>loader.py\<close> and \<^verbatim>\<open>runtime.py\<close>.  A role is read from the markdown files
  of its directory; at run time its skills become a bridge over a registry that serves them only, and
  its MCP servers are mounted.  Role identifiers are taken to name a directory of the roles directory;
  the files of a role are a parameter.
\<close>

subsection \<open>Frontmatter\<close>

text \<open>A scalar of the role frontmatter: lists, mappings, quoted text, booleans, integers.\<close>

function role_scalar :: "string \<Rightarrow> json" where
  "role_scalar v = (let inner = py_strip (butlast (tl v)) in
     if v \<noteq> [] \<and> hd v = CHR ''['' \<and> last v = CHR '']'' then
       (if inner = [] then JList [] else JList (map (\<lambda>p. role_scalar (py_strip p)) (split_on (CHR '','') inner)))
     else if v \<noteq> [] \<and> hd v = lbrace \<and> last v = rbrace then
       (if inner = [] then JDict []
        else JDict (dict_merge [] (map (\<lambda>p. (py_strip (fst (partition_at (CHR '':'') p)),
            role_scalar (py_strip (snd (partition_at (CHR '':'') p)))))
          (filter (\<lambda>p. CHR '':'' \<in> set p) (split_on (CHR '','') inner)))))
     else if 2 \<le> length v \<and> unquoted v then JStr (butlast (tl v))
     else if py_lower v = ''true'' then JBool True
     else if py_lower v = ''false'' then JBool False
     else case py_int v of Inr i \<Rightarrow> JInt i | Inl _ \<Rightarrow> JStr v)"
  by pat_completeness auto

lemma inner_part_length:
  assumes "v \<noteq> []" "p \<in> set (split_on c (py_strip (butlast (tl v))))"
  shows "length (py_strip p) < length v" "length (py_strip (snd (partition_at d p))) < length v"
proof -
  have "length p \<le> length (py_strip (butlast (tl v)))" using assms(2) by (rule split_on_part_length)
  also have "\<dots> \<le> length (butlast (tl v))" by (rule py_strip_length)
  also have "\<dots> < length v" using assms(1) by (cases v) auto
  finally have p: "length p < length v" .
  then show "length (py_strip p) < length v" using py_strip_length [of p] by simp
  have "length (snd (partition_at d p)) \<le> length p"
    by (simp add: partition_at_def) (metis diff_le_self le_trans length_dropWhile_le)
  then show "length (py_strip (snd (partition_at d p))) < length v"
    using p py_strip_length [of "snd (partition_at d p)"] by simp
qed

termination role_scalar by (relation "measure length") (auto intro: inner_part_length)

declare role_scalar.simps [simp del]

text \<open>The dictionary so far and the key a list item belongs to.\<close>

definition role_line :: "string \<Rightarrow> json_object \<times> string option \<Rightarrow> json_object \<times> string option" where
  "role_line raw acc = (let (result, current) = acc; l = py_rstrip raw; s = py_strip l in
     if s = [] \<or> py_startswith s ''#'' then acc
     else case (py_startswith l ''  - '', current) of
         (True, Some k) \<Rightarrow>
           ((case dict_get_default result k (JList []) of
               JList items \<Rightarrow> dict_set k (JList (items @ [role_scalar (py_strip (remove_prefix ''- '' s))])) result
             | _ \<Rightarrow> result), current)
       | _ \<Rightarrow>
           if CHR '':'' \<notin> set s then acc
           else let (k, v) = partition_at (CHR '':'') s; key = py_strip k; v' = py_strip v in
             (dict_set key (if v' = [] then JList [] else role_scalar v') result, Some key))"

definition parse_role_block :: "string \<Rightarrow> json_object" where
  "parse_role_block block = fst (fold role_line (py_splitlines block) ([], None))"

definition parse_markdown_frontmatter :: "string \<Rightarrow> json_object \<times> string" where
  "parse_markdown_frontmatter raw =
     (if \<not> py_startswith raw (''---'' @ [newline]) \<and> \<not> py_startswith raw (''---'' @ [carriage_return, newline]) then ([], raw)
      else case py_splitlines raw of
        [] \<Rightarrow> ([], raw)
      | first # ls \<Rightarrow>
          if \<not> is_fence first then ([], raw)
          else (case dropWhile (\<lambda>l. \<not> is_fence l) ls of
            [] \<Rightarrow> ([], raw)
          | _ # rest \<Rightarrow> (parse_role_block (py_join [newline] (takeWhile (\<lambda>l. \<not> is_fence l) ls)),
              dropWhile (\<lambda>c. c = newline) (py_join [newline] rest))))"

subsection \<open>Definitions\<close>

record role_ref =
  rrf_id :: string
  rrf_metadata :: json_object

record role_capabilities =
  rcp_models :: "string list"
  rcp_skills :: "role_ref list"
  rcp_mcps :: "role_ref list"

record role_memory =
  rmy_root :: string
  rmy_records :: string
  rmy_user :: string
  rmy_topic :: string

record role_definition =
  rde_id :: string
  rde_root :: string
  rde_role_path :: string
  rde_user_path :: string
  rde_role_body :: string
  rde_user_body :: string
  rde_capabilities :: role_capabilities
  rde_memory :: role_memory
  rde_metadata :: json_object

record role_files =
  rfs_exists :: "string \<Rightarrow> bool"
  rfs_read :: "string \<Rightarrow> py_error + string"

definition default_role_id :: string where
  "default_role_id = ''default''"

definition resolve_role_root :: "string \<Rightarrow> string \<Rightarrow> string" where
  "resolve_role_root openagent_root role = openagent_root @ ''/roles/'' @ role"

definition role_memory_of :: "string \<Rightarrow> role_memory" where
  "role_memory_of root = \<lparr>rmy_root = root @ ''/memory'', rmy_records = root @ ''/memory/records'',
     rmy_user = root @ ''/memory/MEMORY.md'', rmy_topic = root @ ''/memory/TOPIC.md''\<rparr>"

definition role_strings :: "json \<Rightarrow> string list" where
  "role_strings v = (case v of
     JList l \<Rightarrow> filter (\<lambda>s. s \<noteq> []) (map (\<lambda>x. py_strip (py_str x)) l)
   | JStr s \<Rightarrow> if py_strip s \<noteq> [] then [py_strip s] else []
   | _ \<Rightarrow> [])"

text \<open>\<open>_skill_refs\<close> and \<open>_mcp_refs\<close> differ in the name of the identifier's key.\<close>

definition role_ref_of :: "string \<Rightarrow> json \<Rightarrow> role_ref option" where
  "role_ref_of key v = (case v of
     JStr s \<Rightarrow> if py_strip s \<noteq> [] then Some \<lparr>rrf_id = py_strip s, rrf_metadata = []\<rparr> else None
   | JDict d \<Rightarrow> (case json_or (json_or (jget d key) (jget d ''id'')) (jget d ''name'') of
         JStr s \<Rightarrow> if py_strip s \<noteq> []
           then Some \<lparr>rrf_id = py_strip s, rrf_metadata = filter (\<lambda>kv. fst kv \<notin> set [key, ''id'', ''name'']) d\<rparr> else None
       | _ \<Rightarrow> None)
   | _ \<Rightarrow> None)"

definition role_refs :: "string \<Rightarrow> json \<Rightarrow> role_ref list" where
  "role_refs key v = (case v of JList l \<Rightarrow> List.map_filter (role_ref_of key) l | _ \<Rightarrow> [])"

definition read_if_exists :: "role_files \<Rightarrow> string \<Rightarrow> py_error + string" where
  "read_if_exists fs path = (if rfs_exists fs path then rfs_read fs path else Inr [])"

abbreviation FileNotFoundError :: "string \<Rightarrow> py_error" where
  "FileNotFoundError \<equiv> AppError ''FileNotFoundError''"

definition requested_role :: "string option \<Rightarrow> string" where
  "requested_role role_id = (case role_id of None \<Rightarrow> default_role_id
     | Some s \<Rightarrow> if py_strip s \<noteq> [] then py_strip s else default_role_id)"

definition default_role_definition :: "string \<Rightarrow> role_definition" where
  "default_role_definition root = \<lparr>rde_id = default_role_id, rde_root = root, rde_role_path = root @ ''/ROLE.md'',
     rde_user_path = root @ ''/USER.md'', rde_role_body = [], rde_user_body = [],
     rde_capabilities = \<lparr>rcp_models = [], rcp_skills = [], rcp_mcps = []\<rparr>, rde_memory = role_memory_of root, rde_metadata = []\<rparr>"

definition role_of_files :: "string \<Rightarrow> string \<Rightarrow> string \<Rightarrow> string \<Rightarrow> role_definition" where
  "role_of_files role root role_text user_body = (let (fm, body) = parse_markdown_frontmatter role_text in
     \<lparr>rde_id = (case jget fm ''role_id'' of JStr s \<Rightarrow> if py_strip s \<noteq> [] then py_strip s else role | _ \<Rightarrow> role),
      rde_root = root, rde_role_path = root @ ''/ROLE.md'', rde_user_path = root @ ''/USER.md'', rde_role_body = body,
      rde_user_body = user_body,
      rde_capabilities = \<lparr>rcp_models = role_strings (jget fm ''recommended_models''),
        rcp_skills = role_refs ''skill_id'' (jget fm ''skills''), rcp_mcps = role_refs ''server_id'' (jget fm ''mcps'')\<rparr>,
      rde_memory = role_memory_of root,
      rde_metadata = filter (\<lambda>kv. fst kv \<notin> set [''role_id'', ''recommended_models'', ''skills'', ''mcps'']) fm\<rparr>)"

definition load_role_definition :: "role_files \<Rightarrow> string \<Rightarrow> string option \<Rightarrow> py_error + role_definition" where
  "load_role_definition fs openagent_root role_id =
     (let role = requested_role role_id; root = resolve_role_root openagent_root role in
      if \<not> rfs_exists fs (root @ ''/ROLE.md'') \<and> \<not> rfs_exists fs (root @ ''/USER.md'') then
        (if role = default_role_id then Inr (default_role_definition root)
         else Inl (FileNotFoundError (''Role is not defined: '' @ role)))
      else ebind (read_if_exists fs (root @ ''/ROLE.md'')) (\<lambda>role_text.
        ebind (read_if_exists fs (root @ ''/USER.md'')) (\<lambda>user_body.
        if user_body = [] \<and> role \<noteq> default_role_id
        then Inl (FileNotFoundError (''Role USER.md is missing: '' @ role))
        else Inr (role_of_files role root role_text user_body))))"

subsection \<open>The role at run time\<close>

text \<open>\<open>_RoleSkillRegistry\<close>.\<close>

definition role_skills :: "string list \<Rightarrow> 'r skill_source \<Rightarrow> 'r skill_source" where
  "role_skills allowed so = \<lparr>
     so_discover = bind (so_discover so) (\<lambda>ss. ret (filter (\<lambda>s. sk_id s \<in> set allowed) ss)),
     so_load = (\<lambda>i. if i \<notin> set allowed then throw (KeyError (''Role skill is not mounted: '' @ i)) else so_load so i)\<rparr>"

record role_bridge =
  rbr_allowed :: "string list"
  rbr_host :: "skill_registry skill_host"

definition resolve_skill_bridge :: "skill_files \<Rightarrow> role_definition \<Rightarrow> string \<Rightarrow> py_error + role_bridge option" where
  "resolve_skill_bridge fs role plugins = (let ids = map rrf_id (rcp_skills (rde_capabilities role)) in
     if ids = [] then Inr None
     else case discover_skills fs (new_skill_registry [\<lparr>rt_path = plugins, rt_scope = ''plugin'', rt_source = ''plugin'', rt_trust = ''trusted''\<rparr>]) of
         (Inl e, _) \<Rightarrow> Inl e
       | (Inr skills, g) \<Rightarrow> (let missing = filter (\<lambda>i. i \<notin> set (map sk_id skills)) ids in
           if missing \<noteq> []
           then Inl (FileNotFoundError (''Role skill refs could not be resolved from agent plugins root: '' @ py_join '', '' (sort missing)))
           else Inr (Some \<lparr>rbr_allowed = ids, rbr_host = \<lparr>kh_registry = g, kh_bindings = []\<rparr>\<rparr>)))"

record ('p, 'n) role_runtime =
  rrn_role :: role_definition
  rrn_bridge :: "role_bridge option"
  rrn_mounted :: "('p, 'n) mount"

definition resolve_role_runtime ::
  "skill_files \<Rightarrow> ('p, 'n) mcp_host \<Rightarrow> (manifest_file list \<times> manifest_file list) option \<Rightarrow> role_definition \<Rightarrow> string \<Rightarrow> 'n
     \<Rightarrow> ((py_error + ('p, 'n) role_runtime) \<times> 'n) option" where
  "resolve_role_runtime fs host manifests role plugins n = (case resolve_skill_bridge fs role plugins of
     Inl e \<Rightarrow> Some (Inl e, n)
   | Inr bridge \<Rightarrow> (let servers = map rrf_id (rcp_mcps (rde_capabilities role)) in
       if servers = [] then Some (Inr \<lparr>rrn_role = role, rrn_bridge = bridge, rrn_mounted = []\<rparr>, n)
       else (case mount_role_mcp_tools host manifests servers n of
           None \<Rightarrow> None
         | Some (Inl e, n') \<Rightarrow> Some (Inl e, n')
         | Some (Inr ms, n') \<Rightarrow> Some (Inr \<lparr>rrn_role = role, rrn_bridge = bridge, rrn_mounted = ms\<rparr>, n'))))"

text \<open>What the role's context provider names as always loaded.\<close>

definition role_always_loaded :: "('p, 'n) role_runtime \<Rightarrow> string list" where
  "role_always_loaded r = (let caps = rde_capabilities (rrn_role r) in
     map rrf_id (rcp_skills caps) @ map (\<lambda>(_, _, s). ''mcp:'' @ mts_server s) (rrn_mounted r)
       @ map (\<lambda>m. ''model:'' @ m) (rcp_models caps))"

end
