(* ===== verification/SkillProps.thy ===== *)
theory SkillProps
  imports Skills "HOL-Library.Multiset"
begin

text \<open>
  What skills promise.  Discovery keeps, for every identifier, the skill of least scope rank and then
  least directory, whatever order the directory walk has.  \<open>skill_source_law\<close> is what the activator and
  the bridge rely on in a registry: it gives the skill asked for, and only skills it offers.
\<close>

declare map_of_eq_Some_iff [simp del]

subsection \<open>Precedence\<close>

text \<open>A skill up to the notes discovery leaves on a winner.\<close>

definition skill_core :: "skill_definition \<Rightarrow> skill_definition" where
  "skill_core s = s\<lparr>sk_diagnostics := [], sk_metadata := []\<rparr>"

lemma skill_core_mark [simp]: "skill_core (mark_shadow w l) = skill_core w"
  by (simp add: skill_core_def mark_shadow_def)

lemma mark_shadow_fields [simp]:
  "sk_id (mark_shadow w l) = sk_id w" "sk_scope (mark_shadow w l) = sk_scope w" "sk_root (mark_shadow w l) = sk_root w"
  "sk_trust (mark_shadow w l) = sk_trust w" "sk_model (mark_shadow w l) = sk_model w"
  by (simp_all add: mark_shadow_def)

lemma skill_core_fields:
  "skill_core s = skill_core t \<Longrightarrow> sk_id s = sk_id t \<and> sk_scope s = sk_scope t \<and> sk_root s = sk_root t
     \<and> sk_trust s = sk_trust t \<and> sk_model s = sk_model t \<and> sk_content s = sk_content t"
  by (auto simp: skill_core_def dest: arg_cong [where f = sk_id] arg_cong [where f = sk_scope] arg_cong [where f = sk_root]
      arg_cong [where f = sk_trust] arg_cong [where f = sk_model] arg_cong [where f = sk_content])

definition ranks_before :: "skill_definition \<Rightarrow> skill_definition \<Rightarrow> bool" where
  "ranks_before s t \<longleftrightarrow> scope_precedence (sk_scope s) < scope_precedence (sk_scope t)
     \<or> scope_precedence (sk_scope s) = scope_precedence (sk_scope t) \<and> sk_root s \<le> sk_root t"

lemma ranks_before_refl [simp]: "ranks_before s s"
  by (simp add: ranks_before_def)

lemma ranks_before_trans: "ranks_before s t \<Longrightarrow> ranks_before t u \<Longrightarrow> ranks_before s u"
  by (auto simp: ranks_before_def)

lemma resolve_shadow_cases:
  "resolve_shadow e c = (w, l) \<Longrightarrow> (w = e \<and> l = c \<or> w = c \<and> l = e) \<and> ranks_before w e \<and> ranks_before w c"
  by (auto simp: resolve_shadow_def ranks_before_def Let_def split: if_splits)

text \<open>\<open>found\<close> holds, under each identifier, the best of the candidates \<open>cs\<close>.\<close>

definition holds_best :: "skill_definition list \<Rightarrow> (string, skill_definition) pydict \<Rightarrow> bool" where
  "holds_best cs found \<longleftrightarrow> wf_dict found
     \<and> (\<forall>i. dict_get found i = None \<longleftrightarrow> i \<notin> sk_id ` set cs)
     \<and> (\<forall>i s. dict_get found i = Some s \<longrightarrow> sk_id s = i \<and> (\<exists>c \<in> set cs. skill_core s = skill_core c)
          \<and> (\<forall>c \<in> set cs. sk_id c = i \<longrightarrow> ranks_before s c))"

lemma ranks_before_core: "skill_core s = skill_core t \<Longrightarrow> ranks_before s u = ranks_before t u"
  by (auto dest: skill_core_fields simp: ranks_before_def)

lemma holds_bestD:
  assumes "holds_best cs found"
  shows "wf_dict found" "dict_get found i = None \<longleftrightarrow> i \<notin> sk_id ` set cs"
    "dict_get found i = Some s \<Longrightarrow> sk_id s = i"
    "dict_get found i = Some s \<Longrightarrow> \<exists>c \<in> set cs. skill_core s = skill_core c"
    "dict_get found i = Some s \<Longrightarrow> c \<in> set cs \<Longrightarrow> sk_id c = i \<Longrightarrow> ranks_before s c"
  using assms unfolding holds_best_def by blast+

lemma holds_best_update:
  assumes "holds_best cs found" "sk_id w = sk_id c" "\<exists>c' \<in> set (cs @ [c]). skill_core w = skill_core c'"
    and "\<And>c'. c' \<in> set (cs @ [c]) \<Longrightarrow> sk_id c' = sk_id c \<Longrightarrow> ranks_before w c'"
  shows "holds_best (cs @ [c]) (dict_set (sk_id c) w found)"
  unfolding holds_best_def
proof (intro conjI allI impI)
  note h = holds_bestD [OF assms(1)]
  show "wf_dict (dict_set (sk_id c) w found)" using h(1) by simp
  fix j
  show "(dict_get (dict_set (sk_id c) w found) j = None) = (j \<notin> sk_id ` set (cs @ [c]))" using h(2) [of j] by auto
  fix s assume s: "dict_get (dict_set (sk_id c) w found) j = Some s"
  show "sk_id s = j" using s h(3) [of j s] assms(2) by (auto split: if_splits)
  show "\<exists>c' \<in> set (cs @ [c]). skill_core s = skill_core c'"
    using s h(4) [of j s] assms(3) by (cases "j = sk_id c") auto
  show "\<forall>c' \<in> set (cs @ [c]). sk_id c' = j \<longrightarrow> ranks_before s c'"
    using s h(5) [of j s] assms(4) by (cases "j = sk_id c") auto
qed

lemma add_candidate_best:
  assumes "holds_best cs found"
  shows "holds_best (cs @ [c]) (add_candidate c found)"
proof (cases "dict_get found (sk_id c)")
  case None
  note h = holds_bestD [OF assms]
  have "ranks_before c c'" if "c' \<in> set (cs @ [c])" "sk_id c' = sk_id c" for c'
  proof -
    have "c' \<notin> set cs" using None that(2) h(2) [of "sk_id c"] by (metis image_eqI)
    then show ?thesis using that(1) by simp
  qed
  then show ?thesis unfolding add_candidate_def None option.case by (intro holds_best_update [OF assms]) auto
next
  case (Some e)
  note h = holds_bestD [OF assms]
  obtain w l where w: "resolve_shadow e c = (w, l)" by (cases "resolve_shadow e c")
  note wl = resolve_shadow_cases [OF w]
  have i: "sk_id w = sk_id c" using wl h(3) [OF Some] by auto
  have best: "ranks_before (mark_shadow w l) c'" if "c' \<in> set (cs @ [c])" "sk_id c' = sk_id c" for c'
  proof -
    have "ranks_before w c'" using that wl h(5) [OF Some, of c'] ranks_before_trans [of w e c'] by auto
    then show ?thesis by (simp add: ranks_before_def)
  qed
  have "\<exists>c' \<in> set (cs @ [c]). skill_core (mark_shadow w l) = skill_core c'" using wl h(4) [OF Some] by auto
  then have "holds_best (cs @ [c]) (dict_set (sk_id c) (mark_shadow w l) found)"
    using best i by (intro holds_best_update [OF assms]) auto
  then show ?thesis by (simp add: add_candidate_def Some w i)
qed

text \<open>The skills the references load, in order.\<close>

fun loaded_skills :: "skill_files \<Rightarrow> discovered_ref list \<Rightarrow> skill_definition list" where
  "loaded_skills fs [] = []"
| "loaded_skills fs (r # rs) = (case load_from_ref fs r of Inr (Some s) \<Rightarrow> [s] | _ \<Rightarrow> []) @ loaded_skills fs rs"

lemma discover_refs_best:
  "discover_refs fs rs found = Inr found' \<Longrightarrow> holds_best cs found \<Longrightarrow> holds_best (cs @ loaded_skills fs rs) found'"
proof (induction fs rs found arbitrary: cs rule: discover_refs.induct)
  case (2 fs r rs found)
  from "2.prems"(1) obtain c where c: "load_from_ref fs r = Inr c"
    "discover_refs fs rs (case c of None \<Rightarrow> found | Some s \<Rightarrow> add_candidate s found) = Inr found'"
    by (auto simp: ebind_Inr_iff)
  show ?case
  proof (cases c)
    case None
    with c "2.IH" [of None cs] "2.prems"(2) show ?thesis by simp
  next
    case (Some s)
    with c "2.IH" [of "Some s" "cs @ [s]"] add_candidate_best [OF "2.prems"(2), of s] show ?thesis by simp
  qed
qed simp

lemma holds_best_Nil: "holds_best [] []"
  by (simp add: holds_best_def)

lemma loaded_skills_set: "set (loaded_skills fs rs) = {s. \<exists>r \<in> set rs. load_from_ref fs r = Inr (Some s)}"
  by (induction rs) (auto split: sum.splits option.splits)

lemma load_from_ref_fields:
  "load_from_ref fs r = Inr (Some s) \<Longrightarrow> sk_id s = dr_id r \<and> sk_root s = dr_root r \<and> sk_trust s = dr_trust r
     \<and> sk_scope s = dr_scope r \<and> (dr_trust r = ''untrusted'' \<longrightarrow> \<not> sk_model s)"
  by (auto simp: load_from_ref_def ebind_Inr_iff Let_def split_beta split: if_splits)


subsection \<open>What a registry promises\<close>

locale skill_source_law =
  fixes so :: "'r skill_source" and inv :: "'r \<Rightarrow> bool" and offered :: "skill_definition \<Rightarrow> bool"
  assumes load: "triple inv (so_load so i) (\<lambda>s g. inv g \<and> sk_id s = i \<and> offered s) (\<lambda>_. inv)"
    and discover: "triple inv (so_discover so) (\<lambda>ss g. inv g \<and> list_all offered ss) (\<lambda>_. inv)"
begin

lemma load_host:
  assumes "inv (kh_registry h)" "on_registry (so_load so i) h = (r, h')"
  shows "inv (kh_registry h')" "kh_bindings h' = kh_bindings h" "r = Inr s \<Longrightarrow> sk_id s = i \<and> offered s"
  using assms(2) tripleD [OF load assms(1), of i]
  by (auto simp: on_registry_def Let_def split: prod.splits sum.splits)

lemma render_host:
  assumes "inv (kh_registry h)" "render_skill_prompt render so i args ctx h = (r, h')"
  shows "inv (kh_registry h')" "kh_bindings h' = kh_bindings h"
  using assms(2) load_host [OF assms(1)]
  by (auto simp: render_skill_prompt_def bind_def lift_def split: prod.splits sum.splits)

text \<open>A rendered skill is one the registry offers, under the identifier that was asked for.\<close>

lemma invoked:
  assumes "inv (kh_registry h)" "invoke_skill render so i args ctx h = (Inr body, h')"
  shows "\<exists>s. sk_id s = i \<and> offered s \<and> format_map render (dict_merge ctx args) (sk_content s) = Inr body"
  using assms(2) load_host(3) [OF assms(1)]
  by (fastforce simp: invoke_skill_def render_skill_prompt_def bind_def lift_def split: prod.splits sum.splits)

lemma listed:
  assumes "inv (kh_registry h)" "list_model_invocable_skills so h = (Inr cs, h')" "c \<in> set cs"
  shows "\<exists>s. c = skill_command s \<and> offered s \<and> sk_model s"
  using assms(2,3) tripleD [OF discover assms(1)]
  by (fastforce simp: list_model_invocable_skills_def bind_def on_registry_def ret_def list_all_iff Let_def split: prod.splits sum.splits)

text \<open>
  An activation leaves the skill bound, reports whether it was bound before, and never replaces a
  binding: its reference stays that of the first activation.
\<close>

lemma protect_get:
  "dict_get (protect_from_compaction ref bs) k = None \<longleftrightarrow> dict_get bs k = None"
  "dict_get bs k = Some b \<Longrightarrow> \<exists>b'. dict_get (protect_from_compaction ref bs) k = Some b' \<and> cb_ref b' = cb_ref b \<and> cb_resources b' = cb_resources b"
  by (induction ref bs rule: protect_from_compaction.induct) auto

lemma activated:
  assumes "inv (kh_registry h)" "activate_skill render so i args ctx mode h = (Inr r, h')"
  shows "inv (kh_registry h')"
    and "\<exists>b. dict_get (kh_bindings h') i = Some b \<and> jget (ar_metadata r) ''activation_ref'' = JStr (cb_ref b)
      \<and> (cb_ref b = i @ '':'' @ mode \<or> dict_get (kh_bindings h) i \<noteq> None)"
    and "jget (ar_metadata r) ''already_active'' = JBool (dict_get (kh_bindings h) i \<noteq> None)"
    and "dict_get (kh_bindings h) k = Some b \<Longrightarrow> \<exists>b'. dict_get (kh_bindings h') k = Some b' \<and> cb_ref b' = cb_ref b"
proof -
  obtain s h1 where s: "on_registry (so_load so i) h = (Inr s, h1)"
    using assms(2) by (auto simp: activate_skill_def bind_def split: prod.splits sum.splits)
  note l = load_host [OF assms(1) s]
  have i: "sk_id s = i" using l(3) by simp
  obtain body h2 where b: "render_skill_prompt render so i args ctx h1 = (Inr body, h2)"
    using assms(2) by (auto simp: activate_skill_def bind_def [of "on_registry _"] s)
       (auto simp: bind_def gets_def split: prod.splits sum.splits)
  note r = render_host [OF l(1) b]
  have bs: "kh_bindings h2 = kh_bindings h" using r(2) l(2) by simp
  obtain cb bs' where cb: "mark_activated (sk_id s) (sk_id s @ '':'' @ mode) (sk_root s) (sk_resources s) mode (kh_bindings h) = (cb, bs')"
    by fastforce
  have h': "h' = h2\<lparr>kh_bindings := protect_from_compaction (cb_ref cb) bs'\<rparr>"
    and r': "r = activation_of s body mode (is_already_active (sk_id s) (kh_bindings h)) cb (kh_bindings h')"
    using assms(2) by (auto simp: activate_skill_def bind_def [of "on_registry _"] s bind_def [of "render_skill_prompt _ _ _ _ _"] b bs l(2) cb [simplified])
       (auto simp: gets_def)
  have cbs: "dict_get bs' i = Some cb" "cb_ref cb = i @ '':'' @ mode \<or> dict_get (kh_bindings h) i \<noteq> None"
    "dict_get (kh_bindings h) k = Some b \<Longrightarrow> dict_get bs' k = Some b" for k b
    using cb i by (auto simp: mark_activated_def Let_def split: option.splits)
  show "inv (kh_registry h')" using r(1) by (simp add: h')
  show "\<exists>b. dict_get (kh_bindings h') i = Some b \<and> jget (ar_metadata r) ''activation_ref'' = JStr (cb_ref b)
      \<and> (cb_ref b = i @ '':'' @ mode \<or> dict_get (kh_bindings h) i \<noteq> None)"
    using protect_get(2) [OF cbs(1), of "cb_ref cb"] cbs(2) by (auto simp: h' r' activation_of_def i)
  show "jget (ar_metadata r) ''already_active'' = JBool (dict_get (kh_bindings h) i \<noteq> None)"
    by (simp add: r' activation_of_def is_already_active_def i)
  show "\<exists>b'. dict_get (kh_bindings h') k = Some b' \<and> cb_ref b' = cb_ref b" if "dict_get (kh_bindings h) k = Some b"
    using protect_get(2) [OF cbs(3) [OF that], of "cb_ref cb"] by (auto simp: h')
qed

end

subsection \<open>The file registry\<close>

text \<open>The cache maps identifiers to skills of that identifier, none of them untrusted and offered to the model.\<close>

definition model_safe :: "skill_definition \<Rightarrow> bool" where
  "model_safe s \<longleftrightarrow> sk_trust s = ''untrusted'' \<longrightarrow> \<not> sk_model s"

definition cache_sound :: "skill_registry \<Rightarrow> bool" where
  "cache_sound g \<longleftrightarrow> (\<forall>i s. dict_get (sr_cache g) i = Some s \<longrightarrow> sk_id s = i \<and> model_safe s) \<and> wf_dict (sr_cache g)"

lemma holds_best_sound:
  assumes "holds_best (loaded_skills fs rs) found"
  shows "wf_dict found" "dict_get found i = Some s \<Longrightarrow> sk_id s = i \<and> model_safe s"
proof -
  note h = holds_bestD [OF assms]
  show "wf_dict found" by (rule h(1))
  assume s: "dict_get found i = Some s"
  obtain c where "c \<in> set (loaded_skills fs rs)" "skill_core s = skill_core c" using h(4) [OF s] by blast
  moreover then obtain r where "load_from_ref fs r = Inr (Some c)" by (auto simp: loaded_skills_set)
  ultimately have "model_safe s" using skill_core_fields [of s c] load_from_ref_fields [of fs r c] by (simp add: model_safe_def)
  with h(3) [OF s] show "sk_id s = i \<and> model_safe s" by blast
qed

lemma discover_roots_best:
  "discover_roots fs roots = Inr found \<Longrightarrow> \<exists>rs. holds_best (loaded_skills fs rs) found"
  unfolding discover_roots_def using discover_refs_best [OF _ holds_best_Nil] by (metis append_Nil)

lemma discover_skills_sound:
  "triple cache_sound (discover_skills fs) (\<lambda>ss g. cache_sound g \<and> list_all model_safe ss) (\<lambda>_. cache_sound)"
proof (rule tripleI)
  fix g assume g: "cache_sound g"
  show "case discover_skills fs g of (Inl e, g') \<Rightarrow> cache_sound g' | (Inr ss, g') \<Rightarrow> cache_sound g' \<and> list_all model_safe ss"
  proof (cases "discover_roots fs (sr_roots g)")
    case (Inl e)
    then show ?thesis using g by (simp add: discover_skills_def bind_reads)
  next
    case (Inr found)
    obtain rs where b: "holds_best (loaded_skills fs rs) found" using discover_roots_best [OF Inr] by blast
    note sound = holds_best_sound [OF b]
    have "list_all model_safe (dict_values found)"
    proof -
      have "model_safe s" if "(k, s) \<in> set found" for k s
        using sound(2) [OF map_of_is_SomeI [OF sound(1) that]] by blast
      then show ?thesis by (auto simp: list_all_iff)
    qed
    then show ?thesis using sound by (simp add: discover_skills_def bind_reads Inr ret_def cache_sound_def)
  qed
qed

lemma load_skill_sound:
  "triple cache_sound (load_skill fs i) (\<lambda>s g. cache_sound g \<and> sk_id s = i \<and> model_safe s) (\<lambda>_. cache_sound)"
  unfolding load_skill_def
proof (rule triple_bind [where R = "\<lambda>_. cache_sound"], rule triple_gets, assumption,
    rule triple_bind [where R = "\<lambda>_. cache_sound"])
  show "triple cache_sound (case x of None \<Rightarrow> discover_skills fs | Some _ \<Rightarrow> ret []) (\<lambda>_. cache_sound) (\<lambda>_. cache_sound)" for x
    using triple_conseq [OF discover_skills_sound] by (cases x) (auto intro: triple_ret)
  show "triple cache_sound (reads (\<lambda>g. case dict_get (sr_cache g) i of None \<Rightarrow> Inl (KeyError i) | Some s \<Rightarrow> Inr s))
      (\<lambda>s g. cache_sound g \<and> sk_id s = i \<and> model_safe s) (\<lambda>_. cache_sound)"
    by (rule triple_reads) (auto simp: cache_sound_def split: option.splits)
qed

interpretation files: skill_source_law "file_skills fs" cache_sound model_safe for fs
  by unfold_locales (simp_all add: file_skills_def load_skill_sound discover_skills_sound)

definition fresh_host :: "discovery_root list \<Rightarrow> skill_registry skill_host" where
  "fresh_host roots = \<lparr>kh_registry = new_skill_registry roots, kh_bindings = []\<rparr>"

lemma fresh_sound [simp]: "cache_sound (kh_registry (fresh_host roots))"
  by (simp add: fresh_host_def new_skill_registry_def cache_sound_def)

text \<open>
  The model can run what is kept from it: an untrusted skill is never among the skills listed for
  the model, but the Skill tool, which asks for no permission, renders it for the model like any other.
\<close>

theorem untrusted_skill_still_runs:
  assumes "discover_roots fs roots = Inr found" "dict_get found i = Some s" "sk_trust s = ''untrusted''"
    and "format_map render [] (sk_content s) = Inr body"
  shows "(\<exists>cs h. list_model_invocable_skills (file_skills fs) (fresh_host roots) = (Inr cs, h) \<and> i \<notin> set (map cd_id cs))
    \<and> tool_checker (skill_tool render (file_skills fs)) [(''skill_id'', JStr i)] ctx = ''allow''
    \<and> fst (tool_call_fn (skill_tool render (file_skills fs)) [(''skill_id'', JStr i)] ctx (fresh_host roots))
      = Inr (tool_success ''Skill'' [JStr body] [(''skill_id'', JStr i)])"
proof (intro conjI)
  let ?h = "(fresh_host roots)\<lparr>kh_registry := \<lparr>sr_roots = roots, sr_cache = found\<rparr>\<rparr>"
  obtain rs where b: "holds_best (loaded_skills fs rs) found" using discover_roots_best [OF assms(1)] by blast
  note sound = holds_best_sound [OF b]
  have d: "discover_skills fs (new_skill_registry roots) = (Inr (dict_values found), \<lparr>sr_roots = roots, sr_cache = found\<rparr>)"
    by (simp add: discover_skills_def bind_reads new_skill_registry_def assms(1) ret_def)
  have "list_model_invocable_skills (file_skills fs) (fresh_host roots)
    = (Inr (map skill_command (filter sk_model (dict_values found))), ?h)"
    by (simp add: list_model_invocable_skills_def on_registry_def file_skills_def fresh_host_def d bind_def ret_def)
  moreover have "i \<notin> set (map cd_id (map skill_command (filter sk_model (dict_values found))))"
  proof
    assume "i \<in> set (map cd_id (map skill_command (filter sk_model (dict_values found))))"
    then obtain k t where t: "(k, t) \<in> set found" "sk_id t = i" "sk_model t" by (auto simp: skill_command_def)
    then have "dict_get found k = Some t" using sound(1) map_of_is_SomeI by fast
    then have "t = s" "model_safe t" using sound(2) t(2) assms(2) by fastforce+
    then show False using t(3) assms(3) by (simp add: model_safe_def)
  qed
  ultimately show "\<exists>cs h. list_model_invocable_skills (file_skills fs) (fresh_host roots) = (Inr cs, h) \<and> i \<notin> set (map cd_id cs)"
    by blast
  show "tool_checker (skill_tool render (file_skills fs)) [(''skill_id'', JStr i)] ctx = ''allow''"
    by (simp add: skill_tool_def builtin_tool_def)
  have l: "load_skill fs i (new_skill_registry roots) = (Inr s, \<lparr>sr_roots = roots, sr_cache = found\<rparr>)"
    unfolding load_skill_def by (simp add: new_skill_registry_def)
      (simp add: bind_def d [unfolded new_skill_registry_def] reads_def assms(2))
  show "fst (tool_call_fn (skill_tool render (file_skills fs)) [(''skill_id'', JStr i)] ctx (fresh_host roots))
      = Inr (tool_success ''Skill'' [JStr body] [(''skill_id'', JStr i)])"
    by (simp add: skill_tool_def builtin_tool_def skill_call_def tool_run_def invoke_skill_def render_skill_prompt_def on_registry_def
        file_skills_def fresh_host_def l bind_def lift_def ret_def field_dict_def assms(4) as_tool_error_def)
qed

text \<open>
  One malformed skill hides all: when the body of a \<open>SKILL.md\<close> with a description and without an
  argument list has an unbalanced brace, discovery raises, whichever other skills there are.
\<close>

theorem malformed_skill_blocks_discovery:
  assumes "root \<in> set (sr_roots g)" "sf_exists fs (rt_path root)" "r \<in> set (scan_root fs root)"
    and "sf_read fs (dr_file r) = Inr raw" "parse_skill_document raw = (fm, body, ds)" "\<not> list_ex (\<lambda>d. dg_level d = ''error'') ds"
    and "py_strip (smf_description (build_manifest fm body r ds)) \<noteq> []"
    and "coerce_strings (jget (smf_host (build_manifest fm body r ds)) ''arguments'') = []" "snd (pieces body) \<noteq> None"
  shows "\<exists>e. discover_skills fs g = (Inl e, g)"
proof -
  have "\<exists>e. load_from_ref fs r = Inl e"
    using assms(4-9) by (cases "pieces body") (auto simp: load_from_ref_def Let_def resolve_arguments_def field_names_def)
  then obtain e where e: "load_from_ref fs r = Inl e" by blast
  have "\<exists>e. discover_refs fs rs found = Inl e" if "r \<in> set rs" for rs found
    using that
  proof (induction rs arbitrary: found)
    case (Cons q rs)
    show ?case
    proof (cases "load_from_ref fs q")
      case (Inr c)
      then have "q \<noteq> r" using e by auto
      with Cons Inr show ?thesis by simp
    qed simp
  qed simp
  moreover have "r \<in> set (concat (map (\<lambda>r. if sf_exists fs (rt_path r) then scan_root fs r else []) (sr_roots g)))"
    using assms(1-3) by auto
  ultimately obtain e' where "discover_roots fs (sr_roots g) = Inl e'" unfolding discover_roots_def by blast
  then show ?thesis by (simp add: discover_skills_def bind_reads)
qed

subsection \<open>A small skill tree\<close>

definition demo_skill_text :: string where
  "demo_skill_text = ''---'' @ [newline] @ ''description: Summarize'' @ [newline] @ ''---'' @ [newline] @ ''Sum up {topic}.''"

definition demo_bad_text :: string where
  "demo_bad_text = ''# Notes'' @ [newline] @ ''Write a closing } here.''"

definition demo_skill_files :: skill_files where
  "demo_skill_files = \<lparr>sf_exists = (\<lambda>p. p = ''/p'' \<or> p = ''/u''),
     sf_rglob = (\<lambda>p. if p = ''/p'' then [(''sum'', ''/p/sum'', ''/p/sum/SKILL.md'')] else [(''sum'', ''/u/sum'', ''/u/sum/SKILL.md'')]),
     sf_read = (\<lambda>p. if p = ''/u/sum/SKILL.md'' then Inr demo_bad_text else Inr demo_skill_text), sf_home = ''/home''\<rparr>"

definition demo_root :: "string \<Rightarrow> string \<Rightarrow> discovery_root" where
  "demo_root path trust = \<lparr>rt_path = path, rt_scope = ''project'', rt_source = ''file'', rt_trust = trust\<rparr>"

definition demo_ref :: "string \<Rightarrow> string \<Rightarrow> discovered_ref" where
  "demo_ref scope dir = \<lparr>dr_id = ''sum'', dr_source = ''file'', dr_scope = scope, dr_root = dir, dr_file = dir @ ''/SKILL.md'',
     dr_trust = ''trusted'', dr_diagnostics = []\<rparr>"


theorem untrusted_skill_still_runs_witness:
  "\<forall>ctx. fst (tool_call_fn (skill_tool (\<lambda>_ _ _ _. Inr []) (file_skills demo_skill_files)) [(''skill_id'', JStr ''sum'')] ctx
      (fresh_host [demo_root ''/p'' ''untrusted'']))
    = Inr (tool_success ''Skill'' [JStr ''Sum up {topic}.''] [(''skill_id'', JStr ''sum'')])"
proof -
  let ?roots = "[demo_root ''/p'' ''untrusted'']"
  let ?found = "discover_roots demo_skill_files ?roots"
  have "\<not> isl ?found" by code_simp
  then have f: "?found = Inr (projr ?found)" by simp
  have "map_option (\<lambda>s. (sk_trust s, sk_content s)) (dict_get (projr ?found) ''sum'') = Some (''untrusted'', ''Sum up {topic}.'')"
    by code_simp
  then obtain s where s: "dict_get (projr ?found) ''sum'' = Some s" "sk_trust s = ''untrusted''" "sk_content s = ''Sum up {topic}.''" by auto
  have "format_map (\<lambda>_ _ _ _. Inr []) [] (sk_content s) = Inr ''Sum up {topic}.''" unfolding s(3) by code_simp
  from untrusted_skill_still_runs [OF f s(1,2) this] show ?thesis by blast
qed

theorem malformed_skill_blocks_discovery_witness:
  "\<exists>e. discover_skills demo_skill_files (new_skill_registry [demo_root ''/p'' ''trusted'', demo_root ''/u'' ''trusted''])
     = (Inl e, new_skill_registry [demo_root ''/p'' ''trusted'', demo_root ''/u'' ''trusted''])"
proof (rule malformed_skill_blocks_discovery [where root = "demo_root ''/u'' ''trusted''"
      and r = "(demo_ref ''project'' ''/u/sum'')" and raw = demo_bad_text and fm = "[]" and body = demo_bad_text and ds = "[]"])
  show "demo_root ''/u'' ''trusted'' \<in> set (sr_roots (new_skill_registry [demo_root ''/p'' ''trusted'', demo_root ''/u'' ''trusted'']))"
    by (simp add: new_skill_registry_def)
  show "sf_exists demo_skill_files (rt_path (demo_root ''/u'' ''trusted''))" by code_simp
  show "demo_ref ''project'' ''/u/sum'' \<in> set (scan_root demo_skill_files (demo_root ''/u'' ''trusted''))"
    by (simp add: scan_root_def demo_skill_files_def demo_root_def demo_ref_def)
  show "sf_read demo_skill_files (dr_file (demo_ref ''project'' ''/u/sum'')) = Inr demo_bad_text"
    by (simp add: demo_skill_files_def demo_ref_def)
  show "parse_skill_document demo_bad_text = ([], demo_bad_text, [])" by code_simp
  show "py_strip (smf_description (build_manifest [] demo_bad_text (demo_ref ''project'' ''/u/sum'') [])) \<noteq> []" by code_simp
  show "coerce_strings (jget (smf_host (build_manifest [] demo_bad_text (demo_ref ''project'' ''/u/sum'') [])) ''arguments'') = []" by code_simp
  show "snd (pieces demo_bad_text) \<noteq> None" by code_simp
qed simp

end
