(* ===== verification/RoleProps.thy ===== *)
theory RoleProps
  imports Roles SkillProps
begin

text \<open>
  What a role promises: its bridge meets \<open>skill_source_law\<close> with the role's skills as what it offers, so
  nothing else is listed or rendered through it.  A server that is mounted as a child process never is.
\<close>

interpretation role: skill_source_law "role_skills allowed (file_skills fs)" cache_sound
  "\<lambda>s. model_safe s \<and> sk_id s \<in> set allowed" for allowed fs
proof
  show "triple cache_sound (so_load (role_skills allowed (file_skills fs)) i)
      (\<lambda>s g. cache_sound g \<and> sk_id s = i \<and> model_safe s \<and> sk_id s \<in> set allowed) (\<lambda>_. cache_sound)" for i
  proof (cases "i \<in> set allowed")
    case True
    then show ?thesis
      using triple_conseq [OF files.load [of fs i]] by (simp add: role_skills_def)
  next
    case False
    then show ?thesis by (simp add: role_skills_def triple_throw)
  qed
  show "triple cache_sound (so_discover (role_skills allowed (file_skills fs)))
      (\<lambda>ss g. cache_sound g \<and> list_all (\<lambda>s. model_safe s \<and> sk_id s \<in> set allowed) ss) (\<lambda>_. cache_sound)"
    by (simp add: role_skills_def) (rule triple_bind [OF files.discover], auto intro!: triple_ret simp: list_all_iff)
qed

text \<open>
  A role's bridge is confined to the role: once it is resolved, every skill it renders or lists for
  the model is one of the skills the role refers to, whatever else the plugins directory holds.
\<close>

theorem role_bridge_confined:
  assumes "resolve_skill_bridge fs role plugins = Inr (Some b)" "cache_sound (kh_registry h)"
  shows "(invoke_skill render (role_skills (rbr_allowed b) (file_skills fs)) i args ctx h = (Inr body, h')
      \<longrightarrow> i \<in> set (map rrf_id (rcp_skills (rde_capabilities role))))
    \<and> (list_model_invocable_skills (role_skills (rbr_allowed b) (file_skills fs)) h = (Inr cs, h')
      \<longrightarrow> set (map cd_id cs) \<subseteq> set (map rrf_id (rcp_skills (rde_capabilities role))))"
proof -
  have a: "rbr_allowed b = map rrf_id (rcp_skills (rde_capabilities role))"
    using assms(1) by (auto simp: resolve_skill_bridge_def Let_def split: if_splits prod.splits sum.splits)
  show ?thesis
    using role.invoked [OF assms(2)] role.listed [OF assms(2)]
    by (fastforce simp: a skill_command_def)
qed

text \<open>
  A server that runs as a child process is never mounted: when the first server of a role has a
  manifest with the transport stdio and a command, mounting the role's servers raises a type error
  before any process is started.
\<close>

theorem stdio_server_never_mounts:
  assumes "load_mcp_plugin_manifests plugins = Inr ms" "dict_get ms sid = Some m"
    and "py_lower (py_strip (mmf_transport m)) = ''stdio''" "mmf_command m = Some command" "command \<noteq> []"
  shows "mount_role_mcp_tools host plugins (sid # sids) n
    = Some (Inl (TypeError (''got an unexpected keyword argument '' @ py_repr_str ''args'')), n)"
  using assms by (simp add: mount_role_mcp_tools_def build_client_def stdio_config_call_def keyword_call_def check_fields_def Let_def)

definition demo_manifest_file :: manifest_file where
  "demo_manifest_file = \<lparr>mff_path = ''/plugins/docs/mcp.json'', mff_parent = ''docs'',
     mff_content = Inr (JDict [(''transport'', JStr ''stdio''), (''command'', JStr ''docs-server''), (''args'', JList [JStr ''--all''])])\<rparr>"

theorem stdio_server_never_mounts_witness:
  "\<forall>host :: (unit, unit) mcp_host. mount_role_mcp_tools host (Some ([demo_manifest_file], [])) [''docs''] ()
    = Some (Inl (TypeError (''got an unexpected keyword argument '' @ py_repr_str ''args'')), ())"
proof -
  have "\<not> isl (load_mcp_plugin_manifests (Some ([demo_manifest_file], [])))" by code_simp
  then have ms: "load_mcp_plugin_manifests (Some ([demo_manifest_file], [])) = Inr (projr (load_mcp_plugin_manifests (Some ([demo_manifest_file], []))))"
    by simp
  have "map_option (\<lambda>m. (py_lower (py_strip (mmf_transport m)), mmf_command m))
      (dict_get (projr (load_mcp_plugin_manifests (Some ([demo_manifest_file], [])))) ''docs'') = Some (''stdio'', Some ''docs-server'')"
    by code_simp
  then obtain m where m: "dict_get (projr (load_mcp_plugin_manifests (Some ([demo_manifest_file], [])))) ''docs'' = Some m"
    "py_lower (py_strip (mmf_transport m)) = ''stdio''" "mmf_command m = Some ''docs-server''" by auto
  show ?thesis by (rule allI, rule stdio_server_never_mounts [OF ms m]) simp
qed

definition demo_role :: role_definition where
  "demo_role = (default_role_definition ''/root/roles/default'')\<lparr>rde_capabilities :=
     \<lparr>rcp_models = [], rcp_skills = [\<lparr>rrf_id = ''sum'', rrf_metadata = []\<rparr>], rcp_mcps = []\<rparr>\<rparr>"

theorem role_bridge_confined_witness:
  "\<exists>b. resolve_skill_bridge demo_skill_files demo_role ''/p'' = Inr (Some b)
     \<and> (\<forall>body h'. invoke_skill (\<lambda>_ _ _ _. Inr []) (role_skills (rbr_allowed b) (file_skills demo_skill_files)) ''other'' [] [] (fresh_host [])
          \<noteq> (Inr body, h'))"
proof -
  have "\<not> isl (resolve_skill_bridge demo_skill_files demo_role ''/p'')" "projr (resolve_skill_bridge demo_skill_files demo_role ''/p'') \<noteq> None"
    by code_simp+
  then obtain b where b: "resolve_skill_bridge demo_skill_files demo_role ''/p'' = Inr (Some b)"
    by (cases "resolve_skill_bridge demo_skill_files demo_role ''/p''") auto
  have "''other'' \<notin> set (map rrf_id (rcp_skills (rde_capabilities demo_role)))" by (simp add: demo_role_def)
  then show ?thesis using b role_bridge_confined [OF b fresh_sound] by blast
qed

end
