(* ===== verification/Surface.thy ===== *)
theory Surface
  imports Skills
begin

text \<open>
  The capability surface: \<^verbatim>\<open>capability_surface/models.py\<close>, \<^verbatim>\<open>projection.py\<close> and \<^verbatim>\<open>surface.py\<close>, and the
  command registry of \<^verbatim>\<open>tools/commands.py\<close>.  The text a tool describes itself with is the parameter
  \<open>describe\<close>.
\<close>

subsection \<open>Commands\<close>

record ('w) command_registry =
  cr_commands :: "(string, command) pydict"
  cr_handlers :: "(string, json_object \<Rightarrow> 'w \<Rightarrow> (py_error + json) \<times> 'w) pydict"

definition register_command ::
  "command \<Rightarrow> (json_object \<Rightarrow> 'w \<Rightarrow> (py_error + json) \<times> 'w) \<Rightarrow> 'w command_registry \<Rightarrow> 'w command_registry" where
  "register_command c handler g = g\<lparr>cr_commands := dict_set (cd_id c) c (cr_commands g),
     cr_handlers := dict_set (cd_id c) handler (cr_handlers g)\<rparr>"

definition resolve_command :: "string \<Rightarrow> 'w command_registry \<Rightarrow> py_error + command" where
  "resolve_command i g = (case dict_get (cr_commands g) i of None \<Rightarrow> Inl (KeyError i) | Some c \<Rightarrow> Inr c)"

definition invoke_command :: "string \<Rightarrow> json_object \<Rightarrow> 'w command_registry \<Rightarrow> ('w, json) eff" where
  "invoke_command i args g = (case dict_get (cr_handlers g) i of None \<Rightarrow> throw (KeyError i) | Some h \<Rightarrow> h args)"

subsection \<open>Descriptors\<close>

datatype origin_type = OT_BUILTIN | OT_BUNDLED | OT_PLUGIN | OT_USER | OT_PROJECT | OT_MANAGED | OT_MCP | OT_REMOTE

fun origin_type_value :: "origin_type \<Rightarrow> string" where
  "origin_type_value OT_BUILTIN = ''builtin''"
| "origin_type_value OT_BUNDLED = ''bundled''"
| "origin_type_value OT_PLUGIN = ''plugin''"
| "origin_type_value OT_USER = ''user''"
| "origin_type_value OT_PROJECT = ''project''"
| "origin_type_value OT_MANAGED = ''managed''"
| "origin_type_value OT_MCP = ''mcp''"
| "origin_type_value OT_REMOTE = ''remote''"

record capability_origin =
  co_type :: origin_type
  co_package :: "string option"
  co_provider :: "string option"
  co_scope :: "string option"

definition origin_to_dict :: "capability_origin \<Rightarrow> json_object" where
  "origin_to_dict c = [(''origin_type'', JStr (origin_type_value (co_type c))), (''package_id'', jopt_str (co_package c)),
     (''provider_id'', jopt_str (co_provider c)), (''installation_scope'', jopt_str (co_scope c))]"

record capability_descriptor =
  cy_id :: string
  cy_type :: string
  cy_name :: string
  cy_description :: string
  cy_mode :: string
  cy_origin :: json_object
  cy_model :: bool
  cy_user :: bool
  cy_metadata :: json_object

definition capability_to_dict :: "capability_descriptor \<Rightarrow> json_object" where
  "capability_to_dict d = [(''capability_id'', JStr (cy_id d)), (''capability_type'', JStr (cy_type d)),
     (''display_name'', JStr (cy_name d)), (''description'', JStr (cy_description d)), (''invocation_mode'', JStr (cy_mode d)),
     (''origin'', JDict (cy_origin d)), (''visible_to_model'', JBool (cy_model d)), (''visible_to_user'', JBool (cy_user d)),
     (''metadata'', JDict (cy_metadata d))]"

text \<open>An entry of the command surface has the fields of the descriptor, under its own names.\<close>

record invocable_entry =
  ive_id :: string
  ive_type :: string
  ive_name :: string
  ive_description :: string
  ive_origin :: json_object
  ive_mode :: string
  ive_model :: bool
  ive_user :: bool
  ive_metadata :: json_object

definition entry_of :: "capability_descriptor \<Rightarrow> invocable_entry" where
  "entry_of d = \<lparr>ive_id = cy_id d, ive_type = cy_type d, ive_name = cy_name d, ive_description = cy_description d,
     ive_origin = cy_origin d, ive_mode = cy_mode d, ive_model = cy_model d, ive_user = cy_user d, ive_metadata = cy_metadata d\<rparr>"

definition entry_to_dict :: "invocable_entry \<Rightarrow> json_object" where
  "entry_to_dict e = [(''entry_id'', JStr (ive_id e)), (''entry_type'', JStr (ive_type e)), (''display_name'', JStr (ive_name e)),
     (''description'', JStr (ive_description e)), (''source_origin'', JDict (ive_origin e)), (''invocation_mode'', JStr (ive_mode e)),
     (''visible_to_model'', JBool (ive_model e)), (''visible_to_user'', JBool (ive_user e)), (''metadata'', JDict (ive_metadata e))]"

subsection \<open>The surface\<close>

record 'w capability_surface =
  cs_tools :: "('w tool \<times> capability_origin) list"
  cs_commands :: "(command \<times> capability_origin) list"
  cs_skills :: "(skill_definition \<times> capability_origin) list"

definition describe_tool :: "('w tool \<Rightarrow> string) \<Rightarrow> 'w tool \<times> capability_origin \<Rightarrow> capability_descriptor" where
  "describe_tool describe = (\<lambda>(t, origin). \<lparr>cy_id = tool_name t, cy_type = ''tool'', cy_name = tool_name t,
     cy_description = describe t, cy_mode = ''tool'', cy_origin = origin_to_dict origin, cy_model = True, cy_user = True,
     cy_metadata = [(''input_schema'', tool_schema t), (''aliases'', JList (map JStr (tool_aliases t)))]\<rparr>)"

definition describe_command :: "command \<times> capability_origin \<Rightarrow> capability_descriptor" where
  "describe_command = (\<lambda>(c, origin). \<lparr>cy_id = cd_id c, cy_type = ''command'', cy_name = cd_name c,
     cy_description = cd_description c, cy_mode = command_visibility_value (cd_visibility c), cy_origin = origin_to_dict origin,
     cy_model = (cd_visibility c \<in> {CV_MODEL, CV_BOTH}), cy_user = (cd_visibility c \<in> {CV_USER, CV_BOTH}),
     cy_metadata = dict_merge [(''kind'', JStr (command_kind_value (cd_kind c))), (''source'', JStr (cd_source c))] (cd_metadata c)\<rparr>)"

text \<open>A skill's descriptor is visible to the model and the user whatever its flags.\<close>

definition describe_skill :: "skill_definition \<times> capability_origin \<Rightarrow> capability_descriptor" where
  "describe_skill = (\<lambda>(s, origin). \<lparr>cy_id = sk_id s, cy_type = ''skill'', cy_name = sk_name s,
     cy_description = sk_description s, cy_mode = ''model'', cy_origin = origin_to_dict origin, cy_model = True, cy_user = True,
     cy_metadata = dict_merge [(''arguments'', JList (map JStr (sk_arguments s))), (''allowed_tools'', JList (map JStr (sk_allowed_tools s))),
       (''scope'', JStr (sk_scope s)), (''trust_level'', JStr (sk_trust s)), (''source'', JStr (sk_source s)),
       (''disclosure'', JStr (sk_disclosure s)), (''activation_mode'', JStr (sk_activation s)), (''skill_root'', JStr (sk_root s)),
       (''skill_file'', JStr (sk_file s)), (''frontmatter_mode'', JStr (sk_mode s)),
       (''listed_resources'', JList (map JStr (sk_resources s))), (''diagnostics'', JList (map JStr (sk_diagnostics s))),
       (''invocable_by_model'', JBool (sk_model s)), (''invocable_by_user'', JBool (sk_user s)),
       (''host_extensions'', JDict (sk_host s))] (sk_metadata s)\<rparr>)"

definition describe_capabilities :: "('w tool \<Rightarrow> string) \<Rightarrow> 'w capability_surface \<Rightarrow> capability_descriptor list" where
  "describe_capabilities describe s = map (describe_tool describe) (cs_tools s) @ map describe_command (cs_commands s)
     @ map describe_skill (cs_skills s)"

definition project_descriptors_for_host :: "capability_descriptor list \<Rightarrow> string \<Rightarrow> capability_descriptor list" where
  "project_descriptors_for_host ds host =
     (if host = ''local'' \<or> host = ''terminal'' then ds
      else if host = ''feishu'' then filter (\<lambda>d. jget (cy_metadata d) ''kind'' \<noteq> JStr ''local_ui'') ds
      else if host = ''cloud'' then filter (\<lambda>d. jget (cy_metadata d) ''kind'' \<notin> set [JStr ''local_ui'', JStr ''local'']) ds
      else ds)"

text \<open>A filter that is present and a string applies; the filters apply one after the other.\<close>

definition apply_capability_filters :: "capability_descriptor list \<Rightarrow> json_object option \<Rightarrow> capability_descriptor list" where
  "apply_capability_filters ds filters = (case filters of
     None \<Rightarrow> ds
   | Some f \<Rightarrow>
       let a = (case jget f ''capability_type'' of JStr t \<Rightarrow> filter (\<lambda>d. cy_type d = t) ds | _ \<Rightarrow> ds);
           b = (case jget f ''host_profile'' of JStr h \<Rightarrow> project_descriptors_for_host a h | _ \<Rightarrow> a);
           c = (if jget f ''visibility'' = JStr ''model'' then filter cy_model b else b);
           d = (if jget f ''visibility'' = JStr ''user'' then filter cy_user c else c)
       in (case jget f ''origin_type'' of JStr t \<Rightarrow> filter (\<lambda>x. jget (cy_origin x) ''origin_type'' = JStr t) d | _ \<Rightarrow> d))"

definition list_capabilities :: "('w tool \<Rightarrow> string) \<Rightarrow> 'w capability_surface \<Rightarrow> json_object option \<Rightarrow> string list" where
  "list_capabilities describe s filters = map cy_id (apply_capability_filters (describe_capabilities describe s) filters)"

definition list_command_surface :: "('w tool \<Rightarrow> string) \<Rightarrow> 'w capability_surface \<Rightarrow> json_object option \<Rightarrow> invocable_entry list" where
  "list_command_surface describe s filters =
     map entry_of (filter (\<lambda>d. cy_type d = ''command'' \<or> cy_type d = ''skill'') (apply_capability_filters (describe_capabilities describe s) filters))"

datatype 'w capability = CapTool "'w tool" | CapCommand command | CapSkill skill_definition

text \<open>The first tool, else the first command, else the first skill of that identifier.\<close>

definition resolve_capability :: "'w capability_surface \<Rightarrow> string \<Rightarrow> py_error + 'w capability" where
  "resolve_capability s i = (case List.find (\<lambda>t. tool_name t = i) (map fst (cs_tools s)) of
     Some t \<Rightarrow> Inr (CapTool t)
   | None \<Rightarrow> (case List.find (\<lambda>c. cd_id c = i) (map fst (cs_commands s)) of
       Some c \<Rightarrow> Inr (CapCommand c)
     | None \<Rightarrow> (case List.find (\<lambda>k. sk_id k = i) (map fst (cs_skills s)) of
         Some k \<Rightarrow> Inr (CapSkill k) | None \<Rightarrow> Inl (KeyError (''Unknown capability: '' @ i)))))"

definition project_for_host :: "('w tool \<Rightarrow> string) \<Rightarrow> 'w capability_surface \<Rightarrow> string \<Rightarrow> json_object" where
  "project_for_host describe s host = (let ds = project_descriptors_for_host (describe_capabilities describe s) host in
     [(''host_profile'', JStr host), (''capability_count'', JInt (int (length ds))),
      (''capabilities'', JList (map (\<lambda>d. JDict (capability_to_dict d)) ds)),
      (''command_surface'', JList (map (\<lambda>e. JDict (entry_to_dict e)) (list_command_surface describe s (Some [(''host_profile'', JStr host)]))))])"

subsection \<open>What the surface shows\<close>

lemma project_subset: "set (project_descriptors_for_host ds host) \<subseteq> set ds"
  by (auto simp: project_descriptors_for_host_def)

lemma filters_subset: "set (apply_capability_filters ds filters) \<subseteq> set ds"
proof (cases filters)
  case (Some f)
  let ?a = "case jget f ''capability_type'' of JStr t \<Rightarrow> filter (\<lambda>d. cy_type d = t) ds | _ \<Rightarrow> ds"
  let ?b = "case jget f ''host_profile'' of JStr h \<Rightarrow> project_descriptors_for_host ?a h | _ \<Rightarrow> ?a"
  have a: "set ?a \<subseteq> set ds" by (auto split: json.splits)
  have "set ?b \<subseteq> set ?a" by (cases "jget f ''host_profile''") (simp_all only: json.case project_subset subset_refl)
  with a show ?thesis by (auto simp: apply_capability_filters_def Some Let_def split: json.splits if_splits)
qed (simp add: apply_capability_filters_def)

lemma find_hit: "x \<in> set xs \<Longrightarrow> P x \<Longrightarrow> List.find P xs \<noteq> None"
  by (induction xs) auto

text \<open>What the surface lists can be resolved.\<close>

lemma listed_resolves:
  assumes "i \<in> set (list_capabilities describe s filters)"
  shows "\<exists>c. resolve_capability s i = Inr c"
proof -
  obtain d where d: "d \<in> set (describe_capabilities describe s)" "cy_id d = i"
    using assms subsetD [OF filters_subset] unfolding list_capabilities_def by fastforce
  have "List.find (\<lambda>t. tool_name t = i) (map fst (cs_tools s)) \<noteq> None \<or> List.find (\<lambda>c. cd_id c = i) (map fst (cs_commands s)) \<noteq> None
    \<or> List.find (\<lambda>k. sk_id k = i) (map fst (cs_skills s)) \<noteq> None"
  proof -
    consider t o' where "(t, o') \<in> set (cs_tools s)" "d = describe_tool describe (t, o')"
      | c o' where "(c, o') \<in> set (cs_commands s)" "d = describe_command (c, o')"
      | k o' where "(k, o') \<in> set (cs_skills s)" "d = describe_skill (k, o')"
      using d(1) unfolding describe_capabilities_def by auto
    then show ?thesis
    proof cases
      case 1
      then have "List.find (\<lambda>t. tool_name t = i) (map fst (cs_tools s)) \<noteq> None"
        using d(2) by (intro find_hit [of t]) (force, simp add: describe_tool_def)
      then show ?thesis by blast
    next
      case 2
      then have "List.find (\<lambda>c. cd_id c = i) (map fst (cs_commands s)) \<noteq> None"
        using d(2) by (intro find_hit [of c]) (force, simp add: describe_command_def)
      then show ?thesis by blast
    next
      case 3
      then have "List.find (\<lambda>k. sk_id k = i) (map fst (cs_skills s)) \<noteq> None"
        using d(2) by (intro find_hit [of k]) (force, simp add: describe_skill_def)
      then show ?thesis by blast
    qed
  qed
  then show ?thesis unfolding resolve_capability_def by (auto split: option.split)
qed

text \<open>A skill the model must not invoke is on the model's surface all the same.\<close>

lemma model_filter: "apply_capability_filters ds (Some [(''visibility'', JStr ''model'')]) = filter cy_model ds"
  by (simp add: apply_capability_filters_def)

lemma hidden_skill_on_surface:
  assumes "(k, origin) \<in> set (cs_skills s)"
  shows "sk_id k \<in> set (list_capabilities describe s (Some [(''visibility'', JStr ''model'')]))"
proof -
  have "describe_skill (k, origin) \<in> set (describe_capabilities describe s)" using assms by (auto simp: describe_capabilities_def)
  moreover have "cy_model (describe_skill (k, origin))" "cy_id (describe_skill (k, origin)) = sk_id k" by (simp_all add: describe_skill_def)
  ultimately show ?thesis unfolding list_capabilities_def model_filter by force
qed

end
