(* ===== verification/FileTools.thy ===== *)
theory FileTools
  imports ToolBase TaskStore
begin

text \<open>
  The built-in tools over the workspace's files: \<^verbatim>\<open>tools/tool_paths.py\<close>, and the tools Read, Write and
  Edit.  The world is a file system: the text files and the directories, each under its
  canonical path (the components from the root), where each symbolic link finally leads, and the current
  directory.  \<open>Path.resolve\<close> walks the components of a path through these links.
\<close>

subsection \<open>Paths\<close>

type_synonym path = "string list"

record file_system =
  fw_files :: "(path, string) pydict"
  fw_dirs :: "path list"
  fw_links :: "(path, path) pydict"
  fw_cwd :: path

definition fw_link :: "file_system \<Rightarrow> path \<Rightarrow> path option" where
  "fw_link w = dict_get (fw_links w)"

definition path_parts :: "string \<Rightarrow> path" where
  "path_parts s = filter (\<lambda>p. p \<noteq> [] \<and> p \<noteq> ''.'') (split_on (CHR ''/'') s)"

definition path_str :: "path \<Rightarrow> string" where
  "path_str p = ''/'' @ py_join ''/'' p"

definition path_step :: "(path \<Rightarrow> path option) \<Rightarrow> path \<Rightarrow> string \<Rightarrow> path" where
  "path_step link cur part =
     (if part = ''..'' then butlast cur
      else case link (cur @ [part]) of None \<Rightarrow> cur @ [part] | Some target \<Rightarrow> target)"

text \<open>\<open>(base / s).resolve()\<close>; an absolute \<open>s\<close> replaces the base.\<close>

definition resolve_from :: "(path \<Rightarrow> path option) \<Rightarrow> path \<Rightarrow> string \<Rightarrow> path" where
  "resolve_from link base s = foldl (path_step link) (if py_startswith s ''/'' then [] else base) (path_parts s)"

definition effective_root :: "tool_context \<Rightarrow> file_system \<Rightarrow> py_error + path" where
  "effective_root ctx w = (case ctx_workdir ctx of
     Some d \<Rightarrow> if d \<noteq> [] then Inr (resolve_from (fw_link w) (fw_cwd w) d)
       else Inl (RuntimeErr ''tool execution requires an explicit working_directory'')
   | None \<Rightarrow> Inl (RuntimeErr ''tool execution requires an explicit working_directory''))"

definition resolve_path :: "path \<Rightarrow> string \<Rightarrow> file_system \<Rightarrow> py_error + path" where
  "resolve_path root raw w = (let p = resolve_from (fw_link w) root raw in
     if prefix root p then Inr p else Inl (AppError ''PermissionError'' ''path escapes current workspace''))"

definition is_file :: "path \<Rightarrow> file_system \<Rightarrow> bool" where
  "is_file p w \<longleftrightarrow> dict_get (fw_files w) p \<noteq> None"

definition path_exists :: "path \<Rightarrow> file_system \<Rightarrow> bool" where
  "path_exists p w \<longleftrightarrow> is_file p w \<or> p \<in> set (fw_dirs w)"

definition read_text :: "path \<Rightarrow> file_system \<Rightarrow> py_error + string" where
  "read_text p w = (case dict_get (fw_files w) p of
     Some s \<Rightarrow> Inr s
   | None \<Rightarrow> if p \<in> set (fw_dirs w) then Inl (AppError ''IsADirectoryError'' (path_str p))
       else Inl (AppError ''FileNotFoundError'' (path_str p)))"

definition write_text :: "path \<Rightarrow> string \<Rightarrow> file_system \<Rightarrow> (py_error + unit) \<times> file_system" where
  "write_text p s w =
     (if p \<in> set (fw_dirs w) then (Inl (AppError ''IsADirectoryError'' (path_str p)), w)
      else (Inr (), w\<lparr>fw_files := dict_set p s (fw_files w)\<rparr>))"

text \<open>\<open>p.mkdir(parents=True, exist_ok=True)\<close>.\<close>

definition make_dirs :: "path \<Rightarrow> file_system \<Rightarrow> (py_error + unit) \<times> file_system" where
  "make_dirs p w =
     (if is_file p w then (Inl (AppError ''FileExistsError'' (path_str p)), w)
      else if list_ex (\<lambda>q. is_file q w) (prefixes p) then (Inl (AppError ''NotADirectoryError'' (path_str p)), w)
      else (Inr (), w\<lparr>fw_dirs := fw_dirs w @ filter (\<lambda>q. q \<notin> set (fw_dirs w)) (prefixes p)\<rparr>))"

definition resolve_optional_directory :: "path \<Rightarrow> json \<Rightarrow> file_system \<Rightarrow> py_error + path" where
  "resolve_optional_directory root raw w = (case raw of
     JStr s \<Rightarrow> if py_strip s = [] then Inr root
       else ebind (resolve_path root s w) (\<lambda>p.
         if \<not> path_exists p w then Inl (AppError ''FileNotFoundError'' (''search path does not exist: '' @ path_str p))
         else if p \<notin> set (fw_dirs w) then Inl (AppError ''NotADirectoryError'' (''search path is not a directory: '' @ path_str p))
         else Inr p)
   | _ \<Rightarrow> Inr root)"

subsection \<open>Read\<close>

definition max_read_lines :: int where
  "max_read_lines = 2000"

definition read_validate :: "json_object \<Rightarrow> tool_error + json_object option" where
  "read_validate args = as_tool_error
     (ebind (check_required require_string_field JStr ''path'' args) (\<lambda>a.
      ebind (check_field require_positive_int_field JInt ''offset'' a) (\<lambda>b.
      ebind (check_field (\<lambda>d k. ebind (require_positive_int_field d k) (\<lambda>n.
        if n > max_read_lines then Inl (ValueError (''limit must be <= '' @ int_str max_read_lines)) else Inr n)) JInt ''limit'' b) (\<lambda>c.
      Inr (Some c)))))"

definition int_argument :: "json_object \<Rightarrow> string \<Rightarrow> int \<Rightarrow> py_error + int" where
  "int_argument args k x = (case dict_get args k of
     None \<Rightarrow> Inr x | Some (JInt i) \<Rightarrow> Inr i | Some (JBool b) \<Rightarrow> Inr (if b then 1 else 0) | Some (JStr s) \<Rightarrow> py_int s
   | Some v \<Rightarrow> Inl (TypeError ''int() argument must be a string, a bytes-like object or a real number''))"

definition read_call :: "json_object \<Rightarrow> tool_context \<Rightarrow> (file_system, tool_result) eff" where
  "read_call args ctx =
     bind (reads (effective_root ctx)) (\<lambda>root.
     bind (lift (field_str args ''path'')) (\<lambda>raw.
     bind (reads (resolve_path root raw)) (\<lambda>p.
     bind (reads (\<lambda>w. if is_file p w then Inr () else Inl (AppError ''IsADirectoryError'' (''path is not a file: '' @ path_str p)))) (\<lambda>_.
     bind (reads (read_text p)) (\<lambda>content.
     bind (lift (int_argument args ''offset'' 1)) (\<lambda>offset.
     bind (lift (int_argument args ''limit'' max_read_lines)) (\<lambda>limit.
     let (numbered, meta) = render_numbered_file_slice content offset limit max_read_lines in
     ret (tool_success ''Read'' [text_block numbered] meta))))))))"

definition read_schema :: json where
  "read_schema = object_schema
     [(''path'', string_property ''Path to the file, relative to the current workspace root.'' [''README.md'', ''sympy/printing/defaults.py''] []),
      (''offset'', integer_property ''Optional 1-based line number to start reading from.'' [1, 120] (Some 1)),
      (''limit'', integer_property
        ''Optional maximum number of lines to read. Defaults to all lines up to the per-call cap.'' [20, 80] (Some 1))] [''path'']"

definition read_tool :: "file_system tool" where
  "read_tool = (builtin_tool ''Read'' ''read'' read_schema (\<lambda>args ctx. tool_run (read_call args ctx)))\<lparr>
     tool_read_only_fn := Some (\<lambda>_. True), tool_concurrency_fn := Some (\<lambda>_. True),
     tool_validator := Some read_validate, tool_persists := True\<rparr>"

subsection \<open>Write\<close>

text \<open>The length of the UTF-8 encoding.\<close>

definition utf8_length :: "string \<Rightarrow> nat" where
  "utf8_length s = sum_list (map (\<lambda>c. if code c < 128 then 1 else 2) s)"

definition write_call :: "json_object \<Rightarrow> tool_context \<Rightarrow> (file_system, tool_result) eff" where
  "write_call args ctx =
     bind (reads (effective_root ctx)) (\<lambda>root.
     bind (lift (field_str args ''path'')) (\<lambda>raw.
     bind (reads (resolve_path root raw)) (\<lambda>p.
     bind (make_dirs (butlast p)) (\<lambda>_.
     bind (gets (path_exists p)) (\<lambda>existed.
     let content = py_str (dict_get_default args ''content'' (JStr [])) in
     bind (write_text p content) (\<lambda>_.
     ret (tool_success ''Write'' [JStr ((if existed then ''Updated '' else ''Created '') @ raw)]
       [(''path'', JStr (path_str p)), (''operation'', JStr (if existed then ''update'' else ''create'')),
        (''bytes_written'', JInt (int (utf8_length content)))])))))))"

definition write_schema :: json where
  "write_schema = object_schema
     [(''path'', string_property ''Path to the file to create or overwrite, relative to the current workspace root.''
        [''notes/todo.txt'', ''tmp/output.json''] []),
      (''content'', string_property ''Full file contents to write.''
        [''hello world'' @ [newline], CHR ''{'' # dquote # ''ok'' @ dquote # '': true}'' @ [newline]] [])] [''path'', ''content'']"

definition write_tool :: "file_system tool" where
  "write_tool = builtin_tool ''Write'' ''write'' write_schema (\<lambda>args ctx. tool_run (write_call args ctx))"

subsection \<open>Edit\<close>

text \<open>The text before and after the first occurrence.\<close>

fun split_first :: "string \<Rightarrow> string \<Rightarrow> (string \<times> string) option" where
  "split_first old [] = (if old = [] then Some ([], []) else None)"
| "split_first old (c # s) =
     (if py_startswith (c # s) old then Some ([], drop (length old) (c # s))
      else map_option (\<lambda>(b, a). (c # b, a)) (split_first old s))"

lemma py_startswith_prefix: "py_startswith s p \<longleftrightarrow> prefix p s"
  by (auto simp: py_startswith_def prefix_def) (metis append_take_drop_id)

lemma split_first_Some: "split_first old s = Some (b, a) \<Longrightarrow> s = b @ old @ a"
proof (induction old s arbitrary: b a rule: split_first.induct)
  case (2 old c s)
  show ?case
  proof (cases "py_startswith (c # s) old")
    case True
    then show ?thesis using "2.prems" by (auto simp: py_startswith_def) (metis append_take_drop_id)
  next
    case False
    then show ?thesis using "2.prems" "2.IH" by auto
  qed
qed (auto split: if_splits)

lemma split_first_length: "old \<noteq> [] \<Longrightarrow> split_first old s = Some (b, a) \<Longrightarrow> length a < length s"
  using split_first_Some by fastforce

text \<open>\<open>s.count(old)\<close> and \<open>s.replace(old, new)\<close>, for a text that is not empty.\<close>

function py_count :: "string \<Rightarrow> string \<Rightarrow> nat" where
  "py_count old s = (if old = [] then 0 else case split_first old s of None \<Rightarrow> 0 | Some (b, a) \<Rightarrow> Suc (py_count old a))"
  by pat_completeness auto
termination by (relation "measure (\<lambda>(old, s). length s)") (auto dest: split_first_length)

function replace_all :: "string \<Rightarrow> string \<Rightarrow> string \<Rightarrow> string" where
  "replace_all old new s = (if old = [] then s else case split_first old s of None \<Rightarrow> s | Some (b, a) \<Rightarrow> b @ new @ replace_all old new a)"
  by pat_completeness auto
termination by (relation "measure (\<lambda>(old, new, s). length s)") (auto dest: split_first_length)

declare py_count.simps [simp del] replace_all.simps [simp del]

definition replace_first :: "string \<Rightarrow> string \<Rightarrow> string \<Rightarrow> string" where
  "replace_first old new s = (case split_first old s of None \<Rightarrow> s | Some (b, a) \<Rightarrow> b @ new @ a)"

definition edited_text :: "string \<Rightarrow> string \<Rightarrow> bool \<Rightarrow> string \<Rightarrow> py_error + string" where
  "edited_text old new every content =
     (if py_count old content = 0 then Inl (ValueError ''target text not found'')
      else if py_count old content > 1 \<and> \<not> every then
        Inl (ValueError ''target text matched multiple locations; provide more specific old text or set replace_all=true'')
      else Inr (if every then replace_all old new content else replace_first old new content))"

definition edit_call :: "json_object \<Rightarrow> tool_context \<Rightarrow> (file_system, tool_result) eff" where
  "edit_call args ctx =
     bind (reads (effective_root ctx)) (\<lambda>root.
     bind (lift (field_str args ''path'')) (\<lambda>raw.
     bind (reads (resolve_path root raw)) (\<lambda>p.
     let old = py_str (dict_get_default args ''old'' (JStr []));
         new = py_str (dict_get_default args ''new'' (JStr []));
         every = truthy (dict_get_default args ''replace_all'' (JBool False)) in
     if old = [] then throw (ValueError ''old must be a non-empty string'')
     else bind (reads (read_text p)) (\<lambda>content.
       bind (lift (edited_text old new every content)) (\<lambda>updated.
       bind (write_text p updated) (\<lambda>_.
       let n = (if every then py_count old content else 1) in
       ret (tool_success ''Edit'' [JStr (''Edited '' @ last p @ '' with '' @ nat_str n @ '' replacement''
           @ (if (every \<and> py_count old content = 1) \<or> \<not> every then [] else ''s''))]
         [(''path'', JStr (path_str p)), (''replacements'', JInt (int n)), (''replace_all'', JBool every)])))))))"

definition edit_schema :: json where
  "edit_schema = object_schema
     [(''path'', string_property ''Path to the file to edit, relative to the current workspace root.'' [''sympy/printing/defaults.py''] []),
      (''old'', string_property ''Exact text to replace. Read the file first and copy the target text exactly.''
        [''DefaultPrinting = Printable''] []),
      (''new'', string_property ''Replacement text.'' [''DefaultPrinting = Printable'' @ [newline] @ ''Printable.__slots__ = ()''] []),
      (''replace_all'', boolean_property
        ''When true, replace every exact occurrence. When false or omitted, the old text must match exactly once.'')]
     [''path'', ''old'', ''new'']"

definition edit_tool :: "file_system tool" where
  "edit_tool = builtin_tool ''Edit'' ''edit'' edit_schema (\<lambda>args ctx. tool_run (edit_call args ctx))"

end
