(* ===== verification/SearchTools.thy ===== *)
theory SearchTools
  imports FileTools
begin

text \<open>
  The tools that search the workspace, Glob and Grep, and the two that act through the harness,
  AskUserQuestion and Agent.  Glob matches with \<open>fnmatch\<close>, whose patterns are parsed here; Grep runs the
  program \<open>rg\<close>, a parameter from its arguments, its directory and the file system to what it wrote.
\<close>

subsection \<open>Shell patterns\<close>

datatype set_item = One char | Range char char

datatype glob_piece = GStar | GAny | GSet bool "set_item list" | GChar char

fun item_matches :: "char \<Rightarrow> set_item \<Rightarrow> bool" where
  "item_matches c (One x) = (c = x)"
| "item_matches c (Range lo hi) = (code lo \<le> code c \<and> code c \<le> code hi)"

fun piece_matches :: "glob_piece \<Rightarrow> char \<Rightarrow> bool" where
  "piece_matches GStar c = True"
| "piece_matches GAny c = True"
| "piece_matches (GSet negated items) c = (list_ex (item_matches c) items \<noteq> negated)"
| "piece_matches (GChar x) c = (c = x)"

fun set_items :: "string \<Rightarrow> set_item list" where
  "set_items (lo # d # hi # r) =
     (if d = CHR ''-'' then (if code lo \<le> code hi then [Range lo hi] else []) @ set_items r
      else One lo # set_items (d # hi # r))"
| "set_items s = map One s"

text \<open>The set after a bracket: whether it is negated, what it lists, and the pattern after it.\<close>

definition scan_set :: "string \<Rightarrow> (bool \<times> string \<times> string) option" where
  "scan_set r = (let negated = py_startswith r ''!''; r1 = (if negated then drop 1 r else r);
       lead = (if py_startswith r1 '']'' then '']'' else []); r2 = drop (length lead) r1;
       body = takeWhile (\<lambda>c. c \<noteq> CHR '']'') r2 in
     if length body = length r2 then None else Some (negated, lead @ body, drop (Suc (length body)) r2))"

lemma scan_set_length: "scan_set r = Some (n, b, rest) \<Longrightarrow> length rest \<le> length r"
  by (auto simp: scan_set_def Let_def split: if_splits)

function glob_pieces :: "string \<Rightarrow> glob_piece list" where
  "glob_pieces [] = []"
| "glob_pieces (c # r) =
     (if c = CHR ''*'' then GStar # glob_pieces r
      else if c = CHR ''?'' then GAny # glob_pieces r
      else if c = CHR ''['' then (case scan_set r of
          None \<Rightarrow> GChar c # glob_pieces r
        | Some (negated, body, rest) \<Rightarrow> GSet negated (set_items body) # glob_pieces rest)
      else GChar c # glob_pieces r)"
  by pat_completeness auto
termination
  by (relation "measure length") (auto dest: scan_set_length)

function pieces_match :: "glob_piece list \<Rightarrow> string \<Rightarrow> bool" where
  "pieces_match [] s = (s = [])"
| "pieces_match (g # gs) s =
     (if g = GStar then pieces_match gs s \<or> (case s of [] \<Rightarrow> False | c # r \<Rightarrow> pieces_match (g # gs) r)
      else case s of [] \<Rightarrow> False | c # r \<Rightarrow> piece_matches g c \<and> pieces_match gs r)"
  by pat_completeness auto
termination
  by (relation "measure (\<lambda>(gs, s). length gs + length s)") auto

declare pieces_match.simps [simp del]

definition fnmatch :: "string \<Rightarrow> string \<Rightarrow> bool" where
  "fnmatch name pattern = pieces_match (glob_pieces pattern) name"

subsection \<open>Glob\<close>

definition default_glob_limit :: int where
  "default_glob_limit = 200"

definition glob_validate :: "json_object \<Rightarrow> tool_error + json_object option" where
  "glob_validate args = as_tool_error
     (ebind (check_required require_string_field JStr ''pattern'' args) (\<lambda>a.
      ebind (check_field require_string_field JStr ''path'' a) (\<lambda>b.
      ebind (check_field require_positive_int_field JInt ''limit'' b) (\<lambda>c.
      Inr (Some c)))))"

text \<open>\<open>sorted(search_root.rglob("*"))\<close>: everything below the directory, links unfollowed.\<close>

definition rglob_all :: "path \<Rightarrow> file_system \<Rightarrow> path list" where
  "rglob_all base w = sort (remdups (filter (\<lambda>p. prefix base p \<and> p \<noteq> base)
     (map fst (fw_files w) @ fw_dirs w @ map fst (fw_links w))))"

definition entry_is_file :: "file_system \<Rightarrow> path \<Rightarrow> bool" where
  "entry_is_file w p = (case fw_link w p of None \<Rightarrow> is_file p w | Some target \<Rightarrow> is_file target w)"

definition relative_str :: "path \<Rightarrow> path \<Rightarrow> string" where
  "relative_str root p = py_join ''/'' (drop (length root) p)"

fun glob_matches :: "path \<Rightarrow> string \<Rightarrow> int \<Rightarrow> nat \<Rightarrow> path list \<Rightarrow> string list" where
  "glob_matches root pattern limit n [] = []"
| "glob_matches root pattern limit n (p # ps) =
     (let relative = relative_str root p; hit = fnmatch relative pattern \<or> fnmatch (last p) pattern;
          n' = (if hit then Suc n else n) in
      (if hit then [relative] else []) @ (if int n' \<ge> limit then [] else glob_matches root pattern limit n' ps))"

definition file_reference :: "string \<Rightarrow> json" where
  "file_reference name = tool_reference_block name (Some name) (Some name) ''file''"

definition relative_or_dot :: "path \<Rightarrow> path \<Rightarrow> string" where
  "relative_or_dot root p = (if p \<noteq> root then relative_str root p else ''.'')"

definition glob_call :: "json_object \<Rightarrow> tool_context \<Rightarrow> (file_system, tool_result) eff" where
  "glob_call args ctx =
     bind (lift (field_str args ''pattern'')) (\<lambda>pattern.
     bind (reads (effective_root ctx)) (\<lambda>root.
     bind (reads (resolve_optional_directory root (jget args ''path''))) (\<lambda>search_root.
     bind (lift (int_argument args ''limit'' default_glob_limit)) (\<lambda>limit.
     bind (gets (\<lambda>w. glob_matches root pattern limit 0 (filter (entry_is_file w) (rglob_all search_root w)))) (\<lambda>found.
     ret (tool_success ''Glob''
       (if found \<noteq> [] then text_block (''Found '' @ nat_str (length found) @ '' matching files'') # map file_reference found
        else [text_block ''No files found''])
       [(''search_root'', JStr (relative_or_dot root search_root)), (''limit'', JInt limit),
        (''count'', JInt (int (length found)))]))))))"

definition glob_schema :: json where
  "glob_schema = object_schema
     [(''pattern'', string_property ''Glob pattern to match files relative to the workspace root.''
        [''*'', ''*.py'', ''src/**/*.py''] []),
      (''path'', string_property ''Optional subdirectory relative to the workspace root to search within.''
        [''sympy'', ''tests/tools''] []),
      (''limit'', integer_property ''Optional maximum number of matching files to return.'' [20, 100] (Some 1))]
     [''pattern'']"

definition glob_tool :: "file_system tool" where
  "glob_tool = (builtin_tool ''Glob'' ''glob'' glob_schema (\<lambda>args ctx. tool_run (glob_call args ctx)))\<lparr>
     tool_read_only_fn := Some (\<lambda>_. True), tool_concurrency_fn := Some (\<lambda>_. True),
     tool_validator := Some glob_validate, tool_persists := True\<rparr>"

subsection \<open>Grep: arguments\<close>

definition output_modes :: "string list" where
  "output_modes = [''content'', ''files_with_matches'', ''count'']"

definition default_head_limit :: int where
  "default_head_limit = 250"

definition require_output_mode :: "json_object \<Rightarrow> string \<Rightarrow> py_error + string" where
  "require_output_mode d k = ebind (require_string_field d k) (\<lambda>mode.
     if mode \<notin> set output_modes then Inl (ValueError (''output_mode must be one of '' @ py_join '', '' output_modes))
     else Inr mode)"

text \<open>\<open>context\<close> takes precedence over \<open>-C\<close>, and either over \<open>-A\<close> and \<open>-B\<close>.\<close>

definition drop_shadowed :: "json_object \<Rightarrow> json_object" where
  "drop_shadowed d =
     (let d1 = (if dict_get d ''context'' \<noteq> None then filter (\<lambda>e. fst e \<noteq> ''-C'') d else d) in
      if dict_get d1 ''context'' \<noteq> None \<or> dict_get d1 ''-C'' \<noteq> None
      then filter (\<lambda>e. fst e \<noteq> ''-A'' \<and> fst e \<noteq> ''-B'') d1 else d1)"

fun check_each_field ::
  "(json_object \<Rightarrow> string \<Rightarrow> py_error + 'a) \<Rightarrow> ('a \<Rightarrow> json) \<Rightarrow> string list \<Rightarrow> json_object \<Rightarrow> py_error + json_object" where
  "check_each_field check inject [] d = Inr d"
| "check_each_field check inject (k # ks) d = ebind (check_field check inject k d) (check_each_field check inject ks)"

definition grep_validate :: "json_object \<Rightarrow> tool_error + json_object option" where
  "grep_validate args = as_tool_error
     (ebind (check_required require_string_field JStr ''pattern'' args) (\<lambda>a.
      ebind (check_each_field require_string_field JStr [''path'', ''glob''] a) (\<lambda>b.
      ebind (check_field require_output_mode JStr ''output_mode'' b) (\<lambda>c.
      ebind (check_field require_string_field JStr ''type'' c) (\<lambda>d.
      ebind (check_field require_non_negative_int_field JInt ''head_limit'' d) (\<lambda>e.
      ebind (check_field require_positive_int_field JInt ''limit'' e) (\<lambda>f.
      ebind (check_each_field require_non_negative_int_field JInt [''offset'', ''-A'', ''-B'', ''-C'', ''context''] f) (\<lambda>g.
      ebind (check_each_field require_bool_field JBool [''-n'', ''-i'', ''multiline''] g) (\<lambda>h.
      Inr (Some (drop_shadowed h)))))))))))"

text \<open>The words of the filter, each split at its commas unless it has both braces.\<close>

definition split_glob_patterns :: "string \<Rightarrow> string list" where
  "split_glob_patterns raw = concat (map (\<lambda>token.
     if lbrace \<in> set token \<and> rbrace \<in> set token then [token]
     else filter (\<lambda>part. part \<noteq> []) (split_on (CHR '','') token)) (py_split raw))"

definition flag_argument :: "json_object \<Rightarrow> string \<Rightarrow> bool \<Rightarrow> bool" where
  "flag_argument args k x = truthy (dict_get_default args k (JBool x))"

definition context_arguments :: "json_object \<Rightarrow> string list" where
  "context_arguments args =
     (let given = (\<lambda>k. jget args k \<noteq> JNull); number = (\<lambda>flag k. [flag, py_str (jget args k)]) in
      if given ''context'' then number ''-C'' ''context''
      else if given ''-C'' then number ''-C'' ''-C''
      else (if given ''-B'' then number ''-B'' ''-B'' else []) @ (if given ''-A'' then number ''-A'' ''-A'' else []))"

definition rg_arguments :: "string \<Rightarrow> string \<Rightarrow> string \<Rightarrow> json_object \<Rightarrow> string list" where
  "rg_arguments pattern target mode args =
     [''rg'', ''--color'', ''never'', ''--no-heading'']
     @ (if flag_argument args ''multiline'' False then [''-U'', ''--multiline-dotall''] else [])
     @ (if flag_argument args ''-i'' False then [''-i''] else [])
     @ (if mode = ''files_with_matches'' then [''-l''] else if mode = ''count'' then [''-c''] else [])
     @ (if mode = ''content'' then (if flag_argument args ''-n'' True then [''-n''] else []) @ context_arguments args else [])
     @ (if py_startswith pattern ''-'' then [''-e'', pattern] else [pattern])
     @ (case jget args ''type'' of JStr t \<Rightarrow> if t \<noteq> [] then [''--type'', t] else [] | _ \<Rightarrow> [])
     @ (case jget args ''glob'' of JStr g \<Rightarrow> concat (map (\<lambda>p. [''--glob'', p]) (split_glob_patterns g)) | _ \<Rightarrow> [])
     @ [target]"

subsection \<open>Grep: results\<close>

text \<open>What a run of a program leaves: its exit code and what it wrote; none when it is not installed.\<close>

type_synonym process_run = "(int \<times> string \<times> string) option"

definition or_text :: "string \<Rightarrow> string \<Rightarrow> string" where
  "or_text a b = (if a \<noteq> [] then a else b)"

definition rg_lines :: "process_run \<Rightarrow> py_error + string list" where
  "rg_lines r = (case r of
     None \<Rightarrow> Inl (RuntimeErr ''ripgrep executable `rg` is required for GrepTool but was not found'')
   | Some (exit_code, out, err) \<Rightarrow>
       if exit_code \<notin> set [0, 1] then Inl (RuntimeErr (''ripgrep failed: ''
         @ or_text (or_text (py_strip err) (py_strip out)) (''exit code '' @ int_str exit_code)))
       else Inr (py_splitlines (rstrip_char newline out)))"

definition normalize_output_line :: "string \<Rightarrow> string" where
  "normalize_output_line line = (if py_startswith line ''./'' then drop 2 line else line)"

definition window_lines :: "string \<Rightarrow> string list \<Rightarrow> string list" where
  "window_lines mode results = map normalize_output_line (if mode = ''content'' then filter (\<lambda>l. l \<noteq> ''--'') results else results)"

definition apply_window :: "string list \<Rightarrow> int \<Rightarrow> int \<Rightarrow> string \<Rightarrow> string list \<times> bool" where
  "apply_window results head_limit offset mode =
     (let filtered = window_lines mode results; n = int (length filtered) in
      if offset > n then ([], False)
      else if head_limit = 0 then (py_slice offset n filtered, False)
      else (py_slice offset (offset + head_limit) filtered, n - offset > head_limit))"

definition grep_content :: "string \<Rightarrow> string list \<Rightarrow> json list" where
  "grep_content mode results =
     (if results = [] then [text_block ''No matches found'']
      else if mode = ''files_with_matches'' then
        text_block (''Found '' @ nat_str (length results) @ '' matching files'') # map file_reference results
      else map text_block results)"

definition resolve_search_target :: "path \<Rightarrow> json \<Rightarrow> file_system \<Rightarrow> py_error + path" where
  "resolve_search_target root raw w = (case raw of
     JStr s \<Rightarrow> if py_strip s = [] then Inr root
       else ebind (resolve_path root s w) (\<lambda>p.
         if \<not> path_exists p w then Inl (AppError ''FileNotFoundError'' (''search path does not exist: '' @ path_str p))
         else Inr p)
   | _ \<Rightarrow> Inr root)"

text \<open>\<open>head_limit\<close>, else \<open>limit\<close>, else the default.\<close>

definition head_limit_of :: "json_object \<Rightarrow> py_error + int" where
  "head_limit_of args = (case dict_get_default args ''head_limit'' (jget args ''limit'') of
     JNull \<Rightarrow> Inr default_head_limit
   | v \<Rightarrow> int_argument [(''limit'', v)] ''limit'' 0)"

definition limit_value :: "int \<Rightarrow> json" where
  "limit_value n = (if n = 0 then JNull else JInt n)"

definition grep_result :: "json_object \<Rightarrow> string \<Rightarrow> string \<Rightarrow> int \<Rightarrow> int \<Rightarrow> string list \<Rightarrow> tool_result" where
  "grep_result args mode target head_limit offset lines =
     (let (window, truncated) = apply_window lines head_limit offset mode;
          results = (if mode = ''files_with_matches'' \<or> mode = ''count'' then sort window else window) in
      (tool_success ''Grep'' (grep_content mode results)
        [(''mode'', JStr mode), (''search_root'', JStr target), (''glob'', jget args ''glob''), (''type'', jget args ''type''),
         (''head_limit'', limit_value head_limit), (''applied_limit'', limit_value head_limit),
         (''offset'', JInt offset), (''applied_offset'', JInt offset), (''count'', JInt (int (length results))),
         (''truncated'', JBool truncated)])\<lparr>tr_truncated := Some truncated\<rparr>)"

text \<open>Of arguments that \<open>grep_validate\<close> returned, whose mode and filters are strings.\<close>

definition grep_call ::
  "(string list \<Rightarrow> path \<Rightarrow> file_system \<Rightarrow> process_run) \<Rightarrow> json_object \<Rightarrow> tool_context \<Rightarrow> (file_system, tool_result) eff" where
  "grep_call rg args ctx =
     bind (reads (effective_root ctx)) (\<lambda>root.
     bind (lift (field_str args ''pattern'')) (\<lambda>pattern.
     let mode = py_str (dict_get_default args ''output_mode'' (JStr ''files_with_matches'')) in
     bind (lift (head_limit_of args)) (\<lambda>head_limit.
     bind (lift (int_argument args ''offset'' 0)) (\<lambda>offset.
     bind (reads (resolve_search_target root (jget args ''path''))) (\<lambda>search_target.
     let target = relative_or_dot root search_target in
     bind (reads (\<lambda>w. rg_lines (rg (rg_arguments pattern target mode args) root w))) (\<lambda>lines.
     ret (grep_result args mode target head_limit offset lines)))))))"

definition grep_schema :: json where
  "grep_schema = object_schema
     [(''pattern'', string_property ''The regular expression pattern to search for in file contents.''
        [''TODO'', ''log.*Error'', ''function'' @ [backslash] @ ''s+'' @ [backslash] @ ''w+''] []),
      (''path'', string_property ''File or directory to search in. Defaults to the current workspace root.''
        [''src'', ''tests'', ''src/app.py''] []),
      (''glob'', string_property ''Glob pattern to filter files, for example *.js or **/*.tsx.''
        [''*.py'', ''**/*.tsx'', ''src/**/*.ts''] []),
      (''output_mode'', string_property (''Output mode: '' @ [dquote] @ ''content'' @ [dquote] @ '' shows matching lines, ''
          @ [dquote] @ ''files_with_matches'' @ [dquote] @ '' shows only file paths, and '' @ [dquote] @ ''count'' @ [dquote]
          @ '' shows match counts. Defaults to '' @ [dquote] @ ''files_with_matches'' @ [dquote] @ ''.'') output_modes output_modes),
      (''-B'', integer_property (''Number of lines to show before each match. Requires output_mode '' @ [dquote] @ ''content'' @ [dquote] @ ''.'')
        [1, 3] (Some 0)),
      (''-A'', integer_property (''Number of lines to show after each match. Requires output_mode '' @ [dquote] @ ''content'' @ [dquote] @ ''.'')
        [1, 3] (Some 0)),
      (''-C'', integer_property ''Number of lines to show before and after each match. Alias for context.'' [2, 4] (Some 0)),
      (''context'', integer_property (''Number of lines to show before and after each match. Requires output_mode ''
        @ [dquote] @ ''content'' @ [dquote] @ ''.'') [2, 5] (Some 0)),
      (''-n'', boolean_property ''Show line numbers in output. Requires output_mode content and defaults to true.''),
      (''-i'', boolean_property ''Case insensitive search.''),
      (''type'', string_property ''File type to search, for example js, py, rust, or go.'' [''js'', ''py'', ''rust''] []),
      (''head_limit'', integer_property
        ''Limit output to the first N lines or entries. Defaults to 250 when unspecified. Pass 0 for unlimited use sparingly.''
        [20, 100, 0] (Some 0)),
      (''offset'', integer_property ''Skip the first N lines or entries before applying head_limit.'' [0, 20] (Some 0)),
      (''multiline'', boolean_property ''Enable multiline mode where patterns can span lines.'')] [''pattern'']"

definition grep_tool :: "(string list \<Rightarrow> path \<Rightarrow> file_system \<Rightarrow> process_run) \<Rightarrow> file_system tool" where
  "grep_tool rg = (builtin_tool ''Grep'' ''grep'' grep_schema (\<lambda>args ctx. tool_run (grep_call rg args ctx)))\<lparr>
     tool_read_only_fn := Some (\<lambda>_. True), tool_concurrency_fn := Some (\<lambda>_. True),
     tool_validator := Some grep_validate, tool_persists := True\<rparr>"

subsection \<open>AskUserQuestion and Agent\<close>

definition ask_call :: "json_object \<Rightarrow> tool_context \<Rightarrow> 'w \<Rightarrow> (tool_error + tool_result) \<times> 'w" where
  "ask_call args ctx w = (case field_str args ''question'' of
     Inl e \<Rightarrow> (Inl (PyError e), w)
   | Inr question \<Rightarrow> (Inl (RequiresActionError \<lparr>ra_action_type = ''ask_user_question'', ra_session = ctx_session ctx,
       ra_description = question, ra_terminal_state = ''requires_action'', ra_resumable = True, ra_agent = None, ra_task = None,
       ra_tool_name = Some ''AskUserQuestion'', ra_input = Some args,
       ra_request = (case jget args ''request_id'' of JStr r \<Rightarrow> Some r | _ \<Rightarrow> None), ra_action_ref = None,
       ra_policy_decision = None\<rparr>), w))"

definition ask_schema :: json where
  "ask_schema = object_schema
     [(''question'', string_property ''Structured question to ask the user.''
        [''Which branch should I use?'', ''Approve this command?''] []),
      (''request_id'', string_property ''Optional stable identifier for correlating the reply.'' [''req_123''] [])] [''question'']"

definition ask_tool :: "'w tool" where
  "ask_tool = builtin_tool ''AskUserQuestion'' ''ask_user'' ask_schema ask_call"

text \<open>The handler delegates; whatever it returns is the result.\<close>

definition agent_call ::
  "(json_object \<Rightarrow> tool_context \<Rightarrow> ('w, json_object) eff) \<Rightarrow> json_object \<Rightarrow> tool_context \<Rightarrow> ('w, tool_result) eff" where
  "agent_call handler args ctx = bind (handler args ctx) (\<lambda>outcome.
     ret (tool_success ''Agent'' [JStr (json_dumps (JDict outcome))] [(''agent_linkage'', JDict outcome)]))"

definition agent_schema :: json where
  "agent_schema = object_schema
     [(''prompt'', string_property ''Alternate prompt field for delegated work.'' [''Summarize the current session state''] []),
      (''run_in_background'', boolean_property ''When true, detach execution into a background delegated task.''),
      (''agent_type'', string_property ''Optional delegated worker type label.'' [''delegate'', ''reviewer''] []),
      (''task'', string_property ''Task description to delegate to the sub-agent.'' [''Review the current diff for regressions''] [])] []"

definition agent_tool :: "(json_object \<Rightarrow> tool_context \<Rightarrow> ('w, json_object) eff) \<Rightarrow> 'w tool" where
  "agent_tool handler = builtin_tool ''Agent'' ''agent'' agent_schema (\<lambda>args ctx. tool_run (agent_call handler args ctx))"

end
