(* ===== verification/ShellGuard.thy ===== *)
theory ShellGuard
  imports FileTools
begin

text \<open>
  The Bash tool: the split of a command into words that \<open>shlex.split\<close> makes, the decision that
  \<open>bash_permission_decision\<close> takes from them, and the run of the command.  The shell and the home
  directory are parameters.
\<close>

subsection \<open>Words of a command\<close>

text \<open>
  The states of the lexer of \<open>shlex\<close> with POSIX rules: between two words, in a word, in quotes, and after
  a backslash, in a word or in double quotes.
\<close>

datatype lex_state = Between | Word | Quoted char | Escaped "char option"

definition lex_blank :: "char \<Rightarrow> bool" where
  "lex_blank c \<longleftrightarrow> code c \<in> set [9, 10, 13, 32]"

text \<open>The words, with the one being read; none when a quote or a backslash is left open.\<close>

fun shlex_from :: "lex_state \<Rightarrow> string \<Rightarrow> string \<Rightarrow> string list option" where
  "shlex_from Between acc [] = Some []"
| "shlex_from Word acc [] = Some [rev acc]"
| "shlex_from (Quoted q) acc [] = None"
| "shlex_from (Escaped e) acc [] = None"
| "shlex_from Between acc (c # s) =
     (if lex_blank c then shlex_from Between [] s
      else if c = backslash then shlex_from (Escaped None) [] s
      else if c = squote \<or> c = dquote then shlex_from (Quoted c) [] s
      else shlex_from Word [c] s)"
| "shlex_from Word acc (c # s) =
     (if lex_blank c then map_option (\<lambda>ws. rev acc # ws) (shlex_from Between [] s)
      else if c = backslash then shlex_from (Escaped None) acc s
      else if c = squote \<or> c = dquote then shlex_from (Quoted c) acc s
      else shlex_from Word (c # acc) s)"
| "shlex_from (Quoted q) acc (c # s) =
     (if c = q then shlex_from Word acc s
      else if c = backslash \<and> q = dquote then shlex_from (Escaped (Some q)) acc s
      else shlex_from (Quoted q) (c # acc) s)"
| "shlex_from (Escaped None) acc (c # s) = shlex_from Word (c # acc) s"
| "shlex_from (Escaped (Some q)) acc (c # s) =
     shlex_from (Quoted q) (c # (if c \<noteq> backslash \<and> c \<noteq> q then backslash # acc else acc)) s"

definition shlex_split :: "string \<Rightarrow> string list option" where
  "shlex_split s = shlex_from Between [] s"

subsection \<open>The decision\<close>

definition shell_separators :: "string list" where
  "shell_separators = [''|'', ''||'', ''&&'', '';'', ''>'', ''>>'', ''<'']"

definition expand_workspace_token :: "string \<Rightarrow> string \<Rightarrow> path \<Rightarrow> string option" where
  "expand_workspace_token home token workspace =
     (let stripped = py_strip token in
      if stripped \<in> set shell_separators then None
      else Some (replace_first ''~'' home
        (replace_all ''$PWD'' (path_str workspace) (replace_all ''${PWD}'' (path_str workspace) stripped))))"

definition command_target_path :: "(path \<Rightarrow> path option) \<Rightarrow> path \<Rightarrow> string \<Rightarrow> path option" where
  "command_target_path link workspace token =
     (let candidate = py_strip token in
      if candidate = [] then None
      else if candidate \<in> set [''.'', ''./''] then Some workspace
      else Some (resolve_from link workspace candidate))"

definition destructive_commands :: "string list" where
  "destructive_commands = [''rm'', ''rmdir'', ''mv'', ''chmod'', ''chown'']"

definition skipped_token :: "string \<Rightarrow> bool" where
  "skipped_token token \<longleftrightarrow> token = [] \<or> py_startswith token ''-''"

fun check_tokens :: "(path \<Rightarrow> path option) \<Rightarrow> string \<Rightarrow> path \<Rightarrow> bool \<Rightarrow> string list \<Rightarrow> string" where
  "check_tokens link home workspace destructive [] = ''allow''"
| "check_tokens link home workspace destructive (token # tokens) =
     (if skipped_token token then check_tokens link home workspace destructive tokens
      else case expand_workspace_token home token workspace of
        None \<Rightarrow> check_tokens link home workspace destructive tokens
      | Some normalized \<Rightarrow> (case command_target_path link workspace normalized of
          None \<Rightarrow> ''ask''
        | Some resolved \<Rightarrow>
            if resolved = workspace \<and> destructive then ''deny''
            else if \<not> prefix workspace resolved then ''ask''
            else check_tokens link home workspace destructive tokens))"

definition bash_permission_decision :: "(path \<Rightarrow> path option) \<Rightarrow> string \<Rightarrow> string \<Rightarrow> path \<Rightarrow> string" where
  "bash_permission_decision link home command workspace = (case shlex_split command of
     None \<Rightarrow> ''ask''
   | Some [] \<Rightarrow> ''allow''
   | Some (name # tokens) \<Rightarrow> check_tokens link home workspace (name \<in> set destructive_commands) tokens)"

definition bash_check_permissions :: "string \<Rightarrow> json_object \<Rightarrow> tool_context \<Rightarrow> file_system \<Rightarrow> py_error + string" where
  "bash_check_permissions home args ctx w = ebind (effective_root ctx w) (\<lambda>root.
     Inr (bash_permission_decision (fw_link w) home (py_str (dict_get_default args ''command'' (JStr []))) root))"

subsection \<open>The run\<close>

definition default_timeout_ms :: int where "default_timeout_ms = 60000"
definition max_timeout_ms :: int where "max_timeout_ms = 600000"

definition require_timeout :: "json_object \<Rightarrow> string \<Rightarrow> py_error + int" where
  "require_timeout d k = ebind (require_positive_int_field d k) (\<lambda>n.
     if n > max_timeout_ms then Inl (ValueError (''timeout_ms must be <= '' @ int_str max_timeout_ms)) else Inr n)"

definition bash_validate :: "json_object \<Rightarrow> tool_error + json_object option" where
  "bash_validate args = as_tool_error
     (ebind (check_required require_string_field JStr ''command'' args) (\<lambda>a.
      ebind (check_field require_timeout JInt ''timeout_ms'' a) (\<lambda>b.
      Inr (Some b))))"

text \<open>What the shell leaves: its exit code and what it wrote; none when it ran out of time.\<close>

type_synonym shell = "string \<Rightarrow> path \<Rightarrow> int \<Rightarrow> file_system \<Rightarrow> (int \<times> string \<times> string) option \<times> file_system"

definition base64_mark :: string where
  "base64_mark = '';base64,''"

definition image_prefix :: string where
  "image_prefix = ''data:image/''"

definition bash_result_content :: "string \<Rightarrow> py_error + json list" where
  "bash_result_content text =
     (let stripped = py_strip text in
      if py_startswith stripped image_prefix \<and> py_contains stripped base64_mark then
        (let (header, data) = partition_at (CHR '','') stripped in
         case split_first '';base64'' header of
           None \<Rightarrow> Inl (ValueError ''substring not found'')
         | Some (before, _) \<Rightarrow> Inr [image_block (drop 5 before) data (Some ''bash output image'')])
      else if stripped = [] then Inr []
      else Inr [text_block stripped])"

definition bash_call :: "shell \<Rightarrow> json_object \<Rightarrow> tool_context \<Rightarrow> (file_system, tool_result) eff" where
  "bash_call sh args ctx =
     bind (lift (field_str args ''command'')) (\<lambda>command.
     bind (reads (effective_root ctx)) (\<lambda>root.
     bind (lift (int_argument args ''timeout_ms'' default_timeout_ms)) (\<lambda>timeout_ms.
     bind (\<lambda>w. let (r, w') = sh command root timeout_ms w in (Inr r, w')) (\<lambda>completed.
     case completed of
       None \<Rightarrow> throw (RuntimeErr (''command timed out after '' @ int_str timeout_ms @ ''ms''))
     | Some (exit_code, out, err) \<Rightarrow>
         let merged = merge_process_output out err in
         if exit_code \<noteq> 0 then throw (RuntimeErr (if py_strip merged \<noteq> [] then py_strip merged
             else ''command failed with exit code '' @ int_str exit_code))
         else bind (lift (bash_result_content (py_rstrip merged))) (\<lambda>content.
           ret (tool_success ''Bash'' content
             [(''cwd'', JStr (path_str root)), (''exit_code'', JInt exit_code), (''timeout_ms'', JInt timeout_ms)]))))))"

definition bash_schema :: json where
  "bash_schema = object_schema
     [(''command'', string_property ''Full shell command to execute in the current workspace root.''
        [''pytest -q tests/tools/test_tools_alignment.py'', ''python -m pytest -q sympy/core/tests/test_symbol.py'',
         ''git diff --stat''] []),
      (''timeout_ms'', integer_property ''Optional timeout in milliseconds for the command.'' [1000, 30000] (Some 1))]
     [''command'']"

end
