(* ===== verification/FileToolProps.thy ===== *)
theory FileToolProps
  imports SearchTools ShellGuard
begin

text \<open>
  What the workspace tools guarantee: the file tools neither change nor read a file outside the
  workspace, Edit replaces exactly the text it names, Glob lists exactly the first matches, Grep's pages
  cover its results, and what the permission check of Bash does and does not establish.
\<close>

subsection \<open>Paths and dictionaries\<close>

lemma bind_lift_case: "bind (lift r) f w = (case r of Inl e \<Rightarrow> (Inl e, w) | Inr x \<Rightarrow> f x w)"
  by (simp add: bind_def lift_def)

lemma bind_readsE:
  assumes "fst (bind (reads g) f w) = Inr r"
  obtains x where "g w = Inr x" "fst (f x w) = Inr r"
  using assms by (cases "g w") (simp_all add: bind_reads)

lemma bind_liftE:
  assumes "fst (bind (lift x) f w) = Inr r"
  obtains y where "x = Inr y" "fst (f y w) = Inr r"
  using assms by (cases x) (simp_all add: bind_lift_case)

lemma resolve_path_inside: "resolve_path root raw w = Inr p \<Longrightarrow> prefix root p"
  by (auto simp: resolve_path_def Let_def split: if_splits)

lemma resolve_path_cong: "fw_links w = fw_links w' \<Longrightarrow> resolve_path root raw w = resolve_path root raw w'"
  by (simp add: resolve_path_def fw_link_def)

lemma effective_root_cong:
  "fw_links w = fw_links w' \<Longrightarrow> fw_cwd w = fw_cwd w' \<Longrightarrow> effective_root ctx w = effective_root ctx w'"
  by (simp add: effective_root_def fw_link_def split: option.split)

subsection \<open>No file outside the workspace changes\<close>

text \<open>From \<open>w\<close> to \<open>w'\<close> no file outside the directory changed, and no link.\<close>

definition only_within :: "path \<Rightarrow> file_system \<Rightarrow> file_system \<Rightarrow> bool" where
  "only_within root w w' \<longleftrightarrow> fw_links w' = fw_links w \<and> fw_cwd w' = fw_cwd w
     \<and> (\<forall>q. \<not> prefix root q \<longrightarrow> dict_get (fw_files w') q = dict_get (fw_files w) q)
     \<and> (\<forall>q. q \<in> set (fw_dirs w') \<longrightarrow> q \<in> set (fw_dirs w) \<or> prefix root q \<or> prefix q root)"

lemma only_within_refl [simp]: "only_within root w w"
  by (simp add: only_within_def)

lemma only_within_trans: "only_within root w w' \<Longrightarrow> only_within root w' w'' \<Longrightarrow> only_within root w w''"
  by (simp add: only_within_def) blast

lemma write_text_within: "prefix root p \<Longrightarrow> only_within root w (snd (write_text p s w))"
  by (auto simp: write_text_def only_within_def dict_get_set)

lemma make_dirs_within:
  assumes "prefix root p"
  shows "only_within root w (snd (make_dirs (butlast p) w))"
proof -
  have "prefix root q \<or> prefix q root" if "q \<in> set (prefixes (butlast p))" for q
  proof -
    from that have "prefix q p" by (metis in_set_prefixes prefix_order.trans prefixeq_butlast)
    then show ?thesis using assms prefix_same_cases by blast
  qed
  then show ?thesis by (auto simp: make_dirs_def only_within_def)
qed

lemma within_bind:
  assumes "only_within root w (snd (m w))" "\<And>x w'. m w = (Inr x, w') \<Longrightarrow> only_within root w' (snd (f x w'))"
  shows "only_within root w (snd (bind m f w))"
proof (cases "m w")
  case (Pair r w')
  then show ?thesis
    using assms by (cases r) (auto simp: bind_def intro: only_within_trans)
qed

lemma within_bind_reads:
  "(\<And>x. g w = Inr x \<Longrightarrow> only_within root w (snd (f x w))) \<Longrightarrow> only_within root w (snd (bind (reads g) f w))"
  by (rule within_bind) (auto simp: reads_def)

lemma within_bind_lift:
  "(\<And>x. r = Inr x \<Longrightarrow> only_within root w (snd (f x w))) \<Longrightarrow> only_within root w (snd (bind (lift r) f w))"
  by (rule within_bind) (auto simp: lift_def)

lemma within_ret [simp]: "only_within root w (snd (ret x w))"
  by (simp add: ret_def)

lemma within_throw [simp]: "only_within root w (snd (throw e w))"
  by (simp add: throw_def)

lemma write_call_within:
  assumes "effective_root ctx w = Inr root"
  shows "only_within root w (snd (write_call args ctx w))"
  unfolding write_call_def
proof (rule within_bind_reads, rule within_bind_lift, rule within_bind_reads, goal_cases)
  case (1 root' raw p)
  with assms have p: "prefix root p" by (simp add: resolve_path_inside)
  show ?case unfolding Let_def
  proof (rule within_bind [OF make_dirs_within [OF p]], simp only: bind_gets, rule within_bind [OF write_text_within [OF p]])
  qed simp
qed

lemma edit_call_within:
  assumes "effective_root ctx w = Inr root"
  shows "only_within root w (snd (edit_call args ctx w))"
  unfolding edit_call_def Let_def
proof (rule within_bind_reads, rule within_bind_lift, rule within_bind_reads, goal_cases)
  case (1 root' raw p)
  with assms have p: "prefix root p" by (simp add: resolve_path_inside)
  show ?case
  proof (cases "py_str (dict_get_default args ''old'' (JStr [])) = []")
    case False
    show ?thesis
      by (simp only: False if_False)
        (rule within_bind_reads, rule within_bind_lift, rule within_bind [OF write_text_within [OF p]], simp)
  qed simp
qed

text \<open>
  C26. Write and Edit never touch a file outside the workspace, whatever the arguments: with \<open>..\<close>, an
  absolute path or a symbolic link on the way, and whether they succeed or raise, every file that does not
  lie below the working directory keeps its content, no link changes, and a directory that appears lies
  below the working directory or leads to it.
\<close>

theorem file_tools_confined:
  assumes "effective_root ctx w = Inr root"
  shows "only_within root w (snd (write_call args ctx w)) \<and> only_within root w (snd (edit_call args ctx w))"
  using assms by (simp add: write_call_within edit_call_within)

subsection \<open>No file outside the workspace is read\<close>

text \<open>Two worlds that agree on the links and on everything below the directory.\<close>

definition same_within :: "path \<Rightarrow> file_system \<Rightarrow> file_system \<Rightarrow> bool" where
  "same_within root w w' \<longleftrightarrow> fw_links w' = fw_links w \<and> fw_cwd w' = fw_cwd w
     \<and> (\<forall>q. prefix root q \<longrightarrow> dict_get (fw_files w') q = dict_get (fw_files w) q
          \<and> (q \<in> set (fw_dirs w') \<longleftrightarrow> q \<in> set (fw_dirs w)))"

lemma same_within_reads:
  assumes "same_within root w w'" "prefix root p"
  shows "is_file p w' = is_file p w" "read_text p w' = read_text p w" "path_exists p w' = path_exists p w"
    "fst (write_text p s w') = fst (write_text p s w)"
  using assms by (simp_all add: same_within_def is_file_def read_text_def path_exists_def write_text_def)

lemma same_within_paths:
  assumes "same_within root w w'"
  shows "resolve_path r raw w' = resolve_path r raw w" "effective_root ctx w' = effective_root ctx w"
  using assms resolve_path_cong [of w' w] effective_root_cong [of w' w] by (simp_all add: same_within_def)

lemma same_bind_reads:
  assumes "g w' = g w" "\<And>x. g w = Inr x \<Longrightarrow> fst (f x w') = fst (f x w)"
  shows "fst (bind (reads g) f w') = fst (bind (reads g) f w)"
  using assms by (cases "g w") (simp_all add: bind_reads)

lemma same_bind_lift:
  assumes "\<And>x. r = Inr x \<Longrightarrow> fst (f x w') = fst (f x w)"
  shows "fst (bind (lift r) f w') = fst (bind (lift r) f w)"
  using assms by (cases r) (simp_all add: bind_def lift_def)

lemma read_call_same:
  assumes "effective_root ctx w = Inr root" "same_within root w w'"
  shows "fst (read_call args ctx w') = fst (read_call args ctx w)"
  unfolding read_call_def
proof (rule same_bind_reads, rule same_within_paths [OF assms(2)], rule same_bind_lift, rule same_bind_reads,
    rule same_within_paths [OF assms(2)], goal_cases)
  case (1 root' raw p)
  with assms(1) have p: "prefix root p" by (simp add: resolve_path_inside)
  show ?case
    by (rule same_bind_reads, simp add: same_within_reads(1) [OF assms(2) p], rule same_bind_reads,
      rule same_within_reads(2) [OF assms(2) p], rule same_bind_lift, rule same_bind_lift)
      (simp add: ret_def Let_def split: prod.split)
qed

lemma edit_call_same:
  assumes "effective_root ctx w = Inr root" "same_within root w w'"
  shows "fst (edit_call args ctx w') = fst (edit_call args ctx w)"
  unfolding edit_call_def Let_def
proof (rule same_bind_reads, rule same_within_paths [OF assms(2)], rule same_bind_lift, rule same_bind_reads,
    rule same_within_paths [OF assms(2)], goal_cases)
  case (1 root' raw p)
  with assms(1) have p: "prefix root p" by (simp add: resolve_path_inside)
  show ?case
  proof (cases "py_str (dict_get_default args ''old'' (JStr [])) = []")
    case False
    have "fst (bind (write_text p s) (\<lambda>_. ret r) w') = fst (bind (write_text p s) (\<lambda>_. ret r) w)" for s and r :: tool_result
      using assms(2) p by (simp add: same_within_def bind_def ret_def write_text_def)
    then show ?thesis
      by (simp only: False if_False) (rule same_bind_reads, rule same_within_reads(2) [OF assms(2) p], rule same_bind_lift)
  qed (simp add: throw_def)
qed


subsection \<open>Edit replaces exactly what it names\<close>

lemma edited_once:
  assumes "edited_text old new False content = Inr u" "old \<noteq> []"
  shows "\<exists>b a. split_first old content = Some (b, a) \<and> content = b @ old @ a \<and> py_count old a = 0 \<and> u = b @ new @ a"
proof -
  from assms have count: "py_count old content = 1"
    by (auto simp: edited_text_def split: if_splits)
  then obtain b a where s: "split_first old content = Some (b, a)"
    using assms(2) by (subst (asm) py_count.simps) (auto split: option.splits)
  then have "py_count old a = 0"
    using count assms(2) by (subst (asm) py_count.simps) simp
  moreover have "u = b @ new @ a"
    using assms count s by (simp add: edited_text_def replace_first_def)
  ultimately show ?thesis using s split_first_Some [OF s] by blast
qed


subsection \<open>Glob lists the first matches\<close>

definition glob_hit :: "path \<Rightarrow> string \<Rightarrow> path \<Rightarrow> bool" where
  "glob_hit root pattern p \<longleftrightarrow> fnmatch (relative_str root p) pattern \<or> fnmatch (last p) pattern"

lemma glob_matches_take:
  "int n < limit \<Longrightarrow>
   glob_matches root pattern limit n ps = take (nat limit - n) (map (relative_str root) (filter (glob_hit root pattern) ps))"
proof (induction ps arbitrary: n)
  case (Cons p ps)
  show ?case
  proof (cases "glob_hit root pattern p")
    case True
    have "nat limit - n = Suc (nat limit - Suc n)" using Cons.prems by simp
    then show ?thesis
      using True Cons.IH [of "Suc n"] by (auto simp: glob_hit_def Let_def)
  next
    case False
    then show ?thesis using Cons by (simp add: glob_hit_def Let_def)
  qed
qed simp

text \<open>
  Glob lists, in the order of the sorted paths, exactly the first \<open>limit\<close> files below the search
  directory whose relative path or name matches the pattern: none is skipped, none is listed twice, and the
  stop at the limit loses only what comes after it.
\<close>

theorem glob_lists_first_matches:
  assumes "0 < limit"
  shows "glob_matches root pattern limit 0 (filter (entry_is_file w) (rglob_all base w))
    = take (nat limit) (map (relative_str root) (filter (\<lambda>p. entry_is_file w p \<and> glob_hit root pattern p) (rglob_all base w)))
    \<and> distinct (rglob_all base w) \<and> sorted (rglob_all base w)"
proof -
  have "filter (glob_hit root pattern) (filter (entry_is_file w) ps) = filter (\<lambda>p. entry_is_file w p \<and> glob_hit root pattern p) ps" for ps
    by (simp add: conj_commute)
  then show ?thesis
    using glob_matches_take [of 0 limit] assms by (simp add: rglob_all_def)
qed

subsection \<open>Grep pages\<close>

lemma window_from: "fst (apply_window results 0 (int i) mode) = drop i (window_lines mode results)"
  by (simp add: apply_window_def Let_def py_slice_nat)

lemma window_page:
  assumes "0 < k"
  shows "fst (apply_window results (int k) (int i) mode) = take k (drop i (window_lines mode results))"
    "snd (apply_window results (int k) (int i) mode) \<longleftrightarrow> i + k < length (window_lines mode results)"
proof -
  have slice: "py_slice (int i) (int i + int k) xs = take k (drop i xs)" for xs :: "string list"
    using py_slice_nat [of i "i + k" xs] by simp
  show "fst (apply_window results (int k) (int i) mode) = take k (drop i (window_lines mode results))"
    using assms by (simp add: apply_window_def Let_def slice)
  show "snd (apply_window results (int k) (int i) mode) \<longleftrightarrow> i + k < length (window_lines mode results)"
    using assms by (auto simp: apply_window_def Let_def)
qed

text \<open>
  Paging through Grep's results loses and repeats nothing: the page at an offset followed by all
  that comes after the page is all that comes after the offset, and the page is marked truncated exactly
  when there is more.
\<close>

theorem grep_pages_cover:
  assumes "0 \<le> offset" "0 < head_limit"
  shows "fst (apply_window results head_limit offset mode) @ fst (apply_window results 0 (offset + head_limit) mode)
      = fst (apply_window results 0 offset mode)
    \<and> (snd (apply_window results head_limit offset mode)
      \<longleftrightarrow> fst (apply_window results 0 (offset + head_limit) mode) \<noteq> [])"
proof -
  obtain i k where "offset = int i" "head_limit = int k" "0 < k"
    using assms by (metis nonneg_int_cases of_nat_0_less_iff order_less_imp_le)
  then show ?thesis
    using window_page [of k results i mode] window_from [of results "i + k" mode] window_from [of results i mode]
    using append_take_drop_id [of k "drop i (window_lines mode results)"]
    by (simp add: add.commute not_le)
qed

subsection \<open>What the permission check of Bash establishes\<close>

text \<open>
  C29. When Bash allows a command, every argument that is not an option and not one of the separators
  it knows names, read as a path from the workspace, a place inside the workspace; and no argument of a
  destructive command names the workspace itself.
\<close>

theorem bash_allow_confined:
  assumes "bash_permission_decision link home command workspace = ''allow''"
    "shlex_split command = Some (name # tokens)" "token \<in> set tokens" "\<not> skipped_token token"
    "expand_workspace_token home token workspace = Some normalized"
  shows "\<exists>p. command_target_path link workspace normalized = Some p \<and> prefix workspace p
    \<and> (name \<in> set destructive_commands \<longrightarrow> p \<noteq> workspace)"
proof -
  have "check_tokens link home workspace destructive ts = ''allow'' \<Longrightarrow> token \<in> set ts \<Longrightarrow>
      \<exists>p. command_target_path link workspace normalized = Some p \<and> prefix workspace p \<and> (destructive \<longrightarrow> p \<noteq> workspace)"
    for ts destructive
    using assms(4,5) by (induction ts) (auto split: if_splits option.splits)
  then show ?thesis using assms(1-3) by (simp add: bash_permission_decision_def)
qed

definition plain_char :: "char \<Rightarrow> bool" where
  "plain_char c \<longleftrightarrow> \<not> lex_blank c \<and> c \<notin> set [backslash, squote, dquote]"

lemma shlex_plain: "list_all plain_char s \<Longrightarrow> shlex_from Word acc s = Some [rev acc @ s]"
  by (induction s arbitrary: acc) (auto simp: plain_char_def)

text \<open>
  A command without blanks, quotes and backslashes is one word to the check and is always allowed,
  wherever it reads or writes: the redirections, pipes and separators the shell sees in it are not looked at.
\<close>

theorem bash_one_word_allowed:
  assumes "list_all plain_char command" "effective_root ctx w = Inr root"
  shows "bash_check_permissions home [(''command'', JStr command)] ctx w = Inr ''allow''"
proof -
  have "shlex_split command = (if command = [] then Some [] else Some [command])"
    using assms(1) shlex_plain [of "tl command" "[hd command]"]
    by (cases command) (auto simp: shlex_split_def plain_char_def)
  then show ?thesis
    by (simp add: bash_check_permissions_def assms(2) dict_get_default_def bash_permission_decision_def)
qed

subsection \<open>A workspace with a way out\<close>

definition demo_dir_context :: tool_context where
  "demo_dir_context = \<lparr>ctx_session = ''s1'', ctx_approved = [], ctx_cancel = None, ctx_agent = None, ctx_task = None,
     ctx_workdir = Some ''/ws''\<rparr>"

text \<open>A secret outside, and a link in the workspace that leads to its directory.\<close>

definition demo_workspace :: file_system where
  "demo_workspace = \<lparr>fw_files = [([''ws'', ''a.txt''], ''one two one''), ([''etc'', ''passwd''], ''secret'')],
     fw_dirs = [[], [''ws''], [''etc'']], fw_links = [([''ws'', ''out''], [''etc''])], fw_cwd = []\<rparr>"

definition demo_edit :: json_object where
  "demo_edit = [(''path'', JStr ''b/../a.txt''), (''old'', JStr ''two''), (''new'', JStr ''2'')]"

lemma demo_dir_root: "effective_root demo_dir_context demo_workspace = Inr [''ws'']"
  by code_simp

theorem file_tools_confined_witness:
  "only_within [''ws''] demo_workspace (snd (write_call [(''path'', JStr ''out/passwd''), (''content'', JStr ''x'')] demo_dir_context demo_workspace))
   \<and> fst (write_call [(''path'', JStr ''out/passwd''), (''content'', JStr ''x'')] demo_dir_context demo_workspace)
     = Inl (AppError ''PermissionError'' ''path escapes current workspace'')
   \<and> dict_get (fw_files (snd (write_call [(''path'', JStr ''./sub/b.txt''), (''content'', JStr ''x'')] demo_dir_context demo_workspace)))
     [''ws'', ''sub'', ''b.txt''] = Some ''x''"
proof (intro conjI)
  show "only_within [''ws''] demo_workspace (snd (write_call [(''path'', JStr ''out/passwd''), (''content'', JStr ''x'')] demo_dir_context demo_workspace))"
    using file_tools_confined [OF demo_dir_root] by blast
qed code_simp+



theorem glob_lists_first_matches_witness:
  "glob_matches [''ws''] ''*.txt'' 1 0 (filter (entry_is_file demo_workspace) (rglob_all [''ws''] demo_workspace)) = [''a.txt'']
   \<and> distinct (rglob_all [''ws''] demo_workspace)"
proof -
  have "take (nat 1) (map (relative_str [''ws'']) (filter (\<lambda>p. entry_is_file demo_workspace p \<and> glob_hit [''ws''] ''*.txt'' p)
      (rglob_all [''ws''] demo_workspace))) = [''a.txt'']" by code_simp
  then show ?thesis
    using glob_lists_first_matches [of 1 "[''ws'']" "''*.txt''" demo_workspace "[''ws'']"] by simp
qed

theorem grep_pages_cover_witness:
  "fst (apply_window [''./a'', ''b'', ''c''] 2 0 ''count'') @ fst (apply_window [''./a'', ''b'', ''c''] 0 2 ''count'') = [''a'', ''b'', ''c'']
   \<and> snd (apply_window [''./a'', ''b'', ''c''] 2 0 ''count'')"
proof -
  have "fst (apply_window [''./a'', ''b'', ''c''] 0 0 ''count'') = [''a'', ''b'', ''c'']"
    "fst (apply_window [''./a'', ''b'', ''c''] 0 2 ''count'') = [''c'']" by code_simp+
  then show ?thesis
    using grep_pages_cover [of 0 2 "[''./a'', ''b'', ''c'']" "''count''"] by simp
qed

theorem bash_allow_confined_witness:
  "\<exists>p. command_target_path (fw_link demo_workspace) [''ws''] ''sub/x'' = Some p \<and> prefix [''ws''] p
    \<and> (''rm'' \<in> set destructive_commands \<longrightarrow> p \<noteq> [''ws''])"
  by (rule bash_allow_confined [where home = "''/home/u''" and command = "''rm -rf sub/x''" and tokens = "[''-rf'', ''sub/x'']"
      and token = "''sub/x''"]) code_simp+

theorem bash_one_word_allowed_witness:
  "bash_check_permissions ''/home/u'' [(''command'', JStr ''cat</etc/passwd'')] demo_dir_context demo_workspace = Inr ''allow''
   \<and> bash_check_permissions ''/home/u'' [(''command'', JStr ''cat /etc/passwd'')] demo_dir_context demo_workspace = Inr ''ask''"
proof
  show "bash_check_permissions ''/home/u'' [(''command'', JStr ''cat</etc/passwd'')] demo_dir_context demo_workspace = Inr ''allow''"
    by (rule bash_one_word_allowed [OF _ demo_dir_root]) code_simp
qed code_simp

end
