(* ===== verification/MultiAgent.thy ===== *)
theory MultiAgent
  imports Background Tools
begin

text \<open>
  Local delegation, \<^verbatim>\<open>harness/multi_agent\<close>: a delegated agent is a background task of the orchestrator,
  its end is announced to the session that asked for it, and a view shows what it has done.

  The runtime's task manager, its retention helper and its orchestrator share one manager, as
  \<^verbatim>\<open>assemblies/local_runtime.py\<close> builds them, so the state is an orchestrator with the counter of agents
  and the router's two boxes of messages.  The workspace preparer is a parameter.
\<close>

subsection \<open>Data\<close>

datatype agent_channel = CH_TASK_NOTIFICATION | CH_DIRECT_VIEW_INPUT | CH_MAILBOX

fun agent_channel_value :: "agent_channel \<Rightarrow> string" where
  "agent_channel_value CH_TASK_NOTIFICATION = ''task_notification''"
| "agent_channel_value CH_DIRECT_VIEW_INPUT = ''direct_view_input''"
| "agent_channel_value CH_MAILBOX = ''mailbox''"

record invocation =
  iv_prompt :: string
  iv_type :: string
  iv_description :: "string option"
  iv_background :: bool
  iv_session :: "string option"
  iv_request :: "string option"
  iv_parent_task :: "string option"

record agent_identity =
  ai_id :: string
  ai_type :: string
  ai_parent :: "string option"
  ai_session :: "string option"
  ai_request :: "string option"
  ai_kind :: string
  ai_workspace :: "string option"

definition agent_identity_to_dict :: "agent_identity \<Rightarrow> json_object" where
  "agent_identity_to_dict a = [(''agent_id'', JStr (ai_id a)), (''agent_type'', JStr (ai_type a)),
     (''parent_agent_ref'', jopt_str (ai_parent a)), (''parent_session_id'', jopt_str (ai_session a)),
     (''invoking_request_id'', jopt_str (ai_request a)), (''invocation_kind'', JStr (ai_kind a)),
     (''workspace'', jopt_str (ai_workspace a))]"

record agent_message =
  am_channel :: agent_channel
  am_sender :: json_object
  am_recipient :: json_object
  am_payload :: json_object
  am_summary :: "string option"
  am_team :: "string option"
  am_timestamp :: "string option"

definition agent_message_to_dict :: "agent_message \<Rightarrow> json_object" where
  "agent_message_to_dict m = [(''channel'', JStr (agent_channel_value (am_channel m))), (''sender'', JDict (am_sender m)),
     (''recipient'', JDict (am_recipient m)), (''payload'', JDict (am_payload m)), (''summary'', jopt_str (am_summary m)),
     (''team'', jopt_str (am_team m)), (''timestamp'', jopt_str (am_timestamp m))]"

record notification_envelope =
  ne_recipient :: string
  ne_task :: string
  ne_type :: string
  ne_summary :: string
  ne_payload :: json_object

record direct_input =
  di_recipient :: string
  di_content :: string
  di_sender :: "string option"
  di_metadata :: json_object

record view_entry =
  ve_source :: string
  ve_kind :: string
  ve_payload :: json

record viewed_transcript =
  vt_task :: string
  vt_entries :: "view_entry list"
  vt_retained :: bool

subsection \<open>Routing\<close>

type_synonym message_boxes = "(string, agent_message list) pydict"

definition box_of :: "message_boxes \<Rightarrow> string \<Rightarrow> agent_message list" where
  "box_of boxes r = dict_get_default boxes r []"

definition post :: "string \<Rightarrow> agent_message \<Rightarrow> message_boxes \<Rightarrow> message_boxes" where
  "post r m boxes = dict_set r (box_of boxes r @ [m]) boxes"

text \<open>The messages of a recipient, and the boxes with that one emptied.\<close>

definition take_box :: "string \<Rightarrow> message_boxes \<Rightarrow> agent_message list \<times> message_boxes" where
  "take_box r boxes = (box_of boxes r, dict_set r [] boxes)"

definition notification_message :: "notification_envelope \<Rightarrow> agent_message" where
  "notification_message e = \<lparr>am_channel = CH_TASK_NOTIFICATION,
     am_sender = [(''type'', JStr ''task_runtime''), (''task_id'', JStr (ne_task e))],
     am_recipient = [(''type'', JStr ''leader''), (''recipient_id'', JStr (ne_recipient e))],
     am_payload = dict_merge [(''event_type'', JStr (ne_type e))] (ne_payload e),
     am_summary = Some (ne_summary e), am_team = None, am_timestamp = None\<rparr>"

definition direct_message :: "direct_input \<Rightarrow> agent_message" where
  "direct_message d = \<lparr>am_channel = CH_DIRECT_VIEW_INPUT,
     am_sender = [(''type'', JStr ''leader''), (''sender_id'', jopt_str (di_sender d))],
     am_recipient = [(''type'', JStr ''worker''), (''recipient_id'', JStr (di_recipient d))],
     am_payload = dict_merge [(''content'', JStr (di_content d))] (di_metadata d),
     am_summary = None, am_team = None, am_timestamp = None\<rparr>"

subsection \<open>The runtime\<close>

record 's multi_agent =
  ma_orch :: "'s orchestrator"
  ma_agents :: nat
  ma_notifications :: message_boxes
  ma_inputs :: message_boxes
  ma_parent :: string

definition on_orch :: "('s orchestrator, 'a) eff \<Rightarrow> ('s multi_agent, 'a) eff" where
  "on_orch m ma = (let (r, st) = m (ma_orch ma) in (r, ma\<lparr>ma_orch := st\<rparr>))"

text \<open>\<open>workspace_preparer(agent_id, parent_session_id, metadata)\<close>, when one is configured.\<close>

type_synonym 's workspace_preparer = "string \<Rightarrow> string option \<Rightarrow> json_object \<Rightarrow> ('s multi_agent, string) eff"

definition build_delegated_identity :: "invocation \<Rightarrow> ('s multi_agent, agent_identity) eff" where
  "build_delegated_identity iv ma = (Inr \<lparr>ai_id = ''delegated-agent-'' @ nat_str (Suc (ma_agents ma)), ai_type = iv_type iv,
     ai_parent = None, ai_session = iv_session iv, ai_request = iv_request iv,
     ai_kind = (if iv_background iv then ''background'' else ''synchronous''), ai_workspace = None\<rparr>,
     ma\<lparr>ma_agents := Suc (ma_agents ma)\<rparr>)"

definition delegate_metadata :: "agent_identity \<Rightarrow> json_object" where
  "delegate_metadata a = [(''delegated_agent_id'', JStr (ai_id a)), (''delegated_agent_type'', JStr (ai_type a)),
     (''parent_agent_ref'', jopt_str (ai_parent a)), (''parent_session_id'', jopt_str (ai_session a)),
     (''invoking_request_id'', jopt_str (ai_request a)), (''workspace'', jopt_str (ai_workspace a))]"

text \<open>The worker of a background delegation gives this output, then returns this result.\<close>

definition delegate_output :: "invocation \<Rightarrow> agent_identity \<Rightarrow> json" where
  "delegate_output iv a = JDict [(''summary'', JStr (iv_prompt iv)), (''worker_agent_id'', JStr (ai_id a))]"

definition delegate_result :: "string \<Rightarrow> invocation \<Rightarrow> agent_identity \<Rightarrow> worker_result" where
  "delegate_result i iv a = WDict [(''summary'', JStr (''Background delegate finished: '' @ iv_prompt iv)),
     (''worker_agent_id'', JStr (ai_id a)), (''worker_task_id'', JStr i)]"

definition delegate_background :: "'s task_env \<Rightarrow> invocation \<Rightarrow> agent_identity \<Rightarrow> ('s multi_agent, json_object) eff" where
  "delegate_background env iv a =
     bind (on_orch (start_background_task env
       (case str_opt_or (iv_description iv) None of Some d \<Rightarrow> d | None \<Rightarrow> iv_prompt iv)
       (Some (delegate_metadata a)) (ai_session a) (Some (ai_id a)) (iv_parent_task iv))) (\<lambda>h.
     ret [(''mode'', JStr ''background''), (''task_id'', JStr (bh_task h)), (''agent'', JDict (agent_identity_to_dict a)),
       (''status'', jopt_str (bh_status h)), (''workspace'', jopt_str (ai_workspace a))])"

definition delegate_synchronous :: "invocation \<Rightarrow> agent_identity \<Rightarrow> json_object" where
  "delegate_synchronous iv a = [(''mode'', JStr ''synchronous''), (''agent'', JDict (agent_identity_to_dict a)),
     (''summary'', JStr (''Delegated worker accepted task: '' @ iv_prompt iv)),
     (''output_ref'', JStr (''memory://delegates/'' @ ai_id a @ ''/result'')), (''workspace'', jopt_str (ai_workspace a))]"

definition prepare_workspace ::
  "'s workspace_preparer option \<Rightarrow> invocation \<Rightarrow> agent_identity \<Rightarrow> ('s multi_agent, agent_identity) eff" where
  "prepare_workspace preparer iv a = (case preparer of
     None \<Rightarrow> ret a
   | Some prepare \<Rightarrow>
       bind (prepare (ai_id a) (iv_session iv) [(''agent_type'', JStr (ai_type a)),
         (''parent_agent_ref'', jopt_str (ai_parent a)), (''invoking_request_id'', jopt_str (ai_request a))]) (\<lambda>d.
       ret (a\<lparr>ai_workspace := Some d\<rparr>)))"

definition delegate :: "'s task_env \<Rightarrow> 's workspace_preparer option \<Rightarrow> invocation \<Rightarrow> ('s multi_agent, json_object) eff" where
  "delegate env preparer iv =
     bind (build_delegated_identity iv) (\<lambda>a0.
     bind (gets ma_parent) (\<lambda>parent.
     bind (prepare_workspace preparer iv (a0\<lparr>ai_parent := Some parent\<rparr>)) (\<lambda>a.
     if iv_background iv then delegate_background env iv a else ret (delegate_synchronous iv a))))"

text \<open>
  The handler of the Agent tool; \<open>audited\<close> is the request id in the audit metadata of the context, when
  it is a string.
\<close>

definition first_truthy :: "json_object \<Rightarrow> string list \<Rightarrow> json option" where
  "first_truthy d ks = find truthy (map (jget d) ks)"

definition invocation_of :: "(tool_context \<Rightarrow> string option) \<Rightarrow> json_object \<Rightarrow> tool_context option \<Rightarrow> py_error + invocation" where
  "invocation_of audited args ctx =
     (let prompt = py_strip (case first_truthy args [''task'', ''prompt''] of None \<Rightarrow> [] | Some v \<Rightarrow> py_str v) in
      if prompt = [] then Inl (ValueError ''Agent tool requires task or prompt'')
      else Inr \<lparr>iv_prompt = prompt,
        iv_type = (case first_truthy args [''agent_type''] of None \<Rightarrow> ''delegate'' | Some v \<Rightarrow> py_str v),
        iv_description = Some (case first_truthy args [''description''] of None \<Rightarrow> prompt | Some v \<Rightarrow> py_str v),
        iv_background = truthy (dict_get_default args ''run_in_background'' (JBool False)),
        iv_session = map_option ctx_session ctx,
        iv_request = (case Option.bind ctx audited of Some r \<Rightarrow> Some r | None \<Rightarrow> as_str (jget args ''request_id'')),
        iv_parent_task = Option.bind ctx ctx_task\<rparr>)"

definition agent_handler :: "'s task_env \<Rightarrow> 's workspace_preparer option \<Rightarrow> (tool_context \<Rightarrow> string option)
    \<Rightarrow> json_object \<Rightarrow> tool_context option \<Rightarrow> ('s multi_agent, json_object) eff" where
  "agent_handler env preparer audited args ctx = bind (lift (invocation_of audited args ctx)) (delegate env preparer)"

subsection \<open>Notifications\<close>

text \<open>A task that has ended, for this session, and is not yet announced.\<close>

definition due_for :: "string \<Rightarrow> task_record \<Rightarrow> bool" where
  "due_for r t \<longleftrightarrow> \<not> tk_notified t \<and> task_status_str (tk_status t) \<in> set [''completed'', ''failed'', ''killed'']
     \<and> jget (dict_or_empty (tk_metadata t)) ''parent_session_id'' = JStr r"

definition task_notification :: "string \<Rightarrow> task_record \<Rightarrow> agent_message" where
  "task_notification r t = notification_message \<lparr>ne_recipient = r, ne_task = tk_id t, ne_type = task_status_str (tk_status t),
     ne_summary = tk_description t,
     ne_payload = [(''output_ref'', jopt_str (tk_output_ref t)), (''agent_id'', jopt_str (tk_agent t))]\<rparr>"

definition announce_task :: "'s task_env \<Rightarrow> string \<Rightarrow> task_record \<Rightarrow> ('s multi_agent, unit) eff" where
  "announce_task env r t =
     bind (modify (\<lambda>ma. ma\<lparr>ma_notifications := post r (task_notification r t) (ma_notifications ma)\<rparr>)) (\<lambda>_.
     bind (on_orch (registry_mark_notified env (tk_id t))) (\<lambda>_. ret ()))"

definition read_task_notifications :: "string \<Rightarrow> ('s multi_agent, agent_message list) eff" where
  "read_task_notifications r ma = (let (ms, boxes) = take_box r (ma_notifications ma) in (Inr ms, ma\<lparr>ma_notifications := boxes\<rparr>))"

definition sync_task_notifications :: "'s task_env \<Rightarrow> string \<Rightarrow> ('s multi_agent, json_object list) eff" where
  "sync_task_notifications env r =
     bind (on_orch (registry_list env None)) (\<lambda>ts.
     bind (each (announce_task env r) (filter (due_for r) ts)) (\<lambda>_.
     bind (read_task_notifications r) (\<lambda>ms.
     ret (map agent_message_to_dict ms))))"

definition send_direct_view_input :: "direct_input \<Rightarrow> ('s multi_agent, unit) eff" where
  "send_direct_view_input d = modify (\<lambda>ma. ma\<lparr>ma_inputs := post (di_recipient d) (direct_message d) (ma_inputs ma)\<rparr>)"

definition read_direct_view_inputs :: "string \<Rightarrow> ('s multi_agent, json_object list) eff" where
  "read_direct_view_inputs r ma = (let (ms, boxes) = take_box r (ma_inputs ma) in
     (Inr (map agent_message_to_dict ms), ma\<lparr>ma_inputs := boxes\<rparr>))"

subsection \<open>Views\<close>

text \<open>The implementation a background task registers reads its output from the registry, as for its events.\<close>

definition project_view :: "'s task_env \<Rightarrow> string \<Rightarrow> ('s multi_agent, viewed_transcript) eff" where
  "project_view env i =
     bind (on_orch (manager_read_events (orch_events env) env i 0)) (\<lambda>es.
     bind (on_orch (manager_read_output (\<lambda>x. Some (registry_read_output env)) env i 0)) (\<lambda>os.
     bind (on_orch (store_read (\<lambda>s. tb_observers (te_backend env) s i))) (\<lambda>watching.
     ret \<lparr>vt_task = i,
       vt_entries = map (\<lambda>e. \<lparr>ve_source = ''task_event'', ve_kind = py_str (dict_get_default e ''type'' (JStr ''event'')), ve_payload = JDict e\<rparr>) (es_events es)
         @ map (\<lambda>x. \<lparr>ve_source = ''task_output'', ve_kind = ''output'', ve_payload = x\<rparr>) (os_items os),
       vt_retained = (watching \<noteq> {})\<rparr>)))"

definition open_view :: "'s task_env \<Rightarrow> string \<Rightarrow> string \<Rightarrow> ('s multi_agent, viewed_transcript) eff" where
  "open_view env i b = bind (on_orch (registry_attach_observer env i b)) (\<lambda>_. project_view env i)"

definition close_view :: "'s task_env \<Rightarrow> string \<Rightarrow> string \<Rightarrow> ('s multi_agent, unit) eff" where
  "close_view env i b = on_orch (registry_detach_observer env i b)"

end
