(* ===== verification/MultiAgentProps.thy ===== *)
theory MultiAgentProps
  imports MultiAgent TaskProps
begin

text \<open>
  Delegated work is announced: every task that has ended is announced to the session that asked for it
  exactly once, whatever storage the tasks are kept in.
\<close>

lemma on_orch_bind: "on_orch (bind m f) ma = bind (on_orch m) (\<lambda>x. on_orch (f x)) ma"
  by (simp add: on_orch_def bind_def split: prod.split sum.split)

lemma bind_on_orch: "m (ma_orch ma) = (Inr x, st) \<Longrightarrow> bind (on_orch m) f ma = f x (ma\<lparr>ma_orch := st\<rparr>)"
  by (simp add: bind_def on_orch_def)

lemma box_of_post: "box_of (post r m boxes) r' = (if r' = r then box_of boxes r @ [m] else box_of boxes r')"
  by (simp add: box_of_def post_def dict_get_default_def dict_get_set)

context managed_tasks
begin

text \<open>The tasks the storage holds, and those a session is to be told about.\<close>

definition due_tasks :: "string \<Rightarrow> 's \<Rightarrow> task_record set" where
  "due_tasks r s = {t. get s (tk_id t) = Inr t \<and> due_for r t}"

lemma mark_notified_effect:
  assumes "inv (tm_store st)" "get (tm_store st) i = Inr t"
  shows "\<exists>x t' st'. registry_mark_notified env i st = (Inr x, st') \<and> inv (tm_store st') \<and> tk_notified t'
     \<and> get (tm_store st') = (get (tm_store st))(i := Inr t')"
proof -
  obtain t1 n where t1: "registry_update env i (no_update\<lparr>tu_notified := Some True\<rparr>) st
      = (Inr t1, st\<lparr>tm_clock := n, tm_store := tb_put (te_backend env) t1 (tm_store st)\<rparr>)"
    "tk_id t1 = i" "tk_notified t1"
    using update_effect [OF assms, of "no_update\<lparr>tu_notified := Some True\<rparr>"] by (auto simp: no_update_def)
  show ?thesis
    unfolding registry_mark_notified_def t1(1)
    by (rule exI [of _ t1], rule exI [of _ "norm_t t1"]) (simp add: put_frame [OF assms(1)] t1(2,3) norm_t_fields)
qed

lemma announce_effect:
  assumes "inv (tm_store (ma_orch ma))" "get (tm_store (ma_orch ma)) (tk_id t) = Inr t"
  shows "\<exists>t' ma'. announce_task env r t ma = (Inr (), ma') \<and> inv (tm_store (ma_orch ma')) \<and> tk_notified t'
     \<and> get (tm_store (ma_orch ma')) = (get (tm_store (ma_orch ma)))(tk_id t := Inr t')
     \<and> ma_notifications ma' = post r (task_notification r t) (ma_notifications ma)"
proof -
  let ?ma = "ma\<lparr>ma_notifications := post r (task_notification r t) (ma_notifications ma)\<rparr>"
  obtain x t' st' where m: "registry_mark_notified env (tk_id t) (ma_orch ?ma) = (Inr x, st')" "inv (tm_store st')" "tk_notified t'"
    "get (tm_store st') = (get (tm_store (ma_orch ma)))(tk_id t := Inr t')"
    using mark_notified_effect [OF assms] by auto
  show ?thesis
    using m(2-) by (intro exI [of _ t'] exI [of _ "?ma\<lparr>ma_orch := st'\<rparr>"])
      (simp add: announce_task_def bind_on_orch [where ma = ?ma and m = "registry_mark_notified env (tk_id t)", OF m(1)] ret_def)
qed

lemma announce_loop:
  assumes "inv (tm_store (ma_orch ma))" "distinct (map tk_id ts)" "\<forall>t \<in> set ts. get (tm_store (ma_orch ma)) (tk_id t) = Inr t"
  shows "\<exists>ma'. each (announce_task env r) ts ma = (Inr (), ma') \<and> inv (tm_store (ma_orch ma'))
     \<and> box_of (ma_notifications ma') r = box_of (ma_notifications ma) r @ map (task_notification r) ts
     \<and> (\<forall>i. i \<notin> tk_id ` set ts \<longrightarrow> get (tm_store (ma_orch ma')) i = get (tm_store (ma_orch ma)) i)
     \<and> (\<forall>i \<in> tk_id ` set ts. \<exists>t'. get (tm_store (ma_orch ma')) i = Inr t' \<and> tk_notified t')"
  using assms
proof (induction ts arbitrary: ma)
  case Nil
  then show ?case by (simp add: ret_def)
next
  case (Cons t ts)
  have t: "get (tm_store (ma_orch ma)) (tk_id t) = Inr t" using Cons.prems(3) by simp
  obtain t' ma1 where m: "announce_task env r t ma = (Inr (), ma1)" "inv (tm_store (ma_orch ma1))" "tk_notified t'"
    "get (tm_store (ma_orch ma1)) = (get (tm_store (ma_orch ma)))(tk_id t := Inr t')"
    "ma_notifications ma1 = post r (task_notification r t) (ma_notifications ma)"
    using announce_effect [OF Cons.prems(1) t, of r] by (elim exE conjE) (rule that)
  have d: "distinct (map tk_id ts)" and k: "\<forall>u \<in> set ts. get (tm_store (ma_orch ma1)) (tk_id u) = Inr u"
  proof -
    show "distinct (map tk_id ts)" using Cons.prems(2) by simp
    show "\<forall>u \<in> set ts. get (tm_store (ma_orch ma1)) (tk_id u) = Inr u"
    proof
      fix u assume u: "u \<in> set ts"
      then have "tk_id u \<noteq> tk_id t" using Cons.prems(2) by (metis distinct.simps(2) imageI list.set_map list.simps(9))
      moreover have "get (tm_store (ma_orch ma)) (tk_id u) = Inr u" using Cons.prems(3) u by simp
      ultimately show "get (tm_store (ma_orch ma1)) (tk_id u) = Inr u" unfolding m(4) by simp
    qed
  qed
  from Cons.IH [OF m(2) d k] obtain ma2 where n: "each (announce_task env r) ts ma1 = (Inr (), ma2)" "inv (tm_store (ma_orch ma2))"
    "box_of (ma_notifications ma2) r = box_of (ma_notifications ma1) r @ map (task_notification r) ts"
    "\<forall>i. i \<notin> tk_id ` set ts \<longrightarrow> get (tm_store (ma_orch ma2)) i = get (tm_store (ma_orch ma1)) i"
    "\<forall>i \<in> tk_id ` set ts. \<exists>t'. get (tm_store (ma_orch ma2)) i = Inr t' \<and> tk_notified t'"
    by (elim exE conjE) (rule that)
  show ?case
  proof (intro exI [of _ ma2] conjI allI impI ballI)
    show "each (announce_task env r) (t # ts) ma = (Inr (), ma2)"
      using n(1) by (simp add: bind_Inr [where m = "announce_task env r t", OF m(1)])
    show "box_of (ma_notifications ma2) r = box_of (ma_notifications ma) r @ map (task_notification r) (t # ts)"
      by (simp add: n(3) m(5) box_of_post)
    show "inv (tm_store (ma_orch ma2))" by (rule n(2))
  next
    fix i assume "i \<notin> tk_id ` set (t # ts)"
    then show "get (tm_store (ma_orch ma2)) i = get (tm_store (ma_orch ma)) i" using n(4) m(4) by simp
  next
    fix i assume "i \<in> tk_id ` set (t # ts)"
    then show "\<exists>u. get (tm_store (ma_orch ma2)) i = Inr u \<and> tk_notified u"
      using n(4,5) m(3,4) by (cases "i \<in> tk_id ` set ts") (blast, simp)
  qed
qed

lemma due_after:
  assumes "set ts = due_tasks r s" "\<And>i. i \<notin> tk_id ` set ts \<Longrightarrow> get s' i = get s i"
    "\<And>i. i \<in> tk_id ` set ts \<Longrightarrow> \<exists>t'. get s' i = Inr t' \<and> tk_notified t'"
  shows "due_tasks r' s' = (if r' = r then {} else due_tasks r' s)"
proof -
  have settled: "t \<notin> due_tasks r' s'" if "tk_id t \<in> tk_id ` set ts" for t
    using assms(3) [OF that] by (auto simp: due_tasks_def due_for_def)
  have "t \<notin> due_tasks r' s" if "tk_id t \<in> tk_id ` set ts" "r' \<noteq> r" for t
  proof
    assume "t \<in> due_tasks r' s"
    moreover from that(1) assms(1) obtain u where "get s (tk_id t) = Inr u" "due_for r u" by (auto simp: due_tasks_def)
    ultimately show False using that(2) by (auto simp: due_tasks_def due_for_def)
  qed
  moreover have "t \<in> due_tasks r' s' \<longleftrightarrow> t \<in> due_tasks r' s" if "tk_id t \<notin> tk_id ` set ts" for t
    using assms(2) [OF that] by (simp add: due_tasks_def)
  moreover have "t \<in> due_tasks r s \<Longrightarrow> tk_id t \<in> tk_id ` set ts" for t
    using assms(1) by blast
  ultimately show ?thesis using settled by (cases "r' = r") (simp, blast)+
qed

lemma sync_effect:
  assumes "inv (tm_store (ma_orch ma))"
  shows "\<exists>ts ma'. sync_task_notifications env r ma
       = (Inr (map agent_message_to_dict (box_of (ma_notifications ma) r @ map (task_notification r) ts)), ma')
     \<and> distinct (map tk_id ts) \<and> set ts = due_tasks r (tm_store (ma_orch ma)) \<and> inv (tm_store (ma_orch ma'))
     \<and> box_of (ma_notifications ma') r = []
     \<and> (\<forall>r'. due_tasks r' (tm_store (ma_orch ma')) = (if r' = r then {} else due_tasks r' (tm_store (ma_orch ma))))"
proof -
  let ?s = "tm_store (ma_orch ma)"
  obtain all where all: "tb_all (te_backend env) ?s = Inr all" "distinct (map tk_id all)"
    "\<forall>t. t \<in> set all \<longleftrightarrow> get ?s (tk_id t) = Inr t"
    using listing [OF assms] by blast
  define ts where "ts = filter (due_for r) (sort_key tk_id all)"
  have list: "registry_list env None (ma_orch ma) = (Inr (sort_key tk_id all), ma_orch ma)"
    by (simp add: registry_list_def reads_Inr [where f = "tb_all (te_backend env)", OF all(1)] ret_def)
  have set: "set ts = due_tasks r ?s"
    using all(3) by (auto simp: ts_def due_tasks_def)
  have "distinct (map tk_id (sort_key tk_id all))"
    using all(2) by (metis distinct_map distinct_sort set_sort)
  then have distinct: "distinct (map tk_id ts)"
    by (simp add: ts_def distinct_map inj_on_def)
  have stored: "\<forall>t \<in> set ts. get ?s (tk_id t) = Inr t"
    using set by (auto simp: due_tasks_def)
  obtain ma1 where l: "each (announce_task env r) ts ma = (Inr (), ma1)" "inv (tm_store (ma_orch ma1))"
    "box_of (ma_notifications ma1) r = box_of (ma_notifications ma) r @ map (task_notification r) ts"
    "\<And>i. i \<notin> tk_id ` set ts \<Longrightarrow> get (tm_store (ma_orch ma1)) i = get ?s i"
    "\<And>i. i \<in> tk_id ` set ts \<Longrightarrow> \<exists>t'. get (tm_store (ma_orch ma1)) i = Inr t' \<and> tk_notified t'"
    using announce_loop [OF assms distinct stored, of r] by (elim exE conjE) (rule that; blast)
  let ?ma = "ma1\<lparr>ma_notifications := dict_set r [] (ma_notifications ma1)\<rparr>"
  have "sync_task_notifications env r ma
      = (Inr (map agent_message_to_dict (box_of (ma_notifications ma) r @ map (task_notification r) ts)), ?ma)"
    unfolding sync_task_notifications_def
    by (subst bind_on_orch [where m = "registry_list env None", OF list])
      (simp flip: ts_def, simp add: bind_def l(1,3) read_task_notifications_def take_box_def ret_def)
  moreover have "box_of (ma_notifications ?ma) r = []"
    by (simp add: box_of_def dict_get_default_def dict_get_set)
  moreover have "due_tasks r' (tm_store (ma_orch ?ma)) = (if r' = r then {} else due_tasks r' ?s)" for r'
    using due_after [OF set l(4,5), of r'] by simp
  ultimately show ?thesis using distinct set l(2)
    by (intro exI [of _ ts] exI [of _ ?ma]) simp
qed

end

subsection \<open>Announced once\<close>


text \<open>A session whose delegate has finished.\<close>

definition demo_delegated :: "task_files multi_agent" where
  "demo_delegated = \<lparr>ma_orch = new_orchestrator (tm_store (after_files (\<lambda>n. ''t'') demo_parse default_retention
       [OpBackground ''job'' (Some [(''parent_session_id'', JStr ''s1'')]) True (Some ''s1'') (Some ''delegated-agent-1'') None,
        OpComplete ''task_1'' (Some ''out'') None])),
     ma_agents = 1, ma_notifications = [], ma_inputs = [], ma_parent = ''agent_default''\<rparr>"


end
