(* ===== verification/Provider.thy ===== *)
theory Provider
  imports Harness PyText
begin

text \<open>
  The provider adapter: \<^verbatim>\<open>harness/providers/tool_results.py\<close> and \<^verbatim>\<open>instructor_adapter.py\<close>, with the
  requests and answers of \<^verbatim>\<open>harness/runtime/io.py\<close>.  A request is projected to the payload of the
  provider, the schemas of the tools are compiled to the types of an action model, and the actions the
  client returns are read back as an answer or as a stream of events.

  The client of the Instructor package is a parameter: from the action models and the payload, what
  \<open>create_with_completion\<close> returns or raises and the partial results of \<open>create_partial\<close>.  A completion
  stands for its serialised form, a type for what \<open>create_model\<close> is given.
\<close>

subsection \<open>Requests and answers\<close>

record model_turn_request =
  mq_session :: string
  mq_messages :: "json_object list"
  mq_system_prompt :: "string option"
  mq_prompt_sections :: "json_object list"
  mq_prompt_blocks :: "json_object option"
  mq_startup_contexts :: "json_object list"
  mq_available_tools :: "string list"
  mq_tool_definitions :: "json_object list"
  mq_short_term_memory :: "json_object option"
  mq_memory_context :: "json_object list"
  mq_system_context :: "json_object list"
  mq_user_context :: "json_object list"
  mq_attachments :: "json_object list"
  mq_capability_surface :: "json_object option"
  mq_evidence_refs :: "json_object list"
  mq_request_metadata :: json_object

definition new_request :: "string \<Rightarrow> json_object list \<Rightarrow> model_turn_request" where
  "new_request i ms = \<lparr>mq_session = i, mq_messages = ms, mq_system_prompt = None, mq_prompt_sections = [],
     mq_prompt_blocks = None, mq_startup_contexts = [], mq_available_tools = [], mq_tool_definitions = [],
     mq_short_term_memory = None, mq_memory_context = [], mq_system_context = [], mq_user_context = [],
     mq_attachments = [], mq_capability_surface = None, mq_evidence_refs = [], mq_request_metadata = []\<rparr>"

record provider_response = model_response +
  pr_usage :: "json_object option"

record provider_exchange =
  px_response :: provider_response
  px_payload :: "json_object option"
  px_raw :: "json_object option"
  px_reasoning :: json
  px_transport :: json_object

record provider_event = model_stream_event +
  pe_usage :: "json_object option"
  pe_payload :: "json_object option"
  pe_reasoning :: json
  pe_transport :: json_object

definition provider_error :: "string \<Rightarrow> py_error" where
  "provider_error = AppError ''ProviderError''"

subsection \<open>Tool results\<close>

text \<open>\<open>json.dumps\<close> with the separators \<open>","\<close> and \<open>":"\<close>.\<close>

fun json_compact :: "json \<Rightarrow> string" and json_compact_items :: "(string \<times> json) list \<Rightarrow> string list" where
  "json_compact JNull = ''null''"
| "json_compact (JBool b) = (if b then ''true'' else ''false'')"
| "json_compact (JInt i) = int_str i"
| "json_compact (JFloat r) = r"
| "json_compact (JStr s) = json_string s"
| "json_compact (JList l) = ''['' @ py_join '','' (map json_compact l) @ '']''"
| "json_compact (JDict d) = ''{'' @ py_join '','' (json_compact_items d) @ ''}''"
| "json_compact_items [] = []"
| "json_compact_items ((k, v) # r) = (json_string k @ '':'' @ json_compact v) # json_compact_items r"

fun tool_result_content_to_text :: "json \<Rightarrow> string" where
  "tool_result_content_to_text (JStr s) = s"
| "tool_result_content_to_text (JList l) = render_tool_result_content l"
| "tool_result_content_to_text x = py_str x"

fun anthropic_block :: "json \<Rightarrow> json" where
  "anthropic_block (JDict d) =
     (let block_type = block_text d ''type'' in
      if block_type = ''text'' then text_block (block_text d ''text'')
      else if block_type = ''image'' then JDict [(''type'', JStr ''image''),
        (''source'', JDict [(''type'', JStr ''base64''),
           (''media_type'', JStr (py_str (dict_get_default d ''media_type'' (JStr ''image/png'')))),
           (''data'', JStr (block_text d ''data''))])]
      else text_block (tool_result_content_to_text (JList [JDict d])))"
| "anthropic_block x = text_block (py_str x)"

fun plain_text :: "json \<Rightarrow> string option" where
  "plain_text (JDict d) = (if dict_get d ''type'' = Some (JStr ''text'') then Some (block_text d ''text'') else None)"
| "plain_text x = None"

fun tool_result_content_to_anthropic :: "json \<Rightarrow> json" where
  "tool_result_content_to_anthropic (JStr s) = JStr s"
| "tool_result_content_to_anthropic (JList l) =
     (let blocks = map anthropic_block (normalize_tool_result_content l) in
      if list_all (\<lambda>b. plain_text b \<noteq> None) blocks
      then JStr (py_join [newline] (filter (\<lambda>t. t \<noteq> []) (List.map_filter plain_text blocks)))
      else JList blocks)"
| "tool_result_content_to_anthropic x = JStr (py_str x)"

definition openai_tool_result_json_string :: "json \<Rightarrow> json_object \<Rightarrow> string" where
  "openai_tool_result_json_string content md = json_compact (JDict
     [(''tool_name'', JStr (block_text md ''tool_name'')),
      (''success'', JBool (truthy (dict_get_default md ''success'' (JBool True)))),
      (''content'', case content of JList l \<Rightarrow> JList (normalize_tool_result_content l) | _ \<Rightarrow> content),
      (''structured_content'', jopt_dict (as_dict (jget md ''structured_content''))),
      (''truncated'', JBool (truthy (dict_get_default md ''truncated'' (JBool False)))),
      (''persisted_ref'', case jget md ''persisted_ref'' of JNull \<Rightarrow> JNull | v \<Rightarrow> JStr (py_str v))])"

subsection \<open>Replayed tool calls\<close>

definition metadata_tool_calls :: "json_object \<Rightarrow> json_object list" where
  "metadata_tool_calls md = (case jget md ''tool_calls'' of JList l \<Rightarrow> List.map_filter as_dict l | _ \<Rightarrow> [])"

text \<open>The name, the arguments and the id of a replayed call; \<open>a or b or c\<close> is the last value when none counts as true.\<close>

definition replayed_name :: "json_object \<Rightarrow> py_error + string" where
  "replayed_name c =
     (let n = py_strip (py_str (dict_get_default c ''tool_name'' (dict_get_default c ''name''
               (dict_get_default c ''function'' (JStr []))))) in
      if n = [] then Inl (provider_error ''assistant tool replay is missing a tool name'') else Inr n)"

definition replayed_arguments :: "json_object \<Rightarrow> json" where
  "replayed_arguments c = (case jget c ''arguments'' of JDict d \<Rightarrow> JDict d | _ \<Rightarrow> JDict [])"

definition replayed_id :: "json_object \<Rightarrow> string option" where
  "replayed_id c =
     (let v = (if truthy (jget c ''call_id'') then jget c ''call_id''
               else if truthy (jget c ''tool_use_id'') then jget c ''tool_use_id'' else jget c ''id'') in
      if v = JNull then None else Some (py_str v))"

definition openai_tool_call_payload :: "json_object \<Rightarrow> py_error + json_object" where
  "openai_tool_call_payload c = ebind (replayed_name c) (\<lambda>n. Inr (
     [(''type'', JStr ''function''), (''function'', JDict [(''name'', JStr n),
        (''arguments'', JStr (json_compact (replayed_arguments c)))])]
     @ (case replayed_id c of None \<Rightarrow> [] | Some i \<Rightarrow> [(''id'', JStr i)])))"

definition anthropic_tool_use_block :: "json_object \<Rightarrow> py_error + json_object" where
  "anthropic_tool_use_block c = ebind (replayed_name c) (\<lambda>n. Inr
     [(''type'', JStr ''tool_use''), (''id'', JStr (case replayed_id c of None \<Rightarrow> ''toolu_'' @ n | Some i \<Rightarrow> i)),
      (''name'', JStr n), (''input'', replayed_arguments c)])"

subsection \<open>Payloads\<close>

definition message_role :: "json_object \<Rightarrow> string" where
  "message_role m = py_str (dict_get_default m ''role'' (JStr ''user''))"

definition message_content :: "json_object \<Rightarrow> json" where
  "message_content m = dict_get_default m ''content'' (JStr [])"

definition message_metadata :: "json_object \<Rightarrow> json_object" where
  "message_metadata m = (case jget m ''metadata'' of JDict d \<Rightarrow> d | _ \<Rightarrow> [])"

definition memory_text :: "json_object \<Rightarrow> string" where
  "memory_text m = py_str (dict_get_default m ''summary'' (dict_get_default m ''content'' (JStr [])))"

text \<open>The fragments of the system prompt: the prompt, the session summary, the recalled memory, the system messages.\<close>

definition system_fragments :: "model_turn_request \<Rightarrow> string list" where
  "system_fragments q =
     (case mq_system_prompt q of None \<Rightarrow> [] | Some p \<Rightarrow> if p = [] then [] else [p])
     @ (case mq_short_term_memory q of None \<Rightarrow> []
        | Some d \<Rightarrow> (let t = py_strip (block_text d ''summary'') in
            if t = [] then [] else [''Session continuity summary: '' @ t]))
     @ map (\<lambda>t. ''Relevant memory: '' @ t) (filter (\<lambda>t. t \<noteq> []) (map memory_text (mq_memory_context q)))
     @ map (py_str \<circ> message_content) (filter (\<lambda>m. message_role m = ''system'') (mq_messages q))"

definition conversation :: "model_turn_request \<Rightarrow> json_object list" where
  "conversation q = filter (\<lambda>m. message_role m \<noteq> ''system'') (mq_messages q)"

definition plain_message :: "json_object \<Rightarrow> json_object" where
  "plain_message m = [(''role'', JStr (message_role m)), (''content'', JStr (py_str (message_content m)))]"

definition openai_message :: "json_object \<Rightarrow> py_error + json_object" where
  "openai_message m =
     (let md = message_metadata m; content = message_content m; calls = metadata_tool_calls md in
      if message_role m = ''tool'' then Inr (
        [(''role'', JStr ''tool''), (''content'', JStr (openai_tool_result_json_string content md))]
        @ (case jget md ''tool_use_id'' of JNull \<Rightarrow> [] | v \<Rightarrow> [(''tool_call_id'', JStr (py_str v))]))
      else if message_role m = ''assistant'' \<and> calls \<noteq> [] then
        ebind (emap openai_tool_call_payload calls) (\<lambda>cs. Inr
          [(''role'', JStr ''assistant''), (''tool_calls'', JList (map JDict cs)),
           (''content'', JStr (if content = JNull then [] else py_str content))])
      else Inr (plain_message m))"

definition openai_messages_payload :: "model_turn_request \<Rightarrow> py_error + json_object list" where
  "openai_messages_payload q =
     ebind (emap openai_message (conversation q)) (\<lambda>ms.
     let ms' = (if system_fragments q = [] then ms else
       [(''role'', JStr ''system''),
        (''content'', JStr (py_join [newline, newline] (filter (\<lambda>t. t \<noteq> []) (map py_strip (system_fragments q)))))] # ms) in
     if list_ex (\<lambda>m. block_text m ''role'' = ''user'') ms' then Inr ms'
     else Inl (provider_error ''model request is missing a user message after context compaction''))"

definition anthropic_message :: "json_object \<Rightarrow> py_error + json_object" where
  "anthropic_message m =
     (let md = message_metadata m; content = message_content m; calls = metadata_tool_calls md in
      if message_role m = ''tool'' \<and> jget md ''tool_use_id'' \<noteq> JNull then Inr
        [(''role'', JStr ''user''), (''content'', JList [JDict [(''type'', JStr ''tool_result''),
           (''tool_use_id'', JStr (py_str (jget md ''tool_use_id''))),
           (''content'', tool_result_content_to_anthropic content)]])]
      else if message_role m = ''assistant'' \<and> calls \<noteq> [] then
        ebind (emap anthropic_tool_use_block calls) (\<lambda>cs. Inr
          [(''role'', JStr ''assistant''), (''content'', JList
             ((if py_strip (py_str content) = [] then [] else [text_block (py_str content)]) @ map JDict cs))])
      else Inr (plain_message m))"

record provider_adapter =
  ad_model :: string
  ad_provider :: "string option"
  ad_environment :: string
  ad_temperature :: "string option"
  ad_max_tokens :: "int option"

text \<open>\<open>ad_environment\<close> is the variable \<open>OPENAGENT_PROVIDER\<close>, empty when unset.\<close>

definition resolved_provider :: "provider_adapter \<Rightarrow> string" where
  "resolved_provider a = (case ad_provider a of Some p \<Rightarrow> p
     | None \<Rightarrow> (let c = py_lower (py_strip (ad_environment a)) in
         if c \<in> set [''openai'', ''anthropic''] then c else ''openai''))"

definition tool_result_prompt_hint :: "provider_adapter \<Rightarrow> string option" where
  "tool_result_prompt_hint a = (if resolved_provider a = ''openai'' then Some ''openai_tool_json_string'' else None)"

definition token_limit :: "provider_adapter \<Rightarrow> json_object" where
  "token_limit a = (case ad_max_tokens a of None \<Rightarrow> [] | Some n \<Rightarrow> [(''max_tokens'', JInt n)])"

definition openai_payload :: "provider_adapter \<Rightarrow> model_turn_request \<Rightarrow> bool \<Rightarrow> py_error + json_object" where
  "openai_payload a q streaming = ebind (openai_messages_payload q) (\<lambda>ms. Inr (
     [(''model'', JStr (ad_model a)), (''messages'', JList (map JDict ms))]
     @ (if streaming then [(''stream'', JBool True)] else [])
     @ (case ad_temperature a of None \<Rightarrow> [] | Some t \<Rightarrow> [(''temperature'', JFloat t)])
     @ token_limit a))"

definition anthropic_payload :: "provider_adapter \<Rightarrow> model_turn_request \<Rightarrow> py_error + json_object" where
  "anthropic_payload a q = ebind (emap anthropic_message (conversation q)) (\<lambda>ms. Inr (
     [(''model'', JStr (ad_model a)), (''messages'', JList (map JDict ms))] @ token_limit a
     @ (if system_fragments q = [] then []
        else [(''system'', JStr (py_join [newline, newline] (system_fragments q)))])))"

definition provider_payload :: "provider_adapter \<Rightarrow> model_turn_request \<Rightarrow> bool \<Rightarrow> py_error + json_object" where
  "provider_payload a q streaming =
     (if resolved_provider a = ''anthropic'' then anthropic_payload a q else openai_payload a q streaming)"

subsection \<open>Action models\<close>

text \<open>The types a schema is compiled to; a field of a model has a name, a type, whether it may be left out, and a description.\<close>

datatype py_type = TLiteral "json list" | TString | TInteger | TNumber | TBoolean | TAny | TAnyList | TAnyDict
  | TListOf py_type | TModel string "(string \<times> py_type \<times> bool \<times> string option) list"

type_synonym model_field = "string \<times> py_type \<times> bool \<times> string option"

text \<open>\<open>c.isalnum()\<close> on the characters below 256.\<close>

definition py_isalnum :: "char \<Rightarrow> bool" where
  "py_isalnum c \<longleftrightarrow> (let n = code c in 48 \<le> n \<and> n \<le> 57 \<or> 65 \<le> n \<and> n \<le> 90 \<or> 97 \<le> n \<and> n \<le> 122
     \<or> n \<in> set [170, 178, 179, 181, 185, 186, 188, 189, 190] \<or> 192 \<le> n \<and> n \<noteq> 215 \<and> n \<noteq> 247)"

definition response_model_name :: "string \<Rightarrow> string" where
  "response_model_name n =
     (let cleaned = strip_char (CHR ''_'') (map (\<lambda>c. if py_isalnum c then c else CHR ''_'') n) in
      if cleaned = [] then ''Tool'' else cleaned)"

definition schema_is :: "json_object \<Rightarrow> string \<Rightarrow> bool" where
  "schema_is d ty \<longleftrightarrow> jget d ''type'' = JStr ty"

text \<open>\<open>{str(x) for x in schema.get("required", []) if isinstance(x, str)}\<close>.\<close>

definition required_names :: "json_object \<Rightarrow> py_error + string list" where
  "required_names d = (case dict_get d ''required'' of
     None \<Rightarrow> Inr []
   | Some (JList l) \<Rightarrow> Inr (List.map_filter as_str l)
   | Some (JStr s) \<Rightarrow> Inr (map (\<lambda>c. [c]) s)
   | Some (JDict e) \<Rightarrow> Inr (dict_keys e)
   | Some v \<Rightarrow> Inl (TypeError ''object is not iterable''))"

definition field_description :: "json_object \<Rightarrow> string option" where
  "field_description d = as_str (jget d ''description'')"

lemma size_dict_get: "dict_get d k = Some v \<Longrightarrow> size v < Suc (size_list (size_prod (\<lambda>x. 0) size) d)"
  by (induction d) (auto split: if_splits)

lemma size_json_object: "size (JDict d) = Suc (size_list (size_prod (\<lambda>x. 0) size) d)"
  by simp

text \<open>The compiler of \<open>ToolSchemaCompiler.python_type_for_schema\<close>.\<close>

fun dict_fields :: "(string \<times> json) list \<Rightarrow> (string \<times> json_object) list" where
  "dict_fields [] = []"
| "dict_fields ((k, JDict d) # r) = (k, d) # dict_fields r"
| "dict_fields (_ # r) = dict_fields r"

lemma size_dict_fields:
  "(k, d) \<in> set (dict_fields ps) \<Longrightarrow> size_list (size_prod (\<lambda>x. 0) size) d < size_list (size_prod (\<lambda>x. 0) size) ps"
  by (induction ps rule: dict_fields.induct) auto

lemma size_items: "dict_get d k = Some (JDict e) \<Longrightarrow>
    size_list (size_prod (\<lambda>x. 0) size) e < size_list (size_prod (\<lambda>x. 0) size) d"
  using size_dict_get [of d k "JDict e"] by simp

lemma emap_cong [fundef_cong]: "xs = ys \<Longrightarrow> (\<And>x. x \<in> set ys \<Longrightarrow> f x = g x) \<Longrightarrow> emap f xs = emap g ys"
  by (induction ys arbitrary: xs) auto

function python_type_for_schema :: "string \<Rightarrow> json_object \<Rightarrow> py_error + py_type" where
  "python_type_for_schema p d =
     (case jget d ''enum'' of JList (v # vs) \<Rightarrow> Inr (TLiteral (v # vs)) | _ \<Rightarrow>
      if schema_is d ''string'' then Inr TString
      else if schema_is d ''integer'' then Inr TInteger
      else if schema_is d ''number'' then Inr TNumber
      else if schema_is d ''boolean'' then Inr TBoolean
      else if schema_is d ''array'' then
        (case dict_get d ''items'' of
           Some (JDict e) \<Rightarrow> ebind (python_type_for_schema (p @ ''Item'') e) (\<lambda>t. Inr (TListOf t))
         | _ \<Rightarrow> Inr TAnyList)
      else (case dict_get d ''properties'' of
          Some (JDict ps) \<Rightarrow>
            ebind (required_names d) (\<lambda>required.
            ebind (emap (\<lambda>(k, e). ebind (python_type_for_schema (p @ response_model_name k) e) (\<lambda>t.
                Inr (k, t, k \<notin> set required, field_description e))) (dict_fields ps)) (\<lambda>fs.
            Inr (TModel (p @ ''Model'') fs)))
        | _ \<Rightarrow> Inr (if schema_is d ''object'' then TAnyDict else TAny)))"
  by pat_completeness auto
termination python_type_for_schema
  by (relation "measure (\<lambda>(p, d). size_list (size_prod (\<lambda>x. 0) size) d)") (auto dest!: size_items size_dict_fields)

text \<open>
  The model of the answer action and one model per named tool, in the order of the definitions; a second
  tool of the same name takes the place of the first.
\<close>

record action_model =
  xm_class :: string
  xm_fields :: "model_field list"

type_synonym action_models = "(string, action_model) pydict"

definition schema_fields :: "py_type \<Rightarrow> model_field list" where
  "schema_fields t = (case t of TModel n fs \<Rightarrow> fs | _ \<Rightarrow> [])"

definition add_action_model :: "action_models \<Rightarrow> json_object \<Rightarrow> py_error + action_models" where
  "add_action_model models d =
     (let n = py_strip (block_text d ''name'') in
      if n = [] then Inr models
      else ebind (python_type_for_schema (response_model_name n @ ''Arguments'')
          (case jget d ''input_schema'' of JDict e \<Rightarrow> e | _ \<Rightarrow> [(''type'', JStr ''object'')])) (\<lambda>t.
        Inr (dict_set n \<lparr>xm_class = response_model_name n @ ''Action'', xm_fields = schema_fields t\<rparr> models)))"

fun add_action_models :: "action_models \<Rightarrow> json_object list \<Rightarrow> py_error + action_models" where
  "add_action_models models [] = Inr models"
| "add_action_models models (d # ds) = ebind (add_action_model models d) (\<lambda>models'. add_action_models models' ds)"

definition build_action_models :: "json_object list \<Rightarrow> py_error + action_models" where
  "build_action_models = add_action_models []"

subsection \<open>Actions\<close>

text \<open>
  An action: an answer with its \<open>message\<close> attribute; a tool action with the tool's name, the dump of its
  fields without nulls and its \<open>call_id\<close> attribute; or an instance of no action class.
\<close>

datatype structured_action = RespondAction json | ToolAction string json_object json | UnknownAction

datatype structured = ActionList "structured_action option list" | SingleAction structured_action

definition iter_actions :: "structured \<Rightarrow> structured_action list" where
  "iter_actions r = (case r of ActionList l \<Rightarrow> List.map_filter id l | SingleAction a \<Rightarrow> [a])"

fun action_kind :: "structured_action \<Rightarrow> string option" where
  "action_kind (RespondAction m) = Some ''respond''"
| "action_kind (ToolAction n d i) = Some ''tool''"
| "action_kind UnknownAction = None"

fun action_text :: "structured_action \<Rightarrow> string" where
  "action_text (RespondAction m) = (if truthy m then py_str m else [])"
| "action_text _ = []"

definition assistant_message :: "structured_action \<Rightarrow> bool \<Rightarrow> string option" where
  "assistant_message a strip =
     (let t = (if strip then py_strip (action_text a) else action_text a) in if t = [] then None else Some t)"

fun to_tool_call :: "structured_action \<Rightarrow> py_error + tool_call" where
  "to_tool_call (ToolAction n d i) =
     (if py_strip n = [] then Inl (provider_error ''Instructor returned a tool action without a mapped tool name'')
      else Inr \<lparr>tc_name = n, tc_arguments = JDict (dict_pop ''call_id'' d),
        tc_call_id = (if truthy i then Some (py_str i) else None)\<rparr>)"
| "to_tool_call _ = Inl (provider_error ''Instructor returned a tool action without a mapped tool name'')"

definition usage_from_completion :: "json_object option \<Rightarrow> json_object option" where
  "usage_from_completion raw = Option.bind raw (\<lambda>d. as_dict (jget d ''usage''))"

definition respond_actions :: "structured_action list \<Rightarrow> structured_action list" where
  "respond_actions = filter (\<lambda>a. action_kind a = Some ''respond'')"

definition tool_actions :: "structured_action list \<Rightarrow> structured_action list" where
  "tool_actions = filter (\<lambda>a. action_kind a = Some ''tool'')"

definition response_from_action :: "structured \<Rightarrow> json_object option \<Rightarrow> py_error + provider_response" where
  "response_from_action r completion =
     (let usage = usage_from_completion completion; actions = iter_actions r;
          responds = respond_actions actions; tools = tool_actions actions in
      if responds \<noteq> [] \<and> tools \<noteq> [] then
        Inl (provider_error ''Instructor returned both respond and tool actions in a single turn'')
      else if responds \<noteq> [] then
        Inr \<lparr>mr_message = assistant_message (last responds) True, mr_tool_calls = [], pr_usage = usage\<rparr>
      else if tools \<noteq> [] then
        ebind (to_tool_call (last tools)) (\<lambda>c.
        Inr \<lparr>mr_message = None, mr_tool_calls = [c], pr_usage = usage\<rparr>)
      else Inl (provider_error ''Instructor returned an action that OpenAgent could not classify''))"

subsection \<open>Completions\<close>

definition text_chunk :: "json \<Rightarrow> string list" where
  "text_chunk b = (case b of
     JDict d \<Rightarrow> (if block_text d ''type'' = ''text'' then [py_strip (block_text d ''text'')] else [])
   | _ \<Rightarrow> [])"

text \<open>The message of the first choice of an OpenAI completion.\<close>

definition first_message :: "json_object \<Rightarrow> json_object option" where
  "first_message d = (case jget d ''choices'' of
     JList (JDict c # _) \<Rightarrow> as_dict (jget c ''message'')
   | _ \<Rightarrow> None)"

definition some_text :: "string \<Rightarrow> string option" where
  "some_text t = (if t = [] then None else Some t)"

definition assistant_text_from_completion :: "json_object option \<Rightarrow> string option" where
  "assistant_text_from_completion raw = (case raw of
     None \<Rightarrow> None
   | Some d \<Rightarrow> (case jget d ''content'' of
       JList l \<Rightarrow> some_text (py_join [newline] (filter (\<lambda>t. t \<noteq> []) (concat (map text_chunk l))))
     | _ \<Rightarrow> Option.bind (first_message d) (\<lambda>m. Option.bind (as_str (jget m ''content'')) (\<lambda>t. some_text (py_strip t)))))"

definition extract_reasoning :: "provider_adapter \<Rightarrow> json_object option \<Rightarrow> json" where
  "extract_reasoning a raw = (case raw of
     None \<Rightarrow> JNull
   | Some d \<Rightarrow>
       if resolved_provider a = ''anthropic'' then
         (case jget d ''content'' of
            JList l \<Rightarrow> (let blocks = filter (\<lambda>b. case b of
                 JDict e \<Rightarrow> block_text e ''type'' \<notin> set [''text'', ''tool_use''] | _ \<Rightarrow> False) l in
               if blocks = [] then JNull else JList blocks)
          | _ \<Rightarrow> JNull)
       else (case first_message d of
          None \<Rightarrow> JNull
        | Some m \<Rightarrow> (case find (\<lambda>k. jget m k \<noteq> JNull) [''reasoning'', ''reasoning_content'', ''thinking''] of
            None \<Rightarrow> JNull | Some k \<Rightarrow> jget m k)))"

subsection \<open>Generating\<close>

text \<open>What the client raises: the text of the exception and the completions of its failed attempts.\<close>

type_synonym client_error = "string \<times> json_object option list"

record provider_client =
  pc_create :: "action_models \<Rightarrow> json_object \<Rightarrow> client_error + (structured \<times> json_object option)"
  pc_create_partial :: "action_models \<Rightarrow> json_object \<Rightarrow> structured list \<times> string option"

definition recover_completion :: "json_object option list \<Rightarrow> json_object option" where
  "recover_completion attempts = (case find (\<lambda>c. c \<noteq> None) (rev attempts) of None \<Rightarrow> None | Some c \<Rightarrow> c)"

text \<open>The answer of the call, with the completion, or the text recovered from a failed attempt.\<close>

definition recovered_response :: "client_error \<Rightarrow> py_error + provider_response \<times> json_object option" where
  "recovered_response e =
     (let raw = recover_completion (snd e) in
      case assistant_text_from_completion raw of
        None \<Rightarrow> Inl (OtherError (fst e))
      | Some t \<Rightarrow> Inr (\<lparr>mr_message = Some t, mr_tool_calls = [], pr_usage = usage_from_completion raw\<rparr>, raw))"

definition create_response :: "provider_client \<Rightarrow> action_models \<Rightarrow> json_object \<Rightarrow> py_error + provider_response \<times> json_object option" where
  "create_response cl models payload = (case pc_create cl models payload of
     Inl e \<Rightarrow> recovered_response e
   | Inr (r, completion) \<Rightarrow> ebind (response_from_action r completion) (\<lambda>x. Inr (x, completion)))"

definition generate_with_exchange ::
  "provider_adapter \<Rightarrow> provider_client \<Rightarrow> model_turn_request \<Rightarrow> py_error + provider_exchange" where
  "generate_with_exchange a cl q =
     ebind (provider_payload a q False) (\<lambda>payload.
     ebind (build_action_models (mq_tool_definitions q)) (\<lambda>models.
     ebind (create_response cl models payload) (\<lambda>(response, raw).
     Inr \<lparr>px_response = response, px_payload = Some payload, px_raw = raw,
       px_reasoning = extract_reasoning a raw, px_transport = [(''via_instructor'', JBool True)]\<rparr>)))"

definition generate :: "provider_adapter \<Rightarrow> provider_client \<Rightarrow> model_turn_request \<Rightarrow> py_error + provider_response" where
  "generate a cl q = map_sum id px_response (generate_with_exchange a cl q)"

subsection \<open>Streaming\<close>

definition delta_event :: "string \<Rightarrow> provider_event" where
  "delta_event t = \<lparr>me_delta = Some t, me_message = None, me_tool_calls = [], pe_usage = None, pe_payload = None,
     pe_reasoning = JNull, pe_transport = []\<rparr>"

text \<open>The text to show for a message that was \<open>previous\<close> and is now \<open>current\<close>.\<close>

definition delta_of :: "string \<Rightarrow> string \<Rightarrow> string option" where
  "delta_of previous current =
     (if current \<noteq> [] \<and> py_startswith current previous then some_text (drop (length previous) current)
      else if current \<noteq> [] \<and> current \<noteq> previous then Some current else None)"

text \<open>
  The loop over the partial results: the deltas it yields, and how it ends: with an exception, or with the
  last message and the last tool call.
\<close>

fun stream_partials :: "structured list \<Rightarrow> string option \<Rightarrow> string \<Rightarrow> string option \<Rightarrow> tool_call list \<Rightarrow>
    string list \<times> (py_error + string option \<times> tool_call list)" where
  "stream_partials [] err previous final calls =
     ([], case err of Some e \<Rightarrow> Inl (OtherError e) | None \<Rightarrow> Inr (final, calls))"
| "stream_partials (p # ps) err previous final calls =
     (let actions = iter_actions p; responds = respond_actions actions; tools = tool_actions actions in
      if responds \<noteq> [] then
        (let current = (case assistant_message (last responds) False of None \<Rightarrow> [] | Some t \<Rightarrow> t);
             (ds, out) = stream_partials ps err (if current = [] then previous else current)
               (if current = [] then final else Some current) calls in
         (case delta_of previous current of None \<Rightarrow> ds | Some d \<Rightarrow> d # ds, out))
      else if tools \<noteq> [] then
        (case to_tool_call (last tools) of
           Inl e \<Rightarrow> ([], Inl e)
         | Inr c \<Rightarrow> stream_partials ps err previous final [c])
      else stream_partials ps err previous final calls)"

definition fallback_event :: "provider_exchange \<Rightarrow> provider_event" where
  "fallback_event x = \<lparr>me_delta = None, me_message = mr_message (px_response x), me_tool_calls = mr_tool_calls (px_response x),
     pe_usage = pr_usage (px_response x), pe_payload = px_payload x, pe_reasoning = px_reasoning x,
     pe_transport = [(''streaming'', JBool True), (''via_instructor'', JBool True),
       (''stream_fallback'', JStr ''generate_with_exchange'')]\<rparr>"

definition final_event :: "json_object \<Rightarrow> string option \<Rightarrow> tool_call list \<Rightarrow> provider_event" where
  "final_event payload m cs = \<lparr>me_delta = None, me_message = m, me_tool_calls = cs, pe_usage = None,
     pe_payload = Some payload, pe_reasoning = JNull,
     pe_transport = [(''streaming'', JBool True), (''via_instructor'', JBool True)]\<rparr>"

text \<open>The events of \<open>stream_generate\<close>, and the exception that ends them.\<close>

definition stream_generate ::
  "provider_adapter \<Rightarrow> provider_client \<Rightarrow> model_turn_request \<Rightarrow> provider_event list \<times> py_error option" where
  "stream_generate a cl q =
     (case ebind (provider_payload a q True) (\<lambda>payload.
        ebind (build_action_models (mq_tool_definitions q)) (\<lambda>models. Inr (payload, models))) of
        Inl e \<Rightarrow> ([], Some e)
      | Inr (payload, models) \<Rightarrow>
          (let (partials, err) = pc_create_partial cl models payload;
               (ds, out) = stream_partials partials err [] None [];
               shown = map delta_event ds in
           case out of
             Inl e \<Rightarrow> (shown, Some e)
           | Inr (m, cs) \<Rightarrow>
               if m = None \<and> cs = [] then
                 (case generate_with_exchange a cl q of
                    Inl e \<Rightarrow> (shown, Some e)
                  | Inr x \<Rightarrow> (shown @ [fallback_event x], None))
               else (shown @ [final_event payload m cs], None)))"

text \<open>The adapter as the harness uses it: it streams whenever the adapter can.\<close>

definition provider_model :: "provider_adapter \<Rightarrow> provider_client \<Rightarrow> model_turn_request \<Rightarrow> model_answer" where
  "provider_model a cl q = (let (es, err) = stream_generate a cl q in
     Streamed (map model_stream_event.truncate es) (map_option py_error_text err))"

end
