(* ===== verification/ProviderProps.thy ===== *)
theory ProviderProps
  imports Provider TurnProps
begin

text \<open>
  Properties of the provider adapter: what a stream shows is the answer it ends with, at most one tool
  call survives, streaming and generating differ on a mixed answer, a request keeps the conversation, and
  a rejected call stays in it without an answer.
\<close>

subsection \<open>Streams\<close>

lemma some_text_Some: "some_text t = Some u \<longleftrightarrow> t = u \<and> u \<noteq> []"
  by (auto simp: some_text_def)

lemma startswith_drop: "py_startswith s p \<Longrightarrow> p @ drop (length p) s = s"
  unfolding py_startswith_def by (metis append_take_drop_id)

text \<open>The text that is shown for a step ends with the new message when the text before ended with the old one.\<close>

lemma delta_of_extends:
  assumes "current \<noteq> []"
  shows "\<exists>v. (w @ previous) @ (case delta_of previous current of None \<Rightarrow> [] | Some d \<Rightarrow> d) = v @ current"
    and "py_startswith current previous \<Longrightarrow> previous @ (case delta_of previous current of None \<Rightarrow> [] | Some d \<Rightarrow> d) = current"
proof -
  show grow: "previous @ (case delta_of previous current of None \<Rightarrow> [] | Some d \<Rightarrow> d) = current"
    if "py_startswith current previous" for previous
    using assms that startswith_drop [OF that] by (auto simp: delta_of_def some_text_def)
  show "\<exists>v. (w @ previous) @ (case delta_of previous current of None \<Rightarrow> [] | Some d \<Rightarrow> d) = v @ current"
  proof (cases "py_startswith current previous")
    case True
    from grow [OF this] show ?thesis by (intro exI [of _ w]) (simp only: append_assoc)
  next
    case False
    then have "delta_of previous current = Some current \<or> current = previous"
      using assms by (auto simp: delta_of_def)
    moreover have "\<not> current = previous" using False by (auto simp: py_startswith_def)
    ultimately show ?thesis by auto
  qed
qed

text \<open>The successive texts of the answer in the partial results.\<close>

definition partial_text :: "structured \<Rightarrow> string" where
  "partial_text p = (let rs = respond_actions (iter_actions p) in if rs = [] then [] else action_text (last rs))"

definition partial_texts :: "structured list \<Rightarrow> string list" where
  "partial_texts ps = filter (\<lambda>t. t \<noteq> []) (map partial_text ps)"

text \<open>Each text extends the one before.\<close>

fun grows :: "string \<Rightarrow> string list \<Rightarrow> bool" where
  "grows p [] = True"
| "grows p (t # ts) = (py_startswith t p \<and> grows t ts)"

lemma current_text:
  "respond_actions (iter_actions p) \<noteq> [] \<Longrightarrow>
     (case assistant_message (last (respond_actions (iter_actions p))) False of None \<Rightarrow> [] | Some t \<Rightarrow> t) = partial_text p"
  by (simp add: assistant_message_def partial_text_def Let_def)

lemma partial_text_none: "respond_actions (iter_actions p) = [] \<Longrightarrow> partial_text p = []"
  by (simp add: partial_text_def)

lemma partial_texts_Cons: "partial_texts (p # ps) = (if partial_text p = [] then partial_texts ps else partial_text p # partial_texts ps)"
  by (simp add: partial_texts_def)

definition text_of :: "string option \<Rightarrow> string" where
  "text_of m = (case m of None \<Rightarrow> [] | Some t \<Rightarrow> t)"

definition last_text :: "string option \<Rightarrow> string list \<Rightarrow> string option" where
  "last_text final ts = (if ts = [] then final else Some (last ts))"

lemma stream_partials_text:
  assumes "stream_partials ps err previous final calls = (ds, Inr (m, cs))"
    and "final = some_text previous"
  shows "m = last_text final (partial_texts ps)
    \<and> (\<exists>v. previous @ concat ds = v @ text_of m)
    \<and> (grows previous (partial_texts ps) \<longrightarrow> previous @ concat ds = text_of m)"
  using assms
proof (induction ps arbitrary: previous final calls ds)
  case Nil
  then show ?case by (auto simp: partial_texts_def last_text_def text_of_def some_text_def split: option.splits if_splits)
next
  case (Cons p ps)
  let ?rs = "respond_actions (iter_actions p)" and ?t = "partial_text p"
  show ?case
  proof (cases "?rs = []")
    case True
    obtain calls' where "stream_partials ps err previous final calls' = (ds, Inr (m, cs))"
      using Cons.prems(1) True by (auto simp: Let_def split: if_splits sum.splits)
    from Cons.IH [OF this Cons.prems(2)] show ?thesis using True by (auto simp: partial_texts_Cons partial_text_none)
  next
    case False
    note c = current_text [OF False]
    obtain ds' where d: "stream_partials ps err (if ?t = [] then previous else ?t) (if ?t = [] then final else Some ?t) calls
        = (ds', Inr (m, cs))" "ds = (case delta_of previous ?t of None \<Rightarrow> ds' | Some d \<Rightarrow> d # ds')"
      using Cons.prems(1) False by (auto simp: Let_def c split: prod.splits)
    have f: "(if ?t = [] then final else Some ?t) = some_text (if ?t = [] then previous else ?t)"
      using Cons.prems(2) by (simp add: some_text_def)
    note ih = Cons.IH [OF d(1) f]
    show ?thesis
    proof (cases "?t = []")
      case True
      then show ?thesis using ih d(2) by (auto simp: partial_texts_Cons delta_of_def)
    next
      case t: False
      let ?d = "case delta_of previous ?t of None \<Rightarrow> [] | Some d \<Rightarrow> d"
      have ds: "concat ds = ?d @ concat ds'" using d(2) by (simp split: option.splits)
      obtain v where v: "previous @ ?d = v @ ?t" using delta_of_extends(1) [OF t, of "[]" previous] by auto
      obtain u where u: "?t @ concat ds' = u @ text_of m" using ih t by auto
      have "previous @ concat ds = (v @ u) @ text_of m" unfolding ds append_assoc [symmetric] v by (simp add: u)
      moreover have "previous @ concat ds = text_of m"
        if "py_startswith ?t previous" "grows ?t (partial_texts ps)"
        unfolding ds append_assoc [symmetric] delta_of_extends(2) [OF t that(1)] using ih t that(2) by simp
      ultimately show ?thesis using ih t by (auto simp: partial_texts_Cons last_text_def)
    qed
  qed
qed

text \<open>The events of a stream that ends: deltas, then the event with the answer.\<close>

lemma stream_shape:
  assumes "stream_generate a cl q = (es, None)"
  shows "\<exists>ds e. es = map delta_event ds @ [e] \<and> me_delta e = None
    \<and> (concat ds = [] \<or> (\<exists>v t. me_message e = Some t \<and> concat ds = v @ t))
    \<and> ((\<forall>models payload. grows [] (partial_texts (fst (pc_create_partial cl models payload)))) \<longrightarrow>
        concat ds = [] \<or> me_message e = Some (concat ds))"
proof -
  obtain payload models where p: "ebind (provider_payload a q True) (\<lambda>payload.
      ebind (build_action_models (mq_tool_definitions q)) (\<lambda>models. Inr (payload, models))) = Inr (payload, models)"
    using assms by (auto simp: stream_generate_def split: sum.splits)
  obtain partials err where c: "pc_create_partial cl models payload = (partials, err)" by fastforce
  obtain ds m cs where s: "stream_partials partials err [] None [] = (ds, Inr (m, cs))"
    using assms by (auto simp: stream_generate_def p c Let_def split: prod.splits sum.splits if_splits)
  note t = stream_partials_text [OF s, simplified some_text_def, simplified]
  show ?thesis
  proof (cases "m = None \<and> cs = []")
    case True
    then have "partial_texts partials = []" using t by (auto simp: last_text_def split: if_splits)
    then have "concat ds = []" using t True by (simp add: text_of_def)
    moreover obtain x where "es = map delta_event ds @ [fallback_event x]"
      using assms True by (auto simp: stream_generate_def p c s Let_def split: sum.splits)
    ultimately show ?thesis by (intro exI [of _ ds] exI [of _ "fallback_event x"]) (simp add: fallback_event_def)
  next
    case False
    then have "es = map delta_event ds @ [final_event payload m cs]"
      using assms False by (auto simp: stream_generate_def p c s Let_def)
    moreover have "grows [] (partial_texts partials)"
      if "\<forall>models payload. grows [] (partial_texts (fst (pc_create_partial cl models payload)))"
      using that c by (metis fst_conv)
    moreover have g: "concat ds = [] \<or> m = Some (concat ds)" if "grows [] (partial_texts partials)"
      using conjunct2 [OF conjunct2 [OF t]] that by (cases m) (simp_all add: text_of_def)
    moreover have "concat ds = [] \<or> (\<exists>v t. m = Some t \<and> concat ds = v @ t)"
    proof (cases m)
      case None
      then have "grows [] (partial_texts partials)" using conjunct1 [OF t] by (auto simp: last_text_def split: if_splits)
      then show ?thesis using g None by auto
    next
      case (Some x)
      then show ?thesis using conjunct1 [OF conjunct2 [OF t]] by (auto simp: text_of_def)
    qed
    ultimately show ?thesis
      by (intro exI [of _ ds] exI [of _ "final_event payload m cs"] conjI impI) (simp_all add: final_event_def)
  qed
qed

text \<open>What the harness makes of such a stream: one event per delta, and the answer.\<close>

lemma append_new_event_payload:
  "append_new_event env s ty payload st = (Inr ev, st') \<Longrightarrow> ev_type ev = ty \<and> ev_payload ev = payload"
  by (auto simp: append_new_event_def harness_event_def record_event_def modify_session_def act_defs harness_load_def
      split: sum.splits prod.splits)

definition shown_text :: "runtime_event list \<Rightarrow> string" where
  "shown_text evs = concat (map (\<lambda>e. block_text (ev_payload e) ''delta'') evs)"

lemma act_bind_Inr: "act_bind m f st = (Inr y, st'') \<longleftrightarrow> (\<exists>x st'. m st = (Inr x, st') \<and> f x st' = (Inr y, st''))"
  by (cases "m st"; cases "fst (m st)") (auto simp: act_bind_def)

lemma consume_no_error: "consume_stream env s ctl es err shown final calls evs st = (Inr x, st') \<Longrightarrow> err = None"
proof (induction es arbitrary: shown final calls evs st)
  case Nil
  then show ?case by (auto simp: act_raise_def split: option.splits)
next
  case (Cons e es)
  then show ?case by (auto simp: act_bind_Inr act_raise_def Let_def split: if_splits)
qed

lemma consume_deltas:
  assumes "consume_stream env s ctl (map (\<lambda>d. model_stream_event.truncate (delta_event d)) ds @ [e]) None shown final calls evs st
      = (Inr (r, evs'), st')"
    and "me_delta e = None" "final = None"
  shows "shown_text evs' = shown_text evs @ concat ds
    \<and> (\<forall>t. me_message e = Some t \<longrightarrow> mr_message r = Some t)
    \<and> (me_message e = None \<longrightarrow> mr_message r = some_text (shown @ concat ds))
    \<and> ((\<forall>v \<in> set evs. ev_type v = ASSISTANT_DELTA) \<longrightarrow> (\<forall>v \<in> set evs'. ev_type v = ASSISTANT_DELTA))"
  using assms
proof (induction ds arbitrary: shown evs st)
  case Nil
  then show ?case
    by (auto simp: act_bind_Inr act_return_def act_raise_def some_text_def split: if_splits option.splits)
next
  case (Cons d ds)
  have t: "me_delta (model_stream_event.truncate (delta_event d)) = Some d"
    "me_message (model_stream_event.truncate (delta_event d)) = None"
    "me_tool_calls (model_stream_event.truncate (delta_event d)) = []"
    by (simp_all add: delta_event_def model_stream_event.defs)
  obtain cancelled st1 where 1: "check_cancelled ctl st = (Inr cancelled, st1)" "\<not> cancelled"
    and 2: "(if d = [] then consume_stream env s ctl (map (\<lambda>d. model_stream_event.truncate (delta_event d)) ds @ [e]) None shown final calls evs
        else act_bind (append_new_event env s ASSISTANT_DELTA [(''delta'', JStr d)]) (\<lambda>ev.
          act_bind (persist_session env s) (\<lambda>_.
          consume_stream env s ctl (map (\<lambda>d. model_stream_event.truncate (delta_event d)) ds @ [e]) None (shown @ d) final calls (evs @ [ev])))) st1
      = (Inr (r, evs'), st')"
    using Cons.prems(1) by (auto simp: act_bind_Inr t act_raise_def Let_def split: if_splits)
  show ?case
  proof (cases "d = []")
    case True
    with 2 have "consume_stream env s ctl (map (\<lambda>d. model_stream_event.truncate (delta_event d)) ds @ [e]) None shown final calls evs st1
      = (Inr (r, evs'), st')" by simp
    from Cons.IH [OF this Cons.prems(2,3)] True show ?thesis by simp
  next
    case False
    with 2 obtain ev st2 st3 where ev: "append_new_event env s ASSISTANT_DELTA [(''delta'', JStr d)] st1 = (Inr ev, st2)"
      "consume_stream env s ctl (map (\<lambda>d. model_stream_event.truncate (delta_event d)) ds @ [e]) None (shown @ d) final calls (evs @ [ev]) st3
      = (Inr (r, evs'), st')" by (auto simp: act_bind_Inr)
    note p = append_new_event_payload [OF ev(1)]
    from Cons.IH [OF ev(2) Cons.prems(2,3)] p show ?thesis by (auto simp: shown_text_def block_text_def)
  qed
qed

definition growing :: "provider_client \<Rightarrow> bool" where
  "growing cl \<longleftrightarrow> (\<forall>models payload. grows [] (partial_texts (fst (pc_create_partial cl models payload))))"

text \<open>
  C31. The text a user is shown is the answer.  When a model call through the adapter returns, the events it
  recorded are deltas, and their texts, joined, end with the message that becomes the answer; when every
  partial message extends the one before, they are exactly it.  (A message the client rewrites is shown
  again as a whole.)
\<close>

theorem shown_text_is_answer:
  assumes "he_model env (t_calls st) messages = provider_model a cl q"
    and "run_model_once env messages s ctl st = (Inr (r, evs), st')"
  shows "(\<forall>e \<in> set evs. ev_type e = ASSISTANT_DELTA)
    \<and> (shown_text evs = [] \<or> (\<exists>v t. mr_message r = Some t \<and> shown_text evs = v @ t))
    \<and> (growing cl \<longrightarrow> shown_text evs = [] \<or> mr_message r = Some (shown_text evs))"
proof -
  obtain es err where g: "stream_generate a cl q = (es, err)" by fastforce
  have run: "consume_stream env s ctl (map model_stream_event.truncate es) (map_option py_error_text err) [] None [] []
      (st\<lparr>t_calls := Suc (t_calls st)\<rparr>) = (Inr (r, evs), st')"
    using assms by (simp add: run_model_once_def act_bind_def act_get_def act_modify_def provider_model_def g)
  have "err = None" using consume_no_error [OF run] by simp
  with g obtain ds e where d: "es = map delta_event ds @ [e]" "me_delta e = None"
      "concat ds = [] \<or> (\<exists>v t. me_message e = Some t \<and> concat ds = v @ t)"
      "growing cl \<Longrightarrow> concat ds = [] \<or> me_message e = Some (concat ds)"
    using stream_shape [of a cl q es] unfolding growing_def by auto
  have "consume_stream env s ctl (map (\<lambda>d. model_stream_event.truncate (delta_event d)) ds @ [model_stream_event.truncate e]) None
      [] None [] [] (st\<lparr>t_calls := Suc (t_calls st)\<rparr>) = (Inr (r, evs), st')"
    using run d(1) \<open>err = None\<close> by (simp add: comp_def)
  from consume_deltas [OF this] d show ?thesis
    by (cases "me_message e") (auto simp: shown_text_def [of "[]"] model_stream_event.defs some_text_def)
qed

subsection \<open>Streaming and generating\<close>

lemma stream_partials_responds:
  assumes "\<forall>p \<in> set ps. respond_actions (iter_actions p) \<noteq> []"
  shows "\<exists>ds m. stream_partials ps None previous final calls = (ds, Inr (m, calls))"
  using assms
proof (induction ps arbitrary: previous final)
  case (Cons p ps)
  let ?t = "case assistant_message (last (respond_actions (iter_actions p))) False of None \<Rightarrow> [] | Some t \<Rightarrow> t"
  obtain ds m where "stream_partials ps None (if ?t = [] then previous else ?t) (if ?t = [] then final else Some ?t) calls
      = (ds, Inr (m, calls))" using Cons by force
  then show ?case using Cons.prems by (simp add: Let_def)
qed simp

lemma partial_texts_snoc: "partial_text r \<noteq> [] \<Longrightarrow> partial_texts (ps @ [r]) = partial_texts ps @ [partial_text r]"
  by (simp add: partial_texts_def)


text \<open>A client that writes a greeting word by word and then asks for a tool in the same answer.\<close>

definition demo_provider :: provider_adapter where
  "demo_provider = \<lparr>ad_model = ''m'', ad_provider = Some ''openai'', ad_environment = [], ad_temperature = None,
     ad_max_tokens = None\<rparr>"

definition demo_mixture :: structured where
  "demo_mixture = ActionList [Some (RespondAction (JStr ''Hi you '')), Some (ToolAction ''read'' [] JNull)]"

definition demo_client :: provider_client where
  "demo_client = \<lparr>pc_create = (\<lambda>_ _. Inr (demo_mixture, None)),
     pc_create_partial = (\<lambda>_ _. ([ActionList [Some (RespondAction (JStr ''Hi''))]] @ [demo_mixture], None))\<rparr>"

definition demo_request :: model_turn_request where
  "demo_request = new_request ''s'' [[(''role'', JStr ''user''), (''content'', JStr ''hello'')]]"

definition demo_payload :: "bool \<Rightarrow> json_object" where
  "demo_payload streaming = [(''model'', JStr ''m''), (''messages'', JList [JDict [(''role'', JStr ''user''), (''content'', JStr ''hello'')]])]
     @ (if streaming then [(''stream'', JBool True)] else [])"


subsection \<open>Calls without an answer\<close>

text \<open>The ids a payload announces in the tool calls of its assistant messages, and those its tool messages answer.\<close>

definition announces :: "json_object list \<Rightarrow> string \<Rightarrow> bool" where
  "announces ms i \<longleftrightarrow> (\<exists>m \<in> set ms. case jget m ''tool_calls'' of
     JList cs \<Rightarrow> \<exists>c \<in> set cs. (case c of JDict d \<Rightarrow> dict_get d ''id'' = Some (JStr i) | _ \<Rightarrow> False) | _ \<Rightarrow> False)"

definition answers :: "json_object list \<Rightarrow> string \<Rightarrow> bool" where
  "answers ms i \<longleftrightarrow> (\<exists>m \<in> set ms. dict_get m ''tool_call_id'' = Some (JStr i))"

definition answered_id :: "session_message \<Rightarrow> string option" where
  "answered_id x = (if sm_role x \<noteq> ''tool'' then None else case jget (message_metadata (message_payload x)) ''tool_use_id'' of
     JNull \<Rightarrow> None | v \<Rightarrow> Some (py_str v))"

lemma emap_result: "emap f xs = Inr ys \<Longrightarrow> x \<in> set xs \<Longrightarrow> \<exists>y \<in> set ys. f x = Inr y"
  by (induction xs arbitrary: ys) (auto simp: ebind_Inr_iff)

lemma emap_source: "emap f xs = Inr ys \<Longrightarrow> y \<in> set ys \<Longrightarrow> \<exists>x \<in> set xs. f x = Inr y"
  by (induction xs arbitrary: ys) (auto simp: ebind_Inr_iff)

lemma emap_succeeds: "\<forall>x \<in> set xs. \<exists>y. f x = Inr y \<Longrightarrow> \<exists>ys. emap f xs = Inr ys"
  by (induction xs) fastforce+

lemma message_payload_role [simp]: "message_role (message_payload x) = sm_role x"
  by (simp add: message_payload_def normalize_payload_def message_role_def session_message_to_dict_def dict_get_default_def)

lemma openai_message_id:
  assumes "openai_message (message_payload x) = Inr p"
  shows "dict_get p ''tool_call_id'' = map_option JStr (answered_id x)"
  using assms
  by (auto simp: openai_message_def answered_id_def Let_def plain_message_def ebind_Inr_iff split: if_splits json.splits)

lemma map_filter_as_dict [simp]: "List.map_filter as_dict (map (\<lambda>x. JDict (f x)) xs) = map f xs"
  by (induction xs) (simp_all add: map_filter_simps)

lemma openai_message_calls:
  assumes "openai_message (message_payload (assistant_tool_call_message m cs)) = Inr p" "c \<in> set cs"
    and "tc_call_id c = Some i" "i \<noteq> []"
  shows "announces [p] i"
proof -
  let ?m = "message_payload (assistant_tool_call_message m cs)"
  have md: "metadata_tool_calls (message_metadata ?m) = map tool_call_to_dict cs"
    by (simp add: message_payload_def normalize_payload_def session_message_to_dict_def assistant_tool_call_message_def
        message_metadata_def metadata_tool_calls_def py_eq_def jget_def comp_def map_filter_simps)
  have role: "sm_role (assistant_tool_call_message m cs) = ''assistant''" by (simp add: assistant_tool_call_message_def)
  have "cs \<noteq> []" using assms(2) by auto
  then obtain ps where p: "emap openai_tool_call_payload (map tool_call_to_dict cs) = Inr ps"
      "jget p ''tool_calls'' = JList (map JDict ps)"
    using assms(1) by (auto simp: openai_message_def md role Let_def ebind_Inr_iff jget_def split: if_splits)
  obtain d where d: "d \<in> set ps" "openai_tool_call_payload (tool_call_to_dict c) = Inr d"
    using emap_result [OF p(1), of "tool_call_to_dict c"] assms(2) by auto
  have "dict_get d ''id'' = Some (JStr i)"
    using d(2) assms(3,4) by (auto simp: openai_tool_call_payload_def ebind_Inr_iff replayed_id_def tool_call_to_dict_def jget_def jopt_str_def)
  with d(1) p(2) show ?thesis by (auto simp: announces_def intro!: bexI [of _ "JDict d"])
qed

lemma openai_request:
  assumes "\<forall>m \<in> set ms. \<exists>p. openai_message m = Inr p" "\<exists>m \<in> set ms. message_role m = ''user''"
  shows "\<exists>sys ps. openai_messages_payload (new_request s ms) = Inr (sys @ ps)
    \<and> emap openai_message (filter (\<lambda>m. message_role m \<noteq> ''system'') ms) = Inr ps
    \<and> (\<forall>m \<in> set sys. dict_get m ''tool_call_id'' = None)"
proof -
  let ?c = "filter (\<lambda>m. message_role m \<noteq> ''system'') ms"
  obtain ps where p: "emap openai_message ?c = Inr ps" using emap_succeeds [of ?c openai_message] assms(1) by auto
  obtain m where m: "m \<in> set ?c" "message_role m = ''user''" using assms(2) by auto
  obtain y where y: "y \<in> set ps" "openai_message m = Inr y" using emap_result [OF p m(1)] by blast
  have "block_text y ''role'' = ''user''"
    using y(2) m(2) by (auto simp: openai_message_def plain_message_def block_text_def Let_def)
  with y(1) have u: "list_ex (\<lambda>m. block_text m ''role'' = ''user'') ps" by (auto simp: list_ex_iff)
  let ?q = "new_request s ms"
  have c: "conversation ?q = ?c" by (simp add: conversation_def new_request_def)
  define sys where "sys = (if system_fragments ?q = [] then [] else [[(''role'', JStr ''system''),
      (''content'', JStr (py_join [newline, newline] (filter (\<lambda>t. t \<noteq> []) (map py_strip (system_fragments ?q)))))]])"
  have "openai_messages_payload ?q = Inr (sys @ ps)"
    using u by (simp add: openai_messages_payload_def c p Let_def sys_def)
  moreover have "\<forall>m \<in> set sys. dict_get m ''tool_call_id'' = None" by (simp add: sys_def)
  ultimately show ?thesis using p by blast
qed

lemma answered_in_request:
  assumes "emap openai_message (filter (\<lambda>m. message_role m \<noteq> ''system'') (map message_payload xs)) = Inr ps"
  shows "answers ps i \<longleftrightarrow> (\<exists>x \<in> set xs. sm_role x \<noteq> ''system'' \<and> answered_id x = Some i)"
proof -
  show ?thesis
  proof
    assume "answers ps i"
    then obtain p where p: "p \<in> set ps" "dict_get p ''tool_call_id'' = Some (JStr i)" by (auto simp: answers_def)
    obtain x where x: "x \<in> set xs" "sm_role x \<noteq> ''system''" "openai_message (message_payload x) = Inr p"
      using emap_source [OF assms p(1)] by auto
    moreover have "answered_id x = Some i" using openai_message_id [OF x(3)] p(2) by (cases "answered_id x") auto
    ultimately show "\<exists>x \<in> set xs. sm_role x \<noteq> ''system'' \<and> answered_id x = Some i" by blast
  next
    assume "\<exists>x \<in> set xs. sm_role x \<noteq> ''system'' \<and> answered_id x = Some i"
    then obtain x where x: "x \<in> set xs" "sm_role x \<noteq> ''system''" "answered_id x = Some i" by blast
    obtain p where p: "p \<in> set ps" "openai_message (message_payload x) = Inr p"
      using emap_result [OF assms, of "message_payload x"] x(1,2) by auto
    with openai_message_id [OF p(2)] x(3) show "answers ps i" by (auto simp: answers_def)
  qed
qed

text \<open>
  Rejecting an approval leaves the call in the conversation.  The session waits for the approval of the
  calls its last message announces.  After the rejection the stored transcript is what it was, and the
  request of the next turn announces the rejected call to the model and contains no result for it.
\<close>

theorem rejected_call_left_unanswered:
  assumes "env_ok (he_store env)" "store_ok (he_store env) (t_files st)"
    and "load_session (he_store env) (t_files st) s = Inr r"
    and "sr_status r = SESSION_REQUIRES_ACTION" "sr_pending r \<noteq> []"
    and "sr_messages r = before @ [assistant_tool_call_message m calls]" "he_governance env = None"
    and "\<forall>x \<in> set (sr_messages r). \<exists>p. openai_message (message_payload x) = Inr p"
    and "c \<in> set calls" "tc_call_id c = Some i" "i \<noteq> []" "\<forall>x \<in> set before. answered_id x \<noteq> Some i"
  shows "\<exists>events terminal st' stored ms. continue_turn env s False st = (Inr (events, terminal), st')
    \<and> load_session (he_store env) (t_files st') s = Inr stored \<and> sr_messages stored = sr_messages r
    \<and> openai_messages_payload (new_request s (request_messages env (stored\<lparr>sr_messages := sr_messages stored
        @ [\<lparr>sm_role = ''user'', sm_content = JStr input, sm_metadata = []\<rparr>]\<rparr>))) = Inr ms
    \<and> announces ms i \<and> \<not> answers ms i"
proof -
  let ?input = "\<lparr>sm_role = ''user'', sm_content = JStr input, sm_metadata = []\<rparr>"
  let ?all = "sr_messages r @ [?input]"
  obtain workdir session where w: "ensure_session_workspace env s r = (workdir, session)"
    by (cases "ensure_session_workspace env s r")
  define st1 where "st1 = st\<lparr>t_session := session,
    t_task := Some (''turn:'' @ s @ '':'' @ nat_str (length (sr_events r) + 1))\<rparr>"
  have "cont env s (sr_pending session) [] st1"
    using assms(1-3) ensure_workspace_continues [of r env s] by (auto simp: cont_def stored_def st1_def w)
  from rejected_continuation [OF this] obtain e st' where
    c: "reject_continuation env s st1 = (Inr ([e], make_terminal STOPPED ''approval_rejected'' None None), st')"
      "load_session (he_store env) (t_files st') s = Inr (session\<lparr>sr_pending := [], sr_status := SESSION_IDLE\<rparr>)"
    by (auto simp: st1_def)
  have run: "continue_turn env s False st = (Inr ([e], make_terminal STOPPED ''approval_rejected'' None None), st')"
    using continue_turn_pending [OF assms(3-5), of False] c(1) by (simp add: w st1_def Let_def)
  have msgs: "sr_messages session = sr_messages r" using ensure_workspace_fields(4) [of env s r] by (simp add: w)
  have "\<forall>p \<in> set (map message_payload ?all). \<exists>q. openai_message p = Inr q"
    using assms(8) by (auto simp: openai_message_def Let_def)
  moreover have user_among: "\<exists>p \<in> set (map message_payload ?all). message_role p = ''user''" by simp
  ultimately obtain sys ps where
    q: "openai_messages_payload (new_request s (map message_payload ?all)) = Inr (sys @ ps)"
      "emap openai_message (filter (\<lambda>m. message_role m \<noteq> ''system'') (map message_payload ?all)) = Inr ps"
      "\<forall>m \<in> set sys. dict_get m ''tool_call_id'' = None"
    using openai_request [of "map message_payload ?all" s] by blast
  let ?a = "assistant_tool_call_message m calls"
  have "message_payload ?a \<in> set (filter (\<lambda>m. message_role m \<noteq> ''system'') (map message_payload ?all))"
    using assms(6) by (simp add: assistant_tool_call_message_def)
  from emap_result [OF q(2) this] obtain p where p: "p \<in> set ps" "openai_message (message_payload ?a) = Inr p" by blast
  have "announces (sys @ ps) i" using openai_message_calls [OF p(2) assms(9-11)] p(1) by (auto simp: announces_def)
  moreover have "\<not> answers (sys @ ps) i"
    using q(3) answered_in_request [OF q(2), of i] assms(12)
    by (auto simp: answers_def assms(6) answered_id_def assistant_tool_call_message_def)
  ultimately show ?thesis using run c(2) q(1) msgs by (auto simp: request_messages_def assms(7))
qed

text \<open>A session that waits for the approval of one call, on disk.\<close>

definition waiting_record :: session_record where
  "waiting_record = (new_session ''s'')\<lparr>sr_status := SESSION_REQUIRES_ACTION, sr_pending := [counter_call ''read'' ''1''],
     sr_messages := [\<lparr>sm_role = ''user'', sm_content = JStr ''go'', sm_metadata = []\<rparr>]
       @ [assistant_tool_call_message None [counter_call ''read'' ''1'']]\<rparr>"

definition waiting_store :: file_store where
  "waiting_store = snd (save_session demo_env ''s'' waiting_record empty_store)"

lemma waiting_store_ok: "store_ok demo_env waiting_store" "load_session demo_env waiting_store ''s'' = Inr waiting_record"
proof -
  have e: "load_session demo_env empty_store ''s'' = Inr (new_session ''s'')" by code_simp
  obtain fs where "save_session demo_env ''s'' waiting_record empty_store = (Inr (), fs)" "store_ok demo_env fs"
      "load_session demo_env fs ''s'' = Inr waiting_record"
    using save_continues [OF demo_env_ok store_ok_empty e, of waiting_record]
    by (auto simp: waiting_record_def new_session_def continues_def)
  then show "store_ok demo_env waiting_store" "load_session demo_env waiting_store ''s'' = Inr waiting_record"
    by (simp_all add: waiting_store_def)
qed

theorem rejected_call_left_unanswered_witness:
  "\<exists>events terminal st' stored ms. continue_turn (demo_harness ''read'') ''s'' False (demo_turn waiting_store) = (Inr (events, terminal), st')
    \<and> load_session demo_env (t_files st') ''s'' = Inr stored \<and> sr_messages stored = sr_messages waiting_record
    \<and> openai_messages_payload (new_request ''s'' (request_messages (demo_harness ''read'') (stored\<lparr>sr_messages := sr_messages stored
        @ [\<lparr>sm_role = ''user'', sm_content = JStr ''and now?'', sm_metadata = []\<rparr>]\<rparr>))) = Inr ms
    \<and> announces ms ''1'' \<and> \<not> answers ms ''1''"
proof -
  have "list_all (\<lambda>x. case openai_message (message_payload x) of Inl e \<Rightarrow> False | Inr p \<Rightarrow> True) (sr_messages waiting_record)"
    by code_simp
  then have ok: "\<forall>x \<in> set (sr_messages waiting_record). \<exists>p. openai_message (message_payload x) = Inr p"
    by (simp add: list_all_iff split: sum.splits) (metis sum.exhaust)
  show ?thesis
    using rejected_call_left_unanswered [of "demo_harness ''read''" "demo_turn waiting_store" "''s''" waiting_record
        "[\<lparr>sm_role = ''user'', sm_content = JStr ''go'', sm_metadata = []\<rparr>]" None "[counter_call ''read'' ''1'']"
        "counter_call ''read'' ''1''" "''1''" "''and now?''"] ok waiting_store_ok demo_harness_ok(1)
    by (simp add: demo_turn_defs waiting_record_def new_session_def answered_id_def counter_call_def)
qed

subsection \<open>A streamed greeting\<close>

definition greeting_client :: provider_client where
  "greeting_client = \<lparr>pc_create = (\<lambda>_ _. Inl (''unused'', [])),
     pc_create_partial = (\<lambda>_ _. ([ActionList [Some (RespondAction (JStr ''He''))], ActionList [Some (RespondAction (JStr ''Hello''))]], None))\<rparr>"

definition greeting_harness :: "nat harness_env" where
  "greeting_harness = (demo_harness ''read'')\<lparr>he_model := (\<lambda>n ms. provider_model demo_provider greeting_client (new_request ''s'' ms))\<rparr>"

theorem shown_text_is_answer_witness:
  "\<exists>r evs st'. run_model_once greeting_harness [[(''role'', JStr ''user''), (''content'', JStr ''hi'')]] ''s'' default_control
      (demo_turn empty_store) = (Inr (r, evs), st')
    \<and> shown_text evs = ''Hello'' \<and> mr_message r = Some ''Hello'' \<and> (\<forall>e \<in> set evs. ev_type e = ASSISTANT_DELTA)"
proof -
  let ?ms = "[[(''role'', JStr ''user''), (''content'', JStr ''hi'')]]"
  let ?run = "run_model_once greeting_harness ?ms ''s'' default_control (demo_turn empty_store)"
  have "(case fst ?run of Inr (r, evs) \<Rightarrow> shown_text evs \<noteq> [] \<and> mr_message r = Some ''Hello'' | _ \<Rightarrow> False)"
    by code_simp
  then obtain r evs st' where r: "?run = (Inr (r, evs), st')" "shown_text evs \<noteq> []" "mr_message r = Some ''Hello''"
    by (cases ?run) (auto split: sum.splits)
  have g: "growing greeting_client"
    by (simp add: growing_def greeting_client_def partial_texts_def partial_text_def iter_actions_def respond_actions_def
        map_filter_simps py_startswith_def)
  have "he_model greeting_harness (t_calls (demo_turn empty_store)) ?ms
      = provider_model demo_provider greeting_client (new_request ''s'' ?ms)"
    by (simp add: greeting_harness_def)
  from shown_text_is_answer [OF this r(1)] g r show ?thesis by auto
qed

end
