(* ===== verification/ContextAssembly.thy ===== *)
theory ContextAssembly
  imports Provider FileTools "HOL-Library.List_Lexorder"
begin

text \<open>
  What goes into a model request besides the transcript (\<^verbatim>\<open>harness/context_engineering\<close>): the instruction
  files with their includes and conditions, the sections of the bootstrap prompt, the startup contexts,
  the fragments of the context providers and the pipeline that assembles them, and \<open>build_model_input\<close>
  of \<^verbatim>\<open>agent_runtime.py\<close>, which calls them.  The files are those of the file tools.  The wording of the
  prompt sections that do not depend on anything is a parameter; so are the home directory, the recall of
  durable memory and the short-term memory.
\<close>

subsection \<open>Instruction files\<close>

record instruction_rule =
  ir_source :: string
  ir_scope :: string
  ir_lifecycle :: string
  ir_text :: string
  ir_condition :: "string option"
  ir_metadata :: json_object

record instruction_document =
  id_source :: string
  id_rules :: "instruction_rule list"

definition condition_holds :: "string option \<Rightarrow> json_object option \<Rightarrow> bool" where
  "condition_holds condition state = (case condition of
     None \<Rightarrow> True
   | Some c \<Rightarrow>
       if py_strip c = [] then True
       else (case state of
           None \<Rightarrow> False
         | Some d \<Rightarrow> CHR ''='' \<in> set c
             \<and> (let (key, expected) = partition_at (CHR ''='') c in py_str (jget d (py_strip key)) = py_strip expected)))"

text \<open>The path a line includes.\<close>

definition include_target :: "string \<Rightarrow> string option" where
  "include_target line =
     (let stripped = py_strip line in
      if py_startswith stripped ''!include '' \<or> py_startswith stripped ''@include ''
      then Some (py_strip (drop 9 stripped)) else None)"

definition expand_line :: "file_system \<Rightarrow> path \<Rightarrow> string \<Rightarrow> py_error + string list" where
  "expand_line w base line = (case include_target line of
     None \<Rightarrow> Inr [line]
   | Some raw \<Rightarrow>
       (let p = resolve_from (fw_link w) base raw in
        if path_exists p w then ebind (read_text p w) (\<lambda>t. Inr [t]) else Inr []))"

definition expand_includes :: "file_system \<Rightarrow> string \<Rightarrow> path \<Rightarrow> py_error + string" where
  "expand_includes w txt base =
     ebind (emap (expand_line w base) (py_splitlines txt)) (\<lambda>parts. Inr (py_join [newline] (concat parts)))"

definition new_rule :: "string \<Rightarrow> string \<Rightarrow> string option \<Rightarrow> instruction_rule" where
  "new_rule source t condition = \<lparr>ir_source = source, ir_scope = ''user'', ir_lifecycle = ''startup'', ir_text = t,
     ir_condition = condition, ir_metadata = []\<rparr>"

definition remove_suffix :: "string \<Rightarrow> string \<Rightarrow> string" where
  "remove_suffix s e = (if py_endswith s e then take (length s - length e) s else s)"

text \<open>The condition a line sets for the lines after it.\<close>

definition condition_line :: "string \<Rightarrow> string option" where
  "condition_line line =
     (let stripped = py_strip line in
      if py_startswith stripped ''<!-- if:'' \<and> py_endswith stripped ''-->''
      then Some (py_strip (remove_suffix (remove_prefix stripped ''<!-- if:'') ''-->'')) else None)"

definition flush_rule :: "string \<Rightarrow> json_object option \<Rightarrow> string option \<Rightarrow> string list \<Rightarrow> instruction_rule list" where
  "flush_rule source state condition buffer =
     (let rendered = py_strip (py_join [newline] buffer) in
      if rendered \<noteq> [] \<and> condition_holds condition state then [new_rule source rendered condition] else [])"

fun rules_of_lines :: "string \<Rightarrow> json_object option \<Rightarrow> string option \<Rightarrow> string list \<Rightarrow> string list \<Rightarrow> instruction_rule list" where
  "rules_of_lines source state condition buffer [] = flush_rule source state condition buffer"
| "rules_of_lines source state condition buffer (line # lines) = (case condition_line line of
     Some c \<Rightarrow> flush_rule source state condition buffer @ rules_of_lines source state (Some c) [] lines
   | None \<Rightarrow> rules_of_lines source state condition (buffer @ [line]) lines)"

definition parse_rules :: "string \<Rightarrow> json_object option \<Rightarrow> string \<Rightarrow> instruction_rule list" where
  "parse_rules source state txt = rules_of_lines source state None [] (py_splitlines txt)"

text \<open>The directories from the workspace root down to that of the target.\<close>

definition target_directories :: "file_system \<Rightarrow> path \<Rightarrow> json_object option \<Rightarrow> path list" where
  "target_directories w root state = (case Option.bind state (\<lambda>d. as_str (jget d ''target_path'')) of
     None \<Rightarrow> []
   | Some t \<Rightarrow>
       if t = [] then []
       else (let target = resolve_from (fw_link w) root t;
                 dir = (if target \<in> set (fw_dirs w) then target else butlast target) in
             if prefix root dir then map (\<lambda>n. take (length root + Suc n) dir) [0..<length dir - length root] else []))"

definition candidate_paths :: "file_system \<Rightarrow> path \<Rightarrow> string \<Rightarrow> string option \<Rightarrow> json_object option \<Rightarrow> path list" where
  "candidate_paths w home workspace role_path state =
     (let link = fw_link w; root = resolve_from link (fw_cwd w) workspace;
          below = (\<lambda>base. map (\<lambda>n. resolve_from link base n) [''AGENTS.md'', ''RULES.md'']);
          paths = (case role_path of None \<Rightarrow> [] | Some r \<Rightarrow> if py_strip r = [] then [] else [resolve_from link (fw_cwd w) r])
            @ [resolve_from link (path_step link home ''.openagent'') ''AGENTS.md''] @ below root
            @ concat (map below (target_directories w root state)) in
      rev (remdups (rev paths)))"

definition load_document :: "file_system \<Rightarrow> json_object option \<Rightarrow> path \<Rightarrow> py_error + instruction_document" where
  "load_document w state p =
     ebind (read_text p w) (\<lambda>raw.
     ebind (expand_includes w raw (butlast p)) (\<lambda>t.
     Inr \<lparr>id_source = path_str p, id_rules = parse_rules (path_str p) state t\<rparr>))"

definition load_instructions ::
  "file_system \<Rightarrow> path \<Rightarrow> string \<Rightarrow> string option \<Rightarrow> json_object option \<Rightarrow> py_error + instruction_document list" where
  "load_instructions w home workspace role_path state =
     emap (load_document w state) (filter (\<lambda>p. path_exists p w) (candidate_paths w home workspace role_path state))"

text \<open>
  \<open>_instruction_system_context\<close>: a line with a colon is kept under the text before it, the last one for
  each such text; the other lines are kept once each, before them.
\<close>

record instruction_lines =
  il_plain :: "string list"
  il_keyed :: "(string, string) pydict"

definition add_line :: "string \<Rightarrow> instruction_lines \<Rightarrow> instruction_lines" where
  "add_line raw ls =
     (let line = py_strip raw in
      if line = [] then ls
      else if CHR '':'' \<in> set line then
        (let (key, val) = partition_at (CHR '':'') line in
         ls\<lparr>il_keyed := dict_set (py_lower (py_strip key)) (py_strip key @ '': '' @ py_strip val) (il_keyed ls)\<rparr>)
      else if line \<in> set (il_plain ls) then ls
      else ls\<lparr>il_plain := il_plain ls @ [line]\<rparr>)"

definition rule_lines :: "instruction_document list \<Rightarrow> string list" where
  "rule_lines docs = concat (map (\<lambda>r. py_splitlines (ir_text r)) (concat (map id_rules docs)))"

definition merged_lines :: "instruction_document list \<Rightarrow> string list" where
  "merged_lines docs = (let ls = fold add_line (rule_lines docs) \<lparr>il_plain = [], il_keyed = []\<rparr> in
     il_plain ls @ dict_values (il_keyed ls))"

definition instruction_system_context :: "instruction_document list \<Rightarrow> json_object list" where
  "instruction_system_context docs =
     (let content = py_join [newline] (merged_lines docs) in
      if content = [] then []
      else [[(''scope'', JStr ''system''), (''lifecycle'', JStr ''startup''),
        (''payload'', JDict [(''content'', JStr content), (''source_paths'', JList (map (JStr \<circ> id_source) docs))]),
        (''provenance'', JStr ''instruction_markdown'')]])"

subsection \<open>Prompt sections\<close>

record prompt_section =
  ps_name :: string
  ps_text :: string
  ps_cache_policy :: string
  ps_cache_breaking :: bool
  ps_dynamic :: bool

definition prompt_section_to_dict :: "prompt_section \<Rightarrow> json_object" where
  "prompt_section_to_dict p = [(''name'', JStr (ps_name p)), (''text'', JStr (ps_text p)),
     (''cache_policy'', JStr (ps_cache_policy p)), (''cache_breaking'', JBool (ps_cache_breaking p)),
     (''dynamic'', JBool (ps_dynamic p))]"

definition static_section :: "string \<Rightarrow> string \<Rightarrow> prompt_section" where
  "static_section n t = \<lparr>ps_name = n, ps_text = t, ps_cache_policy = ''cacheable'', ps_cache_breaking = False, ps_dynamic = False\<rparr>"

definition bullet_section :: "string \<Rightarrow> string list \<Rightarrow> string" where
  "bullet_section title items = ''# '' @ title @ [newline] @ py_join [newline] (map (\<lambda>i. ''- '' @ i) items)"

text \<open>The hints on the tools that are there, under their names in lower case.\<close>

definition dedicated_hints :: "(string \<times> string) list" where
  "dedicated_hints =
     [(''Read'', ''To read files use Read instead of cat, head, tail, or sed''),
      (''Edit'', ''To edit files use Edit instead of sed or awk''),
      (''Write'', ''To create files use Write instead of cat with heredoc or echo redirection''),
      (''Glob'', ''To search for files use Glob instead of find or ls''),
      (''Grep'', ''To search the content of files, use Grep instead of grep or rg''),
      (''Bash'', ''Reserve using the Bash exclusively for system commands and terminal operations that require shell execution. If you are unsure and there is a relevant dedicated tool, default to using the dedicated tool and only fallback on using the Bash tool for these if it is absolutely necessary.'')]"

definition using_your_tools_section :: "string list \<Rightarrow> string" where
  "using_your_tools_section capabilities =
     (let tools = map py_lower capabilities;
          hints = map snd (filter (\<lambda>h. py_lower (fst h) \<in> set tools) dedicated_hints) in
      bullet_section ''Using your tools''
        ((if hints \<noteq> [] then
            ''Only use tools that are explicitly available in the runtime capability summary. Do NOT use the Bash to run commands when a relevant dedicated tool is provided. Using dedicated tools allows the user to better understand and review your work. This is CRITICAL to assisting the user:'' # hints
          else [''Only use tools that are explicitly available in the runtime capability summary.''])
         @ [''You can call multiple tools in a single response. If you intend to call multiple tools and there are no dependencies between them, make all independent tool calls in parallel. Maximize use of parallel tool calls where possible to increase efficiency. However, if some tool calls depend on previous calls to inform dependent values, do NOT call these tools in parallel and instead call them sequentially. For instance, if one operation must complete before another starts, run these operations sequentially instead.'']))"

definition tone_and_style_section :: string where
  "tone_and_style_section = bullet_section ''Tone and style''
     [''Your responses should be short, direct, and focused on the task at hand.'',
      ''Only use emojis if the user explicitly requests them.'',
      ''When referencing specific functions or pieces of code, include the pattern file_path:line_number so the user can navigate to the source.'',
      ''Do not use a colon before a tool call. Write a normal sentence instead.'']"

definition output_efficiency_section :: string where
  "output_efficiency_section = ''# Output efficiency'' @ [newline, newline] @
     ''Go straight to the point. Try the simplest approach first without going in circles. Keep user-facing text brief and direct. Lead with the answer or next action, not a long explanation. Focus your text on decisions that need user input, high-level progress updates at natural milestones, and errors or blockers that materially change the plan.''"

text \<open>\<open>fixed\<close> is the wording of the sections \<open>intro\<close>, \<open>system\<close>, \<open>doing_tasks\<close> and \<open>actions_with_care\<close>.\<close>

definition build_default_prompt :: "(string \<Rightarrow> string) \<Rightarrow> string list \<Rightarrow> string \<Rightarrow> prompt_section list" where
  "build_default_prompt fixed capabilities workspace =
     map (\<lambda>n. static_section n (fixed n)) [''intro'', ''system'', ''doing_tasks'', ''actions_with_care'']
     @ [static_section ''using_your_tools'' (using_your_tools_section capabilities),
        static_section ''tone_and_style'' tone_and_style_section,
        static_section ''output_efficiency'' output_efficiency_section,
        \<lparr>ps_name = ''workspace_context'',
          ps_text = ''Workspace root: '' @ workspace @ ''. Restrict file assumptions and file operations to this workspace unless the user explicitly broadens the scope.'',
          ps_cache_policy = ''volatile'', ps_cache_breaking = True, ps_dynamic = True\<rparr>,
        \<lparr>ps_name = ''environment_summary'',
          ps_text = (if capabilities = [] then ''Available runtime capabilities: none declared.''
            else ''Available runtime capabilities: '' @ py_join '', '' capabilities),
          ps_cache_policy = ''volatile'', ps_cache_breaking = False, ps_dynamic = True\<rparr>]"

definition merge_prompt_layers :: "prompt_section list \<Rightarrow> prompt_section list option \<Rightarrow> prompt_section list" where
  "merge_prompt_layers base overrides = (case overrides of
     None \<Rightarrow> base
   | Some os \<Rightarrow> if os = [] then base
       else (let merged = fold (\<lambda>p. dict_set (ps_name p) p) (base @ os) []; names = map ps_name base;
                 added = rev (remdups (rev (filter (\<lambda>n. n \<notin> set names) (map ps_name os)))) in
             List.map_filter (dict_get merged) (names @ added)))"

definition split_static_dynamic :: "string \<Rightarrow> prompt_section list \<Rightarrow> json_object" where
  "split_static_dynamic agent ps = (let kept = filter (\<lambda>p. ps_text p \<noteq> []) ps in
     [(''static_blocks'', JList (map (JStr \<circ> ps_text) (filter (\<lambda>p. \<not> ps_dynamic p) kept))),
      (''dynamic_blocks'', JList (map (JStr \<circ> ps_text) (filter ps_dynamic kept))),
      (''attribution_prefix'', JStr (agent @ '' bootstrap prompt''))])"

definition workspace_root_from_metadata :: "file_system \<Rightarrow> json_object \<Rightarrow> string" where
  "workspace_root_from_metadata w md = (case jget md ''workdir'' of
     JStr d \<Rightarrow> if d = [] then path_str (fw_cwd w) else path_str (resolve_from (fw_link w) (fw_cwd w) d)
   | _ \<Rightarrow> path_str (fw_cwd w))"

subsection \<open>Startup contexts\<close>

datatype startup_kind = SESSION_START | AGENT_START | TURN_ZERO | RESUME_START

fun startup_kind_value :: "startup_kind \<Rightarrow> string" where
  "startup_kind_value SESSION_START = ''session_start''"
| "startup_kind_value AGENT_START = ''agent_start''"
| "startup_kind_value TURN_ZERO = ''turn_zero''"
| "startup_kind_value RESUME_START = ''resume_start''"

record startup_context =
  sc_kind :: startup_kind
  sc_payload :: json_object
  sc_first_use_only :: bool
  sc_reentry :: string

definition startup_context_to_dict :: "startup_context \<Rightarrow> json_object" where
  "startup_context_to_dict c = [(''kind'', JStr (startup_kind_value (sc_kind c))), (''payload'', JDict (sc_payload c)),
     (''first_use_only'', JBool (sc_first_use_only c)), (''reentry_policy'', JStr (sc_reentry c)),
     (''transcript_visibility'', JStr ''hidden''), (''dedup_policy'', JStr ''once'')]"

definition once_context :: "startup_kind \<Rightarrow> json_object \<Rightarrow> startup_context" where
  "once_context k d = \<lparr>sc_kind = k, sc_payload = d, sc_first_use_only = True, sc_reentry = ''once''\<rparr>"

definition build_startup_contexts :: "string \<Rightarrow> bool \<Rightarrow> bool \<Rightarrow> string option \<Rightarrow> startup_context list" where
  "build_startup_contexts s has_prior has_pending agent =
     (if has_prior then [] else
        [once_context SESSION_START [(''session_id'', JStr s)],
         once_context TURN_ZERO [(''content'', JStr ''This is the first model-visible turn for the current session.'')]])
     @ (case agent of None \<Rightarrow> [] | Some a \<Rightarrow> if a = [] then [] else [once_context AGENT_START [(''agent_id'', JStr a)]])
     @ (if has_pending then [\<lparr>sc_kind = RESUME_START,
          sc_payload = [(''pending_action'', JBool True), (''session_id'', JStr s)], sc_first_use_only = False, sc_reentry = ''resume''\<rparr>]
        else [])"

subsection \<open>Assembly\<close>

record assembly_input =
  ai_transcript :: "json_object list"
  ai_sections :: "json_object list"
  ai_system_context :: "json_object list"
  ai_user_context :: "json_object list"
  ai_attachments :: "json_object list"
  ai_surface :: json_object
  ai_evidence :: "json_object list"
  ai_metadata :: json_object
  ai_startup :: "json_object list"

record assembly_result =
  as_system_prompt :: "string option"
  as_messages :: "json_object list"
  as_attachments :: "json_object list"
  as_surface :: json_object
  as_evidence :: "json_object list"
  as_metadata :: json_object
  as_sections :: "json_object list"
  as_blocks :: json_object
  as_system_context :: "json_object list"
  as_user_context :: "json_object list"
  as_startup :: "json_object list"

definition payload_content :: "json_object \<Rightarrow> string" where
  "payload_content item = (case jget item ''payload'' of
     JDict d \<Rightarrow> (case jget d ''content'' of JNull \<Rightarrow> [] | v \<Rightarrow> py_str v)
   | _ \<Rightarrow> [])"

definition string_field :: "json_object \<Rightarrow> string \<Rightarrow> string option" where
  "string_field item k = (case jget item k of JNull \<Rightarrow> None | v \<Rightarrow> Some (py_str v))"

definition user_context_message :: "json_object \<Rightarrow> json_object" where
  "user_context_message item = [(''role'', JStr ''user''), (''content'', JStr (payload_content item)),
     (''metadata'', JDict [(''context_scope'', jopt_str (string_field item ''scope'')),
       (''context_lifecycle'', jopt_str (string_field item ''lifecycle'')),
       (''provenance'', jopt_str (string_field item ''provenance''))])]"

definition startup_context_fragment :: "json_object \<Rightarrow> string" where
  "startup_context_fragment item =
     (let kind = (case string_field item ''kind'' of None \<Rightarrow> ''startup'' | Some k \<Rightarrow> if k = [] then ''startup'' else k);
          content = py_strip (payload_content item) in
      if content = [] then ''Startup context ('' @ kind @ '').'' else ''Startup context ('' @ kind @ ''): '' @ content)"

definition assemble_attachment_stream :: "json_object list \<Rightarrow> json_object list \<Rightarrow> json_object list" where
  "assemble_attachment_stream attachments evidence = attachments @ evidence"

definition section_texts :: "bool \<Rightarrow> json_object list \<Rightarrow> string list" where
  "section_texts dynamic sections = map (\<lambda>d. block_text d ''text'')
     (filter (\<lambda>d. block_text d ''text'' \<noteq> [] \<and> truthy (jget d ''dynamic'') = dynamic) sections)"

definition assemble :: "assembly_input \<Rightarrow> assembly_result" where
  "assemble i =
     (let static_texts = section_texts False (ai_sections i); dynamic_texts = section_texts True (ai_sections i);
          startup = map startup_context_fragment (ai_startup i);
          system = filter (\<lambda>t. t \<noteq> []) (map payload_content (ai_system_context i));
          users = map user_context_message (filter (\<lambda>d. payload_content d \<noteq> []) (ai_user_context i)) in
      \<lparr>as_system_prompt = some_text (py_strip (py_join [newline, newline] (static_texts @ dynamic_texts @ startup @ system))),
       as_messages = ai_transcript i @ users,
       as_attachments = assemble_attachment_stream (ai_attachments i) (ai_evidence i),
       as_surface = ai_surface i, as_evidence = ai_evidence i, as_metadata = ai_metadata i, as_sections = ai_sections i,
       as_blocks = [(''static_blocks'', JList (map JStr static_texts)), (''dynamic_blocks'', JList (map JStr dynamic_texts)),
         (''attribution_prefix'', JStr ''OpenAgent bootstrap prompt'')],
       as_system_context = ai_system_context i, as_user_context = ai_user_context i, as_startup = ai_startup i\<rparr>)"

subsection \<open>Context providers\<close>

text \<open>What the methods of a provider return, as dictionaries; empty where it has no such method.\<close>

record context_provider =
  cp_user_context :: "json_object list"
  cp_attachments :: "json_object list"
  cp_evidence :: "json_object list"
  cp_exposure :: "json_object option"

definition provider_fragments :: "(context_provider \<Rightarrow> json_object list) \<Rightarrow> context_provider list \<Rightarrow> json_object list" where
  "provider_fragments method providers = concat (map method providers)"

definition capability_surface_payload :: "string list \<Rightarrow> context_provider list \<Rightarrow> json_object" where
  "capability_surface_payload tools providers =
     (let exposed = concat (map (\<lambda>d. case jget d ''always_loaded'' of JList l \<Rightarrow> map py_str l | _ \<Rightarrow> [])
            (List.map_filter cp_exposure providers)) in
      [(''always_loaded'', JList (map JStr (sort (remdups (tools @ exposed)))))])"

subsection \<open>The model input\<close>

record 'w context_env =
  ce_harness :: "'w harness_env"
  ce_describe :: "'w tool \<Rightarrow> string"
  ce_fixed_text :: "string \<Rightarrow> string"
  ce_home :: path
  ce_role_path :: "string option"
  ce_recommended :: "string list"
  ce_short_term :: "session_record \<Rightarrow> json_object option"
  ce_recall :: "(string \<Rightarrow> string \<Rightarrow> string option \<Rightarrow> json_object list) option"
  ce_hint :: "string option"
  ce_providers :: "context_provider list"

text \<open>Whether the transcript was compacted, and whether it was recovered from an overflow.\<close>

definition compaction_flags :: "'w harness_env \<Rightarrow> session_record \<Rightarrow> bool \<times> bool" where
  "compaction_flags env r = (case he_governance env of
     None \<Rightarrow> (False, False)
   | Some g \<Rightarrow>
       (let ms = sr_messages r; tools = available_tools env;
            compacts = should_compact g ms;
            recovers = re_recovered (recover_overflow g ms) in
        (compacts \<and> 0 < co_count (compact g ms),
         (compacts \<and> cr_over_budget (analyze g ms tools) \<or> \<not> should_allow_continuation g ms tools) \<and> recovers)))"

definition tool_result_note :: string where
  "tool_result_note = ''OpenAI-compatible tool-result note: messages with role `tool` use `content` as a JSON-formatted string. Parse that JSON string to inspect the structured tool result rather than treating it as free-form prose.''"

definition provider_adjusted_system_prompt :: "string option \<Rightarrow> string option \<Rightarrow> session_record \<Rightarrow> string option" where
  "provider_adjusted_system_prompt hint prompt r =
     (if hint \<noteq> Some ''openai_tool_json_string'' \<or> \<not> list_ex (\<lambda>m. sm_role m = ''tool'') (sr_messages r) then prompt
      else (case prompt of
          None \<Rightarrow> Some tool_result_note
        | Some p \<Rightarrow> if py_strip p = [] then Some tool_result_note
            else if py_contains p tool_result_note then Some p
            else Some (p @ [newline, newline] @ tool_result_note)))"

definition recalled_memory :: "'w context_env \<Rightarrow> session_record \<Rightarrow> json_object list" where
  "recalled_memory env r = (case ce_recall env of
     None \<Rightarrow> []
   | Some recall \<Rightarrow> if sr_messages r = [] then []
       else recall (sr_id r) (session_message_text (last (sr_messages r))) (sr_agent r))"

definition tool_definition :: "('w tool \<Rightarrow> string) \<Rightarrow> 'w tool \<Rightarrow> json_object" where
  "tool_definition describe t = [(''name'', JStr (tool_name t)), (''description'', JStr (describe t)), (''input_schema'', tool_schema t)]"

definition model_runtime_state :: "'w context_env \<Rightarrow> session_record \<Rightarrow> json_object" where
  "model_runtime_state env r = [(''session_id'', JStr (sr_id r)), (''agent_id'', jopt_str (sr_agent r)),
     (''role_id'', jopt_str (he_role (ce_harness env))), (''target_path'', jget (sr_metadata r) ''target_path'')]"

definition build_model_input ::
  "'w context_env \<Rightarrow> file_system \<Rightarrow> context_provider list \<Rightarrow> session_record \<Rightarrow> py_error + model_turn_request" where
  "build_model_input env w providers r =
     (let h = ce_harness env; cps = ce_providers env @ providers; tools = available_tools h;
          workspace = workspace_root_from_metadata w (sr_metadata r);
          (compacted, recovered) = compaction_flags h r in
      ebind (load_instructions w (ce_home env) workspace (ce_role_path env) (Some (model_runtime_state env r))) (\<lambda>docs.
      let a = assemble
        \<lparr>ai_transcript = request_messages h r,
         ai_sections = map prompt_section_to_dict (merge_prompt_layers (build_default_prompt (ce_fixed_text env) tools workspace) None),
         ai_system_context = instruction_system_context docs,
         ai_user_context = provider_fragments cp_user_context cps,
         ai_attachments = provider_fragments cp_attachments cps,
         ai_surface = capability_surface_payload tools cps,
         ai_evidence = provider_fragments cp_evidence cps,
         ai_metadata = [(''session_id'', JStr (sr_id r)), (''agent_id'', jopt_str (sr_agent r)),
           (''role_id'', jopt_str (he_role h)), (''compacted'', JBool compacted), (''recovered_from_overflow'', JBool recovered),
           (''recommended_models'', JList (map JStr (ce_recommended env)))],
         ai_startup = map startup_context_to_dict (build_startup_contexts (sr_id r) (1 < length (sr_messages r))
           (sr_pending r \<noteq> []) (sr_agent r))\<rparr> in
      Inr \<lparr>mq_session = sr_id r, mq_messages = as_messages a,
        mq_system_prompt = provider_adjusted_system_prompt (ce_hint env) (as_system_prompt a) r,
        mq_prompt_sections = as_sections a, mq_prompt_blocks = Some (as_blocks a), mq_startup_contexts = as_startup a,
        mq_available_tools = tools,
        mq_tool_definitions = map (tool_definition (ce_describe env)) (list_tools (ee_registry (he_exec h))),
        mq_short_term_memory = ce_short_term env r, mq_memory_context = recalled_memory env r,
        mq_system_context = as_system_context a, mq_user_context = as_user_context a, mq_attachments = as_attachments a,
        mq_capability_surface = Some (as_surface a), mq_evidence_refs = as_evidence a, mq_request_metadata = as_metadata a\<rparr>))"

end
