(* ===== verification/ContextProps.thy ===== *)
theory ContextProps
  imports ContextAssembly FileToolProps TurnProps
begin

text \<open>
  Properties of the context: of the instruction lines with one key only the last is told, and an include
  carries a file from outside the workspace into the system prompt, where the file tools cannot reach.
\<close>

subsection \<open>Instruction lines\<close>

text \<open>The key of a line with a colon, with the text that is kept for it; a line without one is plain.\<close>

definition keyed_line :: "string \<Rightarrow> (string \<times> string) option" where
  "keyed_line raw = (let line = py_strip raw; (key, val) = partition_at (CHR '':'') line in
     if CHR '':'' \<in> set line then Some (py_lower (py_strip key), py_strip key @ '': '' @ py_strip val) else None)"

definition plain_line :: "string \<Rightarrow> string option" where
  "plain_line raw = (if py_strip raw = [] \<or> CHR '':'' \<in> set (py_strip raw) then None else Some (py_strip raw))"

lemma add_line_cases:
  "add_line raw ls = (case keyed_line raw of
     Some (k, v) \<Rightarrow> ls\<lparr>il_keyed := dict_set k v (il_keyed ls)\<rparr>
   | None \<Rightarrow> (case plain_line raw of
       None \<Rightarrow> ls
     | Some t \<Rightarrow> if t \<in> set (il_plain ls) then ls else ls\<lparr>il_plain := il_plain ls @ [t]\<rparr>))"
  by (auto simp: add_line_def keyed_line_def plain_line_def Let_def split: prod.splits)

lemma plain_not_keyed: "plain_line raw = Some t \<Longrightarrow> keyed_line raw = None"
  by (auto simp: plain_line_def keyed_line_def Let_def split: if_splits prod.splits)

lemma fold_add_line:
  fixes ls0 :: instruction_lines
  assumes "wf_dict (il_keyed ls0)"
  defines "final ls \<equiv> fold add_line ls ls0"
  shows "set (il_plain (final ls)) = set (il_plain ls0) \<union> {t. \<exists>l \<in> set ls. plain_line l = Some t}
    \<and> wf_dict (il_keyed (final ls))
    \<and> (\<forall>k. dict_get (il_keyed (final ls)) k =
        (case find (\<lambda>l. map_option fst (keyed_line l) = Some k) (rev ls) of
           None \<Rightarrow> dict_get (il_keyed ls0) k | Some l \<Rightarrow> map_option snd (keyed_line l)))"
proof (induction ls rule: rev_induct)
  case Nil
  show ?case using assms(1) by (simp add: final_def)
next
  case (snoc l ls)
  have f: "final (ls @ [l]) = add_line l (final ls)" by (simp add: final_def)
  show ?case
  proof (cases "keyed_line l")
    case None
    have p: "set (il_plain (final (ls @ [l]))) = set (il_plain (final ls)) \<union> set_option (plain_line l)"
      and k: "il_keyed (final (ls @ [l])) = il_keyed (final ls)"
      by (auto simp: f add_line_cases None split: option.splits)
    show ?thesis unfolding p k using snoc None by auto
  next
    case (Some kv')
    then obtain kv k' v' where Some: "keyed_line l = Some kv" "kv = (k', v')" by (metis surj_pair)
    have "plain_line l = None" using Some plain_not_keyed by fastforce
    moreover have "il_plain (final (ls @ [l])) = il_plain (final ls)"
      and k: "il_keyed (final (ls @ [l])) = dict_set (fst kv) (snd kv) (il_keyed (final ls))"
      by (simp_all add: f add_line_cases Some split: prod.splits)
    ultimately show ?thesis using snoc Some by (auto simp: distinct_update)
  qed
qed

lemma find_rev_Some:
  "find P (rev xs) = Some l \<longleftrightarrow> (\<exists>before after. xs = before @ [l] @ after \<and> P l \<and> list_all (\<lambda>x. \<not> P x) after)"
proof (induction xs rule: rev_induct)
  case (snoc x xs)
  show ?case
  proof (cases "P x")
    case True
    have "after = []" if "xs @ [x] = before @ [l] @ after" "list_all (\<lambda>x. \<not> P x) after" for before after
      using that True by (cases after rule: rev_cases) auto
    then have "(\<exists>before after. xs @ [x] = before @ [l] @ after \<and> P l \<and> list_all (\<lambda>x. \<not> P x) after) \<longleftrightarrow> l = x"
      using True by fastforce
    with True show ?thesis by auto
  next
    case False
    have "(\<exists>before after. xs @ [x] = before @ [l] @ after \<and> P l \<and> list_all (\<lambda>x. \<not> P x) after)
      \<longleftrightarrow> (\<exists>before after. xs = before @ [l] @ after \<and> P l \<and> list_all (\<lambda>x. \<not> P x) after)" (is "?L = ?R")
    proof
      assume ?L
      then obtain before after where a: "xs @ [x] = before @ [l] @ after" "P l" "list_all (\<lambda>x. \<not> P x) after" by blast
      with False obtain after' where "after = after' @ [x]" by (cases after rule: rev_cases) auto
      with a show ?R by auto
    next
      assume ?R
      then obtain before after where "xs = before @ [l] @ after" "P l" "list_all (\<lambda>x. \<not> P x) after" by blast
      then show ?L using False by (intro exI [of _ before] exI [of _ "after @ [x]"]) simp
    qed
    then show ?thesis using False snoc by simp
  qed
qed simp

lemma values_lookup: "wf_dict d \<Longrightarrow> x \<in> set (dict_values d) \<longleftrightarrow> (\<exists>k. dict_get d k = Some x)"
  by (force simp: map_of_eq_Some_iff)

text \<open>
  Of several instruction lines with the same text before their first colon, the model is told the last
  one only.  A line of the merged instructions is a line without a colon of some rule, or the line that a
  key has in the last rule line with that key; in particular two lines that list two URLs are one key.
\<close>

theorem last_instruction_wins:
  "x \<in> set (merged_lines docs) \<longleftrightarrow>
     (\<exists>l \<in> set (rule_lines docs). plain_line l = Some x)
     \<or> (\<exists>before l after k. rule_lines docs = before @ [l] @ after \<and> keyed_line l = Some (k, x)
         \<and> list_all (\<lambda>l'. map_option fst (keyed_line l') \<noteq> Some k) after)"
proof -
  let ?none = "\<lparr>il_plain = [], il_keyed = []\<rparr>" and ?ls = "rule_lines docs"
  let ?f = "fold add_line ?ls ?none"
  have f: "set (il_plain ?f) = {t. \<exists>l \<in> set ?ls. plain_line l = Some t}" "wf_dict (il_keyed ?f)"
    "\<And>k. dict_get (il_keyed ?f) k = (case find (\<lambda>l. map_option fst (keyed_line l) = Some k) (rev ?ls) of
       None \<Rightarrow> None | Some l \<Rightarrow> map_option snd (keyed_line l))"
    using fold_add_line [of ?none ?ls] by (simp_all split: option.split)
  have "dict_get (il_keyed ?f) k = Some x \<longleftrightarrow>
      (\<exists>l. find (\<lambda>l. map_option fst (keyed_line l) = Some k) (rev ?ls) = Some l \<and> map_option snd (keyed_line l) = Some x)" for k
    by (simp add: f(3) split: option.split)
  then have v: "x \<in> set (dict_values (il_keyed ?f)) \<longleftrightarrow>
      (\<exists>k before l after. ?ls = before @ [l] @ after \<and> keyed_line l = Some (k, x)
         \<and> list_all (\<lambda>l'. map_option fst (keyed_line l') \<noteq> Some k) after)"
    unfolding values_lookup [OF f(2)] find_rev_Some by fastforce
  have "x \<in> set (merged_lines docs) \<longleftrightarrow> (\<exists>l \<in> set ?ls. plain_line l = Some x) \<or> x \<in> set (dict_values (il_keyed ?f))"
    unfolding merged_lines_def Let_def set_append f(1) by blast
  then show ?thesis unfolding v by blast
qed

definition demo_rules :: "string list \<Rightarrow> instruction_document list" where
  "demo_rules ls = [\<lparr>id_source = ''/ws/AGENTS.md'', id_rules = map (\<lambda>l. new_rule ''/ws/AGENTS.md'' l None) ls\<rparr>]"

theorem last_instruction_wins_witness:
  "merged_lines (demo_rules [''See http://a'', ''Be brief'', ''See http://b'']) = [''Be brief'', ''See http: //b'']
   \<and> (\<exists>before l after k. rule_lines (demo_rules [''See http://a'', ''Be brief'', ''See http://b'']) = before @ [l] @ after
       \<and> keyed_line l = Some (k, ''See http: //b'') \<and> list_all (\<lambda>l'. map_option fst (keyed_line l') \<noteq> Some k) after)"
proof -
  have m: "merged_lines (demo_rules [''See http://a'', ''Be brief'', ''See http://b'']) = [''Be brief'', ''See http: //b'']"
    by code_simp
  have "\<not> (\<exists>l \<in> set (rule_lines (demo_rules [''See http://a'', ''Be brief'', ''See http://b''])). plain_line l = Some ''See http: //b'')"
    by code_simp
  with last_instruction_wins [of "''See http: //b''" "demo_rules [''See http://a'', ''Be brief'', ''See http://b'']"] m
  show ?thesis by auto
qed

subsection \<open>Includes reach outside the workspace\<close>

definition agents_file :: "path \<Rightarrow> path" where
  "agents_file root = root @ [''AGENTS.md'']"

definition include_text :: "path \<Rightarrow> string" where
  "include_text sec = ''!include '' @ path_str sec"

definition include_arguments :: "path \<Rightarrow> json_object" where
  "include_arguments sec = [(''path'', JStr ''AGENTS.md''), (''content'', JStr (include_text sec))]"

text \<open>The workspace is there, and \<open>AGENTS.md\<close> in it is neither a directory nor a link.\<close>

definition ready_workspace :: "path \<Rightarrow> file_system \<Rightarrow> bool" where
  "ready_workspace root w \<longleftrightarrow> list_all (\<lambda>q. q \<in> set (fw_dirs w) \<and> \<not> is_file q w) (prefixes root)
     \<and> agents_file root \<notin> set (fw_dirs w) \<and> fw_link w (agents_file root) = None"

lemma resolve_agents: "ready_workspace root w \<Longrightarrow> resolve_from (fw_link w) root ''AGENTS.md'' = agents_file root"
proof -
  assume "ready_workspace root w"
  moreover have "path_parts ''AGENTS.md'' = [''AGENTS.md'']" "\<not> py_startswith ''AGENTS.md'' ''/''" by code_simp+
  ultimately show ?thesis by (simp add: resolve_from_def path_step_def ready_workspace_def agents_file_def)
qed

lemma write_agents:
  assumes "ready_workspace root w" "effective_root ctx w = Inr root"
  shows "\<exists>r. write_call (include_arguments sec) ctx w
    = (Inr r, w\<lparr>fw_files := dict_set (agents_file root) (include_text sec) (fw_files w)\<rparr>)"
proof -
  have r: "resolve_path root ''AGENTS.md'' w = Inr (agents_file root)"
    by (simp add: resolve_path_def resolve_agents [OF assms(1)] Let_def) (simp add: agents_file_def)
  have "make_dirs root w = (Inr (), w)"
    using assms(1) by (auto simp: make_dirs_def ready_workspace_def list_all_iff list_ex_iff)
  then have m: "make_dirs (butlast (agents_file root)) w = (Inr (), w)" by (simp add: agents_file_def)
  have a: "field_str (include_arguments sec) ''path'' = Inr ''AGENTS.md''"
      "dict_get_default (include_arguments sec) ''content'' (JStr []) = JStr (include_text sec)"
    by (simp_all add: include_arguments_def field_str_def field_req_def dict_get_default_def)
  have wr: "write_text (agents_file root) (include_text sec) w
      = (Inr (), w\<lparr>fw_files := dict_set (agents_file root) (include_text sec) (fw_files w)\<rparr>)"
    using assms(1) by (simp add: write_text_def ready_workspace_def)
  show ?thesis
    by (simp add: write_call_def bind_reads bind_lift_case bind_gets assms(2) a r Let_def bind_Inr [where m = "make_dirs (butlast (agents_file root))", OF m] bind_Inr [where m = "write_text (agents_file root) (include_text sec)", OF wr] ret_def)
qed

text \<open>A line that is told as it is: no colon, no condition, no blanks around it.\<close>

definition telling_line :: "string \<Rightarrow> bool" where
  "telling_line t \<longleftrightarrow> t \<noteq> [] \<and> py_strip t = t \<and> py_splitlines t = [t] \<and> CHR '':'' \<notin> set t \<and> condition_line t = None"

lemma tell_line:
  assumes "telling_line t"
  shows "parse_rules source state t = [new_rule source t None]"
    and "rule_lines [\<lparr>id_source = source, id_rules = [new_rule source t None]\<rparr>] = [t]"
    and "merged_lines [\<lparr>id_source = source, id_rules = [new_rule source t None]\<rparr>] = [t]"
  using assms
  by (simp_all add: telling_line_def parse_rules_def flush_rule_def condition_holds_def Let_def rule_lines_def new_rule_def
      merged_lines_def add_line_def)

lemma filter_only:
  "distinct xs \<Longrightarrow> a \<in> set xs \<Longrightarrow> \<forall>x \<in> set xs. P x \<longleftrightarrow> x = a \<Longrightarrow> filter P xs = [a]"
proof (induction xs)
  case (Cons x xs)
  show ?case
  proof (cases "x = a")
    case True
    with Cons.prems have "filter P xs = []" by (auto simp: filter_empty_conv)
    with True Cons.prems show ?thesis by simp
  next
    case False
    with Cons show ?thesis by simp
  qed
qed simp

text \<open>The included file is the whole of the instructions.\<close>

lemma load_included:
  assumes "ready_workspace root w" "telling_line t"
    and "dict_get (fw_files w) sec = Some t" "sec \<noteq> agents_file root"
    and "resolve_from (fw_link w) root (path_str sec) = sec"
    and "include_target (include_text sec) = Some (path_str sec)" "py_splitlines (include_text sec) = [include_text sec]"
    and "resolve_from (fw_link w) (fw_cwd w) workspace = root"
    and "list_all (\<lambda>p. p = agents_file root \<or> \<not> path_exists p w) (candidate_paths w home workspace role_path state)"
  defines "w' \<equiv> w\<lparr>fw_files := dict_set (agents_file root) (include_text sec) (fw_files w)\<rparr>"
  shows "load_instructions w' home workspace role_path state =
    Inr [\<lparr>id_source = path_str (agents_file root), id_rules = [new_rule (path_str (agents_file root)) t None]\<rparr>]"
proof -
  have link: "fw_link w' = fw_link w" and same: "fw_cwd w' = fw_cwd w" "fw_dirs w' = fw_dirs w"
    by (simp_all add: w'_def fw_link_def)
  have cands: "candidate_paths w' home workspace role_path state = candidate_paths w home workspace role_path state"
    unfolding candidate_paths_def target_directories_def link same ..
  let ?cands = "candidate_paths w home workspace role_path state"
  have files: "path_exists p w' \<longleftrightarrow> p = agents_file root \<or> path_exists p w" for p
    by (auto simp: path_exists_def is_file_def w'_def)
  have sec: "path_exists sec w" using assms(3) by (simp add: path_exists_def is_file_def)
  have read: "read_text sec w' = Inr t" using assms(3,4) by (simp add: read_text_def w'_def)
  have mem: "agents_file root \<in> set ?cands"
    using resolve_agents [OF assms(1)] by (simp add: candidate_paths_def Let_def assms(8))
  have dist: "distinct ?cands" by (simp add: candidate_paths_def Let_def)
  have "filter (\<lambda>p. path_exists p w') ?cands = [agents_file root]"
    using mem dist assms(9) by (intro filter_only) (auto simp: files list_all_iff)
  moreover have "expand_includes w' (include_text sec) root = Inr t"
    by (simp add: expand_includes_def assms(5-7) expand_line_def link files read sec)
  moreover have "read_text (agents_file root) w' = Inr (include_text sec)" by (simp add: read_text_def w'_def)
  moreover have "butlast (agents_file root) = root" by (simp add: agents_file_def)
  ultimately show ?thesis
    by (simp add: load_instructions_def cands load_document_def tell_line(1) [OF assms(2)])
qed

text \<open>A text without blanks at its ends stays at the end when what comes before is stripped.\<close>

lemma strip_fixed:
  assumes "py_strip t = t" "t \<noteq> []"
  shows "\<not> is_space (hd t)" "\<not> is_space (last t)"
proof -
  have len: "length (py_strip t) \<le> length (dropWhile is_space t)"
    by (simp add: py_strip_def) (metis length_dropWhile_le length_rev)
  have "length (dropWhile is_space t) < length t" if "is_space (hd t)"
    using that assms(2) by (cases t) (simp_all add: le_imp_less_Suc length_dropWhile_le)
  with len assms(1) show "\<not> is_space (hd t)" by auto
  then have "dropWhile is_space t = t" using assms(2) by (cases t) simp_all
  then have r: "rev (dropWhile is_space (rev t)) = t" using assms(1) by (simp add: py_strip_def)
  show "\<not> is_space (last t)"
  proof
    assume "is_space (last t)"
    then have "length (dropWhile is_space (rev t)) < length (rev t)"
      using assms(2) by (cases t rule: rev_cases) (simp_all, metis le_imp_less_Suc length_dropWhile_le length_rev)
    then show False using r by (metis length_rev less_irrefl)
  qed
qed

lemma strip_end:
  assumes "py_strip t = t" "t \<noteq> []"
  shows "\<exists>a. py_strip (u @ t) = a @ t"
proof -
  note s = strip_fixed [OF assms]
  have "\<exists>a. dropWhile is_space (u @ t) = a @ t"
    using s(1) assms(2) by (induction u) (auto simp: dropWhile_append, cases t, auto)
  then obtain a where "dropWhile is_space (u @ t) = a @ t" ..
  moreover have "dropWhile is_space (rev t @ rev a) = rev t @ rev a"
    using s(2) assms(2) by (cases t rule: rev_cases) simp_all
  ultimately show ?thesis by (simp add: py_strip_def)
qed

lemma join_end: "\<exists>u. py_join sep (xs @ [t]) = u @ t"
proof (induction xs)
  case Nil
  then show ?case by (simp add: exI [of _ "[]"])
next
  case (Cons x xs)
  then obtain u where "py_join sep (xs @ [t]) = u @ t" ..
  then show ?case by (cases xs) (auto intro: exI [of _ "x @ sep"] exI [of _ "x @ sep @ u"])
qed

text \<open>
  C33. Instructions reach outside the workspace.  The model writes one file, \<open>AGENTS.md\<close> in the workspace,
  which the file tools allow, and names in it a file elsewhere.  The next request then carries that file's
  text to the model in its system prompt, although no file tool can read it.
\<close>

theorem include_leaks_outside_file:
  assumes "ready_workspace root w" "effective_root ctx w = Inr root" "telling_line t"
    and "dict_get (fw_files w) sec = Some t" "\<not> prefix root sec" "resolve_from (fw_link w) root (path_str sec) = sec"
    and "include_target (include_text sec) = Some (path_str sec)" "py_splitlines (include_text sec) = [include_text sec]"
    and "workspace_root_from_metadata w (sr_metadata r) = workspace" "resolve_from (fw_link w) (fw_cwd w) workspace = root"
    and "list_all (\<lambda>p. p = agents_file root \<or> \<not> path_exists p w)
      (candidate_paths w (ce_home env) workspace (ce_role_path env) (Some (model_runtime_state env r)))"
  shows "\<exists>res w' q a b. write_call (include_arguments sec) ctx w = (Inr res, w')
    \<and> build_model_input env w' providers r = Inr q \<and> mq_system_prompt q = Some (a @ t @ b)"
proof -
  define w' where "w' = w\<lparr>fw_files := dict_set (agents_file root) (include_text sec) (fw_files w)\<rparr>"
  obtain res where wr: "write_call (include_arguments sec) ctx w = (Inr res, w')"
    using write_agents [OF assms(1,2), of sec] by (auto simp: w'_def)
  have link: "fw_link w' = fw_link w" and same: "fw_cwd w' = fw_cwd w"
    by (simp_all add: w'_def fw_link_def)
  have "sec \<noteq> agents_file root" using assms(5) by (auto simp: agents_file_def)
  note docs = load_included [OF assms(1,3,4) this assms(6-8,10,11), folded w'_def]
  have ws: "workspace_root_from_metadata w' (sr_metadata r) = workspace"
    using assms(9) unfolding workspace_root_from_metadata_def link same .
  let ?docs = "[\<lparr>id_source = path_str (agents_file root), id_rules = [new_rule (path_str (agents_file root)) t None]\<rparr>]"
  have t: "t \<noteq> []" "py_strip t = t" using assms(3) by (simp_all add: telling_line_def)
  have sys: "filter (\<lambda>x. x \<noteq> []) (map payload_content (instruction_system_context ?docs)) = [t]"
    using t(1) by (simp add: instruction_system_context_def tell_line(3) [OF assms(3)] payload_content_def jget_def)
  have prompt: "\<exists>a. as_system_prompt (assemble i) = Some (a @ t)" if "ai_system_context i = instruction_system_context ?docs" for i
  proof -
    obtain u a where "py_join [newline, newline] ((section_texts False (ai_sections i) @ section_texts True (ai_sections i)
        @ map startup_context_fragment (ai_startup i)) @ [t]) = u @ t" "py_strip (u @ t) = a @ t"
      using join_end strip_end [OF t(2,1)] by meson
    then show ?thesis using t(1) by (simp add: assemble_def that sys Let_def some_text_def)
  qed
  have hint: "\<exists>a b. provider_adjusted_system_prompt h (Some (a0 @ t)) r = Some (a @ t @ b)" for h a0
  proof -
    have "\<not> list_all is_space (a0 @ t)" using strip_fixed(1) [OF t(2,1)] t(1) by (cases t) auto
    then have "py_strip (a0 @ t) \<noteq> []" using strip_end [OF t(2,1), of a0] t(1) by auto
    then show ?thesis
      by (auto simp: provider_adjusted_system_prompt_def intro: exI [of _ a0] exI [of _ "[]"])
  qed
  obtain c f where flags: "compaction_flags (ce_harness env) r = (c, f)" by fastforce
  have "\<exists>q i. build_model_input env w' providers r = Inr q \<and> ai_system_context i = instruction_system_context ?docs
      \<and> mq_system_prompt q = provider_adjusted_system_prompt (ce_hint env) (as_system_prompt (assemble i)) r"
    by (simp add: build_model_input_def Let_def ws docs flags) (rule exI, rule conjI [rotated], rule refl, simp)
  then obtain q i where q: "build_model_input env w' providers r = Inr q" "ai_system_context i = instruction_system_context ?docs"
      "mq_system_prompt q = provider_adjusted_system_prompt (ce_hint env) (as_system_prompt (assemble i)) r" by blast
  from prompt [OF q(2)] obtain a0 where "as_system_prompt (assemble i) = Some (a0 @ t)" ..
  with q(3) hint [of "ce_hint env" a0] have "\<exists>a b. mq_system_prompt q = Some (a @ t @ b)" by simp
  with wr q(1) show ?thesis by blast
qed

definition demo_context_env :: "nat context_env" where
  "demo_context_env = \<lparr>ce_harness = demo_harness ''read'', ce_describe = tool_name, ce_fixed_text = (\<lambda>n. n), ce_home = [''home''],
     ce_role_path = None, ce_recommended = [], ce_short_term = (\<lambda>_. None), ce_recall = None,
     ce_hint = Some ''openai_tool_json_string'', ce_providers = []\<rparr>"

definition demo_dir_session :: session_record where
  "demo_dir_session = (new_session ''s1'')\<lparr>sr_metadata := [(''workdir'', JStr ''/ws'')]\<rparr>"

theorem include_leaks_outside_file_witness:
  "\<exists>res w' q a b. write_call (include_arguments [''etc'', ''passwd'']) demo_dir_context demo_workspace = (Inr res, w')
    \<and> build_model_input demo_context_env w' [] demo_dir_session = Inr q \<and> mq_system_prompt q = Some (a @ ''secret'' @ b)"
proof (rule include_leaks_outside_file [OF _ demo_dir_root])
  show "ready_workspace [''ws''] demo_workspace" by code_simp
  show "telling_line ''secret''" by code_simp
  show "dict_get (fw_files demo_workspace) [''etc'', ''passwd''] = Some ''secret''" by code_simp
  show "\<not> prefix [''ws''] [''etc'', ''passwd'']" by simp
  show "resolve_from (fw_link demo_workspace) [''ws''] (path_str [''etc'', ''passwd'']) = [''etc'', ''passwd'']" by code_simp
  show "include_target (include_text [''etc'', ''passwd'']) = Some (path_str [''etc'', ''passwd''])" by code_simp
  show "py_splitlines (include_text [''etc'', ''passwd'']) = [include_text [''etc'', ''passwd'']]" by code_simp
  show "workspace_root_from_metadata demo_workspace (sr_metadata demo_dir_session) = ''/ws''" by code_simp
  show "resolve_from (fw_link demo_workspace) (fw_cwd demo_workspace) ''/ws'' = [''ws'']" by code_simp
  show "list_all (\<lambda>p. p = agents_file [''ws''] \<or> \<not> path_exists p demo_workspace)
      (candidate_paths demo_workspace (ce_home demo_context_env) ''/ws'' (ce_role_path demo_context_env)
        (Some (model_runtime_state demo_context_env demo_dir_session)))"
    by (simp add: demo_context_env_def model_runtime_state_def demo_dir_session_def demo_harness_def) code_simp
qed

end
