(* ===== verification/FeishuCards.thy ===== *)
theory FeishuCards
  imports TaskStore PyText FileTools Policy
begin

text \<open>
  The reply cards of the Feishu channel, \<^verbatim>\<open>gateway/channels/feishu/cards.py\<close>: the record of a
  card, how an event of the turn changes it, how it is rendered, and the ledger file that keeps the
  records over a restart.

  A time is an integer number of ticks.  The record \<open>clock_format\<close> says how a time is written as the
  text of a float, how a text is read as a float, and how many ticks a second has; the readings of
  the clock that one operation on a card makes in a row are one reading.
\<close>

record clock_format =
  cf_show :: "int \<Rightarrow> string"
  cf_read :: "string \<Rightarrow> int option"
  cf_second :: int

subsection \<open>Text\<close>

text \<open>\<open>re.sub\<close> of the runs of at least \<open>k\<close> newlines by \<open>m\<close> newlines.\<close>

function squeeze :: "nat \<Rightarrow> nat \<Rightarrow> string \<Rightarrow> string" where
  "squeeze k m [] = []"
| "squeeze k m (c # s) =
     (if c \<noteq> newline then c # squeeze k m s
      else let run = takeWhile (\<lambda>x. x = newline) (c # s) in
        (if k \<le> length run then replicate m newline else run) @ squeeze k m (dropWhile (\<lambda>x. x = newline) s))"
  by pat_completeness auto
termination
  by (relation "measure (\<lambda>(_, _, s). length s)") (auto simp: le_imp_less_Suc length_dropWhile_le)

definition crlf :: string where
  "crlf = [carriage_return, newline]"

definition unescaped_newlines :: "string \<Rightarrow> string" where
  "unescaped_newlines s =
     replace_all [backslash, CHR ''n''] [newline]
       (replace_all [backslash, CHR ''r'', backslash, CHR ''n''] [newline] s)"

definition normalize_markdown :: "string \<Rightarrow> string" where
  "normalize_markdown s =
     squeeze 3 2 (py_strip (replace_all [carriage_return] [newline] (replace_all crlf [newline] (unescaped_newlines s))))"

definition inline_markdown :: "string \<Rightarrow> string" where
  "inline_markdown s = squeeze 2 1 (normalize_markdown s)"

text \<open>
  The two patterns of \<open>_markdown_line_kind\<close> for a list, as they are written: in a raw string the
  doubled backslash asks for a backslash in the text.
\<close>

definition bullet_line :: "string \<Rightarrow> bool" where
  "bullet_line s = (case s of
     a # b # c # _ \<Rightarrow> a \<in> set ''-*+'' \<and> b = backslash \<and> c = CHR ''s''
   | _ \<Rightarrow> False)"

definition numbered_line :: "string \<Rightarrow> bool" where
  "numbered_line s = (case s of
     [] \<Rightarrow> False
   | a # r \<Rightarrow> a = backslash \<and> takeWhile (\<lambda>x. x = CHR ''d'') r \<noteq> [] \<and>
       (case dropWhile (\<lambda>x. x = CHR ''d'') r of
          b # x # c # d # _ \<Rightarrow> b = backslash \<and> x \<noteq> newline \<and> c = backslash \<and> d = CHR ''s''
        | _ \<Rightarrow> False))"

datatype line_kind = Fence | Heading | Table | ListLine | Paragraph

definition markdown_line_kind :: "string \<Rightarrow> line_kind" where
  "markdown_line_kind s =
     (if py_startswith s ''#'' then Heading
      else if py_startswith s ''|'' then Table
      else if bullet_line s \<or> numbered_line s then ListLine
      else Paragraph)"

record block_state =
  bs_blocks :: "string list"
  bs_lines :: "string list"
  bs_fence :: bool
  bs_kind :: "line_kind option"

definition flush_block :: "block_state \<Rightarrow> block_state" where
  "flush_block b =
     (if bs_lines b = [] then b
      else b\<lparr>bs_blocks := bs_blocks b @ [py_strip (py_join [newline] (bs_lines b))], bs_lines := [], bs_kind := None\<rparr>)"

definition add_block_line :: "string \<Rightarrow> line_kind \<Rightarrow> block_state \<Rightarrow> block_state" where
  "add_block_line line kind b = b\<lparr>bs_lines := bs_lines b @ [line], bs_kind := Some kind\<rparr>"

definition opens_block :: "line_kind option \<Rightarrow> line_kind \<Rightarrow> bool" where
  "opens_block current kind =
     (if kind = Heading \<or> kind = Table then current \<noteq> None \<and> current \<noteq> Some kind
      else (current = Some Heading \<or> current = Some Table) \<and> current \<noteq> Some kind)"

definition block_step :: "string \<Rightarrow> block_state \<Rightarrow> block_state" where
  "block_step raw b =
     (let line = py_rstrip raw; stripped = py_strip line in
      if py_startswith stripped ''```'' then
        let b1 = (if bs_kind b \<noteq> None \<and> bs_kind b \<noteq> Some Fence then flush_block b else b);
            b2 = (add_block_line line Fence b1)\<lparr>bs_fence := \<not> bs_fence b1\<rparr>
        in if bs_fence b2 then b2 else flush_block b2
      else if bs_fence b then b\<lparr>bs_lines := bs_lines b @ [line]\<rparr>
      else if stripped = [] then flush_block b
      else let kind = markdown_line_kind stripped in
        add_block_line line kind (if opens_block (bs_kind b) kind then flush_block b else b))"

definition split_markdown_blocks :: "string \<Rightarrow> string list" where
  "split_markdown_blocks s = (let t = normalize_markdown s in
     if t = [] then []
     else filter (\<lambda>x. x \<noteq> []) (bs_blocks (flush_block (fold block_step (split_on newline t)
       \<lparr>bs_blocks = [], bs_lines = [], bs_fence = False, bs_kind = None\<rparr>))))"

subsection \<open>The record of a card\<close>

record card_record =
  cr_request :: string
  cr_session :: string
  cr_conversation :: string
  cr_chat :: string
  cr_prompt :: string
  cr_thread :: "string option"
  cr_reply :: "string option"
  cr_card :: "string option"
  cr_cardkit :: "bool option"
  cr_uuid :: "string option"
  cr_sequence :: int
  cr_streaming :: bool
  cr_status :: string
  cr_answer :: "string option"
  cr_status_text :: "string option"
  cr_approval :: "string option"
  cr_latest :: json_object
  cr_pending :: bool
  cr_retries :: int
  cr_retry_at :: int
  cr_error :: "string option"
  cr_dirty :: bool
  cr_flushed :: int
  cr_updated :: int

definition float_json :: "clock_format \<Rightarrow> int \<Rightarrow> json" where
  "float_json cf t = JFloat (cf_show cf t)"

definition card_to_dict :: "clock_format \<Rightarrow> card_record \<Rightarrow> json_object" where
  "card_to_dict cf r =
     [(''request_message_id'', JStr (cr_request r)), (''session_id'', JStr (cr_session r)),
      (''conversation_id'', JStr (cr_conversation r)), (''chat_id'', JStr (cr_chat r)), (''prompt_text'', JStr (cr_prompt r)),
      (''thread_id'', jopt_str (cr_thread r)), (''reply_message_id'', jopt_str (cr_reply r)), (''card_id'', jopt_str (cr_card r)),
      (''cardkit_supported'', jopt_bool (cr_cardkit r)), (''stream_uuid'', jopt_str (cr_uuid r)),
      (''next_sequence'', JInt (cr_sequence r)), (''streaming_active'', JBool (cr_streaming r)), (''status'', JStr (cr_status r)),
      (''assistant_message'', jopt_str (cr_answer r)), (''status_message'', jopt_str (cr_status_text r)),
      (''approval_tool_name'', jopt_str (cr_approval r)), (''latest_card'', JDict (cr_latest r)),
      (''delivery_pending'', JBool (cr_pending r)), (''retry_count'', JInt (cr_retries r)),
      (''next_retry_at'', float_json cf (cr_retry_at r)), (''last_error'', jopt_str (cr_error r)), (''dirty'', JBool (cr_dirty r)),
      (''last_flush_at'', float_json cf (cr_flushed r)), (''updated_at'', float_json cf (cr_updated r))]"

definition int_value :: "(string \<Rightarrow> py_error + int) \<Rightarrow> json \<Rightarrow> int \<Rightarrow> py_error + int" where
  "int_value trunc v fallback = (case v of
     JBool b \<Rightarrow> Inr (if b then 1 else 0)
   | JInt i \<Rightarrow> Inr i
   | JFloat r \<Rightarrow> trunc r
   | JStr s \<Rightarrow> Inr (case py_int s of Inl _ \<Rightarrow> fallback | Inr i \<Rightarrow> i)
   | _ \<Rightarrow> Inr fallback)"

definition float_value :: "clock_format \<Rightarrow> json \<Rightarrow> int \<Rightarrow> int" where
  "float_value cf v fallback = (case v of
     JBool b \<Rightarrow> (if b then cf_second cf else 0)
   | JInt i \<Rightarrow> i * cf_second cf
   | JFloat r \<Rightarrow> (case cf_read cf r of None \<Rightarrow> fallback | Some t \<Rightarrow> t)
   | JStr s \<Rightarrow> (case cf_read cf s of None \<Rightarrow> fallback | Some t \<Rightarrow> t)
   | _ \<Rightarrow> fallback)"

definition card_from_dict :: "clock_format \<Rightarrow> (string \<Rightarrow> py_error + int) \<Rightarrow> int \<Rightarrow> json_object \<Rightarrow> py_error + card_record" where
  "card_from_dict cf trunc now d =
     ebind (field_str d ''request_message_id'') (\<lambda>request.
     ebind (field_str d ''session_id'') (\<lambda>session.
     ebind (field_str d ''conversation_id'') (\<lambda>conversation.
     ebind (field_str d ''chat_id'') (\<lambda>chat.
     ebind (int_value trunc (jget d ''next_sequence'') 1) (\<lambda>sequence.
     ebind (int_value trunc (jget d ''retry_count'') 0) (\<lambda>retries.
     Inr \<lparr>cr_request = request, cr_session = session, cr_conversation = conversation, cr_chat = chat,
       cr_prompt = py_str (dict_get_default d ''prompt_text'' (JStr [])),
       cr_thread = field_opt_str d ''thread_id'', cr_reply = field_opt_str d ''reply_message_id'',
       cr_card = field_opt_str d ''card_id'', cr_cardkit = field_opt_bool d ''cardkit_supported'',
       cr_uuid = field_opt_str d ''stream_uuid'', cr_sequence = sequence,
       cr_streaming = truthy (dict_get_default d ''streaming_active'' (JBool False)),
       cr_status = py_str (dict_get_default d ''status'' (JStr ''running'')),
       cr_answer = field_opt_str d ''assistant_message'', cr_status_text = field_opt_str d ''status_message'',
       cr_approval = field_opt_str d ''approval_tool_name'', cr_latest = field_dict d ''latest_card'',
       cr_pending = truthy (dict_get_default d ''delivery_pending'' (JBool False)), cr_retries = retries,
       cr_retry_at = float_value cf (jget d ''next_retry_at'') 0, cr_error = field_opt_str d ''last_error'',
       cr_dirty = truthy (dict_get_default d ''dirty'' (JBool True)),
       cr_flushed = float_value cf (jget d ''last_flush_at'') 0, cr_updated = float_value cf (jget d ''updated_at'') now\<rparr>))))))"

definition stable_statuses :: "string list" where
  "stable_statuses = [''requires_action'', ''completed'', ''failed'', ''interrupted'']"

definition is_stable :: "card_record \<Rightarrow> bool" where
  "is_stable r \<longleftrightarrow> cr_status r \<in> set stable_statuses"

definition mark_delivery_failure :: "int \<Rightarrow> int \<Rightarrow> string \<Rightarrow> card_record \<Rightarrow> card_record" where
  "mark_delivery_failure now delay err r =
     r\<lparr>cr_pending := True, cr_retries := cr_retries r + 1, cr_error := Some err, cr_retry_at := now + delay, cr_updated := now\<rparr>"

definition mark_delivery_success :: "int \<Rightarrow> string option \<Rightarrow> string option \<Rightarrow> card_record \<Rightarrow> card_record" where
  "mark_delivery_success now reply card_id r =
     r\<lparr>cr_reply := (if reply = None then cr_reply r else reply), cr_card := (if card_id = None then cr_card r else card_id),
       cr_pending := False, cr_error := None, cr_retry_at := 0, cr_updated := now\<rparr>"

subsection \<open>Rendering\<close>

definition status_label :: "string \<Rightarrow> string" where
  "status_label s = dict_get_default
     [(''running'', ''Running''), (''requires_action'', ''Needs Approval''), (''completed'', ''Completed''),
      (''failed'', ''Failed''), (''interrupted'', ''Interrupted'')] s ''Running''"

definition header_template :: "string \<Rightarrow> string" where
  "header_template s = dict_get_default
     [(''running'', ''blue''), (''requires_action'', ''orange''), (''completed'', ''green''),
      (''failed'', ''red''), (''interrupted'', ''grey'')] s ''blue''"

definition card_button :: "string \<Rightarrow> json_object \<Rightarrow> string \<Rightarrow> json" where
  "card_button label v kind = JDict
     [(''tag'', JStr ''button''), (''type'', JStr kind),
      (''text'', JDict [(''tag'', JStr ''plain_text''), (''content'', JStr label)]), (''value'', JDict v)]"

definition decision_value :: "bool \<Rightarrow> json_object" where
  "decision_value approved = [(''subtype'', JStr ''permission_response''), (''approved'', JBool approved)]"

definition card_actions :: "card_record \<Rightarrow> json list" where
  "card_actions r =
     (if cr_status r = ''requires_action'' then
        [card_button ''Approve'' (decision_value True) ''primary'', card_button ''Reject'' (decision_value False) ''danger'']
      else [])"

definition markdown_element :: "string \<Rightarrow> json" where
  "markdown_element s = JDict [(''tag'', JStr ''markdown''), (''content'', JStr s)]"

definition markdown_section :: "string \<Rightarrow> string list \<Rightarrow> json list" where
  "markdown_section title blocks = markdown_element (''**'' @ title @ ''**'') # map markdown_element blocks"

definition card_elements :: "card_record \<Rightarrow> json list" where
  "card_elements r =
     markdown_section ''Request'' [str_or (inline_markdown (cr_prompt r)) ''_Empty_''] @
     markdown_section ''Status'' [inline_markdown (opt_or (cr_status_text r) (status_label (cr_status r)))] @
     (case cr_answer r of None \<Rightarrow> [] | Some a \<Rightarrow> if a = [] then [] else markdown_section ''Reply'' (split_markdown_blocks a)) @
     (if card_actions r = [] then [] else [JDict [(''tag'', JStr ''action''), (''actions'', JList (card_actions r))]])"

definition card_title :: "string \<Rightarrow> string" where
  "card_title label = ''OpenAgent '' @ [char_of (183 :: nat)] @ '' '' @ label"

definition render_reply_card :: "card_record \<Rightarrow> json_object" where
  "render_reply_card r =
     [(''schema'', JStr ''2.0''), (''config'', JDict [(''wide_screen_mode'', JBool True)]),
      (''header'', JDict [(''template'', JStr (header_template (cr_status r))),
        (''title'', JDict [(''tag'', JStr ''plain_text''), (''content'', JStr (card_title (status_label (cr_status r))))])]),
      (''body'', JDict [(''direction'', JStr ''vertical''), (''elements'', JList (card_elements r))])]"

definition redrawn :: "int \<Rightarrow> card_record \<Rightarrow> card_record" where
  "redrawn now r = r\<lparr>cr_latest := render_reply_card r, cr_dirty := True, cr_updated := now\<rparr>"

definition processing_text :: string where
  "processing_text = ''Processing your request...''"

definition initial_card :: "string \<Rightarrow> string \<Rightarrow> string \<Rightarrow> string \<Rightarrow> string option \<Rightarrow> string \<Rightarrow> string \<Rightarrow> int \<Rightarrow> card_record" where
  "initial_card request session conversation chat thread prompt hex now = redrawn now
     \<lparr>cr_request = request, cr_session = session, cr_conversation = conversation, cr_chat = chat, cr_prompt = prompt,
      cr_thread = thread, cr_reply = None, cr_card = None, cr_cardkit = None, cr_uuid = Some (request @ '':'' @ hex),
      cr_sequence = 1, cr_streaming = False, cr_status = ''running'', cr_answer = None, cr_status_text = Some processing_text,
      cr_approval = None, cr_latest = [], cr_pending = False, cr_retries = 0, cr_retry_at = 0, cr_error = None,
      cr_dirty = True, cr_flushed = 0, cr_updated = now\<rparr>"

subsection \<open>Events of the turn\<close>

definition event_tool :: "json_object \<Rightarrow> string" where
  "event_tool p = py_str (dict_get_default p ''tool_name'' (JStr ''tool''))"

text \<open>\<open>p.get(k1) or p.get(k2) or ... or "unknown error"\<close>.\<close>

definition first_reason :: "json_object \<Rightarrow> string list \<Rightarrow> json" where
  "first_reason p ks = (case filter truthy (map (jget p) ks) of [] \<Rightarrow> JStr ''unknown error'' | v # _ \<Rightarrow> v)"

definition card_event :: "string \<Rightarrow> json_object \<Rightarrow> card_record \<Rightarrow> card_record" where
  "card_event ty p r =
     (let tool = event_tool p in
      if ty = ''assistant_delta'' then
        (let delta = py_str (dict_get_default p ''delta'' (JStr [])) in
         if delta = [] then r else r\<lparr>cr_answer := Some (opt_or (cr_answer r) [] @ delta), cr_status := ''running''\<rparr>)
      else if ty = ''assistant_message'' then
        (let message = py_strip (py_str (dict_get_default p ''message'' (JStr []))) in
         if message = [] then r else r\<lparr>cr_answer := Some message\<rparr>)
      else if ty = ''requires_action'' then
        r\<lparr>cr_status := ''requires_action'', cr_approval := Some tool, cr_status_text := Some (''Approval required for '' @ tool @ ''.'')\<rparr>
      else if ty = ''tool_started'' then r\<lparr>cr_status := ''running'', cr_status_text := Some (''Running tool: '' @ tool)\<rparr>
      else if ty = ''tool_progress'' then
        r\<lparr>cr_status := ''running'', cr_status_text := Some (''Tool '' @ tool @ '' is working...'')\<rparr>
      else if ty = ''tool_result'' then r\<lparr>cr_status_text := Some (''Tool '' @ tool @ '' completed.'')\<rparr>
      else if ty = ''tool_failed'' then
        r\<lparr>cr_status_text := Some (''Tool '' @ tool @ '' failed: '' @ py_str (first_reason p [''reason'', ''error'', ''message'']))\<rparr>
      else if ty = ''tool_cancelled'' then
        r\<lparr>cr_status := ''interrupted'', cr_status_text := Some (''Tool '' @ tool @ '' was cancelled.'')\<rparr>
      else if ty = ''turn_failed'' then
        r\<lparr>cr_status := ''failed'', cr_approval := None,
          cr_status_text := Some (''Turn failed: '' @ py_str (first_reason p [''summary'', ''reason'']))\<rparr>
      else if ty = ''turn_completed'' then
        r\<lparr>cr_status := (if cr_status r \<in> set [''requires_action'', ''failed'', ''interrupted''] then cr_status r else ''completed''),
          cr_status_text := (if cr_status_text r = None \<or> cr_status_text r = Some processing_text then Some ''Completed.''
            else cr_status_text r)\<rparr>
      else r)"

definition apply_runtime_event :: "int \<Rightarrow> string \<Rightarrow> json_object \<Rightarrow> card_record \<Rightarrow> card_record" where
  "apply_runtime_event now ty p r = redrawn now (card_event ty p r)"

definition mark_card_action_running :: "int \<Rightarrow> card_record \<Rightarrow> card_record" where
  "mark_card_action_running now r = redrawn now
     (r\<lparr>cr_status := ''running'', cr_approval := None, cr_status_text := Some ''Applying your decision...''\<rparr>)"

subsection \<open>The delivery ledger\<close>

text \<open>The value in the file; \<open>None\<close> when there is no file or its text is not JSON.\<close>

type_synonym ledger_file = "json option"

definition readable_cards ::
  "clock_format \<Rightarrow> (string \<Rightarrow> py_error + int) \<Rightarrow> int \<Rightarrow> json_object \<Rightarrow> (string, card_record) pydict" where
  "readable_cards cf trunc now d = List.map_filter (\<lambda>(k, v). case as_dict v of None \<Rightarrow> None
     | Some e \<Rightarrow> (case card_from_dict cf trunc now e of Inl _ \<Rightarrow> None | Inr r \<Rightarrow> Some (k, r))) d"

definition load_ledger ::
  "clock_format \<Rightarrow> (string \<Rightarrow> py_error + int) \<Rightarrow> int \<Rightarrow> ledger_file \<Rightarrow> (string, card_record) pydict" where
  "load_ledger cf trunc now f = (case f of Some (JDict d) \<Rightarrow> readable_cards cf trunc now d | _ \<Rightarrow> [])"

definition save_ledger :: "clock_format \<Rightarrow> (string, card_record) pydict \<Rightarrow> ledger_file" where
  "save_ledger cf st = Some (sorted_json (JDict (map (apsnd (\<lambda>r. JDict (card_to_dict cf r))) st)))"

definition upsert_card ::
  "clock_format \<Rightarrow> (string \<Rightarrow> py_error + int) \<Rightarrow> int \<Rightarrow> card_record \<Rightarrow> ledger_file \<Rightarrow> ledger_file" where
  "upsert_card cf trunc now r f = save_ledger cf (dict_set (cr_request r) r (load_ledger cf trunc now f))"

definition card_by_request ::
  "clock_format \<Rightarrow> (string \<Rightarrow> py_error + int) \<Rightarrow> int \<Rightarrow> string \<Rightarrow> ledger_file \<Rightarrow> card_record option" where
  "card_by_request cf trunc now i f = dict_get (load_ledger cf trunc now f) i"

definition card_by_reply ::
  "clock_format \<Rightarrow> (string \<Rightarrow> py_error + int) \<Rightarrow> int \<Rightarrow> string \<Rightarrow> ledger_file \<Rightarrow> card_record option" where
  "card_by_reply cf trunc now i f = List.find (\<lambda>r. cr_reply r = Some i) (dict_values (load_ledger cf trunc now f))"

definition pending_cards ::
  "clock_format \<Rightarrow> (string \<Rightarrow> py_error + int) \<Rightarrow> int \<Rightarrow> string option \<Rightarrow> ledger_file \<Rightarrow> card_record list" where
  "pending_cards cf trunc now conversation f =
     filter (\<lambda>r. cr_pending r \<and> cr_retry_at r \<le> now \<and> (conversation = None \<or> conversation = Some (cr_conversation r)))
       (dict_values (load_ledger cf trunc now f))"

end
