(* ===== verification/FeishuHost.thy ===== *)
theory FeishuHost
  imports FeishuCards Gateway
begin

text \<open>
  The Feishu channel in front of the gateway: \<^verbatim>\<open>gateway/channels/feishu/adapter.py\<close>, \<^verbatim>\<open>dedupe.py\<close>
  and \<^verbatim>\<open>host.py\<close>.  The Feishu service is the record \<open>feishu_client\<close> of the operations of the
  \<open>FeishuBotClient\<close> protocol over a state \<open>'c\<close>; the handler of management commands acts on the same
  state.  The adapter sends through the client of the host, as the assembly sets it up.

  A card is a mutable object that the host changes while it talks to the service: the operations on it
  are effects on the pair of the host and the card, so that a failure keeps the changes made before it.
  The run lock, the thread of the retry loop and the printing are not modelled: \<open>retry_pending_cards\<close>
  is one round of the loop, and operations do not overlap.
\<close>

subsection \<open>The adapter\<close>

record 'c feishu_client =
  fc_send_text :: "string \<Rightarrow> string \<Rightarrow> string option \<Rightarrow> ('c, unit) eff"
  fc_send_card :: "string \<Rightarrow> json_object \<Rightarrow> string option \<Rightarrow> ('c, string) eff"
  fc_resolve_card :: "string \<Rightarrow> ('c, string) eff"
  fc_enable_stream :: "string \<Rightarrow> string \<Rightarrow> int \<Rightarrow> ('c, unit) eff"
  fc_disable_stream :: "string \<Rightarrow> string \<Rightarrow> int \<Rightarrow> ('c, unit) eff"
  fc_stream_update :: "string \<Rightarrow> json_object \<Rightarrow> string \<Rightarrow> int \<Rightarrow> ('c, unit) eff"
  fc_update_card :: "string \<Rightarrow> json_object \<Rightarrow> ('c, unit) eff"
  fc_add_reaction :: "string \<Rightarrow> string \<Rightarrow> ('c, string option) eff"
  fc_remove_reaction :: "string \<Rightarrow> string \<Rightarrow> ('c, unit) eff"

definition feishu_conversation_id :: "string \<Rightarrow> string option \<Rightarrow> string" where
  "feishu_conversation_id chat thread = (case thread of
     None \<Rightarrow> ''feishu:chat:'' @ chat
   | Some t \<Rightarrow> if t = [] then ''feishu:chat:'' @ chat else ''feishu:chat:'' @ chat @ '':thread:'' @ t)"

definition parse_conversation_id :: "string \<Rightarrow> py_error + string \<times> string option" where
  "parse_conversation_id s = (let parts = split_on (CHR '':'') s in
     if length parts \<ge> 3 \<and> parts ! 0 = ''feishu'' \<and> parts ! 1 = ''chat'' then
       Inr (parts ! 2, if length parts \<ge> 5 \<and> parts ! 3 = ''thread'' then Some (parts ! 4) else None)
     else Inl (ValueError (''Invalid Feishu conversation id: '' @ s)))"

definition message_event_type :: string where
  "message_event_type = ''im.message.receive_v1''"

definition is_message_event :: "json_object \<Rightarrow> bool" where
  "is_message_event raw \<longleftrightarrow>
     py_str (dict_get_default raw ''event_type'' (JStr [])) = message_event_type \<or>
     (case as_dict (jget raw ''header'') of None \<Rightarrow> False
      | Some h \<Rightarrow> py_str (dict_get_default h ''event_type'' (JStr [])) = message_event_type)"

definition text_content :: "(string \<Rightarrow> json option) \<Rightarrow> json \<Rightarrow> string" where
  "text_content loads content = (case content of
     JStr s \<Rightarrow> (case loads s of
         None \<Rightarrow> s
       | Some (JDict d) \<Rightarrow> (case field_opt_str d ''text'' of None \<Rightarrow> [] | Some t \<Rightarrow> t)
       | Some _ \<Rightarrow> [])
   | _ \<Rightarrow> [])"

definition mentions_of :: "json_object \<Rightarrow> json_object list" where
  "mentions_of message = (case jget message ''mentions'' of JList l \<Rightarrow> List.map_filter as_dict l | _ \<Rightarrow> [])"

definition thread_root :: "json_object \<Rightarrow> string option" where
  "thread_root message = (case field_opt_str message ''root_id'' of
     Some t \<Rightarrow> Some t | None \<Rightarrow> field_opt_str message ''parent_id'')"

definition at_tag :: "string \<Rightarrow> string" where
  "at_tag user = ''<at user_id='' @ user @ ''></at>''"

definition strip_mention :: "json_object \<Rightarrow> string \<Rightarrow> string" where
  "strip_mention mention s =
     (let s1 = (case field_opt_str mention ''name'' of None \<Rightarrow> s | Some n \<Rightarrow> replace_all (CHR ''@'' # n) [] s) in
      case field_opt_str mention ''key'' of
        None \<Rightarrow> s1
      | Some k \<Rightarrow> replace_all (at_tag k) [] (replace_all (at_tag (dquote # k @ [dquote])) [] (replace_all k [] s1)))"

definition strip_leading_mention :: "string \<Rightarrow> string" where
  "strip_leading_mention s = (let stripped = py_lstrip s in
     if \<not> py_startswith stripped ''@'' then s
     else py_lstrip (dropWhile (\<lambda>c. \<not> is_space c) stripped))"

definition strip_mentions :: "string \<Rightarrow> json_object list \<Rightarrow> string" where
  "strip_mentions s mentions = py_join '' '' (py_split (strip_leading_mention (fold strip_mention mentions s)))"

definition has_group_mention :: "string \<Rightarrow> json_object list \<Rightarrow> bool" where
  "has_group_mention s mentions \<longleftrightarrow>
     mentions \<noteq> [] \<or> (py_startswith (py_strip s) ''@'' \<and> CHR '' '' \<in> set (py_strip s))"

definition is_management_command :: "string \<Rightarrow> bool" where
  "is_management_command c \<longleftrightarrow>
     c = ''/channel'' \<or> py_startswith c ''/channel '' \<or> py_startswith c ''/channel-config ''"

definition parse_input :: "string \<Rightarrow> string \<times> json_object" where
  "parse_input s = (let command = py_strip s in
     if is_management_command command then (''management'', [(''command'', JStr command)])
     else (''user_message'', [(''content'', JStr s)]))"

definition sender_open_id :: "json_object \<Rightarrow> string option" where
  "sender_open_id sender = (case as_dict (jget sender ''sender_id'') of
     None \<Rightarrow> None | Some d \<Rightarrow> field_opt_str d ''open_id'')"

definition normalize_message :: "(string \<Rightarrow> json option) \<Rightarrow> bool \<Rightarrow> json_object \<Rightarrow> json_object \<Rightarrow> inbound_envelope option" where
  "normalize_message loads required message sender =
     (let chat = py_str (dict_get_default message ''chat_id'' (JStr []));
          mid = py_str (dict_get_default message ''message_id'' (JStr []));
          chat_type = py_str (dict_get_default message ''chat_type'' (JStr []));
          thread = thread_root message;
          raw = text_content loads (jget message ''content'');
          mentions = mentions_of message in
      if chat_type \<noteq> ''p2p'' \<and> required \<and> \<not> has_group_mention raw mentions then None
      else let s = py_strip (strip_mentions raw mentions) in
        if s = [] then None
        else let (kind, payload) = parse_input s in
          Some \<lparr>ie_identity = channel_identity_to_dict
              \<lparr>ci_channel = ''feishu'', ci_user = sender_open_id sender,
               ci_conversation = Some (feishu_conversation_id chat thread), ci_device = None\<rparr>,
            ie_kind = kind, ie_payload = payload,
            ie_delivery = [(''message_id'', JStr mid), (''chat_id'', JStr chat), (''chat_type'', JStr chat_type),
              (''thread_id'', jopt_str thread)]\<rparr>)"

definition normalize_inbound :: "(string \<Rightarrow> json option) \<Rightarrow> bool \<Rightarrow> json_object \<Rightarrow> inbound_envelope option" where
  "normalize_inbound loads required raw =
     (if \<not> is_message_event raw then None
      else case as_dict (jget raw ''event'') of None \<Rightarrow> None
      | Some event \<Rightarrow> (case (as_dict (jget event ''message''), as_dict (jget event ''sender'')) of
          (Some message, Some sender) \<Rightarrow>
            if py_str (dict_get_default message ''message_type'' (JStr [])) \<noteq> ''text'' then None
            else normalize_message loads required message sender
        | _ \<Rightarrow> None))"

definition event_text :: "string \<Rightarrow> json_object \<Rightarrow> string option" where
  "event_text ty payload =
     (if ty \<noteq> ''assistant_message'' then None
      else case field_opt_str payload ''message'' of None \<Rightarrow> None
      | Some m \<Rightarrow> if py_strip m = [] then None else Some (py_strip m))"

definition chat_message :: "string \<times> string option \<Rightarrow> string \<Rightarrow> json_object" where
  "chat_message target s = [(''chat_id'', JStr (fst target)), (''thread_id'', jopt_str (snd target)), (''text'', JStr s)]"

definition egress_type :: "egress_envelope \<Rightarrow> string" where
  "egress_type e = py_str (dict_get_default (ee_event e) ''event_type'' (JStr []))"

definition egress_payload :: "egress_envelope \<Rightarrow> json_object" where
  "egress_payload e = field_dict (ee_event e) ''payload''"

definition project_outbound :: "egress_envelope \<Rightarrow> py_error + json_object option" where
  "project_outbound e = ebind (parse_conversation_id (ee_conversation e)) (\<lambda>target.
     Inr (map_option (chat_message target) (event_text (egress_type e) (egress_payload e))))"

definition feishu_send :: "'c feishu_client \<Rightarrow> json_object \<Rightarrow> ('c, unit) eff" where
  "feishu_send client m =
     bind (lift (field_str m ''chat_id'')) (\<lambda>chat. bind (lift (field_str m ''text'')) (\<lambda>s.
     fc_send_text client chat s (field_opt_str m ''thread_id'')))"

definition parse_card_action :: "json_object \<Rightarrow> json_object option" where
  "parse_card_action v = (let subtype = py_strip (py_str (dict_get_default v ''subtype'' (JStr []))) in
     if subtype = ''permission_response'' then
       Some [(''subtype'', JStr subtype), (''approved'', JBool (truthy (dict_get_default v ''approved'' (JBool False))))]
     else None)"

subsection \<open>Inbound messages seen before\<close>

text \<open>The store in memory, and the one in a file whose value is absent or not JSON for \<open>None\<close>.\<close>

datatype dedupe_store = MemorySeen "(string, int) pydict" | FileSeen "json option"

definition still_seen :: "int \<Rightarrow> (string, int) pydict \<Rightarrow> (string, int) pydict" where
  "still_seen cutoff d = filter (\<lambda>(k, t). cutoff \<le> t) d"

definition seen_time :: "clock_format \<Rightarrow> json \<Rightarrow> int option" where
  "seen_time cf v = (case v of
     JBool b \<Rightarrow> Some (if b then cf_second cf else 0)
   | JInt i \<Rightarrow> Some (i * cf_second cf)
   | JFloat r \<Rightarrow> cf_read cf r
   | _ \<Rightarrow> None)"

definition load_seen :: "clock_format \<Rightarrow> json option \<Rightarrow> (string, int) pydict" where
  "load_seen cf f = (case f of
     Some (JDict d) \<Rightarrow> List.map_filter (\<lambda>(k, v). map_option (Pair k) (seen_time cf v)) d
   | _ \<Rightarrow> [])"

definition save_seen :: "clock_format \<Rightarrow> (string, int) pydict \<Rightarrow> json option" where
  "save_seen cf d = Some (sorted_json (JDict (map (apsnd (float_json cf)) d)))"

definition mark_seen :: "int \<Rightarrow> int \<Rightarrow> string \<Rightarrow> (string, int) pydict \<Rightarrow> bool \<times> (string, int) pydict" where
  "mark_seen ttl now i d = (let kept = still_seen (now - ttl) d in
     if i \<in> set (dict_keys kept) then (True, kept) else (False, dict_set i now kept))"

fun check_and_mark :: "clock_format \<Rightarrow> int \<Rightarrow> int \<Rightarrow> string option \<Rightarrow> dedupe_store \<Rightarrow> bool \<times> dedupe_store" where
  "check_and_mark cf ttl now None st = (False, st)"
| "check_and_mark cf ttl now (Some i) (MemorySeen d) =
     (if py_strip i = [] then (False, MemorySeen d)
      else let (dup, d') = mark_seen ttl now i d in (dup, MemorySeen d'))"
| "check_and_mark cf ttl now (Some i) (FileSeen f) =
     (if py_strip i = [] then (False, FileSeen f)
      else let (dup, d') = mark_seen ttl now i (load_seen cf f) in (dup, FileSeen (save_seen cf d')))"

subsection \<open>The host\<close>

record 'c feishu_env =
  fe_client :: "'c feishu_client"
  fe_format :: clock_format
  fe_trunc :: "string \<Rightarrow> py_error + int"
  fe_loads :: "string \<Rightarrow> json option"
  fe_clock :: "nat \<Rightarrow> int"
  fe_hex :: "nat \<Rightarrow> string"
  fe_mention :: bool
  fe_ttl :: int
  fe_retry :: int
  fe_flush :: int
  fe_management :: "(string \<Rightarrow> ('c, json_object list) eff) option"

record ('s, 'c) feishu_host =
  fh_gateway :: "'s gateway"
  fh_client :: 'c
  fh_dedupe :: "dedupe_store option"
  fh_ledger :: "ledger_file option"
  fh_reactions :: "(string, string option) pydict"
  fh_ticks :: nat
  fh_hexes :: nat

definition on_client :: "('c, 'a) eff \<Rightarrow> (('s, 'c) feishu_host, 'a) eff" where
  "on_client m h = (let (r, c) = m (fh_client h) in (r, h\<lparr>fh_client := c\<rparr>))"

definition on_gateway :: "('s gateway, 'a) eff \<Rightarrow> (('s, 'c) feishu_host, 'a) eff" where
  "on_gateway m h = (let (r, g) = m (fh_gateway h) in (r, h\<lparr>fh_gateway := g\<rparr>))"

definition clock_tick :: "'c feishu_env \<Rightarrow> (('s, 'c) feishu_host, int) eff" where
  "clock_tick env h = (Inr (fe_clock env (fh_ticks h)), h\<lparr>fh_ticks := Suc (fh_ticks h)\<rparr>)"

definition fresh_hex :: "'c feishu_env \<Rightarrow> (('s, 'c) feishu_host, string) eff" where
  "fresh_hex env h = (Inr (fe_hex env (fh_hexes h)), h\<lparr>fh_hexes := Suc (fh_hexes h)\<rparr>)"

text \<open>\<open>try\<close> with \<open>except Exception\<close>, and with \<open>finally\<close>.\<close>

definition rescue :: "('s, 'a) eff \<Rightarrow> (py_error \<Rightarrow> ('s, 'a) eff) \<Rightarrow> ('s, 'a) eff" where
  "rescue m f s = (case m s of (Inl e, s') \<Rightarrow> f e s' | (Inr x, s') \<Rightarrow> (Inr x, s'))"

definition finally_do :: "('s, 'a) eff \<Rightarrow> ('s, unit) eff \<Rightarrow> ('s, 'a) eff" where
  "finally_do m f s = (case m s of (r, s') \<Rightarrow> (case f s' of (Inl e, s'') \<Rightarrow> (Inl e, s'') | (Inr _, s'') \<Rightarrow> (r, s'')))"

subsection \<open>Delivering a card\<close>

type_synonym ('s, 'c) delivery = "('s, 'c) feishu_host \<times> card_record"

definition host_op :: "(('s, 'c) feishu_host, 'a) eff \<Rightarrow> (('s, 'c) delivery, 'a) eff" where
  "host_op m = (\<lambda>(h, r). let (x, h') = m h in (x, (h', r)))"

definition change_card :: "(card_record \<Rightarrow> card_record) \<Rightarrow> (('s, 'c) delivery, unit) eff" where
  "change_card f = modify (apsnd f)"

definition the_card :: "(('s, 'c) delivery, card_record) eff" where
  "the_card = gets snd"

definition stamp_card :: "'c feishu_env \<Rightarrow> (int \<Rightarrow> card_record \<Rightarrow> card_record) \<Rightarrow> (('s, 'c) delivery, unit) eff" where
  "stamp_card env f = bind (host_op (clock_tick env)) (\<lambda>t. change_card (f t))"

definition ensure_stream_uuid :: "'c feishu_env \<Rightarrow> (('s, 'c) delivery, string) eff" where
  "ensure_stream_uuid env = bind the_card (\<lambda>r. case cr_uuid r of
     Some u \<Rightarrow> ret u
   | None \<Rightarrow> bind (host_op (fresh_hex env)) (\<lambda>hex. let u = cr_request r @ '':'' @ hex in
       bind (change_card (cr_uuid_update (\<lambda>_. Some u))) (\<lambda>_. ret u)))"

definition next_stream_sequence :: "'c feishu_env \<Rightarrow> (('s, 'c) delivery, int) eff" where
  "next_stream_sequence env = bind the_card (\<lambda>r.
     bind (stamp_card env (\<lambda>t r. r\<lparr>cr_sequence := cr_sequence r + 1, cr_updated := t\<rparr>)) (\<lambda>_. ret (cr_sequence r)))"

definition with_sequence ::
  "'c feishu_env \<Rightarrow> (string \<Rightarrow> int \<Rightarrow> ('c, unit) eff) \<Rightarrow> (('s, 'c) delivery, unit) eff" where
  "with_sequence env f = bind (ensure_stream_uuid env) (\<lambda>u. bind (next_stream_sequence env) (\<lambda>n.
     host_op (on_client (f u n))))"

definition stream_card :: "'c feishu_env \<Rightarrow> string \<Rightarrow> (('s, 'c) delivery, unit) eff" where
  "stream_card env cid = bind the_card (\<lambda>r. with_sequence env (fc_stream_update (fe_client env) cid (cr_latest r)))"

definition stop_stream :: "'c feishu_env \<Rightarrow> string \<Rightarrow> (('s, 'c) delivery, unit) eff" where
  "stop_stream env cid = bind (with_sequence env (fc_disable_stream (fe_client env) cid)) (\<lambda>_.
     change_card (cr_streaming_update (\<lambda>_. False)))"

definition patch_card :: "'c feishu_env \<Rightarrow> (('s, 'c) delivery, unit) eff" where
  "patch_card env = bind the_card (\<lambda>r. case cr_reply r of
     None \<Rightarrow> throw (RuntimeErr ''reply card is missing message_id for patch fallback'')
   | Some reply \<Rightarrow> host_op (on_client (fc_update_card (fe_client env) reply (cr_latest r))))"

definition approval_error :: string where
  "approval_error = ''Feishu approval card requires CardKit; patch fallback is unsupported''"

definition is_permission_error :: "string \<Rightarrow> bool" where
  "is_permission_error m \<longleftrightarrow> py_contains ''cardkit:card:read'' m \<or> py_contains ''code=99991672'' m"

definition falls_back :: "py_error \<Rightarrow> bool" where
  "falls_back e \<longleftrightarrow> is_permission_error (py_error_text e) \<or> py_contains ''code=99992402'' (py_error_text e)
     \<or> py_contains ''code=200740'' (py_error_text e)"

definition requires_approval :: "card_record \<Rightarrow> bool" where
  "requires_approval r \<longleftrightarrow> cr_status r = ''requires_action''"

definition send_new_card :: "'c feishu_env \<Rightarrow> (('s, 'c) delivery, unit) eff" where
  "send_new_card env = bind the_card (\<lambda>r. if cr_reply r \<noteq> None then ret ()
     else bind (host_op (on_client (fc_send_card (fe_client env) (cr_chat r) (cr_latest r) (cr_thread r)))) (\<lambda>reply.
       stamp_card env (\<lambda>t. mark_delivery_success t (Some reply) None)))"

text \<open>CardKit is given up for this card; an approval card has no other way and fails.\<close>

definition without_cardkit :: "bool \<Rightarrow> py_error \<Rightarrow> (('s, 'c) delivery, unit) eff" where
  "without_cardkit forget e = bind the_card (\<lambda>r.
     if \<not> falls_back e then throw e
     else bind (change_card (\<lambda>r. r\<lparr>cr_cardkit := Some False, cr_card := (if forget then None else cr_card r), cr_streaming := False\<rparr>)) (\<lambda>_.
       if requires_approval r then throw (RuntimeErr approval_error) else ret ()))"

definition resolve_card :: "'c feishu_env \<Rightarrow> (('s, 'c) delivery, unit) eff" where
  "resolve_card env = bind the_card (\<lambda>r. case cr_reply r of None \<Rightarrow> ret ()
     | Some reply \<Rightarrow>
       if cr_cardkit r = Some False \<or> cr_card r \<noteq> None then ret ()
       else rescue
         (bind (host_op (on_client (fc_resolve_card (fe_client env) reply))) (\<lambda>cid.
          bind (change_card (cr_cardkit_update (\<lambda>_. Some True))) (\<lambda>_.
          stamp_card env (\<lambda>t. mark_delivery_success t None (Some cid)))))
         (without_cardkit True))"

definition sync_approval_card :: "'c feishu_env \<Rightarrow> string \<Rightarrow> (('s, 'c) delivery, unit) eff" where
  "sync_approval_card env cid = bind (stream_card env cid) (\<lambda>_.
     bind (change_card (cr_cardkit_update (\<lambda>_. Some True))) (\<lambda>_.
     bind the_card (\<lambda>r. if cr_streaming r then stop_stream env cid else ret ())))"

definition missing_card :: "(('s, 'c) delivery, 'a) eff" where
  "missing_card = throw (RuntimeErr ''reply card is missing card_id after creation'')"

definition sync_running_card :: "'c feishu_env \<Rightarrow> (('s, 'c) delivery, unit) eff" where
  "sync_running_card env = bind the_card (\<lambda>r. case cr_card r of None \<Rightarrow> missing_card
     | Some cid \<Rightarrow> rescue
         (bind (if cr_streaming r then ret ()
            else bind (with_sequence env (fc_enable_stream (fe_client env) cid)) (\<lambda>_.
              change_card (cr_streaming_update (\<lambda>_. True)))) (\<lambda>_.
          stream_card env cid))
         (\<lambda>e. bind (without_cardkit False e) (\<lambda>_. patch_card env)))"

definition sync_stable_card :: "'c feishu_env \<Rightarrow> (('s, 'c) delivery, unit) eff" where
  "sync_stable_card env = bind the_card (\<lambda>r. case cr_card r of None \<Rightarrow> missing_card
     | Some cid \<Rightarrow>
       if cr_streaming r then bind (stream_card env cid) (\<lambda>_. stop_stream env cid)
       else if cr_reply r \<noteq> None then patch_card env
       else ret ())"

definition update_delivered_card :: "'c feishu_env \<Rightarrow> (('s, 'c) delivery, unit) eff" where
  "update_delivered_card env = bind the_card (\<lambda>r. case (requires_approval r, cr_card r) of
       (True, Some cid) \<Rightarrow> sync_approval_card env cid
     | _ \<Rightarrow>
       if cr_cardkit r = Some False then
         (if requires_approval r then throw (RuntimeErr approval_error) else patch_card env)
       else if \<not> is_stable r then sync_running_card env
       else sync_stable_card env)"

definition sync_card_delivery :: "'c feishu_env \<Rightarrow> (('s, 'c) delivery, bool) eff" where
  "sync_card_delivery env = rescue
     (bind (send_new_card env) (\<lambda>_. bind (resolve_card env) (\<lambda>_. bind (update_delivered_card env) (\<lambda>_.
      bind (stamp_card env (\<lambda>t r. (mark_delivery_success t None None r)\<lparr>cr_dirty := False, cr_flushed := t\<rparr>)) (\<lambda>_.
      ret True)))))
     (\<lambda>e. bind (stamp_card env (\<lambda>t. mark_delivery_failure t (fe_retry env) (py_error_text e))) (\<lambda>_. ret False))"

definition store_card :: "'c feishu_env \<Rightarrow> card_record \<Rightarrow> (('s, 'c) feishu_host, unit) eff" where
  "store_card env r = bind (gets fh_ledger) (\<lambda>ledger. case ledger of None \<Rightarrow> ret ()
     | Some f \<Rightarrow> bind (clock_tick env) (\<lambda>t.
         modify (\<lambda>h. h\<lparr>fh_ledger := Some (upsert_card (fe_format env) (fe_trunc env) t r f)\<rparr>)))"

text \<open>Synchronize a card and store what it has become.\<close>

definition deliver_card :: "'c feishu_env \<Rightarrow> card_record \<Rightarrow> (('s, 'c) feishu_host, bool \<times> card_record) eff" where
  "deliver_card env r h = (case sync_card_delivery env (h, r) of
     (Inl e, (h', r')) \<Rightarrow> (Inl e, h')
   | (Inr ok, (h', r')) \<Rightarrow> bind (store_card env r') (\<lambda>_. ret (ok, r')) h')"

subsection \<open>Reactions and answers\<close>

definition set_reaction :: "string \<Rightarrow> string option \<Rightarrow> (('s, 'c) feishu_host, unit) eff" where
  "set_reaction i v = modify (\<lambda>h. h\<lparr>fh_reactions := dict_set i v (fh_reactions h)\<rparr>)"

text \<open>A reaction is shown as long as the message is worked on; a failure of the service is ignored.\<close>

definition mark_in_progress :: "'c feishu_env \<Rightarrow> string option \<Rightarrow> (('s, 'c) feishu_host, unit) eff" where
  "mark_in_progress env i = (case i of None \<Rightarrow> ret ()
     | Some m \<Rightarrow> bind (gets fh_reactions) (\<lambda>known. if m \<in> set (dict_keys known) then ret ()
         else bind (rescue (on_client (fc_add_reaction (fe_client env) m ''OneSecond'')) (\<lambda>_. ret None)) (set_reaction m)))"

definition mark_completed :: "'c feishu_env \<Rightarrow> string option \<Rightarrow> (('s, 'c) feishu_host, unit) eff" where
  "mark_completed env i = (case i of None \<Rightarrow> ret ()
     | Some m \<Rightarrow> bind (gets (\<lambda>h. dict_get (fh_reactions h) m)) (\<lambda>known.
         bind (modify (\<lambda>h. h\<lparr>fh_reactions := dict_pop m (fh_reactions h)\<rparr>)) (\<lambda>_.
         bind (case known of Some (Some reaction) \<Rightarrow>
                 rescue (on_client (fc_remove_reaction (fe_client env) m reaction)) (\<lambda>_. ret ())
               | _ \<Rightarrow> ret ()) (\<lambda>_.
         rescue (bind (on_client (fc_add_reaction (fe_client env) m ''DONE'')) (\<lambda>_. ret ())) (\<lambda>_. ret ())))))"

definition reply_card_events :: "string list" where
  "reply_card_events = [''turn_started'', ''assistant_delta'', ''assistant_message'', ''requires_action'', ''tool_started'',
     ''tool_progress'', ''tool_result'', ''tool_failed'', ''tool_cancelled'', ''turn_failed'', ''turn_completed'']"

definition should_flush :: "'c feishu_env \<Rightarrow> string \<Rightarrow> card_record \<Rightarrow> (('s, 'c) feishu_host, bool) eff" where
  "should_flush env ty r =
     (if cr_reply r = None \<or> cr_pending r \<or> ty \<noteq> ''assistant_delta'' then ret True
      else if \<not> cr_dirty r then ret False
      else bind (clock_tick env) (\<lambda>t. ret (fe_flush env \<le> t - cr_flushed r)))"

definition card_message :: "card_record \<Rightarrow> json_object" where
  "card_message r = [(''chat_id'', JStr (cr_chat r)), (''thread_id'', jopt_str (cr_thread r)), (''delivery'', JStr ''card''),
     (''status'', JStr (cr_status r)), (''message_id'', jopt_str (cr_reply r))]"

definition dispatch_to_card ::
  "'c feishu_env \<Rightarrow> egress_envelope \<Rightarrow> card_record \<Rightarrow> (('s, 'c) feishu_host, bool \<times> card_record) eff" where
  "dispatch_to_card env e r = (let ty = egress_type e in
     bind (clock_tick env) (\<lambda>t. let r1 = apply_runtime_event t ty (egress_payload e) r in
     bind (should_flush env ty r1) (\<lambda>flush.
       if flush then deliver_card env r1 else bind (store_card env r1) (\<lambda>_. ret (False, r1)))))"

definition dispatch_text :: "'c feishu_env \<Rightarrow> egress_envelope \<Rightarrow> (('s, 'c) feishu_host, json_object list) eff" where
  "dispatch_text env e = bind (lift (project_outbound e)) (\<lambda>m. case m of None \<Rightarrow> ret []
     | Some m \<Rightarrow> bind (on_client (feishu_send (fe_client env) m)) (\<lambda>_. ret [m]))"

text \<open>The card is carried along, and the message to mark as completed until it is.\<close>

fun dispatch_egress :: "'c feishu_env \<Rightarrow> card_record option \<Rightarrow> string option \<Rightarrow> egress_envelope list \<Rightarrow>
    (('s, 'c) feishu_host, json_object list) eff" where
  "dispatch_egress env card_record completion [] = ret []"
| "dispatch_egress env card_record completion (e # es) =
     (case card_record of
        Some r \<Rightarrow>
          if egress_type e \<in> set reply_card_events then
            bind (dispatch_to_card env e r) (\<lambda>(delivered, r').
            let complete = (delivered \<and> completion \<noteq> None \<and> is_stable r') in
            bind (if complete then mark_completed env completion else ret ()) (\<lambda>_.
            bind (dispatch_egress env (Some r') (if complete then None else completion) es) (\<lambda>ms.
            ret (card_message r' # ms))))
          else bind (dispatch_text env e) (\<lambda>m. bind (dispatch_egress env card_record completion es) (\<lambda>ms. ret (m @ ms)))
      | None \<Rightarrow> bind (dispatch_text env e) (\<lambda>m. bind (dispatch_egress env card_record completion es) (\<lambda>ms. ret (m @ ms))))"

fun dispatch_responses :: "'c feishu_env \<Rightarrow> string \<times> string option \<Rightarrow> json_object list \<Rightarrow>
    (('s, 'c) feishu_host, json_object list) eff" where
  "dispatch_responses env target [] = ret []"
| "dispatch_responses env target (d # ds) =
     (let s = py_strip (py_str (dict_get_default d ''message'' (JStr []))) in
      if s = [] then dispatch_responses env target ds
      else bind (on_client (feishu_send (fe_client env) (chat_message target s))) (\<lambda>_.
        bind (dispatch_responses env target ds) (\<lambda>ms. ret (chat_message target s # ms))))"

definition dispatch_management :: "'c feishu_env \<Rightarrow> channel_identity \<Rightarrow> json_object list \<Rightarrow>
    (('s, 'c) feishu_host, json_object list) eff" where
  "dispatch_management env c ds =
     bind (lift (parse_conversation_id (conversation_of c))) (\<lambda>target. dispatch_responses env target ds)"

definition missing_session_message :: "channel_identity \<Rightarrow> py_error + json_object" where
  "missing_session_message c = ebind (parse_conversation_id (conversation_of c)) (\<lambda>target.
     Inr (chat_message target ''No active session is bound for this chat yet. Send a normal message first.''))"

definition ensure_binding :: "'c feishu_env \<Rightarrow> 's session_runtime \<Rightarrow> channel_identity \<Rightarrow> (('s, 'c) feishu_host, string) eff" where
  "ensure_binding env rt c = (let conversation = conversation_of c in
     rescue (bind (on_gateway (get_binding (fe_trunc env) rt (ci_channel c, conversation))) (\<lambda>b. ret (sb_session b)))
       (\<lambda>e. case e of
          KeyError _ \<Rightarrow> (let s = ''feishu-session:'' @ conversation in
            bind (on_gateway (bind_session rt c s None (Some ''feishu''))) (\<lambda>_. ret s))
        | _ \<Rightarrow> throw e))"

definition ensure_turn_card :: "'c feishu_env \<Rightarrow> string \<Rightarrow> channel_identity \<Rightarrow> json_object \<Rightarrow> string \<Rightarrow> string option \<Rightarrow>
    (('s, 'c) feishu_host, card_record option) eff" where
  "ensure_turn_card env session c delivery prompt mid =
     bind (gets fh_ledger) (\<lambda>ledger. case (mid, ledger) of
       (Some m, Some f) \<Rightarrow>
         (let chat = py_strip (py_str (dict_get_default delivery ''chat_id'' (JStr []))) in
          if chat = [] then ret None
          else bind (fresh_hex env) (\<lambda>hex. bind (clock_tick env) (\<lambda>t.
            let r = initial_card m session (conversation_of c) chat
              (map_option py_strip (field_opt_str delivery ''thread_id'')) prompt hex t in
            bind (clock_tick env) (\<lambda>t. case card_by_request (fe_format env) (fe_trunc env) t m f of
              Some existing \<Rightarrow> ret (Some existing)
            | None \<Rightarrow> bind (deliver_card env r) (\<lambda>(_, r'). ret (Some r'))))))
     | _ \<Rightarrow> ret None)"

definition suspends_retry :: "card_record \<Rightarrow> bool" where
  "suspends_retry r \<longleftrightarrow> requires_approval r \<and> cr_error r = Some approval_error"

definition retry_card :: "'c feishu_env \<Rightarrow> card_record \<Rightarrow> (('s, 'c) feishu_host, unit) eff" where
  "retry_card env r =
     (if suspends_retry r then ret ()
      else bind (deliver_card env r) (\<lambda>(delivered, r').
        if delivered \<and> is_stable r' then mark_completed env (Some (cr_request r')) else ret ()))"

definition retry_pending_cards :: "'c feishu_env \<Rightarrow> string option \<Rightarrow> (('s, 'c) feishu_host, unit) eff" where
  "retry_pending_cards env conversation = bind (gets fh_ledger) (\<lambda>ledger. case ledger of None \<Rightarrow> ret ()
     | Some f \<Rightarrow> bind (clock_tick env) (\<lambda>t.
         each (retry_card env) (pending_cards (fe_format env) (fe_trunc env) t conversation f)))"

subsection \<open>Events of the service\<close>

datatype feishu_reply = Toast json_object | Outbound "json_object list"

definition warning_toast :: "string \<Rightarrow> feishu_reply" where
  "warning_toast s = Toast [(''toast'', JDict [(''type'', JStr ''warning''), (''content'', JStr s)])]"

definition no_card_toast :: feishu_reply where
  "no_card_toast = warning_toast ''No active reply card was found.''"

definition unsupported_toast :: feishu_reply where
  "unsupported_toast = warning_toast ''Unsupported card action.''"

definition received_toast :: feishu_reply where
  "received_toast = Toast [(''toast'', JDict [(''type'', JStr ''info''), (''content'', JStr ''Action received.'')])]"

definition is_card_action :: "json_object \<Rightarrow> bool" where
  "is_card_action raw = (case as_dict (jget raw ''header'') of None \<Rightarrow> False
     | Some h \<Rightarrow> py_strip (py_str (dict_get_default h ''event_type'' (JStr []))) = ''card.action.trigger'')"

definition message_id_of :: "json_object \<Rightarrow> string option" where
  "message_id_of raw = (case as_dict (jget raw ''event'') of None \<Rightarrow> None
     | Some event \<Rightarrow> (case as_dict (jget event ''message'') of None \<Rightarrow> None
       | Some message \<Rightarrow> (case field_opt_str message ''message_id'' of None \<Rightarrow> None
         | Some i \<Rightarrow> if py_strip i = [] then None else Some (py_strip i))))"

text \<open>
  \<open>str\<close> of an attribute of the wrapped event: an absent one is \<open>None\<close>, and an object prints as an
  address, which names no message and no user.
\<close>

definition wrapped_text :: "json_object \<Rightarrow> string \<Rightarrow> string" where
  "wrapped_text d k = (case jget d k of JDict _ \<Rightarrow> ''<_DictWrapper object>'' | v \<Rightarrow> py_strip (py_str v))"

definition action_reply_id :: "json_object \<Rightarrow> string" where
  "action_reply_id event = (case as_dict (jget event ''context'') of None \<Rightarrow> [] | Some d \<Rightarrow> wrapped_text d ''open_message_id'')"

definition action_value :: "json_object \<Rightarrow> json" where
  "action_value event = (case as_dict (jget event ''action'') of None \<Rightarrow> JNull | Some d \<Rightarrow> jget d ''value'')"

definition action_user :: "json_object \<Rightarrow> string option" where
  "action_user event = (case as_dict (jget event ''operator'') of None \<Rightarrow> None
     | Some d \<Rightarrow> (let i = wrapped_text d ''open_id'' in if i = [] then None else Some i))"

text \<open>The card shows the failure of the decision; the exception is raised again.\<close>

definition fail_card :: "'c feishu_env \<Rightarrow> card_record \<Rightarrow> py_error \<Rightarrow> (('s, 'c) feishu_host, 'a) eff" where
  "fail_card env r e =
     (let r1 = r\<lparr>cr_status := ''failed'', cr_status_text := Some (py_error_text e)\<rparr> in
      bind (deliver_card env (r1\<lparr>cr_latest := render_reply_card r1, cr_dirty := True\<rparr>)) (\<lambda>_. throw e))"

definition decide_card :: "'c feishu_env \<Rightarrow> 's session_runtime \<Rightarrow> json_object \<Rightarrow> json_object \<Rightarrow> card_record \<Rightarrow>
    (('s, 'c) feishu_host, feishu_reply) eff" where
  "decide_card env rt event control r =
     bind (clock_tick env) (\<lambda>t. bind (deliver_card env (mark_card_action_running t r)) (\<lambda>(_, r1).
     bind (rescue (on_gateway (process_control_message (fe_trunc env) rt
           \<lparr>ci_channel = ''feishu'', ci_user = action_user event, ci_conversation = Some (cr_conversation r1), ci_device = None\<rparr>
           control (Some (cr_session r1))))
         (fail_card env r1)) (\<lambda>egress.
     bind (dispatch_egress env (Some r1) None egress) (\<lambda>_. ret received_toast))))"

definition handle_card_action :: "'c feishu_env \<Rightarrow> 's session_runtime \<Rightarrow> json_object \<Rightarrow> (('s, 'c) feishu_host, feishu_reply) eff" where
  "handle_card_action env rt event = (let reply = action_reply_id event in
     bind (gets fh_ledger) (\<lambda>ledger. case ledger of
       None \<Rightarrow> ret no_card_toast
     | Some f \<Rightarrow> if reply = [] then ret no_card_toast
         else bind (clock_tick env) (\<lambda>t. case card_by_reply (fe_format env) (fe_trunc env) t reply f of
             None \<Rightarrow> ret no_card_toast
           | Some r \<Rightarrow> (case action_value event of
               JDict v \<Rightarrow> (case parse_card_action v of None \<Rightarrow> ret unsupported_toast
                 | Some control \<Rightarrow> decide_card env rt event control r)
             | _ \<Rightarrow> ret unsupported_toast))))"

definition handle_management :: "'c feishu_env \<Rightarrow> channel_identity \<Rightarrow> inbound_envelope \<Rightarrow> (('s, 'c) feishu_host, json_object list) eff" where
  "handle_management env c inbound =
     bind (case fe_management env of
         Some f \<Rightarrow> on_client (f (py_str (dict_get_default (ie_payload inbound) ''command'' (JStr []))))
       | None \<Rightarrow> ret [[(''type'', JStr ''error''), (''message'', JStr ''host management is unavailable'')]])
       (dispatch_management env c)"

text \<open>The adapter makes no control input from a message; the branch is there for one that does.\<close>

definition handle_control :: "'c feishu_env \<Rightarrow> 's session_runtime \<Rightarrow> channel_identity \<Rightarrow> inbound_envelope \<Rightarrow>
    (('s, 'c) feishu_host, json_object list) eff" where
  "handle_control env rt c inbound =
     bind (rescue
         (bind (on_gateway (process_control_message (fe_trunc env) rt c (ie_payload inbound) None)) (\<lambda>egress. ret (Some egress)))
         (\<lambda>e. case e of KeyError _ \<Rightarrow> ret None | _ \<Rightarrow> throw e))
       (\<lambda>r. case r of
          Some egress \<Rightarrow> dispatch_egress env None None egress
        | None \<Rightarrow> bind (lift (missing_session_message c)) (\<lambda>m.
            bind (on_client (feishu_send (fe_client env) m)) (\<lambda>_. ret [m])))"

definition handle_prompt :: "'c feishu_env \<Rightarrow> 's session_runtime \<Rightarrow> channel_identity \<Rightarrow> inbound_envelope \<Rightarrow> string option \<Rightarrow>
    (('s, 'c) feishu_host, json_object list) eff" where
  "handle_prompt env rt c inbound mid =
     finally_do
       (bind (ensure_binding env rt c) (\<lambda>session.
        bind (ensure_turn_card env session c (ie_delivery inbound)
          (py_strip (py_str (dict_get_default (ie_payload inbound) ''content'' (JStr [])))) mid) (\<lambda>r.
        bind (on_gateway (process_input (fe_trunc env) rt inbound)) (\<lambda>egress.
        bind (dispatch_egress env r mid egress) (\<lambda>ms.
        bind (if r = None then mark_completed env mid else ret ()) (\<lambda>_. ret ms))))))
       (retry_pending_cards env (ci_conversation c))"

definition handle_inbound :: "'c feishu_env \<Rightarrow> 's session_runtime \<Rightarrow> string option \<Rightarrow> inbound_envelope \<Rightarrow>
    (('s, 'c) feishu_host, json_object list) eff" where
  "handle_inbound env rt mid inbound =
     bind (mark_in_progress env mid) (\<lambda>_.
     bind (lift (channel_identity_from_dict (ie_identity inbound))) (\<lambda>c.
     if ie_kind inbound = ''management'' then finally_do (handle_management env c inbound) (mark_completed env mid)
     else if ie_kind inbound = ''control'' then finally_do (handle_control env rt c inbound) (mark_completed env mid)
     else handle_prompt env rt c inbound mid))"

text \<open>Whether the message was seen before; a message without an id is not checked.\<close>

definition seen_before :: "'c feishu_env \<Rightarrow> string option \<Rightarrow> (('s, 'c) feishu_host, bool) eff" where
  "seen_before env mid = bind (gets fh_dedupe) (\<lambda>store. case (mid, store) of
     (Some _, Some st) \<Rightarrow> bind (clock_tick env) (\<lambda>t.
       let (dup, st') = check_and_mark (fe_format env) (fe_ttl env) t mid st in
       bind (modify (\<lambda>h. h\<lparr>fh_dedupe := Some st'\<rparr>)) (\<lambda>_. ret dup))
   | _ \<Rightarrow> ret False)"

definition handle_event :: "'c feishu_env \<Rightarrow> 's session_runtime \<Rightarrow> json_object \<Rightarrow> (('s, 'c) feishu_host, feishu_reply) eff" where
  "handle_event env rt raw =
     (if is_card_action raw then
        (case as_dict (jget raw ''event'') of None \<Rightarrow> ret unsupported_toast
         | Some event \<Rightarrow> handle_card_action env rt event)
      else bind (seen_before env (message_id_of raw)) (\<lambda>dup.
        if dup then ret (Outbound [])
        else case normalize_inbound (fe_loads env) (fe_mention env) raw of
          None \<Rightarrow> ret (Outbound [])
        | Some inbound \<Rightarrow> bind (handle_inbound env rt (message_id_of raw) inbound) (\<lambda>ms. ret (Outbound ms))))"

end
