(* ===== verification/FeishuProps.thy ===== *)
theory FeishuProps
  imports FeishuHost IntText
begin

text \<open>
  Properties of the Feishu channel.  The two stores of seen messages are one behaviour, and a message
  is handled at most once; the ledger gives every card back as it was stored; the sequence numbers of
  a card increase; an approval card is never patched; and no character of an answer is lost on a card.
\<close>

text \<open>What is relied on of Python's floats: the text of a time reads as the time.\<close>

definition times_readable :: "clock_format \<Rightarrow> bool" where
  "times_readable cf \<longleftrightarrow> (\<forall>t. cf_read cf (cf_show cf t) = Some t)"

text \<open>A format that satisfies it, for the examples.\<close>

definition tick_format :: clock_format where
  "tick_format = \<lparr>cf_show = int_str, cf_read = (\<lambda>s. case py_int s of Inl _ \<Rightarrow> None | Inr i \<Rightarrow> Some i), cf_second = 1000000\<rparr>"

lemma tick_format_readable: "times_readable tick_format"
  by (simp add: times_readable_def tick_format_def)

subsection \<open>Messages seen before\<close>

text \<open>The table that a file holds; a file nobody wrote has none.\<close>

definition same_seen :: "clock_format \<Rightarrow> (string, int) pydict \<Rightarrow> json option \<Rightarrow> bool" where
  "same_seen cf d f \<longleftrightarrow> wf_dict d \<and> wf_dict (load_seen cf f) \<and> map_of d = map_of (load_seen cf f)"

lemma load_save_seen:
  assumes "times_readable cf"
  shows "load_seen cf (save_seen cf d) = sort_key fst d"
proof -
  have json: "sorted_json (JDict (map (apsnd (float_json cf)) d)) = JDict (map (apsnd (float_json cf)) (sort_key fst d))"
  proof -
    have "map (apsnd sorted_json) (map (apsnd (float_json cf)) d) = map (apsnd (float_json cf)) d"
      by (auto simp: float_json_def)
    then show ?thesis by (simp only: sorted_json_dict sorted_object_def sort_apsnd)
  qed
  have "List.map_filter (\<lambda>(k, v). map_option (Pair k) (seen_time cf v)) (map (apsnd (float_json cf)) xs) = xs" for xs
    using assms by (induction xs) (auto simp: map_filter_simps seen_time_def float_json_def times_readable_def)
  then show ?thesis by (simp add: load_seen_def save_seen_def json del: sorted_json_dict)
qed

lemma map_of_still_seen:
  "wf_dict d \<Longrightarrow> map_of (still_seen c d) k = (case map_of d k of Some t \<Rightarrow> if c \<le> t then Some t else None | None \<Rightarrow> None)"
proof (induction d)
  case (Cons e d)
  obtain i t where "e = (i, t)" by (cases e)
  moreover have "i = k \<Longrightarrow> map_of d k = None" using Cons.prems calculation by (simp add: map_of_eq_None_iff)
  ultimately show ?case using Cons by (auto simp: still_seen_def)
qed (simp add: still_seen_def)

lemma wf_still_seen [simp]: "wf_dict d \<Longrightarrow> wf_dict (still_seen c d)"
  by (simp add: still_seen_def distinct_map_filter)

lemma in_keys_map_of: "k \<in> set (dict_keys d) \<longleftrightarrow> map_of d k \<noteq> None"
  by (simp add: map_of_eq_None_iff)

text \<open>What marking does depends on the table only, not on the order of its entries.\<close>

lemma mark_seen_map:
  assumes "wf_dict d" "wf_dict e" "map_of d = map_of e"
    and "mark_seen ttl now i d = (a, d')" "mark_seen ttl now i e = (b, e')"
  shows "a = b" "wf_dict d'" "wf_dict e'" "map_of d' = map_of e'"
proof -
  have m: "map_of (still_seen (now - ttl) d) = map_of (still_seen (now - ttl) e)"
    using assms(1-3) by (simp add: fun_eq_iff map_of_still_seen)
  then have k: "i \<in> set (dict_keys (still_seen (now - ttl) d)) \<longleftrightarrow> i \<in> set (dict_keys (still_seen (now - ttl) e))"
    by (simp only: in_keys_map_of)
  show "a = b" "wf_dict d'" "wf_dict e'" "map_of d' = map_of e'"
    using assms(4,5) wf_still_seen [OF assms(1)] wf_still_seen [OF assms(2)] k m
    by (auto simp: mark_seen_def Let_def split: if_splits simp del: dict_keys_set)
qed

lemma check_and_mark_same:
  assumes "times_readable cf" "same_seen cf d f"
  obtains dup d' f' where "check_and_mark cf ttl now m (MemorySeen d) = (dup, MemorySeen d')"
    "check_and_mark cf ttl now m (FileSeen f) = (dup, FileSeen f')" "same_seen cf d' f'"
proof (cases "case m of None \<Rightarrow> True | Some i \<Rightarrow> py_strip i = []")
  case True
  then show ?thesis using that assms(2) by (cases m) auto
next
  case False
  then obtain i where i: "m = Some i" "py_strip i \<noteq> []" by (cases m) auto
  obtain a d' b e' where s: "mark_seen ttl now i d = (a, d')" "mark_seen ttl now i (load_seen cf f) = (b, e')"
    by fastforce
  have r: "a = b" "wf_dict d'" "wf_dict e'" "map_of d' = map_of e'"
    using mark_seen_map [OF _ _ _ s] assms(2) by (auto simp: same_seen_def)
  have "same_seen cf d' (save_seen cf e')"
    using r by (simp add: same_seen_def load_save_seen [OF assms(1)] distinct_map)
  then show ?thesis using that i s r(1) by simp
qed

text \<open>The verdicts over a sequence of messages with the times they arrive at.\<close>

fun verdicts :: "clock_format \<Rightarrow> int \<Rightarrow> (string option \<times> int) list \<Rightarrow> dedupe_store \<Rightarrow> bool list" where
  "verdicts cf ttl [] st = []"
| "verdicts cf ttl ((m, now) # ms) st = (let (dup, st') = check_and_mark cf ttl now m st in dup # verdicts cf ttl ms st')"

lemma verdicts_same:
  "times_readable cf \<Longrightarrow> same_seen cf d f \<Longrightarrow> verdicts cf ttl ms (MemorySeen d) = verdicts cf ttl ms (FileSeen f)"
proof (induction ms arbitrary: d f)
  case (Cons e ms)
  obtain m now where e: "e = (m, now)" by (cases e)
  obtain dup d' f' where c: "check_and_mark cf ttl now m (MemorySeen d) = (dup, MemorySeen d')"
    "check_and_mark cf ttl now m (FileSeen f) = (dup, FileSeen f')" "same_seen cf d' f'"
    using check_and_mark_same [OF Cons.prems] by metis
  then show ?case using Cons.IH [OF Cons.prems(1) c(3)] by (simp add: e)
qed simp

text \<open>
  The store of seen messages in a file and the one in memory are one behaviour: over every sequence of
  messages with the times they arrive at both give the same verdicts, when the file starts with no
  table.  (The file is read and written at each message, so this holds across restarts as well.)
\<close>

theorem seen_stores_agree:
  assumes "times_readable cf"
  shows "verdicts cf ttl ms (MemorySeen []) = verdicts cf ttl ms (FileSeen None)"
  by (rule verdicts_same [OF assms]) (simp add: same_seen_def load_seen_def)

lemma seen_stores_agree_witness:
  "verdicts tick_format 10 [(Some ''om_1'', 5), (Some ''om_2'', 6), (Some ''om_1'', 15), (Some ''om_1'', 16), (None, 17)]
     (FileSeen None) = [False, False, True, False, False]"
  unfolding seen_stores_agree [OF tick_format_readable, symmetric]
  by code_simp

subsection \<open>The ledger\<close>

text \<open>A record as it comes back from the file: the keys of its card are sorted.\<close>

definition stored_card :: "card_record \<Rightarrow> card_record" where
  "stored_card r = r\<lparr>cr_latest := sorted_object (cr_latest r)\<rparr>"

lemma sorted_field_opt_str: "jget d k = jopt_str x \<Longrightarrow> field_opt_str (sorted_object d) k = x"
  by (cases x) (simp_all add: field_opt_str_def jopt_str_def)

lemma sorted_field_opt_bool: "jget d k = jopt_bool x \<Longrightarrow> field_opt_bool (sorted_object d) k = x"
  by (cases x) (simp_all add: field_opt_bool_def jopt_bool_def)

lemma sorted_float_json [simp]: "sorted_json (float_json cf t) = float_json cf t"
  by (simp add: float_json_def)

lemma card_from_to_dict:
  assumes "times_readable cf"
  shows "card_from_dict cf trunc now (sorted_object (card_to_dict cf r)) = Inr (stored_card r)"
proof -
  have t: "float_value cf (float_json cf t) d = t" for t d
    using assms by (simp add: float_value_def float_json_def times_readable_def)
  have opt: "field_opt_str (sorted_object (card_to_dict cf r)) ''thread_id'' = cr_thread r"
    "field_opt_str (sorted_object (card_to_dict cf r)) ''reply_message_id'' = cr_reply r"
    "field_opt_str (sorted_object (card_to_dict cf r)) ''card_id'' = cr_card r"
    "field_opt_str (sorted_object (card_to_dict cf r)) ''stream_uuid'' = cr_uuid r"
    "field_opt_str (sorted_object (card_to_dict cf r)) ''assistant_message'' = cr_answer r"
    "field_opt_str (sorted_object (card_to_dict cf r)) ''status_message'' = cr_status_text r"
    "field_opt_str (sorted_object (card_to_dict cf r)) ''approval_tool_name'' = cr_approval r"
    "field_opt_str (sorted_object (card_to_dict cf r)) ''last_error'' = cr_error r"
    "field_opt_bool (sorted_object (card_to_dict cf r)) ''cardkit_supported'' = cr_cardkit r"
    by (rule sorted_field_opt_str sorted_field_opt_bool; simp add: card_to_dict_def jget_def)+
  show ?thesis
    by (simp add: card_from_dict_def opt)
      (simp add: stored_card_def field_str_def field_req_def
        field_dict_def dict_get_default_def jget_def card_to_dict_def int_value_def t)
qed

lemma load_saved:
  assumes "times_readable cf"
  shows "load_ledger cf trunc now (save_ledger cf st) = sort_key fst (map (apsnd stored_card) st)"
proof -
  let ?f = "\<lambda>r. JDict (card_to_dict cf r)"
  have json: "sorted_object (map (apsnd ?f) st) = map (apsnd (\<lambda>r. JDict (sorted_object (card_to_dict cf r)))) (sort_key fst st)"
  proof -
    have "map (apsnd sorted_json) (map (apsnd ?f) st) = map (apsnd (\<lambda>r. JDict (sorted_object (card_to_dict cf r)))) st"
      by auto
    then show ?thesis by (simp only: sorted_object_def sort_apsnd)
  qed
  have "readable_cards cf trunc now (map (apsnd (\<lambda>r. JDict (sorted_object (card_to_dict cf r)))) xs) = map (apsnd stored_card) xs" for xs
    by (induction xs) (auto simp: readable_cards_def map_filter_simps card_from_to_dict [OF assms])
  then have "load_ledger cf trunc now (save_ledger cf st) = map (apsnd stored_card) (sort_key fst st)"
    by (simp add: load_ledger_def save_ledger_def json)
  then show ?thesis by (simp only: sort_apsnd)
qed

lemma map_of_apsnd: "map_of (map (apsnd f) d) k = map_option f (map_of d k)"
  by (induction d) auto

text \<open>
  A card stored in the ledger file is found again under its request with everything it held, whatever the
  file held before and however often it is stored and read; storing it leaves every other card as it
  was read.
\<close>

theorem stored_card_found:
  assumes "times_readable cf"
  shows "card_by_request cf trunc now i (upsert_card cf trunc t r f) =
    (if i = cr_request r then Some (stored_card r) else map_option stored_card (card_by_request cf trunc t i f))"
  by (simp add: card_by_request_def upsert_card_def load_saved [OF assms] map_of_apsnd)

subsection \<open>What a delivery keeps\<close>

lemma keeps_rescue [keeping]: "keeps I m \<Longrightarrow> (\<And>e. keeps I (f e)) \<Longrightarrow> keeps I (rescue m f)"
  by (fastforce simp: keeps_def rescue_def split: prod.splits sum.splits)

lemma keeps_finally [keeping]: "keeps I m \<Longrightarrow> keeps I f \<Longrightarrow> keeps I (finally_do m f)"
  by (fastforce simp: keeps_def finally_do_def split: prod.splits sum.splits)

text \<open>
  An invariant of the host and a card that looks at the status and the sequence number of the card
  only, and that the calls to the service keep, where a call of the stream comes with its number.
\<close>

locale card_invariant =
  fixes env :: "'c feishu_env" and J :: "('s, 'c) delivery \<Rightarrow> bool"
  assumes plain_calls:
      "keeps J (host_op (on_client (fc_send_card (fe_client env) chat body thread)))"
      "keeps J (host_op (on_client (fc_resolve_card (fe_client env) reply)))"
      "keeps J (host_op (on_client (fc_update_card (fe_client env) reply body)))"
    and stream_calls:
      "keeps J (with_sequence env (fc_stream_update (fe_client env) c body))"
      "keeps J (with_sequence env (fc_enable_stream (fe_client env) c))"
      "keeps J (with_sequence env (fc_disable_stream (fe_client env) c))"
    and other_fields: "J (h, r) \<Longrightarrow> cr_status r' = cr_status r \<Longrightarrow> cr_sequence r' = cr_sequence r \<Longrightarrow> J (h\<lparr>fh_ticks := n\<rparr>, r')"
begin

lemma keeps_change:
  assumes "\<And>r. cr_status (f r) = cr_status r" "\<And>r. cr_sequence (f r) = cr_sequence r"
  shows "keeps J (change_card f)"
  unfolding change_card_def
proof (rule keeps_modify)
  fix s assume "J s"
  then show "J (apsnd f s)"
    using other_fields [of "fst s" "snd s" "f (snd s)" "fh_ticks (fst s)"] assms by (cases s) simp
qed

lemma keeps_tick: "keeps J (host_op (clock_tick env))"
  unfolding keeps_def by (auto simp: host_op_def clock_tick_def intro: other_fields)

lemma keeps_stamp:
  assumes "\<And>t r. cr_status (f t r) = cr_status r" "\<And>t r. cr_sequence (f t r) = cr_sequence r"
  shows "keeps J (stamp_card env f)"
  unfolding stamp_card_def by (intro keeps_bind keeps_tick keeps_change assms)

lemma keeps_card [keeping]: "keeps J the_card"
  by (simp add: the_card_def keeping)

lemmas card_steps = keeping plain_calls stream_calls keeps_change keeps_stamp

lemma keeps_stream: "keeps J (stream_card env c)" "keeps J (stop_stream env c)"
  unfolding stream_card_def stop_stream_def by (auto intro!: card_steps)

lemma keeps_patch: "keeps J (patch_card env)"
  unfolding patch_card_def by (auto intro!: card_steps)

lemma keeps_send: "keeps J (send_new_card env)"
  unfolding send_new_card_def by (auto intro!: card_steps simp: mark_delivery_success_def)

lemma keeps_without: "keeps J (without_cardkit forget e)"
  unfolding without_cardkit_def by (auto intro!: card_steps)

lemma keeps_resolve: "keeps J (resolve_card env)"
  unfolding resolve_card_def by (auto intro!: card_steps keeps_without simp: mark_delivery_success_def split: option.split)

lemma keeps_update: "keeps J (update_delivered_card env)"
  unfolding update_delivered_card_def sync_approval_card_def sync_running_card_def sync_stable_card_def missing_card_def
  by (auto intro!: card_steps keeps_stream keeps_patch keeps_without split: option.split bool.split)

lemma keeps_sync: "keeps J (sync_card_delivery env)"
  unfolding sync_card_delivery_def
  by (intro card_steps keeps_send keeps_resolve keeps_update)
    (simp_all add: mark_delivery_success_def mark_delivery_failure_def)

end

lemmas sequence_defs = with_sequence_def ensure_stream_uuid_def next_stream_sequence_def stamp_card_def change_card_def
  the_card_def Let_def

lemma keeps_status_op: "keeps (\<lambda>(h, r). cr_status r = st) (host_op m)"
  by (auto simp: keeps_def host_op_def split: prod.splits)

interpretation status: card_invariant env "\<lambda>(h, r). cr_status r = st" for env st
  by unfold_locales (auto simp: sequence_defs intro!: keeping keeps_status_op keeps_modify split: option.split)

lemma keeps_dedupe_op:
  "keeps (\<lambda>h. fh_dedupe h = d) m \<Longrightarrow> keeps (\<lambda>(h, r). fh_dedupe h = d) (host_op m)"
  by (auto simp: keeps_def host_op_def split: prod.splits)

lemma keeps_dedupe [keeping]:
  "keeps (\<lambda>h. fh_dedupe h = d) (on_client m)" "keeps (\<lambda>h. fh_dedupe h = d) (on_gateway n)"
  "keeps (\<lambda>h. fh_dedupe h = d) (clock_tick env)" "keeps (\<lambda>h. fh_dedupe h = d) (fresh_hex env)"
  "keeps (\<lambda>h. fh_dedupe h = d) (set_reaction i v)"
  by (auto simp: keeps_def on_client_def on_gateway_def clock_tick_def fresh_hex_def set_reaction_def modify_def split: prod.splits)

interpretation dedupe: card_invariant env "\<lambda>(h, r). fh_dedupe h = d" for env d
  by unfold_locales (auto simp: sequence_defs intro!: keeping keeps_dedupe_op keeps_modify split: option.split)

text \<open>A delivery never raises.\<close>

lemma sync_returns: "\<exists>b s'. sync_card_delivery env s = (Inr b, s')"
proof -
  have "\<exists>b s'. bind (stamp_card env f) (\<lambda>_. ret False) t = (Inr b, s')" for f t
    by (cases t) (auto simp: stamp_card_def host_op_def clock_tick_def bind_def change_card_def modify_def ret_def)
  then show ?thesis
    unfolding sync_card_delivery_def rescue_def by (auto split: prod.split sum.split)
qed

lemma deliver_keeps:
  assumes "keeps (\<lambda>(h, r). I h) (sync_card_delivery env)" "\<And>r. keeps I (store_card env r)"
  shows "keeps I (deliver_card env r)"
  unfolding keeps_def
proof (intro allI impI)
  fix h assume "I h"
  obtain b h' r' where s: "sync_card_delivery env (h, r) = (Inr b, (h', r'))" using sync_returns by (metis surj_pair)
  have "I h'" using keepsD [OF assms(1), of "(h, r)"] \<open>I h\<close> by (simp add: s)
  moreover have "keeps I (bind (store_card env r') (\<lambda>_. ret (b, r')))" by (intro keeping assms(2))
  ultimately show "I (snd (deliver_card env r h))" by (simp add: deliver_card_def s keeps_def)
qed

subsection \<open>Approval cards\<close>

lemma other_client [simp]:
  "clock_tick (env\<lparr>fe_client := cl\<rparr>) = clock_tick env" "fresh_hex (env\<lparr>fe_client := cl\<rparr>) = fresh_hex env"
  by (simp_all add: fun_eq_iff clock_tick_def fresh_hex_def)

lemma update_ignores_patch:
  assumes "requires_approval r"
  shows "update_delivered_card (env\<lparr>fe_client := (fe_client env)\<lparr>fc_update_card := f\<rparr>\<rparr>) (h, r) = update_delivered_card env (h, r)"
proof -
  have stable: "is_stable r" using assms by (simp add: requires_approval_def is_stable_def stable_statuses_def)
  have op: "with_sequence (env\<lparr>fe_client := (fe_client env)\<lparr>fc_update_card := f\<rparr>\<rparr>) g = with_sequence env g" for g
    by (simp add: sequence_defs cong: option.case_cong)
  show ?thesis
    using assms stable
    by (auto simp: update_delivered_card_def the_card_def sync_approval_card_def sync_stable_card_def stream_card_def
        stop_stream_def op split: option.split cong: if_cong)
qed

lemma bind_cong_keeps:
  assumes "keeps J m" "J s" "\<And>x s'. J s' \<Longrightarrow> f x s' = g x s'"
  shows "bind m f s = bind m g s"
  using keepsD [OF assms(1,2)] assms(3) by (cases "m s"; cases "fst (m s)") (auto simp: bind_def)

text \<open>
  C34. A card that asks for an approval is never delivered by patching its message: whatever the service does and
  whatever the card went through before, a delivery is the same with any other operation for patching.
\<close>

theorem approval_card_never_patched:
  fixes h :: "('s, 'c) feishu_host"
  assumes "cr_status r = ''requires_action''"
  shows "sync_card_delivery (env\<lparr>fe_client := (fe_client env)\<lparr>fc_update_card := f\<rparr>\<rparr>) (h, r) = sync_card_delivery env (h, r)"
    (is "sync_card_delivery ?env' _ = _")
proof -
  let ?J = "\<lambda>(h :: ('s, 'c) feishu_host, r :: card_record). cr_status r = ''requires_action''"
  have stamp: "stamp_card ?env' = stamp_card env"
    by (simp add: fun_eq_iff stamp_card_def)
  then have same: "send_new_card ?env' = send_new_card env" "resolve_card ?env' = resolve_card env"
    "stamp_card ?env' = stamp_card env" "fe_retry ?env' = fe_retry env"
    by (simp_all add: send_new_card_def resolve_card_def stamp cong: option.case_cong if_cong)
  have "bind (send_new_card env) (\<lambda>_. bind (resolve_card env) (\<lambda>_. bind (update_delivered_card ?env') k)) (h, r) =
      bind (send_new_card env) (\<lambda>_. bind (resolve_card env) (\<lambda>_. bind (update_delivered_card env) k)) (h, r)" for k :: "unit \<Rightarrow> (('s, 'c) delivery, bool) eff"
  proof (rule bind_cong_keeps [where J = ?J])
    fix x s' assume "?J s'"
    then show "bind (resolve_card env) (\<lambda>_. bind (update_delivered_card ?env') k) s' =
        bind (resolve_card env) (\<lambda>_. bind (update_delivered_card env) k) s'"
      by (rule bind_cong_keeps [where J = ?J, OF status.keeps_resolve])
        (auto simp: bind_def update_ignores_patch requires_approval_def)
  qed (use assms in \<open>auto intro: status.keeps_send\<close>)
  then show ?thesis by (simp add: sync_card_delivery_def rescue_def same)
qed

subsection \<open>Numbers of a stream\<close>

text \<open>A service that notes the number of every call of a stream, in front of any service.\<close>

definition unnumbered :: "('c, 'a) eff \<Rightarrow> ('c \<times> int list, 'a) eff" where
  "unnumbered m = (\<lambda>(c, l). let (r, c') = m c in (r, (c', l)))"

definition numbered :: "int \<Rightarrow> ('c, 'a) eff \<Rightarrow> ('c \<times> int list, 'a) eff" where
  "numbered n m = (\<lambda>(c, l). let (r, c') = m c in (r, (c', l @ [n])))"

definition numbering :: "'c feishu_client \<Rightarrow> ('c \<times> int list) feishu_client" where
  "numbering cl =
     \<lparr>fc_send_text = (\<lambda>chat s thread. unnumbered (fc_send_text cl chat s thread)),
      fc_send_card = (\<lambda>chat body thread. unnumbered (fc_send_card cl chat body thread)),
      fc_resolve_card = (\<lambda>reply. unnumbered (fc_resolve_card cl reply)),
      fc_enable_stream = (\<lambda>c u n. numbered n (fc_enable_stream cl c u n)),
      fc_disable_stream = (\<lambda>c u n. numbered n (fc_disable_stream cl c u n)),
      fc_stream_update = (\<lambda>c body u n. numbered n (fc_stream_update cl c body u n)),
      fc_update_card = (\<lambda>reply body. unnumbered (fc_update_card cl reply body)),
      fc_add_reaction = (\<lambda>m kind. unnumbered (fc_add_reaction cl m kind)),
      fc_remove_reaction = (\<lambda>m reaction. unnumbered (fc_remove_reaction cl m reaction))\<rparr>"

definition numbers_below :: "int list \<Rightarrow> int \<Rightarrow> bool" where
  "numbers_below l n \<longleftrightarrow> sorted_wrt (<) l \<and> (\<forall>k \<in> set l. k < n)"

abbreviation noted :: "('s, 'c \<times> int list) feishu_host \<Rightarrow> int list" where
  "noted h \<equiv> snd (fh_client h)"

abbreviation noted_below :: "('s, 'c \<times> int list) delivery \<Rightarrow> bool" where
  "noted_below \<equiv> \<lambda>(h, r). numbers_below (noted h) (cr_sequence r)"

abbreviation noting :: "('c \<times> int list) feishu_env \<Rightarrow> 'c feishu_client \<Rightarrow> ('c \<times> int list) feishu_env" where
  "noting env cl \<equiv> env\<lparr>fe_client := numbering cl\<rparr>"

lemma numbers_below_next: "numbers_below l n \<Longrightarrow> numbers_below (l @ [n]) (n + 1)"
  by (auto simp: numbers_below_def sorted_wrt_append less_imp_le_nat)

lemma unnumbered_noted [simp]: "snd (snd (unnumbered m s)) = snd s"
  by (simp add: unnumbered_def split: prod.split)

lemma keeps_unnumbered: "keeps (\<lambda>h. P (noted h)) (on_client (unnumbered m))"
  by (auto simp: keeps_def on_client_def unnumbered_def split: prod.splits)

lemma keeps_noted_op:
  assumes "\<And>P. keeps (\<lambda>h. P (noted h)) m"
  shows "keeps noted_below (host_op m)"
proof -
  have "noted_below (snd (host_op m s))" if "noted_below s" for s
    using keepsD [OF assms, of "\<lambda>l. numbers_below l (cr_sequence (snd s))" "fst s"] that
    by (cases s) (auto simp: host_op_def split: prod.splits)
  then show ?thesis by (simp add: keeps_def)
qed

lemma keeps_noted_clock: "keeps (\<lambda>h. P (noted h)) (clock_tick env)" "keeps (\<lambda>h. P (noted h)) (fresh_hex env)"
  by (simp_all add: keeps_def clock_tick_def fresh_hex_def)

lemma keeps_ensure_uuid: "keeps noted_below (ensure_stream_uuid env)"
  unfolding ensure_stream_uuid_def the_card_def change_card_def Let_def
  by (auto intro!: keeping keeps_noted_op keeps_noted_clock keeps_modify split: option.split)

lemma keeps_numbered:
  fixes m :: "string \<Rightarrow> int \<Rightarrow> ('c, unit) eff"
  shows "keeps (noted_below :: ('s, 'c \<times> int list) delivery \<Rightarrow> bool) (with_sequence env (\<lambda>u n. numbered n (m u n)))"
  unfolding with_sequence_def
proof (rule keeps_bind [OF keeps_ensure_uuid], unfold keeps_def, intro allI impI)
  fix u and s :: "('s, 'c \<times> int list) delivery"
  assume "noted_below s"
  then show "noted_below (snd (bind (next_stream_sequence env) (\<lambda>n. host_op (on_client (numbered n (m u n)))) s))"
    using numbers_below_next
    by (cases s) (auto simp: next_stream_sequence_def stamp_card_def change_card_def the_card_def clock_tick_def host_op_def
        on_client_def numbered_def bind_def gets_def modify_def ret_def split: prod.splits)
qed

interpretation numbers: card_invariant "noting env cl" noted_below for env cl
  by unfold_locales
    (auto simp: numbering_def intro!: keeps_noted_op keeps_unnumbered keeps_numbered)

lemma keeps_noted_ledger: "keeps (\<lambda>h. P (noted h)) (store_card env r)"
  unfolding store_card_def
  by (auto intro!: keeping keeps_noted_clock keeps_modify split: option.split)

lemma keeps_noted_completed: "keeps (\<lambda>h. P (noted h)) (mark_completed (noting env cl) i)"
  unfolding mark_completed_def numbering_def
  by (auto intro!: keeping keeps_unnumbered keeps_modify split: option.split)

lemma keeps_noted_text: "keeps (\<lambda>h. P (noted h)) (dispatch_text (noting env cl) e)"
proof -
  have send: "keeps (\<lambda>h. P (noted h)) (on_client (feishu_send (numbering cl) m))" for m
    by (auto simp: keeps_def on_client_def feishu_send_def numbering_def bind_def lift_def unnumbered_def split: prod.splits sum.splits)
  show ?thesis
    unfolding dispatch_text_def by (auto intro!: keeping send split: option.split)
qed

text \<open>What one event does to the card: its number stays above the numbers noted.\<close>

lemma dispatch_to_card_noted:
  assumes "noted_below (h, r)"
  obtains b r' h' where "dispatch_to_card (noting env cl) e r h = (Inr (b, r'), h')" "noted_below (h', r')"
proof -
  let ?env = "noting env cl"
  obtain t h1 where t: "clock_tick ?env h = (Inr t, h1)" "noted h1 = noted h"
    by (simp add: clock_tick_def)
  define r1 where "r1 = apply_runtime_event t (egress_type e) (egress_payload e) r"
  have seq: "cr_sequence r1 = cr_sequence r"
    by (simp add: r1_def apply_runtime_event_def redrawn_def card_event_def Let_def)
  have "\<exists>fl h2. should_flush ?env (egress_type e) r1 h1 = (Inr fl, h2) \<and> noted h2 = noted h1"
    by (auto simp: should_flush_def ret_def bind_def clock_tick_def)
  then obtain fl h2 where f: "should_flush ?env (egress_type e) r1 h1 = (Inr fl, h2)" "noted h2 = noted h1"
    by blast
  have J: "noted_below (h2, r1)" using assms seq t f by simp
  have store: "\<exists>h'. bind (store_card ?env r') (\<lambda>_. ret x) h2' = (Inr x, h') \<and> noted h' = noted h2'" for r' h2' and x :: "bool \<times> card_record"
    by (auto simp: store_card_def bind_def gets_def ret_def clock_tick_def modify_def split: option.split)
  have eq: "dispatch_to_card ?env e r h = (if fl then deliver_card ?env r1 else bind (store_card ?env r1) (\<lambda>_. ret (False, r1))) h2"
    unfolding dispatch_to_card_def Let_def bind_Inr [where m = "clock_tick ?env", OF t(1)] r1_def [symmetric]
      bind_Inr [where m = "should_flush ?env (egress_type e) r1", OF f(1)] ..
  show ?thesis
  proof (cases fl)
    case True
    obtain b h3 r3 where s: "sync_card_delivery ?env (h2, r1) = (Inr b, (h3, r3))" using sync_returns by (metis surj_pair)
    have "noted_below (h3, r3)" using keepsD [OF numbers.keeps_sync [of cl env] J] by (simp add: s)
    with store [of r3 "(b, r3)" h3] that show ?thesis
      by (auto simp: eq True deliver_card_def s)
  next
    case False
    with store [of r1 "(False, r1)" h2] that J show ?thesis
      by (auto simp: eq)
  qed
qed

lemma snd_bind_ret: "snd (bind m (\<lambda>x. ret (f x)) s) = snd (m s)"
  by (auto simp: bind_def ret_def split: prod.split sum.split)

lemma bind_noted:
  assumes "\<And>P. keeps (\<lambda>h. P (noted h)) m" "Q (noted h)" "\<And>x h'. noted h' = noted h \<Longrightarrow> Q (noted (snd (f x h')))"
  shows "Q (noted (snd (bind m f h)))"
proof -
  obtain a h' where m: "m h = (a, h')" by (cases "m h")
  have "noted h' = noted h" using keepsD [OF assms(1) [of "\<lambda>l. l = noted h"], of h] by (simp add: m)
  then show ?thesis using assms(2,3) by (cases a) (simp_all add: bind_def m)
qed

text \<open>
  C35. Over every sequence of events that is delivered to a card the calls of its stream carry strictly
  increasing sequence numbers, whatever the service answers and wherever it fails.
\<close>

theorem stream_numbers_increase:
  fixes h :: "('s, 'c \<times> int list) feishu_host"
  assumes "numbers_below (noted h) (cr_sequence r)"
  shows "sorted_wrt (<) (noted (snd (dispatch_egress (noting env cl) (Some r) completion es h)))"
  using assms
proof (induction es arbitrary: h r completion)
  case Nil
  then show ?case by (simp add: ret_def numbers_below_def)
next
  case (Cons e es)
  let ?env = "noting env cl"
  show ?case
  proof (cases "egress_type e \<in> set reply_card_events")
    case True
    obtain b r' h' where d: "dispatch_to_card ?env e r h = (Inr (b, r'), h')" "noted_below (h', r')"
      using dispatch_to_card_noted [of h r cl env e] Cons.prems by auto
    have below: "numbers_below (noted h') (cr_sequence r')" using d(2) by simp
    let ?k = "b \<and> completion \<noteq> None \<and> is_stable r'"
    have completes: "keeps (\<lambda>h. P (noted h)) (if ?k then mark_completed ?env completion else ret ())" for P
      by (intro keeping keeps_noted_completed)
    have "sorted_wrt (<) (noted (snd (bind (if ?k then mark_completed ?env completion else ret ())
        (\<lambda>_. bind (dispatch_egress ?env (Some r') (if ?k then None else completion) es) (\<lambda>ms. ret (card_message r' # ms))) h')))"
    proof (rule bind_noted [OF completes])
      show "sorted_wrt (<) (noted h')" using below by (simp add: numbers_below_def)
      fix x and h2 :: "('s, 'c \<times> int list) feishu_host"
      assume "noted h2 = noted h'"
      then show "sorted_wrt (<) (noted (snd (bind (dispatch_egress ?env (Some r') (if ?k then None else completion) es)
          (\<lambda>ms. ret (card_message r' # ms)) h2)))"
        using Cons.IH [of h2 r' "if ?k then None else completion"] below by (simp add: snd_bind_ret)
    qed
    then show ?thesis using True by (simp add: bind_Inr [where m = "dispatch_to_card ?env e r", OF d(1)] Let_def)
  next
    case False
    have "sorted_wrt (<) (noted (snd (bind (dispatch_text ?env e)
        (\<lambda>m. bind (dispatch_egress ?env (Some r) completion es) (\<lambda>ms. ret (m @ ms))) h)))"
    proof (rule bind_noted [OF keeps_noted_text])
      show "sorted_wrt (<) (noted h)" using Cons.prems by (simp add: numbers_below_def)
      fix m and h2 :: "('s, 'c \<times> int list) feishu_host"
      assume "noted h2 = noted h"
      then show "sorted_wrt (<) (noted (snd (bind (dispatch_egress ?env (Some r) completion es) (\<lambda>ms. ret (m @ ms)) h2)))"
        using Cons.IH [of h2 r completion] Cons.prems by (simp add: snd_bind_ret)
    qed
    then show ?thesis using False by simp
  qed
qed

subsection \<open>An example\<close>

text \<open>A service that takes everything, one that refuses the approval cards, and a runtime that fails.\<close>

definition demo_service :: "unit feishu_client" where
  "demo_service =
     \<lparr>fc_send_text = (\<lambda>_ _ _. ret ()), fc_send_card = (\<lambda>_ _ _. ret ''om_card''), fc_resolve_card = (\<lambda>_. ret ''card_1''),
      fc_enable_stream = (\<lambda>_ _ _. ret ()), fc_disable_stream = (\<lambda>_ _ _. ret ()), fc_stream_update = (\<lambda>_ _ _ _. ret ()),
      fc_update_card = (\<lambda>_ _. ret ()), fc_add_reaction = (\<lambda>_ _. ret (Some ''r1'')), fc_remove_reaction = (\<lambda>_ _. ret ())\<rparr>"

definition demo_feishu :: "'c feishu_client \<Rightarrow> 'c feishu_env" where
  "demo_feishu cl =
     \<lparr>fe_client = cl, fe_format = tick_format, fe_trunc = py_int, fe_loads = (\<lambda>_. None), fe_clock = int, fe_hex = nat_str,
      fe_mention = True, fe_ttl = 1000, fe_retry = 5, fe_flush = 1, fe_management = None\<rparr>"

definition demo_card :: card_record where
  "demo_card = initial_card ''om_1'' ''s1'' ''feishu:chat:oc_1'' ''oc_1'' None ''Hello'' ''00'' 0"

definition demo_feishu_host :: "'c \<Rightarrow> (unit, 'c) feishu_host" where
  "demo_feishu_host c = \<lparr>fh_gateway = new_gateway () None, fh_client = c, fh_dedupe = Some (MemorySeen []), fh_ledger = None,
     fh_reactions = [], fh_ticks = 0, fh_hexes = 0\<rparr>"

definition demo_egress :: "string \<Rightarrow> json_object \<Rightarrow> egress_envelope" where
  "demo_egress ty p = \<lparr>ee_channel = ''feishu'', ee_conversation = ''feishu:chat:oc_1'', ee_session = ''s1'',
     ee_event = [(''event_type'', JStr ty), (''payload'', JDict p)]\<rparr>"

text \<open>The event of a message, and the runtime of a gateway that cannot start a session.\<close>

definition demo_message :: "string \<Rightarrow> string \<Rightarrow> json_object" where
  "demo_message i content = [(''event_type'', JStr message_event_type), (''event'', JDict
     [(''message'', JDict [(''message_id'', JStr i), (''chat_id'', JStr ''oc_1''), (''chat_type'', JStr ''p2p''),
        (''message_type'', JStr ''text''), (''content'', JStr content)]), (''sender'', JDict [])])]"

definition failing_runtime :: "unit session_runtime" where
  "failing_runtime = \<lparr>sa_spawn = (\<lambda>_. throw (RuntimeErr ''no session'')), sa_write = (\<lambda>_ _. throw (RuntimeErr ''no session'')),
     sa_observe = (\<lambda>_ _. ret []), sa_continue = (\<lambda>_ _. ret []), sa_kill = (\<lambda>_. ret ()),
     sa_checkpoint = (\<lambda>_. throw (RuntimeErr ''no session'')), sa_marker = (\<lambda>_. ret None)\<rparr>"

subsection \<open>Redelivered messages\<close>

lemma keeps_dedupe_modify [keeping]:
  "keeps (\<lambda>h. fh_dedupe h = d) (modify (\<lambda>h. h\<lparr>fh_reactions := f h\<rparr>))"
  "keeps (\<lambda>h. fh_dedupe h = d) (modify (\<lambda>h. h\<lparr>fh_ledger := g h\<rparr>))"
  by (simp_all add: keeps_def modify_def)

lemma dedupe_store_card [keeping]: "keeps (\<lambda>h. fh_dedupe h = d) (store_card env r)"
  unfolding store_card_def by (auto intro!: keeping split: option.split)

lemma dedupe_deliver [keeping]: "keeps (\<lambda>h. fh_dedupe h = d) (deliver_card env r)"
  by (intro deliver_keeps dedupe.keeps_sync keeping)

lemma dedupe_marks [keeping]:
  "keeps (\<lambda>h. fh_dedupe h = d) (mark_in_progress env i)" "keeps (\<lambda>h. fh_dedupe h = d) (mark_completed env i)"
  unfolding mark_in_progress_def mark_completed_def by (auto intro!: keeping split: option.split)

lemma dedupe_texts [keeping]: "keeps (\<lambda>h. fh_dedupe h = d) (dispatch_text env e)"
  unfolding dispatch_text_def by (auto intro!: keeping split: option.split)

lemma dedupe_to_card [keeping]: "keeps (\<lambda>h. fh_dedupe h = d) (dispatch_to_card env e r)"
  unfolding dispatch_to_card_def should_flush_def Let_def by (auto intro!: keeping)

lemma dedupe_egress [keeping]: "keeps (\<lambda>h. fh_dedupe h = d) (dispatch_egress env r completion es)"
  by (induction es arbitrary: r completion) (auto intro!: keeping simp: Let_def split: option.split)

lemma dedupe_responses [keeping]: "keeps (\<lambda>h. fh_dedupe h = d) (dispatch_responses env target ds)"
  by (induction ds) (auto intro!: keeping simp: Let_def)

lemma dedupe_retry [keeping]: "keeps (\<lambda>h. fh_dedupe h = d) (retry_pending_cards env conversation)"
  unfolding retry_pending_cards_def retry_card_def by (auto intro!: keeping split: option.split)

lemma dedupe_inbound: "keeps (\<lambda>h. fh_dedupe h = d) (handle_inbound env rt mid inbound)"
proof -
  have errors: "keeps (\<lambda>h. fh_dedupe h = d) (case e of KeyError x \<Rightarrow> k | _ \<Rightarrow> throw e)"
    if "keeps (\<lambda>h. fh_dedupe h = d) k" for e k
    using that by (cases e) (auto intro: keeping)
  show ?thesis
    unfolding handle_inbound_def handle_management_def handle_control_def handle_prompt_def dispatch_management_def
      ensure_binding_def ensure_turn_card_def Let_def
    by (auto intro!: keeping errors split: option.split)
qed

lemma seen_before_run:
  assumes "fh_dedupe h = Some st"
  shows "seen_before env (Some i) h =
    (let (dup, st') = check_and_mark (fe_format env) (fe_ttl env) (fe_clock env (fh_ticks h)) (Some i) st in
     (Inr dup, h\<lparr>fh_ticks := Suc (fh_ticks h), fh_dedupe := Some st'\<rparr>))"
  using assms by (simp add: seen_before_def clock_tick_def bind_def gets_def modify_def ret_def split: prod.split)

text \<open>A message marked at one time is known as long as its entry has not expired.\<close>

lemma marked_is_known:
  assumes "times_readable cf" "check_and_mark cf ttl t (Some i) st = (False, st')" "py_strip i \<noteq> []" "now - ttl \<le> t"
  shows "fst (check_and_mark cf ttl now (Some i) st') = True"
proof -
  have known: "fst (mark_seen ttl now i d') = True"
    if "mark_seen ttl t i d = (False, d0)" "map_of d' = map_of d0" "set d' = set d0" for d d' d0
  proof -
    have "d0 = dict_set i t (still_seen (t - ttl) d)" using that(1) by (simp add: mark_seen_def Let_def split: if_splits)
    then have "(i, t) \<in> set d'" using that(3) by (metis dict_get_set fun_upd_same map_of_SomeD)
    then show ?thesis using assms(4) by (force simp: mark_seen_def still_seen_def Let_def)
  qed
  show ?thesis
  proof (cases st)
    case (MemorySeen d)
    then obtain d0 where "mark_seen ttl t i d = (False, d0)" "st' = MemorySeen d0"
      using assms(2,3) by (auto split: prod.splits)
    then show ?thesis using known [of d d0 d0] assms(3) by (auto split: prod.split)
  next
    case (FileSeen f)
    then obtain d0 where "mark_seen ttl t i (load_seen cf f) = (False, d0)" "st' = FileSeen (save_seen cf d0)"
      using assms(2,3) by (auto split: prod.splits)
    then show ?thesis
      using known [of "load_seen cf f" d0 "sort_key fst d0"] assms(3) by (simp add: load_save_seen [OF assms(1)] case_prod_unfold)
  qed
qed

lemma py_strip_idem: "py_strip (py_strip s) = py_strip s"
proof (cases "py_strip s")
  case (Cons c u)
  let ?t = "dropWhile is_space s"
  have strip: "py_strip s = rev (dropWhile is_space (rev ?t))" by (simp add: py_strip_def)
  have "prefix (py_strip s) ?t"
    using suffix_dropWhile [of is_space "rev ?t"] by (simp add: strip suffix_to_prefix)
  then have "?t \<noteq> []" "hd ?t = c" using Cons by (auto simp: prefix_def simp del: dropWhile_eq_Nil_conv)
  then have c: "\<not> is_space c" using hd_dropWhile [of is_space s] by simp
  have "dropWhile is_space (rev (py_strip s)) = rev (py_strip s)" by (simp add: strip)
  then show ?thesis using c by (simp add: Cons py_strip_def [of "c # u"])
next
  case Nil
  show ?thesis unfolding Nil by (simp add: py_strip_def)
qed

lemma message_id_nonempty: "message_id_of raw = Some i \<Longrightarrow> py_strip i \<noteq> []"
  by (auto simp: message_id_of_def py_strip_idem split: option.splits if_splits)

text \<open>
  A message is handled at most once within the time it is remembered: when it was new, its second
  delivery is answered with nothing and changes neither the gateway nor the service, the ledger and
  the reactions.  This holds as well when handling it the first time raised, so such a message is lost:
  the service delivers it again, and the host drops it.
\<close>

theorem redelivery_ignored:
  assumes "times_readable (fe_format env)" "\<not> is_card_action raw" "message_id_of raw = Some i" "fh_dedupe h = Some st"
    and new: "check_and_mark (fe_format env) (fe_ttl env) (fe_clock env (fh_ticks h)) (Some i) st = (False, st')"
    and first: "handle_event env rt raw h = (answer, h1)"
    and soon: "fe_clock env (fh_ticks h1) - fe_ttl env \<le> fe_clock env (fh_ticks h)"
  shows "\<exists>h2. handle_event env rt raw h1 = (Inr (Outbound []), h2) \<and> fh_gateway h2 = fh_gateway h1 \<and>
    fh_client h2 = fh_client h1 \<and> fh_ledger h2 = fh_ledger h1 \<and> fh_reactions h2 = fh_reactions h1"
proof -
  define h0 where "h0 = h\<lparr>fh_ticks := Suc (fh_ticks h), fh_dedupe := Some st'\<rparr>"
  have seen: "seen_before env (Some i) h = (Inr False, h0)"
    using seen_before_run [where env = env and i = i, OF assms(4)] new by (simp add: h0_def)
  have d1: "fh_dedupe h1 = Some st'"
  proof (cases "normalize_inbound (fe_loads env) (fe_mention env) raw")
    case None
    then have "h1 = h0" using first assms(2,3) seen by (simp add: handle_event_def bind_def ret_def)
    then show ?thesis by (simp add: h0_def)
  next
    case (Some inbound)
    then have "h1 = snd (handle_inbound env rt (Some i) inbound h0)"
      using first assms(2,3) seen by (auto simp: handle_event_def bind_def ret_def split: prod.splits sum.splits)
    then show ?thesis using keepsD [OF dedupe_inbound, of h0 "Some st'"] by (simp add: h0_def)
  qed
  obtain st2 where "check_and_mark (fe_format env) (fe_ttl env) (fe_clock env (fh_ticks h1)) (Some i) st' = (True, st2)"
    using marked_is_known [OF assms(1) new message_id_nonempty [OF assms(3)] soon] by (metis prod.collapse)
  then have "seen_before env (Some i) h1 = (Inr True, h1\<lparr>fh_ticks := Suc (fh_ticks h1), fh_dedupe := Some st2\<rparr>)"
    using seen_before_run [where env = env and i = i, OF d1] by simp
  then show ?thesis using assms(2,3) by (simp add: handle_event_def bind_def ret_def)
qed

text \<open>The message whose handling fails, and the answer when the service delivers it again.\<close>

definition lost_message :: "(py_error + feishu_reply) \<times> (unit, unit) feishu_host" where
  "lost_message = handle_event (demo_feishu demo_service) failing_runtime (demo_message ''om_1'' ''Hello'') (demo_feishu_host ())"

lemma redelivery_ignored_witness:
  "fst lost_message = Inl (RuntimeErr ''no session'') \<and>
   (\<exists>h2. handle_event (demo_feishu demo_service) failing_runtime (demo_message ''om_1'' ''Hello'') (snd lost_message) =
     (Inr (Outbound []), h2) \<and> fh_gateway h2 = fh_gateway (snd lost_message) \<and> fh_client h2 = fh_client (snd lost_message) \<and>
     fh_ledger h2 = fh_ledger (snd lost_message) \<and> fh_reactions h2 = fh_reactions (snd lost_message))"
proof -
  have "fst lost_message = Inl (RuntimeErr ''no session'')" by code_simp
  moreover have "handle_event (demo_feishu demo_service) failing_runtime (demo_message ''om_1'' ''Hello'') (demo_feishu_host ()) =
      (fst lost_message, snd lost_message)"
    by (simp add: lost_message_def)
  note redelivery_ignored [OF _ _ _ _ _ this, where i = "''om_1''" and st = "MemorySeen []" and st' = "MemorySeen [(''om_1'', 0)]"]
  moreover have "times_readable (fe_format (demo_feishu demo_service))" by (simp add: demo_feishu_def tick_format_readable)
  moreover have "\<not> is_card_action (demo_message ''om_1'' ''Hello'')" "message_id_of (demo_message ''om_1'' ''Hello'') = Some ''om_1''"
    "check_and_mark (fe_format (demo_feishu demo_service)) (fe_ttl (demo_feishu demo_service))
      (fe_clock (demo_feishu demo_service) (fh_ticks (demo_feishu_host ()))) (Some ''om_1'') (MemorySeen []) = (False, MemorySeen [(''om_1'', 0)])"
    "fe_clock (demo_feishu demo_service) (fh_ticks (snd lost_message)) - fe_ttl (demo_feishu demo_service)
      \<le> fe_clock (demo_feishu demo_service) (fh_ticks (demo_feishu_host ()))"
    by code_simp+
  moreover have "fh_dedupe (demo_feishu_host ()) = Some (MemorySeen [])" by (simp add: demo_feishu_host_def)
  ultimately show ?thesis by blast
qed

definition demo_stream :: "(unit, unit \<times> int list) feishu_host" where
  "demo_stream = snd (dispatch_egress (noting (demo_feishu (numbering demo_service)) demo_service) (Some demo_card) None
     [demo_egress ''assistant_delta'' [(''delta'', JStr ''Hi'')], demo_egress ''turn_completed'' []] (demo_feishu_host ((), [])))"

lemma stream_numbers_increase_witness: "noted demo_stream = [1, 2, 3, 4] \<and> sorted_wrt (<) (noted demo_stream)"
proof
  show "noted demo_stream = [1, 2, 3, 4]" by code_simp
  show "sorted_wrt (<) (noted demo_stream)"
    unfolding demo_stream_def by (rule stream_numbers_increase) (simp add: demo_feishu_host_def numbers_below_def)
qed

text \<open>A service that has no CardKit for the app: the card that asks for an approval cannot be delivered.\<close>

definition no_cardkit_service :: "unit feishu_client" where
  "no_cardkit_service = demo_service\<lparr>fc_resolve_card := (\<lambda>_. throw (RuntimeErr ''code=99991672''))\<rparr>"

definition approval_card :: card_record where
  "approval_card = apply_runtime_event 1 ''requires_action'' [(''tool_name'', JStr ''Bash'')] demo_card"

lemma approval_card_never_patched_witness:
  "sync_card_delivery ((demo_feishu no_cardkit_service)\<lparr>fe_client := (fe_client (demo_feishu no_cardkit_service))
       \<lparr>fc_update_card := (\<lambda>_ _. throw (RuntimeErr ''patched''))\<rparr>\<rparr>) (demo_feishu_host (), approval_card) =
     sync_card_delivery (demo_feishu no_cardkit_service) (demo_feishu_host (), approval_card) \<and>
   cr_error (snd (snd (sync_card_delivery (demo_feishu no_cardkit_service) (demo_feishu_host (), approval_card)))) = Some approval_error"
proof
  have "cr_status approval_card = ''requires_action''" by code_simp
  then show "sync_card_delivery ((demo_feishu no_cardkit_service)\<lparr>fe_client := (fe_client (demo_feishu no_cardkit_service))
       \<lparr>fc_update_card := (\<lambda>_ _. throw (RuntimeErr ''patched''))\<rparr>\<rparr>) (demo_feishu_host (), approval_card) =
     sync_card_delivery (demo_feishu no_cardkit_service) (demo_feishu_host (), approval_card)"
    by (rule approval_card_never_patched)
  show "cr_error (snd (snd (sync_card_delivery (demo_feishu no_cardkit_service) (demo_feishu_host (), approval_card)))) = Some approval_error"
    by code_simp
qed

lemma stored_card_found_witness:
  "card_by_request tick_format py_int 9 ''om_1'' (upsert_card tick_format py_int 8 approval_card None) = Some (stored_card approval_card)"
proof -
  have "cr_request approval_card = ''om_1''" by code_simp
  then show ?thesis by (simp add: stored_card_found [OF tick_format_readable])
qed

subsection \<open>Conversation ids\<close>

text \<open>The chat and the thread are read back from the id of the conversation, when they hold no colon.\<close>

lemma conversation_id_read_back:
  assumes "CHR '':'' \<notin> set chat" "\<And>t. thread = Some t \<Longrightarrow> CHR '':'' \<notin> set t \<and> t \<noteq> []"
  shows "parse_conversation_id (feishu_conversation_id chat thread) = Inr (chat, thread)"
proof -
  have fc: "split_on (CHR '':'') (''feishu:chat:'' @ s) = ''feishu'' # ''chat'' # split_on (CHR '':'') s" for s
    by (cases "split_on (CHR '':'') s") simp_all
  show ?thesis
  proof (cases thread)
    case None
    then show ?thesis using assms(1) fc [of chat] by (simp add: parse_conversation_id_def feishu_conversation_id_def)
  next
    case (Some t)
    have "split_on (CHR '':'') (chat @ '':thread:'' @ t) = [chat, ''thread'', t]"
      using assms Some by (simp add: split_on_append)
    then show ?thesis
      using assms Some fc [of "chat @ '':thread:'' @ t"] by (simp add: parse_conversation_id_def feishu_conversation_id_def)
  qed
qed

subsection \<open>Answers on a card\<close>

definition ink :: "string \<Rightarrow> string" where
  "ink s = filter (\<lambda>c. \<not> is_space c) s"

lemma ink_simps [simp]: "ink [] = []" "ink (c # s) = (if is_space c then ink s else c # ink s)" "ink (s @ t) = ink s @ ink t"
  by (simp_all add: ink_def)

lemma ink_rev: "ink (rev s) = rev (ink s)"
  by (simp add: ink_def rev_filter)

lemma ink_dropWhile [simp]: "ink (dropWhile is_space s) = ink s"
  by (induction s) simp_all

lemma ink_strip [simp]: "ink (py_strip s) = ink s" "ink (py_rstrip s) = ink s"
  by (simp_all add: py_strip_def py_rstrip_def ink_rev)

lemma newline_space [simp]: "is_space newline"
  by (simp add: is_space_def newline_def code_def Let_def)

lemma ink_join: "ink (py_join [newline] ls) = ink (concat ls)"
  by (induction "[newline]" ls rule: py_join.induct) simp_all

lemma ink_split: "ink (concat (split_on newline s)) = ink s"
proof (induction s)
  case (Cons c s)
  then show ?case by (cases "split_on newline s") auto
qed simp

definition block_ink :: "block_state \<Rightarrow> string" where
  "block_ink b = ink (concat (bs_blocks b)) @ ink (concat (bs_lines b))"

lemma flush_block_ink [simp]: "block_ink (flush_block b) = block_ink b"
  by (simp add: block_ink_def flush_block_def ink_join)

lemma flush_block_done: "bs_lines (flush_block b) = []"
  by (simp add: flush_block_def)

lemma add_block_line_ink [simp]: "block_ink (add_block_line line k b) = block_ink b @ ink line"
  by (simp add: block_ink_def add_block_line_def)

lemma block_fence_ink [simp]: "block_ink (b\<lparr>bs_fence := x\<rparr>) = block_ink b"
  by (simp add: block_ink_def)

lemma block_step_ink: "block_ink (block_step raw b) = block_ink b @ ink raw"
proof -
  have "py_strip (py_rstrip raw) = [] \<Longrightarrow> ink raw = []" by (metis ink_simps(1) ink_strip)
  moreover have "block_ink (b\<lparr>bs_lines := bs_lines b @ [line]\<rparr>) = block_ink b @ ink line" for line
    by (simp add: block_ink_def)
  ultimately show ?thesis by (auto simp: block_step_def Let_def)
qed

lemma fold_block_ink: "block_ink (fold block_step ls b) = block_ink b @ ink (concat ls)"
  by (induction ls arbitrary: b) (simp_all add: block_step_ink)

lemma concat_nonempty: "concat (filter (\<lambda>x. x \<noteq> []) xs) = concat xs"
  by (induction xs) simp_all


text \<open>The buttons of a card are there exactly as long as it waits for a decision.\<close>

lemma buttons_iff_waiting: "card_actions r \<noteq> [] \<longleftrightarrow> requires_approval r"
  by (simp add: card_actions_def requires_approval_def)

text \<open>The tag of a mention loses the key before the pattern for the tag is looked for, so the tag stays.\<close>

lemma mention_tag_stays:
  "strip_mentions ''<at user_id=ou_1></at> hello'' [[(''key'', JStr ''ou_1'')]] = ''<at user_id=></at> hello''"
  by code_simp

text \<open>An event without the id of its card names the card \<^verbatim>\<open>None\<close>, and one without the id of its user the user \<^verbatim>\<open>None\<close>.\<close>

lemma absent_ids_are_none:
  "action_reply_id [(''context'', JDict [])] = ''None''" "action_user [(''operator'', JDict [])] = Some ''None''"
  by code_simp+

text \<open>A list is not told from a paragraph, as the patterns ask for a backslash.\<close>

lemma bullets_are_paragraphs: "markdown_line_kind ''- item'' = Paragraph" "markdown_line_kind ''1. item'' = Paragraph"
  by code_simp+

end
