(* ===== verification/PrivateChat.thy ===== *)
theory PrivateChat
  imports FeishuHost
begin

text \<open>
  The private chat channels WeCom and WeChat: \<^verbatim>\<open>adapter.py\<close>, \<^verbatim>\<open>dedupe.py\<close> and \<^verbatim>\<open>host.py\<close> of
  \<^verbatim>\<open>gateway/channels/wecom\<close> and \<^verbatim>\<open>gateway/channels/wechat\<close>, and what \<^verbatim>\<open>wecom/client.py\<close>
  makes of a frame.  The two channels are the same code but for their name, and for a notice that WeCom
  sends before the turn: the record \<open>private_channel\<close> holds what differs.  The service is the
  operation \<open>pe_respond\<close> over a state \<open>'c\<close>; the client of WeChat ignores its last argument.
\<close>

subsection \<open>Adapters\<close>

record private_channel =
  pc_name :: string
  pc_label :: string
  pc_notice :: "string option"

text \<open>The notice of WeCom is a Chinese sentence, which stands for itself here.\<close>

definition wecom_channel :: "string \<Rightarrow> private_channel" where
  "wecom_channel notice = \<lparr>pc_name = ''wecom'', pc_label = ''WeCom'', pc_notice = Some notice\<rparr>"

definition wechat_channel :: private_channel where
  "wechat_channel = \<lparr>pc_name = ''wechat'', pc_label = ''WeChat'', pc_notice = None\<rparr>"

definition private_prefix :: "private_channel \<Rightarrow> string" where
  "private_prefix ch = pc_name ch @ '':private:''"

definition private_conversation_id :: "private_channel \<Rightarrow> string \<Rightarrow> string" where
  "private_conversation_id ch key = private_prefix ch @ key"

definition parse_private_id :: "private_channel \<Rightarrow> string \<Rightarrow> py_error + string" where
  "parse_private_id ch s =
     (if py_startswith s (private_prefix ch) then Inr (drop (length (private_prefix ch)) s)
      else Inl (ValueError (''Invalid '' @ pc_label ch @ '' conversation id: '' @ s)))"

definition raw_text :: "json_object \<Rightarrow> string \<Rightarrow> string" where
  "raw_text raw k = py_str (dict_get_default raw k (JStr []))"

definition normalize_private :: "private_channel \<Rightarrow> json_object \<Rightarrow> inbound_envelope option" where
  "normalize_private ch raw =
     (let content = py_strip (raw_text raw ''content''); key = py_strip (raw_text raw ''conversation_id'');
          user = py_strip (raw_text raw ''from_user'') in
      if raw_text raw ''type'' \<noteq> ''message'' \<or> raw_text raw ''message_type'' \<noteq> ''text'' \<or> content = [] \<or> key = [] then None
      else let (kind, payload) = parse_input content in
        Some \<lparr>ie_identity = channel_identity_to_dict
            \<lparr>ci_channel = pc_name ch, ci_user = (if user = [] then None else Some user),
             ci_conversation = Some (private_conversation_id ch key), ci_device = None\<rparr>,
          ie_kind = kind, ie_payload = payload,
          ie_delivery = [(''message_id'', JStr (raw_text raw ''message_id'')), (''conversation_id'', JStr key),
            (''sender_display_name'', JStr (raw_text raw ''sender_display_name''))]\<rparr>)"

text \<open>The key of the conversation and the text of an answer.\<close>

definition project_private :: "private_channel \<Rightarrow> egress_envelope \<Rightarrow> py_error + (string \<times> string) option" where
  "project_private ch e = (case event_text (egress_type e) (egress_payload e) of
     None \<Rightarrow> Inr None
   | Some s \<Rightarrow> ebind (parse_private_id ch (ee_conversation e)) (\<lambda>key. Inr (Some (key, s))))"

subsection \<open>Messages seen before\<close>

datatype known_store = KnownMemory "string list" | KnownFile "json option"

definition load_known :: "json option \<Rightarrow> string list" where
  "load_known f = (case f of Some (JList l) \<Rightarrow> remdups (List.map_filter as_str l) | _ \<Rightarrow> [])"

fun check_known :: "string \<Rightarrow> known_store \<Rightarrow> bool \<times> known_store" where
  "check_known i (KnownMemory ids) = (if i \<in> set ids then (True, KnownMemory ids) else (False, KnownMemory (i # ids)))"
| "check_known i (KnownFile f) =
     (if i \<in> set (load_known f) then (True, KnownFile f)
      else (False, KnownFile (Some (JList (map JStr (sort (i # load_known f)))))))"

subsection \<open>Hosts\<close>

record 'c private_env =
  pe_channel :: private_channel
  pe_trunc :: "string \<Rightarrow> py_error + int"
  pe_respond :: "json_object \<Rightarrow> string \<Rightarrow> string \<Rightarrow> bool \<Rightarrow> ('c, unit) eff"
  pe_management :: "(string \<Rightarrow> ('c, json_object list) eff) option"
  pe_allowed :: "string list option"

record ('s, 'c) private_host =
  ph_gateway :: "'s gateway"
  ph_service :: 'c
  ph_known :: "known_store option"

definition on_service :: "('c, 'a) eff \<Rightarrow> (('s, 'c) private_host, 'a) eff" where
  "on_service m h = (let (r, c) = m (ph_service h) in (r, h\<lparr>ph_service := c\<rparr>))"

definition at_gateway :: "('s gateway, 'a) eff \<Rightarrow> (('s, 'c) private_host, 'a) eff" where
  "at_gateway m h = (let (r, g) = m (ph_gateway h) in (r, h\<lparr>ph_gateway := g\<rparr>))"

definition raw_message_id :: "json_object \<Rightarrow> string option" where
  "raw_message_id raw = (case field_opt_str raw ''message_id'' of None \<Rightarrow> None
     | Some s \<Rightarrow> if py_strip s = [] then None else Some (py_strip s))"

definition user_allowed :: "string list option \<Rightarrow> json_object \<Rightarrow> bool" where
  "user_allowed allowed raw = (case allowed of None \<Rightarrow> True
     | Some us \<Rightarrow> us = [] \<or> py_strip (raw_text raw ''from_user'') \<in> set us)"

definition known_before :: "string option \<Rightarrow> (('s, 'c) private_host, bool) eff" where
  "known_before i h = (case (i, ph_known h) of
     (Some m, Some st) \<Rightarrow> (let (dup, st') = check_known m st in (Inr dup, h\<lparr>ph_known := Some st'\<rparr>))
   | _ \<Rightarrow> (Inr False, h))"

definition ensure_private_binding :: "'c private_env \<Rightarrow> 's session_runtime \<Rightarrow> channel_identity \<Rightarrow> (('s, 'c) private_host, string) eff" where
  "ensure_private_binding env rt c = (let conversation = conversation_of c in
     rescue (bind (at_gateway (get_binding (pe_trunc env) rt (ci_channel c, conversation))) (\<lambda>b. ret (sb_session b)))
       (\<lambda>e. case e of
          KeyError _ \<Rightarrow> (let s = pc_name (pe_channel env) @ ''-session:'' @ conversation in
            bind (at_gateway (bind_session rt c s None (Some (pc_name (pe_channel env))))) (\<lambda>_. ret s))
        | _ \<Rightarrow> throw e))"

fun respond_all :: "'c private_env \<Rightarrow> json_object \<Rightarrow> egress_envelope list \<Rightarrow> (('s, 'c) private_host, (string \<times> string) list) eff" where
  "respond_all env raw [] = ret []"
| "respond_all env raw (e # es) =
     bind (lift (project_private (pe_channel env) e)) (\<lambda>m. case m of
       None \<Rightarrow> respond_all env raw es
     | Some (key, s) \<Rightarrow> bind (on_service (pe_respond env raw key s True)) (\<lambda>_.
         bind (respond_all env raw es) (\<lambda>ms. ret ((key, s) # ms))))"

definition send_notice :: "'c private_env \<Rightarrow> json_object \<Rightarrow> channel_identity \<Rightarrow> (('s, 'c) private_host, unit) eff" where
  "send_notice env raw c = (case pc_notice (pe_channel env) of None \<Rightarrow> ret ()
     | Some notice \<Rightarrow> bind (lift (parse_private_id (pe_channel env) (conversation_of c))) (\<lambda>key.
         on_service (pe_respond env raw key notice False)))"

fun respond_management :: "'c private_env \<Rightarrow> json_object \<Rightarrow> channel_identity \<Rightarrow> json_object list \<Rightarrow>
    (('s, 'c) private_host, (string \<times> string) list) eff" where
  "respond_management env raw c [] = ret []"
| "respond_management env raw c (d # ds) =
     bind (lift (parse_private_id (pe_channel env) (conversation_of c))) (\<lambda>key.
     bind (on_service (pe_respond env raw key (raw_text d ''message'') True)) (\<lambda>_.
     bind (respond_management env raw c ds) (\<lambda>ms. ret ((key, raw_text d ''message'') # ms))))"

definition handle_private :: "'c private_env \<Rightarrow> 's session_runtime \<Rightarrow> json_object \<Rightarrow> inbound_envelope \<Rightarrow>
    (('s, 'c) private_host, (string \<times> string) list) eff" where
  "handle_private env rt raw inbound =
     bind (lift (channel_identity_from_dict (ie_identity inbound))) (\<lambda>c.
     if ie_kind inbound = ''management'' then
       bind (case pe_management env of
           Some f \<Rightarrow> on_service (f (raw_text (ie_payload inbound) ''command''))
         | None \<Rightarrow> ret [[(''type'', JStr ''error''), (''message'', JStr ''host management is unavailable'')]])
         (respond_management env raw c)
     else bind (ensure_private_binding env rt c) (\<lambda>_.
       bind (send_notice env raw c) (\<lambda>_.
       bind (at_gateway (process_input (pe_trunc env) rt inbound)) (respond_all env raw))))"

definition private_event :: "'c private_env \<Rightarrow> 's session_runtime \<Rightarrow> json_object \<Rightarrow>
    (('s, 'c) private_host, (string \<times> string) list) eff" where
  "private_event env rt raw =
     bind (known_before (raw_message_id raw)) (\<lambda>dup.
     if dup \<or> \<not> user_allowed (pe_allowed env) raw then ret []
     else case normalize_private (pe_channel env) raw of
         None \<Rightarrow> ret []
       | Some inbound \<Rightarrow> handle_private env rt raw inbound)"

subsection \<open>Frames of WeCom\<close>

text \<open>\<open>d.get(k1) or d.get(k2) or ...\<close>, and the first value that is not \<open>None\<close>.\<close>

definition first_true :: "json_object \<Rightarrow> string list \<Rightarrow> json option" where
  "first_true d ks = (case filter truthy (map (jget d) ks) of [] \<Rightarrow> None | v # _ \<Rightarrow> Some v)"

definition true_text :: "json_object \<Rightarrow> string list \<Rightarrow> string \<Rightarrow> string" where
  "true_text d ks fallback = (case first_true d ks of None \<Rightarrow> fallback | Some v \<Rightarrow> py_str v)"

definition first_given :: "json_object \<Rightarrow> string list \<Rightarrow> string option" where
  "first_given d ks = (case List.map_filter (field_opt_str d) ks of [] \<Rightarrow> None | s # _ \<Rightarrow> Some s)"

definition frame_cmd :: "json_object \<Rightarrow> string" where
  "frame_cmd frame = (let ks = [''cmd'', ''command'', ''type'', ''event''] in
     case first_given frame ks of Some s \<Rightarrow> s
     | None \<Rightarrow> (case as_dict (jget frame ''body'') of None \<Rightarrow> []
        | Some body \<Rightarrow> (case first_given body ks of Some s \<Rightarrow> s | None \<Rightarrow> [])))"

definition is_success_ack :: "json_object \<Rightarrow> bool" where
  "is_success_ack frame \<longleftrightarrow> py_str (jget frame ''errcode'') = ''0'' \<and> py_lower (raw_text frame ''errmsg'') = ''ok''"

definition frame_message_id :: "(string \<Rightarrow> string) \<Rightarrow> json_object \<Rightarrow> string \<Rightarrow> string \<Rightarrow> string" where
  "frame_message_id sha1 frame user content =
     (case first_given frame [''message_id'', ''msg_id'', ''msgid'', ''id''] of
        Some s \<Rightarrow> s
      | None \<Rightarrow> (let timestamp = py_str (dict_get_default frame ''timestamp'' (dict_get_default frame ''create_time'' (JStr []))) in
          ''wecom-'' @ sha1 (user @ ''|'' @ timestamp @ ''|'' @ content)))"

definition frame_text :: "json \<Rightarrow> string" where
  "frame_text content = (case content of
     JDict d \<Rightarrow> (case (if truthy (jget d ''text'') then jget d ''text'' else jget d ''content'') of
        JNull \<Rightarrow> [] | v \<Rightarrow> py_str v)
   | JNull \<Rightarrow> []
   | v \<Rightarrow> py_str v)"

definition nested_str :: "json_object \<Rightarrow> string \<Rightarrow> string \<Rightarrow> string option" where
  "nested_str frame outer inner = (case as_dict (jget frame outer) of None \<Rightarrow> None | Some d \<Rightarrow> field_opt_str d inner)"

definition private_message :: "string \<Rightarrow> string \<Rightarrow> string \<Rightarrow> string \<Rightarrow> string \<Rightarrow> string \<Rightarrow> json_object \<Rightarrow> json_object \<Rightarrow> json_object" where
  "private_message kind mid conversation user display content context raw =
     [(''type'', JStr ''message''), (''message_type'', JStr kind), (''message_id'', JStr mid), (''conversation_id'', JStr conversation),
      (''from_user'', JStr user), (''sender_display_name'', JStr display), (''content'', JStr content),
      (''reply_context'', JDict context), (''raw'', JDict raw)]"

definition event_from_callback :: "(string \<Rightarrow> string) \<Rightarrow> json_object \<Rightarrow> json_object option" where
  "event_from_callback sha1 frame = (case as_dict (jget frame ''body'') of None \<Rightarrow> None
     | Some body \<Rightarrow>
       (let sender = field_dict body ''from'';
            user = (case first_true body [''from_user''] of Some v \<Rightarrow> py_str v | None \<Rightarrow> true_text sender [''userid'', ''user_id''] []);
            content = (case first_true body [''content''] of Some v \<Rightarrow> py_str v
              | None \<Rightarrow> true_text (field_dict body ''text'') [''content''] []);
            msgid = true_text body [''msgid'', ''message_id''] [];
            chat = true_text body [''chatid'', ''conversation_id''] user in
        Some (private_message (true_text body [''msgtype'', ''message_type''] ''text'')
          (str_or msgid (frame_message_id sha1 body user content)) chat user
          (case first_true sender [''name''] of Some v \<Rightarrow> py_str v | None \<Rightarrow> true_text body [''sender_display_name''] [])
          content
          [(''req_id'', JStr (raw_text (field_dict frame ''headers'') ''req_id'')), (''msgid'', JStr msgid), (''chatid'', JStr chat)]
          frame)))"

definition event_from_plain :: "(string \<Rightarrow> string) \<Rightarrow> json_object \<Rightarrow> json_object" where
  "event_from_plain sha1 frame =
     (let kind = str_or (true_text frame [''message_type'', ''msgtype'', ''msg_type''] [])
            (opt_or (nested_str frame ''message'' ''message_type'') ''text'');
          user = (case first_true frame [''from_user'', ''from'', ''userid''] of Some v \<Rightarrow> py_str v
            | None \<Rightarrow> opt_or (nested_str frame ''sender'' ''userid'') []);
          content = frame_text (jget frame ''content'') in
      private_message kind (frame_message_id sha1 frame user content) (true_text frame [''conversation_id''] user) user
        (raw_text frame ''sender_display_name'') content (field_dict frame ''reply_context'') frame)"

definition event_from_frame :: "(string \<Rightarrow> string) \<Rightarrow> json_object \<Rightarrow> json_object option" where
  "event_from_frame sha1 frame =
     (if frame_cmd frame = ''aibot_msg_callback'' then event_from_callback sha1 frame
      else case as_dict (jget frame ''body'') of
        Some body \<Rightarrow>
          if frame_cmd body = ''aibot_msg_callback'' then
            event_from_callback sha1 [(''cmd'', JStr ''aibot_msg_callback''),
              (''headers'', dict_get_default frame ''headers'' (JDict [])),
              (''body'', dict_get_default body ''body'' (JDict body))]
          else Some (event_from_plain sha1 frame)
      | None \<Rightarrow> Some (event_from_plain sha1 frame))"

text \<open>The event a frame stands for, unless it acknowledges the subscription.\<close>

definition handle_frame :: "(string \<Rightarrow> string) \<Rightarrow> 'c private_env \<Rightarrow> 's session_runtime \<Rightarrow> json_object \<Rightarrow>
    (('s, 'c) private_host, (string \<times> string) list) eff" where
  "handle_frame sha1 env rt frame =
     (if is_success_ack frame then ret []
      else case event_from_frame sha1 frame of None \<Rightarrow> ret [] | Some raw \<Rightarrow> private_event env rt raw)"

text \<open>The frame that answers a message; the ids that are drawn for an absent context are a parameter.\<close>

definition response_frame :: "string \<Rightarrow> string \<Rightarrow> json_object \<Rightarrow> string \<Rightarrow> bool \<Rightarrow> json_object" where
  "response_frame fresh_stream fresh_request raw content finish =
     (let context = field_dict raw ''reply_context'';
          stream = (case first_true context [''stream_id''] of Some v \<Rightarrow> py_str v
            | None \<Rightarrow> ''stream_'' @ true_text context [''msgid''] fresh_stream) in
      [(''cmd'', JStr ''aibot_respond_msg''), (''headers'', JDict [(''req_id'', JStr (true_text context [''req_id''] fresh_request))]),
       (''body'', JDict [(''msgtype'', JStr ''stream''), (''stream'', JDict
          [(''id'', JStr stream), (''finish'', JBool finish), (''content'', JStr content)])])])"

subsection \<open>WeChat\<close>

text \<open>The operations of the WeChat channel, and the event its client makes of a message of the SDK.\<close>

definition wechat_normalize :: "json_object \<Rightarrow> inbound_envelope option" where
  "wechat_normalize = normalize_private wechat_channel"

definition wechat_project :: "egress_envelope \<Rightarrow> py_error + (string \<times> string) option" where
  "wechat_project = project_private wechat_channel"

definition wechat_event :: "'c private_env \<Rightarrow> 's session_runtime \<Rightarrow> json_object \<Rightarrow>
    (('s, 'c) private_host, (string \<times> string) list) eff" where
  "wechat_event env = private_event (env\<lparr>pe_channel := wechat_channel\<rparr>)"

record wechat_message =
  wm_raw :: json_object
  wm_user :: string
  wm_text :: string
  wm_type :: string
  wm_timestamp :: "string option"

definition wechat_message_id :: "(string \<Rightarrow> string) \<Rightarrow> wechat_message \<Rightarrow> string" where
  "wechat_message_id sha1 m = (case first_given (wm_raw m) [''msg_id'', ''message_id'', ''id'', ''new_msg_id''] of
     Some s \<Rightarrow> s
   | None \<Rightarrow> (let timestamp = (case wm_timestamp m of Some t \<Rightarrow> t | None \<Rightarrow> raw_text (wm_raw m) ''timestamp'') in
       ''wechat-'' @ sha1 (wm_user m @ ''|'' @ timestamp @ ''|'' @ wm_text m)))"

definition event_from_message :: "(string \<Rightarrow> string) \<Rightarrow> wechat_message \<Rightarrow> json_object" where
  "event_from_message sha1 m =
     [(''type'', JStr ''message''), (''message_type'', JStr (wm_type m)), (''message_id'', JStr (wechat_message_id sha1 m)),
      (''conversation_id'', JStr (wm_user m)), (''from_user'', JStr (wm_user m)),
      (''sender_display_name'', JStr (py_str (dict_get_default (wm_raw m) ''nickname'' (dict_get_default (wm_raw m) ''display_name'' (JStr []))))),
      (''content'', JStr (wm_text m)), (''raw'', JDict (wm_raw m))]"

end
