(* ===== verification/HostCommands.thy ===== *)
theory HostCommands
  imports Gateway PyText
begin

text \<open>
  The host application: the channel manager of \<^verbatim>\<open>gateway/assemblies/channel_manager.py\<close>, the commands
  of \<^verbatim>\<open>host/app.py\<close> and the protocol of the terminal, \<^verbatim>\<open>gateway/channels/tui\<close>.

  The environment is the record \<open>host_env\<close>: the variables, the expansion of a path, the reading of a
  float, and what creating the host of a channel raises.  A channel host runs in a thread of its own;
  the model keeps the names of the threads that were started.  Setting up the runtime and the server
  socket is not modelled: a connection of the terminal is the sequence of the lines it sends.
\<close>

subsection \<open>Channels and their configuration\<close>

record channel_spec =
  cs_keys :: "string list"
  cs_usage :: "string list"

definition config_usage :: "string \<Rightarrow> string \<Rightarrow> string \<Rightarrow> string" where
  "config_usage channel key what = ''/channel-config '' @ channel @ '' '' @ key @ '' <'' @ what @ ''>''"

definition channel_specs :: "(string, channel_spec) pydict" where
  "channel_specs =
     [(''feishu'', \<lparr>cs_keys = [''app_id'', ''app_secret''],
        cs_usage = [config_usage ''feishu'' ''app_id'' ''value'', config_usage ''feishu'' ''app_secret'' ''value'']\<rparr>),
      (''wechat'', \<lparr>cs_keys = [''base_url'', ''cred_path'', ''allowed_senders''],
        cs_usage = [config_usage ''wechat'' ''base_url'' ''value'', config_usage ''wechat'' ''cred_path'' ''value'',
          config_usage ''wechat'' ''allowed_senders'' ''comma-separated'']\<rparr>),
      (''wecom'', \<lparr>cs_keys = [''bot_id'', ''secret'', ''ws_url'', ''allowed_users''],
        cs_usage = [config_usage ''wecom'' ''bot_id'' ''value'', config_usage ''wecom'' ''secret'' ''value'',
          config_usage ''wecom'' ''ws_url'' ''value'', config_usage ''wecom'' ''allowed_users'' ''comma-separated'']\<rparr>)]"

record host_roots =
  hr_openagent :: string
  hr_agent :: string
  hr_session :: string
  hr_binding :: string

record feishu_config =
  fg_app_id :: string
  fg_app_secret :: string
  fg_roots :: host_roots
  fg_lock_root :: string
  fg_mention :: bool
  fg_card_root :: string

record wechat_config =
  wg_base_url :: string
  wg_roots :: host_roots
  wg_cred_path :: string
  wg_allowed :: "string list"

record wecom_config =
  mg_bot_id :: string
  mg_secret :: string
  mg_roots :: host_roots
  mg_ws_url :: string
  mg_ping :: int
  mg_allowed :: "string list"

datatype channel_config = FeishuConfig feishu_config | WechatConfig wechat_config | WecomConfig wecom_config

record host_env =
  he_getenv :: "string \<Rightarrow> string option"
  he_path :: "string \<Rightarrow> string"
  he_float :: "string \<Rightarrow> py_error + int"
  he_roots :: host_roots
  he_create :: "channel_config \<Rightarrow> py_error + unit"
  he_loads :: "string \<Rightarrow> json option"
  he_trunc :: "string \<Rightarrow> py_error + int"

record 's host_app =
  ha_gateway :: "'s gateway"
  ha_config :: "(string, (string, string) pydict) pydict"
  ha_started :: "string list"
  ha_threads :: "string list"
  ha_loaded :: "string list"

definition response :: "string \<Rightarrow> string \<Rightarrow> json_object" where
  "response kind message = [(''type'', JStr kind), (''message'', JStr message)]"

definition set_channel_config :: "string \<Rightarrow> string \<Rightarrow> string \<Rightarrow> ('s host_app, json_object) eff" where
  "set_channel_config channel_name key v =
     (let channel = py_lower (py_strip channel_name) in
      case dict_get channel_specs channel of
        None \<Rightarrow> ret (response ''error'' (''unsupported channel config target: '' @ channel))
      | Some spec \<Rightarrow>
          if key \<notin> set (cs_keys spec) then ret (response ''error'' (''unsupported '' @ channel @ '' config key: '' @ key))
          else bind (modify (\<lambda>h. h\<lparr>ha_config := dict_set channel
              (dict_set key v (dict_get_default (ha_config h) channel [])) (ha_config h)\<rparr>)) (\<lambda>_.
            ret (response ''status'' (''stored runtime config for '' @ channel @ ''.'' @ key))))"

definition getenv :: "host_env \<Rightarrow> string \<Rightarrow> string \<Rightarrow> string" where
  "getenv env name fallback = (case he_getenv env name of None \<Rightarrow> fallback | Some v \<Rightarrow> v)"

definition runtime_value :: "host_env \<Rightarrow> string \<Rightarrow> string \<Rightarrow> string \<Rightarrow> string \<Rightarrow> 's host_app \<Rightarrow> string" where
  "runtime_value env channel key name fallback h =
     (case dict_get (dict_get_default (ha_config h) channel []) key of Some v \<Rightarrow> v | None \<Rightarrow> getenv env name fallback)"

definition required_fields :: "string \<Rightarrow> (string \<times> string) list" where
  "required_fields channel =
     (if channel = ''feishu'' then [(''app_id'', ''OPENAGENT_FEISHU_APP_ID''), (''app_secret'', ''OPENAGENT_FEISHU_APP_SECRET'')]
      else if channel = ''wecom'' then [(''bot_id'', ''OPENAGENT_WECOM_BOT_ID''), (''secret'', ''OPENAGENT_WECOM_SECRET'')]
      else [])"

definition missing_config_fields :: "host_env \<Rightarrow> string \<Rightarrow> 's host_app \<Rightarrow> string list" where
  "missing_config_fields env channel h =
     map fst (filter (\<lambda>(key, name). runtime_value env channel key name [] h = []) (required_fields channel))"

text \<open>The first required value that is empty is named by its variable.\<close>

definition check_required_fields :: "host_env \<Rightarrow> string \<Rightarrow> 's host_app \<Rightarrow> py_error + unit" where
  "check_required_fields env channel h =
     (case filter (\<lambda>(key, name). runtime_value env channel key name [] h = []) (required_fields channel) of
        [] \<Rightarrow> Inr () | (key, name) # _ \<Rightarrow> Inl (RuntimeErr (name @ '' is required'')))"

definition comma_separated :: "string \<Rightarrow> string list" where
  "comma_separated s = filter (\<lambda>x. x \<noteq> []) (map py_strip (split_on (CHR '','') s))"

definition resolve_path_env :: "host_env \<Rightarrow> string \<Rightarrow> string \<Rightarrow> string" where
  "resolve_path_env env name fallback = he_path env (getenv env name fallback)"

definition cards_root :: "host_env \<Rightarrow> string \<Rightarrow> string" where
  "cards_root env channel = he_path env (hr_openagent (he_roots env)) @ ''/cards/'' @ channel"

definition resolve_feishu_config :: "host_env \<Rightarrow> 's host_app \<Rightarrow> py_error + feishu_config" where
  "resolve_feishu_config env h = ebind (check_required_fields env ''feishu'' h) (\<lambda>_. Inr
     \<lparr>fg_app_id = runtime_value env ''feishu'' ''app_id'' ''OPENAGENT_FEISHU_APP_ID'' [] h,
      fg_app_secret = runtime_value env ''feishu'' ''app_secret'' ''OPENAGENT_FEISHU_APP_SECRET'' [] h,
      fg_roots = he_roots env,
      fg_lock_root = resolve_path_env env ''OPENAGENT_FEISHU_LOCK_ROOT'' ''/tmp/openagent-feishu-locks'',
      fg_mention = (py_lower (getenv env ''OPENAGENT_FEISHU_GROUP_AT_ONLY'' ''true'') \<noteq> ''false''),
      fg_card_root = resolve_path_env env ''OPENAGENT_FEISHU_CARD_STATE_ROOT'' (cards_root env ''feishu'')\<rparr>)"

definition resolve_wechat_config :: "host_env \<Rightarrow> 's host_app \<Rightarrow> wechat_config" where
  "resolve_wechat_config env h =
     \<lparr>wg_base_url = runtime_value env ''wechat'' ''base_url'' ''OPENAGENT_WECHAT_BASE_URL'' ''https://ilinkai.weixin.qq.com'' h,
      wg_roots = he_roots env,
      wg_cred_path = runtime_value env ''wechat'' ''cred_path'' ''OPENAGENT_WECHAT_CRED_PATH'' ''.openagent/wechat/credentials.json'' h,
      wg_allowed = comma_separated (runtime_value env ''wechat'' ''allowed_senders'' ''OPENAGENT_WECHAT_ALLOWED_SENDERS'' [] h)\<rparr>"

definition resolve_wecom_config :: "host_env \<Rightarrow> 's host_app \<Rightarrow> py_error + wecom_config" where
  "resolve_wecom_config env h = ebind (check_required_fields env ''wecom'' h) (\<lambda>_.
     ebind (he_float env (getenv env ''OPENAGENT_WECOM_PING_INTERVAL_SECONDS'' ''30'')) (\<lambda>ping. Inr
     \<lparr>mg_bot_id = runtime_value env ''wecom'' ''bot_id'' ''OPENAGENT_WECOM_BOT_ID'' [] h,
      mg_secret = runtime_value env ''wecom'' ''secret'' ''OPENAGENT_WECOM_SECRET'' [] h,
      mg_roots = he_roots env,
      mg_ws_url = runtime_value env ''wecom'' ''ws_url'' ''OPENAGENT_WECOM_WS_URL'' ''wss://openws.work.weixin.qq.com'' h,
      mg_ping = ping,
      mg_allowed = comma_separated (runtime_value env ''wecom'' ''allowed_users'' ''OPENAGENT_WECOM_ALLOWED_USERS'' [] h)\<rparr>))"

definition resolve_config :: "host_env \<Rightarrow> string \<Rightarrow> 's host_app \<Rightarrow> py_error + channel_config" where
  "resolve_config env channel h =
     (if channel = ''feishu'' then ebind (resolve_feishu_config env h) (\<lambda>c. Inr (FeishuConfig c))
      else if channel = ''wechat'' then Inr (WechatConfig (resolve_wechat_config env h))
      else if channel = ''wecom'' then ebind (resolve_wecom_config env h) (\<lambda>c. Inr (WecomConfig c))
      else Inl (ValueError (''Unsupported channel: '' @ channel)))"

subsection \<open>Starting channels\<close>

definition terminal_event_types :: "string list" where
  "terminal_event_types = [''turn_started'', ''assistant_delta'', ''assistant_message'', ''tool_started'', ''tool_progress'',
     ''tool_failed'', ''tool_cancelled'', ''tool_result'', ''requires_action'', ''task_notification'', ''turn_completed'', ''turn_failed'']"

definition register_default :: "string \<Rightarrow> ('s host_app, unit) eff" where
  "register_default channel = modify (\<lambda>h. h\<lparr>ha_gateway := register_channel channel terminal_event_types (ha_gateway h)\<rparr>)"

definition start_channel_host :: "host_env \<Rightarrow> string \<Rightarrow> channel_config \<Rightarrow> ('s host_app, unit) eff" where
  "start_channel_host env channel cfg =
     bind (gets (\<lambda>h. channel \<in> set (dict_keys (gw_channels (ha_gateway h))))) (\<lambda>registered.
     bind (if registered then ret () else register_default channel) (\<lambda>_.
     bind (lift (he_create env cfg)) (\<lambda>_.
     modify (\<lambda>h. h\<lparr>ha_threads := ha_threads h @ [channel]\<rparr>))))"

definition manager_ensure_loaded :: "host_env \<Rightarrow> string \<Rightarrow> ('s host_app, unit) eff" where
  "manager_ensure_loaded env channel = (let name = py_lower (py_strip channel) in
     bind (gets (\<lambda>h. name \<in> set (ha_started h))) (\<lambda>loaded. if loaded then ret ()
       else bind (reads (resolve_config env name)) (\<lambda>cfg.
         bind (start_channel_host env name cfg) (\<lambda>_.
         modify (\<lambda>h. h\<lparr>ha_started := ha_started h @ [name]\<rparr>)))))"

definition manager_load_command :: "host_env \<Rightarrow> string \<Rightarrow> ('s host_app, json_object) eff" where
  "manager_load_command env channel_name = (let channel = py_lower (py_strip channel_name) in
     case dict_get channel_specs channel of
       None \<Rightarrow> ret (response ''error'' (''unknown channel: '' @ channel))
     | Some spec \<Rightarrow>
         bind (gets (\<lambda>h. channel \<in> set (ha_started h))) (\<lambda>loaded.
         if loaded then ret (response ''status'' (channel @ '' channel is already loaded''))
         else bind (gets (missing_config_fields env channel)) (\<lambda>missing.
           if missing \<noteq> [] then
             ret (response ''error'' (channel @ '' config missing: '' @ py_join '', '' missing @ '' | use '' @ py_join '' and '' (cs_usage spec))
               @ [(''missing_fields'', JList (map JStr missing))])
           else bind (manager_ensure_loaded env channel) (\<lambda>_. ret (response ''status'' (channel @ '' channel loaded''))))))"

subsection \<open>Commands of the host\<close>

definition available_channels :: "string list" where
  "available_channels = [''terminal'', ''feishu'', ''wechat'', ''wecom'']"

definition add_once :: "'a \<Rightarrow> 'a list \<Rightarrow> 'a list" where
  "add_once x xs = (if x \<in> set xs then xs else xs @ [x])"

definition mark_loaded :: "string \<Rightarrow> ('s host_app, unit) eff" where
  "mark_loaded channel = modify (\<lambda>h. h\<lparr>ha_loaded := add_once channel (ha_loaded h)\<rparr>)"

definition host_ensure_loaded :: "host_env \<Rightarrow> string \<Rightarrow> ('s host_app, unit) eff" where
  "host_ensure_loaded env channel =
     bind (gets (\<lambda>h. channel \<in> set (ha_loaded h))) (\<lambda>loaded. if loaded then ret ()
       else if channel = ''terminal'' then bind (register_default ''terminal'') (\<lambda>_. mark_loaded ''terminal'')
       else if channel \<in> set (dict_keys channel_specs) then bind (manager_ensure_loaded env channel) (\<lambda>_. mark_loaded channel)
       else throw (ValueError (''Unsupported channel: '' @ channel)))"

definition usage_lines :: "string list" where
  "usage_lines = [''/channel'', ''/channel <name>''] @ concat (map cs_usage (dict_values channel_specs))"

definition describe_channels :: "'s host_app \<Rightarrow> json_object" where
  "describe_channels h = (let loaded = sort (remdups (ha_loaded h @ ha_started h)) in
     [(''loaded'', JList (map JStr loaded)), (''available'', JList (map JStr available_channels)), (''usage'', JList (map JStr usage_lines)),
      (''message'', JStr (''loaded='' @ str_or (py_join '','' loaded) ''none'' @ '' available='' @ py_join '','' available_channels
        @ '' usage='' @ py_join ''; '' usage_lines))])"

definition load_channel_command :: "host_env \<Rightarrow> string \<Rightarrow> ('s host_app, json_object) eff" where
  "load_channel_command env channel_name = (let channel = py_lower (py_strip channel_name) in
     if channel \<notin> set available_channels then ret (response ''error'' (''unknown channel: '' @ channel))
     else if channel = ''terminal'' then bind (host_ensure_loaded env ''terminal'') (\<lambda>_. ret (response ''status'' ''terminal channel is loaded''))
     else bind (manager_load_command env channel) (\<lambda>result.
       bind (gets (\<lambda>h. channel \<in> set (ha_started h))) (\<lambda>started.
       bind (if jget result ''type'' = JStr ''status'' \<and> started then mark_loaded channel else ret ()) (\<lambda>_. ret result))))"

text \<open>\<open>s.split(maxsplit=n)\<close>.\<close>

fun split_max :: "nat \<Rightarrow> string \<Rightarrow> string list" where
  "split_max n s = (let t = py_lstrip s in
     if t = [] then []
     else case n of 0 \<Rightarrow> [t]
     | Suc m \<Rightarrow> takeWhile (\<lambda>c. \<not> is_space c) t # split_max m (dropWhile (\<lambda>c. \<not> is_space c) t))"

definition handle_management_command :: "host_env \<Rightarrow> string \<Rightarrow> ('s host_app, json_object list) eff" where
  "handle_management_command env command = (let normalized = py_strip command in
     if normalized = [] then ret [response ''error'' ''missing management command'']
     else if normalized = ''/channel'' then
       bind (gets describe_channels) (\<lambda>d. ret [response ''status'' (py_str (jget d ''message'')) @
         [(''loaded'', jget d ''loaded''), (''available'', jget d ''available''), (''usage'', jget d ''usage'')]])
     else if py_startswith normalized ''/channel-config '' then
       (case split_max 3 normalized of
          [_, channel, key, v] \<Rightarrow> bind (set_channel_config channel key v) (\<lambda>r. ret [r])
        | _ \<Rightarrow> ret [response ''error'' (''usage: '' @ py_join '' | '' (drop 2 usage_lines))])
     else if py_startswith normalized ''/channel '' then
       (case split_max 1 normalized of
          [_, channel] \<Rightarrow> bind (load_channel_command env (py_strip channel)) (\<lambda>r. ret [r])
        | _ \<Rightarrow> ret [response ''error'' ''usage: /channel <name>''])
     else ret [response ''error'' (''unknown management command: '' @ normalized)])"

subsection \<open>The terminal\<close>

record 's terminal =
  tm_app :: "'s host_app"
  tm_sessions :: "(string, channel_identity) pydict"
  tm_current :: string
  tm_lines :: "json_object list"

definition in_app :: "('s host_app, 'a) eff \<Rightarrow> ('s terminal, 'a) eff" where
  "in_app m t = (let (r, h) = m (tm_app t) in (r, t\<lparr>tm_app := h\<rparr>))"

definition in_gateway :: "('s gateway, 'a) eff \<Rightarrow> ('s terminal, 'a) eff" where
  "in_gateway m t = (let (r, g) = m (ha_gateway (tm_app t)) in (r, t\<lparr>tm_app := (tm_app t)\<lparr>ha_gateway := g\<rparr>\<rparr>))"

definition emit_line :: "json_object \<Rightarrow> ('s terminal, unit) eff" where
  "emit_line d = modify (\<lambda>t. t\<lparr>tm_lines := tm_lines t @ [d]\<rparr>)"

definition emit_event :: "egress_envelope \<Rightarrow> ('s terminal, unit) eff" where
  "emit_event e =
     bind (lift (field_req (ee_event e) ''event_type'')) (\<lambda>ty.
     bind (lift (field_req (ee_event e) ''payload'')) (\<lambda>p.
     emit_line [(''type'', JStr ''event''), (''event_type'', ty), (''payload'', p), (''session_id'', JStr (ee_session e))]))"

definition emit_error :: "string \<Rightarrow> ('s terminal, unit) eff" where
  "emit_error s = emit_line (response ''error'' s)"

definition terminal_identity :: "string \<Rightarrow> channel_identity" where
  "terminal_identity name = \<lparr>ci_channel = ''terminal'', ci_user = Some ''local-user'',
     ci_conversation = Some (''terminal-'' @ name), ci_device = None\<rparr>"

definition terminal_session_id :: "string \<Rightarrow> string" where
  "terminal_session_id name = ''terminal-'' @ name @ ''-session''"

text \<open>A \<open>ValueError\<close> of the gateway is dropped: the chat stays bound to the session it has.\<close>

definition bind_terminal_session :: "'s session_runtime \<Rightarrow> string \<Rightarrow> ('s terminal, unit) eff" where
  "bind_terminal_session rt name t =
     (case in_gateway (bind_session rt (terminal_identity name) (terminal_session_id name) None (Some ''terminal-tui'')) t of
        (Inl (ValueError m), t') \<Rightarrow> (Inr (), t'\<lparr>tm_sessions := dict_set name (terminal_identity name) (tm_sessions t')\<rparr>)
      | (Inl e, t') \<Rightarrow> (Inl e, t')
      | (Inr _, t') \<Rightarrow> (Inr (), t'\<lparr>tm_sessions := dict_set name (terminal_identity name) (tm_sessions t')\<rparr>))"

definition bound_status :: "string \<Rightarrow> string \<Rightarrow> json_object" where
  "bound_status message name = response ''status'' message @
     [(''session_name'', JStr name), (''session_id'', JStr (terminal_session_id name))]"

definition current_identity :: "('s terminal, channel_identity) eff" where
  "current_identity = reads (\<lambda>t. case dict_get (tm_sessions t) (tm_current t) of
     None \<Rightarrow> Inl (KeyError (tm_current t)) | Some c \<Rightarrow> Inr c)"

definition terminal_control :: "json_object \<Rightarrow> json_object option" where
  "terminal_control message = (let subtype = py_str (dict_get_default message ''subtype'' (JStr [])) in
     if subtype \<notin> set [''permission_response'', ''interrupt'', ''resume''] then None
     else Some ([(''subtype'', JStr subtype)] @
       (if subtype = ''permission_response'' then [(''approved'', JBool (truthy (dict_get_default message ''approved'' (JBool False))))] else []) @
       (if subtype = ''resume'' then (case jget message ''after'' of
          JStr s \<Rightarrow> [(''after'', JStr s)] | JInt i \<Rightarrow> [(''after'', JInt i)] | JFloat r \<Rightarrow> [(''after'', JFloat r)] | _ \<Rightarrow> [])
        else [])))"

definition terminal_message :: "host_env \<Rightarrow> 's session_runtime \<Rightarrow> json_object \<Rightarrow> ('s terminal, unit) eff" where
  "terminal_message env rt message = (let kind = jget message ''kind'' in
     if kind = JStr ''bind'' then
       (let name = py_strip (py_str (dict_get_default message ''session_name'' (JStr []))) in
        if name = [] then emit_error ''missing_session_name''
        else bind (bind_terminal_session rt name) (\<lambda>_.
          bind (modify (tm_current_update (\<lambda>_. name))) (\<lambda>_.
          bind (emit_line (bound_status ''bound'' name)) (\<lambda>_.
          bind current_identity (\<lambda>c.
          bind (in_gateway (observe_session (he_trunc env) rt c 0)) (each emit_event))))))
     else if kind = JStr ''list_sessions'' then
       bind (gets (\<lambda>t. t)) (\<lambda>t. emit_line [(''type'', JStr ''sessions''), (''current_session_name'', JStr (tm_current t)),
         (''sessions'', JList (map JStr (sort (dict_keys (tm_sessions t)))))])
     else if kind = JStr ''message'' then
       bind current_identity (\<lambda>c.
       bind (in_gateway (process_user_message (he_trunc env) rt
           \<lparr>ie_identity = channel_identity_to_dict c, ie_kind = ''user_message'',
            ie_payload = [(''content'', JStr (py_str (dict_get_default message ''content'' (JStr []))))], ie_delivery = []\<rparr>))
         (each emit_event))
     else if kind = JStr ''management'' then
       bind (in_app (handle_management_command env (py_str (dict_get_default message ''command'' (JStr []))))) (each emit_line)
     else if kind = JStr ''control'' then
       (case terminal_control message of None \<Rightarrow> emit_error ''unknown_control_subtype''
        | Some control \<Rightarrow> bind current_identity (\<lambda>c.
            bind (in_gateway (process_control_message (he_trunc env) rt c control None)) (each emit_event)))
     else emit_error (''unknown_message_kind:'' @ py_str kind))"

definition terminal_line :: "host_env \<Rightarrow> 's session_runtime \<Rightarrow> string \<Rightarrow> ('s terminal, unit) eff" where
  "terminal_line env rt raw =
     (if py_strip raw = [] then ret ()
      else case he_loads env (py_strip raw) of
        None \<Rightarrow> emit_error ''invalid_json''
      | Some (JDict message) \<Rightarrow> terminal_message env rt message
      | Some _ \<Rightarrow> emit_error ''invalid_message'')"

text \<open>A connection: an exception ends it, with the lines written so far.\<close>

definition terminal_connection :: "host_env \<Rightarrow> 's session_runtime \<Rightarrow> string list \<Rightarrow> ('s terminal, unit) eff" where
  "terminal_connection env rt raws =
     bind (in_app (host_ensure_loaded env ''terminal'')) (\<lambda>_.
     bind (modify (\<lambda>t. t\<lparr>tm_sessions := [], tm_current := ''main''\<rparr>)) (\<lambda>_.
     bind (bind_terminal_session rt ''main'') (\<lambda>_.
     bind (emit_line (bound_status ''ready'' ''main'')) (\<lambda>_.
     each (terminal_line env rt) raws))))"

end
