(* ===== verification/ChannelProps.thy ===== *)
theory ChannelProps
  imports PrivateChat HostCommands FeishuProps
begin

text \<open>
  Properties of the private chats and of the commands of the host: a sender who is not allowed reaches
  nothing, a turn without an answer is silent, conversation ids are read back, the two stores of known
  messages agree, and every channel host is started at most once.
\<close>

subsection \<open>Private chats\<close>

lemma private_id_read_back: "parse_private_id ch (private_conversation_id ch key) = Inr key"
  by (simp add: parse_private_id_def private_conversation_id_def)

text \<open>
  C37. A sender outside a list of allowed users reaches nothing in a private chat: whatever the event holds, also a
  management command, it is answered with nothing, and the gateway and the service stay as they are.
\<close>

theorem outsider_reaches_nothing:
  assumes "pe_allowed env = Some us" "us \<noteq> []" "py_strip (raw_text raw ''from_user'') \<notin> set us"
  shows "\<exists>known. private_event env rt raw h = (Inr [], h\<lparr>ph_known := known\<rparr>)"
proof -
  have k: "\<exists>b known. known_before (raw_message_id raw) h = (Inr b, h\<lparr>ph_known := known\<rparr>)"
  proof (cases "raw_message_id raw"; cases "ph_known h")
    fix m st assume "raw_message_id raw = Some m" "ph_known h = Some st"
    then show ?thesis by (auto simp: known_before_def split: prod.split)
  qed (auto simp: known_before_def intro: exI [of _ "ph_known h"])
  then show ?thesis using assms by (auto simp: private_event_def bind_def ret_def user_allowed_def)
qed

definition demo_private :: "unit private_env" where
  "demo_private = \<lparr>pe_channel = wechat_channel, pe_trunc = py_int, pe_respond = (\<lambda>_ _ _ _. throw (RuntimeErr ''asked'')),
     pe_management = Some (\<lambda>_. throw (RuntimeErr ''managed'')), pe_allowed = Some [''u1'']\<rparr>"

definition demo_private_host :: "(unit, unit) private_host" where
  "demo_private_host = \<lparr>ph_gateway = new_gateway () None, ph_service = (), ph_known = Some (KnownMemory [])\<rparr>"

definition outsider_event :: json_object where
  "outsider_event = [(''type'', JStr ''message''), (''message_type'', JStr ''text''), (''message_id'', JStr ''m1''),
     (''conversation_id'', JStr ''u2''), (''from_user'', JStr ''u2''), (''content'', JStr ''/channel feishu'')]"

lemma outsider_reaches_nothing_witness:
  "(\<exists>known. private_event demo_private failing_runtime outsider_event demo_private_host = (Inr [], demo_private_host\<lparr>ph_known := known\<rparr>)) \<and>
   fst (private_event (demo_private\<lparr>pe_allowed := None\<rparr>) failing_runtime outsider_event demo_private_host) = Inl (RuntimeErr ''managed'')"
proof
  show "\<exists>known. private_event demo_private failing_runtime outsider_event demo_private_host = (Inr [], demo_private_host\<lparr>ph_known := known\<rparr>)"
    by (rule outsider_reaches_nothing [where us = "[''u1'']"]) (simp add: demo_private_def, simp, code_simp)
  show "fst (private_event (demo_private\<lparr>pe_allowed := None\<rparr>) failing_runtime outsider_event demo_private_host) = Inl (RuntimeErr ''managed'')"
    by code_simp
qed

text \<open>
  A turn whose events hold no answer is silent in a private chat: the service is asked for nothing and the
  sender is told nothing.  So a turn that stops at a tool waiting for approval cannot be seen there.
\<close>

theorem unanswered_turn_is_silent:
  assumes "\<forall>e \<in> set es. egress_type e \<noteq> ''assistant_message''"
  shows "respond_all env raw es h = (Inr [], h)"
  using assms
  by (induction es) (simp_all add: ret_def bind_def lift_def project_private_def event_text_def)

text \<open>No message of a private chat is a control input, so none approves a tool.\<close>

lemma private_input_kinds: "normalize_private ch raw = Some e \<Longrightarrow> ie_kind e \<in> {''management'', ''user_message''}"
  by (auto simp: normalize_private_def parse_input_def Let_def split: if_splits)

text \<open>The ids a store knows, and the agreement of the two stores.\<close>

fun known_ids :: "known_store \<Rightarrow> string set" where
  "known_ids (KnownMemory ids) = set ids"
| "known_ids (KnownFile f) = set (load_known f)"

lemma check_known_ids:
  assumes "check_known i st = (dup, st')"
  shows "dup \<longleftrightarrow> i \<in> known_ids st" "known_ids st' = insert i (known_ids st)"
proof -
  have texts: "List.map_filter as_str (map JStr xs) = xs" for xs
    by (induction xs) (simp_all add: map_filter_simps)
  have saved: "set (load_known (Some (JList (map JStr xs)))) = set xs" for xs
    by (simp add: load_known_def texts)
  show "dup \<longleftrightarrow> i \<in> known_ids st" using assms by (cases st) (auto split: if_splits)
  show "known_ids st' = insert i (known_ids st)"
    using assms by (cases st) (auto simp: saved set_insort_key split: if_splits)
qed

text \<open>A frame whose callback is wrapped without a command of its own is read one level too high, and ignored.\<close>

lemma wrapped_callback_ignored:
  "map_option (normalize_private wechat_channel) (event_from_frame (\<lambda>x. x) [(''body'', JDict [(''cmd'', JStr ''aibot_msg_callback''),
     (''body'', JDict [(''from'', JDict [(''userid'', JStr ''u1'')]), (''text'', JDict [(''content'', JStr ''hello'')])])])]) = Some None"
  by code_simp

subsection \<open>Channel hosts\<close>

definition hosts_once :: "'s host_app \<Rightarrow> bool" where
  "hosts_once h \<longleftrightarrow> distinct (ha_threads h) \<and> set (ha_threads h) = set (ha_started h)"

lemma keeps_manager_ensure [keeping]: "keeps hosts_once (manager_ensure_loaded env channel)"
  unfolding keeps_def
proof (intro allI impI)
  fix h :: "'s host_app" assume h: "hosts_once h"
  define name where "name = py_lower (py_strip channel)"
  show "hosts_once (snd (manager_ensure_loaded env channel h))"
  proof (cases "name \<in> set (ha_started h)")
    case True
    then show ?thesis using h by (simp add: manager_ensure_loaded_def name_def [symmetric] ret_def)
  next
    case False
    then have run: "manager_ensure_loaded env channel h =
        bind (reads (resolve_config env name)) (\<lambda>cfg. bind (start_channel_host env name cfg) (\<lambda>_.
          modify (\<lambda>h. h\<lparr>ha_started := ha_started h @ [name]\<rparr>))) h"
      by (simp add: manager_ensure_loaded_def name_def [symmetric])
    show ?thesis
    proof (cases "resolve_config env name h")
      case (Inl e)
      then show ?thesis using h by (simp add: run bind_reads)
    next
      case (Inr cfg)
      then show ?thesis
        using h False unfolding run bind_reads
        by (cases "he_create env cfg")
          (auto simp: start_channel_host_def register_default_def hosts_once_def bind_def gets_def lift_def modify_def ret_def)
    qed
  qed
qed

lemma keeps_hosts_fields [keeping]:
  "keeps hosts_once (modify (\<lambda>h. h\<lparr>ha_config := f h\<rparr>))" "keeps hosts_once (register_default channel)" "keeps hosts_once (mark_loaded channel)"
  by (auto simp: register_default_def mark_loaded_def hosts_once_def intro!: keeps_modify)

lemma keeps_manager_load [keeping]: "keeps hosts_once (manager_load_command env channel)"
  unfolding manager_load_command_def Let_def by (auto intro!: keeping split: option.split)

lemma keeps_list: "keeps I m \<Longrightarrow> (\<And>x xs. keeps I (f x xs)) \<Longrightarrow> keeps I (case l of [] \<Rightarrow> m | x # xs \<Rightarrow> f x xs)"
  by (cases l) simp_all

lemma keeps_ensure_loaded [keeping]: "keeps hosts_once (host_ensure_loaded env channel)"
  unfolding host_ensure_loaded_def by (intro keeping)

lemma keeps_load_channel [keeping]: "keeps hosts_once (load_channel_command env channel)"
  unfolding load_channel_command_def Let_def by (intro keeping)

lemma keeps_set_config [keeping]: "keeps hosts_once (set_channel_config channel key v)"
  unfolding set_channel_config_def Let_def by (intro keeping)

lemma keeps_command: "keeps hosts_once (handle_management_command env command)"
  unfolding handle_management_command_def Let_def by (intro keeping keeps_list)

text \<open>A history of commands and preloads; what raises leaves the state it reached.\<close>

datatype host_call = Command string | Preload string

fun call_host :: "host_env \<Rightarrow> host_call \<Rightarrow> 's host_app \<Rightarrow> 's host_app" where
  "call_host env (Command c) h = snd (handle_management_command env c h)"
| "call_host env (Preload c) h = snd (host_ensure_loaded env c h)"

text \<open>
  Whatever commands the channels send and whatever channels are preloaded, in any order and with any
  failures, every channel host is started at most once, and exactly the started ones count as loaded by the manager.
\<close>

theorem channel_hosts_started_once:
  assumes "ha_threads h = []" "ha_started h = []"
  shows "distinct (ha_threads (fold (call_host env) cs h)) \<and>
    set (ha_threads (fold (call_host env) cs h)) = set (ha_started (fold (call_host env) cs h))"
proof -
  have "hosts_once h \<Longrightarrow> hosts_once (call_host env c h)" for c h
    using keepsD [OF keeps_command] keepsD [OF keeps_ensure_loaded] by (cases c) simp_all
  then have "hosts_once h \<Longrightarrow> hosts_once (fold (call_host env) cs h)" for h
    by (induction cs arbitrary: h) auto
  from this [of h] show ?thesis using assms by (simp add: hosts_once_def)
qed

definition demo_host_env :: host_env where
  "demo_host_env = \<lparr>he_getenv = (\<lambda>_. None), he_path = (\<lambda>p. p), he_float = (\<lambda>_. Inr 30),
     he_roots = \<lparr>hr_openagent = ''/root'', hr_agent = ''/root/agent'', hr_session = ''/root/sessions'', hr_binding = ''/root/sessions''\<rparr>,
     he_create = (\<lambda>_. Inr ()), he_loads = (\<lambda>_. None), he_trunc = py_int\<rparr>"

definition demo_app :: "unit host_app" where
  "demo_app = \<lparr>ha_gateway = new_gateway () None, ha_config = [], ha_started = [], ha_threads = [], ha_loaded = []\<rparr>"

definition demo_commands :: "host_call list" where
  "demo_commands = [Command ''/channel wecom'', Command ''/channel wechat'', Preload ''wechat'', Command ''/channel-config wecom bot_id b'',
     Command ''/channel-config wecom secret s'', Command ''/channel WeCom'', Command ''/channel wecom'']"

lemma channel_hosts_started_once_witness:
  "ha_threads (fold (call_host demo_host_env) demo_commands demo_app) = [''wechat'', ''wecom''] \<and>
   distinct (ha_threads (fold (call_host demo_host_env) demo_commands demo_app)) \<and>
   set (ha_threads (fold (call_host demo_host_env) demo_commands demo_app)) =
     set (ha_started (fold (call_host demo_host_env) demo_commands demo_app))"
proof (rule conjI)
  show "ha_threads (fold (call_host demo_host_env) demo_commands demo_app) = [''wechat'', ''wecom'']" by code_simp
  show "distinct (ha_threads (fold (call_host demo_host_env) demo_commands demo_app)) \<and>
    set (ha_threads (fold (call_host demo_host_env) demo_commands demo_app)) =
      set (ha_started (fold (call_host demo_host_env) demo_commands demo_app))"
    by (rule channel_hosts_started_once) (simp_all add: demo_app_def)
qed

end
