(* ===== verification/Dreaming.thy ===== *)
theory Dreaming
  imports DurableMemory PyText FileTools Complex_Main
begin

text \<open>
  The dreaming engine, \<^verbatim>\<open>durable_memory/dreaming\<close>: the entries it recalls, its state store, the
  three phases of a sweep and the Markdown it writes.  \<open>dream_sweep\<close> is the engine as the durable
  memory calls it, the argument \<open>mv_sweep\<close> there.

  The state keeps what the files of \<^verbatim>\<open>memory/.dreams\<close> hold, and the Markdown files under the root by
  their relative path.  Scores are exact: the weights and sums of the code are floats, here they are
  rational numbers without rounding, printed and read by the environment.
\<close>

subsection \<open>Text\<close>

record dream_env =
  de_day :: "nat \<Rightarrow> string"
  de_now :: "nat \<Rightarrow> string"
  de_hash :: "string \<Rightarrow> string"
  de_read :: "string \<Rightarrow> rat option"
  de_trunc :: "string \<Rightarrow> py_error + int"
  de_show :: "rat \<Rightarrow> string"
  de_show2 :: "rat \<Rightarrow> string"

definition upper_char :: "char \<Rightarrow> char" where
  "upper_char c = (let n = code c in if 97 \<le> n \<and> n \<le> 122 then char_of (n - 32) else c)"

text \<open>Lower case, with every run of white space as one blank.\<close>

definition normalized_text :: "string \<Rightarrow> string" where
  "normalized_text s = py_join '' '' (py_split (py_lower s))"

definition hash_text :: "dream_env \<Rightarrow> string \<Rightarrow> string" where
  "hash_text env s = take 16 (de_hash env (normalized_text s))"

definition is_letter :: "char \<Rightarrow> bool" where
  "is_letter c \<longleftrightarrow> (let n = code c in 65 \<le> n \<and> n \<le> 90 \<or> 97 \<le> n \<and> n \<le> 122)"

definition concept_char :: "char \<Rightarrow> bool" where
  "concept_char c \<longleftrightarrow> is_letter c \<or> is_digit c \<or> c = CHR ''_'' \<or> c = CHR ''-''"

text \<open>The words of at least four characters that start with a letter.\<close>

function concept_words :: "string \<Rightarrow> string list" where
  "concept_words [] = []"
| "concept_words (c # r) =
     (let w = c # takeWhile concept_char r in
      if is_letter c \<and> 4 \<le> length w then w # concept_words (dropWhile concept_char r) else concept_words r)"
  by pat_completeness auto
termination by (relation "measure length") (auto simp: le_imp_less_Suc length_dropWhile_le)

definition first_occurrences :: "'a list \<Rightarrow> 'a list" where
  "first_occurrences xs = rev (remdups (rev xs))"

definition concept_tags :: "string \<Rightarrow> string list" where
  "concept_tags s = take 12 (sort (remdups (filter (\<lambda>w. w \<notin> set [''that'', ''this'', ''with'', ''from'', ''should'', ''remember'', ''memory''])
     (concept_words (py_lower s)))))"

text \<open>\<open>Counter.most_common(8)\<close>: the most frequent first, then in the order of their first occurrence.\<close>

definition extract_themes :: "string list \<Rightarrow> string list" where
  "extract_themes texts = (let words = filter (\<lambda>w. w \<notin> set [''that'', ''this'', ''with'', ''from'', ''remember'', ''memory''])
       (concat (map (\<lambda>s. concept_words (py_lower s)) texts)) in
     take 8 (sort_key (\<lambda>w. - int (length (filter (\<lambda>x. x = w) words))) (first_occurrences words)))"

definition word_char :: "char \<Rightarrow> bool" where
  "word_char c \<longleftrightarrow> (let n = code c in is_letter c \<or> is_digit c \<or> c = CHR ''_'' \<or> n \<in> set [170, 178, 179, 181, 185, 186, 188, 189, 190]
     \<or> 192 \<le> n \<and> n \<noteq> 215 \<and> n \<noteq> 247)"

definition domain_char :: "char \<Rightarrow> bool" where
  "domain_char c \<longleftrightarrow> word_char c \<or> c = CHR ''-''"

definition local_char :: "char \<Rightarrow> bool" where
  "local_char c \<longleftrightarrow> domain_char c \<or> c = CHR ''.'' \<or> c = CHR ''+''"

text \<open>What follows the groups of a dot and a name.\<close>

function after_groups :: "string \<Rightarrow> string" where
  "after_groups [] = []"
| "after_groups (c # r) = (if c = CHR ''.'' \<and> takeWhile domain_char r \<noteq> [] then after_groups (dropWhile domain_char r) else c # r)"
  by pat_completeness auto
termination by (relation "measure length") (auto simp: le_imp_less_Suc length_dropWhile_le)

text \<open>The rest after an address that starts here.\<close>

definition after_email :: "string \<Rightarrow> string option" where
  "after_email s = (case dropWhile local_char s of
     [] \<Rightarrow> None
   | c # r \<Rightarrow> (let t = dropWhile domain_char r in
       if c \<noteq> CHR ''@'' \<or> takeWhile local_char s = [] \<or> takeWhile domain_char r = [] \<or> after_groups t = t then None
       else Some (after_groups t)))"

lemma after_groups_length: "length (after_groups s) \<le> length s"
proof (induction s rule: after_groups.induct)
  case (2 c r)
  have "length (dropWhile domain_char r) \<le> length r" by (rule length_dropWhile_le)
  then show ?case using "2.IH" by (auto simp del: length_dropWhile_le)
qed simp

lemma after_email_length: "after_email s = Some r \<Longrightarrow> length r < length s"
proof -
  assume "after_email s = Some r"
  then obtain c u where u: "dropWhile local_char s = c # u" "r = after_groups (dropWhile domain_char u)"
    by (auto simp: after_email_def Let_def split: list.splits if_splits)
  have "length (c # u) \<le> length s" using length_dropWhile_le [of local_char s] u(1) by simp
  then show ?thesis
    using after_groups_length [of "dropWhile domain_char u"] length_dropWhile_le [of domain_char u] u(2) by simp
qed

function redact_emails :: "string \<Rightarrow> string" where
  "redact_emails [] = []"
| "redact_emails (c # r) = (case after_email (c # r) of None \<Rightarrow> c # redact_emails r | Some t \<Rightarrow> ''[redacted-email]'' @ redact_emails t)"
  by pat_completeness auto
termination by (relation "measure length") (auto dest: after_email_length)

definition at_boundary :: "char option \<Rightarrow> string \<Rightarrow> bool" where
  "at_boundary before s \<longleftrightarrow>
     (case before of None \<Rightarrow> False | Some c \<Rightarrow> word_char c) \<noteq> (case s of [] \<Rightarrow> False | c # _ \<Rightarrow> word_char c)"

text \<open>At most \<open>hi\<close> more digits, each with a separator behind it if possible, at least \<open>lo\<close>, and a word boundary.\<close>

definition or_else :: "'a option \<Rightarrow> 'a option \<Rightarrow> 'a option" where
  "or_else a b = (case a of None \<Rightarrow> b | Some x \<Rightarrow> Some x)"

lemma or_else_Some: "or_else a b = Some x \<longleftrightarrow> a = Some x \<or> a = None \<and> b = Some x"
  by (cases a) (auto simp: or_else_def)

definition digit_separator :: "char \<Rightarrow> bool" where
  "digit_separator c \<longleftrightarrow> c = CHR '' '' \<or> c = CHR ''-''"

fun after_digits :: "nat \<Rightarrow> nat \<Rightarrow> char option \<Rightarrow> string \<Rightarrow> string option" where
  "after_digits 0 lo before s = (if lo = 0 \<and> at_boundary before s then Some s else None)"
| "after_digits (Suc hi) lo before s = or_else
     (case s of [] \<Rightarrow> None
      | c # r \<Rightarrow> if \<not> is_digit c then None
          else or_else
            (case r of [] \<Rightarrow> None | d # r' \<Rightarrow> if digit_separator d then after_digits hi (lo - 1) (Some d) r' else None)
            (after_digits hi (lo - 1) (Some c) r))
     (if lo = 0 \<and> at_boundary before s then Some s else None)"

lemma after_digits_length: "after_digits hi lo before s = Some t \<Longrightarrow> length t + lo \<le> length s"
proof (induction hi arbitrary: lo before s t)
  case (Suc hi)
  show ?case
  proof (cases s)
    case Nil
    then show ?thesis using Suc.prems by (simp add: or_else_def split: if_splits)
  next
    case (Cons c r)
    let ?separated = "case r of [] \<Rightarrow> None | d # r' \<Rightarrow> if digit_separator d then after_digits hi (lo - 1) (Some d) r' else None"
    have "is_digit c \<and> (?separated = Some t \<or> after_digits hi (lo - 1) (Some c) r = Some t) \<or> lo = 0 \<and> t = s"
      using Suc.prems unfolding Cons after_digits.simps(2) or_else_Some list.case by (simp only: split: if_splits) (auto simp only: or_else_Some)
    moreover have ?thesis if "?separated = Some t"
    proof (cases r)
      case (Cons d r')
      then have "after_digits hi (lo - 1) (Some d) r' = Some t" using that by (simp split: if_splits)
      then have "length t + (lo - 1) \<le> length r'" by (rule Suc.IH)
      then show ?thesis by (simp add: Cons \<open>s = c # r\<close>)
    qed (use that in simp)
    moreover have ?thesis if "after_digits hi (lo - 1) (Some c) r = Some t"
      using Suc.IH [OF that] by (simp add: Cons)
    ultimately show ?thesis by auto
  qed
qed (simp split: if_splits)

function redact_numbers :: "char option \<Rightarrow> string \<Rightarrow> string" where
  "redact_numbers before [] = []"
| "redact_numbers before (c # r) =
     (case (if at_boundary before (c # r) then after_digits 16 13 before (c # r) else None) of
        None \<Rightarrow> c # redact_numbers (Some c) r
      | Some t \<Rightarrow> ''[redacted-number]'' @ redact_numbers (Some (last (take (length (c # r) - length t) (c # r)))) t)"
  by pat_completeness auto
termination
  by (relation "measure (\<lambda>(_, s). length s)") (auto dest: after_digits_length split: if_splits)

definition sanitize_text :: "bool \<Rightarrow> string \<Rightarrow> string" where
  "sanitize_text on s = (if \<not> on then py_strip s else py_strip (redact_numbers None (redact_emails s)))"

definition is_low_signal :: "string \<Rightarrow> bool" where
  "is_low_signal s \<longleftrightarrow> length (py_strip s) < 8 \<or>
     list_ex (\<lambda>p. py_contains p (py_lower s)) [''def '', ''class '', ''stack trace'', ''build log'', ''git commit'']"

subsection \<open>Entries\<close>

record recall_entry =
  rc_key :: string
  rc_text :: string
  rc_source :: string
  rc_source_type :: string
  rc_session :: "string option"
  rc_line :: "int option"
  rc_count :: int
  rc_daily :: int
  rc_grounded :: int
  rc_relevance :: rat
  rc_queries :: "string list"
  rc_days :: "string list"
  rc_tags :: "string list"
  rc_created :: string
  rc_updated :: string
  rc_metadata :: json_object

definition entry_from_text :: "dream_env \<Rightarrow> string \<Rightarrow> string \<Rightarrow> string \<Rightarrow> string \<Rightarrow> string option \<Rightarrow> string \<Rightarrow> int option \<Rightarrow> recall_entry" where
  "entry_from_text env now s source query session source_type line =
     \<lparr>rc_key = hash_text env (source @ '':'' @ normalized_text s), rc_text = py_strip s, rc_source = source,
      rc_source_type = source_type, rc_session = session, rc_line = line, rc_count = 1, rc_daily = 0, rc_grounded = 1,
      rc_relevance = 1, rc_queries = [hash_text env query], rc_days = [take 10 now], rc_tags = concept_tags s,
      rc_created = now, rc_updated = now, rc_metadata = []\<rparr>"

definition unique_queries :: "recall_entry \<Rightarrow> int" where
  "unique_queries e = int (length (remdups (rc_queries e)))"

definition average_relevance :: "recall_entry \<Rightarrow> rat" where
  "average_relevance e = (if rc_count e \<le> 0 then 0 else rc_relevance e / of_int (rc_count e))"

definition sorted_union :: "string list \<Rightarrow> string list \<Rightarrow> string list" where
  "sorted_union xs ys = sort (remdups (xs @ ys))"

definition merge_entry :: "recall_entry \<Rightarrow> recall_entry \<Rightarrow> recall_entry" where
  "merge_entry old e = old\<lparr>rc_count := rc_count old + rc_count e, rc_relevance := rc_relevance old + rc_relevance e,
     rc_grounded := rc_grounded old + rc_grounded e, rc_daily := rc_daily old + rc_daily e,
     rc_queries := sorted_union (rc_queries old) (rc_queries e), rc_days := sorted_union (rc_days old) (rc_days e),
     rc_tags := sorted_union (rc_tags old) (rc_tags e), rc_updated := rc_updated e\<rparr>"

definition upsert_entry :: "recall_entry \<Rightarrow> (string, recall_entry) pydict \<Rightarrow> (string, recall_entry) pydict" where
  "upsert_entry e d = dict_set (rc_key e) (case dict_get d (rc_key e) of None \<Rightarrow> e | Some old \<Rightarrow> merge_entry old e) d"

definition upsert_entries :: "recall_entry list \<Rightarrow> recall_entry list \<Rightarrow> recall_entry list" where
  "upsert_entries es current = sort_key rc_key (dict_values (fold upsert_entry es
     (fold (\<lambda>e. dict_set (rc_key e) e) current [])))"

subsection \<open>Configuration and state\<close>

record promotion_weights =
  pw_frequency :: rat
  pw_relevance :: rat
  pw_diversity :: rat
  pw_recency :: rat
  pw_consolidation :: rat
  pw_richness :: rat

definition default_weights :: promotion_weights where
  "default_weights = \<lparr>pw_frequency = 24 / 100, pw_relevance = 30 / 100, pw_diversity = 15 / 100, pw_recency = 15 / 100,
     pw_consolidation = 10 / 100, pw_richness = 6 / 100\<rparr>"

text \<open>The fields that a sweep reads; the interval is read by the scheduler.\<close>

record dreaming_config =
  dc_max_candidates :: int
  dc_min_score :: rat
  dc_min_recall :: int
  dc_min_queries :: int
  dc_markdown :: bool
  dc_memory_markdown :: bool
  dc_diary :: bool
  dc_sanitize :: bool
  dc_weights :: promotion_weights

definition default_dreaming :: dreaming_config where
  "default_dreaming = \<lparr>dc_max_candidates = 20, dc_min_score = 45 / 100, dc_min_recall = 2, dc_min_queries = 1,
     dc_markdown = True, dc_memory_markdown = True, dc_diary = True, dc_sanitize = True, dc_weights = default_weights\<rparr>"

definition config_int :: "dream_env \<Rightarrow> json \<Rightarrow> int \<Rightarrow> py_error + int" where
  "config_int env v fallback = (case v of
     JBool b \<Rightarrow> Inr (if b then 1 else 0) | JInt i \<Rightarrow> Inr i | JFloat r \<Rightarrow> de_trunc env r | JStr s \<Rightarrow> py_int s | _ \<Rightarrow> Inr fallback)"

definition config_float :: "dream_env \<Rightarrow> json \<Rightarrow> rat \<Rightarrow> py_error + rat" where
  "config_float env v fallback = (case v of
     JBool b \<Rightarrow> Inr (if b then 1 else 0) | JInt i \<Rightarrow> Inr (of_int i)
   | JFloat r \<Rightarrow> (case de_read env r of Some x \<Rightarrow> Inr x | None \<Rightarrow> Inl (ValueError ''could not convert string to float''))
   | JStr s \<Rightarrow> (case de_read env s of Some x \<Rightarrow> Inr x | None \<Rightarrow> Inl (ValueError ''could not convert string to float''))
   | _ \<Rightarrow> Inr fallback)"

text \<open>
  \<open>cls(**data)\<close>.  A weight that is not a number is refused here; the code fails when it first multiplies with it.
\<close>

definition weight_names :: "string list" where
  "weight_names = [''frequency'', ''relevance'', ''query_diversity'', ''recency'', ''consolidation'', ''conceptual_richness'']"

definition weight_value :: "dream_env \<Rightarrow> json_object \<Rightarrow> string \<Rightarrow> rat \<Rightarrow> py_error + rat" where
  "weight_value env d k fallback = (case dict_get d k of
     None \<Rightarrow> Inr fallback
   | Some (JStr s) \<Rightarrow> Inl (TypeError ''cannot multiply a sequence'')
   | Some (JList l) \<Rightarrow> Inl (TypeError ''cannot multiply a sequence'')
   | Some (JDict o') \<Rightarrow> Inl (TypeError ''unsupported operand type(s)'')
   | Some JNull \<Rightarrow> Inl (TypeError ''unsupported operand type(s)'')
   | Some v \<Rightarrow> config_float env v fallback)"

definition weights_from_dict :: "dream_env \<Rightarrow> json_object \<Rightarrow> py_error + promotion_weights" where
  "weights_from_dict env d =
     (if \<not> list_all (\<lambda>k. k \<in> set weight_names) (dict_keys d) then Inl (TypeError ''unexpected keyword argument'')
      else let w = weight_value env d in
        ebind (w ''frequency'' (24 / 100)) (\<lambda>a. ebind (w ''relevance'' (30 / 100)) (\<lambda>b. ebind (w ''query_diversity'' (15 / 100)) (\<lambda>c.
        ebind (w ''recency'' (15 / 100)) (\<lambda>e. ebind (w ''consolidation'' (10 / 100)) (\<lambda>f. ebind (w ''conceptual_richness'' (6 / 100)) (\<lambda>g.
        Inr \<lparr>pw_frequency = a, pw_relevance = b, pw_diversity = c, pw_recency = e, pw_consolidation = f, pw_richness = g\<rparr>)))))))"

definition config_bool :: "json_object \<Rightarrow> string \<Rightarrow> bool" where
  "config_bool d k = truthy (dict_get_default d k (JBool True))"

definition dreaming_config_from_dict :: "dream_env \<Rightarrow> json_object \<Rightarrow> py_error + dreaming_config" where
  "dreaming_config_from_dict env d =
     ebind (case dict_get_default d ''weights'' (JDict []) of JDict w \<Rightarrow> weights_from_dict env w | _ \<Rightarrow> Inr default_weights) (\<lambda>w.
     ebind (config_int env (jget d ''min_interval_seconds'') 86400) (\<lambda>_.
     ebind (config_int env (jget d ''lookback_days'') 7) (\<lambda>_.
     ebind (config_int env (jget d ''max_candidates'') 20) (\<lambda>candidates.
     ebind (config_float env (jget d ''min_score'') (45 / 100)) (\<lambda>score.
     ebind (config_int env (jget d ''min_recall_count'') 2) (\<lambda>recall.
     ebind (config_int env (jget d ''min_unique_queries'') 1) (\<lambda>queries.
     Inr \<lparr>dc_max_candidates = candidates, dc_min_score = score, dc_min_recall = recall, dc_min_queries = queries,
       dc_markdown = config_bool d ''write_markdown'', dc_memory_markdown = config_bool d ''write_memory_markdown'',
       dc_diary = config_bool d ''dream_diary_enabled'', dc_sanitize = config_bool d ''sanitize_session_corpus'', dc_weights = w\<rparr>)))))))"

text \<open>\<open>_dreaming_config_from_request\<close>.\<close>

definition requested_config :: "dream_env \<Rightarrow> json_object option \<Rightarrow> py_error + dreaming_config" where
  "requested_config env c = (case c of
     None \<Rightarrow> Inr (default_dreaming\<lparr>dc_markdown := False, dc_diary := False\<rparr>)
   | Some d \<Rightarrow> dreaming_config_from_dict env d)"

datatype dreaming_phase = LIGHT | REM | DEEP

fun phase_value :: "dreaming_phase \<Rightarrow> string" where
  "phase_value LIGHT = ''light''"
| "phase_value REM = ''rem''"
| "phase_value DEEP = ''deep''"

text \<open>The phases are finitely many, so what is said of all of them is computed.\<close>

instantiation dreaming_phase :: enum
begin

definition enum_dreaming_phase :: "dreaming_phase list" where
  "enum_dreaming_phase = [LIGHT, REM, DEEP]"

definition enum_all_dreaming_phase :: "(dreaming_phase \<Rightarrow> bool) \<Rightarrow> bool" where
  "enum_all_dreaming_phase P \<longleftrightarrow> P LIGHT \<and> P REM \<and> P DEEP"

definition enum_ex_dreaming_phase :: "(dreaming_phase \<Rightarrow> bool) \<Rightarrow> bool" where
  "enum_ex_dreaming_phase P \<longleftrightarrow> P LIGHT \<or> P REM \<or> P DEEP"

instance
proof
  have all: "p = LIGHT \<or> p = REM \<or> p = DEEP" for p :: dreaming_phase by (cases p) simp_all
  show "(UNIV :: dreaming_phase set) = set enum_class.enum" using all by (auto simp: enum_dreaming_phase_def)
  show "distinct (enum_class.enum :: dreaming_phase list)" by (simp add: enum_dreaming_phase_def)
  show "enum_class.enum_all P = Ball (UNIV :: dreaming_phase set) P" for P
    using all unfolding enum_all_dreaming_phase_def by (metis UNIV_I)
  show "enum_class.enum_ex P = Bex (UNIV :: dreaming_phase set) P" for P
    using all unfolding enum_ex_dreaming_phase_def by (metis UNIV_I)
qed

end

record dream_state =
  dst_entries :: "recall_entry list"
  dst_signals :: json_object
  dst_checkpoints :: "(string, json_object) pydict"
  dst_locked :: bool
  dst_files :: "(string, string) pydict"
  dst_clock :: nat

definition read_signals :: "dream_state \<Rightarrow> json_object" where
  "read_signals st = filter (\<lambda>(k, v). is_jdict v) (dst_signals st)"

definition signal_count :: "dream_env \<Rightarrow> json \<Rightarrow> py_error + int" where
  "signal_count env v = config_int env v 0"

definition record_signal :: "dream_env \<Rightarrow> dreaming_phase \<Rightarrow> string \<Rightarrow> string \<Rightarrow> json_object \<Rightarrow> py_error + json_object" where
  "record_signal env phase day key signals =
     (let item = field_dict signals key; signal = field_dict item (phase_value phase) in
      ebind (signal_count env (dict_get_default signal ''count'' (JInt 0))) (\<lambda>n.
      Inr (dict_set key (JDict (dict_set (phase_value phase)
        (JDict (dict_set ''last_seen_day'' (JStr day) (dict_set ''count'' (JInt (n + 1)) signal))) item)) signals)))"

fun record_signals :: "dream_env \<Rightarrow> dreaming_phase \<Rightarrow> string \<Rightarrow> string list \<Rightarrow> json_object \<Rightarrow> py_error + json_object" where
  "record_signals env phase day [] signals = Inr signals"
| "record_signals env phase day (k # ks) signals =
     ebind (record_signal env phase day k signals) (record_signals env phase day ks)"

definition record_phase_signals :: "dream_env \<Rightarrow> dreaming_phase \<Rightarrow> string list \<Rightarrow> string \<Rightarrow> (dream_state, unit) eff" where
  "record_phase_signals env phase keys day st = (case record_signals env phase day keys (read_signals st) of
     Inl e \<Rightarrow> (Inl e, st) | Inr d \<Rightarrow> (Inr (), st\<lparr>dst_signals := sorted_object d\<rparr>))"

subsection \<open>Candidates\<close>

record promotion_candidate =
  cd_entry :: recall_entry
  cd_score :: rat
  cd_components :: "(string \<times> rat) list"
  cd_boost :: rat
  cd_eligible :: bool
  cd_reason :: "string option"

record phase_result =
  pr_phase :: dreaming_phase
  pr_seen :: nat
  pr_candidates :: "promotion_candidate list"
  pr_themes :: "string list"
  pr_lines :: "string list"

text \<open>\<open>int(value.get("count", 0))\<close>, which raises for an absent number.\<close>

definition boost_count :: "dream_env \<Rightarrow> json_object \<Rightarrow> py_error + int" where
  "boost_count env d = (case dict_get_default d ''count'' (JInt 0) of
     JNull \<Rightarrow> Inl (TypeError ''int() argument'') | JList _ \<Rightarrow> Inl (TypeError ''int() argument'')
   | JDict _ \<Rightarrow> Inl (TypeError ''int() argument'') | v \<Rightarrow> config_int env v 0)"

definition phase_boost :: "dream_env \<Rightarrow> json_object \<Rightarrow> py_error + rat" where
  "phase_boost env signal = ebind (emap (boost_count env) (List.map_filter (\<lambda>(k, v). as_dict v) signal)) (\<lambda>ns.
     Inr (min (10 / 100) (sum_list (map (\<lambda>n. of_int n * (3 / 100)) ns))))"

definition score_components :: "string \<Rightarrow> recall_entry \<Rightarrow> (string \<times> rat) list" where
  "score_components day e =
     [(''frequency'', min 1 (of_int (rc_count e) / 5)), (''relevance'', min 1 (average_relevance e)),
      (''query_diversity'', min 1 (of_int (unique_queries e) / 3)), (''recency'', if day \<in> set (rc_days e) then 1 else 5 / 10),
      (''consolidation'', min 1 (of_nat (length (remdups (rc_days e))) / 3)),
      (''conceptual_richness'', min 1 (of_nat (length (rc_tags e)) / 6))]"

definition weighted_score :: "promotion_weights \<Rightarrow> (string \<times> rat) list \<Rightarrow> rat" where
  "weighted_score w cs = sum_list (map2 (*) (map snd cs)
     [pw_frequency w, pw_relevance w, pw_diversity w, pw_recency w, pw_consolidation w, pw_richness w])"

definition refusal :: "dreaming_config \<Rightarrow> rat \<Rightarrow> recall_entry \<Rightarrow> string option" where
  "refusal c score e =
     (if score < dc_min_score c then Some ''score_below_threshold''
      else if rc_count e < dc_min_recall c then Some ''recall_count_below_threshold''
      else if unique_queries e < dc_min_queries c then Some ''unique_queries_below_threshold''
      else None)"

definition score_candidate :: "dream_env \<Rightarrow> dreaming_config \<Rightarrow> json_object \<Rightarrow> string \<Rightarrow> recall_entry \<Rightarrow> py_error + promotion_candidate" where
  "score_candidate env c signals day e = ebind (phase_boost env (field_dict signals (rc_key e))) (\<lambda>boost.
     let components = score_components day e; score = weighted_score (dc_weights c) components + boost in
     Inr \<lparr>cd_entry = e, cd_score = score, cd_components = components, cd_boost = boost,
       cd_eligible = (refusal c score e = None), cd_reason = refusal c score e\<rparr>)"

definition find_repeated :: "string \<Rightarrow> memory_record list \<Rightarrow> memory_record option" where
  "find_repeated s records = List.find (\<lambda>r. normalized_text (mem_content r) = normalized_text s \<or>
     py_contains (normalized_text (mem_title r)) (normalized_text s)) records"

text \<open>The line of a daily file is still in the file; other sources always count.\<close>

definition source_grounded :: "(string, string) pydict \<Rightarrow> recall_entry \<Rightarrow> bool" where
  "source_grounded files e =
     (if rc_source_type e \<noteq> ''daily'' \<or> \<not> py_startswith (rc_source e) ''daily:'' then True
      else let name = drop 6 (rc_source e) in
        case or_else (dict_get files (''memory/'' @ name)) (dict_get files name) of
          None \<Rightarrow> False | Some s \<Rightarrow> py_contains (rc_text e) s)"

definition record_from_candidate :: "dream_env \<Rightarrow> string \<Rightarrow> string \<Rightarrow> string option \<Rightarrow> promotion_candidate \<Rightarrow> memory_record" where
  "record_from_candidate env now session agent c = (let e = cd_entry c; title = take 80 (rc_text e) in
     \<lparr>mem_id = ''dream_'' @ rc_key e, mem_scope = PROJECT_OVERLAY, mem_type = Payload NOTE_MEMORY, mem_title = title,
      mem_content = rc_text e, mem_summary = title, mem_source = rc_source e, mem_created = now, mem_updated = now,
      mem_freshness = ''fresh'', mem_session = Some session, mem_agent = agent,
      mem_metadata = [(''write_path'', JStr (write_path_value DREAM)), (''dreaming_score'', JFloat (de_show env (cd_score c))),
        (''dreaming_components'', JDict (map (apsnd (\<lambda>x. JFloat (de_show env x))) (cd_components c))),
        (''dreaming_phase_boost'', JFloat (de_show env (cd_boost c))), (''promotion_source'', JStr ''dreaming'')]\<rparr>)"

text \<open>The fate of one selected candidate: what it becomes, the record promoted, the duplicate found.\<close>

definition judge_candidate :: "(string, string) pydict \<Rightarrow> memory_record list \<Rightarrow> promotion_candidate \<Rightarrow>
    promotion_candidate \<times> promotion_candidate option \<times> string option" where
  "judge_candidate files existing c =
     (if \<not> cd_eligible c then (c, None, None)
      else if \<not> source_grounded files (cd_entry c) then (c\<lparr>cd_eligible := False, cd_reason := Some ''source_not_grounded''\<rparr>, None, None)
      else case find_repeated (rc_text (cd_entry c)) existing of
        Some r \<Rightarrow> (c\<lparr>cd_eligible := False, cd_reason := Some ''duplicate''\<rparr>, None, Some (mem_id r))
      | None \<Rightarrow> (c, Some c, None))"

definition select_candidates :: "dream_env \<Rightarrow> dreaming_config \<Rightarrow> json_object \<Rightarrow> string \<Rightarrow> recall_entry list \<Rightarrow>
    py_error + promotion_candidate list" where
  "select_candidates env c signals day es = ebind (emap (score_candidate env c signals day) es) (\<lambda>cs.
     Inr (py_upto (dc_max_candidates c) (sort_key (\<lambda>x. - cd_score x) cs)))"

definition dream_now :: "dream_env \<Rightarrow> (dream_state, string) eff" where
  "dream_now env st = (Inr (de_now env (dst_clock st)), st\<lparr>dst_clock := Suc (dst_clock st)\<rparr>)"

fun promote :: "dream_env \<Rightarrow> string \<Rightarrow> string option \<Rightarrow> promotion_candidate list \<Rightarrow> (dream_state, memory_record list) eff" where
  "promote env session agent [] = ret []"
| "promote env session agent (c # cs) = bind (dream_now env) (\<lambda>now.
     bind (promote env session agent cs) (\<lambda>rs. ret (record_from_candidate env now session agent c # rs)))"

definition run_deep :: "dream_env \<Rightarrow> dreaming_config \<Rightarrow> string \<Rightarrow> string \<Rightarrow> string option \<Rightarrow> recall_entry list \<Rightarrow>
    memory_record list \<Rightarrow> (dream_state, phase_result \<times> memory_record list \<times> string list) eff" where
  "run_deep env c day session agent es existing =
     bind (reads (\<lambda>st. select_candidates env c (read_signals st) day es)) (\<lambda>selected.
     bind (gets (\<lambda>st. map (judge_candidate (dst_files st) existing) selected)) (\<lambda>fates.
     bind (promote env session agent (List.map_filter (\<lambda>(_, p, _). p) fates)) (\<lambda>promoted.
     ret (\<lparr>pr_phase = DEEP, pr_seen = length es, pr_candidates = map fst fates,
            pr_themes = extract_themes (map (\<lambda>x. rc_text (cd_entry x)) selected),
            pr_lines = map (\<lambda>r. ''- Promoted: '' @ mem_title r) promoted\<rparr>,
          promoted, List.map_filter (\<lambda>(_, _, d). d) fates))))"

subsection \<open>The other phases\<close>

definition run_light :: "dream_env \<Rightarrow> dreaming_config \<Rightarrow> string \<Rightarrow> recall_entry list \<Rightarrow> (dream_state, phase_result) eff" where
  "run_light env c day es = (let limited = py_upto (dc_max_candidates c) es in
     bind (record_phase_signals env LIGHT (map rc_key limited) day) (\<lambda>_.
     ret \<lparr>pr_phase = LIGHT, pr_seen = length es, pr_candidates = [], pr_themes = extract_themes (map rc_text limited),
          pr_lines = map (\<lambda>e. ''- '' @ rc_text e) (take 5 limited)\<rparr>))"

definition run_rem :: "dream_env \<Rightarrow> dreaming_config \<Rightarrow> string \<Rightarrow> recall_entry list \<Rightarrow> (dream_state, phase_result) eff" where
  "run_rem env c day es = (let limited = py_upto (dc_max_candidates c) (sort_key (\<lambda>e. - average_relevance e) es);
       themes = extract_themes (map rc_text limited) in
     bind (record_phase_signals env REM (map rc_key limited) day) (\<lambda>_.
     ret \<lparr>pr_phase = REM, pr_seen = length es, pr_candidates = [], pr_themes = themes,
          pr_lines = map (\<lambda>w. ''- Reflection: '' @ w) (take 5 themes)\<rparr>))"

subsection \<open>What a sweep takes in\<close>

definition session_source :: "string \<Rightarrow> string" where
  "session_source session = ''session:'' @ session"

definition recalled_text :: "dreaming_config \<Rightarrow> session_message \<Rightarrow> string option" where
  "recalled_text c m = (let s = sanitize_text (dc_sanitize c) (session_message_text m) in
     if sm_role m \<notin> {''user'', ''assistant''} \<or> s = [] \<or> is_low_signal s then None else Some s)"

fun ingest_session_transcript :: "dream_env \<Rightarrow> dreaming_config \<Rightarrow> string \<Rightarrow> session_message list \<Rightarrow> (dream_state, recall_entry list) eff" where
  "ingest_session_transcript env c session [] = ret []"
| "ingest_session_transcript env c session (m # ms) = (case recalled_text c m of
     None \<Rightarrow> ingest_session_transcript env c session ms
   | Some s \<Rightarrow> bind (dream_now env) (\<lambda>now. bind (ingest_session_transcript env c session ms) (\<lambda>es.
       ret (entry_from_text env now s (session_source session) (take 80 s) (Some session) ''session'' None # es))))"

text \<open>The names of the Markdown files directly under \<^verbatim>\<open>memory\<close>, but the two the engine writes.\<close>

definition daily_names :: "dream_state \<Rightarrow> string list" where
  "daily_names st = filter (\<lambda>n. n \<notin> {''DREAMS.md'', ''MEMORY.md''}) (sort (filter (\<lambda>n. CHR ''/'' \<notin> set n \<and> py_endswith n ''.md'')
     (map (drop 7) (filter (\<lambda>p. py_startswith p ''memory/'') (dict_keys (dst_files st))))))"

definition daily_text :: "string \<Rightarrow> string" where
  "daily_text line = (let strip = dropWhile (\<lambda>x. x = CHR ''-'' \<or> x = CHR '' '') in py_strip (rev (strip (rev (strip line)))))"

fun ingest_lines :: "dream_env \<Rightarrow> string \<Rightarrow> int \<Rightarrow> string list \<Rightarrow> (dream_state, recall_entry list) eff" where
  "ingest_lines env name index [] = ret []"
| "ingest_lines env name index (line # ls) = (let s = daily_text line in
     if s = [] \<or> py_startswith s ''#'' then ingest_lines env name (index + 1) ls
     else bind (dream_now env) (\<lambda>now. bind (ingest_lines env name (index + 1) ls) (\<lambda>es.
       ret (entry_from_text env now s (''daily:'' @ name) (take 80 s) None ''daily'' (Some index) # es))))"

fun ingest_files :: "dream_env \<Rightarrow> string list \<Rightarrow> (dream_state, recall_entry list) eff" where
  "ingest_files env [] = ret []"
| "ingest_files env (name # names) = bind (gets (\<lambda>st. dict_get_default (dst_files st) (''memory/'' @ name) [])) (\<lambda>s.
     bind (ingest_lines env name 1 (py_splitlines s)) (\<lambda>es. bind (ingest_files env names) (\<lambda>rest. ret (es @ rest))))"

definition ingest_daily_memory :: "dream_env \<Rightarrow> string \<Rightarrow> (dream_state, recall_entry list) eff" where
  "ingest_daily_memory env day = bind (gets daily_names) (\<lambda>names. bind (ingest_files env names) (\<lambda>es.
     bind (modify (\<lambda>st. if es = [] then st
         else st\<lparr>dst_checkpoints := dict_set ''daily-ingestion'' [(''last_day'', JStr day)] (dst_checkpoints st)\<rparr>))
       (\<lambda>_. ret es)))"

subsection \<open>Markdown\<close>

definition two_breaks :: string where
  "two_breaks = [newline, newline]"

definition block_start :: "dreaming_phase \<Rightarrow> string" where
  "block_start phase = ''<!-- openagent:dreaming:'' @ phase_value phase @ '':start -->''"

definition block_end :: "dreaming_phase \<Rightarrow> string" where
  "block_end phase = ''<!-- openagent:dreaming:'' @ phase_value phase @ '':end -->''"

definition managed_block :: "dreaming_phase \<Rightarrow> string \<Rightarrow> string" where
  "managed_block phase body = block_start phase @ [newline] @ py_rstrip body @ [newline] @ block_end phase"

text \<open>The new text of a file with a managed block: the block is replaced from its first start to the first end.\<close>

definition replaced_block :: "dreaming_phase \<Rightarrow> string \<Rightarrow> string \<Rightarrow> string" where
  "replaced_block phase body s = py_lstrip (case (split_first (block_start phase) s, split_first (block_end phase) s) of
     (Some (b, a), Some (b', a')) \<Rightarrow>
       if length b \<le> length b' then py_rstrip b @ two_breaks @ managed_block phase body @ a'
       else py_rstrip s @ two_breaks @ managed_block phase body @ [newline]
   | _ \<Rightarrow> py_rstrip s @ two_breaks @ managed_block phase body @ [newline])"

definition replace_managed_block :: "string \<Rightarrow> dreaming_phase \<Rightarrow> string \<Rightarrow> (dream_state, unit) eff" where
  "replace_managed_block path phase body = modify (\<lambda>st. st\<lparr>dst_files := dict_set path
     (replaced_block phase body (dict_get_default (dst_files st) path (''# Dreams'' @ two_breaks))) (dst_files st)\<rparr>)"

fun phase_title :: "dreaming_phase \<Rightarrow> string" where
  "phase_title LIGHT = ''Light Sleep''"
| "phase_title REM = ''REM Sleep''"
| "phase_title DEEP = ''Deep Sleep''"

definition render_phase_report :: "dream_env \<Rightarrow> phase_result \<Rightarrow> string" where
  "render_phase_report env r = py_join [newline]
     ([''## '' @ phase_title (pr_phase r), [], ''Entries seen: '' @ nat_str (pr_seen r)]
      @ (if pr_themes r = [] then [] else [[], ''Themes:''] @ map (\<lambda>w. ''- '' @ w) (pr_themes r))
      @ (if pr_lines r = [] then [] else [] # pr_lines r)
      @ (if pr_candidates r = [] then [] else [[], ''Candidates:''] @
           map (\<lambda>c. ''- '' @ rc_text (cd_entry c) @ '' (score: '' @ de_show2 env (cd_score c) @ '')'') (pr_candidates r)))"

definition report_path :: "dreaming_phase \<Rightarrow> string \<Rightarrow> string" where
  "report_path phase day = ''memory/dreaming/'' @ phase_value phase @ ''/'' @ day @ ''.md''"

definition write_phase_report :: "dream_env \<Rightarrow> string \<Rightarrow> phase_result \<Rightarrow> (dream_state, unit) eff" where
  "write_phase_report env day r = bind (replace_managed_block (report_path (pr_phase r) day) (pr_phase r) (render_phase_report env r))
     (\<lambda>_. replace_managed_block ''DREAMS.md'' (pr_phase r) (render_phase_report env r))"

definition diary_heading :: string where
  "diary_heading = ''## Dream Diary''"

definition diary_entry :: "dreaming_phase \<Rightarrow> string \<Rightarrow> string \<Rightarrow> string" where
  "diary_entry phase narrative day = ''### '' @ day @ '' '' @ map upper_char (phase_value phase) @ two_breaks @ narrative @ two_breaks
     @ ''_Dream Diary is not a promotion source._'' @ [newline]"

definition append_dream_diary :: "dreaming_phase \<Rightarrow> string \<Rightarrow> string \<Rightarrow> (dream_state, unit) eff" where
  "append_dream_diary phase narrative day = modify (\<lambda>st.
     let found = dict_get_default (dst_files st) ''DREAMS.md'' (''# Dreams'' @ two_breaks);
         existing = (if py_contains diary_heading found then found else py_rstrip found @ two_breaks @ diary_heading @ two_breaks) in
     if py_contains narrative existing then st
     else st\<lparr>dst_files := dict_set ''DREAMS.md'' (py_rstrip existing @ two_breaks @ diary_entry phase narrative day) (dst_files st)\<rparr>)"

definition promotions_block :: "string \<Rightarrow> promotion_candidate list \<Rightarrow> string" where
  "promotions_block day cs = py_rstrip (py_join [newline] ([''## Dream Promotions '' @ day, []] @ map (\<lambda>c. ''- '' @ rc_text (cd_entry c)) cs)) @ [newline]"

definition append_memory_promotions :: "promotion_candidate list \<Rightarrow> string \<Rightarrow> (dream_state, unit) eff" where
  "append_memory_promotions cs day = modify (\<lambda>st.
     let eligible = filter cd_eligible cs; existing = dict_get_default (dst_files st) ''MEMORY.md'' (''# Memory'' @ two_breaks);
         block = promotions_block day eligible in
     if eligible = [] \<or> py_contains block existing then st
     else st\<lparr>dst_files := dict_set ''MEMORY.md'' (py_rstrip existing @ two_breaks @ block) (dst_files st)\<rparr>)"

subsection \<open>The sweep\<close>

definition diary_narrative :: "phase_result \<Rightarrow> string option" where
  "diary_narrative r = (if pr_themes r = [] then None
     else Some (''The agent noticed recurring themes around '' @ py_join '', '' (take 3 (pr_themes r)) @ ''.''))"

definition write_artifacts :: "dream_env \<Rightarrow> dreaming_config \<Rightarrow> string \<Rightarrow> phase_result list \<Rightarrow> phase_result \<Rightarrow> phase_result \<Rightarrow> (dream_state, unit) eff" where
  "write_artifacts env c day results rem_result deep_result =
     bind (if \<not> dc_markdown c then ret ()
       else bind (each (write_phase_report env day) results) (\<lambda>_.
         if dc_memory_markdown c then append_memory_promotions (pr_candidates deep_result) day else ret ())) (\<lambda>_.
     case (if dc_diary c then diary_narrative rem_result else None) of
       None \<Rightarrow> ret () | Some narrative \<Rightarrow> append_dream_diary REM narrative day)"

definition sweep_body :: "dream_env \<Rightarrow> dreaming_config \<Rightarrow> string \<Rightarrow> string \<Rightarrow> session_message list \<Rightarrow> memory_record list \<Rightarrow>
    string option \<Rightarrow> (dream_state, memory_record list \<times> string list) eff" where
  "sweep_body env c day session ms existing agent =
     bind (ingest_session_transcript env c session ms) (\<lambda>said.
     bind (ingest_daily_memory env day) (\<lambda>noted.
     bind (modify (\<lambda>st. if said @ noted = [] then st
         else st\<lparr>dst_entries := upsert_entries (said @ noted) (dst_entries st)\<rparr>)) (\<lambda>_.
     bind (gets dst_entries) (\<lambda>es.
     bind (run_light env c day es) (\<lambda>light.
     bind (run_rem env c day es) (\<lambda>rem_result.
     bind (run_deep env c day session agent es existing) (\<lambda>(deep, promoted, skipped).
     bind (write_artifacts env c day [light, rem_result, deep] rem_result deep) (\<lambda>_.
     ret (promoted, skipped)))))))))"

text \<open>The lock is a file: it is refused when it is there, and removed whatever the sweep does.\<close>

definition with_lock :: "(dream_state, 'a) eff \<Rightarrow> (dream_state, 'a) eff" where
  "with_lock body st = (if dst_locked st then (Inl (RuntimeErr ''dreaming state is locked''), st)
     else let (r, st') = body (st\<lparr>dst_locked := True\<rparr>) in (r, st'\<lparr>dst_locked := False\<rparr>))"

definition run_sweep :: "dream_env \<Rightarrow> dreaming_config \<Rightarrow> string \<Rightarrow> session_message list \<Rightarrow> memory_record list \<Rightarrow> string option \<Rightarrow>
    (dream_state, memory_record list \<times> string list) eff" where
  "run_sweep env c session ms existing agent =
     bind (\<lambda>st. (Inr (de_day env (dst_clock st)), st\<lparr>dst_clock := Suc (dst_clock st)\<rparr>)) (\<lambda>day.
     with_lock (sweep_body env c day session ms existing agent))"

text \<open>\<open>engine = DreamingEngine(...)\<close> and \<open>engine.run_sweep(...)\<close>, as the durable memory calls them.\<close>

definition dream_sweep :: "dream_env \<Rightarrow> json_object option \<Rightarrow> string \<Rightarrow> session_message list \<Rightarrow> memory_record list \<Rightarrow> string option \<Rightarrow>
    (dream_state, memory_record list \<times> string list) eff" where
  "dream_sweep env c session ms existing agent = bind (lift (requested_config env c)) (\<lambda>config.
     run_sweep env config session ms existing agent)"

end
