(* ===== verification/DreamProps.thy ===== *)
theory DreamProps
  imports Dreaming
begin

text \<open>
  What a sweep of the dreaming engine guarantees: which records it promotes, how recall counts add up,
  and what the rewriting of a managed block leaves alone.
\<close>

subsection \<open>What the steps of a sweep leave alone\<close>

text \<open>The files and the entries of a state: the steps before the reports read the first, those after the ingestion the second.\<close>

abbreviation has_files :: "(string, string) pydict \<Rightarrow> dream_state \<Rightarrow> bool" where
  "has_files F st \<equiv> dst_files st = F"

abbreviation holds_both :: "(string, string) pydict \<Rightarrow> recall_entry list \<Rightarrow> dream_state \<Rightarrow> bool" where
  "holds_both F es st \<equiv> dst_files st = F \<and> dst_entries st = es"

lemma keeps_now [keeping]: "keeps (has_files F) (dream_now env)" "keeps (holds_both F es) (dream_now env)"
  by (simp_all add: keeps_def dream_now_def)

lemma keeps_transcript [keeping]: "keeps (has_files F) (ingest_session_transcript env c session ms)"
proof (induction ms)
  case (Cons m ms)
  then show ?case by (simp only: ingest_session_transcript.simps) (intro keeping)
qed (simp add: keeping)

lemma keeps_lines [keeping]: "keeps (has_files F) (ingest_lines env name i ls)"
proof (induction ls arbitrary: i)
  case (Cons l ls)
  then show ?case by (simp only: ingest_lines.simps Let_def) (intro keeping)
qed (simp add: keeping)

lemma keeps_ingest_files [keeping]: "keeps (has_files F) (ingest_files env names)"
proof (induction names)
  case (Cons n names)
  then show ?case by (simp only: ingest_files.simps) (intro keeping)
qed (simp add: keeping)

lemma keeps_daily [keeping]: "keeps (has_files F) (ingest_daily_memory env day)"
  unfolding ingest_daily_memory_def by (intro keeping keeps_modify) simp

lemma keeps_signals [keeping]: "keeps (holds_both F es) (record_phase_signals env phase keys day)"
  by (simp add: keeps_def record_phase_signals_def split: sum.split)

lemma keeps_light [keeping]: "keeps (holds_both F es) (run_light env c day es')"
  and keeps_rem [keeping]: "keeps (holds_both F es) (run_rem env c day es')"
  unfolding run_light_def run_rem_def Let_def by (intro keeping)+

text \<open>The reports change the files only.\<close>

abbreviation has_entries :: "recall_entry list \<Rightarrow> dream_state \<Rightarrow> bool" where
  "has_entries es st \<equiv> dst_entries st = es"

lemma keeps_block [keeping]: "keeps (has_entries es) (replace_managed_block path phase body)"
  unfolding replace_managed_block_def by (intro keeps_modify) simp

lemma keeps_report [keeping]: "keeps (has_entries es) (write_phase_report env day r)"
  unfolding write_phase_report_def by (intro keeping)

lemma keeps_diary [keeping]: "keeps (has_entries es) (append_dream_diary phase narrative day)"
  unfolding append_dream_diary_def by (intro keeps_modify) (simp add: Let_def)

lemma keeps_promotions [keeping]: "keeps (has_entries es) (append_memory_promotions cs day)"
  unfolding append_memory_promotions_def by (intro keeps_modify) (simp add: Let_def)

lemma keeps_artifacts [keeping]: "keeps (has_entries es) (write_artifacts env c day results r d)"
  unfolding write_artifacts_def by (intro keeping)

subsection \<open>The records promoted\<close>

definition sound_promotion :: "dream_env \<Rightarrow> dreaming_config \<Rightarrow> (string, string) pydict \<Rightarrow> memory_record list \<Rightarrow> recall_entry \<Rightarrow>
    memory_record \<Rightarrow> bool" where
  "sound_promotion env c F existing e r \<longleftrightarrow>
     mem_id r = ''dream_'' @ rc_key e \<and> mem_content r = rc_text e \<and> mem_source r = rc_source e
   \<and> dc_min_recall c \<le> rc_count e \<and> dc_min_queries c \<le> unique_queries e
   \<and> (\<exists>s\<ge>dc_min_score c. dict_get (mem_metadata r) ''dreaming_score'' = Some (JFloat (de_show env s)))
   \<and> source_grounded F e
   \<and> (\<forall>x\<in>set existing. normalized_text (mem_content x) \<noteq> normalized_text (mem_content r)
        \<and> \<not> py_contains (normalized_text (mem_title x)) (normalized_text (mem_content r)))"

lemma scored_candidate:
  assumes "score_candidate env c signals day e = Inr x"
  shows "cd_entry x = e" "cd_eligible x = (refusal c (cd_score x) e = None)"
  using assms by (auto simp: score_candidate_def Let_def ebind_def split: sum.splits)

lemma emap_mem: "emap f xs = Inr ys \<Longrightarrow> y \<in> set ys \<Longrightarrow> \<exists>x\<in>set xs. f x = Inr y"
  by (induction xs arbitrary: ys) (auto simp: ebind_def split: sum.splits)

lemma py_upto_subset: "set (py_upto n xs) \<subseteq> set xs"
  by (auto simp: py_upto_def dest: in_set_takeD)

lemma selected_candidate:
  assumes "select_candidates env c signals day es = Inr cs" "x \<in> set cs"
  shows "cd_entry x \<in> set es \<and> cd_eligible x = (refusal c (cd_score x) (cd_entry x) = None)"
proof -
  obtain ys where ys: "emap (score_candidate env c signals day) es = Inr ys"
      "cs = py_upto (dc_max_candidates c) (sort_key (\<lambda>x. - cd_score x) ys)"
    using assms(1) by (auto simp: select_candidates_def ebind_def split: sum.splits)
  then have "x \<in> set ys" using assms(2) py_upto_subset by fastforce
  from emap_mem [OF ys(1) this] show ?thesis using scored_candidate by blast
qed

lemma judged_promoted:
  assumes "judge_candidate F existing x = (x', Some p, d)"
  shows "p = x \<and> cd_eligible x \<and> source_grounded F (cd_entry x) \<and> find_repeated (rc_text (cd_entry x)) existing = None"
  using assms by (auto simp: judge_candidate_def split: if_splits option.splits)

lemma no_duplicate:
  "find_repeated s existing = None \<longleftrightarrow> (\<forall>x\<in>set existing. normalized_text (mem_content x) \<noteq> normalized_text s
     \<and> \<not> py_contains (normalized_text (mem_title x)) (normalized_text s))"
  by (auto simp: find_repeated_def find_None_iff)

lemma promotion_of_candidate:
  assumes "select_candidates env c signals day es = Inr cs" "x \<in> set cs" "judge_candidate F existing x = (x', Some p, d)"
  shows "\<exists>e\<in>set es. sound_promotion env c F existing e (record_from_candidate env now session agent p)"
proof -
  note judged = judged_promoted [OF assms(3)]
  have "refusal c (cd_score x) (cd_entry x) = None" using selected_candidate [OF assms(1,2)] judged by simp
  then have "\<not> cd_score x < dc_min_score c" "\<not> rc_count (cd_entry x) < dc_min_recall c"
      "\<not> unique_queries (cd_entry x) < dc_min_queries c"
    by (simp_all add: refusal_def split: if_splits)
  then have "sound_promotion env c F existing (cd_entry x) (record_from_candidate env now session agent p)"
    using judged by (auto simp: sound_promotion_def record_from_candidate_def Let_def no_duplicate intro!: exI [where x = "cd_score x"])
  then show ?thesis using selected_candidate [OF assms(1,2)] by blast
qed

lemma promote_triple:
  "triple I (promote env session agent cs) (\<lambda>rs _. length rs = length cs \<and> (\<forall>r\<in>set rs. \<exists>p\<in>set cs. \<exists>now.
     r = record_from_candidate env now session agent p)) (\<lambda>_ _. True)"
proof (induction cs arbitrary: I)
  case (Cons c cs)
  have "triple I (dream_now env) (\<lambda>_ _. True) (\<lambda>_ _. True)" by (simp add: triple_def dream_now_def)
  then show ?case
    by (simp only: promote.simps, rule triple_bind) (rule triple_bind [OF Cons.IH], rule triple_ret, auto)
qed (simp add: triple_ret)

lemma keeps_promote [keeping]: "keeps (holds_both F es) (promote env session agent cs)"
proof (induction cs)
  case (Cons c cs)
  then show ?case by (simp only: promote.simps) (intro keeping)
qed (simp add: keeping)

definition sound_outcome :: "dream_env \<Rightarrow> dreaming_config \<Rightarrow> (string, string) pydict \<Rightarrow> memory_record list \<Rightarrow> recall_entry list \<Rightarrow>
    memory_record list \<Rightarrow> bool" where
  "sound_outcome env c F existing es rs \<longleftrightarrow> length rs \<le> length (py_upto (dc_max_candidates c) es)
     \<and> (\<forall>r\<in>set rs. \<exists>e\<in>set es. sound_promotion env c F existing e r)"

lemma emap_length: "emap f xs = Inr ys \<Longrightarrow> length ys = length xs"
  by (induction xs arbitrary: ys) (auto simp: ebind_def split: sum.splits)

lemma selected_length:
  assumes "select_candidates env c signals day es = Inr cs"
  shows "length cs = length (py_upto (dc_max_candidates c) es)"
  using assms by (auto simp: select_candidates_def ebind_def py_upto_def dest: emap_length split: sum.splits)

lemma length_map_filter: "length (List.map_filter f xs) \<le> length xs"
  by (simp add: List.map_filter_def)

definition fated :: "(string, string) pydict \<Rightarrow> memory_record list \<Rightarrow> promotion_candidate list \<Rightarrow> promotion_candidate list" where
  "fated F existing cs = List.map_filter (\<lambda>(_, p, _). p) (map (judge_candidate F existing) cs)"

lemma fated_mem: "p \<in> set (fated F existing cs) \<Longrightarrow> \<exists>x\<in>set cs. \<exists>x' d. judge_candidate F existing x = (x', Some p, d)"
  unfolding fated_def by (induction cs) (auto simp: List.map_filter_simps split: prod.splits option.splits)

lemma run_deep_result:
  assumes "run_deep env c day session agent es existing st = (Inr (d, rs, skipped), st')"
  shows "\<exists>cs. select_candidates env c (read_signals st) day es = Inr cs
    \<and> promote env session agent (fated (dst_files st) existing cs) st = (Inr rs, st')"
  using assms
  by (auto simp: run_deep_def bind_reads bind_gets bind_def [of "promote env session agent ps" for ps] ret_def fated_def
      split: sum.splits prod.splits)

lemma deep_triple:
  "triple (holds_both F es) (run_deep env c day session agent es existing)
     (\<lambda>(d, rs, skipped) st. holds_both F es st \<and> sound_outcome env c F existing es rs) (\<lambda>_ _. True)"
proof (rule tripleI)
  fix st assume st: "holds_both F es st"
  have "holds_both F es st' \<and> sound_outcome env c F existing es rs"
    if r: "run_deep env c day session agent es existing st = (Inr (d, rs, skipped), st')" for d rs skipped st'
  proof -
    obtain cs where cs: "select_candidates env c (read_signals st) day es = Inr cs"
        "promote env session agent (fated F existing cs) st = (Inr rs, st')"
      using run_deep_result [OF r] st by auto
    have "holds_both F es st'" using keepsD [OF keeps_promote st] by (metis cs(2) snd_conv)
    moreover have rs: "length rs = length (fated F existing cs)"
        "\<And>r. r \<in> set rs \<Longrightarrow> \<exists>p\<in>set (fated F existing cs). \<exists>now. r = record_from_candidate env now session agent p"
      using tripleD [OF promote_triple [of "\<lambda>_. True" env session agent "fated F existing cs"], of st] by (simp_all add: cs(2))
    have "\<exists>e\<in>set es. sound_promotion env c F existing e (record_from_candidate env now session agent p)"
      if p: "p \<in> set (fated F existing cs)" for p now
    proof -
      obtain x x' d where "x \<in> set cs" "judge_candidate F existing x = (x', Some p, d)"
        using fated_mem [OF p] by blast
      then show ?thesis by (rule promotion_of_candidate [OF cs(1)])
    qed
    moreover have "length rs \<le> length (py_upto (dc_max_candidates c) es)"
      using length_map_filter [of "\<lambda>(_, p, _). p" "map (judge_candidate F existing) cs"]
        selected_length [OF cs(1)] by (simp add: rs(1) fated_def)
    ultimately show ?thesis using rs(2) by (fastforce simp: sound_outcome_def)
  qed
  then show "case run_deep env c day session agent es existing st of (Inl e, st') \<Rightarrow> True
     | (Inr x, st') \<Rightarrow> (case x of (d, rs, skipped) \<Rightarrow> \<lambda>st. holds_both F es st \<and> sound_outcome env c F existing es rs) st'"
    by (simp split: prod.split sum.split)
qed

lemma triple_known: "(B \<Longrightarrow> triple P m Q E) \<Longrightarrow> triple (\<lambda>s. P s \<and> B) m Q E"
  by (auto simp: triple_def)

lemma sweep_triple:
  "triple (has_files F) (sweep_body env c day session ms existing agent)
     (\<lambda>(rs, skipped) st. sound_outcome env c F existing (dst_entries st) rs) (\<lambda>_ _. True)"
proof -
  have true: "triple P m Q (\<lambda>_ _. True)" if "triple P m Q E" for P Q E and m :: "(dream_state, 'a) eff"
    using that by (rule triple_conseq) auto
  have late: "triple (\<lambda>st. holds_both F es st \<and> sound_outcome env c F existing es rs)
      (bind (write_artifacts env c day results r d) (\<lambda>_. ret (rs, skipped)))
      (\<lambda>(rs, skipped) st. sound_outcome env c F existing (dst_entries st) rs) (\<lambda>_ _. True)" for es rs skipped results r d
  proof (rule triple_known)
    assume "sound_outcome env c F existing es rs"
    then show "triple (holds_both F es) (bind (write_artifacts env c day results r d) (\<lambda>_. ret (rs, skipped)))
        (\<lambda>(rs, skipped) st. sound_outcome env c F existing (dst_entries st) rs) (\<lambda>_ _. True)"
      by (intro triple_bind [OF triple_conseq [OF true [OF keeps_triple [OF keeps_artifacts [of es]]]]] triple_ret) auto
  qed
  have middle: "triple (holds_both F es) (bind (run_light env c day es) (\<lambda>light. bind (run_rem env c day es) (\<lambda>rem_result.
      bind (run_deep env c day session agent es existing) (\<lambda>(deep, promoted, skipped).
      bind (write_artifacts env c day [light, rem_result, deep] rem_result deep) (\<lambda>_. ret (promoted, skipped))))))
      (\<lambda>(rs, skipped) st. sound_outcome env c F existing (dst_entries st) rs) (\<lambda>_ _. True)" for es
    apply (rule triple_bind [OF true [OF keeps_triple [OF keeps_light]]])
    apply (rule triple_bind [OF true [OF keeps_triple [OF keeps_rem]]])
    apply (rule triple_bind [OF deep_triple])
    subgoal for light r x by (cases x) (simp only: prod.case, rule late)
    done
  show ?thesis
    unfolding sweep_body_def
    apply (rule triple_bind [OF true [OF keeps_triple [OF keeps_transcript]]])
    apply (rule triple_bind [OF true [OF keeps_triple [OF keeps_daily]]])
    apply (rule triple_bind [OF true [OF keeps_triple [OF keeps_modify]]])
     apply simp
    using middle by (simp add: triple_def)
qed

lemma sweep_outcome:
  assumes "run_sweep env c session ms existing agent st = (Inr (rs, skipped), st')"
  shows "sound_outcome env c (dst_files st) existing (dst_entries st') rs"
proof -
  define s0 where "s0 = st\<lparr>dst_clock := Suc (dst_clock st), dst_locked := True\<rparr>"
  obtain s1 where "sweep_body env c (de_day env (dst_clock st)) session ms existing agent s0 = (Inr (rs, skipped), s1)"
      "dst_entries s1 = dst_entries st'"
    using assms by (auto simp: run_sweep_def bind_def with_lock_def s0_def split: if_splits prod.splits)
  moreover have "has_files (dst_files st) s0" by (simp add: s0_def)
  ultimately show ?thesis
    using tripleD [OF sweep_triple [of "dst_files st" env c "de_day env (dst_clock st)" session ms existing agent]]
    by fastforce
qed


text \<open>A sweep over what was said twice, beside a record with the given title.\<close>

definition demo_dream_env :: dream_env where
  "demo_dream_env = \<lparr>de_day = (\<lambda>_. ''2026-01-01''), de_now = (\<lambda>_. ''2026-01-01T03''), de_hash = (\<lambda>s. s), de_read = (\<lambda>_. None),
     de_trunc = (\<lambda>_. Inr 0), de_show = (\<lambda>_. ''0.5''), de_show2 = (\<lambda>_. ''0.50'')\<rparr>"

definition demo_dream_config :: dreaming_config where
  "demo_dream_config = default_dreaming\<lparr>dc_markdown := False, dc_diary := False\<rparr>"

definition demo_transcript :: "session_message list" where
  "demo_transcript = [\<lparr>sm_role = ''user'', sm_content = JStr ''blue door'', sm_metadata = []\<rparr>,
     \<lparr>sm_role = ''user'', sm_content = JStr ''blue door'', sm_metadata = []\<rparr>]"

definition empty_dreams :: dream_state where
  "empty_dreams = \<lparr>dst_entries = [], dst_signals = [], dst_checkpoints = [], dst_locked = False, dst_files = [], dst_clock = 0\<rparr>"

definition demo_note :: "string \<Rightarrow> memory_record" where
  "demo_note title = \<lparr>mem_id = ''m1'', mem_scope = PROJECT_OVERLAY, mem_type = Payload NOTE_MEMORY, mem_title = title, mem_content = ''old'',
     mem_summary = title, mem_source = ''s'', mem_created = [], mem_updated = [], mem_freshness = ''fresh'', mem_session = None,
     mem_agent = None, mem_metadata = []\<rparr>"

definition demo_day :: string where
  "demo_day = ''2026-01-01''"

definition demo_recalls :: "recall_entry list" where
  "demo_recalls = replicate 2 (entry_from_text demo_dream_env ''2026-01-01T03'' ''blue door'' ''session:s1'' ''blue door''
     (Some ''s1'') ''session'' None)"

definition demo_entry :: recall_entry where
  "demo_entry = \<lparr>rc_key = ''session:s1:blue '', rc_text = ''blue door'', rc_source = ''session:s1'', rc_source_type = ''session'',
     rc_session = Some ''s1'', rc_line = None, rc_count = 2, rc_daily = 0, rc_grounded = 2, rc_relevance = 2,
     rc_queries = [''blue door''], rc_days = [''2026-01-01''], rc_tags = [''blue'', ''door''],
     rc_created = ''2026-01-01T03'', rc_updated = ''2026-01-01T03'', rc_metadata = []\<rparr>"

definition demo_signals :: "string list \<Rightarrow> json_object" where
  "demo_signals phases = [(''session:s1:blue '', JDict (map (\<lambda>p. (p, JDict [(''count'', JInt 1), (''last_seen_day'', JStr ''2026-01-01'')])) phases))]"

text \<open>The states of the sweep before the phases, and after each of the first two.\<close>

definition demo_begun :: dream_state where
  "demo_begun = empty_dreams\<lparr>dst_clock := 1, dst_locked := True\<rparr>"

definition demo_phase_state :: "json_object \<Rightarrow> dream_state" where
  "demo_phase_state signals = \<lparr>dst_entries = [demo_entry], dst_signals = signals, dst_checkpoints = [], dst_locked = True, dst_files = [], dst_clock = 3\<rparr>"

definition demo_deep :: "string \<Rightarrow> (py_error + phase_result \<times> memory_record list \<times> string list) \<times> dream_state" where
  "demo_deep title = run_deep demo_dream_env demo_dream_config demo_day ''s1'' None [demo_entry] [demo_note title]
     (demo_phase_state (demo_signals [''light'', ''rem'']))"

lemma demo_ingested:
  "ingest_session_transcript demo_dream_env demo_dream_config ''s1'' demo_transcript demo_begun = (Inr demo_recalls, demo_begun\<lparr>dst_clock := 3\<rparr>)"
  "ingest_daily_memory demo_dream_env demo_day (demo_begun\<lparr>dst_clock := 3\<rparr>) = (Inr [], demo_begun\<lparr>dst_clock := 3\<rparr>)"
  by code_simp+

lemma demo_upserted: "upsert_entries demo_recalls [] = [demo_entry]" by code_simp
lemma demo_signalled:
  "record_phase_signals demo_dream_env LIGHT [rc_key demo_entry] demo_day (demo_phase_state []) = (Inr (), demo_phase_state (demo_signals [''light'']))"
  "record_phase_signals demo_dream_env REM [rc_key demo_entry] demo_day (demo_phase_state (demo_signals [''light'']))
     = (Inr (), demo_phase_state (demo_signals [''light'', ''rem'']))"
  by code_simp+

lemma demo_contents:
  "map_sum id (\<lambda>(_, rs, _). map mem_content rs) (fst (demo_deep ''plan'')) = Inr [''blue door'']"
  "map_sum id (\<lambda>(_, rs, _). map mem_content rs) (fst (demo_deep '' '')) = Inr []"
  "normalized_text '' '' = []"
  by code_simp+

lemma demo_phases:
  "\<exists>l. run_light demo_dream_env demo_dream_config demo_day [demo_entry] (demo_phase_state []) = (Inr l, demo_phase_state (demo_signals [''light'']))"
  "\<exists>r. run_rem demo_dream_env demo_dream_config demo_day [demo_entry] (demo_phase_state (demo_signals [''light'']))
     = (Inr r, demo_phase_state (demo_signals [''light'', ''rem'']))"
  using demo_signalled
  by (simp_all add: run_light_def run_rem_def Let_def bind_def ret_def demo_dream_config_def default_dreaming_def py_upto_def)

lemma demo_sweep:
  assumes "fst (demo_deep title) = Inr (d, rs, skipped)"
  shows "\<exists>st'. run_sweep demo_dream_env demo_dream_config ''s1'' demo_transcript [demo_note title] None empty_dreams = (Inr (rs, skipped), st')"
proof -
  obtain l r where p: "run_light demo_dream_env demo_dream_config demo_day [demo_entry] (demo_phase_state []) = (Inr l, demo_phase_state (demo_signals [''light'']))"
      "run_rem demo_dream_env demo_dream_config demo_day [demo_entry] (demo_phase_state (demo_signals [''light'']))
         = (Inr r, demo_phase_state (demo_signals [''light'', ''rem'']))"
    using demo_phases by blast
  obtain s3 where d: "run_deep demo_dream_env demo_dream_config demo_day ''s1'' None [demo_entry] [demo_note title]
      (demo_phase_state (demo_signals [''light'', ''rem''])) = (Inr (d, rs, skipped), s3)"
    using assms unfolding demo_deep_def by (metis prod.collapse)
  have quiet: "write_artifacts demo_dream_env demo_dream_config demo_day rs' r' d' = ret ()" for rs' r' d'
    by (simp add: write_artifacts_def demo_dream_config_def)
  have said: "demo_recalls \<noteq> []" by (simp add: demo_recalls_def)
  have begun: "demo_begun\<lparr>dst_clock := 3, dst_entries := [demo_entry]\<rparr> = demo_phase_state []" "dst_entries demo_begun = []"
      "dst_entries (demo_phase_state []) = [demo_entry]"
    by (simp_all add: demo_begun_def demo_phase_state_def empty_dreams_def)
  have "sweep_body demo_dream_env demo_dream_config demo_day ''s1'' demo_transcript [demo_note title] None demo_begun = (Inr (rs, skipped), s3)"
    by (simp add: sweep_body_def bind_def modify_def gets_def ret_def demo_ingested demo_upserted said begun p d quiet)
  moreover have "run_sweep demo_dream_env demo_dream_config ''s1'' demo_transcript [demo_note title] None empty_dreams
      = with_lock (sweep_body demo_dream_env demo_dream_config demo_day ''s1'' demo_transcript [demo_note title] None) (empty_dreams\<lparr>dst_clock := 1\<rparr>)"
    by (simp add: run_sweep_def bind_def demo_dream_env_def demo_day_def empty_dreams_def)
  ultimately show ?thesis
    by (simp add: with_lock_def empty_dreams_def demo_begun_def)
qed

lemma demo_outcomes:
  "\<exists>d rs skipped. fst (demo_deep ''plan'') = Inr (d, rs, skipped) \<and> rs \<noteq> []"
  "\<exists>d rs skipped. fst (demo_deep '' '') = Inr (d, rs, skipped)"
proof -
  have deep: "\<exists>d rs skipped. x = Inr (d, rs, skipped) \<and> map mem_content rs = ys"
    if "map_sum id (\<lambda>(_, rs, _). map mem_content rs) x = Inr ys" for x :: "py_error + phase_result \<times> memory_record list \<times> string list" and ys
    using that by (cases x) auto
  show "\<exists>d rs skipped. fst (demo_deep ''plan'') = Inr (d, rs, skipped) \<and> rs \<noteq> []" using deep [OF demo_contents(1)] by auto
  show "\<exists>d rs skipped. fst (demo_deep '' '') = Inr (d, rs, skipped)" using deep [OF demo_contents(2)] by auto
qed


subsection \<open>Titles that are blank\<close>

lemma py_contains_Nil [simp]: "py_contains [] s"
  by (cases s) (simp_all add: py_startswith_def)

lemma sound_needs_titles: "sound_promotion env c F existing e r \<Longrightarrow> x \<in> set existing \<Longrightarrow> normalized_text (mem_title x) \<noteq> []"
  by (auto simp: sound_promotion_def)

text \<open>
  One record with a blank title ends all promotion: as the empty text is part of every text, each
  candidate counts as its duplicate, and no sweep promotes anything from then on.
\<close>

theorem blank_title_blocks_promotion:
  assumes "x \<in> set existing" "normalized_text (mem_title x) = []"
    and "run_sweep env c session ms existing agent st = (Inr (rs, skipped), st')"
  shows "rs = []"
proof (cases rs)
  case (Cons r rs')
  then obtain e where "sound_promotion env c (dst_files st) existing e r"
    using sweep_outcome [OF assms(3)] by (auto simp: sound_outcome_def)
  then show ?thesis using sound_needs_titles assms(1,2) by blast
qed simp

theorem blank_title_blocks_promotion_witness:
  "\<exists>skipped st'. run_sweep demo_dream_env demo_dream_config ''s1'' demo_transcript [demo_note '' ''] None empty_dreams = (Inr ([], skipped), st')"
proof -
  obtain d rs skipped where r: "fst (demo_deep '' '') = Inr (d, rs, skipped)" using demo_outcomes(2) by blast
  then obtain st' where s: "run_sweep demo_dream_env demo_dream_config ''s1'' demo_transcript [demo_note '' ''] None empty_dreams = (Inr (rs, skipped), st')"
    using demo_sweep by blast
  have "rs = []" by (rule blank_title_blocks_promotion [OF _ _ s, of "demo_note '' ''"]) (simp_all add: demo_note_def demo_contents(3))
  then show ?thesis using s by blast
qed

subsection \<open>Recall counts\<close>

definition recall_total :: "string \<Rightarrow> recall_entry list \<Rightarrow> int" where
  "recall_total k es = sum_list (map rc_count (filter (\<lambda>e. rc_key e = k) es))"

definition indexed :: "(string, recall_entry) pydict \<Rightarrow> bool" where
  "indexed d \<longleftrightarrow> wf_dict d \<and> (\<forall>(k, e)\<in>set d. rc_key e = k)"

definition count_under :: "string \<Rightarrow> (string, recall_entry) pydict \<Rightarrow> int" where
  "count_under k d = (case dict_get d k of None \<Rightarrow> 0 | Some e \<Rightarrow> rc_count e)"

lemma indexed_total: "indexed d \<Longrightarrow> recall_total k (dict_values d) = count_under k d"
proof (induction d)
  case (Cons x d)
  then have d: "indexed d" and x: "rc_key (snd x) = fst x" "fst x \<notin> set (dict_keys d)" by (auto simp: indexed_def)
  have "dict_get d (fst x) = None" using x(2) by (simp add: map_of_eq_None_iff)
  then have none: "count_under (fst x) d = 0" by (simp add: count_under_def)
  show ?case using Cons.IH [OF d] x none by (cases x) (auto simp: recall_total_def count_under_def)
qed (simp add: recall_total_def count_under_def)

lemma indexed_set: "indexed d \<Longrightarrow> rc_key e = k \<Longrightarrow> indexed (dict_set k e d)"
  unfolding indexed_def using map_of_Some_dict_set_mem by fastforce

lemma indexed_get: "indexed d \<Longrightarrow> dict_get d k = Some e \<Longrightarrow> rc_key e = k"
  unfolding indexed_def by (auto dest: map_of_SomeD)

lemma upsert_entry_counts:
  assumes "indexed d"
  shows "indexed (upsert_entry e d)" "count_under k (upsert_entry e d) = count_under k d + (if rc_key e = k then rc_count e else 0)"
proof -
  show "indexed (upsert_entry e d)"
    unfolding upsert_entry_def using assms
    by (auto intro!: indexed_set simp: merge_entry_def dest: indexed_get split: option.split)
  show "count_under k (upsert_entry e d) = count_under k d + (if rc_key e = k then rc_count e else 0)"
    by (auto simp: count_under_def upsert_entry_def merge_entry_def split: option.split)
qed

lemma fold_upsert_counts:
  "indexed d \<Longrightarrow> indexed (fold upsert_entry es d) \<and> count_under k (fold upsert_entry es d) = count_under k d + recall_total k es"
  by (induction es arbitrary: d) (simp_all add: upsert_entry_counts recall_total_def)

lemma fold_index:
  "indexed d \<Longrightarrow> distinct (map rc_key es) \<Longrightarrow> set (map rc_key es) \<inter> set (dict_keys d) = {} \<Longrightarrow>
   indexed (fold (\<lambda>e. dict_set (rc_key e) e) es d)
   \<and> count_under k (fold (\<lambda>e. dict_set (rc_key e) e) es d) = count_under k d + recall_total k es"
proof (induction es arbitrary: d)
  case (Cons e es)
  have "dict_get d (rc_key e) = None" using Cons.prems(3) by (auto simp: map_of_eq_None_iff)
  then have "count_under k (dict_set (rc_key e) e d) = count_under k d + (if rc_key e = k then rc_count e else 0)"
    by (auto simp: count_under_def)
  then show ?case
    using Cons.IH [of "dict_set (rc_key e) e d"] Cons.prems by (auto simp: indexed_set recall_total_def)
qed (simp add: recall_total_def)

lemma recall_total_sort: "recall_total k (sort_key f es) = recall_total k es"
proof -
  have "recall_total k (insort_key f e es) = recall_total k (e # es)" for e es
    by (induction es) (simp_all add: recall_total_def)
  then show ?thesis by (induction es) (simp_all add: recall_total_def)
qed

lemma distinct_map_sort: "distinct (map f (sort_key g xs)) = distinct (map f xs)"
  by (simp add: distinct_map)

text \<open>
  Taking texts into the store of recalled entries adds up their counts: under every key the count
  grows by exactly the recalls taken in, no other key changes, and the store keeps one entry per key, sorted.
\<close>

theorem recall_counts_add_up:
  assumes "distinct (map rc_key current)"
  shows "recall_total k (upsert_entries es current) = recall_total k current + recall_total k es
    \<and> distinct (map rc_key (upsert_entries es current)) \<and> sorted (map rc_key (upsert_entries es current))"
proof -
  define d where "d = fold upsert_entry es (fold (\<lambda>e. dict_set (rc_key e) e) current [])"
  have d: "indexed d \<and> count_under k d = recall_total k current + recall_total k es"
    using fold_index [of "[]" current k] assms unfolding d_def
    by (simp add: indexed_def [of "[]"] count_under_def [of k "[]"] fold_upsert_counts)
  have "map rc_key (dict_values d) = dict_keys d" using d by (auto simp: indexed_def)
  then have "distinct (map rc_key (dict_values d))" using d by (simp only: indexed_def)
  then have "distinct (map rc_key (sort_key rc_key (dict_values d)))" by (simp only: distinct_map_sort)
  then show ?thesis using d by (simp add: upsert_entries_def recall_total_sort indexed_total flip: d_def)
qed

theorem recall_counts_add_up_witness:
  "recall_total ''session:s1:blue '' (upsert_entries demo_recalls (upsert_entries demo_recalls [])) = 4
   \<and> recall_total ''session:s1:blue '' demo_recalls = 2"
proof -
  have "distinct (map rc_key (upsert_entries demo_recalls []))" by code_simp
  moreover have "recall_total ''session:s1:blue '' demo_recalls = 2" "recall_total ''session:s1:blue '' (upsert_entries demo_recalls []) = 2"
    by code_simp+
  ultimately show ?thesis using recall_counts_add_up [of "upsert_entries demo_recalls []" "''session:s1:blue ''" demo_recalls] by simp
qed

subsection \<open>Managed blocks\<close>

text \<open>A text whose tail does not have the character of a boundary occurs before it or from it on.\<close>

lemma occurs_before_boundary:
  assumes "d \<notin> set t" "py_startswith ((x # b) @ d # r) (c # t)"
  shows "py_startswith (x # b) (c # t)"
proof -
  have e: "take (length (c # t)) ((x # b) @ d # r) = c # t" using assms(2) by (simp add: py_startswith_def)
  have "length (c # t) \<le> length (x # b)"
  proof (rule ccontr)
    assume n: "\<not> length (c # t) \<le> length (x # b)"
    then have "(c # t) ! length (x # b) = d" by (subst e [symmetric]) (simp only: nth_take nth_append, simp)
    then show False using n assms(1) nth_mem [of "length b" t] by auto
  qed
  then show ?thesis using e by (simp add: py_startswith_def)
qed

lemma startswith_append: "py_startswith b p \<Longrightarrow> py_startswith (b @ r) p"
  by (auto simp: py_startswith_prefix)

lemma contains_boundary:
  assumes "d \<notin> set t"
  shows "py_contains (c # t) (b @ d # r) \<longleftrightarrow> py_contains (c # t) b \<or> py_contains (c # t) (d # r)"
proof (induction b)
  case (Cons x b)
  have "py_startswith ((x # b) @ d # r) (c # t) = py_startswith (x # b) (c # t)"
    using occurs_before_boundary [OF assms] startswith_append by blast
  then show ?case using Cons.IH by simp
qed simp

lemma contains_iff: "py_contains p s \<longleftrightarrow> (\<exists>u v. s = u @ p @ v)"
proof
  show "py_contains p s \<Longrightarrow> \<exists>u v. s = u @ p @ v"
  proof (induction s)
    case (Cons c s)
    show ?case
    proof (cases "py_startswith (c # s) p")
      case True
      then obtain v where "c # s = [] @ p @ v" by (auto simp: py_startswith_prefix prefix_def)
      then show ?thesis by blast
    next
      case False
      then obtain u v where "s = u @ p @ v" using Cons by auto
      then have "c # s = (c # u) @ p @ v" by simp
      then show ?thesis by blast
    qed
  qed simp
  have "py_contains p (p @ v)" for v
    using py_startswith_append [of p v] by (cases "p @ v") auto
  then have "py_contains p (u @ p @ v)" for u v
    by (induction u) auto
  then show "\<exists>u v. s = u @ p @ v \<Longrightarrow> py_contains p s" by blast
qed

lemma contains_infix: "py_contains p s \<Longrightarrow> py_contains p (u @ s @ v)"
  unfolding contains_iff by (metis append_assoc)

lemma rstrip_prefix: "\<exists>v. s = py_rstrip s @ v"
  unfolding py_rstrip_def by (metis rev_append rev_rev_ident takeWhile_dropWhile_id)

lemma contains_rstrip: "py_contains p (py_rstrip s) \<Longrightarrow> py_contains p s"
  using contains_infix [of p "py_rstrip s" "[]"] rstrip_prefix [of s] by (metis append_Nil)

lemma contains_lstrip: "py_contains p (py_lstrip s) \<Longrightarrow> py_contains p s"
  using contains_infix [of p "py_lstrip s" "takeWhile is_space s" "[]"] by (simp add: py_lstrip_def)

lemma split_first_mark:
  assumes "c \<notin> set t" "\<not> py_contains (c # t) b"
  shows "split_first (c # t) (b @ (c # t) @ r) = Some (b, r)"
  using assms(2)
proof (induction b)
  case (Cons x b)
  then have "split_first (c # t) (b @ (c # t) @ r) = Some (b, r)" by simp
  moreover have "\<not> py_startswith ((x # b) @ c # t @ r) (c # t)"
    using Cons.prems occurs_before_boundary [OF assms(1)] by auto
  ultimately show ?case by simp
qed (simp add: py_startswith_def)

definition mark_tail :: "string \<Rightarrow> bool" where
  "mark_tail t \<longleftrightarrow> CHR ''<'' \<notin> set t \<and> newline \<notin> set t"

lemma marks_of_phases:
  "\<forall>p. block_start p = CHR ''<'' # tl (block_start p) \<and> mark_tail (tl (block_start p))"
  "\<forall>p. block_end p = CHR ''<'' # tl (block_end p) \<and> mark_tail (tl (block_end p))"
  by code_simp+

lemma block_marks:
  "\<exists>t. block_start p = CHR ''<'' # t \<and> mark_tail t" "\<exists>t. block_end p = CHR ''<'' # t \<and> mark_tail t"
  using marks_of_phases by blast+

lemma newline_char: "newline \<noteq> CHR ''<''" "is_space newline" "\<not> is_space (CHR ''<'')"
  by code_simp+

lemma marks_apart_in_phases:
  "\<forall>p. \<not> py_contains (block_end p) (block_start p) \<and> \<not> py_contains (block_start p) [newline, newline]
     \<and> \<not> py_contains (block_end p) [newline, newline]"
  by code_simp

lemma marks_apart: "\<not> py_contains (block_end p) (block_start p)" "\<not> py_contains (block_start p) [newline, newline]"
    "\<not> py_contains (block_end p) [newline, newline]"
  using marks_apart_in_phases by blast+

lemma newline_boundary:
  "py_contains (block_start p) (b @ newline # r) \<longleftrightarrow> py_contains (block_start p) b \<or> py_contains (block_start p) (newline # r)"
  "py_contains (block_end p) (b @ newline # r) \<longleftrightarrow> py_contains (block_end p) b \<or> py_contains (block_end p) (newline # r)"
  using block_marks [of p] contains_boundary by (metis mark_tail_def)+

lemma start_boundary:
  "py_contains (block_end p) (b @ block_start p @ r) \<longleftrightarrow> py_contains (block_end p) b \<or> py_contains (block_end p) (block_start p @ r)"
  using block_marks [of p] contains_boundary by (metis mark_tail_def append_Cons)

lemma newline_first:
  "py_contains (block_start p) (newline # r) \<longleftrightarrow> py_contains (block_start p) r"
  "py_contains (block_end p) (newline # r) \<longleftrightarrow> py_contains (block_end p) r"
  using block_marks [of p] newline_char by (auto simp: py_startswith_def)

text \<open>What precedes the end mark of a block.\<close>

definition block_head :: "dreaming_phase \<Rightarrow> string \<Rightarrow> string" where
  "block_head p body = block_start p @ newline # py_rstrip body @ [newline]"

lemma managed_block_head: "managed_block p body = block_head p body @ block_end p"
  by (simp add: managed_block_def block_head_def)

lemma end_after_head:
  assumes "\<not> py_contains (block_end p) b" "\<not> py_contains (block_end p) body"
  shows "\<not> py_contains (block_end p) (b @ block_head p body)"
  unfolding block_head_def start_boundary newline_boundary newline_first
  using assms marks_apart contains_rstrip newline_first(2) [of p "[]"]
  by (auto simp: newline_boundary newline_first dest: contains_rstrip)

lemma replaced_block_found:
  assumes "\<not> py_contains (block_start p) b" "\<not> py_contains (block_end p) b" "\<not> py_contains (block_end p) old"
  shows "replaced_block p body (b @ managed_block p old @ a) = py_lstrip (py_rstrip b @ two_breaks @ managed_block p body @ a)"
proof -
  have start: "split_first (block_start p) (b @ managed_block p old @ a) = Some (b, [newline] @ py_rstrip old @ [newline] @ block_end p @ a)"
    using block_marks(1) [of p] assms(1) split_first_mark by (fastforce simp: managed_block_def mark_tail_def)
  have "split_first (block_end p) ((b @ block_head p old) @ block_end p @ a) = Some (b @ block_head p old, a)"
    using block_marks(2) [of p] end_after_head [OF assms(2,3)] split_first_mark by (metis mark_tail_def)
  then have "split_first (block_end p) (b @ managed_block p old @ a) = Some (b @ block_head p old, a)"
    by (simp only: managed_block_head append_assoc)
  then show ?thesis using start by (simp add: replaced_block_def)
qed

text \<open>The text before a block after a rewriting, which another rewriting does not change.\<close>

definition block_settled :: "string \<Rightarrow> string" where
  "block_settled b = py_lstrip (py_rstrip b @ two_breaks)"

lemma lstrip_before_block: "py_lstrip (py_rstrip b @ two_breaks @ managed_block p body @ a) = block_settled b @ managed_block p body @ a"
proof -
  obtain t where "block_start p = CHR ''<'' # t" using block_marks(1) by blast
  then have "dropWhile is_space (managed_block p body @ a) = managed_block p body @ a"
    by (simp add: managed_block_def newline_char)
  then show ?thesis
    unfolding block_settled_def py_lstrip_def by (metis append_assoc append_Nil dropWhile_append dropWhile_append1 dropWhile_eq_Nil_conv)
qed

lemma breaks_are_space: "dropWhile is_space two_breaks = []" "dropWhile is_space (rev two_breaks @ u) = dropWhile is_space u"
  by (simp_all add: two_breaks_def newline_char)

lemma block_settled_cases: "block_settled b = [] \<or> (\<exists>w. block_settled b = w @ two_breaks \<and> w = py_lstrip (py_rstrip b) \<and> py_lstrip w = w \<and> py_rstrip w = w)"
proof (cases "\<forall>c\<in>set (py_rstrip b). is_space c")
  case True
  then show ?thesis by (simp add: block_settled_def py_lstrip_def dropWhile_append breaks_are_space)
next
  case False
  then have s: "block_settled b = py_lstrip (py_rstrip b) @ two_breaks"
    by (auto simp: block_settled_def py_lstrip_def dropWhile_append1)
  have "py_lstrip (py_lstrip u) = py_lstrip u" for u unfolding py_lstrip_def by (rule dropWhile_idem)
  moreover have "py_rstrip (py_lstrip (py_rstrip b)) = py_lstrip (py_rstrip b)"
  proof -
    let ?w = "py_lstrip (py_rstrip b)"
    have "?w \<noteq> []" using False by (auto simp: py_lstrip_def dropWhile_eq_Nil_conv)
    then have "last ?w = last (py_rstrip b)" by (metis append_Nil2 last_appendR py_lstrip_def takeWhile_dropWhile_id)
    moreover have "py_rstrip b \<noteq> []" using False by auto
    then have "\<not> is_space (last (py_rstrip b))"
      by (metis hd_dropWhile last_rev py_rstrip_def rev_is_Nil_conv)
    ultimately show ?thesis using \<open>?w \<noteq> []\<close>
      unfolding py_rstrip_def [of ?w] by (metis append_butlast_last_id dropWhile.simps(2) rev_eq_Cons_iff rev_rev_ident rev.simps(2) rev_append rev_singleton_conv append_Cons append_Nil)
  qed
  ultimately show ?thesis using s by blast
qed

lemma block_settled_idem: "block_settled (block_settled b) = block_settled b"
proof -
  consider "block_settled b = []" | w where "block_settled b = w @ two_breaks" "py_lstrip w = w" "py_rstrip w = w" using block_settled_cases by blast
  then show ?thesis
  proof cases
    case 1
    have "block_settled [] = []" by (simp add: block_settled_def py_rstrip_def py_lstrip_def breaks_are_space)
    then show ?thesis by (simp only: 1)
  next
    case 2
    then have "py_rstrip (block_settled b) = w" by (simp add: py_rstrip_def breaks_are_space)
    then have "block_settled (block_settled b) = py_lstrip (w @ two_breaks)" by (simp add: block_settled_def)
    moreover have "py_lstrip (w @ two_breaks) = w @ two_breaks"
      by (metis "2"(1) dropWhile_idem py_lstrip_def block_settled_def)
    ultimately show ?thesis using 2(1) by simp
  qed
qed

lemma block_settled_clean:
  assumes "\<not> py_contains (block_start p) b" "\<not> py_contains (block_end p) b"
  shows "\<not> py_contains (block_start p) (block_settled b)" "\<not> py_contains (block_end p) (block_settled b)"
  using assms marks_apart newline_boundary
  by (auto simp: block_settled_def two_breaks_def dest!: contains_lstrip contains_rstrip)



end
