(* ===== verification/DreamMemory.thy ===== *)
theory DreamMemory
  imports DreamProps MemoryProps
begin

text \<open>
  The dreaming engine under the durable memory: its store keeps one entry per key, its records are named
  after their entries, so the engine is one the properties of the durable memory speak of.
\<close>

definition entry_keys_distinct :: "dream_state \<Rightarrow> bool" where
  "entry_keys_distinct st \<longleftrightarrow> distinct (map rc_key (dst_entries st))"

lemma upsert_keys_distinct: "distinct (map rc_key current) \<Longrightarrow> distinct (map rc_key (upsert_entries es current))"
proof -
  assume d: "distinct (map rc_key current)"
  define t where "t = fold upsert_entry es (fold (\<lambda>e. dict_set (rc_key e) e) current [])"
  have "indexed t" using fold_index [of "[]" current] d unfolding t_def by (simp add: indexed_def [of "[]"] fold_upsert_counts)
  then have i: "\<forall>p\<in>set t. rc_key (snd p) = fst p" "distinct (map fst t)" by (auto simp: indexed_def)
  have k: "map rc_key (dict_values t) = map fst t" using i(1) by simp
  have "distinct (map rc_key (dict_values t))" unfolding k by (rule i(2))
  then show ?thesis unfolding upsert_entries_def t_def by (simp only: distinct_map_sort)
qed

subsection \<open>The keys of a sweep\<close>

lemma keeps_entry_now [keeping]: "keeps (has_entries es) (dream_now env)"
  by (simp add: keeps_def dream_now_def)

lemma keeps_entry_transcript [keeping]: "keeps (has_entries es) (ingest_session_transcript env c session ms)"
proof (induction ms)
  case (Cons m ms)
  then show ?case by (simp only: ingest_session_transcript.simps) (intro keeping)
qed (simp add: keeping)

lemma keeps_entry_lines [keeping]: "keeps (has_entries es) (ingest_lines env name i ls)"
proof (induction ls arbitrary: i)
  case (Cons l ls)
  then show ?case by (simp only: ingest_lines.simps Let_def) (intro keeping)
qed (simp add: keeping)

lemma keeps_entry_files [keeping]: "keeps (has_entries es) (ingest_files env names)"
proof (induction names)
  case (Cons n names)
  then show ?case by (simp only: ingest_files.simps) (intro keeping)
qed (simp add: keeping)

lemma keeps_entry_daily [keeping]: "keeps (has_entries es) (ingest_daily_memory env day)"
  unfolding ingest_daily_memory_def by (intro keeping keeps_modify) simp

lemma keeps_entry_promote [keeping]: "keeps (has_entries es) (promote env session agent cs)"
proof (induction cs)
  case (Cons c cs)
  then show ?case by (simp only: promote.simps) (intro keeping)
qed (simp add: keeping)

lemma keeps_entry_phases [keeping]:
  "keeps (has_entries es) (record_phase_signals env phase keys day)"
  "keeps (has_entries es) (run_light env c day es')"
  "keeps (has_entries es) (run_rem env c day es')"
  "keeps (has_entries es) (run_deep env c day session agent es' existing)"
proof -
  show s: "keeps (has_entries es) (record_phase_signals env phase keys day)" for phase keys
    by (simp add: keeps_def record_phase_signals_def split: sum.split)
  show "keeps (has_entries es) (run_light env c day es')" "keeps (has_entries es) (run_rem env c day es')"
    unfolding run_light_def run_rem_def Let_def by (intro keeping s)+
  show "keeps (has_entries es) (run_deep env c day session agent es' existing)"
    unfolding run_deep_def by (intro keeping)
qed

lemma keeps_distinct: "(\<And>es. keeps (has_entries es) m) \<Longrightarrow> keeps entry_keys_distinct m"
  unfolding keeps_def entry_keys_distinct_def by metis

lemma body_keeps_distinct: "keeps entry_keys_distinct (sweep_body env c day session ms existing agent)"
  unfolding sweep_body_def
  by (intro keeping keeps_modify keeps_distinct [OF keeps_entry_transcript] keeps_distinct [OF keeps_entry_daily]
      keeps_distinct [OF keeps_entry_phases(2)] keeps_distinct [OF keeps_entry_phases(3)] keeps_distinct [OF keeps_entry_phases(4)]
      keeps_distinct [OF keeps_artifacts]) (auto simp: entry_keys_distinct_def upsert_keys_distinct)

lemma keeps_with_lock:
  assumes "keeps I m" "\<And>st b. I (st\<lparr>dst_locked := b\<rparr>) \<longleftrightarrow> I st"
  shows "keeps I (with_lock m)"
  unfolding keeps_def
proof (intro allI impI)
  fix st assume "I st"
  then have "I (snd (m (st\<lparr>dst_locked := True\<rparr>)))" using assms by (metis keepsD)
  then show "I (snd (with_lock m st))" using \<open>I st\<close> assms(2) by (simp add: with_lock_def split_beta Let_def)
qed

lemma sweep_keeps_distinct: "keeps entry_keys_distinct (dream_sweep env c session ms existing agent)"
proof -
  have "keeps entry_keys_distinct (with_lock (sweep_body env c' day session ms existing agent))" for c' day
    using body_keeps_distinct [of env c' day session ms existing agent]
    by (rule keeps_with_lock) (simp_all add: entry_keys_distinct_def)
  moreover have "keeps entry_keys_distinct (\<lambda>st. (Inr (de_day env (dst_clock st)), st\<lparr>dst_clock := Suc (dst_clock st)\<rparr>))"
    by (simp add: keeps_def entry_keys_distinct_def)
  ultimately show ?thesis unfolding dream_sweep_def run_sweep_def by (intro keeping)
qed

subsection \<open>The names of the promoted records\<close>

lemma fated_filter: "fated F existing cs = filter (\<lambda>x. fst (snd (judge_candidate F existing x)) \<noteq> None) cs"
proof (induction cs)
  case (Cons x cs)
  show ?case
  proof (cases "fst (snd (judge_candidate F existing x))")
    case None
    then show ?thesis using Cons by (simp add: fated_def map_filter_simps split_beta)
  next
    case (Some p)
    then have "p = x" using judged_promoted [of F existing x "fst (judge_candidate F existing x)" p] by (metis prod.collapse)
    then show ?thesis using Cons Some by (simp add: fated_def map_filter_simps split_beta)
  qed
qed (simp add: fated_def map_filter_simps)

lemma emap_entries: "emap (score_candidate env c signals day) es = Inr xs \<Longrightarrow> map cd_entry xs = es"
  by (induction es arbitrary: xs) (auto simp: ebind_def dest: scored_candidate split: sum.splits)

lemma selected_distinct:
  assumes "select_candidates env c signals day es = Inr cs" "distinct (map rc_key es)"
  shows "distinct (map (\<lambda>x. rc_key (cd_entry x)) cs)"
proof -
  obtain xs where xs: "emap (score_candidate env c signals day) es = Inr xs" "cs = py_upto (dc_max_candidates c) (sort_key (\<lambda>x. - cd_score x) xs)"
    using assms(1) by (auto simp: select_candidates_def ebind_def split: sum.splits)
  have "map (\<lambda>x. rc_key (cd_entry x)) xs = map rc_key es" using emap_entries [OF xs(1)] by auto
  then have "distinct (map (\<lambda>x. rc_key (cd_entry x)) (sort_key (\<lambda>x. - cd_score x) xs))"
    using assms(2) by (simp only: distinct_map_sort)
  then show ?thesis unfolding xs(2) py_upto_def by (simp add: distinct_take flip: take_map)
qed

lemma promote_names:
  "promote env session agent cs st = (Inr rs, st') \<Longrightarrow> map mem_id rs = map (\<lambda>p. ''dream_'' @ rc_key (cd_entry p)) cs"
proof (induction cs arbitrary: st rs st')
  case (Cons c cs)
  then show ?case
    by (auto simp: bind_def dream_now_def ret_def record_from_candidate_def Let_def split: prod.splits sum.splits)
qed (simp add: ret_def)

lemma not_memory_key: "''dream_'' @ s \<noteq> memory_key k"
  by (simp add: memory_key_def)

definition named_apart :: "memory_record list \<Rightarrow> bool" where
  "named_apart rs \<longleftrightarrow> distinct (map mem_id rs) \<and> (\<forall>r\<in>set rs. \<forall>k. mem_id r \<noteq> memory_key k)"

lemma deep_named:
  assumes "run_deep env c day session agent es existing st = (Inr (d, rs, skipped), st')" "distinct (map rc_key es)"
  shows "named_apart rs"
proof -
  obtain cs where cs: "select_candidates env c (read_signals st) day es = Inr cs"
      "promote env session agent (fated (dst_files st) existing cs) st = (Inr rs, st')"
    using run_deep_result [OF assms(1)] by blast
  have names: "map mem_id rs = map (\<lambda>p. ''dream_'' @ rc_key (cd_entry p)) (fated (dst_files st) existing cs)" using cs(2) by (rule promote_names)
  have "distinct (map (\<lambda>p. rc_key (cd_entry p)) (fated (dst_files st) existing cs))"
    unfolding fated_filter by (rule distinct_map_filter) (rule selected_distinct [OF cs(1) assms(2)])
  then have "distinct (map mem_id rs)" unfolding names by (auto simp: distinct_map inj_on_def)
  moreover have "\<forall>k. i \<noteq> memory_key k" if "i \<in> mem_id ` set rs" for i
    using that not_memory_key unfolding set_map [symmetric] names by auto
  ultimately show ?thesis by (auto simp: named_apart_def)
qed

lemma triple_rigid: "triple (\<lambda>_. B) m (\<lambda>_ _. B) (\<lambda>_ _. True)"
  by (auto simp: triple_def split: sum.split)

lemma deep_named_triple:
  "triple (\<lambda>_. distinct (map rc_key es)) (run_deep env c day session agent es existing)
     (\<lambda>(d, rs, skipped) _. named_apart rs) (\<lambda>_ _. True)"
proof (rule tripleI)
  fix st assume "distinct (map rc_key es)"
  then show "case run_deep env c day session agent es existing st of (Inl e, st') \<Rightarrow> True
     | (Inr x, st') \<Rightarrow> (case x of (d, rs, skipped) \<Rightarrow> \<lambda>_. named_apart rs) st'"
    using deep_named [of env c day session agent es existing st] by (fastforce split: prod.split sum.split)
qed

lemma body_named_triple:
  "triple entry_keys_distinct (sweep_body env c day session ms existing agent) (\<lambda>(rs, skipped) _. named_apart rs) (\<lambda>_ _. True)"
proof -
  have true: "triple P m (\<lambda>_. P) (\<lambda>_ _. True)" if "keeps P m" for P and m :: "(dream_state, 'a) eff"
    using keeps_triple [OF that] by (rule triple_conseq) auto
  have late: "triple (\<lambda>_. named_apart rs) (bind (write_artifacts env c day results r d) (\<lambda>_. ret (rs, skipped)))
      (\<lambda>(rs, skipped) _. named_apart rs) (\<lambda>_ _. True)" for rs skipped results r d
    by (rule triple_bind [OF triple_rigid]) (simp add: triple_ret)
  have middle: "triple (\<lambda>_. distinct (map rc_key es)) (bind (run_light env c day es) (\<lambda>light.
      bind (run_rem env c day es) (\<lambda>rem_result.
      bind (run_deep env c day session agent es existing) (\<lambda>(deep, promoted, skipped).
      bind (write_artifacts env c day [light, rem_result, deep] rem_result deep) (\<lambda>_. ret (promoted, skipped))))))
      (\<lambda>(rs, skipped) _. named_apart rs) (\<lambda>_ _. True)" for es
    apply (rule triple_bind [OF triple_rigid])
    apply (rule triple_bind [OF triple_rigid])
    apply (rule triple_bind [OF deep_named_triple])
    subgoal for light r x by (cases x) (simp only: prod.case, rule late)
    done
  have stored: "keeps entry_keys_distinct (modify (\<lambda>st. if es = [] then st
      else st\<lparr>dst_entries := upsert_entries es (dst_entries st)\<rparr>))" for es
    by (rule keeps_modify) (simp add: entry_keys_distinct_def upsert_keys_distinct)
  show ?thesis
    unfolding sweep_body_def
    apply (rule triple_bind [OF true [OF keeps_distinct [OF keeps_entry_transcript]]])
    apply (rule triple_bind [OF true [OF keeps_distinct [OF keeps_entry_daily]]])
    apply (rule triple_bind [OF true [OF stored]])
    apply (rule triple_bind [OF triple_gets middle])
    apply (simp add: entry_keys_distinct_def)
    done
qed

lemma ran_deep:
  "sweep_body env c day session ms existing agent st = (Inr (rs, skipped), st') \<Longrightarrow> entry_keys_distinct st \<Longrightarrow> named_apart rs"
  using tripleD [OF body_named_triple, of st env c day session ms existing agent] by simp

lemma lock_triple:
  assumes "triple P m (\<lambda>x _. Q x) (\<lambda>_ _. True)" "\<And>st b. P (st\<lparr>dst_locked := b\<rparr>) \<longleftrightarrow> P st"
  shows "triple P (with_lock m) (\<lambda>x _. Q x) (\<lambda>_ _. True)"
proof (rule tripleI)
  fix st assume "P st"
  then have "case m (st\<lparr>dst_locked := True\<rparr>) of (Inl e, s') \<Rightarrow> True | (Inr x, s') \<Rightarrow> Q x"
    using tripleD [OF assms(1), of "st\<lparr>dst_locked := True\<rparr>"] assms(2) by simp
  then show "case with_lock m st of (Inl e, s') \<Rightarrow> True | (Inr x, s') \<Rightarrow> Q x"
    by (cases "m (st\<lparr>dst_locked := True\<rparr>)"; cases "fst (m (st\<lparr>dst_locked := True\<rparr>))") (simp_all add: with_lock_def)
qed

lemma sweep_named_triple:
  "triple entry_keys_distinct (dream_sweep env c session ms existing agent) (\<lambda>(rs, skipped) _. named_apart rs) (\<lambda>_ _. True)"
proof -
  have lock: "triple entry_keys_distinct (with_lock (sweep_body env c' day session ms existing agent))
      (\<lambda>(rs, skipped) _. named_apart rs) (\<lambda>_ _. True)" for c' day
  proof -
    have "triple entry_keys_distinct (sweep_body env c' day session ms existing agent) (\<lambda>x _. named_apart (fst x)) (\<lambda>_ _. True)"
      by (rule triple_conseq [OF body_named_triple]) auto
    then have "triple entry_keys_distinct (with_lock (sweep_body env c' day session ms existing agent))
        (\<lambda>x _. named_apart (fst x)) (\<lambda>_ _. True)"
      by (rule lock_triple) (simp add: entry_keys_distinct_def)
    then show ?thesis by (rule triple_conseq) auto
  qed
  have run: "triple entry_keys_distinct (run_sweep env c' session ms existing agent) (\<lambda>(rs, skipped) _. named_apart rs) (\<lambda>_ _. True)" for c'
    unfolding run_sweep_def
    by (rule triple_bind [where R = "\<lambda>_. entry_keys_distinct", OF _ lock]) (simp add: triple_def entry_keys_distinct_def)
  show ?thesis
    unfolding dream_sweep_def
    by (rule triple_bind [where R = "\<lambda>_. entry_keys_distinct", OF _ run]) (simp add: triple_def lift_def split: sum.split)
qed

lemma sweep_named:
  "dream_sweep env c session ms existing agent st = (Inr (rs, skipped), st') \<Longrightarrow> entry_keys_distinct st \<Longrightarrow> named_apart rs"
  using tripleD [OF sweep_named_triple, of st env c session ms existing agent] by simp

subsection \<open>The engine of the durable memory\<close>

text \<open>The states of an engine: those it starts from and those its sweeps leave.\<close>

typedef sound_dreams = "{st. entry_keys_distinct st}"
  morphisms dreams_of sound_dreams_of
  by (rule exI [of _ empty_dreams]) (simp add: entry_keys_distinct_def empty_dreams_def)

setup_lifting type_definition_sound_dreams

lift_definition engine_sweep :: "dream_env \<Rightarrow> json_object option \<Rightarrow> string \<Rightarrow> session_message list \<Rightarrow> memory_record list \<Rightarrow>
    string option \<Rightarrow> sound_dreams \<Rightarrow> (py_error + memory_record list \<times> string list) \<times> sound_dreams"
  is dream_sweep
  by (auto simp: pred_prod_beta intro: keepsD [OF sweep_keeps_distinct])

lemma engine_named: "dreams_named \<lparr>mv_now = now, mv_sweep = engine_sweep denv\<rparr>"
proof -
  have "named_apart rs" if r: "fst (engine_sweep denv c s ms es agent w) = Inr (rs, skipped)" for c s ms es agent w rs skipped
  proof -
    have "fst (dream_sweep denv c s ms es agent (dreams_of w)) = Inr (rs, skipped)"
      using arg_cong [where f = fst, OF engine_sweep.rep_eq [of denv c s ms es agent w]] r by simp
    then show ?thesis using sweep_named dreams_of [of w] by (metis mem_Collect_eq prod.collapse)
  qed
  then show ?thesis unfolding dreams_named_def named_apart_def by force
qed

text \<open>
  So the durable memory over this engine keeps its invariant through every run of its operations, and
  what it stored, the promoted records among it, is there again after a restart.
\<close>

definition dreaming_env :: "(nat \<Rightarrow> string) \<Rightarrow> dream_env \<Rightarrow> sound_dreams mem_env" where
  "dreaming_env now denv = \<lparr>mv_now = now, mv_sweep = engine_sweep denv\<rparr>"

theorem dreamed_memory_reopens:
  assumes "fresh_store st0" "memory_reach (dreaming_env now denv) st0 st" "dm_files st = Some fs"
  shows "\<exists>st'. open_file_memory_store c fs t w = Inr st'
    \<and> (\<forall>i. map_option canonical (dict_get (dm_records st') i) = map_option canonical (dict_get (dm_records st) i))"
proof -
  have "dreams_named (dreaming_env now denv)" unfolding dreaming_env_def by (rule engine_named)
  from reopen [OF durable_inv_reachable [OF assms(1) this assms(2)] assms(3), of c t w] show ?thesis by blast
qed

end
