(* ===== verification/WebTools.thy ===== *)
theory WebTools
  imports FileTools PyText
begin

text \<open>
  The tools WebFetch and WebSearch, the backends of \<^verbatim>\<open>tools/web\<close>, and their choice from the environment
  and a \<^verbatim>\<open>.env\<close> file (\<^verbatim>\<open>tools/tool_web_env.py\<close>).

  The network is a parameter: what \<open>urlopen\<close> gives for a URL and what an opener answers to a request,
  over a world of any type.  The body of a reply is its JSON value, or none when it is not JSON.  Parameters
  are also the check of an authority in \<open>urllib.parse\<close>, the loopback test of \<open>ipaddress\<close>, and \<open>json.loads\<close>
  of the text of an error.
\<close>

subsection \<open>The network\<close>

record web_request =
  wq_method :: string
  wq_url :: string
  wq_body :: "json option"
  wq_headers :: "(string, string) pydict"
  wq_direct :: bool

datatype web_reply =
    WebReply int "json option" "(string, string) pydict"
  | WebStatus int string
  | WebUnreachable string
  | WebBroken py_error

record 'w web_env =
  we_getenv :: "string \<Rightarrow> string option"
  we_dotenv :: "string option"
  we_urlopen :: "string \<Rightarrow> 'w \<Rightarrow> (string + string) \<times> 'w"
  we_open :: "web_request \<Rightarrow> 'w \<Rightarrow> web_reply \<times> 'w"
  we_json :: "string \<Rightarrow> json option"
  we_authority_error :: "string \<Rightarrow> py_error option"
  we_loopback :: "string \<Rightarrow> bool"

subsection \<open>URLs\<close>

record parsed_url =
  pu_scheme :: string
  pu_netloc :: string
  pu_path :: string

definition scheme_char :: "char \<Rightarrow> bool" where
  "scheme_char c \<longleftrightarrow> (let n = code c in 65 \<le> n \<and> n \<le> 90 \<or> 97 \<le> n \<and> n \<le> 122 \<or> 48 \<le> n \<and> n \<le> 57
     \<or> c = CHR ''+'' \<or> c = CHR ''-'' \<or> c = CHR ''.'')"

definition letter :: "char \<Rightarrow> bool" where
  "letter c \<longleftrightarrow> (let n = code c in 65 \<le> n \<and> n \<le> 90 \<or> 97 \<le> n \<and> n \<le> 122)"

text \<open>Leading control characters and blanks are dropped, and tabs and line breaks everywhere.\<close>

definition clean_url :: "string \<Rightarrow> string" where
  "clean_url s = filter (\<lambda>c. code c \<notin> {9, 10, 13}) (dropWhile (\<lambda>c. code c \<le> 32) s)"

definition split_scheme :: "string \<Rightarrow> string \<times> string" where
  "split_scheme s = (let (scheme, rest) = partition_at (CHR '':'') s in
     if CHR '':'' \<in> set s \<and> scheme \<noteq> [] \<and> letter (hd scheme) \<and> list_all scheme_char scheme then (py_lower scheme, rest) else ([], s))"

definition authority_end :: "char \<Rightarrow> bool" where
  "authority_end c \<longleftrightarrow> c = CHR ''/'' \<or> c = CHR ''?'' \<or> c = CHR ''#''"

text \<open>What follows a semicolon in the last component are its parameters.\<close>

definition without_params :: "string \<Rightarrow> string" where
  "without_params s = (let last_part = rev (takeWhile (\<lambda>c. c \<noteq> CHR ''/'') (rev s)) in
     take (length s - length last_part) s @ takeWhile (\<lambda>c. c \<noteq> CHR '';'') last_part)"

text \<open>\<open>urlparse\<close>, for the schemes that have parameters, as \<open>https\<close> and the empty one.\<close>

definition urlparse :: "'w web_env \<Rightarrow> string \<Rightarrow> py_error + parsed_url" where
  "urlparse env url = (let (scheme, s) = split_scheme (clean_url url);
       rest = drop 2 s; has_authority = py_startswith s ''//'';
       netloc = (if has_authority then takeWhile (\<lambda>c. \<not> authority_end c) rest else []);
       tail = (if has_authority then dropWhile (\<lambda>c. \<not> authority_end c) rest else s);
       path = takeWhile (\<lambda>c. c \<noteq> CHR ''?'' \<and> c \<noteq> CHR ''#'') tail in
     case we_authority_error env netloc of
       Some e \<Rightarrow> Inl e
     | None \<Rightarrow> Inr \<lparr>pu_scheme = scheme, pu_netloc = netloc, pu_path = without_params path\<rparr>)"

text \<open>The attribute \<open>hostname\<close>: behind the last at sign, without a port, in lower case up to a zone.\<close>

definition hostname :: "string \<Rightarrow> string option" where
  "hostname netloc = (let info = rev (takeWhile (\<lambda>c. c \<noteq> CHR ''@'') (rev netloc));
       host = (if CHR ''['' \<in> set info then fst (partition_at (CHR '']'') (snd (partition_at (CHR ''['') info)))
         else fst (partition_at (CHR '':'') info));
       name = takeWhile (\<lambda>c. c \<noteq> CHR ''%'') host in
     if host = [] then None else Some (py_lower name @ drop (length name) host))"

definition should_bypass_proxy :: "'w web_env \<Rightarrow> string \<Rightarrow> py_error + bool" where
  "should_bypass_proxy env url = ebind (urlparse env url) (\<lambda>p. Inr (case hostname (pu_netloc p) of
     None \<Rightarrow> False | Some h \<Rightarrow> h = ''localhost'' \<or> we_loopback env h))"

definition upper_hex :: "nat \<Rightarrow> char" where
  "upper_hex n = char_of (if n < 10 then 48 + n else 55 + n)"

definition utf8_bytes :: "char \<Rightarrow> nat list" where
  "utf8_bytes c = (let n = code c in if n < 128 then [n] else [192 + n div 64, 128 + n mod 64])"

text \<open>\<open>quote_plus\<close>.\<close>

definition quote_plus :: "string \<Rightarrow> string" where
  "quote_plus s = concat (map (\<lambda>c. if c = CHR '' '' then ''+''
     else if letter c \<or> is_digit c \<or> c \<in> set ''_.-~'' then [c]
     else concat (map (\<lambda>b. [CHR ''%'', upper_hex (b div 16), upper_hex (b mod 16)]) (utf8_bytes c))) s)"

subsection \<open>The transport\<close>

definition transport_error :: "string \<Rightarrow> py_error" where
  "transport_error s = AppError ''WebBackendTransportError'' s"

definition read_reply :: "web_reply \<Rightarrow> py_error + json_object" where
  "read_reply r = (case r of
     WebReply status (Some (JDict d)) hs \<Rightarrow> Inr d
   | WebReply status (Some v) hs \<Rightarrow> Inl (transport_error ''Web backend response must be a JSON object'')
   | WebReply status None hs \<Rightarrow> Inl (ValueError ''Expecting value'')
   | WebStatus n detail \<Rightarrow> Inl (transport_error (''HTTP '' @ int_str n @ '': '' @ detail))
   | WebUnreachable reason \<Rightarrow> Inl (transport_error (''Network error: '' @ reason))
   | WebBroken e \<Rightarrow> Inl e)"

definition send_json :: "'w web_env \<Rightarrow> string \<Rightarrow> string \<Rightarrow> json option \<Rightarrow> (string, string) pydict \<Rightarrow> ('w, json_object) eff" where
  "send_json env meth url body hs = bind (lift (should_bypass_proxy env url)) (\<lambda>direct.
     bind (\<lambda>w. let (r, w') = we_open env \<lparr>wq_method = meth, wq_url = url, wq_body = body, wq_headers = hs, wq_direct = direct\<rparr> w in
         (read_reply r, w')) ret)"

definition post_json :: "'w web_env \<Rightarrow> string \<Rightarrow> json_object \<Rightarrow> (string, string) pydict \<Rightarrow> ('w, json_object) eff" where
  "post_json env url payload hs =
     send_json env ''POST'' url (Some (JDict payload)) (dict_merge [(''Content-Type'', ''application/json'')] hs)"

definition get_json :: "'w web_env \<Rightarrow> string \<Rightarrow> (string, string) pydict \<Rightarrow> ('w, json_object) eff" where
  "get_json env url hs = send_json env ''GET'' url None hs"

text \<open>\<open>except WebBackendTransportError as exc: raise ... from exc\<close>.\<close>

definition on_transport_error :: "(string \<Rightarrow> py_error) \<Rightarrow> ('w, 'a) eff \<Rightarrow> ('w, 'a) eff" where
  "on_transport_error f m w = (case m w of
     (Inl (AppError c s), w') \<Rightarrow> (Inl (if c = ''WebBackendTransportError'' then f s else AppError c s), w')
   | r \<Rightarrow> r)"

definition fetch_error :: "string \<Rightarrow> py_error" where
  "fetch_error s = AppError ''WebFetchBackendError'' s"

definition search_error :: "string \<Rightarrow> py_error" where
  "search_error s = AppError ''WebSearchBackendError'' s"

subsection \<open>Documents and results\<close>

record web_document =
  wd_url :: string
  wd_content :: string
  wd_format :: string
  wd_title :: "string option"
  wd_metadata :: json_object

record web_result =
  ws_title :: string
  ws_url :: string
  ws_snippet :: string
  ws_metadata :: json_object

definition document_to_dict :: "web_document \<Rightarrow> json_object" where
  "document_to_dict d = [(''url'', JStr (wd_url d)), (''content'', JStr (wd_content d)), (''content_format'', JStr (wd_format d)),
     (''title'', jopt_str (wd_title d)), (''metadata'', JDict (wd_metadata d))]"

definition result_to_dict :: "web_result \<Rightarrow> json_object" where
  "result_to_dict r = [(''title'', JStr (ws_title r)), (''url'', JStr (ws_url r)), (''snippet'', JStr (ws_snippet r)),
     (''metadata'', JDict (ws_metadata r))]"

definition or_value :: "json \<Rightarrow> json \<Rightarrow> json" where
  "or_value a b = (if truthy a then a else b)"

text \<open>A result of an entry with a title and a URL; the other entries are skipped.\<close>

definition search_entry :: "(json_object \<Rightarrow> string) \<Rightarrow> (json_object \<Rightarrow> json_object) \<Rightarrow> json \<Rightarrow> web_result option" where
  "search_entry snippet meta item = (case item of
     JDict d \<Rightarrow> (case (jget d ''title'', jget d ''url'') of
        (JStr t, JStr u) \<Rightarrow> Some \<lparr>ws_title = t, ws_url = u, ws_snippet = snippet d, ws_metadata = meta d\<rparr>
      | _ \<Rightarrow> None)
   | _ \<Rightarrow> None)"

text \<open>The provider and the fields of an entry that are neither absent nor empty.\<close>

definition entry_metadata :: "string \<Rightarrow> string list \<Rightarrow> json_object \<Rightarrow> json_object" where
  "entry_metadata provider keys d = (''provider'', JStr provider) #
     map (\<lambda>k. (k, jget d k)) (filter (\<lambda>k. jget d k \<noteq> JNull \<and> jget d k \<noteq> JStr []) keys)"

subsection \<open>Brave and Tavily\<close>

record brave_config =
  bc_key :: string
  bc_base :: string
  bc_limit :: int

definition brave_search_url :: "brave_config \<Rightarrow> string \<Rightarrow> string" where
  "brave_search_url c query = rstrip_char (CHR ''/'') (bc_base c) @ ''/res/v1/web/search?q='' @ quote_plus query @ ''&count='' @ int_str (bc_limit c)"

definition brave_headers :: "brave_config \<Rightarrow> (string, string) pydict" where
  "brave_headers c = [(''Accept'', ''application/json''), (''X-Subscription-Token'', bc_key c)]"

definition extract_brave_search_results :: "json_object \<Rightarrow> web_result list" where
  "extract_brave_search_results body = (case jget body ''web'' of
     JDict web \<Rightarrow> (case jget web ''results'' of
        JList entries \<Rightarrow> List.map_filter (search_entry (\<lambda>d. py_str (or_value (jget d ''description'') (JStr [])))
          (entry_metadata ''brave'' [''age'', ''language'', ''family_friendly''])) entries
      | _ \<Rightarrow> [])
   | _ \<Rightarrow> [])"

definition brave_search :: "'w web_env \<Rightarrow> brave_config \<Rightarrow> string \<Rightarrow> ('w, web_result list) eff" where
  "brave_search env c query = bind (on_transport_error search_error (get_json env (brave_search_url c query) (brave_headers c)))
     (\<lambda>body. ret (extract_brave_search_results body))"

record tavily_config =
  tv_key :: string
  tv_base :: string
  tv_limit :: int

definition tavily_search_url :: "tavily_config \<Rightarrow> string" where
  "tavily_search_url c = rstrip_char (CHR ''/'') (tv_base c) @ ''/search''"

definition tavily_headers :: "tavily_config \<Rightarrow> (string, string) pydict" where
  "tavily_headers c = [(''Authorization'', ''Bearer '' @ tv_key c)]"

definition extract_tavily_search_results :: "json_object \<Rightarrow> py_error + web_result list" where
  "extract_tavily_search_results body = (case jget body ''results'' of
     JList entries \<Rightarrow> Inr (List.map_filter (search_entry
          (\<lambda>d. py_str (or_value (jget d ''content'') (or_value (jget d ''snippet'') (JStr []))))
          (entry_metadata ''tavily'' [''score'', ''published_date'', ''raw_content''])) entries)
   | _ \<Rightarrow> Inl (search_error ''Tavily search response missing results list''))"

definition tavily_search :: "'w web_env \<Rightarrow> tavily_config \<Rightarrow> string \<Rightarrow> ('w, web_result list) eff" where
  "tavily_search env c query = bind (on_transport_error search_error (post_json env (tavily_search_url c)
       [(''query'', JStr query), (''max_results'', JInt (tv_limit c))] (tavily_headers c)))
     (\<lambda>body. lift (extract_tavily_search_results body))"

subsection \<open>Firecrawl\<close>

record firecrawl_config =
  fc_base :: string
  fc_key :: "string option"

definition scrape_url :: "firecrawl_config \<Rightarrow> string" where
  "scrape_url c = rstrip_char (CHR ''/'') (fc_base c) @ ''/v2/scrape''"

definition firecrawl_search_url :: "firecrawl_config \<Rightarrow> string" where
  "firecrawl_search_url c = rstrip_char (CHR ''/'') (fc_base c) @ ''/v2/search''"

definition firecrawl_headers :: "firecrawl_config \<Rightarrow> (string, string) pydict" where
  "firecrawl_headers c = (case fc_key c of None \<Rightarrow> [] | Some k \<Rightarrow> if k = [] then [] else [(''Authorization'', ''Bearer '' @ k)])"

text \<open>A page of a file on GitHub is fetched as its raw file.\<close>

definition normalize_fetch_url :: "'w web_env \<Rightarrow> string \<Rightarrow> py_error + string" where
  "normalize_fetch_url env url = ebind (urlparse env url) (\<lambda>p.
     let parts = filter (\<lambda>x. x \<noteq> []) (split_on (CHR ''/'') (pu_path p)) in
     if pu_scheme p \<noteq> ''https'' \<or> pu_netloc p \<noteq> ''github.com'' then Inr url
     else if length parts < 5 \<or> parts ! 2 \<noteq> ''blob'' then Inr url
     else Inr (''https://raw.githubusercontent.com/'' @ parts ! 0 @ ''/'' @ parts ! 1 @ ''/'' @ parts ! 3 @ ''/'' @ py_join ''/'' (drop 4 parts)))"

text \<open>The payload in the text of an error, and what is told of it.\<close>

definition extract_error_payload :: "'w web_env \<Rightarrow> string \<Rightarrow> json_object option" where
  "extract_error_payload env message = (if CHR ''{'' \<notin> set message then None
     else case we_json env (dropWhile (\<lambda>c. c \<noteq> CHR ''{'') message) of Some (JDict d) \<Rightarrow> Some d | _ \<Rightarrow> None)"

definition summarize_transport_error :: "'w web_env \<Rightarrow> string \<Rightarrow> string" where
  "summarize_transport_error env message = (case extract_error_payload env message of
     None \<Rightarrow> message
   | Some d \<Rightarrow> if jget d ''code'' = JStr ''SCRAPE_ALL_ENGINES_FAILED''
       then ''Firecrawl could not retrieve the page content. The page may block automated access, require authentication, or be unavailable.''
       else case jget d ''error'' of JStr e \<Rightarrow> if py_strip e \<noteq> [] then py_strip e else message | _ \<Rightarrow> message)"

text \<open>A value of the page's metadata, which is added to the document's own whatever its key.\<close>

fun page_value :: "json \<Rightarrow> json" where
  "page_value (JList l) = JStr (py_str (JList l))"
| "page_value (JDict d) = JStr (py_str (JDict d))"
| "page_value v = v"

definition page_metadata :: "string \<Rightarrow> json \<Rightarrow> json_object" where
  "page_metadata url source = dict_merge [(''provider'', JStr ''firecrawl''), (''source_url'', JStr url)]
     (case source of JDict d \<Rightarrow> map (apsnd page_value) (filter (\<lambda>(k, v). v \<noteq> JNull) d) | _ \<Rightarrow> [])"

definition extract_firecrawl_document :: "string \<Rightarrow> json \<Rightarrow> web_document option" where
  "extract_firecrawl_document url data = (case data of
     JDict d \<Rightarrow> (case jget d ''markdown'' of
        JStr s \<Rightarrow> if s = [] then None
          else (let title = (case jget d ''metadata'' of JDict m \<Rightarrow> jget m ''title'' | _ \<Rightarrow> JNull) in
            Some \<lparr>wd_url = url, wd_content = s, wd_format = ''markdown'', wd_title = (if title = JNull then None else Some (py_str title)),
              wd_metadata = page_metadata url (jget d ''metadata'')\<rparr>)
      | _ \<Rightarrow> None)
   | _ \<Rightarrow> None)"

definition firecrawl_fetch :: "'w web_env \<Rightarrow> firecrawl_config \<Rightarrow> string \<Rightarrow> ('w, web_document) eff" where
  "firecrawl_fetch env c url = bind (lift (normalize_fetch_url env url)) (\<lambda>u.
     bind (on_transport_error (\<lambda>s. fetch_error (summarize_transport_error env s)) (post_json env (scrape_url c)
       [(''url'', JStr u), (''formats'', JList [JStr ''markdown'']), (''onlyMainContent'', JBool True)] (firecrawl_headers c))) (\<lambda>body.
     case extract_firecrawl_document u (jget body ''data'') of
       None \<Rightarrow> throw (fetch_error ''Firecrawl scrape response missing markdown data'') | Some d \<Rightarrow> ret d))"

definition firecrawl_metadata :: "json_object \<Rightarrow> json_object" where
  "firecrawl_metadata d = (''provider'', JStr ''firecrawl'') # (case jget d ''markdown'' of
     JStr s \<Rightarrow> if s = [] then [] else [(''markdown'', JStr s)] | _ \<Rightarrow> [])"

definition firecrawl_entries :: "json \<Rightarrow> json list" where
  "firecrawl_entries data = (case data of JList l \<Rightarrow> l
   | JDict d \<Rightarrow> (case jget d ''web'' of JList l \<Rightarrow> l | _ \<Rightarrow> []) | _ \<Rightarrow> [])"

definition extract_firecrawl_search_results :: "json \<Rightarrow> py_error + web_result list" where
  "extract_firecrawl_search_results data = (let results = List.map_filter (search_entry
       (\<lambda>d. if jget d ''description'' = JNull then [] else py_str (jget d ''description'')) firecrawl_metadata) (firecrawl_entries data) in
     if results = [] then Inl (search_error ''Firecrawl search response did not include any results'') else Inr results)"

definition firecrawl_search :: "'w web_env \<Rightarrow> firecrawl_config \<Rightarrow> string \<Rightarrow> ('w, web_result list) eff" where
  "firecrawl_search env c query = bind (on_transport_error (\<lambda>s. search_error (summarize_transport_error env s))
       (post_json env (firecrawl_search_url c) [(''query'', JStr query), (''limit'', JInt 5)] (firecrawl_headers c)))
     (\<lambda>body. lift (extract_firecrawl_search_results (jget body ''data'')))"

subsection \<open>The backends\<close>

datatype 'w fetch_backend =
    DefaultFetch
  | FirecrawlFetch firecrawl_config
  | HostFetch "string \<Rightarrow> ('w, web_document) eff"

datatype 'w search_backend =
    DefaultSearch
  | FirecrawlSearch firecrawl_config
  | TavilySearch tavily_config
  | BraveSearch brave_config
  | CallableSearch "string \<Rightarrow> ('w, json_object list) eff"
  | HostSearch "string \<Rightarrow> ('w, web_result list) eff"

definition default_fetch :: "'w web_env \<Rightarrow> string \<Rightarrow> ('w, web_document) eff" where
  "default_fetch env url w = (case we_urlopen env url w of
     (Inl e, w') \<Rightarrow> (Inl (fetch_error e), w')
   | (Inr body, w') \<Rightarrow> (Inr \<lparr>wd_url = url, wd_content = body, wd_format = ''text'', wd_title = None, wd_metadata = []\<rparr>, w'))"

definition default_search :: "string \<Rightarrow> web_result list" where
  "default_search query = [\<lparr>ws_title = ''Search result for '' @ query, ws_url = ''https://duckduckgo.com/?q='' @ quote_plus query,
     ws_snippet = ''No host-integrated search backend configured; returning a search URL placeholder.'', ws_metadata = []\<rparr>]"

definition callable_result :: "json_object \<Rightarrow> web_result" where
  "callable_result item = (let part = (\<lambda>k. py_str (dict_get_default item k (JStr []))) in
     \<lparr>ws_title = part ''title'', ws_url = part ''url'', ws_snippet = part ''snippet'',
      ws_metadata = filter (\<lambda>(k, v). k \<notin> {''title'', ''url'', ''snippet''}) item\<rparr>)"

fun backend_fetch :: "'w web_env \<Rightarrow> 'w fetch_backend \<Rightarrow> string \<Rightarrow> ('w, web_document) eff" where
  "backend_fetch env DefaultFetch url = default_fetch env url"
| "backend_fetch env (FirecrawlFetch c) url = firecrawl_fetch env c url"
| "backend_fetch env (HostFetch f) url = f url"

fun backend_search :: "'w web_env \<Rightarrow> 'w search_backend \<Rightarrow> string \<Rightarrow> ('w, web_result list) eff" where
  "backend_search env DefaultSearch query = ret (default_search query)"
| "backend_search env (FirecrawlSearch c) query = firecrawl_search env c query"
| "backend_search env (TavilySearch c) query = tavily_search env c query"
| "backend_search env (BraveSearch c) query = brave_search env c query"
| "backend_search env (CallableSearch f) query = bind (f query) (\<lambda>items. ret (map callable_result items))"
| "backend_search env (HostSearch f) query = f query"

subsection \<open>The environment\<close>

definition strip_dotenv_value :: "string \<Rightarrow> string" where
  "strip_dotenv_value v = (if 2 \<le> length v \<and> hd v = last v \<and> (hd v = squote \<or> hd v = dquote) then butlast (tl v) else v)"

definition dotenv_line :: "string \<Rightarrow> (string \<times> string) option" where
  "dotenv_line raw = (let line = py_strip raw; (k, v) = partition_at (CHR ''='') line; key = py_strip k in
     if line = [] \<or> py_startswith line ''#'' \<or> CHR ''='' \<notin> set line \<or> key = [] then None
     else Some (key, strip_dotenv_value (py_strip v)))"

definition load_dotenv_values :: "'w web_env \<Rightarrow> (string, string) pydict" where
  "load_dotenv_values env = (case we_dotenv env of None \<Rightarrow> []
     | Some s \<Rightarrow> dict_merge [] (List.map_filter dotenv_line (py_splitlines s)))"

definition env_value :: "'w web_env \<Rightarrow> string \<Rightarrow> string \<Rightarrow> string" where
  "env_value env name fallback = (case we_getenv env name of Some v \<Rightarrow> v
     | None \<Rightarrow> dict_get_default (load_dotenv_values env) name fallback)"

definition firecrawl_config_from_env :: "'w web_env \<Rightarrow> py_error + firecrawl_config" where
  "firecrawl_config_from_env env = (let base = py_strip (env_value env ''OPENAGENT_FIRECRAWL_BASE_URL'' []);
       key = py_strip (env_value env ''OPENAGENT_FIRECRAWL_API_KEY'' []) in
     if base = [] then Inl (RuntimeErr ''OPENAGENT_FIRECRAWL_BASE_URL is required when using the firecrawl web backend'')
     else Inr \<lparr>fc_base = base, fc_key = (if key = [] then None else Some key)\<rparr>)"

definition web_search_limit_from_env :: "'w web_env \<Rightarrow> py_error + int" where
  "web_search_limit_from_env env = (case py_int (py_strip (env_value env ''OPENAGENT_WEBSEARCH_LIMIT'' ''5'')) of
     Inl e \<Rightarrow> Inl (RuntimeErr ''OPENAGENT_WEBSEARCH_LIMIT must be a positive integer'')
   | Inr n \<Rightarrow> if n < 1 then Inl (RuntimeErr ''OPENAGENT_WEBSEARCH_LIMIT must be a positive integer'') else Inr n)"

definition tavily_config_from_env :: "'w web_env \<Rightarrow> py_error + tavily_config" where
  "tavily_config_from_env env = (let key = py_strip (env_value env ''OPENAGENT_TAVILY_API_KEY'' []) in
     if key = [] then Inl (RuntimeErr ''OPENAGENT_TAVILY_API_KEY is required when using the tavily web search backend'')
     else ebind (web_search_limit_from_env env) (\<lambda>n.
       Inr \<lparr>tv_key = key, tv_base = py_strip (env_value env ''OPENAGENT_TAVILY_BASE_URL'' ''https://api.tavily.com''), tv_limit = n\<rparr>))"

definition brave_config_from_env :: "'w web_env \<Rightarrow> py_error + brave_config" where
  "brave_config_from_env env = (let key = py_strip (env_value env ''OPENAGENT_BRAVE_API_KEY'' []) in
     if key = [] then Inl (RuntimeErr ''OPENAGENT_BRAVE_API_KEY is required when using the brave web search backend'')
     else ebind (web_search_limit_from_env env) (\<lambda>n.
       Inr \<lparr>bc_key = key, bc_base = py_strip (env_value env ''OPENAGENT_BRAVE_BASE_URL'' ''https://api.search.brave.com''), bc_limit = n\<rparr>))"

definition backend_name :: "'w web_env \<Rightarrow> string \<Rightarrow> string" where
  "backend_name env name = py_lower (py_strip (env_value env name ''default''))"

definition default_web_fetch_backend :: "'w web_env \<Rightarrow> py_error + 'w fetch_backend" where
  "default_web_fetch_backend env = (let n = backend_name env ''OPENAGENT_WEBFETCH_BACKEND'' in
     if n = [] \<or> n = ''default'' then Inr DefaultFetch
     else if n = ''firecrawl'' then ebind (firecrawl_config_from_env env) (\<lambda>c. Inr (FirecrawlFetch c))
     else Inl (RuntimeErr (''Unsupported OPENAGENT_WEBFETCH_BACKEND: '' @ n)))"

definition default_web_search_backend :: "'w web_env \<Rightarrow> 'w search_backend option \<Rightarrow> py_error + 'w search_backend" where
  "default_web_search_backend env given = (case given of Some b \<Rightarrow> Inr b | None \<Rightarrow>
     (let n = backend_name env ''OPENAGENT_WEBSEARCH_BACKEND'' in
     if n = [] \<or> n = ''default'' then Inr DefaultSearch
     else if n = ''firecrawl'' then ebind (firecrawl_config_from_env env) (\<lambda>c. Inr (FirecrawlSearch c))
     else if n = ''tavily'' then ebind (tavily_config_from_env env) (\<lambda>c. Inr (TavilySearch c))
     else if n = ''brave'' then ebind (brave_config_from_env env) (\<lambda>c. Inr (BraveSearch c))
     else Inl (RuntimeErr (''Unsupported OPENAGENT_WEBSEARCH_BACKEND: '' @ n))))"

subsection \<open>The tools\<close>

definition tool_failure :: "string \<Rightarrow> string \<Rightarrow> json_object \<Rightarrow> tool_result" where
  "tool_failure name message structured = (tool_success name [JStr message] structured)\<lparr>tr_success := False\<rparr>"

text \<open>\<open>except WebFetchBackendError\<close>, and the same of the search.\<close>

definition rescue_backend :: "string \<Rightarrow> string \<Rightarrow> (string \<Rightarrow> tool_result) \<Rightarrow> ('w, tool_result) eff \<Rightarrow> ('w, tool_result) eff" where
  "rescue_backend c fallback f m w = (case m w of
     (Inl (AppError c' s), w') \<Rightarrow> if c' = c then (Inr (f (if py_strip s = [] then fallback else py_strip s)), w') else (Inl (AppError c' s), w')
   | r \<Rightarrow> r)"

definition web_fetch_call :: "'w web_env \<Rightarrow> 'w fetch_backend \<Rightarrow> json_object \<Rightarrow> ('w, tool_result) eff" where
  "web_fetch_call env b args = bind (lift (field_str args ''url'')) (\<lambda>url.
     rescue_backend ''WebFetchBackendError'' ''web fetch backend failed''
       (\<lambda>message. tool_failure ''WebFetch'' message [(''ok'', JBool False), (''error'', JStr message), (''url'', JStr url),
          (''kind'', JStr ''web_fetch_backend_error'')])
       (bind (backend_fetch env b url) (\<lambda>d. ret (tool_success ''WebFetch'' [JStr (wd_content d)] (document_to_dict d)))))"

definition web_search_call :: "'w web_env \<Rightarrow> 'w search_backend \<Rightarrow> json_object \<Rightarrow> ('w, tool_result) eff" where
  "web_search_call env b args = bind (lift (field_str args ''query'')) (\<lambda>query.
     rescue_backend ''WebSearchBackendError'' ''web search backend failed''
       (\<lambda>message. tool_failure ''WebSearch'' message [(''ok'', JBool False), (''error'', JStr message), (''query'', JStr query),
          (''kind'', JStr ''web_search_backend_error''), (''results'', JList [])])
       (bind (backend_search env b query) (\<lambda>rs. let ds = map (\<lambda>r. JDict (result_to_dict r)) rs in
         ret (tool_success ''WebSearch'' [JStr (json_dumps (JList ds))] [(''results'', JList ds)]))))"

definition web_fetch_schema :: json where
  "web_fetch_schema = object_schema [(''url'', string_property ''Fully qualified HTTP or HTTPS URL to fetch.''
     [''https://example.com'', ''http://127.0.0.1:8001/health''] [])] [''url'']"

definition web_fetch_tool :: "'w web_env \<Rightarrow> 'w fetch_backend \<Rightarrow> 'w tool" where
  "web_fetch_tool env b = (builtin_tool ''WebFetch'' ''web_fetch'' web_fetch_schema (\<lambda>args ctx. tool_run (web_fetch_call env b args)))\<lparr>
     tool_read_only_fn := Some (\<lambda>_. True), tool_concurrency_fn := Some (\<lambda>_. True), tool_persists := True\<rparr>"

definition web_search_schema :: json where
  "web_search_schema = object_schema [(''query'', string_property ''Search query string to submit to the configured search backend.''
     [''qwen3.6'', ''OpenAgent bootstrap prompts''] [])] [''query'']"

definition web_search_tool :: "'w web_env \<Rightarrow> 'w search_backend \<Rightarrow> 'w tool" where
  "web_search_tool env b = (builtin_tool ''WebSearch'' ''web_search'' web_search_schema (\<lambda>args ctx. tool_run (web_search_call env b args)))\<lparr>
     tool_read_only_fn := Some (\<lambda>_. True), tool_concurrency_fn := Some (\<lambda>_. True)\<rparr>"

end
