(* ===== verification/WebProps.thy ===== *)
theory WebProps
  imports WebTools
begin

text \<open>
  Properties of the web tools: results of every provider are the well-formed entries of its reply in their
  order, failures of a provider become failed results, but a reply that is not JSON raises, and WebFetch
  opens any URL, also one of a file.
\<close>

subsection \<open>Results\<close>

definition titled :: "json \<Rightarrow> (string \<times> string) option" where
  "titled j = (case j of JDict d \<Rightarrow> (case (jget d ''title'', jget d ''url'') of (JStr t, JStr u) \<Rightarrow> Some (t, u) | _ \<Rightarrow> None) | _ \<Rightarrow> None)"

lemma search_entry_titled: "map_option (\<lambda>r. (ws_title r, ws_url r)) (search_entry f g j) = titled j"
  by (cases j) (auto simp: search_entry_def titled_def split: json.split)

lemma search_entries_titled: "map (\<lambda>r. (ws_title r, ws_url r)) (List.map_filter (search_entry f g) js) = List.map_filter titled js"
proof (induction js)
  case (Cons j js)
  then show ?case
    by (cases "search_entry f g j") (auto simp: map_filter_simps search_entry_titled [of f g j, symmetric])
qed (simp add: map_filter_simps)

lemma search_entries_none: "List.map_filter (search_entry f g) js = [] \<longleftrightarrow> List.map_filter titled js = []"
  by (metis search_entries_titled map_is_Nil_conv)

theorem brave_results_in_order:
  assumes "jget body ''web'' = JDict web" "jget web ''results'' = JList js"
  shows "map (\<lambda>r. (ws_title r, ws_url r)) (extract_brave_search_results body) = List.map_filter titled js"
  using assms by (simp add: extract_brave_search_results_def search_entries_titled)

theorem tavily_results_in_order:
  assumes "jget body ''results'' = JList js"
  shows "map_sum id (map (\<lambda>r. (ws_title r, ws_url r))) (extract_tavily_search_results body) = Inr (List.map_filter titled js)"
  using assms by (simp add: extract_tavily_search_results_def search_entries_titled)

theorem firecrawl_results_in_order:
  "map_sum id (map (\<lambda>r. (ws_title r, ws_url r))) (extract_firecrawl_search_results data) =
     (if List.map_filter titled (firecrawl_entries data) = []
      then Inl (search_error ''Firecrawl search response did not include any results'')
      else Inr (List.map_filter titled (firecrawl_entries data)))"
  by (simp add: extract_firecrawl_search_results_def Let_def search_entries_titled search_entries_none)

theorem configured_limit_positive:
  "tavily_config_from_env env = Inr c \<Longrightarrow> 1 \<le> tv_limit c" "brave_config_from_env env = Inr c' \<Longrightarrow> 1 \<le> bc_limit c'"
  by (auto simp: tavily_config_from_env_def brave_config_from_env_def web_search_limit_from_env_def ebind_def Let_def
      split: if_splits sum.splits)

text \<open>The page that was fetched decides what its document says of its source and provider.\<close>

theorem page_names_its_source:
  "dict_get (page_metadata url (JDict [(''source_url'', JStr x), (''provider'', JStr y)])) ''source_url'' = Some (JStr x)"
  "dict_get (page_metadata url (JDict [(''source_url'', JStr x), (''provider'', JStr y)])) ''provider'' = Some (JStr y)"
  by (simp_all add: page_metadata_def)

subsection \<open>Failures\<close>

definition searches_over_http :: "'w search_backend \<Rightarrow> bool" where
  "searches_over_http b \<longleftrightarrow> (case b of FirecrawlSearch c \<Rightarrow> True | TavilySearch c \<Rightarrow> True | BraveSearch c \<Rightarrow> True | _ \<Rightarrow> False)"

definition search_url :: "'w search_backend \<Rightarrow> string \<Rightarrow> string" where
  "search_url b query = (case b of FirecrawlSearch c \<Rightarrow> firecrawl_search_url c | TavilySearch c \<Rightarrow> tavily_search_url c
     | BraveSearch c \<Rightarrow> brave_search_url c query | _ \<Rightarrow> [])"

lemma send_reply:
  assumes "should_bypass_proxy env url = Inr direct"
    "\<And>q. wq_url q = url \<Longrightarrow> we_open env q w = (r, w')"
  shows "send_json env meth url body hs w = (read_reply r, w')"
  using assms by (simp add: send_json_def bind_def lift_def ret_def split: sum.split)

lemma search_over_reply:
  assumes "searches_over_http b" "should_bypass_proxy env (search_url b query) = Inr direct"
    and "\<And>q. wq_url q = search_url b query \<Longrightarrow> we_open env q w = (r, w')" and "read_reply r = Inl e"
  shows "backend_search env b query w = (Inl (case e of AppError c s \<Rightarrow> if c = ''WebBackendTransportError''
      then search_error (case b of FirecrawlSearch _ \<Rightarrow> summarize_transport_error env s | _ \<Rightarrow> s) else e | _ \<Rightarrow> e), w')"
  using assms(1)
  by (cases b; cases e)
    (use assms(2-4) send_reply [OF assms(2,3)] in \<open>simp_all add: searches_over_http_def search_url_def brave_search_def tavily_search_def
       firecrawl_search_def get_json_def post_json_def on_transport_error_def bind_def\<close>)

text \<open>
  A provider that answers with a status, with something other than an object, or not at all makes the
  search return a failed result; a reply that is not JSON makes it raise.
\<close>

theorem search_failures:
  assumes "searches_over_http b" "should_bypass_proxy env (search_url b query) = Inr direct"
    and "\<And>q. wq_url q = search_url b query \<Longrightarrow> we_open env q w = (r, w')"
  shows "r \<in> {WebStatus n s, WebUnreachable s, WebReply n (Some (JList l)) hs} \<Longrightarrow>
      \<exists>res. web_search_call env b [(''query'', JStr query)] w = (Inr res, w') \<and> \<not> tr_success res"
    and "r = WebReply n None hs \<Longrightarrow> web_search_call env b [(''query'', JStr query)] w = (Inl (ValueError ''Expecting value''), w')"
proof -
  assume "r \<in> {WebStatus n s, WebUnreachable s, WebReply n (Some (JList l)) hs}"
  then obtain t where "read_reply r = Inl (transport_error t)" by (auto simp: read_reply_def)
  from search_over_reply [OF assms this] obtain u where "backend_search env b query w = (Inl (search_error u), w')"
    by (auto simp: transport_error_def)
  then show "\<exists>res. web_search_call env b [(''query'', JStr query)] w = (Inr res, w') \<and> \<not> tr_success res"
    by (simp add: web_search_call_def field_str_def field_req_def bind_def lift_def rescue_backend_def search_error_def tool_failure_def)
next
  assume "r = WebReply n None hs"
  then have "read_reply r = Inl (ValueError ''Expecting value'')" by (simp add: read_reply_def)
  from search_over_reply [OF assms this] show "web_search_call env b [(''query'', JStr query)] w = (Inl (ValueError ''Expecting value''), w')"
    by (simp add: web_search_call_def field_str_def field_req_def bind_def lift_def rescue_backend_def)
qed

subsection \<open>File URLs\<close>

definition plain_path :: "path \<Rightarrow> bool" where
  "plain_path p \<longleftrightarrow> p \<noteq> [] \<and> list_all (\<lambda>x. x \<noteq> [] \<and> list_all (\<lambda>c. letter c \<or> is_digit c \<or> c = CHR ''_'') x) p"

definition file_url :: "path \<Rightarrow> string" where
  "file_url p = ''file://'' @ path_str p"

text \<open>What \<open>urllib.request\<close> documents of file URLs: opening one gives the content of the file.\<close>

definition opens_file_urls :: "file_system web_env \<Rightarrow> file_system \<Rightarrow> bool" where
  "opens_file_urls env w \<longleftrightarrow>
     (\<forall>p s. plain_path p \<longrightarrow> dict_get (fw_files w) p = Some s \<longrightarrow> we_urlopen env (file_url p) w = (Inr s, w))"

text \<open>
  C40. WebFetch with its default backend opens any URL.  Its permission check allows every call, and a call
  with the URL of a file returns the content of that file, wherever the workspace of the session is.
\<close>

theorem web_fetch_reads_any_file:
  assumes "opens_file_urls env w" "plain_path p" "dict_get (fw_files w) p = Some s"
  shows "tool_checker (web_fetch_tool env DefaultFetch) args tctx = ''allow''
    \<and> (\<exists>res. tool_call_fn (web_fetch_tool env DefaultFetch) [(''url'', JStr (file_url p))] ctx w = (Inr res, w)
         \<and> tr_success res \<and> tr_content res = [JStr s])"
  using assms
  by (simp add: web_fetch_tool_def builtin_tool_def tool_run_def web_fetch_call_def field_str_def field_req_def bind_def lift_def
      rescue_backend_def default_fetch_def opens_file_urls_def ret_def as_tool_error_def tool_success_def)

definition demo_file_env :: "file_system web_env" where
  "demo_file_env = \<lparr>we_getenv = (\<lambda>_. None), we_dotenv = None,
     we_urlopen = (\<lambda>u w. if u = file_url [''etc'', ''passwd''] then (Inr ''root'', w) else (Inl ''unknown url type'', w)),
     we_open = (\<lambda>_ w. (WebUnreachable ''refused'', w)), we_json = (\<lambda>_. None), we_authority_error = (\<lambda>_. None), we_loopback = (\<lambda>_. False)\<rparr>"

definition demo_disk :: file_system where
  "demo_disk = \<lparr>fw_files = [([''etc'', ''passwd''], ''root'')], fw_dirs = [[''home'', ''work'']], fw_links = [], fw_cwd = [''home'', ''work'']\<rparr>"

definition demo_web_context :: tool_context where
  "demo_web_context = \<lparr>ctx_session = ''s1'', ctx_approved = [], ctx_cancel = None, ctx_agent = None, ctx_task = None,
     ctx_workdir = Some ''/ws''\<rparr>"

theorem web_fetch_reads_any_file_witness:
  "\<exists>res. tool_call_fn (web_fetch_tool demo_file_env DefaultFetch) [(''url'', JStr ''file:///etc/passwd'')]
      demo_web_context demo_disk = (Inr res, demo_disk) \<and> tr_content res = [JStr ''root'']"
proof -
  have "opens_file_urls demo_file_env demo_disk"
    by (auto simp: opens_file_urls_def demo_file_env_def demo_disk_def split: if_splits)
  moreover have "plain_path [''etc'', ''passwd'']" by code_simp
  moreover have "dict_get (fw_files demo_disk) [''etc'', ''passwd''] = Some ''root''" by (simp add: demo_disk_def)
  moreover have "file_url [''etc'', ''passwd''] = ''file:///etc/passwd''" by code_simp
  ultimately show ?thesis using web_fetch_reads_any_file [of demo_file_env demo_disk "[''etc'', ''passwd'']" "''root''"] by metis
qed

end
