(* ===== verification/Sandbox.thy ===== *)
theory Sandbox
  imports Effects Json
begin

text \<open>
  The local sandbox, \<^verbatim>\<open>sandbox/local.py\<close> and \<^verbatim>\<open>sandbox/models.py\<close>: the negotiation of a request and its
  execution.  Running the command is a parameter over a world of any type.  The lemmas say when a request is
  allowed, and that a refused one runs nothing.
\<close>

record sandbox_request =
  sq_command :: "string list"
  sq_env :: json_object
  sq_cwd :: "string option"
  sq_network :: bool
  sq_write :: bool
  sq_credentials :: "string list"

record sandbox_result =
  sx_exit :: int
  sx_stdout :: string
  sx_stderr :: string

record local_sandbox =
  ls_prefixes :: "string list"
  ls_network :: bool
  ls_write :: bool
  ls_credentials :: "string list"

record negotiation =
  ng_allowed :: bool
  ng_reasons :: "string list"
  ng_network :: bool
  ng_write :: bool
  ng_credentials :: "string list"

definition command_reasons :: "local_sandbox \<Rightarrow> sandbox_request \<Rightarrow> string list" where
  "command_reasons sb rq = (case sq_command rq of
     [] \<Rightarrow> [''Sandbox command cannot be empty'']
   | c # _ \<Rightarrow> if ls_prefixes sb \<noteq> [] \<and> c \<notin> set (ls_prefixes sb) then [''Command is not allowed by sandbox policy: '' @ c] else [])"

definition missing_credentials :: "local_sandbox \<Rightarrow> sandbox_request \<Rightarrow> string list" where
  "missing_credentials sb rq = filter (\<lambda>c. c \<notin> set (ls_credentials sb)) (sq_credentials rq)"

definition refusal_reasons :: "local_sandbox \<Rightarrow> sandbox_request \<Rightarrow> string list" where
  "refusal_reasons sb rq = command_reasons sb rq
     @ (if sq_network rq \<and> \<not> ls_network sb then [''Network access is not available in this sandbox''] else [])
     @ (if sq_write rq \<and> \<not> ls_write sb then [''Filesystem write access is not available in this sandbox''] else [])
     @ (if missing_credentials sb rq \<noteq> []
        then [''Missing sandbox credentials: '' @ py_join '', '' (sort (missing_credentials sb rq))] else [])"

definition negotiate :: "local_sandbox \<Rightarrow> sandbox_request \<Rightarrow> negotiation" where
  "negotiate sb rq = \<lparr>ng_allowed = (refusal_reasons sb rq = []), ng_reasons = refusal_reasons sb rq,
     ng_network = (sq_network rq \<and> ls_network sb), ng_write = (sq_write rq \<and> ls_write sb),
     ng_credentials = filter (\<lambda>c. c \<in> set (ls_credentials sb)) (sq_credentials rq)\<rparr>"

text \<open>What is run: the command, the directory and the environment, which an empty one leaves as it is.\<close>

definition sandbox_execute ::
  "(string list \<Rightarrow> string option \<Rightarrow> (string, string) pydict option \<Rightarrow> ('w, sandbox_result) eff) \<Rightarrow> local_sandbox \<Rightarrow> sandbox_request \<Rightarrow>
   ('w, sandbox_result) eff" where
  "sandbox_execute run sb rq =
     (if \<not> ng_allowed (negotiate sb rq) then
        (let reason = py_join ''; '' (ng_reasons (negotiate sb rq)) in
         throw (AppError ''PermissionError'' (if reason = [] then ''Sandbox denied request'' else reason)))
      else run (sq_command rq) (sq_cwd rq) (if sq_env rq = [] then None else Some (map (apsnd py_str) (sq_env rq))))"

lemma negotiate_allowed:
  "ng_allowed (negotiate sb rq) \<longleftrightarrow> sq_command rq \<noteq> [] \<and> (ls_prefixes sb = [] \<or> hd (sq_command rq) \<in> set (ls_prefixes sb))
     \<and> (sq_network rq \<longrightarrow> ls_network sb) \<and> (sq_write rq \<longrightarrow> ls_write sb) \<and> set (sq_credentials rq) \<subseteq> set (ls_credentials sb)"
  by (cases "sq_command rq")
    (auto simp: negotiate_def refusal_reasons_def command_reasons_def missing_credentials_def filter_empty_conv)

theorem refused_request_runs_nothing:
  assumes "\<not> ng_allowed (negotiate sb rq)"
  shows "\<exists>reason. sandbox_execute run sb rq w = (Inl (AppError ''PermissionError'' reason), w) \<and> reason \<noteq> []"
proof -
  have "ng_reasons (negotiate sb rq) \<noteq> []" "\<forall>r\<in>set (ng_reasons (negotiate sb rq)). r \<noteq> []"
    using assms by (auto simp: negotiate_def refusal_reasons_def command_reasons_def split: list.splits if_splits)
  then have "py_join ''; '' (ng_reasons (negotiate sb rq)) \<noteq> []"
    by (cases "ng_reasons (negotiate sb rq)"; cases "tl (ng_reasons (negotiate sb rq))") auto
  then show ?thesis using assms by (simp add: sandbox_execute_def throw_def)
qed

text \<open>The needs of a request are what it declares: a sandbox without a network runs any command that does not ask for it.\<close>

lemma undeclared_needs_run:
  assumes "sq_command rq \<noteq> []" "ls_prefixes sb = []" "\<not> sq_network rq" "\<not> sq_write rq" "sq_credentials rq = []" "sq_env rq = []"
  shows "sandbox_execute run sb rq = run (sq_command rq) (sq_cwd rq) None"
  using assms by (simp add: sandbox_execute_def negotiate_allowed)

end
