(* ===== verification/ModelIo.thy ===== *)
theory ModelIo
  imports Provider TaskStore Effects
begin

text \<open>
  The capture of model calls in files, \<open>FileModelIoCapture\<close> of \<^verbatim>\<open>harness/runtime/io.py\<close>: one record
  per call under its session, one line per call in an index, and one line per event of its life cycle.
  Identifiers and times are given by the environment.  The lemmas say that every call leaves one record and
  one line in each log, and what a record holds when raw responses are switched off.
\<close>

subsection \<open>What is captured\<close>

record capture_call =
  cc_session :: string
  cc_agent :: "string option"
  cc_harness :: "string option"
  cc_adapter :: string
  cc_family :: "string option"
  cc_model :: "string option"
  cc_retry :: int
  cc_streaming :: bool

record capture_options =
  co_root :: string
  co_max_chars :: int
  co_raw :: bool
  co_deltas :: bool

record capture_files =
  cf_records :: "(string, json_object) pydict"
  cf_index :: "json_object list"
  cf_lifecycle :: "json_object list"
  cf_ids :: nat
  cf_clock :: nat

record capture_env =
  cv_id :: "nat \<Rightarrow> string"
  cv_now :: "nat \<Rightarrow> string"

text \<open>The part of a record that comes from an answer.\<close>

record captured =
  cp_projected :: "json_object list"
  cp_payload :: "json_object option"
  cp_raw :: "json_object option"
  cp_summary :: "json_object option"
  cp_parsed :: "json_object option"
  cp_message :: "string option"
  cp_calls :: "json_object list"
  cp_reasoning :: json
  cp_usage :: "json_object option"
  cp_deltas :: "string list"
  cp_error :: "string option"

definition nothing_captured :: captured where
  "nothing_captured = \<lparr>cp_projected = [], cp_payload = None, cp_raw = None, cp_summary = None, cp_parsed = None, cp_message = None,
     cp_calls = [], cp_reasoning = JNull, cp_usage = None, cp_deltas = [], cp_error = None\<rparr>"

definition objects :: "json_object list \<Rightarrow> json" where
  "objects ds = JList (map JDict ds)"

definition strings :: "string list \<Rightarrow> json" where
  "strings ss = JList (map JStr ss)"

definition model_request_to_dict :: "model_turn_request \<Rightarrow> json_object" where
  "model_request_to_dict q = [(''session_id'', JStr (mq_session q)), (''messages'', objects (mq_messages q)),
     (''system_prompt'', jopt_str (mq_system_prompt q)), (''prompt_sections'', objects (mq_prompt_sections q)),
     (''prompt_blocks'', jopt_dict (mq_prompt_blocks q)), (''startup_contexts'', objects (mq_startup_contexts q)),
     (''available_tools'', strings (mq_available_tools q)), (''tool_definitions'', objects (mq_tool_definitions q)),
     (''short_term_memory'', jopt_dict (mq_short_term_memory q)), (''memory_context'', objects (mq_memory_context q)),
     (''system_context'', objects (mq_system_context q)), (''user_context'', objects (mq_user_context q)),
     (''attachments'', objects (mq_attachments q)), (''capability_surface'', jopt_dict (mq_capability_surface q)),
     (''evidence_refs'', objects (mq_evidence_refs q)), (''request_metadata'', JDict (mq_request_metadata q))]"

definition model_response_to_dict :: "provider_response \<Rightarrow> json_object" where
  "model_response_to_dict r = [(''assistant_message'', jopt_str (mr_message r)),
     (''tool_calls'', objects (map tool_call_to_dict (mr_tool_calls r))), (''usage'', jopt_dict (pr_usage r))]"

text \<open>Long texts are cut, wherever they stand.\<close>

fun truncate_json :: "int \<Rightarrow> json \<Rightarrow> json" and truncate_items :: "int \<Rightarrow> (string \<times> json) list \<Rightarrow> (string \<times> json) list" where
  "truncate_json n (JStr s) = JStr (if int (length s) \<le> n then s else py_upto n s @ ''...<truncated>'')"
| "truncate_json n (JList l) = JList (map (truncate_json n) l)"
| "truncate_json n (JDict d) = JDict (truncate_items n d)"
| "truncate_json n v = v"
| "truncate_items n [] = []"
| "truncate_items n ((k, v) # r) = (k, truncate_json n v) # truncate_items n r"

definition summarize_response :: "capture_options \<Rightarrow> json_object option \<Rightarrow> json_object option" where
  "summarize_response o' raw = map_option (truncate_items (co_max_chars o')) raw"

definition provider_projected_messages :: "json_object option \<Rightarrow> json_object list" where
  "provider_projected_messages payload = (case payload of None \<Rightarrow> []
     | Some d \<Rightarrow> (case jget d ''messages'' of JList l \<Rightarrow> List.map_filter as_dict l | _ \<Rightarrow> []))"

definition tool_replay_window :: "model_turn_request \<Rightarrow> json_object list" where
  "tool_replay_window q = py_from (-6) (filter (\<lambda>m. py_str (dict_get_default m ''role'' (JStr [])) \<in> {''assistant'', ''tool''}) (mq_messages q))"

definition request_metadata_string :: "model_turn_request \<Rightarrow> string \<Rightarrow> json" where
  "request_metadata_string q k = (case jget (mq_request_metadata q) k of JStr s \<Rightarrow> if py_strip s \<noteq> [] then JStr s else JNull | _ \<Rightarrow> JNull)"

definition request_metadata_int :: "model_turn_request \<Rightarrow> string \<Rightarrow> json" where
  "request_metadata_int q k = (case jget (mq_request_metadata q) k of JInt i \<Rightarrow> JInt i | JBool b \<Rightarrow> JBool b | _ \<Rightarrow> JNull)"

subsection \<open>Records\<close>

definition record_path :: "capture_options \<Rightarrow> string \<Rightarrow> string \<Rightarrow> string" where
  "record_path o' session capture = co_root o' @ ''/records/'' @ session @ ''/'' @ capture @ ''.json''"

definition model_io_record :: "capture_options \<Rightarrow> string \<Rightarrow> string \<Rightarrow> capture_call \<Rightarrow> string \<Rightarrow> model_turn_request \<Rightarrow> captured \<Rightarrow> json_object" where
  "model_io_record o' capture now c status q x = [(''capture_id'', JStr capture), (''timestamp'', JStr now), (''session_id'', JStr (cc_session c)),
     (''agent_id'', jopt_str (cc_agent c)), (''harness_instance_id'', jopt_str (cc_harness c)), (''provider_adapter'', JStr (cc_adapter c)),
     (''provider_family'', jopt_str (cc_family c)), (''model'', jopt_str (cc_model c)), (''streaming'', JBool (cc_streaming c)),
     (''retry_index'', JInt (cc_retry c)), (''status'', JStr status), (''assembled_request'', JDict (model_request_to_dict q)),
     (''request_messages_before_projection'', objects (mq_messages q)), (''provider_projected_messages'', objects (cp_projected x)),
     (''provider_payload'', jopt_dict (cp_payload x)), (''provider_response_raw'', jopt_dict (cp_raw x)),
     (''provider_response_summary'', jopt_dict (cp_summary x)), (''parsed_response'', jopt_dict (cp_parsed x)),
     (''assistant_message'', jopt_str (cp_message x)), (''tool_calls'', objects (cp_calls x)), (''reasoning'', cp_reasoning x),
     (''usage'', jopt_dict (cp_usage x)), (''stream_deltas'', strings (cp_deltas x)), (''trigger'', request_metadata_string q ''trigger''),
     (''turn_id'', request_metadata_string q ''turn_id''), (''turn_iteration'', request_metadata_int q ''turn_iteration''),
     (''tool_replay_window'', objects (tool_replay_window q)), (''error'', jopt_str (cp_error x)),
     (''record_path'', JStr (record_path o' (cc_session c) capture))]"

definition capture_id :: "capture_env \<Rightarrow> (capture_files, string) eff" where
  "capture_id env fs = (Inr (cv_id env (cf_ids fs)), fs\<lparr>cf_ids := Suc (cf_ids fs)\<rparr>)"

definition capture_now :: "capture_env \<Rightarrow> (capture_files, string) eff" where
  "capture_now env fs = (Inr (cv_now env (cf_clock fs)), fs\<lparr>cf_clock := Suc (cf_clock fs)\<rparr>)"

text \<open>The record's file has its keys sorted, the index has them in order.\<close>

definition write_capture :: "capture_options \<Rightarrow> string \<Rightarrow> string \<Rightarrow> json_object \<Rightarrow> (capture_files, unit) eff" where
  "write_capture o' session capture d = modify (\<lambda>fs. fs\<lparr>
     cf_records := dict_set (record_path o' session capture) (sorted_object d) (cf_records fs), cf_index := cf_index fs @ [d]\<rparr>)"

definition lifecycle_record :: "string \<Rightarrow> string \<Rightarrow> capture_call \<Rightarrow> string \<Rightarrow> json_object \<Rightarrow> json \<Rightarrow> json \<Rightarrow> json \<Rightarrow> json \<Rightarrow> json_object" where
  "lifecycle_record i now c event payload capture trigger turn iteration = [(''lifecycle_id'', JStr i), (''timestamp'', JStr now),
     (''session_id'', JStr (cc_session c)), (''event_type'', JStr event), (''payload'', JDict payload), (''agent_id'', jopt_str (cc_agent c)),
     (''harness_instance_id'', jopt_str (cc_harness c)), (''provider_adapter'', JStr (cc_adapter c)),
     (''provider_family'', jopt_str (cc_family c)), (''model'', jopt_str (cc_model c)), (''capture_id'', capture),
     (''trigger'', trigger), (''turn_id'', turn), (''turn_iteration'', iteration)]"

definition capture_lifecycle_event ::
  "capture_env \<Rightarrow> capture_call \<Rightarrow> string \<Rightarrow> json_object \<Rightarrow> json \<Rightarrow> json \<Rightarrow> json \<Rightarrow> json \<Rightarrow> (capture_files, unit) eff" where
  "capture_lifecycle_event env c event payload capture trigger turn iteration =
     bind (capture_id env) (\<lambda>i. bind (capture_now env) (\<lambda>now.
     modify (\<lambda>fs. fs\<lparr>cf_lifecycle := cf_lifecycle fs @ [lifecycle_record i now c event payload capture trigger turn iteration]\<rparr>)))"

definition capture_record :: "capture_env \<Rightarrow> capture_options \<Rightarrow> capture_call \<Rightarrow> string \<Rightarrow> model_turn_request \<Rightarrow> captured \<Rightarrow> (capture_files, string) eff" where
  "capture_record env o' c status q x = bind (capture_id env) (\<lambda>i. bind (capture_now env) (\<lambda>now.
     bind (write_capture o' (cc_session c) i (model_io_record o' i now c status q x)) (\<lambda>_. ret i)))"

definition capture_of_exchange :: "capture_options \<Rightarrow> (provider_exchange \<times> string list) option \<Rightarrow> captured" where
  "capture_of_exchange o' exchange = (case exchange of
     None \<Rightarrow> nothing_captured
   | Some (x, deltas) \<Rightarrow> (let r = px_response x in nothing_captured\<lparr>cp_projected := provider_projected_messages (px_payload x),
       cp_payload := px_payload x, cp_raw := (if co_raw o' then px_raw x else None), cp_summary := summarize_response o' (px_raw x),
       cp_parsed := Some (model_response_to_dict r), cp_message := mr_message r, cp_calls := map tool_call_to_dict (mr_tool_calls r),
       cp_reasoning := px_reasoning x, cp_usage := pr_usage r, cp_deltas := (if co_deltas o' then deltas else [])\<rparr>))"

definition capture_success :: "capture_env \<Rightarrow> capture_options \<Rightarrow> capture_call \<Rightarrow> model_turn_request \<Rightarrow>
    (provider_exchange \<times> string list) option \<Rightarrow> (capture_files, unit) eff" where
  "capture_success env o' c q exchange = (let x = capture_of_exchange o' exchange in
     bind (capture_record env o' c ''completed'' q x) (\<lambda>i.
     capture_lifecycle_event env c ''model_response_parsed''
       [(''assistant_message'', jopt_str (cp_message x)), (''tool_calls'', objects (cp_calls x)), (''usage'', jopt_dict (cp_usage x)),
        (''request_messages_before_projection'', objects (mq_messages q)), (''provider_projected_messages'', objects (cp_projected x))]
       (JStr i) (request_metadata_string q ''trigger'') (request_metadata_string q ''turn_id'') (request_metadata_int q ''turn_iteration'')))"

text \<open>The error is captured as the name of its class and its text.\<close>

definition capture_error :: "capture_env \<Rightarrow> capture_options \<Rightarrow> capture_call \<Rightarrow> model_turn_request \<Rightarrow> string \<Rightarrow> string \<Rightarrow>
    (capture_files, unit) eff" where
  "capture_error env o' c q class message = (let e = class @ '': '' @ message in
     bind (capture_record env o' c ''failed'' q (nothing_captured\<lparr>cp_error := Some e\<rparr>)) (\<lambda>i.
     capture_lifecycle_event env c ''model_response_failed''
       [(''error'', JStr e), (''request_messages_before_projection'', objects (mq_messages q))]
       (JStr i) (request_metadata_string q ''trigger'') (request_metadata_string q ''turn_id'') (request_metadata_int q ''turn_iteration'')))"

subsection \<open>Every call is captured once\<close>

datatype capture_op =
    CaptureSuccess capture_call model_turn_request "(provider_exchange \<times> string list) option"
  | CaptureError capture_call model_turn_request string string

fun capture_step :: "capture_env \<Rightarrow> capture_options \<Rightarrow> capture_op \<Rightarrow> capture_files \<Rightarrow> capture_files" where
  "capture_step env o' (CaptureSuccess c q x) fs = snd (capture_success env o' c q x fs)"
| "capture_step env o' (CaptureError c q class message) fs = snd (capture_error env o' c q class message fs)"

lemma record_fields:
  "jget (model_io_record o' i now c status q x) ''record_path'' = JStr (record_path o' (cc_session c) i)"
  "jget (model_io_record o' i now c status q x) ''capture_id'' = JStr i"
  "jget (lifecycle_record j now c event payload capture trigger turn iteration) ''capture_id'' = capture"
  by (simp_all add: model_io_record_def lifecycle_record_def)

text \<open>What a call writes: a record, the same record as a line of the index, and a line of the life cycle.\<close>

definition written :: "capture_options \<Rightarrow> string \<Rightarrow> string \<Rightarrow> json_object \<Rightarrow> json_object \<Rightarrow> capture_files \<Rightarrow> capture_files \<Rightarrow> bool" where
  "written o' session i d l fs fs' \<longleftrightarrow> cf_index fs' = cf_index fs @ [d] \<and> cf_lifecycle fs' = cf_lifecycle fs @ [l]
     \<and> cf_records fs' = dict_set (record_path o' session i) (sorted_object d) (cf_records fs)
     \<and> jget d ''record_path'' = JStr (record_path o' session i) \<and> jget d ''capture_id'' = JStr i \<and> jget l ''capture_id'' = JStr i"

lemma record_then_lifecycle:
  "\<exists>i d l. written o' (cc_session c) i d l fs (snd (bind (capture_record env o' c status q x) (\<lambda>i.
     capture_lifecycle_event env c event payload (JStr i) trigger turn iteration) fs))"
  unfolding written_def
  by (intro exI [where x = "cv_id env (cf_ids fs)"] exI [where x = "model_io_record o' (cv_id env (cf_ids fs)) (cv_now env (cf_clock fs)) c status q x"]
        exI [where x = "lifecycle_record (cv_id env (Suc (cf_ids fs))) (cv_now env (Suc (cf_clock fs))) c event payload
          (JStr (cv_id env (cf_ids fs))) trigger turn iteration"])
    (simp add: capture_record_def capture_lifecycle_event_def write_capture_def capture_id_def capture_now_def bind_def modify_def ret_def
      record_fields)

lemma capture_step_effect: "\<exists>session i d l. written o' session i d l fs (capture_step env o' p fs)"
  by (cases p) (simp only: capture_step.simps capture_success_def capture_error_def Let_def, blast intro: record_then_lifecycle)+

text \<open>Every line of the index names a record that is stored, under whatever sequence of calls.\<close>

definition index_stored :: "capture_files \<Rightarrow> bool" where
  "index_stored fs \<longleftrightarrow> length (cf_lifecycle fs) = length (cf_index fs)
     \<and> (\<forall>d\<in>set (cf_index fs). \<exists>path. jget d ''record_path'' = JStr path \<and> dict_get (cf_records fs) path \<noteq> None)"

theorem index_always_stored:
  "index_stored fs \<Longrightarrow> index_stored (fold (capture_step env o') ps fs)
     \<and> length (cf_index (fold (capture_step env o') ps fs)) = length (cf_index fs) + length ps"
proof (induction ps arbitrary: fs)
  case (Cons p ps)
  have "index_stored (capture_step env o' p fs) \<and> length (cf_index (capture_step env o' p fs)) = Suc (length (cf_index fs))"
    using capture_step_effect [of o' fs env p] Cons.prems by (fastforce simp: index_stored_def written_def)
  then show ?case using Cons.IH by simp
qed simp

subsection \<open>Raw responses\<close>

fun short_texts :: "int \<Rightarrow> json \<Rightarrow> bool" and short_items :: "int \<Rightarrow> (string \<times> json) list \<Rightarrow> bool" where
  "short_texts n (JStr s) \<longleftrightarrow> int (length s) \<le> n"
| "short_texts n (JList l) \<longleftrightarrow> (\<forall>v\<in>set l. short_texts n v)"
| "short_texts n (JDict d) \<longleftrightarrow> short_items n d"
| "short_texts n v \<longleftrightarrow> True"
| "short_items n [] \<longleftrightarrow> True"
| "short_items n ((k, v) # r) \<longleftrightarrow> short_texts n v \<and> short_items n r"

lemma truncate_short:
  "short_texts n v \<Longrightarrow> truncate_json n v = v" "short_items n d \<Longrightarrow> truncate_items n d = d"
  by (induction n v and n d rule: truncate_json_truncate_items.induct) (simp_all add: map_idI)

text \<open>Without raw responses the summary still holds the whole response when its texts are not longer than the limit.\<close>

theorem raw_response_in_summary:
  assumes "short_items (co_max_chars o') raw" "px_raw x = Some raw"
  shows "cp_summary (capture_of_exchange (o'\<lparr>co_raw := False\<rparr>) (Some (x, ds))) = Some raw"
  using assms by (simp add: capture_of_exchange_def Let_def summarize_response_def truncate_short)

end
