(* ===== verification/Spec2Isabelle.thy ===== *)
theory Spec2Isabelle
  imports GovernanceProps BackgroundProps MemoryTurn GatewayProps McpProps RoleProps Surface FileToolProps MultiAgentProps ProviderProps ContextProps
    FeishuProps ChannelProps DreamMemory WebProps Sandbox ModelIo
begin

text \<open>
  A model of the agent runtime under \<^verbatim>\<open>src/src/openagent\<close>.
\<close>

end
